(* ===== verification/Prelude.thy ===== *)
theory Prelude
  imports Complex_Main "HOL-Library.AList" "HOL-Library.Char_ord" "HOL-Library.List_Lexorder"
    "HOL-Library.Sublist" "HOL-Library.Multiset"
begin

text \<open>
  Vocabulary shared by every component: the collections of simplification rules, the
  string operations of the Rust standard library that the sources call, hash maps as
  association lists, 64-bit arithmetic and decimal printing.

  Conventions.
  \<^item> A Rust \<open>String\<close> is the list of its UTF-8 bytes (type \<^typ>\<open>string\<close>).
    \<open>to_lowercase\<close> is modelled on the ASCII letters; other bytes stay as they are.
  \<^item> A \<open>HashMap<String, V>\<close> is an association list with distinct keys, read by
    \<^const>\<open>map_of\<close> and written by \<^const>\<open>AList.update\<close> and \<^const>\<open>AList.delete\<close>. The
    order of the list stands for the unspecified iteration order of the map.
  \<^item> \<open>u64\<close>, \<open>u32\<close> and \<open>usize\<close> values are natural numbers; where a caller controls a
    summand, the addition is written with its wrap-around (\<open>u64_add\<close>) or its
    saturation (\<open>u64_sat_add\<close>).
\<close>

section \<open>Rule collections\<close>

named_theorems str_defs \<open>definitions of the string operations\<close>
named_theorems op_defs \<open>definitions of the operations of a store\<close>
named_theorems inv_intros \<open>preservation of an invariant by the operations of a component\<close>

section \<open>Machine integers\<close>

definition u64_max :: nat where
  "u64_max = 2 ^ 64 - 1"

definition u64_add :: "nat \<Rightarrow> nat \<Rightarrow> nat" where
  "u64_add a b = (a + b) mod 2 ^ 64"

definition u64_sat_add :: "nat \<Rightarrow> nat \<Rightarrow> nat" where
  "u64_sat_add a b = min (a + b) u64_max"

lemma u64_add_small: "a + b \<le> u64_max \<Longrightarrow> u64_add a b = a + b"
  by (simp add: u64_add_def u64_max_def)

text \<open>Kernel evaluation of \<open>u64_add\<close> goes through binary integers.\<close>

lemma u64_add_code [code]: "u64_add a b = nat ((int a + int b) mod 18446744073709551616)"
  by (simp add: u64_add_def nat_mod_distrib nat_add_distrib)

lemma u64_add_le: "u64_add a b \<le> u64_max"
proof -
  have "(a + b) mod 2 ^ 64 < (2::nat) ^ 64" by (rule mod_less_divisor) simp
  then show ?thesis unfolding u64_add_def u64_max_def by linarith
qed

lemma u64_sat_add_bounds:
  "u64_sat_add a b \<le> u64_max" "u64_sat_add a b \<le> a + b"
  "a \<le> u64_max \<Longrightarrow> a \<le> u64_sat_add a b"
  by (simp_all add: u64_sat_add_def)

section \<open>Hash maps as association lists\<close>

type_synonym 'v strmap = "(string \<times> 'v) list"

abbreviation lookup :: "('k \<times> 'v) list \<Rightarrow> 'k \<Rightarrow> 'v option" where
  "lookup m k \<equiv> map_of m k"

definition wf_map :: "('k \<times> 'v) list \<Rightarrow> bool" where
  "wf_map m \<longleftrightarrow> distinct (map fst m)"

lemma wf_map_Nil [simp]: "wf_map []"
  by (simp add: wf_map_def)

lemma update_twice [simp]: "AList.update k v (AList.update k v' m) = AList.update k v m"
  by (induction m) auto

lemma wf_map_update [simp, intro]: "wf_map m \<Longrightarrow> wf_map (AList.update k v m)"
  by (simp add: wf_map_def distinct_update)

lemma wf_map_delete [simp, intro]: "wf_map m \<Longrightarrow> wf_map (AList.delete k m)"
  by (simp add: wf_map_def distinct_delete)

lemma lookup_update [simp]:
  "lookup (AList.update k v m) k' = (if k' = k then Some v else lookup m k')"
  by (simp add: update_conv')

lemma lookup_delete [simp]:
  "lookup (AList.delete k m) k' = (if k' = k then None else lookup m k')"
  by (simp add: delete_conv')

lemma lookup_values: "wf_map m \<Longrightarrow> v \<in> set (map snd m) \<longleftrightarrow> (\<exists>k. lookup m k = Some v)"
  by (force simp: wf_map_def intro: map_of_SomeD dest: map_of_SomeD)

section \<open>Strings\<close>

definition is_upper :: "char \<Rightarrow> bool" where
  "is_upper c \<longleftrightarrow> CHR ''A'' \<le> c \<and> c \<le> CHR ''Z''"

definition lower_char :: "char \<Rightarrow> char" where
  "lower_char c = (if is_upper c then char_of (of_char c + (32::nat)) else c)"

definition to_lowercase :: "string \<Rightarrow> string" where
  "to_lowercase s = map lower_char s"

definition starts_with :: "string \<Rightarrow> string \<Rightarrow> bool" where
  "starts_with s p \<longleftrightarrow> take (length p) s = p"

definition ends_with :: "string \<Rightarrow> string \<Rightarrow> bool" where
  "ends_with s p \<longleftrightarrow> length p \<le> length s \<and> drop (length s - length p) s = p"

fun str_contains :: "string \<Rightarrow> string \<Rightarrow> bool" where
  "str_contains [] p \<longleftrightarrow> p = []"
| "str_contains (c # cs) p \<longleftrightarrow> starts_with (c # cs) p \<or> str_contains cs p"

lemma starts_with_prefix: "starts_with s p \<longleftrightarrow> prefix p s"
  unfolding starts_with_def prefix_def by (metis append_eq_conv_conj)

lemma ends_with_suffix: "ends_with s p \<longleftrightarrow> suffix p s"
proof
  assume "ends_with s p"
  then show "suffix p s"
    unfolding ends_with_def by (metis suffix_drop)
next
  assume "suffix p s"
  then show "ends_with s p"
    by (auto simp: ends_with_def suffix_def)
qed

lemma str_contains_sublist: "str_contains s p \<longleftrightarrow> sublist p s"
proof (induction s)
  case (Cons c cs)
  then show ?case
    by (auto simp: starts_with_prefix sublist_Cons_right)
qed (auto)

text \<open>Splitting at a separator (\<open>str::split(char)\<close>) and joining the pieces back.\<close>

fun split_on :: "char \<Rightarrow> string \<Rightarrow> string list" where
  "split_on sep [] = [[]]"
| "split_on sep (c # cs) =
     (if c = sep then [] # split_on sep cs
      else case split_on sep cs of [] \<Rightarrow> [[c]] | p # ps \<Rightarrow> (c # p) # ps)"

fun join_with :: "string \<Rightarrow> string list \<Rightarrow> string" where
  "join_with sep [] = []"
| "join_with sep [p] = p"
| "join_with sep (p # q # ps) = p @ sep @ join_with sep (q # ps)"

lemma split_on_nonempty [simp]: "split_on sep s \<noteq> []"
  by (cases s) (auto split: list.splits)

lemma join_split: "join_with [sep] (split_on sep s) = s"
proof (induction s)
  case (Cons c cs)
  then show ?case
    by (cases "split_on sep cs"; cases "tl (split_on sep cs)") auto
qed simp

text \<open>Trimming, whitespace tokens, character replacement and prefix removal. Whitespace is the
  ASCII part of Unicode's White_Space.\<close>

definition is_space :: "char \<Rightarrow> bool" where
  "is_space c \<longleftrightarrow> c = CHR '' '' \<or> CHR 0x09 \<le> c \<and> c \<le> CHR 0x0D"

definition trim_matches :: "(char \<Rightarrow> bool) \<Rightarrow> string \<Rightarrow> string" where
  "trim_matches P s = rev (dropWhile P (rev (dropWhile P s)))"

definition str_trim :: "string \<Rightarrow> string" where
  "str_trim s = trim_matches is_space s"

fun split_pieces :: "(char \<Rightarrow> bool) \<Rightarrow> string \<Rightarrow> string list" where
  "split_pieces P [] = [[]]"
| "split_pieces P (c # cs) =
     (if P c then [] # split_pieces P cs
      else case split_pieces P cs of [] \<Rightarrow> [[c]] | p # ps \<Rightarrow> (c # p) # ps)"

definition split_whitespace :: "string \<Rightarrow> string list" where
  "split_whitespace s = filter (\<lambda>p. p \<noteq> []) (split_pieces is_space s)"

definition replace_char :: "char \<Rightarrow> char \<Rightarrow> string \<Rightarrow> string" where
  "replace_char a b s = map (\<lambda>c. if c = a then b else c) s"

definition strip_prefix :: "string \<Rightarrow> string \<Rightarrow> string option" where
  "strip_prefix s p = (if starts_with s p then Some (drop (length p) s) else None)"

lemma starts_with_append [simp]: "starts_with (p @ s) p"
  by (simp add: starts_with_def)

lemma strip_prefix_append [simp]: "strip_prefix (p @ s) p = Some s"
  by (simp add: strip_prefix_def)

lemma strip_prefix_SomeD: "strip_prefix s p = Some r \<Longrightarrow> s = p @ r"
  by (auto simp: strip_prefix_def starts_with_def split: if_splits) (metis append_take_drop_id)

lemma trim_matches_id:
  "(\<forall>c \<in> set s. \<not> P c) \<Longrightarrow> trim_matches P s = s"
proof -
  assume no: "\<forall>c \<in> set s. \<not> P c"
  have "dropWhile P s = s" using no by (cases s) auto
  moreover have "dropWhile P (rev s) = rev s"
    using no by (cases "rev s") (auto simp: rev_eq_Cons_iff)
  ultimately show ?thesis by (simp add: trim_matches_def)
qed

section \<open>Decimal and hexadecimal printing\<close>

definition digit_char :: "nat \<Rightarrow> char" where
  "digit_char d = char_of (48 + d)"

definition digit_val :: "char \<Rightarrow> nat" where
  "digit_val c = of_char c - 48"

fun show_nat :: "nat \<Rightarrow> string" where
  "show_nat n = (if n < 10 then [digit_char n] else show_nat (n div 10) @ [digit_char (n mod 10)])"

declare show_nat.simps [simp del]

definition read_digits :: "string \<Rightarrow> nat" where
  "read_digits s = foldl (\<lambda>a c. 10 * a + digit_val c) 0 s"

definition is_digit :: "char \<Rightarrow> bool" where
  "is_digit c \<longleftrightarrow> CHR ''0'' \<le> c \<and> c \<le> CHR ''9''"

lemma digit_val_char [simp]: "d < 10 \<Longrightarrow> digit_val (digit_char d) = d"
  by (simp add: digit_val_def digit_char_def)

lemma is_digit_char [simp]: "d < 10 \<Longrightarrow> is_digit (digit_char d)"
  by (simp add: is_digit_def digit_char_def less_eq_char_def)

lemma read_show_nat [simp]: "read_digits (show_nat n) = n"
proof (induction n rule: show_nat.induct)
  case (1 n)
  show ?case
  proof (cases "n < 10")
    case True
    then show ?thesis by (simp add: show_nat.simps [of n] read_digits_def)
  next
    case False
    then show ?thesis
      using 1 by (simp add: show_nat.simps [of n] read_digits_def)
  qed
qed

lemma show_nat_inject [simp]: "show_nat m = show_nat n \<longleftrightarrow> m = n"
  by (metis read_show_nat)

lemma show_nat_digits: "c \<in> set (show_nat n) \<Longrightarrow> is_digit c"
proof (induction n rule: show_nat.induct)
  case (1 n)
  then show ?case
    by (subst (asm) (2) show_nat.simps) (auto split: if_splits)
qed

lemma show_nat_nonempty [simp]: "show_nat n \<noteq> []"
  by (simp add: show_nat.simps [of n])

text \<open>\<open>str::parse::<u32>\<close>: an optional plus sign, at least one digit, no overflow.\<close>

definition parse_nat :: "nat \<Rightarrow> string \<Rightarrow> nat option" where
  "parse_nat bound s =
     (let ds = (case s of [] \<Rightarrow> [] | c # cs \<Rightarrow> if c = CHR ''+'' then cs else s)
      in if ds \<noteq> [] \<and> list_all is_digit ds \<and> read_digits ds < bound then Some (read_digits ds) else None)"

definition parse_u32 :: "string \<Rightarrow> nat option" where
  "parse_u32 s = parse_nat (2 ^ 32) s"

lemma parse_nat_show: "n < bound \<Longrightarrow> parse_nat bound (show_nat n) = Some n"
proof -
  assume n: "n < bound"
  have ds: "\<forall>c \<in> set (show_nat n). is_digit c" using show_nat_digits by blast
  then have "(case show_nat n of [] \<Rightarrow> [] | c # cs \<Rightarrow> if c = CHR ''+'' then cs else show_nat n) = show_nat n"
    by (cases "show_nat n") (auto simp: is_digit_def)
  with n ds show ?thesis by (simp add: parse_nat_def list_all_iff)
qed

definition hex_digit :: "nat \<Rightarrow> char" where
  "hex_digit d = (if d < 10 then char_of (48 + d) else char_of (87 + d))"

definition hex_byte :: "char \<Rightarrow> string" where
  "hex_byte c = [hex_digit (of_char c div 16), hex_digit (of_char c mod 16)]"

definition hex_encode :: "string \<Rightarrow> string" where
  "hex_encode s = concat (map hex_byte s)"

lemma of_char_hex_digit:
  "d < 16 \<Longrightarrow> of_char (hex_digit d) = (if d < 10 then 48 + d else 87 + d :: nat)"
  by (simp add: hex_digit_def)

lemma hex_digit_inject: "a < 16 \<Longrightarrow> b < 16 \<Longrightarrow> hex_digit a = hex_digit b \<longleftrightarrow> a = b"
proof
  assume lt: "a < 16" "b < 16" and "hex_digit a = hex_digit b"
  then have "of_char (hex_digit a) = (of_char (hex_digit b) :: nat)" by simp
  with lt show "a = b" by (simp add: of_char_hex_digit split: if_splits)
qed simp

lemma hex_byte_inject: "hex_byte a = hex_byte b \<longleftrightarrow> a = b"
proof
  assume eq: "hex_byte a = hex_byte b"
  have lt: "of_char a < (256::nat)" "of_char b < (256::nat)" by simp_all
  have "of_char a div 16 = (of_char b div 16 :: nat)" "of_char a mod 16 = (of_char b mod 16 :: nat)"
    using eq lt by (auto simp: hex_byte_def hex_digit_inject less_mult_imp_div_less)
  then have "of_char a = (of_char b :: nat)" by (metis div_mult_mod_eq)
  then show "a = b" by simp
qed simp

lemma hex_encode_inject [simp]: "hex_encode s = hex_encode t \<longleftrightarrow> s = t"
proof
  assume "hex_encode s = hex_encode t"
  then show "s = t"
  proof (induction s arbitrary: t)
    case Nil
    then show ?case by (cases t) (auto simp: hex_encode_def hex_byte_def)
  next
    case (Cons c cs)
    then obtain d ds where t: "t = d # ds"
      by (cases t) (auto simp: hex_encode_def hex_byte_def)
    with Cons.prems have "hex_byte c @ hex_encode cs = hex_byte d @ hex_encode ds"
      by (simp add: hex_encode_def)
    moreover have "length (hex_byte c) = length (hex_byte d)" by (simp add: hex_byte_def)
    ultimately have "hex_byte c = hex_byte d" "hex_encode cs = hex_encode ds" by simp_all
    with Cons.IH [of ds] t show ?case by (simp add: hex_byte_inject)
  qed
qed simp

section \<open>Floating-point values\<close>

text \<open>
  An \<open>f64\<close> is a finite rational or one of the special values; comparisons are those of IEEE 754
  (every comparison with NaN is false). Decimal literals of the source stand for the rational they
  denote.
\<close>

datatype f64 = Fin rat | PosInf | NegInf | NaN

fun f64_le :: "f64 \<Rightarrow> f64 \<Rightarrow> bool" where
  "f64_le (Fin a) (Fin b) \<longleftrightarrow> a \<le> b"
| "f64_le NaN _ \<longleftrightarrow> False"
| "f64_le _ NaN \<longleftrightarrow> False"
| "f64_le NegInf _ \<longleftrightarrow> True"
| "f64_le _ PosInf \<longleftrightarrow> True"
| "f64_le _ _ \<longleftrightarrow> False"

fun f64_lt :: "f64 \<Rightarrow> f64 \<Rightarrow> bool" where
  "f64_lt (Fin a) (Fin b) \<longleftrightarrow> a < b"
| "f64_lt NegInf (Fin _) \<longleftrightarrow> True"
| "f64_lt NegInf PosInf \<longleftrightarrow> True"
| "f64_lt (Fin _) PosInf \<longleftrightarrow> True"
| "f64_lt _ _ \<longleftrightarrow> False"

fun is_finite :: "f64 \<Rightarrow> bool" where
  "is_finite (Fin _) \<longleftrightarrow> True"
| "is_finite _ \<longleftrightarrow> False"

definition f64_clamp :: "f64 \<Rightarrow> rat \<Rightarrow> rat \<Rightarrow> f64" where
  "f64_clamp x lo hi = (if f64_lt x (Fin lo) then Fin lo else if f64_lt (Fin hi) x then Fin hi else x)"

text \<open>\<open>(a - b).abs() < f64::EPSILON\<close>: false as soon as an operand is not finite.\<close>

fun f64_close :: "f64 \<Rightarrow> f64 \<Rightarrow> bool" where
  "f64_close (Fin a) (Fin b) \<longleftrightarrow> \<bar>a - b\<bar> < 1 / 2 ^ 52"
| "f64_close _ _ \<longleftrightarrow> False"

text \<open>\<open>format!("{:.2}")\<close>: two decimals, ties to even.\<close>

definition round_half_even :: "rat \<Rightarrow> int" where
  "round_half_even q =
     (let f = \<lfloor>q\<rfloor>; r = q - of_int f
      in if r < 1 / 2 then f else if 1 / 2 < r then f + 1 else if even f then f else f + 1)"

fun show_2dec :: "f64 \<Rightarrow> string" where
  "show_2dec NaN = ''NaN''"
| "show_2dec PosInf = ''inf''"
| "show_2dec NegInf = ''-inf''"
| "show_2dec (Fin q) =
     (let n = nat (round_half_even (\<bar>q\<bar> * 100))
      in (if q < 0 then ''-'' else []) @ show_nat (n div 100) @ ''.'' @
         [digit_char (n mod 100 div 10), digit_char (n mod 10)])"

lemma f64_le_Fin_iff: "f64_le (Fin a) x \<longleftrightarrow> (case x of Fin b \<Rightarrow> a \<le> b | PosInf \<Rightarrow> True | _ \<Rightarrow> False)"
  by (cases x) auto

lemma f64_clamp_bounds:
  "lo \<le> hi \<Longrightarrow> x \<noteq> NaN \<Longrightarrow> \<exists>q. f64_clamp x lo hi = Fin q \<and> lo \<le> q \<and> q \<le> hi"
  by (cases x) (auto simp: f64_clamp_def)

end
