(* ===== verification/Json_Access.thy ===== *)
theory Json_Access
  imports Prelude
begin

text \<open>
  How the sources read and build JSON (crate \<open>serde_json\<close>): the accessors \<open>get\<close>, \<open>as_str\<close>,
  \<open>as_u64\<close>, \<open>as_bool\<close>, \<open>as_array\<close> and the builders of objects, strings and numbers are parameters over
  an abstract type of values. The locale \<open>json_objects\<close> states what the sources rely on when they read
  back an object they built; the datatype of objects below satisfies it.
\<close>

record 'v json_api =
  j_get :: "'v \<Rightarrow> string \<Rightarrow> 'v option"
  j_as_str :: "'v \<Rightarrow> string option"
  j_as_u64 :: "'v \<Rightarrow> nat option"
  j_as_bool :: "'v \<Rightarrow> bool option"
  j_as_array :: "'v \<Rightarrow> 'v list option"

record 'v json_build =
  jb_obj :: "(string \<times> 'v) list \<Rightarrow> 'v"
  jb_str :: "string \<Rightarrow> 'v"
  jb_num :: "nat \<Rightarrow> 'v"

definition get_str :: "('v, 'x) json_api_scheme \<Rightarrow> 'v \<Rightarrow> string \<Rightarrow> string option" where
  "get_str j v key = Option.bind (j_get j v key) (j_as_str j)"

definition get_u64 :: "('v, 'x) json_api_scheme \<Rightarrow> 'v \<Rightarrow> string \<Rightarrow> nat option" where
  "get_u64 j v key = Option.bind (j_get j v key) (j_as_u64 j)"

definition get_bool :: "('v, 'x) json_api_scheme \<Rightarrow> 'v \<Rightarrow> string \<Rightarrow> bool option" where
  "get_bool j v key = Option.bind (j_get j v key) (j_as_bool j)"

definition or_default :: "'a \<Rightarrow> 'a option \<Rightarrow> 'a" where
  "or_default d x = (case x of None \<Rightarrow> d | Some v \<Rightarrow> v)"

lemma or_default_simps [simp]: "or_default d None = d" "or_default d (Some v) = v"
  by (simp_all add: or_default_def)

locale json_objects =
  fixes j :: "'v json_api" and b :: "'v json_build"
  assumes get_obj: "j_get j (jb_obj b m) k = map_of m k"
    and str_str: "j_as_str j (jb_str b s) = Some s"
    and num_num: "j_as_u64 j (jb_num b n) = Some n"
begin

lemma get_str_obj: "map_of m k = Some (jb_str b s) \<Longrightarrow> get_str j (jb_obj b m) k = Some s"
  by (simp add: get_str_def get_obj str_str)

lemma get_u64_obj: "map_of m k = Some (jb_num b n) \<Longrightarrow> get_u64 j (jb_obj b m) k = Some n"
  by (simp add: get_u64_def get_obj num_num)

lemma get_str_absent: "map_of m k = None \<Longrightarrow> get_str j (jb_obj b m) k = None"
  by (simp add: get_str_def get_obj)

end

text \<open>A concrete type of values.\<close>

datatype obj_json = JStr string | JNat nat | JObj "(string \<times> obj_json) list"

fun obj_get :: "obj_json \<Rightarrow> string \<Rightarrow> obj_json option" where
  "obj_get (JObj m) k = map_of m k"
| "obj_get _ k = None"

fun obj_str :: "obj_json \<Rightarrow> string option" where
  "obj_str (JStr s) = Some s"
| "obj_str _ = None"

fun obj_nat :: "obj_json \<Rightarrow> nat option" where
  "obj_nat (JNat n) = Some n"
| "obj_nat _ = None"

definition obj_api :: "obj_json json_api" where
  "obj_api = \<lparr> j_get = obj_get, j_as_str = obj_str, j_as_u64 = obj_nat, j_as_bool = (\<lambda>_. None),
     j_as_array = (\<lambda>_. None) \<rparr>"

definition obj_build :: "obj_json json_build" where
  "obj_build = \<lparr> jb_obj = JObj, jb_str = JStr, jb_num = JNat \<rparr>"

interpretation obj: json_objects obj_api obj_build
  by unfold_locales (simp_all add: obj_api_def obj_build_def)

end
