(* ===== verification/Guard_Types.thy ===== *)
theory Guard_Types
  imports Prelude
begin

text \<open>
  Types shared by the guard components: the canonical risk band of
  \<open>everyaios-types/src/lib.rs\<close>, the R0..R4 tiers and approval sources of
  \<open>everyaios-guard/src/ticket.rs\<close>, the profile gates of \<open>profiles.rs\<close>, and the resource
  bindings of \<open>toctou.rs\<close>. The two ordered enums derive \<open>Ord\<close> in Rust (declaration
  order); they are instances of the class of linear orders here.
\<close>

section \<open>Risk bands and tiers\<close>

datatype RiskLevel = Low | Medium | High | Critical

fun risk_rank :: "RiskLevel \<Rightarrow> nat" where
  "risk_rank Low = 0"
| "risk_rank Medium = 1"
| "risk_rank High = 2"
| "risk_rank Critical = 3"

lemma risk_rank_inject: "risk_rank a = risk_rank b \<Longrightarrow> a = b"
  by (cases a; cases b) auto

instantiation RiskLevel :: linorder
begin

definition less_eq_RiskLevel :: "RiskLevel \<Rightarrow> RiskLevel \<Rightarrow> bool" where
  "a \<le> b \<longleftrightarrow> risk_rank a \<le> risk_rank b"

definition less_RiskLevel :: "RiskLevel \<Rightarrow> RiskLevel \<Rightarrow> bool" where
  "a < b \<longleftrightarrow> risk_rank a < risk_rank b"

instance
  by standard (auto simp: less_eq_RiskLevel_def less_RiskLevel_def risk_rank_inject)

end

lemmas risk_ord = less_eq_RiskLevel_def less_RiskLevel_def

datatype RiskTier = R0 | R1 | R2 | R3 | R4

fun tier_rank :: "RiskTier \<Rightarrow> nat" where
  "tier_rank R0 = 0"
| "tier_rank R1 = 1"
| "tier_rank R2 = 2"
| "tier_rank R3 = 3"
| "tier_rank R4 = 4"

lemma tier_rank_inject: "tier_rank a = tier_rank b \<Longrightarrow> a = b"
  by (cases a; cases b) auto

instantiation RiskTier :: linorder
begin

definition less_eq_RiskTier :: "RiskTier \<Rightarrow> RiskTier \<Rightarrow> bool" where
  "a \<le> b \<longleftrightarrow> tier_rank a \<le> tier_rank b"

definition less_RiskTier :: "RiskTier \<Rightarrow> RiskTier \<Rightarrow> bool" where
  "a < b \<longleftrightarrow> tier_rank a < tier_rank b"

instance
  by standard (auto simp: less_eq_RiskTier_def less_RiskTier_def tier_rank_inject)

end

lemmas tier_ord = less_eq_RiskTier_def less_RiskTier_def

fun tier_as_str :: "RiskTier \<Rightarrow> string" where
  "tier_as_str R0 = ''R0''"
| "tier_as_str R1 = ''R1''"
| "tier_as_str R2 = ''R2''"
| "tier_as_str R3 = ''R3''"
| "tier_as_str R4 = ''R4''"

definition from_risk_and_op :: "RiskLevel \<Rightarrow> string \<Rightarrow> bool \<Rightarrow> RiskTier" where
  "from_risk_and_op risk operation read_only =
     (let op = to_lowercase operation in
      if str_contains op ''credential'' \<or> str_contains op ''install'' \<or> str_contains op ''estop''
      then R4
      else if str_contains op ''network'' \<or> str_contains op ''external'' \<or> str_contains op ''web''
      then R2
      else if read_only then R0
      else if str_contains op ''delete'' \<or> str_contains op ''destructive'' \<or> High \<le> risk
      then R3
      else (case risk of Low \<Rightarrow> R1 | Medium \<Rightarrow> R1 | High \<Rightarrow> R3 | Critical \<Rightarrow> R4))"

section \<open>Approval sources\<close>

datatype ApprovalSource = PolicySrc | HumanSrc | PermissionsToml | CoordinatorSrc

section \<open>Profiles and hook gates\<close>

datatype Profile = Minimal | Standard | Strict

fun profile_as_str :: "Profile \<Rightarrow> string" where
  "profile_as_str Minimal = ''minimal''"
| "profile_as_str Standard = ''standard''"
| "profile_as_str Strict = ''strict''"

fun human_approval_threshold :: "Profile \<Rightarrow> RiskLevel" where
  "human_approval_threshold Minimal = Critical"
| "human_approval_threshold Standard = High"
| "human_approval_threshold Strict = Medium"

fun enforce_path_floor :: "Profile \<Rightarrow> bool" where
  "enforce_path_floor Minimal = False"
| "enforce_path_floor Standard = True"
| "enforce_path_floor Strict = True"

fun scan_tool_output :: "Profile \<Rightarrow> bool" where
  "scan_tool_output Minimal = False"
| "scan_tool_output Standard = True"
| "scan_tool_output Strict = True"

fun require_red_team_gate :: "Profile \<Rightarrow> bool" where
  "require_red_team_gate Minimal = False"
| "require_red_team_gate Standard = False"
| "require_red_team_gate Strict = True"

fun ask_on_new_domain :: "Profile \<Rightarrow> bool" where
  "ask_on_new_domain Minimal = False"
| "ask_on_new_domain Standard = True"
| "ask_on_new_domain Strict = True"

datatype GateAction = GateAllow | GateAsk | GateBlock

datatype Hook =
    PathFloor
  | NewDomain
  | ToolOutputScan
  | SensitiveFile
  | KeyMaterial
  | ExternalNetwork
  | DestructiveCommand

fun gate :: "Profile \<Rightarrow> Hook \<Rightarrow> GateAction" where
  "gate profile PathFloor = GateAllow"
| "gate profile NewDomain = (if ask_on_new_domain profile then GateAsk else GateAllow)"
| "gate profile ToolOutputScan = GateAllow"
| "gate profile SensitiveFile =
     (case profile of Minimal \<Rightarrow> GateAllow | Standard \<Rightarrow> GateAsk | Strict \<Rightarrow> GateBlock)"
| "gate profile KeyMaterial =
     (case profile of Minimal \<Rightarrow> GateAsk | Standard \<Rightarrow> GateBlock | Strict \<Rightarrow> GateBlock)"
| "gate profile ExternalNetwork =
     (case profile of Minimal \<Rightarrow> GateAllow | Standard \<Rightarrow> GateAsk | Strict \<Rightarrow> GateAsk)"
| "gate profile DestructiveCommand =
     (case profile of Minimal \<Rightarrow> GateAsk | Standard \<Rightarrow> GateBlock | Strict \<Rightarrow> GateBlock)"

text \<open>Strictness of profiles and of gate answers, in the order the source derives them.\<close>

fun profile_rank :: "Profile \<Rightarrow> nat" where
  "profile_rank Minimal = 0"
| "profile_rank Standard = 1"
| "profile_rank Strict = 2"

fun gate_rank :: "GateAction \<Rightarrow> nat" where
  "gate_rank GateAllow = 0"
| "gate_rank GateAsk = 1"
| "gate_rank GateBlock = 2"

section \<open>Resource bindings\<close>

record FileBinding =
  canonical :: string
  parent_canonical :: string
  fb_ino :: "nat option"
  fb_dev :: "nat option"
  fb_size :: "nat option"
  fb_mtime_ns :: "nat option"
  parent_ino :: "nat option"
  parent_dev :: "nat option"

record NetBinding =
  nb_url :: string
  nb_host :: string
  resolved_ips :: "string list"

record ExecBinding =
  digest_sha256 :: string

datatype ResourceBinding = FileB FileBinding | NetB NetBinding | ExecB ExecBinding

section \<open>Laws of the gates\<close>

text \<open>A stricter profile never answers a hook more leniently.\<close>

lemma gate_monotone:
  "profile_rank p \<le> profile_rank q \<Longrightarrow> gate_rank (gate p h) \<le> gate_rank (gate q h)"
  by (cases p; cases q; cases h) auto

text \<open>A stricter profile lowers the risk from which a human has to approve.\<close>

lemma threshold_antitone:
  "profile_rank p \<le> profile_rank q \<Longrightarrow>
   human_approval_threshold q \<le> human_approval_threshold p"
  by (cases p; cases q) (auto simp: risk_ord)

text \<open>The only route to the top tier is a credential, install or estop operation.\<close>

lemma tier_R4_iff:
  "from_risk_and_op risk operation ro = R4 \<longleftrightarrow>
   (\<exists>w \<in> {''credential'', ''install'', ''estop''}. sublist w (to_lowercase operation))"
  by (auto simp: from_risk_and_op_def Let_def str_contains_sublist risk_ord
      split: RiskLevel.splits)

end
