(* ===== verification/Traces.thy ===== *)
theory Traces
  imports Prelude
begin

text \<open>
  Interfaces over sequences of operations. A component's operations are an alphabet
  \<open>'op\<close> with one step function; the locales below state what a store promises per step
  and give, once, what follows for every finite sequence of calls:
  \<^item> \<open>monotone_system\<close>: a preorder that every admitted step respects;
  \<^item> \<open>append_only\<close>: a log that grows only at its end (a \<open>monotone_system\<close>);
  \<^item> \<open>invariant_system\<close>: an invariant kept by every admitted step;
  \<^item> \<open>consumable_store\<close>: tokens that are consumed at most once.
\<close>

fun run :: "('op \<Rightarrow> 's \<Rightarrow> 's) \<Rightarrow> 'op list \<Rightarrow> 's \<Rightarrow> 's" where
  "run step [] s = s"
| "run step (x # xs) s = run step xs (step x s)"

fun admitted :: "('op \<Rightarrow> 's \<Rightarrow> 's) \<Rightarrow> ('op \<Rightarrow> 's \<Rightarrow> bool) \<Rightarrow> 'op list \<Rightarrow> 's \<Rightarrow> bool" where
  "admitted step ok [] s \<longleftrightarrow> True"
| "admitted step ok (x # xs) s \<longleftrightarrow> ok x s \<and> admitted step ok xs (step x s)"

fun count_steps :: "('op \<Rightarrow> 's \<Rightarrow> 's) \<Rightarrow> ('op \<Rightarrow> 's \<Rightarrow> bool) \<Rightarrow> 'op list \<Rightarrow> 's \<Rightarrow> nat" where
  "count_steps step hit [] s = 0"
| "count_steps step hit (x # xs) s = (if hit x s then 1 else 0) + count_steps step hit xs (step x s)"

lemma run_append: "run step (xs @ ys) s = run step ys (run step xs s)"
  by (induction xs arbitrary: s) auto

lemma admitted_append:
  "admitted step ok (xs @ ys) s \<longleftrightarrow> admitted step ok xs s \<and> admitted step ok ys (run step xs s)"
  by (induction xs arbitrary: s) auto

lemma admitted_True: "admitted step (\<lambda>_ _. True) xs s"
  by (induction xs arbitrary: s) auto

lemma admitted_static: "admitted step (\<lambda>x _. P x) xs s \<longleftrightarrow> (\<forall>x \<in> set xs. P x)"
  by (induction xs arbitrary: s) auto

locale monotone_system =
  fixes step :: "'op \<Rightarrow> 's \<Rightarrow> 's"
    and ok :: "'op \<Rightarrow> 's \<Rightarrow> bool"
    and le :: "'s \<Rightarrow> 's \<Rightarrow> bool"
  assumes le_refl: "le s s"
    and le_trans: "le s t \<Longrightarrow> le t u \<Longrightarrow> le s u"
    and step_le: "ok x s \<Longrightarrow> le s (step x s)"
begin

lemma run_le: "admitted step ok xs s \<Longrightarrow> le s (run step xs s)"
proof (induction xs arbitrary: s)
  case Nil
  then show ?case by (simp add: le_refl)
next
  case (Cons x xs)
  then have "le s (step x s)" "le (step x s) (run step xs (step x s))"
    by (auto intro: step_le)
  then show ?case by (auto intro: le_trans)
qed

end

locale append_only =
  fixes step :: "'op \<Rightarrow> 's \<Rightarrow> 's"
    and log :: "'s \<Rightarrow> 'e list"
  assumes step_appends: "\<exists>es. log (step x s) = log s @ es"

sublocale append_only \<subseteq> grow: monotone_system step "\<lambda>_ _. True" "\<lambda>s t. prefix (log s) (log t)"
proof unfold_locales
  fix x s
  show "prefix (log s) (log (step x s))"
    using step_appends [of x s] by auto
qed auto

context append_only
begin

lemma log_prefix: "prefix (log s) (log (run step xs s))"
  by (rule grow.run_le) (rule admitted_True)

lemma log_entry_stable: "i < length (log s) \<Longrightarrow> log (run step xs s) ! i = log s ! i"
  using log_prefix [of s xs] by (auto simp: prefix_def nth_append)

end

locale invariant_system =
  fixes step :: "'op \<Rightarrow> 's \<Rightarrow> 's"
    and ok :: "'op \<Rightarrow> 's \<Rightarrow> bool"
    and inv :: "'s \<Rightarrow> bool"
  assumes step_inv: "inv s \<Longrightarrow> ok x s \<Longrightarrow> inv (step x s)"
begin

lemma run_inv: "inv s \<Longrightarrow> admitted step ok xs s \<Longrightarrow> inv (run step xs s)"
  by (induction xs arbitrary: s) (auto intro: step_inv)

end

locale consumable_store =
  fixes step :: "'op \<Rightarrow> 's \<Rightarrow> 's"
    and admits :: "'k \<Rightarrow> 'op \<Rightarrow> 's \<Rightarrow> bool"
    and consumes :: "'k \<Rightarrow> 'op \<Rightarrow> 's \<Rightarrow> bool"
    and spent :: "'k \<Rightarrow> 's \<Rightarrow> bool"
  assumes consume_spends: "admits k x s \<Longrightarrow> consumes k x s \<Longrightarrow> spent k (step x s)"
    and spent_stable: "admits k x s \<Longrightarrow> spent k s \<Longrightarrow> spent k (step x s)"
    and spent_refused: "admits k x s \<Longrightarrow> spent k s \<Longrightarrow> \<not> consumes k x s"
begin

lemma spent_never_consumed:
  "admitted step (admits k) xs s \<Longrightarrow> spent k s \<Longrightarrow> count_steps step (consumes k) xs s = 0"
  by (induction xs arbitrary: s) (auto simp: spent_refused spent_stable)

lemma at_most_once: "admitted step (admits k) xs s \<Longrightarrow> count_steps step (consumes k) xs s \<le> 1"
proof (induction xs arbitrary: s)
  case (Cons x xs)
  show ?case
  proof (cases "consumes k x s")
    case True
    with Cons.prems have "count_steps step (consumes k) xs (step x s) = 0"
      by (auto intro: spent_never_consumed consume_spends)
    with True show ?thesis by simp
  next
    case False
    with Cons show ?thesis by simp
  qed
qed simp

end

end
