(* ===== verification/Ticket.thy ===== *)
theory Ticket
  imports Guard_Types Traces
begin

text \<open>
  Authorization tickets and their store (\<open>everyaios-guard/src/ticket.rs\<close>). The store is a
  record of the ticket map and the append-only receipts; every method is a function on
  it. The wall clock (\<open>now_ms\<close>) and the random approval nonce are arguments of the
  operations that read them; SHA-256 (crate \<open>sha2\<close>) is the parameter \<open>sha\<close>, a function
  from the hashed bytes to the digest bytes.
\<close>

section \<open>Hashing\<close>

text \<open>\<open>hash_args\<close> feeds each part followed by a NUL byte and prints the digest in hex.\<close>

definition hash_input :: "string list \<Rightarrow> string" where
  "hash_input parts = concat (map (\<lambda>p. p @ [CHR 0x00]) parts)"

definition hash_args :: "(string \<Rightarrow> string) \<Rightarrow> string list \<Rightarrow> string" where
  "hash_args sha parts = hex_encode (sha (hash_input parts))"

definition ticket_context_hash :: "(string \<Rightarrow> string) \<Rightarrow> string \<Rightarrow> string \<Rightarrow> string \<Rightarrow> string" where
  "ticket_context_hash sha tool op h = hash_args sha [''ticket-context-v1'', tool, op, h]"

definition nul_free :: "string \<Rightarrow> bool" where
  "nul_free s \<longleftrightarrow> CHR 0x00 \<notin> set s"

section \<open>Tickets\<close>

datatype TicketState = Pending | Approved | Used | Rejected | Expired | Revoked

datatype TicketError =
    ErrUnknown
  | ErrExpired
  | ErrAlreadyUsed
  | ErrRevoked
  | ErrNotApproved
  | ErrArgsMismatch
  | ErrRejected
  | ErrNotSingleUse
  | ErrBlocked

record AuthorizationTicket =
  tk_ticket_id :: string
  tk_agent_id :: string
  tk_session_id :: string
  tk_tool_id :: string
  tk_operation :: string
  tk_args_hash :: string
  tk_paths :: "string list"
  tk_expires_at_ms :: nat
  tk_single_use :: bool
  tk_approval_source :: ApprovalSource
  tk_approval_nonce :: string
  tk_risk :: RiskLevel
  tk_audit_seq :: nat
  tk_state :: TicketState
  tk_bindings :: "ResourceBinding list"
  tk_execution_id :: string
  tk_action_id :: string
  tk_idempotency_key :: string

text \<open>The expiry test \<open>expires_at_ms != 0 && now_ms() > expires_at_ms\<close>.\<close>

definition past_expiry :: "nat \<Rightarrow> nat \<Rightarrow> bool" where
  "past_expiry expires now \<longleftrightarrow> expires \<noteq> 0 \<and> expires < now"

definition tk_is_valid :: "nat \<Rightarrow> AuthorizationTicket \<Rightarrow> bool" where
  "tk_is_valid now t =
     (if tk_state t \<noteq> Approved then False
      else if past_expiry (tk_expires_at_ms t) now then False
      else True)"

definition matches_context :: "(string \<Rightarrow> string) \<Rightarrow> AuthorizationTicket \<Rightarrow> string \<Rightarrow> bool" where
  "matches_context sha t h \<longleftrightarrow>
     ticket_context_hash sha (tk_tool_id t) (tk_operation t) (tk_args_hash t) = h"

definition matches_args :: "(string \<Rightarrow> string) \<Rightarrow> AuthorizationTicket \<Rightarrow> string \<Rightarrow> bool" where
  "matches_args sha t h \<longleftrightarrow> tk_args_hash t = h \<or> matches_context sha t h"

definition tk_consume ::
  "(string \<Rightarrow> string) \<Rightarrow> nat \<Rightarrow> AuthorizationTicket \<Rightarrow> string \<Rightarrow> bool \<times> AuthorizationTicket" where
  "tk_consume sha now t h =
     (if \<not> tk_is_valid now t \<or> \<not> matches_args sha t h then (False, t)
      else if matches_context sha t h \<and> \<not> tk_single_use t
      then (False, t\<lparr>tk_state := Rejected\<rparr>)
      else (True, if tk_single_use t then t\<lparr>tk_state := Used\<rparr> else t))"

text \<open>The parts whose hash a context-bound consumption has to present.\<close>

definition context_parts :: "AuthorizationTicket \<Rightarrow> string list" where
  "context_parts t = [''ticket-context-v1'', tk_tool_id t, tk_operation t, tk_args_hash t]"

section \<open>Receipts\<close>

datatype ReceiptAction = RApprove | RReject

fun receipt_action_str :: "ReceiptAction \<Rightarrow> string" where
  "receipt_action_str RApprove = ''approve''"
| "receipt_action_str RReject = ''reject''"

record GuardReceipt =
  rc_receipt_id :: string
  rc_ticket_id :: string
  rc_session_id :: string
  rc_tool_id :: string
  rc_operation :: string
  rc_action :: ReceiptAction
  rc_ts_ms :: nat
  rc_hash :: string

definition receipt_new ::
  "(string \<Rightarrow> string) \<Rightarrow> string \<Rightarrow> AuthorizationTicket \<Rightarrow> ReceiptAction \<Rightarrow> nat \<Rightarrow> GuardReceipt" where
  "receipt_new sha rid t a ts =
     \<lparr> rc_receipt_id = rid,
       rc_ticket_id = tk_ticket_id t,
       rc_session_id = tk_session_id t,
       rc_tool_id = tk_tool_id t,
       rc_operation = tk_operation t,
       rc_action = a,
       rc_ts_ms = ts,
       rc_hash = hash_args sha
         [rid, tk_ticket_id t, tk_session_id t, tk_tool_id t, tk_operation t,
          receipt_action_str a, show_nat ts] \<rparr>"

section \<open>The ticket store\<close>

record TicketStore =
  ts_tickets :: "AuthorizationTicket strmap"
  ts_receipts :: "GuardReceipt list"

definition ticket_store_new :: TicketStore where
  "ticket_store_new = \<lparr> ts_tickets = [], ts_receipts = [] \<rparr>"

abbreviation ts_get :: "TicketStore \<Rightarrow> string \<Rightarrow> AuthorizationTicket option" where
  "ts_get s tid \<equiv> lookup (ts_tickets s) tid"

text \<open>Writing back through the reference obtained from \<open>get_mut\<close>.\<close>

definition ts_put :: "string \<Rightarrow> AuthorizationTicket \<Rightarrow> TicketStore \<Rightarrow> TicketStore" where
  "ts_put tid t s = s\<lparr>ts_tickets := AList.update tid t (ts_tickets s)\<rparr>"

definition ts_record ::
  "(string \<Rightarrow> string) \<Rightarrow> nat \<Rightarrow> string \<Rightarrow> ReceiptAction \<Rightarrow> TicketStore \<Rightarrow> bool \<times> TicketStore" where
  "ts_record sha now tid a s =
     (case ts_get s tid of
        None \<Rightarrow> (False, s)
      | Some t \<Rightarrow>
          (True, s\<lparr>ts_receipts := ts_receipts s @
             [receipt_new sha (''rcpt:'' @ show_nat (length (ts_receipts s))) t a now]\<rparr>))"

definition ts_mint :: "AuthorizationTicket \<Rightarrow> TicketStore \<Rightarrow> string \<times> TicketStore" where
  "ts_mint t s = (tk_ticket_id t, ts_put (tk_ticket_id t) t s)"

fun mint_gated ::
  "AuthorizationTicket \<Rightarrow> GateAction \<Rightarrow> TicketStore \<Rightarrow> (TicketError + string) \<times> TicketStore" where
  "mint_gated t GateAllow s =
     (let (tid, s') = ts_mint (t\<lparr>tk_state := Approved, tk_approval_source := PolicySrc\<rparr>) s
      in (Inr tid, s'))"
| "mint_gated t GateAsk s = (let (tid, s') = ts_mint t s in (Inr tid, s'))"
| "mint_gated t GateBlock s = (Inl ErrBlocked, s)"

definition use_ticket ::
  "(string \<Rightarrow> string) \<Rightarrow> nat \<Rightarrow> string \<Rightarrow> string \<Rightarrow> TicketStore \<Rightarrow> (TicketError + unit) \<times> TicketStore" where
  "use_ticket sha now tid h s =
     (case ts_get s tid of
        None \<Rightarrow> (Inl ErrUnknown, s)
      | Some t \<Rightarrow>
          if past_expiry (tk_expires_at_ms t) now
          then (Inl ErrExpired, ts_put tid (t\<lparr>tk_state := Expired\<rparr>) s)
          else (case tk_state t of
              Used \<Rightarrow> (Inl ErrAlreadyUsed, s)
            | Revoked \<Rightarrow> (Inl ErrRevoked, s)
            | Pending \<Rightarrow> (Inl ErrNotApproved, s)
            | Rejected \<Rightarrow> (Inl ErrRejected, s)
            | Expired \<Rightarrow> (Inl ErrExpired, s)
            | Approved \<Rightarrow>
                if \<not> matches_args sha t h
                then (Inl ErrArgsMismatch, ts_put tid (t\<lparr>tk_state := Rejected\<rparr>) s)
                else if matches_context sha t h \<and> \<not> tk_single_use t
                then (Inl ErrNotSingleUse, ts_put tid (t\<lparr>tk_state := Rejected\<rparr>) s)
                else if tk_single_use t
                then (Inr (), ts_put tid (t\<lparr>tk_state := Used\<rparr>) s)
                else (Inr (), s)))"

definition ts_revoke :: "string \<Rightarrow> TicketStore \<Rightarrow> TicketStore" where
  "ts_revoke tid s =
     (case ts_get s tid of
        None \<Rightarrow> s
      | Some t \<Rightarrow> ts_put tid (t\<lparr>tk_state := Revoked\<rparr>) s)"

definition ts_pending :: "TicketStore \<Rightarrow> AuthorizationTicket list" where
  "ts_pending s = filter (\<lambda>t. tk_state t = Pending) (map snd (ts_tickets s))"

definition approve_inner ::
  "(string \<Rightarrow> string) \<Rightarrow> nat \<Rightarrow> string \<Rightarrow> string option \<Rightarrow> TicketStore \<Rightarrow> bool \<times> TicketStore" where
  "approve_inner sha now tid nonce s =
     (let (good, s1) =
        (case ts_get s tid of
           Some t \<Rightarrow>
             if tk_state t = Pending \<and>
                (case nonce of None \<Rightarrow> True | Some n \<Rightarrow> n \<noteq> [] \<and> n = tk_approval_nonce t)
             then (True, ts_put tid (t\<lparr>tk_state := Approved, tk_approval_source := HumanSrc\<rparr>) s)
             else (False, s)
         | None \<Rightarrow> (False, s))
      in (good, if good then snd (ts_record sha now tid RApprove s1) else s1))"

definition ts_approve ::
  "(string \<Rightarrow> string) \<Rightarrow> nat \<Rightarrow> string \<Rightarrow> TicketStore \<Rightarrow> bool \<times> TicketStore" where
  "ts_approve sha now tid s = approve_inner sha now tid None s"

definition approve_with_nonce ::
  "(string \<Rightarrow> string) \<Rightarrow> nat \<Rightarrow> string \<Rightarrow> string \<Rightarrow> TicketStore \<Rightarrow> bool \<times> TicketStore" where
  "approve_with_nonce sha now tid nonce s = approve_inner sha now tid (Some nonce) s"

definition reject_with_nonce ::
  "(string \<Rightarrow> string) \<Rightarrow> nat \<Rightarrow> string \<Rightarrow> string \<Rightarrow> TicketStore \<Rightarrow> bool \<times> TicketStore" where
  "reject_with_nonce sha now tid nonce s =
     (let (good, s1) =
        (case ts_get s tid of
           Some t \<Rightarrow>
             if tk_state t = Pending \<and> nonce \<noteq> [] \<and> nonce = tk_approval_nonce t
             then (True, ts_put tid (t\<lparr>tk_state := Revoked\<rparr>) s)
             else (False, s)
         | None \<Rightarrow> (False, s))
      in (good, if good then snd (ts_record sha now tid RReject s1) else s1))"

definition ts_reject ::
  "(string \<Rightarrow> string) \<Rightarrow> nat \<Rightarrow> string \<Rightarrow> TicketStore \<Rightarrow> bool \<times> TicketStore" where
  "ts_reject sha now tid s =
     (let (good, s1) =
        (case ts_get s tid of
           Some t \<Rightarrow>
             if tk_state t = Pending
             then (True, ts_put tid (t\<lparr>tk_state := Revoked\<rparr>) s)
             else (False, s)
         | None \<Rightarrow> (False, s))
      in (good, if good then snd (ts_record sha now tid RReject s1) else s1))"

definition ts_approval_nonce :: "TicketStore \<Rightarrow> string \<Rightarrow> string option" where
  "ts_approval_nonce s tid = map_option tk_approval_nonce (ts_get s tid)"

definition set_bindings ::
  "string \<Rightarrow> ResourceBinding list \<Rightarrow> TicketStore \<Rightarrow> bool \<times> TicketStore" where
  "set_bindings tid bs s =
     (case ts_get s tid of
        Some t \<Rightarrow> (True, ts_put tid (t\<lparr>tk_bindings := bs\<rparr>) s)
      | None \<Rightarrow> (False, s))"

definition set_execution :: "string \<Rightarrow> string \<Rightarrow> TicketStore \<Rightarrow> bool \<times> TicketStore" where
  "set_execution tid ex s =
     (case ts_get s tid of
        Some t \<Rightarrow>
          let t1 = t\<lparr>tk_execution_id := ex\<rparr>;
              t2 = (if tk_idempotency_key t1 = []
                    then t1\<lparr>tk_idempotency_key :=
                           tk_session_id t1 @ '':'' @ tk_tool_id t1 @ '':'' @ tk_args_hash t1\<rparr>
                    else t1)
          in (True, ts_put tid t2 s)
      | None \<Rightarrow> (False, s))"

definition path_ticket ::
  "nat \<Rightarrow> string \<Rightarrow> string \<Rightarrow> string \<Rightarrow> string \<Rightarrow> string \<Rightarrow> string \<Rightarrow> string list \<Rightarrow> string \<Rightarrow>
   RiskLevel \<Rightarrow> nat \<Rightarrow> AuthorizationTicket" where
  "path_ticket now nonce tid agent sess tool op paths h risk seq =
     \<lparr> tk_ticket_id = tid, tk_agent_id = agent, tk_session_id = sess, tk_tool_id = tool,
       tk_operation = op, tk_args_hash = h, tk_paths = paths,
       tk_expires_at_ms = u64_add now 60000, tk_single_use = True,
       tk_approval_source = PolicySrc, tk_approval_nonce = nonce, tk_risk = risk,
       tk_audit_seq = seq, tk_state = Pending, tk_bindings = [], tk_execution_id = [],
       tk_action_id = tool, tk_idempotency_key = sess @ '':'' @ tool @ '':'' @ h \<rparr>"

section \<open>Operation sequences\<close>

text \<open>
  The public methods that change the store, as one alphabet. \<open>OpGetMut tid f\<close> is a write
  through the reference that \<open>get_mut\<close> hands out; its documentation leaves the Pending gate
  to the caller, so that is what \<open>no_remint\<close> admits of it.
\<close>

datatype TicketOp =
    OpMint AuthorizationTicket
  | OpMintGated AuthorizationTicket GateAction
  | OpUse nat string string
  | OpRevoke string
  | OpApprove nat string
  | OpApproveNonce nat string string
  | OpReject nat string
  | OpRejectNonce nat string string
  | OpSetBindings string "ResourceBinding list"
  | OpSetExecution string string
  | OpGetMut string "AuthorizationTicket \<Rightarrow> AuthorizationTicket"

fun ticket_step :: "(string \<Rightarrow> string) \<Rightarrow> TicketOp \<Rightarrow> TicketStore \<Rightarrow> TicketStore" where
  "ticket_step sha (OpMint t) s = snd (ts_mint t s)"
| "ticket_step sha (OpMintGated t a) s = snd (mint_gated t a s)"
| "ticket_step sha (OpUse now tid h) s = snd (use_ticket sha now tid h s)"
| "ticket_step sha (OpRevoke tid) s = ts_revoke tid s"
| "ticket_step sha (OpApprove now tid) s = snd (ts_approve sha now tid s)"
| "ticket_step sha (OpApproveNonce now tid n) s = snd (approve_with_nonce sha now tid n s)"
| "ticket_step sha (OpReject now tid) s = snd (ts_reject sha now tid s)"
| "ticket_step sha (OpRejectNonce now tid n) s = snd (reject_with_nonce sha now tid n s)"
| "ticket_step sha (OpSetBindings tid bs) s = snd (set_bindings tid bs s)"
| "ticket_step sha (OpSetExecution tid ex) s = snd (set_execution tid ex s)"
| "ticket_step sha (OpGetMut tid f) s =
     (case ts_get s tid of None \<Rightarrow> s | Some t \<Rightarrow> ts_put tid (f t) s)"

text \<open>\<open>no_remint tid\<close>: the call does not mint \<open>tid\<close> anew, and respects the Pending gate.\<close>

fun no_remint :: "string \<Rightarrow> TicketOp \<Rightarrow> TicketStore \<Rightarrow> bool" where
  "no_remint tid (OpMint t) s \<longleftrightarrow> tk_ticket_id t \<noteq> tid"
| "no_remint tid (OpMintGated t a) s \<longleftrightarrow> tk_ticket_id t \<noteq> tid"
| "no_remint tid (OpGetMut tid' f) s \<longleftrightarrow>
     (case ts_get s tid' of
        None \<Rightarrow> True
      | Some t \<Rightarrow> tk_state t = Pending \<and> tk_state (f t) = Pending)"
| "no_remint tid _ s \<longleftrightarrow> True"

text \<open>A successful use that counts: the ticket is single-use, or the presented hash is the
  context hash of the executor path.\<close>

fun ticket_consumes :: "(string \<Rightarrow> string) \<Rightarrow> string \<Rightarrow> TicketOp \<Rightarrow> TicketStore \<Rightarrow> bool" where
  "ticket_consumes sha tid (OpUse now tid' h) s \<longleftrightarrow>
     tid' = tid \<and> fst (use_ticket sha now tid h s) = Inr () \<and>
     (case ts_get s tid of None \<Rightarrow> False | Some t \<Rightarrow> tk_single_use t \<or> matches_context sha t h)"
| "ticket_consumes sha tid _ s \<longleftrightarrow> False"

fun state_rank :: "TicketState \<Rightarrow> nat" where
  "state_rank Pending = 0"
| "state_rank Approved = 1"
| "state_rank _ = 2"

lemma state_rank_le: "state_rank st \<le> 2"
  by (cases st) auto

definition ticket_spent :: "string \<Rightarrow> TicketStore \<Rightarrow> bool" where
  "ticket_spent tid s \<longleftrightarrow> (case ts_get s tid of None \<Rightarrow> False | Some t \<Rightarrow> state_rank (tk_state t) = 2)"

section \<open>Lookups after each operation\<close>

lemma ts_get_put [simp]:
  "ts_get (ts_put tid t s) k = (if k = tid then Some t else ts_get s k)"
  by (simp add: ts_put_def)

lemma ts_receipts_put [simp]: "ts_receipts (ts_put tid t s) = ts_receipts s"
  by (simp add: ts_put_def)

lemma ts_tickets_record [simp]: "ts_tickets (snd (ts_record sha now tid a s)) = ts_tickets s"
  by (simp add: ts_record_def split: option.splits)

lemmas ticket_op_defs =
  ts_mint_def use_ticket_def ts_revoke_def ts_approve_def approve_with_nonce_def approve_inner_def
  ts_reject_def reject_with_nonce_def set_bindings_def set_execution_def Let_def

text \<open>Every operation keeps the state of a ticket, moves it up the lifecycle, or mints it.\<close>

lemma state_rank_mono:
  assumes "no_remint tid x s" "ts_get s tid = Some t"
  shows "\<exists>t'. ts_get (ticket_step sha x s) tid = Some t' \<and>
    (tk_state t' = tk_state t \<or> state_rank (tk_state t) < state_rank (tk_state t') \<or>
     state_rank (tk_state t) = 2 \<and> state_rank (tk_state t') = 2)"
proof (cases x)
  case (OpMintGated u a)
  then show ?thesis using assms by (cases a) (auto simp: ticket_op_defs)
next
  case (OpUse now k h)
  then show ?thesis using assms
    by (cases "tk_state t") (auto simp: ticket_op_defs split: option.splits TicketState.splits)
next
  case (OpGetMut k f)
  then show ?thesis using assms by (auto split: option.splits)
next
  case (OpRevoke k)
  then show ?thesis using assms
    by (cases "tk_state t") (auto simp: ticket_op_defs split: option.splits)
qed (use assms in \<open>auto simp: ticket_op_defs split: option.splits\<close>)

lemma use_ticket_ok_iff:
  "fst (use_ticket sha now tid h s) = Inr () \<longleftrightarrow>
   (\<exists>t. ts_get s tid = Some t \<and> tk_state t = Approved \<and> \<not> past_expiry (tk_expires_at_ms t) now \<and>
        matches_args sha t h \<and> (matches_context sha t h \<longrightarrow> tk_single_use t))"
  by (auto simp: use_ticket_def split: option.splits TicketState.splits)

lemma use_ticket_ok_post:
  "fst (use_ticket sha now tid h s) = Inr () \<Longrightarrow> ts_get s tid = Some t \<Longrightarrow>
   snd (use_ticket sha now tid h s) =
     (if tk_single_use t then ts_put tid (t\<lparr>tk_state := Used\<rparr>) s else s)"
  by (auto simp: use_ticket_def split: option.splits TicketState.splits if_splits)

lemma ticket_spent_step:
  "no_remint tid x s \<Longrightarrow> ticket_spent tid s \<Longrightarrow> ticket_spent tid (ticket_step sha x s)"
proof -
  assume adm: "no_remint tid x s" and "ticket_spent tid s"
  then obtain t where t: "ts_get s tid = Some t" "state_rank (tk_state t) = 2"
    by (auto simp: ticket_spent_def split: option.splits)
  obtain t' where "ts_get (ticket_step sha x s) tid = Some t'" "state_rank (tk_state t) \<le> state_rank (tk_state t')"
    using state_rank_mono [OF adm t(1), of sha] by auto
  with t(2) show ?thesis
    using state_rank_le [of "tk_state t'"] by (simp add: ticket_spent_def)
qed

lemma ticket_consume_spends:
  "ticket_consumes sha tid x s \<Longrightarrow> ticket_spent tid (ticket_step sha x s)"
  by (cases x) (auto simp: use_ticket_ok_iff use_ticket_ok_post ticket_spent_def split: option.splits)

lemma ticket_spent_refused: "ticket_spent tid s \<Longrightarrow> \<not> ticket_consumes sha tid x s"
  by (cases x) (auto simp: use_ticket_ok_iff ticket_spent_def split: option.splits)

section \<open>The store keeps its contracts\<close>

interpretation ticket_once: consumable_store "ticket_step sha" no_remint "ticket_consumes sha" ticket_spent
  by unfold_locales (blast intro: ticket_consume_spends ticket_spent_step dest: ticket_spent_refused)+

lemma ticket_step_appends: "\<exists>es. ts_receipts (ticket_step sha x s) = ts_receipts s @ es"
proof (cases x)
  case (OpMintGated u a)
  then show ?thesis by (cases a) (auto simp: ticket_op_defs)
qed (auto simp: ticket_op_defs ts_record_def split: option.splits TicketState.splits)

interpretation ticket_log: append_only "ticket_step sha" ts_receipts
  by unfold_locales (rule ticket_step_appends)

text \<open>Keys of the map are the ids of the tickets they hold.\<close>

definition ticket_store_wf :: "TicketStore \<Rightarrow> bool" where
  "ticket_store_wf s \<longleftrightarrow>
     wf_map (ts_tickets s) \<and> (\<forall>tid t. ts_get s tid = Some t \<longrightarrow> tk_ticket_id t = tid)"

lemma ticket_store_wf_put:
  "ticket_store_wf s \<Longrightarrow> tk_ticket_id t = tid \<Longrightarrow> ticket_store_wf (ts_put tid t s)"
  by (auto simp: ticket_store_wf_def ts_put_def)

lemma ticket_store_wf_record [simp]:
  "ticket_store_wf (snd (ts_record sha now tid a s)) = ticket_store_wf s"
  by (simp add: ticket_store_wf_def)

lemma ticket_store_wf_get: "ticket_store_wf s \<Longrightarrow> ts_get s tid = Some t \<Longrightarrow> tk_ticket_id t = tid"
  by (simp add: ticket_store_wf_def)

fun keeps_id :: "TicketOp \<Rightarrow> TicketStore \<Rightarrow> bool" where
  "keeps_id (OpGetMut tid f) s \<longleftrightarrow> (\<forall>t. tk_ticket_id (f t) = tk_ticket_id t)"
| "keeps_id _ s \<longleftrightarrow> True"

lemma ticket_store_wf_step:
  assumes "ticket_store_wf s" "keeps_id x s"
  shows "ticket_store_wf (ticket_step sha x s)"
proof (cases x)
  case (OpMintGated u a)
  then show ?thesis using assms by (cases a) (auto simp: ticket_op_defs intro!: ticket_store_wf_put)
qed (use assms in \<open>auto simp: ticket_op_defs ticket_store_wf_get
      intro!: ticket_store_wf_put split: option.splits TicketState.splits\<close>)

interpretation ticket_wf: invariant_system "ticket_step sha" keeps_id ticket_store_wf
  by unfold_locales (rule ticket_store_wf_step)

section \<open>The hash input determines the parts\<close>

lemma hash_input_Nil [simp]: "hash_input [] = []"
  by (simp add: hash_input_def)

lemma hash_input_Cons [simp]: "hash_input (p # ps) = p @ CHR 0x00 # hash_input ps"
  by (simp add: hash_input_def)

lemma nul_terminated_eq:
  "nul_free p \<Longrightarrow> nul_free q \<Longrightarrow> p @ CHR 0x00 # u = q @ CHR 0x00 # v \<Longrightarrow> p = q \<and> u = v"
proof (induction p arbitrary: q)
  case Nil
  then show ?case by (cases q) (auto simp: nul_free_def)
next
  case (Cons c p)
  then show ?case by (cases q) (auto simp: nul_free_def)
qed

lemma hash_input_inject:
  "list_all nul_free ps \<Longrightarrow> list_all nul_free qs \<Longrightarrow> hash_input ps = hash_input qs \<Longrightarrow> ps = qs"
proof (induction ps arbitrary: qs)
  case Nil
  then show ?case by (cases qs) auto
next
  case (Cons p ps)
  then obtain q qs' where qs: "qs = q # qs'" by (cases qs) auto
  with Cons.prems have "p = q" "hash_input ps = hash_input qs'"
    using nul_terminated_eq [of p q "hash_input ps" "hash_input qs'"] by auto
  with Cons.IH [of qs'] Cons.prems qs show ?case by simp
qed

lemma matches_context_parts: "matches_context sha t h \<longleftrightarrow> hash_args sha (context_parts t) = h"
  unfolding matches_context_def ticket_context_hash_def context_parts_def ..

section \<open>Receipts are numbered and self-hashed\<close>

definition receipt_digest :: "(string \<Rightarrow> string) \<Rightarrow> GuardReceipt \<Rightarrow> string" where
  "receipt_digest sha r = hash_args sha
     [rc_receipt_id r, rc_ticket_id r, rc_session_id r, rc_tool_id r, rc_operation r,
      receipt_action_str (rc_action r), show_nat (rc_ts_ms r)]"

definition receipts_ok :: "(string \<Rightarrow> string) \<Rightarrow> TicketStore \<Rightarrow> bool" where
  "receipts_ok sha s \<longleftrightarrow> (\<forall>i < length (ts_receipts s).
     rc_receipt_id (ts_receipts s ! i) = ''rcpt:'' @ show_nat i \<and>
     rc_hash (ts_receipts s ! i) = receipt_digest sha (ts_receipts s ! i))"

lemma receipts_ok_same:
  "ts_receipts s' = ts_receipts s \<Longrightarrow> receipts_ok sha s \<Longrightarrow> receipts_ok sha s'"
  by (simp add: receipts_ok_def)

lemma receipts_ok_record: "receipts_ok sha s \<Longrightarrow> receipts_ok sha (snd (ts_record sha now tid a s))"
  by (auto simp: receipts_ok_def ts_record_def receipt_new_def receipt_digest_def nth_append
      less_Suc_eq split: option.splits)

lemma receipts_ok_put [simp]: "receipts_ok sha (ts_put tid t s) = receipts_ok sha s"
  by (simp add: receipts_ok_def)

lemma receipts_ok_step: "receipts_ok sha s \<Longrightarrow> receipts_ok sha (ticket_step sha x s)"
proof (cases x)
  case (OpMintGated u a)
  then show "receipts_ok sha s \<Longrightarrow> ?thesis" by (cases a) (auto simp: ticket_op_defs)
qed (auto simp: ticket_op_defs receipts_ok_record split: option.splits TicketState.splits)

interpretation ticket_receipts: invariant_system "ticket_step sha" "\<lambda>_ _. True" "receipts_ok sha"
  by unfold_locales (rule receipts_ok_step)

section \<open>Properties of tickets\<close>

text \<open>A ticket is consumed at most once: over any sequence of store operations, in any
  order and at any times, that does not mint the id again, the executor path (or any path,
  for a single-use ticket) succeeds at most once.\<close>

theorem ticket_consumed_at_most_once:
  assumes "admitted (ticket_step sha) (no_remint tid) ops s"
  shows "count_steps (ticket_step sha) (ticket_consumes sha tid) ops s \<le> 1"
  using assms by (rule ticket_once.at_most_once)

theorem ticket_consumed_at_most_once_witness:
  "let t = path_ticket 0 ''n'' ''t1'' ''a'' ''s'' ''fs.write'' ''write'' [] ''h'' Low 0;
       s = snd (ts_mint t ticket_store_new);
       ops = [OpApproveNonce 1 ''t1'' ''n'', OpUse 2 ''t1'' ''h'', OpUse 3 ''t1'' ''h'', OpRevoke ''t1'']
   in admitted (ticket_step id) (no_remint ''t1'') ops s \<and>
      count_steps (ticket_step id) (ticket_consumes id ''t1'') ops s \<le> 1 \<and>
      count_steps (ticket_step id) (ticket_consumes id ''t1'') ops s = 1"
proof -
  let ?t = "path_ticket 0 ''n'' ''t1'' ''a'' ''s'' ''fs.write'' ''write'' [] ''h'' Low 0"
  let ?s = "snd (ts_mint ?t ticket_store_new)"
  let ?ops = "[OpApproveNonce 1 ''t1'' ''n'', OpUse 2 ''t1'' ''h'', OpUse 3 ''t1'' ''h'', OpRevoke ''t1'']"
  have "admitted (ticket_step id) (no_remint ''t1'') ?ops ?s" by simp
  moreover from this have "count_steps (ticket_step id) (ticket_consumes id ''t1'') ?ops ?s \<le> 1"
    by (rule ticket_consumed_at_most_once)
  moreover have "count_steps (ticket_step id) (ticket_consumes id ''t1'') ?ops ?s = 1"
    by (simp add: ticket_op_defs ts_record_def ts_put_def path_ticket_def ticket_store_new_def
        u64_add_def past_expiry_def matches_args_def)
  ultimately show ?thesis unfolding Let_def by blast
qed

text \<open>Consumption succeeds exactly for a known, approved, unexpired ticket whose argument
  binding matches (single-use on the context path); a success marks a single-use ticket Used and
  changes nothing else, and no failure ever produces an Approved ticket or a receipt.\<close>

theorem use_ticket_contract:
  "(fst (use_ticket sha now tid h s) = Inr () \<longleftrightarrow>
     (\<exists>t. ts_get s tid = Some t \<and> tk_state t = Approved \<and>
        \<not> past_expiry (tk_expires_at_ms t) now \<and>
        (tk_args_hash t = h \<or> matches_context sha t h) \<and>
        (tk_single_use t \<or> \<not> matches_context sha t h))) \<and>
   (\<forall>t. ts_get (snd (use_ticket sha now tid h s)) k = Some t \<longrightarrow> tk_state t = Approved \<longrightarrow>
        ts_get s k = Some t) \<and>
   (fst (use_ticket sha now tid h s) = Inr () \<longrightarrow>
      (\<forall>t. ts_get s tid = Some t \<longrightarrow> tk_single_use t \<longrightarrow>
        snd (use_ticket sha now tid h s) = ts_put tid (t\<lparr>tk_state := Used\<rparr>) s)) \<and>
   ts_receipts (snd (use_ticket sha now tid h s)) = ts_receipts s"
proof (intro conjI)
  show "ts_receipts (snd (use_ticket sha now tid h s)) = ts_receipts s"
    by (simp add: use_ticket_def split: option.splits TicketState.splits)
  show "\<forall>t. ts_get (snd (use_ticket sha now tid h s)) k = Some t \<longrightarrow> tk_state t = Approved \<longrightarrow>
        ts_get s k = Some t"
    by (auto simp: use_ticket_def split: option.splits TicketState.splits if_splits)
qed (auto simp: use_ticket_ok_iff use_ticket_ok_post matches_args_def)

theorem use_ticket_contract_witness:
  "let t = (path_ticket 0 ''n'' ''t1'' ''a'' ''s'' ''fs.write'' ''write'' [] ''h'' Low 0)
             \<lparr>tk_state := Approved\<rparr>;
       s = snd (ts_mint t ticket_store_new)
   in fst (use_ticket id 5 ''t1'' ''h'' s) = Inr () \<and>
      snd (use_ticket id 5 ''t1'' ''h'' s) = ts_put ''t1'' (t\<lparr>tk_state := Used\<rparr>) s"
proof -
  define t where "t = (path_ticket 0 ''n'' ''t1'' ''a'' ''s'' ''fs.write'' ''write'' [] ''h'' Low 0)
     \<lparr>tk_state := Approved\<rparr>"
  define s where "s = snd (ts_mint t ticket_store_new)"
  have t: "ts_get s ''t1'' = Some t" "tk_single_use t" "tk_state t = Approved"
    "\<not> past_expiry (tk_expires_at_ms t) 5" "tk_args_hash t = ''h''"
    by (simp_all add: s_def t_def ts_mint_def path_ticket_def past_expiry_def u64_add_def)
  note c = use_ticket_contract [of id 5 "''t1''" "''h''" s "''t1''"]
  have "fst (use_ticket id 5 ''t1'' ''h'' s) = Inr ()"
    by (subst conjunct1 [OF c]) (use t in blast)
  moreover from this t have "snd (use_ticket id 5 ''t1'' ''h'' s) = ts_put ''t1'' (t\<lparr>tk_state := Used\<rparr>) s"
    using c by blast
  ultimately show ?thesis unfolding t_def s_def Let_def by blast
qed

text \<open>Human approval is bound to the card: it succeeds exactly for a pending ticket whose
  non-empty nonce is presented. A success turns the ticket Approved by a human and appends one
  approve receipt for it; a failure leaves the whole store as it was.\<close>

theorem approve_with_nonce_contract:
  "(fst (approve_with_nonce sha now tid n s) \<longleftrightarrow>
     (\<exists>t. ts_get s tid = Some t \<and> tk_state t = Pending \<and> n \<noteq> [] \<and> n = tk_approval_nonce t)) \<and>
   (case ts_get s tid of
      Some t \<Rightarrow>
        if fst (approve_with_nonce sha now tid n s)
        then (\<forall>k. ts_get (snd (approve_with_nonce sha now tid n s)) k =
                 (if k = tid then Some (t\<lparr>tk_state := Approved, tk_approval_source := HumanSrc\<rparr>)
                  else ts_get s k)) \<and>
             (\<exists>r. ts_receipts (snd (approve_with_nonce sha now tid n s)) = ts_receipts s @ [r] \<and>
                  rc_ticket_id r = tk_ticket_id t \<and> rc_action r = RApprove \<and> rc_ts_ms r = now)
        else snd (approve_with_nonce sha now tid n s) = s
    | None \<Rightarrow> snd (approve_with_nonce sha now tid n s) = s)"
  by (auto simp: approve_with_nonce_def approve_inner_def Let_def ts_record_def receipt_new_def
      split: option.splits)

text \<open>The context hash binds tool, operation and arguments: two tickets whose fields hold no
  NUL byte and that accept the same context hash agree on all three, as soon as SHA-256 does not
  collide on the two byte strings that were hashed for them.\<close>

theorem context_hash_binds:
  assumes "matches_context sha t h" "matches_context sha u h"
    and "list_all nul_free [tk_tool_id t, tk_operation t, tk_args_hash t]"
    and "list_all nul_free [tk_tool_id u, tk_operation u, tk_args_hash u]"
    and "inj_on sha {hash_input (context_parts t), hash_input (context_parts u)}"
  shows "tk_tool_id t = tk_tool_id u \<and> tk_operation t = tk_operation u \<and> tk_args_hash t = tk_args_hash u"
proof -
  have "hash_args sha (context_parts t) = hash_args sha (context_parts u)"
    using assms(1,2) by (simp only: matches_context_parts)
  then have "sha (hash_input (context_parts t)) = sha (hash_input (context_parts u))"
    by (simp only: hash_args_def hex_encode_inject)
  then have "hash_input (context_parts t) = hash_input (context_parts u)"
    using inj_onD [OF assms(5)] by blast
  moreover have "list_all nul_free (context_parts t)" "list_all nul_free (context_parts u)"
    using assms(3,4) by (simp_all add: context_parts_def nul_free_def)
  ultimately have "context_parts t = context_parts u" by (rule hash_input_inject [rotated 2])
  then show ?thesis by (simp add: context_parts_def)
qed

theorem context_hash_binds_witness:
  "let t = path_ticket 0 ''n'' ''t1'' ''a'' ''s'' ''fs.write'' ''write'' [] ''h'' Low 0;
       u = path_ticket 9 ''m'' ''t2'' ''b'' ''s'' ''fs.write'' ''write'' [] ''h'' High 1;
       h = ticket_context_hash id ''fs.write'' ''write'' ''h''
   in matches_context id t h \<and> matches_context id u h \<and>
      tk_tool_id t = tk_tool_id u \<and> tk_operation t = tk_operation u \<and> tk_args_hash t = tk_args_hash u"
proof -
  let ?t = "path_ticket 0 ''n'' ''t1'' ''a'' ''s'' ''fs.write'' ''write'' [] ''h'' Low 0"
  let ?u = "path_ticket 9 ''m'' ''t2'' ''b'' ''s'' ''fs.write'' ''write'' [] ''h'' High 1"
  let ?h = "ticket_context_hash id ''fs.write'' ''write'' ''h''"
  have m: "matches_context id ?t ?h" "matches_context id ?u ?h"
    by (simp_all add: matches_context_def path_ticket_def)
  have f: "list_all nul_free [tk_tool_id ?t, tk_operation ?t, tk_args_hash ?t]"
    "list_all nul_free [tk_tool_id ?u, tk_operation ?u, tk_args_hash ?u]"
    by (simp_all add: path_ticket_def nul_free_def)
  show ?thesis
    unfolding Let_def using m context_hash_binds [OF m f] by simp
qed

text \<open>The receipt log is a faithful, append-only record: from an empty store, after any
  operations, receipt \<open>i\<close> is numbered \<open>i\<close> and carries the hash of its own fields, and no later
  operation changes it.\<close>

theorem receipt_log_integrity:
  "receipts_ok sha (run (ticket_step sha) ops ticket_store_new) \<and>
   (\<forall>i < length (ts_receipts s). ts_receipts (run (ticket_step sha) ops s) ! i = ts_receipts s ! i) \<and>
   (length (ts_receipts s) \<le> length (ts_receipts (run (ticket_step sha) ops s)))"
proof (intro conjI allI impI)
  show "receipts_ok sha (run (ticket_step sha) ops ticket_store_new)"
    by (rule ticket_receipts.run_inv [OF _ admitted_True])
      (simp add: receipts_ok_def ticket_store_new_def)
  show "length (ts_receipts s) \<le> length (ts_receipts (run (ticket_step sha) ops s))"
    using ticket_log.log_prefix [of s sha ops] by (rule prefix_length_le)
qed (rule ticket_log.log_entry_stable)

theorem receipt_log_integrity_witness:
  "let t = path_ticket 0 ''n'' ''t1'' ''a'' ''s'' ''fs.write'' ''write'' [] ''h'' Low 0;
       s = run (ticket_step id) [OpMint t, OpApproveNonce 1 ''t1'' ''n''] ticket_store_new;
       s' = run (ticket_step id) [OpUse 2 ''t1'' ''h''] s
   in 0 < length (ts_receipts s) \<and> ts_receipts s' ! 0 = ts_receipts s ! 0"
proof -
  let ?t = "path_ticket 0 ''n'' ''t1'' ''a'' ''s'' ''fs.write'' ''write'' [] ''h'' Low 0"
  let ?s = "run (ticket_step id) [OpMint ?t, OpApproveNonce 1 ''t1'' ''n''] ticket_store_new"
  have "0 < length (ts_receipts ?s)"
    by (simp add: ticket_op_defs ts_record_def ts_put_def path_ticket_def ticket_store_new_def)
  then show ?thesis
    using receipt_log_integrity [of id "[OpUse 2 ''t1'' ''h'']" ?s] unfolding Let_def by blast
qed

end
