(* ===== verification/Batch.thy ===== *)
theory Batch
  imports Ticket
begin

text \<open>
  Batch tickets (\<open>everyaios-guard/src/batch.rs\<close>): one approval for an immutable change set. The
  JSON serialization of the operation list (crate \<open>serde_json\<close>) is the parameter \<open>ser\<close>, SHA-256
  the parameter \<open>sha\<close>; the clock and the nonce are arguments.
\<close>

section \<open>Change sets and batch tickets\<close>

record BatchOperation =
  bo_tool_id :: string
  bo_operation :: string
  bo_args_hash :: string
  bo_resources :: "string list"

definition batch_operation_new :: "string \<Rightarrow> string \<Rightarrow> string \<Rightarrow> string list \<Rightarrow> BatchOperation" where
  "batch_operation_new tool op h rs =
     \<lparr> bo_tool_id = tool, bo_operation = op, bo_args_hash = h, bo_resources = rs \<rparr>"

definition change_set_hash ::
  "(BatchOperation list \<Rightarrow> string) \<Rightarrow> (string \<Rightarrow> string) \<Rightarrow> BatchOperation list \<Rightarrow> string" where
  "change_set_hash ser sha ops = hash_args sha [ser ops]"

record BatchTicket =
  bt_ticket_id :: string
  bt_agent_id :: string
  bt_session_id :: string
  bt_change_set_hash :: string
  bt_operations :: "BatchOperation list"
  bt_expires_at_ms :: nat
  bt_single_use :: bool
  bt_approval_source :: ApprovalSource
  bt_approval_nonce :: string
  bt_risk :: RiskLevel
  bt_audit_seq :: nat
  bt_state :: TicketState

definition batch_ticket_mint ::
  "(BatchOperation list \<Rightarrow> string) \<Rightarrow> (string \<Rightarrow> string) \<Rightarrow> nat \<Rightarrow> string \<Rightarrow> string \<Rightarrow> string \<Rightarrow> string \<Rightarrow>
   BatchOperation list \<Rightarrow> RiskLevel \<Rightarrow> nat \<Rightarrow> BatchTicket" where
  "batch_ticket_mint ser sha now nonce tid agent sess ops risk seq =
     \<lparr> bt_ticket_id = tid, bt_agent_id = agent, bt_session_id = sess,
       bt_change_set_hash = change_set_hash ser sha ops, bt_operations = ops,
       bt_expires_at_ms = u64_add now 60000, bt_single_use = True,
       bt_approval_source = PolicySrc, bt_approval_nonce = nonce, bt_risk = risk,
       bt_audit_seq = seq, bt_state = Pending \<rparr>"

definition bt_is_valid :: "nat \<Rightarrow> BatchTicket \<Rightarrow> bool" where
  "bt_is_valid now t =
     (if bt_state t \<noteq> Approved then False
      else if past_expiry (bt_expires_at_ms t) now then False
      else True)"

definition matches_change_set :: "BatchTicket \<Rightarrow> string \<Rightarrow> bool" where
  "matches_change_set t h \<longleftrightarrow> bt_change_set_hash t = h"

definition bt_consume :: "nat \<Rightarrow> BatchTicket \<Rightarrow> string \<Rightarrow> bool \<times> BatchTicket" where
  "bt_consume now t h =
     (if \<not> bt_is_valid now t \<or> \<not> matches_change_set t h then (False, t)
      else (True, if bt_single_use t then t\<lparr>bt_state := Used\<rparr> else t))"

section \<open>Receipts\<close>

datatype BatchAction = BApprove | BReject

fun batch_action_str :: "BatchAction \<Rightarrow> string" where
  "batch_action_str BApprove = ''approve''"
| "batch_action_str BReject = ''reject''"

record BatchReceipt =
  br_receipt_id :: string
  br_ticket_id :: string
  br_session_id :: string
  br_change_set_hash :: string
  br_operation_count :: nat
  br_action :: BatchAction
  br_ts_ms :: nat
  br_hash :: string

definition batch_receipt_new ::
  "(string \<Rightarrow> string) \<Rightarrow> string \<Rightarrow> BatchTicket \<Rightarrow> BatchAction \<Rightarrow> nat \<Rightarrow> BatchReceipt" where
  "batch_receipt_new sha rid t a ts =
     \<lparr> br_receipt_id = rid, br_ticket_id = bt_ticket_id t, br_session_id = bt_session_id t,
       br_change_set_hash = bt_change_set_hash t, br_operation_count = length (bt_operations t),
       br_action = a, br_ts_ms = ts,
       br_hash = hash_args sha
         [rid, bt_ticket_id t, bt_session_id t, bt_change_set_hash t,
          show_nat (length (bt_operations t)), batch_action_str a, show_nat ts] \<rparr>"

section \<open>The batch ticket store\<close>

record BatchTicketStore =
  bs_tickets :: "BatchTicket strmap"
  bs_receipts :: "BatchReceipt list"

definition batch_store_new :: BatchTicketStore where
  "batch_store_new = \<lparr> bs_tickets = [], bs_receipts = [] \<rparr>"

abbreviation bs_get :: "BatchTicketStore \<Rightarrow> string \<Rightarrow> BatchTicket option" where
  "bs_get s tid \<equiv> lookup (bs_tickets s) tid"

definition bs_put :: "string \<Rightarrow> BatchTicket \<Rightarrow> BatchTicketStore \<Rightarrow> BatchTicketStore" where
  "bs_put tid t s = s\<lparr>bs_tickets := AList.update tid t (bs_tickets s)\<rparr>"

definition bs_mint :: "BatchTicket \<Rightarrow> BatchTicketStore \<Rightarrow> string \<times> BatchTicketStore" where
  "bs_mint t s = (bt_ticket_id t, bs_put (bt_ticket_id t) t s)"

definition bs_pending :: "BatchTicketStore \<Rightarrow> BatchTicket list" where
  "bs_pending s = filter (\<lambda>t. bt_state t = Pending) (map snd (bs_tickets s))"

definition bs_record ::
  "(string \<Rightarrow> string) \<Rightarrow> nat \<Rightarrow> string \<Rightarrow> BatchAction \<Rightarrow> BatchTicketStore \<Rightarrow> bool \<times> BatchTicketStore" where
  "bs_record sha now tid a s =
     (case bs_get s tid of
        None \<Rightarrow> (False, s)
      | Some t \<Rightarrow>
          (True, s\<lparr>bs_receipts := bs_receipts s @
             [batch_receipt_new sha (''brcpt:'' @ show_nat (length (bs_receipts s))) t a now]\<rparr>))"

definition bs_approve_with_nonce ::
  "(string \<Rightarrow> string) \<Rightarrow> nat \<Rightarrow> string \<Rightarrow> string \<Rightarrow> BatchTicketStore \<Rightarrow> bool \<times> BatchTicketStore" where
  "bs_approve_with_nonce sha now tid nonce s =
     (let (good, s1) =
        (case bs_get s tid of
           Some t \<Rightarrow>
             if bt_state t = Pending \<and> nonce \<noteq> [] \<and> nonce = bt_approval_nonce t
             then (True, bs_put tid (t\<lparr>bt_state := Approved, bt_approval_source := HumanSrc\<rparr>) s)
             else (False, s)
         | None \<Rightarrow> (False, s))
      in (good, if good then snd (bs_record sha now tid BApprove s1) else s1))"

definition bs_approve ::
  "(string \<Rightarrow> string) \<Rightarrow> nat \<Rightarrow> string \<Rightarrow> BatchTicketStore \<Rightarrow> bool \<times> BatchTicketStore" where
  "bs_approve sha now tid s =
     (let (good, s1) =
        (case bs_get s tid of
           Some t \<Rightarrow>
             if bt_state t = Pending
             then (True, bs_put tid (t\<lparr>bt_state := Approved, bt_approval_source := PolicySrc\<rparr>) s)
             else (False, s)
         | None \<Rightarrow> (False, s))
      in (good, if good then snd (bs_record sha now tid BApprove s1) else s1))"

definition bs_reject_with_nonce ::
  "(string \<Rightarrow> string) \<Rightarrow> nat \<Rightarrow> string \<Rightarrow> string \<Rightarrow> BatchTicketStore \<Rightarrow> bool \<times> BatchTicketStore" where
  "bs_reject_with_nonce sha now tid nonce s =
     (let (good, s1) =
        (case bs_get s tid of
           Some t \<Rightarrow>
             if bt_state t = Pending \<and> nonce \<noteq> [] \<and> nonce = bt_approval_nonce t
             then (True, bs_put tid (t\<lparr>bt_state := Revoked\<rparr>) s)
             else (False, s)
         | None \<Rightarrow> (False, s))
      in (good, if good then snd (bs_record sha now tid BReject s1) else s1))"

definition bs_revoke :: "string \<Rightarrow> BatchTicketStore \<Rightarrow> BatchTicketStore" where
  "bs_revoke tid s =
     (case bs_get s tid of
        None \<Rightarrow> s
      | Some t \<Rightarrow> bs_put tid (t\<lparr>bt_state := Revoked\<rparr>) s)"

definition use_batch_ticket ::
  "nat \<Rightarrow> string \<Rightarrow> string \<Rightarrow> BatchTicketStore \<Rightarrow> (TicketError + unit) \<times> BatchTicketStore" where
  "use_batch_ticket now tid h s =
     (case bs_get s tid of
        None \<Rightarrow> (Inl ErrUnknown, s)
      | Some t \<Rightarrow>
          if past_expiry (bt_expires_at_ms t) now
          then (Inl ErrExpired, bs_put tid (t\<lparr>bt_state := Expired\<rparr>) s)
          else if bt_state t = Used then (Inl ErrAlreadyUsed, s)
          else if bt_state t = Revoked then (Inl ErrRevoked, s)
          else if bt_state t = Pending then (Inl ErrNotApproved, s)
          else if \<not> matches_change_set t h
          then (Inl ErrArgsMismatch, bs_put tid (t\<lparr>bt_state := Rejected\<rparr>) s)
          else if bt_single_use t
          then (Inr (), bs_put tid (t\<lparr>bt_state := Used\<rparr>) s)
          else (Inr (), s))"

section \<open>Operation sequences under a clock\<close>

text \<open>
  Each call is made at a time; the state of the sequence is the store and the time of the last
  call. \<open>batch_admits\<close> asks for a clock that does not go backwards, no second mint of the id, and
  the Pending gate on writes through \<open>get_mut\<close>, which keep the fields that identify the set.
\<close>

datatype BatchOp =
    BOpMint BatchTicket
  | BOpUse string string
  | BOpRevoke string
  | BOpApprove string
  | BOpApproveNonce string string
  | BOpRejectNonce string string
  | BOpGetMut string "BatchTicket \<Rightarrow> BatchTicket"

type_synonym batch_clocked = "BatchTicketStore \<times> nat"

fun batch_apply :: "(string \<Rightarrow> string) \<Rightarrow> nat \<Rightarrow> BatchOp \<Rightarrow> BatchTicketStore \<Rightarrow> BatchTicketStore" where
  "batch_apply sha now (BOpMint t) s = snd (bs_mint t s)"
| "batch_apply sha now (BOpUse tid h) s = snd (use_batch_ticket now tid h s)"
| "batch_apply sha now (BOpRevoke tid) s = bs_revoke tid s"
| "batch_apply sha now (BOpApprove tid) s = snd (bs_approve sha now tid s)"
| "batch_apply sha now (BOpApproveNonce tid n) s = snd (bs_approve_with_nonce sha now tid n s)"
| "batch_apply sha now (BOpRejectNonce tid n) s = snd (bs_reject_with_nonce sha now tid n s)"
| "batch_apply sha now (BOpGetMut tid f) s =
     (case bs_get s tid of None \<Rightarrow> s | Some t \<Rightarrow> bs_put tid (f t) s)"

fun batch_step :: "(string \<Rightarrow> string) \<Rightarrow> nat \<times> BatchOp \<Rightarrow> batch_clocked \<Rightarrow> batch_clocked" where
  "batch_step sha (now, x) (s, clk) = (batch_apply sha now x s, now)"

fun batch_gate :: "string \<Rightarrow> BatchOp \<Rightarrow> BatchTicketStore \<Rightarrow> bool" where
  "batch_gate tid (BOpMint t) s \<longleftrightarrow> bt_ticket_id t \<noteq> tid"
| "batch_gate tid (BOpGetMut tid' f) s \<longleftrightarrow>
     (case bs_get s tid' of
        None \<Rightarrow> True
      | Some t \<Rightarrow> bt_state t = Pending \<and> bt_state (f t) = Pending \<and>
          bt_single_use (f t) = bt_single_use t)"
| "batch_gate tid _ s \<longleftrightarrow> True"

fun batch_admits :: "string \<Rightarrow> nat \<times> BatchOp \<Rightarrow> batch_clocked \<Rightarrow> bool" where
  "batch_admits tid (now, x) (s, clk) \<longleftrightarrow> clk \<le> now \<and> batch_gate tid x s"

fun batch_consumes :: "string \<Rightarrow> nat \<times> BatchOp \<Rightarrow> batch_clocked \<Rightarrow> bool" where
  "batch_consumes tid (now, BOpUse tid' h) (s, clk) \<longleftrightarrow>
     tid' = tid \<and> fst (use_batch_ticket now tid h s) = Inr () \<and>
     (case bs_get s tid of None \<Rightarrow> False | Some t \<Rightarrow> bt_single_use t)"
| "batch_consumes tid _ _ \<longleftrightarrow> False"

fun batch_spent :: "string \<Rightarrow> batch_clocked \<Rightarrow> bool" where
  "batch_spent tid (s, clk) \<longleftrightarrow>
     (case bs_get s tid of
        None \<Rightarrow> False
      | Some t \<Rightarrow> bt_state t \<in> {Used, Revoked} \<or>
          bt_state t = Expired \<and> past_expiry (bt_expires_at_ms t) clk)"

section \<open>Lookups and preservation\<close>

lemma bs_get_put [simp]:
  "bs_get (bs_put tid t s) k = (if k = tid then Some t else bs_get s k)"
  by (simp add: bs_put_def)

lemma bs_receipts_put [simp]: "bs_receipts (bs_put tid t s) = bs_receipts s"
  by (simp add: bs_put_def)

lemma bs_tickets_record [simp]: "bs_tickets (snd (bs_record sha now tid a s)) = bs_tickets s"
  by (simp add: bs_record_def split: option.splits)

lemmas batch_op_defs =
  bs_mint_def use_batch_ticket_def bs_revoke_def bs_approve_def bs_approve_with_nonce_def
  bs_reject_with_nonce_def Let_def

lemma past_expiry_mono: "past_expiry e a \<Longrightarrow> a \<le> b \<Longrightarrow> past_expiry e b"
  by (simp add: past_expiry_def)

lemma use_batch_ok_iff:
  "fst (use_batch_ticket now tid h s) = Inr () \<longleftrightarrow>
   (\<exists>t. bs_get s tid = Some t \<and> \<not> past_expiry (bt_expires_at_ms t) now \<and>
        bt_state t \<in> {Approved, Rejected, Expired} \<and> bt_change_set_hash t = h)"
  by (cases "bs_get s tid")
    (auto simp: use_batch_ticket_def matches_change_set_def, (metis TicketState.exhaust)+)

lemma use_batch_ok_post:
  "fst (use_batch_ticket now tid h s) = Inr () \<Longrightarrow> bs_get s tid = Some t \<Longrightarrow>
   snd (use_batch_ticket now tid h s) =
     (if bt_single_use t then bs_put tid (t\<lparr>bt_state := Used\<rparr>) s else s)"
  by (auto simp: use_batch_ticket_def split: if_splits)

lemma batch_spent_step:
  assumes "batch_admits tid x s" "batch_spent tid s"
  shows "batch_spent tid (batch_step sha x s)"
proof -
  obtain now op where x: "x = (now, op)" by (cases x)
  obtain st clk where s: "s = (st, clk)" by (cases s)
  from assms x s obtain t where "bs_get st tid = Some t" "clk \<le> now"
    by (auto split: option.splits)
  then show ?thesis
    using assms x s by (cases op) (auto simp: batch_op_defs past_expiry_mono split: option.splits)
qed

lemma batch_consume_spends: "batch_consumes tid x s \<Longrightarrow> batch_spent tid (batch_step sha x s)"
  by (cases "(tid, x, s)" rule: batch_consumes.cases)
    (auto simp: use_batch_ok_post split: option.splits)

lemma batch_spent_refused:
  assumes "batch_admits tid x s" "batch_spent tid s"
  shows "\<not> batch_consumes tid x s"
  using assms by (cases "(tid, x, s)" rule: batch_consumes.cases)
    (auto simp: use_batch_ok_iff dest: past_expiry_mono split: option.splits)

interpretation batch_once: consumable_store "batch_step sha" batch_admits batch_consumes batch_spent
  by unfold_locales (blast intro: batch_consume_spends batch_spent_step dest: batch_spent_refused)+

lemma batch_step_appends: "\<exists>es. bs_receipts (fst (batch_step sha x s)) = bs_receipts (fst s) @ es"
  by (cases "(sha, x, s)" rule: batch_step.cases; cases "snd x")
    (auto simp: batch_op_defs bs_record_def split: option.splits)

interpretation batch_log: append_only "batch_step sha" "\<lambda>s. bs_receipts (fst s)"
  by unfold_locales (rule batch_step_appends)

section \<open>The stored hash is the hash of the stored operations\<close>

definition batch_bound ::
  "(BatchOperation list \<Rightarrow> string) \<Rightarrow> (string \<Rightarrow> string) \<Rightarrow> batch_clocked \<Rightarrow> bool" where
  "batch_bound ser sha s \<longleftrightarrow>
     (\<forall>tid t. bs_get (fst s) tid = Some t \<longrightarrow> bt_change_set_hash t = change_set_hash ser sha (bt_operations t))"

text \<open>Tickets enter through \<open>BatchTicket::mint\<close>; a write through \<open>get_mut\<close> keeps the set.\<close>

fun batch_mints_bound ::
  "(BatchOperation list \<Rightarrow> string) \<Rightarrow> (string \<Rightarrow> string) \<Rightarrow> nat \<times> BatchOp \<Rightarrow> batch_clocked \<Rightarrow> bool" where
  "batch_mints_bound ser sha (now, BOpMint t) s \<longleftrightarrow>
     t = batch_ticket_mint ser sha now (bt_approval_nonce t) (bt_ticket_id t) (bt_agent_id t)
           (bt_session_id t) (bt_operations t) (bt_risk t) (bt_audit_seq t)"
| "batch_mints_bound ser sha (now, BOpGetMut tid f) s \<longleftrightarrow>
     (\<forall>t. bt_operations (f t) = bt_operations t \<and> bt_change_set_hash (f t) = bt_change_set_hash t)"
| "batch_mints_bound ser sha _ s \<longleftrightarrow> True"

lemma batch_mint_bound:
  "batch_mints_bound ser sha (now, BOpMint t) s \<Longrightarrow>
   bt_change_set_hash t = change_set_hash ser sha (bt_operations t)"
proof -
  assume "batch_mints_bound ser sha (now, BOpMint t) s"
  then have "bt_change_set_hash t = bt_change_set_hash (batch_ticket_mint ser sha now
      (bt_approval_nonce t) (bt_ticket_id t) (bt_agent_id t) (bt_session_id t) (bt_operations t)
      (bt_risk t) (bt_audit_seq t))"
    by simp
  then show ?thesis by (simp add: batch_ticket_mint_def)
qed

lemma batch_bound_step:
  assumes "batch_bound ser sha s" "batch_mints_bound ser sha x s"
  shows "batch_bound ser sha (batch_step sha x s)"
proof -
  obtain now op where x: "x = (now, op)" by (cases x)
  obtain st clk where s: "s = (st, clk)" by (cases s)
  show ?thesis
  proof (cases op)
    case (BOpMint t)
    then show ?thesis
      using assms x s batch_mint_bound [of ser sha now t s]
      by (auto simp: batch_bound_def batch_op_defs)
  qed (use assms x s in \<open>auto simp: batch_bound_def batch_op_defs split: option.splits\<close>)
qed

interpretation batch_binding: invariant_system "batch_step sha" "batch_mints_bound ser sha" "batch_bound ser sha"
  by unfold_locales (rule batch_bound_step)

section \<open>Properties of batch tickets\<close>

text \<open>A single-use batch ticket is consumed at most once over any sequence of store calls made
  under a clock that does not run backwards and that does not mint the id again.\<close>

theorem batch_consumed_at_most_once:
  assumes "admitted (batch_step sha) (batch_admits tid) ops s"
  shows "count_steps (batch_step sha) (batch_consumes tid) ops s \<le> 1"
  using assms by (rule batch_once.at_most_once)

theorem batch_consumed_at_most_once_witness:
  "let t = batch_ticket_mint (\<lambda>_. ''x'') id 0 ''n'' ''b1'' ''a'' ''s'' [] Low 0;
       s = (snd (bs_mint t batch_store_new), 0);
       h = bt_change_set_hash t;
       ops = [(1, BOpApproveNonce ''b1'' ''n''), (2, BOpUse ''b1'' h), (90000, BOpUse ''b1'' h)]
   in admitted (batch_step id) (batch_admits ''b1'') ops s \<and>
      count_steps (batch_step id) (batch_consumes ''b1'') ops s \<le> 1 \<and>
      count_steps (batch_step id) (batch_consumes ''b1'') ops s = 1"
proof -
  let ?t = "batch_ticket_mint (\<lambda>_. ''x'') id 0 ''n'' ''b1'' ''a'' ''s'' [] Low 0"
  let ?s = "(snd (bs_mint ?t batch_store_new), 0)"
  let ?h = "bt_change_set_hash ?t"
  let ?ops = "[(1, BOpApproveNonce ''b1'' ''n''), (2, BOpUse ''b1'' ?h), (90000, BOpUse ''b1'' ?h)]"
  have "admitted (batch_step id) (batch_admits ''b1'') ?ops ?s" by simp
  moreover from this have "count_steps (batch_step id) (batch_consumes ''b1'') ?ops ?s \<le> 1"
    by (rule batch_consumed_at_most_once)
  moreover have "count_steps (batch_step id) (batch_consumes ''b1'') ?ops ?s = 1"
    by (simp add: batch_op_defs bs_record_def bs_put_def batch_ticket_mint_def batch_store_new_def
        u64_add_def past_expiry_def matches_change_set_def)
  ultimately show ?thesis unfolding Let_def by blast
qed

text \<open>The approval covers exactly the presented change set: in a store reached from the empty
  one through \<open>BatchTicket::mint\<close>, a use that succeeds with the hash of an operation list was
  approved for that very list, when the serialization distinguishes the two lists and SHA-256 does
  not collide on them.\<close>

theorem batch_approval_covers_exact_set:
  assumes "admitted (batch_step sha) (batch_mints_bound ser sha) ops (batch_store_new, 0)"
    and "fst (run (batch_step sha) ops (batch_store_new, 0)) = s"
    and "fst (use_batch_ticket now tid (change_set_hash ser sha presented) s) = Inr ()"
    and "bs_get s tid = Some t"
    and "inj_on ser {bt_operations t, presented}"
    and "inj_on sha {hash_input [ser (bt_operations t)], hash_input [ser presented]}"
  shows "bt_operations t = presented"
proof -
  have "batch_bound ser sha (run (batch_step sha) ops (batch_store_new, 0))"
    by (rule batch_binding.run_inv [OF _ assms(1)]) (simp add: batch_bound_def batch_store_new_def)
  then have "bt_change_set_hash t = change_set_hash ser sha (bt_operations t)"
    using assms(2,4) by (simp add: batch_bound_def)
  then have "change_set_hash ser sha (bt_operations t) = change_set_hash ser sha presented"
    using assms(3,4) by (simp add: use_batch_ok_iff)
  then have "sha (hash_input [ser (bt_operations t)]) = sha (hash_input [ser presented])"
    by (simp only: change_set_hash_def hash_args_def hex_encode_inject)
  then have "hash_input [ser (bt_operations t)] = hash_input [ser presented]"
    using inj_onD [OF assms(6)] by blast
  then have "ser (bt_operations t) = ser presented" by simp
  then show ?thesis using inj_onD [OF assms(5)] by blast
qed

theorem batch_approval_covers_exact_set_witness:
  "let ser = (\<lambda>ops :: BatchOperation list. concat (map bo_args_hash ops));
       set1 = [batch_operation_new ''xlsx'' ''write'' ''h1'' [''A1'']];
       t = batch_ticket_mint ser id 0 ''n'' ''b1'' ''a'' ''s'' set1 Low 0;
       s = fst (run (batch_step id) [(0, BOpMint t), (1, BOpApproveNonce ''b1'' ''n'')] (batch_store_new, 0))
   in fst (use_batch_ticket 2 ''b1'' (change_set_hash ser id set1) s) = Inr () \<and>
      bt_operations (the (bs_get s ''b1'')) = set1"
proof -
  define ser where "ser = (\<lambda>ops :: BatchOperation list. concat (map bo_args_hash ops))"
  define set1 where "set1 = [batch_operation_new ''xlsx'' ''write'' ''h1'' [''A1'']]"
  define t where "t = batch_ticket_mint ser id 0 ''n'' ''b1'' ''a'' ''s'' set1 Low 0"
  define t' where "t' = t\<lparr>bt_state := Approved, bt_approval_source := HumanSrc\<rparr>"
  define ops where "ops = [(0::nat, BOpMint t), (1, BOpApproveNonce ''b1'' ''n'')]"
  define s where "s = fst (run (batch_step id) ops (batch_store_new, 0))"
  have adm: "admitted (batch_step id) (batch_mints_bound ser id) ops (batch_store_new, 0)"
    by (simp add: ops_def t_def batch_ticket_mint_def)
  have get: "bs_get s ''b1'' = Some t'"
    by (simp add: s_def ops_def t'_def t_def batch_op_defs batch_ticket_mint_def)
  have use: "fst (use_batch_ticket 2 ''b1'' (change_set_hash ser id set1) s) = Inr ()"
    unfolding use_batch_ok_iff get
    by (simp add: t'_def t_def batch_ticket_mint_def past_expiry_def u64_add_def)
  have ops: "bt_operations t' = set1" by (simp add: t'_def t_def batch_ticket_mint_def)
  have "bt_operations t' = set1"
    by (rule batch_approval_covers_exact_set [OF adm s_def [symmetric] use get]) (simp_all add: ops)
  with use get show ?thesis
    unfolding Let_def s_def ops_def t_def ser_def set1_def by simp
qed

text \<open>What \<open>use_batch_ticket\<close> accepts and does: it succeeds exactly for a known, unexpired ticket
  with the approved change-set hash that is not Used, Revoked or Pending; success marks a single-use
  ticket Used, a wrong hash marks it Rejected, and no call adds a receipt. A ticket that an earlier
  wrong hash turned Rejected is therefore still consumable with the right one.\<close>

theorem use_batch_contract:
  "(fst (use_batch_ticket now tid h s) = Inr () \<longleftrightarrow>
     (\<exists>t. bs_get s tid = Some t \<and> \<not> past_expiry (bt_expires_at_ms t) now \<and>
        bt_state t \<notin> {Used, Revoked, Pending} \<and> bt_change_set_hash t = h)) \<and>
   (fst (use_batch_ticket now tid h s) = Inr () \<longrightarrow> (\<forall>t. bs_get s tid = Some t \<longrightarrow>
      snd (use_batch_ticket now tid h s) =
        (if bt_single_use t then bs_put tid (t\<lparr>bt_state := Used\<rparr>) s else s))) \<and>
   (fst (use_batch_ticket now tid h s) = Inl ErrArgsMismatch \<longrightarrow> (\<forall>t. bs_get s tid = Some t \<longrightarrow>
      snd (use_batch_ticket now tid h s) = bs_put tid (t\<lparr>bt_state := Rejected\<rparr>) s)) \<and>
   bs_receipts (snd (use_batch_ticket now tid h s)) = bs_receipts s"
proof -
  have st: "st \<in> {Approved, Rejected, Expired} \<longleftrightarrow> st \<notin> {Used, Revoked, Pending}" for st
    by (cases st) auto
  have "bs_receipts (snd (use_batch_ticket now tid h s)) = bs_receipts s"
    by (simp add: use_batch_ticket_def split: option.splits)
  moreover have "fst (use_batch_ticket now tid h s) = Inl ErrArgsMismatch \<longrightarrow>
      (\<forall>t. bs_get s tid = Some t \<longrightarrow>
        snd (use_batch_ticket now tid h s) = bs_put tid (t\<lparr>bt_state := Rejected\<rparr>) s)"
    by (auto simp: use_batch_ticket_def split: if_splits)
  ultimately show ?thesis
    using use_batch_ok_iff [of now tid h s, unfolded st] use_batch_ok_post [of now tid h s] by blast
qed

theorem use_batch_contract_witness:
  "let t = (batch_ticket_mint (\<lambda>_. ''x'') id 0 ''n'' ''b1'' ''a'' ''s'' [] Low 0)\<lparr>bt_state := Approved\<rparr>;
       s = snd (bs_mint t batch_store_new);
       s1 = snd (use_batch_ticket 1 ''b1'' ''wrong'' s)
   in fst (use_batch_ticket 1 ''b1'' ''wrong'' s) = Inl ErrArgsMismatch \<and>
      s1 = bs_put ''b1'' (t\<lparr>bt_state := Rejected\<rparr>) s \<and>
      fst (use_batch_ticket 2 ''b1'' (bt_change_set_hash t) s1) = Inr ()"
proof -
  define t where "t = (batch_ticket_mint (\<lambda>_. ''x'') id 0 ''n'' ''b1'' ''a'' ''s'' [] Low 0)\<lparr>bt_state := Approved\<rparr>"
  define s where "s = snd (bs_mint t batch_store_new)"
  have get: "bs_get s ''b1'' = Some t"
    by (simp add: s_def t_def bs_mint_def batch_ticket_mint_def)
  have bad: "fst (use_batch_ticket 1 ''b1'' ''wrong'' s) = Inl ErrArgsMismatch"
    by (simp add: use_batch_ticket_def get)
      (simp add: t_def batch_ticket_mint_def past_expiry_def u64_add_def matches_change_set_def
        change_set_hash_def hash_args_def hex_encode_def hex_byte_def hex_digit_def)
  have s1: "snd (use_batch_ticket 1 ''b1'' ''wrong'' s) = bs_put ''b1'' (t\<lparr>bt_state := Rejected\<rparr>) s"
    using use_batch_contract [of 1 "''b1''" "''wrong''" s] bad get by blast
  have "fst (use_batch_ticket 2 ''b1'' (bt_change_set_hash t) (bs_put ''b1'' (t\<lparr>bt_state := Rejected\<rparr>) s)) = Inr ()"
    by (simp add: use_batch_ticket_def matches_change_set_def t_def batch_ticket_mint_def
        past_expiry_def u64_add_def)
  with bad s1 show ?thesis unfolding t_def s_def Let_def by simp
qed

end
