(* ===== verification/Permissions.thy ===== *)
theory Permissions
  imports Guard_Types
begin

text \<open>
  The \<open>permissions.toml\<close> policy layer (\<open>everyaios-guard/src/permissions.rs\<close>): operations, rules,
  the evaluated policy, autonomy presets, rule bundles and the file parser. The TOML parser
  (crate \<open>toml\<close>) is the parameter \<open>toml\<close> of \<open>policy_parse\<close>: it yields the raw table or fails.
\<close>

section \<open>Operations and rules\<close>

datatype PolicyAction = PolicyAllow | PolicyAsk | PolicyBlock

datatype Operation =
    DeleteFiles
  | MultiFileEdit nat
  | ExternalNetworkOp bool
  | TerminalShell bool
  | WebAction
  | GenericWrite
  | ReadOp bool

fun op_name :: "Operation \<Rightarrow> string" where
  "op_name DeleteFiles = ''delete''"
| "op_name (MultiFileEdit _) = ''multi_file_edit''"
| "op_name (ExternalNetworkOp _) = ''external_network''"
| "op_name (TerminalShell _) = ''terminal_shell''"
| "op_name WebAction = ''web_action''"
| "op_name GenericWrite = ''write''"
| "op_name (ReadOp _) = ''read''"

datatype Rule =
    AlwaysAsk
  | AlwaysAllow
  | BlockRule
  | AskIfGt nat
  | AskIfNewDomain
  | AskIfDestructive

fun rule_str :: "Rule \<Rightarrow> string" where
  "rule_str AlwaysAsk = ''always_ask''"
| "rule_str AlwaysAllow = ''always_allow''"
| "rule_str BlockRule = ''block''"
| "rule_str (AskIfGt n) = ''ask_if_gt_'' @ show_nat n"
| "rule_str AskIfNewDomain = ''ask_if_new_domain''"
| "rule_str AskIfDestructive = ''ask_if_destructive''"

definition rule_parse :: "string \<Rightarrow> Rule option" where
  "rule_parse s =
     (let t = str_trim s in
      if t = ''always_ask'' \<or> t = ''ask'' then Some AlwaysAsk
      else if t = ''always_allow'' \<or> t = ''allow'' then Some AlwaysAllow
      else if t = ''block'' \<or> t = ''deny'' then Some BlockRule
      else if t = ''ask_if_new_domain'' then Some AskIfNewDomain
      else if t = ''ask_if_destructive'' then Some AskIfDestructive
      else Option.bind (strip_prefix t ''ask_if_gt_'')
             (\<lambda>n. map_option AskIfGt (parse_u32 n)))"

fun rule_evaluate :: "Rule \<Rightarrow> Operation \<Rightarrow> PolicyAction" where
  "rule_evaluate AlwaysAsk _ = PolicyAsk"
| "rule_evaluate AlwaysAllow _ = PolicyAllow"
| "rule_evaluate BlockRule _ = PolicyBlock"
| "rule_evaluate (AskIfGt n) (MultiFileEdit files) = (if n < files then PolicyAsk else PolicyAllow)"
| "rule_evaluate (AskIfGt n) _ = PolicyAllow"
| "rule_evaluate AskIfNewDomain (ExternalNetworkOp new_domain) =
     (if new_domain then PolicyAsk else PolicyAllow)"
| "rule_evaluate AskIfNewDomain _ = PolicyAllow"
| "rule_evaluate AskIfDestructive (TerminalShell destructive) =
     (if destructive then PolicyAsk else PolicyAllow)"
| "rule_evaluate AskIfDestructive _ = PolicyAllow"

section \<open>The policy\<close>

record RawTable =
  raw_delete_files :: "string option"
  raw_multi_file_edit :: "string option"
  raw_external_network :: "string option"
  raw_terminal_shell :: "string option"
  raw_web_action :: "string option"
  raw_write :: "string option"
  raw_read_sensitive :: "string option"
  raw_min_confidence :: "f64 option"
  raw_feedback :: "bool option"

record PermissionsPolicy =
  pp_delete_files :: Rule
  pp_multi_file_edit :: Rule
  pp_external_network :: Rule
  pp_terminal_shell :: Rule
  pp_web_action :: Rule
  pp_write :: Rule
  pp_read_sensitive :: Rule
  pp_min_confidence :: f64
  pp_feedback :: bool

definition policy_default :: PermissionsPolicy where
  "policy_default =
     \<lparr> pp_delete_files = AlwaysAsk, pp_multi_file_edit = AskIfGt 5,
       pp_external_network = AskIfNewDomain, pp_terminal_shell = AskIfDestructive,
       pp_web_action = AlwaysAsk, pp_write = AlwaysAsk, pp_read_sensitive = AlwaysAsk,
       pp_min_confidence = Fin (85 / 100), pp_feedback = True \<rparr>"

datatype AutonomyPreset = PresetSandbox | PresetAsk | PresetAuto | PresetMaximum

fun preset_as_str :: "AutonomyPreset \<Rightarrow> string" where
  "preset_as_str PresetSandbox = ''sandbox''"
| "preset_as_str PresetAsk = ''ask''"
| "preset_as_str PresetAuto = ''auto''"
| "preset_as_str PresetMaximum = ''maximum''"

definition preset_parse :: "string \<Rightarrow> AutonomyPreset option" where
  "preset_parse s =
     (let l = to_lowercase s in
      if l \<in> {''sandbox'', ''plan'', ''read_only''} then Some PresetSandbox
      else if l \<in> {''ask'', ''interactive'', ''default''} then Some PresetAsk
      else if l = ''auto'' then Some PresetAuto
      else if l \<in> {''maximum'', ''run_everything'', ''max'', ''custom''} then Some PresetMaximum
      else None)"

fun preset :: "AutonomyPreset \<Rightarrow> PermissionsPolicy" where
  "preset PresetSandbox =
     \<lparr> pp_delete_files = BlockRule, pp_multi_file_edit = BlockRule,
       pp_external_network = BlockRule, pp_terminal_shell = BlockRule,
       pp_web_action = BlockRule, pp_write = BlockRule, pp_read_sensitive = BlockRule,
       pp_min_confidence = Fin 1, pp_feedback = False \<rparr>"
| "preset PresetAsk =
     \<lparr> pp_delete_files = AlwaysAsk, pp_multi_file_edit = AskIfGt 5,
       pp_external_network = AskIfNewDomain, pp_terminal_shell = AskIfDestructive,
       pp_web_action = AlwaysAsk, pp_write = AlwaysAsk, pp_read_sensitive = AlwaysAsk,
       pp_min_confidence = Fin (85 / 100), pp_feedback = True \<rparr>"
| "preset PresetAuto =
     \<lparr> pp_delete_files = AlwaysAsk, pp_multi_file_edit = AlwaysAllow,
       pp_external_network = AskIfNewDomain, pp_terminal_shell = AskIfDestructive,
       pp_web_action = AlwaysAsk, pp_write = AlwaysAllow, pp_read_sensitive = AlwaysAsk,
       pp_min_confidence = Fin (75 / 100), pp_feedback = True \<rparr>"
| "preset PresetMaximum =
     \<lparr> pp_delete_files = AlwaysAsk, pp_multi_file_edit = AlwaysAllow,
       pp_external_network = AskIfNewDomain, pp_terminal_shell = AskIfDestructive,
       pp_web_action = AlwaysAsk, pp_write = AlwaysAllow, pp_read_sensitive = AlwaysAsk,
       pp_min_confidence = Fin (6 / 10), pp_feedback = True \<rparr>"

text \<open>The field updates of \<open>parse\<close>: a key that is absent or does not parse keeps the default.\<close>

definition parsed_or :: "Rule \<Rightarrow> string option \<Rightarrow> Rule" where
  "parsed_or d raw = (case Option.bind raw rule_parse of Some r \<Rightarrow> r | None \<Rightarrow> d)"

definition policy_of_raw :: "RawTable \<Rightarrow> PermissionsPolicy" where
  "policy_of_raw t =
     (let p = policy_default in
      \<lparr> pp_delete_files = parsed_or (pp_delete_files p) (raw_delete_files t),
        pp_multi_file_edit = parsed_or (pp_multi_file_edit p) (raw_multi_file_edit t),
        pp_external_network = parsed_or (pp_external_network p) (raw_external_network t),
        pp_terminal_shell = parsed_or (pp_terminal_shell p) (raw_terminal_shell t),
        pp_web_action = parsed_or (pp_web_action p) (raw_web_action t),
        pp_write = parsed_or (pp_write p) (raw_write t),
        pp_read_sensitive = parsed_or (pp_read_sensitive p) (raw_read_sensitive t),
        pp_min_confidence = (case raw_min_confidence t of
            None \<Rightarrow> pp_min_confidence p | Some m \<Rightarrow> f64_clamp m 0 1),
        pp_feedback = (case raw_feedback t of None \<Rightarrow> pp_feedback p | Some u \<Rightarrow> u) \<rparr>)"

definition policy_parse :: "(string \<Rightarrow> RawTable option) \<Rightarrow> string \<Rightarrow> PermissionsPolicy" where
  "policy_parse toml doc =
     (case toml doc of None \<Rightarrow> policy_default | Some raw \<Rightarrow> policy_of_raw raw)"

definition is_preset :: "PermissionsPolicy \<Rightarrow> AutonomyPreset \<Rightarrow> bool" where
  "is_preset q level \<longleftrightarrow>
     (let p = preset level in
      pp_delete_files p = pp_delete_files q \<and>
      pp_multi_file_edit p = pp_multi_file_edit q \<and>
      pp_external_network p = pp_external_network q \<and>
      pp_terminal_shell p = pp_terminal_shell q \<and>
      pp_web_action p = pp_web_action q \<and>
      pp_write p = pp_write q \<and>
      pp_read_sensitive p = pp_read_sensitive q \<and>
      f64_close (pp_min_confidence p) (pp_min_confidence q))"

text \<open>One assignment of \<open>apply_rules\<close>; \<open>None\<close> for a key outside the canonical set.\<close>

definition set_rule :: "string \<Rightarrow> Rule \<Rightarrow> PermissionsPolicy \<Rightarrow> PermissionsPolicy option" where
  "set_rule key r p =
     (if key = ''delete_files'' then Some (p\<lparr>pp_delete_files := r\<rparr>)
      else if key = ''multi_file_edit'' then Some (p\<lparr>pp_multi_file_edit := r\<rparr>)
      else if key = ''external_network'' then Some (p\<lparr>pp_external_network := r\<rparr>)
      else if key = ''terminal_shell'' then Some (p\<lparr>pp_terminal_shell := r\<rparr>)
      else if key = ''web_action'' then Some (p\<lparr>pp_web_action := r\<rparr>)
      else if key = ''write'' then Some (p\<lparr>pp_write := r\<rparr>)
      else if key = ''read_sensitive'' then Some (p\<lparr>pp_read_sensitive := r\<rparr>)
      else None)"

text \<open>The loop of \<open>apply_rules\<close>. The policy is written in place, so the rules before the first
  refused one stay applied when the call returns an error.\<close>

fun apply_rules_from ::
  "nat \<Rightarrow> (string \<times> string) list \<Rightarrow> PermissionsPolicy \<Rightarrow> (string + nat) \<times> PermissionsPolicy" where
  "apply_rules_from n [] p = (Inr n, p)"
| "apply_rules_from n ((key, rule) # rest) p =
     (case rule_parse rule of
        None \<Rightarrow> (Inl (''unknown rule: '' @ rule), p)
      | Some r \<Rightarrow>
          (case set_rule key r p of
             None \<Rightarrow> (Inl (''unknown permission key: '' @ key), p)
           | Some p' \<Rightarrow> apply_rules_from (Suc n) rest p'))"

definition apply_rules ::
  "(string \<times> string) list \<Rightarrow> PermissionsPolicy \<Rightarrow> (string + nat) \<times> PermissionsPolicy" where
  "apply_rules rules p = apply_rules_from 0 rules p"

fun policy_evaluate :: "PermissionsPolicy \<Rightarrow> Operation \<Rightarrow> PolicyAction" where
  "policy_evaluate p DeleteFiles = rule_evaluate (pp_delete_files p) DeleteFiles"
| "policy_evaluate p (MultiFileEdit n) = rule_evaluate (pp_multi_file_edit p) (MultiFileEdit n)"
| "policy_evaluate p (ExternalNetworkOp d) = rule_evaluate (pp_external_network p) (ExternalNetworkOp d)"
| "policy_evaluate p (TerminalShell d) = rule_evaluate (pp_terminal_shell p) (TerminalShell d)"
| "policy_evaluate p WebAction = rule_evaluate (pp_web_action p) WebAction"
| "policy_evaluate p GenericWrite = rule_evaluate (pp_write p) GenericWrite"
| "policy_evaluate p (ReadOp False) = PolicyAllow"
| "policy_evaluate p (ReadOp True) = rule_evaluate (pp_read_sensitive p) (ReadOp True)"

definition auto_confidence_ok :: "PermissionsPolicy \<Rightarrow> f64 \<Rightarrow> bool" where
  "auto_confidence_ok p c \<longleftrightarrow> f64_le (pp_min_confidence p) c"

text \<open>\<open>preset_toml\<close>: the file a user would write for a preset; \<open>disp\<close> renders the confidence floor.\<close>

definition newline :: string where
  "newline = [CHR 0x0A]"

definition quoted :: "string \<Rightarrow> string" where
  "quoted s = [CHR 0x22] @ s @ [CHR 0x22]"

definition preset_toml :: "(f64 \<Rightarrow> string) \<Rightarrow> AutonomyPreset \<Rightarrow> string" where
  "preset_toml disp level =
     (let p = preset level in
      ''# EveryAIOS autonomy preset: '' @ preset_as_str level @ newline @
      ''[permissions]'' @ newline @
      ''delete_files = '' @ quoted (rule_str (pp_delete_files p)) @ newline @
      ''multi_file_edit = '' @ quoted (rule_str (pp_multi_file_edit p)) @ newline @
      ''external_network = '' @ quoted (rule_str (pp_external_network p)) @ newline @
      ''terminal_shell = '' @ quoted (rule_str (pp_terminal_shell p)) @ newline @
      ''web_action = '' @ quoted (rule_str (pp_web_action p)) @ newline @
      ''write = '' @ quoted (rule_str (pp_write p)) @ newline @
      ''read_sensitive = '' @ quoted (rule_str (pp_read_sensitive p)) @ newline @
      ''min_confidence_for_auto = '' @ disp (pp_min_confidence p) @ newline @
      ''user_feedback_learning = '' @ (if pp_feedback p then ''true'' else ''false'') @ newline)"

text \<open>The table that prints a policy key by key (what \<open>preset_toml\<close> writes under
  \<open>[permissions]\<close>).\<close>

definition raw_of_policy :: "PermissionsPolicy \<Rightarrow> RawTable" where
  "raw_of_policy p =
     \<lparr> raw_delete_files = Some (rule_str (pp_delete_files p)),
       raw_multi_file_edit = Some (rule_str (pp_multi_file_edit p)),
       raw_external_network = Some (rule_str (pp_external_network p)),
       raw_terminal_shell = Some (rule_str (pp_terminal_shell p)),
       raw_web_action = Some (rule_str (pp_web_action p)),
       raw_write = Some (rule_str (pp_write p)),
       raw_read_sensitive = Some (rule_str (pp_read_sensitive p)),
       raw_min_confidence = Some (pp_min_confidence p),
       raw_feedback = Some (pp_feedback p) \<rparr>"

section \<open>Lemmas\<close>

fun rule_in_range :: "Rule \<Rightarrow> bool" where
  "rule_in_range (AskIfGt n) \<longleftrightarrow> n < 2 ^ 32"
| "rule_in_range _ \<longleftrightarrow> True"

lemma str_trim_id: "(\<forall>c \<in> set s. \<not> is_space c) \<Longrightarrow> str_trim s = s"
  by (simp add: str_trim_def trim_matches_id)

lemma digit_not_space: "is_digit c \<Longrightarrow> \<not> is_space c"
  by (auto simp: is_digit_def is_space_def less_eq_char_def)

lemma rule_str_no_space: "c \<in> set (rule_str r) \<Longrightarrow> \<not> is_space c"
proof (cases r)
  case (AskIfGt n)
  then show "c \<in> set (rule_str r) \<Longrightarrow> \<not> is_space c"
    using show_nat_digits [of c n] digit_not_space [of c] by (auto simp: is_space_def less_eq_char_def)
qed (auto simp: is_space_def less_eq_char_def)

lemma rule_parse_gt: "n < 2 ^ 32 \<Longrightarrow> rule_parse (''ask_if_gt_'' @ show_nat n) = Some (AskIfGt n)"
proof -
  assume n: "n < 2 ^ 32"
  have "str_trim (''ask_if_gt_'' @ show_nat n) = ''ask_if_gt_'' @ show_nat n"
    using rule_str_no_space [of _ "AskIfGt n"] by (intro str_trim_id) simp
  moreover have "strip_prefix (''ask_if_gt_'' @ show_nat n) ''ask_if_gt_'' = Some (show_nat n)"
    by (rule strip_prefix_append)
  ultimately show ?thesis
    using n by (simp add: rule_parse_def parse_u32_def parse_nat_show)
qed

lemma rule_parse_str: "rule_in_range r \<Longrightarrow> rule_parse (rule_str r) = Some r"
proof (cases r)
  case (AskIfGt n)
  then show "rule_in_range r \<Longrightarrow> ?thesis" by (simp only: rule_str.simps rule_in_range.simps rule_parse_gt)
qed (simp_all add: rule_parse_def str_trim_def trim_matches_def is_space_def less_eq_char_def)

lemma parsed_or_rule_str: "rule_in_range r \<Longrightarrow> parsed_or d (Some (rule_str r)) = r"
  by (simp add: parsed_or_def rule_parse_str)

definition policy_in_range :: "PermissionsPolicy \<Rightarrow> bool" where
  "policy_in_range p \<longleftrightarrow>
     list_all rule_in_range [pp_delete_files p, pp_multi_file_edit p, pp_external_network p,
       pp_terminal_shell p, pp_web_action p, pp_write p, pp_read_sensitive p] \<and>
     (case pp_min_confidence p of Fin q \<Rightarrow> 0 \<le> q \<and> q \<le> 1 | _ \<Rightarrow> False)"

text \<open>Specification of a bundle: the pairs that are acceptable, and the policy after applying
  acceptable pairs in order.\<close>

definition canonical_keys :: "string list" where
  "canonical_keys = [''delete_files'', ''multi_file_edit'', ''external_network'', ''terminal_shell'',
     ''web_action'', ''write'', ''read_sensitive'']"

definition pair_ok :: "string \<times> string \<Rightarrow> bool" where
  "pair_ok kr \<longleftrightarrow> fst kr \<in> set canonical_keys \<and> rule_parse (snd kr) \<noteq> None"

definition apply_pairs :: "(string \<times> string) list \<Rightarrow> PermissionsPolicy \<Rightarrow> PermissionsPolicy" where
  "apply_pairs krs p = foldl (\<lambda>q kr. the (set_rule (fst kr) (the (rule_parse (snd kr))) q)) p krs"

lemma set_rule_None_iff: "set_rule key r p = None \<longleftrightarrow> key \<notin> set canonical_keys"
  by (simp add: set_rule_def canonical_keys_def)

lemma apply_rules_from_spec:
  "case fst (apply_rules_from n rules p) of
     Inr m \<Rightarrow> m = n + length rules \<and> snd (apply_rules_from n rules p) = apply_pairs rules p \<and>
              list_all pair_ok rules
   | Inl e \<Rightarrow> (\<exists>before key rule after. rules = before @ (key, rule) # after \<and>
        list_all pair_ok before \<and> \<not> pair_ok (key, rule) \<and>
        snd (apply_rules_from n rules p) = apply_pairs before p \<and>
        e = (if rule_parse rule = None then ''unknown rule: '' @ rule
             else ''unknown permission key: '' @ key))"
proof (induction rules arbitrary: n p)
  case Nil
  then show ?case by (simp add: apply_pairs_def)
next
  case (Cons kr rules)
  obtain key rule where kr: "kr = (key, rule)" by (cases kr)
  show ?case
  proof (cases "pair_ok kr")
    case False
    then have "\<exists>e. apply_rules_from n (kr # rules) p = (Inl e, p) \<and>
        e = (if rule_parse rule = None then ''unknown rule: '' @ rule
             else ''unknown permission key: '' @ key)"
      using set_rule_None_iff [THEN iffD2, of key _ p]
      by (cases "rule_parse rule") (auto simp: kr pair_ok_def)
    moreover have "kr # rules = [] @ (key, rule) # rules" by (simp add: kr)
    ultimately show ?thesis
      using False kr by (fastforce simp: apply_pairs_def)
  next
    case True
    then obtain r where r: "rule_parse rule = Some r" by (auto simp: kr pair_ok_def)
    obtain q where "set_rule key r p = Some q"
      using True set_rule_None_iff [of key r p] by (auto simp: kr pair_ok_def)
    with r have rq: "rule_parse rule = Some r" "set_rule key r p = Some q" by auto
    then have step: "apply_rules_from n (kr # rules) p = apply_rules_from (Suc n) rules q"
      by (simp add: kr)
    have shift: "apply_pairs (kr # ys) p = apply_pairs ys q" for ys
      using rq by (simp add: kr apply_pairs_def)
    show ?thesis
    proof (cases "fst (apply_rules_from (Suc n) rules q)")
      case (Inr m)
      then show ?thesis using Cons.IH [of "Suc n" q] step shift True by simp
    next
      case (Inl e)
      then obtain before k' r' after where b: "rules = before @ (k', r') # after"
        "list_all pair_ok before" "\<not> pair_ok (k', r')"
        "snd (apply_rules_from (Suc n) rules q) = apply_pairs before q"
        "e = (if rule_parse r' = None then ''unknown rule: '' @ r' else ''unknown permission key: '' @ k')"
        using Cons.IH [of "Suc n" q] by auto
      then have all: "kr # rules = (kr # before) @ (k', r') # after \<and> list_all pair_ok (kr # before) \<and>
          \<not> pair_ok (k', r') \<and> snd (apply_rules_from n (kr # rules) p) = apply_pairs (kr # before) p"
        using step shift True by simp
      have res: "fst (apply_rules_from n (kr # rules) p) = Inl e" using step Inl by simp
      show ?thesis
        unfolding res sum.case
        by (rule exI [of _ "kr # before"], rule exI [of _ k'], rule exI [of _ r'], rule exI [of _ after])
          (use all b(5) in blast)
    qed
  qed
qed

text \<open>The operations the presets promise to keep behind a human: deletion, sensitive web action,
  a new external domain, destructive shell, sensitive read.\<close>

definition floor_op :: "Operation \<Rightarrow> bool" where
  "floor_op x \<longleftrightarrow>
     x \<in> {DeleteFiles, WebAction, ExternalNetworkOp True, TerminalShell True, ReadOp True}"

fun is_mutation :: "Operation \<Rightarrow> bool" where
  "is_mutation (ReadOp _) \<longleftrightarrow> False"
| "is_mutation _ \<longleftrightarrow> True"

lemma preset_floor_op: "floor_op x \<Longrightarrow> policy_evaluate (preset level) x \<noteq> PolicyAllow"
  by (cases level) (auto simp: floor_op_def)

section \<open>Properties of the policy layer\<close>

text \<open>Printing and parsing a policy are inverse: every rule with a 32-bit count parses back
  from its canonical string, so a whole policy whose confidence floor lies in \<open>[0, 1]\<close> survives the
  trip through the raw table.\<close>

theorem policy_print_parse:
  assumes "policy_in_range p"
  shows "policy_of_raw (raw_of_policy p) = p"
proof -
  obtain q where "pp_min_confidence p = Fin q" "0 \<le> q" "q \<le> 1"
    using assms by (auto simp: policy_in_range_def split: f64.splits)
  then show ?thesis
    using assms
    by (simp add: policy_of_raw_def raw_of_policy_def parsed_or_rule_str policy_in_range_def
        f64_clamp_def)
qed

theorem policy_print_parse_witness:
  "policy_in_range (preset PresetAsk) \<and>
   policy_of_raw (raw_of_policy (preset PresetAsk)) = preset PresetAsk"
proof -
  have "policy_in_range (preset PresetAsk)" by (simp add: policy_in_range_def)
  with policy_print_parse [of "preset PresetAsk"] show ?thesis by blast
qed

text \<open>The hard floors hold in every preset: deletions, web actions, new domains, destructive
  shell and sensitive reads are never auto-allowed, the sandbox blocks every mutation, and each
  preset is recognised as itself by \<open>is_preset\<close>, as no other.\<close>

theorem preset_floors:
  "(floor_op x \<longrightarrow> policy_evaluate (preset level) x \<noteq> PolicyAllow) \<and>
   (is_mutation y \<longrightarrow> policy_evaluate (preset PresetSandbox) y = PolicyBlock) \<and>
   (is_preset (preset level) level' \<longleftrightarrow> level' = level)"
proof (intro conjI impI)
  show "floor_op x \<Longrightarrow> policy_evaluate (preset level) x \<noteq> PolicyAllow"
    by (rule preset_floor_op)
  show "is_mutation y \<Longrightarrow> policy_evaluate (preset PresetSandbox) y = PolicyBlock"
    by (cases y) auto
  show "is_preset (preset level) level' \<longleftrightarrow> level' = level"
    by (cases level; cases level') (simp_all add: is_preset_def)
qed

theorem preset_floors_witness:
  "floor_op (TerminalShell True) \<and>
   policy_evaluate (preset PresetMaximum) (TerminalShell True) \<noteq> PolicyAllow \<and>
   policy_evaluate (preset PresetSandbox) (MultiFileEdit 1) = PolicyBlock"
  using preset_floors [of "TerminalShell True" PresetMaximum "MultiFileEdit 1"]
  by (simp add: floor_op_def)

text \<open>Rule bundles: \<open>apply_rules\<close> either applies every pair and reports their number, or
  reports the first pair it refuses (an unparseable rule or an unknown key), with exactly the pairs
  before it applied.\<close>

theorem apply_rules_prefix:
  "case fst (apply_rules rules p) of
     Inr n \<Rightarrow> n = length rules \<and> snd (apply_rules rules p) = apply_pairs rules p \<and> list_all pair_ok rules
   | Inl e \<Rightarrow> (\<exists>before key rule after. rules = before @ (key, rule) # after \<and>
        list_all pair_ok before \<and> \<not> pair_ok (key, rule) \<and>
        snd (apply_rules rules p) = apply_pairs before p \<and>
        e = (if rule_parse rule = None then ''unknown rule: '' @ rule
             else ''unknown permission key: '' @ key))"
  unfolding apply_rules_def using apply_rules_from_spec [of rules 0 p] by (simp only: add_0)

end
