(* ===== verification/Autonomy.thy ===== *)
theory Autonomy
  imports Permissions
begin

text \<open>
  The autonomy gradient (\<open>everyaios-guard/src/autonomy.rs\<close>), the human floors and run grants
  (\<open>floors.rs\<close>) and the structural shell-operator veto (\<open>structural.rs\<close>).
\<close>

section \<open>Effect classes and modes\<close>

datatype RiskClass = ClassRead | WriteLocal | Exec | External

fun class_as_str :: "RiskClass \<Rightarrow> string" where
  "class_as_str ClassRead = ''READ''"
| "class_as_str WriteLocal = ''WRITE_LOCAL''"
| "class_as_str Exec = ''EXEC''"
| "class_as_str External = ''EXTERNAL''"

fun class_rank :: "RiskClass \<Rightarrow> nat" where
  "class_rank ClassRead = 0"
| "class_rank WriteLocal = 1"
| "class_rank Exec = 2"
| "class_rank External = 3"

fun from_operation :: "Operation \<Rightarrow> RiskClass" where
  "from_operation (ExternalNetworkOp _) = External"
| "from_operation WebAction = External"
| "from_operation (TerminalShell _) = Exec"
| "from_operation GenericWrite = Exec"
| "from_operation DeleteFiles = WriteLocal"
| "from_operation (MultiFileEdit _) = WriteLocal"
| "from_operation (ReadOp _) = ClassRead"

fun class_risk_tier :: "RiskClass \<Rightarrow> bool \<Rightarrow> RiskTier" where
  "class_risk_tier ClassRead destructive = R0"
| "class_risk_tier WriteLocal destructive = (if destructive then R3 else R1)"
| "class_risk_tier Exec destructive = R2"
| "class_risk_tier External destructive = R2"

datatype Mode = Discuss | Plan | Interactive | Auto | Custom

fun mode_as_str :: "Mode \<Rightarrow> string" where
  "mode_as_str Discuss = ''DISCUSS''"
| "mode_as_str Plan = ''PLAN''"
| "mode_as_str Interactive = ''INTERACTIVE''"
| "mode_as_str Auto = ''AUTO''"
| "mode_as_str Custom = ''CUSTOM''"

definition upper_char :: "char \<Rightarrow> char" where
  "upper_char c = (if CHR ''a'' \<le> c \<and> c \<le> CHR ''z'' then char_of (of_char c - (32::nat)) else c)"

definition mode_parse :: "string \<Rightarrow> Mode option" where
  "mode_parse s =
     (let u = map upper_char s in
      if u = ''DISCUSS'' then Some Discuss
      else if u = ''PLAN'' then Some Plan
      else if u = ''INTERACTIVE'' then Some Interactive
      else if u = ''AUTO'' then Some Auto
      else if u = ''CUSTOM'' then Some Custom
      else None)"

fun preset_to_mode :: "AutonomyPreset \<Rightarrow> Mode" where
  "preset_to_mode PresetSandbox = Plan"
| "preset_to_mode PresetAsk = Interactive"
| "preset_to_mode PresetAuto = Auto"
| "preset_to_mode PresetMaximum = Custom"

datatype AutonomyVerdict = Act | AskHuman | ParkInInbox | BlockVerdict

fun verdict_as_str :: "AutonomyVerdict \<Rightarrow> string" where
  "verdict_as_str Act = ''act''"
| "verdict_as_str AskHuman = ''ask''"
| "verdict_as_str ParkInInbox = ''park_in_inbox''"
| "verdict_as_str BlockVerdict = ''block''"

record AutonomyPolicy =
  ap_class :: RiskClass
  ap_mode :: Mode

fun resolve_autonomy :: "AutonomyPolicy \<Rightarrow> Operation \<Rightarrow> bool \<Rightarrow> AutonomyVerdict" where
  "resolve_autonomy p opn destructive =
     (case ap_mode p of
        Discuss \<Rightarrow> (case ap_class p of ClassRead \<Rightarrow> Act | _ \<Rightarrow> AskHuman)
      | Plan \<Rightarrow> (case ap_class p of ClassRead \<Rightarrow> Act | _ \<Rightarrow> AskHuman)
      | Interactive \<Rightarrow> (case ap_class p of ClassRead \<Rightarrow> Act | _ \<Rightarrow> AskHuman)
      | Auto \<Rightarrow>
          (case ap_class p of
             ClassRead \<Rightarrow> Act
           | WriteLocal \<Rightarrow> if \<not> destructive then Act else AskHuman
           | Exec \<Rightarrow> AskHuman
           | External \<Rightarrow> AskHuman)
      | Custom \<Rightarrow> Act)"

fun unattended_verdict :: "AutonomyPolicy \<Rightarrow> Operation \<Rightarrow> bool \<Rightarrow> AutonomyVerdict" where
  "unattended_verdict p opn destructive =
     (case ap_class p of
        ClassRead \<Rightarrow> Act
      | WriteLocal \<Rightarrow> if \<not> destructive then Act else ParkInInbox
      | Exec \<Rightarrow> ParkInInbox
      | External \<Rightarrow> ParkInInbox)"

section \<open>Human floors\<close>

record HumanFloor =
  protected_in_project :: "string list"
  persistent_authority :: "string list"

definition human_floor_defaults :: HumanFloor where
  "human_floor_defaults =
     \<lparr> protected_in_project = [''.git/hooks/'', ''.github/workflows/'', ''.vscode/tasks.json'', ''.coworker/''],
       persistent_authority = [''save_skill'', ''create_scheduled_task''] \<rparr>"

definition backslash :: char where
  "backslash = CHR 0x5C"

definition requires_human :: "HumanFloor \<Rightarrow> string \<Rightarrow> string option \<Rightarrow> bool" where
  "requires_human f opn path =
     (let op_lower = to_lowercase opn in
      if list_ex (\<lambda>a. to_lowercase a = op_lower) (persistent_authority f) then True
      else (case path of
          None \<Rightarrow> False
        | Some p \<Rightarrow>
            let normalized = replace_char backslash (CHR ''/'') p
            in list_ex (\<lambda>pre. str_contains normalized (replace_char backslash (CHR ''/'') pre))
                 (protected_in_project f)))"

definition mcp_floor_risk :: RiskClass where
  "mcp_floor_risk = External"

record RunGrant =
  rg_id :: string
  rg_scope :: string
  rg_expires_at_ms :: nat

definition run_grant_is_live :: "RunGrant \<Rightarrow> nat \<Rightarrow> bool" where
  "run_grant_is_live g now = (if rg_expires_at_ms g = 0 then True else now < rg_expires_at_ms g)"

definition unlocated_write_verdict :: AutonomyVerdict where
  "unlocated_write_verdict = BlockVerdict"

section \<open>Structural shell veto\<close>

definition SHELL_OPERATORS :: "char list" where
  "SHELL_OPERATORS = [CHR '';'', CHR ''&'', CHR ''|'', CHR ''>'', CHR ''<'', CHR 0x60, CHR ''$'',
     CHR ''('', CHR '')'', CHR 0x0A, CHR 0x0D]"

definition contains_shell_operator :: "string \<Rightarrow> bool" where
  "contains_shell_operator cmd \<longleftrightarrow> list_ex (\<lambda>c. c \<in> set SHELL_OPERATORS) cmd"

datatype StructuralVerdict = Clean | ForcedApproval

fun structural_as_str :: "StructuralVerdict \<Rightarrow> string" where
  "structural_as_str Clean = ''clean''"
| "structural_as_str ForcedApproval = ''forced_approval''"

definition structural_verdict :: "string \<Rightarrow> bool \<Rightarrow> bool \<Rightarrow> StructuralVerdict" where
  "structural_verdict cmd allowlisted destructive =
     (if allowlisted \<and> \<not> destructive \<and> contains_shell_operator cmd then ForcedApproval else Clean)"

section \<open>Lemmas\<close>

lemma requires_human_iff:
  "requires_human f opn path \<longleftrightarrow>
   (\<exists>a \<in> set (persistent_authority f). to_lowercase a = to_lowercase opn) \<or>
   (\<exists>p pre. path = Some p \<and> pre \<in> set (protected_in_project f) \<and>
      sublist (replace_char backslash (CHR ''/'') pre) (replace_char backslash (CHR ''/'') p))"
  by (auto simp: requires_human_def Let_def list_ex_iff str_contains_sublist split: option.splits)

lemma shell_operator_split:
  "contains_shell_operator (u @ v) \<longleftrightarrow> contains_shell_operator u \<or> contains_shell_operator v"
  by (simp add: contains_shell_operator_def)

section \<open>Properties of the autonomy gradient\<close>

text \<open>Outside Custom mode no destructive, exec or external effect ever runs without a human, and
  an unattended run parks all of them; only reads and non-destructive local writes act. A read acts in
  every mode.\<close>

theorem autonomy_gradient:
  "(ap_mode p \<noteq> Custom \<longrightarrow>
     (resolve_autonomy p opn destructive = Act \<longleftrightarrow>
       ap_class p = ClassRead \<or> ap_mode p = Auto \<and> ap_class p = WriteLocal \<and> \<not> destructive)) \<and>
   (unattended_verdict p opn destructive = Act \<longleftrightarrow>
      ap_class p = ClassRead \<or> ap_class p = WriteLocal \<and> \<not> destructive) \<and>
   (unattended_verdict p opn destructive \<noteq> Act \<longrightarrow> unattended_verdict p opn destructive = ParkInInbox) \<and>
   (ap_class p = ClassRead \<longrightarrow> resolve_autonomy p opn destructive = Act)"
  by (cases "ap_mode p"; cases "ap_class p"; cases destructive) simp_all

theorem autonomy_gradient_witness:
  "let p = \<lparr> ap_class = External, ap_mode = Auto \<rparr>
   in ap_mode p \<noteq> Custom \<and> resolve_autonomy p WebAction False \<noteq> Act \<and>
      unattended_verdict p WebAction False = ParkInInbox"
  using autonomy_gradient [of "\<lparr> ap_class = External, ap_mode = Auto \<rparr>" WebAction False]
  by (simp only: Let_def) simp

end
