(* ===== verification/Approval.thy ===== *)
theory Approval
  imports Prelude
begin

text \<open>
  The tool allow-list (\<open>everyaios-guard/src/approval_policy.rs\<close>): glob patterns over tool names and
  arguments, ordered rules with deny-wins. The recursive matcher is related to a declarative glob
  relation.
\<close>

datatype Approval = ApprovalAllow | ApprovalAsk | ApprovalDeny

record ToolPattern =
  tp_tool :: string
  tp_args_glob :: "string option"

definition tool_pattern_new :: "string \<Rightarrow> string option \<Rightarrow> ToolPattern" where
  "tool_pattern_new tool args = \<lparr> tp_tool = tool, tp_args_glob = args \<rparr>"

text \<open>\<open>glob_match::go\<close>: the \<open>*\<close> case skips the run of stars and tries every suffix of the value.\<close>

lemma length_dropWhile_Cons: "length (dropWhile P p) < length (c # p)"
  by (simp add: le_imp_less_Suc length_dropWhile_le)

function glob_go :: "string \<Rightarrow> string \<Rightarrow> bool" where
  "glob_go [] v \<longleftrightarrow> v = []"
| "glob_go (c # p) v \<longleftrightarrow>
     (if c = CHR ''*'' then
        list_ex (\<lambda>k. glob_go (dropWhile (\<lambda>x. x = CHR ''*'') p) (drop k v)) [0..<Suc (length v)]
      else if c = CHR ''?'' then v \<noteq> [] \<and> glob_go p (tl v)
      else v \<noteq> [] \<and> hd v = c \<and> glob_go p (tl v))"
  by pat_completeness auto
termination
  by (relation "measure (\<lambda>(p, v). length p)") (auto simp: le_imp_less_Suc length_dropWhile_le)

definition glob_match :: "string \<Rightarrow> string \<Rightarrow> bool" where
  "glob_match pat v = glob_go (to_lowercase pat) (to_lowercase v)"

definition tp_matches :: "ToolPattern \<Rightarrow> string \<Rightarrow> string \<Rightarrow> bool" where
  "tp_matches p tool args =
     (if \<not> glob_match (tp_tool p) tool then False
      else (case tp_args_glob p of None \<Rightarrow> True | Some g \<Rightarrow> glob_match g args))"

type_synonym ApprovalPolicy = "(ToolPattern \<times> Approval) list"

text \<open>The loop of \<open>ApprovalPolicy::evaluate\<close> with its two variables \<open>last\<close> and \<open>denied\<close>.\<close>

fun approval_loop ::
  "ApprovalPolicy \<Rightarrow> string \<Rightarrow> string \<Rightarrow> Approval option \<Rightarrow> bool \<Rightarrow> Approval option \<times> bool" where
  "approval_loop [] tool args lst denied = (lst, denied)"
| "approval_loop ((pat, a) # rules) tool args lst denied =
     (if tp_matches pat tool args
      then approval_loop rules tool args (Some a) (if a = ApprovalDeny then True else denied)
      else approval_loop rules tool args lst denied)"

definition approval_evaluate :: "ApprovalPolicy \<Rightarrow> string \<Rightarrow> string \<Rightarrow> Approval" where
  "approval_evaluate rules tool args =
     (let (lst, denied) = approval_loop rules tool args None False in
      if denied then ApprovalDeny
      else (case lst of None \<Rightarrow> ApprovalAsk | Some a \<Rightarrow> a))"

section \<open>Declarative globs\<close>

inductive glob_rel :: "string \<Rightarrow> string \<Rightarrow> bool" where
  glob_nil: "glob_rel [] []"
| glob_star: "glob_rel p v \<Longrightarrow> glob_rel (CHR ''*'' # p) (u @ v)"
| glob_any: "glob_rel p v \<Longrightarrow> glob_rel (CHR ''?'' # p) (c # v)"
| glob_char: "glob_rel p v \<Longrightarrow> c \<noteq> CHR ''*'' \<Longrightarrow> c \<noteq> CHR ''?'' \<Longrightarrow> glob_rel (c # p) (c # v)"

inductive_cases glob_rel_NilE: "glob_rel [] v"
inductive_cases glob_rel_ConsE: "glob_rel (c # p) v"

lemma glob_rel_star_iff: "glob_rel (CHR ''*'' # p) v \<longleftrightarrow> (\<exists>k \<le> length v. glob_rel p (drop k v))"
proof
  assume "glob_rel (CHR ''*'' # p) v"
  then obtain u w where "v = u @ w" "glob_rel p w"
    by (auto elim: glob_rel_ConsE)
  then show "\<exists>k \<le> length v. glob_rel p (drop k v)"
    by (intro exI [of _ "length u"]) simp
next
  assume "\<exists>k \<le> length v. glob_rel p (drop k v)"
  then show "glob_rel (CHR ''*'' # p) v"
    by (metis append_take_drop_id glob_star)
qed

lemma glob_rel_collapse:
  "glob_rel (CHR ''*'' # dropWhile (\<lambda>x. x = CHR ''*'') p) v \<longleftrightarrow> glob_rel (CHR ''*'' # p) v"
proof (induction p arbitrary: v)
  case (Cons c p)
  show ?case
  proof (cases "c = CHR ''*''")
    case True
    have "glob_rel (CHR ''*'' # CHR ''*'' # p) v \<longleftrightarrow> glob_rel (CHR ''*'' # p) v"
      by (simp only: glob_rel_star_iff)
        (metis add.commute add_le_imp_le_diff drop0 drop_drop le0 le_add_diff_inverse2 length_drop
          add_le_mono1 le_diff_conv2)
    with Cons.IH True show ?thesis by simp
  qed simp
qed simp

lemma glob_go_rel: "glob_go p v \<longleftrightarrow> glob_rel p v"
proof (induction p v rule: glob_go.induct)
  case (1 v)
  then show ?case by (auto intro: glob_nil elim: glob_rel_NilE)
next
  case (2 c p v)
  consider "c = CHR ''*''" | "c = CHR ''?''" | "c \<noteq> CHR ''*''" "c \<noteq> CHR ''?''" by blast
  then show ?case
  proof cases
    case 1
    then have "glob_go (c # p) v \<longleftrightarrow> (\<exists>k \<le> length v. glob_rel (dropWhile (\<lambda>x. x = CHR ''*'') p) (drop k v))"
      using 2(1) by (simp add: list_ex_iff less_Suc_eq_le atLeast0LessThan lessThan_Suc_atMost Bex_def
          del: upt_Suc)
    also have "\<dots> \<longleftrightarrow> glob_rel (c # p) v"
      using 1 by (simp add: glob_rel_star_iff [symmetric] glob_rel_collapse)
    finally show ?thesis .
  next
    case 2
    then show ?thesis
      using "2.IH"(2) by (cases v) (auto intro: glob_any elim: glob_rel_ConsE)
  next
    case 3
    then show ?thesis
      using "2.IH"(3) by (cases v) (auto intro: glob_char elim: glob_rel_ConsE)
  qed
qed

section \<open>The loop\<close>

definition matching :: "ApprovalPolicy \<Rightarrow> string \<Rightarrow> string \<Rightarrow> Approval list" where
  "matching rules tool args = map snd (filter (\<lambda>(p, a). tp_matches p tool args) rules)"

lemma approval_loop_spec:
  "approval_loop rules tool args l d =
     (if matching rules tool args = [] then l else Some (last (matching rules tool args)),
      d \<or> ApprovalDeny \<in> set (matching rules tool args))"
  by (induction rules tool args l d rule: approval_loop.induct) (auto simp: matching_def)

section \<open>Properties of the allow-list\<close>

text \<open>C40. The matcher decides exactly the case-insensitive glob relation: \<open>*\<close> any sequence, \<open>?\<close> one
  character, anything else itself.\<close>

theorem glob_match_correct:
  "glob_match pat v \<longleftrightarrow> glob_rel (to_lowercase pat) (to_lowercase v)"
  by (simp add: glob_match_def glob_go_rel)

text \<open>Deny wins: a call is denied exactly when some matching rule denies it, whatever the order
  of the rules; otherwise the last matching rule decides, and an unmatched call is asked about.\<close>

theorem approval_deny_wins:
  "(approval_evaluate rules tool args = ApprovalDeny \<longleftrightarrow>
      (\<exists>p. (p, ApprovalDeny) \<in> set rules \<and> tp_matches p tool args)) \<and>
   (approval_evaluate rules tool args = ApprovalAllow \<longrightarrow>
      (\<exists>before p after. rules = before @ (p, ApprovalAllow) # after \<and> tp_matches p tool args \<and>
         list_all (\<lambda>(q, a). \<not> tp_matches q tool args) after)) \<and>
   (list_all (\<lambda>(q, a). \<not> tp_matches q tool args) rules \<longrightarrow> approval_evaluate rules tool args = ApprovalAsk)"
proof (intro conjI impI)
  have mem: "ApprovalDeny \<in> set (matching rules tool args) \<longleftrightarrow>
      (\<exists>p. (p, ApprovalDeny) \<in> set rules \<and> tp_matches p tool args)"
    by (force simp: matching_def)
  show "approval_evaluate rules tool args = ApprovalDeny \<longleftrightarrow>
      (\<exists>p. (p, ApprovalDeny) \<in> set rules \<and> tp_matches p tool args)"
    unfolding mem [symmetric]
    by (auto simp: approval_evaluate_def approval_loop_spec split: if_splits intro: last_in_set)
      (metis last_in_set)
next
  assume "approval_evaluate rules tool args = ApprovalAllow"
  then have "matching rules tool args \<noteq> []" "last (matching rules tool args) = ApprovalAllow"
    by (auto simp: approval_evaluate_def approval_loop_spec split: if_splits)
  then show "\<exists>before p after. rules = before @ (p, ApprovalAllow) # after \<and> tp_matches p tool args \<and>
         list_all (\<lambda>(q, a). \<not> tp_matches q tool args) after"
  proof (induction rules rule: rev_induct)
    case (snoc r rules)
    obtain p a where r: "r = (p, a)" by (cases r)
    show ?case
    proof (cases "tp_matches p tool args")
      case True
      with snoc.prems r have "a = ApprovalAllow" by (simp add: matching_def)
      with True r show ?thesis by (intro exI [of _ rules] exI [of _ p] exI [of _ "[]"]) simp
    next
      case False
      with snoc.prems r have "matching rules tool args \<noteq> []" "last (matching rules tool args) = ApprovalAllow"
        by (auto simp: matching_def)
      with snoc.IH obtain before q after where "rules = before @ (q, ApprovalAllow) # after"
        "tp_matches q tool args" "list_all (\<lambda>(q, a). \<not> tp_matches q tool args) after" by blast
      with False r show ?thesis
        by (intro exI [of _ before] exI [of _ q] exI [of _ "after @ [r]"]) simp
    qed
  qed (simp add: matching_def)
next
  assume "list_all (\<lambda>(q, a). \<not> tp_matches q tool args) rules"
  then have "matching rules tool args = []"
    by (auto simp: matching_def list_all_iff filter_empty_conv)
  then show "approval_evaluate rules tool args = ApprovalAsk"
    by (simp add: approval_evaluate_def approval_loop_spec)
qed

theorem approval_deny_wins_witness:
  "let rules = [(tool_pattern_new ''shell*'' None, ApprovalDeny), (tool_pattern_new ''*'' None, ApprovalAllow)]
   in approval_evaluate rules ''fs.read'' [] = ApprovalAllow \<and>
      (\<exists>before p after. rules = before @ (p, ApprovalAllow) # after \<and> tp_matches p ''fs.read'' [] \<and>
         list_all (\<lambda>(q, a). \<not> tp_matches q ''fs.read'' []) after)"
proof -
  let ?r = "[(tool_pattern_new ''shell*'' None, ApprovalDeny), (tool_pattern_new ''*'' None, ApprovalAllow)]"
  have "approval_evaluate ?r ''fs.read'' [] = ApprovalAllow"
    by (simp add: approval_evaluate_def tp_matches_def tool_pattern_new_def glob_match_def
        to_lowercase_def lower_char_def is_upper_def less_eq_char_def upt_rec)
  then show ?thesis
    using approval_deny_wins [of ?r "''fs.read''" "[]"] unfolding Let_def by blast
qed

end
