(* ===== verification/Reviewer.thy ===== *)
theory Reviewer
  imports Traces Ticket
begin

text \<open>
  The confidence-gated auto reviewer with its circuit breaker (\<open>everyaios-guard/src/reviewer.rs\<close>)
  and the rolling-window loop detector (\<open>loopguard.rs\<close>). The shortest decimal rendering of an
  \<open>f64\<close> in an escalation message is the parameter \<open>disp\<close>.
\<close>

section \<open>Reviewer\<close>

record ReviewerConfig =
  confidence_floor :: f64
  max_auto_per_run :: nat

definition reviewer_config_new :: "f64 \<Rightarrow> nat \<Rightarrow> ReviewerConfig" where
  "reviewer_config_new c n = \<lparr> confidence_floor = c, max_auto_per_run = n \<rparr>"

datatype ReviewOutcome = AutoAllow | Escalate string

record ReviewerBreaker =
  rb_failures :: nat
  rb_threshold :: nat
  cooled_down :: bool

definition breaker_new :: "nat \<Rightarrow> ReviewerBreaker" where
  "breaker_new n = \<lparr> rb_failures = 0, rb_threshold = n, cooled_down = True \<rparr>"

definition trip_if_needed :: "ReviewerBreaker \<Rightarrow> ReviewerBreaker" where
  "trip_if_needed b =
     (if rb_threshold b = 0 \<or> rb_threshold b \<le> rb_failures b then b\<lparr>cooled_down := False\<rparr> else b)"

definition u32_sat_succ :: "nat \<Rightarrow> nat" where
  "u32_sat_succ n = min (n + 1) (2 ^ 32 - 1)"

definition record_reject :: "ReviewerBreaker \<Rightarrow> ReviewerBreaker" where
  "record_reject b =
     trip_if_needed (b\<lparr>rb_failures := u32_sat_succ (rb_failures b), cooled_down := False\<rparr>)"

definition record_error :: "ReviewerBreaker \<Rightarrow> ReviewerBreaker" where
  "record_error b =
     trip_if_needed (b\<lparr>rb_failures := u32_sat_succ (rb_failures b), cooled_down := False\<rparr>)"

definition breaker_reset :: "ReviewerBreaker \<Rightarrow> ReviewerBreaker" where
  "breaker_reset b = b\<lparr>rb_failures := 0, cooled_down := True\<rparr>"

definition is_open :: "ReviewerBreaker \<Rightarrow> bool" where
  "is_open b =
     (if rb_threshold b = 0 then True else \<not> cooled_down b \<and> rb_threshold b \<le> rb_failures b)"

definition breaker_check :: "ReviewerBreaker \<Rightarrow> bool" where
  "breaker_check b = is_open b"

definition auto_review ::
  "(f64 \<Rightarrow> string) \<Rightarrow> f64 option \<Rightarrow> ReviewerConfig \<Rightarrow> ReviewerBreaker \<Rightarrow> ReviewOutcome" where
  "auto_review disp conf cfg b =
     (if breaker_check b then Escalate ''reviewer breaker open''
      else if max_auto_per_run cfg = 0 then Escalate ''auto budget is zero''
      else (case conf of
          None \<Rightarrow> Escalate ''missing decision confidence''
        | Some c \<Rightarrow>
            if \<not> is_finite c \<or> f64_lt c (confidence_floor cfg)
            then Escalate (''confidence '' @ disp c @ '' below floor '' @ disp (confidence_floor cfg))
            else AutoAllow))"

datatype BreakerOp = BkReject | BkError | BkReset

fun breaker_step :: "BreakerOp \<Rightarrow> ReviewerBreaker \<Rightarrow> ReviewerBreaker" where
  "breaker_step BkReject b = record_reject b"
| "breaker_step BkError b = record_error b"
| "breaker_step BkReset b = breaker_reset b"

section \<open>Loop guard\<close>

definition step_hash :: "(string \<Rightarrow> string) \<Rightarrow> string \<Rightarrow> string \<Rightarrow> string" where
  "step_hash sha tool args = hex_encode (sha (tool @ [CHR 0x00] @ args))"

record LoopGuard =
  lg_window :: nat
  lg_max_repeats :: nat
  lg_recent :: "string list"

definition loop_guard_new :: "nat \<Rightarrow> nat \<Rightarrow> LoopGuard" where
  "loop_guard_new w m = \<lparr> lg_window = w, lg_max_repeats = m, lg_recent = [] \<rparr>"

definition loop_guard_defaults :: LoopGuard where
  "loop_guard_defaults = loop_guard_new 8 3"

definition lg_record :: "string \<Rightarrow> LoopGuard \<Rightarrow> bool \<times> LoopGuard" where
  "lg_record h g =
     (let recent1 = lg_recent g @ [h];
          recent2 = (if lg_window g < length recent1 then tl recent1 else recent1);
          count = length (filter (\<lambda>x. x = h) recent2)
      in (lg_max_repeats g \<le> count, g\<lparr>lg_recent := recent2\<rparr>))"

definition lg_steps :: "LoopGuard \<Rightarrow> nat" where
  "lg_steps g = length (lg_recent g)"

definition lg_reset :: "LoopGuard \<Rightarrow> LoopGuard" where
  "lg_reset g = g\<lparr>lg_recent := []\<rparr>"

section \<open>The breaker\<close>

lemma record_reject_error: "record_error b = record_reject b"
  by (simp add: record_reject_def record_error_def)

lemma record_fields [simp]:
  "rb_threshold (record_reject b) = rb_threshold b"
  "rb_failures (record_reject b) = u32_sat_succ (rb_failures b)"
  "cooled_down (record_reject b) = False"
  by (simp_all add: record_reject_def trip_if_needed_def)

text \<open>Specification: the failures recorded since the last reset.\<close>

fun failures_since_reset :: "nat \<Rightarrow> BreakerOp list \<Rightarrow> nat" where
  "failures_since_reset n [] = n"
| "failures_since_reset n (BkReset # xs) = failures_since_reset 0 xs"
| "failures_since_reset n (_ # xs) = failures_since_reset (Suc n) xs"

definition breaker_counts :: "nat \<Rightarrow> nat \<Rightarrow> ReviewerBreaker \<Rightarrow> bool" where
  "breaker_counts thr n b \<longleftrightarrow>
     rb_threshold b = thr \<and> rb_failures b = min n (2 ^ 32 - 1) \<and> (cooled_down b \<longleftrightarrow> n = 0)"

lemma breaker_counts_record:
  "breaker_counts thr n b \<Longrightarrow> breaker_counts thr (Suc n) (record_reject b)"
  by (auto simp: breaker_counts_def u32_sat_succ_def)

lemma breaker_run_counts:
  "breaker_counts thr n b \<Longrightarrow> breaker_counts thr (failures_since_reset n xs) (run breaker_step xs b)"
proof (induction xs arbitrary: n b)
  case (Cons x xs)
  show ?case
  proof (cases x)
    case BkReset
    have "breaker_counts thr 0 (breaker_reset b)"
      using Cons.prems by (simp add: breaker_counts_def breaker_reset_def)
    with BkReset Cons.IH show ?thesis by simp
  next
    case BkReject
    with Cons.IH [of "Suc n" "record_reject b"] breaker_counts_record [OF Cons.prems] show ?thesis by simp
  next
    case BkError
    with Cons.IH [of "Suc n" "record_reject b"] breaker_counts_record [OF Cons.prems] show ?thesis
      by (simp add: record_reject_error)
  qed
qed simp

section \<open>The window\<close>

text \<open>Specification: the last \<open>n\<close> elements of a history.\<close>

definition last_n :: "nat \<Rightarrow> 'a list \<Rightarrow> 'a list" where
  "last_n n xs = drop (length xs - n) xs"

lemma last_n_snoc:
  "last_n w (xs @ [x]) =
     (let r = last_n w xs @ [x] in if w < length r then tl r else r)"
proof (cases "w \<le> length xs")
  case True
  then have l: "length (last_n w xs) = w" by (simp add: last_n_def)
  show ?thesis
  proof (cases "w = 0")
    case True
    then show ?thesis by (simp add: last_n_def)
  next
    case False
    then have "tl (last_n w xs @ [x]) = tl (last_n w xs) @ [x]"
      using l by (cases "last_n w xs") auto
    moreover have "tl (last_n w xs) = drop (Suc (length xs - w)) xs"
      by (simp add: last_n_def tl_drop drop_Suc [symmetric] flip: drop_Suc)
    ultimately show ?thesis
      using True False l by (simp add: last_n_def Suc_diff_le Let_def)
  qed
qed (simp add: last_n_def Let_def)

fun lg_run :: "string list \<Rightarrow> LoopGuard \<Rightarrow> LoopGuard" where
  "lg_run [] g = g"
| "lg_run (h # hs) g = lg_run hs (snd (lg_record h g))"

lemma lg_record_window:
  "lg_recent g = last_n (lg_window g) hist \<Longrightarrow>
   lg_recent (snd (lg_record h g)) = last_n (lg_window g) (hist @ [h])"
  by (simp add: lg_record_def last_n_snoc Let_def)

lemma lg_run_window:
  "lg_recent g = last_n (lg_window g) hist \<Longrightarrow>
   lg_recent (lg_run hs g) = last_n (lg_window g) (hist @ hs) \<and> lg_window (lg_run hs g) = lg_window g \<and>
   lg_max_repeats (lg_run hs g) = lg_max_repeats g"
proof (induction hs arbitrary: g hist)
  case (Cons h hs)
  have "lg_window (snd (lg_record h g)) = lg_window g" "lg_max_repeats (snd (lg_record h g)) = lg_max_repeats g"
    by (simp_all add: lg_record_def Let_def)
  with Cons.IH [of "snd (lg_record h g)" "hist @ [h]"] lg_record_window [OF Cons.prems]
  show ?case by simp
qed simp

section \<open>Properties\<close>

text \<open>The reviewer is fail-closed: it auto-allows exactly when the breaker is closed, the budget is
  positive and a finite confidence at or above the floor was reported. The breaker is open exactly when
  at least \<open>threshold\<close> failures were recorded since the last reset, for every sequence of operations.\<close>

theorem reviewer_fail_closed:
  assumes "thr < 2 ^ 32"
  shows "(auto_review disp conf cfg (run breaker_step xs (breaker_new thr)) = AutoAllow \<longleftrightarrow>
     failures_since_reset 0 xs < thr \<and> 0 < max_auto_per_run cfg \<and>
     (\<exists>q. conf = Some (Fin q) \<and> \<not> f64_lt (Fin q) (confidence_floor cfg)))"
proof -
  let ?b = "run breaker_step xs (breaker_new thr)"
  have "breaker_counts thr (failures_since_reset 0 xs) ?b"
    by (rule breaker_run_counts) (simp add: breaker_counts_def breaker_new_def)
  then have "is_open ?b \<longleftrightarrow> thr \<le> failures_since_reset 0 xs"
    using assms by (auto simp: breaker_counts_def is_open_def)
  moreover have "is_finite c \<longleftrightarrow> (\<exists>q. c = Fin q)" for c by (cases c) auto
  ultimately show ?thesis
    by (auto simp: auto_review_def breaker_check_def split: option.splits)
qed

theorem reviewer_fail_closed_witness:
  "auto_review (\<lambda>_. []) (Some (Fin 1)) (reviewer_config_new (Fin (9 / 10)) 2)
     (run breaker_step [BkError, BkReset, BkReject] (breaker_new 2)) = AutoAllow"
proof -
  have "(2::nat) < 2 ^ 32" by simp
  from reviewer_fail_closed [OF this, of "\<lambda>_. []" "Some (Fin 1)" "reviewer_config_new (Fin (9 / 10)) 2"
      "[BkError, BkReset, BkReject]"]
  show ?thesis by (simp add: reviewer_config_new_def)
qed

text \<open>The loop guard implements its window: after any recorded steps it holds exactly the last
  \<open>window\<close> of them, and recording one more trips exactly when that step occurs at least
  \<open>max_repeats\<close> times among the last \<open>window\<close>.\<close>

theorem loop_guard_window:
  "lg_recent (lg_run hs (loop_guard_new w m)) = last_n w hs \<and>
   (fst (lg_record h (lg_run hs (loop_guard_new w m))) \<longleftrightarrow>
      m \<le> length (filter (\<lambda>x. x = h) (last_n w (hs @ [h]))))"
proof -
  have g: "lg_recent (lg_run hs (loop_guard_new w m)) = last_n w hs"
    "lg_window (lg_run hs (loop_guard_new w m)) = w"
    "lg_max_repeats (lg_run hs (loop_guard_new w m)) = m"
    using lg_run_window [of "loop_guard_new w m" "[]" hs] by (simp_all add: loop_guard_new_def last_n_def)
  then show ?thesis by (simp add: lg_record_def last_n_snoc Let_def)
qed

end
