(* ===== verification/Protected.thy ===== *)
theory Protected
  imports Autonomy
begin

text \<open>
  Own-settings protection and the criticality of recursive removals
  (\<open>everyaios-guard/src/protected_paths.rs\<close>).
\<close>

definition PROTECTED_PREFIXES :: "string list" where
  "PROTECTED_PREFIXES =
     [''config.toml'', ''risk_overrides.json'', ''workspace_trust.json'', ''permissions.toml'',
      ''.everyaios/'', ''.claude/'', ''.codex/'', ''.gemini/'', ''.cursor/'', ''.windsurf/'',
      ''.cline/'', ''.roo/'', ''.continue/'', ''.openclaw/'', ''.aider/'', ''.mcp.json'',
      ''.env'', ''.env.local'', ''.env.production'', ''.env.staging'', ''.ssh/'', ''.aws/'',
      ''id_rsa'', ''id_ed25519'', ''service_account.json'']"

definition is_protected :: "string \<Rightarrow> bool" where
  "is_protected path \<longleftrightarrow>
     (let normalized = replace_char backslash (CHR ''/'') path
      in list_ex (\<lambda>p. str_contains normalized p) PROTECTED_PREFIXES)"

definition is_workspace_root_marker :: "string \<Rightarrow> bool" where
  "is_workspace_root_marker target \<longleftrightarrow>
     to_lowercase target \<in>
       {''$workspace'', ''${workspace}'', ''$workspace_root'', ''${workspace_root}'',
        ''<workspace-root>'', ''<workspace_root>'', ''<workspace>'', ''/workspace'', ''workspace''}"

definition is_quote :: "char \<Rightarrow> bool" where
  "is_quote c \<longleftrightarrow> c = CHR 0x27 \<or> c = CHR 0x22"

definition is_rm_word :: "string \<Rightarrow> bool" where
  "is_rm_word t \<longleftrightarrow>
     (let bare = trim_matches (\<lambda>c. is_quote c \<or> c = CHR '';'' \<or> c = CHR '','') t
      in bare = ''rm'' \<or> bare = ''rmdir'' \<or> ends_with bare ''/rm'' \<or> ends_with bare ''/rmdir'')"

definition is_recursive_flag :: "string \<Rightarrow> bool" where
  "is_recursive_flag t =
     (if t = ''--recursive'' \<or> starts_with t ''--recursive='' then True
      else if starts_with t ''-'' \<and> \<not> starts_with t ''--'' \<and> 1 < length t
      then list_ex (\<lambda>c. c = CHR ''r'' \<or> c = CHR ''R'') (drop 1 t)
      else False)"

definition is_rm_like_recursive :: "string \<Rightarrow> bool" where
  "is_rm_like_recursive command =
     (let tokens = split_whitespace (to_lowercase command) in
      if \<not> list_ex is_rm_word tokens then False
      else list_ex is_recursive_flag tokens)"

definition is_critical_target :: "string \<Rightarrow> bool" where
  "is_critical_target target =
     (let trimmed = str_trim (trim_matches is_quote (str_trim target)) in
      if trimmed = [] then False
      else
        let normalized = replace_char backslash (CHR ''/'') trimmed in
        if normalized = ''/'' \<or> normalized = ''/*'' then True
        else if normalized \<in> {''~'', ''~/'', ''$HOME'', ''${HOME}''} then True
        else if normalized = ''.'' \<or> normalized = ''./'' then True
        else if is_workspace_root_marker normalized then True
        else if str_contains normalized ''.git'' then True
        else if is_protected normalized then True
        else False)"

definition rm_critical :: "string \<Rightarrow> string list \<Rightarrow> bool" where
  "rm_critical command targets =
     (if \<not> is_rm_like_recursive command then False
      else list_ex is_critical_target targets)"

section \<open>Lemmas\<close>

lemma is_protected_iff:
  "is_protected path \<longleftrightarrow>
   (\<exists>p \<in> set PROTECTED_PREFIXES. sublist p (replace_char backslash (CHR ''/'') path))"
  by (simp add: is_protected_def Let_def list_ex_iff str_contains_sublist)

lemma replace_char_append: "replace_char a b (s @ t) = replace_char a b s @ replace_char a b t"
  by (simp add: replace_char_def)

lemma replace_char_idem: "a \<noteq> b \<Longrightarrow> replace_char a b (replace_char a b s) = replace_char a b s"
  by (simp add: replace_char_def)

lemma is_protected_embed: "is_protected s \<Longrightarrow> is_protected (pre @ s @ post)"
  by (auto simp: is_protected_iff replace_char_append intro: sublist_append_leftI sublist_append_rightI
      sublist_order.order.trans)

lemma rm_r_recursive: "is_rm_like_recursive ''rm -r''"
  by (simp add: is_rm_like_recursive_def split_whitespace_def to_lowercase_def lower_char_def is_upper_def
      less_eq_char_def is_space_def is_rm_word_def is_recursive_flag_def trim_matches_def is_quote_def
      starts_with_def Let_def)

lemma rm_critical_rm_r: "rm_critical ''rm -r'' targets \<longleftrightarrow> list_ex is_critical_target targets"
  by (simp add: rm_critical_def rm_r_recursive)

section \<open>Property\<close>

text \<open>No path that contains a settings, credential or other-agent configuration name can be the
  target of a recursive removal: whatever precedes or follows the name in the path (blanks and quotes
  aside, which the code trims), the path is protected and \<open>rm -r\<close> of a list containing it is critical.\<close>

theorem rm_of_protected_is_critical:
  assumes "name \<in> set PROTECTED_PREFIXES" "target = pre @ name @ post" "target \<in> set targets"
    and "\<not> list_ex (\<lambda>c. is_space c \<or> is_quote c) target"
  shows "is_protected target \<and> rm_critical ''rm -r'' targets"
proof -
  have name: "is_protected name" if "name \<in> set PROTECTED_PREFIXES" for name
  proof -
    have "replace_char backslash (CHR ''/'') name = name"
      using that by (auto simp: PROTECTED_PREFIXES_def replace_char_def backslash_def)
    with that show ?thesis by (auto simp: is_protected_iff)
  qed
  have prot: "is_protected target"
    using name [OF assms(1)] is_protected_embed assms(2) by blast
  have plain: "str_trim target = target" "trim_matches is_quote target = target"
    using assms(4) by (auto simp: list_ex_iff str_trim_def intro: trim_matches_id)
  have ne: "target \<noteq> []"
    using assms(1,2) by (auto simp: PROTECTED_PREFIXES_def)
  have idem: "is_protected (replace_char backslash (CHR ''/'') target) = is_protected target"
    by (simp add: is_protected_iff replace_char_idem backslash_def)
  have "is_critical_target target"
    using prot plain ne idem by (simp add: is_critical_target_def Let_def)
  with assms(3) prot show ?thesis by (auto simp: rm_critical_rm_r list_ex_iff)
qed

theorem rm_of_protected_is_critical_witness:
  "let t = ''/home/u/.ssh/id''
   in is_protected t \<and> rm_critical ''rm -r'' [t]"
proof -
  have "''.ssh/'' \<in> set PROTECTED_PREFIXES" by (simp add: PROTECTED_PREFIXES_def)
  from rm_of_protected_is_critical [OF this, of "''/home/u/.ssh/id''" "''/home/u/''" "''id''" "[''/home/u/.ssh/id'']"]
  show ?thesis by (simp add: is_space_def is_quote_def less_eq_char_def)
qed

end
