(* ===== verification/Decision.thy ===== *)
theory Decision
  imports Guard_Types
begin

text \<open>
  The decision package rendered on an approval card (\<open>everyaios-guard/src/decision.rs\<close>) and the
  emergency stop (\<open>Estop\<close> of \<open>injection.rs\<close>, an atomic flag).
\<close>

datatype WebActionKind = Checkout | Payment | AccountChange | SensitiveSubmit

fun web_action_as_str :: "WebActionKind \<Rightarrow> string" where
  "web_action_as_str Checkout = ''checkout''"
| "web_action_as_str Payment = ''payment''"
| "web_action_as_str AccountChange = ''account_change''"
| "web_action_as_str SensitiveSubmit = ''sensitive_submit''"

definition web_action_parse :: "string \<Rightarrow> WebActionKind option" where
  "web_action_parse s =
     (if s = ''checkout'' then Some Checkout
      else if s = ''payment'' then Some Payment
      else if s = ''account_change'' then Some AccountChange
      else if s = ''sensitive_submit'' then Some SensitiveSubmit
      else None)"

lemma web_action_roundtrip: "web_action_parse (web_action_as_str k) = Some k"
  by (cases k) (simp_all add: web_action_parse_def)

record DecisionPackage =
  dp_goal :: string
  dp_proposed_diff :: string
  dp_risk :: RiskLevel
  dp_affected_paths :: "string list"
  dp_script_lines :: "string list"
  dp_execution_target :: string
  dp_env_vars :: "string list"
  dp_network_destinations :: "string list"
  dp_web_action :: "WebActionKind option"
  dp_confidence :: "f64 option"

definition decision_default :: DecisionPackage where
  "decision_default =
     \<lparr> dp_goal = [], dp_proposed_diff = [], dp_risk = Low, dp_affected_paths = [],
       dp_script_lines = [], dp_execution_target = [], dp_env_vars = [],
       dp_network_destinations = [], dp_web_action = None, dp_confidence = None \<rparr>"

definition decision_new :: "string \<Rightarrow> DecisionPackage" where
  "decision_new goal = decision_default\<lparr>dp_goal := goal\<rparr>"

definition with_diff :: "string \<Rightarrow> DecisionPackage \<Rightarrow> DecisionPackage" where
  "with_diff d p = p\<lparr>dp_proposed_diff := d\<rparr>"

definition with_risk :: "RiskLevel \<Rightarrow> DecisionPackage \<Rightarrow> DecisionPackage" where
  "with_risk r p = p\<lparr>dp_risk := r\<rparr>"

definition with_paths :: "string list \<Rightarrow> DecisionPackage \<Rightarrow> DecisionPackage" where
  "with_paths ps p = p\<lparr>dp_affected_paths := ps\<rparr>"

definition with_script :: "string list \<Rightarrow> string \<Rightarrow> DecisionPackage \<Rightarrow> DecisionPackage" where
  "with_script ls t p = p\<lparr>dp_script_lines := ls, dp_execution_target := t\<rparr>"

definition with_env :: "string list \<Rightarrow> DecisionPackage \<Rightarrow> DecisionPackage" where
  "with_env e p = p\<lparr>dp_env_vars := e\<rparr>"

definition with_network :: "string list \<Rightarrow> DecisionPackage \<Rightarrow> DecisionPackage" where
  "with_network ds p = p\<lparr>dp_network_destinations := ds\<rparr>"

definition with_web_action :: "WebActionKind \<Rightarrow> DecisionPackage \<Rightarrow> DecisionPackage" where
  "with_web_action k p = p\<lparr>dp_web_action := Some k\<rparr>"

definition with_confidence :: "f64 \<Rightarrow> DecisionPackage \<Rightarrow> DecisionPackage" where
  "with_confidence c p = p\<lparr>dp_confidence := Some c\<rparr>"

definition is_web_action :: "DecisionPackage \<Rightarrow> bool" where
  "is_web_action p \<longleftrightarrow> dp_web_action p \<noteq> None"

definition decision_summary :: "DecisionPackage \<Rightarrow> string" where
  "decision_summary p = (if dp_goal p = [] then ''(no goal)'' else dp_goal p)"

record Estop =
  estop_pulled :: bool

definition estop_new :: Estop where
  "estop_new = \<lparr> estop_pulled = False \<rparr>"

definition estop_pull :: "Estop \<Rightarrow> Estop" where
  "estop_pull e = e\<lparr>estop_pulled := True\<rparr>"

definition estop_reset :: "Estop \<Rightarrow> Estop" where
  "estop_reset e = e\<lparr>estop_pulled := False\<rparr>"

definition is_pulled :: "Estop \<Rightarrow> bool" where
  "is_pulled e = estop_pulled e"

lemma estop_laws [simp]:
  "is_pulled (estop_pull e)" "\<not> is_pulled (estop_reset e)" "\<not> is_pulled estop_new"
  by (simp_all add: is_pulled_def estop_pull_def estop_reset_def estop_new_def)

end
