(* ===== verification/Guard_Service.thy ===== *)
theory Guard_Service
  imports Json_Access Batch Permissions Autonomy Approval Reviewer Protected Decision
begin

text \<open>
  The executor-facing guard service (\<open>everyaios-core/src/guard_service.rs\<close>): its state, the
  pre-flight \<open>evaluate\<close> and \<open>evaluate_batch\<close>, ticket consumption and decisions, TTL extension, cards,
  and the JSON-RPC dispatch for the control plane and for the sidecar.

  Environment. \<open>guard_env\<close> collects what is not in the repository: SHA-256, the JSON serialization
  of a change set, the shortest decimal rendering of a float, the TOML parser and the accessors of a
  JSON value. Clock readings and random nonces are arguments. A channel endpoint is the list of the
  messages sent to it; a dropped receiver is a flag of its subscriber. The ticket counter is a
  natural number (the \<open>u64\<close> would have to wrap after \<open>2^64\<close> evaluations). RPC replies are typed
  values instead of JSON objects.
\<close>

section \<open>Environment and state\<close>

record 'v guard_json = "'v json_api" +
  j_decision :: "'v \<Rightarrow> string + DecisionPackage"

record 'v guard_env =
  ge_sha :: "string \<Rightarrow> string"
  ge_ser :: "BatchOperation list \<Rightarrow> string"
  ge_disp :: "f64 \<Rightarrow> string"
  ge_toml :: "string \<Rightarrow> RawTable option"
  ge_json :: "'v guard_json"

datatype GuardDecision = DecAllow string | DecAsk string | DecBlock string

record AskReason =
  ar_code :: string
  ar_detail :: string

definition ask_reason_new :: "string \<Rightarrow> string \<Rightarrow> AskReason" where
  "ask_reason_new c d = \<lparr> ar_code = c, ar_detail = d \<rparr>"

definition ask_reason_render :: "AskReason \<Rightarrow> string" where
  "ask_reason_render r = (if ar_detail r = [] then ar_code r else ar_code r @ '' '' @ ar_detail r)"

datatype GuardLifecycle =
    LcMinted string bool
  | LcApproved string bool
  | LcRejected string bool
  | LcExpired string bool

record Subscriber =
  sub_alive :: bool
  sub_events :: "GuardLifecycle list"

record GuardService =
  gs_tickets :: TicketStore
  gs_batches :: BatchTicketStore
  gs_policy :: PermissionsPolicy
  gs_estop :: Estop
  gs_profile :: Profile
  gs_approval_policy :: ApprovalPolicy
  gs_human_floor :: HumanFloor
  gs_reviewer_config :: ReviewerConfig
  gs_reviewer_breaker :: ReviewerBreaker
  gs_decisions :: "DecisionPackage strmap"
  gs_reasons :: "AskReason strmap"
  gs_lifecycle :: "Subscriber list"
  gs_counter :: nat
  gs_waiters :: "nat strmap"
  gs_outcomes :: "bool strmap"
  gs_next_rx :: nat
  gs_delivered :: "(nat \<times> bool) list"

definition guard_service_default :: GuardService where
  "guard_service_default =
     \<lparr> gs_tickets = ticket_store_new, gs_batches = batch_store_new, gs_policy = policy_default,
       gs_estop = estop_new, gs_profile = Standard, gs_approval_policy = [],
       gs_human_floor = human_floor_defaults,
       gs_reviewer_config = reviewer_config_new (Fin (101 / 100)) 0,
       gs_reviewer_breaker = breaker_new 3,
       gs_decisions = [], gs_reasons = [], gs_lifecycle = [], gs_counter = 0,
       gs_waiters = [], gs_outcomes = [], gs_next_rx = 0, gs_delivered = [] \<rparr>"

section \<open>Settings\<close>

definition load_policy_from :: "(string \<Rightarrow> RawTable option) \<Rightarrow> string option \<Rightarrow> GuardService \<Rightarrow> GuardService" where
  "load_policy_from toml file s =
     (case file of None \<Rightarrow> s | Some doc \<Rightarrow> s\<lparr>gs_policy := policy_parse toml doc\<rparr>)"

definition set_profile :: "Profile \<Rightarrow> GuardService \<Rightarrow> GuardService" where
  "set_profile p s = s\<lparr>gs_profile := p\<rparr>"

definition set_autonomy_level :: "AutonomyPreset \<Rightarrow> GuardService \<Rightarrow> GuardService" where
  "set_autonomy_level l s = s\<lparr>gs_policy := preset l\<rparr>"

definition autonomy_level :: "GuardService \<Rightarrow> AutonomyPreset" where
  "autonomy_level s =
     (case find (is_preset (gs_policy s)) [PresetSandbox, PresetAsk, PresetAuto, PresetMaximum] of
        Some l \<Rightarrow> l
      | None \<Rightarrow> PresetAsk)"

definition set_approval_policy :: "ApprovalPolicy \<Rightarrow> GuardService \<Rightarrow> GuardService" where
  "set_approval_policy p s = s\<lparr>gs_approval_policy := p\<rparr>"

definition set_human_floor :: "HumanFloor \<Rightarrow> GuardService \<Rightarrow> GuardService" where
  "set_human_floor f s = s\<lparr>gs_human_floor := f\<rparr>"

definition set_reviewer_config :: "ReviewerConfig \<Rightarrow> GuardService \<Rightarrow> GuardService" where
  "set_reviewer_config c s = s\<lparr>gs_reviewer_config := c\<rparr>"

definition reset_reviewer_breaker :: "GuardService \<Rightarrow> GuardService" where
  "reset_reviewer_breaker s = s\<lparr>gs_reviewer_breaker := breaker_reset (gs_reviewer_breaker s)\<rparr>"

definition emit_lifecycle :: "GuardLifecycle \<Rightarrow> GuardService \<Rightarrow> GuardService" where
  "emit_lifecycle ev s =
     s\<lparr>gs_lifecycle := map (\<lambda>b. b\<lparr>sub_events := sub_events b @ [ev]\<rparr>) (filter sub_alive (gs_lifecycle s))\<rparr>"

definition subscribe_lifecycle :: "GuardService \<Rightarrow> GuardService" where
  "subscribe_lifecycle s =
     s\<lparr>gs_lifecycle := gs_lifecycle s @ [\<lparr> sub_alive = True, sub_events = [] \<rparr>]\<rparr>"

section \<open>Pre-flight\<close>

definition em_dash :: string where
  "em_dash = [CHR 0xE2, CHR 0x80, CHR 0x94]"

fun risk_debug :: "RiskLevel \<Rightarrow> string" where
  "risk_debug Low = ''Low''"
| "risk_debug Medium = ''Medium''"
| "risk_debug High = ''High''"
| "risk_debug Critical = ''Critical''"

definition shell_like :: "string \<Rightarrow> bool" where
  "shell_like tool \<longleftrightarrow>
     str_contains tool ''shell'' \<or> str_contains tool ''bash'' \<or> str_contains tool ''exec'' \<or>
     str_contains tool ''terminal'' \<or> str_contains tool ''run''"

fun guards_settings :: "Operation \<Rightarrow> bool" where
  "guards_settings DeleteFiles \<longleftrightarrow> True"
| "guards_settings GenericWrite \<longleftrightarrow> True"
| "guards_settings (MultiFileEdit _) \<longleftrightarrow> True"
| "guards_settings (TerminalShell _) \<longleftrightarrow> True"
| "guards_settings _ \<longleftrightarrow> False"

definition protected_hit :: "Operation \<Rightarrow> string list \<Rightarrow> bool" where
  "protected_hit opn paths \<longleftrightarrow> guards_settings opn \<and> list_ex is_protected paths"

definition floor_ask :: "GuardService \<Rightarrow> Operation \<Rightarrow> string list \<Rightarrow> bool" where
  "floor_ask s opn paths \<longleftrightarrow>
     requires_human (gs_human_floor s) (op_name opn) None \<or> protected_hit opn paths \<or>
     list_ex (\<lambda>p. requires_human (gs_human_floor s) (op_name opn) (Some p)) paths"

definition needs_human :: "GuardService \<Rightarrow> DecisionPackage \<Rightarrow> bool" where
  "needs_human s d \<longleftrightarrow> human_approval_threshold (gs_profile s) \<le> dp_risk d"

definition low_confidence :: "GuardService \<Rightarrow> DecisionPackage \<Rightarrow> bool" where
  "low_confidence s d =
     (case dp_confidence d of None \<Rightarrow> False | Some c \<Rightarrow> \<not> auto_confidence_ok (gs_policy s) c)"

definition r4_ask :: "DecisionPackage \<Rightarrow> string \<Rightarrow> bool" where
  "r4_ask d name \<longleftrightarrow> from_risk_and_op (dp_risk d) name False = R4"

definition confidence_reason :: "GuardService \<Rightarrow> DecisionPackage \<Rightarrow> AskReason" where
  "confidence_reason s d =
     (case dp_confidence d of
        Some c \<Rightarrow> ask_reason_new ''confidence''
          (''model confidence '' @ show_2dec c @ '' is below the auto floor '' @
           show_2dec (pp_min_confidence (gs_policy s)))
      | None \<Rightarrow> ask_reason_new ''confidence''
          (''no model confidence reported '' @ em_dash @ '' fail-closed to ask''))"

definition profile_reason :: "GuardService \<Rightarrow> DecisionPackage \<Rightarrow> string \<Rightarrow> AskReason" where
  "profile_reason s d what = ask_reason_new ''profile''
     (''profile '' @ profile_as_str (gs_profile s) @ '' asks at '' @
      risk_debug (human_approval_threshold (gs_profile s)) @ '' ('' @ what @ '' is '' @ risk_debug (dp_risk d) @ '')'')"

definition ask_reason :: "GuardService \<Rightarrow> Operation \<Rightarrow> DecisionPackage \<Rightarrow> PolicyAction \<Rightarrow> AskReason option" where
  "ask_reason s opn d act =
     (if floor_ask s opn (dp_affected_paths d) then
        (if protected_hit opn (dp_affected_paths d)
         then Some (ask_reason_new ''floor:protected-settings''
                (''this path is EveryAIOS-protected '' @ em_dash @ '' a human must approve''))
         else Some (ask_reason_new ''floor:human-only'' (op_name opn @ '' needs a human in every preset'')))
      else if act = PolicyAsk
      then Some (ask_reason_new ''policy:ask'' (''permissions rule for '' @ op_name opn @ '' says ask''))
      else if r4_ask d (op_name opn)
      then Some (ask_reason_new ''tier:R4''
             (''high-privilege credential/network/system '' @ em_dash @ '' explicit by default''))
      else if needs_human s d then Some (profile_reason s d ''this'')
      else if low_confidence s d then Some (confidence_reason s d)
      else None)"

text \<open>The disjunction \<open>ask\<close> before the reviewer looks at it.\<close>

definition wants_ask :: "GuardService \<Rightarrow> Operation \<Rightarrow> DecisionPackage \<Rightarrow> PolicyAction \<Rightarrow> bool" where
  "wants_ask s opn d act \<longleftrightarrow>
     act = PolicyAsk \<or> needs_human s d \<or> low_confidence s d \<or> r4_ask d (op_name opn) \<or>
     floor_ask s opn (dp_affected_paths d)"

definition reviewer_allows :: "(f64 \<Rightarrow> string) \<Rightarrow> GuardService \<Rightarrow> DecisionPackage \<Rightarrow> bool" where
  "reviewer_allows disp s d \<longleftrightarrow>
     auto_review disp (dp_confidence d) (gs_reviewer_config s) (gs_reviewer_breaker s) = AutoAllow"

text \<open>The early returns of \<open>evaluate\<close>, in the order of the code.\<close>

definition hard_block :: "GuardService \<Rightarrow> string \<Rightarrow> Operation \<Rightarrow> DecisionPackage \<Rightarrow> string option" where
  "hard_block s tool opn d =
     (if is_pulled (gs_estop s) then Some ''estop pulled''
      else if shell_like tool \<and> opn = TerminalShell True \<and> rm_critical ''rm -r'' (dp_affected_paths d)
      then Some ''critical rm target refused''
      else if opn = DeleteFiles \<and> dp_affected_paths d = []
      then Some ''delete without located paths refused''
      else if approval_evaluate (gs_approval_policy s) tool [] = ApprovalDeny
      then Some (''tool policy denies '' @ tool)
      else if policy_evaluate (gs_policy s) opn = PolicyBlock
      then Some (''policy denies '' @ op_name opn)
      else None)"

definition evaluate_ticket ::
  "nat \<Rightarrow> string \<Rightarrow> string \<Rightarrow> string \<Rightarrow> string \<Rightarrow> string \<Rightarrow> Operation \<Rightarrow> DecisionPackage \<Rightarrow> string \<Rightarrow> nat \<Rightarrow>
   bool \<Rightarrow> AuthorizationTicket" where
  "evaluate_ticket now nonce tid sess agent tool opn d h seq ask =
     \<lparr> tk_ticket_id = tid, tk_agent_id = agent, tk_session_id = sess, tk_tool_id = tool,
       tk_operation = op_name opn, tk_args_hash = h, tk_paths = dp_affected_paths d,
       tk_expires_at_ms = u64_add now 60000, tk_single_use = True,
       tk_approval_source = PolicySrc, tk_approval_nonce = nonce, tk_risk = dp_risk d,
       tk_audit_seq = seq, tk_state = (if ask then Pending else Approved), tk_bindings = [],
       tk_execution_id = [], tk_action_id = tool,
       tk_idempotency_key = sess @ '':'' @ tool @ '':'' @ h \<rparr>"

definition ticket_id_of :: "nat \<Rightarrow> string" where
  "ticket_id_of n = ''tkt:'' @ show_nat n"

definition batch_id_of :: "nat \<Rightarrow> string" where
  "batch_id_of n = ''btk:'' @ show_nat n"

definition add_reason :: "string \<Rightarrow> AskReason option \<Rightarrow> GuardService \<Rightarrow> GuardService" where
  "add_reason tid r s =
     (case r of None \<Rightarrow> s | Some x \<Rightarrow> s\<lparr>gs_reasons := AList.update tid x (gs_reasons s)\<rparr>)"

definition evaluate ::
  "'v guard_env \<Rightarrow> nat \<Rightarrow> string \<Rightarrow> string \<Rightarrow> string \<Rightarrow> string \<Rightarrow> Operation \<Rightarrow> DecisionPackage \<Rightarrow> string \<Rightarrow>
   nat \<Rightarrow> GuardService \<Rightarrow> GuardDecision \<times> GuardService" where
  "evaluate env now nonce sess agent tool opn d h seq s =
     (case hard_block s tool opn d of
        Some reason \<Rightarrow> (DecBlock reason, s)
      | None \<Rightarrow>
          let act = policy_evaluate (gs_policy s) opn;
              reason = ask_reason s opn d act;
              ask0 = wants_ask s opn d act;
              ask = (if ask0 \<and> act \<noteq> PolicyBlock \<and> reviewer_allows (ge_disp env) s d then False else ask0);
              s1 = s\<lparr>gs_counter := Suc (gs_counter s)\<rparr>;
              tid = ticket_id_of (gs_counter s1);
              s2 = s1\<lparr>gs_tickets := snd (ts_mint (evaluate_ticket now nonce tid sess agent tool opn d h seq ask)
                                          (gs_tickets s1))\<rparr>;
              s3 = s2\<lparr>gs_decisions := AList.update tid d (gs_decisions s2)\<rparr>
          in if ask
             then (DecAsk tid, emit_lifecycle (LcMinted tid False) (add_reason tid reason s3))
             else (DecAllow tid, s3))"

definition batch_reason :: "GuardService \<Rightarrow> DecisionPackage \<Rightarrow> PolicyAction \<Rightarrow> AskReason option" where
  "batch_reason s d act =
     (if act = PolicyAsk
      then Some (ask_reason_new ''policy:ask'' ''permissions rule for batch write says ask'')
      else if r4_ask d ''batch''
      then Some (ask_reason_new ''tier:R4''
             (''batch risk is high-privilege '' @ em_dash @ '' explicit by default''))
      else if needs_human s d then Some (profile_reason s d ''this batch'')
      else if low_confidence s d then Some (confidence_reason s d)
      else None)"

definition evaluate_batch ::
  "'v guard_env \<Rightarrow> nat \<Rightarrow> string \<Rightarrow> string \<Rightarrow> string \<Rightarrow> BatchOperation list \<Rightarrow> DecisionPackage \<Rightarrow> nat \<Rightarrow>
   GuardService \<Rightarrow> GuardDecision \<times> GuardService" where
  "evaluate_batch env now nonce sess agent ops d seq s =
     (if is_pulled (gs_estop s) then (DecBlock ''estop pulled'', s)
      else
        let act = policy_evaluate (gs_policy s) GenericWrite in
        if act = PolicyBlock then (DecBlock ''policy denies batch write'', s)
        else
          let reason = batch_reason s d act;
              ask = (act = PolicyAsk \<or> needs_human s d \<or> low_confidence s d \<or> r4_ask d ''batch'');
              s1 = s\<lparr>gs_counter := Suc (gs_counter s)\<rparr>;
              tid = batch_id_of (gs_counter s1);
              t0 = batch_ticket_mint (ge_ser env) (ge_sha env) now nonce tid agent sess ops (dp_risk d) seq;
              t = (if \<not> ask then t0\<lparr>bt_state := Approved, bt_approval_source := PolicySrc\<rparr> else t0);
              s2 = s1\<lparr>gs_batches := snd (bs_mint t (gs_batches s1))\<rparr>;
              s3 = s2\<lparr>gs_decisions := AList.update tid d (gs_decisions s2)\<rparr>
          in if ask
             then (DecAsk tid, emit_lifecycle (LcMinted tid True) (add_reason tid reason s3))
             else (DecAllow tid, s3))"

section \<open>Consumption and decisions\<close>

fun ticket_error_str :: "TicketError \<Rightarrow> string" where
  "ticket_error_str ErrUnknown = ''unknown ticket''"
| "ticket_error_str ErrExpired = ''ticket expired''"
| "ticket_error_str ErrAlreadyUsed = ''ticket already used''"
| "ticket_error_str ErrRevoked = ''ticket revoked''"
| "ticket_error_str ErrNotApproved = ''ticket not approved (pending human decision)''"
| "ticket_error_str ErrArgsMismatch = ''args hash mismatch''"
| "ticket_error_str ErrRejected = ''ticket was already rejected''"
| "ticket_error_str ErrNotSingleUse = ''context-bound tool consumption requires a single-use ticket''"
| "ticket_error_str ErrBlocked = ''mint refused by profile gate (blocked)''"

definition map_ticket_err :: "TicketError + unit \<Rightarrow> string + unit" where
  "map_ticket_err r = (case r of Inl e \<Rightarrow> Inl (ticket_error_str e) | Inr u \<Rightarrow> Inr u)"

definition gs_use_ticket ::
  "'v guard_env \<Rightarrow> nat \<Rightarrow> string \<Rightarrow> string \<Rightarrow> GuardService \<Rightarrow> (string + unit) \<times> GuardService" where
  "gs_use_ticket env now tid h s =
     (if is_pulled (gs_estop s) then (Inl ''estop pulled'', s)
      else let (r, ts) = use_ticket (ge_sha env) now tid h (gs_tickets s)
           in (map_ticket_err r, s\<lparr>gs_tickets := ts\<rparr>))"

definition gs_use_batch_ticket ::
  "nat \<Rightarrow> string \<Rightarrow> string \<Rightarrow> GuardService \<Rightarrow> (string + unit) \<times> GuardService" where
  "gs_use_batch_ticket now tid h s =
     (if is_pulled (gs_estop s) then (Inl ''estop pulled'', s)
      else let (r, bs) = use_batch_ticket now tid h (gs_batches s)
           in (map_ticket_err r, s\<lparr>gs_batches := bs\<rparr>))"

definition batch_change_set_hash :: "GuardService \<Rightarrow> string \<Rightarrow> string option" where
  "batch_change_set_hash s tid = map_option bt_change_set_hash (bs_get (gs_batches s) tid)"

definition batch_approval_nonce :: "GuardService \<Rightarrow> string \<Rightarrow> string option" where
  "batch_approval_nonce s tid = map_option bt_approval_nonce (bs_get (gs_batches s) tid)"

definition set_ticket_bindings ::
  "string \<Rightarrow> ResourceBinding list \<Rightarrow> GuardService \<Rightarrow> bool \<times> GuardService" where
  "set_ticket_bindings tid bs s =
     (let (r, ts) = set_bindings tid bs (gs_tickets s) in (r, s\<lparr>gs_tickets := ts\<rparr>))"

definition set_ticket_execution :: "string \<Rightarrow> string \<Rightarrow> GuardService \<Rightarrow> bool \<times> GuardService" where
  "set_ticket_execution tid ex s =
     (let (r, ts) = set_execution tid ex (gs_tickets s) in (r, s\<lparr>gs_tickets := ts\<rparr>))"

definition ticket_bindings :: "GuardService \<Rightarrow> string \<Rightarrow> ResourceBinding list" where
  "ticket_bindings s tid = (case ts_get (gs_tickets s) tid of None \<Rightarrow> [] | Some t \<Rightarrow> tk_bindings t)"

definition gs_approval_nonce :: "GuardService \<Rightarrow> string \<Rightarrow> string option" where
  "gs_approval_nonce s tid = ts_approval_nonce (gs_tickets s) tid"

definition signal_ticket :: "string \<Rightarrow> bool \<Rightarrow> GuardService \<Rightarrow> GuardService" where
  "signal_ticket tid approved s =
     (let s1 = s\<lparr>gs_outcomes := AList.update tid approved (gs_outcomes s)\<rparr>
      in case lookup (gs_waiters s1) tid of
           None \<Rightarrow> s1
         | Some rx \<Rightarrow> s1\<lparr>gs_waiters := AList.delete tid (gs_waiters s1),
                         gs_delivered := gs_delivered s1 @ [(rx, approved)]\<rparr>)"

text \<open>The common tail of the approve and reject methods: signal the waiter, then the subscribers.\<close>

definition conclude :: "bool \<Rightarrow> string \<Rightarrow> bool \<Rightarrow> bool \<Rightarrow> GuardService \<Rightarrow> GuardService" where
  "conclude good tid approved batch s =
     (if good
      then emit_lifecycle (if approved then LcApproved tid batch else LcRejected tid batch)
             (signal_ticket tid approved s)
      else s)"

definition gs_approve :: "'v guard_env \<Rightarrow> nat \<Rightarrow> string \<Rightarrow> GuardService \<Rightarrow> bool \<times> GuardService" where
  "gs_approve env now tid s =
     (let (good, ts) = ts_approve (ge_sha env) now tid (gs_tickets s)
      in (good, conclude good tid True False (s\<lparr>gs_tickets := ts\<rparr>)))"

definition gs_approve_with_nonce ::
  "'v guard_env \<Rightarrow> nat \<Rightarrow> string \<Rightarrow> string \<Rightarrow> GuardService \<Rightarrow> bool \<times> GuardService" where
  "gs_approve_with_nonce env now tid nonce s =
     (let (good, ts) = approve_with_nonce (ge_sha env) now tid nonce (gs_tickets s)
      in (good, conclude good tid True False (s\<lparr>gs_tickets := ts\<rparr>)))"

definition gs_reject :: "'v guard_env \<Rightarrow> nat \<Rightarrow> string \<Rightarrow> GuardService \<Rightarrow> bool \<times> GuardService" where
  "gs_reject env now tid s =
     (let (good, ts) = ts_reject (ge_sha env) now tid (gs_tickets s)
      in (good, conclude good tid False False (s\<lparr>gs_tickets := ts\<rparr>)))"

definition gs_reject_with_nonce ::
  "'v guard_env \<Rightarrow> nat \<Rightarrow> string \<Rightarrow> string \<Rightarrow> GuardService \<Rightarrow> bool \<times> GuardService" where
  "gs_reject_with_nonce env now tid nonce s =
     (let (good, ts) = reject_with_nonce (ge_sha env) now tid nonce (gs_tickets s)
      in (good, conclude good tid False False (s\<lparr>gs_tickets := ts\<rparr>)))"

definition approve_batch_with_nonce ::
  "'v guard_env \<Rightarrow> nat \<Rightarrow> string \<Rightarrow> string \<Rightarrow> GuardService \<Rightarrow> bool \<times> GuardService" where
  "approve_batch_with_nonce env now tid nonce s =
     (let (good, bs) = bs_approve_with_nonce (ge_sha env) now tid nonce (gs_batches s)
      in (good, conclude good tid True True (s\<lparr>gs_batches := bs\<rparr>)))"

definition approve_batch :: "'v guard_env \<Rightarrow> nat \<Rightarrow> string \<Rightarrow> GuardService \<Rightarrow> bool \<times> GuardService" where
  "approve_batch env now tid s =
     (let (good, bs) = bs_approve (ge_sha env) now tid (gs_batches s)
      in (good, conclude good tid True True (s\<lparr>gs_batches := bs\<rparr>)))"

definition reject_batch_with_nonce ::
  "'v guard_env \<Rightarrow> nat \<Rightarrow> string \<Rightarrow> string \<Rightarrow> GuardService \<Rightarrow> bool \<times> GuardService" where
  "reject_batch_with_nonce env now tid nonce s =
     (let (good, bs) = bs_reject_with_nonce (ge_sha env) now tid nonce (gs_batches s)
      in (good, conclude good tid False True (s\<lparr>gs_batches := bs\<rparr>)))"

text \<open>A new channel: its receiver is named by a number; what is sent to it is in
  \<open>gs_delivered\<close>.\<close>

definition watch_ticket :: "string \<Rightarrow> GuardService \<Rightarrow> nat \<times> GuardService" where
  "watch_ticket tid s =
     (let rx = gs_next_rx s; s1 = s\<lparr>gs_next_rx := Suc rx\<rparr>
      in case lookup (gs_outcomes s1) tid of
           Some v \<Rightarrow> (rx, s1\<lparr>gs_delivered := gs_delivered s1 @ [(rx, v)]\<rparr>)
         | None \<Rightarrow> (rx, s1\<lparr>gs_waiters := AList.update tid rx (gs_waiters s1)\<rparr>))"

text \<open>\<open>wait_ticket\<close> keeps the service exclusively borrowed while it waits, so only a message that
  \<open>watch_ticket\<close> preloaded can arrive before the timeout.\<close>

definition wait_ticket :: "string \<Rightarrow> GuardService \<Rightarrow> bool \<times> GuardService" where
  "wait_ticket tid s =
     (let (rx, s1) = watch_ticket tid s
      in ((case map_of (rev (gs_delivered s1)) rx of None \<Rightarrow> False | Some v \<Rightarrow> v), s1))"

section \<open>Cards and TTL extension\<close>

record PendingGuardCard =
  pc_ticket_id :: string
  pc_agent_id :: string
  pc_session_id :: string
  pc_tool_id :: string
  pc_operation :: string
  pc_paths :: "string list"
  pc_risk :: string
  pc_risk_tier :: string
  pc_approval_source :: string
  pc_approval_nonce :: string
  pc_expires_at_ms :: nat
  pc_reason :: "string option"
  pc_decision :: "DecisionPackage option"

fun source_debug :: "ApprovalSource \<Rightarrow> string" where
  "source_debug PolicySrc = ''Policy''"
| "source_debug HumanSrc = ''Human''"
| "source_debug PermissionsToml = ''PermissionsToml''"
| "source_debug CoordinatorSrc = ''Coordinator''"

definition pending_card :: "GuardService \<Rightarrow> AuthorizationTicket \<Rightarrow> PendingGuardCard" where
  "pending_card s t =
     \<lparr> pc_ticket_id = tk_ticket_id t, pc_agent_id = tk_agent_id t, pc_session_id = tk_session_id t,
       pc_tool_id = tk_tool_id t, pc_operation = tk_operation t, pc_paths = tk_paths t,
       pc_risk = to_lowercase (risk_debug (tk_risk t)),
       pc_risk_tier = tier_as_str (from_risk_and_op (tk_risk t) (tk_operation t) False),
       pc_approval_source = to_lowercase (source_debug (tk_approval_source t)),
       pc_approval_nonce = tk_approval_nonce t, pc_expires_at_ms = tk_expires_at_ms t,
       pc_reason = map_option ask_reason_render (lookup (gs_reasons s) (tk_ticket_id t)),
       pc_decision = lookup (gs_decisions s) (tk_ticket_id t) \<rparr>"

definition gs_pending :: "GuardService \<Rightarrow> PendingGuardCard list" where
  "gs_pending s = map (pending_card s) (ts_pending (gs_tickets s))"

definition extended_expiry :: "nat \<Rightarrow> nat \<Rightarrow> nat \<Rightarrow> nat" where
  "extended_expiry expires now extra =
     min (u64_add (max expires now) extra) (u64_add now (5 * 60000))"

definition extend_ticket_ttl ::
  "nat \<Rightarrow> string \<Rightarrow> string \<Rightarrow> nat \<Rightarrow> GuardService \<Rightarrow> (string + nat \<times> string) \<times> GuardService" where
  "extend_ticket_ttl now nonce tid extra_ms s =
     (let extra = min extra_ms 60000 in
      if extra = 0 then (Inl ''extension must be > 0ms'', s)
      else if starts_with tid ''btk:'' then
        (case bs_get (gs_batches s) tid of
           None \<Rightarrow> (Inl (''unknown batch ticket: '' @ tid), s)
         | Some t \<Rightarrow>
             if bt_state t \<noteq> Pending then (Inl ''only pending tickets can be extended'', s)
             else
               let new_exp = extended_expiry (bt_expires_at_ms t) now extra;
                   t' = t\<lparr>bt_expires_at_ms := new_exp, bt_approval_nonce := nonce\<rparr>
               in (Inr (new_exp, nonce),
                   emit_lifecycle (LcMinted tid True) (s\<lparr>gs_batches := bs_put tid t' (gs_batches s)\<rparr>)))
      else
        (case ts_get (gs_tickets s) tid of
           None \<Rightarrow> (Inl (''unknown ticket: '' @ tid), s)
         | Some t \<Rightarrow>
             if tk_state t \<noteq> Pending then (Inl ''only pending tickets can be extended'', s)
             else
               let new_exp = extended_expiry (tk_expires_at_ms t) now extra;
                   t' = t\<lparr>tk_expires_at_ms := new_exp, tk_approval_nonce := nonce\<rparr>
               in (Inr (new_exp, nonce),
                   emit_lifecycle (LcMinted tid False) (s\<lparr>gs_tickets := ts_put tid t' (gs_tickets s)\<rparr>))))"

record BlockExplanation =
  be_class :: string
  be_hint :: string

definition right_arrow :: string where
  "right_arrow = [CHR 0xE2, CHR 0x86, CHR 0x92]"

definition explain_block :: "string \<Rightarrow> BlockExplanation" where
  "explain_block reason =
     (let r = to_lowercase reason in
      if str_contains r ''estop'' then
        \<lparr> be_class = ''emergency-stop'',
          be_hint = ''The emergency stop is pulled '' @ em_dash @
            '' reset it in the Guard panel before retrying.'' \<rparr>
      else if str_contains r ''critical rm'' then
        \<lparr> be_class = ''destructive-shell'',
          be_hint = ''This delete targets /, ~, ., .git or an EveryAIOS-protected path. Narrow the target to the workspace folder and retry.'' \<rparr>
      else if str_contains r ''without located paths'' then
        \<lparr> be_class = ''unlocated-delete'',
          be_hint = ''Deletes must name their targets. Re-run with the exact file or folder path.'' \<rparr>
      else if str_contains r ''tool policy denies'' then
        \<lparr> be_class = ''tool-denied'',
          be_hint = ''Your tool allow-list denies this tool. Change the rule to ask (or remove the deny) in Guard '' @
            right_arrow @ '' Tool Allow-list.'' \<rparr>
      else if str_contains r ''policy denies'' then
        \<lparr> be_class = ''policy-denied'',
          be_hint = ''permissions.toml denies this operation class. Switch autonomy preset or edit the policy, then retry.'' \<rparr>
      else if str_contains r ''mcp attach blocked'' \<or> str_contains r ''mcp'' then
        \<lparr> be_class = ''connector-blocked'',
          be_hint = ''The connector attach was refused. Check the server command/args and attach again from Connectors.'' \<rparr>
      else
        \<lparr> be_class = ''blocked'',
          be_hint = ''Refused by the guard. Open the Guard panel for the policy detail, or send this to Feedback.'' \<rparr>)"

end
