(* ===== verification/Guard_Rpc.thy ===== *)
theory Guard_Rpc
  imports Guard_Service
begin

text \<open>
  The JSON-RPC surface of the guard service (\<open>handle\<close>, \<open>handle_sidecar\<close> and \<open>handle_inner\<close> of
  \<open>everyaios-core/src/guard_service.rs\<close>) with the permission bundles. A request is a method name and
  a JSON value read through \<open>json_api\<close>; a reply is a value of \<open>GuardReply\<close>, one constructor per
  shape of JSON object the code builds.
\<close>

section \<open>Permission bundles\<close>

record ComboBundle =
  cb_name :: string
  cb_description :: string
  cb_rules :: "(string \<times> string) list"
  cb_tool_rules :: "(string \<times> string) list"

definition COMBO_BUNDLES :: "ComboBundle list" where
  "COMBO_BUNDLES =
    [ \<lparr> cb_name = ''approve_then_read'',
        cb_description = ''Sensitive-scope reads (vault/credential dirs, dotfile secrets, browser session data) require human approval '' @ em_dash @ '' the default approve-then-read contract.'',
        cb_rules = [(''read_sensitive'', ''always_ask'')], cb_tool_rules = [] \<rparr>,
      \<lparr> cb_name = ''open_reads'',
        cb_description = ''Sensitive-scope reads resolve without a card. Keeps every mutation gate unchanged.'',
        cb_rules = [(''read_sensitive'', ''always_allow'')], cb_tool_rules = [] \<rparr>,
      \<lparr> cb_name = ''block_sensitive_reads'',
        cb_description = ''Refuse reads of sensitive scopes outright (vault/credentials/browser session data never reach the model).'',
        cb_rules = [(''read_sensitive'', ''block'')], cb_tool_rules = [] \<rparr>,
      \<lparr> cb_name = ''dev_workflow'',
        cb_description = ''The everyday coding posture: workspace writes ask, destructive shell asks, new domains ask, sensitive reads ask.'',
        cb_rules = [(''read_sensitive'', ''always_ask''), (''write'', ''always_ask''),
          (''terminal_shell'', ''ask_if_destructive''), (''external_network'', ''ask_if_new_domain'')],
        cb_tool_rules = [] \<rparr>,
      \<lparr> cb_name = ''hardened'',
        cb_description = ''Everything meaningful asks (writes, deletes, web, multi-file, sensitive reads, new domains, destructive shell) '' @ em_dash @ '' maximum human-in-the-loop without blocking the product.'',
        cb_rules = [(''read_sensitive'', ''always_ask''), (''write'', ''always_ask''),
          (''delete_files'', ''always_ask''), (''web_action'', ''always_ask''),
          (''multi_file_edit'', ''always_ask''), (''external_network'', ''ask_if_new_domain''),
          (''terminal_shell'', ''ask_if_destructive'')],
        cb_tool_rules = [] \<rparr>,
      \<lparr> cb_name = ''browse_only'',
        cb_description = ''Research mode: reads + browsing free, every mutation refused (write/delete/shell blocked), sensitive reads ask.'',
        cb_rules = [(''read_sensitive'', ''always_ask''), (''write'', ''block''),
          (''delete_files'', ''block''), (''terminal_shell'', ''block''),
          (''web_action'', ''always_ask''), (''external_network'', ''ask_if_new_domain'')],
        cb_tool_rules = [] \<rparr> ]"

section \<open>Replies\<close>

record PolicySummary =
  ps_min_confidence :: f64
  ps_feedback :: bool
  ps_profile :: string
  ps_estop_pulled :: bool
  ps_autonomy :: string
  ps_rules :: "(string \<times> string option \<times> string) list"
  ps_threshold :: string
  ps_reviewer_budget :: nat
  ps_reviewer_floor :: f64

datatype GuardReply =
    RpDecision GuardDecision
  | RpConsumed
  | RpApproved bool
  | RpRejected bool
  | RpPulled bool
  | RpPending "PendingGuardCard list"
  | RpReceipts "GuardReceipt list"
  | RpProfile string
  | RpPolicy PolicySummary
  | RpApplied nat
  | RpCombos "ComboBundle list"
  | RpComboApplied nat string
  | RpAutonomy string f64
  | RpTicketStatus string string
  | RpExtended string nat string
  | RpExplain BlockExplanation

fun state_debug :: "TicketState \<Rightarrow> string" where
  "state_debug Pending = ''Pending''"
| "state_debug Approved = ''Approved''"
| "state_debug Used = ''Used''"
| "state_debug Rejected = ''Rejected''"
| "state_debug Expired = ''Expired''"
| "state_debug Revoked = ''Revoked''"

fun approval_str :: "Approval \<Rightarrow> string" where
  "approval_str ApprovalAllow = ''allow''"
| "approval_str ApprovalAsk = ''ask''"
| "approval_str ApprovalDeny = ''deny''"

definition policy_summary :: "GuardService \<Rightarrow> PolicySummary" where
  "policy_summary s =
     \<lparr> ps_min_confidence = pp_min_confidence (gs_policy s), ps_feedback = pp_feedback (gs_policy s),
       ps_profile = profile_as_str (gs_profile s), ps_estop_pulled = is_pulled (gs_estop s),
       ps_autonomy = preset_as_str (autonomy_level s),
       ps_rules = map (\<lambda>(p, a). (tp_tool p, tp_args_glob p, approval_str a)) (gs_approval_policy s),
       ps_threshold = to_lowercase (risk_debug (human_approval_threshold (gs_profile s))),
       ps_reviewer_budget = max_auto_per_run (gs_reviewer_config s),
       ps_reviewer_floor = confidence_floor (gs_reviewer_config s) \<rparr>"

section \<open>Parameters\<close>

definition parse_profile :: "string \<Rightarrow> string + Profile" where
  "parse_profile s =
     (if s = ''minimal'' then Inr Minimal
      else if s = ''standard'' then Inr Standard
      else if s = ''strict'' then Inr Strict
      else Inl (''unknown profile: '' @ s))"

definition parse_operation :: "('v, 'x) json_api_scheme \<Rightarrow> 'v \<Rightarrow> string + Operation" where
  "parse_operation j v =
     (case get_str j v ''operation'' of
        None \<Rightarrow> Inl ''guard/evaluate requires operation''
      | Some name \<Rightarrow>
          if name = ''delete'' then Inr DeleteFiles
          else if name = ''multi_file_edit'' then Inr (MultiFileEdit (or_default 0 (get_u64 j v ''files'')))
          else if name = ''external_network''
          then Inr (ExternalNetworkOp (or_default True (get_bool j v ''newDomain'')))
          else if name = ''terminal_shell''
          then Inr (TerminalShell (or_default False (get_bool j v ''destructive'')))
          else if name = ''web_action'' then Inr WebAction
          else if name = ''write'' then Inr GenericWrite
          else Inl (''unknown operation: '' @ name))"

definition parse_policy_rule :: "('v, 'x) json_api_scheme \<Rightarrow> 'v \<Rightarrow> string + ToolPattern \<times> Approval" where
  "parse_policy_rule j r =
     (case get_str j r ''tool'' of
        None \<Rightarrow> Inl ''rule requires tool''
      | Some tool \<Rightarrow>
          if tool = [] then Inl ''rule tool must not be empty''
          else
            let args = get_str j r ''argsGlob'' in
            (case get_str j r ''approval'' of
               None \<Rightarrow> Inl ''approval must be allow|ask|deny''
             | Some a \<Rightarrow>
                 if a = ''allow'' then Inr (tool_pattern_new tool args, ApprovalAllow)
                 else if a = ''ask'' then Inr (tool_pattern_new tool args, ApprovalAsk)
                 else if a = ''deny'' then Inr (tool_pattern_new tool args, ApprovalDeny)
                 else Inl ''approval must be allow|ask|deny''))"

fun parse_policy_rules :: "('v, 'x) json_api_scheme \<Rightarrow> 'v list \<Rightarrow> string + ApprovalPolicy" where
  "parse_policy_rules j [] = Inr []"
| "parse_policy_rules j (r # rs) =
     (case parse_policy_rule j r of
        Inl e \<Rightarrow> Inl e
      | Inr x \<Rightarrow> (case parse_policy_rules j rs of Inl e \<Rightarrow> Inl e | Inr xs \<Rightarrow> Inr (x # xs)))"

definition combo_tool_rules :: "(string \<times> string) list \<Rightarrow> ApprovalPolicy" where
  "combo_tool_rules trs =
     map (\<lambda>(tool, a). (tool_pattern_new tool None,
        if a = ''allow'' then ApprovalAllow else if a = ''ask'' then ApprovalAsk else ApprovalDeny)) trs"

section \<open>Handlers\<close>

type_synonym rpc_result = "(string + GuardReply) \<times> GuardService"

definition handle_evaluate ::
  "'v guard_env \<Rightarrow> nat \<Rightarrow> string \<Rightarrow> 'v \<Rightarrow> GuardService \<Rightarrow> rpc_result" where
  "handle_evaluate env now nonce v s =
     (let j = ge_json env;
          sess = or_default ''default'' (get_str j v ''sessionId'');
          agent = or_default ''agent'' (get_str j v ''agentId'');
          tool = or_default [] (get_str j v ''toolId'')
      in case parse_operation j v of
           Inl e \<Rightarrow> (Inl e, s)
         | Inr opn \<Rightarrow>
             (case (case j_get j v ''decision'' of None \<Rightarrow> Inr decision_default | Some d \<Rightarrow> j_decision j d) of
                Inl e \<Rightarrow> (Inl e, s)
              | Inr d \<Rightarrow>
                  let h = or_default [] (get_str j v ''argsHash'');
                      seq = or_default 0 (get_u64 j v ''auditSeq'');
                      (out, s') = evaluate env now nonce sess agent tool opn d h seq s
                  in (Inr (RpDecision out), s')))"

definition handle_use :: "'v guard_env \<Rightarrow> nat \<Rightarrow> 'v \<Rightarrow> GuardService \<Rightarrow> rpc_result" where
  "handle_use env now v s =
     (let j = ge_json env in
      case get_str j v ''ticketId'' of
        None \<Rightarrow> (Inl ''guard/use requires ticketId'', s)
      | Some tid \<Rightarrow>
          let (r, s') = gs_use_ticket env now tid (or_default [] (get_str j v ''argsHash'')) s
          in (case r of Inl e \<Rightarrow> (Inl e, s') | Inr _ \<Rightarrow> (Inr RpConsumed, s')))"

definition handle_approve :: "'v guard_env \<Rightarrow> nat \<Rightarrow> 'v \<Rightarrow> GuardService \<Rightarrow> rpc_result" where
  "handle_approve env now v s =
     (let j = ge_json env in
      case get_str j v ''ticketId'' of
        None \<Rightarrow> (Inl ''guard/approve requires ticketId'', s)
      | Some tid \<Rightarrow>
          (case get_str j v ''approvalNonce'' of
             None \<Rightarrow> (Inl ''guard/approve requires approvalNonce'', s)
           | Some nonce \<Rightarrow>
               let (good, s') = gs_approve_with_nonce env now tid nonce s in (Inr (RpApproved good), s')))"

definition handle_reject :: "'v guard_env \<Rightarrow> nat \<Rightarrow> 'v \<Rightarrow> GuardService \<Rightarrow> rpc_result" where
  "handle_reject env now v s =
     (let j = ge_json env in
      case get_str j v ''ticketId'' of
        None \<Rightarrow> (Inl ''guard/reject requires ticketId'', s)
      | Some tid \<Rightarrow>
          (case get_str j v ''approvalNonce'' of
             None \<Rightarrow> (Inl ''guard/reject requires approvalNonce'', s)
           | Some nonce \<Rightarrow>
               let (good, s') = gs_reject_with_nonce env now tid nonce s in (Inr (RpRejected good), s')))"

definition handle_profile :: "'v guard_env \<Rightarrow> 'v \<Rightarrow> GuardService \<Rightarrow> rpc_result" where
  "handle_profile env v s =
     (case get_str (ge_json env) v ''profile'' of
        None \<Rightarrow> (Inr (RpProfile (profile_as_str (gs_profile s))), s)
      | Some p \<Rightarrow>
          (case parse_profile p of
             Inl e \<Rightarrow> (Inl e, s)
           | Inr pr \<Rightarrow> (Inr (RpProfile p), set_profile pr s)))"

definition handle_set_policy_rules :: "'v guard_env \<Rightarrow> 'v \<Rightarrow> GuardService \<Rightarrow> rpc_result" where
  "handle_set_policy_rules env v s =
     (let j = ge_json env in
      case Option.bind (j_get j v ''rules'') (j_as_array j) of
        None \<Rightarrow> (Inl ''guard/set_policy_rules requires rules[]'', s)
      | Some raw \<Rightarrow>
          (case parse_policy_rules j raw of
             Inl e \<Rightarrow> (Inl e, s)
           | Inr rules \<Rightarrow> (Inr (RpApplied (length raw)), set_approval_policy rules s)))"

definition handle_apply_combo :: "'v guard_env \<Rightarrow> 'v \<Rightarrow> GuardService \<Rightarrow> rpc_result" where
  "handle_apply_combo env v s =
     (case get_str (ge_json env) v ''name'' of
        None \<Rightarrow> (Inl ''guard/apply_combo requires name'', s)
      | Some name \<Rightarrow>
          (case find (\<lambda>c. cb_name c = name) COMBO_BUNDLES of
             None \<Rightarrow> (Inl (''unknown combo: '' @ name), s)
           | Some combo \<Rightarrow>
               let (r, p) = apply_rules (cb_rules combo) (gs_policy s);
                   s1 = s\<lparr>gs_policy := p\<rparr>
               in (case r of
                     Inl e \<Rightarrow> (Inl e, s1)
                   | Inr applied \<Rightarrow>
                       let s2 = (if cb_tool_rules combo \<noteq> []
                                 then s1\<lparr>gs_approval_policy := combo_tool_rules (cb_tool_rules combo)\<rparr>
                                 else s1)
                       in (Inr (RpComboApplied applied name), s2))))"

definition handle_set_autonomy :: "'v guard_env \<Rightarrow> 'v \<Rightarrow> GuardService \<Rightarrow> rpc_result" where
  "handle_set_autonomy env v s =
     (case get_str (ge_json env) v ''level'' of
        None \<Rightarrow> (Inl ''guard/set_autonomy requires level'', s)
      | Some name \<Rightarrow>
          (case preset_parse name of
             None \<Rightarrow> (Inl (''unknown autonomy level: '' @ name), s)
           | Some level \<Rightarrow>
               let s' = set_autonomy_level level s
               in (Inr (RpAutonomy (preset_as_str level) (pp_min_confidence (gs_policy s'))), s')))"

definition handle_ticket_status :: "'v guard_env \<Rightarrow> 'v \<Rightarrow> GuardService \<Rightarrow> rpc_result" where
  "handle_ticket_status env v s =
     (case get_str (ge_json env) v ''ticketId'' of
        None \<Rightarrow> (Inl ''guard/ticket_status requires ticketId'', s)
      | Some tid \<Rightarrow>
          (case ts_get (gs_tickets s) tid of
             Some t \<Rightarrow> (Inr (RpTicketStatus (tk_ticket_id t) (to_lowercase (state_debug (tk_state t)))), s)
           | None \<Rightarrow> (Inr (RpTicketStatus tid ''unknown''), s)))"

definition handle_extend_ttl ::
  "'v guard_env \<Rightarrow> bool \<Rightarrow> nat \<Rightarrow> string \<Rightarrow> 'v \<Rightarrow> GuardService \<Rightarrow> rpc_result" where
  "handle_extend_ttl env control_plane now nonce v s =
     (if \<not> control_plane
      then (Inl ''guard/extend_ttl is a control-plane operation, not available to the sidecar'', s)
      else
        let j = ge_json env in
        case get_str j v ''ticketId'' of
          None \<Rightarrow> (Inl ''guard/extend_ttl requires ticketId'', s)
        | Some tid \<Rightarrow>
            let (r, s') = extend_ticket_ttl now nonce tid (or_default 60000 (get_u64 j v ''extraMs'')) s
            in (case r of
                  Inl e \<Rightarrow> (Inl e, s')
                | Inr (e, n) \<Rightarrow> (Inr (RpExtended tid e n), s')))"

definition control_plane_only :: "string list" where
  "control_plane_only = [''guard/approve'', ''guard/reject'', ''guard/estop'', ''guard/reset'', ''guard/profile'']"

definition dispatch ::
  "'v guard_env \<Rightarrow> bool \<Rightarrow> nat \<Rightarrow> string \<Rightarrow> string \<Rightarrow> 'v \<Rightarrow> GuardService \<Rightarrow> rpc_result" where
  "dispatch env control_plane now nonce m v s =
     (if m = ''guard/evaluate'' then handle_evaluate env now nonce v s
      else if m = ''guard/use'' then handle_use env now v s
      else if m = ''guard/approve'' then handle_approve env now v s
      else if m = ''guard/reject'' then handle_reject env now v s
      else if m = ''guard/estop'' then (Inr (RpPulled True), s\<lparr>gs_estop := estop_pull (gs_estop s)\<rparr>)
      else if m = ''guard/reset'' then (Inr (RpPulled False), s\<lparr>gs_estop := estop_reset (gs_estop s)\<rparr>)
      else if m = ''guard/estop_status'' then (Inr (RpPulled (is_pulled (gs_estop s))), s)
      else if m = ''guard/pending'' then (Inr (RpPending (gs_pending s)), s)
      else if m = ''guard/receipts'' then (Inr (RpReceipts (ts_receipts (gs_tickets s))), s)
      else if m = ''guard/profile'' then handle_profile env v s
      else if m = ''guard/policy'' then (Inr (RpPolicy (policy_summary s)), s)
      else if m = ''guard/set_policy_rules'' then handle_set_policy_rules env v s
      else if m = ''guard/combos'' then (Inr (RpCombos COMBO_BUNDLES), s)
      else if m = ''guard/apply_combo'' then handle_apply_combo env v s
      else if m = ''guard/autonomy''
      then (Inr (RpAutonomy (preset_as_str (autonomy_level s)) (pp_min_confidence (gs_policy s))), s)
      else if m = ''guard/set_autonomy'' then handle_set_autonomy env v s
      else if m = ''guard/ticket_status'' then handle_ticket_status env v s
      else if m = ''guard/extend_ttl'' then handle_extend_ttl env control_plane now nonce v s
      else if m = ''guard/explain_block''
      then (Inr (RpExplain (explain_block (or_default [] (get_str (ge_json env) v ''reason'')))), s)
      else (Inl (''method not found: '' @ m), s))"

definition handle_inner ::
  "'v guard_env \<Rightarrow> bool \<Rightarrow> nat \<Rightarrow> string \<Rightarrow> string \<Rightarrow> 'v \<Rightarrow> GuardService \<Rightarrow> rpc_result" where
  "handle_inner env control_plane now nonce m v s =
     (if \<not> control_plane \<and> m \<in> set control_plane_only
      then (Inl (m @ '' is a control-plane operation, not available to the sidecar''), s)
      else dispatch env control_plane now nonce m v s)"

definition gs_handle ::
  "'v guard_env \<Rightarrow> nat \<Rightarrow> string \<Rightarrow> string \<Rightarrow> 'v \<Rightarrow> GuardService \<Rightarrow> rpc_result" where
  "gs_handle env now nonce m v s = handle_inner env True now nonce m v s"

definition handle_sidecar ::
  "'v guard_env \<Rightarrow> nat \<Rightarrow> string \<Rightarrow> string \<Rightarrow> 'v \<Rightarrow> GuardService \<Rightarrow> rpc_result" where
  "handle_sidecar env now nonce m v s = handle_inner env False now nonce m v s"

end
