(* ===== verification/Guard_Laws.thy ===== *)
theory Guard_Laws
  imports Guard_Rpc
begin

text \<open>
  Laws of the guard service: every public operation as one alphabet, what each does to the ticket
  store, and the properties of the pre-flight, of the emergency stop, of the sidecar surface and of
  consumption over whole histories of the service.
\<close>

section \<open>Fields an operation leaves alone\<close>

lemma emit_lifecycle_fields [simp]:
  "gs_tickets (emit_lifecycle ev s) = gs_tickets s"
  "gs_batches (emit_lifecycle ev s) = gs_batches s"
  "gs_policy (emit_lifecycle ev s) = gs_policy s"
  "gs_estop (emit_lifecycle ev s) = gs_estop s"
  "gs_profile (emit_lifecycle ev s) = gs_profile s"
  "gs_counter (emit_lifecycle ev s) = gs_counter s"
  "gs_decisions (emit_lifecycle ev s) = gs_decisions s"
  "gs_reasons (emit_lifecycle ev s) = gs_reasons s"
  "gs_delivered (emit_lifecycle ev s) = gs_delivered s"
  "gs_outcomes (emit_lifecycle ev s) = gs_outcomes s"
  "gs_waiters (emit_lifecycle ev s) = gs_waiters s"
  by (simp_all add: emit_lifecycle_def)

lemma add_reason_fields [simp]:
  "gs_tickets (add_reason tid r s) = gs_tickets s"
  "gs_batches (add_reason tid r s) = gs_batches s"
  "gs_policy (add_reason tid r s) = gs_policy s"
  "gs_estop (add_reason tid r s) = gs_estop s"
  "gs_profile (add_reason tid r s) = gs_profile s"
  "gs_counter (add_reason tid r s) = gs_counter s"
  "gs_decisions (add_reason tid r s) = gs_decisions s"
  by (simp_all add: add_reason_def split: option.splits)

lemma signal_ticket_fields [simp]:
  "gs_tickets (signal_ticket tid v s) = gs_tickets s"
  "gs_batches (signal_ticket tid v s) = gs_batches s"
  "gs_policy (signal_ticket tid v s) = gs_policy s"
  "gs_estop (signal_ticket tid v s) = gs_estop s"
  "gs_profile (signal_ticket tid v s) = gs_profile s"
  "gs_counter (signal_ticket tid v s) = gs_counter s"
  by (simp_all add: signal_ticket_def Let_def split: option.splits)

lemma conclude_fields [simp]:
  "gs_tickets (conclude good tid v b s) = gs_tickets s"
  "gs_batches (conclude good tid v b s) = gs_batches s"
  "gs_policy (conclude good tid v b s) = gs_policy s"
  "gs_estop (conclude good tid v b s) = gs_estop s"
  "gs_profile (conclude good tid v b s) = gs_profile s"
  "gs_counter (conclude good tid v b s) = gs_counter s"
  by (simp_all add: conclude_def)

section \<open>Moves of the ticket store\<close>

text \<open>
  What one service call may do to the ticket store: leave it, apply one store operation other than a
  mint (keeping \<open>single_use\<close>), or mint a single-use ticket under the next counter value.
\<close>

inductive ticket_move :: "(string \<Rightarrow> string) \<Rightarrow> GuardService \<Rightarrow> GuardService \<Rightarrow> bool" for sha where
  move_keep: "gs_tickets s' = gs_tickets s \<Longrightarrow> gs_counter s \<le> gs_counter s' \<Longrightarrow> ticket_move sha s s'"
| move_act: "gs_tickets s' = ticket_step sha x (gs_tickets s) \<Longrightarrow> gs_counter s' = gs_counter s \<Longrightarrow>
    (\<And>tid. no_remint tid x (gs_tickets s)) \<Longrightarrow>
    (\<And>tid t'. ts_get (gs_tickets s') tid = Some t' \<Longrightarrow>
       \<exists>t. ts_get (gs_tickets s) tid = Some t \<and> tk_single_use t' = tk_single_use t) \<Longrightarrow>
    ticket_move sha s s'"
| move_mint: "gs_tickets s' = snd (ts_mint t (gs_tickets s)) \<Longrightarrow> gs_counter s' = Suc (gs_counter s) \<Longrightarrow>
    tk_ticket_id t = ticket_id_of (Suc (gs_counter s)) \<Longrightarrow> tk_single_use t \<Longrightarrow> ticket_move sha s s'"

fun plain_op :: "TicketOp \<Rightarrow> bool" where
  "plain_op (OpMint _) \<longleftrightarrow> False"
| "plain_op (OpMintGated _ _) \<longleftrightarrow> False"
| "plain_op (OpGetMut _ _) \<longleftrightarrow> False"
| "plain_op _ \<longleftrightarrow> True"

lemma plain_op_keeps:
  assumes "plain_op x"
  shows "no_remint tid x s"
    and "ts_get (ticket_step sha x s) tid = Some t' \<Longrightarrow>
      \<exists>t. ts_get s tid = Some t \<and> tk_single_use t' = tk_single_use t"
proof -
  show "no_remint tid x s" using assms by (cases x) auto
  show "ts_get (ticket_step sha x s) tid = Some t' \<Longrightarrow>
      \<exists>t. ts_get s tid = Some t \<and> tk_single_use t' = tk_single_use t"
    using assms by (cases x) (auto simp: ticket_op_defs split: option.splits TicketState.splits if_splits)
qed

lemma move_plain:
  "plain_op x \<Longrightarrow> gs_tickets s' = ticket_step sha x (gs_tickets s) \<Longrightarrow> gs_counter s' = gs_counter s \<Longrightarrow>
   ticket_move sha s s'"
  by (rule move_act [of _ _ x]) (auto simp: plain_op_keeps dest: plain_op_keeps(2))

section \<open>The alphabet of service calls\<close>

datatype 'v GuardOp =
    GEvaluate nat string string string string Operation DecisionPackage string nat
  | GEvaluateBatch nat string string string "BatchOperation list" DecisionPackage nat
  | GUse nat string string
  | GUseBatch nat string string
  | GSetBindings string "ResourceBinding list"
  | GSetExecution string string
  | GApprove nat string
  | GApproveNonce nat string string
  | GReject nat string
  | GRejectNonce nat string string
  | GApproveBatchNonce nat string string
  | GApproveBatch nat string
  | GRejectBatchNonce nat string string
  | GWatch string
  | GSubscribe
  | GExtend nat string string nat
  | GSetProfile Profile
  | GSetAutonomy AutonomyPreset
  | GSetApprovalPolicy ApprovalPolicy
  | GSetHumanFloor HumanFloor
  | GSetReviewerConfig ReviewerConfig
  | GResetBreaker
  | GLoadPolicy "string option"
  | GEstopPull
  | GEstopReset
  | GRpc bool nat string string 'v

fun guard_step :: "'v guard_env \<Rightarrow> 'v GuardOp \<Rightarrow> GuardService \<Rightarrow> GuardService" where
  "guard_step env (GEvaluate now nonce sess agent tool opn d h seq) s =
     snd (evaluate env now nonce sess agent tool opn d h seq s)"
| "guard_step env (GEvaluateBatch now nonce sess agent ops d seq) s =
     snd (evaluate_batch env now nonce sess agent ops d seq s)"
| "guard_step env (GUse now tid h) s = snd (gs_use_ticket env now tid h s)"
| "guard_step env (GUseBatch now tid h) s = snd (gs_use_batch_ticket now tid h s)"
| "guard_step env (GSetBindings tid bs) s = snd (set_ticket_bindings tid bs s)"
| "guard_step env (GSetExecution tid ex) s = snd (set_ticket_execution tid ex s)"
| "guard_step env (GApprove now tid) s = snd (gs_approve env now tid s)"
| "guard_step env (GApproveNonce now tid n) s = snd (gs_approve_with_nonce env now tid n s)"
| "guard_step env (GReject now tid) s = snd (gs_reject env now tid s)"
| "guard_step env (GRejectNonce now tid n) s = snd (gs_reject_with_nonce env now tid n s)"
| "guard_step env (GApproveBatchNonce now tid n) s = snd (approve_batch_with_nonce env now tid n s)"
| "guard_step env (GApproveBatch now tid) s = snd (approve_batch env now tid s)"
| "guard_step env (GRejectBatchNonce now tid n) s = snd (reject_batch_with_nonce env now tid n s)"
| "guard_step env (GWatch tid) s = snd (watch_ticket tid s)"
| "guard_step env GSubscribe s = subscribe_lifecycle s"
| "guard_step env (GExtend now nonce tid extra) s = snd (extend_ticket_ttl now nonce tid extra s)"
| "guard_step env (GSetProfile p) s = set_profile p s"
| "guard_step env (GSetAutonomy l) s = set_autonomy_level l s"
| "guard_step env (GSetApprovalPolicy p) s = set_approval_policy p s"
| "guard_step env (GSetHumanFloor f) s = set_human_floor f s"
| "guard_step env (GSetReviewerConfig c) s = set_reviewer_config c s"
| "guard_step env GResetBreaker s = reset_reviewer_breaker s"
| "guard_step env (GLoadPolicy file) s = load_policy_from (ge_toml env) file s"
| "guard_step env GEstopPull s = s\<lparr>gs_estop := estop_pull (gs_estop s)\<rparr>"
| "guard_step env GEstopReset s = s\<lparr>gs_estop := estop_reset (gs_estop s)\<rparr>"
| "guard_step env (GRpc cp now nonce m v) s = snd (handle_inner env cp now nonce m v s)"

section \<open>Each call is a ticket move\<close>

lemma evaluate_move: "ticket_move (ge_sha env) s (snd (evaluate env now nonce sess agent tool opn d h seq s))"
proof (cases "hard_block s tool opn d")
  case None
  let ?s' = "snd (evaluate env now nonce sess agent tool opn d h seq s)"
  have "\<exists>ask. gs_tickets ?s' =
      snd (ts_mint (evaluate_ticket now nonce (ticket_id_of (Suc (gs_counter s))) sess agent tool opn d h seq ask)
        (gs_tickets s)) \<and> gs_counter ?s' = Suc (gs_counter s)"
    using None by (auto simp: evaluate_def Let_def)
  then show ?thesis
    by (elim exE conjE) (rule move_mint, auto simp: evaluate_ticket_def)
qed (simp add: evaluate_def move_keep)

lemma evaluate_batch_move:
  "ticket_move (ge_sha env) s (snd (evaluate_batch env now nonce sess agent ops d seq s))"
  by (rule move_keep) (simp_all add: evaluate_batch_def Let_def)

lemma use_move: "ticket_move (ge_sha env) s (snd (gs_use_ticket env now tid h s))"
proof (cases "is_pulled (gs_estop s)")
  case False
  then show ?thesis
    by (intro move_plain [of "OpUse now tid h"]) (simp_all add: gs_use_ticket_def split_beta)
qed (simp add: gs_use_ticket_def move_keep)

lemma extend_move: "ticket_move (ge_sha env) s (snd (extend_ticket_ttl now nonce tid extra s))"
proof (cases "\<exists>t. min extra 60000 \<noteq> 0 \<and> \<not> starts_with tid ''btk:'' \<and> ts_get (gs_tickets s) tid = Some t \<and>
    tk_state t = Pending")
  case True
  then obtain t where t: "min extra 60000 \<noteq> 0" "\<not> starts_with tid ''btk:''"
    "ts_get (gs_tickets s) tid = Some t" "tk_state t = Pending" by blast
  define f where "f = (\<lambda>t :: AuthorizationTicket. t\<lparr>tk_expires_at_ms := extended_expiry (tk_expires_at_ms t) now (min extra 60000),
    tk_approval_nonce := nonce\<rparr>)"
  have "gs_tickets (snd (extend_ticket_ttl now nonce tid extra s)) = ts_put tid (f t) (gs_tickets s)"
    "gs_counter (snd (extend_ticket_ttl now nonce tid extra s)) = gs_counter s"
    using t by (simp_all add: extend_ticket_ttl_def Let_def f_def)
  then show ?thesis
    using t by (intro move_act [of _ _ "OpGetMut tid f"]) (auto simp: f_def split: if_splits)
next
  case False
  then show ?thesis
    by (intro move_keep) (auto simp: extend_ticket_ttl_def Let_def split: option.splits)
qed

lemmas decision_op_defs =
  gs_approve_def gs_approve_with_nonce_def gs_reject_def gs_reject_with_nonce_def
  approve_batch_with_nonce_def approve_batch_def reject_batch_with_nonce_def
  set_ticket_bindings_def set_ticket_execution_def gs_use_batch_ticket_def split_beta

lemma approve_nonce_move: "ticket_move (ge_sha env) s (snd (gs_approve_with_nonce env now tid n s))"
  by (rule move_plain [of "OpApproveNonce now tid n"]) (simp_all add: decision_op_defs Let_def)

lemma reject_nonce_move: "ticket_move (ge_sha env) s (snd (gs_reject_with_nonce env now tid n s))"
  by (rule move_plain [of "OpRejectNonce now tid n"]) (simp_all add: decision_op_defs Let_def)

lemma ticket_move_refl: "ticket_move sha s s"
  by (simp add: move_keep)

lemmas setting_defs =
  set_profile_def set_autonomy_level_def set_approval_policy_def set_human_floor_def
  set_reviewer_config_def reset_reviewer_breaker_def load_policy_from_def subscribe_lifecycle_def
  watch_ticket_def

lemma move_settings:
  "ticket_move sha s (s\<lparr>gs_policy := p\<rparr>)" "ticket_move sha s (s\<lparr>gs_profile := pr\<rparr>)"
  "ticket_move sha s (s\<lparr>gs_estop := e\<rparr>)" "ticket_move sha s (s\<lparr>gs_approval_policy := a\<rparr>)"
  "ticket_move sha s (s\<lparr>gs_policy := p, gs_approval_policy := a\<rparr>)"
  by (auto intro: move_keep)

lemmas handler_defs =
  handle_evaluate_def handle_use_def handle_approve_def handle_reject_def handle_profile_def
  handle_set_policy_rules_def handle_apply_combo_def handle_set_autonomy_def
  handle_ticket_status_def handle_extend_ttl_def

lemma handle_evaluate_move: "ticket_move (ge_sha env) s (snd (handle_evaluate env now nonce v s))"
  by (auto simp: handle_evaluate_def Let_def split_beta evaluate_move ticket_move_refl split: sum.splits)

lemma handle_use_move: "ticket_move (ge_sha env) s (snd (handle_use env now v s))"
  using use_move by (auto simp: handle_use_def Let_def split_beta ticket_move_refl split: option.splits sum.splits)

lemma handle_approve_move: "ticket_move (ge_sha env) s (snd (handle_approve env now v s))"
  by (auto simp: handle_approve_def Let_def split_beta approve_nonce_move ticket_move_refl split: option.splits)

lemma handle_reject_move: "ticket_move (ge_sha env) s (snd (handle_reject env now v s))"
  by (auto simp: handle_reject_def Let_def split_beta reject_nonce_move ticket_move_refl split: option.splits)

lemma handle_extend_move: "ticket_move (ge_sha env) s (snd (handle_extend_ttl env cp now nonce v s))"
  using extend_move by (auto simp: handle_extend_ttl_def Let_def split_beta ticket_move_refl
      split: option.splits sum.splits)

lemma handle_settings_move:
  "ticket_move sha s (snd (handle_profile env v s))"
  "ticket_move sha s (snd (handle_set_policy_rules env v s))"
  "ticket_move sha s (snd (handle_apply_combo env v s))"
  "ticket_move sha s (snd (handle_set_autonomy env v s))"
  "ticket_move sha s (snd (handle_ticket_status env v s))"
  by (auto simp: handler_defs setting_defs Let_def split_beta move_settings ticket_move_refl
      split: option.splits sum.splits)

lemma handle_inner_move: "ticket_move (ge_sha env) s (snd (handle_inner env cp now nonce m v s))"
  unfolding handle_inner_def dispatch_def
  by (simp add: handle_evaluate_move handle_use_move handle_approve_move handle_reject_move
      handle_extend_move handle_settings_move move_settings ticket_move_refl)

lemma guard_step_move: "ticket_move (ge_sha env) s (guard_step env x s)"
proof (cases x)
  case (GSetBindings tid bs)
  then show ?thesis
    by (intro move_plain [of "OpSetBindings tid bs"]) (simp_all add: decision_op_defs)
next
  case (GSetExecution tid ex)
  then show ?thesis
    by (intro move_plain [of "OpSetExecution tid ex"]) (simp_all add: decision_op_defs)
next
  case (GApprove now tid)
  then show ?thesis
    by (intro move_plain [of "OpApprove now tid"]) (simp_all add: decision_op_defs Let_def)
next
  case (GReject now tid)
  then show ?thesis
    by (intro move_plain [of "OpReject now tid"]) (simp_all add: decision_op_defs Let_def)
qed (simp_all add: evaluate_move evaluate_batch_move use_move approve_nonce_move reject_nonce_move
    extend_move handle_inner_move move_settings,
    auto intro!: move_keep simp: decision_op_defs setting_defs Let_def split: option.splits)

section \<open>Fresh ids and single-use tickets\<close>

definition guard_inv :: "GuardService \<Rightarrow> bool" where
  "guard_inv s \<longleftrightarrow> (\<forall>tid t. ts_get (gs_tickets s) tid = Some t \<longrightarrow>
     tk_single_use t \<and> (\<exists>n \<le> gs_counter s. tid = ticket_id_of n))"

lemma ticket_id_of_inject [simp]: "ticket_id_of m = ticket_id_of n \<longleftrightarrow> m = n"
  by (simp add: ticket_id_of_def)

lemma guard_inv_fresh: "guard_inv s \<Longrightarrow> ts_get (gs_tickets s) (ticket_id_of (Suc (gs_counter s))) = None"
proof (rule ccontr)
  assume inv: "guard_inv s" and "ts_get (gs_tickets s) (ticket_id_of (Suc (gs_counter s))) \<noteq> None"
  then obtain n where "n \<le> gs_counter s" "ticket_id_of (Suc (gs_counter s)) = ticket_id_of n"
    unfolding guard_inv_def by blast
  then show False by simp
qed

lemma guard_inv_move:
  assumes "ticket_move sha s s'" "guard_inv s"
  shows "guard_inv s'"
  using assms
proof (cases rule: ticket_move.cases)
  case move_keep
  then show ?thesis using assms(2) by (fastforce simp: guard_inv_def)
next
  case (move_act x)
  show ?thesis
    unfolding guard_inv_def
  proof (intro allI impI)
    fix tid t'
    assume "ts_get (gs_tickets s') tid = Some t'"
    then obtain t where "ts_get (gs_tickets s) tid = Some t" "tk_single_use t' = tk_single_use t"
      using move_act(4) by blast
    then show "tk_single_use t' \<and> (\<exists>n \<le> gs_counter s'. tid = ticket_id_of n)"
      using assms(2) move_act(2) by (auto simp: guard_inv_def)
  qed
next
  case (move_mint t)
  then show ?thesis
    using assms(2) by (fastforce simp: guard_inv_def ts_mint_def split: if_splits)
qed

lemma guard_inv_step: "guard_inv s \<Longrightarrow> guard_inv (guard_step env x s)"
  using guard_inv_move guard_step_move by blast

interpretation guard_fresh: invariant_system "guard_step env" "\<lambda>_ _. True" guard_inv
  by unfold_locales (rule guard_inv_step)

lemma guard_inv_default: "guard_inv guard_service_default"
  by (simp add: guard_inv_def guard_service_default_def ticket_store_new_def)

lemma admitted_guard_inv: "guard_inv s \<Longrightarrow> admitted (guard_step env) (\<lambda>_. guard_inv) xs s"
  by (induction xs arbitrary: s) (auto intro: guard_inv_step)

section \<open>Consumption through the service\<close>

fun guard_consumes :: "'v guard_env \<Rightarrow> string \<Rightarrow> 'v GuardOp \<Rightarrow> GuardService \<Rightarrow> bool" where
  "guard_consumes env tid (GUse now tid' h) s \<longleftrightarrow>
     tid' = tid \<and> fst (gs_use_ticket env now tid h s) = Inr ()"
| "guard_consumes env tid (GRpc cp now nonce m v) s \<longleftrightarrow>
     m = ''guard/use'' \<and> get_str (ge_json env) v ''ticketId'' = Some tid \<and>
     fst (handle_inner env cp now nonce m v s) = Inr RpConsumed"
| "guard_consumes env tid _ s \<longleftrightarrow> False"

definition guard_spent :: "string \<Rightarrow> GuardService \<Rightarrow> bool" where
  "guard_spent tid s \<longleftrightarrow> ticket_spent tid (gs_tickets s)"

lemma map_ticket_err_Inr [simp]: "map_ticket_err r = Inr () \<longleftrightarrow> r = Inr ()"
  by (cases r) (simp_all add: map_ticket_err_def)

lemma gs_use_ok:
  "fst (gs_use_ticket env now tid h s) = Inr () \<longleftrightarrow>
   \<not> is_pulled (gs_estop s) \<and> fst (use_ticket (ge_sha env) now tid h (gs_tickets s)) = Inr ()"
  by (simp add: gs_use_ticket_def split_beta)

lemma gs_use_snd:
  "\<not> is_pulled (gs_estop s) \<Longrightarrow>
   gs_tickets (snd (gs_use_ticket env now tid h s)) = snd (use_ticket (ge_sha env) now tid h (gs_tickets s))"
  by (simp add: gs_use_ticket_def split_beta)

lemma rpc_use_dispatch: "handle_inner env cp now nonce ''guard/use'' v s = handle_use env now v s"
  by (simp add: handle_inner_def dispatch_def control_plane_only_def)

lemma guard_consumes_use:
  assumes "guard_consumes env tid x s"
  obtains now h where "fst (gs_use_ticket env now tid h s) = Inr ()"
    "guard_step env x s = snd (gs_use_ticket env now tid h s)"
  using assms
proof (cases "(env, tid, x, s)" rule: guard_consumes.cases)
  case (2 env tid cp now nonce m v s)
  then show ?thesis
    using assms that [of now "or_default [] (get_str (ge_json env) v ''argsHash'')"]
    by (auto simp: rpc_use_dispatch handle_use_def Let_def split_beta split: sum.splits)
qed (use assms that in auto)

lemma guard_consume_spends:
  assumes "guard_inv s" "guard_consumes env tid x s"
  shows "guard_spent tid (guard_step env x s)"
proof -
  from assms(2) obtain now h where u: "fst (gs_use_ticket env now tid h s) = Inr ()"
    "guard_step env x s = snd (gs_use_ticket env now tid h s)"
    by (rule guard_consumes_use)
  then have ok: "fst (use_ticket (ge_sha env) now tid h (gs_tickets s)) = Inr ()" "\<not> is_pulled (gs_estop s)"
    by (simp_all add: gs_use_ok)
  then obtain t where t: "ts_get (gs_tickets s) tid = Some t" by (auto simp: use_ticket_ok_iff)
  with assms(1) have "tk_single_use t" by (auto simp: guard_inv_def)
  with ok t u show ?thesis
    by (simp add: guard_spent_def ticket_spent_def gs_use_snd use_ticket_ok_post)
qed

lemma guard_spent_move:
  assumes "ticket_move sha s s'" "guard_inv s" "guard_spent tid s"
  shows "guard_spent tid s'"
  using assms(1)
proof (cases rule: ticket_move.cases)
  case move_keep
  then show ?thesis using assms(3) by (simp add: guard_spent_def)
next
  case (move_act x)
  then show ?thesis using assms(3) ticket_spent_step [of tid x "gs_tickets s" sha] by (simp add: guard_spent_def)
next
  case (move_mint t)
  have "tid \<noteq> tk_ticket_id t"
    using assms(2,3) move_mint(3) guard_inv_fresh [of s] by (auto simp: guard_spent_def ticket_spent_def)
  then show ?thesis
    using assms(3) move_mint(1) by (simp add: guard_spent_def ticket_spent_def ts_mint_def)
qed

lemma guard_spent_refused: "guard_spent tid s \<Longrightarrow> \<not> guard_consumes env tid x s"
  by (auto elim!: guard_consumes_use
      simp: gs_use_ok use_ticket_ok_iff guard_spent_def ticket_spent_def)

interpretation guard_once:
  consumable_store "guard_step env" "\<lambda>tid x s. guard_inv s" "guard_consumes env" guard_spent
  by unfold_locales
    (auto intro: guard_consume_spends guard_spent_move [OF guard_step_move] dest: guard_spent_refused)

section \<open>Outcome of the pre-flight\<close>

definition final_ask :: "(f64 \<Rightarrow> string) \<Rightarrow> GuardService \<Rightarrow> Operation \<Rightarrow> DecisionPackage \<Rightarrow> bool" where
  "final_ask disp s opn d \<longleftrightarrow>
     wants_ask s opn d (policy_evaluate (gs_policy s) opn) \<and> \<not> reviewer_allows disp s d"

lemma hard_block_None_policy: "hard_block s tool opn d = None \<Longrightarrow> policy_evaluate (gs_policy s) opn \<noteq> PolicyBlock"
  by (auto simp: hard_block_def split: if_splits)

lemma evaluate_outcome:
  "fst (evaluate env now nonce sess agent tool opn d h seq s) =
     (case hard_block s tool opn d of
        Some r \<Rightarrow> DecBlock r
      | None \<Rightarrow> if final_ask (ge_disp env) s opn d then DecAsk (ticket_id_of (Suc (gs_counter s)))
                else DecAllow (ticket_id_of (Suc (gs_counter s))))"
  using hard_block_None_policy [of s tool opn d]
  by (auto simp: evaluate_def final_ask_def Let_def split: option.splits)

lemma evaluate_tickets:
  "hard_block s tool opn d = None \<Longrightarrow>
   gs_tickets (snd (evaluate env now nonce sess agent tool opn d h seq s)) =
     ts_put (ticket_id_of (Suc (gs_counter s)))
       (evaluate_ticket now nonce (ticket_id_of (Suc (gs_counter s))) sess agent tool opn d h seq
          (final_ask (ge_disp env) s opn d)) (gs_tickets s)"
  using hard_block_None_policy [of s tool opn d]
  by (auto simp: evaluate_def final_ask_def ts_mint_def evaluate_ticket_def Let_def)

lemma evaluate_blocked_state:
  "hard_block s tool opn d = Some r \<Longrightarrow> evaluate env now nonce sess agent tool opn d h seq s = (DecBlock r, s)"
  by (simp add: evaluate_def)

lemma reviewer_zero_budget: "max_auto_per_run (gs_reviewer_config s) = 0 \<Longrightarrow> \<not> reviewer_allows disp s d"
  by (simp add: reviewer_allows_def auto_review_def)

lemma allow_zero_budget:
  assumes "max_auto_per_run (gs_reviewer_config s) = 0"
    and "fst (evaluate env now nonce sess agent tool opn d h seq s) = DecAllow tid"
  shows "hard_block s tool opn d = None" "policy_evaluate (gs_policy s) opn = PolicyAllow"
    "\<not> wants_ask s opn d PolicyAllow"
proof -
  show nb: "hard_block s tool opn d = None"
    using assms(2) by (auto simp: evaluate_outcome split: option.splits)
  have nw: "\<not> wants_ask s opn d (policy_evaluate (gs_policy s) opn)"
    using assms nb by (auto simp: evaluate_outcome final_ask_def reviewer_zero_budget split: if_splits)
  show "policy_evaluate (gs_policy s) opn = PolicyAllow"
    using hard_block_None_policy [OF nb] nw
    by (cases "policy_evaluate (gs_policy s) opn") (auto simp: wants_ask_def)
  with nw show "\<not> wants_ask s opn d PolicyAllow" by simp
qed

section \<open>The sidecar surface\<close>

lemma use_ticket_pending:
  "ts_get ts tid = Some t \<Longrightarrow> tk_state t = Pending \<Longrightarrow>
   fst (use_ticket sha now k h ts) = Inr () \<Longrightarrow> k \<noteq> tid"
  by (auto simp: use_ticket_ok_iff)

definition same_core :: "GuardService \<Rightarrow> GuardService \<Rightarrow> bool" where
  "same_core s s' \<longleftrightarrow> gs_tickets s' = gs_tickets s \<and> gs_batches s' = gs_batches s \<and>
     gs_estop s' = gs_estop s \<and> gs_profile s' = gs_profile s"

lemma same_core_refl: "same_core s s"
  by (simp add: same_core_def)

lemma handlers_same_core:
  "same_core s (snd (handle_set_policy_rules env v s))"
  "same_core s (snd (handle_set_autonomy env v s))"
  "same_core s (snd (handle_ticket_status env v s))"
  "same_core s (snd (handle_extend_ttl env False now nonce v s))"
  by (auto simp: same_core_def handle_set_policy_rules_def handle_set_autonomy_def handle_ticket_status_def
      handle_extend_ttl_def set_approval_policy_def set_autonomy_level_def Let_def
      split: option.splits sum.splits)

lemma combo_same_core: "same_core s (snd (handle_apply_combo env v s))"
proof (cases "get_str (ge_json env) v ''name''")
  case (Some name)
  show ?thesis
  proof (cases "find (\<lambda>c. cb_name c = name) COMBO_BUNDLES")
    case found: (Some combo)
    show ?thesis
      by (cases "fst (apply_rules (cb_rules combo) (gs_policy s))")
        (simp_all add: handle_apply_combo_def Some found split_beta same_core_def Let_def)
  qed (simp add: handle_apply_combo_def Some same_core_def)
qed (simp add: handle_apply_combo_def same_core_def)

text \<open>A request of the sidecar evaluates, uses a ticket, or leaves both ticket stores alone.\<close>

lemma sidecar_cases:
  obtains (Evaluate) sess agent tool opn d h seq where
      "snd (handle_sidecar env now nonce m v s) = snd (evaluate env now nonce sess agent tool opn d h seq s)"
  | (Use) tid h where "snd (handle_sidecar env now nonce m v s) = snd (gs_use_ticket env now tid h s)"
  | (Keep) "gs_tickets (snd (handle_sidecar env now nonce m v s)) = gs_tickets s"
      "gs_batches (snd (handle_sidecar env now nonce m v s)) = gs_batches s"
      "gs_estop (snd (handle_sidecar env now nonce m v s)) = gs_estop s"
      "gs_profile (snd (handle_sidecar env now nonce m v s)) = gs_profile s"
proof -
  consider "m = ''guard/evaluate''" | "m = ''guard/use''"
    | "m \<noteq> ''guard/evaluate''" "m \<noteq> ''guard/use''" by blast
  then show thesis
  proof cases
    case 1
    then have m: "handle_sidecar env now nonce m v s = handle_evaluate env now nonce v s"
      by (simp add: handle_sidecar_def handle_inner_def dispatch_def control_plane_only_def)
    show thesis
    proof (cases "parse_operation (ge_json env) v")
      case (Inl e)
      then show thesis using m by (intro Keep) (simp_all add: handle_evaluate_def Let_def)
    next
      case (Inr opn)
      show thesis
      proof (cases "case j_get (ge_json env) v ''decision'' of None \<Rightarrow> Inr decision_default | Some d \<Rightarrow> j_decision (ge_json env) d")
        case (Inl e)
        with Inr show thesis using m by (intro Keep) (simp_all add: handle_evaluate_def Let_def)
      next
        case inr: (Inr d)
        show thesis
          by (rule Evaluate) (simp add: m handle_evaluate_def Let_def Inr inr split_beta)
      qed
    qed
  next
    case 2
    then have m: "handle_sidecar env now nonce m v s = handle_use env now v s"
      by (simp add: handle_sidecar_def rpc_use_dispatch)
    show thesis
    proof (cases "get_str (ge_json env) v ''ticketId''")
      case None
      then show thesis using m by (intro Keep) (simp_all add: handle_use_def Let_def)
    next
      case (Some tid)
      show thesis
        by (rule Use [of tid "or_default [] (get_str (ge_json env) v ''argsHash'')"]) (simp add: m handle_use_def Let_def Some split_beta split: sum.splits)
    qed
  next
    case 3
    then have "same_core s (snd (handle_sidecar env now nonce m v s))"
      by (simp add: handle_sidecar_def handle_inner_def dispatch_def control_plane_only_def
          handlers_same_core combo_same_core same_core_refl)
    then show thesis by (intro Keep) (simp_all add: same_core_def)
  qed
qed

definition sidecar_step :: "'v guard_env \<Rightarrow> nat \<times> string \<times> string \<times> 'v \<Rightarrow> GuardService \<Rightarrow> GuardService" where
  "sidecar_step env req s = (case req of (now, nonce, m, v) \<Rightarrow> snd (handle_sidecar env now nonce m v s))"

lemma sidecar_step_guard: "sidecar_step env (now, nonce, m, v) s = guard_step env (GRpc False now nonce m v) s"
  by (simp add: sidecar_step_def handle_sidecar_def)

lemma sidecar_inv: "guard_inv s \<Longrightarrow> guard_inv (sidecar_step env req s)"
  by (cases req) (simp only: sidecar_step_guard guard_inv_step)

lemma evaluate_fields:
  "gs_estop (snd (evaluate env now nonce sess agent tool opn d h seq s)) = gs_estop s"
  "gs_profile (snd (evaluate env now nonce sess agent tool opn d h seq s)) = gs_profile s"
  "gs_batches (snd (evaluate env now nonce sess agent tool opn d h seq s)) = gs_batches s"
  by (simp_all add: evaluate_def Let_def split: option.splits)

lemma gs_use_fields:
  "gs_estop (snd (gs_use_ticket env now tid h s)) = gs_estop s"
  "gs_profile (snd (gs_use_ticket env now tid h s)) = gs_profile s"
  "gs_batches (snd (gs_use_ticket env now tid h s)) = gs_batches s"
  by (simp_all add: gs_use_ticket_def split_beta)

lemma sidecar_settings:
  "gs_estop (sidecar_step env req s) = gs_estop s \<and> gs_profile (sidecar_step env req s) = gs_profile s"
proof -
  obtain now nonce m v where req: "req = (now, nonce, m, v)" by (cases req) auto
  show ?thesis
    by (rule sidecar_cases [of env now nonce m v s])
      (simp_all add: req sidecar_step_def evaluate_fields gs_use_fields)
qed

text \<open>A pending ticket stays pending or expires under every sidecar request.\<close>

definition awaits_human :: "string \<Rightarrow> GuardService \<Rightarrow> bool" where
  "awaits_human tid s \<longleftrightarrow> guard_inv s \<and>
     (\<exists>t. ts_get (gs_tickets s) tid = Some t \<and> tk_state t \<in> {Pending, Expired})"

lemma awaits_human_evaluate:
  assumes "awaits_human tid s"
  shows "ts_get (gs_tickets (snd (evaluate env now nonce sess agent tool opn d h seq s))) tid
    = ts_get (gs_tickets s) tid"
proof (cases "hard_block s tool opn d")
  case None
  have "tid \<noteq> ticket_id_of (Suc (gs_counter s))"
    using assms guard_inv_fresh [of s] by (auto simp: awaits_human_def)
  then show ?thesis by (simp add: evaluate_tickets [OF None])
qed (simp add: evaluate_blocked_state)

lemma awaits_human_use:
  assumes "awaits_human tid s"
  shows "\<exists>t. ts_get (gs_tickets (snd (gs_use_ticket env now k h s))) tid = Some t \<and> tk_state t \<in> {Pending, Expired}"
  using assms
  by (cases "is_pulled (gs_estop s)")
    (auto simp: awaits_human_def gs_use_ticket_def split_beta use_ticket_def
      split: option.splits TicketState.splits)

lemma awaits_human_step:
  assumes "awaits_human tid s"
  shows "awaits_human tid (sidecar_step env req s)"
proof -
  obtain now nonce m v where req: "req = (now, nonce, m, v)" by (cases req) auto
  have inv: "guard_inv (sidecar_step env req s)"
    using assms by (intro sidecar_inv) (simp add: awaits_human_def)
  have st: "sidecar_step env req s = snd (handle_sidecar env now nonce m v s)"
    by (simp add: req sidecar_step_def)
  obtain t where t: "ts_get (gs_tickets s) tid = Some t" "tk_state t \<in> {Pending, Expired}"
    using assms by (auto simp: awaits_human_def)
  have "\<exists>t. ts_get (gs_tickets (sidecar_step env req s)) tid = Some t \<and> tk_state t \<in> {Pending, Expired}"
  proof (cases rule: sidecar_cases [of env now nonce m v s])
    case (Evaluate sess agent tool opn d h seq)
    then show ?thesis using t st awaits_human_evaluate [OF assms] by metis
  next
    case (Use k h)
    then show ?thesis using st awaits_human_use [OF assms] by metis
  next
    case Keep
    then show ?thesis using t st by simp
  qed
  with inv show ?thesis by (simp add: awaits_human_def)
qed

interpretation sidecar_waits: invariant_system "sidecar_step env" "\<lambda>_ _. True" "awaits_human tid"
  by unfold_locales (rule awaits_human_step)

interpretation sidecar_limits: monotone_system "sidecar_step env" "\<lambda>_ _. True"
    "\<lambda>s t. gs_estop s = gs_estop t \<and> gs_profile s = gs_profile t"
  by unfold_locales (auto simp: sidecar_settings)

section \<open>The emergency stop\<close>

definition frozen_stores :: "GuardService \<Rightarrow> GuardService \<Rightarrow> bool" where
  "frozen_stores s s' \<longleftrightarrow> (is_pulled (gs_estop s) \<longrightarrow>
     is_pulled (gs_estop s') \<and> gs_tickets s' = gs_tickets s \<and> gs_batches s' = gs_batches s)"

lemma estop_blocks:
  assumes "is_pulled (gs_estop s)"
  shows "evaluate env now nonce sess agent tool opn d h seq s = (DecBlock ''estop pulled'', s)"
    and "evaluate_batch env now nonce sess agent ops d seq s = (DecBlock ''estop pulled'', s)"
    and "gs_use_ticket env now tid h s = (Inl ''estop pulled'', s)"
    and "gs_use_batch_ticket now tid h s = (Inl ''estop pulled'', s)"
  using assms
  by (simp_all add: evaluate_def hard_block_def evaluate_batch_def gs_use_ticket_def gs_use_batch_ticket_def)

lemma frozen_sidecar: "frozen_stores s (sidecar_step env req s)"
proof -
  obtain now nonce m v where req: "req = (now, nonce, m, v)" by (cases req) auto
  show ?thesis
    unfolding frozen_stores_def
  proof
    assume p: "is_pulled (gs_estop s)"
    show "is_pulled (gs_estop (sidecar_step env req s)) \<and> gs_tickets (sidecar_step env req s) = gs_tickets s \<and>
        gs_batches (sidecar_step env req s) = gs_batches s"
      by (rule sidecar_cases [of env now nonce m v s])
        (use p in \<open>simp_all add: req sidecar_step_def estop_blocks\<close>)
  qed
qed

interpretation sidecar_frozen: monotone_system "sidecar_step env" "\<lambda>_ _. True" frozen_stores
  by unfold_locales (auto simp: frozen_stores_def dest: frozen_sidecar [unfolded frozen_stores_def, rule_format])

end
