(* ===== verification/Guard_Properties.thy ===== *)
theory Guard_Properties
  imports Guard_Laws
begin

text \<open>
  The properties of the guard service that its clients rely on, over single calls and over whole
  histories of calls.
\<close>

section \<open>A concrete environment for the witnesses\<close>

definition obj_guard_json :: "obj_json guard_json" where
  "obj_guard_json = json_api.extend obj_api \<lparr> j_decision = (\<lambda>_. Inr decision_default) \<rparr>"

definition demo_env :: "obj_json guard_env" where
  "demo_env = \<lparr> ge_sha = id, ge_ser = (\<lambda>ops. concat (map bo_args_hash ops)), ge_disp = show_2dec,
     ge_toml = (\<lambda>_. None), ge_json = obj_guard_json \<rparr>"

lemmas demo_defs =
  demo_env_def obj_guard_json_def obj_api_def guard_service_default_def policy_default_def decision_default_def
  human_floor_defaults_def reviewer_config_new_def breaker_new_def estop_new_def
  ticket_store_new_def batch_store_new_def is_pulled_def

text \<open>The default service after one write was asked about.\<close>

definition demo_ticket :: AuthorizationTicket where
  "demo_ticket = evaluate_ticket 5 ''n'' (ticket_id_of 1) ''s'' ''a'' ''fs.write'' GenericWrite
     decision_default ''h'' 0 True"

definition demo_asked :: GuardService where
  "demo_asked = snd (evaluate demo_env 5 ''n'' ''s'' ''a'' ''fs.write'' GenericWrite decision_default ''h'' 0
     guard_service_default)"

lemma demo_no_block: "hard_block guard_service_default ''fs.write'' GenericWrite decision_default = None"
  by (simp add: hard_block_def demo_defs approval_evaluate_def)

lemma demo_asks: "final_ask (ge_disp demo_env) guard_service_default GenericWrite decision_default"
  by (simp add: final_ask_def wants_ask_def reviewer_zero_budget demo_defs)

lemma demo_counter: "gs_counter guard_service_default = 0"
  by (simp add: guard_service_default_def)

lemma demo_asked_outcome:
  "fst (evaluate demo_env 5 ''n'' ''s'' ''a'' ''fs.write'' GenericWrite decision_default ''h'' 0
     guard_service_default) = DecAsk (ticket_id_of 1)"
  using demo_asks by (simp add: evaluate_outcome demo_no_block demo_counter)

lemma demo_asked_get: "ts_get (gs_tickets demo_asked) (ticket_id_of 1) = Some demo_ticket"
  using demo_asks by (simp add: demo_asked_def evaluate_tickets [OF demo_no_block] demo_counter demo_ticket_def)

lemma demo_asked_inv: "guard_inv demo_asked"
  using guard_inv_step [OF guard_inv_default, of demo_env
      "GEvaluate 5 ''n'' ''s'' ''a'' ''fs.write'' GenericWrite decision_default ''h'' 0"]
  by (simp add: demo_asked_def)

lemma demo_ticket_fields:
  "tk_state demo_ticket = Pending" "tk_approval_nonce demo_ticket = ''n''" "tk_expires_at_ms demo_ticket = 60005"
  by (simp_all add: demo_ticket_def evaluate_ticket_def u64_add_def)

lemma demo_asked_outcomes: "gs_outcomes demo_asked = []" "gs_delivered demo_asked = []"
  by (simp_all add: demo_asked_def evaluate_def demo_no_block add_reason_def emit_lifecycle_def Let_def
      guard_service_default_def split: option.splits)

section \<open>Consumption\<close>

text \<open>C1. No ticket is ever consumed twice through the service: starting from the default service,
  for every sequence of calls of any kind (evaluations, approvals, extensions, RPC requests from the
  control plane or the sidecar, emergency stops, policy changes), with any clock readings and nonces,
  at most one use of a given ticket id succeeds.\<close>

theorem service_ticket_at_most_once:
  "count_steps (guard_step env) (guard_consumes env tid) xs guard_service_default \<le> 1"
  by (rule guard_once.at_most_once [OF admitted_guard_inv [OF guard_inv_default]])

section \<open>The pre-flight\<close>

definition bound_to :: "nat \<Rightarrow> string \<Rightarrow> string \<Rightarrow> string \<Rightarrow> string \<Rightarrow> Operation \<Rightarrow> DecisionPackage \<Rightarrow> string \<Rightarrow>
    AuthorizationTicket \<Rightarrow> bool" where
  "bound_to now tid sess agent tool opn d h t \<longleftrightarrow>
     tk_ticket_id t = tid \<and> tk_session_id t = sess \<and> tk_agent_id t = agent \<and> tk_tool_id t = tool \<and>
     tk_operation t = op_name opn \<and> tk_args_hash t = h \<and> tk_paths t = dp_affected_paths d \<and>
     tk_risk t = dp_risk d \<and> tk_single_use t \<and> tk_expires_at_ms t = u64_add now 60000"

lemma evaluate_ticket_bound:
  "bound_to now tid sess agent tool opn d h (evaluate_ticket now nonce tid sess agent tool opn d h seq ask)"
  "tk_state (evaluate_ticket now nonce tid sess agent tool opn d h seq ask) = (if ask then Pending else Approved)"
  by (simp_all add: bound_to_def evaluate_ticket_def)

text \<open>C3. Ticket-every-effect: \<open>evaluate\<close> either blocks, with a reason and an unchanged service, or mints
  one single-use ticket under a fresh id that expires after a minute, bound to the session, agent, tool,
  operation, argument hash and paths of the request, Approved exactly when the answer is Allow and Pending
  when it is Ask; no other ticket changes.\<close>

theorem evaluate_mints_bound_ticket:
  assumes "guard_inv s" "evaluate env now nonce sess agent tool opn d h seq s = (out, s')"
  shows "case out of
      DecBlock r \<Rightarrow> s' = s \<and> hard_block s tool opn d = Some r
    | DecAllow tid \<Rightarrow> ts_get (gs_tickets s) tid = None \<and>
        (\<exists>t. gs_tickets s' = ts_put tid t (gs_tickets s) \<and> bound_to now tid sess agent tool opn d h t \<and> tk_state t = Approved)
    | DecAsk tid \<Rightarrow> ts_get (gs_tickets s) tid = None \<and>
        (\<exists>t. gs_tickets s' = ts_put tid t (gs_tickets s) \<and> bound_to now tid sess agent tool opn d h t \<and> tk_state t = Pending)"
proof (cases "hard_block s tool opn d")
  case None
  note out = evaluate_outcome [of env now nonce sess agent tool opn d h seq s]
  note tks = evaluate_tickets [OF None, of env now nonce sess agent h seq]
  show ?thesis
    using assms(2) out tks guard_inv_fresh [OF assms(1)] None
    by (auto simp: evaluate_ticket_bound intro!: exI split: if_splits)
next
  case (Some r)
  then show ?thesis using assms(2) by (auto simp: evaluate_blocked_state)
qed

theorem evaluate_mints_bound_ticket_witness:
  "\<exists>s' t. evaluate demo_env 5 ''n'' ''s'' ''a'' ''fs.write'' GenericWrite decision_default ''h'' 0
     guard_service_default = (DecAsk (ticket_id_of 1), s') \<and>
   gs_tickets s' = ts_put (ticket_id_of 1) t (gs_tickets guard_service_default) \<and>
   tk_args_hash t = ''h'' \<and> tk_tool_id t = ''fs.write'' \<and> tk_state t = Pending"
proof -
  let ?e = "evaluate demo_env 5 ''n'' ''s'' ''a'' ''fs.write'' GenericWrite decision_default ''h'' 0
     guard_service_default"
  have e: "?e = (DecAsk (ticket_id_of 1), snd ?e)" using demo_asked_outcome by (metis prod.collapse)
  show ?thesis
    using e evaluate_mints_bound_ticket [OF guard_inv_default e] by (auto simp: bound_to_def)
qed

text \<open>C4. With the reviewer budget at zero (the default), an Allow is always justified: the stop is
  clear, the policy rule allows the operation, no floor, no protected path, no tool deny and no R4 tier
  applies, the risk is below the profile's threshold and a reported confidence reaches the policy
  floor.\<close>

theorem allow_is_justified:
  assumes "max_auto_per_run (gs_reviewer_config s) = 0"
    and "fst (evaluate env now nonce sess agent tool opn d h seq s) = DecAllow tid"
  shows "\<not> is_pulled (gs_estop s) \<and> policy_evaluate (gs_policy s) opn = PolicyAllow \<and>
    \<not> requires_human (gs_human_floor s) (op_name opn) None \<and>
    (\<forall>p \<in> set (dp_affected_paths d). \<not> requires_human (gs_human_floor s) (op_name opn) (Some p) \<and>
       \<not> (guards_settings opn \<and> is_protected p)) \<and>
    approval_evaluate (gs_approval_policy s) tool [] \<noteq> ApprovalDeny \<and>
    dp_risk d < human_approval_threshold (gs_profile s) \<and>
    from_risk_and_op (dp_risk d) (op_name opn) False \<noteq> R4 \<and>
    (\<forall>c. dp_confidence d = Some c \<longrightarrow> f64_le (pp_min_confidence (gs_policy s)) c) \<and>
    (opn = DeleteFiles \<longrightarrow> dp_affected_paths d \<noteq> [])"
  using allow_zero_budget [OF assms]
  by (auto simp: floor_ask_def protected_hit_def list_ex_iff hard_block_def wants_ask_def needs_human_def low_confidence_def r4_ask_def
      auto_confidence_ok_def not_le split: if_splits option.splits)

theorem allow_is_justified_witness:
  "let s = set_autonomy_level PresetAuto guard_service_default
   in fst (evaluate demo_env 5 ''n'' ''s'' ''a'' ''fs.write'' GenericWrite decision_default ''h'' 0 s)
        = DecAllow (ticket_id_of 1) \<and>
      policy_evaluate (gs_policy s) GenericWrite = PolicyAllow \<and>
      dp_risk decision_default < human_approval_threshold (gs_profile s)"
proof -
  define s where "s = set_autonomy_level PresetAuto guard_service_default"
  have z: "max_auto_per_run (gs_reviewer_config s) = 0"
    by (simp add: s_def set_autonomy_level_def demo_defs)
  have nb: "hard_block s ''fs.write'' GenericWrite decision_default = None"
    by (simp add: s_def set_autonomy_level_def hard_block_def demo_defs approval_evaluate_def)
  have na: "\<not> final_ask (ge_disp demo_env) s GenericWrite decision_default"
    by (simp add: s_def set_autonomy_level_def final_ask_def wants_ask_def needs_human_def low_confidence_def
        r4_ask_def floor_ask_def protected_hit_def requires_human_def from_risk_and_op_def risk_ord
        starts_with_def to_lowercase_def lower_char_def is_upper_def less_eq_char_def Let_def demo_defs)
  have c: "gs_counter s = 0" by (simp add: s_def set_autonomy_level_def demo_defs)
  have a: "fst (evaluate demo_env 5 ''n'' ''s'' ''a'' ''fs.write'' GenericWrite decision_default ''h'' 0 s)
      = DecAllow (ticket_id_of 1)"
    using nb na c by (simp add: evaluate_outcome)
  show ?thesis
    using a allow_is_justified [OF z a] unfolding Let_def s_def by blast
qed

text \<open>C2. No autonomy preset lets a floor operation run without a human: under every preset, with the
  reviewer budget at zero, a deletion, web action, request to a new domain, destructive shell command or
  sensitive read is asked about or blocked, whatever the tool, arguments, risk and confidence.\<close>

theorem presets_never_auto_run_floor_ops:
  assumes "gs_policy s = preset level" "max_auto_per_run (gs_reviewer_config s) = 0" "floor_op opn"
  shows "fst (evaluate env now nonce sess agent tool opn d h seq s) \<noteq> DecAllow tid"
  using allow_zero_budget(2) [OF assms(2)] preset_floor_op [OF assms(3), of level] assms(1) by metis

theorem presets_never_auto_run_floor_ops_witness:
  "fst (evaluate demo_env 5 ''n'' ''s'' ''a'' ''shell'' (TerminalShell True) decision_default ''h'' 0
     (set_autonomy_level PresetMaximum guard_service_default)) \<noteq> DecAllow (ticket_id_of 1)"
  by (rule presets_never_auto_run_floor_ops [of _ PresetMaximum])
    (simp_all add: set_autonomy_level_def floor_op_def demo_defs)

section \<open>Emergency stop and sidecar\<close>

text \<open>C40. While the emergency stop is pulled nothing privileged happens: evaluation of a single action
  or of a batch blocks, and every ticket use fails, each leaving the service exactly as it was; no
  sequence of sidecar requests clears the stop or changes a ticket or batch ticket.\<close>

theorem estop_freezes:
  assumes "is_pulled (gs_estop s)"
  shows "evaluate env now nonce sess agent tool opn d h seq s = (DecBlock ''estop pulled'', s) \<and>
    evaluate_batch env now nonce sess agent ops d seq s = (DecBlock ''estop pulled'', s) \<and>
    gs_use_ticket env now tid h s = (Inl ''estop pulled'', s) \<and>
    gs_use_batch_ticket now tid h s = (Inl ''estop pulled'', s) \<and>
    is_pulled (gs_estop (run (sidecar_step env) reqs s)) \<and>
    gs_tickets (run (sidecar_step env) reqs s) = gs_tickets s \<and>
    gs_batches (run (sidecar_step env) reqs s) = gs_batches s"
  using assms sidecar_frozen.run_le [OF admitted_True, where env = env and xs = reqs and s = s]
  by (simp add: frozen_stores_def estop_blocks)

theorem estop_freezes_witness:
  "let s = guard_step demo_env GEstopPull guard_service_default
   in is_pulled (gs_estop s) \<and>
      is_pulled (gs_estop (run (sidecar_step demo_env) [(1, ''n'', ''guard/reset'', JObj [])] s))"
proof -
  have p: "is_pulled (gs_estop (guard_step demo_env GEstopPull guard_service_default))" by simp
  show ?thesis
    unfolding Let_def
    using p estop_freezes [OF p, of demo_env _ _ _ _ _ _ _ _ _ _ _ "[(1, ''n'', ''guard/reset'', JObj [])]"]
    by blast
qed

text \<open>C39. The sidecar cannot approve its own asks: over any sequence of sidecar requests, with any
  parameters, a ticket that awaits a human stays Pending or becomes Expired, so none of the requests
  consumes it, and the emergency stop and the security profile keep their values.\<close>

theorem sidecar_cannot_approve:
  assumes "guard_inv s" "ts_get (gs_tickets s) tid = Some t" "tk_state t = Pending"
  shows "(\<exists>t'. ts_get (gs_tickets (run (sidecar_step env) reqs s)) tid = Some t' \<and>
            tk_state t' \<in> {Pending, Expired}) \<and>
    fst (gs_use_ticket env now tid h (run (sidecar_step env) reqs s)) \<noteq> Inr () \<and>
    gs_estop (run (sidecar_step env) reqs s) = gs_estop s \<and>
    gs_profile (run (sidecar_step env) reqs s) = gs_profile s"
proof -
  have "awaits_human tid (run (sidecar_step env) reqs s)"
    by (rule sidecar_waits.run_inv [OF _ admitted_True]) (use assms in \<open>auto simp: awaits_human_def\<close>)
  then obtain t' where t': "ts_get (gs_tickets (run (sidecar_step env) reqs s)) tid = Some t'"
    "tk_state t' \<in> {Pending, Expired}" by (auto simp: awaits_human_def)
  moreover have "fst (gs_use_ticket env now tid h (run (sidecar_step env) reqs s)) \<noteq> Inr ()"
    using t' by (auto simp: gs_use_ok use_ticket_ok_iff)
  ultimately show ?thesis
    using sidecar_limits.run_le [OF admitted_True, where env = env and xs = reqs and s = s] by auto
qed

theorem sidecar_cannot_approve_witness:
  "let v = JObj [(''ticketId'', JStr ''tkt:1''), (''approvalNonce'', JStr ''n''), (''argsHash'', JStr ''h'')];
       reqs = [(6, [], ''guard/approve'', v), (7, [], ''guard/use'', v)]
   in tk_state demo_ticket = Pending \<and>
      fst (gs_use_ticket demo_env 8 (ticket_id_of 1) ''h'' (run (sidecar_step demo_env) reqs demo_asked)) \<noteq> Inr ()"
  unfolding Let_def
  using sidecar_cannot_approve [OF demo_asked_inv demo_asked_get demo_ticket_fields(1)]
    demo_ticket_fields(1) by blast

section \<open>Bundles\<close>

text \<open>Every permission bundle applies completely and keeps the mutation floors: deletions, web
  actions, new domains and destructive shell commands that were not auto-allowed before are not
  auto-allowed after, whatever the policy was; only \<open>open_reads\<close> can relax the sensitive read.\<close>

theorem combos_keep_floors:
  assumes "c \<in> set COMBO_BUNDLES" "apply_rules (cb_rules c) p = (r, p')"
  shows "r = Inr (length (cb_rules c)) \<and>
    (\<forall>x \<in> {DeleteFiles, WebAction, ExternalNetworkOp True, TerminalShell True}.
       policy_evaluate p x \<noteq> PolicyAllow \<longrightarrow> policy_evaluate p' x \<noteq> PolicyAllow) \<and>
    (cb_name c \<noteq> ''open_reads'' \<longrightarrow> policy_evaluate p' (ReadOp True) \<noteq> PolicyAllow)"
proof -
  note parse = rule_parse_def str_trim_def trim_matches_def is_space_def less_eq_char_def
  have lits: "rule_parse ''always_ask'' = Some AlwaysAsk" "rule_parse ''always_allow'' = Some AlwaysAllow"
    "rule_parse ''block'' = Some BlockRule" "rule_parse ''ask_if_destructive'' = Some AskIfDestructive"
    "rule_parse ''ask_if_new_domain'' = Some AskIfNewDomain"
    by (simp_all add: parse)
  show ?thesis
    using assms
    by (auto simp: COMBO_BUNDLES_def apply_rules_def set_rule_def lits)
qed

theorem combos_keep_floors_witness:
  "let c = COMBO_BUNDLES ! 5; p' = snd (apply_rules (cb_rules c) (preset PresetMaximum))
   in cb_name c = ''browse_only'' \<and> policy_evaluate p' DeleteFiles \<noteq> PolicyAllow"
proof -
  let ?c = "COMBO_BUNDLES ! 5"
  have c: "?c \<in> set COMBO_BUNDLES" by (rule nth_mem) (simp add: COMBO_BUNDLES_def)
  have "policy_evaluate (preset PresetMaximum) DeleteFiles \<noteq> PolicyAllow" by simp
  with combos_keep_floors [OF c prod.collapse [symmetric], of "preset PresetMaximum"]
  have "policy_evaluate (snd (apply_rules (cb_rules ?c) (preset PresetMaximum))) DeleteFiles \<noteq> PolicyAllow"
    by simp
  then show ?thesis by (simp add: COMBO_BUNDLES_def Let_def)
qed

section \<open>Waiters and extensions\<close>

text \<open>A waiter is always told: a receiver registered before the decision gets the decision when the
  nonce-bound approval succeeds, one registered after it is preloaded with it, and nothing is sent for
  an approval that fails.\<close>

theorem waiters_learn_the_decision:
  assumes "lookup (gs_outcomes s) tid = None"
    and "watch_ticket tid s = (rx, s1)"
    and "gs_approve_with_nonce env now tid nonce s1 = (good, s2)"
    and "watch_ticket tid s2 = (rx', s3)"
  shows "if good then gs_delivered s2 = gs_delivered s @ [(rx, True)] \<and>
           gs_delivered s3 = gs_delivered s2 @ [(rx', True)] \<and> rx \<noteq> rx'
         else gs_delivered s2 = gs_delivered s \<and> gs_delivered s3 = gs_delivered s"
  using assms
  by (auto simp: watch_ticket_def gs_approve_with_nonce_def conclude_def signal_ticket_def
      emit_lifecycle_def Let_def split_beta split: option.splits if_splits)

theorem waiters_learn_the_decision_witness:
  "let (rx, s1) = watch_ticket (ticket_id_of 1) demo_asked;
       (good, s2) = gs_approve_with_nonce demo_env 6 (ticket_id_of 1) ''n'' s1
   in good \<and> gs_delivered s2 = [(rx, True)]"
proof -
  let ?tid = "ticket_id_of 1"
  let ?w = "watch_ticket ?tid demo_asked"
  let ?a = "gs_approve_with_nonce demo_env 6 ?tid ''n'' (snd ?w)"
  have o: "lookup (gs_outcomes demo_asked) ?tid = None" by (simp add: demo_asked_outcomes)
  have "gs_tickets (snd ?w) = gs_tickets demo_asked"
    by (simp add: watch_ticket_def Let_def split: option.splits)
  then have good: "fst ?a"
    by (simp add: gs_approve_with_nonce_def approve_with_nonce_def approve_inner_def demo_asked_get
        demo_ticket_fields Let_def split_beta del: One_nat_def)
  note th = waiters_learn_the_decision [OF o prod.collapse [symmetric] prod.collapse [symmetric]
      prod.collapse [symmetric], of demo_env 6 "''n''"]
  from th good show ?thesis by (simp add: split_beta Let_def demo_asked_outcomes del: One_nat_def)
qed

text \<open>Extending a card: it changes something only for a Pending ticket and a positive amount; then the
  new expiry lies strictly in the future and at most five minutes ahead, the ticket stays Pending, and
  the nonce of the old card no longer approves it.\<close>

theorem extend_rotates_the_card:
  assumes "extend_ticket_ttl now nonce tid extra s = (Inr (e, n), s')" "\<not> starts_with tid ''btk:''"
    and "ts_get (gs_tickets s) tid = Some t" "tk_expires_at_ms t + 60000 \<le> u64_max" "now + 300000 \<le> u64_max"
    and "tk_approval_nonce t \<noteq> nonce"
  shows "now < e \<and> e \<le> now + 300000 \<and> n = nonce \<and>
    ts_get (gs_tickets s') tid = Some (t\<lparr>tk_expires_at_ms := e, tk_approval_nonce := nonce\<rparr>) \<and>
    tk_state t = Pending \<and>
    \<not> fst (gs_approve_with_nonce env now' tid (tk_approval_nonce t) s')"
proof -
  have x: "0 < min extra 60000" "tk_state t = Pending" "e = extended_expiry (tk_expires_at_ms t) now (min extra 60000)"
    "n = nonce" "gs_tickets s' = ts_put tid (t\<lparr>tk_expires_at_ms := e, tk_approval_nonce := nonce\<rparr>) (gs_tickets s)"
    using assms(1-3) by (auto simp: extend_ticket_ttl_def Let_def split: if_splits)
  have "max (tk_expires_at_ms t) now + min extra 60000 \<le> u64_max"
    using assms(4,5) by (simp add: max_def min_def)
  then have e: "e = min (max (tk_expires_at_ms t) now + min extra 60000) (now + 300000)"
    using assms(5) by (simp add: x(3) extended_expiry_def u64_add_small)
  have "\<not> fst (gs_approve_with_nonce env now' tid (tk_approval_nonce t) s')"
    using assms(6) by (simp add: gs_approve_with_nonce_def approve_with_nonce_def approve_inner_def x(5)
        Let_def split_beta)
  then show ?thesis using x(1,2,4,5) e by auto
qed

theorem extend_rotates_the_card_witness:
  "\<exists>e s'. extend_ticket_ttl 10 ''m'' (ticket_id_of 1) 60000 demo_asked = (Inr (e, ''m''), s') \<and>
     10 < e \<and> e \<le> 10 + 300000 \<and> \<not> fst (gs_approve_with_nonce demo_env 11 (ticket_id_of 1) ''n'' s')"
proof -
  have nb: "\<not> starts_with (ticket_id_of 1) ''btk:''" by (simp add: ticket_id_of_def starts_with_def)
  have "\<exists>e s'. extend_ticket_ttl 10 ''m'' (ticket_id_of 1) 60000 demo_asked = (Inr (e, ''m''), s')"
    by (simp add: extend_ticket_ttl_def nb demo_asked_get demo_ticket_fields Let_def del: One_nat_def)
  then obtain e s' where x: "extend_ticket_ttl 10 ''m'' (ticket_id_of 1) 60000 demo_asked = (Inr (e, ''m''), s')"
    by blast
  have "10 < e \<and> e \<le> 10 + 300000 \<and>
      \<not> fst (gs_approve_with_nonce demo_env 11 (ticket_id_of 1) (tk_approval_nonce demo_ticket) s')"
    using extend_rotates_the_card [OF x nb demo_asked_get, of demo_env 11]
    by (simp add: demo_ticket_fields u64_max_def del: One_nat_def)
  with x show ?thesis by (auto simp: demo_ticket_fields simp del: One_nat_def)
qed

end
