(* ===== verification/Lease_Types.thy ===== *)
theory Lease_Types
  imports Json_Access
begin

text \<open>
  The lease vocabulary of \<open>everyaios-types/src/workbench.rs\<close>: access classes, the lifecycle states and
  their legal transitions, typed resource keys, owners, lease records, their safe attachment, and the
  durable lifecycle facts with their JSON payload. Identifier newtypes are strings. The JSON rendering of
  a whole fact, which \<open>validate\<close> scans, is the parameter \<open>fser\<close>.
\<close>

section \<open>Access classes\<close>

datatype LeaseAccess = Observe | View | Edit | Action | Control

fun access_as_str :: "LeaseAccess \<Rightarrow> string" where
  "access_as_str Observe = ''observe''"
| "access_as_str View = ''view''"
| "access_as_str Edit = ''edit''"
| "access_as_str Action = ''action''"
| "access_as_str Control = ''control''"

definition access_parse :: "string \<Rightarrow> LeaseAccess option" where
  "access_parse s =
     (if s = ''observe'' then Some Observe
      else if s = ''view'' then Some View
      else if s = ''edit'' then Some Edit
      else if s = ''action'' then Some Action
      else if s = ''control'' then Some Control
      else None)"

fun is_observation :: "LeaseAccess \<Rightarrow> bool" where
  "is_observation Observe \<longleftrightarrow> True"
| "is_observation View \<longleftrightarrow> True"
| "is_observation _ \<longleftrightarrow> False"

definition is_exclusive :: "LeaseAccess \<Rightarrow> bool" where
  "is_exclusive a \<longleftrightarrow> \<not> is_observation a"

definition compatible_with :: "LeaseAccess \<Rightarrow> LeaseAccess \<Rightarrow> bool" where
  "compatible_with a b \<longleftrightarrow> is_observation a \<and> is_observation b"

section \<open>Lifecycle states\<close>

datatype LeaseState =
    LsActive
  | LsReleased
  | LsExpired
  | LsRevoked
  | LsReclaimPending
  | LsReclaimed
  | LsUncertain

fun lease_state_str :: "LeaseState \<Rightarrow> string" where
  "lease_state_str LsActive = ''active''"
| "lease_state_str LsReleased = ''released''"
| "lease_state_str LsExpired = ''expired''"
| "lease_state_str LsRevoked = ''revoked''"
| "lease_state_str LsReclaimPending = ''reclaim_pending''"
| "lease_state_str LsReclaimed = ''reclaimed''"
| "lease_state_str LsUncertain = ''uncertain''"

definition lease_state_parse :: "string \<Rightarrow> LeaseState option" where
  "lease_state_parse s =
     (if s = ''active'' then Some LsActive
      else if s = ''released'' then Some LsReleased
      else if s = ''expired'' then Some LsExpired
      else if s = ''revoked'' then Some LsRevoked
      else if s = ''reclaim_pending'' then Some LsReclaimPending
      else if s = ''reclaimed'' then Some LsReclaimed
      else if s = ''uncertain'' then Some LsUncertain
      else None)"

definition is_live_state :: "LeaseState \<Rightarrow> bool" where
  "is_live_state st \<longleftrightarrow> st = LsActive"

definition is_terminal :: "LeaseState \<Rightarrow> bool" where
  "is_terminal st \<longleftrightarrow> st \<in> {LsReleased, LsExpired, LsRevoked, LsReclaimed}"

definition can_transition :: "LeaseState \<Rightarrow> LeaseState \<Rightarrow> bool" where
  "can_transition st nx =
     (if st = nx then True
      else if is_terminal st then False
      else (case st of
          LsActive \<Rightarrow> nx \<in> {LsReleased, LsExpired, LsRevoked, LsReclaimPending, LsUncertain}
        | LsReclaimPending \<Rightarrow> nx \<in> {LsReclaimed, LsUncertain, LsRevoked}
        | LsUncertain \<Rightarrow> nx \<in> {LsReclaimed, LsActive, LsRevoked, LsExpired}
        | _ \<Rightarrow> False))"

section \<open>Resources and owners\<close>

datatype ResourceKind =
    RkFile
  | RkOfficeDocument
  | RkBrowserTab
  | RkBrowserProfile
  | RkDesktopTarget
  | RkProviderHandle
  | RkOther

fun kind_as_str :: "ResourceKind \<Rightarrow> string" where
  "kind_as_str RkFile = ''file''"
| "kind_as_str RkOfficeDocument = ''office_document''"
| "kind_as_str RkBrowserTab = ''browser_tab''"
| "kind_as_str RkBrowserProfile = ''browser_profile''"
| "kind_as_str RkDesktopTarget = ''desktop_target''"
| "kind_as_str RkProviderHandle = ''provider_handle''"
| "kind_as_str RkOther = ''other''"

definition kind_parse :: "string \<Rightarrow> ResourceKind option" where
  "kind_parse s =
     (if s = ''file'' then Some RkFile
      else if s = ''office_document'' then Some RkOfficeDocument
      else if s = ''browser_tab'' then Some RkBrowserTab
      else if s = ''browser_profile'' then Some RkBrowserProfile
      else if s = ''desktop_target'' then Some RkDesktopTarget
      else if s = ''provider_handle'' then Some RkProviderHandle
      else if s = ''other'' then Some RkOther
      else None)"

record TypedResourceKey =
  rk_kind :: ResourceKind
  rk_stable_id :: string
  rk_generation :: nat

definition canonical_key :: "TypedResourceKey \<Rightarrow> string" where
  "canonical_key k = kind_as_str (rk_kind k) @ '':'' @ rk_stable_id k"

definition key_validate :: "TypedResourceKey \<Rightarrow> string + unit" where
  "key_validate k = (if rk_stable_id k = [] then Inl ''resource stable_id must not be empty'' else Inr ())"

record OwnerContext =
  ow_session_id :: string
  ow_work_id :: string
  ow_run_id :: string
  ow_binding_id :: string

definition owner_validate :: "OwnerContext \<Rightarrow> string + unit" where
  "owner_validate w =
     (if ow_session_id w = [] then Inl ''owner session_id must not be empty''
      else if ow_work_id w = [] then Inl ''owner work_id must not be empty''
      else if ow_run_id w = [] then Inl ''owner run_id must not be empty''
      else if ow_binding_id w = [] then Inl ''owner binding_id must not be empty''
      else Inr ())"

section \<open>Leases\<close>

record ResourceLease =
  rl_lease_id :: string
  rl_resource :: TypedResourceKey
  rl_owner_work_id :: string
  rl_owner_run_id :: string
  rl_actor_binding_id :: string
  rl_session_scope :: string
  rl_access :: LeaseAccess
  rl_resource_generation :: nat
  rl_fence :: nat
  rl_scope_fingerprint :: string
  rl_state :: LeaseState
  rl_issued_at_ms :: nat
  rl_expires_at_ms :: nat
  rl_last_heartbeat_ms :: nat

definition lease_validate :: "ResourceLease \<Rightarrow> string + unit" where
  "lease_validate l =
     (if rl_lease_id l = [] then Inl ''lease_id must not be empty''
      else case key_validate (rl_resource l) of
        Inl e \<Rightarrow> Inl e
      | Inr _ \<Rightarrow>
          if rl_owner_work_id l = [] \<or> rl_owner_run_id l = []
          then Inl ''lease Work/Run owner must not be empty''
          else if rl_actor_binding_id l = [] then Inl ''lease actor binding must not be empty''
          else if rl_session_scope l = [] then Inl ''lease session_scope must not be empty''
          else if rl_fence l = 0 then Inl ''lease fence must be a positive monotonic value''
          else if rl_expires_at_ms l \<le> rl_issued_at_ms l
          then Inl ''lease lifetime must be bounded: expires_at must exceed issued_at''
          else if rl_last_heartbeat_ms l < rl_issued_at_ms l
          then Inl ''lease heartbeat must not predate issue''
          else Inr ())"

definition lease_is_live :: "ResourceLease \<Rightarrow> nat \<Rightarrow> bool" where
  "lease_is_live l now \<longleftrightarrow> is_live_state (rl_state l) \<and> now \<le> rl_expires_at_ms l"

record LeaseAttachment =
  at_lease_id :: string
  at_session_scope :: string
  at_resource_key :: string
  at_generation :: nat
  at_fence :: nat
  at_state :: LeaseState

definition attachment :: "ResourceLease \<Rightarrow> LeaseAttachment" where
  "attachment l =
     \<lparr> at_lease_id = rl_lease_id l, at_session_scope = rl_session_scope l,
       at_resource_key = canonical_key (rl_resource l), at_generation = rl_resource_generation l,
       at_fence = rl_fence l, at_state = rl_state l \<rparr>"

datatype PostEffectOutcome = PeSuccess | PeFailed | PeCancelled | PeUncertain

fun outcome_as_str :: "PostEffectOutcome \<Rightarrow> string" where
  "outcome_as_str PeSuccess = ''success''"
| "outcome_as_str PeFailed = ''failed''"
| "outcome_as_str PeCancelled = ''cancelled''"
| "outcome_as_str PeUncertain = ''uncertain''"

definition outcome_parse :: "string \<Rightarrow> PostEffectOutcome option" where
  "outcome_parse s =
     (if s = ''success'' \<or> s = ''succeeded'' then Some PeSuccess
      else if s = ''failed'' \<or> s = ''failure'' then Some PeFailed
      else if s = ''cancelled'' \<or> s = ''canceled'' then Some PeCancelled
      else if s = ''uncertain'' \<or> s = ''unknown'' then Some PeUncertain
      else None)"

fun from_observation :: "bool option \<Rightarrow> PostEffectOutcome" where
  "from_observation (Some True) = PeSuccess"
| "from_observation (Some False) = PeFailed"
| "from_observation None = PeUncertain"

definition is_settled :: "PostEffectOutcome \<Rightarrow> bool" where
  "is_settled p \<longleftrightarrow> p \<in> {PeSuccess, PeFailed, PeCancelled}"

section \<open>Lifecycle facts\<close>

definition LEASE_EVENT_ACQUIRED :: string where "LEASE_EVENT_ACQUIRED = ''lease.acquired''"
definition LEASE_EVENT_RENEWED :: string where "LEASE_EVENT_RENEWED = ''lease.renewed''"
definition LEASE_EVENT_RELEASED :: string where "LEASE_EVENT_RELEASED = ''lease.released''"
definition LEASE_EVENT_REVOKED :: string where "LEASE_EVENT_REVOKED = ''lease.revoked''"
definition LEASE_EVENT_EXPIRED :: string where "LEASE_EVENT_EXPIRED = ''lease.expired''"
definition LEASE_EVENT_RECLAIM_PENDING :: string where "LEASE_EVENT_RECLAIM_PENDING = ''lease.reclaim_pending''"
definition LEASE_EVENT_RECLAIMED :: string where "LEASE_EVENT_RECLAIMED = ''lease.reclaimed''"
definition LEASE_EVENT_UNCERTAIN :: string where "LEASE_EVENT_UNCERTAIN = ''lease.uncertain''"
definition LEASE_EVENT_ACTOR_REVALIDATED :: string where
  "LEASE_EVENT_ACTOR_REVALIDATED = ''lease.actor_revalidated''"

lemmas lease_event_defs =
  LEASE_EVENT_ACQUIRED_def LEASE_EVENT_RENEWED_def LEASE_EVENT_RELEASED_def LEASE_EVENT_REVOKED_def
  LEASE_EVENT_EXPIRED_def LEASE_EVENT_RECLAIM_PENDING_def LEASE_EVENT_RECLAIMED_def
  LEASE_EVENT_UNCERTAIN_def LEASE_EVENT_ACTOR_REVALIDATED_def

definition LEASE_EVENT_KINDS :: "string list" where
  "LEASE_EVENT_KINDS =
     [LEASE_EVENT_ACQUIRED, LEASE_EVENT_RENEWED, LEASE_EVENT_RELEASED, LEASE_EVENT_REVOKED,
      LEASE_EVENT_EXPIRED, LEASE_EVENT_RECLAIM_PENDING, LEASE_EVENT_RECLAIMED, LEASE_EVENT_UNCERTAIN,
      LEASE_EVENT_ACTOR_REVALIDATED]"

definition FORBIDDEN_PROJECTION_KEYS :: "string list" where
  "FORBIDDEN_PROJECTION_KEYS =
     [''bearer'', ''token'', ''cookie'', ''secret'', ''credential'', ''password'', ''api_key'',
      ''apikey'', ''private_key'', ''session_key'']"

definition projection_json_has_no_secrets :: "string \<Rightarrow> bool" where
  "projection_json_has_no_secrets rendered \<longleftrightarrow>
     list_all (\<lambda>key. \<not> str_contains (to_lowercase rendered) key) FORBIDDEN_PROJECTION_KEYS"

record LeaseLifecycleFact =
  lf_lease_id :: string
  lf_kind :: string
  lf_fence :: nat
  lf_generation :: nat
  lf_at_ms :: nat
  lf_detail :: "string option"
  lf_access :: "LeaseAccess option"
  lf_owner :: "OwnerContext option"
  lf_resource :: "TypedResourceKey option"
  lf_scope_fingerprint :: "string option"

definition fact_new :: "string \<Rightarrow> string \<Rightarrow> nat \<Rightarrow> nat \<Rightarrow> nat \<Rightarrow> LeaseLifecycleFact" where
  "fact_new lid kind fence gen tms =
     \<lparr> lf_lease_id = lid, lf_kind = kind, lf_fence = fence, lf_generation = gen, lf_at_ms = tms,
       lf_detail = None, lf_access = None, lf_owner = None, lf_resource = None,
       lf_scope_fingerprint = None \<rparr>"

definition with_detail :: "string \<Rightarrow> LeaseLifecycleFact \<Rightarrow> LeaseLifecycleFact" where
  "with_detail d f = f\<lparr>lf_detail := Some d\<rparr>"

definition with_acquire_context ::
  "LeaseAccess \<Rightarrow> OwnerContext \<Rightarrow> TypedResourceKey \<Rightarrow> string \<Rightarrow> LeaseLifecycleFact \<Rightarrow> LeaseLifecycleFact" where
  "with_acquire_context a w k scope f =
     f\<lparr>lf_access := Some a, lf_owner := Some w, lf_resource := Some k, lf_scope_fingerprint := Some scope\<rparr>"

definition fact_validate :: "(LeaseLifecycleFact \<Rightarrow> string) \<Rightarrow> LeaseLifecycleFact \<Rightarrow> string + unit" where
  "fact_validate fser f =
     (if lf_lease_id f = [] then Inl ''lease fact id must not be empty''
      else if lf_kind f \<notin> set LEASE_EVENT_KINDS
      then Inl (''unknown lease fact kind `'' @ lf_kind f @ ''`'')
      else if lf_fence f = 0 then Inl ''lease fact fence must be positive''
      else case (case lf_detail f of
            None \<Rightarrow> None
          | Some d \<Rightarrow> find (\<lambda>key. str_contains (to_lowercase d) key) FORBIDDEN_PROJECTION_KEYS) of
        Some key \<Rightarrow> Inl (''lease fact detail must not carry secret-shaped key `'' @ key @ ''`'')
      | None \<Rightarrow>
          if \<not> projection_json_has_no_secrets (fser f)
          then Inl ''lease fact must not carry secret-shaped keys''
          else Inr ())"

definition records_state :: "LeaseLifecycleFact \<Rightarrow> LeaseState option" where
  "records_state f =
     (if lf_kind f \<in> {LEASE_EVENT_ACQUIRED, LEASE_EVENT_RENEWED, LEASE_EVENT_ACTOR_REVALIDATED}
      then Some LsActive
      else if lf_kind f = LEASE_EVENT_RELEASED then Some LsReleased
      else if lf_kind f = LEASE_EVENT_REVOKED then Some LsRevoked
      else if lf_kind f = LEASE_EVENT_EXPIRED then Some LsExpired
      else if lf_kind f = LEASE_EVENT_RECLAIM_PENDING then Some LsReclaimPending
      else if lf_kind f = LEASE_EVENT_RECLAIMED then Some LsReclaimed
      else if lf_kind f = LEASE_EVENT_UNCERTAIN then Some LsUncertain
      else None)"

section \<open>Envelope payloads\<close>

definition parse_owner :: "'v json_api \<Rightarrow> 'v \<Rightarrow> OwnerContext option" where
  "parse_owner j payload =
     Option.bind (j_get j payload ''owner'') (\<lambda>w.
     Option.bind (get_str j w ''session_id'') (\<lambda>se.
     Option.bind (get_str j w ''work_id'') (\<lambda>wk.
     Option.bind (get_str j w ''run_id'') (\<lambda>ru.
     Option.bind (get_str j w ''binding_id'') (\<lambda>bi.
       Some \<lparr> ow_session_id = se, ow_work_id = wk, ow_run_id = ru, ow_binding_id = bi \<rparr>)))))"

definition parse_resource :: "'v json_api \<Rightarrow> 'v \<Rightarrow> TypedResourceKey option" where
  "parse_resource j payload =
     Option.bind (j_get j payload ''resource'') (\<lambda>r.
     Option.bind (Option.bind (get_str j r ''kind'') kind_parse) (\<lambda>kd.
     Option.bind (get_str j r ''stable_id'') (\<lambda>sid.
       Some \<lparr> rk_kind = kd, rk_stable_id = sid, rk_generation = or_default 0 (get_u64 j r ''generation'') \<rparr>)))"

definition from_envelope :: "'v json_api \<Rightarrow> string \<Rightarrow> 'v \<Rightarrow> LeaseLifecycleFact option" where
  "from_envelope j kind payload =
     (if kind \<notin> set LEASE_EVENT_KINDS then None
      else
        Option.bind (get_str j payload ''lease_id'') (\<lambda>lid.
        Option.bind (get_u64 j payload ''fence'') (\<lambda>fence.
          Some \<lparr> lf_lease_id = lid, lf_kind = kind, lf_fence = fence,
                 lf_generation = or_default 0 (get_u64 j payload ''generation''),
                 lf_at_ms = or_default 0 (get_u64 j payload ''at_ms''),
                 lf_detail = get_str j payload ''detail'',
                 lf_access = Option.bind (get_str j payload ''access'') access_parse,
                 lf_owner = parse_owner j payload,
                 lf_resource = parse_resource j payload,
                 lf_scope_fingerprint = get_str j payload ''scope_fingerprint'' \<rparr>)))"

definition opt_field :: "string \<Rightarrow> ('a \<Rightarrow> 'v) \<Rightarrow> 'a option \<Rightarrow> (string \<times> 'v) list" where
  "opt_field key f x = (case x of None \<Rightarrow> [] | Some v \<Rightarrow> [(key, f v)])"

definition owner_payload :: "'v json_build \<Rightarrow> OwnerContext \<Rightarrow> 'v" where
  "owner_payload b w = jb_obj b
     [(''session_id'', jb_str b (ow_session_id w)), (''work_id'', jb_str b (ow_work_id w)),
      (''run_id'', jb_str b (ow_run_id w)), (''binding_id'', jb_str b (ow_binding_id w))]"

definition resource_payload :: "'v json_build \<Rightarrow> TypedResourceKey \<Rightarrow> 'v" where
  "resource_payload b k = jb_obj b
     [(''kind'', jb_str b (kind_as_str (rk_kind k))), (''stable_id'', jb_str b (rk_stable_id k)),
      (''generation'', jb_num b (rk_generation k))]"

definition envelope_payload :: "'v json_build \<Rightarrow> LeaseLifecycleFact \<Rightarrow> 'v" where
  "envelope_payload b f = jb_obj b
     ([(''lease_id'', jb_str b (lf_lease_id f)), (''fence'', jb_num b (lf_fence f)),
       (''generation'', jb_num b (lf_generation f)), (''at_ms'', jb_num b (lf_at_ms f))] @
      opt_field ''detail'' (jb_str b) (lf_detail f) @
      opt_field ''access'' (\<lambda>a. jb_str b (access_as_str a)) (lf_access f) @
      opt_field ''owner'' (owner_payload b) (lf_owner f) @
      opt_field ''resource'' (resource_payload b) (lf_resource f) @
      opt_field ''scope_fingerprint'' (jb_str b) (lf_scope_fingerprint f))"

section \<open>Lemmas\<close>

lemma compatible_sym: "compatible_with a b \<longleftrightarrow> compatible_with b a"
  by (auto simp: compatible_with_def)

lemma access_roundtrip [simp]: "access_parse (access_as_str a) = Some a"
  by (cases a) (simp_all add: access_parse_def)

lemma kind_roundtrip [simp]: "kind_parse (kind_as_str k) = Some k"
  by (cases k) (simp_all add: kind_parse_def)

lemma lease_state_roundtrip [simp]: "lease_state_parse (lease_state_str st) = Some st"
  by (cases st) (simp_all add: lease_state_parse_def)

lemma terminal_transition: "is_terminal st \<Longrightarrow> can_transition st nx \<longleftrightarrow> nx = st"
  by (auto simp: can_transition_def)

lemma kind_no_colon: "CHR '':'' \<notin> set (kind_as_str k)"
  by (cases k) simp_all

lemma colon_split_eq:
  "CHR '':'' \<notin> set p \<Longrightarrow> CHR '':'' \<notin> set q \<Longrightarrow> p @ CHR '':'' # u = q @ CHR '':'' # v \<Longrightarrow> p = q \<and> u = v"
proof (induction p arbitrary: q)
  case Nil
  then show ?case by (cases q) auto
next
  case (Cons c p)
  then show ?case by (cases q) auto
qed

lemma kind_as_str_inject: "kind_as_str a = kind_as_str b \<Longrightarrow> a = b"
  by (metis kind_roundtrip option.inject)

text \<open>The contention key forgets the generation and nothing else.\<close>

lemma canonical_key_inject:
  "canonical_key a = canonical_key b \<longleftrightarrow> rk_kind a = rk_kind b \<and> rk_stable_id a = rk_stable_id b"
proof
  assume "canonical_key a = canonical_key b"
  then have "kind_as_str (rk_kind a) @ CHR '':'' # rk_stable_id a = kind_as_str (rk_kind b) @ CHR '':'' # rk_stable_id b"
    by (simp add: canonical_key_def)
  from colon_split_eq [OF kind_no_colon kind_no_colon this]
  show "rk_kind a = rk_kind b \<and> rk_stable_id a = rk_stable_id b"
    by (auto dest: kind_as_str_inject)
qed (simp add: canonical_key_def)

context json_objects
begin

lemma owner_payload_parse:
  "j_get j p ''owner'' = Some (owner_payload b w) \<Longrightarrow> parse_owner j p = Some w"
  by (simp add: parse_owner_def owner_payload_def get_str_obj)

lemma resource_payload_parse:
  "j_get j p ''resource'' = Some (resource_payload b k) \<Longrightarrow> parse_resource j p = Some k"
  by (simp add: parse_resource_def resource_payload_def get_str_obj get_u64_obj)

lemma payload_roundtrip:
  assumes "lf_kind f \<in> set LEASE_EVENT_KINDS"
  shows "from_envelope j (lf_kind f) (envelope_payload b f) = Some f"
proof -
  have owner: "parse_owner j (envelope_payload b f) = lf_owner f"
  proof (cases "lf_owner f")
    case None
    then show ?thesis
      by (simp add: parse_owner_def envelope_payload_def get_obj opt_field_def split: option.splits)
  next
    case (Some w)
    then show ?thesis
      by (intro trans [OF owner_payload_parse [of _ w]])
        (simp_all add: envelope_payload_def get_obj opt_field_def split: option.splits)
  qed
  have resource: "parse_resource j (envelope_payload b f) = lf_resource f"
  proof (cases "lf_resource f")
    case None
    then show ?thesis
      by (simp add: parse_resource_def envelope_payload_def get_obj opt_field_def split: option.splits)
  next
    case (Some k)
    then show ?thesis
      by (intro trans [OF resource_payload_parse [of _ k]])
        (simp_all add: envelope_payload_def get_obj opt_field_def split: option.splits)
  qed
  have scalars: "get_str j (envelope_payload b f) ''lease_id'' = Some (lf_lease_id f)"
    "get_u64 j (envelope_payload b f) ''fence'' = Some (lf_fence f)"
    "get_u64 j (envelope_payload b f) ''generation'' = Some (lf_generation f)"
    "get_u64 j (envelope_payload b f) ''at_ms'' = Some (lf_at_ms f)"
    by (simp_all add: envelope_payload_def get_str_obj get_u64_obj)
  have detail: "get_str j (envelope_payload b f) ''detail'' = lf_detail f"
    by (cases "lf_detail f") (simp_all add: envelope_payload_def get_str_def get_obj str_str opt_field_def
        split: option.splits)
  have access: "Option.bind (get_str j (envelope_payload b f) ''access'') access_parse = lf_access f"
    by (cases "lf_access f") (simp_all add: envelope_payload_def get_str_def get_obj str_str opt_field_def
        split: option.splits)
  have scope: "get_str j (envelope_payload b f) ''scope_fingerprint'' = lf_scope_fingerprint f"
    by (cases "lf_scope_fingerprint f") (simp_all add: envelope_payload_def get_str_def get_obj str_str
        opt_field_def split: option.splits)
  show ?thesis
    using assms by (simp add: from_envelope_def owner resource scalars detail access scope)
qed

end

section \<open>Properties\<close>

text \<open>Facts survive the event stream: for every fact of a known kind, reading back the payload the
  fact contributes to its envelope gives the same fact, all optional context included, for every JSON
  library that returns what was put into an object.\<close>

theorem fact_payload_roundtrip:
  assumes "json_objects j b" "lf_kind f \<in> set LEASE_EVENT_KINDS"
  shows "from_envelope j (lf_kind f) (envelope_payload b f) = Some f"
  using assms by (rule json_objects.payload_roundtrip)

theorem fact_payload_roundtrip_witness:
  "let f = with_detail ''x'' (fact_new ''l1'' LEASE_EVENT_REVOKED 2 7 9)
   in json_objects obj_api obj_build \<and> from_envelope obj_api (lf_kind f) (envelope_payload obj_build f) = Some f"
proof -
  let ?f = "with_detail ''x'' (fact_new ''l1'' LEASE_EVENT_REVOKED 2 7 9)"
  have "lf_kind ?f \<in> set LEASE_EVENT_KINDS"
    by (simp add: with_detail_def fact_new_def LEASE_EVENT_KINDS_def)
  from fact_payload_roundtrip [OF obj.json_objects_axioms this] obj.json_objects_axioms
  show ?thesis by (simp only: Let_def)
qed

end
