(* ===== verification/Lease_Coordinator.thy ===== *)
theory Lease_Coordinator
  imports Lease_Types
begin

text \<open>
  The Work/Run-owned lease and fencing coordinator (\<open>everyaios-core/src/workbench.rs\<close>): admission,
  exercise, renewal, release, revocation, takeover, expiry, binding switch, provider restart, crash
  recovery and replay of durable facts. Time is caller-supplied in the code as well; the random bearer
  is an argument of the operations that mint one. The JSON rendering scanned by \<open>validate\<close> is \<open>fser\<close>.
  Fence, handle and sequence counters are natural numbers.
\<close>

section \<open>Bearers\<close>

type_synonym bearer = string

definition bearer_generate :: "string \<Rightarrow> bearer" where
  "bearer_generate bytes = (if list_all (\<lambda>c. c = CHR 0x00) bytes then bytes[0 := CHR 0x01] else bytes)"

text \<open>The constant-time comparison: the OR of the XORs of the byte pairs is zero exactly when every
  pair agrees.\<close>

definition bearer_matches :: "bearer \<Rightarrow> bearer \<Rightarrow> bool" where
  "bearer_matches a b \<longleftrightarrow> list_all (\<lambda>(x, y). x = y) (zip a b)"

section \<open>Errors and state\<close>

datatype LeaseError =
    LeConflict string string string
  | LeStaleResource string nat nat
  | LeStaleLease string nat nat
  | LeUnknownLease string
  | LeUnknownHandle
  | LeBearerMismatch string
  | LeNotActive string string
  | LeWrongBinding string
  | LeHolderNotLive string
  | LeExpired string
  | LeMustReconcileFirst string
  | LeHolderMayBeLive string
  | LeStaleFact string nat nat
  | LeInvalidRequest string

record LeaseRecord =
  lr_lease :: ResourceLease
  lr_bearer :: bearer
  lr_holder_live :: bool
  lr_ttl_ms :: nat

record Coordinator =
  co_leases :: "LeaseRecord strmap"
  co_handle_index :: "(nat \<times> string) list"
  co_fences :: "nat strmap"
  co_generations :: "nat strmap"
  co_provider_generations :: "nat strmap"
  co_session_attachments :: "string list strmap"
  co_next_handle :: nat
  co_next_lease_seq :: nat

definition coordinator_new :: Coordinator where
  "coordinator_new =
     \<lparr> co_leases = [], co_handle_index = [], co_fences = [], co_generations = [],
       co_provider_generations = [], co_session_attachments = [], co_next_handle = 1,
       co_next_lease_seq = 1 \<rparr>"

record AcquiredLease =
  al_handle :: nat
  al_bearer :: bearer
  al_attachment :: LeaseAttachment
  al_fact :: LeaseLifecycleFact

record TakeoverOutcome =
  to_handle :: nat
  to_bearer :: bearer
  to_attachment :: LeaseAttachment
  to_facts :: "LeaseLifecycleFact list"

datatype ReconcileOutcome = AdvancedToReclaim LeaseLifecycleFact | StillUncertain

record RebuildReport =
  rr_cursor :: nat
  rr_applied :: nat
  rr_skipped :: nat

section \<open>Introspection\<close>

definition fence_of :: "Coordinator \<Rightarrow> string \<Rightarrow> nat" where
  "fence_of s canon = (case lookup (co_fences s) canon of None \<Rightarrow> 0 | Some n \<Rightarrow> n)"

definition current_fence :: "Coordinator \<Rightarrow> TypedResourceKey \<Rightarrow> nat" where
  "current_fence s k = fence_of s (canonical_key k)"

definition current_generation :: "Coordinator \<Rightarrow> TypedResourceKey \<Rightarrow> nat option" where
  "current_generation s k = lookup (co_generations s) (canonical_key k)"

definition provider_generation :: "Coordinator \<Rightarrow> string \<Rightarrow> nat" where
  "provider_generation s b = (case lookup (co_provider_generations s) b of None \<Rightarrow> 0 | Some n \<Rightarrow> n)"

definition attachment_for :: "Coordinator \<Rightarrow> string \<Rightarrow> LeaseAttachment option" where
  "attachment_for s lid = map_option (\<lambda>r. attachment (lr_lease r)) (lookup (co_leases s) lid)"

definition attachments_for :: "Coordinator \<Rightarrow> string \<Rightarrow> LeaseAttachment list" where
  "attachments_for s sid =
     (case lookup (co_session_attachments s) sid of
        None \<Rightarrow> []
      | Some ids \<Rightarrow> List.map_filter (\<lambda>lid. map_option (\<lambda>r. attachment (lr_lease r)) (lookup (co_leases s) lid)) ids)"

definition lease_state_of :: "Coordinator \<Rightarrow> string \<Rightarrow> LeaseState option" where
  "lease_state_of s lid = map_option (\<lambda>r. rl_state (lr_lease r)) (lookup (co_leases s) lid)"

definition record_key :: "LeaseRecord \<Rightarrow> string" where
  "record_key r = canonical_key (rl_resource (lr_lease r))"

definition lease_id_for_resource :: "Coordinator \<Rightarrow> string \<Rightarrow> string option" where
  "lease_id_for_resource s canon =
     map_option (\<lambda>r. rl_lease_id (lr_lease r)) (find (\<lambda>r. record_key r = canon) (map snd (co_leases s)))"

definition note_resource_generation :: "TypedResourceKey \<Rightarrow> nat \<Rightarrow> Coordinator \<Rightarrow> Coordinator" where
  "note_resource_generation k g s =
     s\<lparr>co_generations := AList.update (canonical_key k) g (co_generations s)\<rparr>"

section \<open>Admission\<close>

definition live_at :: "nat \<Rightarrow> LeaseRecord \<Rightarrow> bool" where
  "live_at now r \<longleftrightarrow>
     is_live_state (rl_state (lr_lease r)) \<and> lr_holder_live r \<and> now \<le> rl_expires_at_ms (lr_lease r)"

definition live_holders :: "Coordinator \<Rightarrow> string \<Rightarrow> nat \<Rightarrow> LeaseRecord list" where
  "live_holders s canon now =
     filter (\<lambda>r. record_key r = canon \<and> live_at now r) (map snd (co_leases s))"

definition mint_lease_id :: "nat \<Rightarrow> Coordinator \<Rightarrow> string \<times> Coordinator" where
  "mint_lease_id now s =
     (let seq = co_next_lease_seq s
      in (''lease-'' @ show_nat now @ ''-'' @ show_nat seq, s\<lparr>co_next_lease_seq := Suc seq\<rparr>))"

definition mint_handle :: "Coordinator \<Rightarrow> nat \<times> Coordinator" where
  "mint_handle s = (co_next_handle s, s\<lparr>co_next_handle := Suc (co_next_handle s)\<rparr>)"

definition push_attachment :: "string \<Rightarrow> string \<Rightarrow> Coordinator \<Rightarrow> Coordinator" where
  "push_attachment sid lid s =
     s\<lparr>co_session_attachments := AList.update sid
        ((case lookup (co_session_attachments s) sid of None \<Rightarrow> [] | Some ids \<Rightarrow> ids) @ [lid])
        (co_session_attachments s)\<rparr>"

definition new_lease ::
  "string \<Rightarrow> OwnerContext \<Rightarrow> TypedResourceKey \<Rightarrow> LeaseAccess \<Rightarrow> string \<Rightarrow> nat \<Rightarrow> nat \<Rightarrow> nat \<Rightarrow> nat \<Rightarrow> ResourceLease" where
  "new_lease lid w k acc scope gen fence now ttl =
     \<lparr> rl_lease_id = lid, rl_resource = k\<lparr>rk_generation := gen\<rparr>, rl_owner_work_id = ow_work_id w,
       rl_owner_run_id = ow_run_id w, rl_actor_binding_id = ow_binding_id w,
       rl_session_scope = ow_session_id w, rl_access = acc, rl_resource_generation = gen,
       rl_fence = fence, rl_scope_fingerprint = scope, rl_state = LsActive, rl_issued_at_ms = now,
       rl_expires_at_ms = u64_add now ttl, rl_last_heartbeat_ms = now \<rparr>"

definition acquired_fact ::
  "string \<Rightarrow> OwnerContext \<Rightarrow> TypedResourceKey \<Rightarrow> LeaseAccess \<Rightarrow> string \<Rightarrow> nat \<Rightarrow> nat \<Rightarrow> nat \<Rightarrow> LeaseLifecycleFact" where
  "acquired_fact lid w k acc scope gen fence now =
     with_acquire_context acc w k scope
       (with_detail (''access='' @ access_as_str acc @ '' fence='' @ show_nat fence @ '' generation='' @ show_nat gen)
         (fact_new lid LEASE_EVENT_ACQUIRED fence gen now))"

text \<open>The argument checks of \<open>acquire\<close> that precede every write.\<close>

definition acquire_request_error ::
  "OwnerContext \<Rightarrow> TypedResourceKey \<Rightarrow> string \<Rightarrow> nat \<Rightarrow> nat \<Rightarrow> LeaseError option" where
  "acquire_request_error w k scope observed ttl =
     (case owner_validate w of
        Inl e \<Rightarrow> Some (LeInvalidRequest e)
      | Inr _ \<Rightarrow>
          (case key_validate k of
             Inl e \<Rightarrow> Some (LeInvalidRequest e)
           | Inr _ \<Rightarrow>
               if scope = [] then Some (LeInvalidRequest ''scope_fingerprint must not be empty'')
               else if ttl = 0 then Some (LeInvalidRequest ''lease lifetime must be bounded and non-zero'')
               else if observed \<noteq> rk_generation k
               then Some (LeInvalidRequest (''observed generation '' @ show_nat observed @
                      '' disagrees with resource generation '' @ show_nat (rk_generation k)))
               else None))"

text \<open>The next fence of an admission: exclusive holders advance it, observers share it.\<close>

definition admission_fence :: "Coordinator \<Rightarrow> string \<Rightarrow> LeaseAccess \<Rightarrow> nat" where
  "admission_fence s canon acc =
     (if is_exclusive acc then fence_of s canon + 1
      else if fence_of s canon = 0 then 1
      else fence_of s canon)"

text \<open>Admission proper, after the generation was found current: conflict check, fence, ids, the two
  validations (which come after the fence and the counters were written), then the record.\<close>

definition acquire_admit ::
  "(LeaseLifecycleFact \<Rightarrow> string) \<Rightarrow> string \<Rightarrow> OwnerContext \<Rightarrow> TypedResourceKey \<Rightarrow> LeaseAccess \<Rightarrow> string \<Rightarrow>
   nat \<Rightarrow> nat \<Rightarrow> nat \<Rightarrow> string \<Rightarrow> Coordinator \<Rightarrow> (LeaseError + AcquiredLease) \<times> Coordinator" where
  "acquire_admit fser bytes w k acc scope observed now ttl canon s =
     (case find (\<lambda>h. \<not> compatible_with acc (rl_access (lr_lease h))) (live_holders s canon now) of
        Some blocker \<Rightarrow> (Inl (LeConflict canon (access_as_str acc) (rl_lease_id (lr_lease blocker))), s)
      | None \<Rightarrow>
          let fence = admission_fence s canon acc;
              s1 = s\<lparr>co_fences := AList.update canon fence (co_fences s)\<rparr>;
              (lid, s2) = mint_lease_id now s1;
              (handle, s3) = mint_handle s2;
              lease = new_lease lid w k acc scope observed fence now ttl
          in (case lease_validate lease of
                Inl e \<Rightarrow> (Inl (LeInvalidRequest e), s3)
              | Inr _ \<Rightarrow>
                  let fct = acquired_fact lid w (rl_resource lease) acc scope observed fence now
                  in (case fact_validate fser fct of
                        Inl e \<Rightarrow> (Inl (LeInvalidRequest e), s3)
                      | Inr _ \<Rightarrow>
                          let b = bearer_generate bytes;
                              s4 = s3\<lparr>co_handle_index := AList.update handle lid (co_handle_index s3)\<rparr>;
                              s5 = push_attachment (ow_session_id w) lid s4;
                              rec = \<lparr> lr_lease = lease, lr_bearer = b, lr_holder_live = True, lr_ttl_ms = ttl \<rparr>;
                              s6 = s5\<lparr>co_leases := AList.update lid rec (co_leases s5)\<rparr>
                          in (Inr \<lparr> al_handle = handle, al_bearer = b, al_attachment = attachment lease, al_fact = fct \<rparr>,
                              s6))))"

definition acquire ::
  "(LeaseLifecycleFact \<Rightarrow> string) \<Rightarrow> string \<Rightarrow> OwnerContext \<Rightarrow> TypedResourceKey \<Rightarrow> LeaseAccess \<Rightarrow> string \<Rightarrow>
   nat \<Rightarrow> nat \<Rightarrow> nat \<Rightarrow> Coordinator \<Rightarrow> (LeaseError + AcquiredLease) \<times> Coordinator" where
  "acquire fser bytes w k acc scope observed now ttl s =
     (case acquire_request_error w k scope observed ttl of
        Some e \<Rightarrow> (Inl e, s)
      | None \<Rightarrow>
          let canon = canonical_key k in
          (case lookup (co_generations s) canon of
             Some current \<Rightarrow>
               if current \<noteq> observed then (Inl (LeStaleResource canon observed current), s)
               else acquire_admit fser bytes w k acc scope observed now ttl canon s
           | None \<Rightarrow>
               acquire_admit fser bytes w k acc scope observed now ttl canon
                 (s\<lparr>co_generations := AList.update canon observed (co_generations s)\<rparr>)))"

section \<open>Exercise\<close>

definition put_record :: "string \<Rightarrow> LeaseRecord \<Rightarrow> Coordinator \<Rightarrow> Coordinator" where
  "put_record lid r s = s\<lparr>co_leases := AList.update lid r (co_leases s)\<rparr>"

text \<open>Resolution of \<open>(handle, bearer)\<close> shared by \<open>record_mut\<close> and \<open>validate_exercise\<close>: the record with
  the id it is stored under.\<close>

definition record_mut :: "nat \<Rightarrow> bearer \<Rightarrow> Coordinator \<Rightarrow> LeaseError + (string \<times> LeaseRecord)" where
  "record_mut handle b s =
     (case lookup (co_handle_index s) handle of
        None \<Rightarrow> Inl LeUnknownHandle
      | Some lid \<Rightarrow>
          (case lookup (co_leases s) lid of
             None \<Rightarrow> Inl (LeUnknownLease lid)
           | Some r \<Rightarrow>
               if \<not> bearer_matches (lr_bearer r) b
               then Inl (LeBearerMismatch (rl_lease_id (lr_lease r)))
               else Inr (lid, r)))"

definition generation_or :: "Coordinator \<Rightarrow> string \<Rightarrow> nat \<Rightarrow> nat" where
  "generation_or s canon d = (case lookup (co_generations s) canon of None \<Rightarrow> d | Some g \<Rightarrow> g)"

definition check_exercisable ::
  "Coordinator \<Rightarrow> LeaseRecord \<Rightarrow> string \<Rightarrow> nat \<Rightarrow> nat \<Rightarrow> LeaseError + unit" where
  "check_exercisable s r binding observed now =
     (let l = lr_lease r; lid = rl_lease_id l; canon = record_key r; cur = fence_of s canon;
          cur_gen = generation_or s canon observed in
      if rl_fence l \<noteq> cur then Inl (LeStaleLease lid (rl_fence l) cur)
      else if \<not> is_live_state (rl_state l) then
        (if rl_state l = LsExpired then Inl (LeExpired lid)
         else Inl (LeNotActive lid (lease_state_str (rl_state l))))
      else if rl_expires_at_ms l < now then Inl (LeExpired lid)
      else if \<not> lr_holder_live r then Inl (LeHolderNotLive lid)
      else if rl_actor_binding_id l \<noteq> binding then Inl (LeWrongBinding lid)
      else if observed \<noteq> rl_resource_generation l \<or> observed \<noteq> cur_gen
      then Inl (LeStaleResource canon observed cur_gen)
      else Inr ())"

definition validate_exercise ::
  "Coordinator \<Rightarrow> nat \<Rightarrow> bearer \<Rightarrow> string \<Rightarrow> nat \<Rightarrow> nat \<Rightarrow> LeaseError + LeaseAttachment" where
  "validate_exercise s handle b binding observed now =
     (case lookup (co_handle_index s) handle of
        None \<Rightarrow> Inl LeUnknownHandle
      | Some lid \<Rightarrow>
          (case lookup (co_leases s) lid of
             None \<Rightarrow> Inl (LeUnknownLease lid)
           | Some r \<Rightarrow>
               if \<not> bearer_matches (lr_bearer r) b then Inl (LeBearerMismatch lid)
               else (case check_exercisable s r binding observed now of
                   Inl e \<Rightarrow> Inl e
                 | Inr _ \<Rightarrow> Inr (attachment (lr_lease r)))))"

definition renew ::
  "(LeaseLifecycleFact \<Rightarrow> string) \<Rightarrow> nat \<Rightarrow> bearer \<Rightarrow> nat \<Rightarrow> nat \<Rightarrow> Coordinator \<Rightarrow>
   (LeaseError + LeaseAttachment \<times> LeaseLifecycleFact) \<times> Coordinator" where
  "renew fser handle b observed now s =
     (case lookup (co_handle_index s) handle of
        None \<Rightarrow> (Inl LeUnknownHandle, s)
      | Some lid \<Rightarrow>
          (case lookup (co_leases s) lid of
             None \<Rightarrow> (Inl (LeUnknownLease lid), s)
           | Some r \<Rightarrow>
               let l = lr_lease r; canon = record_key r; cur_gen = generation_or s canon observed;
                   cur = fence_of s canon in
               if \<not> bearer_matches (lr_bearer r) b then (Inl (LeBearerMismatch lid), s)
               else if \<not> is_live_state (rl_state l) then
                 (if rl_state l = LsExpired then (Inl (LeExpired lid), s)
                  else (Inl (LeNotActive lid (lease_state_str (rl_state l))), s))
               else if rl_expires_at_ms l < now then (Inl (LeExpired lid), s)
               else if \<not> lr_holder_live r then (Inl (LeHolderNotLive lid), s)
               else if observed \<noteq> rl_resource_generation l \<or> observed \<noteq> cur_gen
               then (Inl (LeStaleResource canon observed cur_gen), s)
               else if rl_fence l \<noteq> cur then (Inl (LeStaleLease lid (rl_fence l) cur), s)
               else
                 let l' = l\<lparr>rl_expires_at_ms := u64_add now (lr_ttl_ms r), rl_last_heartbeat_ms := now\<rparr>;
                     s' = put_record lid (r\<lparr>lr_lease := l'\<rparr>) s;
                     fct = fact_new (rl_lease_id l') LEASE_EVENT_RENEWED (rl_fence l') observed now
                 in (case fact_validate fser fct of
                       Inl e \<Rightarrow> (Inl (LeInvalidRequest e), s')
                     | Inr _ \<Rightarrow> (Inr (attachment l', fct), s'))))"

definition heartbeat ::
  "nat \<Rightarrow> bearer \<Rightarrow> nat \<Rightarrow> Coordinator \<Rightarrow> (LeaseError + LeaseAttachment) \<times> Coordinator" where
  "heartbeat handle b now s =
     (case record_mut handle b s of
        Inl e \<Rightarrow> (Inl e, s)
      | Inr (lid, r) \<Rightarrow>
          if \<not> is_live_state (rl_state (lr_lease r))
          then (Inl (LeNotActive (rl_lease_id (lr_lease r)) (lease_state_str (rl_state (lr_lease r)))), s)
          else
            let l' = (lr_lease r)\<lparr>rl_last_heartbeat_ms := now\<rparr>
            in (Inr (attachment l'), put_record lid (r\<lparr>lr_lease := l'\<rparr>) s))"

definition release ::
  "(LeaseLifecycleFact \<Rightarrow> string) \<Rightarrow> nat \<Rightarrow> bearer \<Rightarrow> nat \<Rightarrow> Coordinator \<Rightarrow>
   (LeaseError + LeaseLifecycleFact) \<times> Coordinator" where
  "release fser handle b now s =
     (case record_mut handle b s of
        Inl e \<Rightarrow> (Inl e, s)
      | Inr (lid, r) \<Rightarrow>
          if \<not> is_live_state (rl_state (lr_lease r))
          then (Inl (LeNotActive (rl_lease_id (lr_lease r)) (lease_state_str (rl_state (lr_lease r)))), s)
          else
            let l' = (lr_lease r)\<lparr>rl_state := LsReleased\<rparr>;
                s' = put_record lid (r\<lparr>lr_lease := l', lr_holder_live := False\<rparr>) s;
                fct = fact_new (rl_lease_id l') LEASE_EVENT_RELEASED (rl_fence l') (rl_resource_generation l') now
            in (case fact_validate fser fct of
                  Inl e \<Rightarrow> (Inl (LeInvalidRequest e), s')
                | Inr _ \<Rightarrow> (Inr fct, s')))"

section \<open>Revocation and takeover\<close>

definition bump_fence :: "string \<Rightarrow> Coordinator \<Rightarrow> nat \<times> Coordinator" where
  "bump_fence canon s =
     (let nx = fence_of s canon + 1 in (nx, s\<lparr>co_fences := AList.update canon nx (co_fences s)\<rparr>))"

definition revoke ::
  "(LeaseLifecycleFact \<Rightarrow> string) \<Rightarrow> string \<Rightarrow> string \<Rightarrow> nat \<Rightarrow> Coordinator \<Rightarrow>
   (LeaseError + LeaseLifecycleFact) \<times> Coordinator" where
  "revoke fser lid detail now s =
     (case lookup (co_leases s) lid of
        None \<Rightarrow> (Inl (LeUnknownLease lid), s)
      | Some r \<Rightarrow>
          if \<not> can_transition (rl_state (lr_lease r)) LsRevoked
          then (Inl (LeNotActive lid (lease_state_str (rl_state (lr_lease r)))), s)
          else
            let r' = r\<lparr>lr_lease := (lr_lease r)\<lparr>rl_state := LsRevoked\<rparr>, lr_holder_live := False\<rparr>;
                s1 = put_record lid r' s;
                (fence, s2) = bump_fence (record_key r') s1;
                fct = with_detail detail
                  (fact_new lid LEASE_EVENT_REVOKED fence (rl_resource_generation (lr_lease r')) now)
            in (case fact_validate fser fct of
                  Inl e \<Rightarrow> (Inl (LeInvalidRequest e), s2)
                | Inr _ \<Rightarrow> (Inr fct, s2)))"

text \<open>Revocation of a list of leases: \<open>takeover\<close> stops at the first error, \<open>retire_resource\<close> and
  \<open>invalidate_scope_fingerprint\<close> skip failures.\<close>

fun revoke_all ::
  "(LeaseLifecycleFact \<Rightarrow> string) \<Rightarrow> string \<Rightarrow> nat \<Rightarrow> string list \<Rightarrow> Coordinator \<Rightarrow>
   (LeaseError + LeaseLifecycleFact list) \<times> Coordinator" where
  "revoke_all fser detail now [] s = (Inr [], s)"
| "revoke_all fser detail now (lid # ids) s =
     (let (r, s1) = revoke fser lid detail now s in
      case r of
        Inl e \<Rightarrow> (Inl e, s1)
      | Inr fct \<Rightarrow>
          let (rs, s2) = revoke_all fser detail now ids s1
          in (case rs of Inl e \<Rightarrow> (Inl e, s2) | Inr facts \<Rightarrow> (Inr (fct # facts), s2)))"

fun revoke_each ::
  "(LeaseLifecycleFact \<Rightarrow> string) \<Rightarrow> string \<Rightarrow> nat \<Rightarrow> string list \<Rightarrow> Coordinator \<Rightarrow>
   LeaseLifecycleFact list \<times> Coordinator" where
  "revoke_each fser detail now [] s = ([], s)"
| "revoke_each fser detail now (lid # ids) s =
     (let (r, s1) = revoke fser lid detail now s;
          (facts, s2) = revoke_each fser detail now ids s1
      in ((case r of Inl _ \<Rightarrow> facts | Inr fct \<Rightarrow> fct # facts), s2))"

definition takeover ::
  "(LeaseLifecycleFact \<Rightarrow> string) \<Rightarrow> string \<Rightarrow> OwnerContext \<Rightarrow> TypedResourceKey \<Rightarrow> LeaseAccess \<Rightarrow> string \<Rightarrow>
   nat \<Rightarrow> nat \<Rightarrow> nat \<Rightarrow> Coordinator \<Rightarrow> (LeaseError + TakeoverOutcome) \<times> Coordinator" where
  "takeover fser bytes w k acc scope observed now ttl s =
     (case owner_validate w of
        Inl e \<Rightarrow> (Inl (LeInvalidRequest e), s)
      | Inr _ \<Rightarrow>
          let canon = canonical_key k;
              live_ids = map (\<lambda>h. rl_lease_id (lr_lease h))
                (filter (\<lambda>h. \<not> compatible_with acc (rl_access (lr_lease h))) (live_holders s canon now));
              (r, s1) = revoke_all fser ''takeover: fence advanced before replacement'' now live_ids s
          in (case r of
                Inl e \<Rightarrow> (Inl e, s1)
              | Inr facts \<Rightarrow>
                  let (a, s2) = acquire fser bytes w k acc scope observed now ttl s1
                  in (case a of
                        Inl e \<Rightarrow> (Inl e, s2)
                      | Inr acq \<Rightarrow>
                          (Inr \<lparr> to_handle = al_handle acq, to_bearer = al_bearer acq,
                                 to_attachment = al_attachment acq, to_facts = facts @ [al_fact acq] \<rparr>, s2))))"

section \<open>Expiry, bindings, restarts\<close>

text \<open>One iteration of \<open>sweep_expired\<close>: the fact joins the list only when it validates.\<close>

definition expire_one ::
  "(LeaseLifecycleFact \<Rightarrow> string) \<Rightarrow> nat \<Rightarrow> string \<Rightarrow> LeaseLifecycleFact list \<times> Coordinator \<Rightarrow>
   LeaseLifecycleFact list \<times> Coordinator" where
  "expire_one fser now lid st =
     (let (facts, s) = st in
      case lookup (co_leases s) lid of
        None \<Rightarrow> (facts, s)
      | Some r \<Rightarrow>
          let r' = r\<lparr>lr_lease := (lr_lease r)\<lparr>rl_state := LsExpired\<rparr>, lr_holder_live := False\<rparr>;
              s' = put_record lid r' s;
              fct = fact_new lid LEASE_EVENT_EXPIRED (rl_fence (lr_lease r')) (rl_resource_generation (lr_lease r')) now
          in (case fact_validate fser fct of Inl _ \<Rightarrow> (facts, s') | Inr _ \<Rightarrow> (facts @ [fct], s')))"

definition sweep_expired ::
  "(LeaseLifecycleFact \<Rightarrow> string) \<Rightarrow> nat \<Rightarrow> Coordinator \<Rightarrow> LeaseLifecycleFact list \<times> Coordinator" where
  "sweep_expired fser now s =
     (let due = map (\<lambda>r. rl_lease_id (lr_lease r))
        (filter (\<lambda>r. rl_state (lr_lease r) = LsActive \<and> rl_expires_at_ms (lr_lease r) < now) (map snd (co_leases s)))
      in fold (expire_one fser now) due ([], s))"

definition revalidate_actor_binding ::
  "(LeaseLifecycleFact \<Rightarrow> string) \<Rightarrow> string \<Rightarrow> string \<Rightarrow> string \<Rightarrow> nat \<Rightarrow> nat \<Rightarrow> Coordinator \<Rightarrow>
   (LeaseError + LeaseLifecycleFact) \<times> Coordinator" where
  "revalidate_actor_binding fser lid expected_old new_binding observed now s =
     (case lookup (co_leases s) lid of
        None \<Rightarrow> (Inl (LeUnknownLease lid), s)
      | Some r \<Rightarrow>
          let l = lr_lease r; canon = record_key r; cur_gen = generation_or s canon observed in
          if \<not> is_live_state (rl_state l)
          then (Inl (LeNotActive lid (lease_state_str (rl_state l))), s)
          else if rl_actor_binding_id l \<noteq> expected_old then (Inl (LeWrongBinding lid), s)
          else if new_binding = [] then (Inl (LeInvalidRequest ''new actor binding must not be empty''), s)
          else if observed \<noteq> rl_resource_generation l \<or> observed \<noteq> cur_gen
          then (Inl (LeStaleResource canon observed cur_gen), s)
          else
            let l' = l\<lparr>rl_actor_binding_id := new_binding, rl_last_heartbeat_ms := now\<rparr>;
                s' = put_record lid (r\<lparr>lr_lease := l'\<rparr>) s;
                fct = with_detail (''actor='' @ expected_old @ ''->'' @ new_binding)
                  (fact_new lid LEASE_EVENT_ACTOR_REVALIDATED (rl_fence l') observed now)
            in (case fact_validate fser fct of
                  Inl e \<Rightarrow> (Inl (LeInvalidRequest e), s')
                | Inr _ \<Rightarrow> (Inr fct, s')))"

definition restart_one ::
  "(LeaseLifecycleFact \<Rightarrow> string) \<Rightarrow> nat \<Rightarrow> nat \<Rightarrow> string \<Rightarrow> LeaseLifecycleFact list \<times> Coordinator \<Rightarrow>
   LeaseLifecycleFact list \<times> Coordinator" where
  "restart_one fser nx now lid st =
     (let (facts, s) = st in
      case lookup (co_leases s) lid of
        None \<Rightarrow> (facts, s)
      | Some r \<Rightarrow>
          let r' = r\<lparr>lr_lease := (lr_lease r)\<lparr>rl_state := LsUncertain\<rparr>, lr_holder_live := False\<rparr>;
              s1 = put_record lid r' s;
              (fence, s2) = bump_fence (record_key r') s1;
              fct = with_detail (''provider_handle_generation='' @ show_nat nx @ '' restarted'')
                (fact_new lid LEASE_EVENT_UNCERTAIN fence (rl_resource_generation (lr_lease r')) now)
          in (case fact_validate fser fct of Inl _ \<Rightarrow> (facts, s2) | Inr _ \<Rightarrow> (facts @ [fct], s2)))"

definition note_provider_restart ::
  "(LeaseLifecycleFact \<Rightarrow> string) \<Rightarrow> string \<Rightarrow> nat \<Rightarrow> Coordinator \<Rightarrow> LeaseLifecycleFact list \<times> Coordinator" where
  "note_provider_restart fser binding now s =
     (let nx = provider_generation s binding + 1;
          s1 = s\<lparr>co_provider_generations := AList.update binding nx (co_provider_generations s)\<rparr>;
          affected = map (\<lambda>r. rl_lease_id (lr_lease r))
            (filter (\<lambda>r. rl_actor_binding_id (lr_lease r) = binding \<and>
                rk_kind (rl_resource (lr_lease r)) = RkProviderHandle \<and> rl_state (lr_lease r) = LsActive)
              (map snd (co_leases s1)))
      in fold (restart_one fser nx now) affected ([], s1))"

definition retire_resource ::
  "(LeaseLifecycleFact \<Rightarrow> string) \<Rightarrow> TypedResourceKey \<Rightarrow> string \<Rightarrow> nat \<Rightarrow> Coordinator \<Rightarrow>
   LeaseLifecycleFact list \<times> Coordinator" where
  "retire_resource fser k detail now s =
     (let canon = canonical_key k;
          affected = map (\<lambda>r. rl_lease_id (lr_lease r))
            (filter (\<lambda>r. record_key r = canon \<and> \<not> is_terminal (rl_state (lr_lease r))) (map snd (co_leases s)))
      in revoke_each fser detail now affected s)"

definition invalidate_scope_fingerprint ::
  "(LeaseLifecycleFact \<Rightarrow> string) \<Rightarrow> string \<Rightarrow> nat \<Rightarrow> Coordinator \<Rightarrow> LeaseLifecycleFact list \<times> Coordinator" where
  "invalidate_scope_fingerprint fser scope now s =
     (let affected = map (\<lambda>r. rl_lease_id (lr_lease r))
            (filter (\<lambda>r. rl_scope_fingerprint (lr_lease r) = scope \<and> \<not> is_terminal (rl_state (lr_lease r)))
              (map snd (co_leases s)))
      in revoke_each fser ''scope invalidated: logout or config-scope change'' now affected s)"

section \<open>Crash recovery\<close>

definition mark_holder_lost ::
  "(LeaseLifecycleFact \<Rightarrow> string) \<Rightarrow> string \<Rightarrow> nat \<Rightarrow> Coordinator \<Rightarrow>
   (LeaseError + LeaseLifecycleFact) \<times> Coordinator" where
  "mark_holder_lost fser lid now s =
     (case lookup (co_leases s) lid of
        None \<Rightarrow> (Inl (LeUnknownLease lid), s)
      | Some r \<Rightarrow>
          if rl_state (lr_lease r) \<noteq> LsActive
          then (Inl (LeNotActive lid (lease_state_str (rl_state (lr_lease r)))), s)
          else
            let r' = r\<lparr>lr_lease := (lr_lease r)\<lparr>rl_state := LsUncertain\<rparr>, lr_holder_live := False\<rparr>;
                s' = put_record lid r' s;
                fct = with_detail ''holder lost: crash or kill while lease held''
                  (fact_new lid LEASE_EVENT_UNCERTAIN (rl_fence (lr_lease r')) (rl_resource_generation (lr_lease r')) now)
            in (case fact_validate fser fct of
                  Inl e \<Rightarrow> (Inl (LeInvalidRequest e), s')
                | Inr _ \<Rightarrow> (Inr fct, s')))"

definition reconcile ::
  "(LeaseLifecycleFact \<Rightarrow> string) \<Rightarrow> string \<Rightarrow> PostEffectOutcome \<Rightarrow> nat \<Rightarrow> Coordinator \<Rightarrow>
   (LeaseError + ReconcileOutcome) \<times> Coordinator" where
  "reconcile fser lid outcome now s =
     (case lookup (co_leases s) lid of
        None \<Rightarrow> (Inl (LeUnknownLease lid), s)
      | Some r \<Rightarrow>
          (case rl_state (lr_lease r) of
             LsUncertain \<Rightarrow>
               if is_settled outcome then
                 let r' = r\<lparr>lr_lease := (lr_lease r)\<lparr>rl_state := LsReclaimPending\<rparr>\<rparr>;
                     s' = put_record lid r' s;
                     fct = with_detail (''effect outcome='' @ outcome_as_str outcome)
                       (fact_new lid LEASE_EVENT_RECLAIM_PENDING (rl_fence (lr_lease r'))
                          (rl_resource_generation (lr_lease r')) now)
                 in (case fact_validate fser fct of
                       Inl e \<Rightarrow> (Inl (LeInvalidRequest e), s')
                     | Inr _ \<Rightarrow> (Inr (AdvancedToReclaim fct), s'))
               else (Inr StillUncertain, s)
           | LsReclaimPending \<Rightarrow> (Inr StillUncertain, s)
           | st \<Rightarrow> (Inl (LeNotActive lid (lease_state_str st)), s)))"

definition reclaim ::
  "(LeaseLifecycleFact \<Rightarrow> string) \<Rightarrow> string \<Rightarrow> bool \<Rightarrow> bool \<Rightarrow> nat \<Rightarrow> Coordinator \<Rightarrow>
   (LeaseError + LeaseLifecycleFact) \<times> Coordinator" where
  "reclaim fser lid process_dead no_live_effect now s =
     (case lookup (co_leases s) lid of
        None \<Rightarrow> (Inl (LeUnknownLease lid), s)
      | Some r \<Rightarrow>
          if rl_state (lr_lease r) \<noteq> LsReclaimPending then (Inl (LeMustReconcileFirst lid), s)
          else if \<not> process_dead \<or> \<not> no_live_effect then (Inl (LeHolderMayBeLive lid), s)
          else
            let r' = r\<lparr>lr_lease := (lr_lease r)\<lparr>rl_state := LsReclaimed\<rparr>\<rparr>;
                s1 = put_record lid r' s;
                (fence, s2) = bump_fence (record_key r') s1;
                fct = with_detail ''reclaimed after verified holder death and no live effect''
                  (fact_new lid LEASE_EVENT_RECLAIMED fence (rl_resource_generation (lr_lease r')) now)
            in (case fact_validate fser fct of
                  Inl e \<Rightarrow> (Inl (LeInvalidRequest e), s2)
                | Inr _ \<Rightarrow> (Inr fct, s2)))"

section \<open>Replay\<close>

definition raise_fence :: "string \<Rightarrow> nat \<Rightarrow> Coordinator \<Rightarrow> Coordinator" where
  "raise_fence canon fence s =
     (if fence_of s canon < fence then s\<lparr>co_fences := AList.update canon fence (co_fences s)\<rparr> else s)"

definition apply_known ::
  "LeaseLifecycleFact \<Rightarrow> LeaseState \<Rightarrow> LeaseRecord \<Rightarrow> Coordinator \<Rightarrow> (LeaseError + bool) \<times> Coordinator" where
  "apply_known f target r s =
     (let lid = lf_lease_id f; l = lr_lease r; canon = record_key r; cur = fence_of s canon in
      if lf_fence f < cur then (Inl (LeStaleFact lid (lf_fence f) cur), s)
      else if rl_state l = target \<and> rl_fence l = lf_fence f then (Inr False, s)
      else if \<not> can_transition (rl_state l) target
      then (Inl (LeInvalidRequest (''illegal replay transition '' @ lease_state_str (rl_state l) @ '' -> '' @
              lease_state_str target)), s)
      else
        let r' = r\<lparr>lr_lease := l\<lparr>rl_state := target, rl_fence := lf_fence f\<rparr>,
                   lr_holder_live := (if target \<noteq> LsActive then False else lr_holder_live r)\<rparr>
        in (Inr True, raise_fence canon (lf_fence f) (put_record lid r' s)))"

definition replayed_record ::
  "LeaseLifecycleFact \<Rightarrow> OwnerContext \<Rightarrow> TypedResourceKey \<Rightarrow> LeaseAccess \<Rightarrow> LeaseState \<Rightarrow> bool \<Rightarrow> string \<Rightarrow> LeaseRecord" where
  "replayed_record f w k acc target recovery bytes =
     \<lparr> lr_lease =
         \<lparr> rl_lease_id = lf_lease_id f, rl_resource = k\<lparr>rk_generation := lf_generation f\<rparr>,
           rl_owner_work_id = ow_work_id w, rl_owner_run_id = ow_run_id w,
           rl_actor_binding_id = ow_binding_id w, rl_session_scope = ow_session_id w, rl_access = acc,
           rl_resource_generation = lf_generation f, rl_fence = lf_fence f,
           rl_scope_fingerprint = (case lf_scope_fingerprint f of None \<Rightarrow> [] | Some x \<Rightarrow> x),
           rl_state = (if recovery \<and> target = LsActive then LsUncertain else target),
           rl_issued_at_ms = lf_at_ms f, rl_expires_at_ms = u64_add (lf_at_ms f) 1,
           rl_last_heartbeat_ms = lf_at_ms f \<rparr>,
       lr_bearer = bearer_generate bytes, lr_holder_live = False, lr_ttl_ms = 1 \<rparr>"

definition apply_unknown ::
  "LeaseLifecycleFact \<Rightarrow> LeaseState \<Rightarrow> bool \<Rightarrow> string \<Rightarrow> Coordinator \<Rightarrow> (LeaseError + bool) \<times> Coordinator" where
  "apply_unknown f target recovery bytes s =
     (let lid = lf_lease_id f in
      if lf_kind f \<noteq> LEASE_EVENT_ACQUIRED then (Inl (LeUnknownLease lid), s)
      else case lf_owner f of
        None \<Rightarrow> (Inl (LeInvalidRequest (''acquire fact for unknown lease `'' @ lid @ ''` lacks owner context'')), s)
      | Some w \<Rightarrow>
          (case lf_resource f of
             None \<Rightarrow> (Inl (LeInvalidRequest (''acquire fact for unknown lease `'' @ lid @ ''` lacks resource identity'')), s)
           | Some k \<Rightarrow>
               (case lf_access f of
                  None \<Rightarrow> (Inl (LeInvalidRequest (''acquire fact for unknown lease `'' @ lid @ ''` lacks access class'')), s)
                | Some acc \<Rightarrow>
                    (case owner_validate w of
                       Inl e \<Rightarrow> (Inl (LeInvalidRequest e), s)
                     | Inr _ \<Rightarrow>
                         (case key_validate k of
                            Inl e \<Rightarrow> (Inl (LeInvalidRequest e), s)
                          | Inr _ \<Rightarrow>
                              let canon = canonical_key k;
                                  s1 = (case lookup (co_generations s) canon of
                                          None \<Rightarrow> s\<lparr>co_generations := AList.update canon (lf_generation f) (co_generations s)\<rparr>
                                        | Some _ \<Rightarrow> s);
                                  s2 = raise_fence canon (lf_fence f) s1;
                                  s3 = push_attachment (ow_session_id w) lid s2
                              in (Inr True, put_record lid (replayed_record f w k acc target recovery bytes) s3))))))"

definition apply_fact ::
  "(LeaseLifecycleFact \<Rightarrow> string) \<Rightarrow> string \<Rightarrow> LeaseLifecycleFact \<Rightarrow> bool \<Rightarrow> Coordinator \<Rightarrow>
   (LeaseError + bool) \<times> Coordinator" where
  "apply_fact fser bytes f recovery s =
     (case fact_validate fser f of
        Inl e \<Rightarrow> (Inl (LeInvalidRequest e), s)
      | Inr _ \<Rightarrow>
          (case records_state f of
             None \<Rightarrow> (Inl (LeInvalidRequest (''fact kind `'' @ lf_kind f @ ''` records no state'')), s)
           | Some target \<Rightarrow>
               (case lookup (co_leases s) (lf_lease_id f) of
                  Some r \<Rightarrow> apply_known f target r s
                | None \<Rightarrow> apply_unknown f target recovery bytes s)))"

record 'v EventEnvelope =
  ev_event_id :: string
  ev_seq :: nat
  ev_work_id :: string
  ev_run_id :: "string option"
  ev_step_id :: "string option"
  ev_kind :: string
  ev_payload :: 'v
  ev_at_ms :: nat
  ev_schema_version :: nat

text \<open>One iteration of the rebuild loop; \<open>bytes\<close> supplies the random bearer of a rebuilt lease.\<close>

definition rebuild_one ::
  "'v json_api \<Rightarrow> (LeaseLifecycleFact \<Rightarrow> string) \<Rightarrow> (nat \<Rightarrow> string) \<Rightarrow> bool \<Rightarrow> 'v EventEnvelope \<Rightarrow>
   RebuildReport \<times> Coordinator \<Rightarrow> RebuildReport \<times> Coordinator" where
  "rebuild_one j fser bytes recovery e st =
     (let (rep, s) = st; rep1 = rep\<lparr>rr_cursor := max (rr_cursor rep) (ev_seq e)\<rparr> in
      case from_envelope j (ev_kind e) (ev_payload e) of
        None \<Rightarrow> (rep1\<lparr>rr_skipped := rr_skipped rep1 + 1\<rparr>, s)
      | Some f \<Rightarrow>
          let (r, s') = apply_fact fser (bytes (ev_seq e)) f recovery s
          in (case r of
                Inr _ \<Rightarrow> (rep1\<lparr>rr_applied := rr_applied rep1 + 1\<rparr>, s')
              | Inl _ \<Rightarrow> (rep1\<lparr>rr_skipped := rr_skipped rep1 + 1\<rparr>, s')))"

definition rebuild_from_envelopes ::
  "'v json_api \<Rightarrow> (LeaseLifecycleFact \<Rightarrow> string) \<Rightarrow> (nat \<Rightarrow> string) \<Rightarrow> 'v EventEnvelope list \<Rightarrow> nat \<Rightarrow> bool \<Rightarrow>
   Coordinator \<Rightarrow> RebuildReport \<times> Coordinator" where
  "rebuild_from_envelopes j fser bytes envelopes cursor recovery s =
     fold (rebuild_one j fser bytes recovery)
       (sort_key ev_seq (filter (\<lambda>e. cursor < ev_seq e) envelopes))
       (\<lparr> rr_cursor = cursor, rr_applied = 0, rr_skipped = 0 \<rparr>, s)"

definition detach_session :: "string \<Rightarrow> Coordinator \<Rightarrow> nat \<times> Coordinator" where
  "detach_session sid s =
     (case lookup (co_session_attachments s) sid of
        None \<Rightarrow> (0, s)
      | Some ids \<Rightarrow> (length ids, s\<lparr>co_session_attachments := AList.delete sid (co_session_attachments s)\<rparr>))"

end
