(* ===== verification/Lease_Laws.thy ===== *)
theory Lease_Laws
  imports Lease_Coordinator Traces
begin

text \<open>
  What every operation of the lease coordinator does to its records, stated once: each operation is a
  sequence of primitive moves (\<open>prim\<close>) at its time, and every invariant is proved for the primitive
  moves only. The alphabet \<open>LeaseOp\<close> has one letter per state-changing method; the interpretations at
  the end give the laws for every sequence of calls.
\<close>

section \<open>Well-formed coordinators\<close>

definition lease_id_of :: "nat \<Rightarrow> nat \<Rightarrow> string" where
  "lease_id_of now seq = ''lease-'' @ show_nat now @ ''-'' @ show_nat seq"

text \<open>Records are stored under their own id, only active records have a live holder, fences are
  positive and never ahead of their resource's fence.\<close>

definition record_ok :: "Coordinator \<Rightarrow> string \<Rightarrow> LeaseRecord \<Rightarrow> bool" where
  "record_ok s lid r \<longleftrightarrow>
     rl_lease_id (lr_lease r) = lid \<and>
     (lr_holder_live r \<longrightarrow> rl_state (lr_lease r) = LsActive) \<and>
     0 < rl_fence (lr_lease r) \<and> rl_fence (lr_lease r) \<le> fence_of s (record_key r)"

text \<open>Issued handles are below the counter and resolve to an id this coordinator minted.\<close>

definition handle_ok :: "Coordinator \<Rightarrow> nat \<Rightarrow> string \<Rightarrow> bool" where
  "handle_ok s h lid \<longleftrightarrow>
     h < co_next_handle s \<and> lookup (co_leases s) lid \<noteq> None \<and>
     (\<exists>t n. n < co_next_lease_seq s \<and> lid = lease_id_of t n)"

definition lease_wf :: "Coordinator \<Rightarrow> bool" where
  "lease_wf s \<longleftrightarrow>
     wf_map (co_leases s) \<and>
     (\<forall>lid r. lookup (co_leases s) lid = Some r \<longrightarrow> record_ok s lid r) \<and>
     (\<forall>h lid. lookup (co_handle_index s) h = Some lid \<longrightarrow> handle_ok s h lid)"

text \<open>How one existing record may change at time \<open>now\<close>.\<close>

definition record_change :: "nat \<Rightarrow> LeaseRecord \<Rightarrow> LeaseRecord \<Rightarrow> bool" where
  "record_change now r r' \<longleftrightarrow>
     record_key r' = record_key r \<and>
     rl_lease_id (lr_lease r') = rl_lease_id (lr_lease r) \<and>
     rl_access (lr_lease r') = rl_access (lr_lease r) \<and>
     lr_bearer r' = lr_bearer r \<and>
     (lr_holder_live r' \<longrightarrow> lr_holder_live r \<and> rl_state (lr_lease r') = LsActive) \<and>
     (rl_expires_at_ms (lr_lease r') = rl_expires_at_ms (lr_lease r) \<or> live_at now r) \<and>
     (is_terminal (rl_state (lr_lease r)) \<longrightarrow> rl_state (lr_lease r') = rl_state (lr_lease r))"

definition fences_grow :: "Coordinator \<Rightarrow> Coordinator \<Rightarrow> bool" where
  "fences_grow s s' \<longleftrightarrow> (\<forall>c. fence_of s c \<le> fence_of s' c)"

inductive prim :: "nat \<Rightarrow> Coordinator \<Rightarrow> Coordinator \<Rightarrow> bool" for now :: nat where
  p_index: "co_leases s' = co_leases s \<Longrightarrow> co_handle_index s' = co_handle_index s \<Longrightarrow>
     co_next_handle s \<le> co_next_handle s' \<Longrightarrow> co_next_lease_seq s \<le> co_next_lease_seq s' \<Longrightarrow>
     fences_grow s s' \<Longrightarrow> prim now s s'"
| p_record: "lookup (co_leases s) lid = Some r \<Longrightarrow> record_change now r r' \<Longrightarrow>
     0 < rl_fence (lr_lease r') \<Longrightarrow> rl_fence (lr_lease r') \<le> fence_of s (record_key r') \<Longrightarrow>
     s' = put_record lid r' s \<Longrightarrow> prim now s s'"
| p_admit: "\<forall>h \<in> set (live_holders s (record_key r) now). compatible_with (rl_access (lr_lease r)) (rl_access (lr_lease h)) \<Longrightarrow>
     lid = lease_id_of now (co_next_lease_seq s) \<Longrightarrow> record_ok s' lid r \<Longrightarrow> fences_grow s s' \<Longrightarrow>
     co_leases s' = AList.update lid r (co_leases s) \<Longrightarrow>
     co_handle_index s' = AList.update (co_next_handle s) lid (co_handle_index s) \<Longrightarrow>
     co_next_handle s' = Suc (co_next_handle s) \<Longrightarrow> co_next_lease_seq s' = Suc (co_next_lease_seq s) \<Longrightarrow>
     prim now s s'"
| p_replay: "lookup (co_leases s) lid = None \<Longrightarrow> \<not> lr_holder_live r \<Longrightarrow> record_ok s' lid r \<Longrightarrow> fences_grow s s' \<Longrightarrow>
     co_leases s' = AList.update lid r (co_leases s) \<Longrightarrow> co_handle_index s' = co_handle_index s \<Longrightarrow>
     co_next_handle s' = co_next_handle s \<Longrightarrow> co_next_lease_seq s' = co_next_lease_seq s \<Longrightarrow>
     prim now s s'"

text \<open>A run of primitive moves at one time.\<close>

abbreviation moves :: "nat \<Rightarrow> Coordinator \<Rightarrow> Coordinator \<Rightarrow> bool" where
  "moves now \<equiv> (prim now)\<^sup>*\<^sup>*"

section \<open>The primitive moves keep the invariants\<close>

lemma fence_of_put_record [simp]: "fence_of (put_record lid r s) c = fence_of s c"
  by (simp add: fence_of_def put_record_def)

lemma put_record_fields [simp]:
  "co_leases (put_record lid r s) = AList.update lid r (co_leases s)"
  "co_handle_index (put_record lid r s) = co_handle_index s"
  "co_next_handle (put_record lid r s) = co_next_handle s"
  "co_next_lease_seq (put_record lid r s) = co_next_lease_seq s"
  "co_generations (put_record lid r s) = co_generations s"
  "co_fences (put_record lid r s) = co_fences s"
  by (simp_all add: put_record_def)

lemma fences_grow_refl [simp]: "fences_grow s s"
  by (simp add: fences_grow_def)

lemma fences_grow_trans: "fences_grow s t \<Longrightarrow> fences_grow t u \<Longrightarrow> fences_grow s u"
  by (auto simp: fences_grow_def intro: order_trans)

lemma prim_fences: "prim now s s' \<Longrightarrow> fences_grow s s'"
  by (induction rule: prim.induct) (auto simp: fences_grow_def)

lemma record_ok_grow: "record_ok s lid r \<Longrightarrow> fences_grow s s' \<Longrightarrow> record_ok s' lid r"
  by (auto simp: record_ok_def fences_grow_def intro: order_trans)

lemma record_change_ok:
  "record_ok s lid r \<Longrightarrow> record_change now r r' \<Longrightarrow> 0 < rl_fence (lr_lease r') \<Longrightarrow>
   rl_fence (lr_lease r') \<le> fence_of s (record_key r') \<Longrightarrow> record_ok s lid r'"
  by (auto simp: record_ok_def record_change_def)

lemma handle_ok_grow:
  "handle_ok s h lid \<Longrightarrow> co_next_handle s \<le> co_next_handle s' \<Longrightarrow> co_next_lease_seq s \<le> co_next_lease_seq s' \<Longrightarrow>
   dom (map_of (co_leases s)) \<subseteq> dom (map_of (co_leases s')) \<Longrightarrow> handle_ok s' h lid"
  unfolding handle_ok_def by (intro conjI; elim conjE exE) (auto intro: order_less_le_trans)

lemma lease_wf_record: "lease_wf s \<Longrightarrow> lookup (co_leases s) lid = Some r \<Longrightarrow> record_ok s lid r"
  by (simp add: lease_wf_def)

lemma lease_wf_handle: "lease_wf s \<Longrightarrow> lookup (co_handle_index s) h = Some lid \<Longrightarrow> handle_ok s h lid"
  by (simp add: lease_wf_def)

lemma lease_wf_put:
  assumes "lease_wf s" "co_leases s' = AList.update lid r (co_leases s)" "record_ok s' lid r" "fences_grow s s'"
    "co_next_handle s \<le> co_next_handle s'" "co_next_lease_seq s \<le> co_next_lease_seq s'"
    "\<And>h i. lookup (co_handle_index s') h = Some i \<Longrightarrow> lookup (co_handle_index s) h = Some i \<or> handle_ok s' h i"
  shows "lease_wf s'"
  unfolding lease_wf_def
proof (intro conjI allI impI)
  show "wf_map (co_leases s')" using assms(1,2) by (simp add: lease_wf_def)
next
  fix i q assume "lookup (co_leases s') i = Some q"
  then show "record_ok s' i q"
    using assms(1-4) by (auto split: if_splits intro: record_ok_grow lease_wf_record)
next
  fix h i assume "lookup (co_handle_index s') h = Some i"
  from assms(7) [OF this] show "handle_ok s' h i"
  proof
    assume "lookup (co_handle_index s) h = Some i"
    then show ?thesis
      using assms by (intro handle_ok_grow [OF lease_wf_handle]) auto
  qed
qed

lemma prim_wf:
  assumes "prim now s s'" "lease_wf s"
  shows "lease_wf s'"
  using assms
proof (induction rule: prim.induct)
  case (p_index s' s)
  then have "record_ok s i q \<Longrightarrow> record_ok s' i q" "handle_ok s h i \<Longrightarrow> handle_ok s' h i" for i q h
    by (auto intro: record_ok_grow elim: handle_ok_grow)
  with p_index show ?case by (simp add: lease_wf_def)
next
  case (p_record s lid r r' s')
  then have "record_ok s lid r'"
    by (auto intro: record_change_ok lease_wf_record)
  then have "record_ok s' lid r'" "fences_grow s s'"
    using p_record by (simp_all add: record_ok_def fences_grow_def)
  then show ?case
    using p_record by (intro lease_wf_put [of s s' lid r']) simp_all
next
  case (p_admit s r lid s')
  have "handle_ok s' (co_next_handle s) lid"
    using p_admit by (auto simp: handle_ok_def)
  with p_admit show ?case
    by (intro lease_wf_put [of s s' lid r]) (auto split: if_splits)
next
  case (p_replay s lid r s')
  then show ?case
    by (intro lease_wf_put [of s s' lid r]) auto
qed

lemma moves_wf: "moves now s s' \<Longrightarrow> lease_wf s \<Longrightarrow> lease_wf s'"
  by (induction rule: rtranclp_induct) (auto intro: prim_wf)

lemma moves_fences: "moves now s s' \<Longrightarrow> fences_grow s s'"
  by (induction rule: rtranclp_induct) (auto intro: prim_fences fences_grow_trans)

subsection \<open>Mutual exclusion\<close>

text \<open>Distinct leases of one resource that are live at \<open>clk\<close> are pairwise compatible.\<close>

definition mutex :: "nat \<Rightarrow> Coordinator \<Rightarrow> bool" where
  "mutex clk s \<longleftrightarrow>
     (\<forall>i j r q. lookup (co_leases s) i = Some r \<longrightarrow> lookup (co_leases s) j = Some q \<longrightarrow> i \<noteq> j \<longrightarrow>
        record_key r = record_key q \<longrightarrow> live_at clk r \<longrightarrow> live_at clk q \<longrightarrow>
        compatible_with (rl_access (lr_lease r)) (rl_access (lr_lease q)))"

lemma live_at_antimono: "live_at t r \<Longrightarrow> clk \<le> t \<Longrightarrow> live_at clk r"
  by (auto simp: live_at_def)

lemma mutex_mono: "mutex clk s \<Longrightarrow> clk \<le> t \<Longrightarrow> mutex t s"
  unfolding mutex_def by (meson live_at_antimono)

lemma record_change_live: "record_change now r r' \<Longrightarrow> record_ok s lid r \<Longrightarrow> live_at now r' \<Longrightarrow> live_at now r"
  by (auto simp: record_change_def live_at_def is_live_state_def record_ok_def)

lemma live_holders_in: "lookup (co_leases s) lid = Some q \<Longrightarrow> live_at now q \<Longrightarrow> q \<in> set (live_holders s (record_key q) now)"
  by (auto simp: live_holders_def dest: map_of_SomeD intro!: rev_image_eqI)

lemma prim_mutex:
  assumes "prim now s s'" "lease_wf s" "mutex now s"
  shows "mutex now s'"
  using assms
proof (induction rule: prim.induct)
  case (p_index s' s)
  then show ?case by (simp add: mutex_def)
next
  case (p_record s lid r r' s')
  have "record_ok s lid r" using p_record by (simp add: lease_wf_def)
  with p_record have old_live: "live_at now r' \<Longrightarrow> live_at now r" "record_key r' = record_key r"
    "rl_access (lr_lease r') = rl_access (lr_lease r)"
    by (auto intro: record_change_live simp: record_change_def)
  show ?case
    using p_record.prems(2) p_record.hyps(1,5) old_live
    unfolding mutex_def by (auto split: if_splits)
next
  case (p_admit s r lid s')
  have adm: "compatible_with (rl_access (lr_lease r)) (rl_access (lr_lease q))"
    if "lookup (co_leases s) j = Some q" "live_at now q" "record_key q = record_key r" for j q
    using live_holders_in [OF that(1,2)] p_admit.hyps(1) that(3) by simp
  show ?case
    using p_admit.prems(2) p_admit.hyps(5) adm compatible_sym
    unfolding mutex_def by (auto split: if_splits)
next
  case (p_replay s lid r s')
  then show ?case
    unfolding mutex_def by (auto simp: live_at_def split: if_splits)
qed

lemma moves_mutex: "moves now s s' \<Longrightarrow> lease_wf s \<Longrightarrow> mutex now s \<Longrightarrow> mutex now s'"
proof (induction rule: rtranclp_induct)
  case (step t u)
  then show ?case by (auto intro: prim_mutex moves_wf)
qed

subsection \<open>Custody and terminal states\<close>

text \<open>A handle that resolves to a lease whose holder is gone.\<close>

definition dead_handle :: "nat \<Rightarrow> Coordinator \<Rightarrow> bool" where
  "dead_handle h s \<longleftrightarrow>
     (\<exists>lid r. lookup (co_handle_index s) h = Some lid \<and> lookup (co_leases s) lid = Some r \<and> \<not> lr_holder_live r)"

definition terminal_handle :: "nat \<Rightarrow> LeaseState \<Rightarrow> Coordinator \<Rightarrow> bool" where
  "terminal_handle h st s \<longleftrightarrow>
     (\<exists>lid r. lookup (co_handle_index s) h = Some lid \<and> lookup (co_leases s) lid = Some r \<and>
        rl_state (lr_lease r) = st)"

lemma dash_split:
  "CHR ''-'' \<notin> set p \<Longrightarrow> CHR ''-'' \<notin> set q \<Longrightarrow> p @ CHR ''-'' # u = q @ CHR ''-'' # v \<Longrightarrow> p = q \<and> u = v"
proof (induction p arbitrary: q)
  case Nil
  then show ?case by (cases q) auto
next
  case (Cons c p)
  then show ?case by (cases q) auto
qed

lemma show_nat_no_dash: "CHR ''-'' \<notin> set (show_nat n)"
  using show_nat_digits [of "CHR ''-''" n] by (auto simp: is_digit_def)

lemma lease_id_of_inject: "lease_id_of t m = lease_id_of u n \<longleftrightarrow> t = u \<and> m = n"
proof
  assume "lease_id_of t m = lease_id_of u n"
  then have "show_nat t @ CHR ''-'' # show_nat m = show_nat u @ CHR ''-'' # show_nat n"
    by (simp add: lease_id_of_def)
  from dash_split [OF show_nat_no_dash show_nat_no_dash this] show "t = u \<and> m = n" by simp
qed simp

text \<open>The lease a handle resolves to is never replaced: handles are issued once and the ids behind them
  are never minted again.\<close>

lemma prim_handle:
  assumes "prim now s s'" "lease_wf s" "lookup (co_handle_index s) h = Some lid" "lookup (co_leases s) lid = Some r"
  shows "lookup (co_handle_index s') h = Some lid \<and>
    (\<exists>r'. lookup (co_leases s') lid = Some r' \<and> (r' = r \<or> record_change now r r'))"
  using assms
proof (induction rule: prim.induct)
  case (p_admit s q i s')
  from p_admit.prems obtain t n where "n < co_next_lease_seq s" "lid = lease_id_of t n" "h < co_next_handle s"
    using lease_wf_handle unfolding handle_ok_def by blast
  with p_admit.hyps have ne: "lid \<noteq> i" "h \<noteq> co_next_handle s"
    by (auto simp: lease_id_of_inject)
  with p_admit show ?case by simp
qed (auto split: if_splits)

lemma prim_dead_handle: "prim now s s' \<Longrightarrow> lease_wf s \<Longrightarrow> dead_handle h s \<Longrightarrow> dead_handle h s'"
  unfolding dead_handle_def using prim_handle [of now s s' h] by (fastforce simp: record_change_def)

lemma prim_terminal_handle:
  "prim now s s' \<Longrightarrow> lease_wf s \<Longrightarrow> is_terminal st \<Longrightarrow> terminal_handle h st s \<Longrightarrow> terminal_handle h st s'"
  unfolding terminal_handle_def using prim_handle [of now s s' h] by (fastforce simp: record_change_def)

lemma moves_dead_handle: "moves now s s' \<Longrightarrow> lease_wf s \<Longrightarrow> dead_handle h s \<Longrightarrow> dead_handle h s'"
  by (induction rule: rtranclp_induct) (auto intro: prim_dead_handle moves_wf)

lemma moves_terminal_handle:
  "moves now s s' \<Longrightarrow> lease_wf s \<Longrightarrow> is_terminal st \<Longrightarrow> terminal_handle h st s \<Longrightarrow> terminal_handle h st s'"
  by (induction rule: rtranclp_induct) (auto intro: prim_terminal_handle moves_wf)


section \<open>Every operation is a run of primitive moves\<close>

lemma put_move:
  assumes "lease_wf s" "lookup (co_leases s) lid = Some r" "record_change now r r'"
    "rl_fence (lr_lease r') = rl_fence (lr_lease r)"
  shows "prim now s (put_record lid r' s)"
proof (rule p_record [OF assms(2,3)])
  have "record_ok s lid r" using assms(1,2) by (rule lease_wf_record)
  then show "0 < rl_fence (lr_lease r')" "rl_fence (lr_lease r') \<le> fence_of s (record_key r')"
    using assms(3,4) by (simp_all add: record_ok_def record_change_def)
qed simp

lemma put_moves:
  "lease_wf s \<Longrightarrow> lookup (co_leases s) lid = Some r \<Longrightarrow> record_change now r r' \<Longrightarrow>
   rl_fence (lr_lease r') = rl_fence (lr_lease r) \<Longrightarrow> moves now s (put_record lid r' s)"
  by (blast intro: put_move)

lemma bump_fence_fields [simp]:
  "co_leases (snd (bump_fence c s)) = co_leases s"
  "co_handle_index (snd (bump_fence c s)) = co_handle_index s"
  "co_next_handle (snd (bump_fence c s)) = co_next_handle s"
  "co_next_lease_seq (snd (bump_fence c s)) = co_next_lease_seq s"
  "fence_of (snd (bump_fence c s)) d = (if d = c then Suc (fence_of s c) else fence_of s d)"
  by (simp_all add: bump_fence_def Let_def fence_of_def)

lemma bump_move: "prim now s (snd (bump_fence c s))"
  by (rule p_index) (simp_all add: fences_grow_def)

lemma put_bump_moves:
  "lease_wf s \<Longrightarrow> lookup (co_leases s) lid = Some r \<Longrightarrow> record_change now r r' \<Longrightarrow>
   rl_fence (lr_lease r') = rl_fence (lr_lease r) \<Longrightarrow> moves now s (snd (bump_fence c (put_record lid r' s)))"
  by (meson put_moves bump_move rtranclp.rtrancl_into_rtrancl)

lemma not_live_not_active: "record_ok s lid r \<Longrightarrow> rl_state (lr_lease r) \<noteq> LsActive \<Longrightarrow> \<not> lr_holder_live r"
  by (simp add: record_ok_def)

text \<open>The shapes of record updates the operations write.\<close>

lemma change_lost:
  "st \<noteq> LsActive \<Longrightarrow> (is_terminal (rl_state (lr_lease r)) \<longrightarrow> st = rl_state (lr_lease r)) \<Longrightarrow>
   record_change now r (r\<lparr>lr_lease := (lr_lease r)\<lparr>rl_state := st\<rparr>, lr_holder_live := False\<rparr>)"
  by (simp add: record_change_def record_key_def)

lemma change_state:
  "\<not> lr_holder_live r \<Longrightarrow> (is_terminal (rl_state (lr_lease r)) \<longrightarrow> st = rl_state (lr_lease r)) \<Longrightarrow>
   record_change now r (r\<lparr>lr_lease := (lr_lease r)\<lparr>rl_state := st\<rparr>\<rparr>)"
  by (simp add: record_change_def record_key_def)

lemma record_mut_ok: "record_mut h b s = Inr (lid, r) \<Longrightarrow> lookup (co_leases s) lid = Some r"
  by (auto simp: record_mut_def split: option.splits if_splits)

lemma renew_moves: "lease_wf s \<Longrightarrow> moves now s (snd (renew fser h b g now s))"
  unfolding renew_def
  by (auto simp: Let_def record_change_def record_key_def live_at_def is_live_state_def not_less
      split: option.splits sum.splits intro!: put_moves)

lemma heartbeat_moves: "lease_wf s \<Longrightarrow> moves now s (snd (heartbeat h b now s))"
  unfolding heartbeat_def
  by (auto simp: Let_def record_change_def record_key_def is_live_state_def
      split: sum.splits prod.splits dest: record_mut_ok intro!: put_moves)

lemma release_moves: "lease_wf s \<Longrightarrow> moves now s (snd (release fser h b now s))"
  unfolding release_def
  by (auto simp: Let_def is_live_state_def is_terminal_def
      split: sum.splits prod.splits dest: record_mut_ok intro!: put_moves change_lost)

lemma revoke_moves:
  assumes "lease_wf s"
  shows "moves now s (snd (revoke fser lid detail now s))"
proof (cases "lookup (co_leases s) lid")
  case (Some r)
  then show ?thesis
    using assms put_bump_moves [OF assms Some change_lost [of LsRevoked r]]
    by (auto simp: revoke_def Let_def can_transition_def case_prod_beta split: sum.splits)
qed (simp add: revoke_def)

lemma revoke_all_moves: "lease_wf s \<Longrightarrow> moves now s (snd (revoke_all fser detail now ids s))"
proof (induction ids arbitrary: s)
  case (Cons lid ids)
  have "moves now s (snd (revoke fser lid detail now s))" using Cons.prems by (rule revoke_moves)
  moreover from this Cons.prems have "lease_wf (snd (revoke fser lid detail now s))" by (rule moves_wf)
  ultimately show ?case
    using Cons.IH by (auto simp: Let_def case_prod_beta split: sum.splits intro: rtranclp_trans)
qed simp

lemma revoke_each_moves: "lease_wf s \<Longrightarrow> moves now s (snd (revoke_each fser detail now ids s))"
proof (induction ids arbitrary: s)
  case (Cons lid ids)
  have "moves now s (snd (revoke fser lid detail now s))" using Cons.prems by (rule revoke_moves)
  moreover from this Cons.prems have "lease_wf (snd (revoke fser lid detail now s))" by (rule moves_wf)
  ultimately show ?case
    using Cons.IH by (auto simp: Let_def case_prod_beta intro: rtranclp_trans)
qed simp

lemma acquire_admit_moves:
  assumes wf: "lease_wf s" and canon: "canon = canonical_key k"
  shows "moves now s (snd (acquire_admit fser bytes w k acc scope g now ttl canon s))"
proof -
  let ?fence = "admission_fence s canon acc" and ?lid = "lease_id_of now (co_next_lease_seq s)"
  let ?lease = "new_lease ?lid w k acc scope g ?fence now ttl"
  let ?rec = "\<lparr>lr_lease = ?lease, lr_bearer = bearer_generate bytes, lr_holder_live = True, lr_ttl_ms = ttl\<rparr>"
  let ?s3 = "s\<lparr>co_fences := AList.update canon ?fence (co_fences s), co_next_lease_seq := Suc (co_next_lease_seq s),
                co_next_handle := Suc (co_next_handle s)\<rparr>"
  let ?s5 = "push_attachment (ow_session_id w) ?lid
     (?s3\<lparr>co_handle_index := AList.update (co_next_handle s) ?lid (co_handle_index s)\<rparr>)"
  let ?s6 = "?s5\<lparr>co_leases := AList.update ?lid ?rec (co_leases ?s5)\<rparr>"
  have key: "record_key ?rec = canon"
    by (simp add: record_key_def new_lease_def canon canonical_key_def)
  have fences: "fence_of ?s3 c = (if c = canon then ?fence else fence_of s c)"
    "fence_of ?s6 c = (if c = canon then ?fence else fence_of s c)" for c
    by (simp_all add: fence_of_def push_attachment_def)
  have pos: "0 < ?fence" "fence_of s canon \<le> ?fence"
    by (simp_all add: admission_fence_def)
  have grow: "fences_grow s ?s3" "fences_grow s ?s6"
    unfolding fences_grow_def fences using pos by simp_all
  have "prim now s ?s3"
    by (rule p_index) (simp_all add: grow)
  moreover have "prim now s ?s6"
    if "find (\<lambda>h. \<not> compatible_with acc (rl_access (lr_lease h))) (live_holders s canon now) = None"
  proof (rule p_admit)
    show "record_ok ?s6 ?lid ?rec"
      unfolding record_ok_def key fences using pos by (simp add: new_lease_def)
    show "fences_grow s ?s6" by (rule grow)
    show "\<forall>h \<in> set (live_holders s (record_key ?rec) now).
        compatible_with (rl_access (lr_lease ?rec)) (rl_access (lr_lease h))"
      using that unfolding key by (auto simp: find_None_iff new_lease_def)
  qed (simp_all add: push_attachment_def)
  ultimately show ?thesis
    unfolding acquire_admit_def mint_lease_id_def mint_handle_def Let_def
    by (auto simp: lease_id_of_def split: option.split sum.split)
qed

lemma acquire_moves: 
  assumes "lease_wf s"
  shows "moves now s (snd (acquire fser bytes w k acc scope g now ttl s))"
proof -
  let ?s1 = "s\<lparr>co_generations := AList.update (canonical_key k) g (co_generations s)\<rparr>"
  have "prim now s ?s1"
    by (rule p_index) (simp_all add: fences_grow_def fence_of_def)
  moreover from this assms have "lease_wf ?s1" by (rule prim_wf)
  then have "moves now ?s1 (snd (acquire_admit fser bytes w k acc scope g now ttl (canonical_key k) ?s1))"
    by (rule acquire_admit_moves) simp
  ultimately show ?thesis
    using acquire_admit_moves [OF assms]
    by (auto simp: acquire_def Let_def split: option.split intro: converse_rtranclp_into_rtranclp)
qed

lemma takeover_moves:
  assumes "lease_wf s"
  shows "moves now s (snd (takeover fser bytes w k acc scope g now ttl s))"
proof -
  have "moves now s (snd (acquire fser bytes w k acc scope g now ttl (snd (revoke_all fser d now ids s))))" for d ids
    using assms by (meson acquire_moves revoke_all_moves moves_wf rtranclp_trans)
  then show ?thesis
    using revoke_all_moves [OF assms]
    by (auto simp: takeover_def Let_def case_prod_beta split: sum.split)
qed

text \<open>A loop over distinct ids of active leases, each iteration a run of moves that writes only the
  record of its id.\<close>

lemma fold_due_moves:
  assumes "\<And>st lid r. lease_wf (snd st) \<Longrightarrow> lookup (co_leases (snd st)) lid = Some r \<Longrightarrow>
      rl_state (lr_lease r) = LsActive \<Longrightarrow> moves now (snd st) (snd (g lid st)) \<and>
      (\<forall>j. j \<noteq> lid \<longrightarrow> lookup (co_leases (snd (g lid st))) j = lookup (co_leases (snd st)) j)"
    and "lease_wf (snd st)" "distinct ids"
    and "\<And>lid. lid \<in> set ids \<Longrightarrow> \<exists>r. lookup (co_leases (snd st)) lid = Some r \<and> rl_state (lr_lease r) = LsActive"
  shows "moves now (snd st) (snd (fold g ids st))"
  using assms
proof (induction ids arbitrary: st)
  case (Cons lid ids)
  from Cons.prems(4) [of lid] obtain r where
    "lookup (co_leases (snd st)) lid = Some r" "rl_state (lr_lease r) = LsActive" by auto
  with Cons.prems(1) [of st lid r] Cons.prems(2)
  have now: "moves now (snd st) (snd (g lid st))"
    and rest: "\<And>j. j \<noteq> lid \<Longrightarrow> lookup (co_leases (snd (g lid st))) j = lookup (co_leases (snd st)) j" by auto
  have "lease_wf (snd (g lid st))" using now Cons.prems(2) by (rule moves_wf)
  then have "moves now (snd (g lid st)) (snd (fold g ids (g lid st)))"
  proof (rule Cons.IH [rotated])
    show "distinct ids" using Cons.prems(3) by simp
    fix j assume "j \<in> set ids"
    with Cons.prems(3) have "j \<noteq> lid" by auto
    with \<open>j \<in> set ids\<close> Cons.prems(4) [of j] rest
    show "\<exists>r. lookup (co_leases (snd (g lid st))) j = Some r \<and> rl_state (lr_lease r) = LsActive" by simp
  qed (use Cons.prems(1) in auto)
  with now show ?case by (auto intro: rtranclp_trans)
qed simp

text \<open>The ids collected from active records are distinct and resolve to those records.\<close>

lemma lease_ids_keys:
  assumes "lease_wf s"
  shows "map (\<lambda>r. rl_lease_id (lr_lease r)) (filter P (map snd (co_leases s))) =
    map fst (filter (\<lambda>e. P (snd e)) (co_leases s))"
proof -
  have "\<forall>e \<in> set (co_leases s). rl_lease_id (lr_lease (snd e)) = fst e"
    using assms by (auto simp: lease_wf_def record_ok_def wf_map_def)
  then show ?thesis
    by (auto simp: filter_map comp_def)
qed

lemma due_ids:
  assumes "lease_wf s"
  shows "distinct (map (\<lambda>r. rl_lease_id (lr_lease r)) (filter P (map snd (co_leases s))))"
    "lid \<in> set (map (\<lambda>r. rl_lease_id (lr_lease r)) (filter P (map snd (co_leases s)))) \<longleftrightarrow>
     (\<exists>r. lookup (co_leases s) lid = Some r \<and> P r)"
  unfolding lease_ids_keys [OF assms] using assms
  by (auto simp: lease_wf_def wf_map_def distinct_map_filter intro: rev_image_eqI dest: map_of_SomeD)

lemma sweep_expired_moves:
  assumes "lease_wf s"
  shows "moves now s (snd (sweep_expired fser now s))"
proof -
  have one: "moves now (snd st) (snd (expire_one fser now lid st)) \<and>
      (\<forall>j. j \<noteq> lid \<longrightarrow> lookup (co_leases (snd (expire_one fser now lid st))) j = lookup (co_leases (snd st)) j)"
    if "lease_wf (snd st)" "lookup (co_leases (snd st)) lid = Some r" "rl_state (lr_lease r) = LsActive" for lid st r
    using that put_moves [OF that(1,2) change_lost [of LsExpired r now]]
    by (auto simp: expire_one_def Let_def case_prod_beta is_terminal_def split: sum.splits)
  have "moves now (snd ([] :: LeaseLifecycleFact list, s)) (snd (sweep_expired fser now s))"
    unfolding sweep_expired_def Let_def
    by (rule fold_due_moves, erule (2) one) (use assms due_ids [OF assms] in \<open>auto simp del: set_map\<close>)
  then show ?thesis by simp
qed

lemma note_provider_restart_moves:
  assumes "lease_wf s"
  shows "moves now s (snd (note_provider_restart fser b now s))"
proof -
  have one: "moves now (snd st) (snd (restart_one fser nx now lid st)) \<and>
      (\<forall>j. j \<noteq> lid \<longrightarrow> lookup (co_leases (snd (restart_one fser nx now lid st))) j = lookup (co_leases (snd st)) j)"
    if "lease_wf (snd st)" "lookup (co_leases (snd st)) lid = Some r" "rl_state (lr_lease r) = LsActive" for nx lid st r
    using that put_bump_moves [OF that(1,2) change_lost [of LsUncertain r now]]
    by (auto simp: restart_one_def Let_def case_prod_beta is_terminal_def split: sum.splits)
  let ?s1 = "s\<lparr>co_provider_generations :=
     AList.update b (provider_generation s b + 1) (co_provider_generations s)\<rparr>"
  have "prim now s ?s1" by (rule p_index) (simp_all add: fences_grow_def fence_of_def)
  moreover from this assms have "lease_wf ?s1" by (rule prim_wf)
  moreover have "moves now (snd ([] :: LeaseLifecycleFact list, ?s1)) (snd (note_provider_restart fser b now s))"
    unfolding note_provider_restart_def Let_def
    by (rule fold_due_moves, erule (2) one)
      (use calculation(2) due_ids [OF calculation(2)] in \<open>auto simp del: set_map\<close>)
  ultimately show ?thesis by (auto intro: converse_rtranclp_into_rtranclp)
qed

lemma mark_holder_lost_moves: "lease_wf s \<Longrightarrow> moves now s (snd (mark_holder_lost fser lid now s))"
  unfolding mark_holder_lost_def
  by (auto simp: Let_def is_terminal_def split: option.splits sum.splits intro!: put_moves change_lost)

lemma reconcile_moves:
  assumes "lease_wf s"
  shows "moves now s (snd (reconcile fser lid out now s))"
proof (cases "lookup (co_leases s) lid")
  case (Some r)
  then show ?thesis
    using put_moves [OF assms Some change_state [of r LsReclaimPending now]]
      not_live_not_active [OF lease_wf_record [OF assms Some]]
    by (auto simp: reconcile_def Let_def is_terminal_def split: sum.splits LeaseState.splits)
qed (simp add: reconcile_def)

lemma reclaim_moves:
  assumes "lease_wf s"
  shows "moves now s (snd (reclaim fser lid pd nle now s))"
proof (cases "lookup (co_leases s) lid")
  case (Some r)
  then show ?thesis
    using put_bump_moves [OF assms Some change_state [of r LsReclaimed]]
      not_live_not_active [OF lease_wf_record [OF assms Some]]
    by (auto simp: reclaim_def Let_def case_prod_beta is_terminal_def split: sum.splits)
qed (simp add: reclaim_def)

lemma revalidate_moves:
  "lease_wf s \<Longrightarrow> moves now s (snd (revalidate_actor_binding fser lid old new g now s))"
  unfolding revalidate_actor_binding_def
  by (auto simp: Let_def record_change_def record_key_def is_live_state_def
      split: option.splits sum.splits intro!: put_moves)

lemma raise_fence_of:
  "fence_of (raise_fence c f s) d = (if d = c then max (fence_of s c) f else fence_of s d)"
  by (simp add: raise_fence_def fence_of_def)

lemma raise_fence_fields [simp]:
  "co_leases (raise_fence c f s) = co_leases s" "co_handle_index (raise_fence c f s) = co_handle_index s"
  "co_next_handle (raise_fence c f s) = co_next_handle s" "co_next_lease_seq (raise_fence c f s) = co_next_lease_seq s"
  "co_generations (raise_fence c f s) = co_generations s"
  by (simp_all add: raise_fence_def)

lemma raise_put_commute: "raise_fence c f (put_record lid r s) = put_record lid r (raise_fence c f s)"
  unfolding raise_fence_def by (simp add: put_record_def fence_of_def)

lemma raise_move: "prim now s (raise_fence c f s)"
  by (rule p_index) (simp_all add: fences_grow_def raise_fence_of)

lemma apply_known_moves:
  assumes "lease_wf s" "lookup (co_leases s) (lf_lease_id f) = Some r" "0 < lf_fence f"
  shows "moves now s (snd (apply_known f target r s))"
proof (cases "can_transition (rl_state (lr_lease r)) target")
  case True
  let ?r' = "r\<lparr>lr_lease := (lr_lease r)\<lparr>rl_state := target, rl_fence := lf_fence f\<rparr>,
              lr_holder_live := (if target \<noteq> LsActive then False else lr_holder_live r)\<rparr>"
  let ?s1 = "raise_fence (record_key r) (lf_fence f) s"
  have "prim now ?s1 (put_record (lf_lease_id f) ?r' ?s1)"
  proof (rule p_record)
    show "lookup (co_leases ?s1) (lf_lease_id f) = Some r" using assms(2) by simp
    show "record_change now r ?r'"
      using True by (auto simp: record_change_def record_key_def terminal_transition)
  qed (use assms(3) in \<open>simp_all add: raise_fence_of record_key_def\<close>)
  with raise_move have "moves now s (put_record (lf_lease_id f) ?r' ?s1)"
    by (meson r_into_rtranclp rtranclp.rtrancl_into_rtrancl)
  then show ?thesis by (simp add: apply_known_def Let_def raise_put_commute)
qed (simp add: apply_known_def Let_def)

lemma apply_unknown_moves:
  assumes "lookup (co_leases s) (lf_lease_id f) = None" "0 < lf_fence f"
  shows "moves now s (snd (apply_unknown f target recovery bytes s))"
proof (cases "fst (apply_unknown f target recovery bytes s)")
  case (Inl e)
  then have "snd (apply_unknown f target recovery bytes s) = s"
    by (auto simp: apply_unknown_def Let_def split: option.splits sum.splits if_splits)
  then show ?thesis by simp
next
  case (Inr b)
  then obtain w k acc where ctx: "lf_owner f = Some w" "lf_resource f = Some k" "lf_access f = Some acc"
    "snd (apply_unknown f target recovery bytes s) =
       put_record (lf_lease_id f) (replayed_record f w k acc target recovery bytes)
         (push_attachment (ow_session_id w) (lf_lease_id f)
           (raise_fence (canonical_key k) (lf_fence f)
             (case lookup (co_generations s) (canonical_key k) of
                None \<Rightarrow> s\<lparr>co_generations := AList.update (canonical_key k) (lf_generation f) (co_generations s)\<rparr>
              | Some _ \<Rightarrow> s)))"
    by (auto simp: apply_unknown_def Let_def split: option.splits sum.splits if_splits)
  let ?t = "push_attachment (ow_session_id w) (lf_lease_id f)
           (raise_fence (canonical_key k) (lf_fence f)
             (case lookup (co_generations s) (canonical_key k) of
                None \<Rightarrow> s\<lparr>co_generations := AList.update (canonical_key k) (lf_generation f) (co_generations s)\<rparr>
              | Some _ \<Rightarrow> s))"
  have fences: "fence_of ?t d = (if d = canonical_key k then max (fence_of s d) (lf_fence f) else fence_of s d)" for d
    by (auto simp: push_attachment_def raise_fence_def fence_of_def split: option.splits)
  have key: "record_key (replayed_record f w k acc target recovery bytes) = canonical_key k"
    by (simp add: record_key_def replayed_record_def canonical_key_def)
  have "prim now s (put_record (lf_lease_id f) (replayed_record f w k acc target recovery bytes) ?t)"
  proof (rule p_replay [OF assms(1)])
    show "record_ok (put_record (lf_lease_id f) (replayed_record f w k acc target recovery bytes) ?t) (lf_lease_id f)
        (replayed_record f w k acc target recovery bytes)"
      unfolding record_ok_def fence_of_put_record key fences using assms(2) by (simp add: replayed_record_def)
    show "fences_grow s (put_record (lf_lease_id f) (replayed_record f w k acc target recovery bytes) ?t)"
      unfolding fences_grow_def fence_of_put_record fences by simp
  qed (simp_all add: replayed_record_def push_attachment_def split: option.splits)
  then show ?thesis unfolding ctx by blast
qed

lemma apply_fact_moves: "lease_wf s \<Longrightarrow> moves now s (snd (apply_fact fser bytes f recovery s))"
  unfolding apply_fact_def
  by (auto simp: fact_validate_def split: option.splits sum.splits if_splits
      intro!: apply_known_moves apply_unknown_moves)

section \<open>Sequences of operations\<close>

datatype LeaseOp =
    LAcquire string OwnerContext TypedResourceKey LeaseAccess string nat nat nat
  | LTakeover string OwnerContext TypedResourceKey LeaseAccess string nat nat nat
  | LRenew nat bearer nat nat
  | LHeartbeat nat bearer nat
  | LRelease nat bearer nat
  | LRevoke string string nat
  | LSweep nat
  | LRevalidate string string string nat nat
  | LRestart string nat
  | LRetire TypedResourceKey string nat
  | LInvalidateScope string nat
  | LLost string nat
  | LReconcile string PostEffectOutcome nat
  | LReclaim string bool bool nat
  | LReplay string LeaseLifecycleFact bool
  | LNoteGeneration TypedResourceKey nat
  | LDetach string

text \<open>The time an operation is called at; replay, generation notes and detachment take none.\<close>

fun lease_time :: "LeaseOp \<Rightarrow> nat option" where
  "lease_time (LAcquire _ _ _ _ _ _ now _) = Some now"
| "lease_time (LTakeover _ _ _ _ _ _ now _) = Some now"
| "lease_time (LRenew _ _ _ now) = Some now"
| "lease_time (LHeartbeat _ _ now) = Some now"
| "lease_time (LRelease _ _ now) = Some now"
| "lease_time (LRevoke _ _ now) = Some now"
| "lease_time (LSweep now) = Some now"
| "lease_time (LRevalidate _ _ _ _ now) = Some now"
| "lease_time (LRestart _ now) = Some now"
| "lease_time (LRetire _ _ now) = Some now"
| "lease_time (LInvalidateScope _ now) = Some now"
| "lease_time (LLost _ now) = Some now"
| "lease_time (LReconcile _ _ now) = Some now"
| "lease_time (LReclaim _ _ _ now) = Some now"
| "lease_time _ = None"

fun lease_apply :: "(LeaseLifecycleFact \<Rightarrow> string) \<Rightarrow> LeaseOp \<Rightarrow> Coordinator \<Rightarrow> Coordinator" where
  "lease_apply fser (LAcquire bytes w k acc scope g now ttl) s = snd (acquire fser bytes w k acc scope g now ttl s)"
| "lease_apply fser (LTakeover bytes w k acc scope g now ttl) s = snd (takeover fser bytes w k acc scope g now ttl s)"
| "lease_apply fser (LRenew h b g now) s = snd (renew fser h b g now s)"
| "lease_apply fser (LHeartbeat h b now) s = snd (heartbeat h b now s)"
| "lease_apply fser (LRelease h b now) s = snd (release fser h b now s)"
| "lease_apply fser (LRevoke lid d now) s = snd (revoke fser lid d now s)"
| "lease_apply fser (LSweep now) s = snd (sweep_expired fser now s)"
| "lease_apply fser (LRevalidate lid old new g now) s = snd (revalidate_actor_binding fser lid old new g now s)"
| "lease_apply fser (LRestart b now) s = snd (note_provider_restart fser b now s)"
| "lease_apply fser (LRetire k d now) s = snd (retire_resource fser k d now s)"
| "lease_apply fser (LInvalidateScope scope now) s = snd (invalidate_scope_fingerprint fser scope now s)"
| "lease_apply fser (LLost lid now) s = snd (mark_holder_lost fser lid now s)"
| "lease_apply fser (LReconcile lid out now) s = snd (reconcile fser lid out now s)"
| "lease_apply fser (LReclaim lid pd nle now) s = snd (reclaim fser lid pd nle now s)"
| "lease_apply fser (LReplay bytes f recovery) s = snd (apply_fact fser bytes f recovery s)"
| "lease_apply fser (LNoteGeneration k g) s = note_resource_generation k g s"
| "lease_apply fser (LDetach sid) s = snd (detach_session sid s)"

definition op_clock :: "LeaseOp \<Rightarrow> nat \<Rightarrow> nat" where
  "op_clock x clk = (case lease_time x of None \<Rightarrow> clk | Some now \<Rightarrow> now)"

definition lease_step :: "(LeaseLifecycleFact \<Rightarrow> string) \<Rightarrow> LeaseOp \<Rightarrow> nat \<times> Coordinator \<Rightarrow> nat \<times> Coordinator" where
  "lease_step fser x st = (op_clock x (fst st), lease_apply fser x (snd st))"

text \<open>Callers supply a clock that does not run backwards.\<close>

definition clock_ok :: "LeaseOp \<Rightarrow> nat \<times> Coordinator \<Rightarrow> bool" where
  "clock_ok x st \<longleftrightarrow> fst st \<le> op_clock x (fst st)"

lemmas lease_op_moves =
  acquire_moves takeover_moves renew_moves heartbeat_moves release_moves revoke_moves revoke_each_moves
  sweep_expired_moves revalidate_moves note_provider_restart_moves mark_holder_lost_moves
  reconcile_moves reclaim_moves apply_fact_moves

lemma note_generation_moves: "moves now s (note_resource_generation k g s)"
  by (rule r_into_rtranclp, rule p_index) (simp_all add: note_resource_generation_def fences_grow_def fence_of_def)

lemma detach_moves: "moves now s (snd (detach_session sid s))"
  by (rule r_into_rtranclp, rule p_index) (simp_all add: detach_session_def fences_grow_def fence_of_def split: option.split)

lemma lease_apply_moves: "lease_wf s \<Longrightarrow> moves (op_clock x clk) s (lease_apply fser x s)"
  by (cases x) (simp_all add: op_clock_def lease_op_moves note_generation_moves detach_moves retire_resource_def
      invalidate_scope_fingerprint_def Let_def)

definition lease_inv :: "nat \<times> Coordinator \<Rightarrow> bool" where
  "lease_inv st \<longleftrightarrow> lease_wf (snd st) \<and> mutex (fst st) (snd st)"

lemma lease_inv_new: "lease_inv (0, coordinator_new)"
  by (simp add: lease_inv_def lease_wf_def mutex_def coordinator_new_def)

lemma lease_inv_step:
  assumes "lease_inv st" "clock_ok x st"
  shows "lease_inv (lease_step fser x st)"
proof -
  let ?now = "op_clock x (fst st)"
  have "moves ?now (snd st) (lease_apply fser x (snd st))"
    using assms(1) by (intro lease_apply_moves) (simp add: lease_inv_def)
  moreover have "mutex ?now (snd st)"
    using assms by (auto simp: lease_inv_def clock_ok_def intro: mutex_mono)
  ultimately show ?thesis
    using assms(1) by (auto simp: lease_inv_def lease_step_def intro: moves_wf moves_mutex)
qed

interpretation lease_exclusion: invariant_system "lease_step fser" clock_ok lease_inv
  by unfold_locales (rule lease_inv_step)

interpretation lease_shape: invariant_system "lease_step fser" "\<lambda>_ _. True" "\<lambda>st. lease_wf (snd st)"
  by unfold_locales (auto simp: lease_step_def intro: moves_wf lease_apply_moves)

interpretation lease_fences: monotone_system "lease_step fser" "\<lambda>_ st. lease_wf (snd st)" "\<lambda>s t. fences_grow (snd s) (snd t)"
  by unfold_locales (auto simp: lease_step_def intro: fences_grow_trans moves_fences lease_apply_moves)

interpretation lease_custody: invariant_system "lease_step fser" "\<lambda>_ _. True" "\<lambda>st. lease_wf (snd st) \<and> dead_handle h (snd st)"
  by unfold_locales (auto simp: lease_step_def intro: moves_wf moves_dead_handle lease_apply_moves)

lemma terminal_handle_step:
  "is_terminal t \<Longrightarrow> lease_wf (snd st) \<Longrightarrow> terminal_handle h t (snd st) \<Longrightarrow> terminal_handle h t (snd (lease_step fser x st))"
  by (auto simp: lease_step_def intro: moves_terminal_handle lease_apply_moves)

interpretation lease_terminal: invariant_system "lease_step fser" "\<lambda>_ _. True"
  "\<lambda>st. lease_wf (snd st) \<and> is_terminal t \<and> terminal_handle h t (snd st)"
  using lease_shape.step_inv by unfold_locales (auto intro: terminal_handle_step)

lemma prim_index_stable:
  assumes "prim now s s'" "lease_wf s" "lookup (co_handle_index s) h = Some lid"
  shows "lookup (co_handle_index s') h = Some lid"
proof -
  obtain r where "lookup (co_leases s) lid = Some r"
    using lease_wf_handle [OF assms(2,3)] by (auto simp: handle_ok_def)
  then show ?thesis using prim_handle [OF assms] by blast
qed

lemma moves_index_stable:
  "moves now s s' \<Longrightarrow> lease_wf s \<Longrightarrow> lookup (co_handle_index s) h = Some lid \<Longrightarrow> lookup (co_handle_index s') h = Some lid"
  by (induction rule: rtranclp_induct) (auto intro: prim_index_stable moves_wf)

interpretation lease_index: invariant_system "lease_step fser" "\<lambda>_ _. True"
  "\<lambda>st. lease_wf (snd st) \<and> lookup (co_handle_index (snd st)) h = Some lid"
  by unfold_locales (auto simp: lease_step_def intro: moves_wf moves_index_stable lease_apply_moves)

end
