(* ===== verification/Lease_Properties.thy ===== *)
theory Lease_Properties
  imports Lease_Laws
begin

text \<open>
  The promises of the lease coordinator: exclusion between live holders, loss of custody for good,
  monotone fences, what admission, takeover, reconciliation and reclaim give, and what replay of durable
  facts can and cannot restore. The witnesses run the model on a demonstration resource.
\<close>

section \<open>Facts shared by the properties\<close>

lemma validate_exercise_Inr:
  assumes "validate_exercise s h b bd g now = Inr a"
  shows "\<exists>lid r. lookup (co_handle_index s) h = Some lid \<and> lookup (co_leases s) lid = Some r \<and>
    bearer_matches (lr_bearer r) b \<and> a = attachment (lr_lease r) \<and> live_at now r \<and>
    rl_fence (lr_lease r) = fence_of s (record_key r) \<and> rl_actor_binding_id (lr_lease r) = bd \<and>
    rl_resource_generation (lr_lease r) = g"
  using assms
  by (auto simp: validate_exercise_def check_exercisable_def live_at_def Let_def not_less
      split: option.splits if_splits sum.splits)

lemma dead_handle_refused: "dead_handle h s \<Longrightarrow> \<exists>e. validate_exercise s h b bd g now = Inl e"
  using validate_exercise_Inr [of s h b bd g now]
  by (cases "validate_exercise s h b bd g now") (auto simp: dead_handle_def live_at_def)

lemma dead_handle_no_renew:
  "dead_handle h s \<Longrightarrow> \<exists>e. renew fser h b g now s = (Inl e, s)"
  by (auto simp: dead_handle_def renew_def Let_def split: option.splits)

lemma inactive_handle_dead:
  assumes "lease_wf s" "lookup (co_handle_index s) h = Some lid" "lease_state_of s lid \<noteq> Some LsActive"
  shows "dead_handle h s"
proof -
  obtain r where r: "lookup (co_leases s) lid = Some r"
    using lease_wf_handle [OF assms(1,2)] by (auto simp: handle_ok_def)
  with assms(3) have "rl_state (lr_lease r) \<noteq> LsActive" by (simp add: lease_state_of_def)
  then have "\<not> lr_holder_live r" using not_live_not_active [OF lease_wf_record [OF assms(1) r]] by simp
  with assms(2) r show ?thesis by (auto simp: dead_handle_def)
qed

lemma reachable_wf: "lease_wf (snd (run (lease_step fser) xs (0, coordinator_new)))"
  using lease_shape.run_inv [of "(0, coordinator_new)" fser xs] lease_inv_new
  by (simp add: admitted_True lease_inv_def)

lemma admitted_lease_wf:
  "lease_wf (snd st) \<Longrightarrow> admitted (lease_step fser) (\<lambda>_ st. lease_wf (snd st)) xs st"
proof (induction xs arbitrary: st)
  case (Cons x xs)
  with lease_shape.step_inv [of st] show ?case by (simp add: prod_eq_iff)
qed simp

lemma reachable_exclusion:
  assumes "admitted (lease_step fser) clock_ok xs (0, coordinator_new)"
    and "fst (run (lease_step fser) xs (0, coordinator_new)) \<le> now"
  shows "mutex now (snd (run (lease_step fser) xs (0, coordinator_new)))"
  using lease_exclusion.run_inv [OF lease_inv_new assms(1)] assms(2) by (auto simp: lease_inv_def intro: mutex_mono)

lemma exercisable_compatible:
  assumes "admitted (lease_step fser) clock_ok xs (0, coordinator_new)"
    and "run (lease_step fser) xs (0, coordinator_new) = (clk, s)" "clk \<le> now"
    and "validate_exercise s h1 b1 bd1 g1 now = Inr a1" "validate_exercise s h2 b2 bd2 g2 now = Inr a2"
    and "at_lease_id a1 \<noteq> at_lease_id a2" "at_resource_key a1 = at_resource_key a2"
  shows "\<exists>r1 r2. lookup (co_leases s) (at_lease_id a1) = Some r1 \<and> lookup (co_leases s) (at_lease_id a2) = Some r2 \<and>
    is_observation (rl_access (lr_lease r1)) \<and> is_observation (rl_access (lr_lease r2))"
proof -
  have wf: "lease_wf s" and ex: "mutex now s"
    using reachable_wf [of fser xs] reachable_exclusion [OF assms(1), of now] assms(2,3) by simp_all
  have rec: "\<exists>r. lookup (co_leases s) (at_lease_id a) = Some r \<and> live_at now r \<and> record_key r = at_resource_key a"
    if "validate_exercise s h b bd g now = Inr a" for h b bd g a
  proof -
    from validate_exercise_Inr [OF that] obtain lid r where
      "lookup (co_leases s) lid = Some r" "a = attachment (lr_lease r)" "live_at now r" by blast
    then show ?thesis
      using lease_wf_record [OF wf] by (auto simp: attachment_def record_key_def record_ok_def)
  qed
  from rec [OF assms(4)] rec [OF assms(5)] ex assms(6,7) show ?thesis
    unfolding mutex_def compatible_with_def by metis
qed

section \<open>A demonstration resource\<close>

definition demo_owner :: "string \<Rightarrow> OwnerContext" where
  "demo_owner se = \<lparr> ow_session_id = se, ow_work_id = ''w'', ow_run_id = ''r'', ow_binding_id = ''b'' \<rparr>"

definition demo_doc :: TypedResourceKey where
  "demo_doc = \<lparr> rk_kind = RkOfficeDocument, rk_stable_id = ''doc'', rk_generation = 3 \<rparr>"

definition demo_fser :: "LeaseLifecycleFact \<Rightarrow> string" where
  "demo_fser f = lf_lease_id f"

definition demo_acquire :: "string \<Rightarrow> LeaseAccess \<Rightarrow> nat \<Rightarrow> LeaseOp" where
  "demo_acquire b acc now = LAcquire b (demo_owner ''s'') demo_doc acc ''scope'' 3 now 100"

definition demo_run :: "LeaseOp list \<Rightarrow> nat \<times> Coordinator" where
  "demo_run xs = run (lease_step demo_fser) xs (0, coordinator_new)"

section \<open>Exclusion, custody, fences\<close>

text \<open>C37. Mutual exclusion: after any sequence of coordinator operations under a clock that does not run
  backwards, two different leases of one resource that can both be exercised at the same time are both
  observations; an edit, action or control lease is the only exercisable lease of its resource.\<close>

theorem exercisable_leases_compatible:
  assumes "admitted (lease_step fser) clock_ok xs (0, coordinator_new)"
    and "run (lease_step fser) xs (0, coordinator_new) = (clk, s)" "clk \<le> now"
    and "validate_exercise s h1 b1 bd1 g1 now = Inr a1" "validate_exercise s h2 b2 bd2 g2 now = Inr a2"
    and "at_lease_id a1 \<noteq> at_lease_id a2" "at_resource_key a1 = at_resource_key a2"
  shows "\<exists>r1 r2. lookup (co_leases s) (at_lease_id a1) = Some r1 \<and> lookup (co_leases s) (at_lease_id a2) = Some r2 \<and>
    is_observation (rl_access (lr_lease r1)) \<and> is_observation (rl_access (lr_lease r2))"
  using assms by (rule exercisable_compatible)

text \<open>Two viewers of the demonstration document, both exercisable.\<close>

theorem exercisable_leases_compatible_witness:
  "let st = demo_run [demo_acquire [CHR 0x07] View 1, demo_acquire [CHR 0x09] Observe 2]; s = snd st
   in \<exists>r1 r2. lookup (co_leases s) ''lease-1-1'' = Some r1 \<and> lookup (co_leases s) ''lease-2-2'' = Some r2 \<and>
      is_observation (rl_access (lr_lease r1)) \<and> is_observation (rl_access (lr_lease r2))"
proof -
  let ?xs = "[demo_acquire [CHR 0x07] View 1, demo_acquire [CHR 0x09] Observe 2]"
  let ?s = "snd (demo_run ?xs)"
  let ?a = "\<lambda>i. \<lparr> at_lease_id = i, at_session_scope = ''s'', at_resource_key = ''office_document:doc'',
     at_generation = 3, at_fence = 1, at_state = LsActive \<rparr>"
  have "admitted (lease_step demo_fser) clock_ok ?xs (0, coordinator_new)" by code_simp
  moreover have "run (lease_step demo_fser) ?xs (0, coordinator_new) = (2, ?s)"
    by (simp add: demo_run_def demo_acquire_def lease_step_def op_clock_def)
  moreover have "validate_exercise ?s 1 [CHR 0x07] ''b'' 3 3 = Inr (?a ''lease-1-1'')" by code_simp
  moreover have "validate_exercise ?s 2 [CHR 0x09] ''b'' 3 3 = Inr (?a ''lease-2-2'')" by code_simp
  ultimately show ?thesis
    using exercisable_leases_compatible [of demo_fser ?xs 2 ?s 3 1 "[CHR 0x07]" "''b''" 3 "?a ''lease-1-1''"
        2 "[CHR 0x09]" "''b''" 3 "?a ''lease-2-2''"]
    by (simp add: Let_def)
qed

text \<open>C38. Custody never returns: once the lease behind a handle has left the active state (released,
  expired, revoked, lost or reclaimed), no later sequence of operations, replay of durable facts included,
  makes that handle exercisable or renewable again, for any bearer, binding, generation or time.\<close>

theorem custody_never_returns:
  assumes "run (lease_step fser) xs (0, coordinator_new) = (clk, s)"
    and "lookup (co_handle_index s) h = Some lid" "lease_state_of s lid \<noteq> Some LsActive"
    and "run (lease_step fser) ys (clk, s) = (clk', s')"
  shows "(\<exists>e. validate_exercise s' h b bd g now = Inl e) \<and> (\<exists>e. renew fser h b g now s' = (Inl e, s'))"
proof -
  have "lease_wf s" using reachable_wf [of fser xs] assms(1) by simp
  then have "lease_wf s \<and> dead_handle h s" using inactive_handle_dead assms(2,3) by blast
  with lease_custody.run_inv [of "(clk, s)" h fser ys] assms(4)
  have "dead_handle h s'" by (simp add: admitted_True)
  then show ?thesis using dead_handle_refused dead_handle_no_renew by blast
qed

theorem custody_never_returns_witness:
  "let s = snd (demo_run [demo_acquire [CHR 0x07] Edit 1, LRevoke ''lease-1-1'' ''x'' 2]);
       s' = snd (run (lease_step demo_fser) [demo_acquire [CHR 0x09] Edit 3] (2, s))
   in lookup (co_handle_index s) 1 = Some ''lease-1-1'' \<and> (\<exists>e. validate_exercise s' 1 [CHR 0x07] ''b'' 3 4 = Inl e)"
proof -
  let ?xs = "[demo_acquire [CHR 0x07] Edit 1, LRevoke ''lease-1-1'' ''x'' 2]" and ?ys = "[demo_acquire [CHR 0x09] Edit 3]"
  let ?s = "snd (demo_run ?xs)"
  let ?s' = "snd (run (lease_step demo_fser) ?ys (2, ?s))"
  have "run (lease_step demo_fser) ?xs (0, coordinator_new) = (2, ?s)"
    "run (lease_step demo_fser) ?ys (2, ?s) = (3, ?s')"
    by (simp_all add: demo_run_def demo_acquire_def lease_step_def op_clock_def)
  moreover have h: "lookup (co_handle_index ?s) 1 = Some ''lease-1-1''" by code_simp
  moreover have "lease_state_of ?s ''lease-1-1'' = Some LsRevoked" by code_simp
  ultimately have "\<exists>e. validate_exercise ?s' 1 [CHR 0x07] ''b'' 3 4 = Inl e"
    using custody_never_returns [of demo_fser ?xs 2 ?s 1 "''lease-1-1''" ?ys 3 ?s'] by simp
  with h show ?thesis by (simp add: Let_def)
qed

text \<open>Terminal states are final: a lease issued by this coordinator that was released, expired, revoked
  or reclaimed keeps exactly that state under every further sequence of operations.\<close>

theorem terminal_lease_final:
  assumes "run (lease_step fser) xs (0, coordinator_new) = (clk, s)"
    and "lookup (co_handle_index s) h = Some lid" "lease_state_of s lid = Some st" "is_terminal st"
    and "run (lease_step fser) ys (clk, s) = (clk', s')"
  shows "lease_state_of s' lid = Some st \<and> lookup (co_handle_index s') h = Some lid"
proof -
  have wf: "lease_wf s" using reachable_wf [of fser xs] assms(1) by simp
  have "terminal_handle h st s" using assms(2,3) by (auto simp: terminal_handle_def lease_state_of_def)
  with lease_terminal.run_inv [of "(clk, s)" st h fser ys] wf assms(4,5)
  have "terminal_handle h st s'" by (simp add: admitted_True)
  moreover have "lookup (co_handle_index s') h = Some lid"
    using lease_index.run_inv [of "(clk, s)" h lid fser ys] wf assms(2,5) by (simp add: admitted_True)
  ultimately show ?thesis by (auto simp: terminal_handle_def lease_state_of_def)
qed

theorem terminal_lease_final_witness:
  "let s = snd (demo_run [demo_acquire [CHR 0x07] Edit 1, LRelease 1 [CHR 0x07] 2]);
       s' = snd (run (lease_step demo_fser) [LRevoke ''lease-1-1'' ''x'' 3] (2, s))
   in lease_state_of s ''lease-1-1'' = Some LsReleased \<and> lease_state_of s' ''lease-1-1'' = Some LsReleased"
proof -
  let ?xs = "[demo_acquire [CHR 0x07] Edit 1, LRelease 1 [CHR 0x07] 2]" and ?ys = "[LRevoke ''lease-1-1'' ''x'' 3]"
  let ?s = "snd (demo_run ?xs)"
  let ?s' = "snd (run (lease_step demo_fser) ?ys (2, ?s))"
  have "run (lease_step demo_fser) ?xs (0, coordinator_new) = (2, ?s)"
    "run (lease_step demo_fser) ?ys (2, ?s) = (3, ?s')"
    by (simp_all add: demo_run_def demo_acquire_def lease_step_def op_clock_def)
  moreover have "lookup (co_handle_index ?s) 1 = Some ''lease-1-1''" by code_simp
  moreover have st: "lease_state_of ?s ''lease-1-1'' = Some LsReleased" by code_simp
  ultimately have "lease_state_of ?s' ''lease-1-1'' = Some LsReleased"
    using terminal_lease_final [of demo_fser ?xs 2 ?s 1 "''lease-1-1''" LsReleased ?ys 3 ?s']
    by (simp add: is_terminal_def)
  with st show ?thesis by (simp add: Let_def)
qed

section \<open>Admission and takeover\<close>

lemma bearer_matches_refl [simp]: "bearer_matches b b"
  by (induction b) (auto simp: bearer_matches_def)

text \<open>What a successful admission leaves behind, for a coordinator whose generation is current.\<close>

lemma acquire_admit_result:
  assumes "fst (acquire_admit fser bytes w k acc scope g now ttl canon s) = Inr al"
  shows "let s' = snd (acquire_admit fser bytes w k acc scope g now ttl canon s);
      lid = lease_id_of now (co_next_lease_seq s);
      lease = new_lease lid w k acc scope g (admission_fence s canon acc) now ttl;
      b = bearer_generate bytes
    in find (\<lambda>h. \<not> compatible_with acc (rl_access (lr_lease h))) (live_holders s canon now) = None \<and>
       lease_validate lease = Inr () \<and>
       al_handle al = co_next_handle s \<and> al_bearer al = b \<and> al_attachment al = attachment lease \<and>
       co_handle_index s' = AList.update (co_next_handle s) lid (co_handle_index s) \<and>
       co_leases s' = AList.update lid \<lparr> lr_lease = lease, lr_bearer = b, lr_holder_live = True, lr_ttl_ms = ttl \<rparr> (co_leases s) \<and>
       co_fences s' = AList.update canon (admission_fence s canon acc) (co_fences s) \<and>
       co_generations s' = co_generations s"
  using assms unfolding acquire_admit_def mint_lease_id_def mint_handle_def Let_def lease_id_of_def prod.case
  by (auto simp: push_attachment_def split: option.split_asm sum.split_asm)

lemma new_lease_fields [simp]:
  "rl_lease_id (new_lease lid w k acc scope g f now ttl) = lid"
  "canonical_key (rl_resource (new_lease lid w k acc scope g f now ttl)) = canonical_key k"
  "rl_access (new_lease lid w k acc scope g f now ttl) = acc"
  "rl_fence (new_lease lid w k acc scope g f now ttl) = f"
  "rl_state (new_lease lid w k acc scope g f now ttl) = LsActive"
  "rl_actor_binding_id (new_lease lid w k acc scope g f now ttl) = ow_binding_id w"
  "rl_resource_generation (new_lease lid w k acc scope g f now ttl) = g"
  "rl_issued_at_ms (new_lease lid w k acc scope g f now ttl) = now"
  by (simp_all add: new_lease_def canonical_key_def)

lemma lease_validate_lifetime: "lease_validate l = Inr () \<Longrightarrow> rl_issued_at_ms l < rl_expires_at_ms l"
  by (auto simp: lease_validate_def split: if_splits sum.splits)

lemma acquire_admit_ok:
  assumes "acquire_admit fser bytes w k acc scope g now ttl (canonical_key k) s = (Inr al, s')"
    and "lookup (co_generations s) (canonical_key k) = Some g"
  shows "\<forall>h \<in> set (live_holders s (canonical_key k) now). compatible_with acc (rl_access (lr_lease h))"
    and "validate_exercise s' (al_handle al) (al_bearer al) (ow_binding_id w) g now = Inr (al_attachment al)"
    and "at_fence (al_attachment al) = current_fence s' k"
    and "current_fence s' k = admission_fence s (canonical_key k) acc"
    and "\<exists>r. lookup (co_leases s') (at_lease_id (al_attachment al)) = Some r \<and> rl_access (lr_lease r) = acc"
    and "at_resource_key (al_attachment al) = canonical_key k"
proof -
  note R = acquire_admit_result [of fser bytes w k acc scope g now ttl "canonical_key k" s al, unfolded Let_def assms(1), simplified]
  have fence: "fence_of s' (canonical_key k) = admission_fence s (canonical_key k) acc"
    using R by (simp add: fence_of_def)
  have live: "now \<le> rl_expires_at_ms (new_lease (lease_id_of now (co_next_lease_seq s)) w k acc scope g
      (admission_fence s (canonical_key k) acc) now ttl)"
    using R lease_validate_lifetime by fastforce
  show "\<forall>h \<in> set (live_holders s (canonical_key k) now). compatible_with acc (rl_access (lr_lease h))"
    using R by (auto simp: find_None_iff)
  show "validate_exercise s' (al_handle al) (al_bearer al) (ow_binding_id w) g now = Inr (al_attachment al)"
    using R live assms(2)
    by (simp add: validate_exercise_def check_exercisable_def record_key_def fence is_live_state_def
        generation_or_def Let_def not_less [symmetric])
  show "at_fence (al_attachment al) = current_fence s' k"
    "current_fence s' k = admission_fence s (canonical_key k) acc"
    "at_resource_key (al_attachment al) = canonical_key k"
    using R by (simp_all add: attachment_def current_fence_def fence)
  show "\<exists>r. lookup (co_leases s') (at_lease_id (al_attachment al)) = Some r \<and> rl_access (lr_lease r) = acc"
    using R by (simp add: attachment_def)
qed

lemma acquire_ok_admitted:
  assumes "acquire fser bytes w k acc scope g now ttl s = (Inr al, s')"
  obtains t where "lookup (co_generations t) (canonical_key k) = Some g" "co_leases t = co_leases s"
    "co_fences t = co_fences s" "acquire_admit fser bytes w k acc scope g now ttl (canonical_key k) t = (Inr al, s')"
proof (cases "lookup (co_generations s) (canonical_key k)")
  case None
  with assms show thesis
    by (intro that [of "s\<lparr>co_generations := AList.update (canonical_key k) g (co_generations s)\<rparr>"])
      (simp_all add: acquire_def Let_def split: option.splits)
next
  case (Some c)
  with assms show thesis
    by (intro that [of s]) (simp_all add: acquire_def Let_def split: option.splits if_splits)
qed

lemma acquire_ok:
  assumes "acquire fser bytes w k acc scope g now ttl s = (Inr al, s')"
  shows "\<forall>h \<in> set (live_holders s (canonical_key k) now). compatible_with acc (rl_access (lr_lease h))"
    and "validate_exercise s' (al_handle al) (al_bearer al) (ow_binding_id w) g now = Inr (al_attachment al)"
    and "at_fence (al_attachment al) = current_fence s' k"
    and "current_fence s' k = (if is_exclusive acc then current_fence s k + 1 else max 1 (current_fence s k))"
    and "\<exists>r. lookup (co_leases s') (at_lease_id (al_attachment al)) = Some r \<and> rl_access (lr_lease r) = acc"
    and "at_resource_key (al_attachment al) = canonical_key k"
proof -
  from acquire_ok_admitted [OF assms] obtain t where t: "lookup (co_generations t) (canonical_key k) = Some g"
    "co_leases t = co_leases s" "co_fences t = co_fences s"
    "acquire_admit fser bytes w k acc scope g now ttl (canonical_key k) t = (Inr al, s')" .
  have "live_holders t (canonical_key k) now = live_holders s (canonical_key k) now" "fence_of t = fence_of s"
    using t(2,3) by (simp_all add: live_holders_def fence_of_def fun_eq_iff)
  with acquire_admit_ok [OF t(4,1)]
  show "\<forall>h \<in> set (live_holders s (canonical_key k) now). compatible_with acc (rl_access (lr_lease h))"
    "validate_exercise s' (al_handle al) (al_bearer al) (ow_binding_id w) g now = Inr (al_attachment al)"
    "at_fence (al_attachment al) = current_fence s' k"
    "current_fence s' k = (if is_exclusive acc then current_fence s k + 1 else max 1 (current_fence s k))"
    "\<exists>r. lookup (co_leases s') (at_lease_id (al_attachment al)) = Some r \<and> rl_access (lr_lease r) = acc"
    "at_resource_key (al_attachment al) = canonical_key k"
    by (simp_all add: admission_fence_def current_fence_def)
qed

text \<open>Admission: a successful acquire found every live holder of the resource compatible, and the
  returned handle and bearer can be exercised at once by the owner's binding at the observed generation,
  under the resource's current fence; an exclusive lease advanced that fence by one, an observation left
  an existing fence alone. With an incompatible live holder, a well-formed request at the current
  generation is answered by a conflict and nothing changes.\<close>

theorem acquire_contract:
  "(acquire fser bytes w k acc scope g now ttl s = (Inr al, s') \<longrightarrow>
     (\<forall>h \<in> set (live_holders s (canonical_key k) now). compatible_with acc (rl_access (lr_lease h))) \<and>
     validate_exercise s' (al_handle al) (al_bearer al) (ow_binding_id w) g now = Inr (al_attachment al) \<and>
     at_fence (al_attachment al) = current_fence s' k \<and>
     current_fence s' k = (if is_exclusive acc then current_fence s k + 1 else max 1 (current_fence s k))) \<and>
   (acquire_request_error w k scope g ttl = None \<longrightarrow> current_generation s k = Some g \<longrightarrow>
    q \<in> set (live_holders s (canonical_key k) now) \<longrightarrow> \<not> compatible_with acc (rl_access (lr_lease q)) \<longrightarrow>
    (\<exists>lid. acquire fser bytes w k acc scope g now ttl s = (Inl (LeConflict (canonical_key k) (access_as_str acc) lid), s)))"
proof (intro conjI impI)
  assume a: "acquire_request_error w k scope g ttl = None" "current_generation s k = Some g"
    "q \<in> set (live_holders s (canonical_key k) now)" "\<not> compatible_with acc (rl_access (lr_lease q))"
  then obtain b where "find (\<lambda>h. \<not> compatible_with acc (rl_access (lr_lease h))) (live_holders s (canonical_key k) now) = Some b"
    by (cases "find (\<lambda>h. \<not> compatible_with acc (rl_access (lr_lease h))) (live_holders s (canonical_key k) now)")
      (auto simp: find_None_iff)
  with a show "\<exists>lid. acquire fser bytes w k acc scope g now ttl s = (Inl (LeConflict (canonical_key k) (access_as_str acc) lid), s)"
    by (simp add: acquire_def Let_def current_generation_def acquire_admit_def)
qed (fact acquire_ok)+

theorem acquire_contract_witness:
  "let s = snd (demo_run [demo_acquire [CHR 0x07] Edit 1]) in
   \<exists>lid. acquire demo_fser [CHR 0x09] (demo_owner ''t'') demo_doc View ''scope'' 3 2 100 s =
     (Inl (LeConflict ''office_document:doc'' ''view'' lid), s)"
proof -
  let ?s = "snd (demo_run [demo_acquire [CHR 0x07] Edit 1])"
  let ?q = "hd (live_holders ?s ''office_document:doc'' 2)"
  have key: "canonical_key demo_doc = ''office_document:doc''" by code_simp
  have "live_holders ?s ''office_document:doc'' 2 \<noteq> []" by code_simp
  then have "?q \<in> set (live_holders ?s (canonical_key demo_doc) 2)" by (simp add: key)
  moreover have "\<not> compatible_with View (rl_access (lr_lease ?q))" by code_simp
  moreover have "acquire_request_error (demo_owner ''t'') demo_doc ''scope'' 3 100 = None" by code_simp
  moreover have "current_generation ?s demo_doc = Some 3" by code_simp
  ultimately show ?thesis
    using acquire_contract [of demo_fser "[CHR 0x09]" "demo_owner ''t''" demo_doc View "''scope''" 3 2 100 ?s]
    by (simp add: Let_def key)
qed

text \<open>Takeover evicts: when an exclusive takeover succeeds, the new handle and bearer are exercisable
  at once and no other lease of the resource is, whatever bearer, binding or generation is presented.\<close>

theorem takeover_evicts:
  assumes "admitted (lease_step fser) clock_ok xs (0, coordinator_new)"
    and "run (lease_step fser) xs (0, coordinator_new) = (clk, s)" "clk \<le> now" "is_exclusive acc"
    and "takeover fser bytes w k acc scope g now ttl s = (Inr out, s')"
  shows "validate_exercise s' (to_handle out) (to_bearer out) (ow_binding_id w) g now = Inr (to_attachment out) \<and>
    (\<forall>h b bd g' a. validate_exercise s' h b bd g' now = Inr a \<longrightarrow> at_resource_key a = canonical_key k \<longrightarrow>
       at_lease_id a = at_lease_id (to_attachment out))"
proof -
  from assms(5) obtain t al where acq: "acquire fser bytes w k acc scope g now ttl t = (Inr al, s')"
    and out: "to_handle out = al_handle al" "to_bearer out = al_bearer al" "to_attachment out = al_attachment al"
    by (auto simp: takeover_def Let_def case_prod_beta prod_eq_iff split: sum.splits)
  let ?x = "LTakeover bytes w k acc scope g now ttl"
  have step: "run (lease_step fser) (xs @ [?x]) (0, coordinator_new) = (now, s')"
    "admitted (lease_step fser) clock_ok (xs @ [?x]) (0, coordinator_new)"
    using assms by (simp_all add: run_append admitted_append lease_step_def op_clock_def clock_ok_def)
  have new: "validate_exercise s' (al_handle al) (al_bearer al) (ow_binding_id w) g now = Inr (al_attachment al)"
    and acc: "\<exists>r. lookup (co_leases s') (at_lease_id (al_attachment al)) = Some r \<and> rl_access (lr_lease r) = acc"
    using acquire_ok [OF acq] by blast+
  have key: "at_resource_key (al_attachment al) = canonical_key k"
    by (rule acquire_ok [OF acq])
  have "at_lease_id a = at_lease_id (al_attachment al)"
    if "validate_exercise s' h b bd g' now = Inr a" "at_resource_key a = canonical_key k" for h b bd g' a
  proof (rule ccontr)
    assume ne: "at_lease_id a \<noteq> at_lease_id (al_attachment al)"
    from exercisable_compatible [OF step(2,1) order_refl that(1) new ne] that(2) key acc assms(4)
    show False by (auto simp: is_exclusive_def)
  qed
  with new out show ?thesis by simp
qed

theorem takeover_evicts_witness:
  "let s = snd (demo_run [demo_acquire [CHR 0x07] Edit 1]);
       (r, s') = takeover demo_fser [CHR 0x09] (demo_owner ''t'') demo_doc Edit ''scope'' 3 2 100 s
   in (\<exists>out. r = Inr out \<and> validate_exercise s' (to_handle out) (to_bearer out) ''b'' 3 2 = Inr (to_attachment out))"
proof -
  let ?xs = "[demo_acquire [CHR 0x07] Edit 1]"
  let ?s = "snd (demo_run ?xs)"
  let ?r = "takeover demo_fser [CHR 0x09] (demo_owner ''t'') demo_doc Edit ''scope'' 3 2 100 ?s"
  have "admitted (lease_step demo_fser) clock_ok ?xs (0, coordinator_new)" by code_simp
  moreover have "run (lease_step demo_fser) ?xs (0, coordinator_new) = (1, ?s)"
    by (simp add: demo_run_def demo_acquire_def lease_step_def op_clock_def)
  moreover have "(case fst ?r of Inl _ \<Rightarrow> False | Inr _ \<Rightarrow> True)" by code_simp
  then obtain out where "fst ?r = Inr out" by (auto split: sum.splits)
  then have r: "?r = (Inr out, snd ?r)" by (metis prod.collapse)
  ultimately have "validate_exercise (snd ?r) (to_handle out) (to_bearer out) ''b'' 3 2 = Inr (to_attachment out)"
    using takeover_evicts [of demo_fser ?xs 1 ?s 2 Edit "[CHR 0x09]" "demo_owner ''t''" demo_doc "''scope''" 3 100 out "snd ?r"]
    by (simp add: is_exclusive_def demo_owner_def)
  with \<open>fst ?r = Inr out\<close> show ?thesis by (auto simp: Let_def case_prod_beta)
qed

section \<open>Fences, revocation, recovery\<close>

text \<open>Fence discipline: along every sequence of operations the fence of every resource never
  decreases, and a lease is exercisable only while it holds exactly the current fence of its resource; so a
  lease whose resource fence has moved past it can never be exercised again.\<close>

theorem fence_discipline:
  assumes "run (lease_step fser) xs (0, coordinator_new) = (clk, s)"
    and "run (lease_step fser) ys (clk, s) = (clk', s')"
    and "lookup (co_leases s') lid = Some r" "rl_fence (lr_lease r) < current_fence s (rl_resource (lr_lease r))"
  shows "current_fence s k \<le> current_fence s' k \<and>
    (lookup (co_handle_index s') h = Some lid \<longrightarrow> (\<exists>e. validate_exercise s' h b bd g now = Inl e))"
proof -
  have wf: "lease_wf s" using reachable_wf [of fser xs] assms(1) by simp
  have "admitted (lease_step fser) (\<lambda>_ st. lease_wf (snd st)) ys (clk, s)"
    by (rule admitted_lease_wf) (simp add: wf)
  from lease_fences.run_le [OF this] assms(2) have grow: "fences_grow s s'" by simp
  then have "rl_fence (lr_lease r) < fence_of s' (record_key r)"
    using assms(4) by (auto simp: fences_grow_def current_fence_def record_key_def intro: order_less_le_trans)
  then have "\<exists>e. validate_exercise s' h b bd g now = Inl e" if "lookup (co_handle_index s') h = Some lid"
    using that assms(3) validate_exercise_Inr [of s' h b bd g now]
    by (cases "validate_exercise s' h b bd g now") auto
  with grow show ?thesis by (simp add: fences_grow_def current_fence_def)
qed

theorem fence_discipline_witness:
  "let s = snd (demo_run [demo_acquire [CHR 0x07] Edit 1, LRevoke ''lease-1-1'' ''x'' 2]);
       s' = snd (run (lease_step demo_fser) [demo_acquire [CHR 0x09] Edit 3] (2, s))
   in current_fence s demo_doc \<le> current_fence s' demo_doc \<and> (\<exists>e. validate_exercise s' 1 [CHR 0x07] ''b'' 3 4 = Inl e)"
proof -
  let ?xs = "[demo_acquire [CHR 0x07] Edit 1, LRevoke ''lease-1-1'' ''x'' 2]" and ?ys = "[demo_acquire [CHR 0x09] Edit 3]"
  let ?s = "snd (demo_run ?xs)"
  let ?s' = "snd (run (lease_step demo_fser) ?ys (2, ?s))"
  let ?r = "the (lookup (co_leases ?s') ''lease-1-1'')"
  have "run (lease_step demo_fser) ?xs (0, coordinator_new) = (2, ?s)"
    "run (lease_step demo_fser) ?ys (2, ?s) = (3, ?s')"
    by (simp_all add: demo_run_def demo_acquire_def lease_step_def op_clock_def)
  moreover have "lookup (co_leases ?s') ''lease-1-1'' \<noteq> None" by code_simp
  then have "lookup (co_leases ?s') ''lease-1-1'' = Some ?r" by auto
  moreover have "rl_fence (lr_lease ?r) < current_fence ?s (rl_resource (lr_lease ?r))" by code_simp
  moreover have "lookup (co_handle_index ?s') 1 = Some ''lease-1-1''" by code_simp
  ultimately show ?thesis
    using fence_discipline [of demo_fser ?xs 2 ?s ?ys 3 ?s' "''lease-1-1''" ?r demo_doc 1 "[CHR 0x07]" "''b''" 3 4]
    by (simp add: Let_def)
qed

lemma secret_detail_refused:
  assumes "lf_detail f = Some d" "\<exists>word \<in> set FORBIDDEN_PROJECTION_KEYS. str_contains (to_lowercase d) word"
  shows "\<exists>e. fact_validate fser f = Inl e"
proof -
  from assms(2) obtain key where "find (\<lambda>key. str_contains (to_lowercase d) key) FORBIDDEN_PROJECTION_KEYS = Some key"
    by (cases "find (\<lambda>key. str_contains (to_lowercase d) key) FORBIDDEN_PROJECTION_KEYS") (auto simp: find_None_iff)
  with assms(1) show ?thesis by (simp add: fact_validate_def)
qed

text \<open>Revocation takes effect whether or not its fact is accepted: revoking a known, non-terminal
  lease marks it revoked, drops its holder and advances the fence of its resource by one, and this holds
  also when the detail text contains a secret-shaped word and the caller is told the request was invalid,
  in which case no durable fact is returned.\<close>

theorem revoke_effect:
  assumes "lookup (co_leases s) lid = Some r" "\<not> is_terminal (rl_state (lr_lease r))"
    and "revoke fser lid detail now s = (res, s')"
  shows "lease_state_of s' lid = Some LsRevoked \<and>
    current_fence s' (rl_resource (lr_lease r)) = current_fence s (rl_resource (lr_lease r)) + 1 \<and>
    (res = Inr f \<longrightarrow> records_state f = Some LsRevoked \<and> lf_fence f = current_fence s' (rl_resource (lr_lease r))) \<and>
    ((\<exists>word \<in> set FORBIDDEN_PROJECTION_KEYS. str_contains (to_lowercase detail) word) \<longrightarrow> (\<exists>e. res = Inl (LeInvalidRequest e)))"
proof -
  have live: "can_transition (rl_state (lr_lease r)) LsRevoked"
    using assms(2) by (cases "rl_state (lr_lease r)") (auto simp: can_transition_def is_terminal_def)
  let ?r' = "r\<lparr>lr_lease := (lr_lease r)\<lparr>rl_state := LsRevoked\<rparr>, lr_holder_live := False\<rparr>"
  let ?c = "canonical_key (rl_resource (lr_lease r))"
  let ?s' = "snd (bump_fence ?c (put_record lid ?r' s))"
  let ?f = "with_detail detail (fact_new lid LEASE_EVENT_REVOKED (fence_of s ?c + 1) (rl_resource_generation (lr_lease r)) now)"
  have eq: "revoke fser lid detail now s =
      (case fact_validate fser ?f of Inl e \<Rightarrow> (Inl (LeInvalidRequest e), ?s') | Inr _ \<Rightarrow> (Inr ?f, ?s'))"
    using assms(1) live by (simp add: revoke_def Let_def bump_fence_def record_key_def split: sum.split)
  then have s': "s' = ?s'" using assms(3) by (auto split: sum.splits)
  have fact: "res = Inr f \<longrightarrow> f = ?f" using eq assms(3) by (auto split: sum.splits)
  have detail: "lf_detail ?f = Some detail" and fence: "lf_fence ?f = fence_of s ?c + 1"
    and kind: "records_state ?f = Some LsRevoked"
    by (simp_all add: with_detail_def fact_new_def records_state_def lease_event_defs)
  have "\<exists>e. res = Inl (LeInvalidRequest e)"
    if "\<exists>word \<in> set FORBIDDEN_PROJECTION_KEYS. str_contains (to_lowercase detail) word"
    using secret_detail_refused [OF detail that, of fser] eq assms(3) by auto
  moreover have "lease_state_of s' lid = Some LsRevoked" "fence_of s' ?c = fence_of s ?c + 1"
    by (simp_all add: s' lease_state_of_def)
  ultimately show ?thesis using fact fence kind by (auto simp: current_fence_def)
qed

theorem revoke_effect_witness:
  "let s = snd (demo_run [demo_acquire [CHR 0x07] Edit 1]); (res, s') = revoke demo_fser ''lease-1-1'' ''token'' 2 s
   in lease_state_of s' ''lease-1-1'' = Some LsRevoked \<and> (\<exists>e. res = Inl (LeInvalidRequest e))"
proof -
  let ?s = "snd (demo_run [demo_acquire [CHR 0x07] Edit 1])"
  let ?r = "the (lookup (co_leases ?s) ''lease-1-1'')"
  let ?o = "revoke demo_fser ''lease-1-1'' ''token'' 2 ?s"
  have "lookup (co_leases ?s) ''lease-1-1'' \<noteq> None" by code_simp
  then have "lookup (co_leases ?s) ''lease-1-1'' = Some ?r" by auto
  moreover have "\<not> is_terminal (rl_state (lr_lease ?r))" by code_simp
  moreover have "\<exists>word \<in> set FORBIDDEN_PROJECTION_KEYS. str_contains (to_lowercase ''token'') word" by code_simp
  ultimately show ?thesis
    using revoke_effect [of ?s "''lease-1-1''" ?r demo_fser "''token''" 2 "fst ?o" "snd ?o"]
    by (simp add: Let_def case_prod_beta)
qed

text \<open>The recovery ladder: a lease is reclaimed only from the reclaim-pending state, with the holder's
  process verified dead and no effect in flight, and this advances the fence; it becomes reclaim-pending
  only from uncertain with a settled outcome. A refused step leaves the coordinator unchanged.\<close>

theorem recovery_ladder:
  "(reclaim fser lid pd nle now s = (Inr f, s') \<longrightarrow>
      lease_state_of s lid = Some LsReclaimPending \<and> pd \<and> nle \<and> lease_state_of s' lid = Some LsReclaimed \<and>
      records_state f = Some LsReclaimed) \<and>
   (lease_state_of s lid \<noteq> Some LsReclaimPending \<or> \<not> pd \<or> \<not> nle \<longrightarrow> snd (reclaim fser lid pd nle now s) = s) \<and>
   (reconcile fser lid out now s = (Inr (AdvancedToReclaim f), s') \<longrightarrow>
      lease_state_of s lid = Some LsUncertain \<and> is_settled out \<and> lease_state_of s' lid = Some LsReclaimPending) \<and>
   (lease_state_of s lid \<noteq> Some LsUncertain \<or> \<not> is_settled out \<longrightarrow> snd (reconcile fser lid out now s) = s)"
proof (cases "lookup (co_leases s) lid")
  case (Some r)
  have "snd (reconcile fser lid out now s) = s" if "rl_state (lr_lease r) \<noteq> LsUncertain \<or> \<not> is_settled out"
    using that Some by (auto simp: reconcile_def split: LeaseState.splits)
  moreover have "rl_state (lr_lease r) = LsUncertain \<and> is_settled out \<and> lease_state_of s' lid = Some LsReclaimPending"
    if "reconcile fser lid out now s = (Inr (AdvancedToReclaim f), s')"
    using that Some by (auto simp: reconcile_def Let_def lease_state_of_def split: LeaseState.splits if_splits sum.splits)
  moreover have "rl_state (lr_lease r) = LsReclaimPending \<and> pd \<and> nle \<and> lease_state_of s' lid = Some LsReclaimed \<and>
      records_state f = Some LsReclaimed" if "reclaim fser lid pd nle now s = (Inr f, s')"
    using that Some
    by (auto simp: reclaim_def Let_def case_prod_beta lease_state_of_def with_detail_def fact_new_def records_state_def
        lease_event_defs split: if_splits sum.splits)
  moreover have "snd (reclaim fser lid pd nle now s) = s" if "rl_state (lr_lease r) \<noteq> LsReclaimPending \<or> \<not> pd \<or> \<not> nle"
    using that Some by (auto simp: reclaim_def)
  moreover have "lease_state_of s lid = Some (rl_state (lr_lease r))" using Some by (simp add: lease_state_of_def)
  ultimately show ?thesis by simp metis
qed (simp add: reclaim_def reconcile_def lease_state_of_def)

theorem recovery_ladder_witness:
  "let s = snd (demo_run [demo_acquire [CHR 0x07] Edit 1, LLost ''lease-1-1'' 2])
   in lease_state_of s ''lease-1-1'' = Some LsUncertain \<and>
      snd (reclaim demo_fser ''lease-1-1'' True True 3 s) = s \<and>
      snd (reconcile demo_fser ''lease-1-1'' PeUncertain 3 s) = s"
proof -
  let ?s = "snd (demo_run [demo_acquire [CHR 0x07] Edit 1, LLost ''lease-1-1'' 2])"
  have "lease_state_of ?s ''lease-1-1'' = Some LsUncertain" by code_simp
  with recovery_ladder [of demo_fser "''lease-1-1''" True True 3 ?s _ _ PeUncertain] show ?thesis
    by (simp add: Let_def is_settled_def)
qed

section \<open>Replay\<close>

definition no_holders :: "Coordinator \<Rightarrow> bool" where
  "no_holders s \<longleftrightarrow> (\<forall>lid r. lookup (co_leases s) lid = Some r \<longrightarrow> \<not> lr_holder_live r)"

lemma no_holders_put: "no_holders s \<Longrightarrow> \<not> lr_holder_live r \<Longrightarrow> no_holders (put_record lid r s)"
  by (simp add: no_holders_def)

lemma no_holders_leases: "no_holders s \<Longrightarrow> co_leases s' = co_leases s \<Longrightarrow> no_holders s'"
  by (simp add: no_holders_def)

lemma apply_known_no_holders:
  assumes "no_holders s" "lookup (co_leases s) lid = Some r"
  shows "no_holders (snd (apply_known f target r s))"
proof -
  have "\<not> lr_holder_live r" using assms by (simp add: no_holders_def)
  with assms(1) show ?thesis
    by (simp add: apply_known_def Let_def raise_put_commute no_holders_put no_holders_leases [of s])
qed

lemma apply_unknown_no_holders:
  assumes "no_holders s"
  shows "no_holders (snd (apply_unknown f target recovery bytes s))"
proof -
  have "no_holders (put_record lid (replayed_record f w k acc target recovery bytes) t)"
    if "co_leases t = co_leases s" for lid w k acc t
    using that assms by (intro no_holders_put) (simp_all add: no_holders_def replayed_record_def)
  then show ?thesis
    using assms unfolding apply_unknown_def Let_def by (simp add: push_attachment_def split: option.split sum.split)
qed

lemma apply_fact_no_holders: "no_holders s \<Longrightarrow> no_holders (snd (apply_fact fser bytes f recovery s))"
  by (auto simp: apply_fact_def apply_known_no_holders apply_unknown_no_holders split: option.split sum.split)

lemma rebuild_one_snd:
  "snd (rebuild_one j fser bytes recovery e st) = snd st \<or>
   (\<exists>f. snd (rebuild_one j fser bytes recovery e st) = snd (apply_fact fser (bytes (ev_seq e)) f recovery (snd st)))"
  by (auto simp: rebuild_one_def Let_def case_prod_beta split: option.splits sum.splits)

lemma rebuild_invariant:
  assumes "P s" "\<And>b f t. P t \<Longrightarrow> P (snd (apply_fact fser b f recovery t))"
  shows "P (snd (rebuild_from_envelopes j fser bytes es cursor recovery s))"
proof -
  have "P (snd (fold (rebuild_one j fser bytes recovery) xs st))" if "P (snd st)" for xs st
    using that
  proof (induction xs arbitrary: st)
    case (Cons e xs)
    have "P (snd (rebuild_one j fser bytes recovery e st))"
      using rebuild_one_snd [of j fser bytes recovery e st] assms(2) Cons.prems by auto
    then show ?case using Cons.IH by simp
  qed simp
  then show ?thesis using assms(1) by (simp add: rebuild_from_envelopes_def)
qed

lemma rebuilt_wf:
  "lease_wf (snd (rebuild_from_envelopes j fser bytes es cursor recovery coordinator_new)) \<and>
   no_holders (snd (rebuild_from_envelopes j fser bytes es cursor recovery coordinator_new))"
proof (rule rebuild_invariant)
  show "lease_wf coordinator_new \<and> no_holders coordinator_new"
    using lease_inv_new by (simp add: lease_inv_def no_holders_def coordinator_new_def)
qed (auto intro: apply_fact_no_holders moves_wf apply_fact_moves)

text \<open>Replay restores facts, not authority: whatever event stream a fresh coordinator is rebuilt from,
  in recovery mode or not, no rebuilt lease has a live holder, so none counts as a holder at any time, and
  the first exclusive lease admitted on a resource is fenced strictly above every rebuilt lease of it.\<close>

theorem rebuild_grants_nothing:
  assumes "rebuild_from_envelopes j fser bytes es cursor recovery coordinator_new = (rep, s)"
  shows "live_holders s canon now = [] \<and>
    (lookup (co_leases s) lid = Some r \<longrightarrow> rl_resource (lr_lease r) = k \<longrightarrow> is_exclusive acc \<longrightarrow>
     acquire fser b w k acc scope g now ttl s = (Inr al, s') \<longrightarrow> rl_fence (lr_lease r) < at_fence (al_attachment al))"
proof -
  have wf: "lease_wf s" "no_holders s"
    using rebuilt_wf [of j fser bytes es cursor recovery] assms by simp_all
  then have "wf_map (co_leases s)" by (simp add: lease_wf_def)
  with wf(2) have "live_holders s canon now = []"
    by (auto simp: live_holders_def live_at_def no_holders_def filter_empty_conv wf_map_def)
  moreover have "rl_fence (lr_lease r) < at_fence (al_attachment al)"
    if "lookup (co_leases s) lid = Some r" "rl_resource (lr_lease r) = k" "is_exclusive acc"
      "acquire fser b w k acc scope g now ttl s = (Inr al, s')"
    using lease_wf_record [OF wf(1) that(1)] acquire_ok(3,4) [OF that(4)] that(2,3)
    by (simp add: record_ok_def current_fence_def record_key_def)
  ultimately show ?thesis by blast
qed

definition demo_envelope :: "nat \<Rightarrow> LeaseLifecycleFact \<Rightarrow> obj_json EventEnvelope" where
  "demo_envelope n f =
     \<lparr> ev_event_id = ''e'', ev_seq = n, ev_work_id = ''w'', ev_run_id = None, ev_step_id = None,
       ev_kind = lf_kind f, ev_payload = envelope_payload obj_build f, ev_at_ms = n, ev_schema_version = 1 \<rparr>"

definition demo_rebuild :: "bool \<Rightarrow> LeaseLifecycleFact list \<Rightarrow> RebuildReport \<times> Coordinator" where
  "demo_rebuild recovery fs =
     rebuild_from_envelopes obj_api demo_fser (\<lambda>_. [CHR 0x05]) (map2 demo_envelope [1..<Suc (length fs)] fs) 0 recovery
       coordinator_new"

theorem rebuild_grants_nothing_witness:
  "let f = acquired_fact ''l'' (demo_owner ''s'') demo_doc Edit ''scope'' 3 4 1; (rep, s) = demo_rebuild False [f]
   in rr_applied rep = 1 \<and> lease_state_of s ''l'' = Some LsActive \<and> live_holders s ''office_document:doc'' 1 = []"
proof -
  let ?o = "demo_rebuild False [acquired_fact ''l'' (demo_owner ''s'') demo_doc Edit ''scope'' 3 4 1]"
  have "rr_applied (fst ?o) = 1" "lease_state_of (snd ?o) ''l'' = Some LsActive" by code_simp+
  moreover have "live_holders (snd ?o) ''office_document:doc'' 1 = []"
    using rebuild_grants_nothing [OF prod.collapse [symmetric, of ?o, unfolded demo_rebuild_def]]
    by (simp add: demo_rebuild_def)
  ultimately show ?thesis by (simp add: Let_def case_prod_beta)
qed

text \<open>Replay is idempotent outside recovery: applying an accepted fact a second time changes nothing.\<close>

theorem replay_idempotent:
  assumes "apply_fact fser b1 f False s = (Inr x, s')"
  shows "snd (apply_fact fser b2 f False s') = s'"
proof -
  from assms obtain target where ok: "fact_validate fser f = Inr ()" "records_state f = Some target"
    by (auto simp: apply_fact_def split: sum.splits option.splits)
  have "\<exists>r. lookup (co_leases s') (lf_lease_id f) = Some r \<and> rl_state (lr_lease r) = target \<and> rl_fence (lr_lease r) = lf_fence f"
  proof (cases "lookup (co_leases s) (lf_lease_id f)")
    case (Some r)
    then have "apply_known f target r s = (Inr x, s')" using assms ok by (simp add: apply_fact_def)
    with Some show ?thesis by (auto simp: apply_known_def Let_def raise_put_commute split: if_splits)
  next
    case None
    then have "apply_unknown f target False b1 s = (Inr x, s')" using assms ok by (simp add: apply_fact_def)
    then show ?thesis
      by (auto simp: apply_unknown_def Let_def replayed_record_def split: if_splits option.splits sum.splits)
  qed
  then obtain r where r: "lookup (co_leases s') (lf_lease_id f) = Some r"
    "rl_state (lr_lease r) = target" "rl_fence (lr_lease r) = lf_fence f" by blast
  then have "apply_fact fser b2 f False s' = apply_known f target r s'" using ok by (simp add: apply_fact_def)
  with r show ?thesis by (simp add: apply_known_def Let_def)
qed

theorem replay_idempotent_witness:
  "let f = acquired_fact ''l'' (demo_owner ''s'') demo_doc Edit ''scope'' 3 4 1;
       s' = snd (apply_fact demo_fser [CHR 0x05] f False coordinator_new)
   in snd (apply_fact demo_fser [CHR 0x06] f False s') = s'"
proof -
  let ?f = "acquired_fact ''l'' (demo_owner ''s'') demo_doc Edit ''scope'' 3 4 1"
  let ?o = "apply_fact demo_fser [CHR 0x05] ?f False coordinator_new"
  have "fst ?o = Inr True" by code_simp
  then have "?o = (Inr True, snd ?o)" by (metis prod.collapse)
  from replay_idempotent [OF this, of "[CHR 0x06]"] show ?thesis by (simp add: Let_def)
qed

text \<open>Reconciliation and replay disagree on one transition: the reclaim-pending fact that a successful
  reconciliation emits for an uncertain lease is refused when it is applied to the state it was emitted in,
  so a rebuilt coordinator cannot follow the live one to reclaim-pending.\<close>

theorem reclaim_pending_not_replayable:
  assumes "reconcile fser lid out now s = (Inr (AdvancedToReclaim f), s')"
  shows "records_state f = Some LsReclaimPending \<and> (\<exists>e. apply_fact fser b f recovery s = (Inl e, s))"
proof -
  from assms obtain r where r: "lookup (co_leases s) lid = Some r" "rl_state (lr_lease r) = LsUncertain"
    and f: "f = with_detail (''effect outcome='' @ outcome_as_str out)
      (fact_new lid LEASE_EVENT_RECLAIM_PENDING (rl_fence (lr_lease r)) (rl_resource_generation (lr_lease r)) now)"
    and ok: "fact_validate fser f = Inr ()"
    by (auto simp: reconcile_def Let_def split: option.splits LeaseState.splits if_splits sum.splits)
  have rec: "records_state f = Some LsReclaimPending" "lf_lease_id f = lid"
    by (simp_all add: f with_detail_def fact_new_def records_state_def lease_event_defs)
  with ok r have "apply_fact fser b f recovery s = apply_known f LsReclaimPending r s"
    by (simp add: apply_fact_def)
  with r rec show ?thesis by (auto simp: apply_known_def Let_def can_transition_def is_terminal_def)
qed

theorem reclaim_pending_not_replayable_witness:
  "let s = snd (demo_run [demo_acquire [CHR 0x07] Edit 1, LLost ''lease-1-1'' 2])
   in \<exists>f s' e. reconcile demo_fser ''lease-1-1'' PeSuccess 3 s = (Inr (AdvancedToReclaim f), s') \<and>
        apply_fact demo_fser [CHR 0x05] f True s = (Inl e, s)"
proof -
  let ?s = "snd (demo_run [demo_acquire [CHR 0x07] Edit 1, LLost ''lease-1-1'' 2])"
  let ?o = "reconcile demo_fser ''lease-1-1'' PeSuccess 3 ?s"
  have "(case fst ?o of Inr (AdvancedToReclaim _) \<Rightarrow> True | _ \<Rightarrow> False)" by code_simp
  then obtain f where "fst ?o = Inr (AdvancedToReclaim f)" by (auto split: sum.splits ReconcileOutcome.splits)
  then have "?o = (Inr (AdvancedToReclaim f), snd ?o)" by (metis prod.collapse)
  from reclaim_pending_not_replayable [OF this, of "[CHR 0x05]" True] this show ?thesis
    unfolding Let_def by blast
qed

text \<open>In recovery mode a replayed acquisition becomes an uncertain lease, and the renewal fact that follows
  it puts the lease back to active.\<close>

lemma recovery_replay_reactivates:
  "lease_state_of (snd (demo_rebuild True [acquired_fact ''l'' (demo_owner ''s'') demo_doc Edit ''scope'' 3 4 1])) ''l''
     = Some LsUncertain \<and>
   lease_state_of (snd (demo_rebuild True [acquired_fact ''l'' (demo_owner ''s'') demo_doc Edit ''scope'' 3 4 1,
       fact_new ''l'' LEASE_EVENT_RENEWED 4 3 2])) ''l'' = Some LsActive"
  by (rule conjI) code_simp+

end
