(* ===== verification/Ordered_Map.thy ===== *)
theory Ordered_Map
  imports Prelude
begin

text \<open>
  A \<open>BTreeMap<String, V>\<close> as an association list kept in ascending key order (the order in which the
  sources iterate over it). Lookups are those of \<^const>\<open>map_of\<close> and do not depend on the order;
  \<open>bt_sorted\<close> is the representation invariant.
\<close>

fun bt_insert :: "'k::linorder \<Rightarrow> 'v \<Rightarrow> ('k \<times> 'v) list \<Rightarrow> ('k \<times> 'v) list" where
  "bt_insert k v [] = [(k, v)]"
| "bt_insert k v ((a, b) # m) =
     (if k < a then (k, v) # (a, b) # m
      else if k = a then (k, v) # m
      else (a, b) # bt_insert k v m)"

abbreviation bt_remove :: "'k \<Rightarrow> ('k \<times> 'v) list \<Rightarrow> ('k \<times> 'v) list" where
  "bt_remove \<equiv> AList.delete"

definition bt_sorted :: "('k::linorder \<times> 'v) list \<Rightarrow> bool" where
  "bt_sorted m \<longleftrightarrow> sorted_wrt (<) (map fst m)"

text \<open>\<open>entry(k).or_default()\<close> followed by a read, for maps of maps and maps of lists.\<close>

definition bt_inner :: "('k \<times> 'v list) list \<Rightarrow> 'k \<Rightarrow> 'v list" where
  "bt_inner m k = (case lookup m k of None \<Rightarrow> [] | Some v \<Rightarrow> v)"

definition bt_insert2 ::
  "'k::linorder \<Rightarrow> 'l::linorder \<Rightarrow> 'v \<Rightarrow> ('k \<times> ('l \<times> 'v) list) list \<Rightarrow> ('k \<times> ('l \<times> 'v) list) list" where
  "bt_insert2 k l v m = bt_insert k (bt_insert l v (bt_inner m k)) m"

definition bt_get2 :: "('k \<times> ('l \<times> 'v) list) list \<Rightarrow> 'k \<Rightarrow> 'l \<Rightarrow> 'v option" where
  "bt_get2 m k l = lookup (bt_inner m k) l"

lemma lookup_bt_insert [simp]:
  "lookup (bt_insert k v m) k' = (if k' = k then Some v else lookup m k')"
  by (induction k v m rule: bt_insert.induct) auto

lemma bt_insert_twice [simp]: "bt_insert k v (bt_insert k v' m) = bt_insert k v m"
  by (induction k v' m rule: bt_insert.induct) auto

lemma bt_inner_insert [simp]: "bt_inner (bt_insert k v m) k' = (if k' = k then v else bt_inner m k')"
  by (simp add: bt_inner_def)

lemma bt_inner_Nil [simp]: "bt_inner [] k = []"
  by (simp add: bt_inner_def)

lemma bt_inner_remove [simp]: "bt_inner (bt_remove k m) k' = (if k' = k then [] else bt_inner m k')"
  by (simp add: bt_inner_def)

lemma bt_get2_insert [simp]:
  "bt_get2 (bt_insert k v m) k' l = (if k' = k then lookup v l else bt_get2 m k' l)"
  by (simp add: bt_get2_def)

lemma bt_get2_insert2 [simp]:
  "bt_get2 (bt_insert2 k l v m) k' l' = (if k' = k \<and> l' = l then Some v else bt_get2 m k' l')"
  by (simp add: bt_get2_def bt_insert2_def)

lemma bt_get2_Nil [simp]: "bt_get2 [] k l = None"
  by (simp add: bt_get2_def)

lemma fst_set_bt_insert: "fst ` set (bt_insert k v m) = insert k (fst ` set m)"
  by (induction k v m rule: bt_insert.induct) auto

lemma set_bt_insert: "set (bt_insert k v m) \<subseteq> insert (k, v) (set m)"
  by (induction k v m rule: bt_insert.induct) auto

lemma bt_insert_in: "(k, v) \<in> set (bt_insert k v m)"
  by (induction k v m rule: bt_insert.induct) auto

lemma bt_sorted_Nil [simp]: "bt_sorted []"
  by (simp add: bt_sorted_def)

lemma bt_sorted_insert [simp, intro]: "bt_sorted m \<Longrightarrow> bt_sorted (bt_insert k v m)"
  unfolding bt_sorted_def
proof (induction k v m rule: bt_insert.induct)
  case (2 k v a b m)
  have "x < a \<or> x = a \<or> a < x" for x by (rule less_linear)
  have "\<forall>x \<in> fst ` set (bt_insert k v m). a < x" if "\<not> k < a" "k \<noteq> a"
    using that 2 by (auto simp: fst_set_bt_insert)
  with 2 show ?case by (auto intro: less_trans)
qed simp

lemma bt_sorted_remove [simp, intro]: "bt_sorted m \<Longrightarrow> bt_sorted (bt_remove k m)"
  by (auto simp: bt_sorted_def AList.delete_eq sorted_wrt_map intro: sorted_wrt_filter)

lemma bt_sorted_distinct: "bt_sorted m \<Longrightarrow> distinct (map fst m)"
  unfolding bt_sorted_def by (induction m) auto

lemma bt_sorted_entry: "bt_sorted m \<Longrightarrow> (k, v) \<in> set m \<longleftrightarrow> lookup m k = Some v"
  using bt_sorted_distinct [of m] by auto

end
