(* ===== verification/Work_Types.thy ===== *)
theory Work_Types
  imports Lease_Coordinator Ordered_Map
begin

text \<open>
  The Work vocabulary of \<open>everyaios-types\<close>: the lifecycle states of a Work and the legal transitions
  between them, run phases, durable waits, retry classes, session kinds, binding lifecycles, the
  turn-atomic file change sets (\<open>turn_snapshot.rs\<close>) and the delegation facts (\<open>delegation.rs\<close>).
  Constructors carry a short prefix where the bare name is used by another component.
\<close>

section \<open>Work lifecycle\<close>

datatype WorkState =
    WsCreated
  | WsPlanning
  | WsReady
  | WsRunning
  | WsWaitingTool
  | WsWaitingApproval
  | WsWaitingUser
  | WsCheckpointed
  | WsVerifying
  | WsCompleted
  | WsFailed
  | WsCancelled
  | WsPaused
  | WsRecoverable

datatype WorkRunPhase = PhActive | PhWaitingTool | PhWaitingApproval | PhWaitingUser | PhCheckpointed

fun phase_as_str :: "WorkRunPhase \<Rightarrow> string" where
  "phase_as_str PhActive = ''active''"
| "phase_as_str PhWaitingTool = ''waiting_tool''"
| "phase_as_str PhWaitingApproval = ''waiting_approval''"
| "phase_as_str PhWaitingUser = ''waiting_user''"
| "phase_as_str PhCheckpointed = ''checkpointed''"

fun phase_work_state :: "WorkRunPhase \<Rightarrow> WorkState" where
  "phase_work_state PhActive = WsRunning"
| "phase_work_state PhWaitingTool = WsWaitingTool"
| "phase_work_state PhWaitingApproval = WsWaitingApproval"
| "phase_work_state PhWaitingUser = WsWaitingUser"
| "phase_work_state PhCheckpointed = WsCheckpointed"

fun work_state_str :: "WorkState \<Rightarrow> string" where
  "work_state_str WsCreated = ''created''"
| "work_state_str WsPlanning = ''planning''"
| "work_state_str WsReady = ''ready''"
| "work_state_str WsRunning = ''running''"
| "work_state_str WsWaitingTool = ''waiting_tool''"
| "work_state_str WsWaitingApproval = ''waiting_approval''"
| "work_state_str WsWaitingUser = ''waiting_user''"
| "work_state_str WsCheckpointed = ''checkpointed''"
| "work_state_str WsVerifying = ''verifying''"
| "work_state_str WsCompleted = ''completed''"
| "work_state_str WsFailed = ''failed''"
| "work_state_str WsCancelled = ''cancelled''"
| "work_state_str WsPaused = ''paused''"
| "work_state_str WsRecoverable = ''recoverable''"

definition work_state_try_parse :: "string \<Rightarrow> WorkState option" where
  "work_state_try_parse s =
     (if s = ''created'' then Some WsCreated
      else if s = ''planning'' then Some WsPlanning
      else if s = ''ready'' then Some WsReady
      else if s = ''running'' then Some WsRunning
      else if s = ''waiting_tool'' \<or> s = ''waiting-tool'' then Some WsWaitingTool
      else if s = ''waiting_approval'' \<or> s = ''waiting-approval'' then Some WsWaitingApproval
      else if s = ''waiting_user'' \<or> s = ''waiting-user'' then Some WsWaitingUser
      else if s = ''checkpointed'' then Some WsCheckpointed
      else if s = ''verifying'' then Some WsVerifying
      else if s = ''completed'' then Some WsCompleted
      else if s = ''failed'' then Some WsFailed
      else if s = ''cancelled'' \<or> s = ''canceled'' then Some WsCancelled
      else if s = ''paused'' then Some WsPaused
      else if s = ''recoverable'' then Some WsRecoverable
      else None)"

definition work_state_parse :: "string \<Rightarrow> WorkState" where
  "work_state_parse s = (case work_state_try_parse s of None \<Rightarrow> WsCreated | Some st \<Rightarrow> st)"

definition work_is_running :: "WorkState \<Rightarrow> bool" where
  "work_is_running s \<longleftrightarrow>
     s = WsRunning \<or> s = WsWaitingTool \<or> s = WsWaitingApproval \<or> s = WsWaitingUser \<or> s = WsCheckpointed"

fun work_run_phase :: "WorkState \<Rightarrow> WorkRunPhase option" where
  "work_run_phase WsRunning = Some PhActive"
| "work_run_phase WsWaitingTool = Some PhWaitingTool"
| "work_run_phase WsWaitingApproval = Some PhWaitingApproval"
| "work_run_phase WsWaitingUser = Some PhWaitingUser"
| "work_run_phase WsCheckpointed = Some PhCheckpointed"
| "work_run_phase _ = None"

definition work_is_resumable :: "WorkState \<Rightarrow> bool" where
  "work_is_resumable s \<longleftrightarrow> s = WsPaused \<or> s = WsCheckpointed \<or> s = WsRecoverable \<or> s = WsWaitingUser"

definition work_is_terminal :: "WorkState \<Rightarrow> bool" where
  "work_is_terminal s \<longleftrightarrow> s = WsCompleted \<or> s = WsFailed \<or> s = WsCancelled"

text \<open>The match of \<open>can_transition\<close> below its two early returns.\<close>

fun work_edges :: "WorkState \<Rightarrow> WorkState list" where
  "work_edges WsCreated = [WsPlanning, WsReady, WsCancelled]"
| "work_edges WsPlanning = [WsReady, WsFailed, WsCancelled]"
| "work_edges WsReady = [WsRunning, WsWaitingTool, WsWaitingApproval, WsWaitingUser, WsCancelled]"
| "work_edges WsRunning =
     [WsWaitingTool, WsWaitingApproval, WsWaitingUser, WsCheckpointed, WsVerifying, WsCompleted, WsFailed,
      WsCancelled, WsPaused, WsRecoverable]"
| "work_edges WsWaitingTool =
     [WsRunning, WsFailed, WsCancelled, WsPaused, WsRecoverable, WsWaitingTool, WsWaitingApproval, WsWaitingUser]"
| "work_edges WsWaitingApproval =
     [WsRunning, WsFailed, WsCancelled, WsPaused, WsRecoverable, WsWaitingTool, WsWaitingApproval, WsWaitingUser]"
| "work_edges WsWaitingUser =
     [WsRunning, WsFailed, WsCancelled, WsPaused, WsRecoverable, WsWaitingTool, WsWaitingApproval, WsWaitingUser]"
| "work_edges WsCheckpointed = [WsRunning, WsFailed, WsCancelled, WsPaused, WsRecoverable]"
| "work_edges WsVerifying = [WsCompleted, WsFailed, WsCancelled, WsRecoverable]"
| "work_edges WsPaused = [WsRunning, WsFailed, WsCancelled, WsRecoverable]"
| "work_edges WsRecoverable = [WsRunning, WsFailed, WsCancelled]"
| "work_edges WsCompleted = []"
| "work_edges WsFailed = []"
| "work_edges WsCancelled = []"

definition work_can_transition :: "WorkState \<Rightarrow> WorkState \<Rightarrow> bool" where
  "work_can_transition s next =
     (if s = next then True else if work_is_terminal s then False else next \<in> set (work_edges s))"

lemma work_can_refl [simp]: "work_can_transition s s"
  by (simp add: work_can_transition_def)

lemma work_terminal_final: "work_is_terminal s \<Longrightarrow> work_can_transition s t \<longleftrightarrow> t = s"
  by (auto simp: work_can_transition_def)

lemma work_state_roundtrip [simp]: "work_state_try_parse (work_state_str s) = Some s"
  by (cases s) (simp_all add: work_state_try_parse_def)

lemma work_phase_roundtrip: "work_run_phase s = Some p \<longleftrightarrow> phase_work_state p = s"
  by (cases s; cases p) auto

section \<open>Durable waits\<close>

datatype WaitReason = WrApproval | WrUserInput | WrTimer | WrExternalEvent | WrResource | WrAgent | WrRetry

fun wait_reason_str :: "WaitReason \<Rightarrow> string" where
  "wait_reason_str WrApproval = ''approval''"
| "wait_reason_str WrUserInput = ''user_input''"
| "wait_reason_str WrTimer = ''timer''"
| "wait_reason_str WrExternalEvent = ''external_event''"
| "wait_reason_str WrResource = ''resource''"
| "wait_reason_str WrAgent = ''agent''"
| "wait_reason_str WrRetry = ''retry''"

definition wait_reason_parse :: "string \<Rightarrow> WaitReason option" where
  "wait_reason_parse s =
     (if s = ''approval'' then Some WrApproval
      else if s = ''user_input'' \<or> s = ''user-input'' then Some WrUserInput
      else if s = ''timer'' then Some WrTimer
      else if s = ''external_event'' \<or> s = ''external-event'' then Some WrExternalEvent
      else if s = ''resource'' then Some WrResource
      else if s = ''agent'' then Some WrAgent
      else if s = ''retry'' then Some WrRetry
      else None)"

fun reason_work_state :: "WaitReason \<Rightarrow> WorkState" where
  "reason_work_state WrApproval = WsWaitingApproval"
| "reason_work_state WrUserInput = WsWaitingUser"
| "reason_work_state _ = WsPaused"

record WaitCondition =
  wc_reason :: WaitReason
  wc_detail :: "string option"
  wc_deadline_ms :: "nat option"
  wc_resume_on :: "string option"

definition wait_new :: "WaitReason \<Rightarrow> WaitCondition" where
  "wait_new r = \<lparr> wc_reason = r, wc_detail = None, wc_deadline_ms = None, wc_resume_on = None \<rparr>"

definition wait_with_detail :: "string \<Rightarrow> WaitCondition \<Rightarrow> WaitCondition" where
  "wait_with_detail d w = w\<lparr>wc_detail := Some d\<rparr>"

definition wait_with_deadline_ms :: "nat \<Rightarrow> WaitCondition \<Rightarrow> WaitCondition" where
  "wait_with_deadline_ms t w = w\<lparr>wc_deadline_ms := Some t\<rparr>"

definition wait_with_resume_on :: "string \<Rightarrow> WaitCondition \<Rightarrow> WaitCondition" where
  "wait_with_resume_on x w = w\<lparr>wc_resume_on := Some x\<rparr>"

definition wait_work_state :: "WaitCondition \<Rightarrow> WorkState" where
  "wait_work_state w = reason_work_state (wc_reason w)"

lemma wait_reason_roundtrip [simp]: "wait_reason_parse (wait_reason_str r) = Some r"
  by (cases r) (simp_all add: wait_reason_parse_def)

section \<open>Retry classes, sessions, bindings, uncertainty\<close>

datatype IdempotencyClass = SafeRetry | UnsafeRetry | SameKey | ConfirmAfterUncertain

fun idempotency_str :: "IdempotencyClass \<Rightarrow> string" where
  "idempotency_str SafeRetry = ''safe_retry''"
| "idempotency_str UnsafeRetry = ''unsafe_retry''"
| "idempotency_str SameKey = ''same_key''"
| "idempotency_str ConfirmAfterUncertain = ''confirm_after_uncertain''"

datatype SessionKind = SkInteractive | SkAutomation | SkDelegated

fun session_kind_str :: "SessionKind \<Rightarrow> string" where
  "session_kind_str SkInteractive = ''interactive''"
| "session_kind_str SkAutomation = ''automation''"
| "session_kind_str SkDelegated = ''delegated''"

definition session_kind_parse :: "string \<Rightarrow> SessionKind" where
  "session_kind_parse s =
     (if s = ''automation'' then SkAutomation else if s = ''delegated'' then SkDelegated else SkInteractive)"

definition chat_is_normal :: "SessionKind \<Rightarrow> bool" where
  "chat_is_normal k \<longleftrightarrow> k = SkInteractive"

datatype AgentProtocol = ProtoAcp | ProtoModelOnly

datatype AgentGovernanceMode = GovernedMediated | SelfContained | NotGoverned

datatype BindingLifecycle = BlActive | BlParked | BlResuming | BlDead | BlUnavailable

record BindingUsage =
  bu_input_tokens :: nat
  bu_output_tokens :: nat
  bu_cost_micros :: nat

record AgentBinding =
  ab_binding_id :: string
  ab_session_id :: string
  ab_work_id :: string
  ab_agent_id :: string
  ab_adapter_id :: "string option"
  ab_protocol :: AgentProtocol
  ab_provider_session_id :: "string option"
  ab_model :: "string option"
  ab_mode :: "string option"
  ab_capability_manifest :: "string list"
  ab_governance_mode :: AgentGovernanceMode
  ab_bridge_id :: "string option"
  ab_state :: BindingLifecycle
  ab_usage :: BindingUsage
  ab_last_event_seq :: nat
  ab_private_state_ref :: "string option"

datatype EffectUncertainty = UncNone | UnknownOutcome | UncPartial

datatype AutonomyLevel = AlSandbox | AlAsk | AlAuto | AlMaximum

definition CANONICAL_SCHEMA_VERSION :: nat where
  "CANONICAL_SCHEMA_VERSION = 1"

section \<open>Lease errors as text\<close>

fun lease_error_str :: "LeaseError \<Rightarrow> string" where
  "lease_error_str (LeConflict k a h) = ''lease conflict on '' @ k @ '': '' @ a @ '' refused by holder '' @ h"
| "lease_error_str (LeStaleResource k obs cur) =
     ''stale resource '' @ k @ '': observed generation '' @ show_nat obs @ '', current '' @ show_nat cur"
| "lease_error_str (LeStaleLease l f cur) =
     ''stale lease '' @ l @ '': fence '' @ show_nat f @ '' is not current '' @ show_nat cur"
| "lease_error_str (LeUnknownLease l) = ''unknown lease '' @ l"
| "lease_error_str LeUnknownHandle = ''unknown lease handle''"
| "lease_error_str (LeBearerMismatch l) = ''lease possession proof mismatch for '' @ l"
| "lease_error_str (LeNotActive l st) = ''lease '' @ l @ '' is '' @ st @ '', not exercisable''"
| "lease_error_str (LeWrongBinding l) = ''lease '' @ l @ '' is bound to another actor binding''"
| "lease_error_str (LeHolderNotLive l) = ''lease '' @ l @ '' holder is not live; reconcile first''"
| "lease_error_str (LeExpired l) = ''lease '' @ l @ '' expired''"
| "lease_error_str (LeMustReconcileFirst l) = ''lease '' @ l @ '' must be reconciled before reclaim''"
| "lease_error_str (LeHolderMayBeLive l) = ''lease '' @ l @ '' reclaim refused: holder may still be live''"
| "lease_error_str (LeStaleFact l f cur) =
     ''stale lease fact for '' @ l @ '': fence '' @ show_nat f @ '' behind '' @ show_nat cur"
| "lease_error_str (LeInvalidRequest m) = ''invalid lease request: '' @ m"

section \<open>Turn-atomic file change sets\<close>

definition ROLLED_BACK_DUE_TO_FAILURE :: string where
  "ROLLED_BACK_DUE_TO_FAILURE = ''RolledBackDueToFailure''"

datatype FileCaptureKind = FcBytes | FcAbsentMarker

fun capture_as_str :: "FileCaptureKind \<Rightarrow> string" where
  "capture_as_str FcBytes = ''bytes''"
| "capture_as_str FcAbsentMarker = ''absent_marker''"

definition capture_parse :: "string \<Rightarrow> FileCaptureKind option" where
  "capture_parse s = (if s = ''bytes'' then Some FcBytes else if s = ''absent_marker'' then Some FcAbsentMarker else None)"

datatype ChangeSetOutcome = CsOpen | CsRolledBackDueToFailure | CsUncertain

fun cs_outcome_str :: "ChangeSetOutcome \<Rightarrow> string" where
  "cs_outcome_str CsOpen = ''open''"
| "cs_outcome_str CsRolledBackDueToFailure = ROLLED_BACK_DUE_TO_FAILURE"
| "cs_outcome_str CsUncertain = ''uncertain''"

definition cs_outcome_parse :: "string \<Rightarrow> ChangeSetOutcome option" where
  "cs_outcome_parse s =
     (if s = ''open'' then Some CsOpen
      else if s = ROLLED_BACK_DUE_TO_FAILURE \<or> s = ''rolled_back_due_to_failure'' \<or> s = ''rolled_back''
      then Some CsRolledBackDueToFailure
      else if s = ''uncertain'' \<or> s = ''unknown'' then Some CsUncertain
      else None)"

definition is_fully_restored :: "ChangeSetOutcome \<Rightarrow> bool" where
  "is_fully_restored x \<longleftrightarrow> x = CsRolledBackDueToFailure"

record FileSnapshotEntry =
  fe_path :: string
  fe_capture :: FileCaptureKind
  fe_pre_digest :: string
  fe_pre_len :: nat
  fe_blob :: "string option"
  fe_lease :: "LeaseAttachment option"

definition lease_label :: "FileSnapshotEntry \<Rightarrow> string" where
  "lease_label e = (case fe_lease e of Some l \<Rightarrow> at_lease_id l | None \<Rightarrow> ''none'')"

definition is_restorable :: "FileSnapshotEntry \<Rightarrow> bool" where
  "is_restorable e \<longleftrightarrow> fe_capture e = FcBytes \<and> fe_blob e \<noteq> None"

definition undo_handles :: "FileSnapshotEntry \<Rightarrow> bool" where
  "undo_handles e = (case fe_capture e of FcBytes \<Rightarrow> fe_blob e \<noteq> None | FcAbsentMarker \<Rightarrow> True)"

definition undo_deletes :: "FileSnapshotEntry \<Rightarrow> bool" where
  "undo_deletes e \<longleftrightarrow> fe_capture e = FcAbsentMarker"

definition entry_validate :: "FileSnapshotEntry \<Rightarrow> string + unit" where
  "entry_validate e =
     (if str_trim (fe_path e) = [] then Inl ''change-set entry requires a path''
      else if fe_capture e = FcBytes \<and> fe_pre_digest e = [] then Inl ''a bytes capture requires a pre-mutation digest''
      else if fe_capture e = FcBytes \<and> fe_blob e = None then Inl ''a bytes capture requires a stored pre-image reference''
      else if undo_deletes e \<and> fe_pre_digest e \<noteq> [] then Inl ''an absent-marker capture must not carry a content digest''
      else Inr ())"

record TurnChangeSet =
  cs_change_set_id :: string
  cs_work_id :: string
  cs_step_id :: string
  cs_session_id :: "string option"
  cs_captured_at_ms :: nat
  cs_entries :: "FileSnapshotEntry list"
  cs_outcome :: "ChangeSetOutcome option"
  cs_settled_at_ms :: "nat option"
  cs_reason :: "string option"

definition cs_id_for :: "string \<Rightarrow> string \<Rightarrow> string" where
  "cs_id_for work step = ''fcs:'' @ work @ ''/'' @ step"

definition cs_is_open :: "TurnChangeSet \<Rightarrow> bool" where
  "cs_is_open c \<longleftrightarrow> cs_outcome c = None"

definition cs_unrestored :: "TurnChangeSet \<Rightarrow> FileSnapshotEntry list" where
  "cs_unrestored c = filter (\<lambda>e. \<not> undo_handles e) (cs_entries c)"

text \<open>The loop over the entries, with the paths already seen.\<close>

fun entries_validate :: "string list \<Rightarrow> FileSnapshotEntry list \<Rightarrow> string + unit" where
  "entries_validate seen [] = Inr ()"
| "entries_validate seen (e # es) =
     (case entry_validate e of
        Inl x \<Rightarrow> Inl x
      | Inr _ \<Rightarrow> if fe_path e \<in> set seen then Inl (''change set names `'' @ fe_path e @ ''` twice'')
                 else entries_validate (seen @ [fe_path e]) es)"

definition cs_validate :: "TurnChangeSet \<Rightarrow> string + unit" where
  "cs_validate c =
     (if str_trim (cs_work_id c) = [] then Inl ''change set requires a work id''
      else if str_trim (cs_step_id c) = [] then Inl ''change set requires a step id''
      else if cs_change_set_id c \<noteq> cs_id_for (cs_work_id c) (cs_step_id c)
      then Inl (''change set id `'' @ cs_change_set_id c @ ''` does not match the deterministic id for ('' @
                cs_work_id c @ '', '' @ cs_step_id c @ '')'')
      else if cs_entries c = [] then Inl ''a change set must name at least one file''
      else case entries_validate [] (cs_entries c) of
        Inl x \<Rightarrow> Inl x
      | Inr _ \<Rightarrow>
          (case cs_outcome c of
             None \<Rightarrow> Inr ()
           | Some outc \<Rightarrow>
               if outc = CsRolledBackDueToFailure \<and> \<not> list_all undo_handles (cs_entries c)
               then Inl ''a fully-rolled-back change set cannot contain an entry undo cannot handle''
               else if outc = CsOpen then Inl ''`open` is not a settling outcome; leave `outcome` empty instead''
               else Inr ()))"

text \<open>\<open>cser\<close> is the JSON rendering of a change set (\<open>serde_json::to_string\<close>).\<close>

definition cs_is_secret_free :: "(TurnChangeSet \<Rightarrow> string) \<Rightarrow> TurnChangeSet \<Rightarrow> bool" where
  "cs_is_secret_free cser c =
     ((case cs_reason c of
         None \<Rightarrow> True
       | Some r \<Rightarrow> \<not> list_ex (\<lambda>k. str_contains (to_lowercase r) k) FORBIDDEN_PROJECTION_KEYS) \<and>
      projection_json_has_no_secrets (cser c))"

lemma entries_validate_ok:
  "entries_validate seen es = Inr () \<longleftrightarrow>
     list_all (\<lambda>e. entry_validate e = Inr ()) es \<and> distinct (map fe_path es) \<and>
     set (map fe_path es) \<inter> set seen = {}"
  by (induction es arbitrary: seen) (auto split: sum.split)

lemma entry_validate_undo: "entry_validate e = Inr () \<Longrightarrow> undo_handles e"
  by (auto simp: entry_validate_def undo_handles_def split: if_splits FileCaptureKind.split)

lemma cs_outcome_roundtrip: "cs_outcome_parse (cs_outcome_str x) = Some x"
  by (cases x) (simp_all add: cs_outcome_parse_def ROLLED_BACK_DUE_TO_FAILURE_def)

section \<open>Delegation facts\<close>

definition SUBAGENT_HEARTBEAT_TIMEOUT_MS :: nat where
  "SUBAGENT_HEARTBEAT_TIMEOUT_MS = 120000"

datatype CycleKind = AncestorWork | DescendantWork | AncestorBinding | RecordedCycle

fun cycle_kind_str :: "CycleKind \<Rightarrow> string" where
  "cycle_kind_str AncestorWork = ''ancestor_work''"
| "cycle_kind_str DescendantWork = ''descendant_work''"
| "cycle_kind_str AncestorBinding = ''ancestor_binding''"
| "cycle_kind_str RecordedCycle = ''recorded_cycle''"

record CycleRefusal =
  cr_kind :: CycleKind
  cr_chain :: "string list"
  cr_binding_id :: "string option"
  cr_proposed_child_work_id :: string

fun cycle_reentry :: "CycleKind \<Rightarrow> string" where
  "cycle_reentry AncestorWork = ''an ancestor Work on the delegation chain''"
| "cycle_reentry DescendantWork = ''its own descendant Work''"
| "cycle_reentry AncestorBinding = ''an ancestor AgentBinding already running this chain''"
| "cycle_reentry RecordedCycle = ''a Work graph that is already cyclic''"

definition refusal_display :: "CycleRefusal \<Rightarrow> string" where
  "refusal_display r =
     ''CyclicDelegationRefused ('' @ cycle_kind_str (cr_kind r) @ ''): '' @ cr_proposed_child_work_id r @
     '' would re-enter '' @ cycle_reentry (cr_kind r) @ ''; chain ['' @ join_with '' > '' (cr_chain r) @ '']''"

record SubagentLiveness =
  sl_child_work_id :: string
  sl_parent_work_id :: string
  sl_last_heartbeat_ms :: nat
  sl_terminal :: bool
  sl_lease :: "LeaseAttachment option"

definition silence_ms :: "SubagentLiveness \<Rightarrow> nat \<Rightarrow> nat" where
  "silence_ms l now = now - sl_last_heartbeat_ms l"

definition is_orphaned_at :: "SubagentLiveness \<Rightarrow> nat \<Rightarrow> nat \<Rightarrow> bool" where
  "is_orphaned_at l now timeout \<longleftrightarrow> \<not> sl_terminal l \<and> timeout < silence_ms l now"

record SubagentTimeoutReceipt =
  tr_child_work_id :: string
  tr_parent_work_id :: string
  tr_silent_ms :: nat
  tr_timeout_ms :: nat
  tr_lease :: "LeaseAttachment option"
  tr_effect_ids :: "string list"
  tr_effect_state :: PostEffectOutcome

definition outcome_is_uncertain :: "SubagentTimeoutReceipt \<Rightarrow> bool" where
  "outcome_is_uncertain r \<longleftrightarrow> tr_effect_state r = PeUncertain"

end
