(* ===== verification/Work_Events.thy ===== *)
theory Work_Events
  imports Work_Types
begin

text \<open>
  The records and events of \<open>everyaios-core/src/work_gateway.rs\<close>: JSON values as the gateway uses
  them, provenance, addresses and their locator, presence, the event vocabulary, the mapping between
  lifecycle states and events, effect projections, run authorities, clients, reviews, runtime
  manifests and the session-runtime records.

  Errors are the strings the code returns. Identifier newtypes are strings.
\<close>

section \<open>JSON values\<close>

text \<open>
  \<open>serde_json::Value\<close> is an abstract type \<open>'v\<close> with the accessors and builders the gateway calls.
  \<open>j_as_object\<close> lists the entries of an object in iteration order (ascending keys); \<open>j_render\<close> is
  \<open>to_string\<close>. The locale states the documented behaviour the gateway relies on.
\<close>

record 'v json_full = "'v json_api" +
  j_as_object :: "'v \<Rightarrow> (string \<times> 'v) list option"
  j_is_null :: "'v \<Rightarrow> bool"
  j_obj :: "(string \<times> 'v) list \<Rightarrow> 'v"
  j_str :: "string \<Rightarrow> 'v"
  j_num :: "nat \<Rightarrow> 'v"
  j_bool :: "bool \<Rightarrow> 'v"
  j_null :: 'v
  j_render :: "'v \<Rightarrow> string"

definition json_lit :: "'v json_full \<Rightarrow> (string \<times> 'v) list \<Rightarrow> 'v" where
  "json_lit j kvs = j_obj j (foldr (\<lambda>(k, v). bt_insert k v) kvs [])"

definition j_opt_str :: "'v json_full \<Rightarrow> string option \<Rightarrow> 'v" where
  "j_opt_str j x = (case x of None \<Rightarrow> j_null j | Some s \<Rightarrow> j_str j s)"

definition j_opt_num :: "'v json_full \<Rightarrow> nat option \<Rightarrow> 'v" where
  "j_opt_num j x = (case x of None \<Rightarrow> j_null j | Some n \<Rightarrow> j_num j n)"

locale json_values =
  fixes j :: "'v json_full"
  assumes get_obj: "bt_sorted m \<Longrightarrow> j_get j (j_obj j m) k = map_of m k"
    and as_obj: "bt_sorted m \<Longrightarrow> j_as_object j (j_obj j m) = Some m"
    and str_str: "j_as_str j (j_str j s) = Some s"
    and str_obj: "j_as_str j (j_obj j m) = None"
    and u64_num: "j_as_u64 j (j_num j n) = Some n"
    and u64_null: "j_as_u64 j (j_null j) = None"
    and bool_bool: "j_as_bool j (j_bool j b) = Some b"
    and bool_str: "j_as_bool j (j_str j s) = None"
    and null_null: "j_is_null j (j_null j)"
    and null_str: "\<not> j_is_null j (j_str j s)"
    and null_num: "\<not> j_is_null j (j_num j n)"
begin

lemma lit_sorted: "bt_sorted (foldr (\<lambda>(k, v). bt_insert k v) kvs [])"
  by (induction kvs) auto

lemma lit_lookup: "map_of (foldr (\<lambda>(k, v). bt_insert k v) kvs []) k = map_of kvs k"
  by (induction kvs) auto

lemma get_lit: "j_get j (json_lit j kvs) k = map_of kvs k"
  by (simp add: json_lit_def get_obj lit_sorted lit_lookup)

lemma get_str_lit: "get_str j (json_lit j kvs) k = Option.bind (map_of kvs k) (j_as_str j)"
  by (simp add: get_str_def get_lit)

end

text \<open>A concrete type of values.\<close>

datatype work_json = WNull | WBool bool | WNum nat | WStr string | WArr "work_json list" | WObj "(string \<times> work_json) list"

fun wj_get :: "work_json \<Rightarrow> string \<Rightarrow> work_json option" where
  "wj_get (WObj m) k = map_of m k"
| "wj_get _ k = None"

fun wj_str :: "work_json \<Rightarrow> string option" where
  "wj_str (WStr s) = Some s"
| "wj_str _ = None"

fun wj_u64 :: "work_json \<Rightarrow> nat option" where
  "wj_u64 (WNum n) = Some n"
| "wj_u64 _ = None"

fun wj_bool :: "work_json \<Rightarrow> bool option" where
  "wj_bool (WBool b) = Some b"
| "wj_bool _ = None"

fun wj_arr :: "work_json \<Rightarrow> work_json list option" where
  "wj_arr (WArr a) = Some a"
| "wj_arr _ = None"

fun wj_obj :: "work_json \<Rightarrow> (string \<times> work_json) list option" where
  "wj_obj (WObj m) = Some m"
| "wj_obj _ = None"

definition wj_api :: "work_json json_full" where
  "wj_api =
     \<lparr> j_get = wj_get, j_as_str = wj_str, j_as_u64 = wj_u64, j_as_bool = wj_bool, j_as_array = wj_arr,
       j_as_object = wj_obj, j_is_null = (\<lambda>v. v = WNull), j_obj = WObj, j_str = WStr, j_num = WNum, j_bool = WBool,
       j_null = WNull, j_render = (\<lambda>_. ''{}'') \<rparr>"

interpretation wj: json_values wj_api
  by unfold_locales (simp_all add: wj_api_def)

section \<open>Restore ladders\<close>

definition is_terminal_review_state :: "string \<Rightarrow> bool" where
  "is_terminal_review_state s \<longleftrightarrow> s = ''resolved'' \<or> s = ''approved'' \<or> s = ''rejected''"

definition NETWORK_LADDER :: "string list" where
  "NETWORK_LADDER = [''offline'', ''loopback'', ''allowlist'', ''open'']"

definition FILESYSTEM_LADDER :: "string list" where
  "FILESYSTEM_LADDER = [''workspace'', ''project'', ''home'', ''system'']"

fun position :: "'a \<Rightarrow> 'a list \<Rightarrow> nat option" where
  "position x [] = None"
| "position x (y # ys) = (if x = y then Some 0 else map_option Suc (position x ys))"

definition narrow :: "string \<Rightarrow> string \<Rightarrow> string list \<Rightarrow> string" where
  "narrow current trusted ladder =
     (case (position current ladder, position trusted ladder) of
        (Some a, Some b) \<Rightarrow> ladder ! min a b
      | _ \<Rightarrow> ladder ! 0)"

lemma position_Some: "position x xs = Some i \<Longrightarrow> i < length xs \<and> xs ! i = x"
  by (induction xs arbitrary: i) (auto split: if_splits)

lemma position_nth: "distinct xs \<Longrightarrow> i < length xs \<Longrightarrow> position (xs ! i) xs = Some i"
  by (induction xs arbitrary: i) (auto simp: nth_Cons split: nat.splits dest: nth_mem)

section \<open>Provenance\<close>

record WorkProvenance =
  wp_automation_id :: "string option"
  wp_revision_id :: "string option"
  wp_automation_generation :: "nat option"
  wp_trigger_occurrence_id :: "string option"
  wp_payload_digest :: "string option"
  wp_dedup_digest :: "string option"
  wp_source_session_id :: "string option"

definition provenance_default :: WorkProvenance where
  "provenance_default =
     \<lparr> wp_automation_id = None, wp_revision_id = None, wp_automation_generation = None,
       wp_trigger_occurrence_id = None, wp_payload_digest = None, wp_dedup_digest = None,
       wp_source_session_id = None \<rparr>"

definition is_legacy :: "WorkProvenance \<Rightarrow> bool" where
  "is_legacy p \<longleftrightarrow>
     wp_automation_id p = None \<and> wp_revision_id p = None \<and> wp_automation_generation p = None \<and>
     wp_trigger_occurrence_id p = None"

text \<open>The closure \<open>merge_string\<close>: the new value of the target field and whether it changed.\<close>

definition merge_string :: "'v json_full \<Rightarrow> 'v \<Rightarrow> string \<Rightarrow> string option \<Rightarrow> string + (string option \<times> bool)" where
  "merge_string j patch key target =
     (case j_get j patch key of
        None \<Rightarrow> Inr (target, False)
      | Some v \<Rightarrow>
          (case j_as_str j v of
             None \<Rightarrow> Inl (''Work provenance field `'' @ key @ ''` must be a string'')
           | Some x \<Rightarrow>
               if x = [] then Inl (''Work provenance field `'' @ key @ ''` cannot be empty'')
               else (case target of
                       Some old \<Rightarrow>
                         if old \<noteq> x then Inl (''Work provenance field `'' @ key @ ''` conflicts with an earlier event'')
                         else Inr (target, False)
                     | None \<Rightarrow> Inr (Some x, True))))"

definition merge_generation :: "'v json_full \<Rightarrow> 'v \<Rightarrow> nat option \<Rightarrow> string + (nat option \<times> bool)" where
  "merge_generation j patch target =
     (case j_get j patch ''automationGeneration'' of
        None \<Rightarrow> Inr (target, False)
      | Some v \<Rightarrow>
          (case j_as_u64 j v of
             None \<Rightarrow> Inl ''Work provenance field `automationGeneration` must be an integer''
           | Some x \<Rightarrow>
               (case target of
                  Some old \<Rightarrow>
                    if old \<noteq> x then Inl ''Work provenance field `automationGeneration` conflicts with an earlier event''
                    else Inr (target, False)
                | None \<Rightarrow> Inr (Some x, True))))"

definition res_bind :: "'e + 'a \<Rightarrow> ('a \<Rightarrow> 'e + 'b) \<Rightarrow> 'e + 'b" where
  "res_bind r f = (case r of Inl e \<Rightarrow> Inl e | Inr x \<Rightarrow> f x)"

lemma res_bind_simps [simp]: "res_bind (Inl e) f = Inl e" "res_bind (Inr x) f = f x"
  by (simp_all add: res_bind_def)

lemma res_bind_Inr: "res_bind r f = Inr y \<longleftrightarrow> (\<exists>x. r = Inr x \<and> f x = Inr y)"
  by (cases r) auto

definition merge_patch :: "'v json_full \<Rightarrow> 'v \<Rightarrow> WorkProvenance \<Rightarrow> string + (WorkProvenance \<times> bool)" where
  "merge_patch j patch p =
     res_bind (merge_string j patch ''automationId'' (wp_automation_id p)) (\<lambda>(a, c1).
     res_bind (merge_string j patch ''revisionId'' (wp_revision_id p)) (\<lambda>(r, c2).
     res_bind (merge_string j patch ''triggerOccurrenceId'' (wp_trigger_occurrence_id p)) (\<lambda>(t, c3).
     res_bind (merge_string j patch ''payloadDigest'' (wp_payload_digest p)) (\<lambda>(pd, c4).
     res_bind (merge_string j patch ''dedupDigest'' (wp_dedup_digest p)) (\<lambda>(dd, c5).
     res_bind (merge_string j patch ''sourceSessionId'' (wp_source_session_id p)) (\<lambda>(ss, c6).
     res_bind (merge_generation j patch (wp_automation_generation p)) (\<lambda>(g, c7).
       Inr (\<lparr> wp_automation_id = a, wp_revision_id = r, wp_automation_generation = g,
              wp_trigger_occurrence_id = t, wp_payload_digest = pd, wp_dedup_digest = dd,
              wp_source_session_id = ss \<rparr>,
            c1 \<or> c2 \<or> c3 \<or> c4 \<or> c5 \<or> c6 \<or> c7))))))))"

definition validate_complete :: "WorkProvenance \<Rightarrow> string + unit" where
  "validate_complete p =
     (let fields = [wp_automation_id p \<noteq> None, wp_revision_id p \<noteq> None, wp_automation_generation p \<noteq> None,
                    wp_trigger_occurrence_id p \<noteq> None]
      in if list_ex id fields \<and> \<not> list_all id fields then Inl ''Work automation provenance is incomplete''
         else if wp_automation_generation p = Some 0 then Inl ''Work automation generation must be positive''
         else Inr ())"

lemma validate_complete_default [simp]: "validate_complete provenance_default = Inr ()"
  by (simp add: validate_complete_def provenance_default_def)

section \<open>Addresses\<close>

record WorkAddress =
  wa_work_id :: string
  wa_project_id :: "string option"
  wa_session_id :: "string option"
  wa_session_kind :: SessionKind
  wa_owner_id :: "string option"
  wa_binding_id :: "string option"
  wa_provenance :: WorkProvenance
  wa_node_id :: "string option"
  wa_current_run_id :: "string option"
  wa_version :: nat
  wa_parent_work_id :: "string option"

definition address_new :: "string \<Rightarrow> WorkAddress" where
  "address_new w =
     \<lparr> wa_work_id = w, wa_project_id = None, wa_session_id = None, wa_session_kind = SkInteractive,
       wa_owner_id = None, wa_binding_id = None, wa_provenance = provenance_default, wa_node_id = None,
       wa_current_run_id = None, wa_version = 1, wa_parent_work_id = None \<rparr>"

definition locator :: "WorkAddress \<Rightarrow> string" where
  "locator a =
     ''work:'' @ wa_work_id a @
     (case wa_node_id a of None \<Rightarrow> [] | Some n \<Rightarrow> CHR ''@'' # n) @
     (case wa_current_run_id a of None \<Rightarrow> [] | Some r \<Rightarrow> CHR ''#'' # r)"

fun split_once :: "char \<Rightarrow> string \<Rightarrow> (string \<times> string) option" where
  "split_once sep [] = None"
| "split_once sep (c # cs) =
     (if c = sep then Some ([], cs) else map_option (\<lambda>(a, b). (c # a, b)) (split_once sep cs))"

definition parse_locator :: "string \<Rightarrow> string + WorkAddress" where
  "parse_locator loc =
     (case strip_prefix loc ''work:'' of
        None \<Rightarrow> Inl (''locator must start with '' @ [CHR 0x27] @ ''work:'' @ [CHR 0x27])
      | Some rest \<Rightarrow>
          let (head, run) = (case split_once (CHR ''#'') rest of Some (h, r) \<Rightarrow> (h, Some r) | None \<Rightarrow> (rest, None));
              (i, node) = (case split_once (CHR ''@'') head of Some (a, n) \<Rightarrow> (a, Some n) | None \<Rightarrow> (head, None))
          in if i = [] then Inl ''locator requires a work id''
             else if run = Some [] then Inl ''locator has an empty run id''
             else if node = Some [] then Inl ''locator has an empty node id''
             else Inr ((address_new i)\<lparr>wa_node_id := node, wa_current_run_id := run\<rparr>))"

lemma split_once_none: "sep \<notin> set s \<Longrightarrow> split_once sep s = None"
  by (induction s) auto

lemma split_once_append: "sep \<notin> set a \<Longrightarrow> split_once sep (a @ sep # b) = Some (a, b)"
  by (induction a) auto

section \<open>Presence\<close>

datatype WorkPresenceState =
    PrRunning
  | PrWaitingForUser
  | PrWaitingForApproval
  | PrBlocked
  | PrCompleted
  | PrFailed
  | PrCancelled
  | PrOffline
  | PrReconnecting

record WorkPresence =
  pr_work_id :: string
  pr_active_clients :: "string list"
  pr_active_nodes :: "string list"
  pr_active_run :: "string option"
  pr_current_surface :: "string option"
  pr_state :: "WorkPresenceState option"
  pr_work_state :: "WorkState option"
  pr_wait :: "WaitCondition option"

definition presence_default :: WorkPresence where
  "presence_default =
     \<lparr> pr_work_id = [], pr_active_clients = [], pr_active_nodes = [], pr_active_run = None,
       pr_current_surface = None, pr_state = None, pr_work_state = None, pr_wait = None \<rparr>"

definition presence_projection :: "WorkState \<Rightarrow> WaitCondition option \<Rightarrow> WorkPresenceState" where
  "presence_projection st wait =
     (case st of
        WsWaitingApproval \<Rightarrow> PrWaitingForApproval
      | WsWaitingUser \<Rightarrow> PrWaitingForUser
      | WsPaused \<Rightarrow> PrBlocked
      | WsRecoverable \<Rightarrow> PrBlocked
      | WsCompleted \<Rightarrow> PrCompleted
      | WsFailed \<Rightarrow> PrFailed
      | WsCancelled \<Rightarrow> PrCancelled
      | _ \<Rightarrow>
          (case map_option wc_reason wait of
             Some WrTimer \<Rightarrow> PrBlocked
           | Some WrExternalEvent \<Rightarrow> PrBlocked
           | Some WrResource \<Rightarrow> PrBlocked
           | Some WrAgent \<Rightarrow> PrBlocked
           | Some WrRetry \<Rightarrow> PrBlocked
           | _ \<Rightarrow> PrRunning))"

section \<open>Events\<close>

record WorkCreation =
  cn_objective :: string
  cn_project_id :: "string option"
  cn_session_id :: "string option"
  cn_parent_work_id :: "string option"
  cn_session_kind :: SessionKind
  cn_owner_id :: "string option"
  cn_binding_id :: "string option"
  cn_initial_state :: "WorkState option"
  cn_run_id :: "string option"
  cn_trigger :: "string option"
  cn_provenance :: WorkProvenance

datatype 'v DomainEvent =
    WorkCreated WorkCreation
  | WorkUpdated 'v
  | RunQueued string
  | RunStarted string
  | RunCheckpointed string nat
  | RunPaused string
  | RunWaiting string string "WaitCondition option"
  | RunInterrupted string "string option"
  | ApprovalRequested string "string option" "string option" "string option" "string option" "nat option"
  | ApprovalResolved string "string option" bool
  | EffectAttempted string "string option" "IdempotencyClass option"
  | EffectObserved string string
  | EffectVerified string bool
  | EffectUncertain string "string option" "IdempotencyClass option"
  | EffectReconciled string string bool
  | FileChangeSetCaptured TurnChangeSet
  | FileChangeSetSettled TurnChangeSet
  | DelegationRefused CycleRefusal
  | DelegationLeaseFact string LeaseLifecycleFact
  | SubagentHeartbeat string nat
  | SubagentLeaseReclaimed SubagentTimeoutReceipt
  | ArtifactCreated string
  | ArtifactUpdated string
  | ReviewRequested string
  | RunCompleted string
  | RunFailed string string
  | RunCancelled string

datatype OperationalEvent =
    ToolRequested string
  | ToolStarted string
  | ToolCompleted string
  | ToolFailed string string
  | NodeConnected string
  | NodeDisconnected string
  | SessionAttached string
  | SessionDetached string
  | FileTouched string string
  | TestRan string bool
  | WriteConflict string "string list"
  | HandoffRecorded string string string string

datatype PresenceEvent = PresenceChanged WorkPresence | AgentThoughtSummary string

datatype RuntimeEvent =
    PtyStarted string "nat option" nat nat
  | PtyOutput string string
  | PtyResize string nat nat
  | PtySignal string string
  | PtyExit string "int option"
  | WorktreeCreated string string
  | WorktreeAttached string string
  | WorktreeMerged string string
  | WorktreeReverted string
  | WorktreeDestroyed string
  | AgentSessionSpawned string string string
  | AgentSessionMessage string string
  | AgentSessionAttached string
  | AgentSessionDetached string
  | AgentSessionSteered string
  | AgentSessionCheckpointed string nat
  | AgentSessionTerminated string
  | AgentBindingCreated AgentBinding
  | AgentBindingActivated string "string option"
  | AgentBindingSuspended string
  | AgentBindingResumed string "string option"
  | AgentBindingUsageRecorded string BindingUsage

datatype 'v WorkEvent =
    Domain "'v DomainEvent"
  | Operational OperationalEvent
  | Presence PresenceEvent
  | Runtime RuntimeEvent

definition semantic :: "'v WorkEvent \<Rightarrow> bool" where
  "semantic e = (case e of Domain _ \<Rightarrow> True | _ \<Rightarrow> False)"

record 'v WorkEventEnvelope =
  we_work_id :: string
  we_sequence :: nat
  we_event_id :: string
  we_event :: "'v WorkEvent"
  we_timestamp :: nat
  we_trace_id :: "string option"
  we_causal_parent :: "nat option"
  we_schema_version :: nat

definition run_event_state :: "'v WorkEvent \<Rightarrow> (string \<times> WorkState) option" where
  "run_event_state e =
     (case e of
        Domain d \<Rightarrow>
          (case d of
             RunQueued r \<Rightarrow> Some (r, WsReady)
           | RunStarted r \<Rightarrow> Some (r, WsRunning)
           | RunWaiting r reason _ \<Rightarrow> map_option (\<lambda>st. (r, st)) (work_state_try_parse reason)
           | RunCheckpointed r _ \<Rightarrow> Some (r, WsCheckpointed)
           | RunPaused r \<Rightarrow> Some (r, WsPaused)
           | RunInterrupted r _ \<Rightarrow> Some (r, WsRecoverable)
           | RunCompleted r \<Rightarrow> Some (r, WsCompleted)
           | RunFailed r _ \<Rightarrow> Some (r, WsFailed)
           | RunCancelled r \<Rightarrow> Some (r, WsCancelled)
           | _ \<Rightarrow> None)
      | _ \<Rightarrow> None)"

definition transition_event :: "string \<Rightarrow> WorkState \<Rightarrow> WaitCondition option \<Rightarrow> 'v WorkEvent" where
  "transition_event x st wait =
     Domain (case st of
        WsCreated \<Rightarrow> RunQueued x
      | WsPlanning \<Rightarrow> RunQueued x
      | WsReady \<Rightarrow> RunQueued x
      | WsRunning \<Rightarrow> RunStarted x
      | WsVerifying \<Rightarrow> RunStarted x
      | WsWaitingTool \<Rightarrow> RunWaiting x (work_state_str st) wait
      | WsWaitingApproval \<Rightarrow> RunWaiting x (work_state_str st) wait
      | WsWaitingUser \<Rightarrow> RunWaiting x (work_state_str st) wait
      | WsCheckpointed \<Rightarrow> RunCheckpointed x 0
      | WsPaused \<Rightarrow> RunPaused x
      | WsRecoverable \<Rightarrow> RunInterrupted x (Some ''interrupted with an unknown in-flight effect'')
      | WsCompleted \<Rightarrow> RunCompleted x
      | WsFailed \<Rightarrow> RunFailed x ''execution transitioned to failed''
      | WsCancelled \<Rightarrow> RunCancelled x)"

text \<open>The lifecycle state an event replays as, for the states that have an event of their own.\<close>

lemma transition_event_state:
  "st \<notin> {WsCreated, WsPlanning, WsVerifying} \<Longrightarrow>
   run_event_state (transition_event x st wait) = Some (x, st)"
  by (cases st) (simp_all add: run_event_state_def transition_event_def work_state_try_parse_def)

section \<open>Effect projections and run authorities\<close>

record EffectProjection =
  ep_effect_id :: string
  ep_state :: string
  ep_uncertainty :: EffectUncertainty
  ep_idempotency_class :: "IdempotencyClass option"
  ep_reason :: "string option"
  ep_grant_id :: "string option"
  ep_last_sequence :: nat

definition effect_new :: "string \<Rightarrow> nat \<Rightarrow> EffectProjection" where
  "effect_new e sq =
     \<lparr> ep_effect_id = e, ep_state = ''unknown'', ep_uncertainty = UnknownOutcome, ep_idempotency_class = None,
       ep_reason = None, ep_grant_id = None, ep_last_sequence = sq \<rparr>"

definition requires_reconciliation :: "EffectProjection \<Rightarrow> bool" where
  "requires_reconciliation e \<longleftrightarrow>
     ep_uncertainty e = UnknownOutcome \<or> ep_uncertainty e = UncPartial \<or> ep_state e = ''uncertain''"

record ExecutionNode =
  nd_node_id :: string
  nd_owner :: string
  nd_platform :: string
  nd_node_kind :: string
  nd_always_on :: bool
  nd_capabilities :: "string list"
  nd_sandbox_class :: string
  nd_network_policy :: string
  nd_credential_policy :: string
  nd_health :: string
  nd_last_heartbeat_ms :: nat

record RunAuthority =
  ra_run_id :: string
  ra_node_id :: string
  ra_lease_id :: string
  ra_fencing_token :: nat
  ra_granted_at_ms :: nat
  ra_expires_at_ms :: nat

definition authority_valid :: "RunAuthority \<Rightarrow> string \<Rightarrow> nat \<Rightarrow> nat \<Rightarrow> bool" where
  "authority_valid a node token now \<longleftrightarrow>
     ra_node_id a = node \<and> ra_fencing_token a = token \<and> (ra_expires_at_ms a = 0 \<or> now \<le> ra_expires_at_ms a)"

section \<open>Clients, reviews, steering, manifests, attachments, capabilities\<close>

record ClientCapabilities =
  cc_can_view :: bool
  cc_can_chat :: bool
  cc_can_steer :: bool
  cc_can_approve :: bool
  cc_can_review :: bool
  cc_can_access_local_files :: bool
  cc_can_drive_browser :: bool
  cc_can_drive_desktop :: bool
  cc_artifact_preview :: bool
  cc_artifact_edit :: bool

definition caps_desktop :: ClientCapabilities where
  "caps_desktop =
     \<lparr> cc_can_view = True, cc_can_chat = True, cc_can_steer = True, cc_can_approve = True, cc_can_review = True,
       cc_can_access_local_files = True, cc_can_drive_browser = True, cc_can_drive_desktop = True,
       cc_artifact_preview = True, cc_artifact_edit = True \<rparr>"

definition caps_restricted :: ClientCapabilities where
  "caps_restricted =
     \<lparr> cc_can_view = True, cc_can_chat = False, cc_can_steer = False, cc_can_approve = False, cc_can_review = True,
       cc_can_access_local_files = False, cc_can_drive_browser = False, cc_can_drive_desktop = False,
       cc_artifact_preview = True, cc_artifact_edit = False \<rparr>"

record ClientSession =
  cl_client_id :: string
  cl_client_type :: string
  cl_work_id :: string
  cl_capabilities :: ClientCapabilities
  cl_scope :: "string list"
  cl_authenticated :: bool
  cl_connected_at_ms :: nat

record ReviewItem =
  rv_review_id :: string
  rv_work_id :: string
  rv_run_id :: "string option"
  rv_kind :: string
  rv_priority :: nat
  rv_state :: string
  rv_artifact_refs :: "string list"
  rv_effect_refs :: "string list"

record SteeringInstruction =
  si_work_id :: string
  si_run_id :: "string option"
  si_source_client :: string
  si_instruction :: string
  si_scope :: string
  si_priority :: nat
  si_created_at_ms :: nat

record RuntimeManifest =
  rm_work_id :: string
  rm_chief :: string
  rm_model :: string
  rm_capabilities :: "string list"
  rm_network_policy :: string
  rm_filesystem_policy :: string
  rm_autonomy :: AutonomyLevel
  rm_memory_scope :: string
  rm_node_id :: string
  rm_skill_versions :: "string list"
  rm_plugin_versions :: "string list"
  rm_config_hash :: string

text \<open>\<open>without_hash\<close> builds the JSON of every field but the hash; \<open>mdigest\<close> is the digest of that
  JSON, a function of the manifest with its hash blanked.\<close>

definition refresh_hash :: "(RuntimeManifest \<Rightarrow> string) \<Rightarrow> RuntimeManifest \<Rightarrow> RuntimeManifest" where
  "refresh_hash mdigest m = m\<lparr>rm_config_hash := mdigest (m\<lparr>rm_config_hash := []\<rparr>)\<rparr>"

definition verify_hash :: "(RuntimeManifest \<Rightarrow> string) \<Rightarrow> RuntimeManifest \<Rightarrow> bool" where
  "verify_hash mdigest m \<longleftrightarrow> rm_config_hash m = mdigest (m\<lparr>rm_config_hash := []\<rparr>)"

definition manifest_new :: "(RuntimeManifest \<Rightarrow> string) \<Rightarrow> string \<Rightarrow> string \<Rightarrow> string \<Rightarrow> RuntimeManifest" where
  "manifest_new mdigest work chief model =
     refresh_hash mdigest
       \<lparr> rm_work_id = work, rm_chief = chief, rm_model = model, rm_capabilities = [], rm_network_policy = ''offline'',
         rm_filesystem_policy = ''workspace'', rm_autonomy = AlAsk, rm_memory_scope = ''project'',
         rm_node_id = ''node-1'', rm_skill_versions = [], rm_plugin_versions = [], rm_config_hash = [] \<rparr>"

record AttachmentRef =
  ar_attachment_id :: string
  ar_content_hash :: string
  ar_size :: nat
  ar_media_type :: string
  ar_source :: string
  ar_work_scope :: string
  ar_session_scope :: "string option"
  ar_allowed_consumers :: "string list"
  ar_retention :: string

section \<open>Session-runtime records\<close>

record PtySession =
  pt_pty_id :: string
  pt_process_id :: "nat option"
  pt_rows :: nat
  pt_cols :: nat
  pt_state :: string
  pt_output :: string

record WorktreeBinding =
  wt_worktree_id :: string
  wt_work_id :: string
  wt_run_id :: string
  wt_repo_root :: string
  wt_worktree_root :: string
  wt_base_revision :: string
  wt_branch :: string
  wt_isolation_mode :: string
  wt_status :: string

datatype AgentLifetime = EphemeralChild | PersistentAttachedSession

fun lifetime_as_str :: "AgentLifetime \<Rightarrow> string" where
  "lifetime_as_str EphemeralChild = ''ephemeral_child''"
| "lifetime_as_str PersistentAttachedSession = ''persistent_attached_session''"

record AgentSession =
  as_agent_session_id :: string
  as_work_id :: string
  as_run_id :: string
  as_agent_id :: string
  as_lifetime :: AgentLifetime
  as_pty_id :: "string option"
  as_worktree_id :: "string option"
  as_runtime_state :: string
  as_last_checkpoint :: nat
  as_attached :: bool

record ChildWorkRef =
  ch_work_id :: string
  ch_run_id :: string
  ch_agent_session_id :: string

record DelegationRefusalRecord =
  dr_work_id :: string
  dr_count :: nat
  dr_last :: CycleRefusal

record SubagentLivenessProbe =
  lp_liveness :: SubagentLiveness
  lp_reclaimed :: "SubagentTimeoutReceipt option"

end
