(* ===== verification/Work_State.thy ===== *)
theory Work_State
  imports Work_Events
begin

text \<open>
  The state of the Work gateway and its projections (\<open>everyaios-core/src/work_gateway.rs\<close>): how a
  journalled event changes the state. The same functions serve replay (\<open>open\<close>) and, after the
  append, the live operations.

  \<^item> A method \<open>&mut self -> Result<A, String>\<close> is a function from the state to a result and the state
    it leaves behind (type \<open>gw\<close>); \<open>?\<close> is \<open>gw_bind\<close>. A call that fails keeps the changes it made
    before failing, as in the code.
  \<^item> The journal file (\<open>None\<close>: an in-memory gateway) is a list of pieces: a record's line with its
    newline, text without a newline (what a failed write leaves), or a newline alone. A line that is one
    record reads back as it; any other line is given to the decoder as text.
  \<^item> Run metadata objects are kept as their entries; the code only ever stores objects there.
  \<^item> A \<open>GwEnv\<close> gives what a call takes from outside: JSON and digest libraries, the clock (one reading
    per call), the encoding of a journal record and the outcome of its write, the decoding of a line, random bytes, which subscribers still listen, and which
    paths exist.
\<close>

section \<open>State and environment\<close>

text \<open>The outcome of one durable write. A \<open>File\<close> is unbuffered, so a write that fails may have written any
  number of bytes of the line; the newline is written last, by itself.\<close>

datatype JournalIo = IoOk | IoOpenErr | IoEncodeErr | IoWriteErr nat | IoSyncErr

datatype 'v JournalText = JtRecord "'v WorkEventEnvelope" | JtText string | JtBreak

record 'v GwEnv =
  ge_json :: "'v json_full"
  ge_fact_ser :: "LeaseLifecycleFact \<Rightarrow> string"
  ge_cs_ser :: "TurnChangeSet \<Rightarrow> string"
  ge_mdigest :: "RuntimeManifest \<Rightarrow> string"
  ge_now :: nat
  ge_io :: "'v WorkEventEnvelope \<Rightarrow> JournalIo"
  ge_text :: "'v WorkEventEnvelope \<Rightarrow> string"
  ge_utf8 :: "string \<Rightarrow> bool"
  ge_parse :: "string \<Rightarrow> 'v WorkEventEnvelope option"
  ge_bytes :: "nat \<Rightarrow> string"
  ge_listens :: "nat \<Rightarrow> bool"
  ge_exists :: "string \<Rightarrow> bool"
  ge_is_dir :: "string \<Rightarrow> bool"

record 'v WorkGateway =
  gw_works :: "WorkAddress strmap"
  gw_journal :: "'v JournalText list option"
  gw_events :: "'v WorkEventEnvelope list strmap"
  gw_clients :: "ClientSession strmap"
  gw_nodes :: "ExecutionNode strmap"
  gw_authorities :: "RunAuthority strmap"
  gw_reviews :: "ReviewItem strmap"
  gw_attachments :: "(AttachmentRef \<times> string) strmap"
  gw_presence :: "WorkPresence strmap"
  gw_ptys :: "PtySession strmap"
  gw_worktrees :: "WorktreeBinding strmap"
  gw_agent_sessions :: "AgentSession strmap"
  gw_agent_bindings :: "AgentBinding strmap"
  gw_manifests :: "RuntimeManifest strmap"
  gw_broker :: "string list"
  gw_fence_counters :: "nat strmap"
  gw_next_seq :: nat
  gw_execution_ids :: "string strmap"
  gw_run_ids :: "string list strmap"
  gw_run_states :: "WorkState strmap strmap"
  gw_run_metadata :: "'v strmap strmap strmap"
  gw_effects :: "EffectProjection strmap strmap"
  gw_pending :: "'v strmap strmap"
  gw_active_bindings :: "string strmap"
  gw_change_sets :: "TurnChangeSet strmap strmap"
  gw_refusals :: "DelegationRefusalRecord strmap"
  gw_heartbeats :: "nat strmap"
  gw_reclaims :: "SubagentTimeoutReceipt strmap"
  gw_leases :: Coordinator
  gw_custody :: "(nat \<times> bearer) strmap"
  gw_subscribers :: "(nat \<times> 'v WorkEventEnvelope list) list"

definition gateway_new :: "'v WorkGateway" where
  "gateway_new =
     \<lparr> gw_works = [], gw_journal = None, gw_events = [], gw_clients = [], gw_nodes = [], gw_authorities = [],
       gw_reviews = [], gw_attachments = [], gw_presence = [], gw_ptys = [], gw_worktrees = [],
       gw_agent_sessions = [], gw_agent_bindings = [], gw_manifests = [], gw_broker = [], gw_fence_counters = [],
       gw_next_seq = 0, gw_execution_ids = [], gw_run_ids = [], gw_run_states = [], gw_run_metadata = [],
       gw_effects = [], gw_pending = [], gw_active_bindings = [], gw_change_sets = [], gw_refusals = [],
       gw_heartbeats = [], gw_reclaims = [], gw_leases = coordinator_new, gw_custody = [], gw_subscribers = [] \<rparr>"

section \<open>Fallible state transformers\<close>

type_synonym ('v, 'a) gw = "'v WorkGateway \<Rightarrow> (string + 'a) \<times> 'v WorkGateway"

definition gw_return :: "'a \<Rightarrow> ('v, 'a) gw" where
  "gw_return x = (\<lambda>s. (Inr x, s))"

definition gw_fail :: "string \<Rightarrow> ('v, 'a) gw" where
  "gw_fail e = (\<lambda>s. (Inl e, s))"

definition gw_bind :: "('v, 'a) gw \<Rightarrow> ('a \<Rightarrow> ('v, 'b) gw) \<Rightarrow> ('v, 'b) gw" where
  "gw_bind m f = (\<lambda>s. case m s of (Inl e, s') \<Rightarrow> (Inl e, s') | (Inr x, s') \<Rightarrow> f x s')"

definition gw_then :: "('v, 'a) gw \<Rightarrow> ('v, 'b) gw \<Rightarrow> ('v, 'b) gw" where
  "gw_then m n = gw_bind m (\<lambda>_. n)"

definition gw_check :: "string + 'a \<Rightarrow> ('v, 'a) gw" where
  "gw_check r = (\<lambda>s. (r, s))"

definition gw_modify :: "('v WorkGateway \<Rightarrow> 'v WorkGateway) \<Rightarrow> ('v, unit) gw" where
  "gw_modify f = (\<lambda>s. (Inr (), f s))"

lemma gw_simps [simp]:
  "gw_return x s = (Inr x, s)"
  "gw_fail e s = (Inl e, s)"
  "gw_check r s = (r, s)"
  "gw_modify f s = (Inr (), f s)"
  by (simp_all add: gw_return_def gw_fail_def gw_check_def gw_modify_def)

lemma gw_bind_Inl [simp]: "m s = (Inl e, s') \<Longrightarrow> gw_bind m f s = (Inl e, s')"
  by (simp add: gw_bind_def)

lemma gw_bind_Inr [simp]: "m s = (Inr x, s') \<Longrightarrow> gw_bind m f s = f x s'"
  by (simp add: gw_bind_def)

lemma gw_then_apply: "gw_then m n s = gw_bind m (\<lambda>_. n) s"
  by (simp add: gw_then_def)

lemma gw_bind_ok:
  "gw_bind m f s = (Inr y, t) \<longleftrightarrow> (\<exists>x s'. m s = (Inr x, s') \<and> f x s' = (Inr y, t))"
  by (auto simp: gw_bind_def split: prod.splits sum.splits)

section \<open>Reading the state\<close>

definition has_work :: "('v, 'x) WorkGateway_scheme \<Rightarrow> string \<Rightarrow> bool" where
  "has_work s w \<longleftrightarrow> lookup (gw_works s) w \<noteq> None"

definition execution_id :: "('v, 'x) WorkGateway_scheme \<Rightarrow> string \<Rightarrow> string option" where
  "execution_id s w = lookup (gw_execution_ids s) w"

definition run_ids_of :: "('v, 'x) WorkGateway_scheme \<Rightarrow> string \<Rightarrow> string list" where
  "run_ids_of s w = bt_inner (gw_run_ids s) w"

definition run_state :: "('v, 'x) WorkGateway_scheme \<Rightarrow> string \<Rightarrow> string \<Rightarrow> WorkState option" where
  "run_state s w r = bt_get2 (gw_run_states s) w r"

definition run_metadata_of :: "('v, 'x) WorkGateway_scheme \<Rightarrow> string \<Rightarrow> string \<Rightarrow> 'v strmap option" where
  "run_metadata_of s w r = bt_get2 (gw_run_metadata s) w r"

definition effect_status :: "('v, 'x) WorkGateway_scheme \<Rightarrow> string \<Rightarrow> string \<Rightarrow> EffectProjection option" where
  "effect_status s w e = bt_get2 (gw_effects s) w e"

definition effect_statuses :: "('v, 'x) WorkGateway_scheme \<Rightarrow> string \<Rightarrow> EffectProjection list" where
  "effect_statuses s w = map snd (bt_inner (gw_effects s) w)"

definition has_unresolved_uncertain_effect :: "('v, 'x) WorkGateway_scheme \<Rightarrow> string \<Rightarrow> bool" where
  "has_unresolved_uncertain_effect s w \<longleftrightarrow> list_ex requires_reconciliation (effect_statuses s w)"

definition pending_approval :: "('v, 'x) WorkGateway_scheme \<Rightarrow> string \<Rightarrow> string \<Rightarrow> 'v option" where
  "pending_approval s w t = bt_get2 (gw_pending s) w t"

definition pending_approvals_for_run :: "'v json_full \<Rightarrow> ('v, 'x) WorkGateway_scheme \<Rightarrow> string \<Rightarrow> string \<Rightarrow> (string \<times> 'v) list" where
  "pending_approvals_for_run j s w r = filter (\<lambda>(t, v). get_str j v ''runId'' = Some r) (bt_inner (gw_pending s) w)"

definition events_of :: "('v, 'x) WorkGateway_scheme \<Rightarrow> string \<Rightarrow> 'v WorkEventEnvelope list" where
  "events_of s w = bt_inner (gw_events s) w"

definition replay_from :: "('v, 'x) WorkGateway_scheme \<Rightarrow> string \<Rightarrow> nat \<Rightarrow> 'v WorkEventEnvelope list" where
  "replay_from s w sq = filter (\<lambda>e. sq \<le> we_sequence e) (events_of s w)"

text \<open>The \<open>{:?}\<close> rendering of a state.\<close>

fun state_debug :: "WorkState \<Rightarrow> string" where
  "state_debug WsCreated = ''Created''"
| "state_debug WsPlanning = ''Planning''"
| "state_debug WsReady = ''Ready''"
| "state_debug WsRunning = ''Running''"
| "state_debug WsWaitingTool = ''WaitingTool''"
| "state_debug WsWaitingApproval = ''WaitingApproval''"
| "state_debug WsWaitingUser = ''WaitingUser''"
| "state_debug WsCheckpointed = ''Checkpointed''"
| "state_debug WsVerifying = ''Verifying''"
| "state_debug WsCompleted = ''Completed''"
| "state_debug WsFailed = ''Failed''"
| "state_debug WsCancelled = ''Cancelled''"
| "state_debug WsPaused = ''Paused''"
| "state_debug WsRecoverable = ''Recoverable''"

definition quoted :: "string \<Rightarrow> string" where
  "quoted x = ''`'' @ x @ ''`''"

section \<open>Runs\<close>

definition put_address :: "string \<Rightarrow> WorkAddress \<Rightarrow> 'v WorkGateway \<Rightarrow> 'v WorkGateway" where
  "put_address w a s = s\<lparr>gw_works := bt_insert w a (gw_works s)\<rparr>"

definition note_run_reference :: "string \<Rightarrow> string \<Rightarrow> 'v WorkGateway \<Rightarrow> 'v WorkGateway" where
  "note_run_reference w r s =
     (let runs = run_ids_of s w;
          s1 = s\<lparr>gw_run_ids := bt_insert w (if r \<in> set runs then runs else runs @ [r]) (gw_run_ids s),
                 gw_execution_ids := AList.update w r (gw_execution_ids s)\<rparr>
      in case lookup (gw_works s1) w of
           None \<Rightarrow> s1
         | Some a \<Rightarrow> put_address w (a\<lparr>wa_current_run_id := Some r\<rparr>) s1)"

text \<open>The three refusals shared by \<open>validate_run_transition\<close> and \<open>set_run_state\<close>.\<close>

definition transition_refusal ::
  "'v json_full \<Rightarrow> 'v WorkGateway \<Rightarrow> string \<Rightarrow> string \<Rightarrow> WorkState \<Rightarrow> WorkState \<Rightarrow> string option" where
  "transition_refusal j s w r prev st =
     (if \<not> work_can_transition prev st
      then Some (''illegal Work transition '' @ state_debug prev @ '' '' @ [CHR 0xE2, CHR 0x86, CHR 0x92] @ '' '' @
                 state_debug st @ '' for run '' @ quoted r)
      else if prev = WsWaitingApproval \<and> st \<noteq> WsWaitingApproval \<and> pending_approvals_for_run j s w r \<noteq> []
      then Some (''run '' @ quoted r @ '' cannot leave WaitingApproval with an unresolved approval'')
      else if st = WsRunning \<and> prev = WsRecoverable \<and> has_unresolved_uncertain_effect s w
      then Some (''run '' @ quoted r @ '' is Recoverable with an unresolved uncertain effect; reconcile before retry'')
      else None)"

definition validate_run_transition ::
  "'v json_full \<Rightarrow> 'v WorkGateway \<Rightarrow> string \<Rightarrow> string \<Rightarrow> WorkState \<Rightarrow> string + unit" where
  "validate_run_transition j s w r st =
     (case run_state s w r of
        None \<Rightarrow> Inr ()
      | Some prev \<Rightarrow> (case transition_refusal j s w r prev st of Some e \<Rightarrow> Inl e | None \<Rightarrow> Inr ()))"

definition presence_of :: "'v WorkGateway \<Rightarrow> string \<Rightarrow> WorkPresence" where
  "presence_of s w = (case lookup (gw_presence s) w of None \<Rightarrow> presence_default | Some p \<Rightarrow> p)"

definition put_presence :: "string \<Rightarrow> WorkPresence \<Rightarrow> 'v WorkGateway \<Rightarrow> 'v WorkGateway" where
  "put_presence w p s = s\<lparr>gw_presence := AList.update w p (gw_presence s)\<rparr>"

definition put_run_state :: "string \<Rightarrow> string \<Rightarrow> WorkState \<Rightarrow> 'v WorkGateway \<Rightarrow> 'v WorkGateway" where
  "put_run_state w r st s = s\<lparr>gw_run_states := bt_insert2 w r st (gw_run_states s)\<rparr>"

definition project_presence :: "string \<Rightarrow> string \<Rightarrow> WorkState \<Rightarrow> WaitCondition option \<Rightarrow> 'v WorkGateway \<Rightarrow> 'v WorkGateway" where
  "project_presence w r st wait s =
     (if execution_id s w = Some r
      then put_presence w
             ((presence_of s w)\<lparr>pr_work_id := w, pr_active_run := Some r, pr_work_state := Some st,
                pr_state := Some (presence_projection st wait),
                pr_wait := (if work_is_running st \<or> st = WsPaused then wait else None)\<rparr>) s
      else s)"

definition set_run_state ::
  "'v json_full \<Rightarrow> string \<Rightarrow> string \<Rightarrow> WorkState \<Rightarrow> WaitCondition option \<Rightarrow> ('v, unit) gw" where
  "set_run_state j w r st wait s0 =
     (let s = note_run_reference w r s0; prev = run_state s w r in
      if prev = None \<and> work_is_terminal st
      then (Inl (''run '' @ quoted r @ '' reached terminal state without a durable start/queue event''), s)
      else case Option.bind prev (\<lambda>p. transition_refusal j s w r p st) of
             Some e \<Rightarrow> (Inl e, s)
           | None \<Rightarrow> (Inr (), project_presence w r st wait (put_run_state w r st s)))"

section \<open>Effects\<close>

definition put_effect :: "string \<Rightarrow> string \<Rightarrow> EffectProjection \<Rightarrow> 'v WorkGateway \<Rightarrow> 'v WorkGateway" where
  "put_effect w e x s = s\<lparr>gw_effects := bt_insert2 w e x (gw_effects s)\<rparr>"

definition apply_effect_attempt ::
  "string \<Rightarrow> string \<Rightarrow> string option \<Rightarrow> IdempotencyClass option \<Rightarrow> nat \<Rightarrow> 'v WorkGateway \<Rightarrow> 'v WorkGateway" where
  "apply_effect_attempt w e grant cls sq s =
     (let x = (case effect_status s w e of None \<Rightarrow> effect_new e sq | Some x \<Rightarrow> x)
      in put_effect w e
           (x\<lparr>ep_state := ''attempted'', ep_uncertainty := UnknownOutcome, ep_idempotency_class := cls,
              ep_grant_id := grant, ep_last_sequence := sq\<rparr>) s)"

definition ensure_effects :: "string \<Rightarrow> 'v WorkGateway \<Rightarrow> 'v WorkGateway" where
  "ensure_effects w s = s\<lparr>gw_effects := bt_insert w (bt_inner (gw_effects s) w) (gw_effects s)\<rparr>"

definition observe_effect :: "string \<Rightarrow> nat \<Rightarrow> EffectProjection \<Rightarrow> EffectProjection" where
  "observe_effect outc sq x =
     (if outc = ''unknown'' \<or> outc = ''uncertain'' \<or> outc = ''partial''
      then x\<lparr>ep_state := ''uncertain'', ep_uncertainty := (if outc = ''partial'' then UncPartial else UnknownOutcome),
             ep_reason := Some outc, ep_last_sequence := sq\<rparr>
      else x\<lparr>ep_state := ''observed'', ep_uncertainty := UncNone, ep_reason := Some outc, ep_last_sequence := sq\<rparr>)"

definition apply_effect_observed :: "string \<Rightarrow> string \<Rightarrow> string \<Rightarrow> nat \<Rightarrow> ('v, unit) gw" where
  "apply_effect_observed w e outc sq s0 =
     (let s = ensure_effects w s0 in
      case effect_status s w e of
        None \<Rightarrow> (Inl (''effect '' @ quoted e @ '' observed before attempt''), s)
      | Some x \<Rightarrow> (Inr (), put_effect w e (observe_effect outc sq x) s))"

definition apply_effect_verified :: "string \<Rightarrow> string \<Rightarrow> bool \<Rightarrow> nat \<Rightarrow> ('v, unit) gw" where
  "apply_effect_verified w e verified sq s =
     (case effect_status s w e of
        None \<Rightarrow> (Inl (''effect '' @ quoted e @ '' verified before observation''), s)
      | Some x \<Rightarrow>
          (Inr (), put_effect w e
             (x\<lparr>ep_state := (if verified then ''verified'' else ''failed''), ep_uncertainty := UncNone,
                ep_last_sequence := sq\<rparr>) s))"

definition apply_effect_uncertain ::
  "string \<Rightarrow> string \<Rightarrow> string option \<Rightarrow> IdempotencyClass option \<Rightarrow> nat \<Rightarrow> ('v, unit) gw" where
  "apply_effect_uncertain w e reason cls sq s =
     (case lookup (gw_effects s) w of
        None \<Rightarrow> (Inl (''effect '' @ quoted e @ '' uncertain before a Work attempt''), s)
      | Some _ \<Rightarrow>
          (case effect_status s w e of
             None \<Rightarrow> (Inl (''effect '' @ quoted e @ '' uncertain before an attempt''), s)
           | Some x \<Rightarrow>
               (Inr (), put_effect w e
                  (x\<lparr>ep_state := ''uncertain'', ep_uncertainty := UnknownOutcome,
                     ep_idempotency_class := (if cls \<noteq> None then cls else ep_idempotency_class x),
                     ep_reason := reason, ep_last_sequence := sq\<rparr>) s)))"

definition apply_effect_reconciled :: "string \<Rightarrow> string \<Rightarrow> string \<Rightarrow> bool \<Rightarrow> nat \<Rightarrow> ('v, unit) gw" where
  "apply_effect_reconciled w e outc retry_safe sq s =
     (case effect_status s w e of
        None \<Rightarrow> (Inl (''effect '' @ quoted e @ '' reconciled before an attempt''), s)
      | Some x \<Rightarrow>
          if \<not> requires_reconciliation x then (Inl (''effect '' @ quoted e @ '' is not uncertain''), s)
          else (Inr (), put_effect w e
                  (x\<lparr>ep_state := (if retry_safe then ''retry_safe'' else ''reconciled''), ep_uncertainty := UncNone,
                     ep_reason := Some outc, ep_last_sequence := sq\<rparr>) s))"

section \<open>Work updates\<close>

definition put_metadata :: "string \<Rightarrow> string \<Rightarrow> 'v strmap \<Rightarrow> 'v WorkGateway \<Rightarrow> 'v WorkGateway" where
  "put_metadata w r m s = s\<lparr>gw_run_metadata := bt_insert2 w r m (gw_run_metadata s)\<rparr>"

text \<open>The loop that merges the fields of a run projection; it stops at the first conflict, with the
  fields before it already inserted.\<close>

fun merge_fields :: "(string \<times> 'v) list \<Rightarrow> 'v strmap \<Rightarrow> (string + unit) \<times> 'v strmap" where
  "merge_fields [] obj = (Inr (), obj)"
| "merge_fields ((k, v) # rest) obj =
     (case lookup obj k of
        Some old \<Rightarrow>
          if old \<noteq> v then (Inl (''run metadata field '' @ quoted k @ '' conflicts with an earlier event''), obj)
          else merge_fields rest obj
      | None \<Rightarrow> merge_fields rest (bt_insert k v obj))"

definition get_or :: "'v json_full \<Rightarrow> 'v \<Rightarrow> string \<Rightarrow> string \<Rightarrow> 'v option" where
  "get_or j v a b = (case j_get j v a of Some x \<Rightarrow> Some x | None \<Rightarrow> j_get j v b)"

definition update_execution :: "'v json_full \<Rightarrow> string \<Rightarrow> 'v \<Rightarrow> WorkAddress \<Rightarrow> ('v, WorkAddress) gw" where
  "update_execution j w patch a s =
     (case j_get j patch ''executionId'' of
        None \<Rightarrow> (Inr a, s)
      | Some v \<Rightarrow>
          (case j_as_str j v of
             None \<Rightarrow> (Inl ''WorkUpdated executionId must be a string'', s)
           | Some x \<Rightarrow>
               if x = [] then (Inl ''WorkUpdated executionId cannot be empty'', s)
               else (Inr (a\<lparr>wa_current_run_id := Some x\<rparr>), note_run_reference w x s)))"

definition update_run :: "'v json_full \<Rightarrow> string \<Rightarrow> 'v \<Rightarrow> ('v, unit) gw" where
  "update_run j w patch s0 =
     (case j_get j patch ''run'' of
        None \<Rightarrow> (Inr (), s0)
      | Some run \<Rightarrow>
          (case j_as_object j run of
             None \<Rightarrow> (Inl ''WorkUpdated run projection must be an object'', s0)
           | Some incoming \<Rightarrow>
               (case Option.bind (get_or j run ''runId'' ''executionId'') (j_as_str j) of
                  None \<Rightarrow> (Inl ''WorkUpdated run projection requires runId'', s0)
                | Some r \<Rightarrow>
                    let s = note_run_reference w r s0;
                        obj = (case run_metadata_of s w r of None \<Rightarrow> [] | Some m \<Rightarrow> m);
                        (res, obj') = merge_fields incoming obj
                    in (res, put_metadata w r obj' s))))"

definition update_owner :: "'v json_full \<Rightarrow> 'v \<Rightarrow> WorkAddress \<Rightarrow> string + WorkAddress" where
  "update_owner j patch a =
     (case get_or j patch ''ownerId'' ''owner_id'' of
        None \<Rightarrow> Inr a
      | Some v \<Rightarrow>
          (case j_as_str j v of
             None \<Rightarrow> Inl ''WorkUpdated ownerId must be a string''
           | Some x \<Rightarrow> Inr (a\<lparr>wa_owner_id := Some x\<rparr>)))"

definition update_binding :: "'v json_full \<Rightarrow> 'v \<Rightarrow> WorkAddress \<Rightarrow> string + WorkAddress" where
  "update_binding j patch a =
     (case get_or j patch ''bindingId'' ''binding_id'' of
        None \<Rightarrow> Inr a
      | Some v \<Rightarrow>
          (case j_as_str j v of
             None \<Rightarrow> Inl ''WorkUpdated bindingId must be a string''
           | Some x \<Rightarrow> Inr (a\<lparr>wa_binding_id := Some x\<rparr>)))"

definition update_address :: "'v json_full \<Rightarrow> 'v \<Rightarrow> WorkAddress \<Rightarrow> string + WorkAddress" where
  "update_address j patch a =
     res_bind (merge_patch j patch (wa_provenance a)) (\<lambda>(p, _).
     res_bind (validate_complete p) (\<lambda>_.
     res_bind (update_owner j patch (a\<lparr>wa_provenance := p\<rparr>)) (update_binding j patch)))"

definition remove_work :: "string \<Rightarrow> 'v WorkGateway \<Rightarrow> 'v WorkGateway" where
  "remove_work w s = s\<lparr>gw_works := bt_remove w (gw_works s)\<rparr>"

definition store_update :: "'v json_full \<Rightarrow> string \<Rightarrow> 'v \<Rightarrow> WorkAddress \<Rightarrow> 'v WorkGateway \<Rightarrow> 'v WorkGateway" where
  "store_update j w patch a s =
     (if get_bool j patch ''archived'' = Some True then remove_work w s
      else put_address w (a\<lparr>wa_version := u64_sat_add (wa_version a) 1\<rparr>) s)"

definition apply_work_update :: "'v json_full \<Rightarrow> string \<Rightarrow> 'v \<Rightarrow> ('v, unit) gw" where
  "apply_work_update j w patch s0 =
     (case lookup (gw_works s0) w of
        None \<Rightarrow> (Inl (''WorkUpdated references unknown Work '' @ quoted w), s0)
      | Some a0 \<Rightarrow>
          gw_bind (update_execution j w patch a0) (\<lambda>a1.
          gw_then (update_run j w patch)
            (gw_bind (gw_check (update_address j patch a1)) (\<lambda>a2.
               gw_modify (store_update j w patch a2)))) s0)"

section \<open>Approvals\<close>

definition approval_event_run_id :: "'v WorkGateway \<Rightarrow> string \<Rightarrow> string option \<Rightarrow> string + string" where
  "approval_event_run_id s w explicit =
     (case (case explicit of Some r \<Rightarrow> Some r | None \<Rightarrow> execution_id s w) of
        None \<Rightarrow> Inl (''Work '' @ quoted w @ '' approval event has no Run owner'')
      | Some r \<Rightarrow>
          if r \<in> set (run_ids_of s w) then Inr r
          else Inl (''Work '' @ quoted w @ '' approval event references unknown Run '' @ quoted r))"

definition approval_value ::
  "'v json_full \<Rightarrow> string \<Rightarrow> string option \<Rightarrow> string option \<Rightarrow> string option \<Rightarrow> nat option \<Rightarrow> string \<Rightarrow> 'v" where
  "approval_value j t tool args risk at_ms r =
     json_lit j [(''ticketId'', j_str j t), (''toolId'', j_opt_str j tool), (''argsHash'', j_opt_str j args),
                 (''riskTier'', j_opt_str j risk), (''requestedAtMs'', j_opt_num j at_ms), (''runId'', j_str j r)]"

definition put_pending :: "string \<Rightarrow> string \<Rightarrow> 'v \<Rightarrow> 'v WorkGateway \<Rightarrow> 'v WorkGateway" where
  "put_pending w t v s = s\<lparr>gw_pending := bt_insert2 w t v (gw_pending s)\<rparr>"

definition ensure_pending :: "string \<Rightarrow> 'v WorkGateway \<Rightarrow> 'v WorkGateway" where
  "ensure_pending w s = s\<lparr>gw_pending := bt_insert w (bt_inner (gw_pending s) w) (gw_pending s)\<rparr>"

definition replay_approval_requested ::
  "'v json_full \<Rightarrow> string \<Rightarrow> string \<Rightarrow> string option \<Rightarrow> string option \<Rightarrow> string option \<Rightarrow> string option \<Rightarrow>
   nat option \<Rightarrow> ('v, unit) gw" where
  "replay_approval_requested j w t run tool args risk at_ms s0 =
     (if str_trim t = [] then (Inl ''approval request has an empty ticket id'', s0)
      else case approval_event_run_id s0 w run of
        Inl e \<Rightarrow> (Inl e, s0)
      | Inr r \<Rightarrow>
          if run_state s0 w r \<noteq> Some WsWaitingApproval
          then (Inl (''approval request for '' @ quoted t @ '' is not attached to a WaitingApproval Run''), s0)
          else
            let v = approval_value j t tool args risk at_ms r; s = ensure_pending w s0 in
            if list_ex (\<lambda>(_, x). get_str j x ''runId'' = Some r) (bt_inner (gw_pending s) w)
            then (Inl (''Run '' @ quoted r @ '' already has a pending approval''), s)
            else (case pending_approval s w t of
                    Some old \<Rightarrow>
                      if old \<noteq> v
                      then (Inl (''approval ticket '' @ quoted t @ '' was requested with conflicting metadata''), s)
                      else (Inl (''approval ticket '' @ quoted t @ '' is already pending''), s)
                  | None \<Rightarrow> (Inr (), put_pending w t v s)))"

text \<open>The ownership checks of a resolution.\<close>

definition resolution_refusal :: "'v json_full \<Rightarrow> 'v WorkGateway \<Rightarrow> string \<Rightarrow> string \<Rightarrow> string option \<Rightarrow> string option" where
  "resolution_refusal j s w t run =
     (if str_trim t = [] then Some ''approval resolution has an empty ticket id''
      else case (case run of Some r \<Rightarrow> r \<notin> set (run_ids_of s w) | None \<Rightarrow> False) of
        True \<Rightarrow> Some (''approval resolution references unknown Run '' @ quoted (the run))
      | False \<Rightarrow>
          (case Option.bind (pending_approval s w t) (\<lambda>v. get_str j v ''runId'') of
             Some owner \<Rightarrow>
               if run \<noteq> None \<and> run \<noteq> Some owner
               then Some (''approval '' @ quoted t @ '' belongs to Run '' @ quoted owner @ '', not '' @ quoted (the run))
               else if run_state s w owner \<noteq> Some WsWaitingApproval
               then Some (''approval '' @ quoted t @ '' is not resolved from WaitingApproval'')
               else None
           | None \<Rightarrow>
               if pending_approval s w t \<noteq> None then Some (''approval '' @ quoted t @ '' has no durable Run owner'')
               else None))"

definition drop_pending :: "string \<Rightarrow> string \<Rightarrow> 'v WorkGateway \<Rightarrow> 'v WorkGateway" where
  "drop_pending w t s =
     (case lookup (gw_pending s) w of
        None \<Rightarrow> s
      | Some pend \<Rightarrow>
          if lookup pend t = None then s
          else if bt_remove t pend = [] then s\<lparr>gw_pending := bt_remove w (gw_pending s)\<rparr>
          else s\<lparr>gw_pending := bt_insert w (bt_remove t pend) (gw_pending s)\<rparr>)"

definition mark_review :: "string \<Rightarrow> string \<Rightarrow> 'v WorkGateway \<Rightarrow> 'v WorkGateway" where
  "mark_review i st s =
     (case lookup (gw_reviews s) i of
        None \<Rightarrow> s
      | Some r \<Rightarrow> s\<lparr>gw_reviews := AList.update i (r\<lparr>rv_state := st\<rparr>) (gw_reviews s)\<rparr>)"

definition replay_approval_resolved ::
  "'v json_full \<Rightarrow> string \<Rightarrow> string \<Rightarrow> string option \<Rightarrow> bool \<Rightarrow> ('v, unit) gw" where
  "replay_approval_resolved j w t run approved s =
     (case resolution_refusal j s w t run of
        Some e \<Rightarrow> (Inl e, s)
      | None \<Rightarrow> (Inr (), mark_review t (if approved then ''approved'' else ''rejected'') (drop_pending w t s)))"

section \<open>Recovery facts\<close>

definition validate_p69g2_event :: "'v GwEnv \<Rightarrow> string \<Rightarrow> 'v WorkEvent \<Rightarrow> string + unit" where
  "validate_p69g2_event E w ev =
     (let change_set = (\<lambda>c. case cs_validate c of
            Inl e \<Rightarrow> Inl (''change set '' @ quoted (cs_change_set_id c) @ '' is invalid: '' @ e)
          | Inr _ \<Rightarrow>
              if cs_work_id c \<noteq> w
              then Inl (''change set '' @ quoted (cs_change_set_id c) @ '' is journaled under Work '' @ quoted w @
                        '', not '' @ quoted (cs_work_id c))
              else Inr ())
      in case ev of
           Domain d \<Rightarrow>
             (case d of
                FileChangeSetCaptured c \<Rightarrow> change_set c
              | FileChangeSetSettled c \<Rightarrow> change_set c
              | DelegationLeaseFact child f \<Rightarrow>
                  if lf_lease_id f = [] then Inl ''delegation lease fact has an empty lease id''
                  else if str_trim child = [] then Inl ''delegation lease fact names no child work''
                  else (case fact_validate (ge_fact_ser E) f of
                          Inl e \<Rightarrow> Inl (''delegation lease fact is invalid: '' @ e)
                        | Inr _ \<Rightarrow> Inr ())
              | SubagentHeartbeat child _ \<Rightarrow>
                  if str_trim child = [] then Inl ''subagent heartbeat names no child work'' else Inr ()
              | SubagentLeaseReclaimed rc \<Rightarrow>
                  if str_trim (tr_child_work_id rc) = [] then Inl ''subagent reclaim names no child work'' else Inr ()
              | _ \<Rightarrow> Inr ())
         | _ \<Rightarrow> Inr ())"

definition put_change_set :: "TurnChangeSet \<Rightarrow> 'v WorkGateway \<Rightarrow> 'v WorkGateway" where
  "put_change_set c s = s\<lparr>gw_change_sets := bt_insert2 (cs_work_id c) (cs_step_id c) c (gw_change_sets s)\<rparr>"

definition count_refusal :: "string \<Rightarrow> CycleRefusal \<Rightarrow> 'v WorkGateway \<Rightarrow> 'v WorkGateway" where
  "count_refusal w r s =
     (let n = (case lookup (gw_refusals s) w of None \<Rightarrow> 0 | Some x \<Rightarrow> dr_count x)
      in s\<lparr>gw_refusals := bt_insert w \<lparr> dr_work_id = w, dr_count = u64_sat_add n 1, dr_last = r \<rparr> (gw_refusals s)\<rparr>)"

definition beat :: "string \<Rightarrow> nat \<Rightarrow> 'v WorkGateway \<Rightarrow> 'v WorkGateway" where
  "beat child at_ms s =
     (let slot = (case lookup (gw_heartbeats s) child of None \<Rightarrow> 0 | Some t \<Rightarrow> t)
      in s\<lparr>gw_heartbeats := bt_insert child (if slot \<le> at_ms then at_ms else slot) (gw_heartbeats s)\<rparr>)"

definition apply_lease_fact :: "'v GwEnv \<Rightarrow> nat \<Rightarrow> LeaseLifecycleFact \<Rightarrow> bool \<Rightarrow> ('v, unit) gw" where
  "apply_lease_fact E sq f recovery s =
     (let (res, c) = apply_fact (ge_fact_ser E) (ge_bytes E sq) f recovery (gw_leases s)
      in case res of
           Inl e \<Rightarrow> (Inl (''delegation lease fact: '' @ lease_error_str e), s\<lparr>gw_leases := c\<rparr>)
         | Inr _ \<Rightarrow> (Inr (), s\<lparr>gw_leases := c\<rparr>))"

definition project_p69g2_event :: "'v GwEnv \<Rightarrow> string \<Rightarrow> nat \<Rightarrow> 'v WorkEvent \<Rightarrow> bool \<Rightarrow> ('v, unit) gw" where
  "project_p69g2_event E w sq ev recovery =
     gw_then (gw_check (validate_p69g2_event E w ev))
       (case ev of
          Domain d \<Rightarrow>
            (case d of
               FileChangeSetCaptured c \<Rightarrow> gw_modify (put_change_set c)
             | FileChangeSetSettled c \<Rightarrow> gw_modify (put_change_set c)
             | DelegationRefused r \<Rightarrow> gw_modify (count_refusal w r)
             | DelegationLeaseFact _ f \<Rightarrow> apply_lease_fact E sq f recovery
             | SubagentHeartbeat child at_ms \<Rightarrow> gw_modify (beat child at_ms)
             | SubagentLeaseReclaimed rc \<Rightarrow>
                 gw_modify (\<lambda>s. s\<lparr>gw_reclaims := bt_insert (tr_child_work_id rc) rc (gw_reclaims s)\<rparr>)
             | _ \<Rightarrow> gw_return ())
        | _ \<Rightarrow> gw_return ())"

end
