(* ===== verification/Work_Journal.thy ===== *)
theory Work_Journal
  imports Work_State
begin

text \<open>
  The journal of the Work gateway (\<open>everyaios-core/src/work_gateway.rs\<close>): replay of one event, the
  consistency check after a replay, \<open>open\<close>, and \<open>append\<close> with its durable write.
\<close>

section \<open>Replaying one event\<close>

definition replay_created :: "'v GwEnv \<Rightarrow> string \<Rightarrow> WorkCreation \<Rightarrow> ('v, unit) gw" where
  "replay_created E w c s =
     (if has_work s w then (Inl (''duplicate WorkCreated for '' @ quoted w), s)
      else case validate_complete (cn_provenance c) of
        Inl e \<Rightarrow> (Inl e, s)
      | Inr _ \<Rightarrow>
          if cn_session_kind c = SkAutomation \<and> cn_session_id c = None
          then (Inl (''automation Work '' @ quoted w @ '' has no owning Session in its creation event''), s)
          else
            let initial = (case cn_initial_state c of None \<Rightarrow> WsCreated | Some st \<Rightarrow> st) in
            if work_is_terminal initial \<and> cn_run_id c = None
            then (Inl (''terminal Work '' @ quoted w @ '' has no durable Run''), s)
            else
              let a = (address_new w)\<lparr>wa_project_id := cn_project_id c, wa_session_id := cn_session_id c,
                        wa_parent_work_id := cn_parent_work_id c, wa_session_kind := cn_session_kind c,
                        wa_owner_id := cn_owner_id c, wa_binding_id := cn_binding_id c,
                        wa_provenance := cn_provenance c\<rparr>;
                  p = presence_default\<lparr>pr_work_id := w, pr_state := Some (presence_projection initial None),
                        pr_work_state := Some initial\<rparr>;
                  s1 = put_presence w p (put_address w a s)
              in case cn_run_id c of
                   None \<Rightarrow> (Inr (), s1)
                 | Some r \<Rightarrow>
                     let s2 = note_run_reference w r s1
                     in (Inr (), case cn_trigger c of
                                   None \<Rightarrow> s2
                                 | Some t \<Rightarrow> put_metadata w r [(''trigger'', j_str (ge_json E) t)] s2))"

definition replay_run :: "'v GwEnv \<Rightarrow> string \<Rightarrow> string \<Rightarrow> WorkState \<Rightarrow> WaitCondition option \<Rightarrow> ('v, unit) gw" where
  "replay_run E w r st wait s = set_run_state (ge_json E) w r st wait (note_run_reference w r s)"

definition replay_checkpointed :: "'v GwEnv \<Rightarrow> string \<Rightarrow> string \<Rightarrow> nat \<Rightarrow> ('v, unit) gw" where
  "replay_checkpointed E w r n =
     gw_then (replay_run E w r WsCheckpointed None)
       (gw_modify (\<lambda>s. let m = (case run_metadata_of s w r of None \<Rightarrow> [] | Some m \<Rightarrow> m)
                        in put_metadata w r (bt_insert ''checkpoint'' (j_num (ge_json E) n) m) s))"

definition review_default :: "string \<Rightarrow> string \<Rightarrow> ReviewItem" where
  "review_default i w =
     \<lparr> rv_review_id = i, rv_work_id = w, rv_run_id = None, rv_kind = ''review'', rv_priority = 0,
       rv_state = ''pending'', rv_artifact_refs = [], rv_effect_refs = [] \<rparr>"

definition replay_review_requested :: "string \<Rightarrow> string \<Rightarrow> 'v WorkGateway \<Rightarrow> 'v WorkGateway" where
  "replay_review_requested w i s =
     (if lookup (gw_reviews s) i \<noteq> None then s
      else s\<lparr>gw_reviews := AList.update i (review_default i w) (gw_reviews s)\<rparr>)"

definition attach_presence :: "string \<Rightarrow> string \<Rightarrow> 'v WorkGateway \<Rightarrow> 'v WorkGateway" where
  "attach_presence w c s =
     (let p = presence_of s w
      in put_presence w
           (p\<lparr>pr_work_id := w,
              pr_active_clients := (if c \<in> set (pr_active_clients p) then pr_active_clients p
                                    else pr_active_clients p @ [c])\<rparr>) s)"

definition detach_presence :: "string \<Rightarrow> string \<Rightarrow> 'v WorkGateway \<Rightarrow> 'v WorkGateway" where
  "detach_presence w c s =
     (case lookup (gw_presence s) w of
        None \<Rightarrow> s
      | Some p \<Rightarrow> put_presence w (p\<lparr>pr_active_clients := filter (\<lambda>x. x \<noteq> c) (pr_active_clients p)\<rparr>) s)"

definition put_binding :: "string \<Rightarrow> AgentBinding \<Rightarrow> 'v WorkGateway \<Rightarrow> 'v WorkGateway" where
  "put_binding i b s = s\<lparr>gw_agent_bindings := AList.update i b (gw_agent_bindings s)\<rparr>"

definition replay_binding_created :: "string \<Rightarrow> nat \<Rightarrow> AgentBinding \<Rightarrow> ('v, unit) gw" where
  "replay_binding_created w sq b s =
     (if ab_work_id b \<noteq> w
      then (Inl (''binding '' @ quoted (ab_binding_id b) @ '' is attached to a different Work than its event''), s)
      else (Inr (), put_binding (ab_binding_id b) (b\<lparr>ab_last_event_seq := sq\<rparr>) s))"

text \<open>The lookup of a binding named by an event of Work \<open>w\<close>.\<close>

definition owned_binding :: "'v WorkGateway \<Rightarrow> string \<Rightarrow> string \<Rightarrow> string + AgentBinding" where
  "owned_binding s w i =
     (case lookup (gw_agent_bindings s) i of
        None \<Rightarrow> Inl (''journal references unknown binding '' @ quoted i)
      | Some b \<Rightarrow> if ab_work_id b \<noteq> w then Inl (''binding '' @ quoted i @ '' is owned by another Work'') else Inr b)"

definition set_address_binding :: "string \<Rightarrow> string option \<Rightarrow> 'v WorkGateway \<Rightarrow> 'v WorkGateway" where
  "set_address_binding w b s =
     (case lookup (gw_works s) w of None \<Rightarrow> s | Some a \<Rightarrow> put_address w (a\<lparr>wa_binding_id := b\<rparr>) s)"

definition replay_binding_active :: "string \<Rightarrow> nat \<Rightarrow> string \<Rightarrow> string option \<Rightarrow> ('v, unit) gw" where
  "replay_binding_active w sq i sid s =
     (case owned_binding s w i of
        Inl e \<Rightarrow> (Inl e, s)
      | Inr b \<Rightarrow>
          let b' = b\<lparr>ab_state := BlActive, ab_last_event_seq := sq,
                     ab_provider_session_id := (if sid \<noteq> None then sid else ab_provider_session_id b)\<rparr>;
              s1 = put_binding i b' s;
              s2 = s1\<lparr>gw_active_bindings := bt_insert w i (gw_active_bindings s1)\<rparr>
          in (Inr (), set_address_binding w (Some i) s2))"

definition replay_binding_suspended :: "string \<Rightarrow> nat \<Rightarrow> string \<Rightarrow> ('v, unit) gw" where
  "replay_binding_suspended w sq i s =
     (case owned_binding s w i of
        Inl e \<Rightarrow> (Inl e, s)
      | Inr b \<Rightarrow>
          let s1 = put_binding i (b\<lparr>ab_state := BlParked, ab_last_event_seq := sq\<rparr>) s
          in (Inr (),
              if lookup (gw_active_bindings s1) w = Some i
              then set_address_binding w None
                     (s1\<lparr>gw_active_bindings := bt_remove w (gw_active_bindings s1)\<rparr>)
              else s1))"

definition usage_add :: "BindingUsage \<Rightarrow> BindingUsage \<Rightarrow> BindingUsage" where
  "usage_add a b =
     \<lparr> bu_input_tokens = u64_sat_add (bu_input_tokens a) (bu_input_tokens b),
       bu_output_tokens = u64_sat_add (bu_output_tokens a) (bu_output_tokens b),
       bu_cost_micros = u64_sat_add (bu_cost_micros a) (bu_cost_micros b) \<rparr>"

definition replay_binding_usage :: "string \<Rightarrow> nat \<Rightarrow> string \<Rightarrow> BindingUsage \<Rightarrow> ('v, unit) gw" where
  "replay_binding_usage w sq i u s =
     (case owned_binding s w i of
        Inl e \<Rightarrow> (Inl e, s)
      | Inr b \<Rightarrow> (Inr (), put_binding i (b\<lparr>ab_usage := usage_add (ab_usage b) u, ab_last_event_seq := sq\<rparr>) s))"

definition replay_domain :: "'v GwEnv \<Rightarrow> string \<Rightarrow> nat \<Rightarrow> 'v DomainEvent \<Rightarrow> ('v, unit) gw" where
  "replay_domain E w sq d =
     (let j = ge_json E in
      case d of
        WorkCreated c \<Rightarrow> replay_created E w c
      | WorkUpdated patch \<Rightarrow> apply_work_update j w patch
      | RunQueued r \<Rightarrow> replay_run E w r WsReady None
      | RunStarted r \<Rightarrow> replay_run E w r WsRunning None
      | RunWaiting r reason wait \<Rightarrow>
          (case work_state_try_parse reason of
             None \<Rightarrow> gw_fail (''unknown Work state '' @ quoted reason @ '' in journal'')
           | Some st \<Rightarrow> replay_run E w r st wait)
      | RunCheckpointed r n \<Rightarrow> replay_checkpointed E w r n
      | RunPaused r \<Rightarrow> replay_run E w r WsPaused None
      | RunInterrupted r _ \<Rightarrow> replay_run E w r WsRecoverable None
      | RunCompleted r \<Rightarrow> replay_run E w r WsCompleted None
      | RunFailed r _ \<Rightarrow> replay_run E w r WsFailed None
      | RunCancelled r \<Rightarrow> replay_run E w r WsCancelled None
      | ApprovalResolved t run approved \<Rightarrow> replay_approval_resolved j w t run approved
      | ApprovalRequested t run tool args risk at_ms \<Rightarrow> replay_approval_requested j w t run tool args risk at_ms
      | ReviewRequested i \<Rightarrow> gw_modify (replay_review_requested w i)
      | EffectAttempted e grant cls \<Rightarrow> gw_modify (apply_effect_attempt w e grant cls sq)
      | EffectObserved e outc \<Rightarrow> apply_effect_observed w e outc sq
      | EffectVerified e ok \<Rightarrow> apply_effect_verified w e ok sq
      | EffectUncertain e reason cls \<Rightarrow> apply_effect_uncertain w e reason cls sq
      | EffectReconciled e outc safe \<Rightarrow> apply_effect_reconciled w e outc safe sq
      | FileChangeSetCaptured _ \<Rightarrow> project_p69g2_event E w sq (Domain d) True
      | FileChangeSetSettled _ \<Rightarrow> project_p69g2_event E w sq (Domain d) True
      | DelegationRefused _ \<Rightarrow> project_p69g2_event E w sq (Domain d) True
      | DelegationLeaseFact _ _ \<Rightarrow> project_p69g2_event E w sq (Domain d) True
      | SubagentHeartbeat _ _ \<Rightarrow> project_p69g2_event E w sq (Domain d) True
      | SubagentLeaseReclaimed _ \<Rightarrow> project_p69g2_event E w sq (Domain d) True
      | ArtifactCreated _ \<Rightarrow> gw_return ()
      | ArtifactUpdated _ \<Rightarrow> gw_return ())"

definition is_creation :: "'v WorkEvent \<Rightarrow> bool" where
  "is_creation ev = (case ev of Domain (WorkCreated _) \<Rightarrow> True | _ \<Rightarrow> False)"

definition replay_event :: "'v GwEnv \<Rightarrow> 'v WorkEventEnvelope \<Rightarrow> ('v, unit) gw" where
  "replay_event E e s =
     (let w = we_work_id e; sq = we_sequence e in
      if w = [] then (Inl ''work journal event has an empty work id'', s)
      else if \<not> is_creation (we_event e) \<and> \<not> has_work s w
      then (Inl (''work journal event '' @ show_nat sq @ '' precedes WorkCreated for '' @ quoted w), s)
      else case we_event e of
        Domain d \<Rightarrow> replay_domain E w sq d s
      | Operational (SessionAttached c) \<Rightarrow> (Inr (), attach_presence w c s)
      | Operational (SessionDetached c) \<Rightarrow> (Inr (), detach_presence w c s)
      | Runtime (AgentBindingCreated b) \<Rightarrow> replay_binding_created w sq b s
      | Runtime (AgentBindingActivated i sid) \<Rightarrow> replay_binding_active w sq i sid s
      | Runtime (AgentBindingResumed i sid) \<Rightarrow> replay_binding_active w sq i sid s
      | Runtime (AgentBindingSuspended i) \<Rightarrow> replay_binding_suspended w sq i s
      | Runtime (AgentBindingUsageRecorded i u) \<Rightarrow> replay_binding_usage w sq i u s
      | _ \<Rightarrow> (Inr (), s))"

section \<open>Consistency of a replayed state\<close>

fun first_error :: "('a \<Rightarrow> string option) \<Rightarrow> 'a list \<Rightarrow> string option" where
  "first_error f [] = None"
| "first_error f (x # xs) = (case f x of Some e \<Rightarrow> Some e | None \<Rightarrow> first_error f xs)"

lemma first_error_None: "first_error f xs = None \<longleftrightarrow> (\<forall>x \<in> set xs. f x = None)"
  by (induction xs) (auto split: option.split)

definition parent_error :: "'v WorkGateway \<Rightarrow> string \<Rightarrow> WorkAddress \<Rightarrow> string option" where
  "parent_error s w a =
     (case wa_parent_work_id a of
        None \<Rightarrow> None
      | Some p \<Rightarrow>
          (case lookup (gw_works s) p of
             None \<Rightarrow> Some (''Work '' @ quoted w @ '' references unknown parent '' @ quoted p)
           | Some pa \<Rightarrow>
               if wa_session_id pa \<noteq> wa_session_id a \<or> wa_session_kind pa \<noteq> wa_session_kind a
               then Some (''Work '' @ quoted w @ '' does not inherit its parent Session scope'')
               else None))"

definition binding_error :: "'v WorkGateway \<Rightarrow> string \<Rightarrow> WorkAddress \<Rightarrow> AgentBinding \<Rightarrow> string option" where
  "binding_error s w a b =
     (if wa_session_id a \<noteq> Some (ab_session_id b)
      then Some (''binding '' @ quoted (ab_binding_id b) @ '' is not owned by the Work Session'')
      else if ab_state b = BlActive \<and> lookup (gw_active_bindings s) w \<noteq> Some (ab_binding_id b)
      then Some (''active binding '' @ quoted (ab_binding_id b) @ '' has no Work ownership pointer'')
      else None)"

definition work_error :: "'v WorkGateway \<Rightarrow> string \<times> WorkAddress \<Rightarrow> string option" where
  "work_error s = (\<lambda>(w, a).
     if wa_work_id a \<noteq> w then Some (''Work '' @ quoted w @ '' has a mismatched address id'')
     else if wa_session_kind a = SkAutomation \<and> wa_session_id a = None
     then Some (''automation Work '' @ quoted w @ '' has no owning Session'')
     else case parent_error s w a of
       Some e \<Rightarrow> Some e
     | None \<Rightarrow>
         (case (case wa_current_run_id a of None \<Rightarrow> False | Some r \<Rightarrow> r \<notin> set (run_ids_of s w)) of
            True \<Rightarrow> Some (''Work '' @ quoted w @ '' points at an unjournaled Run '' @ quoted (the (wa_current_run_id a)))
          | False \<Rightarrow>
              (case (case lookup (gw_active_bindings s) w of
                       None \<Rightarrow> False
                     | Some i \<Rightarrow> wa_binding_id a \<noteq> Some i \<or> lookup (gw_agent_bindings s) i = None) of
                 True \<Rightarrow> Some (''Work '' @ quoted w @ '' has an invalid active binding pointer'')
               | False \<Rightarrow>
                   first_error (binding_error s w a)
                     (filter (\<lambda>b. ab_work_id b = w) (map snd (gw_agent_bindings s))))))"

definition active_bindings_of :: "'v WorkGateway \<Rightarrow> string \<Rightarrow> AgentBinding list" where
  "active_bindings_of s sid =
     filter (\<lambda>b. ab_state b = BlActive \<and> ab_session_id b = sid) (map snd (gw_agent_bindings s))"

definition session_error :: "'v WorkGateway \<Rightarrow> AgentBinding \<Rightarrow> string option" where
  "session_error s b =
     (let n = length (active_bindings_of s (ab_session_id b)) in
      if ab_state b = BlActive \<and> 1 < n
      then Some (''Session '' @ quoted (ab_session_id b) @ '' has '' @ show_nat n @
                 '' active bindings; ownership is ambiguous'')
      else None)"

definition pending_error :: "'v json_full \<Rightarrow> 'v WorkGateway \<Rightarrow> string \<Rightarrow> string \<times> 'v \<Rightarrow> string option" where
  "pending_error j s w = (\<lambda>(t, v).
     if get_str j v ''ticketId'' \<noteq> Some t
     then Some (''Work '' @ quoted w @ '' pending approval has a mismatched ticket id'')
     else case first_error
            (\<lambda>f. case j_get j v f of
                   None \<Rightarrow> None
                 | Some x \<Rightarrow> if \<not> j_is_null j x \<and> j_as_str j x = None
                            then Some (''pending approval '' @ quoted t @ '' has a non-string '' @ quoted f) else None)
            [''toolId'', ''argsHash'', ''riskTier''] of
       Some e \<Rightarrow> Some e
     | None \<Rightarrow>
         (case (case j_get j v ''requestedAtMs'' of
                  None \<Rightarrow> False
                | Some x \<Rightarrow> \<not> j_is_null j x \<and> j_as_u64 j x = None) of
            True \<Rightarrow> Some (''pending approval '' @ quoted t @ '' has an invalid requestedAtMs'')
          | False \<Rightarrow>
              (case get_str j v ''runId'' of
                 None \<Rightarrow> Some (''Work '' @ quoted w @ '' pending approval '' @ quoted t @ '' has no Run owner'')
               | Some r \<Rightarrow>
                   if r \<notin> set (run_ids_of s w)
                   then Some (''pending approval '' @ quoted t @ '' references unknown Run '' @ quoted r)
                   else if run_state s w r \<noteq> Some WsWaitingApproval
                   then Some (''pending approval '' @ quoted t @ '' is not attached to WaitingApproval'')
                   else None)))"

definition pending_map_error :: "'v json_full \<Rightarrow> 'v WorkGateway \<Rightarrow> string \<times> 'v strmap \<Rightarrow> string option" where
  "pending_map_error j s = (\<lambda>(w, pend).
     if \<not> has_work s w then Some (''pending approval references unknown Work '' @ quoted w)
     else if pend = [] then Some (''Work '' @ quoted w @ '' has an empty pending-approval projection'')
     else first_error (pending_error j s w) pend)"

definition effect_map_error :: "'v WorkGateway \<Rightarrow> string \<times> EffectProjection strmap \<Rightarrow> string option" where
  "effect_map_error s = (\<lambda>(w, effs).
     if \<not> has_work s w then Some (''effect projection references unknown Work '' @ quoted w)
     else if list_ex (\<lambda>(_, x). ep_effect_id x = []) effs then Some (''Work '' @ quoted w @ '' has an empty effect id'')
     else None)"

text \<open>\<open>validate_replayed_graph\<close>. The count per Session is taken over the active bindings in map order;
  the code reports the first ambiguous Session in key order.\<close>

definition graph_error :: "'v json_full \<Rightarrow> 'v WorkGateway \<Rightarrow> string option" where
  "graph_error j s =
     (case first_error (work_error s) (gw_works s) of
        Some e \<Rightarrow> Some e
      | None \<Rightarrow>
          (case first_error (session_error s) (sort_key ab_session_id (map snd (gw_agent_bindings s))) of
             Some e \<Rightarrow> Some e
           | None \<Rightarrow>
               (case first_error (pending_map_error j s) (gw_pending s) of
                  Some e \<Rightarrow> Some e
                | None \<Rightarrow> first_error (effect_map_error s) (gw_effects s))))"

definition validate_replayed_graph :: "'v json_full \<Rightarrow> 'v WorkGateway \<Rightarrow> string + unit" where
  "validate_replayed_graph j s = (case graph_error j s of Some e \<Rightarrow> Inl e | None \<Rightarrow> Inr ())"

section \<open>Opening a journal\<close>

definition push_event :: "'v WorkEventEnvelope \<Rightarrow> 'v WorkGateway \<Rightarrow> 'v WorkGateway" where
  "push_event e s = s\<lparr>gw_events := bt_insert (we_work_id e) (events_of s (we_work_id e) @ [e]) (gw_events s)\<rparr>"

text \<open>One iteration of the loading loop; the first component is \<open>last_sequence\<close>.\<close>

definition open_step :: "'v GwEnv \<Rightarrow> 'v WorkEventEnvelope \<Rightarrow> nat option \<Rightarrow> 'v WorkGateway \<Rightarrow> (string + nat option) \<times> 'v WorkGateway" where
  "open_step E e0 seen s =
     (if CANONICAL_SCHEMA_VERSION < we_schema_version e0
      then (Inl (''work journal event '' @ show_nat (we_sequence e0) @ '' uses unsupported schema version '' @
                 show_nat (we_schema_version e0)), s)
      else
        let e = (if we_schema_version e0 = 0 then e0\<lparr>we_schema_version := CANONICAL_SCHEMA_VERSION\<rparr> else e0);
            sq = we_sequence e
        in case (case seen of None \<Rightarrow> False | Some prev \<Rightarrow> sq \<le> prev) of
             True \<Rightarrow>
               (Inl (''work journal sequence is not strictly increasing: '' @ show_nat sq @ '' after '' @
                     show_nat (the seen)), s)
           | False \<Rightarrow>
               if gw_next_seq s \<le> sq \<and> u64_max \<le> sq then (Inl ''work journal sequence overflow'', s)
               else
                 let s1 = (if gw_next_seq s \<le> sq then s\<lparr>gw_next_seq := sq + 1\<rparr> else s) in
                 if list_ex (\<lambda>(_, es). list_ex (\<lambda>x. we_sequence x = sq) es) (gw_events s1)
                 then (Inl (''duplicate work journal sequence: '' @ show_nat sq), s1)
                 else (case replay_event E e (push_event e s1) of
                         (Inl err, s2) \<Rightarrow> (Inl err, s2)
                       | (Inr _, s2) \<Rightarrow> (Inr (Some sq), s2)))"

text \<open>The lines of a file: a text without a newline runs on into what follows it.\<close>

fun journal_lines :: "'v JournalText list \<Rightarrow> 'v JournalText list list" where
  "journal_lines [] = []"
| "journal_lines (JtRecord e # ts) = [JtRecord e] # journal_lines ts"
| "journal_lines (JtBreak # ts) = [] # journal_lines ts"
| "journal_lines (JtText x # ts) =
     (case journal_lines ts of [] \<Rightarrow> [[JtText x]] | l # ls \<Rightarrow> (JtText x # l) # ls)"

fun piece_text :: "'v GwEnv \<Rightarrow> 'v JournalText \<Rightarrow> string" where
  "piece_text E (JtRecord e) = ge_text E e"
| "piece_text E (JtText x) = x"
| "piece_text E JtBreak = []"

definition line_text :: "'v GwEnv \<Rightarrow> 'v JournalText list \<Rightarrow> string" where
  "line_text E l = concat (map (piece_text E) l)"

definition blank_line :: "'v GwEnv \<Rightarrow> 'v JournalText list \<Rightarrow> bool" where
  "blank_line E l \<longleftrightarrow> (case l of [JtRecord _] \<Rightarrow> False | _ \<Rightarrow> ge_utf8 E (line_text E l) \<and> str_trim (line_text E l) = [])"

definition read_line :: "'v GwEnv \<Rightarrow> 'v JournalText list \<Rightarrow> string + 'v WorkEventEnvelope" where
  "read_line E l =
     (case l of
        [JtRecord e] \<Rightarrow> Inr e
      | _ \<Rightarrow> if \<not> ge_utf8 E (line_text E l) then Inl ''read work journal''
            else (case ge_parse E (line_text E l) of None \<Rightarrow> Inl ''parse work journal'' | Some e \<Rightarrow> Inr e))"

fun open_lines ::
  "'v GwEnv \<Rightarrow> 'v JournalText list list \<Rightarrow> nat option \<Rightarrow> 'v WorkGateway \<Rightarrow> string + 'v WorkGateway" where
  "open_lines E [] seen s = Inr s"
| "open_lines E (l # ls) seen s =
     (if blank_line E l then open_lines E ls seen s
      else case read_line E l of
             Inl err \<Rightarrow> Inl err
           | Inr e \<Rightarrow>
               (case open_step E e seen s of
                  (Inl err, _) \<Rightarrow> Inl err
                | (Inr seen', s') \<Rightarrow> open_lines E ls seen' s'))"

definition open_journal :: "'v GwEnv \<Rightarrow> 'v JournalText list \<Rightarrow> string + 'v WorkGateway" where
  "open_journal E file =
     res_bind (open_lines E (journal_lines file) None (gateway_new\<lparr>gw_journal := Some file\<rparr>)) (\<lambda>s.
     res_bind (validate_replayed_graph (ge_json E) s) (\<lambda>_. Inr s))"

section \<open>Appending\<close>

definition envelope_for :: "'v GwEnv \<Rightarrow> string \<Rightarrow> 'v WorkEvent \<Rightarrow> nat option \<Rightarrow> nat \<Rightarrow> 'v WorkEventEnvelope" where
  "envelope_for E w ev cause sq =
     \<lparr> we_work_id = w, we_sequence = sq, we_event_id = ''we:'' @ show_nat sq, we_event = ev,
       we_timestamp = ge_now E, we_trace_id = None, we_causal_parent = cause,
       we_schema_version = CANONICAL_SCHEMA_VERSION \<rparr>"

text \<open>The durable write. A write that fails leaves the bytes it wrote, without a newline; a record whose sync
  fails is on disk although the write is reported as failed.\<close>

definition torn :: "string \<Rightarrow> 'v JournalText list" where
  "torn x = (if x = [] then [] else [JtText x])"

definition write_journal :: "'v GwEnv \<Rightarrow> 'v WorkEventEnvelope \<Rightarrow> ('v, unit) gw" where
  "write_journal E e s =
     (case gw_journal s of
        None \<Rightarrow> (Inr (), s)
      | Some file \<Rightarrow>
          (case ge_io E e of
             IoOk \<Rightarrow> (Inr (), s\<lparr>gw_journal := Some (file @ [JtRecord e])\<rparr>)
           | IoOpenErr \<Rightarrow> (Inl ''open work journal'', s)
           | IoEncodeErr \<Rightarrow> (Inl ''serialize work event'', s)
           | IoWriteErr n \<Rightarrow> (Inl ''write work journal'', s\<lparr>gw_journal := Some (file @ torn (take n (ge_text E e)))\<rparr>)
           | IoSyncErr \<Rightarrow> (Inl ''sync work journal'', s\<lparr>gw_journal := Some (file @ [JtRecord e])\<rparr>)))"

definition append_refusal :: "'v GwEnv \<Rightarrow> 'v WorkGateway \<Rightarrow> string \<Rightarrow> 'v WorkEvent \<Rightarrow> string + unit" where
  "append_refusal E s w ev =
     (if \<not> has_work s w then Inl ''unknown work''
      else res_bind
        (case run_event_state ev of
           None \<Rightarrow> Inr ()
         | Some (r, st) \<Rightarrow>
             (case (case ev of Domain (RunWaiting _ reason _) \<Rightarrow> work_state_try_parse reason = None | _ \<Rightarrow> False) of
                True \<Rightarrow> Inl ''unknown Work state in journal event''
              | False \<Rightarrow> validate_run_transition (ge_json E) s w r st))
        (\<lambda>_. res_bind (validate_p69g2_event E w ev) (\<lambda>_.
           if u64_max \<le> gw_next_seq s then Inl ''work journal sequence overflow'' else Inr ())))"

definition notify_subscribers :: "'v GwEnv \<Rightarrow> 'v WorkEventEnvelope \<Rightarrow> 'v WorkGateway \<Rightarrow> 'v WorkGateway" where
  "notify_subscribers E e s =
     s\<lparr>gw_subscribers := map (\<lambda>(i, got). (i, got @ [e])) (filter (\<lambda>(i, _). ge_listens E i) (gw_subscribers s))\<rparr>"

definition commit_event :: "'v WorkEventEnvelope \<Rightarrow> 'v WorkGateway \<Rightarrow> 'v WorkGateway" where
  "commit_event e s = push_event e (s\<lparr>gw_next_seq := we_sequence e + 1\<rparr>)"

definition project_update :: "'v GwEnv \<Rightarrow> string \<Rightarrow> 'v WorkEvent \<Rightarrow> ('v, unit) gw" where
  "project_update E w ev =
     (case ev of Domain (WorkUpdated patch) \<Rightarrow> apply_work_update (ge_json E) w patch | _ \<Rightarrow> gw_return ())"

definition append_event :: "'v GwEnv \<Rightarrow> string \<Rightarrow> 'v WorkEvent \<Rightarrow> nat option \<Rightarrow> ('v, 'v WorkEventEnvelope) gw" where
  "append_event E w ev cause s0 =
     (case append_refusal E s0 w ev of
        Inl err \<Rightarrow> (Inl err, s0)
      | Inr _ \<Rightarrow>
          let e = envelope_for E w ev cause (gw_next_seq s0) in
          gw_then (write_journal E e)
            (gw_then (gw_modify (commit_event e))
              (gw_then (project_update E w ev)
                (gw_then (project_p69g2_event E w (we_sequence e) ev False)
                  (gw_then (gw_modify (notify_subscribers E e)) (gw_return e))))) s0)"

definition subscribe :: "'v WorkGateway \<Rightarrow> nat \<times> 'v WorkGateway" where
  "subscribe s = (let i = Suc (fold max (map fst (gw_subscribers s)) 0) in (i, s\<lparr>gw_subscribers := gw_subscribers s @ [(i, [])]\<rparr>))"

end
