(* ===== verification/Work_Runtime.thy ===== *)
theory Work_Runtime
  imports Work_Journal
begin

text \<open>
  The session runtime of the Work gateway (\<open>everyaios-core/src/work_gateway.rs\<close>): pseudo-terminals,
  worktrees, agent sessions and durable agent bindings. A slice of a string at a position that is not
  a character boundary panics in Rust; the branch is the error \<open>panic_boundary\<close>.
\<close>

section \<open>Pseudo-terminals\<close>

definition put_pty :: "PtySession \<Rightarrow> 'v WorkGateway \<Rightarrow> 'v WorkGateway" where
  "put_pty p s = s\<lparr>gw_ptys := AList.update (pt_pty_id p) p (gw_ptys s)\<rparr>"

definition alter_pty :: "string \<Rightarrow> (PtySession \<Rightarrow> PtySession) \<Rightarrow> ('v, unit) gw" where
  "alter_pty i f s =
     (case lookup (gw_ptys s) i of
        None \<Rightarrow> (Inl ''unknown pty'', s)
      | Some p \<Rightarrow> (Inr (), s\<lparr>gw_ptys := AList.update i (f p) (gw_ptys s)\<rparr>))"

definition require_work :: "string \<Rightarrow> ('v, unit) gw" where
  "require_work w s = (if has_work s w then (Inr (), s) else (Inl ''unknown work'', s))"

definition require_pty :: "string \<Rightarrow> ('v, unit) gw" where
  "require_pty i s = (if lookup (gw_ptys s) i \<noteq> None then (Inr (), s) else (Inl ''unknown pty'', s))"

text \<open>Append an event, then change the state, then return the envelope.\<close>

definition append_with :: "'v GwEnv \<Rightarrow> string \<Rightarrow> 'v WorkEvent \<Rightarrow> ('v, unit) gw \<Rightarrow> ('v, 'v WorkEventEnvelope) gw" where
  "append_with E w ev after = gw_bind (append_event E w ev None) (\<lambda>e. gw_then after (gw_return e))"

definition spawn_pty ::
  "'v GwEnv \<Rightarrow> string \<Rightarrow> string \<Rightarrow> nat option \<Rightarrow> nat \<Rightarrow> nat \<Rightarrow> ('v, 'v WorkEventEnvelope) gw" where
  "spawn_pty E w i pid rows cols =
     gw_then (require_work w)
       (append_with E w (Runtime (PtyStarted i pid rows cols))
         (gw_modify (put_pty \<lparr> pt_pty_id = i, pt_process_id = pid, pt_rows = rows, pt_cols = cols,
                              pt_state = ''running'', pt_output = [] \<rparr>)))"

definition resize_pty :: "'v GwEnv \<Rightarrow> string \<Rightarrow> string \<Rightarrow> nat \<Rightarrow> nat \<Rightarrow> ('v, 'v WorkEventEnvelope) gw" where
  "resize_pty E w i rows cols s =
     (case lookup (gw_ptys s) i of
        None \<Rightarrow> (Inl ''unknown pty'', s)
      | Some p \<Rightarrow>
          if pt_state p \<noteq> ''running'' \<and> pt_state p \<noteq> ''paused'' then (Inl (''pty is '' @ pt_state p), s)
          else append_with E w (Runtime (PtyResize i rows cols))
                 (alter_pty i (\<lambda>p. p\<lparr>pt_rows := rows, pt_cols := cols\<rparr>)) s)"

definition PTY_CAP :: nat where
  "PTY_CAP = 64 * 1024"

text \<open>A UTF-8 continuation byte is \<open>10xxxxxx\<close>; position \<open>i\<close> is a boundary when the byte there is not one.\<close>

definition is_char_boundary :: "string \<Rightarrow> nat \<Rightarrow> bool" where
  "is_char_boundary x i \<longleftrightarrow>
     i = 0 \<or> i = length x \<or> (i < length x \<and> \<not> (128 \<le> (of_char (x ! i) :: nat) \<and> (of_char (x ! i) :: nat) < 192))"

definition panic_boundary :: string where
  "panic_boundary = ''panic: byte index is not a char boundary''"

definition push_output :: "string \<Rightarrow> string \<Rightarrow> ('v, unit) gw" where
  "push_output i chunk s =
     (case lookup (gw_ptys s) i of
        None \<Rightarrow> (Inl ''unknown pty'', s)
      | Some p \<Rightarrow>
          let out = pt_output p @ chunk;
              s1 = s\<lparr>gw_ptys := AList.update i (p\<lparr>pt_output := out\<rparr>) (gw_ptys s)\<rparr>
          in if length out \<le> PTY_CAP then (Inr (), s1)
             else if is_char_boundary out (length out - PTY_CAP)
             then (Inr (), s\<lparr>gw_ptys := AList.update i (p\<lparr>pt_output := drop (length out - PTY_CAP) out\<rparr>) (gw_ptys s)\<rparr>)
             else (Inl panic_boundary, s1))"

definition write_pty_output :: "'v GwEnv \<Rightarrow> string \<Rightarrow> string \<Rightarrow> string \<Rightarrow> ('v, 'v WorkEventEnvelope) gw" where
  "write_pty_output E w i chunk =
     gw_then (require_pty i) (append_with E w (Runtime (PtyOutput i chunk)) (push_output i chunk))"

definition signal_pty :: "'v GwEnv \<Rightarrow> string \<Rightarrow> string \<Rightarrow> string \<Rightarrow> ('v, 'v WorkEventEnvelope) gw" where
  "signal_pty E w i sig = gw_then (require_pty i) (append_event E w (Runtime (PtySignal i sig)) None)"

definition move_pty :: "string \<Rightarrow> string \<Rightarrow> string \<Rightarrow> ('v, unit) gw" where
  "move_pty from to i s =
     (case lookup (gw_ptys s) i of
        None \<Rightarrow> (Inl ''unknown pty'', s)
      | Some p \<Rightarrow>
          if pt_state p \<noteq> from then (Inl (''pty is '' @ pt_state p), s)
          else (Inr (), s\<lparr>gw_ptys := AList.update i (p\<lparr>pt_state := to\<rparr>) (gw_ptys s)\<rparr>))"

definition pause_pty :: "string \<Rightarrow> ('v, unit) gw" where
  "pause_pty = move_pty ''running'' ''paused''"

definition resume_pty :: "string \<Rightarrow> ('v, unit) gw" where
  "resume_pty = move_pty ''paused'' ''running''"

definition close_pty :: "'v GwEnv \<Rightarrow> string \<Rightarrow> string \<Rightarrow> int option \<Rightarrow> ('v, 'v WorkEventEnvelope) gw" where
  "close_pty E w i code =
     gw_then (require_pty i)
       (append_with E w (Runtime (PtyExit i code)) (alter_pty i (\<lambda>p. p\<lparr>pt_state := ''exited''\<rparr>)))"

definition create_pty :: "string \<Rightarrow> nat \<Rightarrow> nat \<Rightarrow> 'v WorkGateway \<Rightarrow> PtySession \<times> 'v WorkGateway" where
  "create_pty i rows cols s =
     (let p = \<lparr> pt_pty_id = i, pt_process_id = None, pt_rows = rows, pt_cols = cols, pt_state = ''created'',
                pt_output = [] \<rparr>
      in (p, put_pty p s))"

definition append_pty_output :: "string \<Rightarrow> string \<Rightarrow> ('v, unit) gw" where
  "append_pty_output i out s =
     (case lookup (gw_ptys s) i of
        None \<Rightarrow> (Inl ''unknown pty'', s)
      | Some p \<Rightarrow>
          if 1000000 < length (pt_output p) + length out then (Inl ''pty output limit exceeded'', s)
          else (Inr (), s\<lparr>gw_ptys := AList.update i (p\<lparr>pt_output := pt_output p @ out\<rparr>) (gw_ptys s)\<rparr>))"

section \<open>Worktrees\<close>

definition alter_worktree :: "string \<Rightarrow> (WorktreeBinding \<Rightarrow> WorktreeBinding) \<Rightarrow> ('v, unit) gw" where
  "alter_worktree i f s =
     (case lookup (gw_worktrees s) i of
        None \<Rightarrow> (Inl ''unknown worktree'', s)
      | Some t \<Rightarrow> (Inr (), s\<lparr>gw_worktrees := AList.update i (f t) (gw_worktrees s)\<rparr>))"

definition require_worktree :: "string \<Rightarrow> ('v, unit) gw" where
  "require_worktree i s = (if lookup (gw_worktrees s) i \<noteq> None then (Inr (), s) else (Inl ''unknown worktree'', s))"

definition create_worktree ::
  "'v GwEnv \<Rightarrow> string \<Rightarrow> string \<Rightarrow> string \<Rightarrow> string \<Rightarrow> string \<Rightarrow> string \<Rightarrow> string \<Rightarrow> string \<Rightarrow> ('v, 'v WorkEventEnvelope) gw" where
  "create_worktree E w r i repo troot base branch isolation =
     gw_then (require_work w)
       (append_with E w (Runtime (WorktreeCreated i branch))
         (gw_modify (\<lambda>s. s\<lparr>gw_worktrees := AList.update i
            \<lparr> wt_worktree_id = i, wt_work_id = w, wt_run_id = r, wt_repo_root = repo, wt_worktree_root = troot,
              wt_base_revision = base, wt_branch = branch, wt_isolation_mode = isolation, wt_status = ''created'' \<rparr>
            (gw_worktrees s)\<rparr>)))"

definition attach_worktree :: "'v GwEnv \<Rightarrow> string \<Rightarrow> string \<Rightarrow> string \<Rightarrow> ('v, 'v WorkEventEnvelope) gw" where
  "attach_worktree E w i r =
     gw_then (require_worktree i)
       (append_with E w (Runtime (WorktreeAttached i r))
         (alter_worktree i (\<lambda>t. t\<lparr>wt_run_id := r, wt_status := ''attached''\<rparr>)))"

definition merge_worktree :: "'v GwEnv \<Rightarrow> string \<Rightarrow> string \<Rightarrow> string \<Rightarrow> ('v, 'v WorkEventEnvelope) gw" where
  "merge_worktree E w i into =
     gw_then (require_worktree i)
       (append_with E w (Runtime (WorktreeMerged i into)) (alter_worktree i (\<lambda>t. t\<lparr>wt_status := ''merged''\<rparr>)))"

definition revert_worktree :: "'v GwEnv \<Rightarrow> string \<Rightarrow> string \<Rightarrow> ('v, 'v WorkEventEnvelope) gw" where
  "revert_worktree E w i =
     gw_then (require_worktree i)
       (append_with E w (Runtime (WorktreeReverted i)) (alter_worktree i (\<lambda>t. t\<lparr>wt_status := ''reverted''\<rparr>)))"

definition destroy_worktree :: "'v GwEnv \<Rightarrow> string \<Rightarrow> string \<Rightarrow> ('v, 'v WorkEventEnvelope) gw" where
  "destroy_worktree E w i =
     gw_then (require_worktree i)
       (append_with E w (Runtime (WorktreeDestroyed i))
         (gw_modify (\<lambda>s. s\<lparr>gw_worktrees := AList.delete i (gw_worktrees s)\<rparr>)))"

definition bind_worktree :: "'v GwEnv \<Rightarrow> WorktreeBinding \<Rightarrow> ('v, unit) gw" where
  "bind_worktree E b s =
     (if \<not> has_work s (wt_work_id b) then (Inl ''unknown work'', s)
      else if \<not> ge_is_dir E (wt_repo_root b) then (Inl ''repository root does not exist'', s)
      else (Inr (), s\<lparr>gw_worktrees := AList.update (wt_worktree_id b) b (gw_worktrees s)\<rparr>))"

section \<open>Agent sessions\<close>

definition alter_session :: "string \<Rightarrow> (AgentSession \<Rightarrow> AgentSession) \<Rightarrow> ('v, unit) gw" where
  "alter_session i f s =
     (case lookup (gw_agent_sessions s) i of
        None \<Rightarrow> (Inl ''unknown agent session'', s)
      | Some x \<Rightarrow> (Inr (), s\<lparr>gw_agent_sessions := AList.update i (f x) (gw_agent_sessions s)\<rparr>))"

definition require_session :: "string \<Rightarrow> ('v, unit) gw" where
  "require_session i s =
     (if lookup (gw_agent_sessions s) i \<noteq> None then (Inr (), s) else (Inl ''unknown agent session'', s))"

definition spawn_subagent ::
  "'v GwEnv \<Rightarrow> string \<Rightarrow> string \<Rightarrow> string \<Rightarrow> string \<Rightarrow> AgentLifetime \<Rightarrow> string option \<Rightarrow> string option \<Rightarrow>
   ('v, 'v WorkEventEnvelope) gw" where
  "spawn_subagent E w r i agent lifetime pty worktree =
     gw_then (require_work w)
       (append_with E w (Runtime (AgentSessionSpawned i agent (lifetime_as_str lifetime)))
         (gw_modify (\<lambda>s. s\<lparr>gw_agent_sessions := AList.update i
            \<lparr> as_agent_session_id = i, as_work_id = w, as_run_id = r, as_agent_id = agent, as_lifetime = lifetime,
              as_pty_id = pty, as_worktree_id = worktree, as_runtime_state = ''spawned'', as_last_checkpoint = 0,
              as_attached = (lifetime = PersistentAttachedSession) \<rparr>
            (gw_agent_sessions s)\<rparr>)))"

definition send_subagent_message :: "'v GwEnv \<Rightarrow> string \<Rightarrow> string \<Rightarrow> bool \<Rightarrow> ('v, 'v WorkEventEnvelope) gw" where
  "send_subagent_message E w i to_agent =
     gw_then (require_session i)
       (append_event E w (Runtime (AgentSessionMessage i (if to_agent then ''to_agent'' else ''from_agent''))) None)"

definition attach_agent_session :: "'v GwEnv \<Rightarrow> string \<Rightarrow> string \<Rightarrow> ('v, 'v WorkEventEnvelope) gw" where
  "attach_agent_session E w i =
     gw_then (require_session i)
       (append_with E w (Runtime (AgentSessionAttached i))
         (alter_session i (\<lambda>x. x\<lparr>as_attached := True, as_runtime_state := ''attached''\<rparr>)))"

definition terminate_agent_session :: "'v GwEnv \<Rightarrow> string \<Rightarrow> string \<Rightarrow> ('v, 'v WorkEventEnvelope) gw" where
  "terminate_agent_session E w i =
     gw_then (require_session i)
       (append_with E w (Runtime (AgentSessionTerminated i))
         (alter_session i (\<lambda>x. x\<lparr>as_runtime_state := ''terminated'', as_attached := False\<rparr>)))"

definition detach_agent_session :: "'v GwEnv \<Rightarrow> string \<Rightarrow> string \<Rightarrow> ('v, 'v WorkEventEnvelope) gw" where
  "detach_agent_session E w i s =
     (case lookup (gw_agent_sessions s) i of
        None \<Rightarrow> (Inl ''unknown agent session'', s)
      | Some x \<Rightarrow>
          if as_lifetime x = EphemeralChild then terminate_agent_session E w i s
          else append_with E w (Runtime (AgentSessionDetached i))
                 (alter_session i (\<lambda>x. x\<lparr>as_attached := False, as_runtime_state := ''detached''\<rparr>)) s)"

definition steer_agent_session :: "'v GwEnv \<Rightarrow> string \<Rightarrow> string \<Rightarrow> ('v, 'v WorkEventEnvelope) gw" where
  "steer_agent_session E w i =
     gw_then (require_session i) (append_event E w (Runtime (AgentSessionSteered i)) None)"

definition u32_max :: nat where
  "u32_max = 2 ^ 32 - 1"

definition checkpoint_agent_session :: "'v GwEnv \<Rightarrow> string \<Rightarrow> string \<Rightarrow> ('v, 'v WorkEventEnvelope) gw" where
  "checkpoint_agent_session E w i s =
     (case lookup (gw_agent_sessions s) i of
        None \<Rightarrow> (Inl ''unknown agent session'', s)
      | Some x \<Rightarrow>
          let cp = min (as_last_checkpoint x + 1) u32_max in
          append_with E w (Runtime (AgentSessionCheckpointed i cp))
            (alter_session i (\<lambda>x. x\<lparr>as_last_checkpoint := cp\<rparr>)) s)"

definition agent_sessions_for :: "'v WorkGateway \<Rightarrow> string \<Rightarrow> AgentSession list" where
  "agent_sessions_for s w = filter (\<lambda>x. as_work_id x = w) (map snd (gw_agent_sessions s))"

section \<open>Agent bindings\<close>

text \<open>\<open>append\<close> followed by the replay of the envelope it returned.\<close>

definition append_replay :: "'v GwEnv \<Rightarrow> string \<Rightarrow> 'v WorkEvent \<Rightarrow> ('v, 'v WorkEventEnvelope) gw" where
  "append_replay E w ev = gw_bind (append_event E w ev None) (\<lambda>e. gw_then (replay_event E e) (gw_return e))"

definition create_agent_binding :: "'v GwEnv \<Rightarrow> AgentBinding \<Rightarrow> ('v, 'v WorkEventEnvelope) gw" where
  "create_agent_binding E b s =
     (case lookup (gw_works s) (ab_work_id b) of
        None \<Rightarrow> (Inl ''unknown work for agent binding'', s)
      | Some a \<Rightarrow>
          if wa_session_id a \<noteq> Some (ab_session_id b)
          then (Inl ''agent binding Session does not own this Work'', s)
          else if lookup (gw_agent_bindings s) (ab_binding_id b) \<noteq> None
          then (Inl ''agent binding already exists'', s)
          else append_replay E (ab_work_id b)
                 (Runtime (AgentBindingCreated (b\<lparr>ab_state := BlParked, ab_last_event_seq := 0\<rparr>))) s)"

definition binding_transition :: "string \<Rightarrow> string \<Rightarrow> string option \<Rightarrow> string + (RuntimeEvent \<times> BindingLifecycle)" where
  "binding_transition i transition sid =
     (if transition = ''activated'' then Inr (AgentBindingActivated i sid, BlActive)
      else if transition = ''suspended'' then Inr (AgentBindingSuspended i, BlParked)
      else if transition = ''resumed'' then Inr (AgentBindingResumed i sid, BlActive)
      else Inl (''unknown binding transition: '' @ transition))"

definition active_sibling :: "'v WorkGateway \<Rightarrow> string \<Rightarrow> string \<Rightarrow> AgentBinding option" where
  "active_sibling s sid i =
     find (\<lambda>b. ab_state b = BlActive \<and> ab_session_id b = sid \<and> ab_binding_id b \<noteq> i) (map snd (gw_agent_bindings s))"

definition transition_agent_binding :: "'v GwEnv \<Rightarrow> string \<Rightarrow> string \<Rightarrow> string option \<Rightarrow> ('v, 'v WorkEventEnvelope) gw" where
  "transition_agent_binding E i transition sid s =
     (case lookup (gw_agent_bindings s) i of
        None \<Rightarrow> (Inl ''unknown agent binding'', s)
      | Some b \<Rightarrow>
          if ab_state b = BlDead then (Inl ''agent binding is dead'', s)
          else case binding_transition i transition sid of
            Inl e \<Rightarrow> (Inl e, s)
          | Inr (ev, st) \<Rightarrow>
              (case (if st = BlActive then active_sibling s (ab_session_id b) i else None) of
                 Some other \<Rightarrow>
                   (Inl (''session '' @ ab_session_id b @ '' already has an active binding: '' @ ab_binding_id other), s)
               | None \<Rightarrow> append_replay E (ab_work_id b) (Runtime ev) s))"

definition record_binding_usage :: "'v GwEnv \<Rightarrow> string \<Rightarrow> BindingUsage \<Rightarrow> ('v, 'v WorkEventEnvelope) gw" where
  "record_binding_usage E i u s =
     (case lookup (gw_agent_bindings s) i of
        None \<Rightarrow> (Inl ''unknown agent binding'', s)
      | Some b \<Rightarrow> append_replay E (ab_work_id b) (Runtime (AgentBindingUsageRecorded i u)) s)"

definition bindings_for :: "'v WorkGateway \<Rightarrow> string \<Rightarrow> AgentBinding list" where
  "bindings_for s w = filter (\<lambda>b. ab_work_id b = w) (map snd (gw_agent_bindings s))"

end
