(* ===== verification/Work_Gateway.thy ===== *)
theory Work_Gateway
  imports Work_Runtime
begin

text \<open>
  The Work operations of the gateway (\<open>everyaios-core/src/work_gateway.rs\<close>): creation of root and
  child Works, binding of Runs, lifecycle transitions and durable waits, approvals, effects and their
  reconciliation, file change sets, the activity record, and archival.
\<close>

section \<open>Creating Works\<close>

definition creation_event :: "string \<Rightarrow> WorkAddress \<Rightarrow> string option \<Rightarrow> 'v WorkEvent" where
  "creation_event objective a trigger =
     Domain (WorkCreated
       \<lparr> cn_objective = objective, cn_project_id = wa_project_id a, cn_session_id = wa_session_id a,
         cn_parent_work_id = wa_parent_work_id a, cn_session_kind = wa_session_kind a, cn_owner_id = wa_owner_id a,
         cn_binding_id = wa_binding_id a, cn_initial_state = Some WsCreated, cn_run_id = None, cn_trigger = trigger,
         cn_provenance = wa_provenance a \<rparr>)"

definition fresh_presence :: "string \<Rightarrow> WorkPresence" where
  "fresh_presence w = presence_default\<lparr>pr_work_id := w, pr_state := Some PrRunning, pr_work_state := Some WsCreated\<rparr>"

text \<open>Insert the address and its presence, append the creation event, and undo both on failure.\<close>

definition register_work :: "'v GwEnv \<Rightarrow> string \<Rightarrow> WorkAddress \<Rightarrow> string option \<Rightarrow> ('v, unit) gw" where
  "register_work E objective a trigger s =
     (let w = wa_work_id a; s1 = put_presence w (fresh_presence w) (put_address w a s) in
      case append_event E w (creation_event objective a trigger) None s1 of
        (Inl err, s2) \<Rightarrow>
          (Inl err, s2\<lparr>gw_works := bt_remove w (gw_works s2), gw_presence := AList.delete w (gw_presence s2)\<rparr>)
      | (Inr _, s2) \<Rightarrow> (Inr (), s2))"

definition create_work_in_session ::
  "'v GwEnv \<Rightarrow> string \<Rightarrow> string option \<Rightarrow> string option \<Rightarrow> SessionKind \<Rightarrow> string \<Rightarrow> ('v, WorkAddress) gw" where
  "create_work_in_session E w project sid kind objective s =
     (if kind = SkAutomation \<and> sid = None
      then (Inl ''an automation Work requires its owning Session'', s)
      else
        let a = (address_new w)\<lparr>wa_project_id := project, wa_session_id := sid, wa_session_kind := kind\<rparr> in
        case lookup (gw_works s) w of
          Some old \<Rightarrow>
            if wa_session_id old \<noteq> wa_session_id a \<or> wa_session_kind old \<noteq> wa_session_kind a
            then (Inl (''Work '' @ quoted w @ '' already exists with a different Session owner/kind''), s)
            else (Inr old, s)
        | None \<Rightarrow> gw_then (register_work E objective a None) (gw_return a) s)"

text \<open>\<open>create_work\<close> panics where the fallible form returns an error.\<close>

definition create_work :: "'v GwEnv \<Rightarrow> string \<Rightarrow> string option \<Rightarrow> string option \<Rightarrow> string \<Rightarrow> ('v, WorkAddress) gw" where
  "create_work E w project sid objective = create_work_in_session E w project sid SkInteractive objective"

definition opt_or :: "'a option \<Rightarrow> 'a option \<Rightarrow> 'a option" where
  "opt_or a b = (case a of Some x \<Rightarrow> Some x | None \<Rightarrow> b)"

definition create_child_work ::
  "'v GwEnv \<Rightarrow> string \<Rightarrow> string \<Rightarrow> string \<Rightarrow> string option \<Rightarrow> string option \<Rightarrow> ('v, WorkAddress) gw" where
  "create_child_work E parent w objective project sid s =
     (case lookup (gw_works s) parent of
        None \<Rightarrow> (Inl ''unknown parent work'', s)
      | Some p \<Rightarrow>
          (case lookup (gw_works s) w of
             Some old \<Rightarrow>
               if wa_parent_work_id old \<noteq> Some parent \<or> wa_session_id old \<noteq> wa_session_id p \<or>
                  wa_session_kind old \<noteq> wa_session_kind p
               then (Inl (''child Work '' @ quoted w @ '' already exists with a different owner''), s)
               else (Inr old, s)
           | None \<Rightarrow>
               let a = (address_new w)\<lparr>wa_project_id := opt_or project (wa_project_id p),
                         wa_session_id := opt_or sid (wa_session_id p), wa_session_kind := wa_session_kind p,
                         wa_parent_work_id := Some parent\<rparr>
               in gw_then (register_work E objective a (Some ''subagent''))
                    (gw_then (append_event E w (Domain (SubagentHeartbeat w (ge_now E))) None)
                      (gw_return a)) s))"

definition children_of :: "'v WorkGateway \<Rightarrow> string \<Rightarrow> WorkAddress list" where
  "children_of s parent = filter (\<lambda>a. wa_parent_work_id a = Some parent) (map snd (gw_works s))"

section \<open>Binding a Run\<close>

definition work_objective :: "'v WorkGateway \<Rightarrow> string \<Rightarrow> string option" where
  "work_objective s w =
     (case List.find (\<lambda>e. is_creation (we_event e)) (events_of s w) of
        Some e \<Rightarrow> (case we_event e of Domain (WorkCreated c) \<Rightarrow> Some (cn_objective c) | _ \<Rightarrow> None)
      | None \<Rightarrow> None)"

definition inferred_trigger :: "'v WorkGateway \<Rightarrow> string \<Rightarrow> string" where
  "inferred_trigger s w =
     (case lookup (gw_works s) w of
        None \<Rightarrow> ''chat''
      | Some a \<Rightarrow>
          if wa_parent_work_id a \<noteq> None then ''subagent''
          else if wa_session_kind a = SkAutomation then ''scheduler''
          else if list_ex (\<lambda>b. ab_work_id b = w) (map snd (gw_agent_bindings s)) then ''acp''
          else ''chat'')"

definition context_binding :: "'v WorkGateway \<Rightarrow> string \<Rightarrow> AgentBinding option" where
  "context_binding s w =
     opt_or (Option.bind (lookup (gw_active_bindings s) w) (lookup (gw_agent_bindings s)))
            (List.find (\<lambda>b. ab_work_id b = w) (map snd (gw_agent_bindings s)))"

definition insert_opt :: "string \<Rightarrow> 'a option \<Rightarrow> ('a \<Rightarrow> 'v) \<Rightarrow> 'v strmap \<Rightarrow> 'v strmap" where
  "insert_opt k x mk m = (case x of None \<Rightarrow> m | Some y \<Rightarrow> bt_insert k (mk y) m)"

definition run_context :: "'v json_full \<Rightarrow> 'v WorkGateway \<Rightarrow> string \<Rightarrow> WorkAddress \<Rightarrow> 'v strmap" where
  "run_context j s w a =
     (let p = wa_provenance a;
          m1 = insert_opt ''automationId'' (wp_automation_id p) (j_str j) [];
          m2 = insert_opt ''revisionId'' (wp_revision_id p) (j_str j) m1;
          m3 = insert_opt ''triggerOccurrenceId'' (wp_trigger_occurrence_id p) (j_str j) m2;
          m4 = insert_opt ''sourceSessionId'' (wp_source_session_id p) (j_str j) m3;
          m5 = insert_opt ''automationGeneration'' (wp_automation_generation p) (j_num j) m4
      in case context_binding s w of
           None \<Rightarrow> m5
         | Some b \<Rightarrow>
             insert_opt ''providerSessionId'' (ab_provider_session_id b) (j_str j)
               (bt_insert ''agentId'' (j_str j (ab_agent_id b))
                 (bt_insert ''bindingId'' (j_str j (ab_binding_id b)) m5)))"

definition run_projection :: "'v json_full \<Rightarrow> 'v WorkGateway \<Rightarrow> string \<Rightarrow> string \<Rightarrow> WorkAddress \<Rightarrow> 'v strmap \<Rightarrow> 'v strmap" where
  "run_projection j s w x a meta =
     (let r1 = bt_insert ''executionId'' (j_str j x) (bt_insert ''runId'' (j_str j x) meta);
          r2 = (if lookup r1 ''sessionId'' \<noteq> None then r1 else insert_opt ''sessionId'' (wa_session_id a) (j_str j) r1);
          r3 = (if lookup r2 ''objective'' \<noteq> None then r2 else insert_opt ''objective'' (work_objective s w) (j_str j) r2)
      in if lookup r3 ''contextSnapshot'' \<noteq> None then r3
         else
           let context = run_context j s w a;
               r4 = insert_opt ''bindingId'' (map_option ab_binding_id (context_binding s w)) (j_str j) r3
           in if context = [] then r4
              else bt_insert ''contextSnapshot'' (j_str j (j_render j (j_obj j context))) r4)"

definition run_patch :: "'v json_full \<Rightarrow> 'v strmap \<Rightarrow> 'v" where
  "run_patch j run = j_obj j (bt_insert ''run'' (j_obj j run) run)"

definition note_ready :: "string \<Rightarrow> string \<Rightarrow> 'v WorkGateway \<Rightarrow> 'v WorkGateway" where
  "note_ready w x s = (if run_state s w x = None then put_run_state w x WsReady s else s)"

definition replaced_terminal :: "'v WorkGateway \<Rightarrow> string \<Rightarrow> string \<Rightarrow> WorkAddress \<Rightarrow> WorkState option" where
  "replaced_terminal s w x a =
     (case wa_current_run_id a of
        None \<Rightarrow> None
      | Some cur \<Rightarrow>
          if cur = x then None
          else (case run_state s w cur of
                  None \<Rightarrow> None
                | Some st \<Rightarrow> if work_is_terminal st then Some st else None))"

definition bind_execution_with_metadata :: "'v GwEnv \<Rightarrow> string \<Rightarrow> string \<Rightarrow> 'v \<Rightarrow> ('v, 'v WorkEventEnvelope) gw" where
  "bind_execution_with_metadata E w x metadata s =
     (let j = ge_json E in
      case lookup (gw_works s) w of
        None \<Rightarrow> (Inl ''unknown work'', s)
      | Some a \<Rightarrow>
          if str_trim x = [] then (Inl ''execution id cannot be empty'', s)
          else case j_as_object j metadata of
            None \<Rightarrow> (Inl ''execution metadata must be an object'', s)
          | Some meta \<Rightarrow>
              (case replaced_terminal s w x a of
                 Some st \<Rightarrow>
                   (Inl (''Work '' @ quoted w @ '' is terminal ('' @ state_debug st @
                         ''); a replacement Run cannot overwrite it''), s)
               | None \<Rightarrow>
                   append_with E w (Domain (WorkUpdated (run_patch j (run_projection j s w x a meta))))
                     (gw_modify (note_ready w x)) s))"

definition bind_execution :: "'v GwEnv \<Rightarrow> string \<Rightarrow> string \<Rightarrow> ('v, unit) gw" where
  "bind_execution E w x s =
     gw_then (bind_execution_with_metadata E w x
                (json_lit (ge_json E) [(''trigger'', j_str (ge_json E) (inferred_trigger s w))]))
       (gw_return ()) s"

section \<open>Transitions and waits\<close>

definition set_work_state :: "'v GwEnv \<Rightarrow> string \<Rightarrow> string \<Rightarrow> WorkState \<Rightarrow> WaitCondition option \<Rightarrow> ('v, unit) gw" where
  "set_work_state E w r st wait = set_run_state (ge_json E) w r st wait"

definition enter_state :: "'v GwEnv \<Rightarrow> string \<Rightarrow> string \<Rightarrow> WorkState \<Rightarrow> WaitCondition option \<Rightarrow> ('v, unit) gw" where
  "enter_state E w x st wait s =
     (if execution_id s w \<noteq> Some x then (Inl ''execution/work binding mismatch'', s)
      else gw_then (gw_check (validate_run_transition (ge_json E) s w x st))
             (gw_then (append_event E w (transition_event x st wait) None)
               (set_work_state E w x st wait)) s)"

definition record_execution_transition :: "'v GwEnv \<Rightarrow> string \<Rightarrow> string \<Rightarrow> WorkState \<Rightarrow> ('v, unit) gw" where
  "record_execution_transition E w x st = enter_state E w x st None"

definition record_wait :: "'v GwEnv \<Rightarrow> string \<Rightarrow> string \<Rightarrow> WaitCondition \<Rightarrow> ('v, unit) gw" where
  "record_wait E w x wait = enter_state E w x (wait_work_state wait) (Some wait)"

section \<open>Approvals\<close>

definition non_empty :: "string \<Rightarrow> string option" where
  "non_empty x = (if x = [] then None else Some x)"

definition record_pending_approval_for_run ::
  "'v GwEnv \<Rightarrow> string \<Rightarrow> string \<Rightarrow> string \<Rightarrow> string \<Rightarrow> string \<Rightarrow> string \<Rightarrow> nat \<Rightarrow> ('v, 'v WorkEventEnvelope) gw" where
  "record_pending_approval_for_run E w r t tool args risk at_ms s =
     (if str_trim t = [] then (Inl ''approval ticket id cannot be empty'', s)
      else if execution_id s w \<noteq> Some r then (Inl ''approval request execution/work binding mismatch'', s)
      else if run_state s w r \<noteq> Some WsWaitingApproval
      then (Inl (''approval request for Run '' @ quoted r @ '' requires WaitingApproval''), s)
      else if pending_approval s w t \<noteq> None
      then (Inl (''approval ticket '' @ quoted t @ '' is already pending''), s)
      else if bt_inner (gw_pending s) w \<noteq> [] then (Inl (''Work '' @ quoted w @ '' already has a pending approval''), s)
      else append_replay E w
             (Domain (ApprovalRequested t (Some r) (non_empty tool) (non_empty args) (non_empty risk) (Some at_ms))) s)"

definition record_pending_approval ::
  "'v GwEnv \<Rightarrow> string \<Rightarrow> string \<Rightarrow> string \<Rightarrow> string \<Rightarrow> string \<Rightarrow> nat \<Rightarrow> ('v, 'v WorkEventEnvelope) gw" where
  "record_pending_approval E w t tool args risk at_ms s =
     (case execution_id s w of
        None \<Rightarrow> (Inl (''Work '' @ quoted w @ '' has no current Run for approval''), s)
      | Some r \<Rightarrow> record_pending_approval_for_run E w r t tool args risk at_ms s)"

definition resolve_pending_approval_for_run ::
  "'v GwEnv \<Rightarrow> string \<Rightarrow> string \<Rightarrow> string \<Rightarrow> bool \<Rightarrow> ('v, 'v WorkEventEnvelope) gw" where
  "resolve_pending_approval_for_run E w r t approved s =
     (let j = ge_json E in
      if str_trim t = [] then (Inl ''approval ticket id cannot be empty'', s)
      else if execution_id s w \<noteq> Some r then (Inl ''approval resolution execution/work binding mismatch'', s)
      else case pending_approval s w t of
        None \<Rightarrow> (Inl (''approval ticket '' @ quoted t @ '' is not pending''), s)
      | Some v \<Rightarrow>
          if get_str j v ''ticketId'' \<noteq> Some t
          then (Inl (''approval ticket '' @ quoted t @ '' has mismatched metadata''), s)
          else if get_str j v ''runId'' \<noteq> Some r
          then (Inl (''approval ticket '' @ quoted t @ '' belongs to another Run''), s)
          else if run_state s w r \<noteq> Some WsWaitingApproval
          then (Inl (''approval resolution for Run '' @ quoted r @ '' requires WaitingApproval''), s)
          else gw_bind (append_replay E w (Domain (ApprovalResolved t (Some r) approved))) (\<lambda>e.
                 gw_then (record_execution_transition E w r (if approved then WsRunning else WsFailed))
                   (gw_return e)) s)"

definition record_approval :: "'v GwEnv \<Rightarrow> string \<Rightarrow> string \<Rightarrow> bool \<Rightarrow> ('v, unit) gw" where
  "record_approval E w t approved s =
     (if str_trim t = [] then (Inl ''approval ticket id cannot be empty'', s)
      else gw_then (append_replay E w (Domain (ApprovalResolved t None approved))) (gw_return ()) s)"

section \<open>Effects\<close>

definition effect_phase_refusal :: "'v WorkGateway \<Rightarrow> string \<Rightarrow> string \<Rightarrow> string \<Rightarrow> string option" where
  "effect_phase_refusal s w e phase =
     (if phase \<in> {''observed'', ''verified'', ''uncertain'', ''unknown''}
      then (case effect_status s w e of
              None \<Rightarrow> Some (''effect '' @ quoted e @ '' has no durable attempt'')
            | Some x \<Rightarrow>
                if phase = ''observed'' \<and> ep_state x = ''uncertain''
                then Some (''effect '' @ quoted e @
                       '' is uncertain; use explicit reconciliation before observing a retry'')
                else if phase = ''verified'' \<and> ep_state x \<noteq> ''observed'' \<and> ep_state x \<noteq> ''verified''
                then Some (''effect '' @ quoted e @ '' has no durable observation'')
                else None)
      else None)"

definition effect_event ::
  "string \<Rightarrow> string \<Rightarrow> string \<Rightarrow> string option \<Rightarrow> IdempotencyClass option \<Rightarrow> string + 'v WorkEvent" where
  "effect_event e phase detail grant cls =
     (if phase = ''attempted'' then Inr (Domain (EffectAttempted e grant cls))
      else if phase = ''observed'' then Inr (Domain (EffectObserved e detail))
      else if phase = ''verified'' then Inr (Domain (EffectVerified e (detail = ''true'')))
      else if phase = ''uncertain'' \<or> phase = ''unknown''
      then Inr (Domain (EffectUncertain e (non_empty detail) cls))
      else Inl ''unknown effect phase'')"

definition record_effect_with_class ::
  "'v GwEnv \<Rightarrow> string \<Rightarrow> string \<Rightarrow> string \<Rightarrow> string \<Rightarrow> string option \<Rightarrow> IdempotencyClass option \<Rightarrow> ('v, unit) gw" where
  "record_effect_with_class E w e phase detail grant cls s =
     (if str_trim e = [] then (Inl ''effect id cannot be empty'', s)
      else case effect_phase_refusal s w e phase of
        Some err \<Rightarrow> (Inl err, s)
      | None \<Rightarrow>
          (case effect_event e phase detail grant cls of
             Inl err \<Rightarrow> (Inl err, s)
           | Inr ev \<Rightarrow> gw_then (append_replay E w ev) (gw_return ()) s))"

definition record_effect_with_grant ::
  "'v GwEnv \<Rightarrow> string \<Rightarrow> string \<Rightarrow> string \<Rightarrow> string \<Rightarrow> string option \<Rightarrow> ('v, unit) gw" where
  "record_effect_with_grant E w e phase detail grant = record_effect_with_class E w e phase detail grant None"

definition record_effect :: "'v GwEnv \<Rightarrow> string \<Rightarrow> string \<Rightarrow> string \<Rightarrow> string \<Rightarrow> ('v, unit) gw" where
  "record_effect E w e phase detail = record_effect_with_grant E w e phase detail None"

definition record_uncertain_effect ::
  "'v GwEnv \<Rightarrow> string \<Rightarrow> string \<Rightarrow> string \<Rightarrow> IdempotencyClass option \<Rightarrow> ('v, 'v WorkEventEnvelope) gw" where
  "record_uncertain_effect E w e reason cls =
     gw_then (record_effect_with_class E w e ''uncertain'' reason None cls)
       (\<lambda>s. if events_of s w = [] then (Inl ''uncertain effect event was not recorded'', s)
            else (Inr (last (events_of s w)), s))"

definition reconcile_uncertain_effect :: "'v GwEnv \<Rightarrow> string \<Rightarrow> string \<Rightarrow> string \<Rightarrow> bool \<Rightarrow> ('v, 'v WorkEventEnvelope) gw" where
  "reconcile_uncertain_effect E w e outc retry_safe s =
     (if str_trim outc = [] then (Inl ''effect reconciliation requires an outcome'', s)
      else case effect_status s w e of
        None \<Rightarrow> (Inl (''unknown effect '' @ quoted e), s)
      | Some x \<Rightarrow>
          if \<not> requires_reconciliation x then (Inl (''effect '' @ quoted e @ '' is not uncertain''), s)
          else append_replay E w (Domain (EffectReconciled e outc retry_safe)) s)"

fun gw_each :: "('a \<Rightarrow> ('v, 'b) gw) \<Rightarrow> 'a list \<Rightarrow> ('v, 'b list) gw" where
  "gw_each f [] = gw_return []"
| "gw_each f (x # xs) = gw_bind (f x) (\<lambda>y. gw_bind (gw_each f xs) (\<lambda>ys. gw_return (y # ys)))"

definition reconcile_uncertain_effects ::
  "'v GwEnv \<Rightarrow> string \<Rightarrow> string \<Rightarrow> bool \<Rightarrow> ('v, 'v WorkEventEnvelope list) gw" where
  "reconcile_uncertain_effects E w outc retry_safe s =
     gw_each (\<lambda>e. reconcile_uncertain_effect E w e outc retry_safe)
       (map ep_effect_id (filter requires_reconciliation (effect_statuses s w))) s"

definition effect_grant_id :: "'v WorkGateway \<Rightarrow> string \<Rightarrow> string \<Rightarrow> string option" where
  "effect_grant_id s w e =
     (case List.find (\<lambda>x. case we_event x of Domain (EffectAttempted c (Some _) _) \<Rightarrow> c = e | _ \<Rightarrow> False) (events_of s w) of
        Some x \<Rightarrow> (case we_event x of Domain (EffectAttempted _ g _) \<Rightarrow> g | _ \<Rightarrow> None)
      | None \<Rightarrow> None)"

section \<open>File change sets\<close>

definition file_change_set :: "'v WorkGateway \<Rightarrow> string \<Rightarrow> string \<Rightarrow> TurnChangeSet option" where
  "file_change_set s w step = bt_get2 (gw_change_sets s) w step"

definition open_file_change_sets :: "'v WorkGateway \<Rightarrow> string \<Rightarrow> TurnChangeSet list" where
  "open_file_change_sets s w = filter cs_is_open (map snd (bt_inner (gw_change_sets s) w))"

definition record_file_change_set :: "'v GwEnv \<Rightarrow> TurnChangeSet \<Rightarrow> ('v, 'v WorkEventEnvelope) gw" where
  "record_file_change_set E c s =
     (case cs_validate c of
        Inl e \<Rightarrow> (Inl e, s)
      | Inr _ \<Rightarrow>
          if \<not> cs_is_secret_free (ge_cs_ser E) c
          then (Inl (''change set '' @ quoted (cs_change_set_id c) @ '' carries secret-shaped text; refusing to journal it''), s)
          else if \<not> has_work s (cs_work_id c) then (Inl (''unknown work '' @ quoted (cs_work_id c)), s)
          else append_event E (cs_work_id c) (Domain (FileChangeSetCaptured c)) None s)"

definition settle_file_change_set :: "'v GwEnv \<Rightarrow> TurnChangeSet \<Rightarrow> string option \<Rightarrow> ('v, 'v WorkEventEnvelope) gw" where
  "settle_file_change_set E c reason s =
     (let i = quoted (cs_change_set_id c) in
      case cs_validate c of
        Inl e \<Rightarrow> (Inl e, s)
      | Inr _ \<Rightarrow>
          (case cs_outcome c of
             None \<Rightarrow> (Inl ''settling a change set requires an outcome'', s)
           | Some outc \<Rightarrow>
               if outc = CsOpen then (Inl ''`open` is not a settling outcome'', s)
               else if \<not> cs_is_secret_free (ge_cs_ser E) c
               then (Inl (''change set '' @ i @ '' carries secret-shaped text; refusing to journal it''), s)
               else if \<not> has_work s (cs_work_id c) then (Inl (''unknown work '' @ quoted (cs_work_id c)), s)
               else (case Option.bind (file_change_set s (cs_work_id c) (cs_step_id c)) cs_outcome of
                       Some prev \<Rightarrow>
                         (Inl (''change set '' @ i @ '' is already settled as '' @ quoted (cs_outcome_str prev) @
                               ''; refusing to settle it as '' @ quoted (cs_outcome_str outc)), s)
                     | None \<Rightarrow>
                         let settled = c\<lparr>cs_reason := reason\<rparr> in
                         if \<not> cs_is_secret_free (ge_cs_ser E) settled
                         then (Inl (''change set '' @ i @
                                '' rollback reason carries secret-shaped text; refusing to journal it''), s)
                         else append_event E (cs_work_id c) (Domain (FileChangeSetSettled settled)) None s)))"

section \<open>Activity record\<close>

definition record_thought :: "'v GwEnv \<Rightarrow> string \<Rightarrow> string \<Rightarrow> ('v, unit) gw" where
  "record_thought E w msg =
     gw_then (require_work w)
       (gw_then (append_event E w (Presence (AgentThoughtSummary msg)) None)
         (gw_modify (\<lambda>s. case lookup (gw_presence s) w of
                            None \<Rightarrow> s
                          | Some p \<Rightarrow> put_presence w (p\<lparr>pr_current_surface := Some msg\<rparr>) s)))"

definition touch_of :: "string \<Rightarrow> 'v WorkEventEnvelope \<Rightarrow> string option" where
  "touch_of path e =
     (case we_event e of Operational (FileTouched p writer) \<Rightarrow> if p = path then Some writer else None | _ \<Rightarrow> None)"

fun add_writers :: "string option list \<Rightarrow> string list \<Rightarrow> string list" where
  "add_writers [] ws = ws"
| "add_writers (None # rest) ws = add_writers rest ws"
| "add_writers (Some x # rest) ws = add_writers rest (if x \<in> set ws then ws else ws @ [x])"

definition writers_for_path :: "'v WorkGateway \<Rightarrow> string \<Rightarrow> string \<Rightarrow> string list" where
  "writers_for_path s w path = add_writers (map (touch_of path) (events_of s w)) []"

definition record_file_touch :: "'v GwEnv \<Rightarrow> string \<Rightarrow> string \<Rightarrow> string \<Rightarrow> ('v, bool) gw" where
  "record_file_touch E w path0 writer0 s =
     (let path = str_trim path0; writer = str_trim writer0 in
      if path = [] \<or> writer = [] then (Inl ''file touch requires a path and a writer'', s)
      else
        let before = writers_for_path s w path;
            writers = (if writer \<in> set before then before else before @ [writer]);
            conflict = (1 < length writers)
        in gw_then (append_event E w (Operational (FileTouched path writer)) None)
             (gw_then (if conflict then gw_then (append_event E w (Operational (WriteConflict path writers)) None) (gw_return ())
                       else gw_return ())
               (gw_return conflict)) s)"

definition record_test :: "'v GwEnv \<Rightarrow> string \<Rightarrow> string \<Rightarrow> bool \<Rightarrow> ('v, unit) gw" where
  "record_test E w name0 passed s =
     (let name = str_trim name0 in
      if name = [] then (Inl ''test record requires a name'', s)
      else gw_then (append_event E w (Operational (TestRan name passed)) None) (gw_return ()) s)"

definition record_handoff :: "'v GwEnv \<Rightarrow> string \<Rightarrow> string \<Rightarrow> string \<Rightarrow> string \<Rightarrow> string \<Rightarrow> ('v, unit) gw" where
  "record_handoff E w artifact0 from0 to0 summary s =
     (let artifact = str_trim artifact0; from_agent = str_trim from0; to_agent = str_trim to0 in
      if artifact = [] \<or> from_agent = [] \<or> to_agent = [] then (Inl ''handoff requires an artifact id and both agents'', s)
      else gw_then (append_event E w (Operational (HandoffRecorded artifact from_agent to_agent summary)) None)
             (gw_return ()) s)"

definition record_artifact :: "'v GwEnv \<Rightarrow> string \<Rightarrow> string \<Rightarrow> bool \<Rightarrow> ('v, unit) gw" where
  "record_artifact E w i updated =
     gw_then (append_event E w (Domain (if updated then ArtifactUpdated i else ArtifactCreated i)) None) (gw_return ())"

section \<open>Archival\<close>

definition try_archive_work :: "'v GwEnv \<Rightarrow> string \<Rightarrow> ('v, bool) gw" where
  "try_archive_work E w s =
     (if \<not> has_work s w then (Inr False, s)
      else gw_then (append_event E w (Domain (WorkUpdated (json_lit (ge_json E) [(''archived'', j_bool (ge_json E) True)]))) None)
             (gw_then (gw_modify (\<lambda>s. let s1 = remove_work w s in
                 case lookup (gw_presence s1) w of
                   None \<Rightarrow> s1
                 | Some p \<Rightarrow> put_presence w (p\<lparr>pr_state := Some PrCompleted\<rparr>) s1))
               (gw_return True)) s)"

definition archive_work :: "'v GwEnv \<Rightarrow> string \<Rightarrow> 'v WorkGateway \<Rightarrow> bool \<times> 'v WorkGateway" where
  "archive_work E w s = (case try_archive_work E w s of (Inr b, s') \<Rightarrow> (b, s') | (Inl _, s') \<Rightarrow> (False, s'))"

end
