(* ===== verification/Work_Delegation.thy ===== *)
theory Work_Delegation
  imports Work_Gateway
begin

text \<open>
  Delegation (\<open>everyaios-core/src/work_gateway.rs\<close> and the spawn policy of
  \<open>everyaios-blueprint/src/subagent.rs\<close>): child Works, the bounded walks over the parent links, cycle
  refusal, delegation leases on the one lease coordinator, heartbeats and the reclaim sweep.
\<close>

section \<open>Walks over the Work graph\<close>

definition parent_of :: "'v WorkGateway \<Rightarrow> string \<Rightarrow> string option" where
  "parent_of s w = Option.bind (lookup (gw_works s) w) wa_parent_work_id"

text \<open>The loop of \<open>work_depth\<close>: \<open>seen\<close> counts the parent links followed so far.\<close>

function depth_loop :: "'v WorkGateway \<Rightarrow> string \<Rightarrow> string \<Rightarrow> nat \<Rightarrow> nat \<Rightarrow> string + nat" where
  "depth_loop s start cursor depth seen =
     (case lookup (gw_works s) cursor of
        None \<Rightarrow> Inl (''unknown work '' @ quoted cursor)
      | Some a \<Rightarrow>
          (case wa_parent_work_id a of
             None \<Rightarrow> Inr depth
           | Some p \<Rightarrow>
               if length (gw_works s) < seen + 1 then Inl (''parent cycle at work '' @ quoted start)
               else depth_loop s start p (depth + 1) (seen + 1)))"
  by pat_completeness auto
termination
  by (relation "measure (\<lambda>(s, start, cursor, depth, seen). length (gw_works s) + 1 - seen)") auto

declare depth_loop.simps [simp del]

definition work_depth :: "'v WorkGateway \<Rightarrow> string \<Rightarrow> string + nat" where
  "work_depth s w = depth_loop s w w 0 0"

definition presence_is_terminal :: "'v WorkGateway \<Rightarrow> string \<Rightarrow> bool" where
  "presence_is_terminal s w =
     (case lookup (gw_presence s) w of
        None \<Rightarrow> False
      | Some p \<Rightarrow> pr_state p \<in> {Some PrCompleted, Some PrFailed, Some PrCancelled})"

record DelegationGauge =
  dg_child_depth :: nat
  dg_active :: nat
  dg_total :: nat

definition delegation_gauge :: "'v WorkGateway \<Rightarrow> string \<Rightarrow> string + DelegationGauge" where
  "delegation_gauge s parent =
     res_bind (work_depth s parent) (\<lambda>d.
       let kids = children_of s parent
       in Inr \<lparr> dg_child_depth = min (d + 1) u32_max,
                dg_active = length (filter (\<lambda>a. \<not> presence_is_terminal s (wa_work_id a)) kids),
                dg_total = length kids \<rparr>)"

text \<open>The loop of \<open>is_descendant_of\<close>: \<open>steps\<close> counts the iterations.\<close>

function descendant_loop :: "'v WorkGateway \<Rightarrow> string \<Rightarrow> string \<Rightarrow> string \<Rightarrow> nat \<Rightarrow> string + bool" where
  "descendant_loop s candidate ancestor cursor steps =
     (if max (length (gw_works s)) 1 < steps + 1 then Inl (''parent cycle while walking '' @ quoted candidate)
      else if cursor = ancestor then Inr True
      else case lookup (gw_works s) cursor of
             None \<Rightarrow> Inr False
           | Some a \<Rightarrow>
               (case wa_parent_work_id a of
                  None \<Rightarrow> Inr False
                | Some p \<Rightarrow> descendant_loop s candidate ancestor p (steps + 1)))"
  by pat_completeness auto
termination
  by (relation "measure (\<lambda>(s, c, a, cursor, steps). max (length (gw_works s)) 1 + 1 - steps)") auto

declare descendant_loop.simps [simp del]

definition is_descendant_of :: "'v WorkGateway \<Rightarrow> string \<Rightarrow> string \<Rightarrow> string + bool" where
  "is_descendant_of s candidate ancestor = descendant_loop s candidate ancestor candidate 0"

definition DELEGATION_WALK_BOUND :: nat where
  "DELEGATION_WALK_BOUND = 4096"

definition refusal_of :: "CycleKind \<Rightarrow> string list \<Rightarrow> string option \<Rightarrow> string \<Rightarrow> CycleRefusal" where
  "refusal_of k chain b child =
     \<lparr> cr_kind = k, cr_chain = chain, cr_binding_id = b, cr_proposed_child_work_id = child \<rparr>"

text \<open>The ancestor walk of \<open>delegation_cycle\<close>: the chain walked (the code keeps it twice, as \<open>chain\<close> and
  \<open>seen\<close>) and the bindings on it, or the refusal that stops the walk.\<close>

function ancestor_loop ::
  "'v WorkGateway \<Rightarrow> string \<Rightarrow> string \<Rightarrow> string list \<Rightarrow> (string \<times> string) list \<Rightarrow>
   string + (CycleRefusal option \<times> string list \<times> (string \<times> string) list)" where
  "ancestor_loop s child cursor chain binds =
     (if DELEGATION_WALK_BOUND \<le> length chain \<or> cursor \<in> set chain
      then Inr (Some (refusal_of RecordedCycle chain None child), chain, binds)
      else case lookup (gw_works s) cursor of
        None \<Rightarrow> Inl (''unknown work '' @ quoted cursor)
      | Some a \<Rightarrow>
          let chain' = chain @ [cursor];
              binds' = (case wa_binding_id a of None \<Rightarrow> binds | Some b \<Rightarrow> binds @ [(cursor, b)])
          in if cursor = child then Inr (Some (refusal_of AncestorWork chain' None child), chain', binds')
             else (case wa_parent_work_id a of
                     None \<Rightarrow> Inr (None, chain', binds')
                   | Some p \<Rightarrow> ancestor_loop s child p chain' binds'))"
  by pat_completeness auto
termination
  by (relation "measure (\<lambda>(s, child, cursor, chain, binds). DELEGATION_WALK_BOUND - length chain)") auto

declare ancestor_loop.simps [simp del]

definition delegation_cycle :: "'v WorkGateway \<Rightarrow> string \<Rightarrow> string \<Rightarrow> string option \<Rightarrow> string + CycleRefusal option" where
  "delegation_cycle s parent child member =
     res_bind (ancestor_loop s child parent [] []) (\<lambda>(stop, chain, binds).
       case stop of
         Some r \<Rightarrow> Inr (Some r)
       | None \<Rightarrow>
           (case (case member of
                    None \<Rightarrow> None
                  | Some m \<Rightarrow> if m = [] then None else List.find (\<lambda>(w, b). b = m \<and> w \<noteq> parent) binds) of
              Some (_, b) \<Rightarrow> Inr (Some (refusal_of AncestorBinding chain (Some b) child))
            | None \<Rightarrow>
                if child \<noteq> parent
                then res_bind (is_descendant_of s child parent) (\<lambda>below.
                       Inr (if below then Some (refusal_of DescendantWork chain None child) else None))
                else Inr None))"

definition record_delegation_refused :: "'v GwEnv \<Rightarrow> string \<Rightarrow> CycleRefusal \<Rightarrow> ('v, 'v WorkEventEnvelope) gw" where
  "record_delegation_refused E parent r s =
     (if \<not> has_work s parent then (Inl (''unknown work '' @ quoted parent), s)
      else append_event E parent (Domain (DelegationRefused r)) None s)"

section \<open>The spawn policy\<close>

record SubAgentLimits =
  lim_max_depth :: nat
  lim_max_concurrent :: nat
  lim_max_total :: nat

datatype SubAgentError =
    SaNotReady string string
  | SaDepthExceeded string nat nat
  | SaConcurrentLimitExceeded string nat nat
  | SaTotalLimitExceeded string nat nat

text \<open>\<open>can_delegate\<close> is the readiness verdict of the agent (\<open>AgentReadiness::can_delegate\<close>).\<close>

definition policy_admit :: "SubAgentLimits \<Rightarrow> string \<Rightarrow> DelegationGauge \<Rightarrow> string \<Rightarrow> bool \<Rightarrow> SubAgentError + unit" where
  "policy_admit lm task g agent can_delegate =
     (if \<not> can_delegate then Inl (SaNotReady task agent)
      else if lim_max_depth lm < dg_child_depth g
      then Inl (SaDepthExceeded task (dg_child_depth g) (lim_max_depth lm))
      else if lim_max_concurrent lm \<le> dg_active g
      then Inl (SaConcurrentLimitExceeded task (dg_active g) (lim_max_concurrent lm))
      else if lim_max_total lm \<le> dg_total g
      then Inl (SaTotalLimitExceeded task (dg_total g) (lim_max_total lm))
      else Inr ())"

section \<open>Delegating and finishing\<close>

definition child_work_id :: "string \<Rightarrow> string \<Rightarrow> string" where
  "child_work_id parent task = parent @ ''/subagent/'' @ task"

definition child_run_id :: "string \<Rightarrow> string \<Rightarrow> string" where
  "child_run_id parent task = child_work_id parent task @ ''/run''"

definition child_agent_session_id :: "string \<Rightarrow> string \<Rightarrow> string" where
  "child_agent_session_id parent task = child_work_id parent task @ ''/agent''"

definition child_ref :: "string \<Rightarrow> string \<Rightarrow> ChildWorkRef" where
  "child_ref parent task =
     \<lparr> ch_work_id = child_work_id parent task, ch_run_id = child_run_id parent task,
       ch_agent_session_id = child_agent_session_id parent task \<rparr>"

definition delegate_child_work ::
  "'v GwEnv \<Rightarrow> string \<Rightarrow> string \<Rightarrow> string \<Rightarrow> string \<Rightarrow> string option \<Rightarrow> ('v, ChildWorkRef) gw" where
  "delegate_child_work E parent task objective agent worktree s =
     (let child = child_work_id parent task; run = child_run_id parent task;
          sess = child_agent_session_id parent task in
      case lookup (gw_works s) parent of
        None \<Rightarrow> (Inl ''unknown parent work'', s)
      | Some p \<Rightarrow>
          gw_then (create_child_work E parent child objective (wa_project_id p) (wa_session_id p))
            (gw_then (bind_execution E child run)
              (gw_then (record_execution_transition E child run WsRunning)
                (gw_then (spawn_subagent E child run sess agent EphemeralChild None worktree)
                  (gw_return (child_ref parent task))))) s)"

definition finish_event :: "WorkState \<Rightarrow> string \<Rightarrow> string option \<Rightarrow> 'v WorkEvent" where
  "finish_event outc run reason =
     Domain (case outc of
        WsFailed \<Rightarrow> RunFailed run (case reason of None \<Rightarrow> ''subagent failed'' | Some x \<Rightarrow> x)
      | WsCancelled \<Rightarrow> RunCancelled run
      | _ \<Rightarrow> RunCompleted run)"

definition finish_child_work :: "'v GwEnv \<Rightarrow> string \<Rightarrow> string \<Rightarrow> WorkState \<Rightarrow> string option \<Rightarrow> ('v, ChildWorkRef) gw" where
  "finish_child_work E parent task outc reason s =
     (let child = child_work_id parent task; run = child_run_id parent task;
          sess = child_agent_session_id parent task in
      if outc \<noteq> WsCompleted \<and> outc \<noteq> WsFailed \<and> outc \<noteq> WsCancelled
      then (Inl (''finish_child_work takes a terminal outcome (completed | failed | cancelled), got '' @ work_state_str outc), s)
      else
        let go = gw_then (append_event E child (finish_event outc run reason) None)
                   (gw_then (set_work_state E child run outc None)
                     (gw_then (terminate_agent_session E child sess) (gw_return (child_ref parent task))))
        in case run_state s child run of
             None \<Rightarrow> go s
           | Some cur \<Rightarrow>
               if work_is_terminal cur
               then (if cur = outc then (Inr (child_ref parent task), s)
                     else (Inl (''child Work '' @ quoted child @ '' is already terminal ('' @ state_debug cur @
                                ''), refusing '' @ state_debug outc), s))
               else go s)"

section \<open>Delegation leases\<close>

definition delegation_lease_key :: "string \<Rightarrow> TypedResourceKey" where
  "delegation_lease_key child = \<lparr> rk_kind = RkOther, rk_stable_id = ''work:'' @ child, rk_generation = 0 \<rparr>"

definition child_owner_context :: "'v WorkGateway \<Rightarrow> string \<Rightarrow> string \<Rightarrow> string + OwnerContext" where
  "child_owner_context s child binding =
     (case lookup (gw_works s) child of
        None \<Rightarrow> Inl (''unknown child work '' @ quoted child)
      | Some a \<Rightarrow>
          (case wa_current_run_id a of
             None \<Rightarrow> Inl (''child work '' @ quoted child @ '' has no bound Run'')
           | Some r \<Rightarrow>
               (case wa_parent_work_id a of
                  None \<Rightarrow> Inl ''a delegation lease may only be opened on a child Work''
                | Some p \<Rightarrow>
                    Inr \<lparr> ow_session_id = (case wa_session_id a of None \<Rightarrow> [] | Some x \<Rightarrow> x), ow_work_id = p,
                          ow_run_id = r, ow_binding_id = binding \<rparr>)))"

definition open_delegation_lease ::
  "'v GwEnv \<Rightarrow> string \<Rightarrow> OwnerContext \<Rightarrow> string \<Rightarrow> nat \<Rightarrow> nat \<Rightarrow> ('v, LeaseAttachment) gw" where
  "open_delegation_lease E child ow scope now ttl s =
     (case lookup (gw_works s) child of
        None \<Rightarrow> (Inl (''unknown child work '' @ quoted child), s)
      | Some a \<Rightarrow>
          (case wa_parent_work_id a of
             None \<Rightarrow> (Inl ''a delegation lease may only be opened on a child Work'', s)
           | Some p \<Rightarrow>
               if p \<noteq> ow_work_id ow
               then (Inl (''child '' @ quoted child @ '' belongs to '' @ quoted p @ '', not to '' @ quoted (ow_work_id ow)), s)
               else
                 let key = delegation_lease_key child;
                     c1 = note_resource_generation key 0 (gw_leases s);
                     (res, c2) = acquire (ge_fact_ser E) (ge_bytes E (gw_next_seq s)) ow key Control scope 0 now ttl c1;
                     s2 = s\<lparr>gw_leases := c2\<rparr>
                 in (case res of
                       Inl e \<Rightarrow> (Inl (lease_error_str e), s2)
                     | Inr acq \<Rightarrow>
                         gw_then (gw_modify (\<lambda>s. s\<lparr>gw_custody := AList.update child (al_handle acq, al_bearer acq) (gw_custody s)\<rparr>))
                           (gw_then (append_event E child (Domain (DelegationLeaseFact child (al_fact acq))) None)
                             (gw_return (al_attachment acq))) s2)))"

definition delegation_lease_id :: "'v WorkGateway \<Rightarrow> string \<Rightarrow> string option" where
  "delegation_lease_id s child = lease_id_for_resource (gw_leases s) (canonical_key (delegation_lease_key child))"

definition delegation_lease :: "'v WorkGateway \<Rightarrow> string \<Rightarrow> LeaseAttachment option" where
  "delegation_lease s child = Option.bind (delegation_lease_id s child) (attachment_for (gw_leases s))"

definition delegation_lease_state :: "'v WorkGateway \<Rightarrow> string \<Rightarrow> LeaseState option" where
  "delegation_lease_state s child = Option.bind (delegation_lease_id s child) (lease_state_of (gw_leases s))"

section \<open>Liveness and reclaim\<close>

definition heartbeat_subagent :: "'v GwEnv \<Rightarrow> string \<Rightarrow> nat \<Rightarrow> ('v, nat) gw" where
  "heartbeat_subagent E child at_ms s =
     (if \<not> has_work s child then (Inl (''unknown child work '' @ quoted child), s)
      else if presence_is_terminal s child
      then (Inl (''child work '' @ quoted child @ '' is terminal; refusing a heartbeat''), s)
      else
        let s1 = (case lookup (gw_custody s) child of
                    None \<Rightarrow> s
                  | Some (h, b) \<Rightarrow> s\<lparr>gw_leases := snd (heartbeat h b at_ms (gw_leases s))\<rparr>)
        in gw_then (append_event E child (Domain (SubagentHeartbeat child at_ms)) None) (gw_return at_ms) s1)"

definition subagent_liveness :: "'v WorkGateway \<Rightarrow> string \<Rightarrow> SubagentLivenessProbe option" where
  "subagent_liveness s child =
     (case parent_of s child of
        None \<Rightarrow> None
      | Some p \<Rightarrow>
          Some \<lparr> lp_liveness =
                   \<lparr> sl_child_work_id = child, sl_parent_work_id = p,
                     sl_last_heartbeat_ms = (case lookup (gw_heartbeats s) child of None \<Rightarrow> 0 | Some t \<Rightarrow> t),
                     sl_terminal = presence_is_terminal s child, sl_lease = delegation_lease s child \<rparr>,
                 lp_reclaimed = lookup (gw_reclaims s) child \<rparr>)"

definition subagent_liveness_all :: "'v WorkGateway \<Rightarrow> SubagentLivenessProbe list" where
  "subagent_liveness_all s =
     List.map_filter (subagent_liveness s)
       (map wa_work_id (filter (\<lambda>a. wa_parent_work_id a \<noteq> None) (map snd (gw_works s))))"

definition TIMEOUT_DETAIL :: string where
  "TIMEOUT_DETAIL = ''delegated child lease reclaimed: heartbeat timeout''"

definition INTERRUPTED_BY_TIMEOUT :: string where
  "INTERRUPTED_BY_TIMEOUT = ''InterruptedByTimeout''"

definition unsettled_effects :: "'v WorkGateway \<Rightarrow> string \<Rightarrow> (string \<times> IdempotencyClass option) list" where
  "unsettled_effects s child =
     map (\<lambda>(i, x). (i, ep_idempotency_class x))
       (filter (\<lambda>(_, x). requires_reconciliation x) (bt_inner (gw_effects s) child))"

definition mark_uncertain :: "'v GwEnv \<Rightarrow> string \<Rightarrow> (string \<times> IdempotencyClass option) list \<Rightarrow> ('v, unit) gw" where
  "mark_uncertain E child effs =
     gw_then (gw_each (\<lambda>(i, cls). append_event E child (Domain (EffectUncertain i (Some TIMEOUT_DETAIL) cls)) None) effs)
       (gw_return ())"

definition lose_lease :: "'v GwEnv \<Rightarrow> string \<Rightarrow> LeaseAttachment option \<Rightarrow> nat \<Rightarrow> ('v, unit) gw" where
  "lose_lease E child lease now =
     (case lease of
        None \<Rightarrow> gw_return ()
      | Some l \<Rightarrow>
          gw_then (gw_modify (\<lambda>s. s\<lparr>gw_leases := snd (mark_holder_lost (ge_fact_ser E) (at_lease_id l) now (gw_leases s))\<rparr>))
            (gw_then (append_event E child (Domain (DelegationLeaseFact child
                (with_detail TIMEOUT_DETAIL
                  (fact_new (at_lease_id l) LEASE_EVENT_UNCERTAIN (at_fence l) (at_generation l) now)))) None)
              (gw_return ())))"

definition interrupt_run :: "'v GwEnv \<Rightarrow> string \<Rightarrow> ('v, unit) gw" where
  "interrupt_run E child s =
     (case execution_id s child of
        None \<Rightarrow> (Inr (), s)
      | Some r \<Rightarrow>
          if run_state s child r = Some WsRecoverable then (Inr (), s)
          else gw_then (append_event E child (Domain (RunInterrupted r (Some INTERRUPTED_BY_TIMEOUT))) None) (gw_return ()) s)"

definition reclaim_one :: "'v GwEnv \<Rightarrow> nat \<Rightarrow> nat \<Rightarrow> SubagentLivenessProbe \<Rightarrow> ('v, SubagentTimeoutReceipt option) gw" where
  "reclaim_one E now timeout probe s =
     (let l = lp_liveness probe; child = sl_child_work_id l in
      if lookup (gw_reclaims s) child \<noteq> None then (Inr None, s)
      else if \<not> is_orphaned_at l now timeout then (Inr None, s)
      else
        let effs = unsettled_effects s child in
        gw_then (mark_uncertain E child effs)
          (gw_then (lose_lease E child (sl_lease l) now)
            (gw_then (gw_modify (\<lambda>s. s\<lparr>gw_custody := AList.delete child (gw_custody s)\<rparr>))
              (gw_then (interrupt_run E child)
                (\<lambda>s. let receipt = \<lparr> tr_child_work_id = child, tr_parent_work_id = sl_parent_work_id l,
                            tr_silent_ms = silence_ms l now, tr_timeout_ms = timeout, tr_lease = delegation_lease s child,
                            tr_effect_ids = map fst effs, tr_effect_state = PeUncertain \<rparr>
                     in gw_then (append_event E child (Domain (SubagentLeaseReclaimed receipt)) None)
                          (gw_return (Some receipt)) s)))) s)"

definition reclaim_orphaned_subagents :: "'v GwEnv \<Rightarrow> nat \<Rightarrow> nat \<Rightarrow> ('v, SubagentTimeoutReceipt list) gw" where
  "reclaim_orphaned_subagents E now timeout s =
     gw_bind (gw_each (reclaim_one E now timeout) (subagent_liveness_all s)) (\<lambda>rs.
       gw_return (List.map_filter id rs)) s"

end
