(* ===== verification/Work_Control.thy ===== *)
theory Work_Control
  imports Work_Runtime Guard_Types "HOL-Library.Product_Lexorder"
begin

text \<open>
  The control surface of the Work gateway (\<open>everyaios-core/src/work_gateway.rs\<close>): clients and their
  negotiated capabilities, execution nodes, run authorities with fencing tokens, reviews, steering,
  runtime manifests and their restore rule, attachments, and capability resolution. Fencing tokens are
  natural numbers; the expiry, whose time to live a caller chooses, wraps at 64 bits.
\<close>

section \<open>Clients\<close>

definition attach_client :: "'v GwEnv \<Rightarrow> ClientSession \<Rightarrow> ('v, unit) gw" where
  "attach_client E c s =
     (if \<not> cl_authenticated c then (Inl ''client authentication required'', s)
      else if \<not> has_work s (cl_work_id c) then (Inl ''unknown work'', s)
      else gw_then (append_event E (cl_work_id c) (Operational (SessionAttached (cl_client_id c))) None)
             (\<lambda>s. case lookup (gw_presence s) (cl_work_id c) of
                     None \<Rightarrow> (Inl ''panic: unwrap on None'', s)
                   | Some p \<Rightarrow>
                       (Inr (),
                        (put_presence (cl_work_id c)
                           (p\<lparr>pr_active_clients := (if cl_client_id c \<in> set (pr_active_clients p) then pr_active_clients p
                                                   else pr_active_clients p @ [cl_client_id c])\<rparr>) s)
                        \<lparr>gw_clients := AList.update (cl_client_id c) c (gw_clients s)\<rparr>)) s)"

definition connect_client :: "'v GwEnv \<Rightarrow> string \<Rightarrow> string \<Rightarrow> string \<Rightarrow> bool \<Rightarrow> ('v, ClientSession) gw" where
  "connect_client E i ctype w authenticated s =
     (if \<not> authenticated then (Inl ''client authentication required'', s)
      else case (if ctype = ''desktop'' then Some caps_desktop
                 else if ctype = ''mobile'' \<or> ctype = ''web'' \<or> ctype = ''cli'' then Some caps_restricted
                 else None) of
        None \<Rightarrow> (Inl (''unknown client type: '' @ ctype), s)
      | Some caps \<Rightarrow>
          let c = \<lparr> cl_client_id = i, cl_client_type = ctype, cl_work_id = w, cl_capabilities = caps, cl_scope = [],
                    cl_authenticated = authenticated, cl_connected_at_ms = ge_now E \<rparr>
          in gw_then (attach_client E c) (gw_return c) s)"

definition try_detach_client :: "'v GwEnv \<Rightarrow> string \<Rightarrow> ('v, bool) gw" where
  "try_detach_client E i s =
     (case lookup (gw_clients s) i of
        None \<Rightarrow> (Inr False, s)
      | Some c \<Rightarrow>
          gw_then (append_event E (cl_work_id c) (Operational (SessionDetached i)) None)
            (gw_then (gw_modify (\<lambda>s. s\<lparr>gw_clients := AList.delete i (gw_clients s)\<rparr>))
              (gw_then (gw_modify (detach_presence (cl_work_id c) i)) (gw_return True))) s)"

definition clients_for :: "'v WorkGateway \<Rightarrow> string \<Rightarrow> ClientSession list" where
  "clients_for s w = filter (\<lambda>c. cl_work_id c = w) (map snd (gw_clients s))"

section \<open>Nodes\<close>

definition register_node :: "ExecutionNode \<Rightarrow> ('v, unit) gw" where
  "register_node n s =
     (if nd_node_id n = [] then (Inl ''node id required'', s)
      else (Inr (), s\<lparr>gw_nodes := AList.update (nd_node_id n) n (gw_nodes s)\<rparr>))"

definition heartbeat_node :: "string \<Rightarrow> nat \<Rightarrow> 'v WorkGateway \<Rightarrow> bool \<times> 'v WorkGateway" where
  "heartbeat_node i at_ms s =
     (case lookup (gw_nodes s) i of
        None \<Rightarrow> (False, s)
      | Some n \<Rightarrow>
          (True, s\<lparr>gw_nodes := AList.update i (n\<lparr>nd_last_heartbeat_ms := at_ms, nd_health := ''healthy''\<rparr>) (gw_nodes s)\<rparr>))"

definition pair_node :: "'v GwEnv \<Rightarrow> ExecutionNode \<Rightarrow> ('v, ExecutionNode) gw" where
  "pair_node E n0 s =
     (if nd_node_id n0 = [] then (Inl ''node id required'', s)
      else
        let n = n0\<lparr>nd_health := ''paired'', nd_last_heartbeat_ms := ge_now E\<rparr>
        in (Inr n, s\<lparr>gw_nodes := AList.update (nd_node_id n) n (gw_nodes s)\<rparr>))"

definition verify_node :: "'v GwEnv \<Rightarrow> string \<Rightarrow> ('v, ExecutionNode) gw" where
  "verify_node E i s =
     (case lookup (gw_nodes s) i of
        None \<Rightarrow> (Inl ''unknown node'', s)
      | Some n0 \<Rightarrow>
          if nd_health n0 \<notin> {''paired'', ''verified'', ''bound''} then (Inl ''node is not paired'', s)
          else
            let n = n0\<lparr>nd_health := ''verified'', nd_last_heartbeat_ms := ge_now E\<rparr>
            in (Inr n, s\<lparr>gw_nodes := AList.update i n (gw_nodes s)\<rparr>))"

definition set_health :: "string \<Rightarrow> string \<Rightarrow> 'v WorkGateway \<Rightarrow> 'v WorkGateway" where
  "set_health i h s =
     (case lookup (gw_nodes s) i of
        None \<Rightarrow> s
      | Some n \<Rightarrow> s\<lparr>gw_nodes := AList.update i (n\<lparr>nd_health := h\<rparr>) (gw_nodes s)\<rparr>)"

definition set_address_node :: "string \<Rightarrow> string option \<Rightarrow> 'v WorkGateway \<Rightarrow> 'v WorkGateway" where
  "set_address_node w n s =
     (case lookup (gw_works s) w of
        None \<Rightarrow> s
      | Some a \<Rightarrow> put_address w (a\<lparr>wa_node_id := n, wa_version := u64_sat_add (wa_version a) 1\<rparr>) s)"

definition bind_node :: "'v GwEnv \<Rightarrow> string \<Rightarrow> string \<Rightarrow> ('v, WorkAddress) gw" where
  "bind_node E i w s =
     (case lookup (gw_nodes s) i of
        None \<Rightarrow> (Inl ''unknown node'', s)
      | Some n \<Rightarrow>
          if nd_health n \<notin> {''verified'', ''bound''} then (Inl ''node must be verified before binding'', s)
          else if \<not> has_work s w then (Inl ''unknown work'', s)
          else gw_then (append_event E w (Operational (NodeConnected i)) None)
                 (gw_then (gw_modify (\<lambda>s. set_address_node w (Some i) (set_health i ''bound'' s)))
                   (\<lambda>s. case lookup (gw_works s) w of
                           None \<Rightarrow> (Inl ''unknown work'', s)
                         | Some a \<Rightarrow> (Inr a, s))) s)"

definition bound_works :: "'v WorkGateway \<Rightarrow> string \<Rightarrow> string list" where
  "bound_works s i = map fst (filter (\<lambda>(_, a). wa_node_id a = Some i) (gw_works s))"

fun gw_for :: "('a \<Rightarrow> ('v, 'b) gw) \<Rightarrow> 'a list \<Rightarrow> ('v, unit) gw" where
  "gw_for f [] = gw_return ()"
| "gw_for f (x # xs) = gw_then (f x) (gw_for f xs)"

definition try_unbind_node :: "'v GwEnv \<Rightarrow> string \<Rightarrow> ('v, bool) gw" where
  "try_unbind_node E i s =
     (let ids = bound_works s i in
      if ids = [] then (Inr False, s)
      else gw_then (gw_for (\<lambda>w. append_event E w (Operational (NodeDisconnected i)) None) ids)
             (gw_then (gw_modify (\<lambda>s. set_health i ''verified'' (fold (\<lambda>w. set_address_node w None) ids s)))
               (gw_return True)) s)"

section \<open>Run authorities\<close>

definition acquire_run_authority :: "'v GwEnv \<Rightarrow> string \<Rightarrow> string \<Rightarrow> nat \<Rightarrow> ('v, RunAuthority) gw" where
  "acquire_run_authority E r i ttl s =
     (let now = ge_now E in
      if lookup (gw_nodes s) i = None then (Inl ''unknown node'', s)
      else if (case lookup (gw_authorities s) r of
                 None \<Rightarrow> False
               | Some a \<Rightarrow> ra_expires_at_ms a = 0 \<or> now < ra_expires_at_ms a)
      then (Inl ''run authority already held'', s)
      else
        let token = (case lookup (gw_fence_counters s) r of None \<Rightarrow> 0 | Some n \<Rightarrow> n) + 1;
            a = \<lparr> ra_run_id = r, ra_node_id = i, ra_lease_id = ''lease:'' @ r @ '':'' @ show_nat token,
                  ra_fencing_token = token, ra_granted_at_ms = now,
                  ra_expires_at_ms = (if ttl = 0 then 0 else u64_add now ttl) \<rparr>
        in (Inr a, s\<lparr>gw_fence_counters := AList.update r token (gw_fence_counters s),
                     gw_authorities := AList.update r a (gw_authorities s)\<rparr>))"

definition validate_fencing_token :: "'v WorkGateway \<Rightarrow> nat \<Rightarrow> string \<Rightarrow> string \<Rightarrow> nat \<Rightarrow> bool" where
  "validate_fencing_token s now r i token =
     (case lookup (gw_authorities s) r of None \<Rightarrow> False | Some a \<Rightarrow> authority_valid a i token now)"

definition release_authority :: "'v GwEnv \<Rightarrow> string \<Rightarrow> string \<Rightarrow> nat \<Rightarrow> 'v WorkGateway \<Rightarrow> bool \<times> 'v WorkGateway" where
  "release_authority E r i token s =
     (if validate_fencing_token s (ge_now E) r i token
      then (True, s\<lparr>gw_authorities := AList.delete r (gw_authorities s)\<rparr>)
      else (False, s))"

definition renew_lease :: "'v GwEnv \<Rightarrow> string \<Rightarrow> string \<Rightarrow> nat \<Rightarrow> nat \<Rightarrow> ('v, RunAuthority) gw" where
  "renew_lease E r i token ttl s =
     (if \<not> validate_fencing_token s (ge_now E) r i token then (Inl ''stale fencing token'', s)
      else case lookup (gw_authorities s) r of
        None \<Rightarrow> (Inl ''unknown run'', s)
      | Some a0 \<Rightarrow>
          let a = a0\<lparr>ra_expires_at_ms := (if ttl = 0 then 0 else u64_add (ge_now E) ttl)\<rparr>
          in (Inr a, s\<lparr>gw_authorities := AList.update r a (gw_authorities s)\<rparr>))"

definition recover_run :: "'v GwEnv \<Rightarrow> string \<Rightarrow> string \<Rightarrow> nat \<Rightarrow> ('v, RunAuthority) gw" where
  "recover_run E r i ttl s =
     (case lookup (gw_authorities s) r of
        Some a \<Rightarrow>
          if authority_valid a i (ra_fencing_token a) (ge_now E) then (Inr a, s)
          else acquire_run_authority E r i ttl s
      | None \<Rightarrow> acquire_run_authority E r i ttl s)"

definition migrate_run :: "'v GwEnv \<Rightarrow> string \<Rightarrow> string \<Rightarrow> nat \<Rightarrow> ('v, RunAuthority) gw" where
  "migrate_run E r to ttl s =
     (case lookup (gw_nodes s) to of
        None \<Rightarrow> (Inl ''unknown target node'', s)
      | Some n \<Rightarrow>
          if nd_health n \<notin> {''verified'', ''bound''} then (Inl ''target node must be verified'', s)
          else acquire_run_authority E r to ttl (s\<lparr>gw_authorities := AList.delete r (gw_authorities s)\<rparr>))"

section \<open>Reviews\<close>

definition add_review :: "ReviewItem \<Rightarrow> 'v WorkGateway \<Rightarrow> 'v WorkGateway" where
  "add_review i s = s\<lparr>gw_reviews := AList.update (rv_review_id i) i (gw_reviews s)\<rparr>"

definition request_review :: "'v GwEnv \<Rightarrow> ReviewItem \<Rightarrow> ('v, 'v WorkEventEnvelope) gw" where
  "request_review E i =
     gw_then (require_work (rv_work_id i))
       (append_with E (rv_work_id i) (Domain (ReviewRequested (rv_review_id i))) (gw_modify (add_review i)))"

definition open_reviews :: "'v WorkGateway \<Rightarrow> string \<Rightarrow> ReviewItem list" where
  "open_reviews s w =
     filter (\<lambda>r. rv_work_id r = w \<and> \<not> is_terminal_review_state (rv_state r)) (map snd (gw_reviews s))"

definition resolve_review_with :: "'v GwEnv \<Rightarrow> string \<Rightarrow> string \<Rightarrow> ('v, 'v WorkEventEnvelope) gw" where
  "resolve_review_with E i st s =
     (if st \<notin> {''approved'', ''rejected'', ''revision_requested'', ''resolved''}
      then (Inl (''unknown review state: '' @ st), s)
      else case lookup (gw_reviews s) i of
        None \<Rightarrow> (Inl ''unknown review item'', s)
      | Some r \<Rightarrow>
          gw_bind (append_replay E (rv_work_id r) (Domain (ApprovalResolved i None (st = ''approved'')))) (\<lambda>e.
            gw_then (gw_modify (mark_review i st)) (gw_return e)) s)"

section \<open>Steering\<close>

text \<open>The JSON of an instruction, field by field.\<close>

definition instruction_json :: "'v json_full \<Rightarrow> SteeringInstruction \<Rightarrow> 'v" where
  "instruction_json j i =
     json_lit j [(''work_id'', j_str j (si_work_id i)), (''run_id'', j_opt_str j (si_run_id i)),
                 (''source_client'', j_str j (si_source_client i)), (''instruction'', j_str j (si_instruction i)),
                 (''scope'', j_str j (si_scope i)), (''priority'', j_num j (si_priority i)),
                 (''created_at_ms'', j_num j (si_created_at_ms i))]"

definition steer :: "'v GwEnv \<Rightarrow> SteeringInstruction \<Rightarrow> ('v, 'v WorkEventEnvelope) gw" where
  "steer E i s =
     (case lookup (gw_clients s) (si_source_client i) of
        None \<Rightarrow> (Inl ''client is not attached'', s)
      | Some c \<Rightarrow>
          if \<not> cl_authenticated c \<or> \<not> cc_can_steer (cl_capabilities c) then (Inl ''client cannot steer this work'', s)
          else if cl_work_id c \<noteq> si_work_id i then (Inl ''client/work binding mismatch'', s)
          else append_event E (si_work_id i) (Domain (WorkUpdated (instruction_json (ge_json E) i))) None s)"

definition interrupt_current_step :: "'v GwEnv \<Rightarrow> string \<Rightarrow> string \<Rightarrow> string \<Rightarrow> ('v, 'v WorkEventEnvelope) gw" where
  "interrupt_current_step E w client reason =
     steer E \<lparr> si_work_id = w, si_run_id = None, si_source_client = client, si_instruction = reason,
               si_scope = ''pause'', si_priority = 0, si_created_at_ms = ge_now E \<rparr>"

definition apply_steering_checkpoint :: "'v GwEnv \<Rightarrow> string \<Rightarrow> string \<Rightarrow> nat \<Rightarrow> ('v, 'v WorkEventEnvelope) gw" where
  "apply_steering_checkpoint E w r n = append_event E w (Domain (RunCheckpointed r n)) None"

section \<open>Runtime manifests\<close>

definition create_runtime_manifest :: "'v GwEnv \<Rightarrow> string \<Rightarrow> RuntimeManifest \<Rightarrow> ('v, RuntimeManifest) gw" where
  "create_runtime_manifest E w m0 =
     (let m = refresh_hash (ge_mdigest E) (m0\<lparr>rm_work_id := w\<rparr>); j = ge_json E in
      gw_then (require_work w)
        (gw_then (append_event E w (Domain (WorkUpdated (json_lit j [(''runtimeManifest'', j_str j (rm_config_hash m))]))) None)
          (gw_then (gw_modify (\<lambda>s. s\<lparr>gw_manifests := AList.update w m (gw_manifests s)\<rparr>)) (gw_return m))))"

definition restore_runtime_manifest ::
  "(RuntimeManifest \<Rightarrow> string) \<Rightarrow> RuntimeManifest \<Rightarrow> string list \<Rightarrow> string \<Rightarrow> string \<Rightarrow> RuntimeManifest" where
  "restore_runtime_manifest mdigest saved caps net fs =
     refresh_hash mdigest
       (saved\<lparr>rm_capabilities := filter (\<lambda>c. c \<in> set caps) (rm_capabilities saved),
              rm_network_policy := narrow (rm_network_policy saved) net NETWORK_LADDER,
              rm_filesystem_policy := narrow (rm_filesystem_policy saved) fs FILESYSTEM_LADDER\<rparr>)"

section \<open>Attachments\<close>

definition create_attachment :: "'v GwEnv \<Rightarrow> AttachmentRef \<Rightarrow> string \<Rightarrow> ('v, unit) gw" where
  "create_attachment E a path s =
     (if \<not> ge_exists E path then (Inl ''attachment source does not exist'', s)
      else (Inr (), s\<lparr>gw_attachments := AList.update (ar_attachment_id a) (a, path) (gw_attachments s)\<rparr>))"

definition resolve_attachment :: "'v WorkGateway \<Rightarrow> string \<Rightarrow> string \<Rightarrow> string + string" where
  "resolve_attachment s i consumer =
     (case lookup (gw_attachments s) i of
        None \<Rightarrow> Inl ''unknown attachment''
      | Some (a, p) \<Rightarrow>
          if ar_allowed_consumers a \<noteq> [] \<and> consumer \<notin> set (ar_allowed_consumers a)
          then Inl ''attachment consumer denied''
          else Inr p)"

definition expire_attachment :: "string \<Rightarrow> 'v WorkGateway \<Rightarrow> bool \<times> 'v WorkGateway" where
  "expire_attachment i s =
     (lookup (gw_attachments s) i \<noteq> None, s\<lparr>gw_attachments := AList.delete i (gw_attachments s)\<rparr>)"

section \<open>Capability broker and resolution\<close>

record CapabilityCandidate =
  ca_capability_id :: string
  ca_route :: string
  ca_confidence :: nat
  ca_latency_estimate_ms :: nat
  ca_cost_estimate :: nat
  ca_risk :: RiskLevel

record CapabilityResolution =
  cq_intent :: string
  cq_candidates :: "CapabilityCandidate list"
  cq_ranked_path :: "string list"
  cq_rationale :: string
  cq_fallback_path :: "string list"

text \<open>\<open>sort_by\<close> is a stable sort; the comparator is the lexicographic order of this key (\<open>confidence\<close> is a
  \<open>u8\<close>, compared downwards).\<close>

definition rank_key :: "CapabilityCandidate \<Rightarrow> nat \<times> RiskLevel \<times> nat \<times> nat" where
  "rank_key c = (255 - ca_confidence c, ca_risk c, ca_latency_estimate_ms c, ca_cost_estimate c)"

definition resolve_capability :: "string \<Rightarrow> CapabilityCandidate list \<Rightarrow> CapabilityResolution" where
  "resolve_capability intent cs =
     (let path = map ca_capability_id (sort_key rank_key cs)
      in \<lparr> cq_intent = intent, cq_candidates = cs, cq_ranked_path = path,
            cq_rationale = ''ranked by confidence, risk, latency, and cost'', cq_fallback_path = drop 1 path \<rparr>)"

definition choose_best :: "CapabilityResolution \<Rightarrow> string option" where
  "choose_best r = (case cq_ranked_path r of [] \<Rightarrow> None | x # _ \<Rightarrow> Some x)"

definition choose_fallback :: "CapabilityResolution \<Rightarrow> string option" where
  "choose_fallback r = (case cq_fallback_path r of [] \<Rightarrow> None | x # _ \<Rightarrow> Some x)"

fun join :: "string \<Rightarrow> string list \<Rightarrow> string" where
  "join sep [] = []"
| "join sep [x] = x"
| "join sep (x # y # ys) = x @ sep @ join sep (y # ys)"

definition explain_choice :: "CapabilityResolution \<Rightarrow> string" where
  "explain_choice r =
     (case choose_best r of
        None \<Rightarrow> ''no capability satisfies this intent''
      | Some best \<Rightarrow>
          best @ '' '' @ [CHR 0xE2, CHR 0x80, CHR 0x94] @ '' '' @ cq_rationale r @ '' (fallbacks: '' @
          (if cq_fallback_path r = [] then ''none'' else join '' > '' (cq_fallback_path r)) @ '')'')"

record CapabilityGrant =
  gr_grant_id :: string
  gr_capability_id :: string
  gr_handle :: string
  gr_scope :: "string list"
  gr_issued_for_run :: string
  gr_expires_at_ms :: nat
  gr_granted_at_ms :: nat

definition broker_authorize :: "string list \<Rightarrow> nat \<Rightarrow> string \<Rightarrow> string \<Rightarrow> string + CapabilityGrant" where
  "broker_authorize caps now cap r =
     (if cap \<notin> set caps then Inl (''capability not brokered: '' @ cap)
      else if r = [] then Inl ''broker grant requires a run id''
      else Inr \<lparr> gr_grant_id = ''grant:'' @ cap @ '':'' @ r, gr_capability_id = cap, gr_handle = ''cred:'' @ cap @ '':'' @ r,
                 gr_scope = [cap], gr_issued_for_run = r, gr_expires_at_ms = 0, gr_granted_at_ms = now \<rparr>)"

definition set_brokered_capabilities :: "string list \<Rightarrow> 'v WorkGateway \<Rightarrow> 'v WorkGateway" where
  "set_brokered_capabilities caps s = s\<lparr>gw_broker := caps\<rparr>"

definition broker_invoke :: "CapabilityGrant \<Rightarrow> 'v \<Rightarrow> string + 'v" where
  "broker_invoke g request = Inl ''capability invocation requires a live dispatcher (ticket/executor path)''"

section \<open>Snapshots\<close>

record 'v WorkGatewaySnapshot =
  sn_address :: WorkAddress
  sn_presence :: WorkPresence
  sn_events :: "'v WorkEventEnvelope list"
  sn_clients :: "ClientSession list"
  sn_nodes :: "ExecutionNode list"
  sn_reviews :: "ReviewItem list"

definition snapshot :: "'v WorkGateway \<Rightarrow> string \<Rightarrow> 'v WorkGatewaySnapshot option" where
  "snapshot s w =
     (case lookup (gw_works s) w of
        None \<Rightarrow> None
      | Some a \<Rightarrow>
          (case lookup (gw_presence s) w of
             None \<Rightarrow> None
           | Some p \<Rightarrow>
               Some \<lparr> sn_address = a, sn_presence = p, sn_events = events_of s w, sn_clients = clients_for s w,
                      sn_nodes = map snd (gw_nodes s), sn_reviews = open_reviews s w \<rparr>))"

section \<open>Remote approval and context release\<close>

datatype AuthSource = NativeGesture | AgentTicket | AutomationTicket

record TrustedGestureAttestation =
  ga_auth_source :: AuthSource
  ga_gesture_origin :: string
  ga_nonce :: string

definition attest_native :: "string \<Rightarrow> string \<Rightarrow> TrustedGestureAttestation" where
  "attest_native origin nonce = \<lparr> ga_auth_source = NativeGesture, ga_gesture_origin = origin, ga_nonce = nonce \<rparr>"

definition attest_ticket :: "AuthSource \<Rightarrow> string \<Rightarrow> TrustedGestureAttestation" where
  "attest_ticket source origin =
     \<lparr> ga_auth_source = (if source = NativeGesture then AgentTicket else source), ga_gesture_origin = origin,
       ga_nonce = [] \<rparr>"

definition is_human_gesture :: "TrustedGestureAttestation \<Rightarrow> bool" where
  "is_human_gesture a \<longleftrightarrow> ga_auth_source a = NativeGesture \<and> ga_gesture_origin a \<noteq> [] \<and> ga_nonce a \<noteq> []"

definition resolve_remote_approval :: "TrustedGestureAttestation \<Rightarrow> string + unit" where
  "resolve_remote_approval a =
     (if is_human_gesture a then Inr ()
      else Inl (''not a trusted native gesture '' @ [CHR 0xE2, CHR 0x80, CHR 0x94] @
                '' approval refused (client-asserted human_gesture is inert)''))"

datatype ContextReleasePolicy = CrRedacted | CrReferenceOnly | CrApproval | CrBlocked

definition auto_releasable_externally :: "ContextReleasePolicy \<Rightarrow> bool" where
  "auto_releasable_externally p \<longleftrightarrow> p = CrRedacted \<or> p = CrReferenceOnly"

definition decide_release :: "ContextReleasePolicy \<Rightarrow> bool \<Rightarrow> bool \<Rightarrow> string + ContextReleasePolicy" where
  "decide_release p external gesture =
     (case p of
        CrBlocked \<Rightarrow> Inl ''context release blocked by policy''
      | CrApproval \<Rightarrow> if gesture then Inr CrApproval else Inl ''context release requires human approval''
      | _ \<Rightarrow> if external \<and> \<not> auto_releasable_externally p then Inl ''policy does not permit external release'' else Inr p)"

end
