(* ===== verification/Reachability.thy ===== *)
theory Reachability
  imports Main
begin

text \<open>
  Interfaces over step relations: an invariant and a preorder that every step respects hold along
  every finite sequence of steps (\<^const>\<open>rtranclp\<close>).
\<close>

locale step_invariant =
  fixes step :: "'s \<Rightarrow> 's \<Rightarrow> bool" and inv :: "'s \<Rightarrow> bool"
  assumes step_keeps: "step s t \<Longrightarrow> inv s \<Longrightarrow> inv t"
begin

lemma reach_keeps: "step\<^sup>*\<^sup>* s t \<Longrightarrow> inv s \<Longrightarrow> inv t"
  by (induction rule: rtranclp_induct) (auto intro: step_keeps)

end

locale step_order =
  fixes step :: "'s \<Rightarrow> 's \<Rightarrow> bool" and le :: "'s \<Rightarrow> 's \<Rightarrow> bool"
  assumes le_refl: "le s s"
    and le_trans: "le s t \<Longrightarrow> le t u \<Longrightarrow> le s u"
    and step_le: "step s t \<Longrightarrow> le s t"
begin

lemma reach_le: "step\<^sup>*\<^sup>* s t \<Longrightarrow> le s t"
  by (induction rule: rtranclp_induct) (auto intro: le_refl le_trans step_le)

end

locale step_simulation =
  fixes step :: "'s \<Rightarrow> 's \<Rightarrow> bool" and small :: "'s \<Rightarrow> 's \<Rightarrow> bool"
  assumes step_small: "step s t \<Longrightarrow> small\<^sup>*\<^sup>* s t"
begin

lemma reach_small: "step\<^sup>*\<^sup>* s t \<Longrightarrow> small\<^sup>*\<^sup>* s t"
  by (induction rule: rtranclp_induct) (auto dest: step_small)

end

end
