(* ===== verification/Work_Moves.thy ===== *)
theory Work_Moves
  imports Work_Delegation Work_Control Reachability
begin

text \<open>
  The primitive changes of the Work gateway. Every public method of the gateway is a finite sequence
  of the changes below (\<open>call_moves\<close>), so a property kept by each of them holds along every sequence of
  calls. Fields that no law mentions change freely (\<open>prim_frame\<close>).
\<close>

section \<open>Primitive changes\<close>

definition frame_eq :: "'v WorkGateway \<Rightarrow> 'v WorkGateway \<Rightarrow> bool" where
  "frame_eq s t \<longleftrightarrow>
     gw_works t = gw_works s \<and> gw_journal t = gw_journal s \<and> gw_events t = gw_events s \<and>
     gw_authorities t = gw_authorities s \<and> gw_fence_counters t = gw_fence_counters s \<and>
     gw_next_seq t = gw_next_seq s \<and> gw_execution_ids t = gw_execution_ids s \<and> gw_run_ids t = gw_run_ids s \<and>
     gw_run_states t = gw_run_states s \<and> gw_effects t = gw_effects s \<and> gw_pending t = gw_pending s \<and>
     gw_agent_bindings t = gw_agent_bindings s \<and> gw_active_bindings t = gw_active_bindings s \<and>
     gw_heartbeats t = gw_heartbeats s"

definition same_scope :: "WorkAddress \<Rightarrow> WorkAddress \<Rightarrow> bool" where
  "same_scope a b \<longleftrightarrow>
     wa_work_id b = wa_work_id a \<and> wa_parent_work_id b = wa_parent_work_id a \<and>
     wa_session_id b = wa_session_id a \<and> wa_session_kind b = wa_session_kind a"

definition same_owner :: "AgentBinding \<Rightarrow> AgentBinding \<Rightarrow> bool" where
  "same_owner a b \<longleftrightarrow>
     ab_binding_id b = ab_binding_id a \<and> ab_session_id b = ab_session_id a \<and> ab_work_id b = ab_work_id a"

text \<open>What \<open>set_run_state\<close> (and \<open>bind_execution\<close>, for a Run not seen before) accepts.\<close>

definition run_allowed :: "'v json_full \<Rightarrow> 'v WorkGateway \<Rightarrow> string \<Rightarrow> string \<Rightarrow> WorkState \<Rightarrow> bool" where
  "run_allowed j s w r st =
     (case run_state s w r of
        None \<Rightarrow> \<not> work_is_terminal st
      | Some p \<Rightarrow> transition_refusal j s w r p st = None)"

inductive gw_prim :: "'v json_full \<Rightarrow> 'v WorkGateway \<Rightarrow> 'v WorkGateway \<Rightarrow> bool" for j where
  prim_frame: "frame_eq s t \<Longrightarrow> gw_prim j s t"
| prim_note: "gw_prim j s (note_run_reference w r s)"
| prim_run: "run_allowed j s w r st \<Longrightarrow> gw_prim j s (put_run_state w r st s)"
| prim_effects: "gw_prim j s (s\<lparr>gw_effects := m\<rparr>)"
| prim_request:
    "run_state s w r = Some WsWaitingApproval \<Longrightarrow> get_str j v ''runId'' = Some r \<Longrightarrow>
     pending_approvals_for_run j s w r = [] \<Longrightarrow> pending_approval s w t = None \<Longrightarrow>
     gw_prim j s (put_pending w t v s)"
| prim_ensure: "gw_prim j s (ensure_pending w s)"
| prim_resolve: "gw_prim j s (drop_pending w t s)"
| prim_create:
    "\<not> has_work s w \<Longrightarrow> wa_work_id a = w \<Longrightarrow> (\<forall>p. wa_parent_work_id a = Some p \<longrightarrow> has_work s p) \<Longrightarrow>
     gw_prim j s (put_address w a s)"
| prim_address: "lookup (gw_works s) w = Some a \<Longrightarrow> same_scope a b \<Longrightarrow> gw_prim j s (put_address w b s)"
| prim_remove: "gw_prim j s (remove_work w s)"
| prim_commit:
    "has_work s (we_work_id e) \<Longrightarrow> we_sequence e = gw_next_seq s \<Longrightarrow> gw_next_seq s < u64_max \<Longrightarrow>
     (\<forall>ls. gw_journal s = Some ls \<longrightarrow> JtRecord e \<in> set ls) \<Longrightarrow> gw_prim j s (commit_event e s)"
| prim_write: "gw_journal s = Some ls \<Longrightarrow> gw_prim j s (s\<lparr>gw_journal := Some (ls @ [x])\<rparr>)"
| prim_park:
    "lookup (gw_agent_bindings s) (ab_binding_id b) = None \<Longrightarrow> ab_state b = BlParked \<Longrightarrow>
     gw_prim j s (put_binding (ab_binding_id b) b s)"
| prim_activate:
    "lookup (gw_agent_bindings s) i = Some b \<Longrightarrow> same_owner b c \<Longrightarrow>
     active_sibling s (ab_session_id b) i = None \<Longrightarrow> gw_prim j s (put_binding i c s)"
| prim_rebind:
    "lookup (gw_agent_bindings s) i = Some b \<Longrightarrow> same_owner b c \<Longrightarrow>
     ab_state c = BlActive \<longrightarrow> ab_state b = BlActive \<Longrightarrow> gw_prim j s (put_binding i c s)"
| prim_pointer: "gw_prim j s (s\<lparr>gw_active_bindings := m\<rparr>)"
| prim_grant:
    "ra_fencing_token a = (case lookup (gw_fence_counters s) r of None \<Rightarrow> 0 | Some n \<Rightarrow> n) + 1 \<Longrightarrow>
     gw_prim j s (s\<lparr>gw_fence_counters := AList.update r (ra_fencing_token a) (gw_fence_counters s),
                    gw_authorities := AList.update r a (gw_authorities s)\<rparr>)"
| prim_revoke: "gw_prim j s (s\<lparr>gw_authorities := AList.delete r (gw_authorities s)\<rparr>)"
| prim_extend:
    "lookup (gw_authorities s) r = Some a \<Longrightarrow> ra_fencing_token b = ra_fencing_token a \<Longrightarrow>
     gw_prim j s (s\<lparr>gw_authorities := AList.update r b (gw_authorities s)\<rparr>)"
| prim_beat: "gw_prim j s (beat child t s)"

abbreviation gw_moves :: "'v json_full \<Rightarrow> 'v WorkGateway \<Rightarrow> 'v WorkGateway \<Rightarrow> bool" where
  "gw_moves j \<equiv> (gw_prim j)\<^sup>*\<^sup>*"

named_theorems gw_mv \<open>operations that are sequences of primitive changes\<close>

lemma mv_refl: "gw_moves j s s"
  by simp

lemma mv_prim: "gw_prim j s t \<Longrightarrow> gw_moves j s t"
  by simp

lemma mv_trans: "gw_moves j s t \<Longrightarrow> gw_moves j t u \<Longrightarrow> gw_moves j s u"
  by (rule rtranclp_trans)

lemma mv_frame: "frame_eq s t \<Longrightarrow> gw_moves j s t"
  by (rule mv_prim) (rule prim_frame)

lemma mv_bind:
  assumes "gw_moves j s (snd (m s))"
    and "\<And>x s'. m s = (Inr x, s') \<Longrightarrow> gw_moves j s' (snd (f x s'))"
  shows "gw_moves j s (snd (gw_bind m f s))"
  using assms by (cases "m s"; cases "fst (m s)") (auto intro: mv_trans)

lemma mv_then:
  assumes "gw_moves j s (snd (m s))"
    and "\<And>x s'. m s = (Inr x, s') \<Longrightarrow> gw_moves j s' (snd (n s'))"
  shows "gw_moves j s (snd (gw_then m n s))"
  unfolding gw_then_def using assms by (rule mv_bind)

lemma mv_basic [gw_mv, simp]:
  "gw_moves j s (snd (gw_return x s))" "gw_moves j s (snd (gw_fail e s))" "gw_moves j s (snd (gw_check r s))"
  by simp_all

lemma mv_modify [gw_mv]: "gw_moves j s (f s) \<Longrightarrow> gw_moves j s (snd (gw_modify f s))"
  by simp

lemma same_scope_refl [simp]: "same_scope a a"
  by (simp add: same_scope_def)

lemma same_scope_trans: "same_scope a b \<Longrightarrow> same_scope b c \<Longrightarrow> same_scope a c"
  by (simp add: same_scope_def)

section \<open>Projections\<close>

lemma note_fields [simp]:
  "gw_journal (note_run_reference w r s) = gw_journal s"
  "gw_events (note_run_reference w r s) = gw_events s"
  "gw_next_seq (note_run_reference w r s) = gw_next_seq s"
  "gw_run_states (note_run_reference w r s) = gw_run_states s"
  "gw_effects (note_run_reference w r s) = gw_effects s"
  "gw_pending (note_run_reference w r s) = gw_pending s"
  "gw_agent_bindings (note_run_reference w r s) = gw_agent_bindings s"
  "gw_active_bindings (note_run_reference w r s) = gw_active_bindings s"
  "gw_authorities (note_run_reference w r s) = gw_authorities s"
  "gw_fence_counters (note_run_reference w r s) = gw_fence_counters s"
  "gw_heartbeats (note_run_reference w r s) = gw_heartbeats s"
  "gw_presence (note_run_reference w r s) = gw_presence s"
  "gw_run_metadata (note_run_reference w r s) = gw_run_metadata s"
  by (simp_all add: note_run_reference_def Let_def put_address_def split: option.split)

lemma note_work:
  "lookup (gw_works (note_run_reference w r s)) x =
     (if x = w then map_option (\<lambda>a. a\<lparr>wa_current_run_id := Some r\<rparr>) (lookup (gw_works s) x) else lookup (gw_works s) x)"
  by (simp add: note_run_reference_def Let_def put_address_def split: option.split)

lemma note_run_state [simp]: "run_state (note_run_reference w r s) x y = run_state s x y"
  by (simp add: run_state_def)

lemma note_execution: "execution_id (note_run_reference w r s) x = (if x = w then Some r else execution_id s x)"
  by (simp add: note_run_reference_def execution_id_def Let_def put_address_def split: option.split)

lemma note_run_ids:
  "run_ids_of (note_run_reference w r s) x =
     (if x = w then (if r \<in> set (run_ids_of s w) then run_ids_of s w else run_ids_of s w @ [r]) else run_ids_of s x)"
  by (simp add: note_run_reference_def run_ids_of_def Let_def put_address_def split: option.split)

lemma note_scope:
  "lookup (gw_works s) w = Some a \<Longrightarrow>
   \<exists>b. lookup (gw_works (note_run_reference w' r s)) w = Some b \<and> same_scope a b \<and> same_scope b a"
  by (auto simp: note_work same_scope_def)

lemma note_refusal [simp]:
  "transition_refusal j (note_run_reference w r s) x y p st = transition_refusal j s x y p st"
  by (simp add: transition_refusal_def pending_approvals_for_run_def has_unresolved_uncertain_effect_def effect_statuses_def)

lemma project_presence_frame: "frame_eq s (project_presence w r st wait s)"
  by (simp add: project_presence_def put_presence_def frame_eq_def)

lemma run_allowed_note: "run_allowed j (note_run_reference w r s) x y st = run_allowed j s x y st"
  by (simp add: run_allowed_def split: option.split)

lemma mv_note [gw_mv]: "gw_moves j s (note_run_reference w r s)"
  by (rule mv_prim) (rule prim_note)

lemma mv_set_run_state [gw_mv]: "gw_moves j s (snd (set_run_state j w r st wait s))"
proof -
  let ?s = "note_run_reference w r s"
  show ?thesis
  proof (cases "run_allowed j ?s w r st")
    case True
    then have "gw_moves j ?s (project_presence w r st wait (put_run_state w r st ?s))"
      by (intro mv_trans [OF mv_prim [OF prim_run] mv_frame [OF project_presence_frame]])
    then have "gw_moves j s (project_presence w r st wait (put_run_state w r st ?s))"
      by (rule mv_trans [OF mv_note])
    with mv_note [of j s w r] show ?thesis
      by (auto simp: set_run_state_def Let_def split: option.split)
  next
    case False
    then have "snd (set_run_state j w r st wait s) = ?s"
      by (auto simp: set_run_state_def run_allowed_def Let_def split: option.splits if_splits)
    then show ?thesis by (simp add: mv_note)
  qed
qed

lemma mv_put_metadata [gw_mv]: "gw_moves j s (put_metadata w r m s)"
  by (rule mv_frame) (simp add: frame_eq_def put_metadata_def)

lemma mv_effects [gw_mv]: "gw_moves j s (s\<lparr>gw_effects := m\<rparr>)"
  by (rule mv_prim) (rule prim_effects)

lemmas effect_defs = apply_effect_attempt_def apply_effect_observed_def apply_effect_verified_def
  apply_effect_uncertain_def apply_effect_reconciled_def put_effect_def ensure_effects_def

lemma mv_apply_effect [gw_mv]:
  "gw_moves j s (apply_effect_attempt w e g c sq s)"
  "gw_moves j s (snd (apply_effect_observed w e outc sq s))"
  "gw_moves j s (snd (apply_effect_verified w e ok sq s))"
  "gw_moves j s (snd (apply_effect_uncertain w e rs c sq s))"
  "gw_moves j s (snd (apply_effect_reconciled w e outc safe sq s))"
  by (auto simp: effect_defs Let_def intro: mv_effects split: option.split)

section \<open>Work updates\<close>

lemma mv_update_execution: "gw_moves j s (snd (update_execution j w patch a s))"
  by (auto simp: update_execution_def intro: mv_note split: option.split)

lemma mv_update_run: "gw_moves j s (snd (update_run j w patch s))"
  by (auto simp: update_run_def Let_def intro: mv_note mv_trans [OF mv_note mv_put_metadata]
      split: option.split prod.split)

lemma update_execution_scope:
  "update_execution j w patch a s = (Inr b, t) \<Longrightarrow> same_scope a b"
  by (auto simp: update_execution_def same_scope_def split: option.splits if_splits)

lemma update_owner_scope: "update_owner j patch a = Inr b \<Longrightarrow> same_scope a b"
  by (auto simp: update_owner_def same_scope_def split: option.splits)

lemma update_binding_scope: "update_binding j patch a = Inr b \<Longrightarrow> same_scope a b"
  by (auto simp: update_binding_def same_scope_def split: option.splits)

lemma update_address_scope:
  assumes "update_address j patch a = Inr b"
  shows "same_scope a b"
proof -
  obtain p c where 1: "update_owner j patch (a\<lparr>wa_provenance := p\<rparr>) = Inr c" and 2: "update_binding j patch c = Inr b"
    using assms by (auto simp: update_address_def res_bind_Inr)
  have "same_scope (a\<lparr>wa_provenance := p\<rparr>) b"
    using update_owner_scope [OF 1] update_binding_scope [OF 2] by (rule same_scope_trans)
  then show ?thesis by (simp add: same_scope_def)
qed

lemma update_execution_work:
  "lookup (gw_works s) w = Some a \<Longrightarrow>
   \<exists>b. lookup (gw_works (snd (update_execution j w' patch x s))) w = Some b \<and> same_scope a b \<and> same_scope b a"
  using note_scope by (fastforce simp: update_execution_def split: option.split)

lemma update_run_work:
  "lookup (gw_works s) w = Some a \<Longrightarrow>
   \<exists>b. lookup (gw_works (snd (update_run j w' patch s))) w = Some b \<and> same_scope a b \<and> same_scope b a"
  using note_scope by (fastforce simp: update_run_def Let_def put_metadata_def split: option.split prod.split)

lemma mv_store_update:
  assumes "lookup (gw_works s) w = Some a" "same_scope a b"
  shows "gw_moves j s (store_update j w patch b s)"
proof -
  have "same_scope a (b\<lparr>wa_version := n\<rparr>)" for n
    using assms(2) by (simp add: same_scope_def)
  then show ?thesis
    using assms(1) by (auto simp: store_update_def intro: mv_prim prim_remove prim_address)
qed

lemma mv_apply_work_update [gw_mv]: "gw_moves j s (snd (apply_work_update j w patch s))"
proof (cases "lookup (gw_works s) w")
  case None
  then show ?thesis by (simp add: apply_work_update_def)
next
  case (Some a0)
  have fin: "gw_moves j s2 (store_update j w patch a2 s2)"
    if 1: "update_execution j w patch a0 s = (Inr a1, s1)" and 2: "update_run j w patch s1 = (Inr x, s2)"
      and 3: "update_address j patch a1 = Inr a2" for a1 s1 s2 a2 x
  proof -
    have "same_scope a0 a2"
      using update_execution_scope [OF 1] update_address_scope [OF 3] by (rule same_scope_trans)
    moreover obtain b1 where "lookup (gw_works s1) w = Some b1" "same_scope b1 a0"
      using update_execution_work [OF Some, of j w patch a0] 1 by auto
    moreover then obtain b2 where "lookup (gw_works s2) w = Some b2" "same_scope b2 b1"
      using update_run_work [of s1 w b1 j w patch] 2 by auto
    ultimately show ?thesis
      by (meson mv_store_update same_scope_trans)
  qed
  with Some show ?thesis
    by (auto simp: apply_work_update_def intro!: mv_bind mv_then mv_update_execution mv_update_run mv_modify)
qed

lemma mv_apply_lease_fact [gw_mv]: "gw_moves j s (snd (apply_lease_fact E sq f rec s))"
  by (auto simp: apply_lease_fact_def frame_eq_def intro!: mv_frame split: prod.split sum.split)

lemma mv_beat [gw_mv]: "gw_moves j s (beat child t s)"
  by (rule mv_prim) (rule prim_beat)

lemma mv_project_p69g2 [gw_mv]: "gw_moves j s (snd (project_p69g2_event E w sq ev rec s))"
proof -
  have "gw_moves j s (put_change_set c s)" "gw_moves j s (count_refusal w x s)"
    "gw_moves j s (s\<lparr>gw_reclaims := m\<rparr>)" for c x m and s :: "'a WorkGateway"
    by (rule mv_frame, simp add: frame_eq_def put_change_set_def count_refusal_def Let_def)+
  then show ?thesis
    unfolding project_p69g2_event_def
    by (intro mv_then) (auto intro: mv_beat mv_apply_lease_fact split: WorkEvent.split DomainEvent.split)
qed

lemma mv_notify [gw_mv]: "gw_moves j s (notify_subscribers E e s)"
  by (rule mv_frame) (simp add: frame_eq_def notify_subscribers_def)

section \<open>Appending\<close>

lemma write_journal_cases:
  "write_journal E e s = (res, t) \<Longrightarrow> t = s \<or> (\<exists>ls x. gw_journal s = Some ls \<and> t = s\<lparr>gw_journal := Some (ls @ [x])\<rparr>)"
  by (auto simp: write_journal_def torn_def split: option.splits JournalIo.splits if_splits)

lemma mv_write_journal [gw_mv]: "gw_moves j s (snd (write_journal E e s))"
  using write_journal_cases [of E e s "fst (write_journal E e s)" "snd (write_journal E e s)"]
    mv_prim [OF prim_write]
  by auto

lemma append_refusal_ok:
  "append_refusal E s w ev = Inr () \<Longrightarrow> has_work s w \<and> gw_next_seq s < u64_max"
  by (auto simp: append_refusal_def res_bind_Inr split: if_splits)

lemma write_journal_frame:
  "write_journal E e s = (res, t) \<Longrightarrow> gw_works t = gw_works s \<and> gw_next_seq t = gw_next_seq s"
  by (auto dest!: write_journal_cases)

lemma write_journal_durable:
  "write_journal E e s = (Inr x, t) \<Longrightarrow> gw_journal t = Some ls \<Longrightarrow> JtRecord e \<in> set ls"
  by (auto simp: write_journal_def split: option.splits JournalIo.splits)

lemma envelope_simps [simp]:
  "we_work_id (envelope_for E w ev c sq) = w" "we_sequence (envelope_for E w ev c sq) = sq"
  "we_event (envelope_for E w ev c sq) = ev"
  by (simp_all add: envelope_for_def)

lemma mv_append [gw_mv]: "gw_moves (ge_json E) s (snd (append_event E w ev c s))"
proof (cases "append_refusal E s w ev")
  case (Inl err)
  then show ?thesis by (simp add: append_event_def)
next
  case (Inr u)
  let ?e = "envelope_for E w ev c (gw_next_seq s)"
  have ok: "has_work s w" "gw_next_seq s < u64_max"
    using append_refusal_ok [of E s w ev] Inr by auto
  have commit: "gw_moves (ge_json E) s' (commit_event ?e s')" if "write_journal E ?e s = (Inr x, s')" for x s'
    using write_journal_frame [OF that] write_journal_durable [OF that] ok
    by (auto intro!: mv_prim prim_commit simp: has_work_def)
  have upd: "gw_moves (ge_json E) t (snd (project_update E w ev t))" for t
    by (auto simp: project_update_def intro: mv_apply_work_update split: WorkEvent.split DomainEvent.split)
  show ?thesis
    unfolding append_event_def Inr sum.case Let_def
    by (intro mv_then mv_write_journal mv_modify commit upd mv_project_p69g2 mv_notify mv_basic) auto
qed

lemma mv_append_with:
  "(\<And>t. gw_moves (ge_json E) t (snd (f t))) \<Longrightarrow> gw_moves (ge_json E) s (snd (append_with E w ev f s))"
  unfolding append_with_def by (intro mv_bind mv_then mv_append) auto

end
