(* ===== verification/Work_Calls.thy ===== *)
theory Work_Calls
  imports Work_Moves
begin

text \<open>
  The calls of the Work gateway as a step relation with one rule per public method that changes the
  state, and the proof that each call is a sequence of primitive changes.
\<close>

section \<open>What an append leaves alone\<close>

lemma append_ok:
  assumes "append_event E w ev c s = (Inr e, t)"
  shows "e = envelope_for E w ev c (gw_next_seq s)" "has_work s w" "append_refusal E s w ev = Inr ()"
  using assms append_refusal_ok [of E s w ev]
  by (auto simp: append_event_def gw_then_def gw_bind_ok Let_def split: sum.splits)

lemma append_ok_stages:
  assumes "append_event E w ev c s = (Inr e, t)"
  obtains s1 s2 s3 where
    "write_journal E e s = (Inr (), s1)"
    "project_update E w ev (commit_event e s1) = (Inr (), s2)"
    "project_p69g2_event E w (we_sequence e) ev False s2 = (Inr (), s3)"
    "t = notify_subscribers E e s3"
  using assms append_ok(1) [OF assms]
  by (auto simp: append_event_def gw_then_def gw_bind_ok Let_def split: sum.splits)

lemma project_trivial:
  "\<not> semantic ev \<Longrightarrow> project_update E w ev = gw_return () \<and> project_p69g2_event E w sq ev rec = gw_return ()"
  by (cases ev) (auto simp: semantic_def project_update_def project_p69g2_event_def validate_p69g2_event_def
      gw_then_def gw_bind_def gw_return_def gw_check_def Let_def)

lemma append_plain_bindings:
  assumes "append_event E w (Runtime x) c s = (Inr e, t)"
  shows "gw_agent_bindings t = gw_agent_bindings s"
proof -
  have plain: "\<not> semantic (Runtime x :: 'a WorkEvent)" by (simp add: semantic_def)
  obtain s1 where 1: "write_journal E e s = (Inr (), s1)" and 2: "t = notify_subscribers E e (commit_event e s1)"
    using append_ok_stages [OF assms] project_trivial [OF plain] by (metis gw_simps(1) prod.inject)
  from 1 have "gw_agent_bindings s1 = gw_agent_bindings s" by (auto dest!: write_journal_cases)
  with 2 show ?thesis by (simp add: notify_subscribers_def commit_event_def push_event_def)
qed

section \<open>Replays the live methods perform\<close>

lemma mv_ensure: "gw_moves j s (ensure_pending w s)"
  by (rule mv_prim) (rule prim_ensure)

lemma mv_mark_review [gw_mv]: "gw_moves j s (mark_review i st s)"
  by (rule mv_frame) (simp add: frame_eq_def mark_review_def split: option.split)

lemma mv_drop_pending: "gw_moves j s (drop_pending w t s)"
  by (rule mv_prim) (rule prim_resolve)

lemma mv_approval_resolved [gw_mv]: "gw_moves j s (snd (replay_approval_resolved j w t run ok s))"
  by (auto simp: replay_approval_resolved_def intro: mv_trans [OF mv_drop_pending mv_mark_review] split: option.split)

lemma ensure_same [simp]:
  "run_state (ensure_pending w s) x y = run_state s x y"
  "pending_approval (ensure_pending w s) x t = pending_approval s x t"
  "bt_inner (gw_pending (ensure_pending w s)) x = bt_inner (gw_pending s) x"
  by (simp_all add: ensure_pending_def run_state_def pending_approval_def bt_get2_def)

lemma approval_value_run: "json_values j \<Longrightarrow> get_str j (approval_value j t tool args risk at_ms r) ''runId'' = Some r"
  unfolding approval_value_def by (simp add: json_values.get_str_lit json_values.str_str)

lemma mv_approval_requested:
  assumes j: "json_values j"
  shows "gw_moves j s (snd (replay_approval_requested j w t run tool args risk at_ms s))"
proof -
  let ?s = "ensure_pending w s"
  have "gw_moves j s (put_pending w t (approval_value j t tool args risk at_ms r) ?s)"
    if "run_state s w r = Some WsWaitingApproval"
      and "\<not> list_ex (\<lambda>(_, x). get_str j x ''runId'' = Some r) (bt_inner (gw_pending ?s) w)"
      and "pending_approval ?s w t = None" for r
  proof (rule mv_trans [OF mv_ensure mv_prim [OF prim_request]])
    show "pending_approvals_for_run j ?s w r = []"
      using that(2) by (auto simp: pending_approvals_for_run_def filter_empty_conv list_ex_iff)
  qed (use that approval_value_run [OF j] in simp_all)
  then show ?thesis
    using mv_ensure [of j s w] by (auto simp: replay_approval_requested_def Let_def split: sum.split option.split)
qed

lemma mv_set_address_binding: "gw_moves j s (set_address_binding w b s)"
proof (cases "lookup (gw_works s) w")
  case (Some a)
  then have "gw_prim j s (put_address w (a\<lparr>wa_binding_id := b\<rparr>) s)"
    by (rule prim_address) (simp add: same_scope_def)
  with Some show ?thesis by (simp add: set_address_binding_def)
qed (simp add: set_address_binding_def)

lemma mv_pointer: "gw_moves j s (s\<lparr>gw_active_bindings := m\<rparr>)"
  by (rule mv_prim) (rule prim_pointer)

lemma mv_binding_active:
  assumes "lookup (gw_agent_bindings s) i = Some b" "active_sibling s (ab_session_id b) i = None"
  shows "gw_moves j s (snd (replay_binding_active w sq i sid s))"
proof -
  let ?c = "b\<lparr>ab_state := BlActive, ab_last_event_seq := sq,
               ab_provider_session_id := (if sid \<noteq> None then sid else ab_provider_session_id b)\<rparr>"
  have "gw_moves j s (put_binding i ?c s)"
    using assms by (intro mv_prim prim_activate) (simp_all add: same_owner_def)
  then have "gw_moves j s (set_address_binding w x ((put_binding i ?c s)\<lparr>gw_active_bindings := m\<rparr>))" for x m
    by (rule mv_trans [OF _ mv_trans [OF mv_pointer mv_set_address_binding]])
  then show ?thesis
    using assms(1) by (simp add: replay_binding_active_def owned_binding_def Let_def)
qed

lemma mv_binding_suspended [gw_mv]: "gw_moves j s (snd (replay_binding_suspended w sq i s))"
proof (cases "owned_binding s w i")
  case (Inr b)
  then have b: "lookup (gw_agent_bindings s) i = Some b"
    by (auto simp: owned_binding_def split: option.splits if_splits)
  let ?s = "put_binding i (b\<lparr>ab_state := BlParked, ab_last_event_seq := sq\<rparr>) s"
  have "gw_moves j s ?s"
    by (rule mv_prim, rule prim_rebind [OF b]) (simp_all add: same_owner_def)
  moreover have "gw_moves j ?s (set_address_binding w None (?s\<lparr>gw_active_bindings := m\<rparr>))" for m
    by (rule mv_trans [OF mv_pointer mv_set_address_binding])
  ultimately show ?thesis
    using Inr by (auto simp: replay_binding_suspended_def Let_def intro: mv_trans)
qed (simp add: replay_binding_suspended_def)

lemma mv_binding_usage [gw_mv]: "gw_moves j s (snd (replay_binding_usage w sq i u s))"
proof (cases "owned_binding s w i")
  case (Inr b)
  then have b: "lookup (gw_agent_bindings s) i = Some b"
    by (auto simp: owned_binding_def split: option.splits if_splits)
  have "gw_moves j s (put_binding i (b\<lparr>ab_usage := usage_add (ab_usage b) u, ab_last_event_seq := sq\<rparr>) s)"
    by (rule mv_prim, rule prim_rebind [OF b]) (simp_all add: same_owner_def)
  with Inr show ?thesis by (simp add: replay_binding_usage_def)
qed (simp add: replay_binding_usage_def)

section \<open>Append and replay\<close>

lemma replay_event_cases:
  "(we_work_id e = [] \<or> \<not> is_creation (we_event e) \<and> \<not> has_work s (we_work_id e)) \<Longrightarrow> snd (replay_event E e s) = s"
  by (auto simp: replay_event_def Let_def)

lemma mv_replay_domain:
  assumes "\<And>s. gw_moves j s (snd (replay_domain E w sq d s))"
  shows "gw_moves j s (snd (replay_event E (envelope_for E w (Domain d) c sq) s))"
  using assms by (auto simp: replay_event_def Let_def)

lemma mv_append_replay:
  assumes "\<And>e t. append_event E w ev None s = (Inr e, t) \<Longrightarrow> gw_moves (ge_json E) t (snd (replay_event E e t))"
  shows "gw_moves (ge_json E) s (snd (append_replay E w ev s))"
  unfolding append_replay_def using assms by (intro mv_bind mv_then mv_append) auto

lemma mv_append_replay_domain:
  assumes "\<And>sq s. gw_moves (ge_json E) s (snd (replay_domain E w sq d s))"
  shows "gw_moves (ge_json E) s (snd (append_replay E w (Domain d) s))"
proof (rule mv_append_replay)
  fix e t
  assume "append_event E w (Domain d) None s = (Inr e, t)"
  then have "e = envelope_for E w (Domain d) None (gw_next_seq s)" by (rule append_ok)
  then show "gw_moves (ge_json E) t (snd (replay_event E e t))"
    using assms by (auto intro: mv_replay_domain)
qed

lemma mv_replay_domains:
  shows "gw_moves (ge_json E) s (snd (replay_domain E w sq (ApprovalResolved t run ok) s))"
    "json_values (ge_json E) \<Longrightarrow> gw_moves (ge_json E) s (snd (replay_domain E w sq (ApprovalRequested t run tool args risk at_ms) s))"
    "gw_moves (ge_json E) s (snd (replay_domain E w sq (EffectAttempted e g cls) s))"
    "gw_moves (ge_json E) s (snd (replay_domain E w sq (EffectObserved e outc) s))"
    "gw_moves (ge_json E) s (snd (replay_domain E w sq (EffectVerified e b) s))"
    "gw_moves (ge_json E) s (snd (replay_domain E w sq (EffectUncertain e rs cls) s))"
    "gw_moves (ge_json E) s (snd (replay_domain E w sq (EffectReconciled e outc b) s))"
  by (auto simp: replay_domain_def Let_def intro: gw_mv mv_approval_requested)

section \<open>Runtime operations\<close>

lemma frame_runtime [simp]:
  "frame_eq s (s\<lparr>gw_ptys := m1\<rparr>)" "frame_eq s (s\<lparr>gw_worktrees := m2\<rparr>)" "frame_eq s (s\<lparr>gw_agent_sessions := m3\<rparr>)"
  "frame_eq s (s\<lparr>gw_reviews := m4\<rparr>)" "frame_eq s (s\<lparr>gw_nodes := m5\<rparr>)" "frame_eq s (s\<lparr>gw_clients := m6\<rparr>)"
  "frame_eq s (s\<lparr>gw_manifests := m7\<rparr>)" "frame_eq s (s\<lparr>gw_attachments := m8\<rparr>)" "frame_eq s (s\<lparr>gw_broker := m9\<rparr>)"
  "frame_eq s (s\<lparr>gw_leases := m10\<rparr>)" "frame_eq s (s\<lparr>gw_custody := m11\<rparr>)" "frame_eq s (s\<lparr>gw_presence := m12\<rparr>)"
  "frame_eq s (s\<lparr>gw_subscribers := m13\<rparr>)" "frame_eq s s"
  by (simp_all add: frame_eq_def)

lemmas mv_frames [simp] = frame_runtime [THEN mv_frame]

lemma mv_alter [gw_mv]:
  "gw_moves j s (snd (alter_pty i f s))" "gw_moves j s (snd (alter_worktree i g s))" "gw_moves j s (snd (alter_session i h s))"
  "gw_moves j s (snd (push_output i chunk s))" "gw_moves j s (snd (require_work w s))" "gw_moves j s (snd (require_pty i s))"
  "gw_moves j s (snd (require_worktree i s))" "gw_moves j s (snd (require_session i s))" "gw_moves j s (snd (move_pty a b i s))"
  by (auto simp: alter_pty_def alter_worktree_def alter_session_def push_output_def require_work_def require_pty_def
      require_worktree_def require_session_def move_pty_def Let_def intro: mv_frame split: option.split)

lemma mv_modify_frame [gw_mv]: "(\<And>s. frame_eq s (f s)) \<Longrightarrow> gw_moves j s (snd (gw_modify f s))"
  by (simp add: mv_frame)

lemma mv_put_pty [gw_mv]: "gw_moves j s (put_pty p s)" "gw_moves j s (put_presence w q s)"
  by (simp_all add: put_pty_def put_presence_def mv_frame)

lemmas mv_rules = mv_then mv_bind mv_append mv_append_with mv_alter mv_modify_frame mv_basic

lemma mv_pty_ops [gw_mv]:
  shows "gw_moves (ge_json E) s (snd (spawn_pty E w i pid rows cols s))"
    "gw_moves (ge_json E) s (snd (resize_pty E w i rows cols s))"
    "gw_moves (ge_json E) s (snd (write_pty_output E w i chunk s))"
    "gw_moves (ge_json E) s (snd (signal_pty E w i sig s))"
    "gw_moves (ge_json E) s (snd (pause_pty i s))"
    "gw_moves (ge_json E) s (snd (resume_pty i s))"
    "gw_moves (ge_json E) s (snd (close_pty E w i code s))"
    "gw_moves (ge_json E) s (snd (create_pty i rows cols s))"
    "gw_moves (ge_json E) s (snd (append_pty_output i out s))"
  by (auto simp: spawn_pty_def resize_pty_def write_pty_output_def signal_pty_def pause_pty_def resume_pty_def
      close_pty_def create_pty_def append_pty_output_def put_pty_def Let_def intro!: mv_rules
      split: option.split)

lemma mv_worktree_ops [gw_mv]:
  shows "gw_moves (ge_json E) s (snd (create_worktree E w r i repo troot base branch isolation s))"
    "gw_moves (ge_json E) s (snd (attach_worktree E w i r s))"
    "gw_moves (ge_json E) s (snd (merge_worktree E w i into s))"
    "gw_moves (ge_json E) s (snd (revert_worktree E w i s))"
    "gw_moves (ge_json E) s (snd (destroy_worktree E w i s))"
    "gw_moves (ge_json E) s (snd (bind_worktree E b s))"
  by (auto simp: create_worktree_def attach_worktree_def merge_worktree_def revert_worktree_def destroy_worktree_def
      bind_worktree_def intro!: mv_rules)

lemma mv_session_ops [gw_mv]:
  shows "gw_moves (ge_json E) s (snd (spawn_subagent E w r i agent lifetime pty worktree s))"
    "gw_moves (ge_json E) s (snd (send_subagent_message E w i to_agent s))"
    "gw_moves (ge_json E) s (snd (attach_agent_session E w i s))"
    "gw_moves (ge_json E) s (snd (terminate_agent_session E w i s))"
    "gw_moves (ge_json E) s (snd (detach_agent_session E w i s))"
    "gw_moves (ge_json E) s (snd (steer_agent_session E w i s))"
    "gw_moves (ge_json E) s (snd (checkpoint_agent_session E w i s))"
  by (auto simp: spawn_subagent_def send_subagent_message_def attach_agent_session_def terminate_agent_session_def
      detach_agent_session_def steer_agent_session_def checkpoint_agent_session_def Let_def
      intro!: mv_rules split: option.split)

section \<open>Bindings\<close>

lemma replay_runtime:
  "has_work s w \<Longrightarrow> w \<noteq> [] \<Longrightarrow> replay_event E (envelope_for E w (Runtime (AgentBindingCreated b)) c sq) s = replay_binding_created w sq b s"
  by (simp add: replay_event_def is_creation_def)

lemma mv_create_agent_binding [gw_mv]:
  shows "gw_moves (ge_json E) s (snd (create_agent_binding E b s))"
proof -
  let ?b = "b\<lparr>ab_state := BlParked, ab_last_event_seq := 0\<rparr>"
  have "gw_moves (ge_json E) s (snd (append_replay E (ab_work_id b) (Runtime (AgentBindingCreated ?b)) s))"
    if new: "lookup (gw_agent_bindings s) (ab_binding_id b) = None"
  proof (rule mv_append_replay)
    fix e t
    assume app: "append_event E (ab_work_id b) (Runtime (AgentBindingCreated ?b)) None s = (Inr e, t)"
    have e: "e = envelope_for E (ab_work_id b) (Runtime (AgentBindingCreated ?b)) None (gw_next_seq s)"
      using append_ok [OF app] by simp
    have "gw_moves (ge_json E) t (put_binding (ab_binding_id b) (?b\<lparr>ab_last_event_seq := n\<rparr>) t)" for n
      using prim_park [of t "?b\<lparr>ab_last_event_seq := n\<rparr>" "ge_json E"] new append_plain_bindings [OF app] by simp
    then show "gw_moves (ge_json E) t (snd (replay_event E e t))"
      unfolding e by (auto simp: replay_event_def replay_binding_created_def Let_def)
  qed
  then show ?thesis by (simp add: create_agent_binding_def split: option.split)
qed

lemma active_sibling_cong: "gw_agent_bindings t = gw_agent_bindings s \<Longrightarrow> active_sibling t = active_sibling s"
  by (intro ext) (simp add: active_sibling_def)

lemma mv_transition_agent_binding [gw_mv]:
  shows "gw_moves (ge_json E) s (snd (transition_agent_binding E i transition sid s))"
proof -
  have "gw_moves (ge_json E) s (snd (append_replay E (ab_work_id b) (Runtime ev) s))"
    if b: "lookup (gw_agent_bindings s) i = Some b"
      and ev: "binding_transition i transition sid = Inr (ev, st)"
      and sib: "st = BlActive \<longrightarrow> active_sibling s (ab_session_id b) i = None" for b ev st
  proof (rule mv_append_replay)
    fix e t
    assume app: "append_event E (ab_work_id b) (Runtime ev) None s = (Inr e, t)"
    have e: "e = envelope_for E (ab_work_id b) (Runtime ev) None (gw_next_seq s)"
      using append_ok [OF app] by simp
    have t: "gw_agent_bindings t = gw_agent_bindings s" by (rule append_plain_bindings [OF app])
    have act: "gw_moves (ge_json E) t (snd (replay_binding_active w n i sid t))" if "st = BlActive" for w n
      using that b sib t active_sibling_cong [OF t] by (intro mv_binding_active) auto
    have "ev = AgentBindingSuspended i \<or> st = BlActive \<and> (ev = AgentBindingActivated i sid \<or> ev = AgentBindingResumed i sid)"
      using ev by (auto simp: binding_transition_def split: if_splits)
    then show "gw_moves (ge_json E) t (snd (replay_event E e t))"
      unfolding e using act mv_binding_suspended by (auto simp: replay_event_def Let_def)
  qed
  then show ?thesis
    by (auto simp: transition_agent_binding_def split: option.split sum.split if_split)
qed

lemma mv_record_binding_usage [gw_mv]:
  shows "gw_moves (ge_json E) s (snd (record_binding_usage E i u s))"
proof -
  have "gw_moves (ge_json E) s (snd (append_replay E w (Runtime (AgentBindingUsageRecorded i u)) s))" for w
  proof (rule mv_append_replay)
    fix e t
    assume app: "append_event E w (Runtime (AgentBindingUsageRecorded i u)) None s = (Inr e, t)"
    show "gw_moves (ge_json E) t (snd (replay_event E e t))"
      using append_ok(1) [OF app] mv_binding_usage by (auto simp: replay_event_def Let_def)
  qed
  then show ?thesis by (simp add: record_binding_usage_def split: option.split)
qed

section \<open>Work operations\<close>

lemma mv_remove: "gw_moves j s (remove_work w s)"
  by (rule mv_prim) (rule prim_remove)

lemma mv_register_work:
  assumes "\<not> has_work s (wa_work_id a)" "\<forall>p. wa_parent_work_id a = Some p \<longrightarrow> has_work s p"
  shows "gw_moves (ge_json E) s (snd (register_work E objective a trigger s))"
proof -
  let ?w = "wa_work_id a"
  let ?s1 = "put_presence ?w (fresh_presence ?w) (put_address ?w a s)"
  let ?r = "append_event E ?w (creation_event objective a trigger) None ?s1"
  have "gw_moves (ge_json E) s ?s1"
    using mv_prim [OF prim_create [OF assms(1) refl assms(2)]] by (rule mv_trans [OF _ mv_put_pty(2)])
  then have app: "gw_moves (ge_json E) s (snd ?r)"
    by (rule mv_trans [OF _ mv_append])
  have undo: "gw_moves (ge_json E) t (t\<lparr>gw_works := bt_remove ?w (gw_works t), gw_presence := m\<rparr>)" for t :: "'a WorkGateway" and m
  proof -
    have "t\<lparr>gw_works := bt_remove ?w (gw_works t), gw_presence := m\<rparr> = (remove_work ?w t)\<lparr>gw_presence := m\<rparr>"
      by (simp add: remove_work_def)
    with mv_trans [OF mv_remove [of "ge_json E" t ?w] mv_frame [of "remove_work ?w t" "(remove_work ?w t)\<lparr>gw_presence := m\<rparr>"]]
    show ?thesis by simp
  qed
  show ?thesis
    using app mv_trans [OF app undo]
    by (cases ?r; cases "fst ?r") (auto simp: register_work_def Let_def)
qed

lemma mv_create_work [gw_mv]:
  shows "gw_moves (ge_json E) s (snd (create_work_in_session E w project sid kind objective s))"
  by (auto simp: create_work_in_session_def Let_def has_work_def address_new_def
      intro!: mv_then mv_register_work split: option.split)

lemma mv_create_child_work [gw_mv]:
  shows "gw_moves (ge_json E) s (snd (create_child_work E parent w objective project sid s))"
  by (auto simp: create_child_work_def Let_def has_work_def address_new_def
      intro!: mv_then mv_register_work mv_append split: option.split)

lemma mv_note_ready: "gw_moves j s (note_ready w x s)"
  by (auto simp: note_ready_def run_allowed_def work_is_terminal_def intro!: mv_prim prim_run)

lemma mv_bind_execution [gw_mv]:
  shows "gw_moves (ge_json E) s (snd (bind_execution_with_metadata E w x meta s))" "gw_moves (ge_json E) s (snd (bind_execution E w x s))"
proof -
  show *: "gw_moves (ge_json E) s (snd (bind_execution_with_metadata E w x meta s))" for meta
    by (auto simp: bind_execution_with_metadata_def Let_def
        intro!: mv_append_with mv_modify mv_note_ready split: option.split)
  show "gw_moves (ge_json E) s (snd (bind_execution E w x s))"
    unfolding bind_execution_def by (intro mv_then *) auto
qed

lemma mv_enter_state:
  shows "gw_moves (ge_json E) s (snd (enter_state E w x st wait s))"
  by (auto simp: enter_state_def set_work_state_def intro!: mv_then mv_append mv_set_run_state)

lemma mv_transitions [gw_mv]:
  shows "gw_moves (ge_json E) s (snd (record_execution_transition E w x st s))" "gw_moves (ge_json E) s (snd (record_wait E w x wait s))"
  using mv_enter_state by (simp_all add: record_execution_transition_def record_wait_def)

lemma mv_approvals [gw_mv]:
  assumes "json_values (ge_json E)"
  shows "gw_moves (ge_json E) s (snd (record_pending_approval_for_run E w r t tool args risk at_ms s))"
    "gw_moves (ge_json E) s (snd (record_pending_approval E w t tool args risk at_ms s))"
    "gw_moves (ge_json E) s (snd (resolve_pending_approval_for_run E w r t ok s))"
    "gw_moves (ge_json E) s (snd (record_approval E w t ok s))"
proof -
  note app = mv_append_replay_domain mv_replay_domains
  show *: "gw_moves (ge_json E) s (snd (record_pending_approval_for_run E w r t tool args risk at_ms s))" for r
    using assms by (simp add: record_pending_approval_for_run_def app)
  show "gw_moves (ge_json E) s (snd (record_pending_approval E w t tool args risk at_ms s))"
    using * by (simp add: record_pending_approval_def split: option.split)
  show "gw_moves (ge_json E) s (snd (resolve_pending_approval_for_run E w r t ok s))"
    using assms by (auto simp: resolve_pending_approval_for_run_def Let_def
        intro!: mv_bind mv_then app mv_transitions split: option.split)
  show "gw_moves (ge_json E) s (snd (record_approval E w t ok s))"
    using assms by (auto simp: record_approval_def intro!: mv_then app)
qed

lemma mv_each: "(\<And>x s. gw_moves j s (snd (f x s))) \<Longrightarrow> gw_moves j s (snd (gw_each f xs s))"
  by (induction xs arbitrary: s) (auto intro!: mv_bind)

lemma mv_for: "(\<And>x s. gw_moves j s (snd (f x s))) \<Longrightarrow> gw_moves j s (snd (gw_for f xs s))"
  by (induction xs arbitrary: s) (auto intro!: mv_then)

lemmas mv_append_replays = mv_replay_domains [THEN mv_append_replay_domain]

lemma mv_record_effect: "gw_moves (ge_json E) s (snd (record_effect_with_class E w e phase detail grant cls s))"
proof -
  have "gw_moves (ge_json E) s (snd (append_replay E w ev s))" if "effect_event e phase detail grant cls = Inr ev" for ev
    using that by (auto simp: effect_event_def intro!: mv_append_replays split: if_splits)
  then show ?thesis
    by (auto simp: record_effect_with_class_def intro!: mv_then split: option.split sum.split)
qed

lemma mv_reconcile: "gw_moves (ge_json E) s (snd (reconcile_uncertain_effect E w e outc safe s))"
  by (auto simp: reconcile_uncertain_effect_def intro!: mv_append_replays split: option.split)

lemma mv_effect_ops [gw_mv]:
  shows "gw_moves (ge_json E) s (snd (record_effect_with_class E w e phase detail grant cls s))"
    "gw_moves (ge_json E) s (snd (record_uncertain_effect E w e reason cls s))"
    "gw_moves (ge_json E) s (snd (reconcile_uncertain_effect E w e outc safe s))"
    "gw_moves (ge_json E) s (snd (reconcile_uncertain_effects E w outc safe s))"
  using mv_record_effect mv_reconcile
  by (auto simp: record_uncertain_effect_def reconcile_uncertain_effects_def intro!: mv_then mv_each)

lemma mv_record_ops [gw_mv]:
  shows "gw_moves (ge_json E) s (snd (record_file_change_set E c s))"
    "gw_moves (ge_json E) s (snd (settle_file_change_set E c reason s))"
    "gw_moves (ge_json E) s (snd (record_file_touch E w path writer s))"
    "gw_moves (ge_json E) s (snd (record_test E w name passed s))"
    "gw_moves (ge_json E) s (snd (record_handoff E w artifact from_agent to_agent summary s))"
    "gw_moves (ge_json E) s (snd (record_artifact E w i updated s))"
  by (auto simp: record_file_change_set_def settle_file_change_set_def record_file_touch_def record_test_def
      record_handoff_def record_artifact_def Let_def intro!: mv_then mv_append split: sum.split option.split)

lemma mv_record_thought [gw_mv]: "gw_moves (ge_json E) s (snd (record_thought E w msg s))"
  by (auto simp: record_thought_def put_presence_def intro!: mv_then mv_append mv_alter mv_modify split: option.split)

lemma mv_archive [gw_mv]:
  shows "gw_moves (ge_json E) s (snd (try_archive_work E w s))"
proof -
  have "gw_moves (ge_json E) s (put_presence w p (remove_work w s))" for p and s :: "'a WorkGateway"
    by (rule mv_trans [OF mv_remove mv_put_pty(2)])
  then show ?thesis
    by (auto simp: try_archive_work_def Let_def intro!: mv_then mv_append mv_modify mv_remove split: option.split)
qed

section \<open>Delegation\<close>

lemma mv_delegation [gw_mv]:
  shows "gw_moves (ge_json E) s (snd (record_delegation_refused E w r s))"
    "gw_moves (ge_json E) s (snd (delegate_child_work E w task objective agent worktree s))"
    "gw_moves (ge_json E) s (snd (finish_child_work E w task outc reason s))"
proof -
  show "gw_moves (ge_json E) s (snd (record_delegation_refused E w r s))"
    by (simp add: record_delegation_refused_def mv_append)
  show "gw_moves (ge_json E) s (snd (delegate_child_work E w task objective agent worktree s))"
    by (auto simp: delegate_child_work_def Let_def
        intro!: mv_then mv_create_child_work mv_bind_execution mv_transitions mv_session_ops split: option.split)
  have "gw_moves (ge_json E) s (snd (gw_then (append_event E c (finish_event st run reason) None)
      (gw_then (set_work_state E c run st None) (gw_then (terminate_agent_session E c sess) (gw_return x))) s))" for c run sess x st
    by (intro mv_then mv_append mv_session_ops) (auto simp: set_work_state_def intro: mv_set_run_state)
  then show "gw_moves (ge_json E) s (snd (finish_child_work E w task outc reason s))"
    by (auto simp: finish_child_work_def Let_def split: option.split)
qed

lemma mv_custody_frame:
  "gw_moves j s (s\<lparr>gw_leases := c\<rparr>)" "gw_moves j s (s\<lparr>gw_leases := c, gw_custody := m\<rparr>)"
  by (rule mv_frame, simp add: frame_eq_def)+

lemma mv_open_delegation_lease [gw_mv]:
  shows "gw_moves (ge_json E) s (snd (open_delegation_lease E child ow scope now ttl s))"
proof -
  have "gw_moves (ge_json E) s (snd (gw_then (gw_modify (\<lambda>s. s\<lparr>gw_custody := f s\<rparr>)) (gw_then (append_event E child ev None) (gw_return x)) (s\<lparr>gw_leases := c\<rparr>)))"
    for f ev x c
    by (rule mv_trans [OF mv_custody_frame(1) [of _ s c]], intro mv_then mv_append mv_modify)
      simp_all
  then show ?thesis
    by (auto simp: open_delegation_lease_def Let_def mv_custody_frame split: option.split prod.split sum.split)
qed

lemma mv_heartbeat_subagent [gw_mv]:
  shows "gw_moves (ge_json E) s (snd (heartbeat_subagent E child at_ms s))"
proof -
  have "gw_moves (ge_json E) s (snd (gw_then (append_event E child ev None) (gw_return at_ms) (s\<lparr>gw_leases := c\<rparr>)))" for ev c
    by (rule mv_trans [OF mv_custody_frame(1) [of _ s c]], intro mv_then mv_append) simp_all
  moreover have "gw_moves (ge_json E) s (snd (gw_then (append_event E child ev None) (gw_return at_ms) s))" for ev
    by (intro mv_then mv_append) simp_all
  ultimately show ?thesis
    by (simp add: heartbeat_subagent_def Let_def split: option.split prod.split)
qed

lemma mv_reclaim_one:
  shows "gw_moves (ge_json E) s (snd (reclaim_one E now timeout probe s))"
proof -
  have a: "gw_moves (ge_json E) s (snd (mark_uncertain E child effs s))" for child effs s
    by (auto simp: mark_uncertain_def split: prod.split intro!: mv_then mv_each mv_append)
  have b: "gw_moves (ge_json E) s (snd (lose_lease E child l now s))" for child l s
    by (auto simp: lose_lease_def intro!: mv_then mv_append mv_modify mv_custody_frame split: option.split)
  have c: "gw_moves (ge_json E) s (snd (interrupt_run E child s))" for child s
    by (auto simp: interrupt_run_def intro!: mv_then mv_append split: option.split)
  show ?thesis
    by (auto simp: reclaim_one_def Let_def intro!: mv_then mv_append mv_modify a b c)
qed

lemma mv_reclaim [gw_mv]:
  shows "gw_moves (ge_json E) s (snd (reclaim_orphaned_subagents E now timeout s))"
  using mv_reclaim_one by (auto simp: reclaim_orphaned_subagents_def intro!: mv_bind mv_each)

section \<open>Control operations\<close>

lemma mv_detach_presence: "gw_moves j s (detach_presence w c s)"
  by (simp add: detach_presence_def put_presence_def split: option.split)

lemma mv_client_ops [gw_mv]:
  "gw_moves (ge_json E) s (snd (attach_client E c s))"
  "gw_moves (ge_json E) s (snd (connect_client E i ctype w auth s))"
  "gw_moves (ge_json E) s (snd (try_detach_client E i s))"
proof -
  have "gw_moves (ge_json E) s ((put_presence w p s)\<lparr>gw_clients := m\<rparr>)" for w p m and s :: "'a WorkGateway"
    by (rule mv_frame) (simp add: frame_eq_def put_presence_def)
  then show *: "gw_moves (ge_json E) s (snd (attach_client E c s))" for c
    by (auto simp: attach_client_def intro!: mv_then mv_append split: option.split)
  have "gw_moves (ge_json E) s (snd (gw_then (attach_client E c) (gw_return c) s))" for c
    by (intro mv_then *) simp
  then show "gw_moves (ge_json E) s (snd (connect_client E i ctype w auth s))"
    unfolding connect_client_def Let_def by (split if_split, split option.split) simp
  show "gw_moves (ge_json E) s (snd (try_detach_client E i s))"
    by (auto simp: try_detach_client_def intro!: mv_then mv_append mv_modify mv_detach_presence split: option.split)
qed

lemma mv_set_health: "gw_moves j s (set_health i h s)"
  by (simp add: set_health_def split: option.split)

lemma mv_set_address_node: "gw_moves j s (set_address_node w n s)"
proof (cases "lookup (gw_works s) w")
  case (Some a)
  have "gw_prim j s (put_address w (a\<lparr>wa_node_id := n, wa_version := v\<rparr>) s)" for v
    by (rule prim_address [OF Some]) (simp add: same_scope_def)
  with Some show ?thesis by (auto simp: set_address_node_def)
qed (simp add: set_address_node_def)

lemma mv_fold: "(\<And>x s. gw_moves j s (f x s)) \<Longrightarrow> gw_moves j s (fold f xs s)"
  by (induction xs arbitrary: s) (auto intro: mv_trans)

lemma mv_node_ops [gw_mv]:
  "gw_moves (ge_json E) s (snd (register_node n s))"
  "gw_moves (ge_json E) s (snd (heartbeat_node i at_ms s))"
  "gw_moves (ge_json E) s (snd (pair_node E n s))"
  "gw_moves (ge_json E) s (snd (verify_node E i s))"
  "gw_moves (ge_json E) s (snd (bind_node E i w s))"
  "gw_moves (ge_json E) s (snd (try_unbind_node E i s))"
proof -
  show "gw_moves (ge_json E) s (snd (register_node n s))" "gw_moves (ge_json E) s (snd (heartbeat_node i at_ms s))"
    "gw_moves (ge_json E) s (snd (pair_node E n s))" "gw_moves (ge_json E) s (snd (verify_node E i s))"
    by (auto simp: register_node_def heartbeat_node_def pair_node_def verify_node_def Let_def split: option.split)
  have "gw_moves j s (set_address_node w n (set_health i h s))" for j w n h and s :: "'a WorkGateway"
    by (rule mv_trans [OF mv_set_health mv_set_address_node])
  then show "gw_moves (ge_json E) s (snd (bind_node E i w s))"
    by (auto simp: bind_node_def intro!: mv_then mv_append mv_modify split: option.split)
  have "gw_moves j s (set_health i h (fold (\<lambda>w. set_address_node w None) ids s))" for j h ids and s :: "'a WorkGateway"
    by (rule mv_trans [OF mv_fold mv_set_health]) (rule mv_set_address_node)
  then show "gw_moves (ge_json E) s (snd (try_unbind_node E i s))"
    by (auto simp: try_unbind_node_def Let_def intro!: mv_then mv_for mv_append mv_modify)
qed

lemma mv_acquire: "gw_moves j s (snd (acquire_run_authority E r i ttl s))"
proof -
  have "gw_moves j s (s\<lparr>gw_fence_counters := AList.update r (ra_fencing_token a) (gw_fence_counters s),
                        gw_authorities := AList.update r a (gw_authorities s)\<rparr>)"
    if "ra_fencing_token a = (case lookup (gw_fence_counters s) r of None \<Rightarrow> 0 | Some n \<Rightarrow> n) + 1" for a
    by (rule mv_prim) (rule prim_grant [OF that])
  from this [of "\<lparr> ra_run_id = r, ra_node_id = i,
      ra_lease_id = ''lease:'' @ r @ '':'' @ show_nat ((case lookup (gw_fence_counters s) r of None \<Rightarrow> 0 | Some n \<Rightarrow> n) + 1),
      ra_fencing_token = (case lookup (gw_fence_counters s) r of None \<Rightarrow> 0 | Some n \<Rightarrow> n) + 1,
      ra_granted_at_ms = ge_now E, ra_expires_at_ms = (if ttl = 0 then 0 else u64_add (ge_now E) ttl) \<rparr>"]
  show ?thesis by (simp add: acquire_run_authority_def Let_def)
qed

lemma mv_revoke: "gw_moves j s (s\<lparr>gw_authorities := AList.delete r (gw_authorities s)\<rparr>)"
  by (rule mv_prim) (rule prim_revoke)

lemma mv_authority_ops [gw_mv]:
  "gw_moves j s (snd (acquire_run_authority E r i ttl s))"
  "gw_moves j s (snd (release_authority E r i token s))"
  "gw_moves j s (snd (renew_lease E r i token ttl s))"
  "gw_moves j s (snd (recover_run E r i ttl s))"
  "gw_moves j s (snd (migrate_run E r i ttl s))"
proof -
  have "gw_moves j s (s\<lparr>gw_authorities := AList.update r (a\<lparr>ra_expires_at_ms := t\<rparr>) (gw_authorities s)\<rparr>)"
    if "lookup (gw_authorities s) r = Some a" for a t
    by (rule mv_prim, rule prim_extend [OF that]) simp
  then show "gw_moves j s (snd (renew_lease E r i token ttl s))"
    by (simp add: renew_lease_def Let_def split: option.split)
  show "gw_moves j s (snd (migrate_run E r i ttl s))"
    using mv_trans [OF mv_revoke mv_acquire] by (auto simp: migrate_run_def split: option.split)
qed (auto simp: release_authority_def recover_run_def mv_acquire mv_revoke split: option.split)

lemma mv_review_ops [gw_mv]:
  "gw_moves (ge_json E) s (snd (request_review E item s))"
  "gw_moves (ge_json E) s (snd (resolve_review_with E i st s))"
proof -
  have "gw_moves (ge_json E) s (add_review item s)" for s :: "'a WorkGateway"
    by (simp add: add_review_def)
  then show "gw_moves (ge_json E) s (snd (request_review E item s))"
    by (auto simp: request_review_def intro!: mv_then mv_append_with mv_alter mv_modify)
  show "gw_moves (ge_json E) s (snd (resolve_review_with E i st s))"
    by (auto simp: resolve_review_with_def intro!: mv_bind mv_then mv_append_replays mv_modify mv_mark_review split: option.split)
qed

lemma mv_misc_ops [gw_mv]:
  "gw_moves (ge_json E) s (snd (steer E instr s))"
  "gw_moves (ge_json E) s (snd (interrupt_current_step E w c reason s))"
  "gw_moves (ge_json E) s (snd (apply_steering_checkpoint E w r n s))"
  "gw_moves (ge_json E) s (snd (create_runtime_manifest E w m s))"
  "gw_moves (ge_json E) s (snd (create_attachment E a path s))"
  "gw_moves (ge_json E) s (snd (expire_attachment i s))"
  "gw_moves (ge_json E) s (set_brokered_capabilities caps s)"
  "gw_moves (ge_json E) s (snd (subscribe s))"
  by (auto simp: steer_def interrupt_current_step_def apply_steering_checkpoint_def create_runtime_manifest_def
      create_attachment_def expire_attachment_def set_brokered_capabilities_def subscribe_def Let_def
      intro!: mv_then mv_append mv_alter mv_modify split: option.split)

section \<open>Calls\<close>

text \<open>One rule per public method of the gateway that changes its state. Compatibility wrappers that
  only forward (\<open>create_work\<close>, \<open>record_effect\<close>, \<open>queue_steering\<close>, \<open>approve_review_item\<close>, \<open>unbind_node\<close>,
  \<open>detach_client\<close>, \<open>archive_work\<close>) are instances of the methods they forward to.\<close>

inductive gw_call :: "'v GwEnv \<Rightarrow> 'v WorkGateway \<Rightarrow> 'v WorkGateway \<Rightarrow> bool" for E where
  call_subscribe: "gw_call E s (snd (subscribe s))"
| call_append: "gw_call E s (snd (append_event E w ev c s))"
| call_create: "gw_call E s (snd (create_work_in_session E w project sid kind objective s))"
| call_create_child: "gw_call E s (snd (create_child_work E parent w objective project sid s))"
| call_delegate: "gw_call E s (snd (delegate_child_work E parent task objective agent worktree s))"
| call_finish: "gw_call E s (snd (finish_child_work E parent task outc reason s))"
| call_record_change_set: "gw_call E s (snd (record_file_change_set E cs s))"
| call_settle_change_set: "gw_call E s (snd (settle_file_change_set E cs reason s))"
| call_refused: "gw_call E s (snd (record_delegation_refused E parent refusal s))"
| call_open_lease: "gw_call E s (snd (open_delegation_lease E child ow scope now ttl s))"
| call_heartbeat: "gw_call E s (snd (heartbeat_subagent E child at_ms s))"
| call_reclaim: "gw_call E s (snd (reclaim_orphaned_subagents E now timeout s))"
| call_bind: "gw_call E s (snd (bind_execution_with_metadata E w x meta s))"
| call_bind_plain: "gw_call E s (snd (bind_execution E w x s))"
| call_transition: "gw_call E s (snd (record_execution_transition E w x st s))"
| call_wait: "gw_call E s (snd (record_wait E w x wait s))"
| call_pending: "gw_call E s (snd (record_pending_approval E w t tool args risk at_ms s))"
| call_pending_run: "gw_call E s (snd (record_pending_approval_for_run E w r t tool args risk at_ms s))"
| call_resolve: "gw_call E s (snd (resolve_pending_approval_for_run E w r t approved s))"
| call_approval: "gw_call E s (snd (record_approval E w t approved s))"
| call_effect: "gw_call E s (snd (record_effect_with_class E w e phase detail grant cls s))"
| call_uncertain: "gw_call E s (snd (record_uncertain_effect E w e why cls s))"
| call_reconcile: "gw_call E s (snd (reconcile_uncertain_effect E w e outcome safe s))"
| call_reconcile_all: "gw_call E s (snd (reconcile_uncertain_effects E w outcome safe s))"
| call_thought: "gw_call E s (snd (record_thought E w msg s))"
| call_touch: "gw_call E s (snd (record_file_touch E w path writer s))"
| call_test: "gw_call E s (snd (record_test E w name passed s))"
| call_handoff: "gw_call E s (snd (record_handoff E w artifact from_agent to_agent summary s))"
| call_artifact: "gw_call E s (snd (record_artifact E w i updated s))"
| call_archive: "gw_call E s (snd (try_archive_work E w s))"
| call_spawn_pty: "gw_call E s (snd (spawn_pty E w i pid rows cols s))"
| call_resize_pty: "gw_call E s (snd (resize_pty E w i rows cols s))"
| call_write_pty: "gw_call E s (snd (write_pty_output E w i chunk s))"
| call_signal_pty: "gw_call E s (snd (signal_pty E w i sig s))"
| call_pause_pty: "gw_call E s (snd (pause_pty i s))"
| call_resume_pty: "gw_call E s (snd (resume_pty i s))"
| call_close_pty: "gw_call E s (snd (close_pty E w i code s))"
| call_create_pty: "gw_call E s (snd (create_pty i rows cols s))"
| call_append_pty: "gw_call E s (snd (append_pty_output i out s))"
| call_create_worktree: "gw_call E s (snd (create_worktree E w r i repo troot base branch isolation s))"
| call_attach_worktree: "gw_call E s (snd (attach_worktree E w i r s))"
| call_merge_worktree: "gw_call E s (snd (merge_worktree E w i into s))"
| call_revert_worktree: "gw_call E s (snd (revert_worktree E w i s))"
| call_destroy_worktree: "gw_call E s (snd (destroy_worktree E w i s))"
| call_bind_worktree: "gw_call E s (snd (bind_worktree E wb s))"
| call_spawn_agent: "gw_call E s (snd (spawn_subagent E w r i agent lifetime pty worktree s))"
| call_message_agent: "gw_call E s (snd (send_subagent_message E w i to_it s))"
| call_attach_agent: "gw_call E s (snd (attach_agent_session E w i s))"
| call_detach_agent: "gw_call E s (snd (detach_agent_session E w i s))"
| call_steer_agent: "gw_call E s (snd (steer_agent_session E w i s))"
| call_checkpoint_agent: "gw_call E s (snd (checkpoint_agent_session E w i s))"
| call_terminate_agent: "gw_call E s (snd (terminate_agent_session E w i s))"
| call_create_binding: "gw_call E s (snd (create_agent_binding E b s))"
| call_transition_binding: "gw_call E s (snd (transition_agent_binding E i transition provider s))"
| call_binding_usage: "gw_call E s (snd (record_binding_usage E i usage s))"
| call_attach_client: "gw_call E s (snd (attach_client E client s))"
| call_connect_client: "gw_call E s (snd (connect_client E i ctype w auth s))"
| call_detach_client: "gw_call E s (snd (try_detach_client E i s))"
| call_register_node: "gw_call E s (snd (register_node n s))"
| call_heartbeat_node: "gw_call E s (snd (heartbeat_node i at_ms s))"
| call_pair_node: "gw_call E s (snd (pair_node E n s))"
| call_verify_node: "gw_call E s (snd (verify_node E i s))"
| call_bind_node: "gw_call E s (snd (bind_node E i w s))"
| call_unbind_node: "gw_call E s (snd (try_unbind_node E i s))"
| call_acquire: "gw_call E s (snd (acquire_run_authority E r i ttl s))"
| call_release: "gw_call E s (snd (release_authority E r i token s))"
| call_renew: "gw_call E s (snd (renew_lease E r i token ttl s))"
| call_recover: "gw_call E s (snd (recover_run E r i ttl s))"
| call_migrate: "gw_call E s (snd (migrate_run E r i ttl s))"
| call_request_review: "gw_call E s (snd (request_review E item s))"
| call_resolve_review: "gw_call E s (snd (resolve_review_with E i state s))"
| call_steer: "gw_call E s (snd (steer E instr s))"
| call_interrupt: "gw_call E s (snd (interrupt_current_step E w source why s))"
| call_steering_checkpoint: "gw_call E s (snd (apply_steering_checkpoint E w r k s))"
| call_manifest: "gw_call E s (snd (create_runtime_manifest E w m s))"
| call_attachment: "gw_call E s (snd (create_attachment E att path s))"
| call_expire: "gw_call E s (snd (expire_attachment i s))"
| call_broker: "gw_call E s (set_brokered_capabilities caps s)"

theorem call_moves:
  assumes "gw_call E s t" "json_values (ge_json E)"
  shows "gw_moves (ge_json E) s t"
  using assms by (induction rule: gw_call.induct) (rule gw_mv; assumption?)+

text \<open>A step of the running system: a call in some environment over the JSON library \<open>j\<close>.\<close>

definition gw_step :: "'v json_full \<Rightarrow> 'v WorkGateway \<Rightarrow> 'v WorkGateway \<Rightarrow> bool" where
  "gw_step j s t \<longleftrightarrow> json_values j \<and> (\<exists>E. ge_json E = j \<and> gw_call E s t)"

abbreviation gw_reaches :: "'v json_full \<Rightarrow> 'v WorkGateway \<Rightarrow> 'v WorkGateway \<Rightarrow> bool" where
  "gw_reaches j \<equiv> (gw_step j)\<^sup>*\<^sup>*"

interpretation gateway_steps: step_simulation "gw_step j" "gw_prim j" for j
  by unfold_locales (auto simp: gw_step_def dest: call_moves)

end
