(* ===== verification/Work_Laws.thy ===== *)
theory Work_Laws
  imports Work_Calls
begin

text \<open>
  Laws of the Work gateway, each proved for one primitive change and lifted to every sequence of calls
  by an interpretation of the reachability interfaces: the lifecycle of a Run, the approval gate, one
  active binding per Session, the event log, the fencing tokens and the heartbeat clock.
\<close>

section \<open>Fields of the primitive changes\<close>

lemma prim_put_simps [simp]:
  "run_state (put_run_state w r st s) x y = (if x = w \<and> y = r then Some st else run_state s x y)"
  "run_state (put_address w a s) x y = run_state s x y"
  "run_state (remove_work w s) x y = run_state s x y"
  "run_state (commit_event e s) x y = run_state s x y"
  "run_state (put_binding i b s) x y = run_state s x y"
  "run_state (beat child n s) x y = run_state s x y"
  "run_state (put_pending w t v s) x y = run_state s x y"
  "run_state (drop_pending w t s) x y = run_state s x y"
  "run_state (s\<lparr>gw_effects := m1\<rparr>) x y = run_state s x y"
  "run_state (s\<lparr>gw_journal := m2\<rparr>) x y = run_state s x y"
  "run_state (s\<lparr>gw_active_bindings := m3\<rparr>) x y = run_state s x y"
  "run_state (s\<lparr>gw_authorities := m4\<rparr>) x y = run_state s x y"
  "run_state (s\<lparr>gw_fence_counters := m5\<rparr>) x y = run_state s x y"
  by (simp_all add: run_state_def put_run_state_def put_address_def remove_work_def commit_event_def push_event_def
      put_binding_def beat_def put_pending_def drop_pending_def Let_def split: option.split)

lemma prim_pending_simps [simp]:
  "gw_pending (put_run_state w r st s) = gw_pending s"
  "gw_pending (put_address w a s) = gw_pending s"
  "gw_pending (remove_work w s) = gw_pending s"
  "gw_pending (commit_event e s) = gw_pending s"
  "gw_pending (put_binding i b s) = gw_pending s"
  "gw_pending (beat child n s) = gw_pending s"
  by (simp_all add: put_run_state_def put_address_def remove_work_def commit_event_def push_event_def
      put_binding_def beat_def Let_def)

lemma prim_binding_simps [simp]:
  "gw_agent_bindings (put_run_state w r st s) = gw_agent_bindings s"
  "gw_agent_bindings (put_address w a s) = gw_agent_bindings s"
  "gw_agent_bindings (remove_work w s) = gw_agent_bindings s"
  "gw_agent_bindings (commit_event e s) = gw_agent_bindings s"
  "gw_agent_bindings (put_pending w t v s) = gw_agent_bindings s"
  "gw_agent_bindings (ensure_pending w s) = gw_agent_bindings s"
  "gw_agent_bindings (drop_pending w t s) = gw_agent_bindings s"
  "gw_agent_bindings (beat child n s) = gw_agent_bindings s"
  "gw_agent_bindings (put_binding i b s) = AList.update i b (gw_agent_bindings s)"
  by (simp_all add: put_run_state_def put_address_def remove_work_def commit_event_def push_event_def
      put_binding_def beat_def put_pending_def ensure_pending_def drop_pending_def Let_def split: option.split)

lemma prim_event_simps [simp]:
  "events_of (put_run_state w r st s) x = events_of s x"
  "events_of (put_address w a s) x = events_of s x"
  "events_of (remove_work w s) x = events_of s x"
  "events_of (put_binding i b s) x = events_of s x"
  "events_of (put_pending w t v s) x = events_of s x"
  "events_of (ensure_pending w s) x = events_of s x"
  "events_of (drop_pending w t s) x = events_of s x"
  "events_of (beat child n s) x = events_of s x"
  "events_of (note_run_reference w r s) x = events_of s x"
  "events_of (s\<lparr>gw_effects := m1\<rparr>) x = events_of s x"
  "events_of (s\<lparr>gw_journal := m2\<rparr>) x = events_of s x"
  "events_of (s\<lparr>gw_active_bindings := m3\<rparr>) x = events_of s x"
  "events_of (s\<lparr>gw_authorities := m4\<rparr>) x = events_of s x"
  "events_of (s\<lparr>gw_fence_counters := m5\<rparr>) x = events_of s x"
  "events_of (commit_event e s) x = (if x = we_work_id e then events_of s x @ [e] else events_of s x)"
  by (simp_all add: events_of_def put_run_state_def put_address_def remove_work_def commit_event_def push_event_def
      put_binding_def beat_def put_pending_def ensure_pending_def drop_pending_def Let_def split: option.split)

lemma prim_seq_simps [simp]:
  "gw_next_seq (put_run_state w r st s) = gw_next_seq s"
  "gw_next_seq (put_address w a s) = gw_next_seq s"
  "gw_next_seq (remove_work w s) = gw_next_seq s"
  "gw_next_seq (put_binding i b s) = gw_next_seq s"
  "gw_next_seq (put_pending w t v s) = gw_next_seq s"
  "gw_next_seq (ensure_pending w s) = gw_next_seq s"
  "gw_next_seq (drop_pending w t s) = gw_next_seq s"
  "gw_next_seq (beat child n s) = gw_next_seq s"
  "gw_next_seq (commit_event e s) = we_sequence e + 1"
  by (simp_all add: put_run_state_def put_address_def remove_work_def commit_event_def push_event_def
      put_binding_def beat_def put_pending_def ensure_pending_def drop_pending_def Let_def split: option.split)

lemma prim_fence_simps [simp]:
  "gw_authorities (put_run_state w r st s) = gw_authorities s" "gw_fence_counters (put_run_state w r st s) = gw_fence_counters s"
  "gw_authorities (put_address w a s) = gw_authorities s" "gw_fence_counters (put_address w a s) = gw_fence_counters s"
  "gw_authorities (remove_work w s) = gw_authorities s" "gw_fence_counters (remove_work w s) = gw_fence_counters s"
  "gw_authorities (put_binding i b s) = gw_authorities s" "gw_fence_counters (put_binding i b s) = gw_fence_counters s"
  "gw_authorities (put_pending w t v s) = gw_authorities s" "gw_fence_counters (put_pending w t v s) = gw_fence_counters s"
  "gw_authorities (ensure_pending w s) = gw_authorities s" "gw_fence_counters (ensure_pending w s) = gw_fence_counters s"
  "gw_authorities (drop_pending w t s) = gw_authorities s" "gw_fence_counters (drop_pending w t s) = gw_fence_counters s"
  "gw_authorities (beat child n s) = gw_authorities s" "gw_fence_counters (beat child n s) = gw_fence_counters s"
  "gw_authorities (commit_event e s) = gw_authorities s" "gw_fence_counters (commit_event e s) = gw_fence_counters s"
  by (simp_all add: put_run_state_def put_address_def remove_work_def commit_event_def push_event_def
      put_binding_def beat_def put_pending_def ensure_pending_def drop_pending_def Let_def split: option.split)

lemma frame_reads:
  assumes "frame_eq s t"
  shows "run_state t w r = run_state s w r" "gw_pending t = gw_pending s" "gw_agent_bindings t = gw_agent_bindings s"
    "events_of t w = events_of s w" "gw_next_seq t = gw_next_seq s" "gw_authorities t = gw_authorities s"
    "gw_fence_counters t = gw_fence_counters s" "gw_heartbeats t = gw_heartbeats s" "gw_works t = gw_works s"
    "gw_journal t = gw_journal s"
  using assms by (simp_all add: frame_eq_def run_state_def events_of_def)

section \<open>The lifecycle of a Run\<close>

definition runs_progress :: "'v WorkGateway \<Rightarrow> 'v WorkGateway \<Rightarrow> bool" where
  "runs_progress s t \<longleftrightarrow>
     (\<forall>w r a. run_state s w r = Some a \<longrightarrow> (\<exists>b. run_state t w r = Some b \<and> work_can_transition\<^sup>*\<^sup>* a b))"

lemma runs_progress_refl: "runs_progress s s"
  by (auto simp: runs_progress_def)

lemma runs_progress_trans: "runs_progress s t \<Longrightarrow> runs_progress t u \<Longrightarrow> runs_progress s u"
  unfolding runs_progress_def by (meson rtranclp_trans)

lemma transition_refusal_None:
  "transition_refusal j s w r p st = None \<longleftrightarrow>
     work_can_transition p st \<and> (p = WsWaitingApproval \<and> st \<noteq> WsWaitingApproval \<longrightarrow> pending_approvals_for_run j s w r = []) \<and>
     (st = WsRunning \<and> p = WsRecoverable \<longrightarrow> \<not> has_unresolved_uncertain_effect s w)"
  by (auto simp: transition_refusal_def)

lemma prim_progress: "gw_prim j s t \<Longrightarrow> runs_progress s t"
proof (induction rule: gw_prim.induct)
  case (prim_run s w r st)
  then show ?case
    by (auto simp: runs_progress_def run_allowed_def transition_refusal_None split: option.splits)
qed (auto simp: runs_progress_def frame_reads)

interpretation run_lifecycle: step_order "gw_prim j" runs_progress for j
  by unfold_locales (rule runs_progress_refl, erule (1) runs_progress_trans, rule prim_progress)

lemma terminal_path: "work_can_transition\<^sup>*\<^sup>* a b \<Longrightarrow> work_is_terminal a \<Longrightarrow> b = a"
  by (induction rule: rtranclp_induct) (auto simp: work_terminal_final)

section \<open>The approval gate\<close>

definition approvals_gate :: "'v json_full \<Rightarrow> 'v WorkGateway \<Rightarrow> bool" where
  "approvals_gate j s \<longleftrightarrow>
     (\<forall>w r. pending_approvals_for_run j s w r \<noteq> [] \<longrightarrow> run_state s w r = Some WsWaitingApproval)"

lemma pending_for_run_iff:
  "pending_approvals_for_run j s w r \<noteq> [] \<longleftrightarrow> (\<exists>t v. (t, v) \<in> set (bt_inner (gw_pending s) w) \<and> get_str j v ''runId'' = Some r)"
  by (auto simp: pending_approvals_for_run_def filter_empty_conv)

lemma pending_cong: "gw_pending t = gw_pending s \<Longrightarrow> pending_approvals_for_run j t w r = pending_approvals_for_run j s w r"
  by (simp add: pending_approvals_for_run_def)

lemma pending_put:
  "pending_approvals_for_run j (put_pending w t v s) w' r \<noteq> [] \<Longrightarrow>
   pending_approvals_for_run j s w' r \<noteq> [] \<or> (w' = w \<and> get_str j v ''runId'' = Some r)"
  unfolding pending_for_run_iff put_pending_def bt_insert2_def
  using set_bt_insert [of t v "bt_inner (gw_pending s) w"] by (fastforce split: if_splits)

lemma pending_ensure: "pending_approvals_for_run j (ensure_pending w s) w' r = pending_approvals_for_run j s w' r"
  by (simp add: pending_approvals_for_run_def)

lemma set_delete_mem: "x \<in> set (bt_remove k m) \<Longrightarrow> x \<in> set m"
  by (auto simp: AList.delete_eq)

lemma pending_inner: "lookup m w = Some x \<Longrightarrow> bt_inner m w = x"
  by (simp add: bt_inner_def)

lemma pending_drop:
  "pending_approvals_for_run j (drop_pending w t s) w' r \<noteq> [] \<Longrightarrow> pending_approvals_for_run j s w' r \<noteq> []"
  unfolding pending_for_run_iff drop_pending_def
  by (auto simp: pending_inner split: option.splits if_splits dest: set_delete_mem)

lemma gate_put_run:
  assumes "approvals_gate j s" "run_allowed j s w r st"
  shows "approvals_gate j (put_run_state w r st s)"
  using assms by (fastforce simp: approvals_gate_def run_allowed_def transition_refusal_None
      pending_cong [of "put_run_state w r st s" s] split: option.splits)

lemma gate_same:
  "approvals_gate j s \<Longrightarrow> gw_pending t = gw_pending s \<Longrightarrow> (\<And>w r. run_state t w r = run_state s w r) \<Longrightarrow> approvals_gate j t"
  by (simp add: approvals_gate_def pending_approvals_for_run_def)

lemma prim_gate: "gw_prim j s t \<Longrightarrow> approvals_gate j s \<Longrightarrow> approvals_gate j t"
proof (induction rule: gw_prim.induct)
  case (prim_run s w r st)
  then show ?case by (simp add: gate_put_run)
next
  case (prim_request s w r v t)
  then show ?case using pending_put [of j w t v s] by (fastforce simp: approvals_gate_def)
next
  case (prim_ensure s w)
  then show ?case by (simp add: approvals_gate_def pending_ensure)
next
  case (prim_resolve s w t)
  then show ?case using pending_drop [of j w t s] by (auto simp: approvals_gate_def)
qed (rule gate_same; simp add: frame_reads)+

interpretation approval_gate: step_invariant "gw_prim j" "approvals_gate j" for j
  by unfold_locales (rule prim_gate)

lemma gate_new: "approvals_gate j gateway_new"
  by (simp add: approvals_gate_def gateway_new_def pending_approvals_for_run_def)

section \<open>One active binding per Session\<close>

definition bindings_ok :: "'v WorkGateway \<Rightarrow> bool" where
  "bindings_ok s \<longleftrightarrow>
     wf_map (gw_agent_bindings s) \<and>
     (\<forall>i b. lookup (gw_agent_bindings s) i = Some b \<longrightarrow> ab_binding_id b = i) \<and>
     (\<forall>i k b c. lookup (gw_agent_bindings s) i = Some b \<and> lookup (gw_agent_bindings s) k = Some c \<and>
        ab_state b = BlActive \<and> ab_state c = BlActive \<and> ab_session_id b = ab_session_id c \<longrightarrow> i = k)"

lemma no_active_sibling:
  "active_sibling s sid i = None \<Longrightarrow> lookup (gw_agent_bindings s) k = Some c \<Longrightarrow>
   ab_state c = BlActive \<Longrightarrow> ab_session_id c = sid \<Longrightarrow> ab_binding_id c = i"
  by (drule map_of_SomeD) (fastforce simp: active_sibling_def find_None_iff)

lemma bindings_same:
  "bindings_ok s \<Longrightarrow> gw_agent_bindings t = gw_agent_bindings s \<Longrightarrow> bindings_ok t"
  by (simp add: bindings_ok_def)

lemma bindings_owner: "bindings_ok s \<Longrightarrow> lookup (gw_agent_bindings s) i = Some b \<Longrightarrow> ab_binding_id b = i"
  by (simp add: bindings_ok_def)

lemma bindings_unique:
  "bindings_ok s \<Longrightarrow> lookup (gw_agent_bindings s) i = Some b \<Longrightarrow> lookup (gw_agent_bindings s) k = Some c \<Longrightarrow>
   ab_state b = BlActive \<Longrightarrow> ab_state c = BlActive \<Longrightarrow> ab_session_id b = ab_session_id c \<Longrightarrow> i = k"
  unfolding bindings_ok_def by blast

lemma bindings_put:
  assumes "bindings_ok s" "ab_binding_id c = i"
    and "\<And>k d. ab_state c = BlActive \<Longrightarrow> lookup (gw_agent_bindings s) k = Some d \<Longrightarrow> ab_state d = BlActive \<Longrightarrow>
           ab_session_id d = ab_session_id c \<Longrightarrow> k = i"
  shows "bindings_ok (put_binding i c s)"
proof -
  let ?m = "AList.update i c (gw_agent_bindings s)"
  have "k = l" if "lookup ?m k = Some x" "lookup ?m l = Some y" "ab_state x = BlActive" "ab_state y = BlActive"
      "ab_session_id x = ab_session_id y" for k l x y
  proof (cases "k = i")
    case True
    then show ?thesis using that assms(3) [of l y] by (simp split: if_splits)
  next
    case False
    note x = this
    show ?thesis
    proof (cases "l = i")
      case True
      then show ?thesis using that x assms(3) [of k x] by (simp split: if_splits)
    next
      case False
      then show ?thesis using that x bindings_unique [OF assms(1)] by simp
    qed
  qed
  moreover have "ab_binding_id x = k" if "lookup ?m k = Some x" for k x
    using that assms(1,2) by (auto simp: bindings_owner split: if_splits)
  moreover have "wf_map ?m"
    using assms(1) by (simp add: bindings_ok_def)
  ultimately show ?thesis
    unfolding bindings_ok_def prim_binding_simps by blast
qed

lemma prim_bindings: "gw_prim j s t \<Longrightarrow> bindings_ok s \<Longrightarrow> bindings_ok t"
proof (induction rule: gw_prim.induct)
  case (prim_park s b)
  then show ?case by (intro bindings_put) simp_all
next
  case (prim_activate s i b c)
  show ?case
  proof (rule bindings_put [OF prim_activate.prems])
    show "ab_binding_id c = i"
      using prim_activate bindings_owner by (auto simp: same_owner_def)
    show "k = i" if "lookup (gw_agent_bindings s) k = Some d" "ab_state d = BlActive" "ab_session_id d = ab_session_id c" for k d
      using no_active_sibling [OF prim_activate(3) that(1,2)] that prim_activate(2)
        bindings_owner [OF prim_activate.prems that(1)] by (simp add: same_owner_def)
  qed
next
  case (prim_rebind s i b c)
  show ?case
  proof (rule bindings_put [OF prim_rebind.prems])
    show "ab_binding_id c = i"
      using prim_rebind bindings_owner by (auto simp: same_owner_def)
    show "k = i" if "ab_state c = BlActive" "lookup (gw_agent_bindings s) k = Some d" "ab_state d = BlActive"
      "ab_session_id d = ab_session_id c" for k d
      using bindings_unique [OF prim_rebind.prems that(2) prim_rebind(1) that(3)] that prim_rebind(2,3)
      by (simp add: same_owner_def)
  qed
qed (auto intro: bindings_same simp: frame_reads)

interpretation active_binding: step_invariant "gw_prim j" bindings_ok for j
  by unfold_locales (rule prim_bindings)

lemma bindings_new: "bindings_ok gateway_new"
  by (simp add: bindings_ok_def gateway_new_def)

section \<open>The event log\<close>

definition log_grows :: "'v WorkGateway \<Rightarrow> 'v WorkGateway \<Rightarrow> bool" where
  "log_grows s t \<longleftrightarrow> (\<forall>w. prefix (events_of s w) (events_of t w)) \<and> gw_next_seq s \<le> gw_next_seq t"

definition log_ok :: "'v WorkGateway \<Rightarrow> bool" where
  "log_ok s \<longleftrightarrow>
     gw_next_seq s \<le> u64_max \<and>
     (\<forall>w. sorted_wrt (\<lambda>a b. we_sequence a < we_sequence b) (events_of s w)) \<and>
     (\<forall>w. \<forall>e \<in> set (events_of s w). we_work_id e = w \<and> we_sequence e < gw_next_seq s) \<and>
     (\<forall>v w. \<forall>d \<in> set (events_of s v). \<forall>e \<in> set (events_of s w). we_sequence d = we_sequence e \<longrightarrow> d = e)"

lemma log_grows_refl: "log_grows s s"
  by (simp add: log_grows_def)

lemma log_grows_trans: "log_grows s t \<Longrightarrow> log_grows t u \<Longrightarrow> log_grows s u"
  unfolding log_grows_def by (meson order_trans prefix_order.order_trans)

lemma prim_log_grows: "gw_prim j s t \<Longrightarrow> log_grows s t"
  by (induction rule: gw_prim.induct) (auto simp: log_grows_def frame_reads)

interpretation event_log: step_order "gw_prim j" log_grows for j
  by unfold_locales (rule log_grows_refl, erule (1) log_grows_trans, rule prim_log_grows)

lemma log_commit:
  assumes "log_ok s" "we_sequence e = gw_next_seq s" "gw_next_seq s < u64_max"
  shows "log_ok (commit_event e s)"
proof -
  have new: "we_sequence d < we_sequence e" if "d \<in> set (events_of s w)" for d w
    using assms(1,2) that by (auto simp: log_ok_def)
  have "we_sequence d \<noteq> we_sequence e" if "d \<in> set (events_of s w)" for d w
    using new [OF that] by simp
  then show ?thesis
    using assms new unfolding log_ok_def
    by (auto simp: sorted_wrt_append less_Suc_eq dest!: new)
qed

lemma prim_log: "gw_prim j s t \<Longrightarrow> log_ok s \<Longrightarrow> log_ok t"
proof (induction rule: gw_prim.induct)
  case (prim_commit s e)
  then show ?case by (simp add: log_commit)
qed (auto simp: log_ok_def frame_reads)

interpretation event_order: step_invariant "gw_prim j" log_ok for j
  by unfold_locales (rule prim_log)

lemma log_new: "log_ok gateway_new"
  by (simp add: log_ok_def gateway_new_def events_of_def)

text \<open>What a reader sees of a journal line, whatever schema version it carries; every event of the log was
  read from the file (\<open>es\<close>) or its whole record is in it.\<close>

definition line_view :: "'v WorkEventEnvelope \<Rightarrow> string \<times> nat \<times> 'v WorkEvent" where
  "line_view e = (we_work_id e, we_sequence e, we_event e)"

definition log_durable :: "'v WorkEventEnvelope list \<Rightarrow> 'v WorkGateway \<Rightarrow> bool" where
  "log_durable es s \<longleftrightarrow>
     (\<forall>file w. gw_journal s = Some file \<longrightarrow>
        line_view ` set (events_of s w) \<subseteq> line_view ` (set es \<union> {l. JtRecord l \<in> set file}))"

text \<open>The file only grows.\<close>

definition file_grows :: "'v WorkGateway \<Rightarrow> 'v WorkGateway \<Rightarrow> bool" where
  "file_grows s t \<longleftrightarrow> (\<forall>file. gw_journal s = Some file \<longrightarrow> (\<exists>file'. gw_journal t = Some file' \<and> prefix file file'))"

lemma prim_journal_simps [simp]:
  "gw_journal (put_run_state w r st s) = gw_journal s" "gw_journal (put_address w a s) = gw_journal s"
  "gw_journal (remove_work w s) = gw_journal s" "gw_journal (commit_event e s) = gw_journal s"
  "gw_journal (put_binding i b s) = gw_journal s" "gw_journal (put_pending w t v s) = gw_journal s"
  "gw_journal (ensure_pending w s) = gw_journal s" "gw_journal (drop_pending w t s) = gw_journal s"
  "gw_journal (beat child n s) = gw_journal s"
  by (simp_all add: put_run_state_def put_address_def remove_work_def commit_event_def push_event_def
      put_binding_def beat_def put_pending_def ensure_pending_def drop_pending_def Let_def split: option.split)

lemma prim_durable: "gw_prim j s t \<Longrightarrow> log_durable es s \<Longrightarrow> log_durable es t"
proof (induction rule: gw_prim.induct)
  case (prim_commit s e)
  then show ?case by (auto simp: log_durable_def)
next
  case (prim_write s ls x)
  then show ?case by (fastforce simp: log_durable_def)
qed (simp_all add: log_durable_def frame_reads)

interpretation durable_log: step_invariant "gw_prim j" "log_durable es" for j es
  by unfold_locales (rule prim_durable)

lemma prim_file_grows: "gw_prim j s t \<Longrightarrow> file_grows s t"
  by (induction rule: gw_prim.induct) (auto simp: file_grows_def frame_reads)

interpretation journal_file: step_order "gw_prim j" file_grows for j
  by unfold_locales (fastforce simp: file_grows_def intro: prefix_order.trans prim_file_grows)+

section \<open>The Work table\<close>

text \<open>The representation: keys in order, each address stored under its own id.\<close>

definition works_ok :: "'v WorkGateway \<Rightarrow> bool" where
  "works_ok s \<longleftrightarrow> bt_sorted (gw_works s) \<and> (\<forall>w a. lookup (gw_works s) w = Some a \<longrightarrow> wa_work_id a = w)"

lemma works_put: "works_ok s \<Longrightarrow> wa_work_id a = w \<Longrightarrow> works_ok (put_address w a s)"
  by (simp add: works_ok_def put_address_def)

lemma works_remove: "works_ok s \<Longrightarrow> works_ok (remove_work w s)"
  by (simp add: works_ok_def remove_work_def split: if_split)

lemma works_same: "works_ok s \<Longrightarrow> gw_works t = gw_works s \<Longrightarrow> works_ok t"
  by (simp add: works_ok_def)

lemma works_note: "works_ok s \<Longrightarrow> works_ok (note_run_reference w r s)"
  by (auto simp: note_run_reference_def Let_def works_ok_def put_address_def split: option.split)

lemma prim_works_simps [simp]:
  "gw_works (put_run_state w r st s) = gw_works s" "gw_works (commit_event e s) = gw_works s"
  "gw_works (put_binding i b s) = gw_works s" "gw_works (put_pending w t v s) = gw_works s"
  "gw_works (ensure_pending w s) = gw_works s" "gw_works (drop_pending w t s) = gw_works s"
  "gw_works (beat child n s) = gw_works s"
  by (simp_all add: put_run_state_def commit_event_def push_event_def put_binding_def beat_def put_pending_def
      ensure_pending_def drop_pending_def Let_def split: option.split)

lemma prim_works: "gw_prim j s t \<Longrightarrow> works_ok s \<Longrightarrow> works_ok t"
proof (induction rule: gw_prim.induct)
  case (prim_address s w a b)
  then have "wa_work_id b = w" by (simp add: works_ok_def same_scope_def)
  with prim_address.prems show ?case by (rule works_put)
next
  case (prim_frame s t)
  then show ?case by (simp add: works_ok_def frame_reads)
qed (auto intro: works_put works_remove works_note works_same)

interpretation work_table: step_invariant "gw_prim j" works_ok for j
  by unfold_locales (rule prim_works)

lemma works_new: "works_ok gateway_new"
  by (simp add: works_ok_def gateway_new_def)

section \<open>Fencing tokens\<close>

definition fence_counter :: "'v WorkGateway \<Rightarrow> string \<Rightarrow> nat" where
  "fence_counter s r = (case lookup (gw_fence_counters s) r of None \<Rightarrow> 0 | Some n \<Rightarrow> n)"

definition fences_ok :: "'v WorkGateway \<Rightarrow> bool" where
  "fences_ok s \<longleftrightarrow> (\<forall>r a. lookup (gw_authorities s) r = Some a \<longrightarrow> ra_fencing_token a \<le> fence_counter s r)"

definition token_dead :: "string \<Rightarrow> nat \<Rightarrow> 'v WorkGateway \<Rightarrow> bool" where
  "token_dead r k s \<longleftrightarrow>
     k \<le> fence_counter s r \<and> (\<forall>a. lookup (gw_authorities s) r = Some a \<longrightarrow> ra_fencing_token a \<noteq> k)"

lemma prim_fencing: "gw_prim j s t \<Longrightarrow> fences_ok s \<Longrightarrow> fences_ok t"
proof (induction rule: gw_prim.induct)
  case (prim_extend s r a b)
  then show ?case by (fastforce simp: fences_ok_def fence_counter_def)
qed (auto simp: fences_ok_def fence_counter_def frame_reads)

lemma prim_token_dead: "gw_prim j s t \<Longrightarrow> token_dead r k s \<Longrightarrow> token_dead r k t"
proof (induction rule: gw_prim.induct)
  case (prim_extend s r a b)
  then show ?case by (fastforce simp: token_dead_def fence_counter_def)
qed (auto simp: token_dead_def fence_counter_def frame_reads split: option.splits)

interpretation fences: step_invariant "gw_prim j" fences_ok for j
  by unfold_locales (rule prim_fencing)

interpretation dead_tokens: step_invariant "gw_prim j" "token_dead r k" for j r k
  by unfold_locales (rule prim_token_dead)

lemma fences_new: "fences_ok gateway_new"
  by (simp add: fences_ok_def gateway_new_def)

section \<open>Heartbeats\<close>

definition last_beat :: "'v WorkGateway \<Rightarrow> string \<Rightarrow> nat" where
  "last_beat s child = (case lookup (gw_heartbeats s) child of None \<Rightarrow> 0 | Some t \<Rightarrow> t)"

definition beats_grow :: "'v WorkGateway \<Rightarrow> 'v WorkGateway \<Rightarrow> bool" where
  "beats_grow s t \<longleftrightarrow> (\<forall>c. last_beat s c \<le> last_beat t c)"

lemma beat_simps [simp]:
  "gw_heartbeats (put_run_state w r st s) = gw_heartbeats s" "gw_heartbeats (put_address w a s) = gw_heartbeats s"
  "gw_heartbeats (remove_work w s) = gw_heartbeats s" "gw_heartbeats (commit_event e s) = gw_heartbeats s"
  "gw_heartbeats (put_binding i b s) = gw_heartbeats s" "gw_heartbeats (put_pending w t v s) = gw_heartbeats s"
  "gw_heartbeats (ensure_pending w s) = gw_heartbeats s" "gw_heartbeats (drop_pending w t s) = gw_heartbeats s"
  "gw_heartbeats (beat child n s) = bt_insert child (max (last_beat s child) n) (gw_heartbeats s)"
  by (simp_all add: put_run_state_def put_address_def remove_work_def commit_event_def push_event_def last_beat_def max_def
      put_binding_def beat_def put_pending_def ensure_pending_def drop_pending_def Let_def split: option.split)

lemma beats_grow_refl: "beats_grow s s"
  by (simp add: beats_grow_def)

lemma beats_grow_trans: "beats_grow s t \<Longrightarrow> beats_grow t u \<Longrightarrow> beats_grow s u"
  unfolding beats_grow_def by (meson order_trans)

lemma prim_beats: "gw_prim j s t \<Longrightarrow> beats_grow s t"
  by (induction rule: gw_prim.induct) (auto simp: beats_grow_def last_beat_def frame_reads split: option.splits)

interpretation heartbeats: step_order "gw_prim j" beats_grow for j
  by unfold_locales (rule beats_grow_refl, erule (1) beats_grow_trans, rule prim_beats)

end
