(* ===== verification/Work_Opening.thy ===== *)
theory Work_Opening
  imports Work_Laws
begin

text \<open>
  What opening a journal establishes. Replaying events never touches the event log, the sequence
  counter, the journal file or the run authorities, and keeps the tables in shape (\<open>replays\<close>); the
  loading loop numbers the log; the graph check gives the approval gate and the binding rule. So a
  gateway just opened satisfies the laws that the calls keep.
\<close>

section \<open>What replaying an event leaves alone\<close>

definition tables_ok :: "'v WorkGateway \<Rightarrow> bool" where
  "tables_ok s \<longleftrightarrow>
     bt_sorted (gw_works s) \<and> wf_map (gw_agent_bindings s) \<and>
     (\<forall>i b. lookup (gw_agent_bindings s) i = Some b \<longrightarrow> ab_binding_id b = i)"

definition replays :: "'v WorkGateway \<Rightarrow> 'v WorkGateway \<Rightarrow> bool" where
  "replays s t \<longleftrightarrow>
     gw_events t = gw_events s \<and> gw_next_seq t = gw_next_seq s \<and> gw_journal t = gw_journal s \<and>
     gw_authorities t = gw_authorities s \<and> gw_fence_counters t = gw_fence_counters s \<and>
     (tables_ok s \<longrightarrow> tables_ok t)"

lemma replays_refl [simp]: "replays s s"
  by (simp add: replays_def)

lemma replays_trans: "replays s t \<Longrightarrow> replays t u \<Longrightarrow> replays s u"
  by (simp add: replays_def)

lemma replays_bind:
  assumes "replays s (snd (m s))" and "\<And>x s'. m s = (Inr x, s') \<Longrightarrow> replays s' (snd (f x s'))"
  shows "replays s (snd (gw_bind m f s))"
  using assms by (cases "m s"; cases "fst (m s)") (auto intro: replays_trans)

lemma replays_then:
  assumes "replays s (snd (m s))" and "\<And>x s'. m s = (Inr x, s') \<Longrightarrow> replays s' (snd (n s'))"
  shows "replays s (snd (gw_then m n s))"
  unfolding gw_then_def using assms by (rule replays_bind)

lemma replays_other:
  "gw_events t = gw_events s \<Longrightarrow> gw_next_seq t = gw_next_seq s \<Longrightarrow> gw_journal t = gw_journal s \<Longrightarrow>
   gw_authorities t = gw_authorities s \<Longrightarrow> gw_fence_counters t = gw_fence_counters s \<Longrightarrow>
   gw_works t = gw_works s \<Longrightarrow> gw_agent_bindings t = gw_agent_bindings s \<Longrightarrow> replays s t"
  by (simp add: replays_def tables_ok_def)

lemma replays_address: "replays s (put_address w a s)"
  by (simp add: replays_def tables_ok_def put_address_def)

lemma replays_remove: "replays s (remove_work w s)"
  by (auto simp: replays_def tables_ok_def remove_work_def)

lemma replays_note: "replays s (note_run_reference w r s)"
  by (auto simp: replays_def tables_ok_def note_run_reference_def put_address_def Let_def split: option.split)

lemma replays_binding: "ab_binding_id b = i \<Longrightarrow> replays s (put_binding i b s)"
  by (simp add: replays_def tables_ok_def put_binding_def)

lemma replays_binding_same:
  "lookup (gw_agent_bindings s) i = Some b \<Longrightarrow> ab_binding_id c = ab_binding_id b \<Longrightarrow> replays s (put_binding i c s)"
  by (simp add: replays_def tables_ok_def put_binding_def)

lemma replays_puts:
  "replays s (put_run_state w r st s)" "replays s (put_presence w p s)" "replays s (put_metadata w r m s)"
  "replays s (project_presence w r st wait s)" "replays s (put_effect w e x s)" "replays s (ensure_effects w s)"
  "replays s (put_pending w t v s)" "replays s (ensure_pending w s)" "replays s (drop_pending w t s)"
  "replays s (mark_review t state s)" "replays s (put_change_set c s)" "replays s (count_refusal w refusal s)"
  "replays s (beat child n s)" "replays s (s\<lparr>gw_reclaims := m1\<rparr>)" "replays s (s\<lparr>gw_leases := m2\<rparr>)"
  "replays s (s\<lparr>gw_active_bindings := m3\<rparr>)"
  by (rule replays_other; simp add: put_run_state_def put_presence_def put_metadata_def project_presence_def put_effect_def
      ensure_effects_def put_pending_def ensure_pending_def drop_pending_def mark_review_def put_change_set_def
      count_refusal_def beat_def Let_def split: option.split)+

lemma replays_set_run_state: "replays s (snd (set_run_state j w r st wait s))"
proof -
  let ?s = "note_run_reference w r s"
  have "replays s (project_presence w r st wait (put_run_state w r st ?s))"
    by (rule replays_trans [OF replays_note replays_trans [OF replays_puts(1) replays_puts(4)]])
  then show ?thesis
    using replays_note [of s w r] by (auto simp: set_run_state_def Let_def split: option.split)
qed

lemma replays_run: "replays s (snd (replay_run E w r st wait s))"
  unfolding replay_run_def by (rule replays_trans [OF replays_note replays_set_run_state])

lemma replays_checkpointed: "replays s (snd (replay_checkpointed E w r n s))"
  unfolding replay_checkpointed_def by (intro replays_then replays_run) (simp add: Let_def replays_puts)

lemma replays_created: "replays s (snd (replay_created E w c s))"
proof -
  have 1: "replays s (put_presence w p (put_address w a s))" for p a
    by (rule replays_trans [OF replays_address replays_puts(2)])
  have 2: "replays s (note_run_reference w r (put_presence w p (put_address w a s)))" for p a r
    by (rule replays_trans [OF 1 replays_note])
  have 3: "replays s (put_metadata w r m (note_run_reference w r (put_presence w p (put_address w a s))))" for p a r m
    by (rule replays_trans [OF 2 replays_puts(3)])
  show ?thesis
    unfolding replay_created_def Let_def by (simp add: 1 2 3 split: sum.split option.split)
qed

lemma replays_work_update: "replays s (snd (apply_work_update j w patch s))"
proof -
  have 1: "replays s (snd (update_execution j w patch a s))" for a s
    by (simp add: update_execution_def replays_note split: option.split)
  have 2: "replays s (snd (update_run j w patch s))" for s
    by (auto simp: update_run_def Let_def replays_note intro: replays_trans [OF replays_note replays_puts(3)]
        split: option.split prod.split)
  have 3: "replays s (store_update j w patch a s)" for a s
    by (simp add: store_update_def replays_remove replays_address)
  show ?thesis
    by (auto simp: apply_work_update_def intro!: replays_bind replays_then 1 2 3 split: option.split)
qed

lemma replays_effects:
  "replays s (apply_effect_attempt w e g c sq s)"
  "replays s (snd (apply_effect_observed w e outc sq s))"
  "replays s (snd (apply_effect_verified w e ok sq s))"
  "replays s (snd (apply_effect_uncertain w e rs c sq s))"
  "replays s (snd (apply_effect_reconciled w e outc safe sq s))"
  using replays_trans [OF replays_puts(6) replays_puts(5)]
  by (auto simp: apply_effect_attempt_def apply_effect_observed_def apply_effect_verified_def
      apply_effect_uncertain_def apply_effect_reconciled_def Let_def replays_puts split: option.split)

lemma replays_approvals:
  "replays s (snd (replay_approval_requested j w t run tool args risk at_ms s))"
  "replays s (snd (replay_approval_resolved j w t run ok s))"
  using replays_trans [OF replays_puts(8) replays_puts(7)] replays_trans [OF replays_puts(9) replays_puts(10)]
  by (auto simp: replay_approval_requested_def replay_approval_resolved_def Let_def replays_puts
      split: sum.split option.split)

lemma replays_project: "replays s (snd (project_p69g2_event E w sq ev rec s))"
proof -
  have "replays s (snd (apply_lease_fact E sq f rec s))" for f s
    by (auto simp: apply_lease_fact_def replays_puts split: prod.split sum.split)
  then show ?thesis
    unfolding project_p69g2_event_def
    by (intro replays_then) (auto simp: replays_puts split: WorkEvent.split DomainEvent.split)
qed

lemma replays_set_address_binding: "replays s (set_address_binding w b s)"
  by (simp add: set_address_binding_def replays_address split: option.split)

lemma owned_binding_Inr: "owned_binding s w i = Inr b \<Longrightarrow> lookup (gw_agent_bindings s) i = Some b \<and> ab_work_id b = w"
  by (auto simp: owned_binding_def split: option.splits if_splits)

lemma replays_pointer:
  assumes "owned_binding s w i = Inr b" "ab_binding_id c = ab_binding_id b"
  shows "replays s (set_address_binding w x ((put_binding i c s)\<lparr>gw_active_bindings := m\<rparr>))"
    and "replays s (put_binding i c s)"
proof -
  show put: "replays s (put_binding i c s)"
    using owned_binding_Inr [OF assms(1)] assms(2) by (auto intro: replays_binding_same)
  show "replays s (set_address_binding w x ((put_binding i c s)\<lparr>gw_active_bindings := m\<rparr>))"
    by (rule replays_trans [OF put replays_trans [OF replays_puts(16) replays_set_address_binding]])
qed

lemma replays_bindings:
  "replays s (snd (replay_binding_created w sq b s))"
  "replays s (snd (replay_binding_active w sq i sid s))"
  "replays s (snd (replay_binding_suspended w sq i s))"
  "replays s (snd (replay_binding_usage w sq i u s))"
  by (auto simp: replay_binding_created_def replay_binding_active_def replay_binding_suspended_def
      replay_binding_usage_def Let_def intro: replays_binding replays_pointer split: sum.split)

lemma replays_domain: "replays s (snd (replay_domain E w sq d s))"
proof -
  have "replays s (replay_review_requested w i s)" for i
    by (rule replays_other) (simp_all add: replay_review_requested_def)
  then show ?thesis
    by (cases d) (auto simp: replay_domain_def Let_def replays_created replays_work_update replays_run replays_checkpointed
        replays_approvals replays_effects replays_project split: option.split)
qed

lemma replays_event: "replays s (snd (replay_event E e s))"
proof -
  have "replays s (attach_presence w c s)" "replays s (detach_presence w c s)" for w c
    by (simp_all add: attach_presence_def detach_presence_def Let_def replays_puts split: option.split)
  then show ?thesis
    by (simp add: replay_event_def Let_def replays_domain replays_bindings
        split: WorkEvent.split OperationalEvent.split RuntimeEvent.split)
qed

section \<open>The loading loop\<close>

text \<open>The counter follows the last sequence loaded, and the log holds the lines loaded so far.\<close>

definition loading_ok :: "nat option \<Rightarrow> 'v WorkGateway \<Rightarrow> bool" where
  "loading_ok seen s \<longleftrightarrow>
     log_ok s \<and> tables_ok s \<and> fences_ok s \<and>
     gw_next_seq s = (case seen of None \<Rightarrow> 0 | Some n \<Rightarrow> Suc n)"

lemma events_of_replays: "replays s t \<Longrightarrow> events_of t w = events_of s w"
  by (simp add: replays_def events_of_def)

lemma log_ok_same: "log_ok s \<Longrightarrow> gw_events t = gw_events s \<Longrightarrow> gw_next_seq t = gw_next_seq s \<Longrightarrow> log_ok t"
  by (simp add: log_ok_def events_of_def)

lemma fences_ok_same:
  "fences_ok s \<Longrightarrow> gw_authorities t = gw_authorities s \<Longrightarrow> gw_fence_counters t = gw_fence_counters s \<Longrightarrow> fences_ok t"
  by (simp add: fences_ok_def fence_counter_def)

lemma loading_replays:
  assumes "replays s t" "loading_ok seen s"
  shows "loading_ok seen t"
  using assms log_ok_same [of s t] fences_ok_same [of s t] by (auto simp: loading_ok_def replays_def)

text \<open>A line accepted by the loop has the next number or a later one.\<close>

lemma log_push:
  assumes "log_ok s" "gw_next_seq s \<le> we_sequence e" "we_sequence e < u64_max"
  shows "log_ok (push_event e (s\<lparr>gw_next_seq := we_sequence e + 1\<rparr>))"
proof -
  let ?s = "s\<lparr>gw_next_seq := we_sequence e\<rparr>"
  have "log_ok ?s"
    using assms unfolding log_ok_def events_of_def by (auto intro: less_le_trans)
  then have "log_ok (commit_event e ?s)"
    using assms(3) by (intro log_commit) simp_all
  then show ?thesis
    by (simp add: commit_event_def)
qed

lemma open_step_ok:
  assumes "open_step E e seen s = (Inr seen', t)" "loading_ok seen s"
  shows "loading_ok seen' t" "seen' = Some (we_sequence e)"
    "\<exists>e'. we_sequence e' = we_sequence e \<and> we_work_id e' = we_work_id e \<and> we_event e' = we_event e \<and>
       (\<forall>w. events_of t w = events_of s w @ (if w = we_work_id e then [e'] else []))"
proof -
  let ?e = "if we_schema_version e = 0 then e\<lparr>we_schema_version := CANONICAL_SCHEMA_VERSION\<rparr> else e"
  have e: "we_sequence ?e = we_sequence e" "we_work_id ?e = we_work_id e" "we_event ?e = we_event e" by simp_all
  have next_le: "gw_next_seq s \<le> we_sequence e"
    using assms by (auto simp: open_step_def loading_ok_def Let_def split: if_splits option.splits bool.splits)
  let ?s = "push_event ?e (s\<lparr>gw_next_seq := we_sequence e + 1\<rparr>)"
  have parts: "we_sequence e < u64_max" "replay_event E ?e ?s = (Inr (), t)" "seen' = Some (we_sequence e)"
    using assms(1) next_le
    by (auto simp: open_step_def Let_def split: if_splits option.splits bool.splits sum.splits prod.splits)
  then show "seen' = Some (we_sequence e)" by simp
  have step: "replays ?s t"
    using replays_event [of ?s E ?e] parts(2) by simp
  have "loading_ok (Some (we_sequence e)) ?s"
    using assms(2) log_push [of s ?e] next_le parts(1)
    by (auto simp: loading_ok_def e push_event_def tables_ok_def fences_ok_def fence_counter_def)
  with step parts(3) show "loading_ok seen' t" by (simp add: loading_replays)
  have "events_of ?s w = events_of s w @ (if w = we_work_id e then [?e] else [])" for w
    by (simp add: push_event_def events_of_def e)
  with step e show "\<exists>e'. we_sequence e' = we_sequence e \<and> we_work_id e' = we_work_id e \<and> we_event e' = we_event e \<and>
       (\<forall>w. events_of t w = events_of s w @ (if w = we_work_id e then [e'] else []))"
    by (intro exI [of _ ?e]) (simp add: events_of_replays)
qed

section \<open>The records of a file\<close>

text \<open>The records that the lines of a file decode to, when all of them do, and the loading loop over them.\<close>

fun line_records :: "'v GwEnv \<Rightarrow> 'v JournalText list list \<Rightarrow> 'v WorkEventEnvelope list option" where
  "line_records E [] = Some []"
| "line_records E (l # ls) =
     (if blank_line E l then line_records E ls
      else case read_line E l of Inl _ \<Rightarrow> None | Inr e \<Rightarrow> map_option ((#) e) (line_records E ls))"

definition journal_records :: "'v GwEnv \<Rightarrow> 'v JournalText list \<Rightarrow> 'v WorkEventEnvelope list option" where
  "journal_records E file = line_records E (journal_lines file)"

fun open_loop :: "'v GwEnv \<Rightarrow> 'v WorkEventEnvelope list \<Rightarrow> nat option \<Rightarrow> 'v WorkGateway \<Rightarrow> string + 'v WorkGateway" where
  "open_loop E [] seen s = Inr s"
| "open_loop E (e # es) seen s =
     (case open_step E e seen s of
        (Inl err, _) \<Rightarrow> Inl err
      | (Inr seen', s') \<Rightarrow> open_loop E es seen' s')"

lemma open_lines_records: "line_records E ls = Some es \<Longrightarrow> open_lines E ls seen s = open_loop E es seen s"
  by (induction ls arbitrary: es seen s) (auto split: if_splits sum.splits prod.splits)

lemma open_lines_decode: "open_lines E ls seen s = Inr t \<Longrightarrow> line_records E ls \<noteq> None"
  by (induction ls arbitrary: seen s) (auto split: if_splits sum.splits prod.splits)

text \<open>A file whose last line is complete.\<close>

definition terminated :: "'v JournalText list \<Rightarrow> bool" where
  "terminated file \<longleftrightarrow> file = [] \<or> (\<forall>x. last file \<noteq> JtText x)"

lemma journal_lines_Nil [simp]: "journal_lines fs = [] \<longleftrightarrow> fs = []"
  by (cases fs rule: journal_lines.cases) (auto split: list.split)

lemma journal_lines_append: "terminated a \<Longrightarrow> journal_lines (a @ b) = journal_lines a @ journal_lines b"
proof (induction a rule: journal_lines.induct)
  case (4 x ts)
  then have "ts \<noteq> []" "terminated ts" by (auto simp: terminated_def split: if_splits)
  with 4 show ?case by (auto split: list.split)
qed (auto simp: terminated_def split: if_splits)

lemma line_records_append:
  "line_records E (ls @ ms) =
     (case line_records E ls of None \<Rightarrow> None | Some es \<Rightarrow> map_option ((@) es) (line_records E ms))"
proof (induction ls)
  case Nil
  show ?case by (cases "line_records E ms") simp_all
next
  case (Cons l ls)
  show ?case using Cons.IH
    by (cases "read_line E l"; cases "line_records E ls"; cases "line_records E ms") simp_all
qed

lemma record_line [simp]: "\<not> blank_line E [JtRecord e]" "read_line E [JtRecord e] = Inr e"
  by (simp_all add: blank_line_def read_line_def)

lemma records_append:
  assumes "terminated file" "journal_records E file = Some es"
  shows "journal_records E (file @ [JtRecord e]) = Some (es @ [e])"
  using assms by (simp add: journal_records_def journal_lines_append line_records_append)

lemma terminated_record [simp]: "terminated (file @ [JtRecord e])"
  by (simp add: terminated_def)

text \<open>A record that was written after a complete line has a line of its own.\<close>

lemma record_own_line:
  assumes "terminated pre"
  shows "[JtRecord e] \<in> set (journal_lines (pre @ JtRecord e # post))"
  by (simp add: journal_lines_append [OF assms])

section \<open>What opening gives\<close>

lemma open_step_journal:
  assumes "open_step E e seen s = (Inr seen', t)"
  shows "gw_journal t = gw_journal s"
proof -
  obtain e' s1 where "replay_event E e' (push_event e' s1) = (Inr (), t)" "gw_journal s1 = gw_journal s"
    using assms by (fastforce simp: open_step_def Let_def split: if_splits option.splits bool.splits sum.splits prod.splits)
  with replays_event [of "push_event e' s1" E e'] show ?thesis by (simp add: replays_def push_event_def)
qed

lemma open_loop_journal: "open_loop E ls seen s = Inr t \<Longrightarrow> gw_journal t = gw_journal s"
  by (induction ls arbitrary: seen s) (auto split: prod.splits sum.splits dest: open_step_journal)

lemma open_loop_ok:
  "open_loop E ls seen s = Inr t \<Longrightarrow> loading_ok seen s \<Longrightarrow> \<exists>seen'. loading_ok seen' t"
  by (induction ls arbitrary: seen s) (auto split: prod.splits sum.splits dest: open_step_ok(1))

text \<open>What the log of a Work shows of the journal: the events of its lines, in order.\<close>

lemma open_loop_log:
  "open_loop E ls seen s = Inr t \<Longrightarrow> loading_ok seen s \<Longrightarrow>
   map line_view (events_of t w) = map line_view (events_of s w) @ map line_view (filter (\<lambda>e. we_work_id e = w) ls)"
proof (induction ls arbitrary: seen s)
  case (Cons e es)
  obtain seen' s' where st: "open_step E e seen s = (Inr seen', s')" and rest: "open_loop E es seen' s' = Inr t"
    using Cons.prems(1) by (auto split: prod.splits sum.splits)
  obtain e' where e': "we_sequence e' = we_sequence e" "we_work_id e' = we_work_id e" "we_event e' = we_event e"
    and ev: "events_of s' w = events_of s w @ (if w = we_work_id e then [e'] else [])"
    using open_step_ok(3) [OF st Cons.prems(2)] by metis
  show ?case
    using Cons.IH [OF rest open_step_ok(1) [OF st Cons.prems(2)]] e' by (simp add: ev line_view_def)
qed simp

section \<open>What the graph check gives\<close>

lemma graph_ok_parts:
  assumes "graph_error j s = None"
  shows "\<And>w a. (w, a) \<in> set (gw_works s) \<Longrightarrow> work_error s (w, a) = None"
    and "\<And>b. b \<in> snd ` set (gw_agent_bindings s) \<Longrightarrow> session_error s b = None"
    and "\<And>w p. (w, p) \<in> set (gw_pending s) \<Longrightarrow> pending_map_error j s (w, p) = None"
  using assms by (auto simp: graph_error_def first_error_None split: option.splits)

lemma graph_gate:
  assumes "graph_error j s = None"
  shows "approvals_gate j s"
  unfolding approvals_gate_def
proof (intro allI impI)
  fix w r
  assume "pending_approvals_for_run j s w r \<noteq> []"
  then obtain t v where tv: "(t, v) \<in> set (bt_inner (gw_pending s) w)" "get_str j v ''runId'' = Some r"
    by (auto simp: pending_for_run_iff)
  then obtain p where p: "lookup (gw_pending s) w = Some p" "(t, v) \<in> set p"
    by (cases "lookup (gw_pending s) w") (auto simp: bt_inner_def)
  have "pending_map_error j s (w, p) = None"
    using graph_ok_parts(3) [OF assms map_of_SomeD [OF p(1)]] .
  then have "pending_error j s w (t, v) = None"
    using p(2) by (auto simp: pending_map_error_def first_error_None split: if_splits)
  with tv(2) show "run_state s w r = Some WsWaitingApproval"
    by (auto simp: pending_error_def split: option.splits if_splits bool.splits)
qed

lemma two_in_filter:
  "distinct (map fst m) \<Longrightarrow> (i, b) \<in> set m \<Longrightarrow> (k, c) \<in> set m \<Longrightarrow> i \<noteq> k \<Longrightarrow> P b \<Longrightarrow> P c \<Longrightarrow>
   1 < length (filter P (map snd m))"
proof (induction m)
  case (Cons x m)
  have "filter (P \<circ> snd) m \<noteq> []" if "(l, d) \<in> set m" "P d" for l d
    using that by (force simp: filter_empty_conv)
  with Cons show ?case by (auto simp: filter_map)
qed simp

lemma graph_bindings:
  assumes "graph_error j s = None" "tables_ok s"
  shows "bindings_ok s"
  unfolding bindings_ok_def
proof (intro conjI allI impI)
  show "wf_map (gw_agent_bindings s)"
    using assms(2) by (simp add: tables_ok_def)
  show "ab_binding_id b = i" if "lookup (gw_agent_bindings s) i = Some b" for i b
    using assms(2) that by (simp add: tables_ok_def)
next
  fix i k b c
  assume h: "lookup (gw_agent_bindings s) i = Some b \<and> lookup (gw_agent_bindings s) k = Some c \<and>
    ab_state b = BlActive \<and> ab_state c = BlActive \<and> ab_session_id b = ab_session_id c"
  have "session_error s b = None"
    using h graph_ok_parts(2) [OF assms(1)] by (force dest: map_of_SomeD)
  then have "\<not> 1 < length (active_bindings_of s (ab_session_id b))"
    using h by (auto simp: session_error_def Let_def split: if_splits)
  moreover have "distinct (map fst (gw_agent_bindings s))"
    using assms(2) by (simp add: tables_ok_def wf_map_def)
  moreover have "(i, b) \<in> set (gw_agent_bindings s)" "(k, c) \<in> set (gw_agent_bindings s)"
    using h by (simp_all add: map_of_SomeD)
  ultimately show "i = k"
    using h two_in_filter [of "gw_agent_bindings s" i b k c "\<lambda>b'. ab_state b' = BlActive \<and> ab_session_id b' = ab_session_id b"]
    unfolding active_bindings_of_def by metis
qed

lemma graph_works:
  assumes "graph_error j s = None" "tables_ok s"
  shows "works_ok s"
proof -
  have "wa_work_id a = w" if "lookup (gw_works s) w = Some a" for w a
    using graph_ok_parts(1) [OF assms(1) map_of_SomeD [OF that]] by (auto simp: work_error_def split: if_splits)
  with assms(2) show ?thesis by (simp add: works_ok_def tables_ok_def)
qed

section \<open>Starting states\<close>

text \<open>A gateway starts empty and in memory, or from a journal that \<open>open\<close> accepts.\<close>

definition gw_start :: "'v json_full \<Rightarrow> 'v WorkGateway \<Rightarrow> bool" where
  "gw_start j s \<longleftrightarrow> s = gateway_new \<or> (\<exists>E ls. ge_json E = j \<and> open_journal E ls = Inr s)"

lemma open_journal_parts:
  assumes "open_journal E ls = Inr s"
  obtains es where "journal_records E ls = Some es"
    "open_loop E es None (gateway_new\<lparr>gw_journal := Some ls\<rparr>) = Inr s" "graph_error (ge_json E) s = None"
proof -
  from assms have parts: "open_lines E (journal_lines ls) None (gateway_new\<lparr>gw_journal := Some ls\<rparr>) = Inr s"
      "graph_error (ge_json E) s = None"
    by (auto simp: open_journal_def res_bind_Inr validate_replayed_graph_def split: option.splits)
  from open_lines_decode [OF parts(1)] obtain es where es: "journal_records E ls = Some es"
    by (auto simp: journal_records_def)
  with parts that show thesis by (simp add: journal_records_def open_lines_records)
qed

lemma loading_start: "loading_ok None (gateway_new\<lparr>gw_journal := l\<rparr>)"
  by (simp add: loading_ok_def log_ok_def tables_ok_def fences_ok_def gateway_new_def events_of_def)

lemma open_journal_ok:
  assumes "open_journal E ls = Inr s"
  shows "log_ok s" "tables_ok s" "fences_ok s" "approvals_gate (ge_json E) s" "bindings_ok s" "works_ok s"
proof -
  obtain es where parts: "open_loop E es None (gateway_new\<lparr>gw_journal := Some ls\<rparr>) = Inr s" "graph_error (ge_json E) s = None"
    by (rule open_journal_parts [OF assms])
  show a: "log_ok s" "tables_ok s" "fences_ok s"
    using open_loop_ok [OF parts(1) loading_start] by (auto simp: loading_ok_def)
  show "approvals_gate (ge_json E) s" "bindings_ok s" "works_ok s"
    using graph_gate [OF parts(2)] graph_bindings [OF parts(2) a(2)] graph_works [OF parts(2) a(2)] by simp_all
qed

lemma open_journal_log:
  assumes "open_journal E ls = Inr s"
  obtains es where "journal_records E ls = Some es"
    "\<And>w. map line_view (events_of s w) = map line_view (filter (\<lambda>e. we_work_id e = w) es)" "gw_journal s = Some ls"
proof -
  obtain es where parts: "journal_records E ls = Some es" "open_loop E es None (gateway_new\<lparr>gw_journal := Some ls\<rparr>) = Inr s"
    by (rule open_journal_parts [OF assms])
  show thesis
    using open_loop_log [OF parts(2) loading_start] open_loop_journal [OF parts(2)]
    by (intro that [OF parts(1)]) (simp_all add: events_of_def gateway_new_def)
qed

lemma open_journal_durable:
  assumes "open_journal E ls = Inr s" "journal_records E ls = Some es"
  shows "log_durable es s"
proof -
  have log: "map line_view (events_of s w) = map line_view (filter (\<lambda>e. we_work_id e = w) es)" for w
    using open_journal_log [OF assms(1)] assms(2) by (metis option.inject)
  have "line_view ` set (events_of s w) = line_view ` set (filter (\<lambda>e. we_work_id e = w) es)" for w
    by (simp only: flip: set_map) (simp only: log)
  then show ?thesis by (auto simp: log_durable_def)
qed

lemma start_ok:
  assumes "gw_start j s"
  shows "log_ok s" "fences_ok s" "approvals_gate j s" "bindings_ok s" "works_ok s"
  using assms open_journal_ok log_new fences_new gate_new bindings_new works_new
  by (auto simp: gw_start_def)

text \<open>The states a running gateway can be in.\<close>

definition gw_live :: "'v json_full \<Rightarrow> 'v WorkGateway \<Rightarrow> bool" where
  "gw_live j t \<longleftrightarrow> (\<exists>s. gw_start j s \<and> gw_reaches j s t)"

lemma live_ok:
  assumes "gw_live j t"
  shows "log_ok t" "fences_ok t" "approvals_gate j t" "bindings_ok t" "works_ok t"
proof -
  obtain s where s: "gw_start j s" "gw_moves j s t"
    using assms gateway_steps.reach_small by (auto simp: gw_live_def)
  note start = start_ok [OF s(1)]
  show "log_ok t" "fences_ok t" "approvals_gate j t" "bindings_ok t" "works_ok t"
    using event_order.reach_keeps [OF s(2)] fences.reach_keeps [OF s(2)] approval_gate.reach_keeps [OF s(2)]
      active_binding.reach_keeps [OF s(2)] work_table.reach_keeps [OF s(2)] start
    by simp_all
qed

end
