(* ===== verification/Work_Append.thy ===== *)
theory Work_Append
  imports Work_Opening
begin

text \<open>
  What an append does to the rest of the state: the refusal of an event that names a Run state, events
  that are only logged, and the outcome of entering a Run state.
\<close>

section \<open>Appending\<close>

lemma append_refusal_run:
  assumes "run_event_state ev = Some (r, st)"
  shows "append_refusal E s w ev =
    (if \<not> has_work s w then Inl ''unknown work''
     else res_bind (validate_run_transition (ge_json E) s w r st) (\<lambda>_. res_bind (validate_p69g2_event E w ev) (\<lambda>_.
       if u64_max \<le> gw_next_seq s then Inl ''work journal sequence overflow'' else Inr ())))"
  using assms by (auto simp: append_refusal_def run_event_state_def split: WorkEvent.splits DomainEvent.splits option.splits)

text \<open>An event that is only logged.\<close>

definition log_only :: "'v GwEnv \<Rightarrow> string \<Rightarrow> 'v WorkEvent \<Rightarrow> bool" where
  "log_only E w ev \<longleftrightarrow>
     validate_p69g2_event E w ev = Inr () \<and> project_update E w ev = gw_return () \<and>
     (\<forall>sq. project_p69g2_event E w sq ev False = gw_return ())"

lemma log_only_transition: "log_only E w (transition_event x st wait)"
  by (cases st) (simp_all add: log_only_def transition_event_def validate_p69g2_event_def project_update_def
      project_p69g2_event_def gw_then_def gw_bind_def gw_check_def gw_return_def Let_def)

lemma log_only_plain: "\<not> semantic ev \<Longrightarrow> log_only E w ev"
  using project_trivial [of ev E w] by (cases ev) (auto simp: log_only_def semantic_def validate_p69g2_event_def Let_def)

lemma append_refusal_plain:
  "\<not> semantic ev \<Longrightarrow> has_work s w \<Longrightarrow> gw_next_seq s < u64_max \<Longrightarrow> append_refusal E s w ev = Inr ()"
  by (cases ev) (auto simp: append_refusal_def run_event_state_def semantic_def validate_p69g2_event_def Let_def)

lemma append_log_only:
  assumes "log_only E w ev" "append_refusal E s w ev = Inr ()" "gw_journal s = None \<or> (\<forall>e. ge_io E e = IoOk)"
  shows "\<exists>e t. append_event E w ev c s = (Inr e, t) \<and> e = envelope_for E w ev c (gw_next_seq s) \<and>
    (\<forall>x y. run_state t x y = run_state s x y) \<and> gw_pending t = gw_pending s \<and> gw_effects t = gw_effects s \<and>
    gw_works t = gw_works s \<and> events_of t w = events_of s w @ [e] \<and> gw_ptys t = gw_ptys s \<and>
    gw_next_seq t = Suc (gw_next_seq s) \<and> (gw_journal t = None \<longleftrightarrow> gw_journal s = None)"
proof -
  let ?e = "envelope_for E w ev c (gw_next_seq s)"
  obtain s1 where s1: "write_journal E ?e s = (Inr (), s1)"
      "s1 = s \<or> (gw_journal s \<noteq> None \<and> (\<exists>ls. s1 = s\<lparr>gw_journal := Some ls\<rparr>))"
    using assms(3) by (cases "gw_journal s") (auto simp: write_journal_def)
  then have "append_event E w ev c s = (Inr ?e, notify_subscribers E ?e (commit_event ?e s1))"
    using assms(1,2) by (simp add: append_event_def log_only_def gw_then_def gw_bind_def Let_def)
  with s1(2) show ?thesis
    by (auto simp: notify_subscribers_def commit_event_def push_event_def run_state_def events_of_def)
qed

lemma set_run_state_result:
  "run_allowed j s w r st \<Longrightarrow> \<exists>t. set_run_state j w r st wait s = (Inr (), t) \<and> run_state t w r = Some st \<and> (\<forall>x. events_of t x = events_of s x)"
  "\<not> run_allowed j s w r st \<Longrightarrow> \<exists>err. set_run_state j w r st wait s = (Inl err, note_run_reference w r s)"
  by (auto simp: set_run_state_def run_allowed_def Let_def project_presence_def put_presence_def put_run_state_def run_state_def events_of_def
      split: option.splits)

lemma run_allowed_cong:
  "run_state t w r = run_state s w r \<Longrightarrow> gw_pending t = gw_pending s \<Longrightarrow> gw_effects t = gw_effects s \<Longrightarrow>
   run_allowed j t w r st = run_allowed j s w r st"
  by (simp add: run_allowed_def transition_refusal_def pending_approvals_for_run_def has_unresolved_uncertain_effect_def
      effect_statuses_def split: option.split)

lemma append_works_other:
  assumes "append_event E w ev c s = (Inr e, t)" "\<And>p. ev \<noteq> Domain (WorkUpdated p)"
  shows "gw_works t = gw_works s"
proof -
  obtain s1 s2 s3 where st: "write_journal E e s = (Inr (), s1)"
    "project_update E w ev (commit_event e s1) = (Inr (), s2)"
    "project_p69g2_event E w (we_sequence e) ev False s2 = (Inr (), s3)" "t = notify_subscribers E e s3"
    using append_ok_stages [OF assms(1)] .
  have "s2 = commit_event e s1"
    using st(2) assms(2) by (auto simp: project_update_def split: WorkEvent.splits DomainEvent.splits)
  moreover have "gw_works s1 = gw_works s"
    using write_journal_frame [OF st(1)] by simp
  moreover have "gw_works s3 = gw_works s2"
    using st(3) by (auto simp: project_p69g2_event_def gw_then_def gw_bind_ok put_change_set_def count_refusal_def beat_def
        apply_lease_fact_def Let_def split: WorkEvent.splits DomainEvent.splits prod.splits sum.splits)
  ultimately show ?thesis using st(4) by (simp add: notify_subscribers_def)
qed

text \<open>A transition that passes its check logs its event and then enters the state.\<close>

lemma transition_step:
  assumes "has_work s w" "execution_id s w = Some x" "gw_next_seq s < u64_max"
    and "gw_journal s = None \<or> (\<forall>e. ge_io E e = IoOk)" "st \<notin> {WsCreated, WsPlanning, WsVerifying}"
    and ok: "validate_run_transition (ge_json E) s w x st = Inr ()"
  obtains e t where "record_execution_transition E w x st s = set_run_state (ge_json E) w x st None t"
    "run_allowed (ge_json E) t w x st = run_allowed (ge_json E) s w x st"
    "events_of t w = events_of s w @ [e]" "run_event_state (we_event e) = Some (x, st)"
proof -
  let ?ev = "transition_event x st None"
  have rs: "run_event_state ?ev = Some (x, st)"
    using assms(5) by (rule transition_event_state)
  have "append_refusal E s w ?ev = Inr ()"
    using assms(1,3) ok log_only_transition [of E w x st None] by (simp add: append_refusal_run [OF rs] log_only_def)
  then obtain e t where t: "append_event E w ?ev None s = (Inr e, t)" "e = envelope_for E w ?ev None (gw_next_seq s)"
    "run_state t w x = run_state s w x" "gw_pending t = gw_pending s" "gw_effects t = gw_effects s"
    "events_of t w = events_of s w @ [e]"
    using append_log_only [OF log_only_transition _ assms(4)] by metis
  have "record_execution_transition E w x st s = set_run_state (ge_json E) w x st None t"
    using assms(2) ok t(1) by (simp add: record_execution_transition_def enter_state_def set_work_state_def gw_then_def gw_bind_def)
  moreover have "run_allowed (ge_json E) t w x st = run_allowed (ge_json E) s w x st"
    using t by (intro run_allowed_cong)
  moreover have "run_event_state (we_event e) = Some (x, st)"
    using t(2) rs by (simp add: envelope_for_def)
  ultimately show ?thesis using that t(6) by metis
qed

text \<open>What every acknowledged append does.\<close>

lemma note_subscribers [simp]: "gw_subscribers (note_run_reference w r s) = gw_subscribers s"
  by (simp add: note_run_reference_def Let_def put_address_def split: option.split)

definition bystanders :: "'v WorkGateway \<Rightarrow> 'v WorkGateway \<Rightarrow> bool" where
  "bystanders s t \<longleftrightarrow> gw_events t = gw_events s \<and> gw_next_seq t = gw_next_seq s \<and> gw_journal t = gw_journal s \<and>
     gw_subscribers t = gw_subscribers s"

lemma bystanders_update: "bystanders s (snd (apply_work_update j w patch s))"
proof -
  have e: "bystanders s t" if "update_execution j w patch a s = (r, t)" for a r s t
    using that by (auto simp: update_execution_def bystanders_def split: option.splits if_splits)
  have u: "bystanders s t" if "update_run j w patch s = (r, t)" for r s t
    using that by (auto simp: update_run_def bystanders_def put_metadata_def Let_def split: option.splits prod.splits)
  have f: "bystanders s (store_update j w patch a s)" for a s
    by (simp add: store_update_def bystanders_def remove_work_def put_address_def)
  show ?thesis
    using e u f
    by (auto simp: apply_work_update_def gw_then_def gw_bind_def bystanders_def split: option.split prod.split sum.split)
qed

lemma bystanders_project: "bystanders s (snd (project_p69g2_event E w sq ev rec s))"
  by (auto simp: project_p69g2_event_def bystanders_def gw_then_def gw_bind_def put_change_set_def count_refusal_def beat_def
      apply_lease_fact_def Let_def split: WorkEvent.split DomainEvent.split prod.split sum.split)

lemma append_effects:
  assumes "append_event E w ev c s = (Inr e, t)"
  shows "e = envelope_for E w ev c (gw_next_seq s)" "gw_next_seq t = gw_next_seq s + 1"
    "events_of t w = events_of s w @ [e]" "gw_journal t = map_option (\<lambda>ls. ls @ [JtRecord e]) (gw_journal s)"
    "(i, got) \<in> set (gw_subscribers s) \<and> ge_listens E i \<Longrightarrow> (i, got @ [e]) \<in> set (gw_subscribers t)"
proof -
  show e: "e = envelope_for E w ev c (gw_next_seq s)" by (rule append_ok(1) [OF assms])
  obtain s1 s2 s3 where st: "write_journal E e s = (Inr (), s1)" "project_update E w ev (commit_event e s1) = (Inr (), s2)"
    "project_p69g2_event E w (we_sequence e) ev False s2 = (Inr (), s3)" "t = notify_subscribers E e s3"
    using append_ok_stages [OF assms] .
  have j: "gw_journal s1 = map_option (\<lambda>ls. ls @ [JtRecord e]) (gw_journal s)" "gw_events s1 = gw_events s"
    "gw_subscribers s1 = gw_subscribers s"
    using st(1) by (auto simp: write_journal_def split: option.splits JournalIo.splits)
  have "bystanders (commit_event e s1) s2"
    using st(2) bystanders_update [of "commit_event e s1" "ge_json E" w]
    by (auto simp: project_update_def bystanders_def split: WorkEvent.splits DomainEvent.splits) (metis snd_conv)+
  moreover have "bystanders s2 s3"
    using bystanders_project [of s2 E w "we_sequence e" ev False] st(3) by simp
  ultimately have "bystanders (commit_event e s1) s3" by (simp add: bystanders_def)
  with j e st(4) show "gw_next_seq t = gw_next_seq s + 1" "events_of t w = events_of s w @ [e]"
    "gw_journal t = map_option (\<lambda>ls. ls @ [JtRecord e]) (gw_journal s)"
    "(i, got) \<in> set (gw_subscribers s) \<and> ge_listens E i \<Longrightarrow> (i, got @ [e]) \<in> set (gw_subscribers t)"
    by (auto simp: bystanders_def notify_subscribers_def commit_event_def push_event_def events_of_def image_iff
        intro!: bexI [of _ "(i, got)"])
qed

end
