(* ===== verification/Work_Graph.thy ===== *)
theory Work_Graph
  imports Work_Append
begin

text \<open>
  The parent links of the Works as a graph: the bounded walks of the gateway against the unbounded
  relation they decide, and what admitting a child does to it.
\<close>

section \<open>Following parent links\<close>

fun link_at :: "'v WorkGateway \<Rightarrow> nat \<Rightarrow> string \<Rightarrow> string option" where
  "link_at s 0 w = Some w"
| "link_at s (Suc n) w = Option.bind (parent_of s w) (link_at s n)"

text \<open>A root at distance \<open>d\<close>.\<close>

definition rooted :: "'v WorkGateway \<Rightarrow> string \<Rightarrow> nat \<Rightarrow> bool" where
  "rooted s w d \<longleftrightarrow> (\<exists>v. link_at s d w = Some v \<and> has_work s v \<and> parent_of s v = None)"

lemma link_at_add: "link_at s (m + n) w = Option.bind (link_at s m w) (link_at s n)"
  by (induction m arbitrary: w) (auto simp: bind_eq_None_conv split: bind_splits)

lemma link_at_Suc: "link_at s (Suc n) w = Option.bind (link_at s n w) (parent_of s)"
  using link_at_add [of s n 1 w] by (simp add: fun_eq_iff bind_eq_None_conv split: bind_splits)

lemma rooted_0: "rooted s w 0 \<longleftrightarrow> has_work s w \<and> parent_of s w = None"
  by (simp add: rooted_def)

lemma rooted_Suc: "rooted s w (Suc d) \<longleftrightarrow> (\<exists>p. parent_of s w = Some p \<and> rooted s p d)"
  by (auto simp: rooted_def split: bind_splits)

lemma rooted_unique: "rooted s w d \<Longrightarrow> rooted s w e \<Longrightarrow> d = e"
proof (induction d arbitrary: w e)
  case 0
  then show ?case by (cases e) (auto simp: rooted_0 rooted_Suc)
next
  case (Suc d)
  then show ?case by (cases e) (auto simp: rooted_0 rooted_Suc)
qed

lemma rooted_drop: "rooted s w (m + n) \<Longrightarrow> \<exists>v. link_at s m w = Some v \<and> rooted s v n"
  by (auto simp: rooted_def link_at_add split: bind_splits)

lemma rooted_known: "rooted s w d \<Longrightarrow> has_work s w"
  by (cases d) (auto simp: rooted_0 rooted_Suc parent_of_def has_work_def split: bind_splits)

lemma rooted_bound:
  assumes "rooted s w d"
  shows "d < length (gw_works s)"
proof -
  define f where "f i = the (link_at s i w)" for i
  have pos: "link_at s i w = Some (f i) \<and> rooted s (f i) (d - i)" if "i \<le> d" for i
    using rooted_drop [of s w i "d - i"] assms that by (auto simp: f_def)
  have "inj_on f {..d}"
  proof (rule inj_onI)
    fix i k assume "i \<in> {..d}" "k \<in> {..d}" "f i = f k"
    with pos [of i] pos [of k] rooted_unique [of s "f i" "d - i" "d - k"] show "i = k" by auto
  qed
  moreover have "f ` {..d} \<subseteq> fst ` set (gw_works s)"
    using pos rooted_known by (force simp: has_work_def dest: map_of_SomeD)
  ultimately have "card {..d} \<le> card (fst ` set (gw_works s))"
    by (intro card_inj_on_le) simp_all
  also have "\<dots> \<le> length (gw_works s)"
    by (metis card_length length_map set_map)
  finally show ?thesis by simp
qed

section \<open>The depth of a Work\<close>

lemma depth_loop_sound:
  "depth_loop s start cursor depth seen = Inr d \<Longrightarrow> depth \<le> d \<and> rooted s cursor (d - depth)"
proof (induction s start cursor depth seen rule: depth_loop.induct)
  case (1 s start cursor depth seen)
  show ?case
  proof (cases "lookup (gw_works s) cursor")
    case None
    then show ?thesis using "1.prems" by (simp add: depth_loop.simps)
  next
    case (Some a)
    show ?thesis
    proof (cases "wa_parent_work_id a")
      case None
      then show ?thesis using "1.prems" Some
        by (simp add: depth_loop.simps rooted_0 has_work_def parent_of_def)
    next
      case p: (Some p)
      with "1.prems" Some have nb: "\<not> length (gw_works s) < seen + 1" and st: "depth_loop s start p (depth + 1) (seen + 1) = Inr d"
        by (auto simp: depth_loop.simps [of s start cursor] split: if_splits)
      have "depth + 1 \<le> d \<and> rooted s p (d - (depth + 1))"
        by (rule "1.IH" [OF Some p nb st])
      moreover have "rooted s cursor (Suc (d - (depth + 1)))" if "rooted s p (d - (depth + 1))"
        using that p Some by (auto simp: rooted_Suc parent_of_def)
      ultimately show ?thesis by (simp add: Suc_diff_Suc)
    qed
  qed
qed

lemma depth_loop_complete:
  "rooted s cursor n \<Longrightarrow> seen + n \<le> length (gw_works s) \<Longrightarrow> depth_loop s start cursor depth seen = Inr (depth + n)"
proof (induction n arbitrary: cursor depth seen)
  case 0
  then show ?case
    by (auto simp: depth_loop.simps [of s start cursor] rooted_0 has_work_def parent_of_def)
next
  case (Suc n)
  obtain p where p: "parent_of s cursor = Some p" "rooted s p n"
    using Suc.prems(1) by (auto simp: rooted_Suc)
  then obtain a where a: "lookup (gw_works s) cursor = Some a" "wa_parent_work_id a = Some p"
    by (auto simp: parent_of_def split: bind_splits)
  show ?case
    using Suc.IH [OF p(2), of "seen + 1" "depth + 1"] Suc.prems(2) a
    by (simp add: depth_loop.simps [of s start cursor])
qed

lemma work_depth_iff: "work_depth s w = Inr d \<longleftrightarrow> rooted s w d"
proof
  show "work_depth s w = Inr d \<Longrightarrow> rooted s w d"
    using depth_loop_sound [of s w w 0 0 d] by (simp add: work_depth_def)
  show "rooted s w d \<Longrightarrow> work_depth s w = Inr d"
    using depth_loop_complete [of s w d 0 w 0] rooted_bound [of s w d] by (simp add: work_depth_def)
qed

section \<open>Descendants and ancestors\<close>

lemma descendant_loop_False:
  "descendant_loop s c a cursor steps = Inr False \<Longrightarrow> link_at s n cursor \<noteq> Some a"
proof (induction s c a cursor steps arbitrary: n rule: descendant_loop.induct)
  case (1 s c a cursor steps)
  then have h: "\<not> max (length (gw_works s)) 1 < steps + 1" "cursor \<noteq> a"
    by (auto simp: descendant_loop.simps [of s c a cursor] split: if_splits)
  show ?case
  proof (cases n)
    case 0
    with h show ?thesis by simp
  next
    case (Suc m)
    show ?thesis
    proof (cases "parent_of s cursor")
      case None
      with Suc show ?thesis by simp
    next
      case (Some p)
      then obtain x where x: "lookup (gw_works s) cursor = Some x" "wa_parent_work_id x = Some p"
        by (auto simp: parent_of_def split: bind_splits)
      have "descendant_loop s c a p (steps + 1) = Inr False"
        using "1.prems" h x by (auto simp: descendant_loop.simps [of s c a cursor] split: if_splits)
      from "1.IH" [OF h x this, of m] Some Suc show ?thesis by simp
    qed
  qed
qed

lemma ancestor_loop_clear:
  "ancestor_loop s c cursor chain binds = Inr (None, chain', binds') \<Longrightarrow>
   (\<exists>d. rooted s cursor d) \<and> link_at s n cursor \<noteq> Some c \<and> set binds \<subseteq> set binds' \<and>
   (\<forall>v a b. link_at s n cursor = Some v \<and> lookup (gw_works s) v = Some a \<and> wa_binding_id a = Some b \<longrightarrow> (v, b) \<in> set binds')"
proof (induction s c cursor chain binds arbitrary: n rule: ancestor_loop.induct)
  case (1 s c cursor chain binds)
  let ?stop = "DELEGATION_WALK_BOUND \<le> length chain \<or> cursor \<in> set chain"
  obtain a where h: "\<not> ?stop" "lookup (gw_works s) cursor = Some a" "cursor \<noteq> c"
    using "1.prems" by (auto simp: ancestor_loop.simps [of s c cursor] Let_def split: if_splits option.splits)
  let ?b = "case wa_binding_id a of None \<Rightarrow> binds | Some b \<Rightarrow> binds @ [(cursor, b)]"
  show ?case
  proof (cases "wa_parent_work_id a")
    case None
    then have "binds' = ?b"
      using "1.prems" h by (simp add: ancestor_loop.simps [of s c cursor] Let_def)
    moreover have "link_at s n cursor = Some v \<Longrightarrow> v = cursor" for v
      using None h(2) by (cases n) (auto simp: parent_of_def)
    moreover have "rooted s cursor 0"
      using None h(2) by (simp add: rooted_0 has_work_def parent_of_def)
    ultimately show ?thesis using h by (auto split: option.splits)
  next
    case (Some p)
    then have st: "ancestor_loop s c p (chain @ [cursor]) ?b = Inr (None, chain', binds')"
      using "1.prems" h by (simp add: ancestor_loop.simps [of s c cursor] Let_def)
    note ih = "1.IH" [OF h(1) h(2) refl refl h(3) Some st]
    obtain d where "rooted s p d" using ih by blast
    then have "rooted s cursor (Suc d)"
      using Some h(2) by (simp add: rooted_Suc parent_of_def)
    moreover have "link_at s n cursor = (if n = 0 then Some cursor else link_at s (n - 1) p)"
      using Some h(2) by (cases n) (auto simp: parent_of_def)
    ultimately show ?thesis
      using ih [of "n - 1"] h by (auto split: option.splits if_splits)
  qed
qed

lemma delegation_clear:
  assumes "delegation_cycle s parent child member = Inr None"
  shows "\<exists>d. rooted s parent d" "link_at s n parent \<noteq> Some child" "link_at s n child \<noteq> Some parent"
    "member = Some m \<Longrightarrow> m \<noteq> [] \<Longrightarrow> link_at s n parent = Some v \<Longrightarrow> v \<noteq> parent \<Longrightarrow>
     lookup (gw_works s) v = Some a \<Longrightarrow> wa_binding_id a \<noteq> Some m"
proof -
  obtain chain binds where al: "ancestor_loop s child parent [] [] = Inr (None, chain, binds)"
    using assms by (auto simp: delegation_cycle_def res_bind_Inr split: option.splits)
  note clear = ancestor_loop_clear [OF al]
  show "\<exists>d. rooted s parent d" "link_at s n parent \<noteq> Some child"
    using clear by blast+
  have ne: "child \<noteq> parent" using clear [of 0] by auto
  have mem: "(case member of None \<Rightarrow> None | Some m \<Rightarrow> if m = [] then None else List.find (\<lambda>(w, b). b = m \<and> w \<noteq> parent) binds) = None"
    using assms al by (auto simp: delegation_cycle_def split: option.splits)
  have "is_descendant_of s child parent = Inr False"
    using assms al mem ne by (auto simp: delegation_cycle_def res_bind_Inr)
  then show "link_at s n child \<noteq> Some parent"
    unfolding is_descendant_of_def by (rule descendant_loop_False)
  show "wa_binding_id a \<noteq> Some m" if "member = Some m" "m \<noteq> []" "link_at s n parent = Some v" "v \<noteq> parent"
      "lookup (gw_works s) v = Some a"
    using mem that clear [of n] by (fastforce simp: find_None_iff split: if_splits)
qed

section \<open>Adding a child\<close>

lemma length_filter_bt_insert:
  "lookup m k = None \<Longrightarrow>
   length (filter P (map snd (bt_insert k v m))) = (if P v then 1 else 0) + length (filter P (map snd m))"
  by (induction k v m rule: bt_insert.induct) (auto split: if_splits)

lemma rooted_add_child:
  assumes "rooted s parent d" "\<And>n. link_at s n parent \<noteq> Some child"
    and "wa_parent_work_id a = Some parent" "gw_works t = bt_insert child a (gw_works s)"
  shows "rooted t child (Suc d)"
proof -
  have par: "parent_of t w = (if w = child then Some parent else parent_of s w)" for w
    using assms(3,4) by (simp add: parent_of_def)
  have "rooted t w d" if "rooted s w d" "\<And>n. link_at s n w \<noteq> Some child" for w d
    using that
  proof (induction d arbitrary: w)
    case 0
    then show ?case using "0.prems"(2) [of 0] assms(4) by (auto simp: rooted_0 par has_work_def)
  next
    case (Suc d)
    then obtain p where p: "parent_of s w = Some p" "rooted s p d" by (auto simp: rooted_Suc)
    have "link_at s n p \<noteq> Some child" for n
      using Suc.prems(2) [of "Suc n"] p(1) by simp
    moreover have "w \<noteq> child" using Suc.prems(2) [of 0] by auto
    ultimately show ?case using Suc.IH [OF p(2)] p(1) by (auto simp: rooted_Suc par)
  qed
  with assms(1,2) show ?thesis by (auto simp: rooted_Suc par)
qed

text \<open>A freshly created child is the only change to the Work table.\<close>

lemma create_child_works:
  assumes "create_child_work E parent w objective project sid s = (Inr a, t)" "lookup (gw_works s) w = None"
  shows "wa_parent_work_id a = Some parent" "gw_works t = bt_insert w a (gw_works s)"
proof -
  obtain s1 e2 where reg: "register_work E objective a (Some ''subagent'') s = (Inr (), s1)"
    and hb: "append_event E w (Domain (SubagentHeartbeat w (ge_now E))) None s1 = (Inr e2, t)"
    and a: "wa_parent_work_id a = Some parent" "wa_work_id a = w"
    using assms by (auto simp: create_child_work_def gw_then_def gw_bind_ok Let_def address_new_def split: option.splits)
  show "wa_parent_work_id a = Some parent" by (rule a(1))
  obtain e1 where "append_event E w (creation_event objective a (Some ''subagent'')) None
      (put_presence w (fresh_presence w) (put_address w a s)) = (Inr e1, s1)"
    using reg a(2) by (auto simp: register_work_def Let_def split: prod.splits sum.splits)
  from append_works_other [OF this] have "gw_works s1 = bt_insert w a (gw_works s)"
    by (simp add: creation_event_def put_presence_def put_address_def)
  with append_works_other [OF hb] show "gw_works t = bt_insert w a (gw_works s)" by simp
qed

end
