(* ===== verification/Work_Properties.thy ===== *)
theory Work_Properties
  imports Work_Graph Work_Append "HOL-Library.Code_Target_Nat"
begin

text \<open>
  The properties of the Work gateway, each with a concrete run that meets its hypotheses.
\<close>

section \<open>Concrete runs\<close>

definition wit_gw_env :: "work_json GwEnv" where
  "wit_gw_env =
     \<lparr> ge_json = wj_api, ge_fact_ser = (\<lambda>_. ''fact''), ge_cs_ser = (\<lambda>_. ''set''), ge_mdigest = (\<lambda>m. rm_work_id m),
       ge_now = 5, ge_io = (\<lambda>_. IoOk), ge_text = we_event_id, ge_utf8 = (\<lambda>_. True),
       ge_parse = (\<lambda>_. None), ge_bytes = (\<lambda>_. ''bytes''), ge_listens = (\<lambda>_. True),
       ge_exists = (\<lambda>_. True), ge_is_dir = (\<lambda>_. True) \<rparr>"

definition wit_created :: "work_json WorkGateway" where
  "wit_created = snd (create_work_in_session wit_gw_env ''w'' None (Some ''s'') SkInteractive ''goal'' gateway_new)"

definition wit_bound :: "work_json WorkGateway" where
  "wit_bound = snd (bind_execution wit_gw_env ''w'' ''r'' wit_created)"

definition wit_running :: "work_json WorkGateway" where
  "wit_running = snd (record_execution_transition wit_gw_env ''w'' ''r'' WsRunning wit_bound)"

definition wit_waiting :: "work_json WorkGateway" where
  "wit_waiting = snd (record_execution_transition wit_gw_env ''w'' ''r'' WsWaitingApproval wit_running)"

definition wit_pending :: "work_json WorkGateway" where
  "wit_pending = snd (record_pending_approval_for_run wit_gw_env ''w'' ''r'' ''t'' ''tool'' ''h'' ''R3'' 1 wit_waiting)"

lemma wit_json [simp]: "ge_json wit_gw_env = wj_api"
  by (simp add: wit_gw_env_def)

lemma wit_reach: "gw_call wit_gw_env s t \<Longrightarrow> gw_reaches wj_api s t"
  using wj.json_values_axioms by (auto simp: gw_step_def intro!: r_into_rtranclp exI [of _ wit_gw_env])

lemma wit_reaches:
  "gw_reaches wj_api gateway_new wit_created" "gw_reaches wj_api wit_created wit_bound"
  "gw_reaches wj_api wit_bound wit_running" "gw_reaches wj_api wit_running wit_waiting"
  "gw_reaches wj_api wit_waiting wit_pending"
proof -
  show "gw_reaches wj_api gateway_new wit_created"
    unfolding wit_created_def by (rule wit_reach, rule gw_call.intros)
  show "gw_reaches wj_api wit_created wit_bound"
    unfolding wit_bound_def by (rule wit_reach, rule gw_call.intros)
  show "gw_reaches wj_api wit_bound wit_running"
    unfolding wit_running_def by (rule wit_reach, rule gw_call.intros)
  show "gw_reaches wj_api wit_running wit_waiting"
    unfolding wit_waiting_def by (rule wit_reach, rule gw_call.intros)
  show "gw_reaches wj_api wit_waiting wit_pending"
    unfolding wit_pending_def by (rule wit_reach, rule gw_call.intros)
qed

lemma wit_live: "gw_live wj_api wit_created" "gw_live wj_api wit_running" "gw_live wj_api wit_pending"
  using wit_reaches by (auto simp: gw_live_def gw_start_def intro!: exI [of _ gateway_new])

section \<open>The lifecycle of a Run\<close>

text \<open>C5. Whatever sequence of gateway calls is made, and whether each of them succeeds or fails, a Run that
  has a state keeps having one and moves only along the edges of the lifecycle; a completed, failed or
  cancelled Run keeps its state for ever.\<close>

theorem run_lifecycle_kept:
  assumes "gw_reaches j s t" "run_state s w r = Some a"
  shows "\<exists>b. run_state t w r = Some b \<and> work_can_transition\<^sup>*\<^sup>* a b \<and> (work_is_terminal a \<longrightarrow> b = a)"
proof -
  have "runs_progress s t"
    using gateway_steps.reach_small [OF assms(1)] by (rule run_lifecycle.reach_le)
  then show ?thesis
    using assms(2) terminal_path unfolding runs_progress_def by blast
qed

theorem run_lifecycle_kept_witness:
  "\<exists>b. run_state wit_pending ''w'' ''r'' = Some b \<and> work_can_transition\<^sup>*\<^sup>* WsRunning b"
proof -
  have "gw_reaches wj_api wit_running wit_pending"
    using wit_reaches by (meson rtranclp_trans)
  moreover have "run_state wit_running ''w'' ''r'' = Some WsRunning" by code_simp
  ultimately show ?thesis using run_lifecycle_kept by blast
qed

section \<open>Approvals\<close>

lemma refused_transition:
  assumes "transition_refusal (ge_json E) s w r p st \<noteq> None" "run_state s w r = Some p"
  shows "\<exists>err. record_execution_transition E w r st s = (Inl err, s)"
    and "run_event_state ev = Some (r, st) \<Longrightarrow> \<exists>err. append_event E w ev c s = (Inl err, s)"
proof -
  obtain err where v: "validate_run_transition (ge_json E) s w r st = Inl err"
    using assms by (auto simp: validate_run_transition_def)
  then show "\<exists>err. record_execution_transition E w r st s = (Inl err, s)"
    by (simp add: record_execution_transition_def enter_state_def gw_then_def gw_bind_def)
  show "\<exists>err. append_event E w ev c s = (Inl err, s)" if "run_event_state ev = Some (r, st)"
  proof -
    have "\<exists>err. append_refusal E s w ev = Inl err"
      using v that by (simp add: append_refusal_def split: bool.split)
    then show ?thesis by (auto simp: append_event_def)
  qed
qed

text \<open>C6. In every state a gateway can reach, from an empty gateway or from a journal it accepted, a Run with
  an undecided approval is WaitingApproval, and neither a transition nor an appended event moves it to
  another state: the call fails and changes nothing.\<close>

theorem pending_approval_blocks_run:
  assumes "gw_live j s" "pending_approvals_for_run j s w r \<noteq> []" "ge_json E = j" "st \<noteq> WsWaitingApproval"
  shows "run_state s w r = Some WsWaitingApproval \<and>
    (\<exists>err. record_execution_transition E w r st s = (Inl err, s)) \<and>
    (\<forall>ev c. run_event_state ev = Some (r, st) \<longrightarrow> (\<exists>err. append_event E w ev c s = (Inl err, s)))"
proof -
  have st: "run_state s w r = Some WsWaitingApproval"
    using live_ok(3) [OF assms(1)] assms(2) by (simp add: approvals_gate_def)
  moreover have "transition_refusal (ge_json E) s w r WsWaitingApproval st \<noteq> None"
    using assms(2-4) by (auto simp: transition_refusal_None)
  ultimately show ?thesis
    using refused_transition by blast
qed

theorem pending_approval_blocks_run_witness:
  "\<exists>err. record_execution_transition wit_gw_env ''w'' ''r'' WsRunning wit_pending = (Inl err, wit_pending)"
proof -
  have "pending_approvals_for_run wj_api wit_pending ''w'' ''r'' \<noteq> []" by code_simp
  then show ?thesis
    using pending_approval_blocks_run [OF wit_live(3), of _ _ wit_gw_env] by simp
qed

section \<open>Transitions\<close>

text \<open>When the journal accepts writes, a transition of the current Run of a known Work succeeds exactly
  when the lifecycle allows it, no undecided approval holds the Run in WaitingApproval, and a Recoverable
  Run is not restarted while an effect of the Work is unresolved; a Run with no state yet may take any
  state that is not terminal. On success the Run has the requested state and the log one event more; a
  refusal of a Run that has a state changes nothing.\<close>

theorem transition_contract:
  assumes "has_work s w" "execution_id s w = Some x" "gw_next_seq s < u64_max"
    and "gw_journal s = None \<or> (\<forall>e. ge_io E e = IoOk)" "st \<notin> {WsCreated, WsPlanning, WsVerifying}"
  shows "if (case run_state s w x of
               None \<Rightarrow> \<not> work_is_terminal st
             | Some p \<Rightarrow> work_can_transition p st \<and>
                 (p = WsWaitingApproval \<and> st \<noteq> WsWaitingApproval \<longrightarrow> pending_approvals_for_run (ge_json E) s w x = []) \<and>
                 (p = WsRecoverable \<and> st = WsRunning \<longrightarrow> \<not> has_unresolved_uncertain_effect s w))
         then \<exists>t e. record_execution_transition E w x st s = (Inr (), t) \<and> run_state t w x = Some st \<and>
                events_of t w = events_of s w @ [e] \<and> run_event_state (we_event e) = Some (x, st)
         else \<exists>err t. record_execution_transition E w x st s = (Inl err, t) \<and> (run_state s w x \<noteq> None \<longrightarrow> t = s)"
proof -
  let ?ok = "case run_state s w x of
               None \<Rightarrow> \<not> work_is_terminal st
             | Some p \<Rightarrow> work_can_transition p st \<and>
                 (p = WsWaitingApproval \<and> st \<noteq> WsWaitingApproval \<longrightarrow> pending_approvals_for_run (ge_json E) s w x = []) \<and>
                 (p = WsRecoverable \<and> st = WsRunning \<longrightarrow> \<not> has_unresolved_uncertain_effect s w)"
  have ok: "?ok = run_allowed (ge_json E) s w x st"
    by (auto simp: run_allowed_def transition_refusal_None split: option.split)
  show ?thesis
  proof (cases "validate_run_transition (ge_json E) s w x st")
    case (Inl err)
    then have "\<not> run_allowed (ge_json E) s w x st"
      by (auto simp: validate_run_transition_def run_allowed_def split: option.splits)
    with Inl show ?thesis
      unfolding ok by (simp add: record_execution_transition_def enter_state_def gw_then_def gw_bind_def)
  next
    case (Inr u)
    then have "validate_run_transition (ge_json E) s w x st = Inr ()" by simp
    from transition_step [OF assms this] obtain e t where t: "record_execution_transition E w x st s = set_run_state (ge_json E) w x st None t"
      "run_allowed (ge_json E) t w x st = run_allowed (ge_json E) s w x st"
      "events_of t w = events_of s w @ [e]" "run_event_state (we_event e) = Some (x, st)" .
    have "run_state s w x = None" if "\<not> run_allowed (ge_json E) s w x st"
      using that Inr by (auto simp: run_allowed_def validate_run_transition_def split: option.splits)
    then show ?thesis
      unfolding ok t(1) using t set_run_state_result [of "ge_json E" t w x st None] by auto
  qed
qed

theorem transition_contract_witness:
  "\<exists>t. record_execution_transition wit_gw_env ''w'' ''r'' WsCompleted wit_running = (Inr (), t) \<and>
       run_state t ''w'' ''r'' = Some WsCompleted"
proof -
  have "has_work wit_running ''w''" "execution_id wit_running ''w'' = Some ''r''" "gw_next_seq wit_running < u64_max"
    "gw_journal wit_running = None" "run_state wit_running ''w'' ''r'' = Some WsRunning"
    by code_simp+
  then show ?thesis
    using transition_contract [of wit_running "''w''" "''r''" wit_gw_env WsCompleted]
    by (auto simp: work_can_transition_def work_is_terminal_def)
qed

section \<open>Agent bindings\<close>

text \<open>In every state a gateway can reach, a Session has at most one active agent binding, and every binding
  is stored under its own id.\<close>

theorem one_active_binding_per_session:
  assumes "gw_live j s" "lookup (gw_agent_bindings s) i = Some b" "lookup (gw_agent_bindings s) k = Some c"
    and "ab_state b = BlActive" "ab_state c = BlActive" "ab_session_id b = ab_session_id c"
  shows "i = k \<and> b = c \<and> ab_binding_id b = i"
proof -
  have ok: "bindings_ok s" by (rule live_ok(4) [OF assms(1)])
  have "i = k" by (rule bindings_unique [OF ok assms(2-6)])
  with assms(2,3) bindings_owner [OF ok assms(2)] show ?thesis by simp
qed

definition wit_binding :: AgentBinding where
  "wit_binding =
     \<lparr> ab_binding_id = ''b'', ab_session_id = ''s'', ab_work_id = ''w'', ab_agent_id = ''a'', ab_adapter_id = None,
       ab_protocol = ProtoAcp, ab_provider_session_id = None, ab_model = None, ab_mode = None,
       ab_capability_manifest = [], ab_governance_mode = GovernedMediated, ab_bridge_id = None, ab_state = BlParked,
       ab_usage = \<lparr> bu_input_tokens = 0, bu_output_tokens = 0, bu_cost_micros = 0 \<rparr>, ab_last_event_seq = 0,
       ab_private_state_ref = None \<rparr>"

definition wit_active :: "work_json WorkGateway" where
  "wit_active = snd (transition_agent_binding wit_gw_env ''b'' ''activated'' None
     (snd (create_agent_binding wit_gw_env wit_binding wit_created)))"

theorem one_active_binding_per_session_witness:
  "\<exists>b. lookup (gw_agent_bindings wit_active) ''b'' = Some b \<and> ab_state b = BlActive \<and> ab_binding_id b = ''b''"
proof -
  have "gw_reaches wj_api wit_created (snd (create_agent_binding wit_gw_env wit_binding wit_created))"
    by (rule wit_reach, rule gw_call.intros)
  moreover have "gw_reaches wj_api (snd (create_agent_binding wit_gw_env wit_binding wit_created)) wit_active"
    unfolding wit_active_def by (rule wit_reach, rule gw_call.intros)
  ultimately have live: "gw_live wj_api wit_active"
    using wit_live(1) by (auto simp: gw_live_def intro: rtranclp_trans)
  have "case lookup (gw_agent_bindings wit_active) ''b'' of Some b \<Rightarrow> ab_state b = BlActive | None \<Rightarrow> False"
    by code_simp
  then obtain b where "lookup (gw_agent_bindings wit_active) ''b'' = Some b" "ab_state b = BlActive"
    by (auto split: option.splits)
  with one_active_binding_per_session [OF live] show ?thesis by blast
qed

section \<open>The event log\<close>

text \<open>C13. The log of a Work only grows: from any state a gateway can reach, every later state extends each log at
  its end, sequence numbers rise strictly within a log, no number is used twice by any two events of the
  gateway, and each event is filed under its own Work.\<close>

theorem event_log_append_only:
  assumes "gw_live j s" "gw_reaches j s t"
  shows "prefix (events_of s w) (events_of t w) \<and>
    sorted_wrt (\<lambda>a b. we_sequence a < we_sequence b) (events_of t w) \<and>
    (\<forall>v. \<forall>d \<in> set (events_of t v). \<forall>e \<in> set (events_of t w). we_sequence d = we_sequence e \<longrightarrow> d = e) \<and>
    (\<forall>e \<in> set (events_of t w). we_work_id e = w \<and> we_sequence e < gw_next_seq t)"
proof -
  have moves: "gw_moves j s t" by (rule gateway_steps.reach_small [OF assms(2)])
  have "log_grows s t" by (rule event_log.reach_le [OF moves])
  moreover have "log_ok t"
    using event_order.reach_keeps [OF moves live_ok(1) [OF assms(1)]] .
  ultimately show ?thesis unfolding log_grows_def log_ok_def by blast
qed

theorem event_log_append_only_witness:
  "prefix (events_of wit_running ''w'') (events_of wit_waiting ''w'') \<and>
   sorted_wrt (\<lambda>a b. we_sequence a < we_sequence b) (events_of wit_waiting ''w'')"
  using event_log_append_only [OF wit_live(2) wit_reaches(4), of "''w''"] by simp

text \<open>C12. Nothing is readable that is not on disk. After opening a journal, the log of a Work is exactly the records
  of that Work that the lines of the file decode to, in order. After any sequence of calls, whatever the
  outcome of each write (a piece of a line may have been written), the file still begins with what was
  opened; and every event in the log of a Work was either among the records read then, or its whole line,
  newline included, stands in the file, and is a line of its own unless what stands just before it is a
  text without a newline, such as a failed write leaves.\<close>

theorem log_is_on_disk:
  assumes "open_journal E ls = Inr s" "gw_reaches (ge_json E) s t"
  shows "\<exists>es ls'. journal_records E ls = Some es \<and>
    map line_view (events_of s w) = map line_view (filter (\<lambda>e. we_work_id e = w) es) \<and>
    gw_journal t = Some ls' \<and> prefix ls ls' \<and>
    (\<forall>e \<in> set (events_of t w). line_view e \<in> line_view ` set es \<or>
       (\<exists>l pre post. line_view l = line_view e \<and> ls' = pre @ JtRecord l # post \<and>
          (terminated pre \<longrightarrow> [JtRecord l] \<in> set (journal_lines ls'))))"
proof -
  note moves = gateway_steps.reach_small [OF assms(2)]
  obtain es where es: "journal_records E ls = Some es" "gw_journal s = Some ls"
      "map line_view (events_of s w) = map line_view (filter (\<lambda>e. we_work_id e = w) es)"
    by (rule open_journal_log [OF assms(1)]) blast
  obtain ls' where ls': "gw_journal t = Some ls'" "prefix ls ls'"
    using journal_file.reach_le [OF moves] es(2) by (auto simp: file_grows_def)
  have "log_durable es t"
    using durable_log.reach_keeps [OF moves open_journal_durable [OF assms(1) es(1)]] .
  with ls'(1) have views: "line_view ` set (events_of t w) \<subseteq> line_view ` (set es \<union> {l. JtRecord l \<in> set ls'})"
    by (simp add: log_durable_def)
  have "line_view e \<in> line_view ` set es \<or>
      (\<exists>l pre post. line_view l = line_view e \<and> ls' = pre @ JtRecord l # post \<and>
         (terminated pre \<longrightarrow> [JtRecord l] \<in> set (journal_lines ls')))" if e: "e \<in> set (events_of t w)" for e
  proof (cases "line_view e \<in> line_view ` set es")
    case False
    have "line_view e \<in> line_view ` (set es \<union> {l. JtRecord l \<in> set ls'})" using views e by blast
    with False obtain l where l: "line_view l = line_view e" "JtRecord l \<in> set ls'" by fastforce
    from split_list [OF l(2)] obtain pre post where "ls' = pre @ JtRecord l # post" by blast
    with l(1) record_own_line [of pre l post] show ?thesis by blast
  qed simp
  with es ls' show ?thesis by blast
qed

definition wit_lines :: "work_json JournalText list" where
  "wit_lines = map JtRecord (events_of wit_running ''w'')"

theorem log_is_on_disk_witness:
  "\<exists>s es. open_journal wit_gw_env wit_lines = Inr s \<and> journal_records wit_gw_env wit_lines = Some es \<and>
     map line_view (events_of s ''w'') = map line_view (filter (\<lambda>e. we_work_id e = ''w'') es) \<and>
     map we_sequence es = map we_sequence (events_of wit_running ''w'') \<and> es \<noteq> []"
proof -
  have "case open_journal wit_gw_env wit_lines of Inr _ \<Rightarrow> True | Inl _ \<Rightarrow> False"
    "map_option (map we_sequence) (journal_records wit_gw_env wit_lines) =
       Some (map we_sequence (events_of wit_running ''w''))"
    "map we_sequence (events_of wit_running ''w'') \<noteq> []"
    by code_simp+
  then obtain s where s: "open_journal wit_gw_env wit_lines = Inr s" and facts:
    "map_option (map we_sequence) (journal_records wit_gw_env wit_lines) =
       Some (map we_sequence (events_of wit_running ''w''))"
    "map we_sequence (events_of wit_running ''w'') \<noteq> []"
    by (auto split: sum.splits)
  have "gw_reaches (ge_json wit_gw_env) s s" by simp
  with log_is_on_disk [OF s, of s "''w''"] facts s show ?thesis by fastforce
qed

text \<open>C9. Appending an event. A refused event changes nothing. An event whose journal write fails is reported as an
  error and leaves everything but the file as it was: the file is unchanged when it could not be opened or
  the record not encoded, has the bytes that were written of the record, without its newline, when the
  write failed, and has the whole record when only the sync failed. An event that is acknowledged has the
  next sequence number, its record and newline are at the end of the file, it is the last of its log, and
  it has been sent to every subscriber that still listens.\<close>

theorem append_event_contract:
  shows "(\<forall>err. append_refusal E s w ev = Inl err \<longrightarrow> append_event E w ev c s = (Inl err, s)) \<and>
    (\<forall>ls e. append_refusal E s w ev = Inr () \<and> gw_journal s = Some ls \<and> e = envelope_for E w ev c (gw_next_seq s) \<and>
       ge_io E e \<noteq> IoOk \<longrightarrow>
       (\<exists>err. append_event E w ev c s =
          (Inl err, s\<lparr>gw_journal := Some (ls @
             (case ge_io E e of
                IoWriteErr n \<Rightarrow> torn (take n (ge_text E e))
              | IoSyncErr \<Rightarrow> [JtRecord e]
              | _ \<Rightarrow> []))\<rparr>))) \<and>
    (\<forall>e t. append_event E w ev c s = (Inr e, t) \<longrightarrow>
       e = envelope_for E w ev c (gw_next_seq s) \<and> gw_next_seq t = gw_next_seq s + 1 \<and>
       events_of t w = events_of s w @ [e] \<and>
       gw_journal t = map_option (\<lambda>ls. ls @ [JtRecord e]) (gw_journal s) \<and>
       (\<forall>i got. (i, got) \<in> set (gw_subscribers s) \<and> ge_listens E i \<longrightarrow> (i, got @ [e]) \<in> set (gw_subscribers t)))"
proof (intro conjI allI impI)
  show "append_event E w ev c s = (Inl err, s)" if "append_refusal E s w ev = Inl err" for err
    using that by (simp add: append_event_def)
next
  fix ls e
  assume a: "append_refusal E s w ev = Inr () \<and> gw_journal s = Some ls \<and> e = envelope_for E w ev c (gw_next_seq s) \<and>
       ge_io E e \<noteq> IoOk"
  then have same: "s\<lparr>gw_journal := Some ls\<rparr> = s" by (cases s) simp
  from a show "\<exists>err. append_event E w ev c s =
      (Inl err, s\<lparr>gw_journal := Some (ls @
         (case ge_io E e of IoWriteErr n \<Rightarrow> torn (take n (ge_text E e)) | IoSyncErr \<Rightarrow> [JtRecord e] | _ \<Rightarrow> []))\<rparr>)"
    by (cases "ge_io E e") (auto simp: append_event_def write_journal_def gw_then_def gw_bind_def Let_def same)
qed (rule append_effects, assumption+)+

theorem append_event_contract_witness:
  "\<exists>e t. append_event wit_gw_env ''w'' (Operational (ToolStarted ''x'')) None wit_running = (Inr e, t) \<and>
     events_of t ''w'' = events_of wit_running ''w'' @ [e]"
proof -
  have "case append_event wit_gw_env ''w'' (Operational (ToolStarted ''x'')) None wit_running of (Inr _, _) \<Rightarrow> True | _ \<Rightarrow> False"
    by code_simp
  then obtain e t where "append_event wit_gw_env ''w'' (Operational (ToolStarted ''x'')) None wit_running = (Inr e, t)"
    by (auto split: prod.splits sum.splits)
  then show ?thesis
    using append_event_contract [of wit_gw_env wit_running "''w''" "Operational (ToolStarted ''x'')" None] by blast
qed

section \<open>The tables\<close>

text \<open>C34. The tables of a gateway are well formed in every state it can reach: Works are kept in key order, each
  under the id its address carries, bindings have distinct keys and are stored under their own ids, the
  sequence counter fits its 64 bits, and no authority carries a fencing token above the counter of its Run.\<close>

theorem gateway_well_formed:
  assumes "gw_live j s"
  shows "bt_sorted (gw_works s) \<and> (\<forall>w a. lookup (gw_works s) w = Some a \<longrightarrow> wa_work_id a = w) \<and>
    wf_map (gw_agent_bindings s) \<and> (\<forall>i b. lookup (gw_agent_bindings s) i = Some b \<longrightarrow> ab_binding_id b = i) \<and>
    gw_next_seq s \<le> u64_max \<and>
    (\<forall>r a. lookup (gw_authorities s) r = Some a \<longrightarrow> ra_fencing_token a \<le> fence_counter s r)"
  using live_ok [OF assms] by (simp add: works_ok_def bindings_ok_def log_ok_def fences_ok_def)

theorem gateway_well_formed_witness:
  "\<exists>a. lookup (gw_works wit_running) ''w'' = Some a \<and> wa_work_id a = ''w''"
proof -
  have "lookup (gw_works wit_running) ''w'' \<noteq> None" by code_simp
  then show ?thesis using gateway_well_formed [OF wit_live(2)] by auto
qed

end
