(* ===== verification/Work_Control_Properties.thy ===== *)
theory Work_Control_Properties
  imports Work_Graph "HOL-Library.Code_Target_Nat"
begin

text \<open>
  Properties of the gateway's control surface: run authorities and their fencing tokens, the walks over
  the delegation graph and the spawn limits, locators, provenance, runtime manifests, write conflicts,
  terminal output and change sets.
\<close>

section \<open>Run authorities\<close>

lemma authority_granted:
  assumes "acquire_run_authority E r i ttl s = (Inr a, t)"
  shows "ra_fencing_token a = fence_counter s r + 1" "fence_counter t r = ra_fencing_token a"
    "lookup (gw_authorities t) r = Some a" "ra_node_id a = i"
    "ra_expires_at_ms a = (if ttl = 0 then 0 else u64_add (ge_now E) ttl)"
  using assms by (auto simp: acquire_run_authority_def fence_counter_def Let_def split: if_splits option.splits)

lemma acquire_kills_older:
  "acquire_run_authority E r i ttl s = (Inr a, t) \<Longrightarrow> k < ra_fencing_token a \<Longrightarrow> token_dead r k t"
  using authority_granted [of E r i ttl s a t] by (simp add: token_dead_def)

lemma dead_never_valid: "token_dead r k s \<Longrightarrow> \<not> validate_fencing_token s now r i k"
  by (simp add: token_dead_def validate_fencing_token_def authority_valid_def split: option.split)

text \<open>C24. Once a new authority over a Run has been granted, every older fencing token of that Run is refused
  for ever: after any sequence of calls, at any time and for any node, the token does not validate, so the
  former holder can neither renew nor release.\<close>

theorem stale_token_never_valid:
  assumes "acquire_run_authority E r i ttl s = (Inr a, t)" "k < ra_fencing_token a" "gw_reaches j t u"
  shows "\<not> validate_fencing_token u now r n k \<and>
    renew_lease F r n k ttl' u = (Inl ''stale fencing token'', u) \<and> release_authority F r n k u = (False, u)"
proof -
  have "token_dead r k u"
    using dead_tokens.reach_keeps [OF gateway_steps.reach_small [OF assms(3)] acquire_kills_older [OF assms(1,2)]] .
  then have "\<not> validate_fencing_token u m r n k" for m
    by (rule dead_never_valid)
  then show ?thesis
    by (simp add: renew_lease_def release_authority_def)
qed

definition wit_ctl_env :: "nat \<Rightarrow> work_json GwEnv" where
  "wit_ctl_env now =
     \<lparr> ge_json = wj_api, ge_fact_ser = (\<lambda>_. ''fact''), ge_cs_ser = (\<lambda>_. ''set''), ge_mdigest = (\<lambda>m. rm_chief m),
       ge_now = now, ge_io = (\<lambda>_. IoOk), ge_text = we_event_id, ge_utf8 = (\<lambda>_. True),
       ge_parse = (\<lambda>_. None), ge_bytes = (\<lambda>_. ''bytes''), ge_listens = (\<lambda>_. True),
       ge_exists = (\<lambda>_. True), ge_is_dir = (\<lambda>_. True) \<rparr>"

definition wit_node :: ExecutionNode where
  "wit_node =
     \<lparr> nd_node_id = ''n'', nd_owner = ''o'', nd_platform = ''linux'', nd_node_kind = ''local'', nd_always_on = True,
       nd_capabilities = [], nd_sandbox_class = ''strict'', nd_network_policy = ''offline'',
       nd_credential_policy = ''broker'', nd_health = ''healthy'', nd_last_heartbeat_ms = 0 \<rparr>"

definition wit_nodes :: "work_json WorkGateway" where
  "wit_nodes = snd (register_node wit_node gateway_new)"

definition wit_held :: "work_json WorkGateway" where
  "wit_held = snd (acquire_run_authority (wit_ctl_env 5) ''r'' ''n'' 10 wit_nodes)"

theorem stale_token_never_valid_witness:
  "\<exists>a t. acquire_run_authority (wit_ctl_env 20) ''r'' ''n'' 10 wit_held = (Inr a, t) \<and> ra_fencing_token a = 2 \<and>
     \<not> validate_fencing_token t 21 ''r'' ''n'' 1"
proof -
  obtain a t where t: "acquire_run_authority (wit_ctl_env 20) ''r'' ''n'' 10 wit_held = (Inr a, t)" "ra_fencing_token a = 2"
  proof -
    have "case acquire_run_authority (wit_ctl_env 20) ''r'' ''n'' 10 wit_held of
        (Inr a, _) \<Rightarrow> ra_fencing_token a = 2 | _ \<Rightarrow> False" by code_simp
    then show ?thesis using that by (auto split: prod.splits sum.splits)
  qed
  have "gw_reaches wj_api t t" by simp
  with stale_token_never_valid [OF t(1), of 1 wj_api t] t show ?thesis by auto
qed

text \<open>C25. A Run whose authority is absent or past its expiry can always be taken over by a registered node:
  acquiring succeeds, so does recovering, the new token exceeds every token of the Run, and it validates
  from the grant until the end of its time to live (for ever when that is zero). While another authority
  lasts, acquiring is refused and nothing changes.\<close>

theorem expired_authority_can_be_taken:
  assumes "gw_live j s" "lookup (gw_nodes s) i \<noteq> None"
    and free: "case lookup (gw_authorities s) r of
                 None \<Rightarrow> True
               | Some b \<Rightarrow> ra_expires_at_ms b \<noteq> 0 \<and> ra_expires_at_ms b < ge_now E"
    and ttl: "ge_now E + ttl \<le> u64_max"
  shows "\<exists>a t. acquire_run_authority E r i ttl s = (Inr a, t) \<and> recover_run E r i ttl s = (Inr a, t) \<and>
    (\<forall>b. lookup (gw_authorities s) r = Some b \<longrightarrow> ra_fencing_token b < ra_fencing_token a) \<and>
    (\<forall>now. ttl = 0 \<or> now \<le> ge_now E + ttl \<longrightarrow> validate_fencing_token t now r i (ra_fencing_token a)) \<and>
    (\<forall>F n ttl'. ttl = 0 \<or> ge_now F < ge_now E + ttl \<longrightarrow> lookup (gw_nodes t) n \<noteq> None \<longrightarrow>
       acquire_run_authority F r n ttl' t = (Inl ''run authority already held'', t))"
proof -
  obtain a t where at: "acquire_run_authority E r i ttl s = (Inr a, t)"
    using assms(2) free by (auto simp: acquire_run_authority_def Let_def split: option.splits)
  note ok = authority_granted [OF at]
  have "recover_run E r i ttl s = (Inr a, t)"
    using free at by (auto simp: recover_run_def authority_valid_def split: option.splits)
  moreover have "ra_fencing_token b < ra_fencing_token a" if "lookup (gw_authorities s) r = Some b" for b
    using live_ok(2) [OF assms(1)] that ok(1) by (auto simp: fences_ok_def less_Suc_eq_le)
  moreover have "validate_fencing_token t now r i (ra_fencing_token a)" if "ttl = 0 \<or> now \<le> ge_now E + ttl" for now
    using that ok ttl by (auto simp: validate_fencing_token_def authority_valid_def u64_add_small)
  moreover have "acquire_run_authority F r n ttl' t = (Inl ''run authority already held'', t)"
    if "ttl = 0 \<or> ge_now F < ge_now E + ttl" "lookup (gw_nodes t) n \<noteq> None" for F n ttl'
    using that ok ttl by (auto simp: acquire_run_authority_def u64_add_small Let_def)
  ultimately show ?thesis
    using at by blast
qed

lemma wit_ctl_reach: "gw_call (wit_ctl_env n) s t \<Longrightarrow> gw_reaches wj_api s t"
  using wj.json_values_axioms by (auto simp: gw_step_def wit_ctl_env_def intro!: r_into_rtranclp exI [of _ "wit_ctl_env n"])

lemma wit_held_live: "gw_live wj_api wit_held"
proof -
  have "gw_reaches wj_api gateway_new wit_nodes"
    unfolding wit_nodes_def by (rule wit_ctl_reach, rule gw_call.intros)
  moreover have "gw_reaches wj_api wit_nodes wit_held"
    unfolding wit_held_def by (rule wit_ctl_reach, rule gw_call.intros)
  ultimately show ?thesis
    by (auto simp: gw_live_def gw_start_def intro!: exI [of _ gateway_new])
qed

theorem expired_authority_can_be_taken_witness:
  "\<exists>a t. acquire_run_authority (wit_ctl_env 16) ''r'' ''n'' 10 wit_held = (Inr a, t) \<and>
     validate_fencing_token t 20 ''r'' ''n'' (ra_fencing_token a)"
proof -
  have "lookup (gw_nodes wit_held) ''n'' \<noteq> None" by code_simp
  moreover have "case lookup (gw_authorities wit_held) ''r'' of None \<Rightarrow> True
      | Some b \<Rightarrow> ra_expires_at_ms b \<noteq> 0 \<and> ra_expires_at_ms b < ge_now (wit_ctl_env 16)" by code_simp
  moreover have "ge_now (wit_ctl_env 16) + 10 \<le> u64_max" by code_simp
  moreover have "(20::nat) \<le> ge_now (wit_ctl_env 16) + 10" by code_simp
  ultimately show ?thesis
    using expired_authority_can_be_taken [OF wit_held_live, where i = "''n''" and r = "''r''" and E = "wit_ctl_env 16" and ttl = 10] by blast
qed

section \<open>The delegation graph\<close>

text \<open>C30. The depth walk always ends, and it returns a depth exactly when following the parent links of the
  Work reaches a known Work without a parent, at exactly that many links; the loop bound, the number of
  Works, never cuts a real chain short.\<close>

theorem work_depth_exact:
  "work_depth s w = Inr d \<longleftrightarrow> (\<exists>v. link_at s d w = Some v \<and> has_work s v \<and> parent_of s v = None)"
  unfolding work_depth_iff rooted_def ..

text \<open>C31. A delegation that passes the cycle check and the spawn policy is safe to record: no chain of parent
  links leads from the parent to the child or back, no proper ancestor of the parent runs under the binding
  that would be delegated to, and once the child is created its depth is one more than that of the parent
  and within the limit, with the number of children of the parent within the total limit.\<close>

theorem admitted_delegation_is_safe:
  assumes "delegation_cycle s parent child member = Inr None" "delegation_gauge s parent = Inr g"
    and "policy_admit lm task g agent ready = Inr ()" "lim_max_depth lm < u32_max"
    and "lookup (gw_works s) child = None" "create_child_work E parent child objective project sid s = (Inr a, t)"
  shows "(\<forall>n. link_at s n parent \<noteq> Some child \<and> link_at s n child \<noteq> Some parent) \<and>
    (\<forall>n v b m. member = Some m \<and> m \<noteq> [] \<and> link_at s n parent = Some v \<and> v \<noteq> parent \<and> lookup (gw_works s) v = Some b \<longrightarrow>
       wa_binding_id b \<noteq> Some m) \<and>
    (\<exists>d. work_depth s parent = Inr d \<and> work_depth t child = Inr (d + 1) \<and> d + 1 \<le> lim_max_depth lm) \<and>
    length (children_of t parent) \<le> lim_max_total lm"
proof -
  note clear = delegation_clear [OF assms(1)]
  obtain d where d: "rooted s parent d" using clear(1) by blast
  note new = create_child_works [OF assms(6,5)]
  have "rooted t child (Suc d)"
    using rooted_add_child [OF d clear(2) new] .
  moreover have depth: "dg_child_depth g = min (d + 1) u32_max" "dg_total g = length (children_of s parent)"
    using assms(2) d by (auto simp: delegation_gauge_def work_depth_iff [THEN iffD2, OF d] Let_def)
  moreover have "dg_child_depth g \<le> lim_max_depth lm" "dg_total g < lim_max_total lm"
    using assms(3) by (auto simp: policy_admit_def split: if_splits)
  moreover have "length (children_of t parent) = Suc (length (children_of s parent))"
    unfolding children_of_def new(2) length_filter_bt_insert [OF assms(5)] using new(1) by simp
  ultimately show ?thesis
    using clear(2-4) d assms(4) by (auto simp: work_depth_iff min_def split: if_splits)
qed

definition wit_root :: "work_json WorkGateway" where
  "wit_root = snd (create_work_in_session (wit_ctl_env 5) ''w'' None (Some ''s'') SkInteractive ''goal'' gateway_new)"

definition wit_limits :: SubAgentLimits where
  "wit_limits = \<lparr> lim_max_depth = 2, lim_max_concurrent = 2, lim_max_total = 3 \<rparr>"

theorem admitted_delegation_is_safe_witness:
  "\<exists>a t. create_child_work (wit_ctl_env 6) ''w'' ''c'' ''sub'' None None wit_root = (Inr a, t) \<and>
     work_depth t ''c'' = Inr 1 \<and> length (children_of t ''w'') \<le> 3"
proof -
  define g where "g = \<lparr> dg_child_depth = 1, dg_active = 0, dg_total = 0 \<rparr>"
  have 1: "delegation_cycle wit_root ''w'' ''c'' None = Inr None" "delegation_gauge wit_root ''w'' = Inr g"
    "policy_admit wit_limits ''t'' g ''a'' True = Inr ()" "lim_max_depth wit_limits < u32_max"
    "lookup (gw_works wit_root) ''c'' = None" "work_depth wit_root ''w'' = Inr 0"
    unfolding g_def by code_simp+
  obtain a t where t: "create_child_work (wit_ctl_env 6) ''w'' ''c'' ''sub'' None None wit_root = (Inr a, t)"
  proof -
    have "case create_child_work (wit_ctl_env 6) ''w'' ''c'' ''sub'' None None wit_root of (Inr _, _) \<Rightarrow> True | _ \<Rightarrow> False"
      by code_simp
    then show ?thesis using that by (auto split: prod.splits sum.splits)
  qed
  from admitted_delegation_is_safe [OF 1(1-5) t] 1(6) t show ?thesis
    by (auto simp: wit_limits_def)
qed

section \<open>Locators and provenance\<close>

lemma strip_work: "strip_prefix (''work:'' @ rest) ''work:'' = Some rest"
  by (simp add: strip_prefix_def starts_with_def)

text \<open>C35. Parsing the locator of an address gives back its Work id, node and Run, when the Work id is not empty
  and contains neither separator, the node is absent or not empty and free of the Run separator, and the
  Run is absent or not empty.\<close>

theorem locator_roundtrip:
  assumes "wa_work_id a \<noteq> []" "CHR ''@'' \<notin> set (wa_work_id a)" "CHR ''#'' \<notin> set (wa_work_id a)"
    and "\<And>n. wa_node_id a = Some n \<Longrightarrow> n \<noteq> [] \<and> CHR ''#'' \<notin> set n"
    and "\<And>r. wa_current_run_id a = Some r \<Longrightarrow> r \<noteq> []"
  shows "parse_locator (locator a) =
    Inr ((address_new (wa_work_id a))\<lparr>wa_node_id := wa_node_id a, wa_current_run_id := wa_current_run_id a\<rparr>)"
proof -
  let ?node = "case wa_node_id a of None \<Rightarrow> [] | Some n \<Rightarrow> CHR ''@'' # n"
  let ?run = "case wa_current_run_id a of None \<Rightarrow> [] | Some r \<Rightarrow> CHR ''#'' # r"
  have node: "split_once (CHR ''@'') (wa_work_id a @ ?node) = map_option (Pair (wa_work_id a)) (wa_node_id a)"
    using assms(2) by (cases "wa_node_id a") (simp_all add: split_once_none split_once_append)
  have "CHR ''#'' \<notin> set (wa_work_id a @ ?node)"
    using assms(3,4) by (auto split: option.split)
  then have run: "split_once (CHR ''#'') ((wa_work_id a @ ?node) @ ?run) = map_option (Pair (wa_work_id a @ ?node)) (wa_current_run_id a)"
    by (cases "wa_current_run_id a") (simp_all add: split_once_none split_once_append del: append_assoc)
  have loc: "locator a = ''work:'' @ ((wa_work_id a @ ?node) @ ?run)"
    by (simp add: locator_def)
  have ne: "wa_current_run_id a \<noteq> Some []" "wa_node_id a \<noteq> Some []"
    using assms(4,5) by blast+
  show ?thesis
    unfolding parse_locator_def loc strip_work option.case run
    using assms(1) ne node by (cases "wa_current_run_id a"; cases "wa_node_id a") (simp_all del: append_assoc)
qed

theorem locator_roundtrip_witness:
  "parse_locator (locator ((address_new ''w'')\<lparr>wa_node_id := Some ''n'', wa_current_run_id := Some ''r''\<rparr>)) =
   Inr ((address_new ''w'')\<lparr>wa_node_id := Some ''n'', wa_current_run_id := Some ''r''\<rparr>)"
  using locator_roundtrip [of "(address_new ''w'')\<lparr>wa_node_id := Some ''n'', wa_current_run_id := Some ''r''\<rparr>"]
  by (simp add: address_new_def)

lemma merge_string_ok:
  assumes "merge_string j patch key x = Inr (y, c)"
  shows "(x \<noteq> None \<longrightarrow> y = x) \<and> (c \<longleftrightarrow> y \<noteq> x) \<and> merge_string j patch key y = Inr (y, False)"
  using assms by (auto simp: merge_string_def split: option.splits if_splits)

lemma merge_generation_ok:
  assumes "merge_generation j patch x = Inr (y, c)"
  shows "(x \<noteq> None \<longrightarrow> y = x) \<and> (c \<longleftrightarrow> y \<noteq> x) \<and> merge_generation j patch y = Inr (y, False)"
  using assms by (auto simp: merge_generation_def split: option.splits if_splits)

text \<open>Provenance is written once: a patch that is accepted keeps every field that was set, reports a change
  exactly when some field changed, and changes nothing when it is applied again.\<close>

theorem provenance_set_once:
  assumes "merge_patch j patch p = Inr (q, c)"
  shows "(\<forall>f \<in> {wp_automation_id, wp_revision_id, wp_trigger_occurrence_id, wp_payload_digest, wp_dedup_digest,
            wp_source_session_id}. f p \<noteq> None \<longrightarrow> f q = f p) \<and>
    (wp_automation_generation p \<noteq> None \<longrightarrow> wp_automation_generation q = wp_automation_generation p) \<and>
    (c \<longleftrightarrow> q \<noteq> p) \<and> merge_patch j patch q = Inr (q, False)"
proof -
  obtain c1 c2 c3 c4 c5 c6 c7 where
    m: "merge_string j patch ''automationId'' (wp_automation_id p) = Inr (wp_automation_id q, c1)"
       "merge_string j patch ''revisionId'' (wp_revision_id p) = Inr (wp_revision_id q, c2)"
       "merge_string j patch ''triggerOccurrenceId'' (wp_trigger_occurrence_id p) = Inr (wp_trigger_occurrence_id q, c3)"
       "merge_string j patch ''payloadDigest'' (wp_payload_digest p) = Inr (wp_payload_digest q, c4)"
       "merge_string j patch ''dedupDigest'' (wp_dedup_digest p) = Inr (wp_dedup_digest q, c5)"
       "merge_string j patch ''sourceSessionId'' (wp_source_session_id p) = Inr (wp_source_session_id q, c6)"
       "merge_generation j patch (wp_automation_generation p) = Inr (wp_automation_generation q, c7)"
    and c: "c = (c1 \<or> c2 \<or> c3 \<or> c4 \<or> c5 \<or> c6 \<or> c7)"
    using assms by (clarsimp simp: merge_patch_def res_bind_Inr)
  note ok = m(1-6) [THEN merge_string_ok] m(7) [THEN merge_generation_ok]
  have "q = p \<longleftrightarrow> wp_automation_id q = wp_automation_id p \<and> wp_revision_id q = wp_revision_id p \<and>
      wp_trigger_occurrence_id q = wp_trigger_occurrence_id p \<and> wp_payload_digest q = wp_payload_digest p \<and>
      wp_dedup_digest q = wp_dedup_digest p \<and> wp_source_session_id q = wp_source_session_id p \<and>
      wp_automation_generation q = wp_automation_generation p"
    by (cases p; cases q) auto
  then have "c \<longleftrightarrow> q \<noteq> p" using c ok by blast
  moreover have "merge_patch j patch q = Inr (q, False)"
    using ok by (simp add: merge_patch_def)
  ultimately show ?thesis using ok by simp
qed

theorem provenance_set_once_witness:
  "\<exists>q. merge_patch wj_api (WObj [(''automationId'', WStr ''a'')]) provenance_default = Inr (q, True) \<and>
       merge_patch wj_api (WObj [(''automationId'', WStr ''a'')]) q = Inr (q, False)"
proof -
  define q where "q = provenance_default\<lparr>wp_automation_id := Some ''a''\<rparr>"
  have m: "merge_patch wj_api (WObj [(''automationId'', WStr ''a'')]) provenance_default = Inr (q, True)"
    by (simp add: q_def merge_patch_def merge_string_def merge_generation_def wj_api_def provenance_default_def)
  have "merge_patch wj_api (WObj [(''automationId'', WStr ''a'')]) q = Inr (q, False)"
    using provenance_set_once [OF m] by simp
  with m show ?thesis by (intro exI conjI)
qed

section \<open>Runtime manifests\<close>

lemma narrow_ladder:
  assumes "distinct ladder" "ladder \<noteq> []"
  shows "\<exists>k. position (narrow x y ladder) ladder = Some k \<and>
    (\<forall>a. position x ladder = Some a \<longrightarrow> k \<le> a) \<and> (\<forall>b. position y ladder = Some b \<longrightarrow> k \<le> b) \<and>
    (position x ladder = None \<or> position y ladder = None \<longrightarrow> k = 0)"
proof (cases "position x ladder")
  case None
  then show ?thesis using assms position_nth [of ladder 0] by (auto simp: narrow_def)
next
  case x: (Some a)
  show ?thesis
  proof (cases "position y ladder")
    case None
    then show ?thesis using assms x position_nth [of ladder 0] by (auto simp: narrow_def)
  next
    case (Some b)
    then show ?thesis
      using assms x position_nth [of ladder "min a b"] position_Some [OF x] by (auto simp: narrow_def)
  qed
qed

lemma ladders: "distinct NETWORK_LADDER" "NETWORK_LADDER \<noteq> []" "distinct FILESYSTEM_LADDER" "FILESYSTEM_LADDER \<noteq> []"
  by (simp_all add: NETWORK_LADDER_def FILESYSTEM_LADDER_def)

text \<open>C36. Restoring a saved manifest never widens what it allowed nor exceeds what is trusted now: capabilities
  are among both lists, the network and filesystem policies are on their ladders at or below each of the
  two, at the bottom when either is unknown, everything else is as saved, and the stored hash verifies.\<close>

theorem restored_manifest_never_widens:
  "let m = restore_runtime_manifest digest saved caps net fs in
   set (rm_capabilities m) = set (rm_capabilities saved) \<inter> set caps \<and>
   (\<exists>k. position (rm_network_policy m) NETWORK_LADDER = Some k \<and>
      (\<forall>a. position (rm_network_policy saved) NETWORK_LADDER = Some a \<longrightarrow> k \<le> a) \<and>
      (\<forall>b. position net NETWORK_LADDER = Some b \<longrightarrow> k \<le> b) \<and>
      (position (rm_network_policy saved) NETWORK_LADDER = None \<or> position net NETWORK_LADDER = None \<longrightarrow> k = 0)) \<and>
   (\<exists>k. position (rm_filesystem_policy m) FILESYSTEM_LADDER = Some k \<and>
      (\<forall>a. position (rm_filesystem_policy saved) FILESYSTEM_LADDER = Some a \<longrightarrow> k \<le> a) \<and>
      (\<forall>b. position fs FILESYSTEM_LADDER = Some b \<longrightarrow> k \<le> b) \<and>
      (position (rm_filesystem_policy saved) FILESYSTEM_LADDER = None \<or> position fs FILESYSTEM_LADDER = None \<longrightarrow> k = 0)) \<and>
   rm_autonomy m = rm_autonomy saved \<and> rm_memory_scope m = rm_memory_scope saved \<and> rm_work_id m = rm_work_id saved \<and>
   verify_hash digest m"
  using narrow_ladder [OF ladders(1,2), of "rm_network_policy saved" net]
    narrow_ladder [OF ladders(3,4), of "rm_filesystem_policy saved" fs]
  by (auto simp: restore_runtime_manifest_def refresh_hash_def verify_hash_def Let_def)

theorem restored_manifest_never_widens_witness:
  "let m = restore_runtime_manifest rm_chief ((manifest_new rm_chief ''w'' ''c'' ''m'')\<lparr>rm_network_policy := ''open''\<rparr>)
             [] ''loopback'' ''system''
   in rm_network_policy m = ''loopback'' \<and> verify_hash rm_chief m"
  using restored_manifest_never_widens [of rm_chief "(manifest_new rm_chief ''w'' ''c'' ''m'')\<lparr>rm_network_policy := ''open''\<rparr>"
      "[]" "''loopback''" "''system''"]
  by (simp add: Let_def restore_runtime_manifest_def refresh_hash_def manifest_new_def narrow_def NETWORK_LADDER_def)

section \<open>Write conflicts\<close>

lemma add_writers_set: "set (add_writers xs ws) = set ws \<union> {x. Some x \<in> set xs}"
  by (induction xs ws rule: add_writers.induct) auto

lemma add_writers_distinct: "distinct ws \<Longrightarrow> distinct (add_writers xs ws)"
  by (induction xs ws rule: add_writers.induct) auto

lemma add_writers_append: "add_writers (xs @ ys) ws = add_writers ys (add_writers xs ws)"
  by (induction xs ws rule: add_writers.induct) auto

definition touched_by :: "'v WorkGateway \<Rightarrow> string \<Rightarrow> string \<Rightarrow> string \<Rightarrow> bool" where
  "touched_by s w path x \<longleftrightarrow> (\<exists>e \<in> set (events_of s w). we_event e = Operational (FileTouched path x))"

lemma writers_set: "set (writers_for_path s w path) = {x. touched_by s w path x}"
proof -
  have "touch_of path e = Some x \<longleftrightarrow> we_event e = Operational (FileTouched path x)" for e :: "'a WorkEventEnvelope" and x
    by (auto simp: touch_of_def split: WorkEvent.splits OperationalEvent.splits)
  then show ?thesis
    unfolding writers_for_path_def add_writers_set touched_by_def by (force simp: image_iff)
qed

lemma append_operational:
  assumes "append_event E w (Operational op) c s = (Inr e, t)"
  shows "events_of t w = events_of s w @ [e]" "we_event e = Operational op"
proof -
  have plain: "\<not> semantic (Operational op :: 'a WorkEvent)" by (simp add: semantic_def)
  obtain s1 where 1: "write_journal E e s = (Inr (), s1)" and 2: "t = notify_subscribers E e (commit_event e s1)"
    using append_ok_stages [OF assms] project_trivial [OF plain] by (metis gw_simps(1) prod.inject)
  have e: "e = envelope_for E w (Operational op) c (gw_next_seq s)" by (rule append_ok(1) [OF assms])
  have "events_of s1 w = events_of s w"
    using write_journal_cases [OF 1] by (auto simp: events_of_def)
  with 2 e show "events_of t w = events_of s w @ [e]" by (simp add: notify_subscribers_def events_of_def commit_event_def push_event_def)
  show "we_event e = Operational op" by (simp add: e)
qed

lemma two_members: "distinct xs \<Longrightarrow> 1 < length xs \<longleftrightarrow> (\<exists>x y. x \<in> set xs \<and> y \<in> set xs \<and> x \<noteq> y)"
proof (cases xs)
  case (Cons a as)
  assume "distinct xs"
  then show ?thesis using Cons by (cases as) auto
qed simp

text \<open>A recorded file touch that returns is in the log, and the conflict flag it returns is exact: it is
  set exactly when two different writers have touched the path in this Work, this touch included.\<close>

theorem write_conflict_exact:
  assumes "record_file_touch E w path writer s = (Inr flag, t)"
  shows "touched_by t w (str_trim path) (str_trim writer) \<and>
    (flag \<longleftrightarrow> (\<exists>x y. x \<noteq> y \<and> touched_by t w (str_trim path) x \<and> touched_by t w (str_trim path) y)) \<and>
    (\<forall>p x. touched_by t w p x \<longleftrightarrow> touched_by s w p x \<or> (p = str_trim path \<and> x = str_trim writer))"
proof -
  let ?p = "str_trim path" and ?x = "str_trim writer"
  let ?before = "writers_for_path s w ?p"
  let ?all = "if ?x \<in> set ?before then ?before else ?before @ [?x]"
  obtain e s1 where a1: "append_event E w (Operational (FileTouched ?p ?x)) None s = (Inr e, s1)"
    and rest: "if 1 < length ?all then \<exists>d. append_event E w (Operational (WriteConflict ?p ?all)) None s1 = (Inr d, t) else t = s1"
    and flag: "flag = (1 < length ?all)"
    using assms by (auto simp: record_file_touch_def gw_then_def gw_bind_ok Let_def split: if_splits)
  note ev = append_operational [OF a1]
  have touched: "touched_by t w p x \<longleftrightarrow> touched_by s w p x \<or> (p = ?p \<and> x = ?x)" for p x
  proof (cases "1 < length ?all")
    case True
    then obtain d where "append_event E w (Operational (WriteConflict ?p ?all)) None s1 = (Inr d, t)" using rest by auto
    from append_operational [OF this] ev show ?thesis by (auto simp: touched_by_def)
  next
    case False
    with rest ev show ?thesis by (auto simp: touched_by_def split: if_splits)
  qed
  have "set ?all = {x. touched_by t w ?p x}" "distinct ?all"
    using writers_set [of s w ?p] touched add_writers_distinct [of "[]" "map (touch_of ?p) (events_of s w)"]
    by (auto simp: writers_for_path_def)
  with flag touched two_members [of ?all] show ?thesis by auto
qed

theorem write_conflict_exact_witness:
  "\<exists>s t. record_file_touch (wit_ctl_env 6) ''w'' ''f'' ''a'' wit_root = (Inr False, s) \<and>
     record_file_touch (wit_ctl_env 7) ''w'' ''f'' ''b'' s = (Inr True, t) \<and> touched_by t ''w'' ''f'' ''b''"
proof -
  define s where "s = snd (record_file_touch (wit_ctl_env 6) ''w'' ''f'' ''a'' wit_root)"
  define t where "t = snd (record_file_touch (wit_ctl_env 7) ''w'' ''f'' ''b'' s)"
  have f: "fst (record_file_touch (wit_ctl_env 6) ''w'' ''f'' ''a'' wit_root) = Inr False"
    "fst (record_file_touch (wit_ctl_env 7) ''w'' ''f'' ''b'' s) = Inr True" "str_trim ''f'' = ''f''" "str_trim ''b'' = ''b''"
    unfolding s_def by code_simp+
  then have "record_file_touch (wit_ctl_env 7) ''w'' ''f'' ''b'' s = (Inr True, t)"
    by (simp add: t_def prod_eq_iff)
  with write_conflict_exact [OF this] f show ?thesis
    by (intro exI [of _ s] exI [of _ t]) (simp add: s_def prod_eq_iff)
qed

section \<open>Terminal output\<close>

definition ascii :: "string \<Rightarrow> bool" where
  "ascii x \<longleftrightarrow> (\<forall>c \<in> set x. (of_char c :: nat) < 128)"

fun write_chunks :: "'v GwEnv \<Rightarrow> string \<Rightarrow> string \<Rightarrow> string list \<Rightarrow> ('v, unit) gw" where
  "write_chunks E w i [] = gw_return ()"
| "write_chunks E w i (c # cs) = gw_then (write_pty_output E w i c) (write_chunks E w i cs)"

definition keep_tail :: "nat \<Rightarrow> string \<Rightarrow> string" where
  "keep_tail n x = drop (length x - n) x"

lemma keep_tail_step: "keep_tail n (keep_tail n x @ y) = keep_tail n (x @ y)"
  by (cases "n \<le> length x") (auto simp: keep_tail_def add.commute)

lemma ascii_boundary: "ascii x \<Longrightarrow> i \<le> length x \<Longrightarrow> is_char_boundary x i"
  using nth_mem [of i x] by (fastforce simp: ascii_def is_char_boundary_def)

lemma push_output_ascii:
  assumes "lookup (gw_ptys s) i = Some p" "ascii (pt_output p)" "ascii chunk"
  shows "push_output i chunk s =
    (Inr (), s\<lparr>gw_ptys := AList.update i (p\<lparr>pt_output := keep_tail PTY_CAP (pt_output p @ chunk)\<rparr>) (gw_ptys s)\<rparr>)"
proof -
  have "ascii (pt_output p @ chunk)" using assms(2,3) by (auto simp: ascii_def)
  then have "is_char_boundary (pt_output p @ chunk) (length (pt_output p @ chunk) - PTY_CAP)"
    by (rule ascii_boundary) simp
  then show ?thesis using assms(1) by (auto simp: push_output_def keep_tail_def Let_def)
qed

lemma write_pty_ascii:
  assumes "has_work s w" "gw_next_seq s < u64_max" "gw_journal s = None \<or> (\<forall>e. ge_io E e = IoOk)"
    and "lookup (gw_ptys s) i = Some p" "ascii (pt_output p)" "ascii chunk"
  shows "\<exists>e t. write_pty_output E w i chunk s = (Inr e, t) \<and> has_work t w \<and> gw_next_seq t = Suc (gw_next_seq s) \<and>
    (gw_journal t = None \<longleftrightarrow> gw_journal s = None) \<and>
    lookup (gw_ptys t) i = Some (p\<lparr>pt_output := keep_tail PTY_CAP (pt_output p @ chunk)\<rparr>)"
proof -
  let ?ev = "Runtime (PtyOutput i chunk) :: 'a WorkEvent"
  have plain: "\<not> semantic ?ev" by (simp add: semantic_def)
  obtain e t where t: "append_event E w ?ev None s = (Inr e, t)" "gw_works t = gw_works s" "gw_ptys t = gw_ptys s"
    "gw_next_seq t = Suc (gw_next_seq s)" "gw_journal t = None \<longleftrightarrow> gw_journal s = None"
    using append_log_only [OF log_only_plain [OF plain] append_refusal_plain [OF plain assms(1,2)] assms(3), of None] by auto
  have "push_output i chunk t =
      (Inr (), t\<lparr>gw_ptys := AList.update i (p\<lparr>pt_output := keep_tail PTY_CAP (pt_output p @ chunk)\<rparr>) (gw_ptys t)\<rparr>)"
    using assms(4-6) t(3) by (intro push_output_ascii) simp_all
  with t assms(1,4) show ?thesis
    by (simp add: write_pty_output_def require_pty_def append_with_def gw_then_def has_work_def)
qed

text \<open>Terminal output of ASCII chunks is kept exactly: after any sequence of writes to a terminal of a known
  Work, with a journal that accepts them, the buffer holds the last 64 KiB of everything written, so its
  size stays within that bound, and no write fails.\<close>

theorem pty_keeps_the_tail:
  assumes "has_work s w" "gw_next_seq s + length chunks \<le> u64_max" "gw_journal s = None \<or> (\<forall>e. ge_io E e = IoOk)"
    and "lookup (gw_ptys s) i = Some p" "ascii (pt_output p)" "list_all ascii chunks" "length (pt_output p) \<le> PTY_CAP"
  shows "\<exists>t q. write_chunks E w i chunks s = (Inr (), t) \<and> lookup (gw_ptys t) i = Some q \<and>
    pt_output q = keep_tail PTY_CAP (pt_output p @ concat chunks) \<and> length (pt_output q) \<le> PTY_CAP"
  using assms
proof (induction chunks arbitrary: s p)
  case Nil
  then show ?case by (auto simp: keep_tail_def)
next
  case (Cons c cs)
  let ?p = "p\<lparr>pt_output := keep_tail PTY_CAP (pt_output p @ c)\<rparr>"
  obtain e t where t: "write_pty_output E w i c s = (Inr e, t)" "has_work t w" "gw_next_seq t = Suc (gw_next_seq s)"
    "gw_journal t = None \<longleftrightarrow> gw_journal s = None" "lookup (gw_ptys t) i = Some ?p"
    using write_pty_ascii [of s w E i p c] Cons.prems by auto
  have "ascii (pt_output ?p)" "length (pt_output ?p) \<le> PTY_CAP"
    using Cons.prems by (auto simp: ascii_def keep_tail_def dest: in_set_dropD)
  then have "\<exists>u q. write_chunks E w i cs t = (Inr (), u) \<and> lookup (gw_ptys u) i = Some q \<and>
      pt_output q = keep_tail PTY_CAP (pt_output ?p @ concat cs) \<and> length (pt_output q) \<le> PTY_CAP"
    using t Cons.prems by (intro Cons.IH) auto
  with t(1) show ?case
    by (simp add: gw_then_def keep_tail_step)
qed

definition wit_pty :: "work_json WorkGateway" where
  "wit_pty = snd (create_pty ''p'' 24 80 wit_root)"

theorem pty_keeps_the_tail_witness:
  "\<exists>t q. write_chunks (wit_ctl_env 6) ''w'' ''p'' [''ab'', ''cd''] wit_pty = (Inr (), t) \<and>
     lookup (gw_ptys t) ''p'' = Some q \<and> pt_output q = ''abcd''"
proof -
  define p where "p = fst (create_pty ''p'' 24 80 wit_root)"
  have "lookup (gw_ptys wit_pty) ''p'' = Some p" "pt_output p = []"
    by (simp_all add: p_def wit_pty_def create_pty_def put_pty_def Let_def)
  moreover have "has_work wit_pty ''w''" "gw_next_seq wit_pty + 2 \<le> u64_max" "gw_journal wit_pty = None"
    by code_simp+
  moreover have "list_all ascii [''ab'', ''cd'']" "ascii []" by (simp_all add: ascii_def)
  moreover have "keep_tail PTY_CAP ''abcd'' = ''abcd''" by (simp add: keep_tail_def PTY_CAP_def)
  ultimately show ?thesis
    using pty_keeps_the_tail [of wit_pty "''w''" "[''ab'', ''cd'']" "wit_ctl_env 6" "''p''" p] by auto
qed

section \<open>Change sets\<close>

text \<open>A change set is settled once: while the recorded change set of a step carries an outcome, every further
  attempt to settle that step is refused and changes nothing; and an attempt that succeeds records exactly
  the submitted set with the given reason, whose outcome is not open.\<close>

theorem change_set_settled_once:
  shows "(file_change_set s (cs_work_id c) (cs_step_id c) = Some old \<and> cs_outcome old \<noteq> None \<longrightarrow>
      (\<exists>err. settle_file_change_set E c reason s = (Inl err, s))) \<and>
    (settle_file_change_set E c reason s = (Inr e, t) \<longrightarrow>
      file_change_set t (cs_work_id c) (cs_step_id c) = Some (c\<lparr>cs_reason := reason\<rparr>) \<and>
      cs_outcome c \<noteq> None \<and> cs_outcome c \<noteq> Some CsOpen \<and>
      (\<exists>err. settle_file_change_set F (c\<lparr>cs_outcome := oc\<rparr>) reason' t = (Inl err, t)))"
proof -
  have once: "\<exists>err. settle_file_change_set E c reason s = (Inl err, s)"
    if "file_change_set s (cs_work_id c) (cs_step_id c) = Some old" "cs_outcome old \<noteq> None"
    for E c reason old and s :: "'a WorkGateway"
    using that by (auto simp: settle_file_change_set_def Let_def split: sum.split option.split)
  have settled: "file_change_set t (cs_work_id c) (cs_step_id c) = Some (c\<lparr>cs_reason := reason\<rparr>) \<and>
      cs_outcome c \<noteq> None \<and> cs_outcome c \<noteq> Some CsOpen"
    if "settle_file_change_set E c reason s = (Inr e, t)"
  proof -
    let ?c = "c\<lparr>cs_reason := reason\<rparr>"
    have ap: "append_event E (cs_work_id c) (Domain (FileChangeSetSettled ?c)) None s = (Inr e, t)"
      and oc: "cs_outcome c \<noteq> None" "cs_outcome c \<noteq> Some CsOpen"
      using that by (auto simp: settle_file_change_set_def Let_def split: sum.splits option.splits if_splits)
    obtain s1 s2 s3 where st: "project_update E (cs_work_id c) (Domain (FileChangeSetSettled ?c)) (commit_event e s1) = (Inr (), s2)"
      "project_p69g2_event E (cs_work_id c) (we_sequence e) (Domain (FileChangeSetSettled ?c)) False s2 = (Inr (), s3)"
      "t = notify_subscribers E e s3"
      using append_ok_stages [OF ap] by metis
    have "s3 = put_change_set ?c s2"
      using st(2) by (auto simp: project_p69g2_event_def gw_then_def gw_bind_ok)
    with st(3) oc show ?thesis
      by (simp add: file_change_set_def notify_subscribers_def put_change_set_def)
  qed
  show ?thesis
    using once [of s c old] settled once [of t "c\<lparr>cs_outcome := oc\<rparr>" "c\<lparr>cs_reason := reason\<rparr>"] by auto
qed

definition wit_change_set :: TurnChangeSet where
  "wit_change_set =
     \<lparr> cs_change_set_id = ''fcs:w/1'', cs_work_id = ''w'', cs_step_id = ''1'', cs_session_id = None, cs_captured_at_ms = 1,
       cs_entries = [\<lparr> fe_path = ''f'', fe_capture = FcAbsentMarker, fe_pre_digest = [], fe_pre_len = 0, fe_blob = None,
                      fe_lease = None \<rparr>],
       cs_outcome = Some CsUncertain, cs_settled_at_ms = None, cs_reason = None \<rparr>"

theorem change_set_settled_once_witness:
  "\<exists>e t. settle_file_change_set (wit_ctl_env 6) wit_change_set None wit_root = (Inr e, t) \<and>
     file_change_set t ''w'' ''1'' = Some wit_change_set \<and>
     (\<exists>err. settle_file_change_set (wit_ctl_env 7) wit_change_set None t = (Inl err, t))"
proof -
  have "case settle_file_change_set (wit_ctl_env 6) wit_change_set None wit_root of (Inr _, _) \<Rightarrow> True | _ \<Rightarrow> False"
    by code_simp
  then obtain e t where "settle_file_change_set (wit_ctl_env 6) wit_change_set None wit_root = (Inr e, t)"
    by (auto split: prod.splits sum.splits)
  then show ?thesis
    using change_set_settled_once [of wit_root wit_change_set wit_change_set "wit_ctl_env 6" None e t "wit_ctl_env 7"
        "Some CsUncertain" None]
    by (auto simp: wit_change_set_def)
qed

end
