(* ===== verification/Work_Replay.thy ===== *)
theory Work_Replay
  imports Work_Append
begin

text \<open>
  The journal as the refinement of the running gateway: replaying the journal of a gateway gives back
  its durable state. \<open>mirrors\<close> relates a running state to a replayed one; \<open>follows\<close> says that a
  computation that succeeds on the first succeeds on the second and keeps them related. The presence
  table, reviews, clients, terminals and authorities are not rebuilt from the journal.
\<close>

section \<open>The durable part of the state\<close>

text \<open>A Run in \<open>X\<close> may be Ready in the running state and absent from the replayed one: binding a Run
  makes it Ready without an event of its own.\<close>

definition mirrors :: "(string \<times> string) set \<Rightarrow> 'v WorkGateway \<Rightarrow> 'v WorkGateway \<Rightarrow> bool" where
  "mirrors X s u \<longleftrightarrow>
     gw_works u = gw_works s \<and> gw_execution_ids u = gw_execution_ids s \<and> gw_run_ids u = gw_run_ids s \<and>
     gw_run_metadata u = gw_run_metadata s \<and> gw_effects u = gw_effects s \<and> gw_pending u = gw_pending s \<and>
     gw_agent_bindings u = gw_agent_bindings s \<and> gw_active_bindings u = gw_active_bindings s \<and>
     gw_change_sets u = gw_change_sets s \<and> gw_heartbeats u = gw_heartbeats s \<and> gw_refusals u = gw_refusals s \<and>
     gw_reclaims u = gw_reclaims s \<and> gw_leases u = gw_leases s \<and> gw_events u = gw_events s \<and>
     gw_next_seq u = gw_next_seq s \<and>
     (\<forall>w r. run_state u w r = run_state s w r \<or>
            (w, r) \<in> X \<and> run_state s w r = Some WsReady \<and> run_state u w r = None)"

lemma mirrors_refl [simp]: "mirrors X s s"
  by (simp add: mirrors_def)

lemma mirrors_trans: "mirrors X s t \<Longrightarrow> mirrors Y t u \<Longrightarrow> mirrors (X \<union> Y) s u"
  unfolding mirrors_def by (simp add: Un_iff) metis

lemma mirrors_mono: "mirrors X s u \<Longrightarrow> X \<subseteq> Y \<Longrightarrow> mirrors Y s u"
  unfolding mirrors_def by (simp add: subset_iff) metis

lemma mirrors_run_state:
  "mirrors X s u \<Longrightarrow> run_state s w r \<noteq> Some WsReady \<Longrightarrow> run_state u w r = run_state s w r"
  by (auto simp: mirrors_def)

lemma mirrors_waiting:
  "mirrors X s u \<Longrightarrow> run_state u w r = Some WsWaitingApproval \<longleftrightarrow> run_state s w r = Some WsWaitingApproval"
  unfolding mirrors_def by (metis WorkState.distinct(1) option.distinct(1) option.inject WorkState.simps)

definition follows :: "(string \<times> string) set \<Rightarrow> ('v, 'a) gw \<Rightarrow> 'v WorkGateway \<Rightarrow> 'v WorkGateway \<Rightarrow> bool" where
  "follows X m s u \<longleftrightarrow> (\<forall>x t. m s = (Inr x, t) \<longrightarrow> (\<exists>t'. m u = (Inr x, t') \<and> mirrors X t t'))"

lemma follows_bind:
  "follows X m s u \<Longrightarrow> (\<And>x t t'. m s = (Inr x, t) \<Longrightarrow> mirrors X t t' \<Longrightarrow> follows X (f x) t t') \<Longrightarrow>
   follows X (gw_bind m f) s u"
  unfolding follows_def gw_bind_ok by blast

lemma follows_then:
  "follows X m s u \<Longrightarrow> (\<And>t t'. mirrors X t t' \<Longrightarrow> follows X n t t') \<Longrightarrow> follows X (gw_then m n) s u"
  unfolding gw_then_def by (rule follows_bind) auto

lemma follows_basic [simp]:
  "mirrors X s u \<Longrightarrow> follows X (gw_return x) s u" "mirrors X s u \<Longrightarrow> follows X (gw_check y) s u"
  "follows X (gw_fail e) s u"
  by (simp_all add: follows_def)

lemma follows_modify [intro]: "mirrors X (f s) (f u) \<Longrightarrow> follows X (gw_modify f) s u"
  by (simp add: follows_def)

section \<open>Projections respect the relation\<close>

named_theorems mirror_puts \<open>state changes that keep related states related\<close>

lemma mirrors_puts [mirror_puts]:
  assumes "mirrors X s u"
  shows "mirrors X (put_address w a s) (put_address w a u)" "mirrors X (remove_work w s) (remove_work w u)"
    "mirrors X (put_metadata w r m s) (put_metadata w r m u)" "mirrors X (put_effect w e x s) (put_effect w e x u)"
    "mirrors X (ensure_effects w s) (ensure_effects w u)" "mirrors X (put_pending w t v s) (put_pending w t v u)"
    "mirrors X (ensure_pending w s) (ensure_pending w u)" "mirrors X (drop_pending w t s) (drop_pending w t u)"
    "mirrors X (put_change_set c s) (put_change_set c u)" "mirrors X (count_refusal w rf s) (count_refusal w rf u)"
    "mirrors X (beat child n s) (beat child n u)" "mirrors X (put_binding i b s) (put_binding i b u)"
    "mirrors X (s\<lparr>gw_reclaims := bt_insert k rc (gw_reclaims s)\<rparr>) (u\<lparr>gw_reclaims := bt_insert k rc (gw_reclaims u)\<rparr>)"
    "mirrors X (s\<lparr>gw_pending := pd\<rparr>) (u\<lparr>gw_pending := pd\<rparr>)" "mirrors X (s\<lparr>gw_effects := ef\<rparr>) (u\<lparr>gw_effects := ef\<rparr>)"
    "mirrors X (s\<lparr>gw_leases := c'\<rparr>) (u\<lparr>gw_leases := c'\<rparr>)"
    "mirrors X (s\<lparr>gw_active_bindings := ab\<rparr>) (u\<lparr>gw_active_bindings := ab\<rparr>)"
    "mirrors X (s\<lparr>gw_agent_bindings := bs\<rparr>) (u\<lparr>gw_agent_bindings := bs\<rparr>)"
    "mirrors X (put_run_state w r st s) (put_run_state w r st u)"
  using assms
  by (simp_all add: mirrors_def put_address_def remove_work_def put_metadata_def put_effect_def ensure_effects_def
      put_pending_def ensure_pending_def drop_pending_def put_change_set_def count_refusal_def beat_def put_binding_def
      put_run_state_def run_state_def Let_def split: option.split)

text \<open>Tables that a replay does not rebuild.\<close>

lemma mirrors_volatile:
  "mirrors X (put_presence w p s) u \<longleftrightarrow> mirrors X s u" "mirrors X s (put_presence w p u) \<longleftrightarrow> mirrors X s u"
  "mirrors X (project_presence w r st wait s) u \<longleftrightarrow> mirrors X s u"
  "mirrors X s (project_presence w r st wait u) \<longleftrightarrow> mirrors X s u"
  "mirrors X (mark_review i v s) u \<longleftrightarrow> mirrors X s u" "mirrors X s (mark_review i v u) \<longleftrightarrow> mirrors X s u"
  "mirrors X (notify_subscribers E e s) u \<longleftrightarrow> mirrors X s u"
  "mirrors X (s\<lparr>gw_journal := l\<rparr>) u \<longleftrightarrow> mirrors X s u" "mirrors X s (u\<lparr>gw_journal := l\<rparr>) \<longleftrightarrow> mirrors X s u"
  "mirrors X s (replay_review_requested w i u) \<longleftrightarrow> mirrors X s u"
  "mirrors X (replay_review_requested w i s) u \<longleftrightarrow> mirrors X s u"
  by (auto simp: mirrors_def put_presence_def project_presence_def mark_review_def notify_subscribers_def
      replay_review_requested_def run_state_def split: option.split)

declare mirrors_volatile [simp]

lemma mirrors_note [mirror_puts]: "mirrors X s u \<Longrightarrow> mirrors X (note_run_reference w r s) (note_run_reference w r u)"
  unfolding mirrors_def note_run_reference_def Let_def run_ids_of_def put_address_def run_state_def
  by (simp split: option.split)

lemma note_twice [simp]: "note_run_reference w r (note_run_reference w r s) = note_run_reference w r s"
  by (cases "lookup (gw_works s) w") (simp_all add: note_run_reference_def Let_def run_ids_of_def put_address_def)

lemma replay_run_eq: "replay_run E w r st wait s = set_run_state (ge_json E) w r st wait s"
  by (simp add: replay_run_def set_run_state_def)

lemma mirrors_refusal: "mirrors X s u \<Longrightarrow> transition_refusal j u w r p st = transition_refusal j s w r p st"
  by (simp add: mirrors_def transition_refusal_def pending_approvals_for_run_def has_unresolved_uncertain_effect_def
      effect_statuses_def)

text \<open>A Run that the replay does not know may enter any state but a terminal one.\<close>

definition durable_end :: "(string \<times> string) set \<Rightarrow> 'v WorkGateway \<Rightarrow> string \<Rightarrow> string \<Rightarrow> WorkState \<Rightarrow> bool" where
  "durable_end X s w r st \<longleftrightarrow> work_is_terminal st \<and> (w, r) \<in> X \<longrightarrow> run_state s w r \<noteq> Some WsReady"

lemma set_run_state_ok:
  "set_run_state j w r st wait s = (Inr x, t) \<longleftrightarrow>
     run_allowed j s w r st \<and> t = project_presence w r st wait (put_run_state w r st (note_run_reference w r s))"
  by (auto simp: set_run_state_def run_allowed_def Let_def split: option.splits if_splits)

lemma follows_set_run_state:
  assumes "mirrors X s u" "durable_end X s w r st"
  shows "follows X (set_run_state j w r st wait) s u"
proof -
  have "run_allowed j u w r st" if "run_allowed j s w r st"
  proof (cases "run_state u w r = run_state s w r")
    case True
    with that mirrors_refusal [OF assms(1)] show ?thesis by (cases "run_state s w r") (simp_all add: run_allowed_def)
  next
    case False
    then have "(w, r) \<in> X" "run_state s w r = Some WsReady" "run_state u w r = None"
      using assms(1) unfolding mirrors_def by blast+
    with assms(2) show ?thesis by (auto simp: run_allowed_def durable_end_def)
  qed
  then show ?thesis
    using assms(1) by (auto simp: follows_def set_run_state_ok intro!: mirror_puts)
qed

lemma follows_approvals:
  assumes "mirrors X s u"
  shows "follows X (replay_approval_requested j w t run tool args risk at_ms) s u"
    "follows X (replay_approval_resolved j w t run approved) s u"
proof -
  have eqs: "gw_pending u = gw_pending s" "gw_run_ids u = gw_run_ids s" "gw_execution_ids u = gw_execution_ids s"
    using assms by (simp_all add: mirrors_def)
  have wait: "run_state u w r = Some WsWaitingApproval \<longleftrightarrow> run_state s w r = Some WsWaitingApproval" for r
    using assms by (rule mirrors_waiting)
  have owner: "approval_event_run_id u w run = approval_event_run_id s w run"
    by (simp add: approval_event_run_id_def execution_id_def run_ids_of_def eqs cong: option.case_cong)
  show "follows X (replay_approval_requested j w t run tool args risk at_ms) s u"
    using assms unfolding follows_def replay_approval_requested_def owner wait Let_def
    by (auto simp: pending_approval_def ensure_pending_def eqs intro: mirror_puts split: if_splits sum.splits option.splits)
  have "resolution_refusal j u w t run = resolution_refusal j s w t run"
    unfolding resolution_refusal_def pending_approval_def run_ids_of_def eqs wait ..
  then show "follows X (replay_approval_resolved j w t run approved) s u"
    using assms by (auto simp: follows_def replay_approval_resolved_def intro!: mirror_puts split: option.splits)
qed

lemma follows_effects:
  assumes "mirrors X s u"
  shows "mirrors X (apply_effect_attempt w e grant cls sq s) (apply_effect_attempt w e grant cls sq u)"
    "follows X (apply_effect_observed w e outc sq) s u" "follows X (apply_effect_verified w e ok sq) s u"
    "follows X (apply_effect_uncertain w e reason cls sq) s u" "follows X (apply_effect_reconciled w e outc safe sq) s u"
  using assms mirrors_puts [OF assms]
  by (auto simp: follows_def effect_defs effect_status_def mirrors_def Let_def split: option.splits if_splits)

lemma follows_work_update:
  assumes "mirrors X s u"
  shows "follows X (apply_work_update j w patch) s u"
proof -
  have ex: "follows X (update_execution j w patch a) s u" if "mirrors X s u" for a and s u :: "'a WorkGateway"
    using that by (auto simp: follows_def update_execution_def intro: mirror_puts split: option.splits if_splits)
  have meta: "run_metadata_of (note_run_reference w r u) w r = run_metadata_of (note_run_reference w r s) w r"
    if "mirrors X s u" for r and s u :: "'a WorkGateway"
    using mirrors_note [OF that, of w r] by (simp add: mirrors_def run_metadata_of_def)
  have run: "follows X (update_run j w patch) s u" if "mirrors X s u" for s u :: "'a WorkGateway"
    using that by (auto simp: follows_def update_run_def Let_def meta [OF that] intro!: mirror_puts
        split: option.splits prod.splits)
  have store: "mirrors X (store_update j w patch a s) (store_update j w patch a u)" if "mirrors X s u"
    for a and s u :: "'a WorkGateway"
    using that by (auto simp: store_update_def intro: mirror_puts)
  have "lookup (gw_works u) w = lookup (gw_works s) w"
    using assms by (simp add: mirrors_def)
  moreover have "follows X (gw_bind (update_execution j w patch a0) (\<lambda>a1. gw_then (update_run j w patch)
      (gw_bind (gw_check (update_address j patch a1)) (\<lambda>a2. gw_modify (store_update j w patch a2))))) s u" for a0
    using assms by (intro follows_bind follows_then ex run) (auto intro: store)
  ultimately show ?thesis
    by (cases "lookup (gw_works s) w") (simp_all add: follows_def apply_work_update_def)
qed

lemma follows_created:
  assumes "mirrors X s u"
  shows "follows X (replay_created E w c) s u"
proof -
  have "has_work u w = has_work s w"
    using assms by (simp add: mirrors_def has_work_def)
  then show ?thesis
    using assms by (auto simp: follows_def replay_created_def Let_def intro!: mirror_puts split: sum.splits option.splits if_splits)
qed

lemma follows_project:
  assumes "mirrors X s u"
  shows "follows X (project_p69g2_event E w sq ev rec) s u"
proof -
  have "follows X (apply_lease_fact E sq f rec) s u" if "mirrors X s u" for f and s u :: "'a WorkGateway"
    using that mirrors_puts(16) [OF that]
    by (auto simp: follows_def apply_lease_fact_def mirrors_def split: prod.splits sum.splits)
  with assms show ?thesis
    unfolding project_p69g2_event_def
    by (intro follows_then) (auto intro: mirror_puts split: WorkEvent.split DomainEvent.split)
qed

lemma follows_bindings:
  assumes "mirrors X s u"
  shows "follows X (replay_binding_created w sq b) s u" "follows X (replay_binding_active w sq i sid) s u"
    "follows X (replay_binding_suspended w sq i) s u" "follows X (replay_binding_usage w sq i usage) s u"
proof -
  have eqs: "gw_agent_bindings u = gw_agent_bindings s" "gw_active_bindings u = gw_active_bindings s"
    using assms by (simp_all add: mirrors_def)
  have own: "owned_binding u w i = owned_binding s w i"
    by (simp add: owned_binding_def eqs)
  have addr: "mirrors X (set_address_binding w x s) (set_address_binding w x u)" if "mirrors X s u" for x and s u :: "'a WorkGateway"
    using that by (auto simp: set_address_binding_def mirrors_def put_address_def run_state_def split: option.split)
  show "follows X (replay_binding_created w sq b) s u" "follows X (replay_binding_usage w sq i usage) s u"
    using assms by (auto simp: follows_def replay_binding_created_def replay_binding_usage_def own intro: mirror_puts split: sum.splits)
  show "follows X (replay_binding_active w sq i sid) s u" "follows X (replay_binding_suspended w sq i) s u"
    using assms
    by (auto simp: follows_def replay_binding_active_def replay_binding_suspended_def own Let_def eqs put_binding_def
        intro!: addr mirror_puts split: sum.splits)
qed

lemma follows_checkpointed:
  assumes "mirrors X s u"
  shows "follows X (replay_checkpointed E w r n) s u"
proof -
  have "follows X (gw_modify (\<lambda>s. let m = (case run_metadata_of s w r of None \<Rightarrow> [] | Some m \<Rightarrow> m)
          in put_metadata w r (bt_insert ''checkpoint'' (j_num (ge_json E) n) m) s)) s u"
    if "mirrors X s u" for s u :: "'a WorkGateway"
  proof -
    have "run_metadata_of u w r = run_metadata_of s w r"
      using that by (simp add: mirrors_def run_metadata_of_def)
    with that show ?thesis by (intro follows_modify) (auto simp: Let_def intro: mirror_puts)
  qed
  moreover have "follows X (replay_run E w r WsCheckpointed None) s u"
    using follows_set_run_state [OF assms, of w r WsCheckpointed "ge_json E" None]
    by (simp add: follows_def replay_run_eq durable_end_def work_is_terminal_def)
  ultimately show ?thesis
    unfolding replay_checkpointed_def by (intro follows_then)
qed

lemma follows_domain:
  assumes "mirrors X s u"
    and "\<And>r st. run_event_state (Domain d) = Some (r, st) \<Longrightarrow> durable_end X s w r st"
  shows "follows X (replay_domain E w sq d) s u"
proof -
  have "follows X (replay_run E w r st wait) s u" if "run_event_state (Domain d) = Some (r, st)" for r st wait
    using follows_set_run_state [OF assms(1) assms(2) [OF that]] by (simp add: follows_def replay_run_eq)
  then show ?thesis
    using assms(1)
    by (cases d) (auto simp: replay_domain_def run_event_state_def follows_created follows_work_update follows_checkpointed
        follows_approvals follows_effects follows_project intro: mirror_puts split: option.split)
qed

lemma follows_event:
  assumes "mirrors X s u"
    and "\<And>r st. run_event_state (we_event e) = Some (r, st) \<Longrightarrow> durable_end X s (we_work_id e) r st"
  shows "follows X (replay_event E e) s u"
proof -
  have hw: "has_work u w = has_work s w" for w
    using assms(1) by (simp add: mirrors_def has_work_def)
  have pres: "mirrors X (attach_presence w c s) (attach_presence w c u)" "mirrors X (detach_presence w c s) (detach_presence w c u)" for w c
    using assms(1) by (simp_all add: attach_presence_def detach_presence_def Let_def split: option.split)
  have dom: "follows X (replay_domain E (we_work_id e) sq d) s u" if "we_event e = Domain d" for sq d
    using assms that by (intro follows_domain) simp_all
  show ?thesis
    using assms(1) dom pres follows_bindings [OF assms(1)] hw
    by (auto simp: follows_def replay_event_def Let_def split: WorkEvent.splits OperationalEvent.splits RuntimeEvent.splits)
qed

section \<open>The loading loop\<close>

definition line_of :: "'v WorkEventEnvelope \<Rightarrow> 'v WorkEventEnvelope" where
  "line_of e = (if we_schema_version e = 0 then e\<lparr>we_schema_version := CANONICAL_SCHEMA_VERSION\<rparr> else e)"

definition numbered_for :: "nat \<Rightarrow> 'v WorkGateway \<Rightarrow> 'v WorkGateway" where
  "numbered_for sq s = (if gw_next_seq s \<le> sq then s\<lparr>gw_next_seq := sq + 1\<rparr> else s)"

definition line_accepted :: "'v WorkEventEnvelope \<Rightarrow> nat option \<Rightarrow> 'v WorkGateway \<Rightarrow> bool" where
  "line_accepted e seen s \<longleftrightarrow>
     we_schema_version e \<le> CANONICAL_SCHEMA_VERSION \<and> (case seen of None \<Rightarrow> True | Some prev \<Rightarrow> prev < we_sequence e) \<and>
     \<not> (gw_next_seq s \<le> we_sequence e \<and> u64_max \<le> we_sequence e) \<and>
     \<not> list_ex (\<lambda>(_, es). list_ex (\<lambda>x. we_sequence x = we_sequence e) es) (gw_events s)"

lemma line_of_simps [simp]:
  "we_sequence (line_of e) = we_sequence e" "we_work_id (line_of e) = we_work_id e" "we_event (line_of e) = we_event e"
  by (simp_all add: line_of_def)

lemma open_step_iff:
  "open_step E e seen s = (Inr q, t) \<longleftrightarrow>
     line_accepted e seen s \<and> q = Some (we_sequence e) \<and>
     replay_event E (line_of e) (push_event (line_of e) (numbered_for (we_sequence e) s)) = (Inr (), t)"
proof -
  have ev: "gw_events (numbered_for n s) = gw_events s" for n
    by (simp add: numbered_for_def)
  have seen: "(case seen of None \<Rightarrow> False | Some prev \<Rightarrow> we_sequence e \<le> prev) \<longleftrightarrow>
      \<not> (case seen of None \<Rightarrow> True | Some prev \<Rightarrow> prev < we_sequence e)"
    by (auto split: option.split)
  show ?thesis
    unfolding open_step_def Let_def line_of_def [symmetric] numbered_for_def [symmetric] line_of_simps seen ev
    by (auto simp: line_accepted_def split: bool.splits prod.splits sum.splits)
qed

lemma open_step_follows:
  assumes "mirrors {} s u" "open_step E e seen s = (Inr q, t)"
  shows "\<exists>t'. open_step E e seen u = (Inr q, t') \<and> mirrors {} t t'"
proof -
  let ?push = "\<lambda>v. push_event (line_of e) (numbered_for (we_sequence e) v)"
  have "mirrors {} (?push s) (?push u)"
    using assms(1) by (auto simp: mirrors_def push_event_def numbered_for_def events_of_def run_state_def)
  then have "follows {} (replay_event E (line_of e)) (?push s) (?push u)"
    by (rule follows_event) (simp add: durable_end_def)
  moreover have "line_accepted e seen u = line_accepted e seen s"
    using assms(1) by (simp add: line_accepted_def mirrors_def)
  ultimately show ?thesis
    using assms(2) by (auto simp: open_step_iff follows_def)
qed

lemma open_loop_follows:
  "open_loop E ls seen s = Inr t \<Longrightarrow> mirrors {} s u \<Longrightarrow> \<exists>t'. open_loop E ls seen u = Inr t' \<and> mirrors {} t t'"
proof (induction ls arbitrary: seen s u)
  case (Cons e es)
  obtain q s' where st: "open_step E e seen s = (Inr q, s')" and rest: "open_loop E es q s' = Inr t"
    using Cons.prems(1) by (auto split: prod.splits sum.splits)
  obtain u' where "open_step E e seen u = (Inr q, u')" "mirrors {} s' u'"
    using open_step_follows [OF Cons.prems(2) st] by blast
  with Cons.IH [OF rest] show ?case by simp
qed simp

text \<open>Loading more lines continues from the state the first ones gave.\<close>

lemma open_loop_more:
  assumes "open_loop E ls seen s = Inr t" "loading_ok seen s"
  shows "\<exists>q. loading_ok q t \<and> (\<forall>es. open_loop E (ls @ es) seen s = open_loop E es q t)"
  using assms
proof (induction ls arbitrary: seen s)
  case (Cons e es)
  obtain q s' where st: "open_step E e seen s = (Inr q, s')" and rest: "open_loop E es q s' = Inr t"
    using Cons.prems(1) by (auto split: prod.splits sum.splits)
  with Cons.IH [OF rest open_step_ok(1) [OF st Cons.prems(2)]] show ?case by simp
qed auto

text \<open>Every number of the log is below the counter, also in entries that a lookup does not reach.\<close>

definition counted :: "'v WorkGateway \<Rightarrow> bool" where
  "counted s \<longleftrightarrow> (\<forall>p \<in> set (gw_events s). \<forall>e \<in> set (snd p). we_sequence e < gw_next_seq s)"

lemma open_step_counted:
  assumes "open_step E e seen s = (Inr q, t)" "loading_ok seen s" "counted s"
  shows "counted t"
proof -
  let ?v = "push_event (line_of e) (numbered_for (we_sequence e) s)"
  have "gw_next_seq s \<le> we_sequence e"
    using assms(1,2) by (auto simp: open_step_iff line_accepted_def loading_ok_def split: option.splits)
  moreover have "we_sequence x < gw_next_seq s" if "x \<in> set (events_of s w)" for x w
    using assms(2) that by (auto simp: loading_ok_def log_ok_def)
  ultimately have "counted ?v"
    using assms(3) set_bt_insert [of "we_work_id e"]
    by (fastforce simp: counted_def push_event_def numbered_for_def events_of_def)
  moreover have "replays ?v t"
    using assms(1) replays_event [of ?v E "line_of e"] by (simp add: open_step_iff)
  ultimately show ?thesis by (simp add: counted_def replays_def)
qed

lemma open_loop_counted:
  "open_loop E ls seen s = Inr t \<Longrightarrow> loading_ok seen s \<Longrightarrow> counted s \<Longrightarrow> counted t"
  by (induction ls arbitrary: seen s)
    (auto split: prod.splits sum.splits dest: open_step_counted open_step_ok(1))

section \<open>Works named by an event\<close>

text \<open>Replaying an event changes the address of its own Work only, so no Work gets an empty id.\<close>

definition only_work :: "string \<Rightarrow> 'v WorkGateway \<Rightarrow> 'v WorkGateway \<Rightarrow> bool" where
  "only_work w s t \<longleftrightarrow> (\<forall>x. x \<noteq> w \<longrightarrow> lookup (gw_works t) x = lookup (gw_works s) x)"

lemma only_work_same: "gw_works t = gw_works s \<Longrightarrow> only_work w s t"
  by (simp add: only_work_def)

lemma only_work_bind:
  "only_work w s (snd (m s)) \<Longrightarrow> (\<And>x t. only_work w t (snd (f x t))) \<Longrightarrow> only_work w s (snd (gw_bind m f s))"
  by (auto simp: gw_bind_def only_work_def split: prod.split sum.split)

lemma only_work_then:
  "only_work w s (snd (m s)) \<Longrightarrow> (\<And>t. only_work w t (snd (n t))) \<Longrightarrow> only_work w s (snd (gw_then m n s))"
  unfolding gw_then_def by (rule only_work_bind)

lemma only_work_puts:
  "only_work w s (put_address w a s)" "only_work w s (remove_work w s)" "only_work w s (note_run_reference w r s)"
  by (simp_all add: only_work_def put_address_def remove_work_def note_work)

lemma only_work_set_run_state: "only_work w s (snd (set_run_state j w r st wait s))"
  using only_work_puts(3) [of w s r]
  by (simp add: set_run_state_def Let_def only_work_def project_presence_def put_presence_def put_run_state_def split: option.split)

lemma only_work_update: "only_work w s (snd (apply_work_update j w patch s))"
proof -
  have "only_work w t (snd (update_execution j w patch a t))" "only_work w t (snd (update_run j w patch t))"
    "only_work w t (store_update j w patch a t)" for a t
    using only_work_puts [of w t]
    by (auto simp: update_execution_def update_run_def store_update_def put_metadata_def only_work_def Let_def
        split: option.split prod.split)
  then have "only_work w s (snd (gw_bind (update_execution j w patch a0) (\<lambda>a1. gw_then (update_run j w patch)
      (gw_bind (gw_check (update_address j patch a1)) (\<lambda>a2. gw_modify (store_update j w patch a2)))) s))" for a0
    by (intro only_work_bind only_work_then) (simp_all add: only_work_same)
  then show ?thesis
    by (auto simp: apply_work_update_def only_work_same split: option.split)
qed

lemma only_work_event: "only_work (we_work_id e) s (snd (replay_event E e s))"
proof -
  let ?w = "we_work_id e"
  have created: "only_work w s (snd (replay_created E w c s))" for w c
    using only_work_puts(1) [of w s] only_work_puts(3) [of w]
    by (auto simp: replay_created_def only_work_def put_presence_def put_metadata_def Let_def put_address_def note_work
        split: sum.split option.split)
  have check: "only_work w s (snd (replay_checkpointed E w r n s))" for w r n
    unfolding replay_checkpointed_def replay_run_eq [abs_def]
    by (intro only_work_then only_work_set_run_state) (simp add: only_work_same put_metadata_def Let_def)
  have appr: "gw_works (snd (replay_approval_requested j w t run tool args risk at_ms s)) = gw_works s"
    "gw_works (snd (replay_approval_resolved j w t run approved s)) = gw_works s" for j w t run tool args risk at_ms approved
    by (auto simp: replay_approval_requested_def replay_approval_resolved_def ensure_pending_def put_pending_def
        drop_pending_def mark_review_def Let_def split: sum.split option.split)
  have eff: "gw_works (snd (apply_effect_observed w i outc sq s)) = gw_works s" "gw_works (snd (apply_effect_verified w i ok sq s)) = gw_works s"
    "gw_works (snd (apply_effect_uncertain w i reason cls sq s)) = gw_works s" "gw_works (snd (apply_effect_reconciled w i outc ok sq s)) = gw_works s"
    "gw_works (apply_effect_attempt w i grant cls sq s) = gw_works s" for w i outc ok reason cls sq grant
    by (auto simp: effect_defs Let_def split: option.split)
  have proj: "gw_works (snd (project_p69g2_event E w sq ev rec s)) = gw_works s" for w sq ev rec
    by (auto simp: project_p69g2_event_def gw_then_def gw_bind_def put_change_set_def count_refusal_def beat_def
        apply_lease_fact_def Let_def split: WorkEvent.split DomainEvent.split prod.split sum.split)
  have dom: "only_work ?w s (snd (replay_domain E ?w sq d s))" for sq d
    by (cases d) (auto simp: replay_domain_def replay_run_eq created check only_work_update only_work_set_run_state
        replay_review_requested_def intro!: only_work_same appr eff proj split: option.split)
  have bind: "only_work ?w s (snd (replay_binding_created ?w sq b s))" "only_work ?w s (snd (replay_binding_active ?w sq i sid s))"
    "only_work ?w s (snd (replay_binding_suspended ?w sq i s))" "only_work ?w s (snd (replay_binding_usage ?w sq i u s))" for sq b i sid u
    by (auto simp: replay_binding_created_def replay_binding_active_def replay_binding_suspended_def replay_binding_usage_def
        put_binding_def set_address_binding_def put_address_def only_work_def Let_def split: sum.split option.split)
  have pres: "gw_works (attach_presence w c s) = gw_works s" "gw_works (detach_presence w c s) = gw_works s" for w c
    by (simp_all add: attach_presence_def detach_presence_def put_presence_def Let_def split: option.split)
  show ?thesis
    by (simp add: replay_event_def Let_def dom bind only_work_same pres
        split: WorkEvent.split OperationalEvent.split RuntimeEvent.split)
qed

lemma open_loop_named:
  "open_loop E ls seen s = Inr t \<Longrightarrow> \<not> has_work s [] \<Longrightarrow> \<not> has_work t []"
proof (induction ls arbitrary: seen s)
  case (Cons e es)
  obtain q s' where st: "open_step E e seen s = (Inr q, s')" and rest: "open_loop E es q s' = Inr t"
    using Cons.prems(1) by (auto split: prod.splits sum.splits)
  have r: "replay_event E (line_of e) (push_event (line_of e) (numbered_for (we_sequence e) s)) = (Inr (), s')"
    using st by (simp add: open_step_iff)
  then have "we_work_id e \<noteq> []"
    by (auto simp: replay_event_def)
  with r only_work_event [of "line_of e" "push_event (line_of e) (numbered_for (we_sequence e) s)" E]
  have "lookup (gw_works s') [] = lookup (gw_works s) []"
    by (simp add: only_work_def push_event_def numbered_for_def split: if_splits)
  with Cons.prems(2) Cons.IH [OF rest] show ?case by (simp add: has_work_def)
qed simp

end
