(* ===== verification/Work_Rebuild.thy ===== *)
theory Work_Rebuild
  imports Work_Replay
begin

text \<open>
  The calls of the gateway against its journal: a call that journals an event leaves the state that
  replaying the event gives (\<open>journals\<close>), so a gateway whose journal rebuilds it (\<open>rebuilt\<close>) stays so.
\<close>

section \<open>One journalled step\<close>

definition journals :: "'v GwEnv \<Rightarrow> 'v WorkGateway \<Rightarrow> 'v WorkGateway \<Rightarrow> bool" where
  "journals E s t \<longleftrightarrow> (\<exists>e v.
     gw_journal t = map_option (\<lambda>ls. ls @ [JtRecord e]) (gw_journal s) \<and> we_schema_version e = CANONICAL_SCHEMA_VERSION \<and>
     we_sequence e = gw_next_seq s \<and> gw_next_seq s < u64_max \<and>
     replay_event E e (commit_event e s) = (Inr (), v) \<and> mirrors UNIV t v \<and>
     (\<forall>r st. run_event_state (we_event e) = Some (r, st) \<longrightarrow> durable_end UNIV s (we_work_id e) r st))"

definition rebuilt :: "'v GwEnv \<Rightarrow> 'v WorkGateway \<Rightarrow> bool" where
  "rebuilt E s \<longleftrightarrow> \<not> has_work s [] \<and>
     (\<exists>file es u. gw_journal s = Some file \<and> terminated file \<and> journal_records E file = Some es \<and>
        open_loop E es None (gateway_new\<lparr>gw_journal := Some file\<rparr>) = Inr u \<and> mirrors UNIV s u)"

lemma mirrors_sym: "mirrors {} s u \<Longrightarrow> mirrors {} u s"
  by (simp add: mirrors_def)

lemma mirrors_commit: "mirrors X s u \<Longrightarrow> mirrors X (commit_event e s) (commit_event e u)"
  by (simp add: mirrors_def commit_event_def push_event_def events_of_def run_state_def)

lemma durable_end_commit [simp]: "durable_end X (commit_event e s) w r st = durable_end X s w r st"
  by (simp add: durable_end_def commit_event_def push_event_def run_state_def)

lemma mirrors_UNIV: "mirrors X s t \<Longrightarrow> mirrors Y t u \<Longrightarrow> mirrors UNIV s u"
  by (rule mirrors_mono [OF mirrors_trans]) auto

lemma journals_rebuilt:
  assumes "journals E s t" "rebuilt E s"
  shows "rebuilt E t"
proof -
  obtain e v where e: "gw_journal t = map_option (\<lambda>ls. ls @ [JtRecord e]) (gw_journal s)"
      "we_schema_version e = CANONICAL_SCHEMA_VERSION" "we_sequence e = gw_next_seq s" "gw_next_seq s < u64_max"
      "mirrors UNIV t v" "\<And>r st. run_event_state (we_event e) = Some (r, st) \<Longrightarrow> durable_end UNIV s (we_work_id e) r st"
    and v: "replay_event E e (commit_event e s) = (Inr (), v)"
    using assms(1) unfolding journals_def by blast
  obtain fl ls u where u: "\<not> has_work s []" "gw_journal s = Some fl"
      "open_loop E ls None (gateway_new\<lparr>gw_journal := Some fl\<rparr>) = Inr u" "mirrors UNIV s u"
    and whole: "terminated fl" "journal_records E fl = Some ls"
    using assms(2) unfolding rebuilt_def by blast
  let ?start = "gateway_new\<lparr>gw_journal := Some (fl @ [JtRecord e])\<rparr>"
  obtain u2 where u2: "open_loop E ls None ?start = Inr u2" "mirrors {} u u2"
    using open_loop_follows [OF u(3)] by (metis mirrors_refl mirrors_volatile(8,9))
  have m: "mirrors UNIV s u2" by (rule mirrors_UNIV [OF u(4) u2(2)])
  obtain q where q: "loading_ok q u2" "\<And>es. open_loop E (ls @ es) None ?start = open_loop E es q u2"
    using open_loop_more [OF u2(1) loading_start] by blast
  have c: "counted u2"
    by (rule open_loop_counted [OF u2(1) loading_start]) (simp add: counted_def gateway_new_def)
  have sq: "we_sequence e = gw_next_seq u2"
    using e(3) m by (simp add: mirrors_def)
  have "\<not> list_ex (\<lambda>(_, es). list_ex (\<lambda>x. we_sequence x = we_sequence e) es) (gw_events u2)"
    using c unfolding counted_def sq list_ex_iff by force
  moreover have "gw_next_seq u2 < u64_max"
    using e(3,4) sq by simp
  ultimately have acc: "line_accepted e q u2"
    using q(1) e(2) sq by (auto simp: line_accepted_def loading_ok_def split: option.splits)
  have "follows UNIV (replay_event E e) (commit_event e s) (commit_event e u2)"
    by (rule follows_event [OF mirrors_commit [OF m]]) (simp add: e(6))
  then obtain v2 where v2: "replay_event E e (commit_event e u2) = (Inr (), v2)" "mirrors UNIV v v2"
    using v by (auto simp: follows_def)
  moreover have "line_of e = e" "push_event e (numbered_for (we_sequence e) u2) = commit_event e u2"
    using e(2) sq by (simp_all add: line_of_def numbered_for_def commit_event_def)
  ultimately have "open_loop E (ls @ [e]) None ?start = Inr v2"
    using acc q(2) by (simp add: open_step_iff [THEN iffD2])
  moreover have "mirrors UNIV t v2" by (rule mirrors_UNIV [OF e(5) v2(2)])
  moreover have "\<not> has_work t []"
  proof -
    have "we_work_id e \<noteq> []" using v by (auto simp: replay_event_def)
    then have "lookup (gw_works v) [] = lookup (gw_works s) []"
      using only_work_event [of e "commit_event e s" E] v by (simp add: only_work_def commit_event_def push_event_def)
    with u(1) e(5) show ?thesis by (simp add: has_work_def mirrors_def)
  qed
  ultimately show ?thesis
    using e(1) u(2) records_append [OF whole] by (auto simp: rebuilt_def)
qed

section \<open>Calls that journal\<close>

text \<open>An acknowledged append leaves the projections of its event on the committed state.\<close>

lemma append_projects:
  assumes "append_event E w ev c s = (Inr e, t)"
  obtains v1 v2 where "project_update E w ev (commit_event e s) = (Inr (), v1)"
    "project_p69g2_event E w (we_sequence e) ev False v1 = (Inr (), v2)" "mirrors {} t v2"
proof -
  obtain s1 s2 s3 where st: "write_journal E e s = (Inr (), s1)" "project_update E w ev (commit_event e s1) = (Inr (), s2)"
    "project_p69g2_event E w (we_sequence e) ev False s2 = (Inr (), s3)" "t = notify_subscribers E e s3"
    using append_ok_stages [OF assms] .
  have "mirrors {} s1 s"
    using write_journal_cases [OF st(1)] by auto
  then have m: "mirrors {} (commit_event e s1) (commit_event e s)"
    by (rule mirrors_commit)
  then have "follows {} (project_update E w ev) (commit_event e s1) (commit_event e s)"
    by (auto simp: project_update_def follows_work_update split: WorkEvent.split DomainEvent.split)
  then obtain v1 where v1: "project_update E w ev (commit_event e s) = (Inr (), v1)" "mirrors {} s2 v1"
    using st(2) by (auto simp: follows_def)
  then obtain v2 where "project_p69g2_event E w (we_sequence e) ev False v1 = (Inr (), v2)" "mirrors {} s3 v2"
    using follows_project [OF v1(2), of E w "we_sequence e" ev False] st(3) by (auto simp: follows_def)
  with v1 st(4) show ?thesis by (intro that) simp_all
qed

lemma journalsI:
  assumes "append_event D w ev c s = (Inr e, t0)" "replay_event E e (commit_event e s) = (Inr (), v)"
    and "mirrors UNIV t v" "gw_journal t = gw_journal t0"
    and "\<And>r st. run_event_state ev = Some (r, st) \<Longrightarrow> durable_end UNIV s w r st"
  shows "journals E s t"
proof -
  have "e = envelope_for D w ev c (gw_next_seq s)" "gw_next_seq s < u64_max"
    using append_ok(1,3) [OF assms(1)] append_refusal_ok by auto
  with assms append_effects(4) [OF assms(1)] show ?thesis
    unfolding journals_def by (intro exI [of _ e] exI [of _ v]) (simp add: envelope_for_def)
qed

text \<open>The replay of an event other than a lease fact takes only the JSON library from its environment.\<close>

definition lease_fact :: "'v WorkEvent \<Rightarrow> bool" where
  "lease_fact ev = (case ev of Domain (DelegationLeaseFact _ _) \<Rightarrow> True | _ \<Rightarrow> False)"

lemma project_env:
  assumes "ge_json D = ge_json E" "\<not> lease_fact ev"
  shows "project_p69g2_event D w sq ev rec' = project_p69g2_event E w sq ev rec"
proof -
  have "validate_p69g2_event D w ev = validate_p69g2_event E w ev"
    using assms(2) by (auto simp: validate_p69g2_event_def lease_fact_def Let_def split: WorkEvent.split DomainEvent.split)
  with assms(2) show ?thesis
    by (auto simp: project_p69g2_event_def lease_fact_def split: WorkEvent.split DomainEvent.split)
qed

lemma replay_env:
  assumes "ge_json D = ge_json E" "\<not> lease_fact (we_event e)"
  shows "replay_event D e s = replay_event E e s"
proof -
  have "replay_created D w c = replay_created E w c" "replay_run D w r st wait = replay_run E w r st wait"
    "replay_checkpointed D w r n = replay_checkpointed E w r n" for w c r st wait n
    unfolding replay_created_def [abs_def] replay_run_def [abs_def] replay_checkpointed_def [abs_def] assms(1) by (rule refl)+
  then have "replay_domain D w sq d s = replay_domain E w sq d s" if "we_event e = Domain d" for w sq d
    using assms that project_env [OF assms(1), of "Domain d" w sq True True]
    by (cases d) (simp_all add: replay_domain_def lease_fact_def split: option.split)
  then show ?thesis
    by (simp add: replay_event_def Let_def split: WorkEvent.split)
qed

text \<open>Events whose whole effect is projected by \<open>append\<close> itself.\<close>

definition projected :: "'v WorkEvent \<Rightarrow> bool" where
  "projected ev =
     (case ev of
        Domain d \<Rightarrow>
          (case d of
             WorkUpdated _ \<Rightarrow> True | FileChangeSetCaptured _ \<Rightarrow> True | FileChangeSetSettled _ \<Rightarrow> True
           | DelegationRefused _ \<Rightarrow> True | SubagentHeartbeat _ _ \<Rightarrow> True | SubagentLeaseReclaimed _ \<Rightarrow> True
           | ArtifactCreated _ \<Rightarrow> True | ArtifactUpdated _ \<Rightarrow> True | _ \<Rightarrow> False)
      | Runtime x \<Rightarrow>
          (case x of
             AgentBindingCreated _ \<Rightarrow> False | AgentBindingActivated _ _ \<Rightarrow> False | AgentBindingResumed _ _ \<Rightarrow> False
           | AgentBindingSuspended _ \<Rightarrow> False | AgentBindingUsageRecorded _ _ \<Rightarrow> False | _ \<Rightarrow> True)
      | _ \<Rightarrow> True)"

lemma projected_plain: "projected ev \<Longrightarrow> \<not> lease_fact ev \<and> run_event_state ev = None \<and> \<not> is_creation ev"
  by (auto simp: projected_def lease_fact_def run_event_state_def is_creation_def split: WorkEvent.splits DomainEvent.splits)

lemma replay_projected:
  assumes "projected (we_event e)" "we_work_id e \<noteq> []" "has_work c (we_work_id e)"
    and "project_update E (we_work_id e) (we_event e) c = (Inr (), v1)"
    and "project_p69g2_event E (we_work_id e) (we_sequence e) (we_event e) False v1 = (Inr (), v2)"
  shows "\<exists>v. replay_event E e c = (Inr (), v) \<and> mirrors {} v2 v"
proof -
  have pres: "mirrors {} s (attach_presence w x s)" "mirrors {} s (detach_presence w x s)" for w x and s :: "'a WorkGateway"
    by (simp_all add: attach_presence_def detach_presence_def Let_def split: option.split)
  have triv: "project_p69g2_event E w sq (Domain d) b = gw_return ()"
    if "d = WorkUpdated p \<or> d = ArtifactCreated i \<or> d = ArtifactUpdated i" for w sq d b p i
    using that by (auto simp: project_p69g2_event_def validate_p69g2_event_def gw_then_def gw_bind_def gw_return_def gw_check_def)
  note proj = project_env [of E E "we_event e" "we_work_id e" "we_sequence e" False True]
  from assms proj projected_plain [OF assms(1)] show ?thesis
    by (cases "we_event e") (auto simp: projected_def replay_event_def [unfolded Let_def] replay_domain_def project_update_def
        project_trivial [unfolded semantic_def] triv pres
        split: DomainEvent.splits OperationalEvent.splits RuntimeEvent.splits)
qed

lemma journals_append:
  assumes "append_event D w ev c s = (Inr e, t)" "projected ev" "ge_json D = ge_json E" "\<not> has_work s []"
  shows "journals E s t"
proof -
  have e: "we_event e = ev" "we_work_id e = w" "has_work s w"
    using append_ok(1,2) [OF assms(1)] by simp_all
  then have "w \<noteq> []" using assms(4) by auto
  have hw: "has_work (commit_event e s) w"
    using e(3) by (simp add: has_work_def commit_event_def push_event_def)
  obtain v1 v2 where st: "project_update D w ev (commit_event e s) = (Inr (), v1)"
    "project_p69g2_event D w (we_sequence e) ev False v1 = (Inr (), v2)" "mirrors {} t v2"
    using append_projects [OF assms(1)] .
  have "project_update E w ev (commit_event e s) = (Inr (), v1)"
    using st(1) assms(3) by (simp add: project_update_def split: WorkEvent.splits DomainEvent.splits)
  moreover have "project_p69g2_event E w (we_sequence e) ev False v1 = (Inr (), v2)"
    using st(2) project_env [OF assms(3)] projected_plain [OF assms(2)] by metis
  ultimately obtain v where v: "replay_event E e (commit_event e s) = (Inr (), v)" "mirrors {} v2 v"
    using replay_projected [of e "commit_event e s" E v1 v2] assms(2) e \<open>w \<noteq> []\<close> hw by auto
  show ?thesis
    using projected_plain [OF assms(2)]
    by (intro journalsI [OF assms(1) v(1) mirrors_UNIV [OF st(3) v(2)]]) simp_all
qed

text \<open>Events that the caller replays after the append.\<close>

definition replayed :: "'v WorkEvent \<Rightarrow> bool" where
  "replayed ev =
     (case ev of
        Domain d \<Rightarrow>
          (case d of
             ApprovalRequested _ _ _ _ _ _ \<Rightarrow> True | ApprovalResolved _ _ _ \<Rightarrow> True | EffectAttempted _ _ _ \<Rightarrow> True
           | EffectObserved _ _ \<Rightarrow> True | EffectVerified _ _ \<Rightarrow> True | EffectUncertain _ _ _ \<Rightarrow> True
           | EffectReconciled _ _ _ \<Rightarrow> True | _ \<Rightarrow> False)
      | Runtime _ \<Rightarrow> True
      | _ \<Rightarrow> False)"

lemma replayed_simps [simp]:
  "replayed (Domain (ApprovalRequested i r tool args risk at_ms))" "replayed (Domain (ApprovalResolved i r approved))"
  "replayed (Domain (EffectAttempted i grant cls))" "replayed (Domain (EffectObserved i outc))"
  "replayed (Domain (EffectVerified i ok))" "replayed (Domain (EffectUncertain i reason cls))"
  "replayed (Domain (EffectReconciled i outc safe))" "replayed (Runtime x)"
  by (simp_all add: replayed_def)

lemma replayed_plain:
  assumes "replayed ev"
  shows "\<not> lease_fact ev" "run_event_state ev = None" "project_update E w ev = gw_return ()"
    "project_p69g2_event E w sq ev rec = gw_return ()"
  using assms
  by (auto simp: replayed_def lease_fact_def run_event_state_def project_update_def project_p69g2_event_def
      validate_p69g2_event_def Let_def gw_then_def gw_bind_def gw_check_def gw_return_def
      split: WorkEvent.splits DomainEvent.splits)

text \<open>An append that projects nothing leaves the committed state.\<close>

lemma append_silent:
  assumes "append_event D w ev c s = (Inr e, t)" "project_update D w ev = gw_return ()"
    and "project_p69g2_event D w (gw_next_seq s) ev False = gw_return ()"
  shows "mirrors {} t (commit_event e s)"
proof -
  obtain v1 v2 where "project_update D w ev (commit_event e s) = (Inr (), v1)"
    "project_p69g2_event D w (we_sequence e) ev False v1 = (Inr (), v2)" "mirrors {} t v2"
    using append_projects [OF assms(1)] .
  moreover have "we_sequence e = gw_next_seq s"
    using append_ok(1) [OF assms(1)] by simp
  ultimately show ?thesis using assms(2,3) by simp
qed

lemma journals_replay:
  assumes "append_replay D w ev s = (Inr e, t)" "replayed ev" "ge_json D = ge_json E"
  shows "journals E s t"
proof -
  obtain t0 where t0: "append_event D w ev None s = (Inr e, t0)" "replay_event D e t0 = (Inr (), t)"
    using assms(1) by (auto simp: append_replay_def gw_bind_ok gw_then_def)
  have e: "we_event e = ev" using append_ok(1) [OF t0(1)] by simp
  note plain = replayed_plain [OF assms(2)]
  have "follows {} (replay_event D e) t0 (commit_event e s)"
    by (rule follows_event [OF append_silent [OF t0(1) plain(3,4)]]) (simp add: durable_end_def)
  then obtain v where "replay_event D e (commit_event e s) = (Inr (), v)" "mirrors {} t v"
    using t0(2) by (auto simp: follows_def)
  moreover have "gw_journal t = gw_journal t0"
    using replays_event [of t0 D e] t0(2) by (simp add: replays_def)
  ultimately show ?thesis
    using replay_env [OF assms(3), of e] plain e
    by (intro journalsI [OF t0(1), of E v t]) (auto intro: mirrors_mono)
qed

text \<open>A transition of a Run journals its event and enters the state that replaying the event enters.
  \<open>Verifying\<close>, \<open>Created\<close> and \<open>Planning\<close> have no event of their own, and \<open>Checkpointed\<close> replays with a checkpoint
  number that the running state does not keep.\<close>

definition has_event :: "WorkState \<Rightarrow> bool" where
  "has_event st \<longleftrightarrow> st \<notin> {WsCreated, WsPlanning, WsVerifying, WsCheckpointed}"

lemma replay_transition:
  assumes "has_event st" "we_event e = transition_event x st wait" "we_work_id e \<noteq> []" "has_work s (we_work_id e)"
  shows "\<exists>wait'. replay_event E e s = set_run_state (ge_json E) (we_work_id e) x st wait' s"
proof -
  have "replay_event E e s = (case we_event e of Domain d \<Rightarrow> replay_domain E (we_work_id e) (we_sequence e) d s)"
    using assms by (simp add: replay_event_def is_creation_def transition_event_def split: WorkState.split)
  then show ?thesis
    using assms(1,2) by (cases st) (auto simp: has_event_def transition_event_def replay_domain_def replay_run_eq
        work_state_try_parse_def)
qed

lemma journals_enter:
  assumes "enter_state D w x st wait s = (Inr (), t)" "has_event st" "durable_end UNIV s w x st"
    and "ge_json D = ge_json E" "\<not> has_work s []"
  shows "journals E s t"
proof -
  let ?ev = "transition_event x st wait" and ?j = "ge_json E"
  obtain e t0 where t0: "append_event D w ?ev None s = (Inr e, t0)" "set_run_state ?j w x st wait t0 = (Inr (), t)"
    using assms(1,4) by (auto simp: enter_state_def set_work_state_def gw_then_def gw_bind_ok split: if_splits)
  have e: "we_event e = ?ev" "we_work_id e = w" "has_work s w"
    using append_ok(1,2) [OF t0(1)] by simp_all
  note silent = log_only_transition [of D w x st wait, unfolded log_only_def]
  have m: "mirrors {} t0 (commit_event e s)"
    using append_silent [OF t0(1)] silent by simp
  have hw: "has_work (commit_event e s) (we_work_id e)" "we_work_id e \<noteq> []"
    using e assms(5) by (auto simp: has_work_def commit_event_def push_event_def)
  obtain wait' where w': "replay_event E e (commit_event e s) = set_run_state ?j w x st wait' (commit_event e s)"
    using replay_transition [OF assms(2) e(1) hw(2,1)] e(2) by auto
  have "follows {} (set_run_state ?j w x st wait) t0 (commit_event e s)"
    by (rule follows_set_run_state [OF m]) (simp add: durable_end_def)
  then obtain v where v: "set_run_state ?j w x st wait (commit_event e s) = (Inr (), v)" "mirrors {} t v"
    using t0(2) by (auto simp: follows_def)
  then obtain v' where "set_run_state ?j w x st wait' (commit_event e s) = (Inr (), v')" "mirrors {} v v'"
    by (auto simp: set_run_state_ok)
  moreover have "gw_journal t = gw_journal t0"
    using t0(2) by (auto simp: set_run_state_ok project_presence_def put_presence_def put_run_state_def)
  moreover have "run_event_state (we_event e) = Some (x, st)"
    unfolding e(1) using assms(2) by (intro transition_event_state) (simp add: has_event_def)
  ultimately show ?thesis
    using assms(3) w' v(2) e(1) by (intro journalsI [OF t0(1), of E v' t]) (auto intro: mirrors_UNIV)
qed

lemma journals_create:
  assumes "register_work D objective a trigger s = (Inr (), t)" "\<not> has_work s (wa_work_id a)" "wa_work_id a \<noteq> []"
    and "a = (address_new (wa_work_id a))\<lparr>wa_project_id := wa_project_id a, wa_session_id := wa_session_id a,
           wa_parent_work_id := wa_parent_work_id a, wa_session_kind := wa_session_kind a\<rparr>"
    and "wa_session_kind a = SkAutomation \<longrightarrow> wa_session_id a \<noteq> None"
  shows "journals E s t"
proof -
  let ?w = "wa_work_id a" and ?s = "put_presence (wa_work_id a) (fresh_presence (wa_work_id a)) (put_address (wa_work_id a) a s)"
  obtain e where e: "append_event D ?w (creation_event objective a trigger) None ?s = (Inr e, t)"
    using assms(1) by (auto simp: register_work_def Let_def split: prod.splits sum.splits)
  have ev: "we_event e = creation_event objective a trigger" "we_work_id e = ?w"
    using append_ok(1) [OF e] by simp_all
  have m: "mirrors {} t (commit_event e ?s)"
    by (rule append_silent [OF e]) (simp_all add: creation_event_def project_update_def project_p69g2_event_def
        validate_p69g2_event_def gw_then_def gw_bind_def gw_return_def gw_check_def)
  let ?v = "put_presence ?w (presence_default\<lparr>pr_work_id := ?w, pr_state := Some (presence_projection WsCreated None),
              pr_work_state := Some WsCreated\<rparr>) (put_address ?w a (commit_event e s))"
  have fresh: "wa_owner_id a = None" "wa_binding_id a = None" "wa_provenance a = provenance_default"
    by (subst assms(4), simp add: address_new_def)+
  have "(address_new ?w)\<lparr>wa_project_id := wa_project_id a, wa_session_id := wa_session_id a,
      wa_parent_work_id := wa_parent_work_id a, wa_session_kind := wa_session_kind a, wa_owner_id := None,
      wa_binding_id := None, wa_provenance := provenance_default\<rparr> = a"
    by (subst (6) assms(4)) (simp add: address_new_def)
  moreover have "\<not> has_work (commit_event e s) ?w"
    using assms(2) by (simp add: has_work_def commit_event_def push_event_def)
  ultimately have "replay_event E e (commit_event e s) = (Inr (), ?v)"
    using assms(3,5) by (auto simp: replay_event_def ev creation_event_def is_creation_def replay_domain_def replay_created_def
        fresh work_is_terminal_def Let_def)
  moreover have "mirrors {} (commit_event e ?s) ?v"
    by (simp add: mirrors_def commit_event_def push_event_def put_presence_def put_address_def events_of_def run_state_def)
  then have "mirrors UNIV t ?v" by (rule mirrors_UNIV [OF m])
  moreover have "we_sequence e = gw_next_seq s" "gw_journal t = map_option (\<lambda>ls. ls @ [JtRecord e]) (gw_journal s)"
    "we_schema_version e = CANONICAL_SCHEMA_VERSION"
    using append_effects(4) [OF e] append_ok(1) [OF e] by (simp_all add: put_presence_def put_address_def envelope_for_def)
  moreover have "gw_next_seq s < u64_max"
    using append_ok(3) [OF e] append_refusal_ok [of D ?s] by (simp add: put_presence_def put_address_def)
  ultimately show ?thesis
    unfolding journals_def
    by (intro exI [of _ e] exI [of _ ?v]) (simp add: ev creation_event_def run_event_state_def)
qed

section \<open>The journalled calls\<close>

text \<open>Successful calls whose effect the journal records. A transition to a terminal state needs a Run that
  has left Ready. The last rule admits any call that writes nothing and leaves the durable state alone, a
  refused one for instance.\<close>

inductive journal_call :: "'v json_full \<Rightarrow> 'v WorkGateway \<Rightarrow> 'v WorkGateway \<Rightarrow> bool" for j where
  jc_create: "ge_json D = j \<Longrightarrow> create_work_in_session D w project sid kind objective s = (Inr a, t) \<Longrightarrow> w \<noteq> [] \<Longrightarrow>
    journal_call j s t"
| jc_child: "ge_json D = j \<Longrightarrow> create_child_work D parent w objective project sid s = (Inr a, t) \<Longrightarrow> w \<noteq> [] \<Longrightarrow>
    wa_session_id a \<noteq> None \<Longrightarrow> journal_call j s t"
| jc_archive: "ge_json D = j \<Longrightarrow> json_values j \<Longrightarrow> try_archive_work D w s = (Inr b, t) \<Longrightarrow> journal_call j s t"
| jc_bind: "ge_json D = j \<Longrightarrow> bind_execution_with_metadata D w x meta s = (Inr e, t) \<Longrightarrow> journal_call j s t"
| jc_transition: "ge_json D = j \<Longrightarrow> record_execution_transition D w x st s = (Inr (), t) \<Longrightarrow> has_event st \<Longrightarrow>
    work_is_terminal st \<longrightarrow> run_state s w x \<noteq> Some WsReady \<Longrightarrow> journal_call j s t"
| jc_wait: "ge_json D = j \<Longrightarrow> record_wait D w x wait s = (Inr (), t) \<Longrightarrow> journal_call j s t"
| jc_request: "ge_json D = j \<Longrightarrow> record_pending_approval_for_run D w r i tool args risk at_ms s = (Inr e, t) \<Longrightarrow>
    journal_call j s t"
| jc_resolve: "ge_json D = j \<Longrightarrow> resolve_pending_approval_for_run D w r i approved s = (Inr e, t) \<Longrightarrow> journal_call j s t"
| jc_approval: "ge_json D = j \<Longrightarrow> record_approval D w i approved s = (Inr (), t) \<Longrightarrow> journal_call j s t"
| jc_effect: "ge_json D = j \<Longrightarrow> record_effect_with_class D w i phase detail grant cls s = (Inr (), t) \<Longrightarrow> journal_call j s t"
| jc_reconcile: "ge_json D = j \<Longrightarrow> reconcile_uncertain_effect D w i outc safe s = (Inr e, t) \<Longrightarrow> journal_call j s t"
| jc_change_set: "ge_json D = j \<Longrightarrow> record_file_change_set D cs s = (Inr e, t) \<Longrightarrow> journal_call j s t"
| jc_settle: "ge_json D = j \<Longrightarrow> settle_file_change_set D cs reason s = (Inr e, t) \<Longrightarrow> journal_call j s t"
| jc_binding: "ge_json D = j \<Longrightarrow> create_agent_binding D b s = (Inr e, t) \<Longrightarrow> journal_call j s t"
| jc_rebind: "ge_json D = j \<Longrightarrow> transition_agent_binding D i move sid s = (Inr e, t) \<Longrightarrow> journal_call j s t"
| jc_usage: "ge_json D = j \<Longrightarrow> record_binding_usage D i usage s = (Inr e, t) \<Longrightarrow> journal_call j s t"
| jc_refuse: "ge_json D = j \<Longrightarrow> record_delegation_refused D parent refusal s = (Inr e, t) \<Longrightarrow> journal_call j s t"
| jc_artifact: "ge_json D = j \<Longrightarrow> record_artifact D w i updated s = (Inr (), t) \<Longrightarrow> journal_call j s t"
| jc_test: "ge_json D = j \<Longrightarrow> record_test D w name passed s = (Inr (), t) \<Longrightarrow> journal_call j s t"
| jc_handoff: "ge_json D = j \<Longrightarrow> record_handoff D w artifact from_agent to_agent summary s = (Inr (), t) \<Longrightarrow> journal_call j s t"
| jc_touch: "ge_json D = j \<Longrightarrow> record_file_touch D w path writer s = (Inr conflict, t) \<Longrightarrow> journal_call j s t"
| jc_thought: "ge_json D = j \<Longrightarrow> record_thought D w msg s = (Inr (), t) \<Longrightarrow> journal_call j s t"
| jc_volatile: "ge_json D = j \<Longrightarrow> gw_call D s t \<Longrightarrow> gw_journal t = gw_journal s \<Longrightarrow> mirrors {} t s \<Longrightarrow> journal_call j s t"

lemma journals_after:
  assumes "journals E s t0" "gw_journal t = gw_journal t0" "mirrors UNIV t t0"
  shows "journals E s t"
proof -
  obtain e v where "gw_journal t0 = map_option (\<lambda>ls. ls @ [JtRecord e]) (gw_journal s)" "we_schema_version e = CANONICAL_SCHEMA_VERSION"
    "we_sequence e = gw_next_seq s" "gw_next_seq s < u64_max" "replay_event E e (commit_event e s) = (Inr (), v)"
    "mirrors UNIV t0 v" "\<forall>r st. run_event_state (we_event e) = Some (r, st) \<longrightarrow> durable_end UNIV s (we_work_id e) r st"
    using assms(1) unfolding journals_def by blast
  then show ?thesis
    unfolding journals_def using assms(2) mirrors_UNIV [OF assms(3)] by (intro exI [of _ e] exI [of _ v]) simp
qed

lemma rebuilt_named: "rebuilt E s \<Longrightarrow> \<not> has_work s []"
  by (simp add: rebuilt_def)

lemma rebuilt_after:
  assumes "rebuilt E s" "gw_journal t = gw_journal s" "mirrors {} t s"
  shows "rebuilt E t"
proof -
  have "has_work t [] = has_work s []"
    using assms(3) by (simp add: has_work_def mirrors_def)
  with assms mirrors_UNIV [OF assms(3)] show ?thesis
    unfolding rebuilt_def by metis
qed

lemma rebuilt_append:
  assumes "append_event D w ev c s = (Inr e, t)" "projected ev" "ge_json D = ge_json E" "rebuilt E s"
  shows "rebuilt E t"
  by (rule journals_rebuilt [OF journals_append [OF assms(1-3) rebuilt_named [OF assms(4)]] assms(4)])

lemma rebuilt_replay:
  assumes "append_replay D w ev s = (Inr e, t)" "replayed ev" "ge_json D = ge_json E" "rebuilt E s"
  shows "rebuilt E t"
  by (rule journals_rebuilt [OF journals_replay [OF assms(1-3)] assms(4)])

lemma rebuilt_enter:
  assumes "enter_state D w x st wait s = (Inr (), t)" "has_event st" "durable_end UNIV s w x st"
    and "ge_json D = ge_json E" "rebuilt E s"
  shows "rebuilt E t"
  by (rule journals_rebuilt [OF journals_enter [OF assms(1-4) rebuilt_named [OF assms(5)]] assms(5)])

lemma rebuilt_create:
  assumes "create_work_in_session D w project sid kind objective s = (Inr a, t)" "w \<noteq> []" "rebuilt E s"
  shows "rebuilt E t"
proof (cases "lookup (gw_works s) w")
  case None
  let ?a = "(address_new w)\<lparr>wa_project_id := project, wa_session_id := sid, wa_session_kind := kind\<rparr>"
  have reg: "register_work D objective ?a None s = (Inr (), t)" "kind = SkAutomation \<longrightarrow> sid \<noteq> None"
    using assms(1) None by (auto simp: create_work_in_session_def gw_then_def gw_bind_ok Let_def split: if_splits)
  have "journals E s t"
    by (rule journals_create [OF reg(1)]) (use reg(2) None assms(2) in \<open>simp_all add: has_work_def address_new_def\<close>)
  then show ?thesis using assms(3) by (rule journals_rebuilt)
next
  case (Some old)
  with assms show ?thesis by (auto simp: create_work_in_session_def split: if_splits)
qed

lemma rebuilt_child:
  assumes "create_child_work D parent w objective project sid s = (Inr a, t)" "w \<noteq> []" "wa_session_id a \<noteq> None"
    and "ge_json D = ge_json E" "rebuilt E s"
  shows "rebuilt E t"
proof (cases "lookup (gw_works s) w")
  case None
  obtain p where p: "lookup (gw_works s) parent = Some p"
    using assms(1) by (auto simp: create_child_work_def split: option.splits)
  let ?a = "(address_new w)\<lparr>wa_project_id := opt_or project (wa_project_id p), wa_session_id := opt_or sid (wa_session_id p),
              wa_session_kind := wa_session_kind p, wa_parent_work_id := Some parent\<rparr>"
  obtain t1 e where reg: "register_work D objective ?a (Some ''subagent'') s = (Inr (), t1)"
    and beat: "append_event D w (Domain (SubagentHeartbeat w (ge_now D))) None t1 = (Inr e, t)" and a: "a = ?a"
    using assms(1) None p by (auto simp: create_child_work_def gw_then_def gw_bind_ok Let_def)
  have "journals E s t1"
    by (rule journals_create [OF reg]) (use assms(2,3) None a in \<open>simp_all add: has_work_def address_new_def\<close>)
  then have "rebuilt E t1" using assms(5) by (rule journals_rebuilt)
  from rebuilt_append [OF beat _ assms(4) this] show ?thesis by (simp add: projected_def)
next
  case (Some old)
  with assms show ?thesis by (auto simp: create_child_work_def split: option.splits if_splits)
qed

lemma rebuilt_bind:
  assumes "bind_execution_with_metadata D w x meta s = (Inr e, t)" "ge_json D = ge_json E" "rebuilt E s"
  shows "rebuilt E t"
proof -
  obtain p t0 where t0: "append_event D w (Domain (WorkUpdated p)) None s = (Inr e, t0)" "t = note_ready w x t0"
    using assms(1) by (auto simp: bind_execution_with_metadata_def append_with_def gw_then_def gw_bind_ok Let_def
        split: option.splits if_splits)
  have "journals E s t0"
    by (rule journals_append [OF t0(1) _ assms(2)]) (use assms(3) in \<open>simp_all add: projected_def rebuilt_def\<close>)
  moreover have "mirrors UNIV t t0" "gw_journal t = gw_journal t0"
    using t0(2) by (auto simp: note_ready_def mirrors_def put_run_state_def run_state_def)
  ultimately show ?thesis
    using journals_after journals_rebuilt assms(3) by metis
qed

lemma presence_journal [simp]: "gw_journal (put_presence w p s) = gw_journal s"
  by (simp add: put_presence_def)

lemma archived_update:
  assumes "json_values j" "apply_work_update j w (json_lit j [(''archived'', j_bool j True)]) s = (Inr x, t)"
  shows "lookup (gw_works t) w = None"
proof -
  have "get_bool j (json_lit j [(''archived'', j_bool j True)]) ''archived'' = Some True"
    using json_values.get_lit [OF assms(1)] json_values.bool_bool [OF assms(1)] by (simp add: get_bool_def)
  moreover obtain a s2 where "t = store_update j w (json_lit j [(''archived'', j_bool j True)]) a s2"
    using assms(2) by (cases "lookup (gw_works s) w") (auto simp: apply_work_update_def gw_then_def gw_bind_ok)
  ultimately show ?thesis by (simp add: store_update_def remove_work_def)
qed

lemma rebuilt_archive:
  assumes "try_archive_work D w s = (Inr b, t)" "json_values (ge_json D)" "ge_json D = ge_json E" "rebuilt E s"
  shows "rebuilt E t"
proof (cases "has_work s w")
  case True
  let ?ev = "Domain (WorkUpdated (json_lit (ge_json D) [(''archived'', j_bool (ge_json D) True)]))"
  obtain e t0 where t0: "append_event D w ?ev None s = (Inr e, t0)"
    and gone: "t = (let s1 = remove_work w t0 in case lookup (gw_presence s1) w of
        None \<Rightarrow> s1 | Some p \<Rightarrow> put_presence w (p\<lparr>pr_state := Some PrCompleted\<rparr>) s1)"
    using assms(1) True unfolding try_archive_work_def by (auto simp: gw_then_def gw_bind_ok)
  have t: "gw_journal t = gw_journal t0" "mirrors {} t (remove_work w t0)"
    using gone by (auto simp: Let_def remove_work_def split: option.splits)
  obtain v1 v2 where st: "project_update D w ?ev (commit_event e s) = (Inr (), v1)"
    "project_p69g2_event D w (we_sequence e) ?ev False v1 = (Inr (), v2)" "mirrors {} t0 v2"
    using append_projects [OF t0] .
  have "v2 = v1"
    using st(2) by (simp add: project_p69g2_event_def validate_p69g2_event_def gw_then_def gw_bind_ok)
  then have "lookup (gw_works t0) w = None"
    using st archived_update [OF assms(2), of w "commit_event e s" "()" v1] by (simp add: project_update_def mirrors_def)
  then have "bt_remove w (gw_works t0) = gw_works t0"
    by (simp add: AList.delete_idem map_of_eq_None_iff)
  then have "mirrors {} t t0"
    using t(2) by (simp add: mirrors_def remove_work_def run_state_def)
  moreover have "rebuilt E t0"
    using rebuilt_append [OF t0 _ assms(3,4)] by (simp add: projected_def)
  ultimately show ?thesis using t(1) rebuilt_after by metis
next
  case False
  with assms show ?thesis by (simp add: try_archive_work_def)
qed

lemma resolved_run_state:
  "replay_approval_resolved j w i run approved s = (Inr (), t) \<Longrightarrow> run_state t x y = run_state s x y"
  by (auto simp: replay_approval_resolved_def mark_review_def drop_pending_def run_state_def split: option.splits if_splits)

lemma rebuilt_resolve:
  assumes "resolve_pending_approval_for_run D w r i approved s = (Inr e, t)" "ge_json D = ge_json E" "rebuilt E s"
  shows "rebuilt E t"
proof -
  let ?ev = "Domain (ApprovalResolved i (Some r) approved)" and ?st = "if approved then WsRunning else WsFailed"
  obtain t1 where t1: "append_replay D w ?ev s = (Inr e, t1)" "record_execution_transition D w r ?st t1 = (Inr (), t)"
    and wait: "run_state s w r = Some WsWaitingApproval"
    using assms(1) by (auto simp: resolve_pending_approval_for_run_def gw_then_def gw_bind_ok Let_def split: if_splits option.splits)
  obtain t0 where t0: "append_event D w ?ev None s = (Inr e, t0)" "replay_event D e t0 = (Inr (), t1)"
    using t1(1) by (auto simp: append_replay_def gw_bind_ok gw_then_def)
  have "we_event e = ?ev" using append_ok(1) [OF t0(1)] by simp
  then have "run_state t1 w r = run_state t0 w r"
    using t0(2) append_ok(1) [OF t0(1)] by (simp add: replay_event_def replay_domain_def is_creation_def Let_def
        resolved_run_state split: if_splits)
  moreover have "run_state t0 w r = run_state s w r"
    using mirrors_sym [OF append_silent [OF t0(1)]]
    by (simp add: project_update_def project_p69g2_event_def validate_p69g2_event_def gw_then_def gw_bind_def gw_return_def
        gw_check_def mirrors_def commit_event_def push_event_def run_state_def)
  ultimately have "durable_end UNIV t1 w r ?st"
    using wait by (simp add: durable_end_def)
  moreover have "rebuilt E t1"
    by (rule rebuilt_replay [OF t1(1) _ assms(2,3)]) (simp add: replayed_def)
  ultimately show ?thesis
    using t1(2) rebuilt_enter [of D w r ?st None t1 t E] assms(2) by (simp add: record_execution_transition_def has_event_def)
qed

lemma effect_event_replayed: "effect_event i phase detail grant cls = Inr ev \<Longrightarrow> replayed ev"
proof -
  have "case effect_event i phase detail grant cls of Inl _ \<Rightarrow> True | Inr ev \<Rightarrow> replayed (ev :: 'a WorkEvent)"
    by (simp add: effect_event_def)
  then show "effect_event i phase detail grant cls = Inr ev \<Longrightarrow> replayed ev" for ev :: "'a WorkEvent" by simp
qed

lemma rebuilt_calls:
  assumes "ge_json D = ge_json E" "rebuilt E s"
  shows "record_pending_approval_for_run D w r i tool args risk at_ms s = (Inr e, t) \<Longrightarrow> rebuilt E t"
    and "record_approval D w i approved s = (Inr (), t) \<Longrightarrow> rebuilt E t"
    and "record_effect_with_class D w i phase detail grant cls s = (Inr (), t) \<Longrightarrow> rebuilt E t"
    and "reconcile_uncertain_effect D w i outc safe s = (Inr e, t) \<Longrightarrow> rebuilt E t"
    and "create_agent_binding D b s = (Inr e, t) \<Longrightarrow> rebuilt E t"
    and "transition_agent_binding D i move sid s = (Inr e, t) \<Longrightarrow> rebuilt E t"
    and "record_binding_usage D i usage s = (Inr e, t) \<Longrightarrow> rebuilt E t"
proof -
  note replay = rebuilt_replay [OF _ _ assms]
  show "record_pending_approval_for_run D w r i tool args risk at_ms s = (Inr e, t) \<Longrightarrow> rebuilt E t"
    by (rule replay [OF _ replayed_simps(1), of w i "Some r" "non_empty tool" "non_empty args" "non_empty risk" "Some at_ms" e])
      (auto simp: record_pending_approval_for_run_def split: if_splits)
  show "rebuilt E t" if h: "record_approval D w i approved s = (Inr (), t)"
  proof -
    obtain e where "append_replay D w (Domain (ApprovalResolved i None approved)) s = (Inr e, t)"
      using h by (auto simp: record_approval_def gw_then_def gw_bind_ok split: if_splits)
    then show ?thesis by (rule replay) simp
  qed
  show "rebuilt E t" if h: "record_effect_with_class D w i phase detail grant cls s = (Inr (), t)"
  proof -
    obtain ev where eff: "effect_event i phase detail grant cls = Inr ev"
      and run: "gw_then (append_replay D w ev) (gw_return ()) s = (Inr (), t)"
      using h unfolding record_effect_with_class_def
      by (cases "effect_event i phase detail grant cls :: string + 'a WorkEvent"; simp split: if_splits option.splits)
    then obtain e where ev: "effect_event i phase detail grant cls = Inr ev" "append_replay D w ev s = (Inr e, t)"
      by (auto simp: gw_then_def gw_bind_ok)
    from ev(2) effect_event_replayed [OF ev(1)] show ?thesis by (rule replay)
  qed
  show "reconcile_uncertain_effect D w i outc safe s = (Inr e, t) \<Longrightarrow> rebuilt E t"
    by (rule replay [OF _ replayed_simps(7), of w i outc safe e])
      (auto simp: reconcile_uncertain_effect_def split: if_splits option.splits)
  show "create_agent_binding D b s = (Inr e, t) \<Longrightarrow> rebuilt E t"
    by (rule replay [OF _ replayed_simps(8), of "ab_work_id b" "AgentBindingCreated (b\<lparr>ab_state := BlParked, ab_last_event_seq := 0\<rparr>)" e])
      (auto simp: create_agent_binding_def split: if_splits option.splits)
  show "rebuilt E t" if "record_binding_usage D i usage s = (Inr e, t)"
    using that replay [OF _ replayed_simps(8)] by (auto simp: record_binding_usage_def split: option.splits)
  show "rebuilt E t" if "transition_agent_binding D i move sid s = (Inr e, t)"
    using that replay [OF _ replayed_simps(8)]
    by (auto simp: transition_agent_binding_def split: if_splits option.splits sum.splits prod.splits)
qed

lemma rebuilt_records:
  assumes "ge_json D = ge_json E" "rebuilt E s"
  shows "record_file_change_set D cs s = (Inr e, t) \<Longrightarrow> rebuilt E t"
    and "settle_file_change_set D cs reason s = (Inr e, t) \<Longrightarrow> rebuilt E t"
    and "record_delegation_refused D parent refusal s = (Inr e, t) \<Longrightarrow> rebuilt E t"
    and "record_artifact D w i updated s = (Inr (), t) \<Longrightarrow> rebuilt E t"
    and "record_test D w name passed s = (Inr (), t) \<Longrightarrow> rebuilt E t"
    and "record_handoff D w artifact from_agent to_agent summary s = (Inr (), t) \<Longrightarrow> rebuilt E t"
proof -
  note append = rebuilt_append [OF _ _ assms]
  show "record_file_change_set D cs s = (Inr e, t) \<Longrightarrow> rebuilt E t"
    "settle_file_change_set D cs reason s = (Inr e, t) \<Longrightarrow> rebuilt E t"
    "record_delegation_refused D parent refusal s = (Inr e, t) \<Longrightarrow> rebuilt E t"
    by (auto simp: record_file_change_set_def settle_file_change_set_def record_delegation_refused_def projected_def Let_def
        split: if_splits sum.splits option.splits intro: append)
  show "record_artifact D w i updated s = (Inr (), t) \<Longrightarrow> rebuilt E t"
    "record_test D w name passed s = (Inr (), t) \<Longrightarrow> rebuilt E t"
    "record_handoff D w artifact from_agent to_agent summary s = (Inr (), t) \<Longrightarrow> rebuilt E t"
    by (auto simp: record_artifact_def record_test_def record_handoff_def gw_then_def gw_bind_ok projected_def Let_def
        split: if_splits intro: append)
qed

lemma rebuilt_touch:
  assumes "record_file_touch D w path writer s = (Inr conflict, t)" "ge_json D = ge_json E" "rebuilt E s"
  shows "rebuilt E t"
proof -
  obtain e t1 p x where t1: "append_event D w (Operational (FileTouched p x)) None s = (Inr e, t1)"
    and rest: "t = t1 \<or> (\<exists>e' ws. append_event D w (Operational (WriteConflict p ws)) None t1 = (Inr e', t))"
    using assms(1) by (auto simp: record_file_touch_def gw_then_def gw_bind_ok Let_def split: if_splits) blast+
  have "rebuilt E t1"
    by (rule rebuilt_append [OF t1 _ assms(2,3)]) (simp add: projected_def)
  with rest show ?thesis
    using rebuilt_append [OF _ _ assms(2)] by (auto simp: projected_def)
qed

lemma rebuilt_thought:
  assumes "record_thought D w msg s = (Inr (), t)" "ge_json D = ge_json E" "rebuilt E s"
  shows "rebuilt E t"
proof -
  obtain e t1 where t1: "append_event D w (Presence (AgentThoughtSummary msg)) None s = (Inr e, t1)"
    and t: "t = (case lookup (gw_presence t1) w of None \<Rightarrow> t1 | Some p \<Rightarrow> put_presence w (p\<lparr>pr_current_surface := Some msg\<rparr>) t1)"
    using assms(1) by (auto simp: record_thought_def require_work_def gw_then_def gw_bind_ok split: if_splits)
  have "rebuilt E t1"
    by (rule rebuilt_append [OF t1 _ assms(2,3)]) (simp add: projected_def)
  then show ?thesis
    by (rule rebuilt_after) (use t in \<open>auto split: option.splits\<close>)
qed

lemma rebuilt_transition:
  assumes "record_execution_transition D w x st s = (Inr (), t)" "has_event st"
    and "work_is_terminal st \<longrightarrow> run_state s w x \<noteq> Some WsReady" "ge_json D = ge_json E" "rebuilt E s"
  shows "rebuilt E t"
  using assms(1,2) unfolding record_execution_transition_def
  by (rule rebuilt_enter [of D w x st None s t E, OF _ _ _ assms(4,5)]) (simp_all add: durable_end_def assms(3))

lemma rebuilt_wait:
  assumes "record_wait D w x wait s = (Inr (), t)" "ge_json D = ge_json E" "rebuilt E s"
  shows "rebuilt E t"
proof -
  have "has_event (wait_work_state wait)" "\<not> work_is_terminal (wait_work_state wait)"
    by (cases "wc_reason wait"; simp add: wait_work_state_def has_event_def work_is_terminal_def)+
  with assms show ?thesis
    using rebuilt_enter [of D w x "wait_work_state wait" "Some wait" s t E] by (simp add: record_wait_def durable_end_def)
qed

lemmas rebuilt_by_call = rebuilt_create rebuilt_child rebuilt_archive rebuilt_bind rebuilt_transition rebuilt_wait
  rebuilt_resolve rebuilt_calls rebuilt_records rebuilt_touch rebuilt_thought

lemma call_rebuilt:
  assumes "journal_call j s t" "j = ge_json E" "rebuilt E s"
  shows "rebuilt E t"
  using assms
proof (induction rule: journal_call.induct)
  case (jc_volatile D s t)
  then show ?case using rebuilt_after [of E s t] by simp
next
  case (jc_archive D w s b t)
  then show ?case using rebuilt_archive [of D w s b t E] by simp
qed (hypsubst, (rule rebuilt_by_call; assumption))+

interpretation journal: step_invariant "journal_call (ge_json E)" "rebuilt E" for E
  by unfold_locales (rule call_rebuilt [OF _ refl])

end
