(* ===== verification/Work_Replay_Properties.thy ===== *)
theory Work_Replay_Properties
  imports Work_Rebuild Work_Properties
begin

text \<open>
  The journal refines the running gateway: after any sequence of journalled calls, opening the journal
  again gives back the durable state.
\<close>

section \<open>Reopening\<close>

lemma graph_error_mirrors:
  assumes "mirrors X s u"
  shows "graph_error j u = graph_error j s"
proof -
  have eqs: "gw_works u = gw_works s" "gw_run_ids u = gw_run_ids s" "gw_effects u = gw_effects s"
    "gw_pending u = gw_pending s" "gw_agent_bindings u = gw_agent_bindings s" "gw_active_bindings u = gw_active_bindings s"
    using assms by (simp_all add: mirrors_def)
  have wait: "run_state u w r = Some WsWaitingApproval \<longleftrightarrow> run_state s w r = Some WsWaitingApproval" for w r
    using assms by (rule mirrors_waiting)
  have hw: "has_work u w = has_work s w" for w by (simp add: has_work_def eqs)
  have "work_error u = work_error s"
    unfolding work_error_def parent_error_def binding_error_def run_ids_of_def eqs ..
  moreover have "session_error u = session_error s"
    unfolding session_error_def active_bindings_of_def eqs ..
  moreover have "pending_map_error j u = pending_map_error j s"
    unfolding pending_map_error_def pending_error_def run_ids_of_def hw eqs wait ..
  moreover have "effect_map_error u = effect_map_error s"
    unfolding effect_map_error_def hw ..
  ultimately show ?thesis
    unfolding graph_error_def eqs by (simp cong: option.case_cong)
qed

lemma opened_rebuilt:
  assumes "open_journal E ls = Inr s" "terminated ls"
  shows "rebuilt E s"
proof -
  obtain es where records: "journal_records E ls = Some es"
    and parts: "open_loop E es None (gateway_new\<lparr>gw_journal := Some ls\<rparr>) = Inr s"
    by (rule open_journal_parts [OF assms(1)])
  have "\<not> has_work s []"
    by (rule open_loop_named [OF parts]) (simp add: has_work_def gateway_new_def)
  with parts records assms(2) open_loop_journal [OF parts] show ?thesis
    by (auto simp: rebuilt_def)
qed

lemma rebuilt_opens:
  assumes "rebuilt E t"
  shows "\<exists>ls. gw_journal t = Some ls \<and>
    (case graph_error (ge_json E) t of
       Some err \<Rightarrow> open_journal E ls = Inl err
     | None \<Rightarrow> \<exists>u. open_journal E ls = Inr u \<and> mirrors UNIV t u)"
proof -
  obtain ls es u where u: "gw_journal t = Some ls" "open_loop E es None (gateway_new\<lparr>gw_journal := Some ls\<rparr>) = Inr u"
    "mirrors UNIV t u" "journal_records E ls = Some es"
    using assms by (auto simp: rebuilt_def)
  have "graph_error (ge_json E) u = graph_error (ge_json E) t"
    by (rule graph_error_mirrors [OF u(3)])
  with u show ?thesis
    by (auto simp: open_journal_def journal_records_def open_lines_records validate_replayed_graph_def res_bind_def
        split: option.split)
qed

text \<open>C14. The journal reproduces the state. Open a gateway from a journal whose last line is complete and make any
  sequence of journalled calls (creating, archiving and binding Works, Run transitions and waits, approvals, effects,
  change sets, agent bindings, activity records), with writes that the caller saw succeed. Then reading
  the journal that is now on disk runs through every line, and the new gateway has the same Works, Run
  ids and states, Run metadata, effects, pending approvals, bindings, change sets, leases, heartbeats, log
  and next sequence number as the running one, except that a Run that was only bound is absent instead
  of Ready; when the running state fails the consistency check, the reopening is refused with the same
  error.\<close>

theorem journal_reproduces_state:
  assumes "open_journal E ls = Inr s" "terminated ls" "(journal_call (ge_json E))\<^sup>*\<^sup>* s t"
  shows "\<exists>ls'. gw_journal t = Some ls' \<and>
    (case graph_error (ge_json E) t of
       Some err \<Rightarrow> open_journal E ls' = Inl err
     | None \<Rightarrow> \<exists>u. open_journal E ls' = Inr u \<and> mirrors UNIV t u)"
  by (rule rebuilt_opens [OF journal.reach_keeps [OF assms(3) opened_rebuilt [OF assms(1,2)]]])

definition wit_disk :: "work_json WorkGateway" where
  "wit_disk = gateway_new\<lparr>gw_journal := Some []\<rparr>"

definition wit_disk_work :: "work_json WorkGateway" where
  "wit_disk_work = snd (create_work_in_session wit_gw_env ''w'' None (Some ''s'') SkInteractive ''goal'' wit_disk)"

definition wit_disk_bound :: "work_json WorkGateway" where
  "wit_disk_bound = snd (bind_execution_with_metadata wit_gw_env ''w'' ''r'' (WObj []) wit_disk_work)"

definition wit_disk_running :: "work_json WorkGateway" where
  "wit_disk_running = snd (record_execution_transition wit_gw_env ''w'' ''r'' WsRunning wit_disk_bound)"

definition wit_disk_waiting :: "work_json WorkGateway" where
  "wit_disk_waiting = snd (record_execution_transition wit_gw_env ''w'' ''r'' WsWaitingApproval wit_disk_running)"

definition wit_disk_pending :: "work_json WorkGateway" where
  "wit_disk_pending =
     snd (record_pending_approval_for_run wit_gw_env ''w'' ''r'' ''t'' ''tool'' ''h'' ''R3'' 1 wit_disk_waiting)"

lemma succeeds: "\<not> isl (fst p) \<Longrightarrow> p = (Inr (projr (fst p)), snd p)"
  by (cases p; cases "fst p") auto

lemma succeeds_unit: "\<not> isl (fst p) \<Longrightarrow> p = (Inr (), snd p)"
  by (cases p; cases "fst p") auto

lemma wit_disk_calls: "(journal_call wj_api)\<^sup>*\<^sup>* wit_disk wit_disk_pending"
proof -
  have "journal_call wj_api wit_disk wit_disk_work"
    unfolding wit_disk_work_def by (rule jc_create [OF wit_json succeeds]) code_simp+
  moreover have "journal_call wj_api wit_disk_work wit_disk_bound"
    unfolding wit_disk_bound_def by (rule jc_bind [OF wit_json succeeds]) code_simp
  moreover have "journal_call wj_api wit_disk_bound wit_disk_running"
    unfolding wit_disk_running_def by (rule jc_transition [OF wit_json succeeds_unit]) code_simp+
  moreover have "journal_call wj_api wit_disk_running wit_disk_waiting"
    unfolding wit_disk_waiting_def by (rule jc_transition [OF wit_json succeeds_unit]) code_simp+
  moreover have "journal_call wj_api wit_disk_waiting wit_disk_pending"
    unfolding wit_disk_pending_def by (rule jc_request [OF wit_json succeeds]) code_simp
  ultimately show ?thesis
    by (meson r_into_rtranclp rtranclp_trans)
qed

theorem journal_reproduces_state_witness:
  "\<exists>ls u. gw_journal wit_disk_pending = Some ls \<and> length ls = 5 \<and> open_journal wit_gw_env ls = Inr u \<and>
     run_state u ''w'' ''r'' = Some WsWaitingApproval \<and> pending_approval u ''w'' ''t'' \<noteq> None"
proof -
  have start: "open_journal wit_gw_env [] = Inr wit_disk"
    by code_simp
  have facts: "graph_error wj_api wit_disk_pending = None" "map_option length (gw_journal wit_disk_pending) = Some 5"
    "run_state wit_disk_pending ''w'' ''r'' = Some WsWaitingApproval" "pending_approval wit_disk_pending ''w'' ''t'' \<noteq> None"
    by code_simp+
  obtain ls u where u: "gw_journal wit_disk_pending = Some ls" "open_journal wit_gw_env ls = Inr u"
    "mirrors UNIV wit_disk_pending u"
    using journal_reproduces_state [OF start _, of wit_disk_pending] wit_disk_calls facts(1) by (auto simp: terminated_def)
  then show ?thesis
    using facts mirrors_waiting [OF u(3), of "''w''" "''r''"] by (auto simp: pending_approval_def mirrors_def)
qed

end
