(* ===== verification/Sched_Types.thy ===== *)
theory Sched_Types
  imports Work_Events "HOL-Library.Signed_Division"
begin

text \<open>
  The trigger plane's time arithmetic and its enumerations
  (\<open>core/src/scheduler_service.rs\<close>, first half): the cron parser, the civil date of a Unix time, the
  matching of a cron expression, day windows, trigger specifications and policies, and the computation
  of the next due time.

  A \<open>u8\<close> or \<open>u64\<close> is a natural number and an \<open>i64\<close> an integer; the additions whose operands a caller
  controls are written with their wrap-around or saturation at that width.
\<close>

section \<open>Cron expressions\<close>

datatype CronError =
    BadStep string
  | StepZero string
  | BadRange string
  | BadValue string
  | OutOfRange string
  | FieldCount nat string

record CronExpr =
  ce_minute :: "nat list"
  ce_hour :: "nat list"
  ce_dom :: "nat list"
  ce_month :: "nat list"
  ce_dow :: "nat list"
  ce_source :: string

definition parse_u8 :: "string \<Rightarrow> nat option" where
  "parse_u8 s = parse_nat 256 s"

text \<open>The loop \<open>while v <= hi\<close> of \<open>parse_field\<close> with \<open>v.saturating_add(step)\<close>. A zero step and a bound of 255,
  for which the saturated \<open>v\<close> would never pass \<open>hi\<close>, are rejected before the loop is entered.\<close>

function step_values :: "nat \<Rightarrow> nat \<Rightarrow> nat \<Rightarrow> nat list" where
  "step_values step hi v =
     (if v \<le> hi \<and> 0 < step \<and> hi < 255 then v # step_values step hi (min (v + step) 255) else [])"
  by pat_completeness auto
termination
  by (relation "measure (\<lambda>(step, hi, v). Suc hi - v)") auto

declare step_values.simps [simp del]

definition parse_part :: "string \<Rightarrow> nat \<Rightarrow> nat \<Rightarrow> string \<Rightarrow> CronError + nat list" where
  "parse_part field mn mx part =
     (case (case split_once (CHR ''/'') part of
              Some (r, s) \<Rightarrow> (case parse_u8 s of None \<Rightarrow> Inl (BadStep s) | Some n \<Rightarrow> Inr (r, n))
            | None \<Rightarrow> Inr (part, 1)) of
        Inl e \<Rightarrow> Inl e
      | Inr (rng, step) \<Rightarrow>
          if step = 0 then Inl (StepZero field)
          else
            (case (if rng = ''*'' then Inr (mn, mx)
                   else case split_once (CHR ''-'') rng of
                          Some (a, b) \<Rightarrow>
                            (case parse_u8 a of
                               None \<Rightarrow> Inl (BadRange rng)
                             | Some lo \<Rightarrow>
                                 (case parse_u8 b of
                                    None \<Rightarrow> Inl (BadRange rng)
                                  | Some hi \<Rightarrow> Inr (lo, hi)))
                        | None \<Rightarrow>
                            (case parse_u8 rng of None \<Rightarrow> Inl (BadValue rng) | Some v \<Rightarrow> Inr (v, v))) of
               Inl e \<Rightarrow> Inl e
             | Inr (lo, hi) \<Rightarrow>
                 if lo < mn \<or> mx < hi \<or> hi < lo then Inl (OutOfRange field)
                 else Inr (step_values step hi lo)))"

fun parse_parts :: "string \<Rightarrow> nat \<Rightarrow> nat \<Rightarrow> string list \<Rightarrow> CronError + nat list" where
  "parse_parts field mn mx [] = Inr []"
| "parse_parts field mn mx (p # ps) =
     (case parse_part field mn mx p of
        Inl e \<Rightarrow> Inl e
      | Inr vs \<Rightarrow>
          (case parse_parts field mn mx ps of Inl e \<Rightarrow> Inl e | Inr ws \<Rightarrow> Inr (vs @ ws)))"

definition parse_field :: "string \<Rightarrow> nat \<Rightarrow> nat \<Rightarrow> CronError + nat list" where
  "parse_field field mn mx =
     (if field = ''*'' then Inr [mn..<Suc mx]
      else case parse_parts field mn mx (split_on (CHR '','') field) of
             Inl e \<Rightarrow> Inl e
           | Inr out \<Rightarrow> Inr (remdups_adj (sort out)))"

definition cron_parse :: "string \<Rightarrow> CronError + CronExpr" where
  "cron_parse source =
     (case split_whitespace source of
        [f0, f1, f2, f3, f4] \<Rightarrow>
          (case parse_field f0 0 59 of Inl e \<Rightarrow> Inl e | Inr mi \<Rightarrow>
          (case parse_field f1 0 23 of Inl e \<Rightarrow> Inl e | Inr ho \<Rightarrow>
          (case parse_field f2 1 31 of Inl e \<Rightarrow> Inl e | Inr dm \<Rightarrow>
          (case parse_field f3 1 12 of Inl e \<Rightarrow> Inl e | Inr mo \<Rightarrow>
          (case parse_field f4 0 6 of Inl e \<Rightarrow> Inl e | Inr dw \<Rightarrow>
             Inr \<lparr> ce_minute = mi, ce_hour = ho, ce_dom = dm, ce_month = mo, ce_dow = dw,
                   ce_source = source \<rparr>)))))
      | parts \<Rightarrow> Inl (FieldCount (length parts) source))"

section \<open>Civil dates\<close>

text \<open>\<open>civil_parts\<close> returns minute, hour, day of month, month and weekday (Sunday is 0). \<open>days\<close>, \<open>z\<close> and
  \<open>era\<close> are \<open>i64\<close>, the rest \<open>u64\<close>; \<open>sdiv\<close> is Rust's truncating division.\<close>

definition civil_parts :: "nat \<Rightarrow> nat \<times> nat \<times> nat \<times> nat \<times> nat" where
  "civil_parts unix_secs =
     (let days = int (unix_secs div 86400);
          secs_of_day = unix_secs mod 86400;
          z = days + 719468;
          era = (if 0 \<le> z then z else z - 146096) sdiv 146097;
          doe = nat (z - era * 146097);
          yoe = (doe - doe div 1460 + doe div 36524 - doe div 146096) div 365;
          doy = doe - (365 * yoe + yoe div 4 - yoe div 100);
          mp = (5 * doy + 2) div 153;
          d = (doy - (153 * mp + 2) div 5 + 1) mod 256;
          m = (if mp < 10 then mp + 3 else mp - 9) mod 256;
          weekday = ((days + 4) smod 7 + 7) smod 7
      in ((secs_of_day div 60 mod 60) mod 256, (secs_of_day div 3600) mod 256, d, m, nat weekday))"

definition cron_matches :: "CronExpr \<Rightarrow> nat \<Rightarrow> bool" where
  "cron_matches c unix_secs =
     (case civil_parts unix_secs of (mi, hour, dm, month, dow) \<Rightarrow>
        if mi \<notin> set (ce_minute c) \<or> hour \<notin> set (ce_hour c) then False
        else if month \<notin> set (ce_month c) then False
        else
          let dom_restricted = (ce_dom c \<noteq> [1..<32]); dow_restricted = (ce_dow c \<noteq> [0..<7])
          in if dom_restricted \<and> dow_restricted
             then dm \<in> set (ce_dom c) \<or> dow \<in> set (ce_dow c)
             else dm \<in> set (ce_dom c) \<and> dow \<in> set (ce_dow c))"

section \<open>Triggers and policies\<close>

datatype EventKind = CiBuildFail | TestRegression | RepoChange | TicketAssign | TelemetryThreshold

datatype DayWindow = Morning | Afternoon | Evening

fun start_hour :: "DayWindow \<Rightarrow> nat" where
  "start_hour Morning = 6"
| "start_hour Afternoon = 12"
| "start_hour Evening = 18"

datatype TriggerSpec =
    TsCron string
  | TsInterval nat
  | TsEvent EventKind string
  | TsWebhook string "string list"
  | TsManual
  | TsWindow DayWindow int

datatype MisfirePolicy = MfSkip | MfRunOnceOnResume | MfCatchUp

definition misfire_default :: MisfirePolicy where
  "misfire_default = MfRunOnceOnResume"

record SchedulePolicy =
  sp_suppress_on_battery :: bool
  sp_max_runs_per_hour :: "nat option"
  sp_scope :: "string option"
  sp_misfire_policy :: MisfirePolicy

definition schedule_policy_default :: SchedulePolicy where
  "schedule_policy_default =
     \<lparr> sp_suppress_on_battery = True, sp_max_runs_per_hour = Some 4, sp_scope = None,
       sp_misfire_policy = MfRunOnceOnResume \<rparr>"

section \<open>Next due time\<close>

text \<open>The bounded scan of \<open>compute_next_run\<close>: \<open>n\<close> candidates from \<open>t\<close> on, one minute apart. \<open>t += 60\<close>
  wraps at 64 bits.\<close>

fun scan_minutes :: "CronExpr \<Rightarrow> nat \<Rightarrow> nat \<Rightarrow> nat option" where
  "scan_minutes c t 0 = None"
| "scan_minutes c t (Suc n) = (if cron_matches c t then Some t else scan_minutes c (u64_add t 60) n)"

definition as_i64 :: "nat \<Rightarrow> int" where
  "as_i64 n = (int n + 2 ^ 63) mod 2 ^ 64 - 2 ^ 63"

definition i64_wrap :: "int \<Rightarrow> int" where
  "i64_wrap x = (x + 2 ^ 63) mod 2 ^ 64 - 2 ^ 63"

definition next_window_unix :: "nat \<Rightarrow> DayWindow \<Rightarrow> int \<Rightarrow> nat" where
  "next_window_unix now window utc_offset_minutes =
     (let offset = utc_offset_minutes * 60;
          local0 = i64_wrap (as_i64 now + offset);
          lcl = (if local0 < 0 then 0 else nat local0);
          day = lcl div 86400;
          start_today = day * 86400 + start_hour window * 3600;
          start_local = (if lcl < start_today then start_today else start_today + 86400);
          utc = i64_wrap (as_i64 start_local - offset)
      in if utc < 0 then 0 else nat utc)"

definition compute_next_run :: "TriggerSpec \<Rightarrow> nat \<Rightarrow> nat option \<Rightarrow> nat option" where
  "compute_next_run trigger now current =
     (case trigger of
        TsCron expr \<Rightarrow>
          (case cron_parse expr of
             Inr c \<Rightarrow> scan_minutes c (u64_sat_add (now - now mod 60) 60) (366 * 1440)
           | Inl _ \<Rightarrow> current)
      | TsInterval secs \<Rightarrow> Some (u64_sat_add now secs)
      | TsWindow window off \<Rightarrow> Some (next_window_unix now window off)
      | TsEvent _ _ \<Rightarrow> None
      | TsWebhook _ _ \<Rightarrow> None
      | TsManual \<Rightarrow> None)"

end
