(* ===== verification/Sched_Json.thy ===== *)
theory Sched_Json
  imports Sched_Types
begin

text \<open>
  JSON values with their canonical rendering, the automation shapes
  (\<open>blueprint/src/automation.rs\<close>), their content-addressed revision ids and the Work factory
  (\<open>core/src/automation_runtime.rs\<close>).

  SHA-256 and the rendering of strings and floating-point numbers by \<open>serde_json\<close> are parameters
  (\<open>digest_env\<close>); the derived serializations of the sources' own types are written out.
\<close>

section \<open>Values\<close>

datatype jnum = NumU nat | NumI int | NumF f64

datatype jvalue =
    JvNull
  | JvBool bool
  | JvNum jnum
  | JvStr string
  | JvArr "jvalue list"
  | JvObj "(string \<times> jvalue) list"

fun jv_get :: "jvalue \<Rightarrow> string \<Rightarrow> jvalue option" where
  "jv_get (JvObj m) k = lookup m k"
| "jv_get _ k = None"

fun jv_str :: "jvalue \<Rightarrow> string option" where
  "jv_str (JvStr s) = Some s"
| "jv_str _ = None"

fun jv_u64 :: "jvalue \<Rightarrow> nat option" where
  "jv_u64 (JvNum (NumU n)) = Some n"
| "jv_u64 _ = None"

fun jv_bool :: "jvalue \<Rightarrow> bool option" where
  "jv_bool (JvBool b) = Some b"
| "jv_bool _ = None"

fun jv_object :: "jvalue \<Rightarrow> (string \<times> jvalue) list option" where
  "jv_object (JvObj m) = Some m"
| "jv_object _ = None"

abbreviation jnat :: "nat \<Rightarrow> jvalue" where
  "jnat n \<equiv> JvNum (NumU n)"

definition jint :: "int \<Rightarrow> jvalue" where
  "jint i = JvNum (if 0 \<le> i then NumU (nat i) else NumI i)"

definition jopt :: "('a \<Rightarrow> jvalue) \<Rightarrow> 'a option \<Rightarrow> jvalue" where
  "jopt f x = (case x of None \<Rightarrow> JvNull | Some a \<Rightarrow> f a)"

record digest_env =
  de_sha :: "string \<Rightarrow> string"
  de_quote :: "string \<Rightarrow> string"
  de_float :: "f64 \<Rightarrow> string"

definition show_int :: "int \<Rightarrow> string" where
  "show_int i = (if i < 0 then ''-'' @ show_nat (nat (- i)) else show_nat (nat i))"

fun show_jnum :: "'x digest_env_scheme \<Rightarrow> jnum \<Rightarrow> string" where
  "show_jnum e (NumU n) = show_nat n"
| "show_jnum e (NumI i) = show_int i"
| "show_jnum e (NumF f) = de_float e f"

text \<open>The keys of an object are distinct, so sorting the rendered members by key is the lookup of the
  sorted keys.\<close>

fun canonical_json :: "'x digest_env_scheme \<Rightarrow> jvalue \<Rightarrow> string" where
  "canonical_json e JvNull = ''null''"
| "canonical_json e (JvBool b) = (if b then ''true'' else ''false'')"
| "canonical_json e (JvNum n) = show_jnum e n"
| "canonical_json e (JvStr s) = de_quote e s"
| "canonical_json e (JvArr vs) = ''['' @ join_with '','' (map (canonical_json e) vs) @ '']''"
| "canonical_json e (JvObj m) =
     ''{'' @ join_with '','' (map (\<lambda>(k, s). de_quote e k @ '':'' @ s)
                              (sort_key fst (map (\<lambda>(k, v). (k, canonical_json e v)) m))) @ ''}''"

definition digest_bytes :: "'x digest_env_scheme \<Rightarrow> string \<Rightarrow> string" where
  "digest_bytes e bytes = hex_encode (de_sha e bytes)"

definition digest_json :: "'x digest_env_scheme \<Rightarrow> jvalue \<Rightarrow> string" where
  "digest_json e v = digest_bytes e (canonical_json e v)"

definition is_sha256_digest :: "string \<Rightarrow> bool" where
  "is_sha256_digest s \<longleftrightarrow>
     length s = 64 \<and> list_all (\<lambda>c. is_digit c \<or> CHR ''a'' \<le> c \<and> c \<le> CHR ''f'') s"

section \<open>Automations\<close>

datatype AutomationStep =
    RunCode string string
  | OnlineSearch string
  | EmailStep "string list" string string
  | CalendarStep string string

datatype AutomationTrigger =
    BtSchedule string
  | BtFileEvent string string
  | BtIncomingEmail string
  | BtManual

record Automation =
  au_id :: string
  au_name :: string
  au_trigger :: AutomationTrigger
  au_steps :: "AutomationStep list"

definition automation_new :: "string \<Rightarrow> string \<Rightarrow> AutomationTrigger \<Rightarrow> Automation" where
  "automation_new i n t = \<lparr> au_id = i, au_name = n, au_trigger = t, au_steps = [] \<rparr>"

definition automation_step :: "AutomationStep \<Rightarrow> Automation \<Rightarrow> Automation" where
  "automation_step st a = a\<lparr>au_steps := au_steps a @ [st]\<rparr>"

fun is_privileged :: "AutomationStep \<Rightarrow> bool" where
  "is_privileged (EmailStep _ _ _) = True"
| "is_privileged (CalendarStep _ _) = True"
| "is_privileged _ = False"

definition privileged_steps :: "Automation \<Rightarrow> AutomationStep list" where
  "privileged_steps a = filter is_privileged (au_steps a)"

fun step_json :: "AutomationStep \<Rightarrow> jvalue" where
  "step_json (RunCode lang code) =
     JvObj [(''step'', JvStr ''run_code''), (''language'', JvStr lang), (''code'', JvStr code)]"
| "step_json (OnlineSearch query) =
     JvObj [(''step'', JvStr ''online_search''), (''query'', JvStr query)]"
| "step_json (EmailStep to subject body) =
     JvObj [(''step'', JvStr ''email''), (''to'', JvArr (map JvStr to)), (''subject'', JvStr subject),
            (''body'', JvStr body)]"
| "step_json (CalendarStep title start) =
     JvObj [(''step'', JvStr ''calendar''), (''title'', JvStr title), (''when'', JvStr start)]"

fun automation_trigger_json :: "AutomationTrigger \<Rightarrow> jvalue" where
  "automation_trigger_json (BtSchedule cron) =
     JvObj [(''trigger'', JvStr ''schedule''), (''cron'', JvStr cron)]"
| "automation_trigger_json (BtFileEvent path event) =
     JvObj [(''trigger'', JvStr ''file_event''), (''path'', JvStr path), (''event'', JvStr event)]"
| "automation_trigger_json (BtIncomingEmail flt) =
     JvObj [(''trigger'', JvStr ''incoming_email''), (''filter'', JvStr flt)]"
| "automation_trigger_json BtManual = JvObj [(''trigger'', JvStr ''manual'')]"

definition automation_json :: "Automation \<Rightarrow> jvalue" where
  "automation_json a =
     JvObj [(''id'', JvStr (au_id a)), (''name'', JvStr (au_name a)),
            (''trigger'', automation_trigger_json (au_trigger a)),
            (''steps'', JvArr (map step_json (au_steps a)))]"

section \<open>Revision ids\<close>

datatype AutomationError =
    AeEmpty
  | AeUnsupportedLanguage string
  | AeMissingRevision
  | AeInvalidRevision string
  | AeRevisionMismatch
  | AeMissingOccurrence

record RevisionIdentity =
  ri_generation :: nat
  ri_revision :: nat
  ri_digest :: string

definition snapshot_marker :: string where
  "snapshot_marker = ''::snapshot:''"

fun split_once_str :: "string \<Rightarrow> string \<Rightarrow> (string \<times> string) option" where
  "split_once_str pat [] = (if pat = [] then Some ([], []) else None)"
| "split_once_str pat (c # cs) =
     (if starts_with (c # cs) pat then Some ([], drop (length pat) (c # cs))
      else map_option (\<lambda>(a, b). (c # a, b)) (split_once_str pat cs))"

definition canonical_automation_id :: "string \<Rightarrow> string" where
  "canonical_automation_id s = (case split_once_str snapshot_marker s of Some (base, _) \<Rightarrow> base | None \<Rightarrow> s)"

definition revision_content_digest :: "'x digest_env_scheme \<Rightarrow> Automation \<Rightarrow> nat \<Rightarrow> string" where
  "revision_content_digest e a generation =
     digest_bytes e (canonical_json e (JvObj
       [(''schema'', JvStr ''everyaios.automation.revision.v1''), (''generation'', jnat generation),
        (''automation'', automation_json a)]))"

definition content_addressed_revision_id_for_generation ::
  "'x digest_env_scheme \<Rightarrow> Automation \<Rightarrow> nat \<Rightarrow> nat \<Rightarrow> string" where
  "content_addressed_revision_id_for_generation e a generation revision =
     ''g'' @ show_nat generation @ '':r'' @ show_nat revision @ '':'' @
     revision_content_digest e a generation"

definition content_addressed_revision_id :: "'x digest_env_scheme \<Rightarrow> Automation \<Rightarrow> nat \<Rightarrow> string" where
  "content_addressed_revision_id e a revision =
     content_addressed_revision_id_for_generation e a 1 revision"

definition parse_u64 :: "string \<Rightarrow> nat option" where
  "parse_u64 s = parse_nat (2 ^ 64) s"

definition parse_counter :: "string \<Rightarrow> string \<Rightarrow> nat option" where
  "parse_counter pre s =
     (case strip_prefix s pre of
        None \<Rightarrow> None
      | Some text \<Rightarrow>
          (case parse_u64 text of
             None \<Rightarrow> None
           | Some n \<Rightarrow> if show_nat n = text then Some n else None))"

definition parse_revision_id :: "string \<Rightarrow> AutomationError + RevisionIdentity" where
  "parse_revision_id rid =
     (case split_on (CHR '':'') (str_trim rid) of
        [g, r, digest] \<Rightarrow>
          (case parse_counter ''g'' g of
             None \<Rightarrow> Inl (AeInvalidRevision rid)
           | Some generation \<Rightarrow>
               (case parse_counter ''r'' r of
                  None \<Rightarrow> Inl (AeInvalidRevision rid)
                | Some revision \<Rightarrow>
                    if generation = 0 \<or> revision = 0 \<or> \<not> is_sha256_digest digest
                    then Inl (AeInvalidRevision rid)
                    else Inr \<lparr> ri_generation = generation, ri_revision = revision, ri_digest = digest \<rparr>))
      | _ \<Rightarrow> Inl (AeInvalidRevision rid))"

definition validate_revision_id ::
  "'x digest_env_scheme \<Rightarrow> Automation \<Rightarrow> string \<Rightarrow> AutomationError + RevisionIdentity" where
  "validate_revision_id e a rid =
     (case parse_revision_id rid of
        Inl err \<Rightarrow> Inl err
      | Inr identity \<Rightarrow>
          if ri_digest identity \<noteq> revision_content_digest e a (ri_generation identity)
          then Inl AeRevisionMismatch else Inr identity)"

section \<open>The Work factory\<close>

record AutomationProvenance =
  ap_automation_id :: string
  ap_revision_id :: string
  ap_automation_generation :: nat
  ap_trigger_occurrence_id :: string

record CompiledCapabilityRequest =
  cc_capability_id :: string
  cc_step_index :: nat
  cc_reason :: string

record CompiledStep =
  cs_index :: nat
  cs_kind :: string
  cs_deterministic :: bool
  cs_capability_request :: "CompiledCapabilityRequest option"

record WorkSpec =
  ws_provenance :: AutomationProvenance
  ws_objective :: string
  ws_steps :: "CompiledStep list"
  ws_capability_requests :: "CompiledCapabilityRequest list"
  ws_agent_required :: bool

fun validate_step :: "AutomationStep \<Rightarrow> AutomationError + unit" where
  "validate_step (RunCode lang _) =
     (let l = to_lowercase lang
      in if l \<in> {''js'', ''javascript'', ''ts'', ''typescript''} then Inr () else Inl (AeUnsupportedLanguage l))"
| "validate_step _ = Inr ()"

fun capability_of :: "nat \<Rightarrow> AutomationStep \<Rightarrow> CompiledCapabilityRequest" where
  "capability_of i (RunCode _ _) =
     \<lparr> cc_capability_id = ''script.eval'', cc_step_index = i,
       cc_reason = ''sandboxed code execution for automation step'' \<rparr>"
| "capability_of i (OnlineSearch _) =
     \<lparr> cc_capability_id = ''net.search'', cc_step_index = i,
       cc_reason = ''web search cascade for automation step'' \<rparr>"
| "capability_of i (EmailStep _ _ _) =
     \<lparr> cc_capability_id = ''connector.email'', cc_step_index = i, cc_reason = ''outbound email write'' \<rparr>"
| "capability_of i (CalendarStep _ _) =
     \<lparr> cc_capability_id = ''connector.calendar'', cc_step_index = i, cc_reason = ''calendar write'' \<rparr>"

fun kind_of :: "AutomationStep \<Rightarrow> string" where
  "kind_of (RunCode _ _) = ''run_code''"
| "kind_of (OnlineSearch _) = ''online_search''"
| "kind_of (EmailStep _ _ _) = ''email''"
| "kind_of (CalendarStep _ _) = ''calendar''"

definition is_agent_backed :: "AutomationStep \<Rightarrow> bool" where
  "is_agent_backed s = False"

definition objective_of :: "Automation \<Rightarrow> string" where
  "objective_of a = ''automation:'' @ canonical_automation_id (au_id a) @ '':'' @ au_name a"

fun validate_steps :: "AutomationStep list \<Rightarrow> AutomationError + unit" where
  "validate_steps [] = Inr ()"
| "validate_steps (s # ss) = (case validate_step s of Inl e \<Rightarrow> Inl e | Inr _ \<Rightarrow> validate_steps ss)"

definition compile_step :: "nat \<times> AutomationStep \<Rightarrow> CompiledStep" where
  "compile_step = (\<lambda>(i, s).
     \<lparr> cs_index = i, cs_kind = kind_of s, cs_deterministic = \<not> is_agent_backed s,
       cs_capability_request = Some (capability_of i s) \<rparr>)"

definition compile_work ::
  "'x digest_env_scheme \<Rightarrow> Automation \<Rightarrow> string \<Rightarrow> string \<Rightarrow> AutomationError + WorkSpec" where
  "compile_work e a revision_id occurrence_id =
     (if au_steps a = [] then Inl AeEmpty
      else if str_trim (canonical_automation_id (au_id a)) = []
      then Inl (AeInvalidRevision ''automation has no id'')
      else
        let rid = str_trim revision_id
        in if rid = [] then Inl AeMissingRevision
           else
             (case validate_revision_id e a rid of
                Inl err \<Rightarrow> Inl err
              | Inr identity \<Rightarrow>
                  let oid = str_trim occurrence_id
                  in if oid = [] then Inl AeMissingOccurrence
                     else
                       (case validate_steps (au_steps a) of
                          Inl err \<Rightarrow> Inl err
                        | Inr _ \<Rightarrow>
                            let steps = map compile_step (enumerate 0 (au_steps a))
                            in Inr \<lparr>
                                 ws_provenance = \<lparr>
                                   ap_automation_id = canonical_automation_id (au_id a),
                                   ap_revision_id = rid,
                                   ap_automation_generation = ri_generation identity,
                                   ap_trigger_occurrence_id = oid \<rparr>,
                                 ws_objective = objective_of a,
                                 ws_steps = steps,
                                 ws_capability_requests =
                                   List.map_filter cs_capability_request steps,
                                 ws_agent_required = (\<exists>s \<in> set steps. \<not> cs_deterministic s) \<rparr>)))"

end
