(* ===== verification/Sched_State.thy ===== *)
theory Sched_State
  imports Sched_Json
begin

text \<open>
  The records of the scheduler (\<open>core/src/scheduler_service.rs\<close>): jobs, occurrences, receipts and the
  service, their derived serializations, the digests that identify revisions and deliveries, and the
  validations that every occurrence and job definition passes.

  Error strings are the constructors of \<open>SchedError\<close>, one per message of the source.
\<close>

section \<open>Errors\<close>

datatype PersistIo = PioOk | PioDir | PioEncode | PioCreate | PioWrite | PioSync | PioRename

datatype DefinitionError =
    DefEmptyIdName | DefNoGeneration | DefInvalidCron CronError | DefZeroInterval | DefEmptyPath | DefCatchUp

datatype ReceiptError = RcNotDurable | RcIds | RcProvenance

datatype ShapeError =
    ShIdentity
  | ShRevision AutomationError
  | ShProvenance string
  | ShTrigger string
  | ShDelivery string
  | ShPendingMeta
  | ShUncertainReceipt
  | ShUncertainReason
  | ShCancelledReceipt
  | ShTerminalMeta
  | ShTerminalReceipt
  | ShReceipt ReceiptError

datatype LoadError =
    LdRead
  | LdParse
  | LdParseJobs
  | LdParseStore
  | LdVersion nat
  | LdEmptyJobId
  | LdUntrusted string
  | LdInvalidRevision string
  | LdDuplicateJob string
  | LdDuplicateAutomation string
  | LdLegacyRevision string
  | LdDuplicateOccurrence string
  | LdDuplicateDigest string

datatype KeyError = KyNotObject | KyMissing | KyInvalid | KyMany | KyNotString

datatype OccurrenceError =
    OeUnknown | OeCancelled | OeAdvanced | OeUnknownAutomation | OeTerminal

datatype RpcError = RpcMethod string | RpcParam string string | RpcDecode string

datatype SchedError =
    ErrUnavailable SchedError
  | ErrLoad LoadError
  | ErrPersist PersistIo
  | ErrDefinition string DefinitionError
  | ErrShape ShapeError
  | ErrReceipt ReceiptError
  | ErrRevisionId AutomationError
  | ErrKey string KeyError
  | ErrKeyReused string
  | ErrOccurrence string OccurrenceError
  | ErrUnresolved string
  | ErrUnknownJob string
  | ErrJobInactive string
  | ErrNotAdmitted string
  | ErrManualNotAdmitted string
  | ErrCatchUpNotAdmitted
  | ErrBadToken
  | ErrWebhookBody string
  | ErrMissingKey string string
  | ErrReceiptRequired
  | ErrMarkFired
  | ErrNoReason
  | ErrRpc RpcError

section \<open>Records\<close>

datatype MonitorSource = MsLlm | MsScript string bool

record MonitorConfig =
  mc_stop_on_condition :: bool
  mc_last_observation :: "string option"
  mc_notifications :: nat
  mc_source :: MonitorSource

definition monitor_default :: MonitorConfig where
  "monitor_default =
     \<lparr> mc_stop_on_condition = False, mc_last_observation = None, mc_notifications = 0, mc_source = MsLlm \<rparr>"

record Job =
  jb_id :: string
  jb_automation_id :: string
  jb_revision :: nat
  jb_generation :: nat
  jb_revision_id :: string
  jb_name :: string
  jb_session_id :: string
  jb_trigger :: TriggerSpec
  jb_steps :: "AutomationStep list"
  jb_policy :: SchedulePolicy
  jb_enabled :: bool
  jb_paused :: bool
  jb_next_run_at :: "nat option"
  jb_last_fired_at :: "nat option"
  jb_recent_fires :: "nat list"
  jb_monitor :: "MonitorConfig option"
  jb_notepad :: string

record MonitorVerdict =
  mv_changed :: bool
  mv_notified :: bool
  mv_stopped :: bool
  mv_previous :: "string option"
  mv_current :: string
  mv_notifications :: nat

datatype OccurrenceTrigger = OtSchedule nat | OtManual | OtEvent string | OtWebhook string

record AutomationRevision =
  ar_automation_id :: string
  ar_revision :: nat
  ar_revision_id :: string
  ar_name :: string
  ar_session_id :: string
  ar_trigger :: TriggerSpec
  ar_steps :: "AutomationStep list"
  ar_policy :: SchedulePolicy

datatype OccurrenceState = OsPending | OsUncertain | OsCancelled | OsTerminal

record WorkRunAdmissionReceipt =
  wr_work_id :: string
  wr_run_id :: string
  wr_automation_id :: string
  wr_revision_id :: string
  wr_trigger_occurrence_id :: string
  wr_automation_generation :: nat
  wr_durable :: bool

record AutomationOccurrence =
  oc_id :: string
  oc_automation_id :: string
  oc_revision_id :: string
  oc_trigger :: OccurrenceTrigger
  oc_payload_digest :: string
  oc_dedup_digest :: string
  oc_admitted_at :: nat
  oc_state :: OccurrenceState
  oc_idempotency_key :: string
  oc_fired_at :: "nat option"
  oc_work_id :: "string option"
  oc_run_id :: "string option"
  oc_admission_error :: "string option"
  oc_admission_receipt :: "WorkRunAdmissionReceipt option"
  oc_revision :: AutomationRevision

record PersistedScheduler =
  ps_version :: nat
  ps_jobs :: "Job list"
  ps_occurrences :: "AutomationOccurrence list"
  ps_generation_counters :: "nat strmap"

record NudgeSample =
  ns_goal :: string
  ns_unix_secs :: nat

record NudgeSuggestion =
  nd_goal :: string
  nd_cron :: string
  nd_confidence :: f64
  nd_observed_at :: "string list"

record Incident =
  in_id :: string
  in_job_id :: string
  in_at_ms :: nat
  in_kind :: string
  in_detail :: string
  in_acked :: bool

record CronCheck =
  cc_name :: string
  cc_ok :: bool
  cc_detail :: string

record SchedulerService =
  ss_jobs :: "Job strmap"
  ss_on_battery :: bool
  ss_nudge_log :: "NudgeSample list"
  ss_webhook_token :: "string option"
  ss_persist_path :: "string option"
  ss_occurrences :: "AutomationOccurrence list"
  ss_generation_counters :: "nat strmap"
  ss_load_error :: "SchedError option"
  ss_incidents :: "Incident list"
  ss_incident_seq :: nat

definition scheduler_new :: SchedulerService where
  "scheduler_new =
     \<lparr> ss_jobs = [], ss_on_battery = False, ss_nudge_log = [], ss_webhook_token = None,
       ss_persist_path = None, ss_occurrences = [], ss_generation_counters = [], ss_load_error = None,
       ss_incidents = [], ss_incident_seq = 0 \<rparr>"

definition is_pending :: "AutomationOccurrence \<Rightarrow> bool" where
  "is_pending oc \<longleftrightarrow> oc_state oc = OsPending"

definition is_uncertain :: "AutomationOccurrence \<Rightarrow> bool" where
  "is_uncertain oc \<longleftrightarrow> oc_state oc = OsUncertain"

definition is_cancelled :: "AutomationOccurrence \<Rightarrow> bool" where
  "is_cancelled oc \<longleftrightarrow> oc_state oc = OsCancelled"

definition occ_is_terminal :: "AutomationOccurrence \<Rightarrow> bool" where
  "occ_is_terminal oc \<longleftrightarrow> oc_state oc = OsTerminal \<or> oc_state oc = OsCancelled"

definition admission_receipt_new ::
  "string \<Rightarrow> string \<Rightarrow> string \<Rightarrow> string \<Rightarrow> string \<Rightarrow> nat \<Rightarrow> WorkRunAdmissionReceipt" where
  "admission_receipt_new work run automation revision occ generation =
     \<lparr> wr_work_id = work, wr_run_id = run, wr_automation_id = automation, wr_revision_id = revision,
       wr_trigger_occurrence_id = occ, wr_automation_generation = generation, wr_durable = True \<rparr>"

section \<open>Serialization\<close>

fun event_kind_name :: "EventKind \<Rightarrow> string" where
  "event_kind_name CiBuildFail = ''ci_build_fail''"
| "event_kind_name TestRegression = ''test_regression''"
| "event_kind_name RepoChange = ''repo_change''"
| "event_kind_name TicketAssign = ''ticket_assign''"
| "event_kind_name TelemetryThreshold = ''telemetry_threshold''"

fun day_window_name :: "DayWindow \<Rightarrow> string" where
  "day_window_name Morning = ''morning''"
| "day_window_name Afternoon = ''afternoon''"
| "day_window_name Evening = ''evening''"

fun trigger_json :: "TriggerSpec \<Rightarrow> jvalue" where
  "trigger_json (TsCron expr) = JvObj [(''type'', JvStr ''cron''), (''expr'', JvStr expr)]"
| "trigger_json (TsInterval secs) = JvObj [(''type'', JvStr ''interval''), (''secs'', jnat secs)]"
| "trigger_json (TsEvent kind flt) =
     JvObj [(''type'', JvStr ''event''), (''kind'', JvStr (event_kind_name kind)), (''filter'', JvStr flt)]"
| "trigger_json (TsWebhook path schema) =
     JvObj [(''type'', JvStr ''webhook''), (''path'', JvStr path), (''schema'', JvArr (map JvStr schema))]"
| "trigger_json TsManual = JvObj [(''type'', JvStr ''manual'')]"
| "trigger_json (TsWindow window off) =
     JvObj [(''type'', JvStr ''window''), (''window'', JvStr (day_window_name window)),
            (''utc_offset_minutes'', jint off)]"

fun misfire_json :: "MisfirePolicy \<Rightarrow> jvalue" where
  "misfire_json MfSkip = JvStr ''skip''"
| "misfire_json MfRunOnceOnResume = JvStr ''run_once_on_resume''"
| "misfire_json MfCatchUp = JvStr ''catch_up''"

definition policy_json :: "SchedulePolicy \<Rightarrow> jvalue" where
  "policy_json p =
     JvObj [(''suppressOnBattery'', JvBool (sp_suppress_on_battery p)),
            (''maxRunsPerHour'', jopt jnat (sp_max_runs_per_hour p)),
            (''scope'', jopt JvStr (sp_scope p)),
            (''misfirePolicy'', misfire_json (sp_misfire_policy p))]"

fun monitor_source_json :: "MonitorSource \<Rightarrow> jvalue" where
  "monitor_source_json MsLlm = JvStr ''llm''"
| "monitor_source_json (MsScript cmd net) =
     JvObj [(''script'', JvObj [(''cmd'', JvStr cmd), (''allowNet'', JvBool net)])]"

definition monitor_json :: "MonitorConfig \<Rightarrow> jvalue" where
  "monitor_json m =
     JvObj [(''stopOnCondition'', JvBool (mc_stop_on_condition m)),
            (''lastObservation'', jopt JvStr (mc_last_observation m)),
            (''notifications'', jnat (mc_notifications m)),
            (''source'', monitor_source_json (mc_source m))]"

definition job_json :: "Job \<Rightarrow> jvalue" where
  "job_json j =
     JvObj [(''id'', JvStr (jb_id j)), (''automationId'', JvStr (jb_automation_id j)),
            (''revision'', jnat (jb_revision j)), (''generation'', jnat (jb_generation j)),
            (''revisionId'', JvStr (jb_revision_id j)), (''name'', JvStr (jb_name j)),
            (''sessionId'', JvStr (jb_session_id j)), (''trigger'', trigger_json (jb_trigger j)),
            (''steps'', JvArr (map step_json (jb_steps j))), (''policy'', policy_json (jb_policy j)),
            (''enabled'', JvBool (jb_enabled j)), (''paused'', JvBool (jb_paused j)),
            (''nextRunAt'', jopt jnat (jb_next_run_at j)), (''lastFiredAt'', jopt jnat (jb_last_fired_at j)),
            (''recentFires'', JvArr (map jnat (jb_recent_fires j))),
            (''monitor'', jopt monitor_json (jb_monitor j)), (''notepad'', JvStr (jb_notepad j))]"

definition verdict_json :: "MonitorVerdict \<Rightarrow> jvalue" where
  "verdict_json v =
     JvObj ([(''changed'', JvBool (mv_changed v)), (''notified'', JvBool (mv_notified v)),
             (''stopped'', JvBool (mv_stopped v))] @
            (case mv_previous v of None \<Rightarrow> [] | Some p \<Rightarrow> [(''previous'', JvStr p)]) @
            [(''current'', JvStr (mv_current v)), (''notifications'', jnat (mv_notifications v))])"

fun occurrence_trigger_json :: "OccurrenceTrigger \<Rightarrow> jvalue" where
  "occurrence_trigger_json (OtSchedule at_time) =
     JvObj [(''type'', JvStr ''schedule''), (''scheduled_at'', jnat at_time)]"
| "occurrence_trigger_json OtManual = JvObj [(''type'', JvStr ''manual'')]"
| "occurrence_trigger_json (OtEvent kind) = JvObj [(''type'', JvStr ''event''), (''kind'', JvStr kind)]"
| "occurrence_trigger_json (OtWebhook path) = JvObj [(''type'', JvStr ''webhook''), (''path'', JvStr path)]"

definition revision_json :: "AutomationRevision \<Rightarrow> jvalue" where
  "revision_json r =
     JvObj [(''automationId'', JvStr (ar_automation_id r)), (''revision'', jnat (ar_revision r)),
            (''revisionId'', JvStr (ar_revision_id r)), (''name'', JvStr (ar_name r)),
            (''sessionId'', JvStr (ar_session_id r)), (''trigger'', trigger_json (ar_trigger r)),
            (''steps'', JvArr (map step_json (ar_steps r))), (''policy'', policy_json (ar_policy r))]"

fun occurrence_state_json :: "OccurrenceState \<Rightarrow> jvalue" where
  "occurrence_state_json OsPending = JvStr ''pending''"
| "occurrence_state_json OsUncertain = JvStr ''uncertain''"
| "occurrence_state_json OsCancelled = JvStr ''cancelled''"
| "occurrence_state_json OsTerminal = JvStr ''terminal''"

definition receipt_json :: "WorkRunAdmissionReceipt \<Rightarrow> jvalue" where
  "receipt_json r =
     JvObj [(''workId'', JvStr (wr_work_id r)), (''runId'', JvStr (wr_run_id r)),
            (''automationId'', JvStr (wr_automation_id r)), (''revisionId'', JvStr (wr_revision_id r)),
            (''triggerOccurrenceId'', JvStr (wr_trigger_occurrence_id r)),
            (''automationGeneration'', jnat (wr_automation_generation r)),
            (''durable'', JvBool (wr_durable r))]"

definition occurrence_json :: "AutomationOccurrence \<Rightarrow> jvalue" where
  "occurrence_json oc =
     JvObj [(''triggerOccurrenceId'', JvStr (oc_id oc)), (''automationId'', JvStr (oc_automation_id oc)),
            (''revisionId'', JvStr (oc_revision_id oc)),
            (''trigger'', occurrence_trigger_json (oc_trigger oc)),
            (''payloadDigest'', JvStr (oc_payload_digest oc)),
            (''dedupDigest'', JvStr (oc_dedup_digest oc)), (''admittedAt'', jnat (oc_admitted_at oc)),
            (''state'', occurrence_state_json (oc_state oc)),
            (''idempotencyKey'', JvStr (oc_idempotency_key oc)),
            (''firedAt'', jopt jnat (oc_fired_at oc)), (''workId'', jopt JvStr (oc_work_id oc)),
            (''runId'', jopt JvStr (oc_run_id oc)),
            (''admissionError'', jopt JvStr (oc_admission_error oc)),
            (''admissionReceipt'', jopt receipt_json (oc_admission_receipt oc)),
            (''revision'', revision_json (oc_revision oc))]"

definition store_json :: "PersistedScheduler \<Rightarrow> jvalue" where
  "store_json st =
     JvObj [(''version'', jnat (ps_version st)), (''jobs'', JvArr (map job_json (ps_jobs st))),
            (''occurrences'', JvArr (map occurrence_json (ps_occurrences st))),
            (''generationCounters'', JvObj (map (\<lambda>(k, n). (k, jnat n)) (ps_generation_counters st)))]"

text \<open>\<open>HashMap::remove\<close> on the members of every job of a persisted document.\<close>

definition retired_job_fields :: "string list" where
  "retired_job_fields =
     [''checkpoint'', ''state'', ''currentRun'', ''runs'', ''successes'', ''failures'', ''modelPin'',
      ''effortPin'', ''manifestHash'', ''lastOutput'']"

fun drop_job_fields :: "jvalue \<Rightarrow> jvalue" where
  "drop_job_fields (JvObj m) = JvObj (filter (\<lambda>(k, v). k \<notin> set retired_job_fields) m)"
| "drop_job_fields v = v"

fun drop_retired_execution_fields :: "jvalue \<Rightarrow> jvalue" where
  "drop_retired_execution_fields (JvArr jobs) = JvArr (map drop_job_fields jobs)"
| "drop_retired_execution_fields (JvObj m) =
     (case lookup m ''jobs'' of
        Some (JvArr jobs) \<Rightarrow> JvObj (AList.update ''jobs'' (JvArr (map drop_job_fields jobs)) m)
      | _ \<Rightarrow> JvObj m)"
| "drop_retired_execution_fields v = v"

end
