(* ===== verification/Sched_Valid.thy ===== *)
theory Sched_Valid
  imports Sched_State
begin

text \<open>
  Identities and validations of the scheduler (\<open>core/src/scheduler_service.rs\<close>, after the service):
  trusted automation ids, revision snapshots and their content-addressed ids, delivery digests and
  idempotency keys, and the checks of job definitions, occurrences and admission receipts. The
  normalization of rows written by older versions is here too.
\<close>

section \<open>Identities\<close>

definition trusted_automation_id :: "'x digest_env_scheme \<Rightarrow> string \<Rightarrow> string" where
  "trusted_automation_id e registry_id =
     ''automation:auto:'' @ digest_bytes e (''everyaios.automation.v1'' @ [CHR 0x00] @ registry_id)"

definition rev_generation :: "AutomationRevision \<Rightarrow> nat" where
  "rev_generation r =
     (case parse_revision_id (ar_revision_id r) of Inr i \<Rightarrow> ri_generation i | Inl _ \<Rightarrow> 0)"

definition rev_automation :: "'x digest_env_scheme \<Rightarrow> AutomationRevision \<Rightarrow> Automation" where
  "rev_automation e r =
     (let trigger = (case ar_trigger r of TsCron expr \<Rightarrow> BtSchedule expr | _ \<Rightarrow> BtManual);
          metadata = digest_json e (JvObj
            [(''sessionId'', JvStr (ar_session_id r)), (''trigger'', trigger_json (ar_trigger r)),
             (''policy'', policy_json (ar_policy r))])
      in \<lparr> au_id = ar_automation_id r @ ''::snapshot:'' @ metadata, au_name = ar_name r,
           au_trigger = trigger, au_steps = ar_steps r \<rparr>)"

definition revision_snapshot :: "Job \<Rightarrow> AutomationRevision" where
  "revision_snapshot j =
     \<lparr> ar_automation_id = jb_automation_id j, ar_revision = jb_revision j,
       ar_revision_id = jb_revision_id j, ar_name = jb_name j, ar_session_id = jb_session_id j,
       ar_trigger = jb_trigger j, ar_steps = jb_steps j, ar_policy = jb_policy j \<rparr>"

definition revision_id_for :: "'x digest_env_scheme \<Rightarrow> Job \<Rightarrow> nat \<Rightarrow> string" where
  "revision_id_for e j revision =
     content_addressed_revision_id_for_generation e (rev_automation e (revision_snapshot j))
       (jb_generation j) revision"

definition legacy_definition_digest :: "'x digest_env_scheme \<Rightarrow> Job \<Rightarrow> string" where
  "legacy_definition_digest e j =
     digest_json e (JvObj
       [(''automationId'', JvStr (jb_automation_id j)), (''name'', JvStr (jb_name j)),
        (''sessionId'', JvStr (jb_session_id j)), (''trigger'', trigger_json (jb_trigger j)),
        (''steps'', JvArr (map step_json (jb_steps j))), (''policy'', policy_json (jb_policy j))])"

definition legacy_revision_id_matches :: "'x digest_env_scheme \<Rightarrow> Job \<Rightarrow> string \<Rightarrow> bool" where
  "legacy_revision_id_matches e j rid \<longleftrightarrow>
     rid = show_nat (jb_revision j) @ '':'' @ legacy_definition_digest e j"

definition legacy_revision_id_for_snapshot :: "'x digest_env_scheme \<Rightarrow> AutomationRevision \<Rightarrow> string" where
  "legacy_revision_id_for_snapshot e r =
     show_nat (ar_revision r) @ '':'' @ digest_json e (JvObj
       [(''automationId'', JvStr (ar_automation_id r)), (''name'', JvStr (ar_name r)),
        (''sessionId'', JvStr (ar_session_id r)), (''trigger'', trigger_json (ar_trigger r)),
        (''steps'', JvArr (map step_json (ar_steps r))), (''policy'', policy_json (ar_policy r))])"

definition job_new_with_generation ::
  "'x digest_env_scheme \<Rightarrow> string \<Rightarrow> string \<Rightarrow> string \<Rightarrow> TriggerSpec \<Rightarrow> nat \<Rightarrow> Job" where
  "job_new_with_generation e i name session trigger generation =
     (let job = \<lparr> jb_id = i, jb_automation_id = trusted_automation_id e i, jb_revision = 1,
          jb_generation = generation, jb_revision_id = [], jb_name = name, jb_session_id = session,
          jb_trigger = trigger, jb_steps = [], jb_policy = schedule_policy_default, jb_enabled = True,
          jb_paused = False, jb_next_run_at = None, jb_last_fired_at = None, jb_recent_fires = [],
          jb_monitor = None, jb_notepad = [] \<rparr>
      in job\<lparr>jb_revision_id := revision_id_for e job (jb_revision job)\<rparr>)"

definition job_new :: "'x digest_env_scheme \<Rightarrow> string \<Rightarrow> string \<Rightarrow> string \<Rightarrow> TriggerSpec \<Rightarrow> Job" where
  "job_new e i name session trigger = job_new_with_generation e i name session trigger 1"

definition dedup_digest_for ::
  "'x digest_env_scheme \<Rightarrow> string \<Rightarrow> nat \<Rightarrow> OccurrenceTrigger \<Rightarrow> string \<Rightarrow> string" where
  "dedup_digest_for e automation generation trigger key =
     digest_json e (JvObj
       [(''automationId'', JvStr automation), (''generation'', jnat generation),
        (''trigger'', occurrence_trigger_json trigger), (''idempotencyKey'', JvStr key)])"

definition occurrence_id_of :: "string \<Rightarrow> string" where
  "occurrence_id_of dedup = ''occ:'' @ take 32 dedup"

definition work_id_of :: "string \<Rightarrow> string \<Rightarrow> string" where
  "work_id_of automation occ = ''automation-work:'' @ automation @ '':'' @ occ"

definition run_id_of :: "string \<Rightarrow> string \<Rightarrow> string" where
  "run_id_of automation occ = ''automation-run:'' @ automation @ '':'' @ occ"

definition expected_work_id :: "AutomationOccurrence \<Rightarrow> string" where
  "expected_work_id oc = work_id_of (oc_automation_id oc) (oc_id oc)"

definition expected_run_id :: "AutomationOccurrence \<Rightarrow> string" where
  "expected_run_id oc = run_id_of (oc_automation_id oc) (oc_id oc)"

section \<open>Idempotency keys\<close>

text \<open>\<open>char::is_control\<close> on UTF-8 bytes: the C0 controls, DEL, and U+0080 to U+009F (\<open>C2 80\<close> to
  \<open>C2 9F\<close>).\<close>

fun has_control :: "string \<Rightarrow> bool" where
  "has_control [] \<longleftrightarrow> False"
| "has_control (c # cs) \<longleftrightarrow>
     c < CHR 0x20 \<or> c = CHR 0x7F \<or>
     (c = CHR 0xC2 \<and> (case cs of [] \<Rightarrow> False | d # _ \<Rightarrow> CHR 0x80 \<le> d \<and> d \<le> CHR 0x9F)) \<or>
     has_control cs"

definition normalize_idempotency_key :: "string \<Rightarrow> string \<Rightarrow> SchedError + string" where
  "normalize_idempotency_key value_text kind =
     (let key = str_trim value_text
      in if key = [] then Inl (ErrKey kind KyMissing)
         else if 256 < length key \<or> has_control key then Inl (ErrKey kind KyInvalid)
         else Inr key)"

definition idempotency_keys :: "string list" where
  "idempotency_keys =
     [''deliveryId'', ''delivery_id'', ''idempotencyKey'', ''idempotency_key'', ''requestId'',
      ''request_id'', ''eventId'', ''event_id'']"

fun find_key ::
  "string \<Rightarrow> (string \<times> jvalue) list \<Rightarrow> string list \<Rightarrow> string option \<Rightarrow> SchedError + string option" where
  "find_key kind obj [] found = Inr found"
| "find_key kind obj (k # ks) found =
     (case lookup obj k of
        None \<Rightarrow> find_key kind obj ks found
      | Some v \<Rightarrow>
          if found \<noteq> None then Inl (ErrKey kind KyMany)
          else (case jv_str v of
                  None \<Rightarrow> Inl (ErrKey kind KyNotString)
                | Some s \<Rightarrow> find_key kind obj ks (Some s)))"

definition extract_idempotency_key :: "jvalue \<Rightarrow> string \<Rightarrow> SchedError + string" where
  "extract_idempotency_key payload kind =
     (case jv_object payload of
        None \<Rightarrow> Inl (ErrKey kind KyNotObject)
      | Some obj \<Rightarrow>
          (case find_key kind obj idempotency_keys None of
             Inl err \<Rightarrow> Inl err
           | Inr None \<Rightarrow> Inl (ErrKey kind KyMissing)
           | Inr (Some key) \<Rightarrow> normalize_idempotency_key key kind))"

section \<open>Validation\<close>

definition validate_job_definition :: "Job \<Rightarrow> SchedError + unit" where
  "validate_job_definition j =
     (let err = (\<lambda>d. Inl (ErrDefinition (jb_id j) d))
      in if str_trim (jb_id j) = [] \<or> str_trim (jb_name j) = [] then err DefEmptyIdName
         else if jb_generation j = 0 \<or> jb_revision j = 0 then err DefNoGeneration
         else
           (case (case jb_trigger j of
                    TsCron expr \<Rightarrow> (case cron_parse expr of Inl ce \<Rightarrow> err (DefInvalidCron ce) | Inr _ \<Rightarrow> Inr ())
                  | TsInterval secs \<Rightarrow> if secs = 0 then err DefZeroInterval else Inr ()
                  | TsWebhook path _ \<Rightarrow> if str_trim path = [] then err DefEmptyPath else Inr ()
                  | TsEvent _ _ \<Rightarrow> Inr ()
                  | TsWindow _ _ \<Rightarrow> Inr ()
                  | TsManual \<Rightarrow> Inr ()) of
              Inl er \<Rightarrow> Inl er
            | Inr _ \<Rightarrow>
                if (case jb_trigger j of TsCron _ \<Rightarrow> True | _ \<Rightarrow> False) \<and>
                   sp_misfire_policy (jb_policy j) = MfCatchUp
                then err DefCatchUp else Inr ()))"

fun occurrence_trigger_matches_revision :: "OccurrenceTrigger \<Rightarrow> TriggerSpec \<Rightarrow> bool" where
  "occurrence_trigger_matches_revision (OtSchedule _) (TsCron _) \<longleftrightarrow> True"
| "occurrence_trigger_matches_revision (OtSchedule _) (TsInterval _) \<longleftrightarrow> True"
| "occurrence_trigger_matches_revision (OtSchedule _) (TsWindow _ _) \<longleftrightarrow> True"
| "occurrence_trigger_matches_revision OtManual TsManual \<longleftrightarrow> True"
| "occurrence_trigger_matches_revision (OtEvent kind) (TsEvent expected _) \<longleftrightarrow>
     event_kind_name expected = kind"
| "occurrence_trigger_matches_revision (OtWebhook path) (TsWebhook expected _) \<longleftrightarrow> path = expected"
| "occurrence_trigger_matches_revision _ _ \<longleftrightarrow> False"

definition validate_receipt_for ::
  "AutomationOccurrence \<Rightarrow> WorkRunAdmissionReceipt \<Rightarrow> string \<Rightarrow> string \<Rightarrow> ReceiptError + unit" where
  "validate_receipt_for oc r work run =
     (if \<not> wr_durable r then Inl RcNotDurable
      else if wr_work_id r \<noteq> work \<or> wr_run_id r \<noteq> run then Inl RcIds
      else if wr_automation_id r \<noteq> oc_automation_id oc \<or> wr_revision_id r \<noteq> oc_revision_id oc \<or>
              wr_trigger_occurrence_id r \<noteq> oc_id oc \<or>
              wr_automation_generation r \<noteq> rev_generation (oc_revision oc)
      then Inl RcProvenance
      else Inr ())"

definition validate_occurrence_state :: "AutomationOccurrence \<Rightarrow> ShapeError + unit" where
  "validate_occurrence_state oc =
     (case oc_state oc of
        OsPending \<Rightarrow>
          if oc_fired_at oc \<noteq> None \<or> oc_work_id oc \<noteq> None \<or> oc_run_id oc \<noteq> None \<or>
             oc_admission_receipt oc \<noteq> None \<or> oc_admission_error oc \<noteq> None
          then Inl ShPendingMeta else Inr ()
      | OsUncertain \<Rightarrow>
          if oc_fired_at oc \<noteq> None \<or> oc_admission_receipt oc \<noteq> None then Inl ShUncertainReceipt
          else if (case oc_admission_error oc of None \<Rightarrow> True | Some r \<Rightarrow> str_trim r = [])
          then Inl ShUncertainReason else Inr ()
      | OsCancelled \<Rightarrow>
          if oc_fired_at oc \<noteq> None \<or> oc_work_id oc \<noteq> None \<or> oc_run_id oc \<noteq> None \<or>
             oc_admission_receipt oc \<noteq> None
          then Inl ShCancelledReceipt else Inr ()
      | OsTerminal \<Rightarrow>
          if oc_fired_at oc = None \<or> oc_work_id oc = None \<or> oc_run_id oc = None \<or>
             oc_admission_error oc \<noteq> None
          then Inl ShTerminalMeta
          else
            (case oc_admission_receipt oc of
               None \<Rightarrow> Inl ShTerminalReceipt
             | Some r \<Rightarrow>
                 (case validate_receipt_for oc r (work_id_of (oc_automation_id oc) (oc_id oc))
                         (run_id_of (oc_automation_id oc) (oc_id oc)) of
                    Inl er \<Rightarrow> Inl (ShReceipt er)
                  | Inr _ \<Rightarrow> Inr ())))"

definition validate_occurrence_shape ::
  "'x digest_env_scheme \<Rightarrow> AutomationOccurrence \<Rightarrow> ShapeError + unit" where
  "validate_occurrence_shape e oc =
     (if \<not> starts_with (oc_id oc) ''occ:'' \<or> length (oc_id oc) \<noteq> 36 \<or>
         str_trim (oc_automation_id oc) = [] \<or> str_trim (oc_revision_id oc) = [] \<or>
         str_trim (oc_idempotency_key oc) = [] \<or> \<not> is_sha256_digest (oc_payload_digest oc) \<or>
         \<not> is_sha256_digest (oc_dedup_digest oc)
      then Inl ShIdentity
      else
        (case parse_revision_id (oc_revision_id oc) of
           Inl er \<Rightarrow> Inl (ShRevision er)
         | Inr identity \<Rightarrow>
             if ar_automation_id (oc_revision oc) \<noteq> oc_automation_id oc \<or>
                ar_revision_id (oc_revision oc) \<noteq> oc_revision_id oc \<or>
                ar_revision (oc_revision oc) \<noteq> ri_revision identity \<or>
                rev_generation (oc_revision oc) \<noteq> ri_generation identity \<or>
                oc_revision_id oc \<noteq> content_addressed_revision_id_for_generation e
                  (rev_automation e (oc_revision oc)) (ri_generation identity) (ri_revision identity)
             then Inl (ShProvenance (oc_id oc))
             else if \<not> occurrence_trigger_matches_revision (oc_trigger oc) (ar_trigger (oc_revision oc))
             then Inl (ShTrigger (oc_id oc))
             else if \<not> starts_with (oc_idempotency_key oc) ''legacy:'' \<and>
                (dedup_digest_for e (oc_automation_id oc) (ri_generation identity) (oc_trigger oc)
                   (oc_idempotency_key oc) \<noteq> oc_dedup_digest oc \<or>
                 oc_id oc \<noteq> occurrence_id_of (oc_dedup_digest oc))
             then Inl (ShDelivery (oc_id oc))
             else validate_occurrence_state oc))"

section \<open>Rows of older versions\<close>

definition normalize_revision ::
  "'x digest_env_scheme \<Rightarrow> AutomationOccurrence \<Rightarrow> SchedError + AutomationOccurrence" where
  "normalize_revision e oc =
     (case parse_revision_id (oc_revision_id oc) of
        Inl _ \<Rightarrow>
          if oc_revision_id oc \<noteq> [] \<and>
             oc_revision_id oc \<noteq> legacy_revision_id_for_snapshot e (oc_revision oc)
          then Inl (ErrLoad (LdLegacyRevision (oc_id oc)))
          else
            let canonical = content_addressed_revision_id_for_generation e
                  (rev_automation e (oc_revision oc)) (max (rev_generation (oc_revision oc)) 1)
                  (max (ar_revision (oc_revision oc)) 1)
            in Inr (oc\<lparr>oc_revision_id := canonical,
                       oc_revision := (oc_revision oc)\<lparr>ar_revision_id := canonical\<rparr>\<rparr>)
      | Inr _ \<Rightarrow>
          if str_trim (ar_revision_id (oc_revision oc)) = []
          then Inr (oc\<lparr>oc_revision := (oc_revision oc)\<lparr>ar_revision_id := oc_revision_id oc\<rparr>\<rparr>)
          else Inr oc)"

definition normalize_state :: "bool \<Rightarrow> AutomationOccurrence \<Rightarrow> AutomationOccurrence" where
  "normalize_state had_key oc =
     (if oc_state oc = OsPending \<or> oc_state oc = OsTerminal then
        if oc_admission_receipt oc \<noteq> None then oc\<lparr>oc_state := OsTerminal\<rparr>
        else if \<not> had_key \<or> oc_admission_error oc \<noteq> None \<or> oc_fired_at oc \<noteq> None \<or>
                oc_work_id oc \<noteq> None \<or> oc_run_id oc \<noteq> None
        then oc\<lparr>oc_state := OsUncertain,
                oc_admission_error :=
                  (case oc_admission_error oc of
                     None \<Rightarrow> Some (if had_key then ''legacy firing lacks a durable Work/Run receipt''
                                   else ''legacy occurrence lacks a stable delivery key'')
                   | Some r \<Rightarrow> Some r)\<rparr>
        else oc\<lparr>oc_state := OsPending\<rparr>
      else oc)"

definition normalize_loaded_occurrence ::
  "'x digest_env_scheme \<Rightarrow> AutomationOccurrence \<Rightarrow> SchedError + AutomationOccurrence" where
  "normalize_loaded_occurrence e oc =
     (case normalize_revision e oc of
        Inl er \<Rightarrow> Inl er
      | Inr oc1 \<Rightarrow>
          let had_key = (str_trim (oc_idempotency_key oc1) \<noteq> []);
              oc2 = (if had_key then oc1
                     else oc1\<lparr>oc_idempotency_key := ''legacy:'' @ oc_dedup_digest oc1\<rparr>)
          in Inr (normalize_state had_key oc2))"

end
