(* ===== verification/Sched_Calendar.thy ===== *)
theory Sched_Calendar
  imports Sched_Types
begin

text \<open>
  The closed-form date of \<open>civil_parts\<close> against a calendar that counts days one by one with the Gregorian
  leap-year rule.

  A date \<open>(y, m, d)\<close> is related to its day number through the year that starts in March: \<open>march_year\<close> and
  \<open>march_month\<close> number years and months from March on, and \<open>day_number\<close> states the count. Counting a day
  keeps the relation, and the closed form computes its unique solution.
\<close>

section \<open>The calendar\<close>

definition leap_year :: "nat \<Rightarrow> bool" where
  "leap_year y \<longleftrightarrow> y mod 4 = 0 \<and> (y mod 100 \<noteq> 0 \<or> y mod 400 = 0)"

definition month_days :: "nat \<Rightarrow> nat \<Rightarrow> nat" where
  "month_days y m =
     (if m = 2 then (if leap_year y then 29 else 28)
      else if m = 4 \<or> m = 6 \<or> m = 9 \<or> m = 11 then 30 else 31)"

fun next_day :: "nat \<times> nat \<times> nat \<Rightarrow> nat \<times> nat \<times> nat" where
  "next_day (y, m, d) =
     (if d < month_days y m then (y, m, d + 1)
      else if m < 12 then (y, m + 1, 1)
      else (y + 1, 1, 1))"

definition calendar_day :: "nat \<Rightarrow> nat \<times> nat \<times> nat" where
  "calendar_day n = (next_day ^^ n) (1970, 1, 1)"

definition valid_date :: "nat \<times> nat \<times> nat \<Rightarrow> bool" where
  "valid_date = (\<lambda>(y, m, d). 1970 \<le> y \<and> 1 \<le> m \<and> m \<le> 12 \<and> 1 \<le> d \<and> d \<le> month_days y m)"

section \<open>Years that start in March\<close>

definition march_year :: "nat \<Rightarrow> nat \<Rightarrow> nat" where
  "march_year y m = (if m \<le> 2 then y - 1 else y)"

definition march_month :: "nat \<Rightarrow> nat" where
  "march_month m = (if m \<le> 2 then m + 9 else m - 3)"

definition month_start :: "nat \<Rightarrow> nat" where
  "month_start mp = (153 * mp + 2) div 5"

definition day_number :: "nat \<times> nat \<times> nat \<Rightarrow> nat \<Rightarrow> bool" where
  "day_number = (\<lambda>(y, m, d) z. let Y = march_year y m in
     z + Y div 100 + 1 = 365 * Y + Y div 4 + Y div 400 + month_start (march_month m) + d)"

lemma div_Suc_mod: "0 < k \<Longrightarrow> Suc n div k = n div k + (if Suc n mod k = 0 then 1 else 0)"
  by (simp add: div_Suc)

lemma month_cases:
  "1 \<le> m \<Longrightarrow> m \<le> (12::nat) \<Longrightarrow>
   m = 1 \<or> m = 2 \<or> m = 3 \<or> m = 4 \<or> m = 5 \<or> m = 6 \<or> m = 7 \<or> m = 8 \<or> m = 9 \<or> m = 10 \<or> m = 11 \<or> m = 12"
  by arith

lemma mod_400_100: "(n::nat) mod 400 = 0 \<Longrightarrow> n mod 100 = 0"
  by presburger

lemma mod_100_4: "(n::nat) mod 100 = 0 \<Longrightarrow> n mod 4 = 0"
  by presburger

lemma next_day_number:
  assumes "valid_date (y, m, d)" "day_number (y, m, d) z"
  shows "day_number (next_day (y, m, d)) (Suc z)"
proof (cases "d < month_days y m")
  case True
  then show ?thesis using assms by (simp add: day_number_def Let_def)
next
  case False
  with assms(1) have d: "d = month_days y m" and y: "1970 \<le> y" and m: "1 \<le> m" "m \<le> 12"
    by (auto simp: valid_date_def)
  show ?thesis
  proof (cases "m = 2")
    case True
    obtain Y where Y: "y = Suc Y" using y by (cases y) auto
    have "(if leap_year y then 1 else 0) + Suc Y div 100 + Y div 4 + Y div 400 =
        Suc Y div 4 + Suc Y div 400 + Y div 100"
      using mod_400_100 [of "Suc Y"] mod_100_4 [of "Suc Y"]
      by (auto simp: div_Suc_mod leap_year_def Y)
    then show ?thesis
      using assms(2) d True
      by (auto simp: day_number_def Let_def march_year_def march_month_def month_start_def
          month_days_def Y split: if_splits)
  next
    case other: False
    show ?thesis
      using month_cases [OF m] assms(2) d other
      by (elim disjE) (simp_all add: day_number_def Let_def march_year_def march_month_def month_start_def
          month_days_def)
  qed
qed

lemma next_day_valid: "valid_date x \<Longrightarrow> valid_date (next_day x)"
  by (cases x) (auto simp: valid_date_def month_days_def)

lemma calendar_day_number: "valid_date (calendar_day n) \<and> day_number (calendar_day n) (n + 719468)"
proof (induction n)
  case 0
  have "valid_date (1970, 1, 1)" by (simp add: valid_date_def month_days_def)
  moreover have "day_number (1970, 1, 1) 719468"
    by (simp add: day_number_def march_year_def march_month_def month_start_def)
  ultimately show ?case by (simp add: calendar_day_def)
next
  case (Suc n)
  obtain y m d where c: "calendar_day n = (y, m, d)" by (cases "calendar_day n")
  have "calendar_day (Suc n) = next_day (y, m, d)" using c by (simp add: calendar_day_def)
  then show ?case
    using Suc next_day_valid [of "(y, m, d)"] next_day_number [of y m d "n + 719468"] c by simp
qed

section \<open>The closed form\<close>

text \<open>A day of the 400-year era is its year \<open>yoe\<close> and its day \<open>doy\<close>; the years' boundaries are evaluated, and
  the year is monotone in the day between them.\<close>

definition year_of_era :: "int \<Rightarrow> int" where
  "year_of_era doe = (doe - doe div 1460 + doe div 36524 - doe div 146096) div 365"

definition era_start :: "int \<Rightarrow> int" where
  "era_start yoe = 365 * yoe + yoe div 4 - yoe div 100"

definition era_last :: "int \<Rightarrow> int" where
  "era_last yoe =
     era_start yoe +
     (if (yoe + 1) mod 4 = 0 \<and> ((yoe + 1) mod 100 \<noteq> 0 \<or> (yoe + 1) mod 400 = 0) then 365 else 364)"

lemma year_boundaries:
  "list_all (\<lambda>y. year_of_era (era_start y) = y \<and> year_of_era (era_last y) = y \<and> era_last y \<le> 146096) [0..399]"
  by code_simp

lemma year_of_era_mono:
  assumes "0 \<le> a" "a \<le> b" "b \<le> 146096"
  shows "year_of_era a \<le> year_of_era b"
proof -
  have succ: "x - x div 1460 + x div 36524 - x div 146096 \<le>
      (x + 1) - (x + 1) div 1460 + (x + 1) div 36524 - (x + 1) div 146096"
    if "0 \<le> x" "x < 146096" for x :: int
  proof (cases "x = 146095")
    case False
    with that have "x div 146096 = 0" "(x + 1) div 146096 = 0" by auto
    moreover have "(x + 1) div 1460 \<le> x div 1460 + 1" by linarith
    moreover have "x div 36524 \<le> (x + 1) div 36524" by (simp add: zdiv_mono1)
    ultimately show ?thesis by linarith
  qed simp
  define f :: "int \<Rightarrow> int" where "f x = x - x div 1460 + x div 36524 - x div 146096" for x
  have "f a \<le> f b"
    using assms(2,3)
  proof (induction b rule: int_ge_induct)
    case (step i)
    then show ?case using succ [of i] assms(1) by (simp add: f_def)
  qed simp
  then show ?thesis by (simp add: year_of_era_def f_def zdiv_mono1)
qed

lemma year_of_era_unique:
  assumes "0 \<le> yoe" "yoe \<le> 399" "era_start yoe \<le> doe" "doe \<le> era_last yoe"
  shows "year_of_era doe = yoe" "doe \<le> 146096"
proof -
  have t: "year_of_era (era_start yoe) = yoe" "year_of_era (era_last yoe) = yoe" "era_last yoe \<le> 146096"
    using year_boundaries assms(1,2) by (auto simp: list_all_iff)
  show le: "doe \<le> 146096" using t(3) assms(4) by simp
  have s0: "0 \<le> era_start yoe" using assms(1) unfolding era_start_def by linarith
  have "year_of_era (era_start yoe) \<le> year_of_era doe"
    using s0 assms(3) le by (rule year_of_era_mono)
  moreover have "year_of_era doe \<le> year_of_era (era_last yoe)"
    using s0 assms(3,4) t(3) by (intro year_of_era_mono) auto
  ultimately show "year_of_era doe = yoe" using t by simp
qed

lemma nat_year_of_era:
  "(doe - doe div 1460 + doe div 36524 - doe div 146096) div 365 = nat (year_of_era (int doe))"
proof -
  have "doe div 146096 \<le> doe div 36524" "doe div 1460 \<le> doe" by (auto intro: div_le_mono2)
  then have "int (doe - doe div 1460 + doe div 36524 - doe div 146096) =
      int doe - int doe div 1460 + int doe div 36524 - int doe div 146096"
    by (simp add: of_nat_diff zdiv_int)
  then have "int ((doe - doe div 1460 + doe div 36524 - doe div 146096) div 365) = year_of_era (int doe)"
    by (simp add: year_of_era_def zdiv_int)
  then show ?thesis by (metis nat_int)
qed

lemma civil_parts_nat:
  "civil_parts t =
     (let z = t div 86400 + 719468;
          doe = z mod 146097;
          yoe = nat (year_of_era (int doe));
          doy = doe - (365 * yoe + yoe div 4 - yoe div 100);
          mp = (5 * doy + 2) div 153
      in (t mod 86400 div 60 mod 60, t mod 86400 div 3600, (doy - month_start mp + 1) mod 256,
          (if mp < 10 then mp + 3 else mp - 9) mod 256, (t div 86400 + 4) mod 7))"
proof -
  define z where "z = t div 86400 + 719468"
  have z: "int (t div 86400) + 719468 = int z" by (simp add: z_def)
  have ge: "(if 0 \<le> int z then int z else int z - 146096) = int z" by simp
  have era: "int z sdiv 146097 = int z div 146097"
    by (simp add: signed_divide_int_def sgn_if)
  have doe: "nat (int z - int z div 146097 * 146097) = z mod 146097"
    by (metis minus_div_mult_eq_mod nat_int of_nat_numeral zmod_int)
  have wd: "nat (((int (t div 86400) + 4) smod 7 + 7) smod 7) = (t div 86400 + 4) mod 7"
  proof -
    have "(int (t div 86400) + 4) smod 7 = int ((t div 86400 + 4) mod 7)"
      by (simp add: signed_modulo_int_def sgn_if zmod_int)
    moreover have "(int ((t div 86400 + 4) mod 7) + 7) smod 7 = int ((t div 86400 + 4) mod 7)"
      by (simp add: signed_modulo_int_def sgn_if zmod_int)
    ultimately show ?thesis by simp
  qed
  have "t mod 86400 div 60 mod 60 < 60" by simp
  then have s1: "t mod 86400 div 60 mod 60 mod 256 = t mod 86400 div 60 mod 60"
    by (intro mod_less) (erule less_trans, simp)
  have "t mod 86400 div 3600 < 24" by (simp add: div_less_iff_less_mult)
  then have s2: "t mod 86400 div 3600 mod 256 = t mod 86400 div 3600"
    by (intro mod_less) (erule less_trans, simp)
  show ?thesis
    unfolding civil_parts_def Let_def z ge era doe wd nat_year_of_era s1 s2 month_start_def
    unfolding z_def [symmetric] ..
qed

lemma march_day_bound:
  assumes "valid_date (y, m, d)"
  shows "month_start (march_month m) + d \<le> 365 + (if leap_year (Suc (march_year y m)) then 1 else 0)"
    and "(5 * (month_start (march_month m) + d - 1) + 2) div 153 = march_month m"
proof -
  have m: "1 \<le> m" "m \<le> 12" and d: "1 \<le> d" "d \<le> month_days y m" and y: "1970 \<le> y"
    using assms by (auto simp: valid_date_def)
  show "month_start (march_month m) + d \<le> 365 + (if leap_year (Suc (march_year y m)) then 1 else 0)"
    using month_cases [OF m] d y
    by (elim disjE)
      (auto simp: march_month_def month_start_def month_days_def march_year_def split: if_splits)
  have "month_start (march_month m) + d - 1 \<ge> month_start (march_month m)"
    "month_start (march_month m) + d \<le> month_start (Suc (march_month m))"
    using month_cases [OF m] d
    by (simp, elim disjE)
      (simp_all add: march_month_def month_start_def month_days_def split: if_splits)
  moreover have "5 * month_start k \<le> 153 * k + 2" "153 * k + 2 < 5 * month_start k + 5" for k
    unfolding month_start_def by linarith+
  note this [of "march_month m"] this [of "Suc (march_month m)"]
  ultimately show "(5 * (month_start (march_month m) + d - 1) + 2) div 153 = march_month m"
    using d(1) by (intro div_nat_eqI) linarith+
qed

lemma day_of_era:
  assumes "valid_date (y, m, d)" "day_number (y, m, d) z"
  defines "Y \<equiv> march_year y m"
  defines "doy \<equiv> month_start (march_month m) + d - 1"
  shows "z mod 146097 = 365 * (Y mod 400) + Y mod 400 div 4 - Y mod 400 div 100 + doy"
    and "year_of_era (int (z mod 146097)) = int (Y mod 400)"
proof -
  define yoe where "yoe = Y mod 400"
  define doe where "doe = 365 * yoe + yoe div 4 - yoe div 100 + doy"
  have le: "yoe div 100 \<le> yoe div 4" by (rule div_le_mono2) auto
  have d: "1 \<le> d" using assms(1) by (simp add: valid_date_def)
  have split: "Y = 400 * (Y div 400) + yoe" by (simp add: yoe_def)
  have "Suc Y mod 400 = Suc yoe mod 400" by (simp add: yoe_def mod_Suc_eq)
  moreover have "Suc Y mod 4 = Suc yoe mod 4" "Suc Y mod 100 = Suc yoe mod 100"
    using mod_mult_self3 [of "100 * (Y div 400)" 4 "Suc yoe"] mod_mult_self3 [of "4 * (Y div 400)" 100 "Suc yoe"]
      split by simp_all
  moreover have "int yoe + 1 = int (Suc yoe)" by simp
  then have "(int yoe + 1) mod 4 = int (Suc yoe mod 4)" "(int yoe + 1) mod 100 = int (Suc yoe mod 100)"
    "(int yoe + 1) mod 400 = int (Suc yoe mod 400)"
    by (simp_all only: zmod_int of_nat_numeral)
  ultimately have leap: "leap_year (Suc Y) \<longleftrightarrow>
      (int yoe + 1) mod 4 = 0 \<and> ((int yoe + 1) mod 100 \<noteq> 0 \<or> (int yoe + 1) mod 400 = 0)"
    by (simp only: leap_year_def of_nat_eq_0_iff)
  have int_doe: "int doe = era_start (int yoe) + int doy"
    using le by (simp add: doe_def era_start_def zdiv_int)
  have "int doe \<le> era_last (int yoe)"
    using march_day_bound(1) [OF assms(1)] d leap
    by (auto simp: int_doe era_last_def doy_def Y_def split: if_splits)
  then have u: "year_of_era (int doe) = int yoe" "int doe \<le> 146096"
    using int_doe by (intro year_of_era_unique; simp add: yoe_def)+
  have "Y div 4 = 100 * (Y div 400) + yoe div 4" "Y div 100 = 4 * (Y div 400) + yoe div 100"
    by (subst split, simp)+
  moreover have "z + Y div 100 + 1 = 365 * Y + Y div 4 + Y div 400 + month_start (march_month m) + d"
    using assms(2) by (simp add: day_number_def Let_def Y_def)
  ultimately have "z = 146097 * (Y div 400) + doe"
    using d le split unfolding doe_def doy_def by linarith
  then have z: "z mod 146097 = doe" using u(2) by simp
  show "z mod 146097 = 365 * (Y mod 400) + Y mod 400 div 4 - Y mod 400 div 100 + doy"
    unfolding z doe_def yoe_def ..
  show "year_of_era (int (z mod 146097)) = int (Y mod 400)"
    using z u(1) by (simp add: yoe_def)
qed

lemma march_month_back:
  "1 \<le> m \<Longrightarrow> m \<le> 12 \<Longrightarrow> (if march_month m < 10 then march_month m + 3 else march_month m - 9) = m"
  by (auto simp: march_month_def)

text \<open>The closed form is the calendar, for every Unix time.\<close>

lemma civil_parts_calendar:
  assumes "calendar_day (t div 86400) = (y, m, d)"
  shows "civil_parts t = (t mod 86400 div 60 mod 60, t mod 86400 div 3600, d, m, (t div 86400 + 4) mod 7)"
proof -
  define z where "z = t div 86400 + 719468"
  have v: "valid_date (y, m, d)" and n: "day_number (y, m, d) z"
    using calendar_day_number [of "t div 86400"] assms by (simp_all add: z_def)
  have bounds: "1 \<le> m" "m \<le> 12" "1 \<le> d" "d \<le> 31"
    using v by (auto simp: valid_date_def month_days_def split: if_splits)
  define yoe where "yoe = march_year y m mod 400"
  define doy where "doy = month_start (march_month m) + d - 1"
  have e: "z mod 146097 = 365 * yoe + yoe div 4 - yoe div 100 + doy"
    "nat (year_of_era (int (z mod 146097))) = yoe"
    unfolding yoe_def doy_def by (rule day_of_era(1) [OF v n], simp only: day_of_era(2) [OF v n] nat_int)
  have doy: "365 * yoe + yoe div 4 - yoe div 100 + doy - (365 * yoe + yoe div 4 - yoe div 100) = doy"
    by simp
  have mp: "(5 * doy + 2) div 153 = march_month m"
    using march_day_bound(2) [OF v] by (simp add: doy_def)
  have dd: "(doy - month_start (march_month m) + 1) mod 256 = d"
    using bounds by (simp add: doy_def)
  have mm: "(if march_month m < 10 then march_month m + 3 else march_month m - 9) mod 256 = m"
    using march_month_back [OF bounds(1,2)] bounds by simp
  show ?thesis
    unfolding civil_parts_nat Let_def z_def [symmetric] e(2) unfolding e(1) doy mp dd mm ..
qed

lemma civil_parts_ranges:
  assumes "civil_parts t = (mi, ho, dm, mo, dw)"
  shows "mi < 60" "ho < 24" "1 \<le> dm" "dm \<le> 31" "1 \<le> mo" "mo \<le> 12" "dw < 7"
proof -
  obtain y m d where c: "calendar_day (t div 86400) = (y, m, d)" by (cases "calendar_day (t div 86400)")
  have v: "valid_date (y, m, d)" using calendar_day_number [of "t div 86400"] c by simp
  then have b: "1 \<le> m" "m \<le> 12" "1 \<le> d" "d \<le> 31"
    by (auto simp: valid_date_def month_days_def split: if_splits)
  have "t mod 86400 div 3600 < 24" by (simp add: div_less_iff_less_mult)
  then show "mi < 60" "ho < 24" "1 \<le> dm" "dm \<le> 31" "1 \<le> mo" "mo \<le> 12" "dw < 7"
    using assms b unfolding civil_parts_calendar [OF c] by auto
qed

end
