(* ===== verification/Sched_Time.thy ===== *)
theory Sched_Time
  imports Sched_Calendar
begin

text \<open>
  The cron parser and the next due time: the values of a parsed field, the meaning of a cron expression on
  the calendar, the least matching minute found by the bounded scan, the daily windows, and the cases in
  which a freshly computed time lies in the future.
\<close>

section \<open>Cron fields\<close>

lemma step_values_saturated: "hi < 255 \<Longrightarrow> step_values step hi (min v 255) = step_values step hi v"
  by (cases "v \<le> 255") (simp_all add: min_def step_values.simps [of step hi v] step_values.simps [of step hi 255])

lemma step_mod_shift:
  assumes "0 < step" "v \<le> (w::nat)"
  shows "(w - v) mod step = 0 \<longleftrightarrow> w = v \<or> v + step \<le> w \<and> (w - (v + step)) mod step = 0"
proof (cases "w - v < step")
  case True
  then have "(w - v) mod step = w - v" by (rule mod_less)
  with True assms show ?thesis by linarith
next
  case False
  then have "(w - v) mod step = (w - v - step) mod step" by (simp only: le_mod_geq not_less)
  moreover have "w \<noteq> v" "v + step \<le> w" using False assms by linarith+
  ultimately show ?thesis by (simp only: diff_diff_left) simp
qed

lemma step_values_set:
  assumes "0 < step" "hi < 255"
  shows "set (step_values step hi v) = {w. v \<le> w \<and> w \<le> hi \<and> (w - v) mod step = 0}"
proof (induction "Suc hi - v" arbitrary: v rule: less_induct)
  case less
  show ?case
  proof (cases "v \<le> hi")
    case False
    then show ?thesis by (auto simp: step_values.simps [of step hi v])
  next
    case True
    then have "set (step_values step hi v) = insert v (set (step_values step hi (v + step)))"
      using assms by (simp add: step_values.simps [of step hi v] step_values_saturated)
    also have "\<dots> = insert v {w. v + step \<le> w \<and> w \<le> hi \<and> (w - (v + step)) mod step = 0}"
      using less [of "v + step"] True assms(1) by simp
    also have "\<dots> = {w. v \<le> w \<and> w \<le> hi \<and> (w - v) mod step = 0}"
    proof (rule set_eqI)
      fix w
      show "w \<in> insert v {w. v + step \<le> w \<and> w \<le> hi \<and> (w - (v + step)) mod step = 0} \<longleftrightarrow>
          w \<in> {w. v \<le> w \<and> w \<le> hi \<and> (w - v) mod step = 0}"
      proof (cases "v \<le> w")
        case le: True
        show ?thesis using step_mod_shift [OF assms(1) le] True le by (simp only: mem_Collect_eq insert_iff) blast
      qed auto
    qed
    finally show ?thesis .
  qed
qed

lemma parse_part_range:
  assumes "parse_part field mn mx part = Inr vs" "mx < 255"
  shows "vs \<noteq> [] \<and> set vs \<subseteq> {mn..mx}"
proof -
  obtain lo hi step where v: "vs = step_values step hi lo" "0 < step" "mn \<le> lo" "hi \<le> mx" "lo \<le> hi"
    using assms(1) by (auto simp: parse_part_def split: sum.splits option.splits prod.splits if_splits)
  then have s: "set vs = {w. lo \<le> w \<and> w \<le> hi \<and> (w - lo) mod step = 0}"
    using assms(2) step_values_set [of step hi lo] by simp
  moreover have "lo \<in> set vs" using v(5) by (simp add: s)
  ultimately show ?thesis using v by auto
qed

lemma parse_parts_range:
  assumes "parse_parts field mn mx parts = Inr vs" "mx < 255"
  shows "(parts \<noteq> [] \<longrightarrow> vs \<noteq> []) \<and> set vs \<subseteq> {mn..mx}"
  using assms(1)
proof (induction parts arbitrary: vs)
  case (Cons p ps)
  then show ?case
    using parse_part_range [OF _ assms(2), of field mn p]
    by (fastforce split: sum.splits)
qed simp

lemma distinct_remdups_sorted:
  fixes xs :: "'a::linorder list"
  assumes "sorted xs"
  shows "distinct (remdups_adj xs)"
  using assms by (induction xs rule: remdups_adj.induct) fastforce+

lemma sort_eq_Nil: "sort xs = [] \<longleftrightarrow> xs = []"
  by (metis set_empty set_sort)

lemma parse_field_ok:
  assumes "parse_field field mn mx = Inr vs" "mn \<le> mx" "mx < 255"
  shows "sorted vs" "distinct vs" "vs \<noteq> []" "set vs \<subseteq> {mn..mx}"
proof -
  show "sorted vs"
    using assms(1) sorted_remdups_adj [OF sorted_sort]
    by (auto simp: parse_field_def simp del: upt_Suc split: if_splits sum.splits)
  show "distinct vs"
    using assms(1) distinct_remdups_sorted [OF sorted_sort]
    by (auto simp: parse_field_def simp del: upt_Suc split: if_splits sum.splits)
  show "vs \<noteq> []"  "set vs \<subseteq> {mn..mx}"
    using assms parse_parts_range [of field mn mx "split_on (CHR '','') field"]
    by (auto simp: parse_field_def sort_eq_Nil simp del: upt_Suc split: if_splits sum.splits)
qed

section \<open>Scanning for the next due minute\<close>

lemma u64_add_scan: "t + 60 * n \<le> u64_max \<Longrightarrow> 0 < n \<Longrightarrow> u64_add t 60 = t + 60"
  by (rule u64_add_small) (cases n; simp)

lemma scan_minutes_Some:
  assumes "scan_minutes c t n = Some u" "t + 60 * n \<le> u64_max"
  shows "\<exists>k < n. u = t + 60 * k \<and> cron_matches c u \<and> (\<forall>j < k. \<not> cron_matches c (t + 60 * j))"
  using assms
proof (induction n arbitrary: t)
  case (Suc n)
  show ?case
  proof (cases "cron_matches c t")
    case True
    then show ?thesis using Suc.prems by (intro exI [of _ 0]) auto
  next
    case False
    then have rest: "scan_minutes c (t + 60) n = Some u"
      using Suc.prems u64_add_scan [of t "Suc n"] by simp
    obtain k where k: "k < n" "u = t + 60 + 60 * k" "cron_matches c u"
        "\<forall>j < k. \<not> cron_matches c (t + 60 + 60 * j)"
      using Suc.IH [OF rest] Suc.prems(2) by auto
    have "\<forall>j < Suc k. \<not> cron_matches c (t + 60 * j)"
      using False k(4) by (auto simp: less_Suc_eq_0_disj add.assoc)
    with k show ?thesis by (intro exI [of _ "Suc k"]) auto
  qed
qed simp

lemma scan_minutes_None:
  assumes "scan_minutes c t n = None" "t + 60 * n \<le> u64_max" "k < n"
  shows "\<not> cron_matches c (t + 60 * k)"
  using assms
proof (induction n arbitrary: t k)
  case (Suc n)
  then have no: "\<not> cron_matches c t" and rest: "scan_minutes c (t + 60) n = None"
    using u64_add_scan [of t "Suc n"] by (auto split: if_splits)
  show ?case
  proof (cases k)
    case 0
    then show ?thesis using no by simp
  next
    case (Suc j)
    then show ?thesis using Suc.IH [OF rest, of j] Suc.prems by (simp add: add.assoc)
  qed
qed simp


lemma minute_after:
  assumes "now < u" "u mod 60 = (0::nat)"
  shows "\<exists>j. u = now - now mod 60 + 60 + 60 * j"
proof -
  define q where "q = u div 60"
  define p where "p = now div 60"
  have u: "u = 60 * q" and n: "now - now mod 60 = 60 * p" "60 * p \<le> now" "now < 60 * p + 60"
    using assms(2) by (auto simp: minus_mod_eq_mult_div q_def p_def dividend_less_times_div)
  then have "p < q" using assms(1) by linarith
  then obtain j where "q = Suc (p + j)" using less_iff_Suc_add by auto
  then show ?thesis using u n by (intro exI [of _ j]) simp
qed

lemma cron_next_spec:
  assumes "cron_parse expr = Inr c" "now + 31622460 \<le> u64_max"
  shows "case compute_next_run (TsCron expr) now cur of
      Some t \<Rightarrow> now < t \<and> t mod 60 = 0 \<and> cron_matches c t \<and> t \<le> now + 31622400 \<and>
        (\<forall>u. now < u \<and> u < t \<and> u mod 60 = 0 \<longrightarrow> \<not> cron_matches c u)
    | None \<Rightarrow> \<forall>u. now < u \<and> u \<le> now - now mod 60 + 31622400 \<and> u mod 60 = 0 \<longrightarrow> \<not> cron_matches c u"
proof -
  define base where "base = now - now mod 60 + 60"
  have p: "now - now mod 60 = 60 * (now div 60)" "60 * (now div 60) \<le> now" "now < 60 * (now div 60) + 60"
    by (auto simp: minus_mod_eq_mult_div dividend_less_times_div)
  then have b: "now < base" "base \<le> now + 60" "base mod 60 = 0" by (simp_all add: base_def)
  have fits: "base + 60 * 527040 \<le> u64_max" using assms(2) b by linarith
  have "u64_sat_add (now - now mod 60) 60 = base"
    using assms(2) b by (simp add: u64_sat_add_def base_def)
  then have scan: "compute_next_run (TsCron expr) now cur = scan_minutes c base 527040"
    using assms(1) by (simp add: compute_next_run_def)
  show ?thesis
  proof (cases "scan_minutes c base 527040")
    case None
    have "\<not> cron_matches c u" if u: "now < u" "u \<le> now - now mod 60 + 31622400" "u mod 60 = 0" for u
    proof -
      obtain j where j: "u = base + 60 * j" using minute_after [OF u(1,3)] by (auto simp: base_def)
      then have "j < 527040" using u(2) by (simp add: base_def)
      from scan_minutes_None [OF None fits this] j show ?thesis by simp
    qed
    then show ?thesis using None scan by simp
  next
    case (Some t)
    from scan_minutes_Some [OF Some fits] obtain k where
      k: "k < 527040" "t = base + 60 * k" "cron_matches c t" "\<forall>j < k. \<not> cron_matches c (base + 60 * j)"
      by blast
    have "\<not> cron_matches c u" if u: "now < u" "u < t" "u mod 60 = 0" for u
    proof -
      obtain j where j: "u = base + 60 * j" using minute_after [OF u(1,3)] by (auto simp: base_def)
      then have "j < k" using u(2) k(2) by simp
      with j k(4) show ?thesis by simp
    qed
    moreover have "t \<le> now + 31622400" using k(1,2) p by (simp add: base_def)
    moreover have "t mod 60 = 0" using k(2) b(3) by simp
    ultimately show ?thesis using Some scan k b by auto
  qed
qed

section \<open>Day windows\<close>

lemma i64_wrap_id: "- (2 ^ 63) \<le> x \<Longrightarrow> x < 2 ^ 63 \<Longrightarrow> i64_wrap x = x"
  by (simp add: i64_wrap_def)

lemma as_i64_id: "n < 2 ^ 63 \<Longrightarrow> as_i64 n = int n"
  by (simp add: as_i64_def)

lemma next_window_spec:
  assumes "now < 2 ^ 62" "- (2 ^ 31) \<le> off" "off < 2 ^ 31" "0 \<le> int now + off * 60"
  shows "now < next_window_unix now w off" "next_window_unix now w off \<le> now + 86400"
    "(int (next_window_unix now w off) + off * 60) mod 86400 = int (start_hour w * 3600)"
proof -
  define l where "l = nat (int now + off * 60)"
  have l: "int l = int now + off * 60" using assms(4) by (simp add: l_def)
  have lb: "l < 2 ^ 62 + 2 ^ 37" using l assms(1,3) by auto
  define st where "st = l div 86400 * 86400 + start_hour w * 3600"
  define sl where "sl = (if l < st then st else st + 86400)"
  have h: "start_hour w * 3600 < 86400" by (cases w) simp_all
  have day: "l div 86400 * 86400 \<le> l" "l < l div 86400 * 86400 + 86400"
    by (simp_all add: dividend_less_div_times)
  then have sl: "l < sl" "sl \<le> l + 86400" using h by (auto simp: sl_def st_def)
  have "next_window_unix now w off =
      (if i64_wrap (as_i64 sl - off * 60) < 0 then 0 else nat (i64_wrap (as_i64 sl - off * 60)))"
  proof -
    have "as_i64 now = int now" using assms(1) by (intro as_i64_id) auto
    moreover have "i64_wrap (int now + off * 60) = int l" using lb by (simp add: l [symmetric] i64_wrap_id)
    ultimately show ?thesis
      unfolding next_window_unix_def Let_def by (simp add: sl_def st_def)
  qed
  moreover have "as_i64 sl = int sl" using sl lb by (intro as_i64_id) auto
  moreover have "int now < int sl - off * 60" "int sl - off * 60 \<le> int now + 86400"
    using sl l by linarith+
  moreover from this have "i64_wrap (int sl - off * 60) = int sl - off * 60"
    using assms(1) by (intro i64_wrap_id) auto
  ultimately have n: "int (next_window_unix now w off) = int sl - off * 60" by simp
  show "now < next_window_unix now w off" "next_window_unix now w off \<le> now + 86400"
    using n sl l by linarith+
  have "sl mod 86400 = start_hour w * 3600" using h by (auto simp: sl_def st_def)
  then have "int (sl mod 86400) = int (start_hour w * 3600)" by simp
  then show "(int (next_window_unix now w off) + off * 60) mod 86400 = int (start_hour w * 3600)"
    using n by (simp add: zmod_int)
qed

text \<open>Whatever the trigger, a next time computed afresh lies in the future.\<close>

definition trigger_time_ok :: "TriggerSpec \<Rightarrow> nat \<Rightarrow> bool" where
  "trigger_time_ok tr now \<longleftrightarrow>
     (case tr of
        TsCron _ \<Rightarrow> now + 31622460 \<le> u64_max
      | TsInterval secs \<Rightarrow> 0 < secs \<and> now + secs \<le> u64_max
      | TsWindow _ off \<Rightarrow> now < 2 ^ 62 \<and> - (2 ^ 31) \<le> off \<and> off < 2 ^ 31 \<and> 0 \<le> int now + off * 60
      | _ \<Rightarrow> True)"

lemma next_run_later:
  assumes "compute_next_run tr now None = Some t" "trigger_time_ok tr now"
  shows "now < t"
proof (cases tr)
  case (TsCron expr)
  then obtain c where "cron_parse expr = Inr c"
    using assms(1) by (cases "cron_parse expr") (auto simp: compute_next_run_def)
  then show ?thesis
    using cron_next_spec [of expr c now None] assms TsCron by (simp add: trigger_time_ok_def)
next
  case (TsInterval secs)
  then show ?thesis using assms by (auto simp: compute_next_run_def trigger_time_ok_def u64_sat_add_def)
next
  case (TsWindow w off)
  then show ?thesis
    using next_window_spec(1) [of now off w] assms by (auto simp: compute_next_run_def trigger_time_ok_def)
qed (use assms in \<open>auto simp: compute_next_run_def\<close>)

section \<open>Cron expressions on the calendar\<close>

definition cron_day :: "CronExpr \<Rightarrow> nat \<Rightarrow> nat \<Rightarrow> bool" where
  "cron_day c d w \<longleftrightarrow>
     (if ce_dom c \<noteq> [1..<32] \<and> ce_dow c \<noteq> [0..<7] then d \<in> set (ce_dom c) \<or> w \<in> set (ce_dow c)
      else d \<in> set (ce_dom c) \<and> w \<in> set (ce_dow c))"

lemma cron_matches_calendar:
  assumes "calendar_day (t div 86400) = (y, m, d)"
  shows "cron_matches c t \<longleftrightarrow>
     t mod 86400 div 60 mod 60 \<in> set (ce_minute c) \<and> t mod 86400 div 3600 \<in> set (ce_hour c) \<and>
     m \<in> set (ce_month c) \<and> cron_day c d ((t div 86400 + 4) mod 7)"
  unfolding cron_matches_def civil_parts_calendar [OF assms] cron_day_def Let_def prod.case
  by argo

text \<open>A minute on which the schedule fires, read on the day-by-day calendar.\<close>

definition cron_fires :: "CronExpr \<Rightarrow> nat \<Rightarrow> bool" where
  "cron_fires c t \<longleftrightarrow>
     (case calendar_day (t div 86400) of (y, m, d) \<Rightarrow>
        t mod 60 = 0 \<and> t div 60 mod 60 \<in> set (ce_minute c) \<and> t div 3600 mod 24 \<in> set (ce_hour c) \<and>
        m \<in> set (ce_month c) \<and> cron_day c d ((t div 86400 + 4) mod 7))"

lemma time_of_day: "t mod 86400 div 60 mod 60 = t div 60 mod (60::nat)" "t mod 86400 div 3600 = t div 3600 mod (24::nat)"
proof -
  have "t mod 86400 = 86400 * 0 + t mod (60 * 1440)" by simp
  also have "\<dots> = t mod 60 + 60 * (t div 60 mod 1440)" by (simp only: mod_mult2_eq)
  finally have "t mod 86400 div 60 = t div 60 mod 1440" by simp
  moreover have "x mod 1440 mod 60 = x mod (60::nat)" for x by (simp add: mod_mod_cancel)
  ultimately show "t mod 86400 div 60 mod 60 = t div 60 mod 60" by simp
  have "t mod 86400 = t mod (3600 * 24)" by simp
  also have "\<dots> = t mod 3600 + 3600 * (t div 3600 mod 24)" by (simp only: mod_mult2_eq)
  finally show "t mod 86400 div 3600 = t div 3600 mod 24" by simp
qed

lemma cron_fires_matches: "cron_fires c t \<longleftrightarrow> t mod 60 = 0 \<and> cron_matches c t"
  by (cases "calendar_day (t div 86400)") (auto simp: cron_fires_def cron_matches_calendar time_of_day)

text \<open>Leap days are four years apart and the scan covers 366 days.\<close>

lemma leap_day_number:
  assumes "calendar_day n = (y, 2, 29)"
  shows "789 \<le> n"
proof -
  have v: "valid_date (y, 2, 29)" and z: "day_number (y, 2, 29) (n + 719468)"
    using calendar_day_number [of n] assms by simp_all
  then have l: "leap_year y" "1970 \<le> y" by (auto simp: valid_date_def month_days_def split: if_splits)
  moreover have "y \<noteq> 1970" "y \<noteq> 1971" using l(1) by (auto simp: leap_year_def)
  ultimately have "1971 \<le> y - 1" by linarith
  moreover have "n + 719468 + (y - 1) div 100 + 1 = 365 * (y - 1) + (y - 1) div 4 + (y - 1) div 400 + 366"
    using z by (simp add: day_number_def Let_def march_year_def march_month_def month_start_def)
  ultimately show ?thesis by linarith
qed

lemma leap_day_fields:
  "parse_field ''0'' 0 59 = Inr [0]" "parse_field ''0'' 0 23 = Inr [0]" "parse_field ''29'' 1 31 = Inr [29]"
  "parse_field ''2'' 1 12 = Inr [2]" "parse_field ''*'' 0 6 = Inr [0..<7]"
  "split_whitespace ''0 0 29 2 *'' = [''0'', ''0'', ''29'', ''2'', ''*'']"
  by code_simp+

lemma leap_day_schedule_lost: "compute_next_run (TsCron ''0 0 29 2 *'') 0 None = None"
proof (rule ccontr)
  assume "compute_next_run (TsCron ''0 0 29 2 *'') 0 None \<noteq> None"
  then obtain t where t: "compute_next_run (TsCron ''0 0 29 2 *'') 0 None = Some t" by blast
  obtain c where c: "cron_parse ''0 0 29 2 *'' = Inr c" "ce_dom c = [29]" "ce_month c = [2]" "ce_dow c = [0..<7]"
    by (simp add: cron_parse_def leap_day_fields del: One_nat_def upt_Suc upt_rec_numeral)
  have m: "cron_matches c t" "t \<le> 31622400"
    using cron_next_spec [OF c(1), of 0 None] t by (simp_all add: u64_max_def)
  obtain y mo d where d: "calendar_day (t div 86400) = (y, mo, d)" by (cases "calendar_day (t div 86400)")
  have "mo = 2" "d = 29"
    using m(1) c unfolding cron_matches_calendar [OF d] cron_day_def by auto
  with d leap_day_number have "789 \<le> t div 86400" by auto
  with m(2) show False by linarith
qed

end
