(* ===== verification/Sched_Store.thy ===== *)
theory Sched_Store
  imports Sched_Valid Sched_Time "HOL-Library.Product_Lexorder"
begin

text \<open>
  The scheduler's persistence (\<open>core/src/scheduler_service.rs\<close>, \<open>persist\<close>, \<open>load_or_new\<close>,
  \<open>install_loaded\<close>).

  \<open>SchedDisk\<close> is the state file and the number of write attempts so far; \<open>se_io\<close> gives the outcome of each
  attempt. A failed attempt leaves the file as it was, because the store is written to a temporary file and
  renamed. The text of a document is decoded by \<open>serde_json\<close>: the file holds the parsed value, and the
  decoders of the derived types are parameters.
\<close>

section \<open>Environment and disk\<close>

datatype StoreFile = NoFile | ReadFails | Garbled | Document jvalue

record SchedDisk =
  dk_file :: StoreFile
  dk_writes :: nat

record sched_env = digest_env +
  se_io :: "nat \<Rightarrow> PersistIo"
  se_clock :: nat
  se_parse_jobs :: "jvalue \<Rightarrow> Job list option"
  se_parse_store :: "jvalue \<Rightarrow> PersistedScheduler option"
  se_parse_trigger :: "jvalue \<Rightarrow> TriggerSpec option"
  se_parse_steps :: "jvalue \<Rightarrow> AutomationStep list option"
  se_parse_policy :: "jvalue \<Rightarrow> SchedulePolicy option"
  se_parse_receipt :: "jvalue \<Rightarrow> WorkRunAdmissionReceipt option"
  se_parse_monitor :: "jvalue \<Rightarrow> MonitorConfig option"
  se_parse_kind :: "jvalue \<Rightarrow> EventKind option"

type_synonym 'a sched_result = "(SchedError + 'a) \<times> SchedulerService \<times> SchedDisk"

definition is_healthy :: "SchedulerService \<Rightarrow> bool" where
  "is_healthy s \<longleftrightarrow> ss_load_error s = None"

definition ensure_healthy :: "SchedulerService \<Rightarrow> SchedError + unit" where
  "ensure_healthy s = (case ss_load_error s of Some err \<Rightarrow> Inl (ErrUnavailable err) | None \<Rightarrow> Inr ())"

definition scheduler_store_version :: nat where
  "scheduler_store_version = 3"

definition persisted :: "SchedulerService \<Rightarrow> PersistedScheduler" where
  "persisted s =
     \<lparr> ps_version = scheduler_store_version,
       ps_jobs = sort_key jb_id (map snd (ss_jobs s)),
       ps_occurrences = sort_key (\<lambda>oc. (oc_admitted_at oc, oc_id oc)) (ss_occurrences s),
       ps_generation_counters = ss_generation_counters s \<rparr>"

definition sched_persist :: "sched_env \<Rightarrow> SchedulerService \<Rightarrow> SchedDisk \<Rightarrow> (SchedError + unit) \<times> SchedDisk" where
  "sched_persist e s d =
     (case ensure_healthy s of
        Inl err \<Rightarrow> (Inl err, d)
      | Inr _ \<Rightarrow>
          (case ss_persist_path s of
             None \<Rightarrow> (Inr (), d)
           | Some _ \<Rightarrow>
               let io = se_io e (dk_writes d); d1 = d\<lparr>dk_writes := Suc (dk_writes d)\<rparr>
               in if io = PioOk
                  then (Inr (), d1\<lparr>dk_file := Document (store_json (persisted s))\<rparr>)
                  else (Inl (ErrPersist io), d1)))"

section \<open>Loading\<close>

definition bump_counter :: "string \<Rightarrow> nat \<Rightarrow> nat strmap \<Rightarrow> nat strmap" where
  "bump_counter k g m = AList.update k (case lookup m k of Some c \<Rightarrow> max c g | None \<Rightarrow> g) m"

definition put_job :: "string \<Rightarrow> Job \<Rightarrow> SchedulerService \<Rightarrow> SchedulerService" where
  "put_job k j s = s\<lparr>ss_jobs := AList.update k j (ss_jobs s)\<rparr>"

definition install_job :: "'x digest_env_scheme \<Rightarrow> Job \<Rightarrow> SchedulerService \<Rightarrow> SchedError + SchedulerService" where
  "install_job e job0 s =
     (if str_trim (jb_id job0) = [] then Inl (ErrLoad LdEmptyJobId)
      else
        let job1 = (if str_trim (jb_automation_id job0) = []
                    then job0\<lparr>jb_automation_id := trusted_automation_id e (jb_id job0)\<rparr> else job0)
        in if jb_automation_id job1 \<noteq> trusted_automation_id e (jb_id job1)
           then Inl (ErrLoad (LdUntrusted (jb_id job1)))
           else
             let job2 = (if jb_revision job1 = 0 then job1\<lparr>jb_revision := 1\<rparr> else job1);
                 job = (if jb_generation job2 = 0 then job2\<lparr>jb_generation := 1\<rparr> else job2);
                 s1 = s\<lparr>ss_generation_counters :=
                          bump_counter (jb_id job) (jb_generation job) (ss_generation_counters s)\<rparr>
             in (case validate_job_definition job of
                   Inl err \<Rightarrow> Inl err
                 | Inr _ \<Rightarrow>
                     let expected = revision_id_for e job (jb_revision job)
                     in if jb_revision_id job \<noteq> [] \<and> jb_revision_id job \<noteq> expected \<and>
                           \<not> legacy_revision_id_matches e job (jb_revision_id job)
                        then Inl (ErrLoad (LdInvalidRevision (jb_id job)))
                        else
                          let job' = job\<lparr>jb_revision_id := expected\<rparr>
                          in if lookup (ss_jobs s1) (jb_id job') \<noteq> None
                             then Inl (ErrLoad (LdDuplicateJob (jb_id job')))
                             else if \<exists>j \<in> set (map snd (ss_jobs s1)).
                                       jb_automation_id j = jb_automation_id job'
                             then Inl (ErrLoad (LdDuplicateAutomation (jb_automation_id job')))
                             else Inr (put_job (jb_id job') job' s1)))"

definition install_occurrence ::
  "'x digest_env_scheme \<Rightarrow> AutomationOccurrence \<Rightarrow> SchedulerService \<Rightarrow> SchedError + SchedulerService" where
  "install_occurrence e oc0 s =
     (case normalize_loaded_occurrence e oc0 of
        Inl err \<Rightarrow> Inl err
      | Inr oc \<Rightarrow>
          (case validate_occurrence_shape e oc of
             Inl err \<Rightarrow> Inl (ErrShape err)
           | Inr _ \<Rightarrow>
               if \<exists>x \<in> set (ss_occurrences s). oc_id x = oc_id oc
               then Inl (ErrLoad (LdDuplicateOccurrence (oc_id oc)))
               else if \<exists>x \<in> set (ss_occurrences s). oc_dedup_digest x = oc_dedup_digest oc
               then Inl (ErrLoad (LdDuplicateDigest (oc_dedup_digest oc)))
               else Inr (s\<lparr>ss_occurrences := ss_occurrences s @ [oc]\<rparr>)))"

fun install_all :: "('a \<Rightarrow> 's \<Rightarrow> 'err + 's) \<Rightarrow> 'a list \<Rightarrow> 's \<Rightarrow> 'err + 's" where
  "install_all f [] s = Inr s"
| "install_all f (x # xs) s = (case f x s of Inl err \<Rightarrow> Inl err | Inr s' \<Rightarrow> install_all f xs s')"

definition install_loaded ::
  "'x digest_env_scheme \<Rightarrow> Job list \<Rightarrow> AutomationOccurrence list \<Rightarrow> SchedulerService \<Rightarrow>
   SchedError + SchedulerService" where
  "install_loaded e jobs occs s =
     (case install_all (install_job e) jobs s of
        Inl err \<Rightarrow> Inl err
      | Inr s1 \<Rightarrow> install_all (install_occurrence e) occs s1)"

definition load_or_new_checked :: "sched_env \<Rightarrow> string \<Rightarrow> SchedDisk \<Rightarrow> SchedError + SchedulerService" where
  "load_or_new_checked e path d =
     (let svc = scheduler_new\<lparr>ss_persist_path := Some path\<rparr>
      in case dk_file d of
           NoFile \<Rightarrow> Inr svc
         | ReadFails \<Rightarrow> Inl (ErrLoad LdRead)
         | Garbled \<Rightarrow> Inl (ErrLoad LdParse)
         | Document v \<Rightarrow>
             (let raw = drop_retired_execution_fields v
              in case raw of
                   JvArr _ \<Rightarrow>
                     (case se_parse_jobs e raw of
                        None \<Rightarrow> Inl (ErrLoad LdParseJobs)
                      | Some jobs \<Rightarrow> install_loaded e jobs [] (svc\<lparr>ss_generation_counters := []\<rparr>))
                 | _ \<Rightarrow>
                     (case se_parse_store e raw of
                        None \<Rightarrow> Inl (ErrLoad LdParseStore)
                      | Some st \<Rightarrow>
                          if ps_version st \<noteq> 2 \<and> ps_version st \<noteq> scheduler_store_version
                          then Inl (ErrLoad (LdVersion (ps_version st)))
                          else install_loaded e (ps_jobs st) (ps_occurrences st)
                                 (svc\<lparr>ss_generation_counters := ps_generation_counters st\<rparr>))))"

definition load_or_new :: "sched_env \<Rightarrow> string \<Rightarrow> SchedDisk \<Rightarrow> SchedulerService" where
  "load_or_new e path d =
     (case load_or_new_checked e path d of
        Inr svc \<Rightarrow> svc
      | Inl err \<Rightarrow> scheduler_new\<lparr>ss_persist_path := Some path, ss_load_error := Some err\<rparr>)"

section \<open>Committing a change\<close>

text \<open>Every mutator ends by writing the store and, when the write fails, restores the service it cloned
  first (\<open>*self = before\<close>).\<close>

definition sched_commit ::
  "sched_env \<Rightarrow> SchedulerService \<Rightarrow> 'a \<Rightarrow> SchedulerService \<Rightarrow> SchedDisk \<Rightarrow> 'a sched_result" where
  "sched_commit e before v s d =
     (case sched_persist e s d of
        (Inr _, d') \<Rightarrow> (Inr v, s, d')
      | (Inl err, d') \<Rightarrow> (Inl err, before, d'))"

definition when_healthy :: "SchedulerService \<Rightarrow> SchedDisk \<Rightarrow> 'a sched_result \<Rightarrow> 'a sched_result" where
  "when_healthy s d k = (case ensure_healthy s of Inl err \<Rightarrow> (Inl err, s, d) | Inr _ \<Rightarrow> k)"

text \<open>The shape \<open>get_mut(id)\<close>, change, \<open>persist\<close> of the job mutators; \<open>f\<close> returns the changed job and the
  result.\<close>

definition edit_job ::
  "sched_env \<Rightarrow> string \<Rightarrow> (Job \<Rightarrow> Job \<times> 'a) \<Rightarrow> SchedulerService \<Rightarrow> SchedDisk \<Rightarrow> 'a sched_result" where
  "edit_job e i f s d =
     when_healthy s d
       (case lookup (ss_jobs s) i of
          None \<Rightarrow> (Inl (ErrUnknownJob i), s, d)
        | Some job \<Rightarrow> (case f job of (job', v) \<Rightarrow> sched_commit e s v (put_job i job' s) d))"

end
