(* ===== verification/Sched_Ops.thy ===== *)
theory Sched_Ops
  imports Sched_Store
begin

text \<open>
  The operations of \<open>SchedulerService\<close> (\<open>core/src/scheduler_service.rs\<close>): the registry of jobs, monitors,
  notepads and pauses; the admission of due, event, webhook and manual occurrences; their advancement with
  a receipt, quarantine and cancellation; the due query, the nudge sentinels, incidents and the doctor.

  A mutator returns the result, the service and the disk. The order of the association list of jobs stands
  for the iteration order of the hash map.
\<close>

section \<open>Registry\<close>

definition sched_list :: "SchedulerService \<Rightarrow> Job list" where
  "sched_list s = sort_key jb_id (map snd (ss_jobs s))"

definition sched_get :: "string \<Rightarrow> SchedulerService \<Rightarrow> Job option" where
  "sched_get i s = lookup (ss_jobs s) i"

definition job_id_for_automation :: "string \<Rightarrow> SchedulerService \<Rightarrow> string option" where
  "job_id_for_automation a s =
     map_option jb_id (find (\<lambda>j. jb_automation_id j = a) (map snd (ss_jobs s)))"

definition automation_id_for_job :: "string \<Rightarrow> SchedulerService \<Rightarrow> string option" where
  "automation_id_for_job i s = map_option jb_automation_id (lookup (ss_jobs s) i)"

definition job_ids_for_occurrences :: "AutomationOccurrence list \<Rightarrow> SchedulerService \<Rightarrow> string list" where
  "job_ids_for_occurrences ocs s =
     List.map_filter (\<lambda>oc. job_id_for_automation (oc_automation_id oc) s) ocs"

definition pending_job_ids_for_occurrences ::
  "AutomationOccurrence list \<Rightarrow> SchedulerService \<Rightarrow> string list" where
  "pending_job_ids_for_occurrences ocs s =
     List.map_filter (\<lambda>oc. job_id_for_automation (oc_automation_id oc) s) (filter is_pending ocs)"

text \<open>The candidate of \<open>upsert_checked_with_enabled\<close> in the order of the source: the existing job or a new
  one, the fields of the request, the revision and generation, the next run.\<close>

definition upsert_base ::
  "'x digest_env_scheme \<Rightarrow> string \<Rightarrow> string \<Rightarrow> string \<Rightarrow> TriggerSpec \<Rightarrow> SchedulerService \<Rightarrow> Job" where
  "upsert_base e i name session trigger s =
     (case lookup (ss_jobs s) i of
        Some j \<Rightarrow> j
      | None \<Rightarrow>
          let generation =
            max (u64_sat_add (case lookup (ss_generation_counters s) i of None \<Rightarrow> 0 | Some g \<Rightarrow> g) 1) 1
          in job_new_with_generation e i name session trigger generation)"

definition upsert_fields ::
  "string \<Rightarrow> string \<Rightarrow> TriggerSpec \<Rightarrow> AutomationStep list \<Rightarrow> SchedulePolicy option \<Rightarrow> bool option \<Rightarrow> Job \<Rightarrow> Job" where
  "upsert_fields name session trigger steps policy enabled c =
     (let c1 = c\<lparr>jb_name := name, jb_session_id := session, jb_trigger := trigger, jb_steps := steps\<rparr>;
          c2 = (case policy of None \<Rightarrow> c1 | Some p \<Rightarrow> c1\<lparr>jb_policy := p\<rparr>)
      in (case enabled of None \<Rightarrow> c2 | Some b \<Rightarrow> c2\<lparr>jb_enabled := b\<rparr>))"

definition upsert_version :: "'x digest_env_scheme \<Rightarrow> Job option \<Rightarrow> Job \<Rightarrow> Job" where
  "upsert_version e existing c =
     (let old_digest = map_option (legacy_definition_digest e) existing;
          c1 = (if old_digest \<noteq> Some (legacy_definition_digest e c)
                then c\<lparr>jb_revision := max (case existing of Some j \<Rightarrow> u64_sat_add (jb_revision j) 1 | None \<Rightarrow> 1) 1\<rparr>
                else if jb_revision c = 0 then c\<lparr>jb_revision := 1\<rparr> else c)
      in (if jb_generation c1 = 0 then c1\<lparr>jb_generation := 1\<rparr> else c1))"

definition upsert_schedule :: "Job option \<Rightarrow> nat \<Rightarrow> Job \<Rightarrow> Job" where
  "upsert_schedule existing now c =
     (if (case existing of Some j \<Rightarrow> jb_trigger j \<noteq> jb_trigger c | None \<Rightarrow> True) \<or> jb_next_run_at c = None
      then c\<lparr>jb_next_run_at := compute_next_run (jb_trigger c) now (jb_next_run_at c)\<rparr>
      else c)"

definition upsert_candidate ::
  "'x digest_env_scheme \<Rightarrow> string \<Rightarrow> string \<Rightarrow> string \<Rightarrow> TriggerSpec \<Rightarrow> AutomationStep list \<Rightarrow>
   SchedulePolicy option \<Rightarrow> bool option \<Rightarrow> nat \<Rightarrow> SchedulerService \<Rightarrow> Job" where
  "upsert_candidate e i name session trigger steps policy enabled now s =
     (let existing = lookup (ss_jobs s) i;
          c = upsert_schedule existing now
                (upsert_version e existing
                   (upsert_fields name session trigger steps policy enabled
                      (upsert_base e i name session trigger s)))
      in c\<lparr>jb_revision_id := revision_id_for e c (jb_revision c)\<rparr>)"

definition upsert_checked_with_enabled ::
  "sched_env \<Rightarrow> string \<Rightarrow> string \<Rightarrow> string \<Rightarrow> TriggerSpec \<Rightarrow> AutomationStep list \<Rightarrow>
   SchedulePolicy option \<Rightarrow> bool option \<Rightarrow> nat \<Rightarrow> SchedulerService \<Rightarrow> SchedDisk \<Rightarrow> unit sched_result" where
  "upsert_checked_with_enabled e i name session trigger steps policy enabled now s d =
     when_healthy s d
       (let candidate = upsert_candidate e i name session trigger steps policy enabled now s
        in case validate_job_definition candidate of
             Inl err \<Rightarrow> (Inl err, s, d)
           | Inr _ \<Rightarrow>
               let s1 = put_job i candidate s;
                   s2 = s1\<lparr>ss_generation_counters :=
                             bump_counter i (jb_generation candidate) (ss_generation_counters s1)\<rparr>
               in sched_commit e s () s2 d)"

definition sched_upsert ::
  "sched_env \<Rightarrow> string \<Rightarrow> string \<Rightarrow> string \<Rightarrow> TriggerSpec \<Rightarrow> AutomationStep list \<Rightarrow>
   SchedulePolicy option \<Rightarrow> nat \<Rightarrow> SchedulerService \<Rightarrow> SchedDisk \<Rightarrow> SchedulerService \<times> SchedDisk" where
  "sched_upsert e i name session trigger steps policy now s d =
     (case upsert_checked_with_enabled e i name session trigger steps policy None now s d of
        (Inr _, s', d') \<Rightarrow> (s', d')
      | (Inl err, s', d') \<Rightarrow>
          let s1 = s'\<lparr>ss_load_error := Some err\<rparr>
          in (if lookup (ss_jobs s1) i = None then put_job i (job_new e i name session trigger) s1 else s1, d'))"

definition delete_checked :: "sched_env \<Rightarrow> string \<Rightarrow> SchedulerService \<Rightarrow> SchedDisk \<Rightarrow> bool sched_result" where
  "delete_checked e i s d =
     when_healthy s d
       (case lookup (ss_jobs s) i of
          None \<Rightarrow> (Inr False, s, d)
        | Some job \<Rightarrow>
            if \<exists>oc \<in> set (ss_occurrences s).
                 oc_automation_id oc = jb_automation_id job \<and> \<not> occ_is_terminal oc
            then (Inl (ErrUnresolved i), s, d)
            else sched_commit e s True (s\<lparr>ss_jobs := AList.delete i (ss_jobs s)\<rparr>) d)"

text \<open>The infallible wrappers poison the service with the error.\<close>

definition poisoning :: "'a \<Rightarrow> 'a sched_result \<Rightarrow> 'a \<times> SchedulerService \<times> SchedDisk" where
  "poisoning fallback r =
     (case r of
        (Inr v, s, d) \<Rightarrow> (v, s, d)
      | (Inl err, s, d) \<Rightarrow> (fallback, s\<lparr>ss_load_error := Some err\<rparr>, d))"

definition sched_delete :: "sched_env \<Rightarrow> string \<Rightarrow> SchedulerService \<Rightarrow> SchedDisk \<Rightarrow> bool \<times> SchedulerService \<times> SchedDisk" where
  "sched_delete e i s d = poisoning False (delete_checked e i s d)"

definition set_enabled :: "sched_env \<Rightarrow> string \<Rightarrow> bool \<Rightarrow> nat \<Rightarrow> SchedulerService \<Rightarrow> SchedDisk \<Rightarrow> unit sched_result" where
  "set_enabled e i enabled now s d =
     edit_job e i (\<lambda>job.
       let job1 = job\<lparr>jb_enabled := enabled\<rparr>
       in (if enabled \<and> jb_next_run_at job1 = None
           then job1\<lparr>jb_next_run_at := compute_next_run (jb_trigger job1) now None\<rparr> else job1, ())) s d"

definition set_monitor ::
  "sched_env \<Rightarrow> string \<Rightarrow> MonitorConfig option \<Rightarrow> SchedulerService \<Rightarrow> SchedDisk \<Rightarrow> unit sched_result" where
  "set_monitor e i monitor s d = edit_job e i (\<lambda>job. (job\<lparr>jb_monitor := monitor\<rparr>, ())) s d"

definition u32_sat_add :: "nat \<Rightarrow> nat \<Rightarrow> nat" where
  "u32_sat_add a b = min (a + b) (2 ^ 32 - 1)"

definition job_monitor_or_default :: "Job \<Rightarrow> MonitorConfig" where
  "job_monitor_or_default job = (case jb_monitor job of None \<Rightarrow> monitor_default | Some m \<Rightarrow> m)"

definition monitor_evaluate ::
  "sched_env \<Rightarrow> string \<Rightarrow> string \<Rightarrow> bool \<Rightarrow> SchedulerService \<Rightarrow> SchedDisk \<Rightarrow> MonitorVerdict sched_result" where
  "monitor_evaluate e i observation condition_met s d =
     edit_job e i (\<lambda>job.
       let m = job_monitor_or_default job;
           previous = mc_last_observation m;
           changed = (previous \<noteq> Some observation);
           notified = (previous = None \<or> changed \<or> condition_met);
           m1 = (if notified then m\<lparr>mc_notifications := u32_sat_add (mc_notifications m) 1\<rparr> else m);
           m2 = m1\<lparr>mc_last_observation := Some observation\<rparr>;
           stopped = (condition_met \<and> mc_stop_on_condition m2);
           job1 = job\<lparr>jb_monitor := Some m2\<rparr>;
           job2 = (if stopped then job1\<lparr>jb_enabled := False\<rparr> else job1)
       in (job2, \<lparr> mv_changed = changed, mv_notified = notified, mv_stopped = stopped,
                   mv_previous = previous, mv_current = observation,
                   mv_notifications = mc_notifications m2 \<rparr>)) s d"

definition evaluate_script :: "MonitorConfig \<Rightarrow> string \<Rightarrow> bool \<Rightarrow> MonitorVerdict" where
  "evaluate_script m stdout silent_on_empty =
     (let previous = mc_last_observation m;
          changed = (previous \<noteq> Some stdout);
          notified = (if stdout = [] \<and> silent_on_empty then False else previous = None \<or> changed);
          notifications = (if notified then u32_sat_add (mc_notifications m) 1 else mc_notifications m)
      in \<lparr> mv_changed = changed, mv_notified = notified, mv_stopped = False, mv_previous = previous,
           mv_current = stdout, mv_notifications = notifications \<rparr>)"

definition monitor_evaluate_script ::
  "sched_env \<Rightarrow> string \<Rightarrow> string \<Rightarrow> bool \<Rightarrow> SchedulerService \<Rightarrow> SchedDisk \<Rightarrow> MonitorVerdict sched_result" where
  "monitor_evaluate_script e i stdout silent_on_empty s d =
     edit_job e i (\<lambda>job.
       let m = job_monitor_or_default job;
           verdict = evaluate_script m stdout silent_on_empty;
           m1 = m\<lparr>mc_last_observation := Some stdout\<rparr>;
           m2 = (if mv_notified verdict then m1\<lparr>mc_notifications := u32_sat_add (mc_notifications m1) 1\<rparr>
                 else m1)
       in (job\<lparr>jb_monitor := Some m2\<rparr>, verdict\<lparr>mv_notifications := mc_notifications m2\<rparr>)) s d"

definition append_notepad_checked ::
  "sched_env \<Rightarrow> string \<Rightarrow> string \<Rightarrow> SchedulerService \<Rightarrow> SchedDisk \<Rightarrow> bool sched_result" where
  "append_notepad_checked e i line s d =
     when_healthy s d
       (case lookup (ss_jobs s) i of
          None \<Rightarrow> (Inr False, s, d)
        | Some job \<Rightarrow>
            let pad = (if jb_notepad job = [] then line else jb_notepad job @ [CHR 0x0A] @ line)
            in sched_commit e s True (put_job i (job\<lparr>jb_notepad := pad\<rparr>) s) d)"

definition append_notepad ::
  "sched_env \<Rightarrow> string \<Rightarrow> string \<Rightarrow> SchedulerService \<Rightarrow> SchedDisk \<Rightarrow> bool \<times> SchedulerService \<times> SchedDisk" where
  "append_notepad e i line s d = poisoning False (append_notepad_checked e i line s d)"

definition sched_notepad :: "string \<Rightarrow> SchedulerService \<Rightarrow> string option" where
  "sched_notepad i s = map_option jb_notepad (lookup (ss_jobs s) i)"

definition sched_pause :: "sched_env \<Rightarrow> string \<Rightarrow> SchedulerService \<Rightarrow> SchedDisk \<Rightarrow> unit sched_result" where
  "sched_pause e i s d = edit_job e i (\<lambda>job. (job\<lparr>jb_paused := True\<rparr>, ())) s d"

definition sched_resume :: "sched_env \<Rightarrow> string \<Rightarrow> nat \<Rightarrow> SchedulerService \<Rightarrow> SchedDisk \<Rightarrow> unit sched_result" where
  "sched_resume e i now s d =
     edit_job e i (\<lambda>job.
       let job1 = job\<lparr>jb_paused := False\<rparr>
       in (if jb_enabled job1 \<and> jb_next_run_at job1 = None
           then job1\<lparr>jb_next_run_at := compute_next_run (jb_trigger job1) now None\<rparr> else job1, ())) s d"

definition pause_session_checked ::
  "sched_env \<Rightarrow> string \<Rightarrow> SchedulerService \<Rightarrow> SchedDisk \<Rightarrow> nat sched_result" where
  "pause_session_checked e session s d =
     when_healthy s d
       (let hit = (\<lambda>job. jb_session_id job = session \<and> \<not> jb_paused job);
            count = length (filter hit (map snd (ss_jobs s)));
            s1 = s\<lparr>ss_jobs := map (\<lambda>(k, job). (k, if hit job then job\<lparr>jb_paused := True\<rparr> else job)) (ss_jobs s)\<rparr>
        in if 0 < count then sched_commit e s count s1 d else (Inr count, s1, d))"

definition pause_session ::
  "sched_env \<Rightarrow> string \<Rightarrow> SchedulerService \<Rightarrow> SchedDisk \<Rightarrow> nat \<times> SchedulerService \<times> SchedDisk" where
  "pause_session e session s d = poisoning 0 (pause_session_checked e session s d)"

section \<open>Due jobs\<close>

definition fires_in_window :: "nat \<Rightarrow> Job \<Rightarrow> nat" where
  "fires_in_window now job = length (filter (\<lambda>t. now - 3600 \<le> t) (jb_recent_fires job)) mod 2 ^ 32"

definition frequency_admits :: "Job \<Rightarrow> nat \<Rightarrow> bool" where
  "frequency_admits job now =
     (case sp_max_runs_per_hour (jb_policy job) of None \<Rightarrow> True | Some cap \<Rightarrow> fires_in_window now job < cap)"

definition next_run_reached :: "Job \<Rightarrow> nat \<Rightarrow> bool" where
  "next_run_reached job now = (case jb_next_run_at job of None \<Rightarrow> False | Some t \<Rightarrow> t \<le> now)"

definition trigger_due :: "Job \<Rightarrow> nat \<Rightarrow> bool" where
  "trigger_due job now =
     (case jb_trigger job of
        TsCron expr \<Rightarrow> (case cron_parse expr of Inl _ \<Rightarrow> False | Inr _ \<Rightarrow> True) \<and> next_run_reached job now
      | TsInterval _ \<Rightarrow> next_run_reached job now
      | TsWindow _ _ \<Rightarrow> next_run_reached job now
      | _ \<Rightarrow> False)"

definition blocked_by_reconciliation :: "SchedulerService \<Rightarrow> Job \<Rightarrow> bool" where
  "blocked_by_reconciliation s job =
     (case jb_next_run_at job of
        None \<Rightarrow> False
      | Some t \<Rightarrow>
          \<exists>oc \<in> set (ss_occurrences s).
            oc_automation_id oc = jb_automation_id job \<and> oc_trigger oc = OtSchedule t \<and> \<not> is_pending oc)"

definition job_due :: "SchedulerService \<Rightarrow> nat \<Rightarrow> Job \<Rightarrow> bool" where
  "job_due s now job \<longleftrightarrow>
     jb_enabled job \<and> \<not> jb_paused job \<and>
     \<not> (ss_on_battery s \<and> sp_suppress_on_battery (jb_policy job)) \<and>
     frequency_admits job now \<and> trigger_due job now \<and> \<not> blocked_by_reconciliation s job"

definition sched_due :: "nat \<Rightarrow> SchedulerService \<Rightarrow> string list" where
  "sched_due now s =
     (if ss_load_error s \<noteq> None then []
      else map fst (sort_key (\<lambda>(k, job). case jb_next_run_at job of None \<Rightarrow> u64_max | Some t \<Rightarrow> t)
                      (filter (\<lambda>(k, job). job_due s now job) (ss_jobs s))))"

section \<open>Admission\<close>

type_synonym delivery = "OccurrenceTrigger \<times> jvalue \<times> string"

definition new_occurrence ::
  "'x digest_env_scheme \<Rightarrow> Job \<Rightarrow> OccurrenceTrigger \<Rightarrow> string \<Rightarrow> string \<Rightarrow> string \<Rightarrow> nat \<Rightarrow>
   AutomationOccurrence" where
  "new_occurrence e job trigger payload_digest dedup key now =
     \<lparr> oc_id = occurrence_id_of dedup, oc_automation_id = jb_automation_id job,
       oc_revision_id = jb_revision_id job, oc_trigger = trigger, oc_payload_digest = payload_digest,
       oc_dedup_digest = dedup, oc_admitted_at = now, oc_state = OsPending, oc_idempotency_key = key,
       oc_fired_at = None, oc_work_id = None, oc_run_id = None, oc_admission_error = None,
       oc_admission_receipt = None, oc_revision = revision_snapshot job \<rparr>"

text \<open>The loop of \<open>admit_selected_in_memory\<close>: \<open>len0\<close> is \<open>original_len\<close>, \<open>occs\<close> the occurrence index and
  \<open>acc\<close> the admitted rows.\<close>

fun admit_loop ::
  "'x digest_env_scheme \<Rightarrow> nat \<Rightarrow> (Job \<Rightarrow> delivery option) \<Rightarrow> nat \<Rightarrow> Job list \<Rightarrow>
   AutomationOccurrence list \<Rightarrow> AutomationOccurrence list \<Rightarrow>
   (SchedError + AutomationOccurrence list) \<times> AutomationOccurrence list" where
  "admit_loop e now mk len0 [] occs acc = (Inr acc, occs)"
| "admit_loop e now mk len0 (job # jobs) occs acc =
     (case mk job of
        None \<Rightarrow> admit_loop e now mk len0 jobs occs acc
      | Some (trigger, payload, key0) \<Rightarrow>
          (case normalize_idempotency_key key0 ''delivery'' of
             Inl err \<Rightarrow> (Inl err, occs)
           | Inr key \<Rightarrow>
               let pd = digest_json e payload;
                   dedup = dedup_digest_for e (jb_automation_id job) (jb_generation job) trigger key
               in (case find (\<lambda>oc. oc_dedup_digest oc = dedup) occs of
                     Some existing \<Rightarrow>
                       if oc_payload_digest existing \<noteq> pd then (Inl (ErrKeyReused key), take len0 occs)
                       else admit_loop e now mk len0 jobs occs (acc @ [existing])
                   | None \<Rightarrow>
                       if \<not> frequency_admits job now then admit_loop e now mk len0 jobs occs acc
                       else
                         let oc = new_occurrence e job trigger pd dedup key now
                         in (case validate_occurrence_shape e oc of
                               Inl err \<Rightarrow> (Inl (ErrShape err), take len0 occs)
                             | Inr _ \<Rightarrow> admit_loop e now mk len0 jobs (occs @ [oc]) (acc @ [oc])))))"

definition admit_selected_in_memory ::
  "'x digest_env_scheme \<Rightarrow> Job list \<Rightarrow> (Job \<Rightarrow> delivery option) \<Rightarrow> nat \<Rightarrow> SchedulerService \<Rightarrow>
   (SchedError + AutomationOccurrence list) \<times> SchedulerService" where
  "admit_selected_in_memory e selected mk now s =
     (case admit_loop e now mk (length (ss_occurrences s)) selected (ss_occurrences s) [] of
        (r, occs) \<Rightarrow> (r, s\<lparr>ss_occurrences := occs\<rparr>))"

definition admit_selected_transactional ::
  "sched_env \<Rightarrow> Job list \<Rightarrow> (Job \<Rightarrow> delivery option) \<Rightarrow> nat \<Rightarrow> SchedulerService \<Rightarrow> SchedDisk \<Rightarrow>
   AutomationOccurrence list sched_result" where
  "admit_selected_transactional e selected mk now s d =
     (case admit_selected_in_memory e selected mk now s of
        (Inr admitted_rows, s1) \<Rightarrow>
          if length (ss_occurrences s1) \<noteq> length (ss_occurrences s) then sched_commit e s admitted_rows s1 d
          else (Inr admitted_rows, s1, d)
      | (Inl err, s1) \<Rightarrow> (Inl err, s, d))"

definition admit_one_in_memory ::
  "'x digest_env_scheme \<Rightarrow> Job \<Rightarrow> OccurrenceTrigger \<Rightarrow> jvalue \<Rightarrow> string \<Rightarrow> nat \<Rightarrow> SchedulerService \<Rightarrow>
   (SchedError + AutomationOccurrence) \<times> SchedulerService" where
  "admit_one_in_memory e job trigger payload key now s =
     (case admit_selected_in_memory e [job] (\<lambda>_. Some (trigger, payload, key)) now s of
        (Inl err, s1) \<Rightarrow> (Inl err, s1)
      | (Inr rows, s1) \<Rightarrow> (if rows = [] then Inl (ErrNotAdmitted (jb_id job)) else Inr (last rows), s1))"

definition schedule_key :: "Job \<Rightarrow> nat \<Rightarrow> string" where
  "schedule_key job scheduled_at =
     ''schedule:'' @ show_nat (jb_generation job) @ '':'' @ show_nat scheduled_at"

definition schedule_payload :: "nat \<Rightarrow> jvalue" where
  "schedule_payload scheduled_at =
     JvObj [(''scheduledAt'', jnat scheduled_at), (''trigger'', JvStr ''schedule'')]"

text \<open>The loop of \<open>admit_due\<close> over the due ids, with the admitted rows and the \<open>changed\<close> flag.\<close>

fun admit_due_loop ::
  "'x digest_env_scheme \<Rightarrow> nat \<Rightarrow> string list \<Rightarrow> SchedulerService \<Rightarrow> AutomationOccurrence list \<Rightarrow> bool \<Rightarrow>
   (SchedError + AutomationOccurrence list \<times> bool) \<times> SchedulerService" where
  "admit_due_loop e now [] s rows changed = (Inr (rows, changed), s)"
| "admit_due_loop e now (i # ids) s rows changed =
     (case lookup (ss_jobs s) i of
        None \<Rightarrow> admit_due_loop e now ids s rows changed
      | Some job \<Rightarrow>
          let scheduled_at = (case jb_next_run_at job of None \<Rightarrow> now | Some t \<Rightarrow> t);
              cron = (case jb_trigger job of TsCron _ \<Rightarrow> True | _ \<Rightarrow> False);
              misfire = sp_misfire_policy (jb_policy job)
          in if cron \<and> misfire = MfSkip
             then admit_due_loop e now ids
                    (put_job i (job\<lparr>jb_next_run_at := compute_next_run (jb_trigger job) now None\<rparr>) s)
                    rows True
             else if cron \<and> misfire = MfCatchUp then (Inl ErrCatchUpNotAdmitted, s)
             else
               (case admit_one_in_memory e job (OtSchedule scheduled_at) (schedule_payload scheduled_at)
                       (schedule_key job scheduled_at) now s of
                  (Inl err, s1) \<Rightarrow> (Inl err, s1)
                | (Inr oc, s1) \<Rightarrow>
                    admit_due_loop e now ids s1 (if is_pending oc then rows @ [oc] else rows) changed))"

definition admit_due :: "sched_env \<Rightarrow> nat \<Rightarrow> SchedulerService \<Rightarrow> SchedDisk \<Rightarrow> AutomationOccurrence list sched_result" where
  "admit_due e now s d =
     when_healthy s d
       (case admit_due_loop e now (sched_due now s) s [] False of
          (Inl err, s1) \<Rightarrow> (Inl err, s, d)
        | (Inr (rows, changed), s1) \<Rightarrow>
            if changed \<or> length (ss_occurrences s1) \<noteq> length (ss_occurrences s)
            then sched_commit e s rows s1 d
            else (Inr rows, s1, d))"

definition event_selects :: "'x digest_env_scheme \<Rightarrow> EventKind \<Rightarrow> string \<Rightarrow> Job \<Rightarrow> bool" where
  "event_selects e kind text job \<longleftrightarrow>
     jb_enabled job \<and> \<not> jb_paused job \<and>
     (case jb_trigger job of
        TsEvent expected flt \<Rightarrow> expected = kind \<and> (flt = [] \<or> str_contains text flt)
      | _ \<Rightarrow> False) \<and>
     (case sp_scope (jb_policy job) of None \<Rightarrow> True | Some scope \<Rightarrow> str_contains text scope)"

definition admit_event_with_key ::
  "sched_env \<Rightarrow> EventKind \<Rightarrow> jvalue \<Rightarrow> string \<Rightarrow> nat \<Rightarrow> SchedulerService \<Rightarrow> SchedDisk \<Rightarrow>
   AutomationOccurrence list sched_result" where
  "admit_event_with_key e kind payload idempotency_key now s d =
     when_healthy s d
       (if jv_object payload = None then (Inl (ErrKey ''event'' KyNotObject), s, d)
        else
          (case normalize_idempotency_key idempotency_key ''event'' of
             Inl err \<Rightarrow> (Inl err, s, d)
           | Inr key \<Rightarrow>
               let selected = filter (event_selects e kind (canonical_json e payload)) (map snd (ss_jobs s))
               in admit_selected_transactional e selected
                    (\<lambda>_. Some (OtEvent (event_kind_name kind), payload, key)) now s d))"

definition admit_event ::
  "sched_env \<Rightarrow> EventKind \<Rightarrow> jvalue \<Rightarrow> nat \<Rightarrow> SchedulerService \<Rightarrow> SchedDisk \<Rightarrow>
   AutomationOccurrence list sched_result" where
  "admit_event e kind payload now s d =
     (case extract_idempotency_key payload ''event'' of
        Inl err \<Rightarrow> (Inl err, s, d)
      | Inr key \<Rightarrow> admit_event_with_key e kind payload key now s d)"

text \<open>The selection loop of the webhook ingress stops at the first required key that the body lacks.\<close>

fun webhook_select ::
  "string \<Rightarrow> (string \<times> jvalue) list \<Rightarrow> Job list \<Rightarrow> SchedError + Job list" where
  "webhook_select path obj [] = Inr []"
| "webhook_select path obj (job # jobs) =
     (if \<not> jb_enabled job \<or> jb_paused job then webhook_select path obj jobs
      else
        (case jb_trigger job of
           TsWebhook expected schema \<Rightarrow>
             if expected \<noteq> path then webhook_select path obj jobs
             else
               (case find (\<lambda>k. lookup obj k = None) schema of
                  Some k \<Rightarrow> Inl (ErrMissingKey path k)
                | None \<Rightarrow>
                    (case webhook_select path obj jobs of
                       Inl err \<Rightarrow> Inl err
                     | Inr rest \<Rightarrow> Inr (job # rest)))
         | _ \<Rightarrow> webhook_select path obj jobs))"

definition admit_webhook_with_key ::
  "sched_env \<Rightarrow> string \<Rightarrow> jvalue \<Rightarrow> string \<Rightarrow> nat \<Rightarrow> string option \<Rightarrow> SchedulerService \<Rightarrow> SchedDisk \<Rightarrow>
   AutomationOccurrence list sched_result" where
  "admit_webhook_with_key e path body idempotency_key now token s d =
     when_healthy s d
       (case normalize_idempotency_key idempotency_key ''webhook'' of
          Inl err \<Rightarrow> (Inl err, s, d)
        | Inr key \<Rightarrow>
            if (case ss_webhook_token s of None \<Rightarrow> False | Some expected \<Rightarrow> token \<noteq> Some expected)
            then (Inl ErrBadToken, s, d)
            else
              (case jv_object body of
                 None \<Rightarrow> (Inl (ErrWebhookBody path), s, d)
               | Some obj \<Rightarrow>
                   (case webhook_select path obj (map snd (ss_jobs s)) of
                      Inl err \<Rightarrow> (Inl err, s, d)
                    | Inr selected \<Rightarrow>
                        admit_selected_transactional e selected
                          (\<lambda>_. Some (OtWebhook path, body, key)) now s d)))"

definition admit_webhook ::
  "sched_env \<Rightarrow> string \<Rightarrow> jvalue \<Rightarrow> nat \<Rightarrow> string option \<Rightarrow> SchedulerService \<Rightarrow> SchedDisk \<Rightarrow>
   AutomationOccurrence list sched_result" where
  "admit_webhook e path body now token s d =
     (case extract_idempotency_key body ''webhook'' of
        Inl err \<Rightarrow> (Inl err, s, d)
      | Inr key \<Rightarrow> admit_webhook_with_key e path body key now token s d)"

definition admit_manual_with_key ::
  "sched_env \<Rightarrow> string \<Rightarrow> jvalue \<Rightarrow> string \<Rightarrow> nat \<Rightarrow> SchedulerService \<Rightarrow> SchedDisk \<Rightarrow>
   AutomationOccurrence sched_result" where
  "admit_manual_with_key e i payload idempotency_key now s d =
     when_healthy s d
       (case normalize_idempotency_key idempotency_key ''manual'' of
          Inl err \<Rightarrow> (Inl err, s, d)
        | Inr key \<Rightarrow>
            (case lookup (ss_jobs s) i of
               None \<Rightarrow> (Inl (ErrUnknownJob i), s, d)
             | Some job \<Rightarrow>
                 if \<not> jb_enabled job \<or> jb_paused job then (Inl (ErrJobInactive i), s, d)
                 else
                   (case admit_selected_transactional e [job] (\<lambda>_. Some (OtManual, payload, key)) now s d of
                      (Inl err, s1, d1) \<Rightarrow> (Inl err, s1, d1)
                    | (Inr rows, s1, d1) \<Rightarrow>
                        (if rows = [] then Inl (ErrManualNotAdmitted i) else Inr (last rows), s1, d1))))"

definition admit_manual ::
  "sched_env \<Rightarrow> string \<Rightarrow> jvalue \<Rightarrow> nat \<Rightarrow> SchedulerService \<Rightarrow> SchedDisk \<Rightarrow> AutomationOccurrence sched_result" where
  "admit_manual e i payload now s d =
     (case extract_idempotency_key payload ''manual'' of
        Inl err \<Rightarrow> (Inl err, s, d)
      | Inr key \<Rightarrow> admit_manual_with_key e i payload key now s d)"

section \<open>Occurrences\<close>

fun replace_first :: "('a \<Rightarrow> bool) \<Rightarrow> ('a \<Rightarrow> 'a) \<Rightarrow> 'a list \<Rightarrow> 'a list" where
  "replace_first P f [] = []"
| "replace_first P f (x # xs) = (if P x then f x # xs else x # replace_first P f xs)"

definition newest_first :: "AutomationOccurrence list \<Rightarrow> AutomationOccurrence list" where
  "newest_first ocs = rev (sort_key (\<lambda>oc. (oc_admitted_at oc, oc_id oc)) (rev ocs))"

definition sched_occurrences :: "SchedulerService \<Rightarrow> AutomationOccurrence list" where
  "sched_occurrences s = newest_first (ss_occurrences s)"

definition pending_occurrences :: "SchedulerService \<Rightarrow> AutomationOccurrence list" where
  "pending_occurrences s = filter is_pending (sched_occurrences s)"

definition uncertain_occurrences :: "SchedulerService \<Rightarrow> AutomationOccurrence list" where
  "uncertain_occurrences s = filter is_uncertain (sched_occurrences s)"

definition cancelled_occurrences :: "SchedulerService \<Rightarrow> AutomationOccurrence list" where
  "cancelled_occurrences s = filter is_cancelled (sched_occurrences s)"

definition sched_occurrence :: "string \<Rightarrow> SchedulerService \<Rightarrow> AutomationOccurrence option" where
  "sched_occurrence i s = find (\<lambda>oc. oc_id oc = i) (ss_occurrences s)"

definition occurrence_state :: "string \<Rightarrow> SchedulerService \<Rightarrow> OccurrenceState option" where
  "occurrence_state i s = map_option oc_state (sched_occurrence i s)"

definition put_occurrence ::
  "string \<Rightarrow> (AutomationOccurrence \<Rightarrow> AutomationOccurrence) \<Rightarrow> SchedulerService \<Rightarrow> SchedulerService" where
  "put_occurrence i f s =
     s\<lparr>ss_occurrences := replace_first (\<lambda>oc. oc_id oc = i) f (ss_occurrences s)\<rparr>"

definition receipt_for_occurrence :: "string \<Rightarrow> SchedulerService \<Rightarrow> SchedError + WorkRunAdmissionReceipt" where
  "receipt_for_occurrence i s =
     (case sched_occurrence i s of
        None \<Rightarrow> Inl (ErrOccurrence i OeUnknown)
      | Some oc \<Rightarrow>
          (case parse_revision_id (oc_revision_id oc) of
             Inl err \<Rightarrow> Inl (ErrRevisionId err)
           | Inr identity \<Rightarrow>
               Inr (admission_receipt_new (expected_work_id oc) (expected_run_id oc) (oc_automation_id oc)
                      (oc_revision_id oc) (oc_id oc) (ri_generation identity))))"

definition fired_job :: "nat \<Rightarrow> OccurrenceTrigger \<Rightarrow> Job \<Rightarrow> Job" where
  "fired_job now trigger job =
     (let job1 = job\<lparr>jb_last_fired_at := Some now,
                     jb_recent_fires := filter (\<lambda>t. now - 3600 \<le> t) (jb_recent_fires job) @ [now]\<rparr>
      in case trigger of
           OtSchedule scheduled_at \<Rightarrow>
             job1\<lparr>jb_next_run_at := compute_next_run (jb_trigger job1) (max now scheduled_at) None\<rparr>
         | _ \<Rightarrow> job1)"

definition fired_occurrence :: "nat \<Rightarrow> WorkRunAdmissionReceipt \<Rightarrow> AutomationOccurrence \<Rightarrow> AutomationOccurrence" where
  "fired_occurrence now r oc =
     oc\<lparr>oc_state := OsTerminal, oc_fired_at := Some now, oc_work_id := Some (wr_work_id r),
        oc_run_id := Some (wr_run_id r), oc_admission_error := None, oc_admission_receipt := Some r\<rparr>"

definition mark_occurrence_fired_with_receipt ::
  "sched_env \<Rightarrow> string \<Rightarrow> nat \<Rightarrow> WorkRunAdmissionReceipt \<Rightarrow> SchedulerService \<Rightarrow> SchedDisk \<Rightarrow>
   unit sched_result" where
  "mark_occurrence_fired_with_receipt e i now r s d =
     when_healthy s d
       (case sched_occurrence i s of
          None \<Rightarrow> (Inl (ErrOccurrence i OeUnknown), s, d)
        | Some original \<Rightarrow>
            (case validate_receipt_for original r (expected_work_id original) (expected_run_id original) of
               Inl err \<Rightarrow> (Inl (ErrReceipt err), s, d)
             | Inr _ \<Rightarrow>
                 if oc_state original = OsCancelled then (Inl (ErrOccurrence i OeCancelled), s, d)
                 else if oc_state original = OsTerminal then
                   if oc_admission_receipt original = Some r then (Inr (), s, d)
                   else (Inl (ErrOccurrence i OeAdvanced), s, d)
                 else
                   (case job_id_for_automation (oc_automation_id original) s of
                      None \<Rightarrow> (Inl (ErrOccurrence i OeUnknownAutomation), s, d)
                    | Some job_id \<Rightarrow>
                        (case lookup (ss_jobs s) job_id of
                           None \<Rightarrow> (Inl (ErrUnknownJob job_id), s, d)
                         | Some old_job \<Rightarrow>
                             let next_job = fired_job now (oc_trigger original) old_job;
                                 next_occurrence = fired_occurrence now r original
                             in (case validate_occurrence_shape e next_occurrence of
                                   Inl err \<Rightarrow> (Inl (ErrShape err), s, d)
                                 | Inr _ \<Rightarrow>
                                     sched_commit e s ()
                                       (put_job job_id next_job
                                          (put_occurrence i (\<lambda>_. next_occurrence) s)) d)))))"

definition mark_occurrence_fired :: "string \<Rightarrow> nat \<Rightarrow> string \<Rightarrow> string \<Rightarrow> SchedError + unit" where
  "mark_occurrence_fired i now work run = Inl ErrReceiptRequired"

definition mark_fired :: "string \<Rightarrow> nat \<Rightarrow> SchedError + unit" where
  "mark_fired i now = Inl ErrMarkFired"

definition mark_occurrence_uncertain ::
  "sched_env \<Rightarrow> string \<Rightarrow> string \<Rightarrow> SchedulerService \<Rightarrow> SchedDisk \<Rightarrow> unit sched_result" where
  "mark_occurrence_uncertain e i reason s d =
     when_healthy s d
       (if str_trim reason = [] then (Inl ErrNoReason, s, d)
        else
          (case sched_occurrence i s of
             None \<Rightarrow> (Inl (ErrOccurrence i OeUnknown), s, d)
           | Some original \<Rightarrow>
               if oc_state original = OsCancelled \<or> oc_state original = OsTerminal
               then (Inl (ErrOccurrence i OeTerminal), s, d)
               else
                 sched_commit e s ()
                   (put_occurrence i
                      (\<lambda>oc. oc\<lparr>oc_state := OsUncertain, oc_admission_error := Some reason\<rparr>) s) d))"

definition cancel_occurrence ::
  "sched_env \<Rightarrow> string \<Rightarrow> string \<Rightarrow> SchedulerService \<Rightarrow> SchedDisk \<Rightarrow> unit sched_result" where
  "cancel_occurrence e i reason s d =
     when_healthy s d
       (case sched_occurrence i s of
          None \<Rightarrow> (Inl (ErrOccurrence i OeUnknown), s, d)
        | Some original \<Rightarrow>
            if oc_state original = OsTerminal then (Inl (ErrOccurrence i OeTerminal), s, d)
            else if oc_state original = OsCancelled then (Inr (), s, d)
            else
              let s1 = put_occurrence i
                         (\<lambda>oc. oc\<lparr>oc_state := OsCancelled,
                                  oc_admission_error := if str_trim reason = [] then None else Some reason\<rparr>) s;
                  s2 = (case oc_trigger original of
                          OtSchedule scheduled_at \<Rightarrow>
                            s1\<lparr>ss_jobs := replace_first
                                 (\<lambda>(k, job). jb_automation_id job = oc_automation_id original)
                                 (\<lambda>(k, job). (k, job\<lparr>jb_next_run_at :=
                                    compute_next_run (jb_trigger job) scheduled_at None\<rparr>)) (ss_jobs s1)\<rparr>
                        | _ \<Rightarrow> s1)
              in sched_commit e s () s2 d)"

section \<open>Battery, webhook token, nudges, incidents, doctor\<close>

definition set_battery :: "bool \<Rightarrow> SchedulerService \<Rightarrow> SchedulerService" where
  "set_battery on s = (if ss_load_error s = None then s\<lparr>ss_on_battery := on\<rparr> else s)"

definition set_webhook_token :: "string option \<Rightarrow> SchedulerService \<Rightarrow> SchedulerService" where
  "set_webhook_token token s = (if ss_load_error s = None then s\<lparr>ss_webhook_token := token\<rparr> else s)"

definition nudge_window_days :: nat where
  "nudge_window_days = 14"

definition record_nudge :: "string \<Rightarrow> nat \<Rightarrow> SchedulerService \<Rightarrow> SchedulerService" where
  "record_nudge goal unix_secs s =
     s\<lparr>ss_nudge_log :=
         filter (\<lambda>x. unix_secs - nudge_window_days * 86400 \<le> ns_unix_secs x)
           (ss_nudge_log s @ [\<lparr> ns_goal = goal, ns_unix_secs = unix_secs \<rparr>])\<rparr>"

fun group_by_goal :: "NudgeSample list \<Rightarrow> (string \<times> nat list) list \<Rightarrow> (string \<times> nat list) list" where
  "group_by_goal [] m = m"
| "group_by_goal (x # xs) m =
     group_by_goal xs
       (AList.update (ns_goal x)
          ((case lookup m (ns_goal x) of None \<Rightarrow> [] | Some ts \<Rightarrow> ts) @ [ns_unix_secs x]) m)"

definition pad2 :: "nat \<Rightarrow> string" where
  "pad2 n = (if n < 10 then ''0'' else []) @ show_nat n"

text \<open>The confidence is the quotient of two small integers, kept as a rational for the ordering.\<close>

definition nudge_of :: "string \<times> nat list \<Rightarrow> (rat \<times> NudgeSuggestion) option" where
  "nudge_of = (\<lambda>(goal, times).
     let hours = remdups_adj (sort (map (\<lambda>t. t mod 86400 div 3600) times));
         days = remdups_adj (sort (map (\<lambda>t. t div 86400) times));
         confidence = min (of_nat (length days) / of_nat nudge_window_days) 1
     in if 3 \<le> length days \<and> length hours = 1
        then Some (confidence,
               \<lparr> nd_goal = goal, nd_cron = ''0 '' @ show_nat (hd hours) @ '' * * *'',
                 nd_confidence = Fin confidence, nd_observed_at = [pad2 (hd hours) @ '':00''] \<rparr>)
        else None)"

definition sched_nudges :: "SchedulerService \<Rightarrow> NudgeSuggestion list" where
  "sched_nudges s =
     map snd (sort_key (\<lambda>x. - fst x) (List.map_filter nudge_of (group_by_goal (ss_nudge_log s) [])))"

definition report_incident ::
  "string \<Rightarrow> string \<Rightarrow> string \<Rightarrow> nat \<Rightarrow> SchedulerService \<Rightarrow> string \<times> SchedulerService" where
  "report_incident job_id kind detail at_ms s =
     (let seq = u64_sat_add (ss_incident_seq s) 1; i = ''inc-'' @ show_nat seq
      in (i, s\<lparr>ss_incident_seq := seq,
               ss_incidents := ss_incidents s @
                 [\<lparr> in_id = i, in_job_id = job_id, in_at_ms = at_ms, in_kind = kind, in_detail = detail,
                    in_acked = False \<rparr>]\<rparr>))"

definition get_incident :: "string \<Rightarrow> SchedulerService \<Rightarrow> Incident option" where
  "get_incident i s = find (\<lambda>x. in_id x = i) (ss_incidents s)"

definition ack_incident :: "string \<Rightarrow> SchedulerService \<Rightarrow> bool \<times> SchedulerService" where
  "ack_incident i s =
     (get_incident i s \<noteq> None,
      s\<lparr>ss_incidents := replace_first (\<lambda>x. in_id x = i) (\<lambda>x. x\<lparr>in_acked := True\<rparr>) (ss_incidents s)\<rparr>)"

definition registry_soft_cap :: nat where
  "registry_soft_cap = 500"

definition missed_run :: "nat \<Rightarrow> Job \<Rightarrow> bool" where
  "missed_run now job \<longleftrightarrow>
     jb_enabled job \<and> \<not> jb_paused job \<and>
     (case jb_trigger job of TsEvent _ _ \<Rightarrow> False | TsWebhook _ _ \<Rightarrow> False | TsManual \<Rightarrow> False | _ \<Rightarrow> True) \<and>
     (case jb_next_run_at job of None \<Rightarrow> False | Some t \<Rightarrow> t < now)"

definition cron_doctor :: "nat \<Rightarrow> SchedulerService \<Rightarrow> CronCheck list" where
  "cron_doctor now s =
     (let missed = length (filter (missed_run now) (map snd (ss_jobs s))); depth = length (ss_jobs s)
      in [\<lparr> cc_name = ''missed_runs'', cc_ok = (missed = 0),
            cc_detail = if missed = 0 then ''none'' else show_nat missed @ '' missed'' \<rparr>,
          \<lparr> cc_name = ''queue_depth'', cc_ok = (depth \<le> registry_soft_cap),
            cc_detail = ''depth='' @ show_nat depth \<rparr>])"

definition list_incidents :: "SchedulerService \<Rightarrow> Incident list" where
  "list_incidents s = ss_incidents s"

section \<open>Facades\<close>

definition fire_event ::
  "sched_env \<Rightarrow> EventKind \<Rightarrow> jvalue \<Rightarrow> nat \<Rightarrow> SchedulerService \<Rightarrow> SchedDisk \<Rightarrow> string list sched_result" where
  "fire_event e kind payload now s d =
     (case admit_event e kind payload now s d of
        (Inl err, s', d') \<Rightarrow> (Inl err, s', d')
      | (Inr rows, s', d') \<Rightarrow> (Inr (pending_job_ids_for_occurrences rows s'), s', d'))"

definition fire_webhook ::
  "sched_env \<Rightarrow> string \<Rightarrow> jvalue \<Rightarrow> nat \<Rightarrow> string option \<Rightarrow> SchedulerService \<Rightarrow> SchedDisk \<Rightarrow>
   string list sched_result" where
  "fire_webhook e path body now token s d =
     (case admit_webhook e path body now token s d of
        (Inl err, s', d') \<Rightarrow> (Inl err, s', d')
      | (Inr rows, s', d') \<Rightarrow> (Inr (pending_job_ids_for_occurrences rows s'), s', d'))"

definition advance_occurrence ::
  "sched_env \<Rightarrow> string \<Rightarrow> nat \<Rightarrow> WorkRunAdmissionReceipt \<Rightarrow> SchedulerService \<Rightarrow> SchedDisk \<Rightarrow>
   unit sched_result" where
  "advance_occurrence e i now r s d = mark_occurrence_fired_with_receipt e i now r s d"

definition reconcile_occurrence ::
  "sched_env \<Rightarrow> string \<Rightarrow> nat \<Rightarrow> WorkRunAdmissionReceipt \<Rightarrow> SchedulerService \<Rightarrow> SchedDisk \<Rightarrow>
   unit sched_result" where
  "reconcile_occurrence e i now r s d = advance_occurrence e i now r s d"

definition admit_event_idempotent ::
  "sched_env \<Rightarrow> EventKind \<Rightarrow> jvalue \<Rightarrow> string \<Rightarrow> nat \<Rightarrow> SchedulerService \<Rightarrow> SchedDisk \<Rightarrow>
   AutomationOccurrence list sched_result" where
  "admit_event_idempotent e kind payload key now s d = admit_event_with_key e kind payload key now s d"

definition admit_webhook_idempotent ::
  "sched_env \<Rightarrow> string \<Rightarrow> jvalue \<Rightarrow> string \<Rightarrow> nat \<Rightarrow> string option \<Rightarrow> SchedulerService \<Rightarrow> SchedDisk \<Rightarrow>
   AutomationOccurrence list sched_result" where
  "admit_webhook_idempotent e path body key now token s d = admit_webhook_with_key e path body key now token s d"

definition admit_manual_idempotent ::
  "sched_env \<Rightarrow> string \<Rightarrow> jvalue \<Rightarrow> string \<Rightarrow> nat \<Rightarrow> SchedulerService \<Rightarrow> SchedDisk \<Rightarrow>
   AutomationOccurrence sched_result" where
  "admit_manual_idempotent e i payload key now s d = admit_manual_with_key e i payload key now s d"

end
