(* ===== verification/Sched_Rpc.thy ===== *)
theory Sched_Rpc
  imports Sched_Ops
begin

text \<open>
  The JSON-RPC dispatch of the scheduler (\<open>core/src/scheduler_service.rs\<close>, \<open>handle\<close> and
  \<open>handle_inner\<close>). A request runs one method, then writes the store once more; when that write fails the
  service is restored and the restored store is written again.
\<close>

section \<open>Parameters\<close>

definition str_param :: "jvalue \<Rightarrow> string \<Rightarrow> string option" where
  "str_param params key = Option.bind (jv_get params key) jv_str"

definition str_param_or :: "string \<Rightarrow> jvalue \<Rightarrow> string \<Rightarrow> string" where
  "str_param_or fallback params key = (case str_param params key of None \<Rightarrow> fallback | Some v \<Rightarrow> v)"

definition bool_param :: "bool \<Rightarrow> jvalue \<Rightarrow> string \<Rightarrow> bool" where
  "bool_param fallback params key =
     (case Option.bind (jv_get params key) jv_bool of None \<Rightarrow> fallback | Some b \<Rightarrow> b)"

definition value_param :: "jvalue \<Rightarrow> jvalue \<Rightarrow> string \<Rightarrow> jvalue" where
  "value_param fallback params key = (case jv_get params key of None \<Rightarrow> fallback | Some v \<Rightarrow> v)"

definition now_param :: "sched_env \<Rightarrow> jvalue \<Rightarrow> nat" where
  "now_param e params =
     (case Option.bind (jv_get params ''now'') jv_u64 of None \<Rightarrow> se_clock e | Some n \<Rightarrow> n)"

definition with_str ::
  "string \<Rightarrow> jvalue \<Rightarrow> string \<Rightarrow> (string \<Rightarrow> 'a sched_result) \<Rightarrow> SchedulerService \<Rightarrow> SchedDisk \<Rightarrow>
   'a sched_result" where
  "with_str meth params key k s d =
     (case str_param params key of None \<Rightarrow> (Inl (ErrRpc (RpcParam meth key)), s, d) | Some v \<Rightarrow> k v)"

text \<open>An operation followed by the construction of the answer from its result and the new service.\<close>

definition reply :: "('a \<Rightarrow> SchedulerService \<Rightarrow> jvalue) \<Rightarrow> 'a sched_result \<Rightarrow> jvalue sched_result" where
  "reply f r = (case r of (Inl err, s, d) \<Rightarrow> (Inl err, s, d) | (Inr v, s, d) \<Rightarrow> (Inr (f v s), s, d))"

definition occurrences_json :: "AutomationOccurrence list \<Rightarrow> jvalue" where
  "occurrences_json ocs = JvArr (map occurrence_json ocs)"

definition suggestion_json :: "NudgeSuggestion \<Rightarrow> jvalue" where
  "suggestion_json n =
     JvObj [(''goal'', JvStr (nd_goal n)), (''cron'', JvStr (nd_cron n)),
            (''confidence'', JvNum (NumF (nd_confidence n))),
            (''observed_at'', JvArr (map JvStr (nd_observed_at n)))]"

abbreviation ok_json :: "jvalue" where
  "ok_json \<equiv> JvObj [(''ok'', JvBool True)]"

abbreviation ok_id_json :: "string \<Rightarrow> jvalue" where
  "ok_id_json i \<equiv> JvObj [(''ok'', JvBool True), (''id'', JvStr i)]"

section \<open>Methods\<close>

definition rpc_upsert :: "sched_env \<Rightarrow> jvalue \<Rightarrow> nat \<Rightarrow> SchedulerService \<Rightarrow> SchedDisk \<Rightarrow> jvalue sched_result" where
  "rpc_upsert e params now s d =
     with_str ''scheduler/upsert'' params ''id'' (\<lambda>i.
       let fail = (\<lambda>err. (Inl (ErrRpc err), s, d))
       in (case jv_get params ''trigger'' of
             None \<Rightarrow> fail (RpcParam ''scheduler/upsert'' ''trigger'')
           | Some tv \<Rightarrow>
               (case se_parse_trigger e tv of
                  None \<Rightarrow> fail (RpcDecode ''trigger'')
                | Some trigger \<Rightarrow>
                    (case se_parse_steps e (value_param (JvArr []) params ''steps'') of
                       None \<Rightarrow> fail (RpcDecode ''steps'')
                     | Some steps \<Rightarrow>
                         (case (case jv_get params ''policy'' of
                                  None \<Rightarrow> Some None
                                | Some pv \<Rightarrow> map_option Some (se_parse_policy e pv)) of
                            None \<Rightarrow> fail (RpcDecode ''policy'')
                          | Some policy \<Rightarrow>
                              reply (\<lambda>_ _. ok_id_json i)
                                (upsert_checked_with_enabled e i (str_param_or i params ''name'')
                                   (str_param_or [] params ''sessionId'') trigger steps policy
                                   (Option.bind (jv_get params ''enabled'') jv_bool) now s d)))))) s d"

definition rpc_mark_fired ::
  "sched_env \<Rightarrow> jvalue \<Rightarrow> nat \<Rightarrow> SchedulerService \<Rightarrow> SchedDisk \<Rightarrow> jvalue sched_result" where
  "rpc_mark_fired e params now s d =
     with_str ''scheduler/mark_occurrence_fired'' params ''id'' (\<lambda>i.
       case jv_get params ''receipt'' of
         None \<Rightarrow> (Inl (ErrRpc (RpcParam ''scheduler/mark_occurrence_fired'' ''receipt'')), s, d)
       | Some rv \<Rightarrow>
           (case se_parse_receipt e rv of
              None \<Rightarrow> (Inl (ErrRpc (RpcDecode ''receipt'')), s, d)
            | Some r \<Rightarrow>
                reply (\<lambda>_ _. JvObj [(''ok'', JvBool True), (''id'', JvStr i), (''receipt'', receipt_json r)])
                  (mark_occurrence_fired_with_receipt e i now r s d))) s d"

definition fired_reply :: "AutomationOccurrence list \<Rightarrow> SchedulerService \<Rightarrow> jvalue" where
  "fired_reply rows s =
     JvObj [(''fired'', JvArr (map JvStr (pending_job_ids_for_occurrences rows s))),
            (''occurrences'', occurrences_json rows)]"

definition rpc_fire_event ::
  "sched_env \<Rightarrow> jvalue \<Rightarrow> nat \<Rightarrow> SchedulerService \<Rightarrow> SchedDisk \<Rightarrow> jvalue sched_result" where
  "rpc_fire_event e params now s d =
     (case jv_get params ''kind'' of
        None \<Rightarrow> (Inl (ErrRpc (RpcParam ''scheduler/fire_event'' ''kind'')), s, d)
      | Some kv \<Rightarrow>
          (case se_parse_kind e kv of
             None \<Rightarrow> (Inl (ErrRpc (RpcDecode ''kind'')), s, d)
           | Some kind \<Rightarrow>
               let payload = value_param JvNull params ''payload'';
                   key = (case str_param params ''idempotencyKey'' of
                            Some k \<Rightarrow> k
                          | None \<Rightarrow> ''event:payload:'' @ digest_json e payload)
               in reply fired_reply (admit_event_with_key e kind payload key now s d)))"

definition rpc_fire_webhook ::
  "sched_env \<Rightarrow> jvalue \<Rightarrow> nat \<Rightarrow> SchedulerService \<Rightarrow> SchedDisk \<Rightarrow> jvalue sched_result" where
  "rpc_fire_webhook e params now s d =
     with_str ''scheduler/fire_webhook'' params ''path'' (\<lambda>path.
       let body = value_param JvNull params ''body'';
           token = str_param params ''token'';
           key = (case str_param params ''idempotencyKey'' of
                    Some k \<Rightarrow> k
                  | None \<Rightarrow> ''webhook:payload:'' @ digest_json e body)
       in reply fired_reply (admit_webhook_with_key e path body key now token s d)) s d"

definition rpc_run_now ::
  "sched_env \<Rightarrow> jvalue \<Rightarrow> nat \<Rightarrow> SchedulerService \<Rightarrow> SchedDisk \<Rightarrow> jvalue sched_result" where
  "rpc_run_now e params now s d =
     with_str ''scheduler/run_now'' params ''id'' (\<lambda>i.
       let payload = value_param JvNull params ''payload''
       in reply (\<lambda>oc _. JvObj [(''ok'', JvBool True), (''id'', JvStr i), (''occurrence'', occurrence_json oc)])
            (case str_param params ''idempotencyKey'' of
               Some key \<Rightarrow> admit_manual_with_key e i payload key now s d
             | None \<Rightarrow> admit_manual e i payload now s d)) s d"

definition rpc_monitor_config ::
  "sched_env \<Rightarrow> jvalue \<Rightarrow> SchedulerService \<Rightarrow> SchedDisk \<Rightarrow> jvalue sched_result" where
  "rpc_monitor_config e params s d =
     with_str ''scheduler/monitor_config'' params ''id'' (\<lambda>i.
       case (case jv_get params ''monitor'' of
               None \<Rightarrow> Some None
             | Some mv \<Rightarrow> map_option Some (se_parse_monitor e mv)) of
         None \<Rightarrow> (Inl (ErrRpc (RpcDecode ''monitor'')), s, d)
       | Some monitor \<Rightarrow> reply (\<lambda>_ _. ok_id_json i) (set_monitor e i monitor s d)) s d"

definition rpc_list :: "SchedulerService \<Rightarrow> jvalue" where
  "rpc_list s =
     JvObj [(''jobs'', JvArr (map job_json (sched_list s))), (''onBattery'', JvBool (ss_on_battery s)),
            (''occurrences'', occurrences_json (sched_occurrences s))]"

definition sched_handle_inner ::
  "sched_env \<Rightarrow> string \<Rightarrow> jvalue \<Rightarrow> SchedulerService \<Rightarrow> SchedDisk \<Rightarrow> jvalue sched_result" where
  "sched_handle_inner e meth params s d =
     (let now = now_param e params
      in if meth = ''scheduler/list'' then (Inr (rpc_list s), s, d)
         else if meth = ''scheduler/upsert'' then rpc_upsert e params now s d
         else if meth = ''scheduler/delete'' then
           with_str meth params ''id''
             (\<lambda>i. reply (\<lambda>ok _. JvObj [(''ok'', JvBool ok)]) (delete_checked e i s d)) s d
         else if meth = ''scheduler/enable'' then
           with_str meth params ''id''
             (\<lambda>i. reply (\<lambda>_ _. ok_json) (set_enabled e i (bool_param True params ''enabled'') now s d)) s d
         else if meth = ''scheduler/pause'' then
           with_str meth params ''id'' (\<lambda>i. reply (\<lambda>_ _. ok_json) (sched_pause e i s d)) s d
         else if meth = ''scheduler/pause_session'' then
           with_str meth params ''sessionId''
             (\<lambda>session. reply (\<lambda>n _. JvObj [(''ok'', JvBool True), (''paused'', jnat n)])
                          (pause_session_checked e session s d)) s d
         else if meth = ''scheduler/resume'' then
           with_str meth params ''id'' (\<lambda>i. reply (\<lambda>_ _. ok_json) (sched_resume e i now s d)) s d
         else if meth = ''scheduler/due'' then
           reply (\<lambda>rows s'. JvObj [(''due'', JvArr (map JvStr (sched_due now s'))),
                                  (''occurrences'', occurrences_json rows), (''now'', jnat now)])
             (admit_due e now s d)
         else if meth = ''scheduler/admit_due'' then
           reply (\<lambda>rows _. JvObj [(''occurrences'', occurrences_json rows)]) (admit_due e now s d)
         else if meth = ''scheduler/pending_occurrences'' then
           (Inr (JvObj [(''occurrences'', occurrences_json (pending_occurrences s))]), s, d)
         else if meth = ''scheduler/occurrence_error'' then
           with_str meth params ''id''
             (\<lambda>i. reply (\<lambda>_ _. ok_id_json i)
                    (mark_occurrence_uncertain e i
                       (str_param_or ''admission uncertain'' params ''reason'') s d)) s d
         else if meth = ''scheduler/mark_occurrence_fired'' then rpc_mark_fired e params now s d
         else if meth = ''scheduler/cancel_occurrence'' then
           with_str meth params ''id''
             (\<lambda>i. reply (\<lambda>_ _. ok_id_json i)
                    (cancel_occurrence e i (str_param_or ''cancelled by host'' params ''reason'') s d)) s d
         else if meth = ''scheduler/mark_fired'' then
           with_str meth params ''id''
             (\<lambda>i. case mark_fired i now of
                    Inl err \<Rightarrow> (Inl err, s, d) | Inr _ \<Rightarrow> (Inr (ok_id_json i), s, d)) s d
         else if meth = ''scheduler/battery'' then
           (let on = bool_param False params ''onBattery''
            in (Inr (JvObj [(''ok'', JvBool True), (''onBattery'', JvBool on)]), set_battery on s, d))
         else if meth = ''scheduler/fire_event'' then rpc_fire_event e params now s d
         else if meth = ''scheduler/fire_webhook'' then rpc_fire_webhook e params now s d
         else if meth = ''scheduler/webhook_token'' then
           (Inr ok_json, set_webhook_token (str_param params ''token'') s, d)
         else if meth = ''scheduler/nudge'' then
           with_str meth params ''goal''
             (\<lambda>goal.
                let ts = (case Option.bind (jv_get params ''ts'') jv_u64 of None \<Rightarrow> now | Some n \<Rightarrow> n)
                in (Inr ok_json, record_nudge goal ts s, d)) s d
         else if meth = ''scheduler/nudges'' then
           (Inr (JvObj [(''suggestions'', JvArr (map suggestion_json (sched_nudges s)))]), s, d)
         else if meth = ''scheduler/run_now'' then rpc_run_now e params now s d
         else if meth = ''scheduler/monitor'' then
           with_str meth params ''id''
             (\<lambda>i. reply (\<lambda>v _. verdict_json v)
                    (monitor_evaluate e i (str_param_or [] params ''observation'')
                       (bool_param False params ''conditionMet'') s d)) s d
         else if meth = ''scheduler/monitor_config'' then rpc_monitor_config e params s d
         else (Inl (ErrRpc (RpcMethod meth)), s, d))"

definition sched_handle ::
  "sched_env \<Rightarrow> string \<Rightarrow> jvalue \<Rightarrow> SchedulerService \<Rightarrow> SchedDisk \<Rightarrow> jvalue sched_result" where
  "sched_handle e meth params s d =
     when_healthy s d
       (case sched_handle_inner e meth params s d of
          (Inl err, s1, d1) \<Rightarrow> (Inl err, s, d1)
        | (Inr out, s1, d1) \<Rightarrow>
            (case sched_persist e s1 d1 of
               (Inr _, d2) \<Rightarrow> (Inr out, s1, d2)
             | (Inl err, d2) \<Rightarrow> (Inl err, s, snd (sched_persist e s d2))))"

end
