(* ===== verification/Sched_Laws.thy ===== *)
theory Sched_Laws
  imports Sched_Rpc Traces
begin

text \<open>
  What the scheduler's operations do, stated once for all of them: a refused call returns the service it
  was given (\<open>transactional\<close>), and the occurrence index changes only by \<open>occ_move\<close>: a fresh pending row is
  appended, or an open row is resolved in place. The alphabet \<open>SchedOp\<close> has one letter per state-changing
  method and per JSON-RPC request; the interpretations at the end give the invariants for every sequence of
  calls.
\<close>

section \<open>Transactional calls\<close>

named_theorems tx_intros \<open>introduction rules for transactional calls\<close>

definition transactional :: "SchedulerService \<Rightarrow> (SchedulerService \<Rightarrow> bool) \<Rightarrow> 'a sched_result \<Rightarrow> bool" where
  "transactional s P res = (case res of (Inl _, s', d') \<Rightarrow> s' = s | (Inr _, s', d') \<Rightarrow> P s')"

lemma tx_refuse [tx_intros]: "transactional s P (Inl err, s, d)"
  by (simp add: transactional_def)

lemma tx_return [tx_intros]: "P s1 \<Longrightarrow> transactional s P (Inr v, s1, d)"
  by (simp add: transactional_def)

lemma tx_commit [tx_intros]: "P s1 \<Longrightarrow> transactional s P (sched_commit e s v s1 d)"
  by (auto simp: transactional_def sched_commit_def split: prod.splits sum.splits)

lemma tx_healthy [tx_intros]: "transactional s P k \<Longrightarrow> transactional s P (when_healthy s d k)"
  by (auto simp: when_healthy_def tx_refuse split: sum.splits)

lemma tx_edit_job:
  assumes "\<And>job. lookup (ss_jobs s) i = Some job \<Longrightarrow> P (put_job i (fst (f job)) s)"
  shows "transactional s P (edit_job e i f s d)"
  unfolding edit_job_def
  by (intro tx_healthy) (auto simp: assms split: option.splits prod.splits intro!: tx_intros dest: assms)

lemma tx_with_str [tx_intros]:
  "(\<And>v. transactional s P (k v)) \<Longrightarrow> transactional s P (with_str meth params key k s d)"
  by (auto simp: with_str_def tx_refuse split: option.splits)

lemma tx_reply [tx_intros]: "transactional s P r \<Longrightarrow> transactional s P (reply f r)"
  by (auto simp: reply_def transactional_def split: prod.splits sum.splits)

lemma tx_mono: "transactional s P r \<Longrightarrow> (\<And>s'. P s' \<Longrightarrow> Q s') \<Longrightarrow> transactional s Q r"
  by (auto simp: transactional_def split: prod.splits sum.splits)

section \<open>Well-formed occurrences\<close>

definition identity_ok :: "'x digest_env_scheme \<Rightarrow> AutomationOccurrence \<Rightarrow> bool" where
  "identity_ok e oc \<longleftrightarrow>
     starts_with (oc_id oc) ''occ:'' \<and> length (oc_id oc) = 36 \<and> str_trim (oc_automation_id oc) \<noteq> [] \<and>
     str_trim (oc_revision_id oc) \<noteq> [] \<and> str_trim (oc_idempotency_key oc) \<noteq> [] \<and>
     is_sha256_digest (oc_payload_digest oc) \<and> is_sha256_digest (oc_dedup_digest oc) \<and>
     (\<exists>identity. parse_revision_id (oc_revision_id oc) = Inr identity \<and>
        ar_automation_id (oc_revision oc) = oc_automation_id oc \<and>
        ar_revision_id (oc_revision oc) = oc_revision_id oc \<and>
        ar_revision (oc_revision oc) = ri_revision identity \<and>
        rev_generation (oc_revision oc) = ri_generation identity \<and>
        oc_revision_id oc = content_addressed_revision_id_for_generation e
          (rev_automation e (oc_revision oc)) (ri_generation identity) (ri_revision identity) \<and>
        occurrence_trigger_matches_revision (oc_trigger oc) (ar_trigger (oc_revision oc)) \<and>
        (starts_with (oc_idempotency_key oc) ''legacy:'' \<or>
         dedup_digest_for e (oc_automation_id oc) (ri_generation identity) (oc_trigger oc)
           (oc_idempotency_key oc) = oc_dedup_digest oc \<and>
         oc_id oc = occurrence_id_of (oc_dedup_digest oc)))"

lemma unit_Inr: "(x :: 'a + unit) = Inr () \<longleftrightarrow> (\<exists>u. x = Inr u)"
  by (cases x) auto

lemma validate_shape_iff:
  "validate_occurrence_shape e oc = Inr () \<longleftrightarrow> identity_ok e oc \<and> validate_occurrence_state oc = Inr ()"
  unfolding validate_occurrence_shape_def identity_ok_def
  by (cases "parse_revision_id (oc_revision_id oc)") (simp, auto)

text \<open>A quarantined row of a service that did not load older rows names no Work.\<close>

definition occ_ok :: "'x digest_env_scheme \<Rightarrow> AutomationOccurrence \<Rightarrow> bool" where
  "occ_ok e oc \<longleftrightarrow>
     validate_occurrence_shape e oc = Inr () \<and>
     (oc_state oc = OsUncertain \<longrightarrow> oc_work_id oc = None \<and> oc_run_id oc = None)"

text \<open>How an open row may be resolved: its identity stays, it is valid if it was, and it does not become
  pending again.\<close>

definition same_delivery :: "AutomationOccurrence \<Rightarrow> AutomationOccurrence \<Rightarrow> bool" where
  "same_delivery oc oc' \<longleftrightarrow>
     oc_id oc' = oc_id oc \<and> oc_automation_id oc' = oc_automation_id oc \<and>
     oc_revision_id oc' = oc_revision_id oc \<and> oc_trigger oc' = oc_trigger oc \<and>
     oc_payload_digest oc' = oc_payload_digest oc \<and> oc_dedup_digest oc' = oc_dedup_digest oc \<and>
     oc_admitted_at oc' = oc_admitted_at oc \<and> oc_idempotency_key oc' = oc_idempotency_key oc \<and>
     oc_revision oc' = oc_revision oc"

lemma same_delivery_refl [simp]: "same_delivery oc oc"
  by (simp add: same_delivery_def)

lemma same_delivery_trans: "same_delivery a b \<Longrightarrow> same_delivery b c \<Longrightarrow> same_delivery a c"
  by (simp add: same_delivery_def)

lemma identity_ok_same: "same_delivery oc oc' \<Longrightarrow> identity_ok e oc' = identity_ok e oc"
  by (simp add: same_delivery_def identity_ok_def)

definition occ_resolves :: "'x digest_env_scheme \<Rightarrow> AutomationOccurrence \<Rightarrow> AutomationOccurrence \<Rightarrow> bool" where
  "occ_resolves e oc oc' \<longleftrightarrow>
     same_delivery oc oc' \<and> \<not> occ_is_terminal oc \<and> oc_state oc' \<noteq> OsPending \<and>
     (occ_ok e oc \<longrightarrow> occ_ok e oc')"

inductive occ_move ::
  "'x digest_env_scheme \<Rightarrow> AutomationOccurrence list \<Rightarrow> AutomationOccurrence list \<Rightarrow> bool"
  for e :: "'x digest_env_scheme" where
  om_admit: "validate_occurrence_shape e oc = Inr () \<Longrightarrow> oc_state oc = OsPending \<Longrightarrow>
     oc_dedup_digest oc \<notin> oc_dedup_digest ` set ocs \<Longrightarrow> occ_move e ocs (ocs @ [oc])"
| om_resolve: "i < length ocs \<Longrightarrow> occ_resolves e (ocs ! i) oc' \<Longrightarrow> occ_move e ocs (ocs[i := oc'])"

definition occ_moves ::
  "'x digest_env_scheme \<Rightarrow> AutomationOccurrence list \<Rightarrow> AutomationOccurrence list \<Rightarrow> bool" where
  "occ_moves e = (occ_move e)\<^sup>*\<^sup>*"

lemma occ_moves_refl [simp, intro]: "occ_moves e ocs ocs"
  by (simp add: occ_moves_def)

lemma occ_moves_step: "occ_move e a b \<Longrightarrow> occ_moves e b c \<Longrightarrow> occ_moves e a c"
  unfolding occ_moves_def by (rule converse_rtranclp_into_rtranclp)

lemma occ_moves_trans: "occ_moves e a b \<Longrightarrow> occ_moves e b c \<Longrightarrow> occ_moves e a c"
  unfolding occ_moves_def by (rule rtranclp_trans)

lemma occ_moves_one: "occ_move e a b \<Longrightarrow> occ_moves e a b"
  by (rule occ_moves_step) auto

abbreviation occs_evolve :: "'x digest_env_scheme \<Rightarrow> SchedulerService \<Rightarrow> SchedulerService \<Rightarrow> bool" where
  "occs_evolve e s s' \<equiv> occ_moves e (ss_occurrences s) (ss_occurrences s')"

section \<open>Admission appends fresh rows\<close>

lemma find_None_dedup: "find (\<lambda>oc. oc_dedup_digest oc = k) ocs = None \<Longrightarrow> k \<notin> oc_dedup_digest ` set ocs"
  by (auto simp: find_None_iff)

lemma admit_loop_ConsE:
  assumes "admit_loop e now mk len0 (job # jobs) ocs acc = (Inr rows, ocs')"
  obtains (skip) "admit_loop e now mk len0 jobs ocs acc = (Inr rows, ocs')"
  | (again) oc where "oc \<in> set ocs" "admit_loop e now mk len0 jobs ocs (acc @ [oc]) = (Inr rows, ocs')"
  | (fresh) trigger payload key0 key oc where
      "mk job = Some (trigger, payload, key0)" "normalize_idempotency_key key0 ''delivery'' = Inr key"
      "frequency_admits job now"
      "oc = new_occurrence e job trigger (digest_json e payload)
         (dedup_digest_for e (jb_automation_id job) (jb_generation job) trigger key) key now"
      "oc_dedup_digest oc \<notin> oc_dedup_digest ` set ocs" "validate_occurrence_shape e oc = Inr ()"
      "admit_loop e now mk len0 jobs (ocs @ [oc]) (acc @ [oc]) = (Inr rows, ocs')"
proof (cases "mk job")
  case None
  then show ?thesis using assms skip by simp
next
  case (Some t)
  obtain trigger payload key0 where t: "t = (trigger, payload, key0)" by (cases t)
  obtain key where key: "normalize_idempotency_key key0 ''delivery'' = Inr key"
    using assms Some t by (cases "normalize_idempotency_key key0 ''delivery''") auto
  define dedup where "dedup = dedup_digest_for e (jb_automation_id job) (jb_generation job) trigger key"
  define oc where "oc = new_occurrence e job trigger (digest_json e payload) dedup key now"
  show ?thesis
  proof (cases "find (\<lambda>oc. oc_dedup_digest oc = dedup) ocs")
    case (Some existing)
    then have "existing \<in> set ocs" by (auto simp: find_Some_iff in_set_conv_nth)
    moreover have "admit_loop e now mk len0 jobs ocs (acc @ [existing]) = (Inr rows, ocs')"
      using assms Some \<open>mk job = Some t\<close> t key by (auto simp: Let_def dedup_def [symmetric] split: if_splits)
    ultimately show ?thesis by (rule again)
  next
    case None
    show ?thesis
    proof (cases "frequency_admits job now")
      case False
      then show ?thesis
        using assms \<open>mk job = Some t\<close> t key None skip by (auto simp: Let_def dedup_def [symmetric])
    next
      case True
      have "validate_occurrence_shape e oc = Inr ()"
        "admit_loop e now mk len0 jobs (ocs @ [oc]) (acc @ [oc]) = (Inr rows, ocs')"
        using assms \<open>mk job = Some t\<close> t key None True
        by (auto simp: Let_def dedup_def [symmetric] oc_def [symmetric] split: sum.splits)
      moreover have "oc_dedup_digest oc \<notin> oc_dedup_digest ` set ocs"
        using find_None_dedup [OF None] by (simp add: oc_def new_occurrence_def)
      ultimately show ?thesis
        using fresh [of trigger payload key0 key oc] True t key \<open>mk job = Some t\<close>
        by (simp add: oc_def dedup_def)
    qed
  qed
qed

declare admit_loop.simps(2) [simp del]

lemma admit_loop_moves:
  "admit_loop e now mk len0 jobs ocs acc = (Inr rows, ocs') \<Longrightarrow> occ_moves e ocs ocs'"
proof (induction jobs arbitrary: ocs acc)
  case (Cons job jobs)
  from Cons.prems show ?case
  proof (cases rule: admit_loop_ConsE)
    case (fresh trigger payload key0 key oc)
    have "occ_move e ocs (ocs @ [oc])"
      using fresh(4,5,6) by (intro om_admit) (simp_all add: new_occurrence_def)
    then show ?thesis using Cons.IH [OF fresh(7)] by (rule occ_moves_step)
  qed (auto dest: Cons.IH)
qed simp

lemma admit_loop_appends:
  "admit_loop e now mk len0 jobs ocs acc = (Inr rows, ocs') \<Longrightarrow>
   \<exists>news rs. ocs' = ocs @ news \<and> rows = acc @ rs \<and> set news \<subseteq> set rs"
proof (induction jobs arbitrary: ocs acc)
  case (Cons job jobs)
  from Cons.prems show ?case
  proof (cases rule: admit_loop_ConsE)
    case (again oc)
    from Cons.IH [OF again(2)] show ?thesis by auto
  next
    case (fresh trigger payload key0 key oc)
    from Cons.IH [OF fresh(7)] show ?thesis by auto
  qed (auto dest: Cons.IH)
qed simp

lemma admit_selected_transactional_tx [tx_intros]:
  "transactional s (occs_evolve e s) (admit_selected_transactional e selected mk now s d)"
  unfolding admit_selected_transactional_def admit_selected_in_memory_def
  by (auto split: prod.splits sum.splits intro!: tx_intros dest: admit_loop_moves)

lemma admit_one_moves:
  "admit_one_in_memory e job trigger payload key now s = (Inr oc, s') \<Longrightarrow>
   occs_evolve e s s' \<and> ss_jobs s' = ss_jobs s"
  by (auto simp: admit_one_in_memory_def admit_selected_in_memory_def
      split: prod.splits sum.splits if_splits dest: admit_loop_moves)

lemma admit_due_loop_moves:
  assumes "admit_due_loop e now ids s rows changed = (Inr x, s')"
  shows "occs_evolve e s s'"
  using assms
proof (induction ids arbitrary: s rows changed)
  case (Cons i ids)
  show ?case
  proof (cases "lookup (ss_jobs s) i")
    case None
    then show ?thesis using Cons by simp
  next
    case (Some job)
    define at_time where "at_time = (case jb_next_run_at job of None \<Rightarrow> now | Some t \<Rightarrow> t)"
    define skip where "skip \<longleftrightarrow> (case jb_trigger job of TsCron _ \<Rightarrow> True | _ \<Rightarrow> False) \<and>
      sp_misfire_policy (jb_policy job) = MfSkip"
    show ?thesis
    proof (cases skip)
      case True
      then have "admit_due_loop e now ids
          (put_job i (job\<lparr>jb_next_run_at := compute_next_run (jb_trigger job) now None\<rparr>) s) rows True = (Inr x, s')"
        using Cons.prems Some by (simp add: Let_def skip_def)
      from Cons.IH [OF this] show ?thesis by (simp add: put_job_def)
    next
      case False
      then obtain oc s1 rows' where
        one: "admit_one_in_memory e job (OtSchedule at_time) (schedule_payload at_time)
                (schedule_key job at_time) now s = (Inr oc, s1)"
        and rest: "admit_due_loop e now ids s1 rows' changed = (Inr x, s')"
        using Cons.prems Some
        by (auto simp: Let_def skip_def at_time_def [symmetric] split: if_splits prod.splits sum.splits)
      from admit_one_moves [OF one] Cons.IH [OF rest] show ?thesis by (blast intro: occ_moves_trans)
    qed
  qed
qed simp

declare admit_due_loop.simps(2) [simp del]

lemma admit_due_tx [tx_intros]: "transactional s (occs_evolve e s) (admit_due e now s d)"
  unfolding admit_due_def
  by (intro tx_healthy) (auto split: prod.splits sum.splits intro!: tx_intros dest: admit_due_loop_moves)

lemma admit_event_with_key_tx [tx_intros]:
  "transactional s (occs_evolve e s) (admit_event_with_key e kind payload key now s d)"
  unfolding admit_event_with_key_def
  by (intro tx_healthy) (auto simp: Let_def split: sum.splits intro!: tx_intros)

lemma admit_webhook_with_key_tx [tx_intros]:
  "transactional s (occs_evolve e s) (admit_webhook_with_key e path body key now token s d)"
  unfolding admit_webhook_with_key_def
  by (intro tx_healthy) (auto split: sum.splits option.splits intro!: tx_intros)

lemma tx_last_row:
  assumes "\<And>ocs'. occ_moves e (ss_occurrences s) ocs' \<Longrightarrow> P (s\<lparr>ss_occurrences := ocs'\<rparr>)"
  shows "transactional s P
      (case admit_selected_transactional e [job] mk now s d of
         (Inl err, s1, d1) \<Rightarrow> (Inl err, s1, d1)
       | (Inr rows, s1, d1) \<Rightarrow> (if rows = [] then Inl err0 else Inr (last rows), s1, d1))"
proof (cases "admit_loop e now mk (length (ss_occurrences s)) [job] (ss_occurrences s) []")
  case (Pair r ocs')
  show ?thesis
  proof (cases r)
    case (Inr rows)
    from admit_loop_appends [OF Pair [unfolded Inr]] have "rows = [] \<longrightarrow> ocs' = ss_occurrences s" by auto
    then show ?thesis
      using assms [OF admit_loop_moves [OF Pair [unfolded Inr]]]
      by (auto simp: admit_selected_transactional_def admit_selected_in_memory_def Pair Inr sched_commit_def
          transactional_def split: prod.splits sum.splits)
  qed (simp add: admit_selected_transactional_def admit_selected_in_memory_def Pair transactional_def)
qed

lemma admit_manual_with_key_tx [tx_intros]:
  "transactional s (occs_evolve e s) (admit_manual_with_key e i payload key now s d)"
  unfolding admit_manual_with_key_def
  by (intro tx_healthy) (auto split: sum.splits option.splits intro!: tx_refuse tx_last_row)

lemma admit_keyless_tx [tx_intros]:
  "transactional s (occs_evolve e s) (admit_event e kind payload now s d)"
  "transactional s (occs_evolve e s) (admit_webhook e path payload now token s d)"
  "transactional s (occs_evolve e s) (admit_manual e i payload now s d)"
  unfolding admit_event_def admit_webhook_def admit_manual_def
  by (auto split: sum.splits intro!: tx_intros)

section \<open>Resolution changes one open row\<close>

lemma replace_first_find:
  "find P xs = Some x \<Longrightarrow> \<exists>i < length xs. xs ! i = x \<and> P x \<and> replace_first P f xs = xs[i := f x]"
proof (induction xs)
  case (Cons y ys)
  show ?case
  proof (cases "P y")
    case True
    then show ?thesis using Cons.prems by (intro exI [of _ 0]) auto
  next
    case False
    then obtain i where "i < length ys" "ys ! i = x" "P x" "replace_first P f ys = ys[i := f x]"
      using Cons by auto
    then show ?thesis using False by (intro exI [of _ "Suc i"]) auto
  qed
qed simp

lemma put_occurrence_moves:
  assumes "sched_occurrence i s = Some oc" "occ_resolves e oc (f oc)"
  shows "occs_evolve e s (put_occurrence i f s)"
  using replace_first_find [of "\<lambda>oc. oc_id oc = i" "ss_occurrences s" oc f] assms
  by (auto simp: sched_occurrence_def put_occurrence_def intro!: occ_moves_one om_resolve)

lemma resolve_fired:
  assumes "validate_occurrence_shape e (fired_occurrence now r oc) = Inr ()" "\<not> occ_is_terminal oc"
  shows "occ_resolves e oc (fired_occurrence now r oc)"
  using assms by (simp add: occ_resolves_def occ_ok_def same_delivery_def fired_occurrence_def)

lemma resolve_uncertain:
  assumes "str_trim reason \<noteq> []" "\<not> occ_is_terminal oc"
  shows "occ_resolves e oc (oc\<lparr>oc_state := OsUncertain, oc_admission_error := Some reason\<rparr>)"
  using assms identity_ok_same [of oc "oc\<lparr>oc_state := OsUncertain, oc_admission_error := Some reason\<rparr>" e]
  by (cases "oc_state oc")
    (auto simp: occ_resolves_def occ_ok_def same_delivery_def validate_shape_iff validate_occurrence_state_def
      occ_is_terminal_def split: if_splits)

lemma resolve_cancelled:
  assumes "\<not> occ_is_terminal oc"
  shows "occ_resolves e oc (oc\<lparr>oc_state := OsCancelled, oc_admission_error := r\<rparr>)"
  using assms identity_ok_same [of oc "oc\<lparr>oc_state := OsCancelled, oc_admission_error := r\<rparr>" e]
  by (cases "oc_state oc")
    (auto simp: occ_resolves_def occ_ok_def same_delivery_def validate_shape_iff validate_occurrence_state_def
      occ_is_terminal_def split: if_splits)

lemma occs_put_job [simp]: "ss_occurrences (put_job k j s) = ss_occurrences s"
  by (simp add: put_job_def)

lemma mark_fired_tx [tx_intros]:
  "transactional s (occs_evolve e s) (mark_occurrence_fired_with_receipt e i now r s d)"
  unfolding mark_occurrence_fired_with_receipt_def
proof (intro tx_healthy, cases "sched_occurrence i s")
  case (Some oc)
  have moves: "occs_evolve e s (put_job k j (put_occurrence i (\<lambda>_. fired_occurrence now r oc) s))"
    if "validate_occurrence_shape e (fired_occurrence now r oc) = Inr u"
      "oc_state oc \<noteq> OsCancelled" "oc_state oc \<noteq> OsTerminal" for u k j
    using put_occurrence_moves [OF Some, of e "\<lambda>_. fired_occurrence now r oc"] resolve_fired [of e now r oc] that
    by (simp add: occ_is_terminal_def)
  show "transactional s (occs_evolve e s)
     (case sched_occurrence i s of None \<Rightarrow> (Inl (ErrOccurrence i OeUnknown), s, d)
      | Some original \<Rightarrow>
            (case validate_receipt_for original r (expected_work_id original) (expected_run_id original) of
               Inl err \<Rightarrow> (Inl (ErrReceipt err), s, d)
             | Inr _ \<Rightarrow>
                 if oc_state original = OsCancelled then (Inl (ErrOccurrence i OeCancelled), s, d)
                 else if oc_state original = OsTerminal then
                   if oc_admission_receipt original = Some r then (Inr (), s, d)
                   else (Inl (ErrOccurrence i OeAdvanced), s, d)
                 else
                   (case job_id_for_automation (oc_automation_id original) s of
                      None \<Rightarrow> (Inl (ErrOccurrence i OeUnknownAutomation), s, d)
                    | Some job_id \<Rightarrow>
                        (case lookup (ss_jobs s) job_id of
                           None \<Rightarrow> (Inl (ErrUnknownJob job_id), s, d)
                         | Some old_job \<Rightarrow>
                             let next_job = fired_job now (oc_trigger original) old_job;
                                 next_occurrence = fired_occurrence now r original
                             in (case validate_occurrence_shape e next_occurrence of
                                   Inl err \<Rightarrow> (Inl (ErrShape err), s, d)
                                 | Inr _ \<Rightarrow>
                                     sched_commit e s ()
                                       (put_job job_id next_job
                                          (put_occurrence i (\<lambda>_. next_occurrence) s)) d)))))"
    using Some moves by (auto simp: Let_def split: sum.splits option.splits intro!: tx_intros)
qed (simp add: tx_refuse)

lemma mark_uncertain_tx [tx_intros]:
  "transactional s (occs_evolve e s) (mark_occurrence_uncertain e i reason s d)"
  unfolding mark_occurrence_uncertain_def
  by (intro tx_healthy)
    (auto split: option.splits simp: occ_is_terminal_def
      intro!: tx_intros put_occurrence_moves resolve_uncertain)

lemma cancel_tx [tx_intros]: "transactional s (occs_evolve e s) (cancel_occurrence e i reason s d)"
  unfolding cancel_occurrence_def
  by (intro tx_healthy)
    (auto split: option.splits OccurrenceTrigger.splits simp: occ_is_terminal_def Let_def
      intro!: tx_intros put_occurrence_moves resolve_cancelled)

section \<open>Registry operations leave the occurrences alone\<close>

lemma registry_tx [tx_intros]:
  "transactional s (occs_evolve e s)
     (upsert_checked_with_enabled e i name session trigger steps policy enabled now s d)"
  "transactional s (occs_evolve e s) (delete_checked e i s d)"
  "transactional s (occs_evolve e s) (set_enabled e i b now s d)"
  "transactional s (occs_evolve e s) (set_monitor e i m s d)"
  "transactional s (occs_evolve e s) (monitor_evaluate e i obs met s d)"
  "transactional s (occs_evolve e s) (monitor_evaluate_script e i out silent s d)"
  "transactional s (occs_evolve e s) (append_notepad_checked e i line s d)"
  "transactional s (occs_evolve e s) (sched_pause e i s d)"
  "transactional s (occs_evolve e s) (sched_resume e i now s d)"
  "transactional s (occs_evolve e s) (pause_session_checked e session s d)"
  unfolding upsert_checked_with_enabled_def delete_checked_def set_enabled_def set_monitor_def
    monitor_evaluate_def monitor_evaluate_script_def append_notepad_checked_def sched_pause_def
    sched_resume_def pause_session_checked_def
  by (auto simp: Let_def split: sum.splits option.splits intro!: tx_intros tx_edit_job)

section \<open>Requests\<close>

lemma rpc_tx [tx_intros]:
  "transactional s (occs_evolve e s) (rpc_upsert e params now s d)"
  "transactional s (occs_evolve e s) (rpc_mark_fired e params now s d)"
  "transactional s (occs_evolve e s) (rpc_fire_event e params now s d)"
  "transactional s (occs_evolve e s) (rpc_fire_webhook e params now s d)"
  "transactional s (occs_evolve e s) (rpc_run_now e params now s d)"
  "transactional s (occs_evolve e s) (rpc_monitor_config e params s d)"
  unfolding rpc_upsert_def rpc_mark_fired_def rpc_fire_event_def rpc_fire_webhook_def rpc_run_now_def
    rpc_monitor_config_def Let_def
  by (intro tx_intros | auto split: option.splits intro!: tx_intros)+

lemma tx_if: "transactional s P a \<Longrightarrow> transactional s P b \<Longrightarrow> transactional s P (if c then a else b)"
  by simp

lemma occs_plain [simp]:
  "ss_occurrences (set_battery on s) = ss_occurrences s"
  "ss_occurrences (set_webhook_token token s) = ss_occurrences s"
  "ss_occurrences (record_nudge goal ts s) = ss_occurrences s"
  by (simp_all add: set_battery_def set_webhook_token_def record_nudge_def)

lemma handle_inner_tx: "transactional s (occs_evolve e s) (sched_handle_inner e meth params s d)"
  unfolding sched_handle_inner_def Let_def mark_fired_def sum.case
  by (intro tx_if tx_intros) simp_all

lemma handle_tx: "transactional s (occs_evolve e s) (sched_handle e meth params s d)"
  using handle_inner_tx [of s e meth params d] unfolding sched_handle_def
  by (intro tx_healthy) (auto simp: transactional_def split: prod.splits sum.splits)

section \<open>Consequences of the moves\<close>

definition occs_wf :: "'x digest_env_scheme \<Rightarrow> AutomationOccurrence list \<Rightarrow> bool" where
  "occs_wf e ocs \<longleftrightarrow> (\<forall>oc \<in> set ocs. occ_ok e oc) \<and> distinct (map oc_dedup_digest ocs)"

definition occs_stable :: "AutomationOccurrence list \<Rightarrow> AutomationOccurrence list \<Rightarrow> bool" where
  "occs_stable ocs ocs' \<longleftrightarrow>
     length ocs \<le> length ocs' \<and>
     (\<forall>i < length ocs. same_delivery (ocs ! i) (ocs' ! i) \<and>
        (occ_is_terminal (ocs ! i) \<longrightarrow> ocs' ! i = ocs ! i))"

lemma occs_stable_refl: "occs_stable ocs ocs"
  by (simp add: occs_stable_def)

lemma occs_stable_trans: "occs_stable a b \<Longrightarrow> occs_stable b c \<Longrightarrow> occs_stable a c"
  unfolding occs_stable_def by (metis le_trans less_le_trans same_delivery_trans)

lemma occ_move_stable: "occ_move e ocs ocs' \<Longrightarrow> occs_stable ocs ocs'"
  by (induction rule: occ_move.induct) (auto simp: occs_stable_def occ_resolves_def nth_append nth_list_update)

lemma occ_moves_stable: "occ_moves e ocs ocs' \<Longrightarrow> occs_stable ocs ocs'"
  unfolding occ_moves_def
  by (induction rule: rtranclp_induct) (auto intro: occs_stable_refl occs_stable_trans occ_move_stable)

lemma occ_move_wf: "occ_move e ocs ocs' \<Longrightarrow> occs_wf e ocs \<Longrightarrow> occs_wf e ocs'"
proof (induction rule: occ_move.induct)
  case (om_admit oc ocs)
  then show ?case by (auto simp: occs_wf_def occ_ok_def)
next
  case (om_resolve i ocs oc')
  then have "oc_dedup_digest oc' = oc_dedup_digest (ocs ! i)" by (simp add: occ_resolves_def same_delivery_def)
  then have "map oc_dedup_digest (ocs[i := oc']) = map oc_dedup_digest ocs"
    by (simp add: map_update) (metis list_update_id map_update nth_map om_resolve.hyps(1))
  moreover have "\<forall>oc \<in> set (ocs[i := oc']). occ_ok e oc"
    using om_resolve set_update_subset_insert [of ocs i oc'] by (auto simp: occs_wf_def occ_resolves_def)
  ultimately show ?case using om_resolve by (simp add: occs_wf_def)
qed

lemma occ_moves_wf: "occ_moves e ocs ocs' \<Longrightarrow> occs_wf e ocs \<Longrightarrow> occs_wf e ocs'"
  unfolding occ_moves_def by (induction rule: rtranclp_induct) (auto intro: occ_move_wf)

section \<open>Sequences of calls\<close>

datatype SchedOp =
    SoUpsert string string string TriggerSpec "AutomationStep list" "SchedulePolicy option" "bool option" nat
  | SoDelete string
  | SoEnable string bool nat
  | SoMonitor string "MonitorConfig option"
  | SoEvaluate string string bool
  | SoScript string string bool
  | SoNotepad string string
  | SoPause string
  | SoResume string nat
  | SoPauseSession string
  | SoAdmitDue nat
  | SoEvent EventKind jvalue string nat
  | SoWebhook string jvalue string nat "string option"
  | SoManual string jvalue string nat
  | SoFired string nat WorkRunAdmissionReceipt
  | SoUncertain string string
  | SoCancel string string
  | SoRpc string jvalue
  | SoBattery bool
  | SoToken "string option"
  | SoNudge string nat
  | SoIncident string string string nat
  | SoAck string
  | SoEventKeyless EventKind jvalue nat
  | SoWebhookKeyless string jvalue nat "string option"
  | SoManualKeyless string jvalue nat
  | SoUpsertLegacy string string string TriggerSpec "AutomationStep list" "SchedulePolicy option" nat
  | SoDeleteLegacy string
  | SoNotepadLegacy string string
  | SoPauseSessionLegacy string

definition outcome :: "'a sched_result \<Rightarrow> bool \<times> SchedulerService \<times> SchedDisk" where
  "outcome r = (case r of (Inl _, sd) \<Rightarrow> (False, sd) | (Inr _, sd) \<Rightarrow> (True, sd))"

fun sched_call :: "sched_env \<Rightarrow> SchedOp \<Rightarrow> SchedulerService \<times> SchedDisk \<Rightarrow> bool \<times> SchedulerService \<times> SchedDisk" where
  "sched_call e (SoUpsert i n ss t st p en now) (s, d) =
     outcome (upsert_checked_with_enabled e i n ss t st p en now s d)"
| "sched_call e (SoDelete i) (s, d) = outcome (delete_checked e i s d)"
| "sched_call e (SoEnable i b now) (s, d) = outcome (set_enabled e i b now s d)"
| "sched_call e (SoMonitor i m) (s, d) = outcome (set_monitor e i m s d)"
| "sched_call e (SoEvaluate i obs met) (s, d) = outcome (monitor_evaluate e i obs met s d)"
| "sched_call e (SoScript i out silent) (s, d) = outcome (monitor_evaluate_script e i out silent s d)"
| "sched_call e (SoNotepad i line) (s, d) = outcome (append_notepad_checked e i line s d)"
| "sched_call e (SoPause i) (s, d) = outcome (sched_pause e i s d)"
| "sched_call e (SoResume i now) (s, d) = outcome (sched_resume e i now s d)"
| "sched_call e (SoPauseSession session) (s, d) = outcome (pause_session_checked e session s d)"
| "sched_call e (SoAdmitDue now) (s, d) = outcome (admit_due e now s d)"
| "sched_call e (SoEvent kind payload key now) (s, d) = outcome (admit_event_with_key e kind payload key now s d)"
| "sched_call e (SoWebhook path body key now token) (s, d) =
     outcome (admit_webhook_with_key e path body key now token s d)"
| "sched_call e (SoManual i payload key now) (s, d) = outcome (admit_manual_with_key e i payload key now s d)"
| "sched_call e (SoFired i now r) (s, d) = outcome (mark_occurrence_fired_with_receipt e i now r s d)"
| "sched_call e (SoUncertain i reason) (s, d) = outcome (mark_occurrence_uncertain e i reason s d)"
| "sched_call e (SoCancel i reason) (s, d) = outcome (cancel_occurrence e i reason s d)"
| "sched_call e (SoRpc meth params) (s, d) = outcome (sched_handle e meth params s d)"
| "sched_call e (SoBattery on) (s, d) = (True, set_battery on s, d)"
| "sched_call e (SoToken token) (s, d) = (True, set_webhook_token token s, d)"
| "sched_call e (SoNudge goal ts) (s, d) = (True, record_nudge goal ts s, d)"
| "sched_call e (SoIncident job kind detail at_ms) (s, d) = (True, snd (report_incident job kind detail at_ms s), d)"
| "sched_call e (SoAck i) (s, d) = (True, snd (ack_incident i s), d)"
| "sched_call e (SoEventKeyless kind payload now) (s, d) = outcome (admit_event e kind payload now s d)"
| "sched_call e (SoWebhookKeyless path body now token) (s, d) = outcome (admit_webhook e path body now token s d)"
| "sched_call e (SoManualKeyless i payload now) (s, d) = outcome (admit_manual e i payload now s d)"
| "sched_call e (SoUpsertLegacy i n ss t st p now) (s, d) = (True, sched_upsert e i n ss t st p now s d)"
| "sched_call e (SoDeleteLegacy i) (s, d) = (True, snd (sched_delete e i s d))"
| "sched_call e (SoNotepadLegacy i line) (s, d) = (True, snd (append_notepad e i line s d))"
| "sched_call e (SoPauseSessionLegacy session) (s, d) = (True, snd (pause_session e session s d))"

definition sched_step :: "sched_env \<Rightarrow> SchedOp \<Rightarrow> SchedulerService \<times> SchedDisk \<Rightarrow> SchedulerService \<times> SchedDisk" where
  "sched_step e x sd = snd (sched_call e x sd)"

text \<open>The operations that cannot report a refusal poison the service instead: the load error is set, and
  \<open>upsert\<close> leaves a job under an id that had none.\<close>

definition poisoned_by :: "SchedulerService \<Rightarrow> SchedulerService \<Rightarrow> bool" where
  "poisoned_by s s' \<longleftrightarrow>
     ss_load_error s' \<noteq> None \<and> s'\<lparr>ss_load_error := ss_load_error s, ss_jobs := ss_jobs s\<rparr> = s \<and>
     (ss_jobs s' = ss_jobs s \<or>
      (\<exists>i j. lookup (ss_jobs s) i = None \<and> ss_jobs s' = AList.update i j (ss_jobs s)))"

fun checked_form :: "SchedOp \<Rightarrow> SchedOp option" where
  "checked_form (SoUpsertLegacy i n ss t st p now) = Some (SoUpsert i n ss t st p None now)"
| "checked_form (SoDeleteLegacy i) = Some (SoDelete i)"
| "checked_form (SoNotepadLegacy i line) = Some (SoNotepad i line)"
| "checked_form (SoPauseSessionLegacy session) = Some (SoPauseSession session)"
| "checked_form _ = None"

text \<open>The transactional law of a call, for every letter of the alphabet.\<close>

definition call_law :: "SchedulerService \<Rightarrow> (SchedulerService \<Rightarrow> bool) \<Rightarrow> bool \<times> SchedulerService \<times> SchedDisk \<Rightarrow> bool" where
  "call_law s P c = (case c of (ok, s', d') \<Rightarrow> if ok then P s' else s' = s)"

lemma call_law_outcome: "transactional s P r \<Longrightarrow> call_law s P (outcome r)"
  by (auto simp: call_law_def outcome_def transactional_def split: prod.splits sum.splits)

lemma call_law_mono: "call_law s P c \<Longrightarrow> (\<And>s'. P s' \<Longrightarrow> Q s') \<Longrightarrow> call_law s Q c"
  by (auto simp: call_law_def split: prod.splits if_splits)

lemma poisoned_by_error: "poisoned_by s (s\<lparr>ss_load_error := Some err\<rparr>)"
  by (simp add: poisoned_by_def)

text \<open>What a wrapper did, against the outcome of its checked form.\<close>

definition wrapped ::
  "SchedulerService \<Rightarrow> (SchedulerService \<Rightarrow> bool) \<Rightarrow> bool \<times> SchedulerService \<times> SchedDisk \<Rightarrow>
   SchedulerService \<times> SchedDisk \<Rightarrow> bool" where
  "wrapped s P c q \<longleftrightarrow>
     snd q = snd (snd c) \<and> (if fst c then P (fst q) \<and> fst q = fst (snd c) else poisoned_by s (fst q))"

lemma legacy_poisoning:
  assumes "call_law s P (outcome r)"
  shows "wrapped s P (outcome r) (snd (poisoning f r))"
  using assms poisoned_by_error
  by (auto simp: wrapped_def call_law_def outcome_def poisoning_def split: prod.splits sum.splits)

lemma legacy_upsert:
  assumes "call_law s P (outcome (upsert_checked_with_enabled e i n ss t st p None now s d))"
  shows "wrapped s P (outcome (upsert_checked_with_enabled e i n ss t st p None now s d))
    (sched_upsert e i n ss t st p now s d)"
  using assms
  by (auto simp: wrapped_def sched_upsert_def outcome_def call_law_def poisoned_by_def put_job_def Let_def
      split: prod.splits sum.splits)

lemma legacy_call:
  assumes "checked_form x = Some y" "call_law s P (sched_call e y (s, d))"
  shows "wrapped s P (sched_call e y (s, d)) (snd (sched_call e x (s, d)))"
  using assms
  by (cases x)
    (auto simp: sched_delete_def append_notepad_def pause_session_def intro: legacy_poisoning legacy_upsert)

lemma legacy_accepted: "checked_form x = Some y \<Longrightarrow> sched_call e x (s, d) = (False, q) \<Longrightarrow> False"
  by (cases x) auto

text \<open>A law of the checked operations holds of all, up to poisoning.\<close>

lemma call_law_legacy:
  assumes "\<And>y. checked_form y = None \<Longrightarrow> call_law s P (sched_call e y (s, d))"
  shows "call_law s (\<lambda>s'. P s' \<or> poisoned_by s s') (sched_call e x (s, d))"
proof (cases "checked_form x")
  case None
  then show ?thesis using assms [OF None] by (auto elim: call_law_mono)
next
  case (Some y)
  then have "checked_form y = None" by (cases x) auto
  from legacy_call [OF Some assms [OF this]] show ?thesis
    by (auto simp: wrapped_def call_law_def split: prod.splits if_splits dest: legacy_accepted [OF Some])
qed

lemma sched_call_checked:
  "checked_form x = None \<Longrightarrow> call_law s (occs_evolve e s) (sched_call e x (s, d))"
  by (cases x)
    (simp_all add: call_law_outcome tx_intros handle_tx,
     simp_all add: call_law_def report_incident_def ack_incident_def Let_def)

lemma poisoned_occurrences: "poisoned_by s s' \<Longrightarrow> ss_occurrences s' = ss_occurrences s"
  unfolding poisoned_by_def by (elim conjE, drule arg_cong [where f = ss_occurrences]) simp

lemma sched_call_law: "call_law s (occs_evolve e s) (sched_call e x (s, d))"
  using call_law_legacy [where P = "occs_evolve e s", OF sched_call_checked]
  by (rule call_law_mono) (auto dest: poisoned_occurrences)

lemma sched_step_moves: "occs_evolve e (fst sd) (fst (sched_step e x sd))"
  using sched_call_law [of "fst sd" e x "snd sd"]
  by (auto simp: call_law_def sched_step_def split: prod.splits if_splits)

interpretation sched_trace: monotone_system "sched_step e" "\<lambda>_ _. True" "\<lambda>a b. occs_evolve e (fst a) (fst b)"
  for e
  by unfold_locales (auto intro: occ_moves_trans sched_step_moves)

interpretation sched_inv: invariant_system "sched_step e" "\<lambda>_ _. True" "\<lambda>sd. occs_wf e (ss_occurrences (fst sd))"
  for e
  by unfold_locales (blast intro: occ_moves_wf sched_step_moves)

lemma run_moves: "occs_evolve e (fst sd) (fst (run (sched_step e) xs sd))"
  by (rule sched_trace.run_le) (rule admitted_True)

lemma run_occs_wf: "occs_wf e (ss_occurrences (fst sd)) \<Longrightarrow> occs_wf e (ss_occurrences (fst (run (sched_step e) xs sd)))"
  by (rule sched_inv.run_inv [OF _ admitted_True])

end
