(* ===== verification/Sched_Jobs.thy ===== *)
theory Sched_Jobs
  imports Sched_Laws
begin

text \<open>
  The registry's invariant: a job is stored under its own id with its trusted automation id, a valid
  definition, the content-addressed id of its current revision and a generation that its counter has
  reached. Every call keeps it unless it poisons the service, which then never writes, so what the service writes is what \<open>install_loaded\<close> accepts.
\<close>

section \<open>Loadable jobs\<close>

definition job_loadable :: "'x digest_env_scheme \<Rightarrow> Job \<Rightarrow> bool" where
  "job_loadable e j \<longleftrightarrow>
     jb_automation_id j = trusted_automation_id e (jb_id j) \<and>
     validate_job_definition j = Inr () \<and> jb_revision_id j = revision_id_for e j (jb_revision j)"

definition job_at :: "'x digest_env_scheme \<Rightarrow> nat strmap \<Rightarrow> string \<Rightarrow> Job \<Rightarrow> bool" where
  "job_at e counters k j \<longleftrightarrow>
     jb_id j = k \<and> job_loadable e j \<and> (\<exists>c. lookup counters k = Some c \<and> jb_generation j \<le> c)"

definition jobs_ok :: "'x digest_env_scheme \<Rightarrow> SchedulerService \<Rightarrow> bool" where
  "jobs_ok e s \<longleftrightarrow>
     wf_map (ss_jobs s) \<and> (\<forall>k j. lookup (ss_jobs s) k = Some j \<longrightarrow> job_at e (ss_generation_counters s) k j)"

text \<open>A change of a job that leaves its definition alone.\<close>

definition same_definition :: "Job \<Rightarrow> Job \<Rightarrow> bool" where
  "same_definition j j' \<longleftrightarrow>
     jb_id j' = jb_id j \<and> jb_generation j' = jb_generation j \<and> revision_snapshot j' = revision_snapshot j"

lemma same_definition_fields:
  "same_definition j j' \<Longrightarrow>
     jb_automation_id j' = jb_automation_id j \<and> jb_revision j' = jb_revision j \<and>
     jb_revision_id j' = jb_revision_id j \<and> jb_name j' = jb_name j \<and> jb_session_id j' = jb_session_id j \<and>
     jb_trigger j' = jb_trigger j \<and> jb_steps j' = jb_steps j \<and> jb_policy j' = jb_policy j"
  by (simp add: same_definition_def revision_snapshot_def)

lemma validate_same: "same_definition j j' \<Longrightarrow> validate_job_definition j' = validate_job_definition j"
  using same_definition_fields [of j j']
  unfolding validate_job_definition_def same_definition_def Let_def by (simp only:)

lemma job_at_same: "same_definition j j' \<Longrightarrow> job_at e m k j \<Longrightarrow> job_at e m k j'"
  using same_definition_fields [of j j'] validate_same [of j j']
  by (simp add: job_at_def job_loadable_def same_definition_def revision_id_for_def)

lemma jobs_ok_put:
  assumes "jobs_ok e s" "job_at e (ss_generation_counters s) k j"
  shows "jobs_ok e (put_job k j s)"
  using assms by (auto simp: jobs_ok_def put_job_def)

lemma jobs_ok_put_same:
  assumes "jobs_ok e s" "lookup (ss_jobs s) k = Some j" "same_definition j j'"
  shows "jobs_ok e (put_job k j' s)"
  by (rule jobs_ok_put) (use assms in \<open>auto simp: jobs_ok_def intro: job_at_same\<close>)

abbreviation jobs_keep :: "'x digest_env_scheme \<Rightarrow> SchedulerService \<Rightarrow> SchedulerService \<Rightarrow> bool" where
  "jobs_keep e s s' \<equiv> jobs_ok e s \<longrightarrow> jobs_ok e s'"

lemma jobs_ok_cong:
  "ss_jobs s' = ss_jobs s \<Longrightarrow> ss_generation_counters s' = ss_generation_counters s \<Longrightarrow> jobs_ok e s' = jobs_ok e s"
  by (simp add: jobs_ok_def)

lemma jobs_ok_occurrences [simp]: "jobs_ok e (s\<lparr>ss_occurrences := ocs\<rparr>) = jobs_ok e s"
  by (rule jobs_ok_cong) simp_all

lemma jobs_ok_put_occurrence [simp]: "jobs_ok e (put_occurrence i f s) = jobs_ok e s"
  by (simp add: put_occurrence_def)

section \<open>Edits\<close>

lemma jx_edit_job:
  assumes "\<And>job. same_definition job (fst (f job))"
  shows "transactional s (jobs_keep e s) (edit_job env i f s d)"
  by (rule tx_edit_job) (auto intro: jobs_ok_put_same assms)

lemma jx_edits:
  "transactional s (jobs_keep e s) (set_enabled env i b now s d)"
  "transactional s (jobs_keep e s) (set_monitor env i m s d)"
  "transactional s (jobs_keep e s) (monitor_evaluate env i obs met s d)"
  "transactional s (jobs_keep e s) (monitor_evaluate_script env i out silent s d)"
  "transactional s (jobs_keep e s) (sched_pause env i s d)"
  "transactional s (jobs_keep e s) (sched_resume env i now s d)"
  unfolding set_enabled_def set_monitor_def monitor_evaluate_def monitor_evaluate_script_def sched_pause_def
    sched_resume_def Let_def
  by (rule jx_edit_job, simp add: same_definition_def revision_snapshot_def)+

lemma jx_notepad: "transactional s (jobs_keep e s) (append_notepad_checked env i line s d)"
  unfolding append_notepad_checked_def Let_def
  by (intro tx_healthy)
    (auto split: option.splits intro!: tx_intros jobs_ok_put_same simp: same_definition_def revision_snapshot_def)

lemma lookup_map_values: "lookup (map (\<lambda>(k, v). (k, f v)) m) k = map_option f (lookup m k)"
  by (induction m) auto

lemma wf_map_values: "wf_map (map (\<lambda>(k, v). (k, f v)) m) = wf_map m"
  by (simp add: wf_map_def o_def split_def)

lemma jx_pause_session: "transactional s (jobs_keep e s) (pause_session_checked env session s d)"
proof -
  define f :: "Job \<Rightarrow> Job" where "f job = (if jb_session_id job = session \<and> \<not> jb_paused job then job\<lparr>jb_paused := True\<rparr> else job)" for job
  have "same_definition job (f job)" for job
    by (simp add: f_def same_definition_def revision_snapshot_def)
  then have "jobs_keep e s (s\<lparr>ss_jobs := map (\<lambda>(k, job). (k, f job)) (ss_jobs s)\<rparr>)"
    by (auto simp: jobs_ok_def lookup_map_values wf_map_values intro: job_at_same)
  then show ?thesis
    unfolding pause_session_checked_def Let_def f_def
    by (intro tx_healthy) (auto intro!: tx_intros)
qed

section \<open>Definition writes\<close>

lemma validate_definition_fields:
  "validate_job_definition j = Inr u \<Longrightarrow> jb_generation j \<noteq> 0 \<and> jb_revision j \<noteq> 0 \<and> str_trim (jb_id j) \<noteq> []"
  by (auto simp: validate_job_definition_def Let_def split: if_splits)

lemma revision_id_for_self: "revision_id_for e (j\<lparr>jb_revision_id := x\<rparr>) n = revision_id_for e j n"
  by (simp add: revision_id_for_def rev_automation_def revision_snapshot_def Let_def)

lemma upsert_stage_ids [simp]:
  "jb_id (upsert_fields n ss t st p en c) = jb_id c" "jb_id (upsert_version e ex c) = jb_id c"
  "jb_id (upsert_schedule ex now c) = jb_id c"
  "jb_automation_id (upsert_fields n ss t st p en c) = jb_automation_id c"
  "jb_automation_id (upsert_version e ex c) = jb_automation_id c"
  "jb_automation_id (upsert_schedule ex now c) = jb_automation_id c"
  by (simp_all add: upsert_fields_def upsert_version_def upsert_schedule_def Let_def split: option.splits)

lemma upsert_candidate_id:
  assumes "jobs_ok e s"
  shows "jb_id (upsert_candidate e i n ss t st p en now s) = i"
    "jb_automation_id (upsert_candidate e i n ss t st p en now s) = trusted_automation_id e i"
  using assms
  by (auto simp: upsert_candidate_def Let_def upsert_base_def jobs_ok_def job_at_def job_loadable_def
      job_new_with_generation_def split: option.splits)

lemma upsert_candidate_revision:
  "jb_revision_id (upsert_candidate e i n ss t st p en now s) =
   revision_id_for e (upsert_candidate e i n ss t st p en now s)
     (jb_revision (upsert_candidate e i n ss t st p en now s))"
  by (simp add: upsert_candidate_def Let_def revision_id_for_self)

lemma lookup_bump: "lookup (bump_counter k g m) k' =
    (if k' = k then Some (case lookup m k of Some c \<Rightarrow> max c g | None \<Rightarrow> g) else lookup m k')"
  by (simp add: bump_counter_def)

lemma job_at_bump: "job_at e m k j \<Longrightarrow> job_at e (bump_counter k' g m) k j"
  by (auto simp: job_at_def lookup_bump)

lemma jx_upsert:
  "transactional s (jobs_keep e s) (upsert_checked_with_enabled (e::sched_env) i n ss t st p en now s d)"
proof -
  define c where "c = upsert_candidate e i n ss t st p en now s"
  have "jobs_ok e (put_job i c s\<lparr>ss_generation_counters := bump_counter i (jb_generation c) (ss_generation_counters s)\<rparr>)"
    if ok: "jobs_ok e s" and v: "validate_job_definition c = Inr ()"
  proof -
    have "job_at e (bump_counter i (jb_generation c) (ss_generation_counters s)) i c"
      using upsert_candidate_id [OF ok] upsert_candidate_revision [of e i n ss t st p en now s] v
      by (auto simp: job_at_def job_loadable_def c_def lookup_bump split: option.splits)
    then show ?thesis
      using ok by (auto simp: jobs_ok_def put_job_def intro: job_at_bump)
  qed
  then show ?thesis
    unfolding upsert_checked_with_enabled_def Let_def c_def [symmetric]
    by (intro tx_healthy) (auto split: sum.splits intro!: tx_intros simp: put_job_def)
qed

lemma jx_delete: "transactional s (jobs_keep e s) (delete_checked env i s d)"
  unfolding delete_checked_def
  by (intro tx_healthy) (auto split: option.splits if_splits intro!: tx_intros simp: jobs_ok_def)

section \<open>Admission and resolution\<close>

lemma jx_admit_selected: "transactional s (jobs_keep e s) (admit_selected_transactional env selected mk now s d)"
  unfolding admit_selected_transactional_def admit_selected_in_memory_def
  by (auto split: prod.splits sum.splits intro!: tx_intros)

lemma jobs_ok_admit_one:
  "admit_one_in_memory env job trigger payload key now s = (Inr oc, s') \<Longrightarrow> jobs_ok e s' = jobs_ok e s"
  by (auto simp: admit_one_in_memory_def admit_selected_in_memory_def split: prod.splits sum.splits if_splits)

lemma jobs_ok_admit_due:
  assumes "admit_due_loop env now ids s rows changed = (Inr x, s')" "jobs_ok e s"
  shows "jobs_ok e s'"
  using assms
proof (induction ids arbitrary: s rows changed)
  case (Cons i ids)
  show ?case
  proof (cases "lookup (ss_jobs s) i")
    case (Some job)
    have "jobs_ok e (put_job i (job\<lparr>jb_next_run_at := t\<rparr>) s)" for t
      using Cons.prems(2) Some by (rule jobs_ok_put_same) (simp add: same_definition_def revision_snapshot_def)
    then show ?thesis
      using Cons.prems Some
      by (auto simp: admit_due_loop.simps(2) Let_def jobs_ok_admit_one split: if_splits prod.splits sum.splits
          dest!: Cons.IH)
  qed (use Cons in \<open>simp add: admit_due_loop.simps(2)\<close>)
qed simp

lemma jx_admissions:
  "transactional s (jobs_keep e s) (admit_due env now s d)"
  "transactional s (jobs_keep e s) (admit_event_with_key env kind payload key now s d)"
  "transactional s (jobs_keep e s) (admit_webhook_with_key env path payload key now token s d)"
  unfolding admit_due_def admit_event_with_key_def admit_webhook_with_key_def Let_def
  by (rule tx_healthy, (auto split: prod.splits sum.splits option.splits
        intro!: tx_intros jx_admit_selected dest: jobs_ok_admit_due)[])+

lemma jx_manual: "transactional s (jobs_keep e s) (admit_manual_with_key env i payload key now s d)"
  unfolding admit_manual_with_key_def
  by (intro tx_healthy) (auto split: sum.splits option.splits intro!: tx_refuse tx_last_row)

lemma jx_keyless:
  "transactional s (jobs_keep e s) (admit_event env kind payload now s d)"
  "transactional s (jobs_keep e s) (admit_webhook env path payload now token s d)"
  "transactional s (jobs_keep e s) (admit_manual env i payload now s d)"
  unfolding admit_event_def admit_webhook_def admit_manual_def
  by (auto split: sum.splits intro!: tx_refuse jx_admissions jx_manual)

lemma same_definition_fired: "same_definition j (fired_job now t j)"
  by (simp add: fired_job_def same_definition_def revision_snapshot_def Let_def split: OccurrenceTrigger.splits)

lemma jx_mark_fired: "transactional s (jobs_keep e s) (mark_occurrence_fired_with_receipt env i now r s d)"
proof -
  have "jobs_keep e s (put_job k (fired_job now t j) (put_occurrence i f s))" if "lookup (ss_jobs s) k = Some j" for k t j f
    using that jobs_ok_put_same [of e "put_occurrence i f s" k j "fired_job now t j"] same_definition_fired
    by (simp add: put_occurrence_def)
  then show ?thesis
    unfolding mark_occurrence_fired_with_receipt_def Let_def
    by (intro tx_healthy) (auto split: sum.splits option.splits intro!: tx_intros)
qed

lemma jx_uncertain: "transactional s (jobs_keep e s) (mark_occurrence_uncertain env i reason s d)"
  unfolding mark_occurrence_uncertain_def
  by (intro tx_healthy) (auto split: option.splits intro!: tx_intros)

lemma jobs_ok_replace_first:
  assumes "\<And>k j. f (k, j) = (k, g j) \<and> same_definition j (g j)" "jobs_ok e s"
  shows "jobs_ok e (s\<lparr>ss_jobs := replace_first P f (ss_jobs s)\<rparr>)"
proof -
  have keys: "map fst (replace_first P f m) = map fst m" for m
    by (induction m) (auto simp: assms(1))
  have "\<exists>j0. lookup m k = Some j0 \<and> (j = j0 \<or> same_definition j0 j)" if "lookup (replace_first P f m) k = Some j" for m k j
    using that by (induction m) (auto simp: assms(1) split: if_splits)
  note look = this
  show ?thesis
    unfolding jobs_ok_def
  proof (intro conjI allI impI)
    show "wf_map (ss_jobs (s\<lparr>ss_jobs := replace_first P f (ss_jobs s)\<rparr>))"
      using assms(2) by (simp add: jobs_ok_def wf_map_def keys)
  next
    fix k j
    assume "lookup (ss_jobs (s\<lparr>ss_jobs := replace_first P f (ss_jobs s)\<rparr>)) k = Some j"
    then obtain j0 where "lookup (ss_jobs s) k = Some j0" "j = j0 \<or> same_definition j0 j"
      using look [of "ss_jobs s" k j] by auto
    then show "job_at e (ss_generation_counters (s\<lparr>ss_jobs := replace_first P f (ss_jobs s)\<rparr>)) k j"
      using assms(2) by (auto simp: jobs_ok_def intro: job_at_same)
  qed
qed

lemma jx_cancel: "transactional s (jobs_keep e s) (cancel_occurrence env i reason s d)"
proof -
  have "jobs_keep e s ((put_occurrence i f s)\<lparr>ss_jobs := replace_first P
      (\<lambda>(k, job). (k, job\<lparr>jb_next_run_at := compute_next_run (jb_trigger job) t None\<rparr>)) (ss_jobs (put_occurrence i f s))\<rparr>)"
    for f P t
    by (intro impI jobs_ok_replace_first
        [where g = "\<lambda>job. job\<lparr>jb_next_run_at := compute_next_run (jb_trigger job) t None\<rparr>"])
      (simp_all add: same_definition_def revision_snapshot_def)
  then show ?thesis
    unfolding cancel_occurrence_def Let_def
    by (intro tx_healthy) (auto split: option.splits OccurrenceTrigger.splits intro!: tx_intros)
qed

section \<open>Requests and sequences of calls\<close>

lemmas jx_calls = jx_edits jx_notepad jx_pause_session jx_upsert jx_delete jx_admissions jx_manual jx_keyless
  jx_mark_fired jx_uncertain jx_cancel

lemma jobs_ok_plain [simp]:
  "jobs_ok e (set_battery on s) = jobs_ok e s" "jobs_ok e (set_webhook_token token s) = jobs_ok e s"
  "jobs_ok e (record_nudge goal ts s) = jobs_ok e s"
  "jobs_ok e (snd (report_incident job kind detail at_ms s)) = jobs_ok e s"
  "jobs_ok e (snd (ack_incident i s)) = jobs_ok e s"
  by (simp_all add: jobs_ok_def set_battery_def set_webhook_token_def record_nudge_def report_incident_def
      ack_incident_def Let_def)

lemma jx_rpc:
  "transactional s (jobs_keep e s) (rpc_upsert e params now s d)"
  "transactional s (jobs_keep e s) (rpc_mark_fired e params now s d)"
  "transactional s (jobs_keep e s) (rpc_fire_event e params now s d)"
  "transactional s (jobs_keep e s) (rpc_fire_webhook e params now s d)"
  "transactional s (jobs_keep e s) (rpc_run_now e params now s d)"
  "transactional s (jobs_keep e s) (rpc_monitor_config e params s d)"
  unfolding rpc_upsert_def rpc_mark_fired_def rpc_fire_event_def rpc_fire_webhook_def rpc_run_now_def
    rpc_monitor_config_def Let_def
  by (intro tx_with_str tx_reply jx_calls | auto split: option.splits intro!: tx_refuse tx_reply jx_calls)+

lemma jx_handle: "transactional s (jobs_keep e s) (sched_handle e meth params s d)"
proof -
  have "transactional s (jobs_keep e s) (sched_handle_inner e meth params s d)"
    unfolding sched_handle_inner_def Let_def mark_fired_def sum.case
    by (intro tx_if tx_with_str tx_reply tx_refuse tx_return jx_calls jx_rpc) simp_all
  then show ?thesis
    unfolding sched_handle_def
    by (intro tx_healthy) (auto simp: transactional_def split: prod.splits sum.splits)
qed

lemma sched_call_jobs: "call_law s (\<lambda>s'. jobs_keep e s s' \<or> poisoned_by s s') (sched_call e x (s, d))"
proof (rule call_law_legacy)
  show "call_law s (jobs_keep e s) (sched_call e y (s, d))" if "checked_form y = None" for y
    using that by (cases y) (simp_all add: call_law_outcome jx_calls jx_handle, simp_all add: call_law_def)
qed

lemma sched_step_jobs: "jobs_keep e (fst sd) (fst (sched_step e x sd)) \<or> poisoned_by (fst sd) (fst (sched_step e x sd))"
  using sched_call_jobs [of "fst sd" e x "snd sd"]
  by (auto simp: call_law_def sched_step_def split: prod.splits if_splits)

end
