(* ===== verification/Sched_Reopen.thy ===== *)
theory Sched_Reopen
  imports Sched_Jobs
begin

text \<open>
  Reading back a written store: the retired fields are absent from what the service writes, the rows it
  holds pass the normalization and the validation of \<open>install_loaded\<close> unchanged, and the loaded service has
  the written jobs, occurrences and counters.
\<close>

section \<open>The written document\<close>

lemma update_same: "lookup m k = Some v \<Longrightarrow> AList.update k v m = m"
  by (induction m) (auto split: if_splits)

lemma update_fresh: "k \<notin> fst ` set m \<Longrightarrow> AList.update k v m = m @ [(k, v)]"
  by (induction m) auto

lemma drop_job_json: "drop_job_fields (job_json j) = job_json j"
  by (simp add: job_json_def retired_job_fields_def)

lemma drop_store_json: "drop_retired_execution_fields (store_json st) = store_json st"
  by (simp add: store_json_def drop_job_json o_def)

section \<open>Rows pass unchanged\<close>

lemma normalize_valid:
  assumes "validate_occurrence_shape e oc = Inr ()"
  shows "normalize_loaded_occurrence e oc = Inr oc"
proof -
  have i: "identity_ok e oc" and st: "validate_occurrence_state oc = Inr ()"
    using assms by (simp_all add: validate_shape_iff)
  have r: "normalize_revision e oc = Inr oc"
    using i by (auto simp: identity_ok_def normalize_revision_def)
  have s: "normalize_state True oc = oc"
    using st by (cases oc; cases "oc_state oc")
      (auto simp: normalize_state_def validate_occurrence_state_def split: if_splits option.splits)
  show ?thesis using i by (simp add: normalize_loaded_occurrence_def r s identity_ok_def)
qed

lemma install_occurrences:
  assumes "\<forall>oc \<in> set ocs. validate_occurrence_shape e oc = Inr ()"
    and "distinct (map oc_id (ss_occurrences s @ ocs))"
    and "distinct (map oc_dedup_digest (ss_occurrences s @ ocs))"
  shows "install_all (install_occurrence e) ocs s = Inr (s\<lparr>ss_occurrences := ss_occurrences s @ ocs\<rparr>)"
  using assms
proof (induction ocs arbitrary: s)
  case (Cons oc ocs)
  have "install_occurrence e oc s = Inr (s\<lparr>ss_occurrences := ss_occurrences s @ [oc]\<rparr>)"
  proof -
    have "\<forall>x \<in> set (ss_occurrences s). oc_id x \<noteq> oc_id oc \<and> oc_dedup_digest x \<noteq> oc_dedup_digest oc"
      using Cons.prems(2,3) by (auto simp: image_iff)
    then show ?thesis using Cons.prems(1) by (simp add: install_occurrence_def normalize_valid)
  qed
  then show ?case
    using Cons.IH [of "s\<lparr>ss_occurrences := ss_occurrences s @ [oc]\<rparr>"] Cons.prems by simp
qed simp

lemma install_job_loadable:
  assumes "job_at e (ss_generation_counters s) k j" "lookup (ss_jobs s) (jb_id j) = None"
    and "jb_automation_id j \<notin> jb_automation_id ` set (map snd (ss_jobs s))"
  shows "install_job e j s = Inr (put_job (jb_id j) j s)"
proof -
  obtain c where l: "job_loadable e j" and c: "lookup (ss_generation_counters s) (jb_id j) = Some c" "jb_generation j \<le> c"
    using assms(1) by (auto simp: job_at_def)
  have v: "validate_job_definition j = Inr ()" using l by (simp add: job_loadable_def)
  have nz: "jb_generation j \<noteq> 0" "jb_revision j \<noteq> 0" "str_trim (jb_id j) \<noteq> []"
    using validate_definition_fields [OF v] by auto
  have a: "(if str_trim (jb_automation_id j) = [] then j\<lparr>jb_automation_id := trusted_automation_id e (jb_id j)\<rparr> else j) = j"
    using l by (cases j) (simp add: job_loadable_def)
  have b: "bump_counter (jb_id j) (jb_generation j) (ss_generation_counters s) = ss_generation_counters s"
    using c by (simp add: bump_counter_def update_same)
  have r: "j\<lparr>jb_revision_id := revision_id_for e j (jb_revision j)\<rparr> = j"
    using l by (cases j) (simp add: job_loadable_def)
  have s: "s\<lparr>ss_generation_counters := ss_generation_counters s\<rparr> = s" by (cases s) simp
  have u: "\<not> (\<exists>x \<in> set (map snd (ss_jobs s)). jb_automation_id x = jb_automation_id j)"
    using assms(3) by (metis imageI)
  show ?thesis
    unfolding install_job_def Let_def a
    using l v nz assms(2) u by (simp add: b r s job_loadable_def)
qed

lemma install_jobs:
  assumes "\<forall>j \<in> set js. job_at e (ss_generation_counters s) (jb_id j) j"
    and "ss_jobs s = map (\<lambda>j. (jb_id j, j)) js0"
    and "distinct (map jb_id (js0 @ js))" "distinct (map jb_automation_id (js0 @ js))"
  shows "install_all (install_job e) js s = Inr (s\<lparr>ss_jobs := map (\<lambda>j. (jb_id j, j)) (js0 @ js)\<rparr>)"
  using assms
proof (induction js arbitrary: s js0)
  case Nil
  then show ?case by (cases s) simp
next
  case (Cons j js)
  have keys: "jb_id j \<notin> fst ` set (ss_jobs s)" using Cons.prems by auto
  then have "lookup (ss_jobs s) (jb_id j) = None" by (simp add: map_of_eq_None_iff)
  moreover have "jb_automation_id j \<notin> jb_automation_id ` set (map snd (ss_jobs s))" using Cons.prems by auto
  ultimately have one: "install_job e j s = Inr (s\<lparr>ss_jobs := map (\<lambda>j. (jb_id j, j)) (js0 @ [j])\<rparr>)"
    using Cons.prems keys
    by (subst install_job_loadable [of e s "jb_id j"]) (auto simp: put_job_def update_fresh)
  show ?case
    using Cons.IH [of "s\<lparr>ss_jobs := map (\<lambda>j. (jb_id j, j)) (js0 @ [j])\<rparr>" "js0 @ [j]"] Cons.prems one by simp
qed

section \<open>The loaded service\<close>

lemma persisted_fields [simp]:
  "ps_version (persisted s) = scheduler_store_version"
  "ps_generation_counters (persisted s) = ss_generation_counters s"
  by (simp_all add: persisted_def)

definition reopened :: "string \<Rightarrow> SchedulerService \<Rightarrow> SchedulerService" where
  "reopened path s =
     scheduler_new\<lparr>ss_persist_path := Some path,
       ss_jobs := map (\<lambda>j. (jb_id j, j)) (ps_jobs (persisted s)),
       ss_occurrences := ps_occurrences (persisted s),
       ss_generation_counters := ss_generation_counters s\<rparr>"

lemma distinct_sort_map: "distinct (map f (sort_key g xs)) = distinct (map f xs)"
  by (metis mset_map mset_sort mset_eq_imp_distinct_iff)

lemma load_persisted:
  assumes "jobs_ok e s" "\<forall>oc \<in> set (ss_occurrences s). validate_occurrence_shape e oc = Inr ()"
    and "distinct (map oc_dedup_digest (ss_occurrences s))" "distinct (map oc_id (ss_occurrences s))"
    and "distinct (map jb_automation_id (map snd (ss_jobs s)))"
    and "dk_file d = Document (store_json (persisted s))"
    and "se_parse_store e (store_json (persisted s)) = Some (persisted s)"
  shows "load_or_new_checked e path d = Inr (reopened path s)"
proof -
  let ?s0 = "scheduler_new\<lparr>ss_persist_path := Some path, ss_generation_counters := ss_generation_counters s\<rparr>"
  have ids: "map jb_id (map snd (ss_jobs s)) = map fst (ss_jobs s)"
    using assms(1) by (auto simp: jobs_ok_def job_at_def wf_map_def)
  have dist: "distinct (map jb_id (map snd (ss_jobs s)))"
    unfolding ids using assms(1) by (simp add: jobs_ok_def wf_map_def)
  have jobs: "install_all (install_job e) (ps_jobs (persisted s)) ?s0 =
      Inr (?s0\<lparr>ss_jobs := map (\<lambda>j. (jb_id j, j)) ([] @ ps_jobs (persisted s))\<rparr>)"
  proof (rule install_jobs)
    show "\<forall>j \<in> set (ps_jobs (persisted s)). job_at e (ss_generation_counters ?s0) (jb_id j) j"
      using assms(1) by (fastforce simp: persisted_def jobs_ok_def job_at_def wf_map_def)
    show "distinct (map jb_id ([] @ ps_jobs (persisted s)))"
      using dist by (simp add: persisted_def distinct_sort_map)
    show "distinct (map jb_automation_id ([] @ ps_jobs (persisted s)))"
      using assms(5) by (simp add: persisted_def distinct_sort_map)
  qed (simp add: scheduler_new_def)
  have occs: "install_all (install_occurrence e) (ps_occurrences (persisted s)) t =
      Inr (t\<lparr>ss_occurrences := ps_occurrences (persisted s)\<rparr>)" if "ss_occurrences t = []" for t
    using install_occurrences [of "ps_occurrences (persisted s)" e t] assms(2-4) that
    by (simp add: persisted_def distinct_sort_map)
  obtain m where m: "store_json (persisted s) = JvObj m" by (simp add: store_json_def)
  have raw: "drop_retired_execution_fields (store_json (persisted s)) = JvObj m"
    unfolding drop_store_json by (rule m)
  show ?thesis
    unfolding load_or_new_checked_def Let_def assms(6) StoreFile.case raw jvalue.case
    using assms(7) m jobs occs
    by (simp add: install_loaded_def reopened_def scheduler_new_def)
qed

lemma reopened_contents:
  assumes "jobs_ok e s"
  shows "lookup (ss_jobs (reopened path s)) = lookup (ss_jobs s)"
    "mset (ss_occurrences (reopened path s)) = mset (ss_occurrences s)"
    "ss_generation_counters (reopened path s) = ss_generation_counters s"
proof -
  have wf: "wf_map (ss_jobs s)" using assms by (simp add: jobs_ok_def)
  have key: "jb_id j = k" if "(k, j) \<in> set (ss_jobs s)" for k j
    using assms that wf by (fastforce simp: jobs_ok_def job_at_def wf_map_def)
  then have "map jb_id (map snd (ss_jobs s)) = map fst (ss_jobs s)" by auto
  then have dist: "distinct (map jb_id (map snd (ss_jobs s)))" using wf by (simp only: wf_map_def)
  have "set (map (\<lambda>j. (jb_id j, j)) (sort_key jb_id (map snd (ss_jobs s)))) = set (ss_jobs s)"
    using key by force
  moreover have "distinct (map fst (map (\<lambda>j. (jb_id j, j)) (sort_key jb_id (map snd (ss_jobs s)))))"
    using dist by (simp add: o_def distinct_sort_map)
  ultimately show "lookup (ss_jobs (reopened path s)) = lookup (ss_jobs s)"
    using wf by (simp add: reopened_def persisted_def wf_map_def map_of_inject_set)
qed (simp_all add: reopened_def persisted_def)

end
