(* ===== verification/Sched_Identity.thy ===== *)
theory Sched_Identity
  imports Sched_Jobs
begin

text \<open>
  Digests and ids: rendered digests have the shape the validations ask for, a content-addressed revision id
  parses back to its generation, revision and digest, the snapshot envelope is stripped from a trusted
  automation id, and a validated occurrence compiles to Work with its own identity.
\<close>

section \<open>Digests\<close>

definition is_hex :: "char \<Rightarrow> bool" where
  "is_hex c \<longleftrightarrow> is_digit c \<or> CHR ''a'' \<le> c \<and> c \<le> CHR ''f''"

lemma is_hex_digit: "d < 16 \<Longrightarrow> is_hex (hex_digit d)"
  by (simp add: is_hex_def is_digit_def less_eq_char_def of_char_hex_digit)

lemma hex_encode_hex: "c \<in> set (hex_encode s) \<Longrightarrow> is_hex c"
  by (auto simp: hex_encode_def hex_byte_def less_mult_imp_div_less intro!: is_hex_digit)

lemma length_hex_encode [simp]: "length (hex_encode s) = 2 * length s"
  by (induction s) (simp_all add: hex_encode_def hex_byte_def)

lemma digest_shape: "length (de_sha e b) = 32 \<Longrightarrow> is_sha256_digest (digest_bytes e b)"
  using hex_encode_hex [of _ "de_sha e b"]
  by (simp add: is_sha256_digest_def digest_bytes_def list_all_iff is_hex_def)

lemma hex_not_space: "is_hex c \<Longrightarrow> \<not> is_space c"
  by (auto simp: is_hex_def is_digit_def is_space_def less_eq_char_def)

lemma hex_not_colon: "is_hex c \<Longrightarrow> c \<noteq> CHR '':''"
  by (auto simp: is_hex_def is_digit_def less_eq_char_def)

lemma digest_hex: "c \<in> set (digest_bytes e b) \<Longrightarrow> is_hex c"
  by (simp add: digest_bytes_def hex_encode_hex)

lemma show_nat_hex: "c \<in> set (show_nat n) \<Longrightarrow> is_hex c"
  using show_nat_digits by (auto simp: is_hex_def)

section \<open>Revision ids\<close>

lemma split_on_none: "sep \<notin> set s \<Longrightarrow> split_on sep s = [s]"
  by (induction s) auto

lemma split_on_append: "sep \<notin> set a \<Longrightarrow> split_on sep (a @ sep # b) = a # split_on sep b"
  by (induction a) auto

lemma str_trim_no_space: "(\<forall>c \<in> set s. \<not> is_space c) \<Longrightarrow> str_trim s = s"
  by (simp add: str_trim_def trim_matches_id)

abbreviation content_id :: "'x digest_env_scheme \<Rightarrow> Automation \<Rightarrow> nat \<Rightarrow> nat \<Rightarrow> string" where
  "content_id \<equiv> content_addressed_revision_id_for_generation"

lemma content_id_trim: "str_trim (content_id e a g r) = content_id e a g r"
  by (rule str_trim_no_space)
    (auto simp: content_addressed_revision_id_for_generation_def revision_content_digest_def is_space_def
      dest!: show_nat_hex digest_hex hex_not_space)

lemma content_id_split:
  "split_on (CHR '':'') (content_id e a g r) =
     [''g'' @ show_nat g, ''r'' @ show_nat r, revision_content_digest e a g]"
proof -
  have no: "CHR '':'' \<notin> set (show_nat n)" "CHR '':'' \<notin> set (digest_bytes e b)" for n b
    using hex_not_colon show_nat_hex digest_hex by blast+
  have "content_id e a g r = (''g'' @ show_nat g) @ CHR '':'' # ((''r'' @ show_nat r) @ CHR '':'' #
      revision_content_digest e a g)"
    by (simp add: content_addressed_revision_id_for_generation_def)
  then show ?thesis
    by (simp only: split_on_append split_on_none no revision_content_digest_def set_append)
      (simp add: split_on_append split_on_none no)
qed

lemma parse_counter_show: "n \<le> u64_max \<Longrightarrow> parse_counter p (p @ show_nat n) = Some n"
  by (simp add: parse_counter_def parse_u64_def parse_nat_show u64_max_def)

lemma parse_counter_SomeD: "parse_counter p s = Some n \<Longrightarrow> s = p @ show_nat n"
  by (auto simp: parse_counter_def split: option.splits if_splits dest: strip_prefix_SomeD)

lemma parse_content_id:
  assumes "0 < g" "g \<le> u64_max" "0 < r" "r \<le> u64_max" "\<And>b. length (de_sha e b) = 32"
  shows "parse_revision_id (content_id e a g r) =
    Inr \<lparr> ri_generation = g, ri_revision = r, ri_digest = revision_content_digest e a g \<rparr>"
proof -
  have "is_sha256_digest (revision_content_digest e a g)"
    unfolding revision_content_digest_def using assms(5) by (rule digest_shape)
  then show ?thesis
    using assms(1,3) parse_counter_show [OF assms(2), of "''g''"] parse_counter_show [OF assms(4), of "''r''"]
    unfolding parse_revision_id_def content_id_trim content_id_split by simp
qed

lemma parse_content_id_digest:
  assumes "parse_revision_id (content_id e a g r) = Inr i"
  shows "ri_generation i = g" "ri_revision i = r" "ri_digest i = revision_content_digest e a g"
  using assms
  by (auto simp: parse_revision_id_def content_id_trim content_id_split split: option.splits if_splits
      dest!: parse_counter_SomeD)

text \<open>Kernel evaluation of 64-bit bounds goes through binary integers.\<close>

lemma parse_u64_code [code]:
  "parse_u64 s =
     (let ds = (case s of [] \<Rightarrow> [] | c # cs \<Rightarrow> if c = CHR ''+'' then cs else s)
      in if ds \<noteq> [] \<and> list_all is_digit ds \<and> int (read_digits ds) < 18446744073709551616
         then Some (read_digits ds) else None)"
  by (simp add: parse_u64_def parse_nat_def Let_def)

lemma u64_sat_add_code [code]:
  "u64_sat_add a b = (if int a + int b \<le> 18446744073709551615 then a + b else u64_max)"
  by (simp add: u64_sat_add_def u64_max_def min_def)

section \<open>The snapshot envelope\<close>

text \<open>No two colons in a row and none at the end: the marker cannot begin inside such a base.\<close>

fun single_colons :: "string \<Rightarrow> bool" where
  "single_colons [] \<longleftrightarrow> True"
| "single_colons [c] \<longleftrightarrow> c \<noteq> CHR '':''"
| "single_colons (c # d # cs) \<longleftrightarrow> \<not> (c = CHR '':'' \<and> d = CHR '':'') \<and> single_colons (d # cs)"

lemma split_once_str_append:
  "single_colons base \<Longrightarrow>
   split_once_str ''::snapshot:'' (base @ ''::snapshot:'' @ rest) = Some (base, rest)"
  by (induction base rule: single_colons.induct) (auto simp: starts_with_def)

lemma single_colons_hex: "(\<forall>c \<in> set h. is_hex c) \<Longrightarrow> single_colons h"
  by (induction h rule: single_colons.induct) (auto dest: hex_not_colon)

lemma trusted_single_colons:
  assumes "\<And>b. length (de_sha e b) = 32"
  shows "single_colons (trusted_automation_id e i)"
proof -
  obtain x xs where h: "digest_bytes e (''everyaios.automation.v1'' @ [CHR 0x00] @ i) = x # xs"
    using assms by (cases "digest_bytes e (''everyaios.automation.v1'' @ [CHR 0x00] @ i)")
      (auto simp: digest_bytes_def dest: arg_cong [where f = length])
  then have hex: "\<forall>c \<in> set (x # xs). is_hex c" using digest_hex by metis
  then have "x \<noteq> CHR '':''" "single_colons (x # xs)" using hex_not_colon single_colons_hex by auto
  then show ?thesis unfolding trusted_automation_id_def h by simp
qed

lemma canonical_snapshot_id:
  assumes "\<And>b. length (de_sha e b) = 32"
  shows "canonical_automation_id (trusted_automation_id e i @ ''::snapshot:'' @ m) = trusted_automation_id e i"
  using split_once_str_append [OF trusted_single_colons [OF assms]]
  by (simp add: canonical_automation_id_def snapshot_marker_def)

section \<open>Validated occurrences compile\<close>

lemma identity_ok_revision:
  assumes "identity_ok e oc"
  obtains i where "parse_revision_id (oc_revision_id oc) = Inr i"
    "ri_digest i = revision_content_digest e (rev_automation e (oc_revision oc)) (ri_generation i)"
    "oc_revision_id oc = content_id e (rev_automation e (oc_revision oc)) (ri_generation i) (ri_revision i)"
proof -
  obtain i where i: "parse_revision_id (oc_revision_id oc) = Inr i"
    "oc_revision_id oc = content_id e (rev_automation e (oc_revision oc)) (ri_generation i) (ri_revision i)"
    using assms by (auto simp: identity_ok_def)
  then have "ri_digest i = revision_content_digest e (rev_automation e (oc_revision oc)) (ri_generation i)"
    using parse_content_id_digest(3) by metis
  with i that show ?thesis by blast
qed

lemma compile_validated:
  assumes "validate_occurrence_shape e oc = Inr ()" "\<not> starts_with (oc_idempotency_key oc) ''legacy:''"
    and "oc_automation_id oc = trusted_automation_id e reg" "\<And>b. length (de_sha e b) = 32"
    and "ar_steps (oc_revision oc) \<noteq> []" "validate_steps (ar_steps (oc_revision oc)) = Inr ()"
  shows "\<exists>spec. compile_work e (rev_automation e (oc_revision oc)) (oc_revision_id oc) (oc_id oc) = Inr spec \<and>
    ws_provenance spec = \<lparr> ap_automation_id = oc_automation_id oc, ap_revision_id = oc_revision_id oc,
      ap_automation_generation = rev_generation (oc_revision oc), ap_trigger_occurrence_id = oc_id oc \<rparr> \<and>
    length (ws_steps spec) = length (ar_steps (oc_revision oc)) \<and> \<not> ws_agent_required spec"
proof -
  have ok: "identity_ok e oc" using assms(1) by (simp add: validate_shape_iff)
  then obtain i where i: "parse_revision_id (oc_revision_id oc) = Inr i"
    "ri_digest i = revision_content_digest e (rev_automation e (oc_revision oc)) (ri_generation i)"
    "oc_revision_id oc = content_id e (rev_automation e (oc_revision oc)) (ri_generation i) (ri_revision i)"
    by (rule identity_ok_revision)
  have aid: "ar_automation_id (oc_revision oc) = oc_automation_id oc"
    and gen: "rev_generation (oc_revision oc) = ri_generation i"
    and oid: "oc_id oc = occurrence_id_of (oc_dedup_digest oc)" and hex: "is_sha256_digest (oc_dedup_digest oc)"
    and rid: "str_trim (oc_revision_id oc) \<noteq> []"
    using ok assms(2) i(1) by (auto simp: identity_ok_def)
  have trim_rid: "str_trim (oc_revision_id oc) = oc_revision_id oc" by (subst i(3), subst i(3)) (rule content_id_trim)
  have "\<forall>c \<in> set (take 32 (oc_dedup_digest oc)). \<not> is_space c"
    using hex hex_not_space by (auto simp: is_sha256_digest_def list_all_iff is_hex_def dest!: in_set_takeD)
  then have trim_oid: "str_trim (oc_id oc) = oc_id oc"
    by (intro str_trim_no_space) (auto simp: oid occurrence_id_of_def is_space_def)
  have canon: "canonical_automation_id (au_id (rev_automation e (oc_revision oc))) = oc_automation_id oc"
    using canonical_snapshot_id [OF assms(4)] by (simp add: rev_automation_def Let_def aid assms(3))
  have auto_nonempty: "str_trim (oc_automation_id oc) \<noteq> []" using ok by (simp add: identity_ok_def)
  have steps: "au_steps (rev_automation e (oc_revision oc)) = ar_steps (oc_revision oc)"
    by (simp add: rev_automation_def Let_def)
  have v: "validate_revision_id e (rev_automation e (oc_revision oc)) (oc_revision_id oc) = Inr i"
    using i by (simp add: validate_revision_id_def)
  have oid_ne: "oc_id oc \<noteq> []" by (simp add: oid occurrence_id_of_def)
  show ?thesis
    using assms(5,6) auto_nonempty rid oid_ne
    unfolding compile_work_def Let_def trim_rid trim_oid canon steps v
    by (simp add: gen trim_rid compile_step_def is_agent_backed_def split_def)
qed

end
