(* ===== verification/Sched_Frame.thy ===== *)
theory Sched_Frame
  imports Sched_Reopen Sched_Identity
begin

text \<open>
  The parts of the service that calls keep (the state file's path, and the load error unless a call poisons
  the service), the loadable registry of a healthy service, the behaviour of
  a poisoned service, the file after an answered request, what the resolution of a scheduled occurrence
  does to its job, and which deliveries, receipts and loaded rows are accepted.
\<close>

section \<open>Path and load error\<close>

abbreviation same_host :: "SchedulerService \<Rightarrow> SchedulerService \<Rightarrow> bool" where
  "same_host s s' \<equiv> ss_persist_path s' = ss_persist_path s \<and> ss_load_error s' = ss_load_error s"

lemma same_host_plain [simp]:
  "same_host s (put_job k j s)" "same_host s (put_occurrence i f s)" "same_host s (set_battery on s)"
  "same_host s (set_webhook_token token s)" "same_host s (record_nudge goal ts s)"
  by (simp_all add: put_job_def put_occurrence_def set_battery_def set_webhook_token_def record_nudge_def)

lemma put_job_host [simp]:
  "ss_persist_path (put_job k j s) = ss_persist_path s" "ss_load_error (put_job k j s) = ss_load_error s"
  "ss_persist_path (put_occurrence i f s) = ss_persist_path s"
  "ss_load_error (put_occurrence i f s) = ss_load_error s"
  by (simp_all add: put_job_def put_occurrence_def)

lemma host_edits:
  "transactional s (same_host s) (set_enabled env i b now s d)"
  "transactional s (same_host s) (set_monitor env i m s d)"
  "transactional s (same_host s) (monitor_evaluate env i obs met s d)"
  "transactional s (same_host s) (sched_pause env i s d)"
  "transactional s (same_host s) (sched_resume env i now s d)"
  "transactional s (same_host s) (pause_session_checked env session s d)"
  "transactional s (same_host s) (upsert_checked_with_enabled env i n ss t st p en now s d)"
  "transactional s (same_host s) (delete_checked env i s d)"
  unfolding set_enabled_def set_monitor_def monitor_evaluate_def sched_pause_def sched_resume_def
    pause_session_checked_def upsert_checked_with_enabled_def delete_checked_def Let_def
  by (auto split: sum.splits option.splits intro!: tx_intros tx_edit_job)

lemma host_admit_one:
  "admit_one_in_memory env job trigger payload key now s = (Inr oc, s') \<Longrightarrow> same_host s s'"
  by (auto simp: admit_one_in_memory_def admit_selected_in_memory_def split: prod.splits sum.splits if_splits)

lemma host_admit_due: "admit_due_loop env now ids s rows changed = (Inr x, s') \<Longrightarrow> same_host s s'"
proof (induction ids arbitrary: s rows changed)
  case (Cons i ids)
  show ?case
  proof (cases "lookup (ss_jobs s) i")
    case (Some job)
    then show ?thesis
      using Cons.prems
      by (auto simp: admit_due_loop.simps(2) Let_def split: if_splits prod.splits sum.splits
          dest!: Cons.IH host_admit_one)
  qed (use Cons in \<open>simp add: admit_due_loop.simps(2)\<close>)
qed simp

lemma host_admit_selected: "transactional s (same_host s) (admit_selected_transactional env selected mk now s d)"
  unfolding admit_selected_transactional_def admit_selected_in_memory_def
  by (auto split: prod.splits sum.splits intro!: tx_intros)

lemma host_admissions:
  "transactional s (same_host s) (admit_due env now s d)"
  "transactional s (same_host s) (admit_event_with_key env kind payload key now s d)"
  "transactional s (same_host s) (admit_webhook_with_key env path payload key now token s d)"
  unfolding admit_due_def admit_event_with_key_def admit_webhook_with_key_def Let_def
  by (rule tx_healthy, (auto split: prod.splits sum.splits option.splits
        intro!: tx_intros host_admit_selected dest: host_admit_due)[])+

lemma host_manual_with_key: "transactional s (same_host s) (admit_manual_with_key env i payload key now s d)"
  unfolding admit_manual_with_key_def
  by (intro tx_healthy) (auto split: sum.splits option.splits intro!: tx_refuse tx_last_row)

lemma host_manual: "transactional s (same_host s) (admit_manual env i payload now s d)"
  unfolding admit_manual_def by (auto split: sum.splits intro!: tx_refuse host_manual_with_key)

lemma host_resolutions:
  "transactional s (same_host s) (mark_occurrence_fired_with_receipt env i now r s d)"
  "transactional s (same_host s) (mark_occurrence_uncertain env i reason s d)"
  "transactional s (same_host s) (cancel_occurrence env i reason s d)"
  unfolding mark_occurrence_fired_with_receipt_def mark_occurrence_uncertain_def cancel_occurrence_def Let_def
  by (rule tx_healthy, (auto split: option.splits sum.splits OccurrenceTrigger.splits intro!: tx_intros)[])+

lemmas host_calls = host_edits host_admissions host_manual_with_key host_manual host_resolutions

lemma host_rpc:
  "transactional s (same_host s) (rpc_upsert e params now s d)"
  "transactional s (same_host s) (rpc_mark_fired e params now s d)"
  "transactional s (same_host s) (rpc_fire_event e params now s d)"
  "transactional s (same_host s) (rpc_fire_webhook e params now s d)"
  "transactional s (same_host s) (rpc_run_now e params now s d)"
  "transactional s (same_host s) (rpc_monitor_config e params s d)"
  unfolding rpc_upsert_def rpc_mark_fired_def rpc_fire_event_def rpc_fire_webhook_def rpc_run_now_def
    rpc_monitor_config_def Let_def
  by (intro tx_with_str tx_reply host_calls | auto split: option.splits intro!: tx_refuse tx_reply host_calls)+

lemma host_handle_inner: "transactional s (same_host s) (sched_handle_inner e meth params s d)"
  unfolding sched_handle_inner_def Let_def mark_fired_def sum.case
  by (intro tx_if tx_with_str tx_reply tx_refuse tx_return host_calls host_rpc same_host_plain) simp_all

lemma host_script:
  "transactional s (same_host s) (monitor_evaluate_script env i out silent s d)"
  "transactional s (same_host s) (append_notepad_checked env i line s d)"
  unfolding monitor_evaluate_script_def append_notepad_checked_def Let_def
  by (auto split: option.splits intro!: tx_intros tx_edit_job)

lemma host_handle: "transactional s (same_host s) (sched_handle e meth params s d)"
  using host_handle_inner [of s e meth params d] unfolding sched_handle_def
  by (intro tx_healthy) (auto simp: transactional_def split: prod.splits sum.splits)

lemma host_keyless:
  "transactional s (same_host s) (admit_event env kind payload now s d)"
  "transactional s (same_host s) (admit_webhook env path payload now token s d)"
  unfolding admit_event_def admit_webhook_def
  by (auto split: sum.splits intro!: tx_refuse host_admissions)

lemma sched_call_host: "call_law s (\<lambda>s'. same_host s s' \<or> poisoned_by s s') (sched_call e x (s, d))"
proof (rule call_law_legacy)
  show "call_law s (same_host s) (sched_call e y (s, d))" if "checked_form y = None" for y
    using that
    by (cases y)
      (simp_all add: call_law_outcome host_calls host_keyless host_script host_handle,
       simp_all add: call_law_def report_incident_def ack_incident_def set_battery_def set_webhook_token_def
         record_nudge_def Let_def)
qed

lemma poisoned_path: "poisoned_by s s' \<Longrightarrow> ss_persist_path s' = ss_persist_path s"
  unfolding poisoned_by_def by (elim conjE, drule arg_cong [where f = ss_persist_path]) simp

lemma poisoned_error: "poisoned_by s s' \<Longrightarrow> ss_load_error s' \<noteq> None"
  unfolding poisoned_by_def by (elim conjE)

text \<open>A call keeps the path, and the load error unless it poisons the service.\<close>

abbreviation host_kept :: "SchedulerService \<Rightarrow> SchedulerService \<Rightarrow> bool" where
  "host_kept s s' \<equiv> ss_persist_path s' = ss_persist_path s \<and> (ss_load_error s' = None \<longrightarrow> ss_load_error s = None)"

lemma step_host: "host_kept (fst sd) (fst (sched_step e x sd))"
  using sched_call_host [of "fst sd" e x "snd sd"]
  by (auto simp: call_law_def sched_step_def split: prod.splits if_splits dest: poisoned_path poisoned_error)

interpretation sched_host: monotone_system "sched_step e" "\<lambda>_ _. True" "\<lambda>a b. host_kept (fst a) (fst b)"
  for e
  by unfold_locales (use step_host in auto)

lemma run_host_kept: "host_kept (fst sd) (fst (run (sched_step e) xs sd))"
  by (rule sched_host.run_le) (rule admitted_True)

text \<open>The registry of a service that is not poisoned is loadable.\<close>

abbreviation jobs_safe :: "'x digest_env_scheme \<Rightarrow> SchedulerService \<Rightarrow> bool" where
  "jobs_safe e s \<equiv> ss_load_error s = None \<longrightarrow> jobs_ok e s"

interpretation sched_jobs: invariant_system "sched_step e" "\<lambda>_ _. True" "\<lambda>sd. jobs_safe e (fst sd)"
  for e
proof unfold_locales
  show "jobs_safe e (fst (sched_step e x sd))" if "jobs_safe e (fst sd)" for x sd
    using that sched_step_jobs [where e = e and sd = sd and x = x] step_host [where e = e and sd = sd and x = x]
    by (auto dest: poisoned_error)
qed

lemma run_jobs_safe: "jobs_safe e (fst sd) \<Longrightarrow> jobs_safe e (fst (run (sched_step e) xs sd))"
  by (rule sched_jobs.run_inv [OF _ admitted_True])

section \<open>The file after an answered request\<close>

lemma handle_answered:
  assumes "sched_handle e meth params s d = (Inr out, s', d')"
  shows "ss_load_error s = None" "same_host s s'"
    "ss_persist_path s = Some p \<Longrightarrow> dk_file d' = Document (store_json (persisted s'))"
proof -
  show h: "ss_load_error s = None"
    using assms by (auto simp: sched_handle_def when_healthy_def ensure_healthy_def split: option.splits)
  obtain d1 where inner: "sched_handle_inner e meth params s d = (Inr out, s', d1)"
    and wr: "\<exists>u. sched_persist e s' d1 = (Inr u, d')"
    using assms h
    by (auto simp: sched_handle_def when_healthy_def ensure_healthy_def split: prod.splits sum.splits)
  show host: "same_host s s'"
    using host_handle_inner [of s e meth params d] inner by (simp add: transactional_def)
  show "dk_file d' = Document (store_json (persisted s'))" if "ss_persist_path s = Some p"
    using wr host h that
    by (auto simp: sched_persist_def ensure_healthy_def Let_def split: if_splits)
qed

section \<open>A poisoned service\<close>

lemma poisoned_call:
  assumes "ss_load_error s \<noteq> None"
  shows "ss_load_error (fst (sched_step e x (s, d))) \<noteq> None \<and> snd (sched_step e x (s, d)) = d"
  using assms
  by (cases x)
    (auto simp: sched_step_def outcome_def poisoning_def sched_upsert_def sched_delete_def append_notepad_def
      pause_session_def upsert_checked_with_enabled_def delete_checked_def set_enabled_def
      set_monitor_def monitor_evaluate_def monitor_evaluate_script_def append_notepad_checked_def sched_pause_def
      sched_resume_def pause_session_checked_def admit_due_def admit_event_with_key_def
      admit_webhook_with_key_def admit_manual_with_key_def admit_event_def admit_webhook_def admit_manual_def
      mark_occurrence_fired_with_receipt_def
      mark_occurrence_uncertain_def cancel_occurrence_def sched_handle_def edit_job_def when_healthy_def
      ensure_healthy_def set_battery_def set_webhook_token_def record_nudge_def report_incident_def
      ack_incident_def Let_def split: sum.splits)

interpretation sched_poison: invariant_system "sched_step e" "\<lambda>_ _. True"
    "\<lambda>sd. ss_load_error (fst sd) \<noteq> None \<and> snd sd = d"
  for e d
  using poisoned_call by unfold_locales (metis prod.collapse)

lemma poisoned_never_writes: "ss_load_error s \<noteq> None \<Longrightarrow> snd (run (sched_step e) xs (s, d)) = d"
  using sched_poison.run_inv [OF _ admitted_True, of "(s, d)" d e xs] by simp

section \<open>Advancing a scheduled occurrence\<close>

lemma lookup_put_job [simp]: "lookup (ss_jobs (put_job k j s)) k' = (if k' = k then Some j else lookup (ss_jobs s) k')"
  by (simp add: put_job_def)

lemma find_replace_first:
  "find P xs = Some x \<Longrightarrow> P (f x) \<Longrightarrow> find P (replace_first P f xs) = Some (f x)"
  by (induction xs) (auto split: if_splits)

lemma mark_fired_effect:
  assumes "mark_occurrence_fired_with_receipt e i now r s d = (Inr (), s', d')"
    and "sched_occurrence i s = Some oc" "\<not> occ_is_terminal oc"
  obtains k j where "job_id_for_automation (oc_automation_id oc) s = Some k" "lookup (ss_jobs s) k = Some j"
    "s' = put_job k (fired_job now (oc_trigger oc) j) (put_occurrence i (\<lambda>_. fired_occurrence now r oc) s)"
    "validate_receipt_for oc r (expected_work_id oc) (expected_run_id oc) = Inr ()"
proof -
  note def = mark_occurrence_fired_with_receipt_def when_healthy_def Let_def sched_commit_def occ_is_terminal_def
  from assms obtain k j where
    "job_id_for_automation (oc_automation_id oc) s = Some k" "lookup (ss_jobs s) k = Some j"
    "s' = put_job k (fired_job now (oc_trigger oc) j) (put_occurrence i (\<lambda>_. fired_occurrence now r oc) s)"
    "validate_receipt_for oc r (expected_work_id oc) (expected_run_id oc) = Inr ()"
    by (auto simp: def split: sum.splits option.splits prod.splits if_splits)
  then show thesis by (rule that)
qed

lemma wf_map_in_set: "wf_map m \<Longrightarrow> (k, v) \<in> set m \<Longrightarrow> lookup m k = Some v"
  by (simp add: wf_map_def)

lemma not_due_before:
  assumes "wf_map (ss_jobs s)" "lookup (ss_jobs s) k = Some j"
    and "\<And>t. jb_next_run_at j = Some t \<Longrightarrow> now < t"
  shows "k \<notin> set (sched_due now s)"
proof
  assume "k \<in> set (sched_due now s)"
  then obtain j' where "(k, j') \<in> set (ss_jobs s)" "job_due s now j'"
    by (auto simp: sched_due_def split: if_splits)
  moreover from this(1) have "j' = j" using wf_map_in_set [OF assms(1)] assms(2) by auto
  ultimately have "next_run_reached j now"
    by (auto simp: job_due_def trigger_due_def split: TriggerSpec.splits)
  then show False using assms(3) by (auto simp: next_run_reached_def split: option.splits)
qed

lemma fired_job_next:
  assumes "trigger_time_ok (jb_trigger j) (max now t)"
  shows "jb_next_run_at (fired_job now (OtSchedule t) j) = Some u \<Longrightarrow> max now t < u"
  using next_run_later [OF _ assms] by (simp add: fired_job_def Let_def)

section \<open>Redelivery\<close>

lemma find_stable:
  assumes "find (\<lambda>oc. oc_dedup_digest oc = k) ocs = Some oc" "occs_stable ocs ocs'"
  shows "\<exists>oc'. find (\<lambda>oc. oc_dedup_digest oc = k) ocs' = Some oc' \<and> same_delivery oc oc'"
proof -
  obtain i where i: "i < length ocs" "ocs ! i = oc" "oc_dedup_digest oc = k"
      "\<forall>j < i. oc_dedup_digest (ocs ! j) \<noteq> k"
    using assms(1) by (auto simp: find_Some_iff)
  have st: "length ocs \<le> length ocs'" "same_delivery (ocs ! j) (ocs' ! j)" if "j < length ocs" for j
    using assms(2) that by (auto simp: occs_stable_def)
  have "i < length ocs'" using i(1) st(1) [OF i(1)] by simp
  moreover have "oc_dedup_digest (ocs' ! i) = k" using st(2) [OF i(1)] i by (simp add: same_delivery_def)
  moreover have "\<forall>j < i. oc_dedup_digest (ocs' ! j) \<noteq> k"
    using st(2) i by (metis less_trans same_delivery_def)
  ultimately have "find (\<lambda>oc. oc_dedup_digest oc = k) ocs' = Some (ocs' ! i)"
    by (auto simp: find_Some_iff)
  then show ?thesis using st(2) [OF i(1)] i(2) by auto
qed

lemma transactional_again:
  assumes "find (\<lambda>oc. oc_dedup_digest oc =
      dedup_digest_for e (jb_automation_id job) (jb_generation job) trigger key) (ss_occurrences s) = Some oc"
    and "normalize_idempotency_key key0 ''delivery'' = Inr key"
  shows "admit_selected_transactional e [job] (\<lambda>_. Some (trigger, payload, key0)) now s d =
    (if oc_payload_digest oc = digest_json e payload then (Inr [oc], s, d) else (Inl (ErrKeyReused key), s, d))"
  using assms
  by (simp add: admit_selected_transactional_def admit_selected_in_memory_def admit_loop.simps(2) Let_def)

lemma str_trim_idem: "str_trim (str_trim s) = str_trim s"
proof -
  define u where "u = dropWhile is_space s"
  define r where "r = dropWhile is_space (rev u)"
  have t: "str_trim s = rev r" by (simp add: str_trim_def trim_matches_def u_def r_def)
  have "dropWhile is_space (rev r) = rev r"
  proof (cases "r = []")
    case False
    then have ne: "u \<noteq> []" by (auto simp: r_def)
    moreover from this have "\<not> is_space (hd u)" unfolding u_def by (rule hd_dropWhile)
    ultimately have "u \<noteq> []" "\<not> is_space (hd u)" .
    then have "last r = hd u"
      unfolding r_def by (subst dropWhile_last [of "hd u"]) (auto simp: last_rev)
    with \<open>\<not> is_space (hd u)\<close> False show ?thesis by (simp add: dropWhile_eq_self_iff hd_rev)
  qed simp
  then have "str_trim (rev r) = rev (dropWhile is_space r)" by (simp add: str_trim_def trim_matches_def)
  then show ?thesis by (simp add: t r_def)
qed

lemma normalize_twice:
  assumes "normalize_idempotency_key v kind = Inr key"
  shows "normalize_idempotency_key key kind' = Inr key"
  using assms by (auto simp: normalize_idempotency_key_def Let_def str_trim_idem split: if_splits)

lemma find_snoc: "find P xs = None \<Longrightarrow> P x \<Longrightarrow> find P (xs @ [x]) = Some x"
  by (induction xs) (auto split: if_splits)

text \<open>After a manual admission its row is found by the same delivery digest.\<close>

lemma manual_admitted_row:
  assumes "admit_manual_with_key e i payload key0 now s d = (Inr oc, s', d')"
    and "normalize_idempotency_key key0 ''manual'' = Inr key" "lookup (ss_jobs s) i = Some job"
  shows "find (\<lambda>oc. oc_dedup_digest oc =
      dedup_digest_for e (jb_automation_id job) (jb_generation job) OtManual key) (ss_occurrences s') = Some oc \<and>
    oc_payload_digest oc = digest_json e payload"
proof -
  let ?k = "dedup_digest_for e (jb_automation_id job) (jb_generation job) OtManual key"
  let ?mk = "\<lambda>_. Some (OtManual, payload, key)"
  obtain rows where sel: "admit_selected_transactional e [job] ?mk now s d = (Inr rows, s', d')" "rows \<noteq> []"
      "oc = last rows"
    using assms
    by (auto simp: admit_manual_with_key_def when_healthy_def split: sum.splits if_splits prod.splits)
  then obtain ocs' where loop: "admit_loop e now ?mk (length (ss_occurrences s)) [job] (ss_occurrences s) [] = (Inr rows, ocs')"
      and s': "ss_occurrences s' = ocs'"
    by (auto simp: admit_selected_transactional_def admit_selected_in_memory_def sched_commit_def
        split: prod.splits sum.splits if_splits)
  have key: "normalize_idempotency_key key ''delivery'' = Inr key" using assms(2) by (rule normalize_twice)
  show ?thesis
  proof (cases "find (\<lambda>oc. oc_dedup_digest oc = ?k) (ss_occurrences s)")
    case (Some x)
    then show ?thesis
      using loop sel(3) s' key by (auto simp: admit_loop.simps(2) Let_def split: if_splits)
  next
    case None
    define n where "n = new_occurrence e job OtManual (digest_json e payload) ?k key now"
    have "ocs' = ss_occurrences s @ [n] \<and> rows = [n]"
      using loop sel(2) key None
      by (auto simp: admit_loop.simps(2) Let_def n_def [symmetric] split: if_splits sum.splits)
    then show ?thesis
      using sel(3) s' find_snoc [OF None, of n] by (simp add: n_def new_occurrence_def)
  qed
qed

section \<open>Admission of a fresh delivery\<close>

lemma str_trim_nonempty: "c \<in> set s \<Longrightarrow> \<not> is_space c \<Longrightarrow> str_trim s \<noteq> []"
proof
  assume c: "c \<in> set s" "\<not> is_space c" and e: "str_trim s = []"
  then have "\<forall>x \<in> set (dropWhile is_space s). is_space x"
    by (simp add: str_trim_def trim_matches_def)
  moreover have "c \<in> set (dropWhile is_space s)"
    using c by (metis Un_iff set_append set_takeWhileD takeWhile_dropWhile_id)
  ultimately show False using c(2) by blast
qed

lemma fresh_occurrence_valid:
  assumes "job_loadable e j" "jb_generation j \<le> u64_max" "jb_revision j \<le> u64_max"
    and "\<And>b. length (de_sha e b) = 32"
    and "normalize_idempotency_key key0 kind = Inr key"
    and "occurrence_trigger_matches_revision trigger (jb_trigger j)"
  shows "validate_occurrence_shape e (new_occurrence e j trigger (digest_json e payload)
      (dedup_digest_for e (jb_automation_id j) (jb_generation j) trigger key) key now) = Inr ()"
proof -
  let ?a = "rev_automation e (revision_snapshot j)"
  let ?i = "\<lparr> ri_generation = jb_generation j, ri_revision = jb_revision j,
    ri_digest = revision_content_digest e ?a (jb_generation j) \<rparr>"
  have rid: "jb_revision_id j = content_id e ?a (jb_generation j) (jb_revision j)"
    using assms(1) by (simp add: job_loadable_def revision_id_for_def)
  have nz: "0 < jb_generation j" "0 < jb_revision j"
    using assms(1) validate_definition_fields [of j "()"] by (simp_all add: job_loadable_def)
  have parse: "parse_revision_id (jb_revision_id j) = Inr ?i"
    unfolding rid using nz assms(2-4) by (intro parse_content_id) auto
  have digest: "is_sha256_digest (digest_json e v)" for v
    unfolding digest_json_def by (rule digest_shape [OF assms(4)])
  then have len: "length (digest_json e v) = 64" for v by (simp add: is_sha256_digest_def)
  have key: "str_trim key \<noteq> []"
    using assms(5) by (auto simp: normalize_idempotency_key_def Let_def str_trim_idem split: if_splits)
  have aid: "str_trim (jb_automation_id j) \<noteq> []"
    using assms(1) by (intro str_trim_nonempty [of "CHR ''a''"]) (auto simp: job_loadable_def trusted_automation_id_def is_space_def)
  have ridne: "str_trim (jb_revision_id j) \<noteq> []"
    unfolding rid content_id_trim by (simp add: content_addressed_revision_id_for_generation_def)
  have snap: "ar_automation_id (revision_snapshot j) = jb_automation_id j"
    "ar_revision_id (revision_snapshot j) = jb_revision_id j" "ar_revision (revision_snapshot j) = jb_revision j"
    "ar_trigger (revision_snapshot j) = jb_trigger j"
    by (simp_all add: revision_snapshot_def)
  have gen: "rev_generation (revision_snapshot j) = jb_generation j"
    by (simp add: rev_generation_def snap parse)
  show ?thesis
    unfolding validate_shape_iff identity_ok_def
    using parse rid aid ridne key digest len assms(6)
    by (simp add: new_occurrence_def validate_occurrence_state_def occurrence_id_of_def starts_with_def
        dedup_digest_for_def snap gen)
qed

definition io_ready :: "sched_env \<Rightarrow> SchedulerService \<Rightarrow> SchedDisk \<Rightarrow> bool" where
  "io_ready e s d \<longleftrightarrow> ss_load_error s = None \<and> se_io e (dk_writes d) = PioOk"

lemma commit_ready:
  assumes "io_ready e s d" "same_host s s1"
  shows "\<exists>d1. sched_commit e s v s1 d = (Inr v, s1, d1)"
  using assms
  by (auto simp: io_ready_def sched_commit_def sched_persist_def ensure_healthy_def Let_def split: option.splits)

lemma when_ready: "io_ready e s d \<Longrightarrow> when_healthy s d k = k"
  by (simp add: io_ready_def when_healthy_def ensure_healthy_def)

section \<open>A valid receipt is accepted\<close>

lemma fired_valid:
  assumes "validate_occurrence_shape e oc = Inr ()"
    and "validate_receipt_for oc r (expected_work_id oc) (expected_run_id oc) = Inr ()"
  shows "validate_occurrence_shape e (fired_occurrence now r oc) = Inr ()"
proof -
  have "same_delivery oc (fired_occurrence now r oc)" by (simp add: same_delivery_def fired_occurrence_def)
  then have "identity_ok e (fired_occurrence now r oc)"
    using assms(1) identity_ok_same by (auto simp: validate_shape_iff)
  moreover have "validate_occurrence_state (fired_occurrence now r oc) = Inr ()"
    using assms(2)
    by (auto simp: validate_occurrence_state_def fired_occurrence_def validate_receipt_for_def
        expected_work_id_def expected_run_id_def split: if_splits)
  ultimately show ?thesis by (simp add: validate_shape_iff)
qed

lemma mark_fired_accepts:
  assumes "io_ready e s d" "sched_occurrence i s = Some oc" "validate_occurrence_shape e oc = Inr ()"
    and "\<not> occ_is_terminal oc"
    and "validate_receipt_for oc r (expected_work_id oc) (expected_run_id oc) = Inr ()"
    and "job_id_for_automation (oc_automation_id oc) s = Some k" "lookup (ss_jobs s) k = Some j"
  shows "\<exists>d'. mark_occurrence_fired_with_receipt e i now r s d =
    (Inr (), put_job k (fired_job now (oc_trigger oc) j) (put_occurrence i (\<lambda>_. fired_occurrence now r oc) s), d')"
  using assms fired_valid [OF assms(3,5), of now]
    commit_ready [OF assms(1), of "put_job k (fired_job now (oc_trigger oc) j)
      (put_occurrence i (\<lambda>_. fired_occurrence now r oc) s)" "()"]
  by (simp add: mark_occurrence_fired_with_receipt_def when_ready occ_is_terminal_def Let_def)

section \<open>A row the loader refuses\<close>

lemma install_all_refuses:
  assumes "x \<in> set xs" "\<And>s. \<exists>err. f x s = Inl err"
  shows "\<exists>err. install_all f xs s = Inl err"
  using assms(1)
proof (induction xs arbitrary: s)
  case (Cons y ys)
  then show ?case using assms(2) [of s] by (cases "f y s") auto
qed simp

text \<open>A row that was fired without a receipt is turned into a quarantined row that still has its firing
  time, which the shape check of quarantined rows refuses.\<close>

lemma legacy_firing_refused:
  assumes "oc_state oc = OsPending \<or> oc_state oc = OsTerminal" "oc_admission_receipt oc = None"
    and "oc_fired_at oc = Some t"
  shows "\<exists>err. install_occurrence e oc s = Inl err"
proof (cases "normalize_loaded_occurrence e oc")
  case (Inr oc')
  then have "oc_state oc' = OsUncertain" "oc_fired_at oc' = Some t"
    using assms
    by (auto simp: normalize_loaded_occurrence_def normalize_revision_def normalize_state_def Let_def
        split: sum.splits if_splits)
  then have "validate_occurrence_state oc' \<noteq> Inr ()" by (simp add: validate_occurrence_state_def)
  then have "validate_occurrence_shape e oc' \<noteq> Inr ()" by (simp add: validate_shape_iff)
  then show ?thesis using Inr by (cases "validate_occurrence_shape e oc'") (simp_all add: install_occurrence_def)
qed (simp add: install_occurrence_def)

end
