(* ===== verification/Sched_Properties.thy ===== *)
theory Sched_Properties
  imports Sched_Frame
begin

text \<open>
  The properties of the scheduler: its time arithmetic on the calendar, the occurrence index over every
  sequence of calls, delivery idempotence, advancement with a receipt, the compilation of an admitted
  occurrence, and the state file across restarts. Each property that has a hypothesis has its witness on the
  small service of the first section.
\<close>

section \<open>A small service\<close>

definition wit_hex :: string where
  "wit_hex = hex_encode (replicate 32 (CHR ''A''))"

definition wit_job :: Job where
  "wit_job =
     \<lparr> jb_id = ''m'', jb_automation_id = ''automation:auto:'' @ wit_hex, jb_revision = 1, jb_generation = 1,
       jb_revision_id = ''g1:r1:'' @ wit_hex, jb_name = ''name'', jb_session_id = ''s'', jb_trigger = TsManual,
       jb_steps = [OnlineSearch ''q''], jb_policy = schedule_policy_default, jb_enabled = True,
       jb_paused = False, jb_next_run_at = None, jb_last_fired_at = None, jb_recent_fires = [],
       jb_monitor = None, jb_notepad = [] \<rparr>"

definition wit_service :: SchedulerService where
  "wit_service = scheduler_new\<lparr>ss_persist_path := Some ''p'', ss_jobs := [(''m'', wit_job)],
     ss_generation_counters := [(''m'', 1)]\<rparr>"

definition wit_env :: sched_env where
  "wit_env =
     \<lparr> de_sha = (\<lambda>_. replicate 32 (CHR ''A'')), de_quote = (\<lambda>s. [CHR 0x22] @ s @ [CHR 0x22]),
       de_float = (\<lambda>_. ''0.5''), se_io = (\<lambda>_. PioOk), se_clock = 0, se_parse_jobs = (\<lambda>_. None),
       se_parse_store = (\<lambda>_. Some (persisted wit_service)), se_parse_trigger = (\<lambda>_. Some TsManual),
       se_parse_steps = (\<lambda>_. Some [OnlineSearch ''q'']), se_parse_policy = (\<lambda>_. None), se_parse_receipt = (\<lambda>_. None),
       se_parse_monitor = (\<lambda>_. None), se_parse_kind = (\<lambda>_. None) \<rparr>"

definition wit_sched_disk :: SchedDisk where
  "wit_sched_disk = \<lparr> dk_file = NoFile, dk_writes = 0 \<rparr>"

lemma wit_digest [simp]: "digest_bytes wit_env b = wit_hex"
  by (simp add: digest_bytes_def wit_env_def wit_hex_def)

lemma wit_sha [simp]: "de_sha wit_env b = replicate 32 (CHR ''A'')"
  by (simp add: wit_env_def)

lemma show_one [simp]: "show_nat (Suc 0) = ''1''"
  by code_simp

lemma wit_job_loadable: "job_loadable wit_env wit_job"
  by (simp add: job_loadable_def wit_job_def trusted_automation_id_def validate_job_definition_def
      revision_id_for_def content_addressed_revision_id_for_generation_def revision_content_digest_def
      str_trim_def trim_matches_def is_space_def)

lemma wit_jobs_ok: "jobs_ok wit_env wit_service"
  using wit_job_loadable
  by (auto simp: jobs_ok_def job_at_def wit_service_def wf_map_def wit_job_def split: if_splits)

lemma wit_ready: "io_ready wit_env wit_service wit_sched_disk"
  by (simp add: io_ready_def wit_env_def wit_service_def scheduler_new_def)

section \<open>Time\<close>

text \<open>C19. The closed-form civil date of a Unix time is the calendar reached by counting days from
  1970-01-01, with its minute, hour and weekday.\<close>

theorem civil_parts_is_the_calendar:
  "civil_parts t =
     (case calendar_day (t div 86400) of
        (y, m, d) \<Rightarrow> (t mod 86400 div 60 mod 60, t mod 86400 div 3600, d, m, (t div 86400 + 4) mod 7))"
  by (cases "calendar_day (t div 86400)") (simp add: civil_parts_calendar)

text \<open>C20. The next run of a cron schedule is the first minute after now at which the schedule fires on the
  calendar, within the next 527040 minutes.\<close>

theorem cron_next_run_is_first_firing:
  assumes "cron_parse expr = Inr c" "now + 31622460 \<le> u64_max"
  shows "compute_next_run (TsCron expr) now cur = Some t \<longleftrightarrow>
    now < t \<and> t \<le> now - now mod 60 + 31622400 \<and> cron_fires c t \<and>
    list_all (\<lambda>u. \<not> cron_fires c u) [Suc now..<t]"
proof -
  note spec = cron_next_spec [OF assms, of cur]
  have bound: "u \<le> now - now mod 60 + 31622400" if le: "u \<le> now + 31622400" and z: "u mod 60 = 0" for u
  proof -
    from z obtain v where u: "u = 60 * v" by (auto simp: mod_eq_0_iff_dvd)
    have n: "now - now mod 60 = 60 * (now div 60)" by (simp add: minus_mod_eq_mult_div)
    have "now < 60 * (now div 60) + 60" by (simp add: dividend_less_times_div)
    then have "v \<le> now div 60 + 527040" using le u by linarith
    then show ?thesis unfolding n u by linarith
  qed
  have within: "u \<le> now + 31622400" if "u \<le> now - now mod 60 + 31622400" for u
    using that by (meson diff_le_self add_le_mono1 le_trans)
  show ?thesis
  proof (cases "compute_next_run (TsCron expr) now cur")
    case None
    then show ?thesis using spec by (auto simp: cron_fires_matches)
  next
    case (Some v)
    then have v: "now < v" "v mod 60 = 0" "cron_matches c v" "v \<le> now + 31622400"
      and first: "\<And>u. now < u \<Longrightarrow> u < v \<Longrightarrow> \<not> cron_fires c u"
      using spec by (auto simp: cron_fires_matches)
    have "v = t" if "now < t" "cron_fires c t" "list_all (\<lambda>u. \<not> cron_fires c u) [Suc now..<t]"
    proof (cases v t rule: linorder_cases)
      case less
      then have "\<not> cron_fires c v" using that(3) v(1) by (simp add: list_all_iff)
      then show ?thesis using v(2,3) by (simp add: cron_fires_matches)
    qed (use that first [of t] in auto)
    moreover have "list_all (\<lambda>u. \<not> cron_fires c u) [Suc now..<v]"
      using first by (auto simp: list_all_iff)
    ultimately show ?thesis
      using v bound [OF v(4,2)] by (auto simp: Some cron_fires_matches)
  qed
qed

lemma every_minute:
  obtains c where "cron_parse ''* * * * *'' = Inr c" "ce_minute c = [0..<60]" "ce_hour c = [0..<24]"
    "ce_dom c = [1..<32]" "ce_month c = [1..<13]" "ce_dow c = [0..<7]"
proof -
  have "split_whitespace ''* * * * *'' = [''*'', ''*'', ''*'', ''*'', ''*'']"
    "parse_field ''*'' 0 59 = Inr [0..<60]" "parse_field ''*'' 0 23 = Inr [0..<24]"
    "parse_field ''*'' 1 31 = Inr [1..<32]" "parse_field ''*'' 1 12 = Inr [1..<13]"
    "parse_field ''*'' 0 6 = Inr [0..<7]"
    by code_simp+
  then have "\<exists>c. cron_parse ''* * * * *'' = Inr c \<and> ce_minute c = [0..<60] \<and> ce_hour c = [0..<24] \<and>
      ce_dom c = [1..<32] \<and> ce_month c = [1..<13] \<and> ce_dow c = [0..<7]"
    by (simp add: cron_parse_def del: One_nat_def upt_Suc upt_rec_numeral)
  with that show thesis by blast
qed

theorem cron_next_run_witness: "compute_next_run (TsCron ''* * * * *'') 0 None = Some 60"
proof -
  obtain c where c: "cron_parse ''* * * * *'' = Inr c" "ce_minute c = [0..<60]" "ce_hour c = [0..<24]"
    "ce_dom c = [1..<32]" "ce_month c = [1..<13]" "ce_dow c = [0..<7]"
    by (rule every_minute)
  have "cron_fires c 60"
    by (simp add: cron_fires_def calendar_day_def cron_day_def c del: upt_Suc upt_rec_numeral)
  moreover have "list_all (\<lambda>u. \<not> cron_fires c u) [Suc 0..<60]"
    by (auto simp: list_all_iff cron_fires_matches)
  ultimately show ?thesis
    using cron_next_run_is_first_firing [OF c(1), of 0 None 60] by (simp add: u64_max_def del: upt_rec_numeral)
qed

text \<open>The next start of a day window is in the next 24 hours and falls on its hour of the local day.\<close>

theorem window_opens_within_a_day:
  assumes "now < 2 ^ 62" "- (2 ^ 31) \<le> off" "off < 2 ^ 31" "0 \<le> int now + off * 60"
  shows "compute_next_run (TsWindow w off) now cur = Some t \<longleftrightarrow>
    now < t \<and> t \<le> now + 86400 \<and> (int t + off * 60) mod 86400 = int (start_hour w * 3600)"
proof -
  note n = next_window_spec [OF assms, of w]
  have "x = y" if "now < x" "x \<le> now + 86400" "now < y" "y \<le> now + 86400"
    "(int x + off * 60) mod 86400 = (int y + off * 60) mod 86400" for x y
  proof -
    have "86400 dvd int x - int y" using that(5) by (simp add: mod_eq_dvd_iff)
    moreover have "\<bar>int x - int y\<bar> < 86400" using that(1-4) by linarith
    ultimately show ?thesis using zdvd_imp_le [of 86400 "\<bar>int x - int y\<bar>"] by fastforce
  qed
  with n show ?thesis by (auto simp: compute_next_run_def)
qed

theorem window_opens_witness: "compute_next_run (TsWindow Morning (- 60)) 90000 None = Some 111600"
  using window_opens_within_a_day [of 90000 "- 60" Morning None 111600] by simp

text \<open>Every field of a parsed cron expression is a non-empty strictly increasing list of values in its
  range.\<close>

theorem cron_fields_in_range:
  assumes "cron_parse expr = Inr c"
  shows "list_all (\<lambda>(vs, mn, mx). vs \<noteq> [] \<and> sorted vs \<and> distinct vs \<and> set vs \<subseteq> {mn..mx})
    [(ce_minute c, 0, 59), (ce_hour c, 0, 23), (ce_dom c, 1, 31), (ce_month c, 1, 12), (ce_dow c, 0, 6)]"
proof -
  obtain a b d m w where
    "parse_field a 0 59 = Inr (ce_minute c)" "parse_field b 0 23 = Inr (ce_hour c)"
    "parse_field d 1 31 = Inr (ce_dom c)" "parse_field m 1 12 = Inr (ce_month c)"
    "parse_field w 0 6 = Inr (ce_dow c)"
    using assms
    by (auto simp: cron_parse_def simp del: One_nat_def split: list.splits sum.splits if_splits)
  from this [THEN parse_field_ok(1)] this [THEN parse_field_ok(2)] this [THEN parse_field_ok(3)]
    this [THEN parse_field_ok(4)]
  show ?thesis by simp
qed

theorem cron_fields_witness:
  "\<exists>c. cron_parse ''* * * * *'' = Inr c \<and>
    list_all (\<lambda>(vs, mn, mx). vs \<noteq> [] \<and> sorted vs \<and> distinct vs \<and> set vs \<subseteq> {mn..mx})
      [(ce_minute c, 0, 59), (ce_hour c, 0, 23), (ce_dom c, 1, 31), (ce_month c, 1, 12), (ce_dow c, 0, 6)]"
proof -
  obtain c where "cron_parse ''* * * * *'' = Inr c" by (rule every_minute)
  with cron_fields_in_range [OF this] show ?thesis by blast
qed

section \<open>The occurrence index over every sequence of calls\<close>

abbreviation fresh_scheduler :: "string option \<Rightarrow> SchedulerService" where
  "fresh_scheduler path \<equiv> scheduler_new\<lparr>ss_persist_path := path\<rparr>"

abbreviation after_calls :: "sched_env \<Rightarrow> SchedOp list \<Rightarrow> SchedulerService \<Rightarrow> SchedDisk \<Rightarrow> SchedulerService" where
  "after_calls e xs s d \<equiv> fst (run (sched_step e) xs (s, d))"

lemma fresh_wf: "occs_wf e (ss_occurrences (after_calls e xs (fresh_scheduler path) d))"
  by (rule run_occs_wf) (simp add: occs_wf_def scheduler_new_def)

lemma fresh_jobs_safe: "jobs_safe e (after_calls e xs (fresh_scheduler path) d)"
  by (rule run_jobs_safe) (simp add: jobs_ok_def scheduler_new_def wf_map_def)

text \<open>C10. After any sequence of calls on a new scheduler every occurrence in the index passes the validation
  of its identity, provenance and state, and no two occurrences have the same delivery digest.\<close>

theorem occurrence_index_valid:
  "list_all (\<lambda>oc. validate_occurrence_shape e oc = Inr ())
     (ss_occurrences (after_calls e xs (fresh_scheduler path) d)) \<and>
   distinct (map oc_dedup_digest (ss_occurrences (after_calls e xs (fresh_scheduler path) d)))"
  using fresh_wf [of e xs path d] by (simp add: occs_wf_def occ_ok_def list_all_iff)

lemma terminal_receipt:
  assumes "validate_occurrence_state oc = Inr ()" "oc_state oc = OsTerminal"
  shows "\<exists>r. oc_admission_receipt oc = Some r \<and>
    wr_durable r \<and> wr_work_id r = expected_work_id oc \<and> wr_run_id r = expected_run_id oc \<and>
    wr_trigger_occurrence_id r = oc_id oc \<and> wr_automation_id r = oc_automation_id oc \<and>
    wr_revision_id r = oc_revision_id oc \<and> wr_automation_generation r = rev_generation (oc_revision oc)"
  using assms unfolding validate_occurrence_state_def expected_work_id_def expected_run_id_def
  by (cases "oc_admission_receipt oc") (auto simp: validate_receipt_for_def split: if_splits)

text \<open>After any sequence of calls on a new scheduler every fired occurrence carries the durable receipt of
  its own Work and Run, with its automation, revision and generation.\<close>

theorem fired_has_its_receipt:
  "list_all (\<lambda>oc. case oc_admission_receipt oc of
       None \<Rightarrow> False
     | Some r \<Rightarrow> wr_durable r \<and> wr_work_id r = expected_work_id oc \<and> wr_run_id r = expected_run_id oc \<and>
         wr_trigger_occurrence_id r = oc_id oc \<and> wr_automation_id r = oc_automation_id oc \<and>
         wr_revision_id r = oc_revision_id oc \<and>
         wr_automation_generation r = rev_generation (oc_revision oc))
     (filter (\<lambda>oc. oc_state oc = OsTerminal) (ss_occurrences (after_calls e xs (fresh_scheduler path) d)))"
  using fresh_wf [of e xs path d] terminal_receipt
  by (fastforce simp: occs_wf_def occ_ok_def list_all_iff validate_shape_iff)

text \<open>Over any sequence of calls no occurrence leaves the index, each keeps its identity, revision, trigger,
  payload and delivery, and a fired or cancelled occurrence never changes.\<close>

theorem resolved_occurrences_frozen:
  "list_all2 (\<lambda>oc oc'. same_delivery oc oc' \<and> (oc' = oc \<or> oc_state oc \<in> {OsPending, OsUncertain}))
     (ss_occurrences s) (take (length (ss_occurrences s)) (ss_occurrences (after_calls e xs s d)))"
proof -
  have "occs_stable (ss_occurrences s) (ss_occurrences (after_calls e xs s d))"
    using run_moves [of e "(s, d)" xs] by (auto intro: occ_moves_stable)
  moreover have "occ_is_terminal oc \<or> oc_state oc \<in> {OsPending, OsUncertain}" for oc
    by (cases "oc_state oc") (simp_all add: occ_is_terminal_def)
  ultimately show ?thesis unfolding occs_stable_def by (auto simp: list_all2_conv_all_nth)
qed

text \<open>C28. A refused call leaves the service in memory exactly as it was, whichever operation or request it was
  and whether it was refused by a check or by the state file. The four operations that cannot report a
  refusal (\<open>upsert\<close>, \<open>delete\<close>, \<open>append_notepad\<close>, \<open>pause_session\<close>) do what their checked form does when it is
  accepted; when it is refused they keep everything but the load error, which is now set, and the job
  that \<open>upsert\<close> leaves under an id that had none, and no later call writes the state file.\<close>

theorem refused_call_changes_nothing:
  "case checked_form x of
     None \<Rightarrow> (case sched_call e x (s, d) of (accepted, s', d') \<Rightarrow> accepted \<or> s' = s)
   | Some y \<Rightarrow>
       (case sched_call e y (s, d) of (accepted, s1, d1) \<Rightarrow>
          if accepted then sched_step e x (s, d) = (s1, d1)
          else s1 = s \<and> poisoned_by s (fst (sched_step e x (s, d))) \<and>
               snd (run (sched_step e) (x # xs) (s, d)) = d1)"
proof (cases "checked_form x")
  case None
  then show ?thesis using sched_call_checked [OF None, of s e d] by (auto simp: call_law_def split: prod.splits if_splits)
next
  case (Some y)
  then have "checked_form y = None" by (cases x) auto
  note law = sched_call_checked [OF this, of s e d]
  obtain ok s1 d1 where y: "sched_call e y (s, d) = (ok, s1, d1)" by (cases "sched_call e y (s, d)")
  obtain s' d' where x: "sched_step e x (s, d) = (s', d')" by (cases "sched_step e x (s, d)")
  from legacy_call [OF Some law] have w: "d' = d1" "if ok then s' = s1 else poisoned_by s s'"
    using y x by (auto simp: wrapped_def sched_step_def split: if_splits)
  show ?thesis
  proof (cases ok)
    case True
    then show ?thesis using Some y x w by simp
  next
    case False
    with law y have "s1 = s" by (simp add: call_law_def)
    with False show ?thesis using Some y x w poisoned_never_writes [OF poisoned_error] by simp
  qed
qed

text \<open>C29. When the state file could not be loaded, no sequence of calls writes it.\<close>

theorem unreadable_store_never_overwritten:
  assumes "load_or_new_checked e path d = Inl err"
  shows "snd (run (sched_step e) xs (load_or_new e path d, d)) = d"
  using assms by (intro poisoned_never_writes) (simp add: load_or_new_def)

theorem unreadable_store_witness:
  "snd (run (sched_step wit_env) [SoPause ''m'', SoRpc ''scheduler/battery'' (JvObj [])]
     (load_or_new wit_env ''p'' (wit_sched_disk\<lparr>dk_file := Garbled\<rparr>), wit_sched_disk\<lparr>dk_file := Garbled\<rparr>)) =
   wit_sched_disk\<lparr>dk_file := Garbled\<rparr>"
  by (rule unreadable_store_never_overwritten) (simp add: load_or_new_checked_def)

section \<open>Restarts\<close>

lemma sorted_store_again: "persisted (reopened path s) = persisted s"
  by (simp add: persisted_def reopened_def o_def sort_key_id_if_sorted)

text \<open>C11. After any sequence of calls on a new scheduler, an answered request has written a state file from
  which a restart rebuilds the same jobs, occurrences and generation counters, provided the decoder reads
  that document back and the content hashes in it do not collide.\<close>

theorem answered_request_survives_restart:
  assumes "sched_handle e meth params (after_calls e xs (fresh_scheduler (Some path)) d0) d = (Inr out, s, d')"
    and "se_parse_store e (store_json (persisted s)) = Some (persisted s)"
    and "distinct (map oc_id (ss_occurrences s))" "distinct (map jb_automation_id (map snd (ss_jobs s)))"
  shows "\<exists>t. load_or_new_checked e path d' = Inr t \<and>
    lookup (ss_jobs t) = lookup (ss_jobs s) \<and> mset (ss_occurrences t) = mset (ss_occurrences s) \<and>
    ss_generation_counters t = ss_generation_counters s \<and> persisted t = persisted s"
proof -
  let ?s0 = "after_calls e xs (fresh_scheduler (Some path)) d0"
  have step: "fst (run (sched_step e) [SoRpc meth params] (?s0, d)) = s"
    using assms(1) by (simp add: sched_step_def outcome_def)
  have jobs: "jobs_ok e s"
    using run_jobs_safe [of "(?s0, d)" e "[SoRpc meth params]"] fresh_jobs_safe step handle_answered(1,2) [OF assms(1)]
    by simp
  have wf: "occs_wf e (ss_occurrences s)"
    using run_occs_wf [of e "(?s0, d)" "[SoRpc meth params]"] fresh_wf step by simp
  have "ss_persist_path ?s0 = Some path"
    using run_host_kept [where e = e and xs = xs and sd = "(fresh_scheduler (Some path), d0)"] by simp
  then have "dk_file d' = Document (store_json (persisted s))" using handle_answered(3) [OF assms(1)] by blast
  then have "load_or_new_checked e path d' = Inr (reopened path s)"
    using wf by (intro load_persisted jobs assms(2-4)) (auto simp: occs_wf_def occ_ok_def)
  then show ?thesis using reopened_contents [OF jobs] sorted_store_again by blast
qed

lemma wit_upsert:
  "sched_handle wit_env ''scheduler/upsert''
     (JvObj [(''id'', JvStr ''m''), (''name'', JvStr ''name''), (''sessionId'', JvStr ''s''), (''trigger'', JvNull)])
     (fresh_scheduler (Some ''p'')) wit_sched_disk =
   (Inr (ok_id_json ''m''), wit_service,
    \<lparr> dk_file = Document (store_json (persisted wit_service)), dk_writes = 2 \<rparr>)"
proof -
  have cand: "upsert_candidate wit_env ''m'' ''name'' ''s'' TsManual [OnlineSearch ''q''] None None 0
      (fresh_scheduler (Some ''p'')) = wit_job"
    by (simp add: upsert_candidate_def upsert_base_def upsert_fields_def upsert_version_def upsert_schedule_def
        scheduler_new_def job_new_with_generation_def u64_sat_add_def u64_max_def revision_id_for_def
        content_addressed_revision_id_for_generation_def revision_content_digest_def wit_job_def
        trusted_automation_id_def compute_next_run_def)
  have ok: "validate_job_definition wit_job = Inr ()" using wit_job_loadable by (simp add: job_loadable_def)
  have io: "se_io wit_env n = PioOk" "se_parse_trigger wit_env v = Some TsManual" "se_clock wit_env = 0"
    "se_parse_steps wit_env v = Some [OnlineSearch ''q'']" for n v
    by (simp_all add: wit_env_def)
  have healthy: "ss_load_error (fresh_scheduler (Some ''p'')) = None" by (simp add: scheduler_new_def)
  have hw: "ss_load_error wit_service = None" "ss_persist_path wit_service = Some ''p''"
    by (simp_all add: wit_service_def scheduler_new_def)
  have persist: "sched_persist wit_env wit_service d =
      (Inr (), \<lparr> dk_file = Document (store_json (persisted wit_service)), dk_writes = Suc (dk_writes d) \<rparr>)" for d
    by (cases d) (simp add: sched_persist_def ensure_healthy_def io hw Let_def)
  have up: "upsert_checked_with_enabled wit_env ''m'' ''name'' ''s'' TsManual [OnlineSearch ''q''] None None 0
      (fresh_scheduler (Some ''p'')) wit_sched_disk =
      (Inr (), wit_service, \<lparr> dk_file = Document (store_json (persisted wit_service)), dk_writes = 1 \<rparr>)"
  proof -
    have "put_job ''m'' wit_job (fresh_scheduler (Some ''p''))\<lparr>ss_generation_counters :=
        bump_counter ''m'' (jb_generation wit_job) (ss_generation_counters (fresh_scheduler (Some ''p'')))\<rparr> = wit_service"
      by (simp add: put_job_def bump_counter_def wit_service_def scheduler_new_def) (simp add: wit_job_def)
    then show ?thesis
      unfolding upsert_checked_with_enabled_def cand Let_def ok
      by (simp add: when_healthy_def ensure_healthy_def healthy sched_commit_def persist put_job_def wit_sched_disk_def)
  qed
  show ?thesis
    by (simp add: sched_handle_def sched_handle_inner_def when_healthy_def ensure_healthy_def healthy rpc_upsert_def
        with_str_def str_param_def str_param_or_def value_param_def now_param_def Let_def io up
        reply_def persist)
qed

theorem restart_witness:
  "\<exists>t. load_or_new_checked wit_env ''p''
      \<lparr> dk_file = Document (store_json (persisted wit_service)), dk_writes = 2 \<rparr> = Inr t \<and>
    lookup (ss_jobs t) = lookup (ss_jobs wit_service) \<and> mset (ss_occurrences t) = mset (ss_occurrences wit_service) \<and>
    ss_generation_counters t = ss_generation_counters wit_service \<and> persisted t = persisted wit_service"
  by (rule answered_request_survives_restart [where xs = "[]" and d0 = wit_sched_disk, unfolded run.simps fst_conv, OF wit_upsert])
    (simp_all add: wit_env_def, simp_all add: wit_service_def scheduler_new_def)

section \<open>Deliveries\<close>

text \<open>C17. Delivering a manual request again with its key, after any sequence of calls in between that leaves the
  job's generation (so it was not deleted and defined anew), admits nothing and changes neither the service
  nor the state file. While the service is healthy and the job registered, enabled and not paused, it
  returns the row of the first delivery when the payload is the same and is refused when it differs;
  otherwise it is refused.\<close>

theorem manual_redelivery_idempotent:
  assumes "admit_manual_with_key e i payload key0 now s d = (Inr oc, s1, d1)"
    and "normalize_idempotency_key key0 ''manual'' = Inr key" "lookup (ss_jobs s) i = Some job"
    and "run (sched_step e) xs (s1, d1) = (s2, d2)"
    and "\<And>job2. lookup (ss_jobs s2) i = Some job2 \<Longrightarrow>
      jb_automation_id job2 = jb_automation_id job \<and> jb_generation job2 = jb_generation job"
  shows "\<exists>r. admit_manual_with_key e i payload2 key0 now2 s2 d2 = (r, s2, d2) \<and>
    (if ss_load_error s2 = None \<and> (\<exists>job2. lookup (ss_jobs s2) i = Some job2 \<and> jb_enabled job2 \<and> \<not> jb_paused job2)
     then if digest_json e payload2 = digest_json e payload then \<exists>oc'. r = Inr oc' \<and> same_delivery oc oc'
          else r = Inl (ErrKeyReused key)
     else isl r)"
proof (cases "ss_load_error s2 = None \<and> (\<exists>job2. lookup (ss_jobs s2) i = Some job2 \<and> jb_enabled job2 \<and> \<not> jb_paused job2)")
  case False
  then show ?thesis
    by (auto simp: admit_manual_with_key_def when_healthy_def ensure_healthy_def assms(2) split: option.splits)
next
  case True
  then obtain job2 where j2: "lookup (ss_jobs s2) i = Some job2" "jb_enabled job2" "\<not> jb_paused job2"
    and healthy: "ss_load_error s2 = None" by blast
  note same = assms(5) [OF j2(1)]
  let ?k = "dedup_digest_for e (jb_automation_id job2) (jb_generation job2) OtManual key"
  have row: "find (\<lambda>oc. oc_dedup_digest oc = ?k) (ss_occurrences s1) = Some oc"
    and payload: "oc_payload_digest oc = digest_json e payload"
    using manual_admitted_row [OF assms(1-3)] same by simp_all
  have "occs_stable (ss_occurrences s1) (ss_occurrences s2)"
    using run_moves [of e "(s1, d1)" xs] assms(4) by (auto intro: occ_moves_stable)
  from find_stable [OF row this] obtain oc' where
    oc': "find (\<lambda>oc. oc_dedup_digest oc = ?k) (ss_occurrences s2) = Some oc'" "same_delivery oc oc'" by blast
  have "admit_manual_with_key e i payload2 key0 now2 s2 d2 =
      (if digest_json e payload2 = oc_payload_digest oc' then (Inr oc', s2, d2) else (Inl (ErrKeyReused key), s2, d2))"
    using transactional_again [OF oc'(1) normalize_twice [OF assms(2)], of payload2 now2 d2] assms(2) j2 healthy
    by (simp add: admit_manual_with_key_def when_healthy_def ensure_healthy_def)
  then show ?thesis using True oc'(2) payload by (auto simp: same_delivery_def)
qed

definition wit_row :: AutomationOccurrence where
  "wit_row = new_occurrence wit_env wit_job OtManual (digest_json wit_env JvNull)
     (dedup_digest_for wit_env (jb_automation_id wit_job) (jb_generation wit_job) OtManual ''k'') ''k'' 0"

lemma wit_key: "normalize_idempotency_key ''k'' kind = Inr ''k''"
  by (simp add: normalize_idempotency_key_def str_trim_def trim_matches_def is_space_def Let_def less_char_def)

lemma wit_job_fields:
  "jb_enabled wit_job" "\<not> jb_paused wit_job" "jb_trigger wit_job = TsManual" "jb_generation wit_job = 1"
  "jb_revision wit_job = 1" "lookup (ss_jobs wit_service) ''m'' = Some wit_job" "ss_occurrences wit_service = []"
  "jb_policy wit_job = schedule_policy_default" "jb_steps wit_job = [OnlineSearch ''q'']"
  by (simp_all add: wit_job_def wit_service_def scheduler_new_def)

lemma wit_row_valid: "validate_occurrence_shape wit_env wit_row = Inr ()"
  unfolding wit_row_def
  by (rule fresh_occurrence_valid [OF wit_job_loadable _ _ _ wit_key])
    (simp_all add: wit_job_fields u64_max_def)

theorem manual_redelivery_witness:
  "\<exists>oc. same_delivery wit_row oc \<and>
     admit_manual_with_key wit_env ''m'' JvNull ''k'' 9
       (set_battery True (wit_service\<lparr>ss_occurrences := [wit_row]\<rparr>)) wit_sched_disk =
     (Inr oc, set_battery True (wit_service\<lparr>ss_occurrences := [wit_row]\<rparr>), wit_sched_disk)"
proof -
  let ?s = "wit_service\<lparr>ss_occurrences := [wit_row]\<rparr>"
  have found: "find (\<lambda>oc. oc_dedup_digest oc =
      dedup_digest_for wit_env (jb_automation_id wit_job) (jb_generation wit_job) OtManual ''k'') (ss_occurrences ?s) =
      Some wit_row"
    by (simp add: wit_row_def new_occurrence_def)
  have healthy: "ss_load_error ?s = None" by (simp add: wit_service_def scheduler_new_def)
  have payload: "oc_payload_digest wit_row = digest_json wit_env JvNull" by (simp add: wit_row_def new_occurrence_def)
  have first: "admit_manual_with_key wit_env ''m'' JvNull ''k'' 0 ?s wit_sched_disk = (Inr wit_row, ?s, wit_sched_disk)"
    using transactional_again [OF found wit_key] wit_job_fields payload healthy
    by (simp add: admit_manual_with_key_def when_healthy_def ensure_healthy_def wit_key)
  show ?thesis
    using manual_redelivery_idempotent [OF first wit_key, of wit_job "[SoBattery True]"
        "set_battery True ?s" wit_sched_disk JvNull 9] wit_job_fields healthy
    by (auto simp: sched_step_def set_battery_def)
qed

text \<open>A manual request with a key that was not delivered before, on an enabled manual job below its
  frequency cap, is admitted: one valid pending row is appended.\<close>

theorem manual_request_admitted:
  assumes "io_ready e s d" "jobs_ok e s" "lookup (ss_jobs s) i = Some job" "jb_enabled job" "\<not> jb_paused job"
    and "jb_trigger job = TsManual" "jb_generation job \<le> u64_max" "jb_revision job \<le> u64_max"
    and "\<And>b. length (de_sha e b) = 32"
    and "normalize_idempotency_key key0 ''manual'' = Inr key" "frequency_admits job now"
    and "dedup_digest_for e (jb_automation_id job) (jb_generation job) OtManual key \<notin>
      oc_dedup_digest ` set (ss_occurrences s)"
  shows "\<exists>oc d'. admit_manual_with_key e i payload key0 now s d =
      (Inr oc, s\<lparr>ss_occurrences := ss_occurrences s @ [oc]\<rparr>, d') \<and>
    is_pending oc \<and> validate_occurrence_shape e oc = Inr () \<and>
    oc_automation_id oc = jb_automation_id job \<and> oc_revision oc = revision_snapshot job"
proof -
  let ?k = "dedup_digest_for e (jb_automation_id job) (jb_generation job) OtManual key"
  define oc where "oc = new_occurrence e job OtManual (digest_json e payload) ?k key now"
  have key: "normalize_idempotency_key key ''delivery'' = Inr key" using assms(10) by (rule normalize_twice)
  have "job_loadable e job" using assms(2,3) by (auto simp: jobs_ok_def job_at_def)
  then have valid: "validate_occurrence_shape e oc = Inr ()"
    unfolding oc_def using assms(6) by (intro fresh_occurrence_valid [OF _ assms(7-10)]) simp_all
  have none: "find (\<lambda>oc. oc_dedup_digest oc = ?k) (ss_occurrences s) = None"
    using assms(12) by (fastforce simp: find_None_iff intro: rev_image_eqI)
  let ?s1 = "s\<lparr>ss_occurrences := ss_occurrences s @ [oc]\<rparr>"
  obtain d' where commit: "sched_commit e s [oc] ?s1 d = (Inr [oc], ?s1, d')"
    using commit_ready [OF assms(1), of ?s1 "[oc]"] by auto
  have "admit_manual_with_key e i payload key0 now s d = (Inr oc, ?s1, d')"
    using commit valid none key assms(3-5,10,11)
    by (simp add: admit_manual_with_key_def when_ready [OF assms(1)] admit_selected_transactional_def
        admit_selected_in_memory_def admit_loop.simps(2) Let_def oc_def [symmetric])
  then show ?thesis
    using valid by (auto simp: oc_def new_occurrence_def is_pending_def revision_snapshot_def)
qed

theorem manual_request_witness:
  "\<exists>oc d'. admit_manual_with_key wit_env ''m'' JvNull ''k'' 5 wit_service wit_sched_disk =
      (Inr oc, wit_service\<lparr>ss_occurrences := ss_occurrences wit_service @ [oc]\<rparr>, d') \<and>
    is_pending oc \<and> validate_occurrence_shape wit_env oc = Inr () \<and>
    oc_automation_id oc = jb_automation_id wit_job \<and> oc_revision oc = revision_snapshot wit_job"
  by (rule manual_request_admitted [OF wit_ready wit_jobs_ok _ _ _ _ _ _ _ wit_key])
    (simp_all add: wit_job_fields u64_max_def frequency_admits_def schedule_policy_default_def fires_in_window_def,
      simp add: wit_job_def)

section \<open>Advancement\<close>

lemma sched_occurrence_id: "sched_occurrence i s = Some oc \<Longrightarrow> oc_id oc = i"
  by (auto simp: sched_occurrence_def find_Some_iff)

lemma receipt_issued:
  assumes "receipt_for_occurrence i s = Inr r" "sched_occurrence i s = Some oc"
    and "validate_occurrence_shape e oc = Inr ()"
  shows "validate_receipt_for oc r (expected_work_id oc) (expected_run_id oc) = Inr ()"
  using assms sched_occurrence_id [OF assms(2)]
  by (auto simp: receipt_for_occurrence_def admission_receipt_new_def validate_receipt_for_def validate_shape_iff
      identity_ok_def split: sum.splits)

text \<open>C18. The receipt issued for an open scheduled occurrence is accepted: the occurrence becomes terminal, and
  its job gets a next run after both the scheduled and the current time, or none, so it is not due at once
  again.\<close>

theorem fired_schedule_moves_on:
  assumes "io_ready e s d" "jobs_ok e s" "sched_occurrence i s = Some oc"
    and "oc_state oc \<in> {OsPending, OsUncertain}" "oc_trigger oc = OtSchedule t"
    and "validate_occurrence_shape e oc = Inr ()" "receipt_for_occurrence i s = Inr r"
    and "job_id_for_automation (oc_automation_id oc) s = Some k" "lookup (ss_jobs s) k = Some j"
    and "trigger_time_ok (jb_trigger j) (max now t)"
  shows "\<exists>s' d' j'. mark_occurrence_fired_with_receipt e i now r s d = (Inr (), s', d') \<and>
    occurrence_state i s' = Some OsTerminal \<and> lookup (ss_jobs s') k = Some j' \<and>
    jb_last_fired_at j' = Some now \<and>
    (case jb_next_run_at j' of None \<Rightarrow> True | Some u \<Rightarrow> max now t < u) \<and> k \<notin> set (sched_due now s')"
proof -
  let ?j = "fired_job now (oc_trigger oc) j"
  let ?s = "put_job k ?j (put_occurrence i (\<lambda>_. fired_occurrence now r oc) s)"
  have open_row: "\<not> occ_is_terminal oc" using assms(4) by (auto simp: occ_is_terminal_def)
  have "validate_receipt_for oc r (expected_work_id oc) (expected_run_id oc) = Inr ()"
    using receipt_issued [OF assms(7,3,6)] .
  then obtain d' where fired: "mark_occurrence_fired_with_receipt e i now r s d = (Inr (), ?s, d')"
    using mark_fired_accepts [OF assms(1,3,6) open_row _ assms(8,9)] by blast
  have next_run: "max now t < u" if "jb_next_run_at ?j = Some u" for u
    using fired_job_next [OF assms(10)] that by (simp add: assms(5))
  have job: "lookup (ss_jobs ?s) k = Some ?j" by simp
  have "wf_map (ss_jobs ?s)" using assms(2) by (simp add: jobs_ok_def put_job_def put_occurrence_def)
  then have "k \<notin> set (sched_due now ?s)"
    by (rule not_due_before [OF _ job]) (use next_run in fastforce)
  moreover have "occurrence_state i ?s = Some OsTerminal"
    using find_replace_first [OF assms(3) [unfolded sched_occurrence_def], of "\<lambda>_. fired_occurrence now r oc"]
      sched_occurrence_id [OF assms(3)]
    by (simp add: occurrence_state_def sched_occurrence_def put_job_def put_occurrence_def)
      (simp add: fired_occurrence_def)
  moreover have "jb_last_fired_at ?j = Some now"
    by (simp add: fired_job_def Let_def split: OccurrenceTrigger.splits)
  ultimately show ?thesis using fired job next_run by (auto split: option.splits)
qed

definition wit_timer :: Job where
  "wit_timer = wit_job\<lparr>jb_trigger := TsInterval 60, jb_next_run_at := Some 60\<rparr>"

definition wit_due :: AutomationOccurrence where
  "wit_due = new_occurrence wit_env wit_timer (OtSchedule 60) (digest_json wit_env (schedule_payload 60))
     (dedup_digest_for wit_env (jb_automation_id wit_timer) (jb_generation wit_timer) (OtSchedule 60) ''k'') ''k'' 60"

lemma wit_timer_loadable: "job_loadable wit_env wit_timer"
  using wit_job_loadable
  by (simp add: job_loadable_def wit_timer_def validate_job_definition_def revision_id_for_def
      content_addressed_revision_id_for_generation_def revision_content_digest_def wit_job_fields Let_def
      split: if_splits)

theorem fired_schedule_witness:
  "\<exists>s' d' j'. mark_occurrence_fired_with_receipt wit_env (oc_id wit_due) 70
      (admission_receipt_new (expected_work_id wit_due) (expected_run_id wit_due) (oc_automation_id wit_due)
        (oc_revision_id wit_due) (oc_id wit_due) 1)
      (wit_service\<lparr>ss_jobs := [(''m'', wit_timer)], ss_occurrences := [wit_due]\<rparr>) wit_sched_disk = (Inr (), s', d') \<and>
    occurrence_state (oc_id wit_due) s' = Some OsTerminal \<and> lookup (ss_jobs s') ''m'' = Some j' \<and>
    jb_last_fired_at j' = Some 70 \<and>
    (case jb_next_run_at j' of None \<Rightarrow> True | Some u \<Rightarrow> max 70 60 < u) \<and> ''m'' \<notin> set (sched_due 70 s')"
proof -
  let ?s = "wit_service\<lparr>ss_jobs := [(''m'', wit_timer)], ss_occurrences := [wit_due]\<rparr>"
  have fields: "jb_id wit_timer = ''m''" "jb_generation wit_timer = 1" "jb_revision wit_timer = 1"
    "jb_trigger wit_timer = TsInterval 60"
    by (simp_all add: wit_timer_def wit_job_def)
  have valid: "validate_occurrence_shape wit_env wit_due = Inr ()"
    unfolding wit_due_def
    by (rule fresh_occurrence_valid [OF wit_timer_loadable _ _ _ wit_key]) (simp_all add: fields u64_max_def)
  have rid: "oc_revision_id wit_due = content_id wit_env (rev_automation wit_env (revision_snapshot wit_timer)) 1 1"
    using wit_timer_loadable by (simp add: wit_due_def new_occurrence_def job_loadable_def revision_id_for_def fields)
  have ready: "io_ready wit_env ?s wit_sched_disk" using wit_ready by (simp add: io_ready_def)
  have jobs: "jobs_ok wit_env ?s"
    using wit_timer_loadable by (auto simp: jobs_ok_def job_at_def wit_service_def wf_map_def fields split: if_splits)
  have row: "sched_occurrence (oc_id wit_due) ?s = Some wit_due" by (simp add: sched_occurrence_def)
  have receipt: "receipt_for_occurrence (oc_id wit_due) ?s = Inr (admission_receipt_new (expected_work_id wit_due)
      (expected_run_id wit_due) (oc_automation_id wit_due) (oc_revision_id wit_due) (oc_id wit_due) 1)"
  proof -
    have "parse_revision_id (oc_revision_id wit_due) = Inr \<lparr> ri_generation = 1, ri_revision = 1,
        ri_digest = revision_content_digest wit_env (rev_automation wit_env (revision_snapshot wit_timer)) 1 \<rparr>"
      unfolding rid by (rule parse_content_id) (simp_all add: u64_max_def)
    then show ?thesis by (simp add: receipt_for_occurrence_def row)
  qed
  show ?thesis
    by (rule fired_schedule_moves_on [OF ready jobs row _ _ valid receipt, where j = wit_timer and t = 60])
      (simp_all add: wit_due_def new_occurrence_def job_id_for_automation_def trigger_time_ok_def fields u64_max_def)
qed

section \<open>Compilation\<close>

text \<open>A validated occurrence of a trusted automation with at least one supported step compiles to Work that
  carries exactly its automation, revision, generation and occurrence, with one step per automation step and
  no agent.\<close>

theorem admitted_occurrence_compiles:
  assumes "validate_occurrence_shape e oc = Inr ()" "\<not> starts_with (oc_idempotency_key oc) ''legacy:''"
    and "oc_automation_id oc = trusted_automation_id e reg" "\<And>b. length (de_sha e b) = 32"
    and "ar_steps (oc_revision oc) \<noteq> []" "validate_steps (ar_steps (oc_revision oc)) = Inr ()"
  shows "\<exists>spec. compile_work e (rev_automation e (oc_revision oc)) (oc_revision_id oc) (oc_id oc) = Inr spec \<and>
    ws_provenance spec = \<lparr> ap_automation_id = oc_automation_id oc, ap_revision_id = oc_revision_id oc,
      ap_automation_generation = rev_generation (oc_revision oc), ap_trigger_occurrence_id = oc_id oc \<rparr> \<and>
    length (ws_steps spec) = length (ar_steps (oc_revision oc)) \<and> \<not> ws_agent_required spec"
  using compile_validated [OF assms] .

theorem admitted_occurrence_witness:
  "\<exists>spec. compile_work wit_env (rev_automation wit_env (oc_revision wit_row)) (oc_revision_id wit_row) (oc_id wit_row) =
      Inr spec \<and>
    ws_provenance spec = \<lparr> ap_automation_id = oc_automation_id wit_row, ap_revision_id = oc_revision_id wit_row,
      ap_automation_generation = rev_generation (oc_revision wit_row), ap_trigger_occurrence_id = oc_id wit_row \<rparr> \<and>
    length (ws_steps spec) = length (ar_steps (oc_revision wit_row)) \<and> \<not> ws_agent_required spec"
proof (rule admitted_occurrence_compiles [OF wit_row_valid])
  show "oc_automation_id wit_row = trusted_automation_id wit_env ''m''"
    by (simp add: wit_row_def new_occurrence_def wit_job_def trusted_automation_id_def)
qed (simp_all add: wit_row_def new_occurrence_def revision_snapshot_def starts_with_def wit_job_fields)

section \<open>Rows of older versions\<close>

text \<open>A state file with a fired row that has no receipt, as older versions wrote it, is refused as a whole
  although such rows are meant to be quarantined.\<close>

theorem legacy_firing_locks_the_store:
  assumes "dk_file d = Document v" "drop_retired_execution_fields v = JvObj m"
    and "se_parse_store e (JvObj m) = Some st" "oc \<in> set (ps_occurrences st)"
    and "oc_state oc \<in> {OsPending, OsTerminal}" "oc_admission_receipt oc = None" "oc_fired_at oc = Some t"
  shows "\<exists>err. load_or_new_checked e path d = Inl err \<and>
    ss_jobs (load_or_new e path d) = [] \<and> ss_load_error (load_or_new e path d) = Some err"
proof -
  have "\<exists>err. install_all (install_occurrence e) (ps_occurrences st) s = Inl err" for s
    by (rule install_all_refuses [OF assms(4)]) (use legacy_firing_refused assms(5-7) in blast)
  then have "\<exists>err. load_or_new_checked e path d = Inl err"
    using assms(1-3) by (auto simp: load_or_new_checked_def install_loaded_def Let_def split: sum.splits)
  then show ?thesis by (auto simp: load_or_new_def scheduler_new_def)
qed

definition wit_old_store :: PersistedScheduler where
  "wit_old_store =
     \<lparr> ps_version = 2, ps_jobs = [wit_job],
       ps_occurrences = [wit_row\<lparr>oc_state := OsTerminal, oc_fired_at := Some 7\<rparr>],
       ps_generation_counters = [(''m'', 1)] \<rparr>"

definition wit_old_env :: sched_env where
  "wit_old_env = wit_env\<lparr>se_parse_store := (\<lambda>_. Some wit_old_store)\<rparr>"

theorem legacy_firing_witness:
  "\<exists>err. load_or_new_checked wit_old_env ''p'' (wit_sched_disk\<lparr>dk_file := Document (JvObj [])\<rparr>) = Inl err \<and>
    ss_jobs (load_or_new wit_old_env ''p'' (wit_sched_disk\<lparr>dk_file := Document (JvObj [])\<rparr>)) = [] \<and>
    ss_load_error (load_or_new wit_old_env ''p'' (wit_sched_disk\<lparr>dk_file := Document (JvObj [])\<rparr>)) = Some err"
  by (rule legacy_firing_locks_the_store
      [where v = "JvObj []" and m = "[]" and st = wit_old_store and t = 7
        and oc = "wit_row\<lparr>oc_state := OsTerminal, oc_fired_at := Some 7\<rparr>"])
    (simp_all add: wit_old_env_def wit_old_store_def wit_row_def new_occurrence_def)

end
