(* ===== verification/Text_Render.thy ===== *)
theory Text_Render
  imports Prelude
begin

text \<open>
  Text the sources render: the non-ASCII marks of their messages as UTF-8 bytes, the \<open>{:?}\<close> form of a
  string, and \<open>str::lines\<close>.
\<close>

definition arrow :: string where
  "arrow = [CHR 0xE2, CHR 0x86, CHR 0x92]"

definition long_dash :: string where
  "long_dash = '' '' @ [CHR 0xE2, CHR 0x80, CHR 0x94] @ '' ''"

definition en_dash :: string where
  "en_dash = [CHR 0xE2, CHR 0x80, CHR 0x93]"

definition ellipsis :: string where
  "ellipsis = [CHR 0xE2, CHR 0x80, CHR 0xA6]"

definition line_feed :: string where
  "line_feed = [CHR 0x0A]"

text \<open>Exact for printable ASCII, tabs, line breaks, carriage returns and NUL; other bytes are kept.\<close>

fun escape_char :: "char \<Rightarrow> string" where
  "escape_char c =
     (if c = CHR 0x22 then [CHR 0x5C, CHR 0x22]
      else if c = CHR 0x5C then [CHR 0x5C, CHR 0x5C]
      else if c = CHR 0x09 then [CHR 0x5C, CHR ''t'']
      else if c = CHR 0x0A then [CHR 0x5C, CHR ''n'']
      else if c = CHR 0x0D then [CHR 0x5C, CHR ''r'']
      else if c = CHR 0x00 then [CHR 0x5C, CHR ''0'']
      else [c])"

definition str_debug :: "string \<Rightarrow> string" where
  "str_debug s = [CHR 0x22] @ concat (map escape_char s) @ [CHR 0x22]"

definition chomp_cr :: "string \<Rightarrow> string" where
  "chomp_cr s = (if s \<noteq> [] \<and> last s = CHR 0x0D then butlast s else s)"

text \<open>A final line break does not start another line; a carriage return before a line break is dropped,
  and one at the very end is kept.\<close>

definition str_lines :: "string \<Rightarrow> string list" where
  "str_lines s =
     (let ps = split_on (CHR 0x0A) s
      in if last ps = [] then map chomp_cr (butlast ps) else map chomp_cr (butlast ps) @ [last ps])"

text \<open>A byte that continues a character.\<close>

definition is_continuation :: "char \<Rightarrow> bool" where
  "is_continuation c \<longleftrightarrow> CHR 0x80 \<le> c \<and> c < CHR 0xC0"

end
