(* ===== verification/Exec_Types.thy ===== *)
theory Exec_Types
  imports Work_State Text_Render
begin

text \<open>
  The records of the execution kernel (\<open>core/src/execution.rs\<close>): phases and their transitions,
  runtime manifests, pending approvals, the \<open>Work\<close> record and the kernel that holds the records.

  The source's \<open>Work\<close> is \<open>ExecWork\<close> and its \<open>RuntimeManifest\<close> is \<open>ExecManifest\<close> (the gateway has types
  of those names). JSON values, SHA-256, the rendering of floats and the clock come from a \<open>KernelEnv\<close>.
  Errors are the strings the code returns.
\<close>

section \<open>Phases\<close>

datatype ExecutionTrigger = TgChat | TgPlan | TgScheduler | TgAcp | TgSubagent

fun trigger_str :: "ExecutionTrigger \<Rightarrow> string" where
  "trigger_str TgChat = ''chat''"
| "trigger_str TgPlan = ''plan''"
| "trigger_str TgScheduler = ''scheduler''"
| "trigger_str TgAcp = ''acp''"
| "trigger_str TgSubagent = ''subagent''"

datatype ExecutionPhase =
    EpCreated
  | EpPlanning
  | EpReady
  | EpRunning
  | EpWaitingTool
  | EpWaitingApproval
  | EpWaitingUser
  | EpCheckpointed
  | EpVerifying
  | EpCompleted
  | EpFailed
  | EpCancelled
  | EpPaused
  | EpRecoverable

fun phase_str :: "ExecutionPhase \<Rightarrow> string" where
  "phase_str EpCreated = ''created''"
| "phase_str EpPlanning = ''planning''"
| "phase_str EpReady = ''ready''"
| "phase_str EpRunning = ''running''"
| "phase_str EpWaitingTool = ''waiting_tool''"
| "phase_str EpWaitingApproval = ''waiting_approval''"
| "phase_str EpWaitingUser = ''waiting_user''"
| "phase_str EpCheckpointed = ''checkpointed''"
| "phase_str EpVerifying = ''verifying''"
| "phase_str EpCompleted = ''completed''"
| "phase_str EpFailed = ''failed''"
| "phase_str EpCancelled = ''cancelled''"
| "phase_str EpPaused = ''paused''"
| "phase_str EpRecoverable = ''recoverable''"

text \<open>The \<open>{:?}\<close> rendering of a phase.\<close>

fun phase_debug :: "ExecutionPhase \<Rightarrow> string" where
  "phase_debug EpCreated = ''Created''"
| "phase_debug EpPlanning = ''Planning''"
| "phase_debug EpReady = ''Ready''"
| "phase_debug EpRunning = ''Running''"
| "phase_debug EpWaitingTool = ''WaitingTool''"
| "phase_debug EpWaitingApproval = ''WaitingApproval''"
| "phase_debug EpWaitingUser = ''WaitingUser''"
| "phase_debug EpCheckpointed = ''Checkpointed''"
| "phase_debug EpVerifying = ''Verifying''"
| "phase_debug EpCompleted = ''Completed''"
| "phase_debug EpFailed = ''Failed''"
| "phase_debug EpCancelled = ''Cancelled''"
| "phase_debug EpPaused = ''Paused''"
| "phase_debug EpRecoverable = ''Recoverable''"

definition parse_phase :: "string \<Rightarrow> ExecutionPhase option" where
  "parse_phase s =
     (if s = ''created'' then Some EpCreated
      else if s = ''planning'' then Some EpPlanning
      else if s = ''ready'' then Some EpReady
      else if s = ''running'' then Some EpRunning
      else if s = ''waiting_tool'' then Some EpWaitingTool
      else if s = ''waiting_approval'' then Some EpWaitingApproval
      else if s = ''waiting_user'' then Some EpWaitingUser
      else if s = ''checkpointed'' then Some EpCheckpointed
      else if s = ''verifying'' then Some EpVerifying
      else if s = ''completed'' then Some EpCompleted
      else if s = ''failed'' then Some EpFailed
      else if s = ''cancelled'' then Some EpCancelled
      else if s = ''paused'' then Some EpPaused
      else if s = ''recoverable'' then Some EpRecoverable
      else None)"

definition phase_is_terminal :: "ExecutionPhase \<Rightarrow> bool" where
  "phase_is_terminal p \<longleftrightarrow> p = EpCompleted \<or> p = EpFailed \<or> p = EpCancelled"

fun from_work_state :: "WorkState \<Rightarrow> ExecutionPhase" where
  "from_work_state WsCreated = EpCreated"
| "from_work_state WsPlanning = EpPlanning"
| "from_work_state WsReady = EpReady"
| "from_work_state WsRunning = EpRunning"
| "from_work_state WsWaitingTool = EpWaitingTool"
| "from_work_state WsWaitingApproval = EpWaitingApproval"
| "from_work_state WsWaitingUser = EpWaitingUser"
| "from_work_state WsCheckpointed = EpCheckpointed"
| "from_work_state WsVerifying = EpVerifying"
| "from_work_state WsCompleted = EpCompleted"
| "from_work_state WsFailed = EpFailed"
| "from_work_state WsCancelled = EpCancelled"
| "from_work_state WsPaused = EpPaused"
| "from_work_state WsRecoverable = EpRecoverable"

fun phase_edges :: "ExecutionPhase \<Rightarrow> ExecutionPhase list" where
  "phase_edges EpCreated = [EpPlanning, EpReady, EpCancelled]"
| "phase_edges EpPlanning = [EpReady, EpFailed, EpCancelled]"
| "phase_edges EpReady = [EpRunning, EpCancelled]"
| "phase_edges EpRunning =
     [EpWaitingTool, EpWaitingApproval, EpWaitingUser, EpCheckpointed, EpVerifying, EpCompleted,
      EpFailed, EpCancelled, EpPaused, EpRecoverable]"
| "phase_edges EpWaitingTool = [EpRunning, EpFailed, EpCancelled, EpPaused]"
| "phase_edges EpWaitingApproval = [EpRunning, EpFailed, EpCancelled, EpPaused]"
| "phase_edges EpWaitingUser = [EpRunning, EpFailed, EpCancelled, EpPaused]"
| "phase_edges EpCheckpointed = [EpRunning, EpFailed, EpCancelled]"
| "phase_edges EpVerifying = [EpCompleted, EpFailed, EpRecoverable]"
| "phase_edges EpPaused = [EpRunning, EpCancelled]"
| "phase_edges EpRecoverable = [EpRunning, EpFailed, EpCancelled]"
| "phase_edges EpCompleted = []"
| "phase_edges EpFailed = []"
| "phase_edges EpCancelled = []"

definition phase_can_transition :: "ExecutionPhase \<Rightarrow> ExecutionPhase \<Rightarrow> bool" where
  "phase_can_transition p q \<longleftrightarrow> q \<in> set (phase_edges p)"

text \<open>The wider relation that recovery accepts.\<close>

definition phase_transition_legal :: "ExecutionPhase \<Rightarrow> ExecutionPhase \<Rightarrow> bool" where
  "phase_transition_legal p q =
     (if p = q then True
      else if phase_is_terminal p then False
      else if p = EpReady \<and> q \<in> {EpWaitingTool, EpWaitingApproval, EpWaitingUser, EpCheckpointed} then True
      else phase_can_transition p q)"

lemma parse_phase_str [simp]: "parse_phase (phase_str p) = Some p"
  by (cases p) (simp_all add: parse_phase_def)

lemma terminal_no_edge [simp]: "phase_is_terminal p \<Longrightarrow> \<not> phase_can_transition p q"
  by (auto simp: phase_is_terminal_def phase_can_transition_def)

lemma edge_irrefl [simp]: "\<not> phase_can_transition p p"
  by (cases p) (simp_all add: phase_can_transition_def)

lemma edge_legal: "phase_can_transition p q \<Longrightarrow> phase_transition_legal p q"
  by (auto simp: phase_transition_legal_def)

lemma from_work_state_inject [simp]: "from_work_state a = from_work_state b \<longleftrightarrow> a = b"
  by (cases a; cases b) simp_all

lemma from_work_state_terminal [simp]: "phase_is_terminal (from_work_state s) = work_is_terminal s"
  by (cases s) (simp_all add: phase_is_terminal_def work_is_terminal_def)

section \<open>Records\<close>

record 'v ExecManifest =
  em_model :: string
  em_provider :: string
  em_permissions :: "string list"
  em_tools :: "string list"
  em_env_summary :: 'v

record PendingApproval =
  pn_ticket_id :: string
  pn_tool_id :: string
  pn_args_hash :: string
  pn_requested_at_ms :: nat
  pn_risk_tier :: string

record 'v ExecWork =
  xw_id :: string
  xw_parent_id :: "string option"
  xw_workspace :: string
  xw_session_id :: string
  xw_trigger :: ExecutionTrigger
  xw_objective :: string
  xw_state :: ExecutionPhase
  xw_plan :: "string option"
  xw_policy_snapshot :: string
  xw_capability_scope :: "string list"
  xw_context_snapshot :: string
  xw_checkpoint :: nat
  xw_budget_usd :: f64
  xw_event_stream :: "string list"
  xw_artifact_refs :: "string list"
  xw_approval_refs :: "string list"
  xw_verification :: "'v option"
  xw_receipt :: "'v option"
  xw_idempotency_key :: string
  xw_created_at_ms :: nat
  xw_config_hash :: string
  xw_runtime_manifest :: "'v ExecManifest option"
  xw_pending_approval :: "PendingApproval option"
  xw_journal_sequence :: nat

record 'v ExecutionKernel =
  xk_executions :: "'v ExecWork strmap"
  xk_aliases :: "string strmap"
  xk_counter :: nat

record 'v KernelEnv =
  kn_json :: "'v json_full"
  kn_arr :: "'v list \<Rightarrow> 'v"
  kn_float :: "f64 \<Rightarrow> 'v"
  kn_sha :: "string \<Rightarrow> string"
  kn_now :: nat

definition kernel_new :: "'v ExecutionKernel" where
  "kernel_new = \<lparr> xk_executions = [], xk_aliases = [], xk_counter = 0 \<rparr>"

definition exec_work_new :: "nat \<Rightarrow> string \<Rightarrow> ExecutionTrigger \<Rightarrow> string \<Rightarrow> string \<Rightarrow> 'v ExecWork" where
  "exec_work_new now i trig session objective =
     \<lparr> xw_id = i, xw_parent_id = None, xw_workspace = [], xw_session_id = session, xw_trigger = trig,
       xw_objective = objective, xw_state = EpCreated, xw_plan = None, xw_policy_snapshot = [],
       xw_capability_scope = [], xw_context_snapshot = [], xw_checkpoint = 0, xw_budget_usd = Fin 0,
       xw_event_stream = [], xw_artifact_refs = [], xw_approval_refs = [], xw_verification = None,
       xw_receipt = None, xw_idempotency_key = ''exec:'' @ i, xw_created_at_ms = now, xw_config_hash = [],
       xw_runtime_manifest = None, xw_pending_approval = None, xw_journal_sequence = 0 \<rparr>"

section \<open>Serialization\<close>

text \<open>\<open>serde_json::to_vec\<close> of a manifest: the fields in declaration order.\<close>

definition render_strings :: "('v, 'x) KernelEnv_scheme \<Rightarrow> string list \<Rightarrow> string" where
  "render_strings e xs =
     ''['' @ join_with '','' (map (\<lambda>x. j_render (kn_json e) (j_str (kn_json e) x)) xs) @ '']''"

definition manifest_bytes :: "('v, 'x) KernelEnv_scheme \<Rightarrow> 'v ExecManifest \<Rightarrow> string" where
  "manifest_bytes e m =
     (let quote = (\<lambda>x. j_render (kn_json e) (j_str (kn_json e) x))
      in ''{'' @ quote ''model'' @ '':'' @ quote (em_model m) @ '','' @
         quote ''provider'' @ '':'' @ quote (em_provider m) @ '','' @
         quote ''permissions'' @ '':'' @ render_strings e (em_permissions m) @ '','' @
         quote ''tools'' @ '':'' @ render_strings e (em_tools m) @ '','' @
         quote ''env_summary'' @ '':'' @ j_render (kn_json e) (em_env_summary m) @ ''}'')"

definition compute_hash :: "('v, 'x) KernelEnv_scheme \<Rightarrow> 'v ExecManifest \<Rightarrow> string" where
  "compute_hash e m = hex_encode (kn_sha e (manifest_bytes e m))"

definition str_list_value :: "('v, 'x) KernelEnv_scheme \<Rightarrow> string list \<Rightarrow> 'v" where
  "str_list_value e xs = kn_arr e (map (j_str (kn_json e)) xs)"

definition opt_value :: "('v, 'x) KernelEnv_scheme \<Rightarrow> 'v option \<Rightarrow> 'v" where
  "opt_value e x = (case x of None \<Rightarrow> j_null (kn_json e) | Some v \<Rightarrow> v)"

definition manifest_value :: "('v, 'x) KernelEnv_scheme \<Rightarrow> 'v ExecManifest \<Rightarrow> 'v" where
  "manifest_value e m =
     (let j = kn_json e in
      json_lit j [(''model'', j_str j (em_model m)), (''provider'', j_str j (em_provider m)),
                  (''permissions'', str_list_value e (em_permissions m)),
                  (''tools'', str_list_value e (em_tools m)), (''env_summary'', em_env_summary m)])"

definition pending_value :: "('v, 'x) KernelEnv_scheme \<Rightarrow> PendingApproval \<Rightarrow> 'v" where
  "pending_value e p =
     (let j = kn_json e in
      json_lit j [(''ticket_id'', j_str j (pn_ticket_id p)), (''tool_id'', j_str j (pn_tool_id p)),
                  (''args_hash'', j_str j (pn_args_hash p)),
                  (''requested_at_ms'', j_num j (pn_requested_at_ms p)),
                  (''risk_tier'', j_str j (pn_risk_tier p))])"

text \<open>The record's fields are renamed to camel case; the two optional fields at the end are left out
  when they are absent.\<close>

definition work_fields :: "('v, 'x) KernelEnv_scheme \<Rightarrow> 'v ExecWork \<Rightarrow> (string \<times> 'v) list" where
  "work_fields e w =
     (let j = kn_json e in
        [(''id'', j_str j (xw_id w)), (''parentId'', j_opt_str j (xw_parent_id w)),
        (''workspace'', j_str j (xw_workspace w)), (''sessionId'', j_str j (xw_session_id w)),
        (''trigger'', j_str j (trigger_str (xw_trigger w))), (''objective'', j_str j (xw_objective w)),
        (''state'', j_str j (phase_str (xw_state w))), (''plan'', j_opt_str j (xw_plan w)),
        (''policySnapshot'', j_str j (xw_policy_snapshot w)),
        (''capabilityScope'', str_list_value e (xw_capability_scope w)),
        (''contextSnapshot'', j_str j (xw_context_snapshot w)), (''checkpoint'', j_num j (xw_checkpoint w)),
        (''budgetUsd'', kn_float e (xw_budget_usd w)),
        (''eventStream'', str_list_value e (xw_event_stream w)),
        (''artifactRefs'', str_list_value e (xw_artifact_refs w)),
        (''approvalRefs'', str_list_value e (xw_approval_refs w)),
        (''verification'', opt_value e (xw_verification w)), (''receipt'', opt_value e (xw_receipt w)),
        (''idempotencyKey'', j_str j (xw_idempotency_key w)),
        (''createdAtMs'', j_num j (xw_created_at_ms w)), (''configHash'', j_str j (xw_config_hash w)),
        (''journalSequence'', j_num j (xw_journal_sequence w))] @
       (case xw_runtime_manifest w of None \<Rightarrow> [] | Some m \<Rightarrow> [(''runtimeManifest'', manifest_value e m)]) @
       (case xw_pending_approval w of None \<Rightarrow> [] | Some p \<Rightarrow> [(''pendingApproval'', pending_value e p)]))"

definition work_value :: "('v, 'x) KernelEnv_scheme \<Rightarrow> 'v ExecWork \<Rightarrow> 'v" where
  "work_value e w = json_lit (kn_json e) (work_fields e w)"

definition phase_refusal :: "ExecutionPhase \<Rightarrow> ExecutionPhase \<Rightarrow> string" where
  "phase_refusal p q = ''illegal transition '' @ phase_debug p @ '' '' @ arrow @ '' '' @ phase_debug q"

end
