(* ===== verification/Governor.thy ===== *)
theory Governor
  imports Traces
begin

text \<open>
  The fleet governor (\<open>core/src/governor.rs\<close>): the toolset a subagent may hold, the admission checks of
  a subagent, and the queue that hands out mutation and read-only slots. The laws at the end say that the
  slots are never oversubscribed and that no task waits while a slot of its kind is free.
\<close>

section \<open>Limits and toolsets\<close>

definition P64_MAX_DEPTH :: nat where
  "P64_MAX_DEPTH = 2"

definition P64_MAX_CONCURRENT :: nat where
  "P64_MAX_CONCURRENT = 3"

definition P64_MAX_TOTAL :: nat where
  "P64_MAX_TOTAL = 6"

definition DELEGATE_BLOCKED_TOOLS :: "string list" where
  "DELEGATE_BLOCKED_TOOLS = [''delegate'', ''clarify'', ''memory'', ''send_message'', ''cronjob'']"

definition effective_subagent_tools :: "string list \<Rightarrow> string list \<Rightarrow> string list" where
  "effective_subagent_tools granted denied =
     remdups_adj (sort (filter (\<lambda>t. t \<notin> set DELEGATE_BLOCKED_TOOLS) (filter (\<lambda>t. t \<notin> set denied) granted)))"

datatype GovernorError =
    QueueFull nat
  | DepthExceeded nat nat
  | ConcurrentLimitExceeded nat nat
  | TotalLimitExceeded nat nat

definition check_subagent_admission ::
  "nat \<Rightarrow> nat \<Rightarrow> nat \<Rightarrow> string list \<Rightarrow> string list \<Rightarrow> GovernorError + string list" where
  "check_subagent_admission depth active spawned granted denied =
     (if P64_MAX_DEPTH < depth then Inl (DepthExceeded depth P64_MAX_DEPTH)
      else if P64_MAX_CONCURRENT \<le> active then Inl (ConcurrentLimitExceeded active P64_MAX_CONCURRENT)
      else if P64_MAX_TOTAL \<le> spawned then Inl (TotalLimitExceeded spawned P64_MAX_TOTAL)
      else Inr (effective_subagent_tools granted denied))"

section \<open>The queue\<close>

datatype FleetTaskKind = FtReadOnly | FtMutation

datatype FleetTaskStatus = FsAdmitted | FsQueued | FsRunning | FsCompleted | FsFailed | FsCancelled

record SubagentTask =
  st_task_id :: string
  st_parent_run_id :: string
  st_role :: string
  st_runtime :: string
  st_kind :: FleetTaskKind
  st_status :: FleetTaskStatus
  st_priority :: nat

record GovernorConfig =
  gc_max_concurrent_mutation :: nat
  gc_max_concurrent_readonly :: nat
  gc_max_queue_capacity :: nat

definition governor_config_default :: GovernorConfig where
  "governor_config_default =
     \<lparr> gc_max_concurrent_mutation = 4, gc_max_concurrent_readonly = 8, gc_max_queue_capacity = 50 \<rparr>"

record ConcurrencyGovernor =
  cg_config :: GovernorConfig
  cg_active_mutation :: nat
  cg_active_readonly :: nat
  cg_queue :: "SubagentTask list"

definition governor_new :: "GovernorConfig \<Rightarrow> ConcurrencyGovernor" where
  "governor_new c = \<lparr> cg_config = c, cg_active_mutation = 0, cg_active_readonly = 0, cg_queue = [] \<rparr>"

definition clamp :: "nat \<Rightarrow> nat \<Rightarrow> nat \<Rightarrow> nat" where
  "clamp lo hi n = (if n < lo then lo else if hi < n then hi else n)"

definition calculate_dynamic_limits :: "nat \<Rightarrow> nat \<Rightarrow> GovernorConfig" where
  "calculate_dynamic_limits cpus memory_gib =
     \<lparr> gc_max_concurrent_mutation = clamp 2 6 (cpus div 2),
       gc_max_concurrent_readonly = min (clamp 4 12 cpus) (memory_gib div 2), gc_max_queue_capacity = 50 \<rparr>"

text \<open>The counter and the limit of a kind.\<close>

fun gov_active :: "FleetTaskKind \<Rightarrow> ConcurrencyGovernor \<Rightarrow> nat" where
  "gov_active FtMutation g = cg_active_mutation g"
| "gov_active FtReadOnly g = cg_active_readonly g"

fun gov_limit :: "FleetTaskKind \<Rightarrow> ConcurrencyGovernor \<Rightarrow> nat" where
  "gov_limit FtMutation g = gc_max_concurrent_mutation (cg_config g)"
| "gov_limit FtReadOnly g = gc_max_concurrent_readonly (cg_config g)"

fun set_active :: "FleetTaskKind \<Rightarrow> nat \<Rightarrow> ConcurrencyGovernor \<Rightarrow> ConcurrencyGovernor" where
  "set_active FtMutation n g = g\<lparr>cg_active_mutation := n\<rparr>"
| "set_active FtReadOnly n g = g\<lparr>cg_active_readonly := n\<rparr>"

definition admit_task ::
  "SubagentTask \<Rightarrow> ConcurrencyGovernor \<Rightarrow> (GovernorError + FleetTaskStatus) \<times> ConcurrencyGovernor" where
  "admit_task t g =
     (let k = st_kind t in
      if gov_active k g < gov_limit k g then (Inr FsRunning, set_active k (gov_active k g + 1) g)
      else if gc_max_queue_capacity (cg_config g) \<le> length (cg_queue g)
      then (Inl (QueueFull (gc_max_queue_capacity (cg_config g))), g)
      else (Inr FsQueued, g\<lparr>cg_queue := cg_queue g @ [t\<lparr>st_status := FsQueued\<rparr>]\<rparr>))"

definition eligible :: "ConcurrencyGovernor \<Rightarrow> SubagentTask \<Rightarrow> bool" where
  "eligible g t \<longleftrightarrow> gov_active (st_kind t) g < gov_limit (st_kind t) g"

text \<open>\<open>queue.iter().position(p)\<close> and \<open>remove\<close>: the first task with the property and the rest.\<close>

fun take_first :: "('a \<Rightarrow> bool) \<Rightarrow> 'a list \<Rightarrow> ('a \<times> 'a list) option" where
  "take_first p [] = None"
| "take_first p (x # xs) =
     (if p x then Some (x, xs) else map_option (\<lambda>(y, ys). (y, x # ys)) (take_first p xs))"

definition complete_task ::
  "FleetTaskKind \<Rightarrow> ConcurrencyGovernor \<Rightarrow> SubagentTask option \<times> ConcurrencyGovernor" where
  "complete_task k g0 =
     (let g = set_active k (gov_active k g0 - 1) g0 in
      case take_first (eligible g) (cg_queue g) of
        None \<Rightarrow> (None, g)
      | Some (t, rest) \<Rightarrow>
          (Some (t\<lparr>st_status := FsRunning\<rparr>),
           set_active (st_kind t) (gov_active (st_kind t) g + 1) (g\<lparr>cg_queue := rest\<rparr>)))"

definition active_counts :: "ConcurrencyGovernor \<Rightarrow> nat \<times> nat \<times> nat" where
  "active_counts g = (cg_active_mutation g, cg_active_readonly g, length (cg_queue g))"

definition admit_subagent_task ::
  "SubagentTask \<Rightarrow> nat \<Rightarrow> nat \<Rightarrow> string list \<Rightarrow> string list \<Rightarrow> ConcurrencyGovernor \<Rightarrow>
   (GovernorError + FleetTaskStatus \<times> string list) \<times> ConcurrencyGovernor" where
  "admit_subagent_task t depth spawned granted denied g =
     (case check_subagent_admission depth (cg_active_mutation g + cg_active_readonly g) spawned granted denied of
        Inl err \<Rightarrow> (Inl err, g)
      | Inr tools \<Rightarrow>
          (case admit_task t g of
             (Inl err, g') \<Rightarrow> (Inl err, g')
           | (Inr status, g') \<Rightarrow> (Inr (status, tools), g')))"

section \<open>Laws\<close>

lemma set_effective_subagent_tools:
  "set (effective_subagent_tools granted denied) = set granted - set denied - set DELEGATE_BLOCKED_TOOLS"
  by (auto simp: effective_subagent_tools_def)

lemma remdups_adj_strict: "sorted xs \<Longrightarrow> sorted_wrt (<) (remdups_adj xs)" for xs :: "'a :: linorder list"
proof (induction xs rule: remdups_adj.induct)
  case (3 x y xs)
  then have "\<forall>z \<in> set (remdups_adj (y # xs)). y \<le> z" by simp
  with 3 show ?case by (auto simp: less_le intro: order_less_le_trans)
qed simp_all

lemma effective_subagent_tools_strict: "sorted_wrt (<) (effective_subagent_tools granted denied)"
  by (simp add: effective_subagent_tools_def remdups_adj_strict)

lemma gov_simps [simp]:
  "gov_active k' (set_active k n g) = (if k' = k then n else gov_active k' g)"
  "cg_config (set_active k n g) = cg_config g" "cg_queue (set_active k n g) = cg_queue g"
  "gov_limit k' (set_active k n g) = gov_limit k' g"
  "gov_active k (g\<lparr>cg_queue := q\<rparr>) = gov_active k g" "gov_limit k (g\<lparr>cg_queue := q\<rparr>) = gov_limit k g"
  by (cases k; cases k'; simp)+

lemma take_first_None: "take_first p xs = None \<longleftrightarrow> (\<forall>x \<in> set xs. \<not> p x)"
  by (induction xs) auto

lemma take_first_Some:
  "take_first p xs = Some (x, ys) \<Longrightarrow> p x \<and> mset xs = add_mset x (mset ys) \<and> set xs = insert x (set ys)"
  by (induction xs arbitrary: ys) (auto split: if_splits)

text \<open>No kind is oversubscribed, the queue is within its capacity, and a task waits only while every slot
  of its kind is taken.\<close>

definition gov_ok :: "ConcurrencyGovernor \<Rightarrow> bool" where
  "gov_ok g \<longleftrightarrow>
     (\<forall>k. gov_active k g \<le> gov_limit k g) \<and> length (cg_queue g) \<le> gc_max_queue_capacity (cg_config g) \<and>
     (\<forall>t \<in> set (cg_queue g). gov_active (st_kind t) g = gov_limit (st_kind t) g \<and> st_status t = FsQueued)"

datatype gov_op =
    GovAdmit SubagentTask
  | GovComplete FleetTaskKind
  | GovSubagent SubagentTask nat nat "string list" "string list"

fun gov_step :: "gov_op \<Rightarrow> ConcurrencyGovernor \<Rightarrow> ConcurrencyGovernor" where
  "gov_step (GovAdmit t) g = snd (admit_task t g)"
| "gov_step (GovComplete k) g = snd (complete_task k g)"
| "gov_step (GovSubagent t depth spawned granted denied) g =
     snd (admit_subagent_task t depth spawned granted denied g)"

lemma gov_ok_new: "gov_ok (governor_new c)"
proof -
  have "gov_active k (governor_new c) = 0" for k by (cases k) (simp_all add: governor_new_def)
  then show ?thesis by (simp add: gov_ok_def) (simp add: governor_new_def)
qed

lemma gov_ok_admit: "gov_ok g \<Longrightarrow> gov_ok (snd (admit_task t g))"
  by (auto simp: gov_ok_def admit_task_def Let_def intro: le_antisym)

text \<open>Freeing a slot of a kind hands it to the first waiting task of that kind: no other task is eligible.\<close>

lemma complete_first:
  assumes "gov_ok g"
    and "take_first (eligible (set_active k (gov_active k g - 1) g)) (cg_queue g) = Some (t, rest)"
  shows "st_kind t = k \<and> 0 < gov_active k g"
proof -
  from take_first_Some [OF assms(2)] have "t \<in> set (cg_queue g)"
    "gov_active (st_kind t) (set_active k (gov_active k g - 1) g) < gov_limit (st_kind t) g"
    by (auto simp: eligible_def)
  moreover with assms(1) have "gov_active (st_kind t) g = gov_limit (st_kind t) g"
    by (simp add: gov_ok_def)
  ultimately show ?thesis by (auto split: if_splits)
qed

lemma gov_ok_complete:
  assumes "gov_ok g" shows "gov_ok (snd (complete_task k g))"
proof (cases "take_first (eligible (set_active k (gov_active k g - 1) g)) (cg_queue g)")
  case None
  have free: "gov_active k g = 0" if "t \<in> set (cg_queue g)" "st_kind t = k" for t
  proof (rule ccontr)
    assume "gov_active k g \<noteq> 0"
    moreover from that assms have "gov_active k g = gov_limit k g"
      by (auto simp: gov_ok_def)
    ultimately have "eligible (set_active k (gov_active k g - 1) g) t"
      using that(2) by (simp add: eligible_def)
    with None that(1) show False by (auto simp: take_first_None)
  qed
  have "gov_active (st_kind t) (set_active k (gov_active k g - 1) g) = gov_limit (st_kind t) g"
    if "t \<in> set (cg_queue g)" for t
    using assms that free [OF that] by (auto simp: gov_ok_def)
  with assms None show ?thesis
    by (auto simp: complete_task_def Let_def gov_ok_def intro: le_trans [OF diff_le_self])
next
  case (Some tr)
  then obtain t rest where tr: "tr = (t, rest)" by (cases tr)
  note first = complete_first [OF assms Some [unfolded tr]]
  from take_first_Some [OF Some [unfolded tr]]
  have q: "mset (cg_queue g) = add_mset t (mset rest)" "set (cg_queue g) = insert t (set rest)" by auto
  have "length (cg_queue g) = Suc (length rest)"
    using arg_cong [OF q(1), of size] by simp
  with assms first q(2) Some tr show ?thesis
    by (auto simp: complete_task_def Let_def gov_ok_def)
qed

lemma gov_ok_step: "gov_ok g \<Longrightarrow> gov_ok (gov_step x g)"
proof (cases x)
  case (GovSubagent t depth spawned granted denied)
  then show "gov_ok g \<Longrightarrow> gov_ok (gov_step x g)"
    using gov_ok_admit [of g t]
    by (auto simp: admit_subagent_task_def split: sum.splits prod.splits)
qed (simp_all add: gov_ok_admit gov_ok_complete)

interpretation governor_slots: invariant_system gov_step "\<lambda>_ _. True" gov_ok
  by unfold_locales (rule gov_ok_step)

text \<open>Whatever completes, the head of the waiting tasks of that kind starts.\<close>

lemma complete_starts_waiting:
  assumes "gov_ok g" "t \<in> set (cg_queue g)" "st_kind t = k" "0 < gov_limit k g"
  obtains u where "fst (complete_task k g) = Some u" "st_kind u = k" "st_status u = FsRunning"
proof (cases "take_first (eligible (set_active k (gov_active k g - 1) g)) (cg_queue g)")
  case None
  have "gov_active k g = gov_limit k g" using assms by (auto simp: gov_ok_def)
  with assms(3,4) have "eligible (set_active k (gov_active k g - 1) g) t" by (simp add: eligible_def)
  with None assms(2) show ?thesis by (auto simp: take_first_None)
next
  case (Some tr)
  then obtain v rest where tr: "tr = (v, rest)" by (cases tr)
  from complete_first [OF assms(1) Some [unfolded tr]] have "st_kind v = k" by simp
  with Some tr show ?thesis
    by (intro that [of "v\<lparr>st_status := FsRunning\<rparr>"]) (simp_all add: complete_task_def Let_def)
qed


text \<open>The tasks of a kind leave the queue in the order in which they came.\<close>

definition waiting :: "FleetTaskKind \<Rightarrow> ConcurrencyGovernor \<Rightarrow> SubagentTask list" where
  "waiting k g = filter (\<lambda>t. st_kind t = k) (cg_queue g)"

lemma take_first_split:
  "take_first p xs = Some (x, ys) \<Longrightarrow> \<exists>us vs. xs = us @ x # vs \<and> ys = us @ vs \<and> (\<forall>u \<in> set us. \<not> p u)"
proof (induction xs arbitrary: ys)
  case (Cons a xs)
  show ?case
  proof (cases "p a")
    case True
    with Cons.prems have "a # xs = [] @ x # ys" "ys = [] @ ys" by simp_all
    then show ?thesis by (metis empty_iff empty_set)
  next
    case False
    with Cons.prems obtain zs where zs: "take_first p xs = Some (x, zs)" "ys = a # zs" by auto
    from Cons.IH [OF zs(1)] obtain us vs where "xs = us @ x # vs" "zs = us @ vs" "\<forall>u \<in> set us. \<not> p u" by blast
    with False zs(2) show ?thesis by (intro exI [where x = "a # us"] exI [where x = vs]) auto
  qed
qed simp

lemma complete_fifo:
  assumes "gov_ok g" "waiting k g = t # ts" "0 < gov_limit k g"
  shows "fst (complete_task k g) = Some (t\<lparr>st_status := FsRunning\<rparr>) \<and> waiting k (snd (complete_task k g)) = ts"
proof -
  have t: "t \<in> set (cg_queue g)" "st_kind t = k"
    using arg_cong [OF assms(2), of set] by (auto simp: waiting_def)
  let ?p = "eligible (set_active k (gov_active k g - 1) g)"
  have full: "gov_active k g = gov_limit k g" using assms(1) t by (auto simp: gov_ok_def)
  have elig: "?p u" if "st_kind u = k" for u
    using that full assms(3) by (simp add: eligible_def)
  then have "take_first ?p (cg_queue g) \<noteq> None" using t by (auto simp: take_first_None)
  then obtain v rest where v: "take_first ?p (cg_queue g) = Some (v, rest)" by auto
  from take_first_split [OF v] obtain us vs where q: "cg_queue g = us @ v # vs" "rest = us @ vs" "\<forall>u \<in> set us. \<not> ?p u"
    by blast
  have "st_kind v = k" using complete_first [OF assms(1) v] by simp
  moreover have "filter (\<lambda>t. st_kind t = k) us = []" using q(3) elig by (auto simp: filter_empty_conv)
  ultimately have "v = t" "filter (\<lambda>t. st_kind t = k) rest = ts"
    using assms(2) q(1,2) by (simp_all add: waiting_def)
  with v show ?thesis by (simp add: complete_task_def Let_def waiting_def)
qed

lemma complete_no_slot:
  assumes "gov_ok g" "gov_limit k g = 0" shows "fst (complete_task k g) = None"
proof (cases "take_first (eligible (set_active k (gov_active k g - 1) g)) (cg_queue g)")
  case (Some tr)
  then obtain t rest where tr: "tr = (t, rest)" by (cases tr)
  from complete_first [OF assms(1) Some [unfolded tr]] take_first_Some [OF Some [unfolded tr]] assms(2)
  show ?thesis by (auto simp: eligible_def)
qed (simp add: complete_task_def Let_def)

lemma complete_other:
  assumes "gov_ok g" "k' \<noteq> k" shows "waiting k' (snd (complete_task k g)) = waiting k' g"
proof (cases "take_first (eligible (set_active k (gov_active k g - 1) g)) (cg_queue g)")
  case (Some vr)
  then obtain v rest where vr: "vr = (v, rest)" by (cases vr)
  from take_first_split [OF Some [unfolded vr]] complete_first [OF assms(1) Some [unfolded vr]] assms(2) Some vr
  show ?thesis by (auto simp: complete_task_def Let_def waiting_def)
qed (simp add: complete_task_def Let_def waiting_def)

lemma admit_waiting: "\<exists>new. waiting k (snd (admit_task t g)) = waiting k g @ new"
  by (auto simp: admit_task_def Let_def waiting_def)

lemma gov_step_waiting:
  assumes "gov_ok g" "waiting k g = t # ts" "0 < gov_limit k g"
  shows "\<exists>new. waiting k (gov_step x g) = (if x = GovComplete k then ts else t # ts) @ new"
proof (cases x)
  case (GovAdmit u)
  with admit_waiting [of k u g] assms(2) show ?thesis by simp
next
  case (GovComplete k')
  then show ?thesis using complete_fifo [OF assms] complete_other [OF assms(1), of k k'] assms(2) by auto
next
  case (GovSubagent u depth spawned granted denied)
  have "snd (admit_subagent_task u depth spawned granted denied g) \<in> {g, snd (admit_task u g)}"
    by (auto simp: admit_subagent_task_def split: sum.split prod.split)
  with GovSubagent admit_waiting [of k u g] assms(2) show ?thesis by auto
qed

lemma gov_limit_step: "gov_limit k (gov_step x g) = gov_limit k g"
proof -
  have admit: "gov_limit k (snd (admit_task t g)) = gov_limit k g" for t
    by (simp add: admit_task_def Let_def)
  show ?thesis
  proof (cases x)
    case (GovSubagent u depth spawned granted denied)
    have "snd (admit_subagent_task u depth spawned granted denied g) \<in> {g, snd (admit_task u g)}"
      by (auto simp: admit_subagent_task_def split: sum.split prod.split)
    with GovSubagent admit [of u] show ?thesis by auto
  qed (auto simp: admit complete_task_def Let_def split: option.split)
qed

text \<open>A waiting task with \<open>n\<close> tasks of its kind before it is the first one after \<open>n\<close> completions of its
  kind, whatever else happens.\<close>

lemma waiting_advances:
  "gov_ok g \<Longrightarrow> waiting k g = before @ t # ts \<Longrightarrow> 0 < gov_limit k g \<Longrightarrow>
   length (filter (\<lambda>x. x = GovComplete k) ops) = length before \<Longrightarrow>
   \<exists>ts'. waiting k (run gov_step ops g) = t # ts'"
proof (induction ops arbitrary: g before ts)
  case (Cons x ops)
  show ?case
  proof (cases before)
    case Nil
    with Cons.prems have "x \<noteq> GovComplete k" by auto
    with gov_step_waiting [OF Cons.prems(1), of k t ts x] Cons.prems Nil obtain new where
        "waiting k (gov_step x g) = [] @ t # (ts @ new)" by auto
    from Cons.IH [OF gov_ok_step [OF Cons.prems(1)] this] Cons.prems Nil \<open>x \<noteq> GovComplete k\<close>
    show ?thesis by (simp add: gov_limit_step)
  next
    case (Cons b bs)
    with gov_step_waiting [OF Cons.prems(1), of k b "bs @ t # ts" x] Cons.prems obtain new where
        new: "waiting k (gov_step x g) = (if x = GovComplete k then bs else b # bs) @ t # (ts @ new)" by auto
    from Cons.IH [OF gov_ok_step [OF Cons.prems(1)] new] Cons.prems Cons
    show ?thesis by (simp add: gov_limit_step split: if_splits)
  qed
qed simp

end
