(* ===== verification/Exec_Kernel.thy ===== *)
theory Exec_Kernel
  imports Exec_Types Governor
begin

text \<open>
  The operations of the execution kernel (\<open>core/src/execution.rs\<close>): beginning Work records, moving
  them through their phases, pending approvals, manifests, receipts, the checkpoint file, and the
  worktree plan of a subagent (\<open>core/src/worktrees.rs\<close>).

  A method \<open>&mut self -> Result\<close> is a function from the kernel to a result and the kernel it leaves.
\<close>

type_synonym ('v, 'a) xk = "'v ExecutionKernel \<Rightarrow> (string + 'a) \<times> 'v ExecutionKernel"

definition exec_get :: "'v ExecutionKernel \<Rightarrow> string \<Rightarrow> 'v ExecWork option" where
  "exec_get k i = lookup (xk_executions k) i"

definition put_exec :: "string \<Rightarrow> 'v ExecWork \<Rightarrow> 'v ExecutionKernel \<Rightarrow> 'v ExecutionKernel" where
  "put_exec i w k = k\<lparr>xk_executions := bt_insert i w (xk_executions k)\<rparr>"

definition unknown_execution :: "string \<Rightarrow> string" where
  "unknown_execution i = ''unknown execution '' @ i"

text \<open>A step on the record found under an id: \<open>get_mut(id).ok_or_else(unknown)\<close> and then \<open>f\<close>.\<close>

definition on_work :: "string \<Rightarrow> ('v ExecWork \<Rightarrow> (string + 'a) \<times> 'v ExecWork) \<Rightarrow> ('v, 'a) xk" where
  "on_work i f k =
     (case exec_get k i of
        None \<Rightarrow> (Inl (unknown_execution i), k)
      | Some w \<Rightarrow> (case f w of (r, w') \<Rightarrow> (r, put_exec i w' k)))"

section \<open>Beginning work\<close>

definition begin_named ::
  "('v, 'x) KernelEnv_scheme \<Rightarrow> string \<Rightarrow> ExecutionTrigger \<Rightarrow> string \<Rightarrow> string \<Rightarrow> string option \<Rightarrow> string \<Rightarrow>
   string \<Rightarrow> string list \<Rightarrow> 'v ExecutionKernel \<Rightarrow> 'v ExecWork \<times> 'v ExecutionKernel" where
  "begin_named e i trig session objective parent policy ctx scope k =
     (case exec_get k i of
        Some existing \<Rightarrow> (existing, k)
      | None \<Rightarrow>
          let ex = (exec_work_new (kn_now e) i trig session objective)
                     \<lparr>xw_parent_id := parent, xw_policy_snapshot := policy, xw_context_snapshot := ctx,
                      xw_capability_scope := scope, xw_state := EpReady\<rparr>
          in (ex, put_exec i ex k))"

definition exec_begin ::
  "('v, 'x) KernelEnv_scheme \<Rightarrow> ExecutionTrigger \<Rightarrow> string \<Rightarrow> string \<Rightarrow> string option \<Rightarrow> string \<Rightarrow>
   string \<Rightarrow> string list \<Rightarrow> 'v ExecutionKernel \<Rightarrow> 'v ExecWork \<times> 'v ExecutionKernel" where
  "exec_begin e trig session objective parent policy ctx scope k0 =
     (let k = k0\<lparr>xk_counter := u64_add (xk_counter k0) 1\<rparr>
      in begin_named e (''ex:'' @ show_nat (xk_counter k)) trig session objective parent policy ctx scope k)"

definition exec_alias :: "string \<Rightarrow> string \<Rightarrow> 'v ExecutionKernel \<Rightarrow> 'v ExecutionKernel" where
  "exec_alias key i k = k\<lparr>xk_aliases := bt_insert key i (xk_aliases k)\<rparr>"

definition by_alias :: "'v ExecutionKernel \<Rightarrow> string \<Rightarrow> 'v ExecWork option" where
  "by_alias k key = Option.bind (lookup (xk_aliases k) key) (exec_get k)"

definition parse_ex_counter :: "string \<Rightarrow> nat" where
  "parse_ex_counter i =
     (case Option.bind (strip_prefix i ''ex:'') (parse_nat (2 ^ 64)) of None \<Rightarrow> 0 | Some n \<Rightarrow> n)"

section \<open>Moving work\<close>

text \<open>The refusals of \<open>transition\<close>, shared with \<open>validate_transition\<close>.\<close>

definition move_refusal :: "string \<Rightarrow> 'v ExecWork \<Rightarrow> ExecutionPhase \<Rightarrow> string option" where
  "move_refusal i w next =
     (if \<not> phase_can_transition (xw_state w) next then Some (phase_refusal (xw_state w) next)
      else if xw_state w = EpWaitingApproval \<and> next \<noteq> EpWaitingApproval \<and> xw_pending_approval w \<noteq> None
      then Some (''execution '' @ quoted i @ '' cannot leave WaitingApproval with an unresolved approval'')
      else None)"

definition validate_transition :: "'v ExecutionKernel \<Rightarrow> string \<Rightarrow> ExecutionPhase \<Rightarrow> string + unit" where
  "validate_transition k i next =
     (case exec_get k i of
        None \<Rightarrow> Inl (unknown_execution i)
      | Some w \<Rightarrow>
          if xw_state w = next then Inr ()
          else (case move_refusal i w next of Some err \<Rightarrow> Inl err | None \<Rightarrow> Inr ()))"

definition enter_phase :: "ExecutionPhase \<Rightarrow> 'v ExecWork \<Rightarrow> 'v ExecWork" where
  "enter_phase next w = w\<lparr>xw_state := next, xw_event_stream := xw_event_stream w @ [phase_debug next]\<rparr>"

definition exec_transition :: "string \<Rightarrow> ExecutionPhase \<Rightarrow> ('v, ExecutionPhase) xk" where
  "exec_transition i next =
     on_work i (\<lambda>w. case move_refusal i w next of
                      Some err \<Rightarrow> (Inl err, w)
                    | None \<Rightarrow> (Inr next, enter_phase next w))"

section \<open>Pending approvals\<close>

definition not_waiting :: "ExecutionPhase \<Rightarrow> string" where
  "not_waiting p = ''cannot record pending approval in state '' @ phase_debug p @ '' (must be WaitingApproval)''"

definition other_pending :: "string \<Rightarrow> string" where
  "other_pending i = ''execution '' @ quoted i @ '' already has a different pending approval''"

definition ticket_mismatch :: "string \<Rightarrow> string \<Rightarrow> string" where
  "ticket_mismatch have_id want =
     ''pending approval ticket '' @ quoted have_id @ '' does not match '' @ quoted want"

definition record_pending_on :: "PendingApproval \<Rightarrow> 'v ExecWork \<Rightarrow> (string + unit) \<times> 'v ExecWork" where
  "record_pending_on a w =
     (if xw_state w \<noteq> EpWaitingApproval then (Inl (not_waiting (xw_state w)), w)
      else case xw_pending_approval w of
             Some old \<Rightarrow>
               if pn_ticket_id old \<noteq> pn_ticket_id a \<or> old \<noteq> a then (Inl (other_pending (xw_id w)), w)
               else (Inr (), w)
           | None \<Rightarrow>
               (Inr (), w\<lparr>xw_approval_refs := xw_approval_refs w @ [pn_ticket_id a],
                          xw_pending_approval := Some a\<rparr>))"

definition resolve_pending_approval_for ::
  "string option \<Rightarrow> bool \<Rightarrow> 'v ExecWork \<Rightarrow> (string + PendingApproval) \<times> 'v ExecWork" where
  "resolve_pending_approval_for ticket approved w =
     (let next = (if approved then EpRunning else EpFailed) in
      if \<not> phase_can_transition (xw_state w) next then (Inl (phase_refusal (xw_state w) next), w)
      else case xw_pending_approval w of
             None \<Rightarrow> (Inl ''no pending approval to resolve'', w)
           | Some a \<Rightarrow>
               (case ticket of
                  Some t \<Rightarrow>
                    if pn_ticket_id a \<noteq> t then (Inl (ticket_mismatch (pn_ticket_id a) t), w)
                    else (Inr a, enter_phase next (w\<lparr>xw_pending_approval := None\<rparr>))
                | None \<Rightarrow> (Inr a, enter_phase next (w\<lparr>xw_pending_approval := None\<rparr>))))"

definition resolve_pending_approval :: "bool \<Rightarrow> 'v ExecWork \<Rightarrow> (string + PendingApproval) \<times> 'v ExecWork" where
  "resolve_pending_approval approved w = resolve_pending_approval_for None approved w"

definition validate_pending_approval_request :: "'v ExecutionKernel \<Rightarrow> string \<Rightarrow> string \<Rightarrow> string + unit" where
  "validate_pending_approval_request k i ticket =
     (if str_trim ticket = [] then Inl ''execution/record_approval requires a non-empty ticketId''
      else case exec_get k i of
             None \<Rightarrow> Inl (unknown_execution i)
           | Some w \<Rightarrow>
               if xw_state w \<noteq> EpWaitingApproval then Inl (not_waiting (xw_state w))
               else (case xw_pending_approval w of
                       Some old \<Rightarrow> if pn_ticket_id old \<noteq> ticket then Inl (other_pending i) else Inr ()
                     | None \<Rightarrow> Inr ()))"

definition validate_pending_approval_resolution :: "'v ExecutionKernel \<Rightarrow> string \<Rightarrow> string \<Rightarrow> string + unit" where
  "validate_pending_approval_resolution k i ticket =
     (if str_trim ticket = [] then Inl ''execution/resolve_approval requires a non-empty ticketId''
      else case exec_get k i of
             None \<Rightarrow> Inl (unknown_execution i)
           | Some w \<Rightarrow>
               (case xw_pending_approval w of
                  None \<Rightarrow> Inl (''execution '' @ quoted i @ '' has no pending approval'')
                | Some a \<Rightarrow>
                    if pn_ticket_id a \<noteq> ticket then Inl (ticket_mismatch (pn_ticket_id a) ticket) else Inr ()))"

section \<open>Manifests and receipts\<close>

definition bind_manifest ::
  "('v, 'x) KernelEnv_scheme \<Rightarrow> 'v ExecManifest \<Rightarrow> 'v ExecWork \<Rightarrow> string \<times> 'v ExecWork" where
  "bind_manifest e m w =
     (let hash = compute_hash e m in (hash, w\<lparr>xw_config_hash := hash, xw_runtime_manifest := Some m\<rparr>))"

definition bind_step :: "('v, 'x) KernelEnv_scheme \<Rightarrow> 'v ExecManifest \<Rightarrow> 'v ExecWork \<Rightarrow> (string + string) \<times> 'v ExecWork" where
  "bind_step e m w = (Inr (fst (bind_manifest e m w)), snd (bind_manifest e m w))"

definition attach_verification :: "string \<Rightarrow> 'v \<Rightarrow> ('v, unit) xk" where
  "attach_verification i report = on_work i (\<lambda>w. (Inr (), w\<lparr>xw_verification := Some report\<rparr>))"

definition attach_receipt :: "string \<Rightarrow> 'v \<Rightarrow> ('v, unit) xk" where
  "attach_receipt i receipt = on_work i (\<lambda>w. (Inr (), w\<lparr>xw_receipt := Some receipt\<rparr>))"

definition record_verified_edit ::
  "('v, 'x) KernelEnv_scheme \<Rightarrow> string \<Rightarrow> string \<Rightarrow> string \<Rightarrow> string \<Rightarrow> nat \<Rightarrow> ('v, 'v) xk" where
  "record_verified_edit e i strategy path ticket audit_seq k =
     (if strategy \<notin> {''exact'', ''structured'', ''fuzzy''}
      then (Inl (''unknown edit strategy '' @ str_debug strategy), k)
      else if path = [] then (Inl ''record_verified_edit requires path'', k)
      else if ticket = [] then (Inl ''record_verified_edit requires ticketId (Guard-2)'', k)
      else
        let j = kn_json e;
            receipt = json_lit j [(''kind'', j_str j ''verified_edit''), (''strategy'', j_str j strategy),
                                  (''path'', j_str j path), (''ticketId'', j_str j ticket),
                                  (''auditSeq'', j_num j audit_seq)]
        in (case attach_verification i receipt k of
              (Inl err, k') \<Rightarrow> (Inl err, k')
            | (Inr _, k') \<Rightarrow> (Inr receipt, k')))"

text \<open>A finished Work that has a receipt is never replayed.\<close>

definition should_restore_without_replay :: "'v ExecWork \<Rightarrow> bool" where
  "should_restore_without_replay w \<longleftrightarrow>
     (xw_state w = EpCompleted \<or> xw_state w = EpFailed \<or> xw_state w = EpCancelled) \<and> xw_receipt w \<noteq> None"

definition check_restore_fence :: "RunAuthority \<Rightarrow> string \<Rightarrow> nat \<Rightarrow> nat \<Rightarrow> string + unit" where
  "check_restore_fence a node token now =
     (if authority_valid a node token now then Inr ()
      else Inl ''restore refused: stale fencing token (run migrated or lease expired)'')"

section \<open>Validation and the checkpoint file\<close>

definition entry_error :: "string \<times> 'v ExecWork \<Rightarrow> string option" where
  "entry_error = (\<lambda>(i, w).
     if xw_id w \<noteq> i
     then Some (''execution map key '' @ quoted i @ '' disagrees with Work id '' @ quoted (xw_id w))
     else if str_trim (xw_id w) = [] \<or> str_trim (xw_session_id w) = []
     then Some (''execution '' @ quoted i @ '' is missing durable identity'')
     else if xw_event_stream w = []
     then Some (''execution '' @ quoted i @ '' has no event projection'')
     else None)"

fun first_problem :: "('a \<Rightarrow> string option) \<Rightarrow> 'a list \<Rightarrow> string + unit" where
  "first_problem f [] = Inr ()"
| "first_problem f (x # xs) = (case f x of Some err \<Rightarrow> Inl err | None \<Rightarrow> first_problem f xs)"

lemma first_problem_Inr: "first_problem f xs = Inr () \<longleftrightarrow> (\<forall>x \<in> set xs. f x = None)"
  by (induction xs) (auto split: option.splits)

lemma first_problem_Inl: "first_problem f xs = Inl err \<Longrightarrow> \<exists>x \<in> set xs. f x = Some err"
  by (induction xs) (auto split: option.splits)

definition kernel_validate :: "'v ExecutionKernel \<Rightarrow> string + unit" where
  "kernel_validate k = first_problem entry_error (xk_executions k)"

text \<open>The checkpoint file holds the serialized kernel or something that does not parse; a crashed write
  leaves the file untouched, because the bytes go to a temporary file that is renamed.\<close>

datatype 'v CheckpointFile =
    NoCheckpoint
  | UnreadableCheckpoint string
  | CorruptCheckpoint string
  | Checkpoint "'v ExecutionKernel"

datatype CheckpointIo = CkOk | CkWriteErr string | CkRenameErr string

definition persist_to ::
  "CheckpointIo \<Rightarrow> 'v ExecutionKernel \<Rightarrow> 'v CheckpointFile \<Rightarrow> (string + unit) \<times> 'v CheckpointFile" where
  "persist_to io k file =
     (case kernel_validate k of
        Inl err \<Rightarrow> (Inl err, file)
      | Inr _ \<Rightarrow>
          (case io of
             CkWriteErr err \<Rightarrow> (Inl (''write checkpoint: '' @ err), file)
           | CkRenameErr err \<Rightarrow> (Inl (''swap checkpoint: '' @ err), file)
           | CkOk \<Rightarrow> (Inr (), Checkpoint k)))"

definition recover_from :: "'v CheckpointFile \<Rightarrow> string + 'v ExecutionKernel" where
  "recover_from file =
     (case file of
        NoCheckpoint \<Rightarrow> Inr kernel_new
      | UnreadableCheckpoint err \<Rightarrow> Inl (''read checkpoint: '' @ err)
      | CorruptCheckpoint err \<Rightarrow> Inl (''parse checkpoint: '' @ err)
      | Checkpoint k \<Rightarrow> res_bind (kernel_validate k) (\<lambda>_. Inr k))"

record StepCheckpointMeta =
  sc_work_id :: string
  sc_step :: nat
  sc_git_sha :: "string option"
  sc_snapshot_bytes :: nat
  sc_fencing_token :: nat
  sc_created_at_ms :: nat

definition step_checkpoint_meta ::
  "nat \<Rightarrow> string \<Rightarrow> nat \<Rightarrow> string option \<Rightarrow> nat \<Rightarrow> nat \<Rightarrow> StepCheckpointMeta" where
  "step_checkpoint_meta now work step sha bytes token =
     \<lparr> sc_work_id = work, sc_step = step, sc_git_sha = sha, sc_snapshot_bytes = bytes,
       sc_fencing_token = token, sc_created_at_ms = now \<rparr>"

definition checkpoint_name :: "string \<Rightarrow> nat \<Rightarrow> string" where
  "checkpoint_name work step = ''kernel-'' @ work @ ''-step-'' @ show_nat step @ ''.json''"

text \<open>\<open>mkdir\<close> is the error of creating the directory, if any; \<open>bytes\<close> is the length of the file read back.\<close>

definition auto_checkpoint_kernel ::
  "nat \<Rightarrow> string option \<Rightarrow> CheckpointIo \<Rightarrow> nat \<Rightarrow> 'v ExecutionKernel \<Rightarrow> string \<Rightarrow> nat \<Rightarrow> string option \<Rightarrow> nat \<Rightarrow>
   'v CheckpointFile strmap \<Rightarrow> (string + string \<times> StepCheckpointMeta) \<times> 'v CheckpointFile strmap" where
  "auto_checkpoint_kernel now mkdir io bytes k work step sha token files =
     (if work = [] then (Inl ''auto_checkpoint_kernel requires work_id'', files)
      else case mkdir of
        Some err \<Rightarrow> (Inl (''create checkpoint dir: '' @ err), files)
      | None \<Rightarrow>
          let name = checkpoint_name work step;
              old = (case lookup files name of None \<Rightarrow> NoCheckpoint | Some f \<Rightarrow> f)
          in (case persist_to io k old of
                (Inl err, _) \<Rightarrow> (Inl err, files)
              | (Inr _, file) \<Rightarrow>
                  (Inr (name, step_checkpoint_meta now work step sha bytes token),
                   AList.update name file files)))"

section \<open>The checkpoint as a cache\<close>

definition cache_entry_error :: "'v ExecutionKernel \<Rightarrow> string \<times> 'v ExecWork \<Rightarrow> string option" where
  "cache_entry_error k = (\<lambda>(i, c).
     case exec_get k i of
       None \<Rightarrow> Some (''checkpoint contains Run '' @ quoted i @ '' absent from Work journal'')
     | Some w \<Rightarrow>
         if xw_session_id c \<noteq> xw_session_id w \<or> xw_trigger c \<noteq> xw_trigger w \<or> xw_objective c \<noteq> xw_objective w \<or>
            xw_idempotency_key c \<noteq> xw_idempotency_key w \<or> xw_receipt c \<noteq> xw_receipt w \<or>
            xw_verification c \<noteq> xw_verification w \<or> xw_pending_approval c \<noteq> xw_pending_approval w \<or>
            xw_approval_refs c \<noteq> xw_approval_refs w
         then Some (''checkpoint identity/effect mismatch for Run '' @ quoted i)
         else if xw_checkpoint w < xw_checkpoint c \<or>
                 phase_is_terminal (xw_state c) \<and> \<not> phase_is_terminal (xw_state w)
         then Some (''checkpoint is ahead of the journal for Run '' @ quoted i)
         else if xw_journal_sequence w \<le> xw_journal_sequence c \<and> xw_state c \<noteq> xw_state w
         then Some (''checkpoint state mismatch for Run '' @ quoted i)
         else if xw_journal_sequence w < xw_journal_sequence c
         then Some (''checkpoint sequence is ahead of the journal for Run '' @ quoted i)
         else None)"

definition validate_checkpoint_cache :: "'v ExecutionKernel \<Rightarrow> 'v ExecutionKernel \<Rightarrow> string + unit" where
  "validate_checkpoint_cache k cached = first_problem (cache_entry_error k) (xk_executions cached)"

section \<open>Subagents\<close>

definition P64_MAX_SUBAGENT_DEPTH :: nat where
  "P64_MAX_SUBAGENT_DEPTH = 2"

definition begin_subagent ::
  "('v, 'x) KernelEnv_scheme \<Rightarrow> string \<Rightarrow> string \<Rightarrow> string option \<Rightarrow> nat \<Rightarrow> string list \<Rightarrow> string list \<Rightarrow> string \<Rightarrow>
   ('v, 'v ExecWork) xk" where
  "begin_subagent e session objective parent depth granted denied policy k =
     (if P64_MAX_SUBAGENT_DEPTH < depth
      then (Inl (''subagent depth '' @ show_nat depth @ '' exceeds max_depth '' @
                 show_nat P64_MAX_SUBAGENT_DEPTH @ '' (no recursive spawn)''), k)
      else
        let (w, k') = exec_begin e TgSubagent session objective parent policy []
                        (effective_subagent_tools granted denied) k
        in (Inr w, k'))"

definition is_alnum :: "char \<Rightarrow> bool" where
  "is_alnum c \<longleftrightarrow> (CHR ''a'' \<le> c \<and> c \<le> CHR ''z'') \<or> is_upper c \<or> is_digit c"

text \<open>The only refusal carries the id.\<close>

definition validate_task_id :: "string \<Rightarrow> bool" where
  "validate_task_id t \<longleftrightarrow>
     \<not> (t = [] \<or> 128 < length t) \<and>
     \<not> (str_contains t ''..'' \<or> CHR 0x5C \<in> set t \<or> starts_with t ''/'') \<and>
     \<not> (starts_with t ''.'' \<or> ends_with t ''/'' \<or> str_contains t ''//'') \<and>
     list_all (\<lambda>c. is_alnum c \<or> c \<in> {CHR ''-'', CHR ''_'', CHR ''.'', CHR ''/''}) t"

record SubagentProvision =
  sp_work_id :: string
  sp_task_id :: string
  sp_branch :: string
  sp_worktree_segment :: string
  sp_plan_file :: string
  sp_findings_file :: string
  sp_receipts_dir :: string

definition plan_subagent_worktree ::
  "string \<Rightarrow> string \<Rightarrow> string + SubagentProvision" where
  "plan_subagent_worktree task work =
     (if \<not> validate_task_id task
      then Inl (''invalid task id '' @ str_debug task @ '': must be [a-z0-9-_./] without traversal'')
      else if work = [] then Inl ''plan_subagent_worktree requires work_id''
      else
        let seg = ''.everyaios/worktrees/task-'' @ task
        in Inr \<lparr> sp_work_id = work, sp_task_id = task, sp_branch = ''subtask/'' @ task,
                 sp_worktree_segment = seg,
                 sp_plan_file = seg @ ''/.everyaios/task_plan.md'',
                 sp_findings_file = seg @ ''/.everyaios/findings.md'',
                 sp_receipts_dir = seg @ ''/.everyaios/receipts'' \<rparr>)"

end
