(* ===== verification/Exec_Preflight.thy ===== *)
theory Exec_Preflight
  imports Exec_Kernel
begin

text \<open>
  The shadow preflight of \<open>core/src/execution.rs\<close>: the output cap, the candidate files a caller proposes,
  the staging of a shadow tree, the discovery and running of a project's own checks, and the receipt that
  is recorded on a Work.

  Processes and the file system are an environment: the outcome of each write, directory creation,
  \<open>git worktree add\<close>, check command and cleanup. The functions return the calls they made, in order, and
  what they cleaned up, so that both can be reasoned about.
\<close>

section \<open>The output cap\<close>

definition P64_MAX_OUTPUT_BYTES :: nat where
  "P64_MAX_OUTPUT_BYTES = 51200"

definition char_boundary :: "string \<Rightarrow> nat \<Rightarrow> bool" where
  "char_boundary s i \<longleftrightarrow>
     i = 0 \<or> i = length s \<or> i < length s \<and> \<not> is_continuation (s ! i)"

fun cut_at :: "string \<Rightarrow> nat \<Rightarrow> nat" where
  "cut_at s 0 = 0"
| "cut_at s (Suc n) = (if char_boundary s (Suc n) then Suc n else cut_at s n)"

definition truncation_note :: "nat \<Rightarrow> nat \<Rightarrow> string" where
  "truncation_note bytes kept =
     line_feed @ ellipsis @ '' [truncated '' @ show_nat bytes @ '' '' @ arrow @ '' '' @
     show_nat kept @ '' bytes; full output in ref handle]''"

definition truncate_to_50k :: "string \<Rightarrow> string \<times> bool \<times> nat" where
  "truncate_to_50k out =
     (let bytes = length out in
      if bytes \<le> P64_MAX_OUTPUT_BYTES then (out, False, bytes)
      else let kept = cut_at out P64_MAX_OUTPUT_BYTES
           in (take kept out @ truncation_note bytes kept, True, bytes))"

section \<open>Candidate files\<close>

record ShadowCandidateFile =
  cf_path :: string
  cf_content :: string

definition MAX_CANDIDATE_FILES :: nat where
  "MAX_CANDIDATE_FILES = 32"

definition MAX_CANDIDATE_BYTES :: nat where
  "MAX_CANDIDATE_BYTES = 524288"

definition candidate_at :: "nat \<Rightarrow> string \<Rightarrow> string" where
  "candidate_at i what = ''execution/preflight candidateFiles['' @ show_nat i @ '']'' @ what"

definition has_parent_dir :: "string \<Rightarrow> bool" where
  "has_parent_dir p \<longleftrightarrow> ''..'' \<in> set (split_on (CHR ''/'') p)"

definition parse_candidate :: "'v json_full \<Rightarrow> nat \<Rightarrow> 'v \<Rightarrow> string + ShadowCandidateFile" where
  "parse_candidate j i item =
     (case get_str j item ''path'' of
        None \<Rightarrow> Inl (candidate_at i '' requires path'')
      | Some path \<Rightarrow>
          (case get_str j item ''content'' of
             None \<Rightarrow> Inl (candidate_at i '' requires content'')
           | Some content \<Rightarrow>
               if path = [] \<or> 512 < length path then Inl (candidate_at i '' has a bad path'')
               else if starts_with path ''/'' \<or> starts_with path [CHR 0x5C]
               then Inl (candidate_at i '' must be relative'')
               else if has_parent_dir path then Inl (candidate_at i '' must not contain `..`'')
               else if MAX_CANDIDATE_BYTES < length content
               then Inl (candidate_at i ('' exceeds '' @ show_nat MAX_CANDIDATE_BYTES @ '' bytes''))
               else Inr \<lparr> cf_path = path, cf_content = content \<rparr>))"

fun parse_candidates :: "'v json_full \<Rightarrow> nat \<Rightarrow> 'v list \<Rightarrow> string + ShadowCandidateFile list" where
  "parse_candidates j i [] = Inr []"
| "parse_candidates j i (v # vs) =
     res_bind (parse_candidate j i v) (\<lambda>f. res_bind (parse_candidates j (Suc i) vs) (\<lambda>fs. Inr (f # fs)))"

definition parse_shadow_candidate :: "'v json_full \<Rightarrow> 'v \<Rightarrow> string + ShadowCandidateFile list" where
  "parse_shadow_candidate j params =
     (case j_get j params ''candidateFiles'' of
        None \<Rightarrow> Inr []
      | Some files \<Rightarrow>
          if j_is_null j files then Inr []
          else case j_as_array j files of
                 None \<Rightarrow> Inl ''execution/preflight candidateFiles must be an array of {path, content}''
               | Some arr \<Rightarrow>
                   if MAX_CANDIDATE_FILES < length arr
                   then Inl (''execution/preflight candidateFiles exceeds '' @ show_nat MAX_CANDIDATE_FILES @ '' files'')
                   else parse_candidates j 0 arr)"

section \<open>The shadow tree\<close>

datatype ShadowCleanup = CleanWorktree string string | CleanTempDir string | CleanNone

record 'v ShadowEnv = "'v KernelEnv" +
  sh_git_dir :: "string \<Rightarrow> bool"
  sh_temp :: string
  sh_temp_nogit :: string
  sh_worktree_add :: "string \<Rightarrow> string \<Rightarrow> string option"
  sh_mkdir :: "string \<Rightarrow> string option"
  sh_mkdir_parent :: "string \<Rightarrow> string option"
  sh_write :: "string \<Rightarrow> string option"
  sh_is_file :: "string \<Rightarrow> string \<Rightarrow> bool"
  sh_readable :: "string \<Rightarrow> string \<Rightarrow> bool"
  sh_package :: "string \<Rightarrow> 'v option"
  sh_run :: "string \<Rightarrow> string list \<Rightarrow> string \<Rightarrow> string + bool \<times> string \<times> string"
  sh_cleanup :: "ShadowCleanup \<Rightarrow> string option"

definition path_join :: "string \<Rightarrow> string \<Rightarrow> string" where
  "path_join dir p = (if starts_with p ''/'' then p else dir @ ''/'' @ p)"

text \<open>What the code asks of the operating system, in order: directories made, \<open>git worktree add\<close>, files
  copied and written, check commands run. Where the bytes of a write land when a path leads through a
  symbolic link, what \<open>git\<close> writes into its own repository, and what a check command writes, is the
  operating system's and those programs' doing and not part of the model.\<close>

datatype FsCall =
    FxMkdir string
  | FxMkdirParent string
  | FxWorktreeAdd string string
  | FxCopy string string string
  | FxWrite string string
  | FxRun string "string list" string

text \<open>Writing the candidate files: the outcome and the calls made. A call that fails is the last one.\<close>

fun stage_files :: "('v, 'x) ShadowEnv_scheme \<Rightarrow> string \<Rightarrow> ShadowCandidateFile list \<Rightarrow> (string + unit) \<times> FsCall list" where
  "stage_files e dir [] = (Inr (), [])"
| "stage_files e dir (f # fs) =
     (let dest = path_join dir (cf_path f) in
      case sh_mkdir_parent e dest of
        Some err \<Rightarrow> (Inl (''shadow stage mkdir: '' @ err), [FxMkdirParent dest])
      | None \<Rightarrow>
          (case sh_write e dest of
             Some err \<Rightarrow> (Inl (''shadow stage write: '' @ err), [FxMkdirParent dest, FxWrite dest (cf_content f)])
           | None \<Rightarrow>
               (case stage_files e dir fs of
                  (r, calls) \<Rightarrow> (r, FxMkdirParent dest # FxWrite dest (cf_content f) # calls))))"

definition MANIFEST_NAMES :: "string list" where
  "MANIFEST_NAMES =
     [''Cargo.toml'', ''package.json'', ''pnpm-lock.yaml'', ''yarn.lock'', ''bun.lock'', ''bun.lockb'']"

text \<open>A manifest that cannot be read is skipped, and a copy that fails is ignored.\<close>

definition manifest_copies :: "('v, 'x) ShadowEnv_scheme \<Rightarrow> string \<Rightarrow> string \<Rightarrow> FsCall list" where
  "manifest_copies e live dir =
     map (\<lambda>m. FxCopy live m (path_join dir m)) (filter (\<lambda>m. sh_is_file e live m \<and> sh_readable e live m) MANIFEST_NAMES)"

definition stage_shadow_tree ::
  "('v, 'x) ShadowEnv_scheme \<Rightarrow> string \<Rightarrow> ShadowCandidateFile list \<Rightarrow>
   (string + string \<times> ShadowCleanup) \<times> FsCall list" where
  "stage_shadow_tree e live candidate =
     (if candidate = [] then (Inr (live, CleanNone), [])
      else if sh_git_dir e live then
        (let dir = sh_temp e; add = FxWorktreeAdd live dir in
         case sh_worktree_add e live dir of
           Some err \<Rightarrow> (Inl err, [add])
         | None \<Rightarrow>
             (case stage_files e dir candidate of
                (Inl err, calls) \<Rightarrow> (Inl err, add # calls)
              | (Inr _, calls) \<Rightarrow> (Inr (dir, CleanWorktree live dir), add # calls)))
      else
        (let dir = sh_temp_nogit e in
         case sh_mkdir e dir of
           Some err \<Rightarrow> (Inl (''shadow stage mkdir: '' @ err), [FxMkdir dir])
         | None \<Rightarrow>
             (case stage_files e dir candidate of
                (Inl err, calls) \<Rightarrow> (Inl err, FxMkdir dir # manifest_copies e live dir @ calls)
              | (Inr _, calls) \<Rightarrow> (Inr (dir, CleanTempDir dir), FxMkdir dir # manifest_copies e live dir @ calls))))"

section \<open>Deciding, discovering and running the checks\<close>

record PreflightDecision =
  pf_needs_preflight :: bool
  pf_reason :: string

definition decide_shadow_preflight :: "nat \<Rightarrow> bool \<Rightarrow> bool \<Rightarrow> PreflightDecision" where
  "decide_shadow_preflight files structural destructive =
     (if destructive
      then \<lparr> pf_needs_preflight = True, pf_reason = ''destructive edit always preflights in a shadow tree'' \<rparr>
      else if structural
      then \<lparr> pf_needs_preflight = True, pf_reason = ''structural edit preflights in a shadow tree'' \<rparr>
      else if 1 < files
      then \<lparr> pf_needs_preflight = True, pf_reason = ''multi-file edit preflights in a shadow tree'' \<rparr>
      else \<lparr> pf_needs_preflight = False, pf_reason = ''small local-write verifies after commit'' \<rparr>)"

record ShadowCheck =
  ck_label :: string
  ck_program :: string
  ck_args :: "string list"

record ShadowCheckOutput =
  co_program :: string
  co_success :: bool
  co_preview :: string
  co_truncated :: bool
  co_total_bytes :: nat

definition SHADOW_CHECK_MAX :: nat where
  "SHADOW_CHECK_MAX = 2"

definition declared_script :: "'v json_full \<Rightarrow> 'v \<Rightarrow> string option" where
  "declared_script j pkg =
     find (\<lambda>name. case Option.bind (j_get j pkg ''scripts'') (\<lambda>s. j_get j s name) of
                    None \<Rightarrow> False | Some v \<Rightarrow> j_as_str j v \<noteq> None)
       [''typecheck'', ''type-check'', ''check'']"

definition package_manager :: "('v, 'x) ShadowEnv_scheme \<Rightarrow> string \<Rightarrow> string" where
  "package_manager e live =
     (if sh_is_file e live ''pnpm-lock.yaml'' then ''pnpm''
      else if sh_is_file e live ''yarn.lock'' then ''yarn''
      else if sh_is_file e live ''bun.lockb'' \<or> sh_is_file e live ''bun.lock'' then ''bun''
      else ''npm'')"

definition discover_shadow_checks :: "('v, 'x) ShadowEnv_scheme \<Rightarrow> string \<Rightarrow> ShadowCheck list" where
  "discover_shadow_checks e live =
     take SHADOW_CHECK_MAX
       ((if sh_is_file e live ''Cargo.toml''
         then [\<lparr> ck_label = ''cargo check --quiet'', ck_program = ''cargo'', ck_args = [''check'', ''--quiet''] \<rparr>]
         else []) @
        (case Option.bind (sh_package e live) (declared_script (kn_json e)) of
           None \<Rightarrow> []
         | Some script \<Rightarrow>
             let pm = package_manager e live
             in [\<lparr> ck_label = pm @ '' run '' @ script, ck_program = pm, ck_args = [''run'', script] \<rparr>]))"

definition run_shadow_command ::
  "('v, 'x) ShadowEnv_scheme \<Rightarrow> string \<Rightarrow> string list \<Rightarrow> string \<Rightarrow> string + ShadowCheckOutput" where
  "run_shadow_command e program args cwd =
     (if program = [] then Inl ''run_shadow_command requires program''
      else case sh_run e program args cwd of
             Inl err \<Rightarrow> Inl (''shadow check spawn failed ('' @ program @ ''): '' @ err)
           | Inr (success, out, errs) \<Rightarrow>
               let merged = out @ (if errs = [] then [] else line_feed @ ''--- stderr ---'' @ line_feed @ errs);
                   (preview, truncated, bytes) = truncate_to_50k merged
               in Inr \<lparr> co_program = program, co_success = success, co_preview = preview,
                        co_truncated = truncated, co_total_bytes = bytes \<rparr>)"

definition spawn_failure :: "ShadowCheck \<Rightarrow> string \<Rightarrow> ShadowCheckOutput" where
  "spawn_failure c err =
     \<lparr> co_program = ck_label c, co_success = False, co_preview = err, co_truncated = False, co_total_bytes = 0 \<rparr>"

fun run_shadow_checks :: "('v, 'x) ShadowEnv_scheme \<Rightarrow> string \<Rightarrow> ShadowCheck list \<Rightarrow> ShadowCheckOutput list" where
  "run_shadow_checks e live [] = []"
| "run_shadow_checks e live (c # cs) =
     (case run_shadow_command e (ck_program c) (ck_args c) live of
        Inl err \<Rightarrow> [spawn_failure c err]
      | Inr r \<Rightarrow> r # (if co_success r then run_shadow_checks e live cs else []))"

text \<open>The commands that were run: one for each output.\<close>

definition check_calls :: "string \<Rightarrow> ShadowCheck list \<Rightarrow> ShadowCheckOutput list \<Rightarrow> FsCall list" where
  "check_calls dir cs rs = map (\<lambda>(c, _). FxRun (ck_program c) (ck_args c) dir) (zip cs rs)"

section \<open>The receipt\<close>

definition record_preflight :: "('v, 'x) KernelEnv_scheme \<Rightarrow> string \<Rightarrow> bool \<Rightarrow> string \<Rightarrow> ('v, 'v) xk" where
  "record_preflight e i passed out k =
     (let j = kn_json e;
          (preview, truncated, bytes) = truncate_to_50k out;
          receipt = json_lit j [(''kind'', j_str j ''shadow_preflight''), (''passed'', j_bool j passed),
                                (''truncated'', j_bool j truncated), (''totalBytes'', j_num j bytes),
                                (''preview'', j_str j preview)]
      in (case attach_verification i receipt k of
            (Inl err, k') \<Rightarrow> (Inl err, k')
          | (Inr _, k') \<Rightarrow> (Inr receipt, k')))"

definition check_output_value :: "'v json_full \<Rightarrow> ShadowCheckOutput \<Rightarrow> 'v" where
  "check_output_value j r =
     json_lit j [(''program'', j_str j (co_program r)), (''success'', j_bool j (co_success r)),
                 (''preview'', j_str j (co_preview r)), (''truncated'', j_bool j (co_truncated r)),
                 (''total_bytes'', j_num j (co_total_bytes r))]"

definition unverified_reply :: "('v, 'x) KernelEnv_scheme \<Rightarrow> string \<Rightarrow> string \<Rightarrow> 'v" where
  "unverified_reply e i reason =
     (let j = kn_json e in
      json_lit j [(''id'', j_str j i), (''needsPreflight'', j_bool j True), (''verified'', j_bool j False),
                  (''passed'', j_bool j False), (''reason'', j_str j reason), (''checks'', kn_arr e [])])"

definition checks_output :: "ShadowCheck list \<Rightarrow> ShadowCheckOutput list \<Rightarrow> string" where
  "checks_output cs rs =
     concat (map (\<lambda>(c, r). ''$ '' @ ck_label c @ line_feed @ co_preview r @ line_feed) (zip cs rs))"

text \<open>The reply, the kernel, the calls made and the shadow trees cleaned up after them.\<close>

type_synonym 'v preflight_result = "(string + 'v) \<times> 'v ExecutionKernel \<times> FsCall list \<times> ShadowCleanup list"

definition run_preflight_with_candidate ::
  "('v, 'x) ShadowEnv_scheme \<Rightarrow> string \<Rightarrow> nat \<Rightarrow> bool \<Rightarrow> bool \<Rightarrow> string \<Rightarrow> ShadowCandidateFile list \<Rightarrow>
   'v ExecutionKernel \<Rightarrow> 'v preflight_result" where
  "run_preflight_with_candidate e i files structural destructive live candidate k =
     (let j = kn_json e; d = decide_shadow_preflight files structural destructive in
      if \<not> pf_needs_preflight d
      then (Inr (json_lit j [(''id'', j_str j i), (''needsPreflight'', j_bool j False),
                             (''verified'', j_bool j False), (''reason'', j_str j (pf_reason d)),
                             (''checks'', kn_arr e [])]), k, [], [])
      else
        let checks = discover_shadow_checks e live in
        if checks = []
        then (Inr (unverified_reply e i
                     (pf_reason d @ long_dash @ ''but no typecheck command was discovered in '' @ live)), k, [], [])
        else case stage_shadow_tree e live candidate of
          (Inl err, calls) \<Rightarrow>
            (Inr (unverified_reply e i
                    (pf_reason d @ long_dash @ ''but the shadow tree could not be staged: '' @ err)), k, calls, [])
        | (Inr (shadow, cleanup), staging) \<Rightarrow>
            let results = run_shadow_checks e shadow checks;
                calls = staging @ check_calls shadow checks results;
                passed = (length results = length checks \<and> list_all co_success results)
            in (case record_preflight e i passed (checks_output checks results) k of
                  (Inl err, k') \<Rightarrow> (Inl err, k', calls, [])
                | (Inr receipt, k') \<Rightarrow>
                    let reason = (case sh_cleanup e cleanup of
                                    None \<Rightarrow> pf_reason d
                                  | Some err \<Rightarrow> pf_reason d @ '' (shadow cleanup: '' @ err @ '')'')
                    in (Inr (json_lit j
                          [(''id'', j_str j i), (''needsPreflight'', j_bool j True),
                           (''verified'', j_bool j True), (''passed'', j_bool j passed),
                           (''reason'', j_str j reason),
                           (''checks'', kn_arr e (map (check_output_value j) results)),
                           (''receipt'', receipt)]), k', calls, [cleanup])))"

definition run_preflight ::
  "('v, 'x) ShadowEnv_scheme \<Rightarrow> string \<Rightarrow> nat \<Rightarrow> bool \<Rightarrow> bool \<Rightarrow> string \<Rightarrow> 'v ExecutionKernel \<Rightarrow>
   'v preflight_result" where
  "run_preflight e i files structural destructive live k =
     run_preflight_with_candidate e i files structural destructive live [] k"

end
