(* ===== verification/Phase_Graph.thy ===== *)
theory Phase_Graph
  imports Main
begin

text \<open>
  An interface over a transition relation with final states: what a path through it can do.
\<close>

locale phase_graph =
  fixes edge :: "'p \<Rightarrow> 'p \<Rightarrow> bool" and final :: "'p \<Rightarrow> bool"
  assumes final_stays: "final p \<Longrightarrow> edge p q \<Longrightarrow> q = p"
begin

lemma path_from_final: "successively edge (p # ps) \<Longrightarrow> final p \<Longrightarrow> set ps \<subseteq> {p}"
proof (induction ps arbitrary: p)
  case (Cons q ps)
  then have "q = p" by (auto dest: final_stays)
  with Cons.IH [of p] Cons.prems show ?case by simp
qed simp

lemma path_extend:
  "successively edge ps \<Longrightarrow> ps = [] \<or> edge (last ps) q \<Longrightarrow> successively edge (ps @ [q])"
  by (auto simp: successively_append_iff)

end

end
