(* ===== verification/Exec_Laws.thy ===== *)
theory Exec_Laws
  imports Exec_Preflight Phase_Graph Reachability
begin

text \<open>
  Laws of the execution kernel: the steps a kernel can make, the well-formedness they keep, and what
  they never change. \<open>kernel_step\<close> has one rule per operation that changes the kernel.
\<close>

section \<open>Reading and writing\<close>

lemma exec_get_put [simp]: "exec_get (put_exec i w k) i' = (if i' = i then Some w else exec_get k i')"
  by (simp add: exec_get_def put_exec_def)

lemma exec_get_frame [simp]:
  "exec_get (exec_alias a i k) = exec_get k" "exec_get (k\<lparr>xk_counter := c\<rparr>) = exec_get k"
  "exec_get (k\<lparr>xk_aliases := m\<rparr>) = exec_get k"
  by (simp_all add: exec_get_def exec_alias_def fun_eq_iff)

lemma exec_get_new [simp]: "exec_get kernel_new i = None"
  by (simp add: exec_get_def kernel_new_def)

lemma on_work_ok:
  "on_work i f k = (Inr x, k') \<longleftrightarrow> (\<exists>w w'. exec_get k i = Some w \<and> f w = (Inr x, w') \<and> k' = put_exec i w' k)"
  by (auto simp: on_work_def split: option.splits prod.splits)

lemma exec_get_on_work:
  "exec_get (snd (on_work i f k)) i' =
     (case exec_get k i of
        None \<Rightarrow> exec_get k i'
      | Some w \<Rightarrow> if i' = i then Some (snd (f w)) else exec_get k i')"
  by (auto simp: on_work_def split: option.splits prod.splits)

section \<open>Well-formed records\<close>

interpretation phases: phase_graph phase_transition_legal phase_is_terminal
  by unfold_locales (auto simp: phase_transition_legal_def split: if_splits)

text \<open>The event stream of a record is a path of legal transitions that ends in its phase; an approval is
  pending only while the record waits for it, and is one of its approval references.\<close>

definition legal_history :: "'v ExecWork \<Rightarrow> ExecutionPhase list \<Rightarrow> bool" where
  "legal_history w ps \<longleftrightarrow>
     xw_event_stream w = map phase_debug ps \<and> successively phase_transition_legal ps \<and>
     (ps \<noteq> [] \<longrightarrow> last ps = xw_state w)"

definition exec_work_ok :: "string \<Rightarrow> 'v ExecWork \<Rightarrow> bool" where
  "exec_work_ok i w \<longleftrightarrow>
     xw_id w = i \<and> (\<exists>ps. legal_history w ps) \<and>
     (\<forall>a. xw_pending_approval w = Some a \<longrightarrow>
        xw_state w = EpWaitingApproval \<and> pn_ticket_id a \<in> set (xw_approval_refs w))"

definition kernel_ok :: "'v ExecutionKernel \<Rightarrow> bool" where
  "kernel_ok k \<longleftrightarrow> (\<forall>i w. exec_get k i = Some w \<longrightarrow> exec_work_ok i w)"

lemma kernel_ok_new: "kernel_ok kernel_new"
  by (simp add: kernel_ok_def)

lemma kernel_ok_put: "kernel_ok k \<Longrightarrow> exec_work_ok i w \<Longrightarrow> kernel_ok (put_exec i w k)"
  by (simp add: kernel_ok_def)

lemma kernel_ok_frame [simp]:
  "kernel_ok (exec_alias a i k) = kernel_ok k" "kernel_ok (k\<lparr>xk_counter := c\<rparr>) = kernel_ok k"
  by (simp_all add: kernel_ok_def)

lemma kernel_ok_on_work:
  assumes "kernel_ok k" and "\<And>w. exec_get k i = Some w \<Longrightarrow> exec_work_ok i w \<Longrightarrow> exec_work_ok i (snd (f w))"
  shows "kernel_ok (snd (on_work i f k))"
  using assms by (auto simp: kernel_ok_def exec_get_on_work split: option.splits)

lemma work_ok_enter:
  assumes "exec_work_ok i w" "phase_can_transition (xw_state w) q" "xw_pending_approval w = None"
  shows "exec_work_ok i (enter_phase q w)"
proof -
  from assms(1) obtain ps where ps: "legal_history w ps"
    by (auto simp: exec_work_ok_def)
  have "successively phase_transition_legal (ps @ [q])"
    using ps edge_legal [OF assms(2)] by (intro phases.path_extend) (auto simp: legal_history_def)
  with ps have "legal_history (enter_phase q w) (ps @ [q])"
    by (simp add: legal_history_def enter_phase_def)
  then show ?thesis
    using assms(1,3) by (auto simp: exec_work_ok_def enter_phase_def)
qed

lemma work_ok_same:
  assumes "exec_work_ok i w" "xw_id w' = xw_id w" "xw_event_stream w' = xw_event_stream w" "xw_state w' = xw_state w"
    "xw_pending_approval w' = xw_pending_approval w" "xw_approval_refs w' = xw_approval_refs w"
  shows "exec_work_ok i w'"
  using assms by (simp add: exec_work_ok_def legal_history_def)

lemma begun_ok: "exec_work_ok i ((exec_work_new now i t s obj)\<lparr>xw_parent_id := p, xw_policy_snapshot := po,
    xw_context_snapshot := c, xw_capability_scope := sc, xw_state := EpReady\<rparr>)"
  by (auto simp: exec_work_ok_def exec_work_new_def legal_history_def intro: exI [of _ "[]"])

section \<open>Steps\<close>

inductive kernel_step :: "('v, 'x) KernelEnv_scheme \<Rightarrow> 'v ExecutionKernel \<Rightarrow> 'v ExecutionKernel \<Rightarrow> bool" for e where
  step_begin: "kernel_step e k (snd (exec_begin e t s obj p po c sc k))"
| step_begin_named: "kernel_step e k (snd (begin_named e i t s obj p po c sc k))"
| step_subagent: "kernel_step e k (snd (begin_subagent e s obj p d granted denied po k))"
| step_alias: "kernel_step e k (exec_alias key i k)"
| step_transition: "kernel_step e k (snd (exec_transition i q k))"
| step_record: "kernel_step e k (snd (on_work i (record_pending_on a) k))"
| step_resolve: "kernel_step e k (snd (on_work i (resolve_pending_approval_for t ok) k))"
| step_bind: "kernel_step e k (snd (on_work i (bind_step e m) k))"
| step_verification: "kernel_step e k (snd (attach_verification i v k))"
| step_receipt: "kernel_step e k (snd (attach_receipt i v k))"

lemma snd_exec_begin:
  "snd (exec_begin e t s obj p po c sc k) =
     snd (begin_named e (''ex:'' @ show_nat (u64_add (xk_counter k) 1)) t s obj p po c sc
            (k\<lparr>xk_counter := u64_add (xk_counter k) 1\<rparr>))"
  by (simp add: exec_begin_def Let_def)

lemma kernel_ok_begin_named: "kernel_ok k \<Longrightarrow> kernel_ok (snd (begin_named e i t s obj p po c sc k))"
  by (auto simp: begin_named_def Let_def intro!: kernel_ok_put begun_ok split: option.split)

lemma kernel_ok_begin: "kernel_ok k \<Longrightarrow> kernel_ok (snd (exec_begin e t s obj p po c sc k))"
  by (simp add: snd_exec_begin kernel_ok_begin_named)

lemma snd_begin_subagent:
  "snd (begin_subagent e s obj p d granted denied po k) =
     (if P64_MAX_SUBAGENT_DEPTH < d then k
      else snd (exec_begin e TgSubagent s obj p po [] (effective_subagent_tools granted denied) k))"
  by (simp add: begin_subagent_def split: prod.split)

lemma move_refusal_None:
  "move_refusal i w q = None \<longleftrightarrow>
     phase_can_transition (xw_state w) q \<and> (xw_state w = EpWaitingApproval \<longrightarrow> xw_pending_approval w = None)"
  by (auto simp: move_refusal_def split: if_splits)

lemma pending_only_waiting:
  "exec_work_ok i w \<Longrightarrow> xw_state w \<noteq> EpWaitingApproval \<Longrightarrow> xw_pending_approval w = None"
  by (cases "xw_pending_approval w") (auto simp: exec_work_ok_def)

lemma work_ok_transition:
  assumes "exec_work_ok i w"
  shows "exec_work_ok i (snd (case move_refusal i w q of Some err \<Rightarrow> (Inl err, w) | None \<Rightarrow> (Inr q, enter_phase q w)))"
proof (cases "move_refusal i w q")
  case None
  with pending_only_waiting [OF assms] have "exec_work_ok i (enter_phase q w)"
    by (intro work_ok_enter [OF assms]) (auto simp: move_refusal_None)
  with None show ?thesis by simp
qed (simp add: assms)

lemma work_ok_record: "exec_work_ok i w \<Longrightarrow> exec_work_ok i (snd (record_pending_on a w))"
  by (auto simp: record_pending_on_def exec_work_ok_def legal_history_def split: option.split)

lemma work_ok_resolve:
  assumes "exec_work_ok i w" shows "exec_work_ok i (snd (resolve_pending_approval_for t ok w))"
proof -
  have dropped: "exec_work_ok i (w\<lparr>xw_pending_approval := None\<rparr>)"
    using assms by (auto simp: exec_work_ok_def legal_history_def)
  then show ?thesis
    using assms work_ok_enter [OF dropped, of "if ok then EpRunning else EpFailed"]
    by (auto simp: resolve_pending_approval_for_def Let_def split: option.split)
qed

lemma kernel_ok_step: "kernel_step e k k' \<Longrightarrow> kernel_ok k \<Longrightarrow> kernel_ok k'"
proof (induction rule: kernel_step.induct)
  case (step_transition k i q)
  then show ?case unfolding exec_transition_def by (intro kernel_ok_on_work work_ok_transition)
next
  case (step_record k i a)
  then show ?case by (intro kernel_ok_on_work work_ok_record)
next
  case (step_resolve k i t ok)
  then show ?case by (intro kernel_ok_on_work work_ok_resolve)
next
  case (step_bind k i m)
  then show ?case
    by (intro kernel_ok_on_work) (auto simp: bind_step_def bind_manifest_def Let_def intro: work_ok_same)
next
  case (step_verification k i v)
  then show ?case unfolding attach_verification_def by (intro kernel_ok_on_work) (auto intro: work_ok_same)
next
  case (step_receipt k i v)
  then show ?case unfolding attach_receipt_def by (intro kernel_ok_on_work) (auto intro: work_ok_same)
qed (simp_all add: kernel_ok_begin_named kernel_ok_begin snd_begin_subagent)

interpretation kernel_shape: step_invariant "kernel_step e" kernel_ok for e
  by unfold_locales (rule kernel_ok_step)

section \<open>What a step never changes\<close>

text \<open>What a record keeps for ever, and how it may evolve.\<close>

definition same_identity :: "'v ExecWork \<Rightarrow> 'v ExecWork \<Rightarrow> bool" where
  "same_identity w w' \<longleftrightarrow>
     xw_id w' = xw_id w \<and> xw_parent_id w' = xw_parent_id w \<and> xw_session_id w' = xw_session_id w \<and>
     xw_trigger w' = xw_trigger w \<and> xw_objective w' = xw_objective w \<and>
     xw_policy_snapshot w' = xw_policy_snapshot w \<and> xw_capability_scope w' = xw_capability_scope w \<and>
     xw_context_snapshot w' = xw_context_snapshot w \<and> xw_idempotency_key w' = xw_idempotency_key w \<and>
     xw_created_at_ms w' = xw_created_at_ms w"

definition work_evolves :: "'v ExecWork \<Rightarrow> 'v ExecWork \<Rightarrow> bool" where
  "work_evolves w w' \<longleftrightarrow>
     same_identity w w' \<and> prefix (xw_event_stream w) (xw_event_stream w') \<and>
     prefix (xw_approval_refs w) (xw_approval_refs w') \<and>
     (phase_is_terminal (xw_state w) \<longrightarrow>
        xw_state w' = xw_state w \<and> xw_event_stream w' = xw_event_stream w \<and>
        xw_pending_approval w' = xw_pending_approval w \<and> xw_approval_refs w' = xw_approval_refs w)"

definition kernel_evolves :: "'v ExecutionKernel \<Rightarrow> 'v ExecutionKernel \<Rightarrow> bool" where
  "kernel_evolves k k' \<longleftrightarrow>
     (\<forall>i w. exec_get k i = Some w \<longrightarrow> (\<exists>w'. exec_get k' i = Some w' \<and> work_evolves w w'))"

lemma work_evolves_refl [simp]: "work_evolves w w"
  by (simp add: work_evolves_def same_identity_def)

lemma work_evolves_trans: "work_evolves u v \<Longrightarrow> work_evolves v w \<Longrightarrow> work_evolves u w"
  by (auto simp: work_evolves_def same_identity_def intro: prefix_order.trans)

lemma kernel_evolves_refl [simp]: "kernel_evolves k k"
  by (simp add: kernel_evolves_def)

lemma kernel_evolves_trans: "kernel_evolves a b \<Longrightarrow> kernel_evolves b c \<Longrightarrow> kernel_evolves a c"
  unfolding kernel_evolves_def by (meson work_evolves_trans)

lemma kernel_evolves_frame [simp]:
  "kernel_evolves k (exec_alias a i k') = kernel_evolves k k'"
  "kernel_evolves k (k'\<lparr>xk_counter := c\<rparr>) = kernel_evolves k k'"
  "kernel_evolves (k\<lparr>xk_counter := c\<rparr>) k' = kernel_evolves k k'"
  by (simp_all add: kernel_evolves_def)

lemma kernel_evolves_on_work:
  assumes "\<And>w. work_evolves w (snd (f w))"
  shows "kernel_evolves k (snd (on_work i f k))"
  using assms by (auto simp: kernel_evolves_def exec_get_on_work split: option.splits)

lemma evolves_begin_named: "kernel_evolves k (snd (begin_named e i t s obj p po c sc k))"
  by (auto simp: begin_named_def Let_def kernel_evolves_def split: option.split)

lemma evolves_begin: "kernel_evolves k (snd (exec_begin e t s obj p po c sc k))"
  unfolding snd_exec_begin
  using evolves_begin_named [of "k\<lparr>xk_counter := u64_add (xk_counter k) 1\<rparr>"] by simp

lemma evolves_enter:
  "phase_can_transition (xw_state w) q \<Longrightarrow> work_evolves w (enter_phase q (w\<lparr>xw_pending_approval := pend\<rparr>))"
  by (auto simp: work_evolves_def same_identity_def enter_phase_def)

lemma evolves_transition:
  "work_evolves w (snd (case move_refusal i w q of Some err \<Rightarrow> (Inl err, w) | None \<Rightarrow> (Inr q, enter_phase q w)))"
  using evolves_enter [of w q "xw_pending_approval w"]
  by (auto simp: move_refusal_None split: option.split)

lemma evolves_record: "work_evolves w (snd (record_pending_on a w))"
  by (auto simp: record_pending_on_def work_evolves_def same_identity_def phase_is_terminal_def split: option.split)

lemma evolves_resolve: "work_evolves w (snd (resolve_pending_approval_for t ok w))"
  using evolves_enter [of w "if ok then EpRunning else EpFailed" None]
  by (auto simp: resolve_pending_approval_for_def Let_def split: option.split)

lemma evolves_attach:
  "work_evolves w (w\<lparr>xw_verification := v\<rparr>)" "work_evolves w (w\<lparr>xw_receipt := r\<rparr>)"
  "work_evolves w (w\<lparr>xw_config_hash := h, xw_runtime_manifest := m\<rparr>)"
  by (simp_all add: work_evolves_def same_identity_def)

lemma step_evolves: "kernel_step e k k' \<Longrightarrow> kernel_evolves k k'"
proof (induction rule: kernel_step.induct)
  case (step_transition k i q)
  show ?case unfolding exec_transition_def by (intro kernel_evolves_on_work evolves_transition)
qed (auto simp: snd_begin_subagent attach_verification_def attach_receipt_def bind_step_def bind_manifest_def Let_def
       intro!: evolves_begin evolves_begin_named kernel_evolves_on_work evolves_record evolves_resolve evolves_attach)

interpretation kernel_growth: step_order "kernel_step e" kernel_evolves for e
  by unfold_locales (auto intro: kernel_evolves_trans step_evolves)

section \<open>Refusals change nothing\<close>

lemma bt_insert_same: "bt_sorted m \<Longrightarrow> lookup m k = Some v \<Longrightarrow> bt_insert k v m = m"
proof (induction k v m rule: bt_insert.induct)
  case (2 k v a b m)
  have "\<not> k < a"
  proof
    assume less: "k < a"
    with 2(3) have "(k, v) \<in> set m" by (auto dest: map_of_SomeD split: if_splits)
    with 2(2) have "a < k" by (auto simp: bt_sorted_def)
    with less show False by simp
  qed
  with 2 show ?case by (auto simp: bt_sorted_def split: if_splits)
qed simp

lemma put_exec_same: "bt_sorted (xk_executions k) \<Longrightarrow> exec_get k i = Some w \<Longrightarrow> put_exec i w k = k"
  by (simp add: exec_get_def put_exec_def bt_insert_same)

lemma on_work_refused:
  assumes "bt_sorted (xk_executions k)" "\<And>w err w'. f w = (Inl err, w') \<Longrightarrow> w' = w"
    and "on_work i f k = (Inl err, k')"
  shows "k' = k"
  using assms(3) put_exec_same [OF assms(1)]
  by (auto simp: on_work_def dest: assms(2) split: option.splits prod.splits)

section \<open>Fresh identities\<close>

lemma parse_ex_counter_show: "n < 2 ^ 64 \<Longrightarrow> parse_ex_counter (''ex:'' @ show_nat n) = n"
proof -
  assume "n < 2 ^ 64"
  moreover have "strip_prefix (''ex:'' @ show_nat n) ''ex:'' = Some (show_nat n)"
    by (rule strip_prefix_append)
  ultimately show ?thesis
    by (simp only: parse_ex_counter_def Option.bind.simps parse_nat_show option.case)
qed

text \<open>Every id of the kernel that has the form \<open>ex:n\<close> has been counted.\<close>

definition counted_ids :: "'v ExecutionKernel \<Rightarrow> bool" where
  "counted_ids k \<longleftrightarrow> (\<forall>i. exec_get k i \<noteq> None \<longrightarrow> parse_ex_counter i \<le> xk_counter k)"

lemma counted_new: "counted_ids kernel_new"
  by (simp add: counted_ids_def)

lemma begin_is_fresh:
  assumes "counted_ids k" "xk_counter k < u64_max"
  defines "i \<equiv> ''ex:'' @ show_nat (xk_counter k + 1)"
  shows "exec_get k i = None" "counted_ids (snd (exec_begin e t s obj p po c sc k))"
    "xw_id (fst (exec_begin e t s obj p po c sc k)) = i"
proof -
  have n: "u64_add (xk_counter k) 1 = xk_counter k + 1" "xk_counter k + 1 < 2 ^ 64"
    using assms(2) by (auto simp: u64_add_small u64_max_def)
  have parse: "parse_ex_counter i = xk_counter k + 1"
    unfolding i_def using n(2) by (rule parse_ex_counter_show)
  then show fresh: "exec_get k i = None"
    using assms(1) unfolding counted_ids_def by (metis Suc_eq_plus1 not_less_eq_eq order_refl)
  let ?k = "k\<lparr>xk_counter := xk_counter k + 1\<rparr>"
  have counter: "xk_counter (k\<lparr>xk_counter := c\<rparr>) = c" for c by simp
  have eq: "exec_begin e t s obj p po c sc k = begin_named e i t s obj p po c sc ?k"
    unfolding exec_begin_def Let_def n(1) i_def by (simp only: counter)
  show "xw_id (fst (exec_begin e t s obj p po c sc k)) = i"
    using fresh by (simp add: eq begin_named_def Let_def exec_work_new_def)
  have "counted_ids (put_exec i w ?k)" for w
    using assms(1) parse by (auto simp: counted_ids_def put_exec_def exec_get_def intro: le_SucI)
  with fresh show "counted_ids (snd (exec_begin e t s obj p po c sc k))"
    by (simp add: eq begin_named_def Let_def)
qed

end
