(* ===== verification/Cua.thy ===== *)
theory Cua
  imports Json_Access Text_Render
begin

text \<open>
  The computer-use orchestrator (\<open>core/src/cua.rs\<close>): the surface a target is routed to, the dependency
  graph of a run with its replanning rules, the Worker's act-and-verify step, mechanical verification,
  promotion of a verified trace to a skill, and the small policies on roles, runtimes and models.

  Decoding a node from JSON, the file system and the JSON quoting of a log line are parameters.
\<close>

definition u32_top :: nat where
  "u32_top = 4294967295"

definition u32_sat_inc :: "nat \<Rightarrow> nat" where
  "u32_sat_inc n = (if n < u32_top then n + 1 else u32_top)"

section \<open>Surfaces\<close>

datatype WorkSurface = SfOffice | SfBrowse | SfDesktop

definition office_extensions :: "string list" where
  "office_extensions =
     [''.docx'', ''.xlsx'', ''.pptx'', ''.pdf'', ''.doc'', ''.xls'', ''.ppt'', ''.odt'', ''.ods'', ''.odp'']"

definition looks_like_office :: "string \<Rightarrow> bool" where
  "looks_like_office lower =
     (let path = takeWhile (\<lambda>c. c \<noteq> CHR ''?'' \<and> c \<noteq> CHR ''#'') lower
      in list_ex (ends_with path) office_extensions)"

definition looks_like_url :: "string \<Rightarrow> bool" where
  "looks_like_url lower \<longleftrightarrow>
     starts_with lower ''http://'' \<or> starts_with lower ''https://'' \<or> starts_with lower ''file://''"

definition route_work_surface :: "string \<Rightarrow> WorkSurface" where
  "route_work_surface target =
     (let lower = to_lowercase (str_trim target)
      in if looks_like_office lower then SfOffice
         else if looks_like_url lower then SfBrowse else SfDesktop)"

fun surface_str :: "WorkSurface \<Rightarrow> string" where
  "surface_str SfOffice = ''office''"
| "surface_str SfBrowse = ''browse''"
| "surface_str SfDesktop = ''desktop''"

fun fabric_letter :: "WorkSurface \<Rightarrow> string" where
  "fabric_letter SfOffice = ''a''"
| "fabric_letter SfBrowse = ''b''"
| "fabric_letter SfDesktop = ''c''"

definition fabric_is_perception :: "WorkSurface \<Rightarrow> bool" where
  "fabric_is_perception s \<longleftrightarrow> s = SfDesktop"

text \<open>\<open>None\<close>: the observation may be sent.\<close>

definition vision_gate :: "bool \<Rightarrow> bool \<Rightarrow> string option" where
  "vision_gate needs_screenshot accepts_image =
     (if needs_screenshot \<and> \<not> accepts_image then Some ''cua_requires_vision'' else None)"

section \<open>The dependency graph\<close>

datatype CuaNodeStatus = CsPending | CsReady | CsRunning | CsVerified | CsHalted | CsBlocked

record FivePartBrief =
  fb_goal :: string
  fb_constraints :: string
  fb_inputs :: string
  fb_postconditions :: string
  fb_out_of_scope :: string

record CuaNode =
  nd_id :: string
  nd_name :: string
  nd_info :: string
  nd_depends_on :: "string list"
  nd_status :: CuaNodeStatus
  nd_last_action :: "string option"
  nd_screenshot_ref :: "string option"
  nd_identical_fail_count :: nat
  nd_fail_count :: nat
  nd_preconditions :: "string list"
  nd_postconditions :: "string list"
  nd_timeout_s :: nat
  nd_retry :: nat
  nd_brief :: "FivePartBrief option"
  nd_fabric :: "string option"

definition cua_node_default :: CuaNode where
  "cua_node_default =
     \<lparr> nd_id = [], nd_name = [], nd_info = [], nd_depends_on = [], nd_status = CsPending, nd_last_action = None,
       nd_screenshot_ref = None, nd_identical_fail_count = 0, nd_fail_count = 0, nd_preconditions = [],
       nd_postconditions = [], nd_timeout_s = 0, nd_retry = 0, nd_brief = None, nd_fabric = None \<rparr>"

record ComputerUseDag =
  dg_run_id :: string
  dg_work_id :: string
  dg_nodes :: "CuaNode list"
  dg_replan_seq :: nat

definition node_verified :: "ComputerUseDag \<Rightarrow> string \<Rightarrow> bool" where
  "node_verified d i \<longleftrightarrow> list_ex (\<lambda>x. nd_id x = i \<and> nd_status x = CsVerified) (dg_nodes d)"

definition ready_frontier :: "ComputerUseDag \<Rightarrow> CuaNode list" where
  "ready_frontier d =
     filter (\<lambda>n. list_all (node_verified d) (nd_depends_on n))
       (filter (\<lambda>n. nd_status n = CsPending) (dg_nodes d))"

definition replan_remaining :: "CuaNode list \<Rightarrow> ComputerUseDag \<Rightarrow> ComputerUseDag" where
  "replan_remaining remaining d =
     d\<lparr>dg_nodes := filter (\<lambda>n. nd_status n = CsVerified) (dg_nodes d) @ remaining,
       dg_replan_seq := u32_sat_inc (dg_replan_seq d)\<rparr>"

text \<open>A change of the first node with the id: \<open>iter_mut().find\<close>.\<close>

fun update_first :: "('a \<Rightarrow> bool) \<Rightarrow> ('a \<Rightarrow> 'a) \<Rightarrow> 'a list \<Rightarrow> 'a list" where
  "update_first p f [] = []"
| "update_first p f (x # xs) = (if p x then f x # xs else x # update_first p f xs)"

definition find_node :: "string \<Rightarrow> ComputerUseDag \<Rightarrow> CuaNode option" where
  "find_node i d = find (\<lambda>n. nd_id n = i) (dg_nodes d)"

definition change_node :: "string \<Rightarrow> (CuaNode \<Rightarrow> CuaNode) \<Rightarrow> ComputerUseDag \<Rightarrow> ComputerUseDag" where
  "change_node i f d = d\<lparr>dg_nodes := update_first (\<lambda>n. nd_id n = i) f (dg_nodes d)\<rparr>"

definition unknown_node :: "string \<Rightarrow> string" where
  "unknown_node i = ''unknown CUA node '' @ i"

definition apply_remaining_edit ::
  "string \<Rightarrow> string option \<Rightarrow> string option \<Rightarrow> ComputerUseDag \<Rightarrow> string + ComputerUseDag" where
  "apply_remaining_edit i name info d =
     (case find_node i d of
        None \<Rightarrow> Inl (unknown_node i)
      | Some n \<Rightarrow>
          if nd_status n = CsVerified then Inl (''verified nodes cannot be edited'' @ long_dash @ ''replan remaining only'')
          else if (case name of None \<Rightarrow> False | Some x \<Rightarrow> str_trim x = [])
          then Inl ''remaining node name must not be empty''
          else Inr ((change_node i (\<lambda>n. n\<lparr>nd_name := or_default (nd_name n) name,
                                        nd_info := or_default (nd_info n) info\<rparr>) d)
                      \<lparr>dg_replan_seq := u32_sat_inc (dg_replan_seq d)\<rparr>))"

section \<open>One Worker step\<close>

datatype DelegationOutcome = DoVerified | DoMismatch | DoHalt

definition IDENTICAL_FAIL_HALT :: nat where
  "IDENTICAL_FAIL_HALT = 2"

definition delegation_step :: "bool \<Rightarrow> nat \<Rightarrow> DelegationOutcome" where
  "delegation_step verify_ok fails =
     (if verify_ok then DoVerified
      else if IDENTICAL_FAIL_HALT \<le> u32_sat_inc fails then DoHalt
      else DoMismatch)"

definition apply_delegation_act :: "bool \<Rightarrow> CuaNode \<Rightarrow> DelegationOutcome \<times> CuaNode" where
  "apply_delegation_act verify_ok n =
     (let out = delegation_step verify_ok (nd_identical_fail_count n) in
      (out, case out of
              DoVerified \<Rightarrow> n\<lparr>nd_status := CsVerified, nd_identical_fail_count := 0\<rparr>
            | DoMismatch \<Rightarrow> n\<lparr>nd_identical_fail_count := u32_sat_inc (nd_identical_fail_count n),
                              nd_status := CsRunning\<rparr>
            | DoHalt \<Rightarrow> n\<lparr>nd_identical_fail_count := u32_sat_inc (nd_identical_fail_count n),
                          nd_status := CsHalted\<rparr>))"

definition node_contract_legal :: "CuaNode \<Rightarrow> bool" where
  "node_contract_legal n \<longleftrightarrow> nd_postconditions n \<noteq> []"

section \<open>Replanning\<close>

datatype ManagerReplanReason = RpHalt | RpCompletion | RpPlanner

definition parse_replan_reason :: "string \<Rightarrow> ManagerReplanReason" where
  "parse_replan_reason raw =
     (let r = to_lowercase (str_trim raw)
      in if r \<in> {''halt'', ''identical-fail-halt'', ''failure'', ''failed''} then RpHalt
         else if r \<in> {''completion'', ''complete'', ''done''} then RpCompletion
         else RpPlanner)"

fun replan_reason_str :: "ManagerReplanReason \<Rightarrow> string" where
  "replan_reason_str RpHalt = ''halt''"
| "replan_reason_str RpCompletion = ''completion''"
| "replan_reason_str RpPlanner = ''planner''"

text \<open>A remaining node that carries a ticket, or claims to be approved, tries to pass the guard.
  \<open>is_object\<close> says that a value is an object.\<close>

definition remaining_payload_skips_guard :: "('v, 'x) json_api_scheme \<Rightarrow> ('v \<Rightarrow> bool) \<Rightarrow> 'v \<Rightarrow> bool" where
  "remaining_payload_skips_guard j is_object v \<longleftrightarrow>
     is_object v \<and>
     (j_get j v ''ticketId'' \<noteq> None \<or> j_get j v ''ticket_id'' \<noteq> None \<or>
      get_bool j v ''skipGuard'' = Some True \<or> get_bool j v ''skip_guard'' = Some True \<or>
      get_bool j v ''approved'' = Some True)"

definition validate_remaining_node :: "CuaNode \<Rightarrow> string option" where
  "validate_remaining_node n =
     (if str_trim (nd_id n) = [] then Some ''remaining node id must not be empty''
      else if \<not> node_contract_legal n
      then Some (''unverifiable remaining node '' @ nd_id n @ long_dash @ ''postconditions required'')
      else if nd_status n = CsVerified
      then Some (''remaining node '' @ nd_id n @ '' cannot be Verified'' @ long_dash @ ''Manager rewrites remaining only'')
      else None)"

fun parse_nodes ::
  "('v, 'x) json_api_scheme \<Rightarrow> ('v \<Rightarrow> bool) \<Rightarrow> ('v \<Rightarrow> string + CuaNode) \<Rightarrow> 'v list \<Rightarrow> string + CuaNode list" where
  "parse_nodes j is_object decode [] = Inr []"
| "parse_nodes j is_object decode (v # vs) =
     (if remaining_payload_skips_guard j is_object v
      then Inl (''planned click cannot skip Guard-2'' @ long_dash @ ''remaining nodes are proposals, not tickets'')
      else case decode v of
             Inl err \<Rightarrow> Inl (''remaining node: '' @ err)
           | Inr n \<Rightarrow>
               (case validate_remaining_node n of
                  Some err \<Rightarrow> Inl err
                | None \<Rightarrow>
                    (case parse_nodes j is_object decode vs of Inl err \<Rightarrow> Inl err | Inr ns \<Rightarrow> Inr (n # ns))))"

definition parse_remaining_nodes ::
  "('v, 'x) json_api_scheme \<Rightarrow> ('v \<Rightarrow> bool) \<Rightarrow> ('v \<Rightarrow> string + CuaNode) \<Rightarrow> 'v \<Rightarrow> string + CuaNode list" where
  "parse_remaining_nodes j is_object decode v =
     (let arr = (\<lambda>key. Option.bind (j_get j v key) (j_as_array j)) in
      case j_as_array j v of
        Some a \<Rightarrow> parse_nodes j is_object decode a
      | None \<Rightarrow>
          (case arr ''nodes'' of
             Some a \<Rightarrow> parse_nodes j is_object decode a
           | None \<Rightarrow>
               (case arr ''remaining'' of
                  Some a \<Rightarrow> parse_nodes j is_object decode a
                | None \<Rightarrow> Inl ''manager remaining plan must be a JSON array of nodes'')))"

record ManagerReplanResult =
  mr_replan_seq :: nat
  mr_verified_kept :: nat
  mr_remaining :: nat

definition apply_manager_replan ::
  "CuaNode list \<Rightarrow> ComputerUseDag \<Rightarrow> (string + ManagerReplanResult) \<times> ComputerUseDag" where
  "apply_manager_replan remaining d =
     (case List.map_filter validate_remaining_node remaining of
        err # _ \<Rightarrow> (Inl err, d)
      | [] \<Rightarrow>
          let kept = length (filter (\<lambda>n. nd_status n = CsVerified) (dg_nodes d));
              d' = replan_remaining remaining d
          in (Inr \<lparr> mr_replan_seq = dg_replan_seq d', mr_verified_kept = kept,
                    mr_remaining = length (dg_nodes d') - kept \<rparr>, d'))"

section \<open>Briefs, roles and evidence\<close>

definition brief_is_complete :: "FivePartBrief \<Rightarrow> bool" where
  "brief_is_complete b \<longleftrightarrow>
     str_trim (fb_goal b) \<noteq> [] \<and> str_trim (fb_constraints b) \<noteq> [] \<and> str_trim (fb_inputs b) \<noteq> [] \<and>
     str_trim (fb_postconditions b) \<noteq> [] \<and> str_trim (fb_out_of_scope b) \<noteq> []"

definition apply_five_part_brief :: "FivePartBrief \<Rightarrow> CuaNode \<Rightarrow> string + CuaNode" where
  "apply_five_part_brief b n =
     (if \<not> brief_is_complete b
      then Inl (''five-part brief incomplete'' @ long_dash @ ''Worker does not inherit the transcript'')
      else Inr (n\<lparr>nd_postconditions := (if nd_postconditions n = [] then [fb_postconditions b] else nd_postconditions n),
                  nd_brief := Some b\<rparr>))"

datatype DelegationRole = DrScout | DrWorker | DrVerifier

definition parse_role :: "string \<Rightarrow> DelegationRole option" where
  "parse_role raw =
     (let r = to_lowercase (str_trim raw)
      in if r = ''scout'' then Some DrScout
         else if r = ''worker'' then Some DrWorker
         else if r = ''verifier'' \<or> r = ''verify'' then Some DrVerifier
         else None)"

definition SCOUT_ALLOWED_TOOLS :: "string list" where
  "SCOUT_ALLOWED_TOOLS =
     [''file_ops.read'', ''file_ops.list'', ''search.query'', ''grep'', ''codeintel.repomap'', ''browser.snapshot'',
      ''desktop.snapshot'']"

fun filter_tools_for_role :: "DelegationRole \<Rightarrow> string list \<Rightarrow> string list" where
  "filter_tools_for_role DrWorker tools = tools"
| "filter_tools_for_role DrScout tools = filter (\<lambda>t. t \<in> set SCOUT_ALLOWED_TOOLS) tools"
| "filter_tools_for_role DrVerifier tools = filter (\<lambda>t. t \<in> set SCOUT_ALLOWED_TOOLS) tools"

definition verifier_accepts_worker_claim :: "bool \<Rightarrow> bool \<Rightarrow> bool" where
  "verifier_accepts_worker_claim claimed mechanical_ok = mechanical_ok"

datatype EvidenceKind = EvNone | EvFileExists | EvFileContains | EvFileEquals | EvCommandExit | EvCloseRead

record MechanicalEvidence =
  mev_kind :: EvidenceKind
  mev_path :: "string option"
  mev_expect :: "string option"
  mev_exit_code :: "int option"
  mev_text :: "string option"

datatype MechanicalVerdict = MvVerified | MvRefuted | MvSampled

record DiskView =
  dv_is_file :: "string \<Rightarrow> bool"
  dv_text :: "string \<Rightarrow> string option"
  dv_bytes :: "string \<Rightarrow> string option"

definition CLOSE_READ_MAX :: nat where
  "CLOSE_READ_MAX = 4096"

definition verdict_of :: "bool \<Rightarrow> MechanicalVerdict" where
  "verdict_of ok = (if ok then MvVerified else MvRefuted)"

definition with_both :: "'a option \<Rightarrow> 'b option \<Rightarrow> ('a \<Rightarrow> 'b \<Rightarrow> MechanicalVerdict) \<Rightarrow> MechanicalVerdict" where
  "with_both a b f = (case (a, b) of (Some x, Some y) \<Rightarrow> f x y | _ \<Rightarrow> MvSampled)"

fun evidence_verdict :: "DiskView \<Rightarrow> EvidenceKind \<Rightarrow> MechanicalEvidence \<Rightarrow> MechanicalVerdict" where
  "evidence_verdict d EvNone ev = MvSampled"
| "evidence_verdict d EvFileExists ev =
     (case mev_path ev of None \<Rightarrow> MvSampled | Some p \<Rightarrow> verdict_of (dv_is_file d p))"
| "evidence_verdict d EvFileContains ev =
     with_both (mev_path ev) (mev_expect ev) (\<lambda>p expect.
       case dv_text d p of None \<Rightarrow> MvRefuted | Some s \<Rightarrow> verdict_of (str_contains s expect))"
| "evidence_verdict d EvFileEquals ev =
     with_both (mev_path ev) (mev_expect ev) (\<lambda>p expect.
       case dv_bytes d p of None \<Rightarrow> MvRefuted | Some b \<Rightarrow> verdict_of (b = expect))"
| "evidence_verdict d EvCommandExit ev =
     (case mev_exit_code ev of None \<Rightarrow> MvSampled | Some c \<Rightarrow> verdict_of (c = 0))"
| "evidence_verdict d EvCloseRead ev =
     (case mev_text ev of
        None \<Rightarrow> MvSampled
      | Some text \<Rightarrow>
          if CLOSE_READ_MAX < length text then MvSampled
          else (case mev_expect ev of
                  None \<Rightarrow> MvSampled
                | Some expect \<Rightarrow> verdict_of (str_contains text expect)))"

definition mechanical_verify :: "DiskView \<Rightarrow> bool \<Rightarrow> MechanicalEvidence \<Rightarrow> MechanicalVerdict" where
  "mechanical_verify d claimed ev = evidence_verdict d (mev_kind ev) ev"

definition apply_mechanical_verify ::
  "DiskView \<Rightarrow> bool \<Rightarrow> MechanicalEvidence \<Rightarrow> CuaNode \<Rightarrow> MechanicalVerdict \<times> CuaNode" where
  "apply_mechanical_verify d claimed ev n =
     (let verdict = mechanical_verify d claimed ev in
      (verdict, case verdict of
                  MvVerified \<Rightarrow> snd (apply_delegation_act True n)
                | MvRefuted \<Rightarrow> snd (apply_delegation_act False n)
                | MvSampled \<Rightarrow> n))"

section \<open>Stopping\<close>

definition FAILED_RECLAIM_AFTER :: nat where
  "FAILED_RECLAIM_AFTER = 3"

definition stop_is_blocked :: "string \<Rightarrow> bool" where
  "stop_is_blocked reason \<longleftrightarrow>
     to_lowercase (str_trim reason) \<in> {''permission'', ''missing-info'', ''missing_info'', ''blocked''}"

definition apply_node_stop :: "string \<Rightarrow> CuaNode \<Rightarrow> bool \<times> CuaNode" where
  "apply_node_stop reason n =
     (if stop_is_blocked reason then (False, n\<lparr>nd_status := CsBlocked\<rparr>)
      else
        let fails = u32_sat_inc (nd_fail_count n); n' = n\<lparr>nd_fail_count := fails\<rparr>
        in if FAILED_RECLAIM_AFTER \<le> fails then (True, n'\<lparr>nd_status := CsHalted\<rparr>)
           else (False, n'\<lparr>nd_status := CsRunning\<rparr>))"

definition apply_fabric :: "WorkSurface \<Rightarrow> CuaNode \<Rightarrow> CuaNode" where
  "apply_fabric s n = n\<lparr>nd_fabric := Some (fabric_letter s)\<rparr>"

section \<open>Promotion to a skill\<close>

record CuaSkillDraft =
  sd_name :: string
  sd_description :: string
  sd_postconditions :: "string list"
  sd_node_ids :: "string list"
  sd_body :: string

definition lower_alnum :: "char \<Rightarrow> bool" where
  "lower_alnum c \<longleftrightarrow> is_digit c \<or> CHR ''a'' \<le> c \<and> c \<le> CHR ''z''"

text \<open>A character is its leading byte: continuation bytes are dropped.\<close>

definition skill_slug :: "string \<Rightarrow> string" where
  "skill_slug name =
     trim_matches (\<lambda>c. c = CHR ''-'')
       (map (\<lambda>c. if lower_alnum c then c else CHR ''-'')
          (filter (\<lambda>c. \<not> is_continuation c) (to_lowercase (str_trim name))))"

definition skill_body :: "CuaNode list \<Rightarrow> string" where
  "skill_body nodes =
     ''This skill is a reusable CUA procedure. It is not the orchestrator.'' @ line_feed @ line_feed @
     ''## Steps'' @ line_feed @
     concat (map (\<lambda>n. ''- **'' @ nd_name n @ ''** (`'' @ nd_id n @ ''`): '' @ nd_info n @ line_feed) nodes) @
     line_feed @ ''## Postconditions'' @ line_feed @
     concat (map (\<lambda>p. ''- '' @ p @ line_feed) (concat (map nd_postconditions nodes)))"

definition cua_skill_from_verified :: "ComputerUseDag \<Rightarrow> string \<Rightarrow> string \<Rightarrow> string + CuaSkillDraft" where
  "cua_skill_from_verified d name description =
     (let slug = skill_slug name; nodes = dg_nodes d in
      if slug = [] \<or> 64 < length slug
      then Inl (''CUA skill name must be 1'' @ en_dash @ ''64 [a-z0-9-] characters'')
      else if str_trim description = [] then Inl ''CUA skill description is required (Agent Skills spec)''
      else if nodes = [] then Inl ''no verified trace to promote''
      else if list_ex (\<lambda>n. nd_status n \<noteq> CsVerified) nodes
      then Inl ''one-off traces cannot become a skill until every node is verified''
      else (case find (\<lambda>n. \<not> node_contract_legal n) nodes of
              Some n \<Rightarrow> Inl (''unverifiable node '' @ nd_id n @ long_dash @ ''postconditions required'')
            | None \<Rightarrow>
                Inr \<lparr> sd_name = slug, sd_description = str_trim description,
                      sd_postconditions = concat (map nd_postconditions nodes), sd_node_ids = map nd_id nodes,
                      sd_body = skill_body nodes \<rparr>))"

section \<open>Runtimes and models\<close>

record RuntimeBinding =
  rb_harness :: string
  rb_model :: string
  rb_role :: "DelegationRole option"
  rb_chief :: "string option"

definition cli_named_subagent :: "string \<Rightarrow> bool" where
  "cli_named_subagent label \<longleftrightarrow>
     (let l = to_lowercase (str_trim label)
      in list_ex (str_contains l) [''claude'', ''codex'', ''opencode'', ''gemini'', ''cursor''] \<and>
         str_contains l ''subagent'')"

definition refuse_cli_named_subagent :: "string \<Rightarrow> string option" where
  "refuse_cli_named_subagent label =
     (if cli_named_subagent label
      then Some (''no CLI-named subagent type'' @ long_dash @ ''harness, model, and role are independent planes'') else None)"

definition cua_bind_runtime ::
  "string \<Rightarrow> string \<Rightarrow> DelegationRole option \<Rightarrow> string option \<Rightarrow> string + RuntimeBinding" where
  "cua_bind_runtime harness model role chief =
     (case refuse_cli_named_subagent harness of
        Some err \<Rightarrow> Inl err
      | None \<Rightarrow>
          (case refuse_cli_named_subagent model of
             Some err \<Rightarrow> Inl err
           | None \<Rightarrow>
               if str_trim harness = [] then Inl ''harness required (independent of model)''
               else if str_trim model = [] then Inl ''model required (independent of harness)''
               else Inr \<lparr> rb_harness = str_trim harness, rb_model = str_trim model, rb_role = role,
                          rb_chief = chief \<rparr>))"

record PerceptionLayers =
  pl_screenshot_ref :: "string option"
  pl_a11y :: "string option"
  pl_dom :: "string option"
  pl_ocr :: "string option"
  pl_api :: "string option"

record SceneGraph =
  sg_vision_first :: bool
  sg_structure_augments :: bool
  sg_structure_lying :: bool
  sg_usable :: bool

definition filled :: "string option \<Rightarrow> bool" where
  "filled x = (case x of None \<Rightarrow> False | Some s \<Rightarrow> str_trim s \<noteq> [])"

definition fuse_perception :: "PerceptionLayers \<Rightarrow> string + SceneGraph" where
  "fuse_perception l =
     (if \<not> filled (pl_screenshot_ref l)
      then Inl (''CUA perception requires a screenshot'' @ long_dash @ ''structure cannot replace vision'')
      else
        let lying = (pl_a11y l = Some ''lying'' \<or> pl_dom l = Some ''lying'' \<or> pl_a11y l = Some ''false'')
        in Inr \<lparr> sg_vision_first = True,
                 sg_structure_augments = ((filled (pl_a11y l) \<or> filled (pl_dom l) \<or> filled (pl_ocr l)) \<and> \<not> lying),
                 sg_structure_lying = lying, sg_usable = True \<rparr>)"

datatype ModelTier = TrCheap | TrMid | TrFrontier | TrLocal | TrVl

definition parse_tier :: "string \<Rightarrow> ModelTier" where
  "parse_tier raw =
     (let r = to_lowercase (str_trim raw)
      in if r = ''mid'' then TrMid
         else if r = ''frontier'' then TrFrontier
         else if r = ''local'' then TrLocal
         else if r = ''vl'' \<or> r = ''vision'' then TrVl
         else TrCheap)"

fun tier_str :: "ModelTier \<Rightarrow> string" where
  "tier_str TrCheap = ''cheap''"
| "tier_str TrMid = ''mid''"
| "tier_str TrFrontier = ''frontier''"
| "tier_str TrLocal = ''local''"
| "tier_str TrVl = ''vl''"

fun escalate_tier :: "ModelTier \<Rightarrow> ModelTier" where
  "escalate_tier TrCheap = TrMid"
| "escalate_tier TrLocal = TrMid"
| "escalate_tier TrMid = TrFrontier"
| "escalate_tier TrVl = TrFrontier"
| "escalate_tier TrFrontier = TrFrontier"

definition pick_combo :: "bool \<Rightarrow> bool \<Rightarrow> ModelTier \<Rightarrow> ModelTier" where
  "pick_combo needs_vision verify_failed current =
     (let t = (if needs_vision \<and> current \<noteq> TrVl \<and> current \<noteq> TrFrontier then TrVl else current)
      in if verify_failed then escalate_tier t else t)"

datatype HarnessModelCase = HmA | HmB | HmC

definition classify_harness_model_case :: "string \<Rightarrow> string \<Rightarrow> string \<Rightarrow> string \<Rightarrow> HarnessModelCase" where
  "classify_harness_model_case ph pm wh wm =
     (let same = (\<lambda>a b. to_lowercase (str_trim a) = to_lowercase (str_trim b))
      in if \<not> same ph wh then HmA else if same pm wm then HmB else HmC)"

section \<open>Laws\<close>

lemma delegation_verified: "fst (apply_delegation_act ok n) = DoVerified \<longleftrightarrow> ok"
  by (simp add: apply_delegation_act_def Let_def delegation_step_def)

lemma act_status:
  "nd_status (snd (apply_delegation_act ok n)) =
     (if ok then CsVerified else if 1 \<le> nd_identical_fail_count n then CsHalted else CsRunning)"
  by (auto simp: apply_delegation_act_def Let_def delegation_step_def IDENTICAL_FAIL_HALT_def u32_sat_inc_def
      u32_top_def)

lemma act_fail_count:
  "nd_identical_fail_count n < u32_top \<Longrightarrow>
   nd_identical_fail_count (snd (apply_delegation_act ok n)) = (if ok then 0 else nd_identical_fail_count n + 1)"
  by (auto simp: apply_delegation_act_def Let_def delegation_step_def IDENTICAL_FAIL_HALT_def u32_sat_inc_def)

text \<open>Two failed acts in a row halt a node.\<close>

lemma two_fails_halt:
  "nd_identical_fail_count n = 0 \<Longrightarrow>
   nd_status (snd (apply_delegation_act False (snd (apply_delegation_act False n)))) = CsHalted"
  by (simp add: act_status act_fail_count u32_top_def)

lemma validate_remaining_None:
  "validate_remaining_node n = None \<longleftrightarrow>
     str_trim (nd_id n) \<noteq> [] \<and> node_contract_legal n \<and> nd_status n \<noteq> CsVerified"
  by (auto simp: validate_remaining_node_def split: if_splits)

lemma parse_nodes_legal:
  "parse_nodes j obj decode vs = Inr ns \<Longrightarrow>
   (\<forall>n \<in> set ns. validate_remaining_node n = None) \<and> length ns = length vs \<and>
   (\<forall>v \<in> set vs. \<not> remaining_payload_skips_guard j obj v)"
  by (induction vs arbitrary: ns) (auto split: if_splits sum.splits option.splits)

lemma parse_remaining_legal:
  assumes "parse_remaining_nodes j obj decode v = Inr ns"
  shows "\<forall>n \<in> set ns. validate_remaining_node n = None"
  using assms by (auto simp: parse_remaining_nodes_def Let_def dest!: parse_nodes_legal split: option.splits)

text \<open>The array that holds the proposed nodes: the value itself, or its \<open>nodes\<close>, or its \<open>remaining\<close>.\<close>

definition replan_array :: "('v, 'x) json_api_scheme \<Rightarrow> 'v \<Rightarrow> 'v list option" where
  "replan_array j v =
     (case j_as_array j v of
        Some a \<Rightarrow> Some a
      | None \<Rightarrow>
          (case Option.bind (j_get j v ''nodes'') (j_as_array j) of
             Some a \<Rightarrow> Some a
           | None \<Rightarrow> Option.bind (j_get j v ''remaining'') (j_as_array j)))"

lemma parse_nodes_decodes: "parse_nodes j obj decode vs = Inr ns \<Longrightarrow> list_all2 (\<lambda>x n. decode x = Inr n) vs ns"
  by (induction vs arbitrary: ns) (auto split: if_splits sum.splits option.splits)

lemma parse_remaining_decodes:
  assumes "parse_remaining_nodes j obj decode v = Inr ns"
  obtains arr where "replan_array j v = Some arr" "list_all2 (\<lambda>x n. decode x = Inr n) arr ns"
  using assms
  by (auto simp: parse_remaining_nodes_def replan_array_def Let_def dest!: parse_nodes_decodes split: option.splits)

lemma evidence_verified_iff:
  "evidence_verdict v (mev_kind ev) ev = MvVerified \<longleftrightarrow>
     (case mev_kind ev of
        EvNone \<Rightarrow> False
      | EvFileExists \<Rightarrow> \<exists>p. mev_path ev = Some p \<and> dv_is_file v p
      | EvFileContains \<Rightarrow> \<exists>p x text. mev_path ev = Some p \<and> mev_expect ev = Some x \<and>
          dv_text v p = Some text \<and> str_contains text x
      | EvFileEquals \<Rightarrow> \<exists>p x. mev_path ev = Some p \<and> mev_expect ev = Some x \<and> dv_bytes v p = Some x
      | EvCommandExit \<Rightarrow> mev_exit_code ev = Some 0
      | EvCloseRead \<Rightarrow> \<exists>text x. mev_text ev = Some text \<and> mev_expect ev = Some x \<and> length text \<le> 4096 \<and>
          str_contains text x)"
  by (cases "mev_kind ev")
    (auto simp: with_both_def verdict_of_def CLOSE_READ_MAX_def not_less split: option.splits if_splits)

lemma map_filter_Nil: "List.map_filter f xs = [] \<longleftrightarrow> (\<forall>x \<in> set xs. f x = None)"
  by (induction xs) (auto simp: map_filter_simps split: option.splits)

lemma replan_accepts:
  "apply_manager_replan ns d = (Inr r, d') \<longleftrightarrow>
     (\<forall>n \<in> set ns. validate_remaining_node n = None) \<and> d' = replan_remaining ns d \<and>
     r = \<lparr> mr_replan_seq = u32_sat_inc (dg_replan_seq d),
           mr_verified_kept = length (filter (\<lambda>n. nd_status n = CsVerified) (dg_nodes d)),
           mr_remaining = length ns \<rparr>"
  by (cases "List.map_filter validate_remaining_node ns")
     (auto simp: apply_manager_replan_def replan_remaining_def Let_def map_filter_Nil [symmetric])

lemma update_first_id: "(\<And>x. p x \<Longrightarrow> q (f x) = q x) \<Longrightarrow> map q (update_first p f xs) = map q xs"
  by (induction xs) auto

lemma set_update_first: "set (update_first p f xs) \<subseteq> set xs \<union> f ` {x \<in> set xs. p x}"
  by (induction xs) auto

lemma update_first_other: "x \<in> set (update_first p f xs) \<Longrightarrow> x \<in> set xs \<or> (\<exists>y \<in> set xs. p y \<and> x = f y)"
  using set_update_first [of p f xs] by auto

lemma update_first_keeps: "y \<in> set xs \<Longrightarrow> \<not> p y \<Longrightarrow> y \<in> set (update_first p f xs)"
  by (induction xs) auto

lemma trim_matches_ends:
  assumes "trim_matches P s \<noteq> []"
  shows "\<not> P (hd (trim_matches P s)) \<and> \<not> P (last (trim_matches P s))"
proof -
  let ?u = "dropWhile P s" let ?t = "dropWhile P (rev ?u)"
  have ne: "?t \<noteq> []" using assms by (simp add: trim_matches_def)
  then have "\<not> P (hd ?t)" by (rule hd_dropWhile)
  moreover have "hd (rev ?t) = hd ?u" if "?u \<noteq> []"
  proof -
    have "rev ?u = takeWhile P (rev ?u) @ ?t" by simp
    then have "?u = rev ?t @ rev (takeWhile P (rev ?u))"
      by (metis rev_append rev_rev_ident)
    with ne show ?thesis by (metis hd_append rev_is_Nil_conv)
  qed
  moreover from ne have "?u \<noteq> []" by (metis dropWhile.simps(1) rev.simps(1))
  moreover then have "\<not> P (hd ?u)" by (rule hd_dropWhile)
  ultimately show ?thesis using ne by (simp add: trim_matches_def last_rev)
qed

lemma set_trim_matches: "set (trim_matches P s) \<subseteq> set s"
  by (auto simp: trim_matches_def dest!: set_dropWhileD)

lemma skill_slug_chars: "c \<in> set (skill_slug name) \<Longrightarrow> lower_alnum c \<or> c = CHR ''-''"
  using set_trim_matches by (fastforce simp: skill_slug_def split: if_splits)

lemma skill_slug_ends:
  "skill_slug name \<noteq> [] \<Longrightarrow> hd (skill_slug name) \<noteq> CHR ''-'' \<and> last (skill_slug name) \<noteq> CHR ''-''"
  unfolding skill_slug_def by (drule trim_matches_ends) simp

lemma vision_never_dropped: "pick_combo True failed t \<in> {TrVl, TrFrontier}"
  by (cases t; cases failed) (simp_all add: pick_combo_def)

end
