(* ===== verification/Multirun.thy ===== *)
theory Multirun
  imports Text_Render
begin

text \<open>
  Fanning a Work out over several Runs (\<open>core/src/multirun.rs\<close>): the budget of a fan-out and its Run
  ids, the reduction of the outcomes, and the walkthrough of a unified diff.

  Scores come from JSON and are finite; equal scores keep their order, as the source's stable sort does.
\<close>

datatype FuseMode = KeepBest | Fuse

record MultiRun =
  mu_id :: string
  mu_work_id :: string
  mu_agent_ids :: "string list"
  mu_run_ids :: "string list"
  mu_worktree_ids :: "string list"
  mu_mode :: FuseMode

definition multirun_new ::
  "string \<Rightarrow> string \<Rightarrow> string list \<Rightarrow> string list \<Rightarrow> FuseMode \<Rightarrow> string + MultiRun" where
  "multirun_new i work agents worktrees mode =
     (if agents = [] then Inl (''multirun requires at least one Run member'' @ long_dash @ ''fail-closed'')
      else if 5 < length agents
      then Inl (''multirun supports at most 5 Runs, got '' @ show_nat (length agents))
      else if worktrees \<noteq> [] \<and> length worktrees \<noteq> length agents
      then Inl (''multirun requires one worktree per member (agents '' @ show_nat (length agents) @
                '', worktrees '' @ show_nat (length worktrees) @ '')'')
      else if work = []
      then Inl (''multirun requires the Work it fans out'' @ long_dash @
                ''a strategy groups Runs of one Work (fail-closed)'')
      else Inr \<lparr> mu_id = i, mu_work_id = work, mu_agent_ids = agents,
                 mu_run_ids = map (\<lambda>n. work @ ''/run-'' @ show_nat n) [0..<length agents],
                 mu_worktree_ids = worktrees, mu_mode = mode \<rparr>)"

record RunOutcome =
  ro_run_id :: string
  ro_agent_id :: string
  ro_output :: string
  ro_score :: rat

record CollectedRun =
  cl_output :: string
  cl_best_run_id :: "string option"
  cl_best_agent_id :: "string option"
  cl_score :: rat
  cl_mode :: FuseMode

definition attributed :: "RunOutcome \<Rightarrow> string" where
  "attributed r =
     ''## '' @ ro_agent_id r @ '' (run '' @ ro_run_id r @ '', score '' @ show_2dec (Fin (ro_score r)) @ '')'' @
     line_feed @ ro_output r"

definition ranked :: "RunOutcome list \<Rightarrow> RunOutcome list" where
  "ranked rs = sort_key (\<lambda>r. - ro_score r) rs"

definition collect_runs :: "RunOutcome list \<Rightarrow> FuseMode \<Rightarrow> CollectedRun" where
  "collect_runs rs mode =
     (case ranked rs of
        [] \<Rightarrow> \<lparr> cl_output = [], cl_best_run_id = None, cl_best_agent_id = None, cl_score = 0, cl_mode = mode \<rparr>
      | best # rest \<Rightarrow>
          \<lparr> cl_output = (case mode of
               KeepBest \<Rightarrow> ro_output best
             | Fuse \<Rightarrow> join_with (line_feed @ line_feed) (map attributed (best # rest))),
            cl_best_run_id = Some (ro_run_id best), cl_best_agent_id = Some (ro_agent_id best),
            cl_score = ro_score best, cl_mode = mode \<rparr>)"

section \<open>Walkthroughs\<close>

record OrderedDiffStep =
  od_seq :: nat
  od_path :: string
  od_hunk :: string
  od_narrative :: string

definition diff_target :: "string \<Rightarrow> string \<Rightarrow> string" where
  "diff_target path p = (if p \<noteq> [] \<and> p \<noteq> ''/dev/null'' then p else path)"

definition without_b :: "string \<Rightarrow> string" where
  "without_b p = (case strip_prefix p ''b/'' of Some q \<Rightarrow> q | None \<Rightarrow> p)"

definition git_target :: "string \<Rightarrow> string" where
  "git_target rest =
     (case split_whitespace rest of
        [] \<Rightarrow> []
      | [a] \<Rightarrow> without_b a
      | _ # b # _ \<Rightarrow> without_b b)"

fun push_line :: "string \<Rightarrow> OrderedDiffStep list \<Rightarrow> OrderedDiffStep list" where
  "push_line line [] = []"
| "push_line line [s] = [s\<lparr>od_hunk := od_hunk s @ line_feed @ line\<rparr>]"
| "push_line line (s # t # ss) = s # push_line line (t # ss)"

definition diff_step :: "nat \<Rightarrow> string \<Rightarrow> string \<Rightarrow> OrderedDiffStep" where
  "diff_step n path line =
     \<lparr> od_seq = n, od_path = path, od_hunk = line,
       od_narrative = ''Step '' @ show_nat (n + 1) @ '': review '' @ path @ '' ('' @ line @ '')'' \<rparr>"

definition walk_line :: "string \<Rightarrow> string \<times> OrderedDiffStep list \<Rightarrow> string \<times> OrderedDiffStep list" where
  "walk_line line = (\<lambda>(path, steps).
     case strip_prefix line ''diff --git '' of
       Some rest \<Rightarrow> (diff_target path (git_target rest), steps)
     | None \<Rightarrow>
         (case strip_prefix line ''+++ '' of
            Some rest \<Rightarrow> (diff_target path (without_b (str_trim rest)), steps)
          | None \<Rightarrow>
              if starts_with line ''@@'' then (path, steps @ [diff_step (length steps) path line])
              else (path, push_line line steps)))"

definition walkthrough :: "string \<Rightarrow> OrderedDiffStep list" where
  "walkthrough diff = snd (fold walk_line (str_lines diff) (''unknown'', []))"

section \<open>Laws\<close>

lemma run_id_inject: "work @ ''/run-'' @ show_nat m = work @ ''/run-'' @ show_nat n \<longleftrightarrow> m = n"
  by simp

lemma multirun_members:
  assumes "multirun_new i work agents worktrees mode = Inr m"
  shows "length (mu_run_ids m) = length agents \<and> 1 \<le> length agents \<and> length agents \<le> 5 \<and>
    distinct (mu_run_ids m) \<and> (worktrees = [] \<or> length worktrees = length agents)"
  using assms by (auto simp: multirun_new_def distinct_map inj_on_def Suc_le_eq split: if_splits)

lemma ranked_Nil [simp]: "ranked rs = [] \<longleftrightarrow> rs = []"
  by (metis length_0_conv length_sort ranked_def)

lemma set_ranked [simp]: "set (ranked rs) = set rs"
  by (simp add: ranked_def)

lemma best_is_max:
  assumes "ranked rs = best # rest" "r \<in> set rs" shows "ro_score r \<le> ro_score best"
proof -
  have "sorted (map (\<lambda>r. - ro_score r) (best # rest))"
    using sorted_sort_key [of "\<lambda>r. - ro_score r" rs] by (simp only: assms(1) [unfolded ranked_def])
  moreover have "r \<in> set (best # rest)"
    using assms by (metis set_ranked)
  ultimately show ?thesis by auto
qed

definition steps_numbered :: "OrderedDiffStep list \<Rightarrow> bool" where
  "steps_numbered ss \<longleftrightarrow> map od_seq ss = [0..<length ss]"

lemma push_line_seq [simp]: "map od_seq (push_line line ss) = map od_seq ss" "length (push_line line ss) = length ss"
  by (induction line ss rule: push_line.induct) simp_all

lemma walk_line_numbered: "steps_numbered (snd ps) \<Longrightarrow> steps_numbered (snd (walk_line line ps))"
  by (cases ps) (auto simp: walk_line_def steps_numbered_def diff_step_def split: option.split)

lemma walkthrough_numbered: "map od_seq (walkthrough diff) = [0..<length (walkthrough diff)]"
proof -
  have "steps_numbered (snd (fold walk_line ls ps))" if "steps_numbered (snd ps)" for ls ps
    using that by (induction ls arbitrary: ps) (simp_all add: walk_line_numbered)
  then show ?thesis by (simp add: walkthrough_def steps_numbered_def)
qed

end
