(* ===== verification/Exec_Rpc.thy ===== *)
theory Exec_Rpc
  imports Exec_Preflight Multirun
begin

text \<open>
  The kernel methods of the dispatcher \<open>ExecutionKernel::handle\<close> (\<open>core/src/execution.rs\<close>): one
  definition per arm of its match, from the parameters of a call to the reply and the kernel it leaves.
  The other arms and the dispatcher itself are in \<open>Cua_Rpc\<close>.
\<close>

section \<open>Sequencing\<close>

text \<open>\<open>?\<close> on a result that needs no state, and on one that does.\<close>

definition st_try :: "string + 'a \<Rightarrow> ('a \<Rightarrow> 's \<Rightarrow> (string + 'b) \<times> 's) \<Rightarrow> 's \<Rightarrow> (string + 'b) \<times> 's" where
  "st_try r f s = (case r of Inl err \<Rightarrow> (Inl err, s) | Inr x \<Rightarrow> f x s)"

definition st_bind ::
  "('s \<Rightarrow> (string + 'a) \<times> 's) \<Rightarrow> ('a \<Rightarrow> 's \<Rightarrow> (string + 'b) \<times> 's) \<Rightarrow> 's \<Rightarrow> (string + 'b) \<times> 's" where
  "st_bind m f s = (case m s of (Inl err, s') \<Rightarrow> (Inl err, s') | (Inr x, s') \<Rightarrow> f x s')"

definition st_reply :: "'a \<Rightarrow> 's \<Rightarrow> (string + 'a) \<times> 's" where
  "st_reply x s = (Inr x, s)"

definition st_fail :: "string \<Rightarrow> 's \<Rightarrow> (string + 'a) \<times> 's" where
  "st_fail err s = (Inl err, s)"

lemma st_simps [simp]:
  "st_try (Inl err) f s = (Inl err, s)" "st_try (Inr x) f s = f x s" "st_reply y s = (Inr y, s)"
  "st_fail err s = (Inl err, s)"
  by (simp_all add: st_try_def st_reply_def st_fail_def)

lemma st_try_Inr: "st_try r f s = (Inr y, s') \<longleftrightarrow> (\<exists>x. r = Inr x \<and> f x s = (Inr y, s'))"
  by (cases r) auto

lemma st_bind_Inr: "st_bind m f s = (Inr y, s') \<longleftrightarrow> (\<exists>x u. m s = (Inr x, u) \<and> f x u = (Inr y, s'))"
  by (auto simp: st_bind_def split: prod.splits sum.splits)

lemma snd_st_try: "P s \<Longrightarrow> (\<And>x. r = Inr x \<Longrightarrow> P (snd (f x s))) \<Longrightarrow> P (snd (st_try r f s))"
  by (cases r) auto

lemma snd_st_bind:
  "P (snd (m s)) \<Longrightarrow> (\<And>x u. m s = (Inr x, u) \<Longrightarrow> P u \<Longrightarrow> P (snd (f x u))) \<Longrightarrow> P (snd (st_bind m f s))"
  by (auto simp: st_bind_def split: prod.split sum.split)

section \<open>Parameters of a call\<close>

definition need :: "('v, 'x) json_api_scheme \<Rightarrow> string \<Rightarrow> 'v \<Rightarrow> string \<Rightarrow> string + string" where
  "need j meth params key =
     (case get_str j params key of None \<Rightarrow> Inl (meth @ '' requires '' @ key) | Some s \<Rightarrow> Inr s)"

definition param_strings :: "('v, 'x) json_api_scheme \<Rightarrow> 'v \<Rightarrow> string \<Rightarrow> string list" where
  "param_strings j params key =
     (case Option.bind (j_get j params key) (j_as_array j) of
        None \<Rightarrow> [] | Some a \<Rightarrow> List.map_filter (j_as_str j) a)"

definition param_str :: "('v, 'x) json_api_scheme \<Rightarrow> 'v \<Rightarrow> string \<Rightarrow> string \<Rightarrow> string" where
  "param_str j params key d = or_default d (get_str j params key)"

definition rpc_trigger :: "string \<Rightarrow> ExecutionTrigger" where
  "rpc_trigger t =
     (if t = ''plan'' then TgPlan
      else if t = ''scheduler'' then TgScheduler
      else if t = ''acp'' then TgAcp
      else if t = ''subagent'' then TgSubagent
      else TgChat)"

text \<open>\<open>as u32\<close>.\<close>

definition as_u32 :: "nat \<Rightarrow> nat" where
  "as_u32 n = n mod 2 ^ 32"

section \<open>Work records\<close>

definition rpc_begin :: "('v, 'x) KernelEnv_scheme \<Rightarrow> 'v \<Rightarrow> ('v, 'v) xk" where
  "rpc_begin e params k =
     (let j = kn_json e;
          (w, k') = exec_begin e (rpc_trigger (param_str j params ''trigger'' ''chat''))
            (param_str j params ''sessionId'' ''default'') (param_str j params ''objective'' [])
            (get_str j params ''parentId'') (param_str j params ''policySnapshot'' [])
            (case j_get j params ''contextSnapshot'' of None \<Rightarrow> [] | Some v \<Rightarrow> j_render j v)
            (param_strings j params ''capabilityScope'') k
      in (Inr (work_value e w), k'))"

definition rpc_transition :: "('v, 'x) KernelEnv_scheme \<Rightarrow> 'v \<Rightarrow> ('v, 'v) xk" where
  "rpc_transition e params =
     (let j = kn_json e; meth = ''execution/transition'' in
      st_try (need j meth params ''id'') (\<lambda>i.
      st_try (need j meth params ''state'') (\<lambda>next.
      st_try (case parse_phase next of None \<Rightarrow> Inl (''bad state '' @ next) | Some p \<Rightarrow> Inr p) (\<lambda>p.
      st_bind (exec_transition i p) (\<lambda>now.
      st_reply (json_lit j [(''id'', j_str j i), (''state'', j_str j (phase_str now))]))))))"

definition found :: "string \<Rightarrow> 'v ExecutionKernel \<Rightarrow> string + 'v ExecWork" where
  "found i k = (case exec_get k i of None \<Rightarrow> Inl (unknown_execution i) | Some w \<Rightarrow> Inr w)"

definition rpc_get :: "('v, 'x) KernelEnv_scheme \<Rightarrow> 'v \<Rightarrow> ('v, 'v) xk" where
  "rpc_get e params k =
     (let j = kn_json e in
      (res_bind (need j ''execution/get'' params ''id'') (\<lambda>i.
       res_bind (found i k) (\<lambda>w. Inr (work_value e w))), k))"

definition rpc_exec_list :: "('v, 'x) KernelEnv_scheme \<Rightarrow> ('v, 'v) xk" where
  "rpc_exec_list e k =
     (let j = kn_json e; ws = map snd (xk_executions k) in
      (Inr (json_lit j [(''executions'', kn_arr e (map (work_value e) ws)), (''count'', j_num j (length ws))]), k))"

definition manifest_from :: "'v json_full \<Rightarrow> 'v \<Rightarrow> 'v ExecManifest" where
  "manifest_from j params =
     \<lparr> em_model = param_str j params ''model'' [], em_provider = param_str j params ''provider'' [],
       em_permissions = param_strings j params ''permissions'', em_tools = param_strings j params ''tools'',
       em_env_summary = or_default (j_null j) (j_get j params ''env'') \<rparr>"

definition rpc_bind_runtime :: "('v, 'x) KernelEnv_scheme \<Rightarrow> 'v \<Rightarrow> ('v, 'v) xk" where
  "rpc_bind_runtime e params =
     (let j = kn_json e in
      st_try (need j ''execution/bind_runtime'' params ''id'') (\<lambda>i.
      st_bind (on_work i (bind_step e (manifest_from j params))) (\<lambda>hash.
      st_reply (json_lit j [(''id'', j_str j i), (''configHash'', j_str j hash)]))))"

section \<open>Approvals\<close>

definition approval_from :: "('v, 'x) KernelEnv_scheme \<Rightarrow> 'v \<Rightarrow> string \<Rightarrow> PendingApproval" where
  "approval_from e params ticket =
     (let j = kn_json e in
      \<lparr> pn_ticket_id = ticket, pn_tool_id = param_str j params ''toolId'' [],
        pn_args_hash = param_str j params ''argsHash'' [],
        pn_requested_at_ms = or_default (kn_now e) (get_u64 j params ''requestedAtMs''),
        pn_risk_tier = param_str j params ''riskTier'' ''R1'' \<rparr>)"

definition pending_reply :: "('v, 'x) KernelEnv_scheme \<Rightarrow> string \<Rightarrow> ('v, 'v) xk" where
  "pending_reply e i k =
     (let j = kn_json e in
      (res_bind (found i k) (\<lambda>w.
         Inr (json_lit j [(''id'', j_str j i), (''state'', j_str j (phase_str (xw_state w))),
                          (''pendingApproval'', opt_value e (map_option (pending_value e) (xw_pending_approval w)))])), k))"

definition rpc_record_approval :: "('v, 'x) KernelEnv_scheme \<Rightarrow> 'v \<Rightarrow> ('v, 'v) xk" where
  "rpc_record_approval e params k =
     (let j = kn_json e; meth = ''execution/record_approval'' in
      st_try (need j meth params ''id'') (\<lambda>i.
      st_try (need j meth params ''ticketId'') (\<lambda>t.
      st_try (validate_pending_approval_request k i t) (\<lambda>_.
      st_bind (on_work i (record_pending_on (approval_from e params t))) (\<lambda>_.
      pending_reply e i)))) k)"

definition rpc_resolve_approval :: "('v, 'x) KernelEnv_scheme \<Rightarrow> 'v \<Rightarrow> ('v, 'v) xk" where
  "rpc_resolve_approval e params k =
     (let j = kn_json e; meth = ''execution/resolve_approval'' in
      st_try (need j meth params ''id'') (\<lambda>i.
      st_try (need j meth params ''ticketId'') (\<lambda>t.
      st_try (case get_bool j params ''approved'' of
                None \<Rightarrow> Inl (meth @ '' requires approved (bool)'') | Some b \<Rightarrow> Inr b) (\<lambda>approved.
      st_try (validate_pending_approval_resolution k i t) (\<lambda>_.
      st_bind (on_work i (resolve_pending_approval_for (Some t) approved)) (\<lambda>a.
      st_reply (json_lit j
        [(''id'', j_str j i), (''state'', j_str j (phase_str (if approved then EpRunning else EpFailed))),
         (''resolvedApproval'', pending_value e a), (''approved'', j_bool j approved)])))))) k)"

section \<open>Subagents\<close>

definition provision_value :: "'v json_full \<Rightarrow> SubagentProvision \<Rightarrow> 'v" where
  "provision_value j p =
     json_lit j [(''work_id'', j_str j (sp_work_id p)), (''task_id'', j_str j (sp_task_id p)),
                 (''branch'', j_str j (sp_branch p)), (''worktree_segment'', j_str j (sp_worktree_segment p)),
                 (''plan_file'', j_str j (sp_plan_file p)), (''findings_file'', j_str j (sp_findings_file p)),
                 (''receipts_dir'', j_str j (sp_receipts_dir p))]"

definition provision_of :: "'v json_full \<Rightarrow> string \<Rightarrow> string \<Rightarrow> 'v" where
  "provision_of j task work =
     (case plan_subagent_worktree task work of Inl err \<Rightarrow> j_null j | Inr p \<Rightarrow> provision_value j p)"

definition rpc_begin_subagent :: "('v, 'x) KernelEnv_scheme \<Rightarrow> 'v \<Rightarrow> ('v, 'v) xk" where
  "rpc_begin_subagent e params =
     (let j = kn_json e in
      st_bind
        (begin_subagent e (param_str j params ''sessionId'' ''default'') (param_str j params ''objective'' [])
           (get_str j params ''parentId'') (as_u32 (or_default 0 (get_u64 j params ''depth'')))
           (param_strings j params ''tools'') (param_strings j params ''blockedTools'')
           (param_str j params ''policySnapshot'' []))
        (\<lambda>w. st_reply (json_lit j (work_fields e w @
           [(''provision'', provision_of j (param_str j params ''taskId'' []) (xw_id w))]))))"

section \<open>Edits and preflights\<close>

definition rpc_record_edit :: "('v, 'x) KernelEnv_scheme \<Rightarrow> 'v \<Rightarrow> ('v, 'v) xk" where
  "rpc_record_edit e params =
     (let j = kn_json e in
      st_try (need j ''execution/record_edit'' params ''id'') (\<lambda>i.
        record_verified_edit e i (param_str j params ''strategy'' ''exact'') (param_str j params ''path'' [])
          (param_str j params ''ticketId'' []) (or_default 0 (get_u64 j params ''auditSeq''))))"

definition rpc_record_preflight :: "('v, 'x) KernelEnv_scheme \<Rightarrow> 'v \<Rightarrow> ('v, 'v) xk" where
  "rpc_record_preflight e params =
     (let j = kn_json e in
      st_try (need j ''execution/record_preflight'' params ''id'') (\<lambda>i.
        record_preflight e i (or_default False (get_bool j params ''passed'')) (param_str j params ''output'' [])))"

definition refused_candidate :: "('v, 'x) KernelEnv_scheme \<Rightarrow> string \<Rightarrow> string \<Rightarrow> 'v" where
  "refused_candidate e i err =
     unverified_reply e i (''risk gate fired'' @ long_dash @ ''but the candidate was refused: '' @ err)"

text \<open>\<open>usize\<close> has 64 bits.\<close>

definition rpc_preflight :: "('v, 'x) ShadowEnv_scheme \<Rightarrow> 'v \<Rightarrow> 'v ExecutionKernel \<Rightarrow> 'v preflight_result" where
  "rpc_preflight e params k =
     (let j = kn_json e in
      case need j ''execution/preflight'' params ''id'' of
        Inl err \<Rightarrow> (Inl err, k, [], [])
      | Inr i \<Rightarrow>
          (case parse_shadow_candidate j params of
             Inl err \<Rightarrow> (Inr (refused_candidate (KernelEnv.truncate e) i err), k, [], [])
           | Inr candidate \<Rightarrow>
               run_preflight_with_candidate e i (or_default 1 (get_u64 j params ''filesChanged''))
                 (or_default False (get_bool j params ''structural''))
                 (or_default False (get_bool j params ''destructive''))
                 (param_str j params ''root'' ''.'') candidate k))"

definition rpc_check_restore :: "('v, 'x) KernelEnv_scheme \<Rightarrow> 'v \<Rightarrow> ('v, 'v) xk" where
  "rpc_check_restore e params k =
     (let j = kn_json e in
      (res_bind (need j ''execution/check_restore'' params ''id'') (\<lambda>i.
       res_bind (found i k) (\<lambda>w.
         Inr (json_lit j [(''id'', j_str j i), (''state'', j_str j (phase_str (xw_state w))),
                          (''replayForbidden'', j_bool j (should_restore_without_replay w))]))), k))"

end
