(* ===== verification/Cua_Rpc.thy ===== *)
theory Cua_Rpc
  imports Cua Exec_Rpc
begin

text \<open>
  The methods of \<open>ExecutionKernel::handle\<close> (\<open>core/src/execution.rs\<close>) that keep the computer-use graph,
  bind runtimes and models, and fan a Work out. A graph lives in the directory a call names: \<open>CuaDisk\<close>
  holds the graph of each directory and the replan log, and \<open>ce_dir\<close> is the directory that a path leads to
  (\<open>d\<close> and \<open>d/\<close> are one). A graph is written to a temporary file and renamed, so that a failed write leaves
  the stored one. The replan log is never read back; a line of it that a failed write cuts short is not
  kept. What the disk answers (the error of reading, writing or logging), the decoding that serde derives,
  the skill store of \<open>blueprint/src/skill_store.rs\<close> and the division of two integers as floats come from a
  \<open>CuaEnv\<close>.
\<close>

section \<open>The graph on disk\<close>

record CuaDisk =
  cd_dags :: "ComputerUseDag strmap"
  cd_log :: "(string \<times> nat \<times> string) list"

record 'v CuaEnv = "'v ShadowEnv" +
  ce_is_object :: "'v \<Rightarrow> bool"
  ce_dag :: "'v \<Rightarrow> string + ComputerUseDag"
  ce_node :: "'v \<Rightarrow> string + CuaNode"
  ce_evidence :: "'v \<Rightarrow> MechanicalEvidence option"
  ce_brief :: "'v \<Rightarrow> string + FivePartBrief"
  ce_layers :: "'v \<Rightarrow> string + PerceptionLayers"
  ce_f64 :: "'v \<Rightarrow> rat option"
  ce_dir :: "string \<Rightarrow> string"
  ce_absent :: "string \<Rightarrow> string"
  ce_persist_error :: "string \<Rightarrow> string option"
  ce_log_error :: "string \<Rightarrow> string option"
  ce_view :: DiskView
  ce_save_skill :: "string \<Rightarrow> CuaSkillDraft \<Rightarrow> string + string"
  ce_divide :: "nat \<Rightarrow> nat \<Rightarrow> f64"

type_synonym ('v, 'a) cua = "CuaDisk \<Rightarrow> (string + 'a) \<times> CuaDisk"

definition cua_disk_new :: CuaDisk where
  "cua_disk_new = \<lparr> cd_dags = [], cd_log = [] \<rparr>"

definition load_dag :: "('v, 'x) CuaEnv_scheme \<Rightarrow> string \<Rightarrow> CuaDisk \<Rightarrow> string + ComputerUseDag" where
  "load_dag e dir s = (case lookup (cd_dags s) (ce_dir e dir) of None \<Rightarrow> Inl (ce_absent e dir) | Some d \<Rightarrow> Inr d)"

definition persist_dag :: "('v, 'x) CuaEnv_scheme \<Rightarrow> string \<Rightarrow> ComputerUseDag \<Rightarrow> ('v, string) cua" where
  "persist_dag e dir d s =
     (case ce_persist_error e dir of
        Some err \<Rightarrow> (Inl err, s)
      | None \<Rightarrow> (Inr (path_join dir ''dependency_graph.json''), 
          s\<lparr>cd_dags := AList.update (ce_dir e dir) d (cd_dags s)\<rparr>))"

definition append_replan_log :: "('v, 'x) CuaEnv_scheme \<Rightarrow> string \<Rightarrow> nat \<Rightarrow> string \<Rightarrow> ('v, unit) cua" where
  "append_replan_log e dir sq reason s =
     (case ce_log_error e dir of
        Some err \<Rightarrow> (Inl err, s)
      | None \<Rightarrow> (Inr (), s\<lparr>cd_log := cd_log s @ [(ce_dir e dir, sq, reason)]\<rparr>))"

text \<open>\<open>load_dag(dir)?\<close>, and \<open>iter_mut().find\<close> on its nodes.\<close>

definition with_dag ::
  "('v, 'x) CuaEnv_scheme \<Rightarrow> string \<Rightarrow> (ComputerUseDag \<Rightarrow> ('v, 'a) cua) \<Rightarrow> ('v, 'a) cua" where
  "with_dag e dir f s = st_try (load_dag e dir s) f s"

definition with_node ::
  "('v, 'x) CuaEnv_scheme \<Rightarrow> string \<Rightarrow> string \<Rightarrow> (ComputerUseDag \<Rightarrow> CuaNode \<Rightarrow> ('v, 'a) cua) \<Rightarrow> ('v, 'a) cua" where
  "with_node e dir i f =
     with_dag e dir (\<lambda>d.
       case find_node i d of None \<Rightarrow> st_fail (unknown_node i) | Some n \<Rightarrow> f d n)"

section \<open>Replies\<close>

fun status_debug :: "CuaNodeStatus \<Rightarrow> string" where
  "status_debug CsPending = ''Pending''"
| "status_debug CsReady = ''Ready''"
| "status_debug CsRunning = ''Running''"
| "status_debug CsVerified = ''Verified''"
| "status_debug CsHalted = ''Halted''"
| "status_debug CsBlocked = ''Blocked''"

definition node_status_debug :: "string \<Rightarrow> ComputerUseDag \<Rightarrow> string" where
  "node_status_debug i d =
     (case find_node i d of None \<Rightarrow> ''None'' | Some n \<Rightarrow> ''Some('' @ status_debug (nd_status n) @ '')'')"

fun status_str :: "CuaNodeStatus \<Rightarrow> string" where
  "status_str CsPending = ''pending''"
| "status_str CsReady = ''ready''"
| "status_str CsRunning = ''running''"
| "status_str CsVerified = ''verified''"
| "status_str CsHalted = ''halted''"
| "status_str CsBlocked = ''blocked''"

definition brief_value :: "('v, 'x) KernelEnv_scheme \<Rightarrow> FivePartBrief \<Rightarrow> 'v" where
  "brief_value e b =
     (let j = kn_json e in
      json_lit j [(''goal'', j_str j (fb_goal b)), (''constraints'', j_str j (fb_constraints b)),
                  (''inputs'', j_str j (fb_inputs b)), (''postconditions'', j_str j (fb_postconditions b)),
                  (''out_of_scope'', j_str j (fb_out_of_scope b))])"

definition node_value :: "('v, 'x) KernelEnv_scheme \<Rightarrow> CuaNode \<Rightarrow> 'v" where
  "node_value e n =
     (let j = kn_json e in
      json_lit j
        [(''id'', j_str j (nd_id n)), (''name'', j_str j (nd_name n)), (''info'', j_str j (nd_info n)),
         (''depends_on'', str_list_value e (nd_depends_on n)), (''status'', j_str j (status_str (nd_status n))),
         (''last_action'', j_opt_str j (nd_last_action n)), (''screenshot_ref'', j_opt_str j (nd_screenshot_ref n)),
         (''identical_fail_count'', j_num j (nd_identical_fail_count n)), (''fail_count'', j_num j (nd_fail_count n)),
         (''preconditions'', str_list_value e (nd_preconditions n)),
         (''postconditions'', str_list_value e (nd_postconditions n)), (''timeout_s'', j_num j (nd_timeout_s n)),
         (''retry'', j_num j (nd_retry n)), (''brief'', opt_value e (map_option (brief_value e) (nd_brief n))),
         (''fabric'', j_opt_str j (nd_fabric n))])"

definition dag_value :: "('v, 'x) KernelEnv_scheme \<Rightarrow> ComputerUseDag \<Rightarrow> 'v" where
  "dag_value e d =
     (let j = kn_json e in
      json_lit j [(''run_id'', j_str j (dg_run_id d)), (''work_id'', j_str j (dg_work_id d)),
                  (''nodes'', kn_arr e (map (node_value e) (dg_nodes d))),
                  (''replan_seq'', j_num j (dg_replan_seq d))])"

section \<open>Storing and editing the graph\<close>

definition cua_persist :: "('v, 'x) CuaEnv_scheme \<Rightarrow> 'v \<Rightarrow> ('v, 'v) cua" where
  "cua_persist e params =
     (let j = kn_json e; meth = ''execution/cua_persist'' in
      st_try (need j meth params ''root'') (\<lambda>dir.
      st_try (case j_get j params ''dag'' of
                None \<Rightarrow> Inl (meth @ '' requires dag'')
              | Some v \<Rightarrow> (case ce_dag e v of Inl err \<Rightarrow> Inl (meth @ '': '' @ err) | Inr d \<Rightarrow> Inr d)) (\<lambda>d.
      case find (\<lambda>n. \<not> node_contract_legal n) (dg_nodes d) of
        Some n \<Rightarrow> st_fail (''unverifiable node '' @ nd_id n @ long_dash @ ''postconditions required'')
      | None \<Rightarrow>
          st_bind (persist_dag e dir d) (\<lambda>path.
          st_reply (json_lit j [(''ok'', j_bool j True), (''path'', j_str j path),
                                (''nodes'', j_num j (length (dg_nodes d)))])))))"

definition cua_get :: "('v, 'x) CuaEnv_scheme \<Rightarrow> 'v \<Rightarrow> ('v, 'v) cua" where
  "cua_get e params s =
     (let j = kn_json e in
      st_try (need j ''execution/cua_get'' params ''root'') (\<lambda>dir.
        case load_dag e dir s of
          Inr d \<Rightarrow> st_reply (json_lit j [(''ok'', j_bool j True), (''dag'', dag_value (KernelEnv.truncate e) d)])
        | Inl _ \<Rightarrow> st_reply (json_lit j [(''ok'', j_bool j True), (''dag'', j_null j),
                                         (''reason'', j_str j ''no graph yet'')])) s)"

definition cua_edit :: "('v, 'x) CuaEnv_scheme \<Rightarrow> 'v \<Rightarrow> ('v, 'v) cua" where
  "cua_edit e params =
     (let j = kn_json e; meth = ''execution/cua_edit'' in
      st_try (need j meth params ''root'') (\<lambda>dir.
      st_try (need j meth params ''nodeId'') (\<lambda>i.
      with_dag e dir (\<lambda>d.
      st_try (apply_remaining_edit i (get_str j params ''name'') (get_str j params ''info'') d) (\<lambda>d'.
      st_bind (append_replan_log e dir (dg_replan_seq d') ''user-edit-remaining'') (\<lambda>_.
      st_bind (persist_dag e dir d') (\<lambda>_.
      st_reply (json_lit j [(''ok'', j_bool j True), (''replanSeq'', j_num j (dg_replan_seq d')),
                            (''dag'', dag_value (KernelEnv.truncate e) d')]))))))))"

fun outcome_str :: "DelegationOutcome \<Rightarrow> string" where
  "outcome_str DoVerified = ''verified''"
| "outcome_str DoMismatch = ''mismatch''"
| "outcome_str DoHalt = ''halt''"

fun verdict_str :: "MechanicalVerdict \<Rightarrow> string" where
  "verdict_str MvVerified = ''verified''"
| "verdict_str MvRefuted = ''refuted''"
| "verdict_str MvSampled = ''sampled''"

definition log_if :: "('v, 'x) CuaEnv_scheme \<Rightarrow> bool \<Rightarrow> string \<Rightarrow> nat \<Rightarrow> string \<Rightarrow> ('v, unit) cua" where
  "log_if e b dir sq reason = (if b then append_replan_log e dir sq reason else st_reply ())"

definition cua_step :: "('v, 'x) CuaEnv_scheme \<Rightarrow> 'v \<Rightarrow> ('v, 'v) cua" where
  "cua_step e params =
     (let j = kn_json e; meth = ''execution/cua_step''; ok = or_default False (get_bool j params ''verifyOk'') in
      st_try (need j meth params ''root'') (\<lambda>dir.
      st_try (need j meth params ''nodeId'') (\<lambda>i.
      with_node e dir i (\<lambda>d n.
        let out = fst (apply_delegation_act ok n); d' = change_node i (\<lambda>m. snd (apply_delegation_act ok m)) d in
        st_bind (log_if e (out = DoHalt) dir (dg_replan_seq d') ''identical-fail-halt'') (\<lambda>_.
        st_bind (persist_dag e dir d') (\<lambda>_.
        st_reply (json_lit j [(''ok'', j_bool j (out = DoVerified)), (''outcome'', j_str j (outcome_str out)),
                              (''status'', j_str j (node_status_debug i d'))])))))))"

definition cua_verify :: "('v, 'x) CuaEnv_scheme \<Rightarrow> 'v \<Rightarrow> ('v, 'v) cua" where
  "cua_verify e params =
     (let j = kn_json e; meth = ''execution/cua_verify'';
          claimed = or_default False (get_bool j params ''workerClaimed'');
          none = \<lparr> mev_kind = EvNone, mev_path = None, mev_expect = None, mev_exit_code = None, mev_text = None \<rparr>;
          ev = or_default none (Option.bind (j_get j params ''evidence'') (ce_evidence e));
          judge = apply_mechanical_verify (ce_view e) claimed ev in
      st_try (need j meth params ''root'') (\<lambda>dir.
      st_try (need j meth params ''nodeId'') (\<lambda>i.
      with_node e dir i (\<lambda>d n.
        let verdict = fst (judge n); d' = change_node i (\<lambda>m. snd (judge m)) d in
        st_bind (log_if e (verdict = MvRefuted \<and> nd_status (snd (judge n)) = CsHalted) dir (dg_replan_seq d')
                   ''mechanical-refute-halt'') (\<lambda>_.
        st_bind (persist_dag e dir d') (\<lambda>_.
        st_reply (json_lit j [(''ok'', j_bool j (verdict = MvVerified)), (''verdict'', j_str j (verdict_str verdict)),
                              (''workerClaimIgnored'', j_bool j True),
                              (''status'', j_str j (node_status_debug i d'))])))))))"

definition cua_fabric :: "('v, 'x) CuaEnv_scheme \<Rightarrow> 'v \<Rightarrow> ('v, 'v) cua" where
  "cua_fabric e params =
     (let j = kn_json e; meth = ''execution/cua_fabric''; sf = route_work_surface (param_str j params ''target'' []) in
      st_try (need j meth params ''root'') (\<lambda>dir.
      st_try (need j meth params ''nodeId'') (\<lambda>i.
      with_node e dir i (\<lambda>d n.
        st_bind (persist_dag e dir (change_node i (apply_fabric sf) d)) (\<lambda>_.
        st_reply (json_lit j [(''ok'', j_bool j True), (''surface'', j_str j (surface_str sf)),
                              (''fabric'', j_str j (fabric_letter sf)),
                              (''perception'', j_bool j (fabric_is_perception sf))]))))))"

section \<open>Perception, stopping and briefs\<close>

definition scene_value :: "'v json_full \<Rightarrow> SceneGraph \<Rightarrow> 'v" where
  "scene_value j g =
     json_lit j [(''visionFirst'', j_bool j (sg_vision_first g)),
                 (''structureAugments'', j_bool j (sg_structure_augments g)),
                 (''structureLying'', j_bool j (sg_structure_lying g)), (''usable'', j_bool j (sg_usable g))]"

text \<open>The screenshot is noted on the node when the graph can be read; a failed write is ignored.\<close>

definition note_screenshot :: "('v, 'x) CuaEnv_scheme \<Rightarrow> 'v \<Rightarrow> PerceptionLayers \<Rightarrow> CuaDisk \<Rightarrow> CuaDisk" where
  "note_screenshot e params l s =
     (let j = kn_json e in
      case (get_str j params ''root'', get_str j params ''nodeId'') of
        (Some dir, Some i) \<Rightarrow>
          (case load_dag e dir s of
             Inl _ \<Rightarrow> s
           | Inr d \<Rightarrow>
               snd (persist_dag e dir (change_node i (\<lambda>n. n\<lparr>nd_screenshot_ref := pl_screenshot_ref l\<rparr>) d) s))
      | _ \<Rightarrow> s)"

definition cua_perceive :: "('v, 'x) CuaEnv_scheme \<Rightarrow> 'v \<Rightarrow> ('v, 'v) cua" where
  "cua_perceive e params s =
     (let j = kn_json e; meth = ''execution/cua_perceive'' in
      st_try (case j_get j params ''layers'' of
                None \<Rightarrow> Inl (meth @ '' requires layers'')
              | Some v \<Rightarrow> (case ce_layers e v of Inl err \<Rightarrow> Inl (meth @ '': '' @ err) | Inr l \<Rightarrow> Inr l)) (\<lambda>l.
      st_try (fuse_perception l) (\<lambda>g s.
        (Inr (json_lit j [(''ok'', j_bool j True), (''scene'', scene_value j g)]), note_screenshot e params l s))) s)"

definition cua_stop :: "('v, 'x) CuaEnv_scheme \<Rightarrow> 'v \<Rightarrow> ('v, 'v) cua" where
  "cua_stop e params =
     (let j = kn_json e; meth = ''execution/cua_stop''; reason = param_str j params ''reason'' ''failed'' in
      st_try (need j meth params ''root'') (\<lambda>dir.
      st_try (need j meth params ''nodeId'') (\<lambda>i.
      with_node e dir i (\<lambda>d n.
        let d' = change_node i (\<lambda>m. snd (apply_node_stop reason m)) d in
        st_bind (persist_dag e dir d') (\<lambda>_.
        st_reply (json_lit j [(''ok'', j_bool j True), (''blocked'', j_bool j (stop_is_blocked reason)),
                              (''reclaim'', j_bool j (fst (apply_node_stop reason n))),
                              (''failCount'', j_opt_num j (map_option nd_fail_count (find_node i d'))),
                              (''status'', j_str j (node_status_debug i d'))]))))))"

definition cua_set_brief :: "('v, 'x) CuaEnv_scheme \<Rightarrow> 'v \<Rightarrow> ('v, 'v) cua" where
  "cua_set_brief e params =
     (let j = kn_json e; meth = ''execution/cua_set_brief'' in
      st_try (need j meth params ''root'') (\<lambda>dir.
      st_try (need j meth params ''nodeId'') (\<lambda>i.
      st_try (case j_get j params ''brief'' of
                None \<Rightarrow> Inl (meth @ '' requires brief'')
              | Some v \<Rightarrow> (case ce_brief e v of Inl err \<Rightarrow> Inl (meth @ '': '' @ err) | Inr b \<Rightarrow> Inr b)) (\<lambda>b.
      with_node e dir i (\<lambda>d n.
        st_try (apply_five_part_brief b n) (\<lambda>n'.
        let d' = change_node i (\<lambda>_. n') d in
        st_bind (persist_dag e dir d') (\<lambda>_.
        st_reply (json_lit j [(''ok'', j_bool j True), (''nodeId'', j_str j i), (''briefComplete'', j_bool j True),
                              (''dag'', dag_value (KernelEnv.truncate e) d')]))))))))"

section \<open>Replanning and promotion\<close>

text \<open>What follows the rewriting of the graph read.\<close>

definition replan_tail ::
  "('v, 'x) CuaEnv_scheme \<Rightarrow> string \<Rightarrow> string \<Rightarrow> (string + ManagerReplanResult) \<times> ComputerUseDag \<Rightarrow> ('v, 'v) cua" where
  "replan_tail e dir reason res =
     (let j = kn_json e in
      case res of
        (Inl err, _) \<Rightarrow> st_fail err
      | (Inr r, d') \<Rightarrow>
          st_bind (append_replan_log e dir (mr_replan_seq r) reason) (\<lambda>_.
          st_bind (persist_dag e dir d') (\<lambda>_.
          st_reply (json_lit j [(''ok'', j_bool j True), (''replanSeq'', j_num j (mr_replan_seq r)),
                                (''verifiedKept'', j_num j (mr_verified_kept r)),
                                (''remaining'', j_num j (mr_remaining r)), (''reason'', j_str j reason),
                                (''dag'', dag_value (KernelEnv.truncate e) d')]))))"

definition cua_replan :: "('v, 'x) CuaEnv_scheme \<Rightarrow> 'v \<Rightarrow> ('v, 'v) cua" where
  "cua_replan e params =
     (let j = kn_json e; meth = ''execution/cua_replan'';
          reason = replan_reason_str (parse_replan_reason (param_str j params ''reason'' ''planner'')) in
      st_try (need j meth params ''root'') (\<lambda>dir.
      st_try (case j_get j params ''remaining'' of None \<Rightarrow> Inl (meth @ '' requires remaining'') | Some v \<Rightarrow> Inr v) (\<lambda>v.
      st_try (parse_remaining_nodes j (ce_is_object e) (ce_node e) v) (\<lambda>remaining.
      with_dag e dir (\<lambda>d. replan_tail e dir reason (apply_manager_replan remaining d))))))"

definition cua_promote_skill :: "('v, 'x) CuaEnv_scheme \<Rightarrow> 'v \<Rightarrow> ('v, 'v) cua" where
  "cua_promote_skill e params =
     (let j = kn_json e; meth = ''execution/cua_promote_skill'' in
      st_try (need j meth params ''root'') (\<lambda>dir.
      st_try (need j meth params ''skillRoot'') (\<lambda>skills.
      st_try (need j meth params ''name'') (\<lambda>name.
      with_dag e dir (\<lambda>d.
      st_try (cua_skill_from_verified d name (param_str j params ''description'' name)) (\<lambda>draft.
      st_try (ce_save_skill e skills draft) (\<lambda>path.
      st_reply (json_lit j [(''ok'', j_bool j True), (''name'', j_str j (sd_name draft)), (''path'', j_str j path),
                            (''postconditions'', str_list_value (KernelEnv.truncate e) (sd_postconditions draft)),
                            (''nodes'', str_list_value (KernelEnv.truncate e) (sd_node_ids draft)),
                            (''orchestrator'', j_bool j False)]))))))))"

section \<open>Runtimes, models and spend\<close>

fun role_str :: "DelegationRole \<Rightarrow> string" where
  "role_str DrScout = ''scout''"
| "role_str DrWorker = ''worker''"
| "role_str DrVerifier = ''verifier''"

fun case_str :: "HarnessModelCase \<Rightarrow> string" where
  "case_str HmA = ''a''"
| "case_str HmB = ''b''"
| "case_str HmC = ''c''"

datatype RuntimePlane = PlGovernance | PlPrimary | PlOrchestrator | PlSubagent | PlHarnessModel

definition RUNTIME_PLANES :: "RuntimePlane list" where
  "RUNTIME_PLANES = [PlGovernance, PlPrimary, PlOrchestrator, PlSubagent, PlHarnessModel]"

definition runtime_binding_value :: "'v json_full \<Rightarrow> RuntimeBinding \<Rightarrow> 'v" where
  "runtime_binding_value j b =
     json_lit j [(''harness'', j_str j (rb_harness b)), (''model'', j_str j (rb_model b)),
                 (''role'', j_opt_str j (map_option role_str (rb_role b))), (''chief'', j_opt_str j (rb_chief b))]"

definition rpc_runtime_bind :: "'v json_full \<Rightarrow> 'v \<Rightarrow> string + 'v" where
  "rpc_runtime_bind j params =
     (let meth = ''execution/runtime_bind''; chief = get_str j params ''chief'' in
      res_bind (need j meth params ''harness'') (\<lambda>harness.
      res_bind (need j meth params ''model'') (\<lambda>model.
      res_bind (cua_bind_runtime harness model (Option.bind (get_str j params ''role'') parse_role) chief) (\<lambda>b.
        let cls = map_option (\<lambda>c. case_str (classify_harness_model_case c (param_str j params ''chiefModel'' [])
                                             (rb_harness b) (rb_model b))) chief
        in Inr (json_lit j
             [(''ok'', j_bool j True), (''binding'', runtime_binding_value j b),
              (''planes'', j_num j (length RUNTIME_PLANES)), (''case'', j_opt_str j cls),
              (''governanceIsPrompt'', j_bool j False), (''orchestratorIsLlm'', j_bool j False)])))))"

definition rpc_runtime_pick :: "'v json_full \<Rightarrow> 'v \<Rightarrow> 'v" where
  "rpc_runtime_pick j params =
     (let vision = or_default False (get_bool j params ''needsVision'');
          failed = or_default False (get_bool j params ''verifyFailed'');
          picked = pick_combo vision failed (parse_tier (param_str j params ''tier'' ''cheap''))
      in json_lit j [(''ok'', j_bool j True), (''tier'', j_str j (tier_str picked)),
                     (''notAllWorkersCheap'', j_bool j (vision \<and> picked \<noteq> TrCheap))])"

record PrimarySpend =
  ps_primary_tokens :: nat
  ps_worker_tokens :: nat
  ps_share :: f64
  ps_warn_not_delegating :: bool

text \<open>The double nearest to 0.20.\<close>

definition PRIMARY_SPEND_WARN :: f64 where
  "PRIMARY_SPEND_WARN = Fin (3602879701896397 / 18014398509481984)"

definition split_primary_spend :: "(nat \<Rightarrow> nat \<Rightarrow> f64) \<Rightarrow> nat \<Rightarrow> nat \<Rightarrow> PrimarySpend" where
  "split_primary_spend quo primary worker =
     (let tot = min (primary + worker) u64_max;
          share = (if tot = 0 then Fin 0 else quo primary tot)
      in \<lparr> ps_primary_tokens = primary, ps_worker_tokens = worker, ps_share = share,
           ps_warn_not_delegating = (0 < tot \<and> f64_lt PRIMARY_SPEND_WARN share) \<rparr>)"

definition rpc_spend_split :: "('v, 'x) CuaEnv_scheme \<Rightarrow> 'v \<Rightarrow> 'v" where
  "rpc_spend_split e params =
     (let j = kn_json e;
          p = split_primary_spend (ce_divide e) (or_default 0 (get_u64 j params ''chiefTokens''))
                (or_default 0 (get_u64 j params ''workerTokens''))
      in json_lit j [(''ok'', j_bool j True),
           (''spend'', json_lit j [(''primaryTokens'', j_num j (ps_primary_tokens p)),
                                   (''workerTokens'', j_num j (ps_worker_tokens p)),
                                   (''share'', kn_float e (ps_share p)),
                                   (''warnNotDelegating'', j_bool j (ps_warn_not_delegating p))])])"

section \<open>Fanning out\<close>

definition multirun_outcome :: "('v, 'x) CuaEnv_scheme \<Rightarrow> MultiRun \<Rightarrow> nat \<Rightarrow> 'v \<Rightarrow> string + RunOutcome" where
  "multirun_outcome e m i v =
     (let j = kn_json e in
      case get_str j v ''agentId'' of
        None \<Rightarrow> Inl ''multirun outcome requires agentId''
      | Some agent \<Rightarrow>
          if agent \<notin> set (mu_agent_ids m)
          then Inl (''multirun outcome names agent '' @ agent @ '' outside this fan-out'' @ long_dash @ ''fail-closed'')
          else
            res_bind
              (case get_str j v ''runId'' of
                 Some r \<Rightarrow>
                   if r \<notin> set (mu_run_ids m)
                   then Inl (''multirun outcome names Run '' @ r @ '' outside this fan-out'' @ long_dash @ ''fail-closed'')
                   else Inr r
               | None \<Rightarrow>
                   if i < length (mu_run_ids m) then Inr (mu_run_ids m ! i)
                   else Inl ''multirun has more outcomes than member Runs'')
              (\<lambda>r. Inr \<lparr> ro_run_id = r, ro_agent_id = agent, ro_output = param_str j v ''output'' [],
                         ro_score = or_default 0 (Option.bind (j_get j v ''score'') (ce_f64 e)) \<rparr>))"

fun multirun_outcomes :: "('v, 'x) CuaEnv_scheme \<Rightarrow> MultiRun \<Rightarrow> nat \<Rightarrow> 'v list \<Rightarrow> string + RunOutcome list" where
  "multirun_outcomes e m i [] = Inr []"
| "multirun_outcomes e m i (v # vs) =
     res_bind (multirun_outcome e m i v) (\<lambda>x. res_bind (multirun_outcomes e m (Suc i) vs) (\<lambda>xs. Inr (x # xs)))"

fun mode_str :: "FuseMode \<Rightarrow> string" where
  "mode_str KeepBest = ''keep_best''"
| "mode_str Fuse = ''fuse''"

text \<open>In a collected outcome the mode is written as the variant's own name.\<close>

fun mode_name :: "FuseMode \<Rightarrow> string" where
  "mode_name KeepBest = ''KeepBest''"
| "mode_name Fuse = ''Fuse''"

definition collected_value :: "('v, 'x) KernelEnv_scheme \<Rightarrow> CollectedRun \<Rightarrow> 'v" where
  "collected_value e c =
     (let j = kn_json e in
      json_lit j [(''output'', j_str j (cl_output c)), (''best_run_id'', j_opt_str j (cl_best_run_id c)),
                  (''best_agent_id'', j_opt_str j (cl_best_agent_id c)), (''score'', kn_float e (Fin (cl_score c))),
                  (''mode'', j_str j (mode_name (cl_mode c)))])"

definition diff_step_value :: "'v json_full \<Rightarrow> OrderedDiffStep \<Rightarrow> 'v" where
  "diff_step_value j s =
     json_lit j [(''seq'', j_num j (od_seq s)), (''path'', j_str j (od_path s)), (''hunk'', j_str j (od_hunk s)),
                 (''narrative'', j_str j (od_narrative s))]"

definition rpc_mode :: "string \<Rightarrow> FuseMode" where
  "rpc_mode m = (if m = ''fuse'' \<or> m = ''Fuse'' then Fuse else KeepBest)"

definition rpc_multirun :: "('v, 'x) CuaEnv_scheme \<Rightarrow> 'v \<Rightarrow> string + 'v" where
  "rpc_multirun e params =
     (let j = kn_json e; mode = rpc_mode (param_str j params ''mode'' ''keep_best'') in
      res_bind (multirun_new (param_str j params ''id'' ''multirun'') (param_str j params ''workId'' [])
                  (param_strings j params ''agentIds'') (param_strings j params ''worktreeIds'') mode) (\<lambda>m.
      res_bind (case Option.bind (j_get j params ''outcomes'') (j_as_array j) of
                  None \<Rightarrow> Inr None
                | Some arr \<Rightarrow> res_bind (multirun_outcomes e m 0 arr) (\<lambda>os. Inr (Some (collect_runs os mode)))) (\<lambda>collected.
        let steps = map_option (\<lambda>d. kn_arr e (map (diff_step_value j) (walkthrough d))) (get_str j params ''diff'');
            strs = str_list_value (KernelEnv.truncate e)
        in Inr (json_lit j
             [(''id'', j_str j (mu_id m)), (''workId'', j_str j (mu_work_id m)), (''agentIds'', strs (mu_agent_ids m)),
              (''runIds'', strs (mu_run_ids m)), (''worktreeIds'', strs (mu_worktree_ids m)),
              (''mode'', j_str j (mode_str (mu_mode m))), (''runCount'', j_num j (length (mu_run_ids m))),
              (''collected'', opt_value e (map_option (collected_value (KernelEnv.truncate e)) collected)),
              (''walkthrough'', opt_value e steps)]))))"

section \<open>The dispatcher\<close>

record 'v ExecHost =
  eh_kernel :: "'v ExecutionKernel"
  eh_disk :: CuaDisk

definition on_kernel ::
  "('v ExecutionKernel \<Rightarrow> (string + 'v) \<times> 'v ExecutionKernel) \<Rightarrow> 'v ExecHost \<Rightarrow> (string + 'v) \<times> 'v ExecHost" where
  "on_kernel f h = (case f (eh_kernel h) of (r, k) \<Rightarrow> (r, h\<lparr>eh_kernel := k\<rparr>))"

definition on_disk :: "('v, 'v) cua \<Rightarrow> 'v ExecHost \<Rightarrow> (string + 'v) \<times> 'v ExecHost" where
  "on_disk f h = (case f (eh_disk h) of (r, s) \<Rightarrow> (r, h\<lparr>eh_disk := s\<rparr>))"

definition preflight_kernel :: "('v, 'x) ShadowEnv_scheme \<Rightarrow> 'v \<Rightarrow> ('v, 'v) xk" where
  "preflight_kernel e params k = (case rpc_preflight e params k of (r, k', _, _) \<Rightarrow> (r, k'))"

definition exec_handle ::
  "('v, 'x) CuaEnv_scheme \<Rightarrow> string \<Rightarrow> 'v \<Rightarrow> 'v ExecHost \<Rightarrow> (string + 'v) \<times> 'v ExecHost" where
  "exec_handle e meth params =
     (if meth = ''execution/begin'' then on_kernel (rpc_begin e params)
      else if meth = ''execution/transition'' then on_kernel (rpc_transition e params)
      else if meth = ''execution/get'' then on_kernel (rpc_get e params)
      else if meth = ''execution/list'' then on_kernel (rpc_exec_list e)
      else if meth = ''execution/bind_runtime'' then on_kernel (rpc_bind_runtime e params)
      else if meth = ''execution/record_approval'' then on_kernel (rpc_record_approval e params)
      else if meth = ''execution/resolve_approval'' then on_kernel (rpc_resolve_approval e params)
      else if meth = ''execution/begin_subagent'' then on_kernel (rpc_begin_subagent e params)
      else if meth = ''execution/record_edit'' then on_kernel (rpc_record_edit e params)
      else if meth = ''execution/cua_persist'' then on_disk (cua_persist e params)
      else if meth = ''execution/cua_get'' then on_disk (cua_get e params)
      else if meth = ''execution/cua_edit'' then on_disk (cua_edit e params)
      else if meth = ''execution/cua_step'' then on_disk (cua_step e params)
      else if meth = ''execution/cua_verify'' then on_disk (cua_verify e params)
      else if meth = ''execution/runtime_bind'' then (\<lambda>h. (rpc_runtime_bind (kn_json e) params, h))
      else if meth = ''execution/runtime_pick'' then st_reply (rpc_runtime_pick (kn_json e) params)
      else if meth = ''execution/spend_split'' then st_reply (rpc_spend_split e params)
      else if meth = ''execution/cua_fabric'' then on_disk (cua_fabric e params)
      else if meth = ''execution/cua_perceive'' then on_disk (cua_perceive e params)
      else if meth = ''execution/cua_stop'' then on_disk (cua_stop e params)
      else if meth = ''execution/cua_replan'' then on_disk (cua_replan e params)
      else if meth = ''execution/cua_promote_skill'' then on_disk (cua_promote_skill e params)
      else if meth = ''execution/cua_set_brief'' then on_disk (cua_set_brief e params)
      else if meth = ''execution/multirun'' then (\<lambda>h. (rpc_multirun e params, h))
      else if meth = ''execution/preflight'' then on_kernel (preflight_kernel e params)
      else if meth = ''execution/record_preflight'' then on_kernel (rpc_record_preflight e params)
      else if meth = ''execution/check_restore'' then on_kernel (rpc_check_restore e params)
      else st_fail (''method not found: '' @ meth))"

end
