(* ===== verification/Exec_Calls.thy ===== *)
theory Exec_Calls
  imports Exec_Laws Cua_Rpc
begin

text \<open>
  Every call of the dispatcher is a sequence of kernel steps, and changes at most one stored
  computer-use graph, by one of the steps of \<open>dag_step\<close>. What holds of the steps therefore holds of every
  run of calls.
\<close>

section \<open>Calls as kernel steps\<close>

abbreviation kernel_steps :: "('v, 'x) KernelEnv_scheme \<Rightarrow> 'v ExecutionKernel \<Rightarrow> 'v ExecutionKernel \<Rightarrow> bool" where
  "kernel_steps e \<equiv> (kernel_step e)\<^sup>*\<^sup>*"

text \<open>An action keeps \<open>P\<close> if it leads from states with \<open>P\<close> to states with \<open>P\<close>, whatever it answers.\<close>

definition keeps :: "('s \<Rightarrow> bool) \<Rightarrow> ('s \<Rightarrow> 'r \<times> 's) \<Rightarrow> bool" where
  "keeps P m \<longleftrightarrow> (\<forall>s. P s \<longrightarrow> P (snd (m s)))"

named_theorems keeps_intros

lemma keepsI: "(\<And>s. P s \<Longrightarrow> P (snd (m s))) \<Longrightarrow> keeps P m"
  by (simp add: keeps_def)

lemma keepsD: "keeps P m \<Longrightarrow> P s \<Longrightarrow> P (snd (m s))"
  by (simp add: keeps_def)

lemma keeps_try [keeps_intros]: "(\<And>x. keeps P (f x)) \<Longrightarrow> keeps P (st_try r f)"
  by (cases r) (simp_all add: keeps_def)

lemma keeps_bind [keeps_intros]: "keeps P m \<Longrightarrow> (\<And>x. keeps P (f x)) \<Longrightarrow> keeps P (st_bind m f)"
  by (auto simp: keeps_def intro: snd_st_bind)

lemma keeps_reply [keeps_intros]: "keeps P (st_reply x)"
  by (simp add: keeps_def)

lemma keeps_fail [keeps_intros]: "keeps P (st_fail err)"
  by (simp add: keeps_def)

abbreviation keeps_steps :: "('v, 'x) KernelEnv_scheme \<Rightarrow> 'v ExecutionKernel \<Rightarrow> ('v, 'a) xk \<Rightarrow> bool" where
  "keeps_steps e k0 \<equiv> keeps (kernel_steps e k0)"

lemma keeps_step: "(\<And>k. kernel_step e k (snd (m k))) \<Longrightarrow> keeps_steps e k0 m"
  by (rule keepsI) (rule rtranclp.rtrancl_into_rtrancl)

lemma keeps_ops [keeps_intros]:
  "keeps_steps e k0 (exec_transition i q)" "keeps_steps e k0 (on_work i (record_pending_on a))"
  "keeps_steps e k0 (on_work i (resolve_pending_approval_for t ok))" "keeps_steps e k0 (on_work i (bind_step e m))"
  "keeps_steps e k0 (attach_verification i v)" "keeps_steps e k0 (begin_subagent e s obj p d granted denied po)"
  by (rule keeps_step, rule kernel_step.intros)+

lemma record_edit_snd:
  "snd (record_verified_edit e i strategy path ticket sq k) = k \<or>
   (\<exists>v. snd (record_verified_edit e i strategy path ticket sq k) = snd (attach_verification i v k))"
  by (auto simp: record_verified_edit_def Let_def split: prod.split sum.split) (metis snd_conv)+

lemma record_preflight_snd:
  "\<exists>v. snd (record_preflight e i passed out k) = snd (attach_verification i v k)"
  by (auto simp: record_preflight_def Let_def split: prod.split sum.split) (metis snd_conv)+

lemma keeps_records [keeps_intros]:
  "keeps_steps e k0 (record_verified_edit e i strategy path ticket sq)" "keeps_steps e k0 (record_preflight e i passed out)"
proof -
  have step: "kernel_steps e k0 k \<Longrightarrow> kernel_steps e k0 (snd (attach_verification i v k))" for k v
    by (rule keepsD [OF keeps_ops(5)])
  show "keeps_steps e k0 (record_verified_edit e i strategy path ticket sq)"
    using record_edit_snd [of e i strategy path ticket sq] step by (intro keepsI) metis
  show "keeps_steps e k0 (record_preflight e i passed out)"
    using record_preflight_snd [of e i passed out] step by (intro keepsI) metis
qed

lemma keeps_begin [keeps_intros]: "keeps_steps e k0 (rpc_begin e params)"
proof (rule keeps_step)
  fix k
  have "\<exists>t s ob p po c sc. snd (rpc_begin e params k) = snd (exec_begin e t s ob p po c sc k)"
    by (auto simp: rpc_begin_def Let_def split: prod.split) (metis snd_conv)
  then show "kernel_step e k (snd (rpc_begin e params k))" by (auto intro: step_begin)
qed

lemma keeps_pending_reply [keeps_intros]: "keeps P (pending_reply e i)"
  by (simp add: keeps_def pending_reply_def Let_def)

lemma keeps_apply: "(\<And>k. keeps P (m k)) \<Longrightarrow> keeps P (\<lambda>k. m k k)"
  by (simp add: keeps_def)

lemma keeps_rpc [keeps_intros]:
  "keeps_steps e k0 (rpc_transition e params)" "keeps_steps e k0 (rpc_bind_runtime e params)"
  "keeps_steps e k0 (rpc_begin_subagent e params)" "keeps_steps e k0 (rpc_record_edit e params)"
  "keeps_steps e k0 (rpc_record_preflight e params)"
  unfolding rpc_transition_def rpc_bind_runtime_def rpc_begin_subagent_def rpc_record_edit_def
    rpc_record_preflight_def Let_def
  by (intro keeps_intros)+

lemma keeps_approvals [keeps_intros]:
  "keeps_steps e k0 (rpc_resolve_approval e params)" "keeps_steps e k0 (rpc_record_approval e params)"
  unfolding rpc_resolve_approval_def rpc_record_approval_def Let_def
  by (rule keeps_apply, intro keeps_intros)+

lemma preflight_snd:
  "preflight_kernel e params k = (r, k') \<Longrightarrow> k' = k \<or> (\<exists>i passed out. k' = snd (record_preflight e i passed out k))"
  by (auto simp: preflight_kernel_def rpc_preflight_def run_preflight_with_candidate_def Let_def
      split: prod.splits sum.splits if_splits) (metis snd_conv)+

lemma keeps_preflight [keeps_intros]: "keeps_steps e k0 (preflight_kernel e params)"
proof (rule keepsI)
  fix k assume k: "kernel_steps e k0 k"
  obtain r k' where "preflight_kernel e params k = (r, k')" by fastforce
  with preflight_snd [OF this] k keepsD [OF keeps_records(2) k] show "kernel_steps e k0 (snd (preflight_kernel e params k))"
    by auto
qed

lemma keeps_reads [keeps_intros]:
  "keeps P (rpc_get e params)" "keeps P (rpc_exec_list e)" "keeps P (rpc_check_restore e params)"
  by (simp_all add: keeps_def rpc_get_def rpc_exec_list_def rpc_check_restore_def Let_def)

lemma on_kernel_steps:
  assumes "keeps_steps e (eh_kernel h) f"
  shows "kernel_steps e (eh_kernel h) (eh_kernel (snd (on_kernel f h)))"
  using keepsD [OF assms rtranclp.rtrancl_refl] by (auto simp: on_kernel_def split: prod.split)

lemma on_disk_kernel [simp]: "eh_kernel (snd (on_disk f h)) = eh_kernel h"
  by (simp add: on_disk_def split: prod.split)

lemma on_kernel_disk [simp]: "eh_disk (snd (on_kernel f h)) = eh_disk h"
  by (simp add: on_kernel_def split: prod.split)

lemma on_disk_disk [simp]: "eh_disk (snd (on_disk f h)) = snd (f (eh_disk h))"
  by (simp add: on_disk_def split: prod.split)

lemma handle_steps: "kernel_steps e (eh_kernel h) (eh_kernel (snd (exec_handle e meth params h)))"
  unfolding exec_handle_def by (simp add: on_kernel_steps keeps_intros)

text \<open>Runs of calls; the environment (clock, disk, processes) may answer differently each time.\<close>

fun exec_run :: "(('v, 'x) CuaEnv_scheme \<times> string \<times> 'v) list \<Rightarrow> 'v ExecHost \<Rightarrow> 'v ExecHost" where
  "exec_run [] h = h"
| "exec_run ((e, meth, params) # calls) h = exec_run calls (snd (exec_handle e meth params h))"

lemma exec_run_append: "exec_run (xs @ ys) h = exec_run ys (exec_run xs h)"
  by (induction xs h rule: exec_run.induct) simp_all

lemma run_kernel_ok: "kernel_ok (eh_kernel h) \<Longrightarrow> kernel_ok (eh_kernel (exec_run calls h))"
proof (induction calls h rule: exec_run.induct)
  case (2 e meth params calls h)
  have "kernel_ok (eh_kernel (snd (exec_handle e meth params h)))"
    by (rule kernel_shape.reach_keeps [OF handle_steps 2(2)])
  with 2(1) show ?case by simp
qed simp

lemma run_evolves: "kernel_evolves (eh_kernel h) (eh_kernel (exec_run calls h))"
proof (induction calls h rule: exec_run.induct)
  case (2 e meth params calls h)
  from kernel_evolves_trans [OF kernel_growth.reach_le [OF handle_steps] 2] show ?case by simp
qed simp

end
