(* ===== verification/Cua_Laws.thy ===== *)
theory Cua_Laws
  imports Exec_Calls
begin

text \<open>
  The steps of a stored computer-use graph. A call of the dispatcher leaves every stored graph as it is,
  or stores one graph: either the result of one \<open>dag_step\<close> on the graph it read, or, for
  \<open>execution/cua_persist\<close>, the graph of the call.
\<close>

section \<open>Steps of a graph\<close>

text \<open>The label is the node that the step proved, if it is one that may mark a node as verified.\<close>

inductive dag_step :: "DiskView \<Rightarrow> string option \<Rightarrow> ComputerUseDag \<Rightarrow> ComputerUseDag \<Rightarrow> bool" for v where
  dag_edit: "apply_remaining_edit i name info d = Inr d' \<Longrightarrow> dag_step v None d d'"
| dag_fail: "dag_step v None d (change_node i (\<lambda>n. snd (apply_delegation_act False n)) d)"
| dag_prove: "dag_step v (Some i) d (change_node i (\<lambda>n. snd (apply_delegation_act True n)) d)"
| dag_judge: "mechanical_verify v c ev \<noteq> MvVerified \<Longrightarrow>
    dag_step v None d (change_node i (\<lambda>n. snd (apply_mechanical_verify v c ev n)) d)"
| dag_judged: "mechanical_verify v c ev = MvVerified \<Longrightarrow>
    dag_step v (Some i) d (change_node i (\<lambda>n. snd (apply_mechanical_verify v c ev n)) d)"
| dag_fabric: "dag_step v None d (change_node i (apply_fabric sf) d)"
| dag_screen: "dag_step v None d (change_node i (\<lambda>n. n\<lparr>nd_screenshot_ref := r\<rparr>) d)"
| dag_stop: "dag_step v None d (change_node i (\<lambda>n. snd (apply_node_stop reason n)) d)"
| dag_brief: "find_node i d = Some n \<Longrightarrow> apply_five_part_brief b n = Inr n' \<Longrightarrow> dag_step v None d (change_node i (\<lambda>_. n') d)"
| dag_replan: "apply_manager_replan ns d = (Inr r, d') \<Longrightarrow> dag_step v None d d'"

definition dag_legal :: "ComputerUseDag \<Rightarrow> bool" where
  "dag_legal d \<longleftrightarrow> list_all node_contract_legal (dg_nodes d)"

definition verified_ids :: "ComputerUseDag \<Rightarrow> string set" where
  "verified_ids d = nd_id ` {n \<in> set (dg_nodes d). nd_status n = CsVerified}"

lemma nodes_change [simp]: "dg_nodes (change_node i f d) = update_first (\<lambda>n. nd_id n = i) f (dg_nodes d)"
  "dg_replan_seq (change_node i f d) = dg_replan_seq d"
  by (simp_all add: change_node_def)

lemma legal_change:
  assumes "dag_legal d" and "\<And>n. node_contract_legal n \<Longrightarrow> node_contract_legal (f n)"
  shows "dag_legal (change_node i f d)"
  using assms by (auto simp: dag_legal_def list_all_iff dest!: update_first_other)

lemma act_postconditions [simp]:
  "nd_postconditions (snd (apply_delegation_act ok n)) = nd_postconditions n"
  "nd_postconditions (snd (apply_mechanical_verify v c ev n)) = nd_postconditions n"
  "nd_postconditions (snd (apply_node_stop reason n)) = nd_postconditions n"
  "nd_postconditions (apply_fabric sf n) = nd_postconditions n"
  by (auto simp: apply_delegation_act_def apply_mechanical_verify_def apply_node_stop_def apply_fabric_def Let_def
      split: DelegationOutcome.split MechanicalVerdict.split)

lemma act_id [simp]:
  "nd_id (snd (apply_delegation_act ok n)) = nd_id n" "nd_id (snd (apply_mechanical_verify v c ev n)) = nd_id n"
  "nd_id (snd (apply_node_stop reason n)) = nd_id n" "nd_id (apply_fabric sf n) = nd_id n"
  by (auto simp: apply_delegation_act_def apply_mechanical_verify_def apply_node_stop_def apply_fabric_def Let_def
      split: DelegationOutcome.split MechanicalVerdict.split)

lemma step_legal: "dag_step v p d d' \<Longrightarrow> dag_legal d \<Longrightarrow> dag_legal d'"
proof (induction rule: dag_step.induct)
  case (dag_edit i name info d d')
  then obtain f where "dg_nodes d' = dg_nodes (change_node i f d)" "\<And>n. nd_postconditions (f n) = nd_postconditions n"
    by (auto simp: apply_remaining_edit_def split: option.splits if_splits)
  with dag_edit(2) legal_change [of d f i] show ?case by (simp add: dag_legal_def node_contract_legal_def)
next
  case (dag_brief i d n b n')
  then show ?case
    by (intro legal_change) (auto simp: apply_five_part_brief_def node_contract_legal_def split: if_splits)
next
  case (dag_replan ns d r d')
  then show ?case
    by (auto simp: replan_accepts replan_remaining_def dag_legal_def list_all_iff validate_remaining_None)
qed (intro legal_change; simp add: node_contract_legal_def)+

text \<open>Only an act that was verified, or evidence that holds, marks a node as verified.\<close>

lemma verified_change:
  assumes "\<And>n. nd_id n = i \<Longrightarrow> nd_id (f n) = i" and "\<And>n. nd_status (f n) = CsVerified \<Longrightarrow> nd_status n = CsVerified \<or> Some i = p"
  shows "verified_ids (change_node i f d) \<subseteq> verified_ids d \<union> set_option p"
proof
  fix x assume "x \<in> verified_ids (change_node i f d)"
  then obtain n where n: "n \<in> set (update_first (\<lambda>n. nd_id n = i) f (dg_nodes d))" "nd_status n = CsVerified" "x = nd_id n"
    by (auto simp: verified_ids_def)
  from update_first_other [OF n(1)] show "x \<in> verified_ids d \<union> set_option p"
  proof
    assume "n \<in> set (dg_nodes d)"
    with n show ?thesis by (auto simp: verified_ids_def)
  next
    assume "\<exists>y\<in>set (dg_nodes d). nd_id y = i \<and> n = f y"
    then obtain y where y: "y \<in> set (dg_nodes d)" "nd_id y = i" "n = f y" by blast
    then have "x = i" using n(3) assms(1) by simp
    moreover from y n(2) assms(2) have "nd_status y = CsVerified \<or> Some i = p" by simp
    ultimately show ?thesis using y by (auto simp: verified_ids_def)
  qed
qed

lemma judge_status:
  "mechanical_verify v c ev \<noteq> MvVerified \<Longrightarrow> nd_status (snd (apply_mechanical_verify v c ev n)) = CsVerified \<Longrightarrow>
   nd_status n = CsVerified"
  by (auto simp: apply_mechanical_verify_def Let_def act_status split: MechanicalVerdict.splits if_splits)

lemma step_verified: "dag_step v p d d' \<Longrightarrow> verified_ids d' \<subseteq> verified_ids d \<union> set_option p"
proof (induction rule: dag_step.induct)
  case (dag_edit i name info d d')
  then obtain f where "dg_nodes d' = dg_nodes (change_node i f d)" "\<And>n. nd_id (f n) = nd_id n"
      "\<And>n. nd_status (f n) = nd_status n"
    by (auto simp: apply_remaining_edit_def split: option.splits if_splits)
  with verified_change [of i f None d] show ?case by (simp add: verified_ids_def)
next
  case (dag_fail d i)
  show ?case by (rule verified_change) (auto simp: act_status split: if_splits)
next
  case (dag_judge c ev d i)
  then show ?case by (intro verified_change) (auto dest: judge_status)
next
  case (dag_stop d i reason)
  show ?case by (rule verified_change) (auto simp: apply_node_stop_def Let_def split: if_splits)
next
  case (dag_brief i d n b n')
  then have n': "nd_id n' = i" "nd_status n' = nd_status n" "n \<in> set (dg_nodes d)" "nd_id n = i"
    by (auto simp: apply_five_part_brief_def find_node_def find_Some_iff split: if_splits)
  show ?case
  proof
    fix x assume "x \<in> verified_ids (change_node i (\<lambda>_. n') d)"
    then obtain m where m: "m \<in> set (update_first (\<lambda>n. nd_id n = i) (\<lambda>_. n') (dg_nodes d))" "nd_status m = CsVerified" "x = nd_id m"
      by (auto simp: verified_ids_def)
    from update_first_other [OF m(1)] have "m \<in> set (dg_nodes d) \<or> m = n'" by auto
    with m n' have "\<exists>k \<in> set (dg_nodes d). nd_status k = CsVerified \<and> nd_id k = x" by metis
    then show "x \<in> verified_ids d \<union> set_option None" by (auto simp: verified_ids_def)
  qed
next
  case (dag_replan ns d r d')
  then show ?case
    by (auto simp: replan_accepts replan_remaining_def verified_ids_def validate_remaining_None)
qed (rule verified_change; auto simp: apply_fabric_def)+

section \<open>Calls as steps of the stored graphs\<close>

text \<open>The node a call may mark as verified.\<close>

definition proved_node :: "('v, 'x) CuaEnv_scheme \<Rightarrow> string \<Rightarrow> 'v \<Rightarrow> string option" where
  "proved_node e meth params =
     (let j = kn_json e in
      if meth = ''execution/cua_step'' \<and> get_bool j params ''verifyOk'' = Some True then get_str j params ''nodeId''
      else if meth = ''execution/cua_verify'' \<and>
              (\<exists>ev. Option.bind (j_get j params ''evidence'') (ce_evidence e) = Some ev \<and>
                    evidence_verdict (ce_view e) (mev_kind ev) ev = MvVerified)
      then get_str j params ''nodeId''
      else None)"

inductive disk_step :: "('v, 'x) CuaEnv_scheme \<Rightarrow> bool \<Rightarrow> string option \<Rightarrow> CuaDisk \<Rightarrow> CuaDisk \<Rightarrow> bool" for e w p where
  disk_same: "cd_dags s' = cd_dags s \<Longrightarrow> disk_step e w p s s'"
| disk_write: "lookup (cd_dags s) dir = Some d \<Longrightarrow> dag_step (ce_view e) q d d' \<Longrightarrow> q = None \<or> q = p \<Longrightarrow>
    cd_dags s' = AList.update dir d' (cd_dags s) \<Longrightarrow> disk_step e w p s s'"
| disk_store: "w \<Longrightarrow> dag_legal d \<Longrightarrow> cd_dags s' = AList.update dir d (cd_dags s) \<Longrightarrow> disk_step e w p s s'"

text \<open>The actions of a call before it writes leave the graphs alone.\<close>

definition writes :: "('v, 'x) CuaEnv_scheme \<Rightarrow> bool \<Rightarrow> string option \<Rightarrow> CuaDisk \<Rightarrow> CuaDisk \<Rightarrow> ('v, 'a) cua \<Rightarrow> bool" where
  "writes e w p s u m \<longleftrightarrow> disk_step e w p s (snd (m u))"

lemma writes_try: "cd_dags u = cd_dags s \<Longrightarrow> (\<And>x. r = Inr x \<Longrightarrow> writes e w p s u (f x)) \<Longrightarrow> writes e w p s u (st_try r f)"
  by (cases r) (auto simp: writes_def intro: disk_same)

lemma writes_fail: "cd_dags u = cd_dags s \<Longrightarrow> writes e w p s u (st_fail err)"
  by (simp add: writes_def disk_same)

lemma writes_log:
  assumes "cd_dags u = cd_dags s" "\<And>u'. cd_dags u' = cd_dags s \<Longrightarrow> writes e w p s u' f"
  shows "writes e w p s u (st_bind (append_replan_log e dir sq reason) (\<lambda>_. f))"
    "writes e w p s u (st_bind (log_if e b dir sq reason) (\<lambda>_. f))"
  using assms by (auto simp: writes_def st_bind_def log_if_def append_replan_log_def intro: disk_same split: option.split)

lemma writes_dag:
  assumes "cd_dags u = cd_dags s"
    "\<And>d. lookup (cd_dags s) (ce_dir e dir) = Some d \<Longrightarrow> writes e w p s u (f d)"
  shows "writes e w p s u (with_dag e dir f)"
  using assms by (auto simp: writes_def with_dag_def load_dag_def intro: disk_same split: option.split)

lemma writes_node:
  assumes "cd_dags u = cd_dags s"
    "\<And>d n. lookup (cd_dags s) (ce_dir e dir) = Some d \<Longrightarrow> find_node i d = Some n \<Longrightarrow> writes e w p s u (f d n)"
  shows "writes e w p s u (with_node e dir i f)"
  unfolding with_node_def using assms by (intro writes_dag) (auto intro: writes_fail split: option.split)

lemma persist_snd:
  "cd_dags (snd (persist_dag e dir d u)) = cd_dags u \<or> cd_dags (snd (persist_dag e dir d u)) = AList.update (ce_dir e dir) d (cd_dags u)"
  by (auto simp: persist_dag_def split: option.split)

lemma st_bind_reply_snd: "snd (st_bind m (\<lambda>x. st_reply (g x)) u) = snd (m u)"
  by (auto simp: st_bind_def split: prod.split sum.split)

lemma persist_step:
  assumes "cd_dags u = cd_dags s" "lookup (cd_dags s) (ce_dir e dir) = Some d"
    "\<exists>q. dag_step (ce_view e) q d d' \<and> (q = None \<or> q = p)"
  shows "disk_step e w p s (snd (persist_dag e dir d' u))"
  using persist_snd [of e dir d' u] assms disk_same disk_write [OF assms(2)] by metis

lemma writes_persist:
  assumes "cd_dags u = cd_dags s" "lookup (cd_dags s) (ce_dir e dir) = Some d"
    "\<exists>q. dag_step (ce_view e) q d d' \<and> (q = None \<or> q = p)"
  shows "writes e w p s u (st_bind (persist_dag e dir d') (\<lambda>x. st_reply (g x)))"
  unfolding writes_def st_bind_reply_snd using assms by (rule persist_step)

lemma plain_persist:
  assumes "cd_dags u = cd_dags s" "lookup (cd_dags s) (ce_dir e dir) = Some d" "dag_step (ce_view e) None d d'"
  shows "disk_step e w p s (snd (persist_dag e dir d' u))"
    "writes e w p s u (st_bind (persist_dag e dir d') (\<lambda>x. st_reply (g x)))"
  using assms by (auto intro: persist_step writes_persist)

lemma writes_store:
  assumes "cd_dags u = cd_dags s" "dag_legal d" w
  shows "writes e w p s u (st_bind (persist_dag e dir d) (\<lambda>x. st_reply (g x)))"
  using persist_snd [of e dir d u] assms disk_same disk_store
  unfolding writes_def st_bind_reply_snd by metis

lemmas writes_intros = writes_try writes_log writes_dag writes_node writes_fail


lemma writes_edit: "writes e w p s s (cua_edit e params)"
  unfolding cua_edit_def Let_def
  by (intro writes_intros refl) (auto intro!: writes_intros plain_persist dag_edit)

lemma writes_step:
  assumes "get_bool (kn_json e) params ''verifyOk'' = Some True \<Longrightarrow> p = get_str (kn_json e) params ''nodeId''"
  shows "writes e w p s s (cua_step e params)"
proof -
  let ?ok = "or_default False (get_bool (kn_json e) params ''verifyOk'')"
  have "\<exists>q. dag_step (ce_view e) q d (change_node i (\<lambda>m. snd (apply_delegation_act ?ok m)) d) \<and> (q = None \<or> q = p)"
    if "need (kn_json e) ''execution/cua_step'' params ''nodeId'' = Inr i" for d i
  proof (cases ?ok)
    case True
    with that assms have "p = Some i"
      by (cases "get_bool (kn_json e) params ''verifyOk''") (auto simp: need_def split: option.splits)
    with True dag_prove [of "ce_view e" i d] show ?thesis by auto
  next
    case False
    with dag_fail [of "ce_view e" d i] show ?thesis by auto
  qed
  then show ?thesis
    unfolding cua_step_def Let_def
    by (intro writes_intros refl) (auto intro!: writes_log intro: writes_persist)
qed

lemma writes_verify:
  assumes "\<And>ev. Option.bind (j_get (kn_json e) params ''evidence'') (ce_evidence e) = Some ev \<Longrightarrow>
      evidence_verdict (ce_view e) (mev_kind ev) ev = MvVerified \<Longrightarrow> p = get_str (kn_json e) params ''nodeId''"
  shows "writes e w p s s (cua_verify e params)"
proof -
  let ?none = "\<lparr> mev_kind = EvNone, mev_path = None, mev_expect = None, mev_exit_code = None, mev_text = None \<rparr>"
  let ?ev = "or_default ?none (Option.bind (j_get (kn_json e) params ''evidence'') (ce_evidence e))"
  have "\<exists>q. dag_step (ce_view e) q d (change_node i (\<lambda>m. snd (apply_mechanical_verify (ce_view e) c ?ev m)) d) \<and>
      (q = None \<or> q = p)"
    if "need (kn_json e) ''execution/cua_verify'' params ''nodeId'' = Inr i" for c d i
  proof (cases "mechanical_verify (ce_view e) c ?ev = MvVerified")
    case True
    then obtain ev where "Option.bind (j_get (kn_json e) params ''evidence'') (ce_evidence e) = Some ev"
      "evidence_verdict (ce_view e) (mev_kind ev) ev = MvVerified"
      by (cases "Option.bind (j_get (kn_json e) params ''evidence'') (ce_evidence e)") (auto simp: mechanical_verify_def)
    with assms that have "p = Some i" by (auto simp: need_def split: option.splits)
    with dag_judged [OF True, of i d] show ?thesis by auto
  next
    case False
    from dag_judge [OF False, of d i] show ?thesis by auto
  qed
  then show ?thesis
    unfolding cua_verify_def Let_def
    by (intro writes_intros refl) (auto intro!: writes_log intro: writes_persist)
qed

lemma writes_fabric: "writes e w p s s (cua_fabric e params)"
  unfolding cua_fabric_def Let_def by (intro writes_intros refl) (auto intro: plain_persist dag_fabric)

lemma writes_stop: "writes e w p s s (cua_stop e params)"
  unfolding cua_stop_def Let_def by (intro writes_intros refl) (auto intro: plain_persist dag_stop)

lemma writes_brief: "writes e w p s s (cua_set_brief e params)"
  unfolding cua_set_brief_def Let_def by (intro writes_intros refl) (auto intro: plain_persist dag_brief)

lemma writes_replan: "writes e w p s s (cua_replan e params)"
  unfolding cua_replan_def replan_tail_def Let_def
  by (intro writes_intros refl)
     (auto split: prod.split sum.split intro!: writes_fail writes_log intro: plain_persist dag_replan)

lemma writes_cua_persist: "writes e True p s s (cua_persist e params)"
  unfolding cua_persist_def Let_def
  by (intro writes_intros refl)
     (auto split: option.split intro!: writes_fail intro: writes_store
        simp: find_None_iff dag_legal_def list_all_iff)

lemma writes_get: "writes e w p s s (cua_get e params)"
proof -
  have "snd (cua_get e params s) = s"
    by (auto simp: cua_get_def Let_def st_try_def split: sum.split)
  then show ?thesis by (simp add: writes_def disk_same)
qed

lemma writes_promote: "writes e w p s s (cua_promote_skill e params)"
  unfolding cua_promote_skill_def Let_def
  by (intro writes_intros refl) (auto simp: writes_def intro: disk_same)

lemma writes_perceive: "writes e w p s s (cua_perceive e params)"
proof -
  have "disk_step e w p s (note_screenshot e params l s)" for l
    by (auto simp: note_screenshot_def load_dag_def Let_def split: option.split
        intro: disk_same plain_persist dag_screen)
  then show ?thesis
    by (auto simp: cua_perceive_def writes_def Let_def st_try_def intro: disk_same split: sum.split)
qed

lemma handle_disk:
  "disk_step e (meth = ''execution/cua_persist'') (proved_node e meth params) (eh_disk h)
     (eh_disk (snd (exec_handle e meth params h)))"
proof -
  have same: "disk_step e w p s s" for w p s by (rule disk_same) simp
  note W = writes_edit writes_fabric writes_stop writes_brief writes_replan writes_get writes_promote writes_perceive
  note W' = W [unfolded writes_def] writes_cua_persist [unfolded writes_def]
  have step: "disk_step e False (proved_node e ''execution/cua_step'' params) s (snd (cua_step e params s))" for s
    by (rule writes_step [unfolded writes_def]) (simp add: proved_node_def Let_def)
  have judge: "disk_step e False (proved_node e ''execution/cua_verify'' params) s (snd (cua_verify e params s))" for s
    by (rule writes_verify [unfolded writes_def]) (auto simp: proved_node_def Let_def)
  show ?thesis
    unfolding exec_handle_def by (simp add: W' step judge same)
qed


section \<open>What an accepted replan did\<close>

lemma cua_replan_parts:
  assumes "cua_replan e params s = (Inr v, s')"
  obtains path ns d remaining where "get_str (kn_json e) params ''root'' = Some path"
    "lookup (cd_dags s) (ce_dir e path) = Some d" "j_get (kn_json e) params ''remaining'' = Some remaining"
    "parse_remaining_nodes (kn_json e) (ce_is_object e) (ce_node e) remaining = Inr ns"
    "replan_tail e path (replan_reason_str (parse_replan_reason (param_str (kn_json e) params ''reason'' ''planner'')))
       (apply_manager_replan ns d) s = (Inr v, s')"
  using assms
  by (auto simp: cua_replan_def Let_def st_try_Inr with_dag_def load_dag_def need_def split: option.splits)

lemma verified_ids_pairs:
  "i \<in> verified_ids d \<longleftrightarrow> (i, CsVerified) \<in> set (map (\<lambda>n. (nd_id n, nd_status n)) (dg_nodes d))"
  by (auto simp: verified_ids_def)

end
