(* ===== verification/Exec_Recover.thy ===== *)
theory Exec_Recover
  imports Exec_Kernel Work_Runtime
begin

text \<open>
  Rebuilding the execution kernel from the Work journal (\<open>core/src/execution.rs\<close>,
  \<open>recover_from_work_gateway_with_report\<close> and the functions it calls), over the gateway model.

  \<open>RunScan\<close> holds the local variables of the loop over a Work's events; \<open>scan_event\<close> is one iteration.
  \<open>kr_parse\<close> parses a JSON text and \<open>kr_manifest\<close> decodes a manifest.
\<close>

record 'v RecoverEnv = "'v KernelEnv" +
  kr_parse :: "string \<Rightarrow> string + 'v"
  kr_manifest :: "'v \<Rightarrow> 'v ExecManifest option"

record RecoveryReport =
  rr_legacy_works :: "string list"
  rr_uncertain_effects :: "string list"
  rr_warnings :: "string list"

definition report_new :: RecoveryReport where
  "report_new = \<lparr> rr_legacy_works = [], rr_uncertain_effects = [], rr_warnings = [] \<rparr>"

section \<open>Reading run metadata\<close>

definition metadata_string :: "'v json_full \<Rightarrow> 'v strmap \<Rightarrow> string \<Rightarrow> string option" where
  "metadata_string j m key = Option.bind (lookup m key) (j_as_str j)"

definition metadata_value_as_string :: "'v json_full \<Rightarrow> 'v strmap \<Rightarrow> string \<Rightarrow> string" where
  "metadata_value_as_string j m key =
     (case lookup m key of
        None \<Rightarrow> []
      | Some v \<Rightarrow> (case j_as_str j v of Some s \<Rightarrow> s | None \<Rightarrow> j_render j v))"

definition metadata_string_list :: "'v json_full \<Rightarrow> 'v strmap \<Rightarrow> string \<Rightarrow> string list" where
  "metadata_string_list j m key =
     (case Option.bind (lookup m key) (j_as_array j) of
        None \<Rightarrow> []
      | Some vs \<Rightarrow> List.map_filter (j_as_str j) vs)"

definition metadata_trigger :: "'v json_full \<Rightarrow> 'v strmap \<Rightarrow> WorkAddress \<Rightarrow> ExecutionTrigger" where
  "metadata_trigger j m a =
     (let inferred = (if wa_parent_work_id a \<noteq> None then TgSubagent
                      else if wa_session_kind a = SkAutomation then TgScheduler
                      else TgChat)
      in case metadata_string j m ''trigger'' of
           None \<Rightarrow> inferred
         | Some t \<Rightarrow>
             if t = ''plan'' then TgPlan
             else if t = ''scheduler'' then TgScheduler
             else if t = ''acp'' then TgAcp
             else if t = ''subagent'' then TgSubagent
             else if t = ''chat'' then inferred
             else TgChat)"

definition created_objective :: "'v WorkEventEnvelope \<Rightarrow> string option" where
  "created_objective e = (case we_event e of Domain (WorkCreated c) \<Rightarrow> Some (cn_objective c) | _ \<Rightarrow> None)"

fun find_map :: "('a \<Rightarrow> 'b option) \<Rightarrow> 'a list \<Rightarrow> 'b option" where
  "find_map f [] = None"
| "find_map f (x # xs) = (case f x of Some y \<Rightarrow> Some y | None \<Rightarrow> find_map f xs)"

definition work_created_objective :: "'v WorkEventEnvelope list \<Rightarrow> string option" where
  "work_created_objective es = find_map created_objective es"

definition effect_value :: "'v json_full \<Rightarrow> EffectProjection \<Rightarrow> 'v" where
  "effect_value j x =
     json_lit j
       ([(''effectId'', j_str j (ep_effect_id x)), (''state'', j_str j (ep_state x)),
         (''uncertainty'', j_str j (case ep_uncertainty x of
            UncNone \<Rightarrow> ''none'' | UnknownOutcome \<Rightarrow> ''unknown_outcome'' | UncPartial \<Rightarrow> ''partial'')),
         (''lastSequence'', j_num j (ep_last_sequence x))] @
        (case ep_idempotency_class x of None \<Rightarrow> [] | Some c \<Rightarrow> [(''idempotencyClass'', j_str j (idempotency_str c))]) @
        (case ep_reason x of None \<Rightarrow> [] | Some r \<Rightarrow> [(''reason'', j_str j r)]) @
        (case ep_grant_id x of None \<Rightarrow> [] | Some g \<Rightarrow> [(''grantId'', j_str j g)]))"

definition recovered_receipt :: "('v, 'x) RecoverEnv_scheme \<Rightarrow> 'v WorkGateway \<Rightarrow> string \<Rightarrow> 'v option" where
  "recovered_receipt e s w =
     (let effects = effect_statuses s w; j = kn_json e in
      if effects = [] \<or> list_ex requires_reconciliation effects then None
      else Some (json_lit j [(''source'', j_str j ''work_journal''),
                             (''effects'', kn_arr e (map (effect_value j) effects))]))"

section \<open>Walking the events of one Run\<close>

record RunScan =
  sn_state :: "ExecutionPhase option"
  sn_history :: "string list"
  sn_checkpoint :: nat
  sn_sequence :: nat
  sn_created_at :: nat
  sn_saw_event :: bool
  sn_saw_start :: bool
  sn_active :: "string option"
  sn_refs :: "string list"
  sn_pending :: "PendingApproval strmap"
  sn_resolution :: "(string \<times> ExecutionPhase) option"

definition scan_new :: "string list \<Rightarrow> RunScan" where
  "scan_new refs =
     \<lparr> sn_state = None, sn_history = [], sn_checkpoint = 0, sn_sequence = 0, sn_created_at = 0,
       sn_saw_event = False, sn_saw_start = False, sn_active = None, sn_refs = refs, sn_pending = [],
       sn_resolution = None \<rparr>"

text \<open>The Run an approval without an owner is attributed to: the one bound last.\<close>

definition bound_run :: "'v json_full \<Rightarrow> 'v WorkEvent \<Rightarrow> string option" where
  "bound_run j ev =
     (case ev of
        Domain (WorkCreated c) \<Rightarrow> cn_run_id c
      | Domain (WorkUpdated patch) \<Rightarrow>
          (case get_str j patch ''executionId'' of
             Some r \<Rightarrow> Some r
           | None \<Rightarrow> Option.bind (j_get j patch ''run'')
                       (\<lambda>rid. Option.bind (get_or j rid ''runId'' ''executionId'') (j_as_str j)))
      | _ \<Rightarrow> None)"

definition note_envelope :: "'v json_full \<Rightarrow> 'v WorkEventEnvelope \<Rightarrow> RunScan \<Rightarrow> RunScan" where
  "note_envelope j e n =
     n\<lparr>sn_created_at := max (sn_created_at n) (we_timestamp e),
       sn_sequence := max (sn_sequence n) (we_sequence e),
       sn_active := (case bound_run j (we_event e) of Some r \<Rightarrow> Some r | None \<Rightarrow> sn_active n)\<rparr>"

definition event_run_id :: "'v WorkEvent \<Rightarrow> string option" where
  "event_run_id ev =
     (case ev of
        Domain d \<Rightarrow>
          (case d of
             RunQueued r \<Rightarrow> Some r
           | RunStarted r \<Rightarrow> Some r
           | RunWaiting r _ _ \<Rightarrow> Some r
           | RunCheckpointed r _ \<Rightarrow> Some r
           | RunPaused r \<Rightarrow> Some r
           | RunInterrupted r _ \<Rightarrow> Some r
           | RunCompleted r \<Rightarrow> Some r
           | RunFailed r _ \<Rightarrow> Some r
           | RunCancelled r \<Rightarrow> Some r
           | _ \<Rightarrow> None)
      | _ \<Rightarrow> None)"

definition event_phase :: "string \<Rightarrow> 'v WorkEvent \<Rightarrow> string + ExecutionPhase option" where
  "event_phase rid ev =
     (case ev of
        Domain d \<Rightarrow>
          (case d of
             RunQueued _ \<Rightarrow> Inr (Some EpReady)
           | RunStarted _ \<Rightarrow> Inr (Some EpRunning)
           | RunWaiting _ reason _ \<Rightarrow>
               (case work_state_try_parse reason of
                  None \<Rightarrow> Inl (''unknown Work state '' @ quoted reason @ '' in Run '' @ quoted rid)
                | Some st \<Rightarrow> Inr (Some (from_work_state st)))
           | RunCheckpointed _ _ \<Rightarrow> Inr (Some EpCheckpointed)
           | RunPaused _ \<Rightarrow> Inr (Some EpPaused)
           | RunInterrupted _ _ \<Rightarrow> Inr (Some EpRecoverable)
           | RunCompleted _ \<Rightarrow> Inr (Some EpCompleted)
           | RunFailed _ _ \<Rightarrow> Inr (Some EpFailed)
           | RunCancelled _ \<Rightarrow> Inr (Some EpCancelled)
           | _ \<Rightarrow> Inr None)
      | _ \<Rightarrow> Inr None)"

definition is_start :: "'v WorkEvent \<Rightarrow> bool" where
  "is_start ev = (case ev of Domain (RunQueued _) \<Rightarrow> True | Domain (RunStarted _) \<Rightarrow> True | _ \<Rightarrow> False)"

definition event_checkpoint :: "'v WorkEvent \<Rightarrow> nat" where
  "event_checkpoint ev = (case ev of Domain (RunCheckpointed _ c) \<Rightarrow> c | _ \<Rightarrow> 0)"

definition resolution_clash :: "string \<Rightarrow> ExecutionPhase \<Rightarrow> RunScan \<Rightarrow> string option" where
  "resolution_clash rid next n =
     (case sn_resolution n of
        Some (t, expected) \<Rightarrow>
          if next \<noteq> expected
          then Some (''approval '' @ quoted t @ '' resolved Run '' @ quoted rid @ '' to '' @ phase_debug expected @
                     '', then journal moved it to '' @ phase_debug next)
          else None
      | None \<Rightarrow> None)"

definition illegal_step :: "string \<Rightarrow> ExecutionPhase \<Rightarrow> RunScan \<Rightarrow> string option" where
  "illegal_step rid next n =
     (case sn_state n of
        Some prev \<Rightarrow>
          if prev \<noteq> next \<and> \<not> phase_transition_legal prev next
          then Some (''illegal recovered Run transition '' @ phase_debug prev @ '' '' @ arrow @ '' '' @
                     phase_debug next @ '' for '' @ quoted rid)
          else None
      | None \<Rightarrow> None)"

definition enter_scan :: "string \<Rightarrow> ExecutionPhase \<Rightarrow> RunScan \<Rightarrow> string + RunScan" where
  "enter_scan rid next n =
     (case resolution_clash rid next n of
        Some err \<Rightarrow> Inl err
      | None \<Rightarrow>
          (case illegal_step rid next n of
             Some err \<Rightarrow> Inl err
           | None \<Rightarrow>
               Inr (n\<lparr>sn_resolution := None, sn_state := Some next,
                      sn_history := sn_history n @ [phase_debug next]\<rparr>)))"

definition scan_lifecycle :: "string \<Rightarrow> 'v WorkEvent \<Rightarrow> RunScan \<Rightarrow> string + RunScan" where
  "scan_lifecycle rid ev n =
     (let n1 = n\<lparr>sn_saw_event := True, sn_saw_start := sn_saw_start n \<or> is_start ev\<rparr> in
      res_bind (event_phase rid ev) (\<lambda>p.
        case p of
          None \<Rightarrow> Inr n1
        | Some next \<Rightarrow> enter_scan rid next (n1\<lparr>sn_checkpoint := max (sn_checkpoint n1) (event_checkpoint ev)\<rparr>)))"

text \<open>The Run that owns an approval event: the one it names, else the one bound last, else the Work's
  current Run.\<close>

definition approval_owner :: "'v WorkGateway \<Rightarrow> string \<Rightarrow> string option \<Rightarrow> RunScan \<Rightarrow> string option" where
  "approval_owner s w explicit n =
     (case explicit of
        Some r \<Rightarrow> Some r
      | None \<Rightarrow> (case sn_active n of Some r \<Rightarrow> Some r | None \<Rightarrow> execution_id s w))"

definition pending_from ::
  "string \<Rightarrow> string option \<Rightarrow> string option \<Rightarrow> string option \<Rightarrow> nat option \<Rightarrow> nat \<Rightarrow> PendingApproval" where
  "pending_from ticket tool args risk at_ms stamp =
     \<lparr> pn_ticket_id = ticket, pn_tool_id = or_default [] tool, pn_args_hash = or_default [] args,
       pn_requested_at_ms = or_default stamp at_ms, pn_risk_tier = or_default [] risk \<rparr>"

definition scan_requested ::
  "'v WorkGateway \<Rightarrow> string \<Rightarrow> string \<Rightarrow> string option \<Rightarrow> PendingApproval \<Rightarrow> RunScan \<Rightarrow> string + RunScan" where
  "scan_requested s w rid explicit a n =
     (let t = pn_ticket_id a in
      case approval_owner s w explicit n of
        None \<Rightarrow> Inl (''approval '' @ quoted t @ '' has no durable Run owner'')
      | Some owner \<Rightarrow>
          if owner \<noteq> rid then Inr n
          else if sn_resolution n \<noteq> None
          then Inl (''approval '' @ quoted t @ '' was requested before the prior resolution completed'')
          else if sn_state n \<noteq> Some EpWaitingApproval
          then Inl (''approval '' @ quoted t @ '' is not attached to a WaitingApproval Run '' @ quoted rid)
          else if lookup (sn_pending n) t \<noteq> None
          then Inl (''approval ticket '' @ quoted t @ '' is already pending'')
          else Inr (n\<lparr>sn_pending := bt_insert t a (sn_pending n),
                      sn_refs := (if t \<in> set (sn_refs n) then sn_refs n else sn_refs n @ [t])\<rparr>))"

definition scan_resolved ::
  "'v WorkGateway \<Rightarrow> string \<Rightarrow> string \<Rightarrow> string option \<Rightarrow> string \<Rightarrow> bool \<Rightarrow> RunScan \<Rightarrow> string + RunScan" where
  "scan_resolved s w rid explicit t approved n =
     (case approval_owner s w explicit n of
        None \<Rightarrow>
          if lookup (sn_pending n) t \<noteq> None
          then Inl (''approval resolution '' @ quoted t @ '' has no durable Run owner'')
          else Inr n
      | Some owner \<Rightarrow>
          if owner \<noteq> rid then Inr n
          else if lookup (sn_pending n) t = None then Inr n
          else if sn_state n \<noteq> Some EpWaitingApproval
          then Inl (''approval '' @ quoted t @ '' is resolved from a non-WaitingApproval Run '' @ quoted rid)
          else Inr (n\<lparr>sn_pending := bt_remove t (sn_pending n),
                      sn_resolution := Some (t, if approved then EpRunning else EpFailed)\<rparr>))"

definition scan_event ::
  "'v json_full \<Rightarrow> 'v WorkGateway \<Rightarrow> string \<Rightarrow> string \<Rightarrow> 'v WorkEventEnvelope \<Rightarrow> RunScan \<Rightarrow> string + RunScan" where
  "scan_event j s w rid e n0 =
     (let n = note_envelope j e n0 in
      case event_run_id (we_event e) of
        Some r \<Rightarrow> if r \<noteq> rid then Inr n else scan_lifecycle rid (we_event e) n
      | None \<Rightarrow>
          (case we_event e of
             Domain (ApprovalRequested t explicit tool args risk at_ms) \<Rightarrow>
               scan_requested s w rid explicit (pending_from t tool args risk at_ms (we_timestamp e)) n
           | Domain (ApprovalResolved t explicit approved) \<Rightarrow> scan_resolved s w rid explicit t approved n
           | _ \<Rightarrow> Inr n))"

fun scan_events ::
  "'v json_full \<Rightarrow> 'v WorkGateway \<Rightarrow> string \<Rightarrow> string \<Rightarrow> 'v WorkEventEnvelope list \<Rightarrow> RunScan \<Rightarrow> string + RunScan" where
  "scan_events j s w rid [] n = Inr n"
| "scan_events j s w rid (e # es) n = res_bind (scan_event j s w rid e n) (scan_events j s w rid es)"

section \<open>One Run\<close>

definition context_conflict :: "('v, 'x) RecoverEnv_scheme \<Rightarrow> string \<Rightarrow> WorkProvenance \<Rightarrow> string \<Rightarrow> string option" where
  "context_conflict e rid p ctx =
     (if is_legacy p \<or> \<not> starts_with (dropWhile is_space ctx) ''{'' then None
      else case kr_parse e ctx of
        Inl err \<Rightarrow> Some (''Run '' @ quoted rid @ '' has corrupt provenance context: '' @ err)
      | Inr v \<Rightarrow>
          let j = kn_json e;
              field = (\<lambda>key expected. expected = None \<or> get_str j v key = expected)
          in if \<not> field ''automationId'' (wp_automation_id p) \<or> \<not> field ''revisionId'' (wp_revision_id p) \<or>
                \<not> field ''triggerOccurrenceId'' (wp_trigger_occurrence_id p) \<or>
                \<not> (wp_automation_generation p = None \<or> get_u64 j v ''automationGeneration'' = wp_automation_generation p)
             then Some (''Run '' @ quoted rid @ '' context provenance conflicts with Work'') else None)"

text \<open>The checks after the loop.\<close>

definition scan_error :: "'v json_full \<Rightarrow> 'v WorkGateway \<Rightarrow> string \<Rightarrow> string \<Rightarrow> RunScan \<Rightarrow> string option" where
  "scan_error j s w rid n =
     (case sn_resolution n of
        Some (t, _) \<Rightarrow>
          Some (''approval '' @ quoted t @ '' was resolved without a subsequent Run transition for '' @ quoted rid)
      | None \<Rightarrow>
          if \<not> sn_saw_event n then Some (''Run '' @ quoted rid @ '' has no durable lifecycle event'')
          else if \<not> sn_saw_start n \<and> (case sn_state n of None \<Rightarrow> False | Some p \<Rightarrow> phase_is_terminal p)
          then Some (''Run '' @ quoted rid @ '' has a terminal event without a durable start/queue event'')
          else (case sn_state n of
                  None \<Rightarrow> Some (''Run '' @ quoted rid @ '' has no recovered state'')
                | Some st \<Rightarrow>
                    if 1 < length (sn_pending n)
                    then Some (''Run '' @ quoted rid @ '' has multiple unresolved pending approvals'')
                    else if sn_pending n \<noteq> [] \<and> st \<noteq> EpWaitingApproval
                    then Some (''Run '' @ quoted rid @ '' has a pending approval outside WaitingApproval'')
                    else if length (pending_approvals_for_run j s w rid) \<noteq> length (sn_pending n)
                    then Some (''Run '' @ quoted rid @ '' pending-approval projection disagrees with the Work journal'')
                    else if phase_is_terminal st \<and> has_unresolved_uncertain_effect s w
                    then Some (''terminal Run '' @ quoted rid @ '' still has an unresolved uncertain effect'')
                    else None))"

definition uncertain_labels :: "'v WorkGateway \<Rightarrow> string \<Rightarrow> string list" where
  "uncertain_labels s w =
     map (\<lambda>x. w @ '':'' @ ep_effect_id x) (filter requires_reconciliation (effect_statuses s w))"

definition or_else :: "'a option \<Rightarrow> 'a option \<Rightarrow> 'a option" where
  "or_else a b = (case a of Some x \<Rightarrow> Some x | None \<Rightarrow> b)"

definition recovered_work ::
  "('v, 'x) RecoverEnv_scheme \<Rightarrow> 'v WorkGateway \<Rightarrow> WorkAddress \<Rightarrow> string \<Rightarrow> 'v strmap \<Rightarrow> string \<Rightarrow> string \<Rightarrow>
   ExecutionPhase \<Rightarrow> RunScan \<Rightarrow> 'v ExecWork" where
  "recovered_work e s a rid m session objective st n =
     (let j = kn_json e; str = (\<lambda>key. or_default [] (metadata_string j m key)) in
      (exec_work_new (kn_now e) rid (metadata_trigger j m a) session objective)
        \<lparr>xw_parent_id := or_else (metadata_string j m ''parentId'') (wa_parent_work_id a),
         xw_workspace := str ''workspace'', xw_plan := metadata_string j m ''plan'',
         xw_policy_snapshot := str ''policySnapshot'',
         xw_context_snapshot := metadata_value_as_string j m ''contextSnapshot'',
         xw_capability_scope := metadata_string_list j m ''capabilityScope'',
         xw_state := st, xw_checkpoint := sn_checkpoint n,
         xw_event_stream := (if sn_history n = [] then [phase_debug st] else sn_history n),
         xw_artifact_refs := metadata_string_list j m ''artifactRefs'', xw_approval_refs := sn_refs n,
         xw_pending_approval := (case sn_pending n of [] \<Rightarrow> None | (_, x) # _ \<Rightarrow> Some x),
         xw_verification := lookup m ''verification'',
         xw_receipt := recovered_receipt e s (wa_work_id a),
         xw_idempotency_key := or_default (''exec:'' @ rid) (metadata_string j m ''idempotencyKey''),
         xw_created_at_ms := (if sn_created_at n = 0 then kn_now e else sn_created_at n),
         xw_config_hash := str ''configHash'', xw_journal_sequence := sn_sequence n,
         xw_runtime_manifest := Option.bind (lookup m ''runtimeManifest'') (kr_manifest e)\<rparr>)"

definition recover_one_run ::
  "('v, 'x) RecoverEnv_scheme \<Rightarrow> 'v WorkGateway \<Rightarrow> WorkAddress \<Rightarrow> string \<Rightarrow> RecoveryReport \<Rightarrow>
   string + 'v ExecWork \<times> RecoveryReport" where
  "recover_one_run e s a rid report =
     (let j = kn_json e; w = wa_work_id a; es = events_of s w;
          m = or_default [] (run_metadata_of s w rid);
          session = or_default [] (or_else (metadata_string j m ''sessionId'') (wa_session_id a));
          objective = or_default [] (or_else (metadata_string j m ''objective'') (work_created_objective es))
      in case context_conflict e rid (wa_provenance a) (metadata_value_as_string j m ''contextSnapshot'') of
           Some err \<Rightarrow> Inl err
         | None \<Rightarrow>
             res_bind (scan_events j s w rid es (scan_new (metadata_string_list j m ''approvalRefs''))) (\<lambda>n.
               case scan_error j s w rid n of
                 Some err \<Rightarrow> Inl err
               | None \<Rightarrow>
                   Inr (recovered_work e s a rid m session objective (the (sn_state n)) n,
                        report\<lparr>rr_uncertain_effects := rr_uncertain_effects report @ uncertain_labels s w,
                               rr_legacy_works := rr_legacy_works report @
                                 (if is_legacy (wa_provenance a) then [w] else [])\<rparr>)))"

section \<open>Every Work\<close>

definition add_recovered :: "string \<Rightarrow> string \<Rightarrow> 'v ExecWork \<Rightarrow> 'v ExecutionKernel \<Rightarrow> 'v ExecutionKernel" where
  "add_recovered w rid x k =
     exec_alias w rid
       ((put_exec rid x k)\<lparr>xk_counter := max (xk_counter k) (parse_ex_counter rid)\<rparr>)"

fun recover_runs ::
  "('v, 'x) RecoverEnv_scheme \<Rightarrow> 'v WorkGateway \<Rightarrow> WorkAddress \<Rightarrow> string list \<Rightarrow>
   'v ExecutionKernel \<times> RecoveryReport \<Rightarrow> string + 'v ExecutionKernel \<times> RecoveryReport" where
  "recover_runs e s a [] acc = Inr acc"
| "recover_runs e s a (rid # runs) (k, report) =
     res_bind (recover_one_run e s a rid report) (\<lambda>(x, report').
       if exec_get k rid \<noteq> None then Inl (''duplicate recovered Run '' @ quoted rid)
       else recover_runs e s a runs (add_recovered (wa_work_id a) rid x k, report'))"

definition recover_work ::
  "('v, 'x) RecoverEnv_scheme \<Rightarrow> 'v WorkGateway \<Rightarrow> WorkAddress \<Rightarrow>
   'v ExecutionKernel \<times> RecoveryReport \<Rightarrow> string + 'v ExecutionKernel \<times> RecoveryReport" where
  "recover_work e s a = (\<lambda>(k, report).
     let w = wa_work_id a in
     if length (filter (\<lambda>x. is_creation (we_event x)) (events_of s w)) \<noteq> 1
     then Inl (''Work '' @ quoted w @ '' must have exactly one WorkCreated event'')
     else if run_ids_of s w = []
     then (if (case Option.bind (lookup (gw_presence s) w) pr_work_state of
                 None \<Rightarrow> False | Some st \<Rightarrow> work_is_terminal st)
           then Inl (''terminal Work '' @ quoted w @ '' has no durable Run'')
           else Inr (k, if is_legacy (wa_provenance a)
                        then report\<lparr>rr_legacy_works := rr_legacy_works report @ [w]\<rparr> else report))
     else recover_runs e s a (run_ids_of s w) (k, report))"

fun recover_works ::
  "('v, 'x) RecoverEnv_scheme \<Rightarrow> 'v WorkGateway \<Rightarrow> WorkAddress list \<Rightarrow>
   'v ExecutionKernel \<times> RecoveryReport \<Rightarrow> string + 'v ExecutionKernel \<times> RecoveryReport" where
  "recover_works e s [] acc = Inr acc"
| "recover_works e s (a # as) acc = res_bind (recover_work e s a acc) (recover_works e s as)"

definition list_work :: "'v WorkGateway \<Rightarrow> WorkAddress list" where
  "list_work s = map snd (gw_works s)"

text \<open>The current Run of a Work is recovered and agrees with the presence of the Work.\<close>

definition current_run_error :: "'v WorkGateway \<Rightarrow> 'v ExecutionKernel \<Rightarrow> WorkAddress \<Rightarrow> string option" where
  "current_run_error s k a =
     (let w = wa_work_id a in
      case execution_id s w of
        None \<Rightarrow> None
      | Some rid \<Rightarrow>
          (case exec_get k rid of
             None \<Rightarrow> Some (''Work '' @ quoted w @ '' points at missing Run '' @ quoted rid)
           | Some x \<Rightarrow>
               (case Option.bind (lookup (gw_presence s) w) pr_work_state of
                  None \<Rightarrow> None
                | Some st \<Rightarrow>
                    if from_work_state st \<noteq> xw_state x
                    then Some (''Work '' @ quoted w @ '' presence state disagrees with Run '' @ quoted rid)
                    else None)))"

definition binding_refusal :: "WorkAddress \<Rightarrow> AgentBinding \<Rightarrow> string option" where
  "binding_refusal a b =
     (if ab_work_id b \<noteq> wa_work_id a \<or> Some (ab_session_id b) \<noteq> wa_session_id a
      then Some (''binding '' @ quoted (ab_binding_id b) @ '' ownership does not match Work '' @ quoted (wa_work_id a))
      else if ab_state b = BlActive \<and> ab_provider_session_id b = None
      then Some (''active binding '' @ quoted (ab_binding_id b) @ '' has no provider-session reference'')
      else None)"

definition validate_recovered_bindings :: "'v WorkGateway \<Rightarrow> string + unit" where
  "validate_recovered_bindings s =
     first_problem (\<lambda>(a, b). binding_refusal a b)
       (concat (map (\<lambda>a. map (\<lambda>b. (a, b)) (bindings_for s (wa_work_id a))) (list_work s)))"

definition recover_with_report ::
  "('v, 'x) RecoverEnv_scheme \<Rightarrow> 'v WorkGateway \<Rightarrow> string + 'v ExecutionKernel \<times> RecoveryReport" where
  "recover_with_report e s =
     res_bind (recover_works e s (list_work s) (kernel_new, report_new)) (\<lambda>(k, report).
     res_bind (first_problem (current_run_error s k) (list_work s)) (\<lambda>_.
     res_bind (validate_recovered_bindings s) (\<lambda>_.
     res_bind (kernel_validate k) (\<lambda>_. Inr (k, report)))))"

definition recover_from_work_gateway :: "('v, 'x) RecoverEnv_scheme \<Rightarrow> 'v WorkGateway \<Rightarrow> string + 'v ExecutionKernel" where
  "recover_from_work_gateway e s = res_bind (recover_with_report e s) (\<lambda>(k, _). Inr k)"

definition recover_from_work_journal ::
  "('v, 'x) RecoverEnv_scheme \<Rightarrow> 'v GwEnv \<Rightarrow> 'v JournalText list \<Rightarrow> string + 'v ExecutionKernel" where
  "recover_from_work_journal e E lines = res_bind (open_journal E lines) (recover_from_work_gateway e)"

text \<open>\<open>None\<close>: no checkpoint path was given. A path with no file is not read.\<close>

definition recover_with_checkpoint ::
  "('v, 'x) RecoverEnv_scheme \<Rightarrow> 'v WorkGateway \<Rightarrow> 'v CheckpointFile option \<Rightarrow> string + 'v ExecutionKernel" where
  "recover_with_checkpoint e s checkpoint =
     res_bind (recover_with_report e s) (\<lambda>(k, _).
       case checkpoint of
         None \<Rightarrow> Inr k
       | Some NoCheckpoint \<Rightarrow> Inr k
       | Some file \<Rightarrow>
           res_bind (recover_from file) (\<lambda>cached.
           res_bind (validate_checkpoint_cache k cached) (\<lambda>_. Inr k)))"

end
