(* ===== verification/Exec_Journal.thy ===== *)
theory Exec_Journal
  imports Exec_Recover Exec_Laws Work_Replay Work_Opening
begin

text \<open>
  What recovery rebuilds. In a gateway just opened from its journal the state of a Run is the one its
  last lifecycle event gives (\<open>last_run_state\<close>); the walk over the events reaches the same state along
  legal transitions; so the rebuilt kernel agrees with the gateway, is well-formed and has counted every
  id it holds.
\<close>

section \<open>The Run states of an opened journal\<close>

definition run_fact :: "string \<Rightarrow> 'v WorkEventEnvelope \<Rightarrow> WorkState option \<Rightarrow> WorkState option" where
  "run_fact r e acc =
     (case run_event_state (we_event e) of Some (r', st) \<Rightarrow> if r' = r then Some st else acc | None \<Rightarrow> acc)"

definition last_run_state :: "'v WorkEventEnvelope list \<Rightarrow> string \<Rightarrow> WorkState option" where
  "last_run_state es r = fold (run_fact r) es None"

abbreviation same_runs :: "'v WorkGateway \<Rightarrow> 'v WorkGateway \<Rightarrow> bool" where
  "same_runs s t \<equiv> gw_run_states t = gw_run_states s"

lemma runs_puts [simp]:
  "gw_run_states (put_address w a s) = gw_run_states s" "gw_run_states (remove_work w s) = gw_run_states s"
  "gw_run_states (put_presence w p s) = gw_run_states s" "gw_run_states (put_metadata w r m s) = gw_run_states s"
  "gw_run_states (put_effect w x y s) = gw_run_states s" "gw_run_states (ensure_effects w s) = gw_run_states s"
  "gw_run_states (put_pending w x v s) = gw_run_states s" "gw_run_states (ensure_pending w s) = gw_run_states s"
  "gw_run_states (drop_pending w x s) = gw_run_states s" "gw_run_states (mark_review x v' s) = gw_run_states s"
  "gw_run_states (put_change_set c s) = gw_run_states s" "gw_run_states (count_refusal w rf s) = gw_run_states s"
  "gw_run_states (beat child n s) = gw_run_states s" "gw_run_states (put_binding i b s) = gw_run_states s"
  "gw_run_states (note_run_reference w r s) = gw_run_states s"
  "gw_run_states (project_presence w r st wait s) = gw_run_states s"
  "gw_run_states (replay_review_requested w i s) = gw_run_states s"
  "gw_run_states (attach_presence w i s) = gw_run_states s" "gw_run_states (detach_presence w i s) = gw_run_states s"
  "gw_run_states (set_address_binding w bi s) = gw_run_states s" "gw_run_states (push_event ev s) = gw_run_states s"
  by (simp_all add: put_address_def remove_work_def put_presence_def put_metadata_def put_effect_def
      ensure_effects_def put_pending_def ensure_pending_def drop_pending_def mark_review_def put_change_set_def
      count_refusal_def beat_def put_binding_def note_run_reference_def project_presence_def
      replay_review_requested_def attach_presence_def detach_presence_def set_address_binding_def push_event_def
      Let_def split: option.split)

lemma runs_bind:
  assumes "same_runs s (snd (m s))" and "\<And>x s'. m s = (Inr x, s') \<Longrightarrow> same_runs s' (snd (f x s'))"
  shows "same_runs s (snd (gw_bind m f s))"
  using assms by (cases "m s"; cases "fst (m s)") auto

lemma runs_then:
  assumes "same_runs s (snd (m s))" and "\<And>x s'. m s = (Inr x, s') \<Longrightarrow> same_runs s' (snd (n s'))"
  shows "same_runs s (snd (gw_then m n s))"
  unfolding gw_then_def using assms by (rule runs_bind)

lemma runs_update: "same_runs s (snd (apply_work_update j w patch s))"
proof -
  have 1: "same_runs s (snd (update_execution j w patch a s))" for a s
    by (simp add: update_execution_def split: option.split)
  have 2: "same_runs s (snd (update_run j w patch s))" for s
    by (simp add: update_run_def Let_def split: option.split prod.split)
  have 3: "same_runs s (store_update j w patch a s)" for a s
    by (simp add: store_update_def)
  show ?thesis
    by (auto simp: apply_work_update_def 3 intro!: runs_bind runs_then 1 2 split: option.split)
qed

lemma runs_created: "same_runs s (snd (replay_created E w c s))"
  by (simp add: replay_created_def Let_def split: sum.split option.split)

lemma runs_approvals:
  "same_runs s (snd (replay_approval_requested j w t rn tool args risk at_ms s))"
  "same_runs s (snd (replay_approval_resolved j w t rn approved s))"
  by (simp_all add: replay_approval_requested_def replay_approval_resolved_def Let_def split: sum.split option.split)

lemma runs_effects:
  "same_runs s (apply_effect_attempt w e g c sq s)" "same_runs s (snd (apply_effect_observed w e outc sq s))"
  "same_runs s (snd (apply_effect_verified w e ok sq s))" "same_runs s (snd (apply_effect_uncertain w e rs c sq s))"
  "same_runs s (snd (apply_effect_reconciled w e outc safe sq s))"
  by (simp_all add: apply_effect_attempt_def apply_effect_observed_def apply_effect_verified_def
      apply_effect_uncertain_def apply_effect_reconciled_def Let_def split: option.split)

lemma runs_project: "same_runs s (snd (project_p69g2_event E w sq ev rec s))"
  unfolding project_p69g2_event_def
  by (rule runs_then) (auto simp: apply_lease_fact_def split: WorkEvent.split DomainEvent.split sum.split prod.split)

lemma runs_bindings:
  "same_runs s (snd (replay_binding_created w sq b s))" "same_runs s (snd (replay_binding_active w sq i sid s))"
  "same_runs s (snd (replay_binding_suspended w sq i s))" "same_runs s (snd (replay_binding_usage w sq i u s))"
  by (simp_all add: replay_binding_created_def replay_binding_active_def replay_binding_suspended_def
      replay_binding_usage_def Let_def split: sum.split)

lemma run_state_cong: "same_runs s t \<Longrightarrow> run_state t w r = run_state s w r"
  by (simp add: run_state_def)

lemma replay_run_state:
  "replay_run E w r st wait s = (Inr x, t) \<Longrightarrow>
   run_state t w' r' = (if w' = w \<and> r' = r then Some st else run_state s w' r')"
  by (auto simp: replay_run_eq set_run_state_ok run_state_def put_run_state_def project_presence_def put_presence_def
      note_run_reference_def put_address_def Let_def split: option.split)

lemma replay_checkpointed_state:
  assumes "replay_checkpointed E w r n s = (Inr x, t)"
  shows "run_state t w' r' = (if w' = w \<and> r' = r then Some WsCheckpointed else run_state s w' r')"
proof -
  from assms obtain y u where "replay_run E w r WsCheckpointed None s = (Inr y, u)" "same_runs u t"
    by (auto simp: replay_checkpointed_def gw_then_apply gw_bind_ok Let_def)
  with replay_run_state [of E w r WsCheckpointed None s y u w' r'] show ?thesis
    by (simp add: run_state_def)
qed

lemma replay_domain_other:
  "run_event_state (Domain d) = None \<Longrightarrow> same_runs s (snd (replay_domain E w sq d s))"
  by (cases d) (simp_all add: replay_domain_def run_event_state_def runs_update runs_created runs_approvals
      runs_effects runs_project Let_def split: option.splits)

lemma replay_domain_run:
  assumes "run_event_state (Domain d) = Some (r, st)" "replay_domain E w sq d s = (Inr x, t)"
  shows "run_state t w' r' = (if w' = w \<and> r' = r then Some st else run_state s w' r')"
proof (cases "\<exists>n. d = RunCheckpointed r n")
  case True
  with assms obtain n where "replay_checkpointed E w r n s = (Inr x, t)" "st = WsCheckpointed"
    by (auto simp: replay_domain_def run_event_state_def)
  with replay_checkpointed_state [OF this(1), of w' r'] show ?thesis by simp
next
  case False
  with assms obtain wait where "replay_run E w r st wait s = (Inr x, t)"
    by (cases d) (auto simp: replay_domain_def run_event_state_def Let_def)
  then show ?thesis by (rule replay_run_state)
qed

lemma replay_event_state:
  assumes "replay_event E e s = (Inr x, t)"
  shows "run_state t w r = (if w = we_work_id e then run_fact r e (run_state s w r) else run_state s w r)"
proof (cases "we_event e")
  case (Domain d)
  with assms have "replay_domain E (we_work_id e) (we_sequence e) d s = (Inr x, t)"
    by (simp add: replay_event_def Let_def split: if_splits)
  then show ?thesis
    using Domain replay_domain_other [of d E "we_work_id e" "we_sequence e" s]
      replay_domain_run [of d _ _ E "we_work_id e" "we_sequence e" s x t w r]
    by (cases "run_event_state (Domain d)") (auto simp: run_fact_def run_state_def)
next
  case (Operational op)
  then have "same_runs s t"
    using assms by (cases op) (auto simp: replay_event_def Let_def split: if_splits)
  with Operational show ?thesis by (simp add: run_state_def run_fact_def run_event_state_def)
next
  case (Presence p)
  with assms have "t = s" by (auto simp: replay_event_def Let_def split: if_splits)
  with Presence show ?thesis by (simp add: run_fact_def run_event_state_def)
next
  case (Runtime rt)
  have "same_runs s (snd (replay_event E e s))"
    using Runtime by (cases rt) (simp_all add: replay_event_def Let_def runs_bindings)
  with assms Runtime show ?thesis by (simp add: run_state_def run_fact_def run_event_state_def)
qed

text \<open>The loading loop keeps the two views of a Run's state equal.\<close>

definition runs_logged :: "'v WorkGateway \<Rightarrow> bool" where
  "runs_logged s \<longleftrightarrow> (\<forall>w r. run_state s w r = last_run_state (events_of s w) r)"

lemma runs_logged_new: "runs_logged (gateway_new\<lparr>gw_journal := l\<rparr>)"
  by (simp add: runs_logged_def gateway_new_def run_state_def events_of_def last_run_state_def)

lemma open_step_logged:
  assumes "open_step E e seen s = (Inr seen', t)" "runs_logged s"
  shows "runs_logged t"
proof -
  let ?e = "line_of e" let ?s = "numbered_for (we_sequence e) s"
  from assms(1) have replay: "replay_event E ?e (push_event ?e ?s) = (Inr (), t)"
    by (simp add: open_step_iff)
  have same: "gw_run_states ?s = gw_run_states s" "gw_events ?s = gw_events s"
    by (simp_all add: numbered_for_def)
  have events: "gw_events t = gw_events (push_event ?e ?s)"
    using replays_event [of "push_event ?e ?s" E ?e] replay by (simp add: replays_def)
  have "run_state t w r = last_run_state (events_of t w) r" for w r
    using assms(2) replay_event_state [OF replay, of w r] events same
    by (auto simp: runs_logged_def events_of_def push_event_def last_run_state_def run_state_def)
  then show ?thesis by (simp add: runs_logged_def)
qed

lemma open_loop_logged: "open_loop E es seen s = Inr t \<Longrightarrow> runs_logged s \<Longrightarrow> runs_logged t"
  by (induction es arbitrary: seen s) (auto split: prod.splits sum.splits dest: open_step_logged)

lemma opened_runs_logged: "open_journal E lines = Inr s \<Longrightarrow> runs_logged s"
  by (erule open_journal_parts) (rule open_loop_logged [OF _ runs_logged_new])

section \<open>The walk over the events\<close>

text \<open>The lifecycle facts of the walk, as the gateway names them.\<close>

lemma event_phase_fact:
  assumes "event_run_id ev = Some r" "event_phase rid ev = Inr p"
  shows "\<exists>st. run_event_state ev = Some (r, st) \<and> p = Some (from_work_state st)"
proof (cases ev)
  case (Domain d)
  with assms show ?thesis
    by (cases d) (auto simp: event_run_id_def event_phase_def run_event_state_def split: option.splits)
qed (use assms in \<open>simp_all add: event_run_id_def\<close>)

lemma no_run_fact: "event_run_id ev = None \<Longrightarrow> run_event_state ev = None"
  by (auto simp: event_run_id_def run_event_state_def split: WorkEvent.splits DomainEvent.splits)

lemma other_run_fact: "event_run_id ev = Some r \<Longrightarrow> run_event_state ev = Some (r', st) \<Longrightarrow> r' = r"
  by (auto simp: event_run_id_def run_event_state_def split: WorkEvent.splits DomainEvent.splits option.splits)

text \<open>The walk's state is the phase \<open>acc\<close>, reached by legal transitions; what it holds pending is among
  the references.\<close>

definition walked :: "ExecutionPhase list \<Rightarrow> RunScan \<Rightarrow> bool" where
  "walked ps n \<longleftrightarrow>
     sn_history n = map phase_debug ps \<and> successively phase_transition_legal ps \<and>
     sn_state n = (if ps = [] then None else Some (last ps))"

definition refs_cover :: "PendingApproval strmap \<Rightarrow> string list \<Rightarrow> bool" where
  "refs_cover pend refs \<longleftrightarrow> (\<forall>(t, a) \<in> set pend. pn_ticket_id a = t \<and> t \<in> set refs)"

definition scan_ok :: "WorkState option \<Rightarrow> RunScan \<Rightarrow> bool" where
  "scan_ok acc n \<longleftrightarrow>
     sn_state n = map_option from_work_state acc \<and> (\<exists>ps. walked ps n) \<and> refs_cover (sn_pending n) (sn_refs n)"

lemma refs_cover_insert:
  "refs_cover pend refs \<Longrightarrow>
   refs_cover (bt_insert (pn_ticket_id a) a pend)
     (if pn_ticket_id a \<in> set refs then refs else refs @ [pn_ticket_id a])"
  using set_bt_insert [of "pn_ticket_id a" a pend] by (auto simp: refs_cover_def)

lemma refs_cover_remove: "refs_cover pend refs \<Longrightarrow> refs_cover (bt_remove t pend) refs"
  by (auto simp: refs_cover_def dest: set_delete_mem)

lemma scan_ok_new: "scan_ok None (scan_new refs)"
  by (auto simp: scan_ok_def scan_new_def walked_def refs_cover_def intro: exI [of _ "[]"])

lemma walked_cong: "sn_history n' = sn_history n \<Longrightarrow> sn_state n' = sn_state n \<Longrightarrow> walked ps n' = walked ps n"
  by (simp add: walked_def)

lemma scan_ok_pending:
  assumes "scan_ok acc n" "refs_cover (sn_pending n') (sn_refs n')"
    "sn_history n' = sn_history n" "sn_state n' = sn_state n"
  shows "scan_ok acc n'"
  using assms by (simp add: scan_ok_def walked_cong [OF assms(3,4)])

lemma scan_ok_frame:
  "scan_ok acc n \<Longrightarrow> sn_state n' = sn_state n \<Longrightarrow> sn_history n' = sn_history n \<Longrightarrow>
   sn_pending n' = sn_pending n \<Longrightarrow> sn_refs n' = sn_refs n \<Longrightarrow> scan_ok acc n'"
  by (rule scan_ok_pending) (auto simp: scan_ok_def)

lemma scan_ok_note: "scan_ok acc n \<Longrightarrow> scan_ok acc (note_envelope j e n)"
  by (erule scan_ok_frame) (simp_all add: note_envelope_def)

lemma scan_ok_enter:
  assumes "enter_scan rid (from_work_state st) n = Inr n'" "scan_ok acc n"
  shows "scan_ok (Some st) n'"
proof -
  let ?q = "from_work_state st"
  from assms(2) obtain ps where ps: "sn_history n = map phase_debug ps" "successively phase_transition_legal ps"
    "sn_state n = (if ps = [] then None else Some (last ps))"
    by (auto simp: scan_ok_def walked_def)
  from assms(1) have n': "n' = n\<lparr>sn_resolution := None, sn_state := Some ?q, sn_history := sn_history n @ [phase_debug ?q]\<rparr>"
    and "illegal_step rid ?q n = None"
    by (auto simp: enter_scan_def split: option.splits)
  then have "ps = [] \<or> phase_transition_legal (last ps) ?q"
    using ps(3) by (auto simp: illegal_step_def phase_transition_legal_def split: if_splits)
  with ps(2) have "successively phase_transition_legal (ps @ [?q])"
    by (rule phases.path_extend)
  then show ?thesis
    using assms(2) ps(1) by (auto simp: scan_ok_def walked_def n' intro!: exI [of _ "ps @ [?q]"])
qed

lemma scan_ok_lifecycle:
  assumes "scan_lifecycle rid ev n = Inr n'" "event_run_id ev = Some rid" "scan_ok acc n"
  shows "\<exists>st. run_event_state ev = Some (rid, st) \<and> scan_ok (Some st) n'"
proof -
  from assms(1) obtain p where p: "event_phase rid ev = Inr p"
    by (auto simp: scan_lifecycle_def Let_def res_bind_Inr)
  from event_phase_fact [OF assms(2) p] obtain st where st: "run_event_state ev = Some (rid, st)"
    "p = Some (from_work_state st)" by auto
  have frame: "scan_ok acc (n\<lparr>sn_saw_event := x, sn_saw_start := y, sn_checkpoint := c\<rparr>)" for x y c
    using assms(3) by (rule scan_ok_frame) simp_all
  show ?thesis
    using assms(1) p st by (auto simp: scan_lifecycle_def Let_def intro: scan_ok_enter [OF _ frame])
qed

lemma scan_ok_requested:
  assumes "scan_requested s w rid ex a n = Inr n'" "scan_ok acc n" shows "scan_ok acc n'"
proof -
  have "n' = n \<or> n' = n\<lparr>sn_pending := bt_insert (pn_ticket_id a) a (sn_pending n),
      sn_refs := (if pn_ticket_id a \<in> set (sn_refs n) then sn_refs n else sn_refs n @ [pn_ticket_id a])\<rparr>"
    using assms(1) by (auto simp: scan_requested_def Let_def split: option.splits if_splits)
  then show ?thesis
    using assms(2) refs_cover_insert [of "sn_pending n" "sn_refs n" a]
    by (elim disjE; intro scan_ok_pending [OF assms(2)]) (simp_all add: scan_ok_def)
qed

lemma scan_ok_resolved:
  assumes "scan_resolved s w rid ex t ok n = Inr n'" "scan_ok acc n" shows "scan_ok acc n'"
proof -
  have "n' = n \<or> n' = n\<lparr>sn_pending := bt_remove t (sn_pending n),
      sn_resolution := Some (t, if ok then EpRunning else EpFailed)\<rparr>"
    using assms(1) by (auto simp: scan_resolved_def split: option.splits if_splits)
  then show ?thesis
    using assms(2) refs_cover_remove [of "sn_pending n" "sn_refs n" t]
    by (elim disjE; intro scan_ok_pending [OF assms(2)]) (simp_all add: scan_ok_def)
qed

lemma scan_ok_event:
  assumes "scan_event j s w rid e n = Inr n'" "scan_ok acc n"
  shows "scan_ok (run_fact rid e acc) n'"
proof (cases "event_run_id (we_event e)")
  case None
  then have same: "run_fact rid e acc = acc" by (simp add: run_fact_def no_run_fact)
  have noted: "scan_ok acc (note_envelope j e n)" using assms(2) by (rule scan_ok_note)
  show ?thesis
    unfolding same using assms(1) None noted
    by (auto simp: scan_event_def Let_def split: WorkEvent.splits DomainEvent.splits
        intro: scan_ok_requested scan_ok_resolved)
next
  case (Some r)
  show ?thesis
  proof (cases "r = rid")
    case True
    with Some assms have "scan_lifecycle rid (we_event e) (note_envelope j e n) = Inr n'"
      "scan_ok acc (note_envelope j e n)" by (simp_all add: scan_event_def Let_def scan_ok_note)
    from scan_ok_lifecycle [OF this(1) _ this(2)] True Some show ?thesis
      by (auto simp: run_fact_def)
  next
    case False
    with Some assms(1) have "n' = note_envelope j e n" by (simp add: scan_event_def Let_def)
    moreover have "run_fact rid e acc = acc"
      using False other_run_fact [OF Some] by (auto simp: run_fact_def split: option.splits)
    ultimately show ?thesis using assms(2) by (simp add: scan_ok_note)
  qed
qed

lemma scan_ok_events:
  "scan_events j s w rid es n = Inr n' \<Longrightarrow> scan_ok acc n \<Longrightarrow> scan_ok (fold (run_fact rid) es acc) n'"
proof (induction es arbitrary: n acc)
  case (Cons e es)
  then obtain n1 where "scan_event j s w rid e n = Inr n1" "scan_events j s w rid es n1 = Inr n'"
    by (auto simp: res_bind_Inr)
  with Cons.IH scan_ok_event Cons.prems(2) show ?case by fastforce
qed simp

section \<open>One recovered record\<close>

lemma recover_one_run_ok:
  assumes "recover_one_run e s a rid rep = Inr (x, rep')"
  shows "\<exists>st n. last_run_state (events_of s (wa_work_id a)) rid = Some st \<and> xw_state x = from_work_state st \<and>
     scan_ok (Some st) n \<and> scan_error (kn_json e) s (wa_work_id a) rid n = None \<and>
     (\<exists>m session objective. x = recovered_work e s a rid m session objective (from_work_state st) n)"
proof -
  let ?w = "wa_work_id a"
  from assms obtain n refs m session objective where
      scan: "scan_events (kn_json e) s ?w rid (events_of s ?w) (scan_new refs) = Inr n"
      and err: "scan_error (kn_json e) s ?w rid n = None"
      and x: "x = recovered_work e s a rid m session objective (the (sn_state n)) n"
    by (auto simp: recover_one_run_def Let_def res_bind_Inr split: option.splits)
  from scan_ok_events [OF scan scan_ok_new] have ok: "scan_ok (last_run_state (events_of s ?w) rid) n"
    by (simp add: last_run_state_def)
  from err obtain p where p: "sn_state n = Some p"
    by (auto simp: scan_error_def split: option.splits if_splits)
  with ok obtain st where st: "last_run_state (events_of s ?w) rid = Some st" "p = from_work_state st"
    by (cases "last_run_state (events_of s ?w) rid") (auto simp: scan_ok_def)
  have "xw_state x = from_work_state st"
    using x p st(2) by (simp add: recovered_work_def Let_def exec_work_new_def)
  with ok err x p st show ?thesis by auto
qed

lemma recovered_work_fields [simp]:
  "xw_id (recovered_work e s a rid m ss ob st n) = rid"
  "xw_state (recovered_work e s a rid m ss ob st n) = st"
  "xw_approval_refs (recovered_work e s a rid m ss ob st n) = sn_refs n"
  "xw_event_stream (recovered_work e s a rid m ss ob st n) = (if sn_history n = [] then [phase_debug st] else sn_history n)"
  "xw_pending_approval (recovered_work e s a rid m ss ob st n) =
     (case sn_pending n of [] \<Rightarrow> None | (_, x) # _ \<Rightarrow> Some x)"
  "xw_receipt (recovered_work e s a rid m ss ob st n) = recovered_receipt e s (wa_work_id a)"
  "xw_checkpoint (recovered_work e s a rid m ss ob st n) = sn_checkpoint n"
  by (simp_all add: recovered_work_def Let_def exec_work_new_def)

lemma scan_error_pending:
  assumes "scan_error j s w rid n = None" "sn_pending n \<noteq> []"
  shows "sn_state n = Some EpWaitingApproval \<and> length (sn_pending n) = 1 \<and>
    length (pending_approvals_for_run j s w rid) = 1"
  using assms by (cases "sn_pending n"; cases "tl (sn_pending n)")
    (auto simp: scan_error_def split: option.splits if_splits)

lemma recovered_work_ok:
  assumes "scan_ok (Some st) n" "scan_error j s w rid n = None"
  shows "exec_work_ok rid (recovered_work e s a rid m ss ob (from_work_state st) n)"
proof -
  let ?x = "recovered_work e s a rid m ss ob (from_work_state st) n"
  from assms(1) obtain ps where ps: "sn_history n = map phase_debug ps" "successively phase_transition_legal ps"
    "ps \<noteq> []" "last ps = from_work_state st"
    by (auto simp: scan_ok_def walked_def split: if_splits)
  then have "legal_history ?x ps" by (simp add: legal_history_def)
  moreover have "from_work_state st = EpWaitingApproval \<and> pn_ticket_id p \<in> set (sn_refs n)"
    if "xw_pending_approval ?x = Some p" for p
    using that assms(1) scan_error_pending [OF assms(2)]
    by (cases "sn_pending n") (auto simp: scan_ok_def refs_cover_def)
  ultimately show ?thesis by (auto simp: exec_work_ok_def)
qed

section \<open>The rebuilt kernel\<close>

text \<open>Every record of \<open>k\<close> was recovered from the journal of its Run.\<close>

definition recovered_as :: "('v, 'x) RecoverEnv_scheme \<Rightarrow> 'v WorkGateway \<Rightarrow> string \<Rightarrow> 'v ExecWork \<Rightarrow> bool" where
  "recovered_as e s rid x \<longleftrightarrow>
     (\<exists>a rep rep'. a \<in> set (list_work s) \<and> rid \<in> set (run_ids_of s (wa_work_id a)) \<and>
        recover_one_run e s a rid rep = Inr (x, rep'))"

definition kernel_from :: "('v, 'x) RecoverEnv_scheme \<Rightarrow> 'v WorkGateway \<Rightarrow> 'v ExecutionKernel \<Rightarrow> bool" where
  "kernel_from e s k \<longleftrightarrow>
     (\<forall>i x. exec_get k i = Some x \<longrightarrow> recovered_as e s i x) \<and> counted_ids k \<and> bt_sorted (xk_executions k)"

lemma kernel_from_new: "kernel_from e s kernel_new"
  by (simp add: kernel_from_def counted_new) (simp add: kernel_new_def)

lemma kernel_from_add:
  assumes "kernel_from e s k" "recovered_as e s rid x"
  shows "kernel_from e s (add_recovered w rid x k)"
proof -
  have "exec_get (add_recovered w rid x k) i = (if i = rid then Some x else exec_get k i)" for i
    by (simp add: add_recovered_def)
  moreover have "bt_sorted (xk_executions (add_recovered w rid x k))"
    using assms(1) by (simp add: kernel_from_def add_recovered_def exec_alias_def put_exec_def)
  moreover have "counted_ids (add_recovered w rid x k)"
    using assms(1) by (auto simp: kernel_from_def counted_ids_def add_recovered_def exec_alias_def)
  ultimately show ?thesis using assms by (auto simp: kernel_from_def)
qed

lemma recover_runs_from:
  "recover_runs e s a rids (k, rep) = Inr (k', rep') \<Longrightarrow> a \<in> set (list_work s) \<Longrightarrow>
   set rids \<subseteq> set (run_ids_of s (wa_work_id a)) \<Longrightarrow> kernel_from e s k \<Longrightarrow>
   kernel_from e s k' \<and> (\<forall>i \<in> set rids. exec_get k' i \<noteq> None) \<and> (\<forall>i. exec_get k i \<noteq> None \<longrightarrow> exec_get k' i \<noteq> None)"
proof (induction rids arbitrary: k rep)
  case (Cons r rids)
  then obtain x rep1 where one: "recover_one_run e s a r rep = Inr (x, rep1)" "exec_get k r = None"
    and rest: "recover_runs e s a rids (add_recovered (wa_work_id a) r x k, rep1) = Inr (k', rep')"
    by (auto simp: res_bind_Inr split: if_splits)
  have "recovered_as e s r x" using one Cons.prems by (auto simp: recovered_as_def)
  with Cons.prems have "kernel_from e s (add_recovered (wa_work_id a) r x k)" by (intro kernel_from_add)
  with Cons.IH [OF rest] Cons.prems show ?case by (auto simp: add_recovered_def)
qed simp

lemma recover_work_from:
  assumes "recover_work e s a (k, rep) = Inr (k', rep')" "a \<in> set (list_work s)" "kernel_from e s k"
  shows "kernel_from e s k' \<and> (\<forall>i \<in> set (run_ids_of s (wa_work_id a)). exec_get k' i \<noteq> None) \<and>
    (\<forall>i. exec_get k i \<noteq> None \<longrightarrow> exec_get k' i \<noteq> None)"
  using assms recover_runs_from [of e s a "run_ids_of s (wa_work_id a)" k rep k' rep']
  by (auto simp: recover_work_def Let_def split: if_splits)

lemma recover_works_from:
  "recover_works e s as (k, rep) = Inr (k', rep') \<Longrightarrow> set as \<subseteq> set (list_work s) \<Longrightarrow> kernel_from e s k \<Longrightarrow>
   kernel_from e s k' \<and> (\<forall>a \<in> set as. \<forall>i \<in> set (run_ids_of s (wa_work_id a)). exec_get k' i \<noteq> None) \<and>
   (\<forall>i. exec_get k i \<noteq> None \<longrightarrow> exec_get k' i \<noteq> None)"
proof (induction as arbitrary: k rep)
  case (Cons a as)
  then obtain k1 rep1 where one: "recover_work e s a (k, rep) = Inr (k1, rep1)"
    and rest: "recover_works e s as (k1, rep1) = Inr (k', rep')"
    by (auto simp: res_bind_Inr)
  have "a \<in> set (list_work s)" using Cons.prems(2) by simp
  note step = recover_work_from [OF one this Cons.prems(3)]
  with Cons.IH [OF rest] Cons.prems(2) show ?case by auto
qed simp

lemma recover_with_report_from:
  assumes "recover_with_report e s = Inr (k, rep)"
  shows "kernel_from e s k" "a \<in> set (list_work s) \<Longrightarrow> i \<in> set (run_ids_of s (wa_work_id a)) \<Longrightarrow> exec_get k i \<noteq> None"
    "kernel_validate k = Inr ()"
  using assms recover_works_from [of e s "list_work s" kernel_new report_new k rep] kernel_from_new [of e s]
  by (auto simp: recover_with_report_def res_bind_Inr)

lemma recovered_kernel_ok:
  assumes "kernel_from e s k" shows "kernel_ok k"
proof -
  have "exec_work_ok i x" if "recovered_as e s i x" for i x
  proof -
    from that obtain a rep rep' where "recover_one_run e s a i rep = Inr (x, rep')"
      by (auto simp: recovered_as_def)
    from recover_one_run_ok [OF this] recovered_work_ok show ?thesis by blast
  qed
  with assms show ?thesis by (auto simp: kernel_ok_def kernel_from_def)
qed

end
