(* ===== verification/Exec_Runs.thy ===== *)
theory Exec_Runs
  imports Cua_Laws Exec_Journal
begin

text \<open>
  What holds of runs of calls: the stored computer-use graphs, the counter of ids, and the preflight.
\<close>

section \<open>Stored graphs\<close>

definition dags_legal :: "CuaDisk \<Rightarrow> bool" where
  "dags_legal s \<longleftrightarrow> (\<forall>dir d. lookup (cd_dags s) dir = Some d \<longrightarrow> dag_legal d)"

lemma disk_step_legal: "disk_step e w p s s' \<Longrightarrow> dags_legal s \<Longrightarrow> dags_legal s'"
proof (induction rule: disk_step.induct)
  case (disk_write s dir d q d' s')
  then have "dag_legal d'" using step_legal by (auto simp: dags_legal_def)
  with disk_write show ?case by (auto simp: dags_legal_def update_conv')
qed (auto simp: dags_legal_def update_conv')

interpretation stored_dags: step_invariant "\<lambda>s s'. \<exists>w p. disk_step e w p s s'" dags_legal for e
  by unfold_locales (auto intro: disk_step_legal)

lemma run_dags_legal: "dags_legal (eh_disk h) \<Longrightarrow> dags_legal (eh_disk (exec_run calls h))"
proof (induction calls h rule: exec_run.induct)
  case (2 e meth params calls h)
  have "dags_legal (eh_disk (snd (exec_handle e meth params h)))"
    by (rule disk_step_legal [OF handle_disk 2(2)])
  with 2(1) show ?case by simp
qed simp

lemma disk_step_verified:
  assumes "disk_step e False p s s'" "lookup (cd_dags s') dir = Some d'" "i \<in> verified_ids d'"
  shows "(\<exists>d. lookup (cd_dags s) dir = Some d \<and> i \<in> verified_ids d) \<or> p = Some i"
  using assms
proof cases
  case (disk_write dir0 d q d'')
  then show ?thesis
    using assms(2,3) step_verified [OF disk_write(2)] by (cases "dir0 = dir") (auto simp: update_conv')
qed auto

text \<open>A record stays, and evolves.\<close>

lemma run_keeps_record:
  "exec_get (eh_kernel h) i = Some w \<Longrightarrow>
   \<exists>w'. exec_get (eh_kernel (exec_run calls h)) i = Some w' \<and> work_evolves w w'"
  using run_evolves [of h calls] by (simp add: kernel_evolves_def)

section \<open>The counter of ids\<close>

text \<open>Every id has been counted, and the counter is at most \<open>c\<close>.\<close>

definition ids_below :: "nat \<Rightarrow> 'v ExecutionKernel \<Rightarrow> bool" where
  "ids_below c k \<longleftrightarrow> counted_ids k \<and> xk_counter k \<le> c"

lemma put_exec_counter [simp]: "xk_counter (put_exec i w k) = xk_counter k"
  by (simp add: put_exec_def)

lemma counted_on_work: "keeps (ids_below c) (on_work i f)"
  by (rule keepsI) (auto simp: ids_below_def counted_ids_def on_work_def split: option.splits prod.splits)

lemma counted_kernel_ops [keeps_intros]:
  "keeps (ids_below c) (exec_transition i q)" "keeps (ids_below c) (on_work i f)" "keeps (ids_below c) (attach_verification i v)"
  unfolding exec_transition_def attach_verification_def by (rule counted_on_work)+

lemma counted_records [keeps_intros]:
  fixes e :: "('a, 'x) KernelEnv_scheme"
  shows "keeps (ids_below c) (record_verified_edit e i strategy path ticket sq)" "keeps (ids_below c) (record_preflight e i passed out)"
proof -
  have step: "ids_below c k \<Longrightarrow> ids_below c (snd (attach_verification i v k))" for k :: "'a ExecutionKernel" and v
    by (rule keepsD [OF counted_kernel_ops(3)])
  show "keeps (ids_below c) (record_verified_edit e i strategy path ticket sq)"
    using record_edit_snd [of e i strategy path ticket sq] step by (intro keepsI) metis
  show "keeps (ids_below c) (record_preflight e i passed out)"
    using record_preflight_snd [of e i passed out] step by (intro keepsI) metis
qed

lemma counted_rpc [keeps_intros]:
  "keeps (ids_below c) (rpc_transition e params)" "keeps (ids_below c) (rpc_bind_runtime e params)"
  "keeps (ids_below c) (rpc_record_edit e params)" "keeps (ids_below c) (rpc_record_preflight e params)"
  unfolding rpc_transition_def rpc_bind_runtime_def rpc_record_edit_def rpc_record_preflight_def Let_def
  by (intro keeps_intros)+

lemma counted_approvals [keeps_intros]:
  "keeps (ids_below c) (rpc_resolve_approval e params)" "keeps (ids_below c) (rpc_record_approval e params)"
  unfolding rpc_resolve_approval_def rpc_record_approval_def Let_def
  by (rule keeps_apply, intro keeps_intros)+

lemma counted_preflight [keeps_intros]:
  fixes e :: "('a, 'x) ShadowEnv_scheme"
  shows "keeps (ids_below c) (preflight_kernel e params)"
proof (rule keepsI)
  fix k :: "'a ExecutionKernel" assume k: "ids_below c k"
  let ?m = "preflight_kernel e params k"
  have "?m = (fst ?m, snd ?m)" by simp
  from preflight_snd [OF this] k keepsD [OF counted_records(2) k] show "ids_below c (snd ?m)"
    by auto
qed

lemma counted_Suc: "ids_below c k \<Longrightarrow> ids_below (Suc c) k"
  by (simp add: ids_below_def)

lemma counter_begin:
  "xk_counter (snd (exec_begin e t s ob p po c sc k)) = u64_add (xk_counter k) 1"
  by (auto simp: snd_exec_begin begin_named_def Let_def split: option.split)

lemma counted_exec_begin:
  assumes "ids_below c k" "c < u64_max" shows "ids_below (Suc c) (snd (exec_begin e t s ob p po cx sc k))"
proof -
  have "counted_ids k" "xk_counter k < u64_max" using assms by (auto simp: ids_below_def)
  with begin_is_fresh(2) [of k e t s ob p po cx sc] assms show ?thesis
    by (auto simp: ids_below_def counter_begin u64_add_small u64_max_def)
qed

lemma counted_begins:
  assumes "ids_below c k" "c < u64_max"
  shows "ids_below (Suc c) (snd (rpc_begin e params k))" "ids_below (Suc c) (snd (rpc_begin_subagent e params k))"
proof -
  have "\<exists>t s ob p po cx sc. snd (rpc_begin e params k) = snd (exec_begin e t s ob p po cx sc k)"
    by (auto simp: rpc_begin_def Let_def split: prod.split) (metis snd_conv)
  with counted_exec_begin [OF assms] show "ids_below (Suc c) (snd (rpc_begin e params k))" by metis
  have "snd (rpc_begin_subagent e params k) = k \<or>
      (\<exists>t s ob p po cx sc. snd (rpc_begin_subagent e params k) = snd (exec_begin e t s ob p po cx sc k))"
    unfolding rpc_begin_subagent_def Let_def st_bind_reply_snd snd_begin_subagent by (simp split: if_split) blast
  with counted_exec_begin [OF assms] counted_Suc [OF assms(1)]
  show "ids_below (Suc c) (snd (rpc_begin_subagent e params k))" by metis
qed

lemma on_kernel_P:
  assumes "P (snd (f (eh_kernel h)))" shows "P (eh_kernel (snd (on_kernel f h)))"
  using assms by (auto simp: on_kernel_def split: prod.split)

lemma handle_counted:
  assumes "ids_below c (eh_kernel h)" "c < u64_max"
  shows "ids_below (Suc c) (eh_kernel (snd (exec_handle e meth params h)))"
proof -
  have keep: "ids_below (Suc c) (eh_kernel (snd (on_kernel f h)))" if "keeps (ids_below c) f" for f
    by (rule on_kernel_P) (rule counted_Suc [OF keepsD [OF that assms(1)]])
  have fresh: "ids_below (Suc c) (eh_kernel (snd (on_kernel (rpc_begin e params) h)))"
      "ids_below (Suc c) (eh_kernel (snd (on_kernel (rpc_begin_subagent e params) h)))"
    by (rule on_kernel_P, rule counted_begins [OF assms])+
  show ?thesis
    unfolding exec_handle_def by (simp add: fresh keep keeps_intros counted_Suc [OF assms(1)])
qed

lemma run_counted:
  "ids_below c (eh_kernel h) \<Longrightarrow> c + length calls \<le> u64_max \<Longrightarrow> ids_below (c + length calls) (eh_kernel (exec_run calls h))"
proof (induction calls h arbitrary: c rule: exec_run.induct)
  case (2 e meth params calls h)
  from 2(3) have less: "c < u64_max" by simp
  have "ids_below (Suc c) (eh_kernel (snd (exec_handle e meth params h)))"
    by (rule handle_counted [OF 2(2) less])
  with 2(1) [of "Suc c"] 2(3) show ?case by simp
qed simp

section \<open>The preflight\<close>

text \<open>A run of the checks stops at the first that fails, so the flag means that every check succeeded.\<close>

definition check_passes :: "('v, 'x) ShadowEnv_scheme \<Rightarrow> string \<Rightarrow> ShadowCheck \<Rightarrow> bool" where
  "check_passes e dir c \<longleftrightarrow>
     (case run_shadow_command e (ck_program c) (ck_args c) dir of Inl _ \<Rightarrow> False | Inr r \<Rightarrow> co_success r)"

lemma check_passes_iff:
  "check_passes e dir c \<longleftrightarrow> (\<exists>r. run_shadow_command e (ck_program c) (ck_args c) dir = Inr r \<and> co_success r)"
  by (auto simp: check_passes_def split: sum.split)

lemma checks_pass:
  "length (run_shadow_checks e dir cs) = length cs \<and> list_all co_success (run_shadow_checks e dir cs) \<longleftrightarrow>
   list_all (check_passes e dir) cs"
proof (induction cs)
  case (Cons c cs)
  show ?case
  proof (cases "run_shadow_command e (ck_program c) (ck_args c) dir")
    case (Inl err)
    then show ?thesis by (simp add: check_passes_def spawn_failure_def)
  next
    case (Inr r)
    then show ?thesis using Cons by (auto simp: check_passes_def)
  qed
qed simp

lemma checks_output_count: "length (run_shadow_checks e dir cs) \<le> length cs"
  by (induction cs) (auto split: sum.split)

text \<open>Staged files.\<close>

definition inside :: "string \<Rightarrow> string \<Rightarrow> bool" where
  "inside dir p \<longleftrightarrow> (\<exists>rel. p = dir @ ''/'' @ rel \<and> \<not> starts_with rel ''/'' \<and> \<not> has_parent_dir rel)"

definition candidate_safe :: "ShadowCandidateFile \<Rightarrow> bool" where
  "candidate_safe f \<longleftrightarrow> \<not> starts_with (cf_path f) ''/'' \<and> \<not> has_parent_dir (cf_path f) \<and> cf_path f \<noteq> []"

lemma parse_candidates_safe: "parse_candidates j i vs = Inr fs \<Longrightarrow> list_all candidate_safe fs"
  by (induction vs arbitrary: i fs)
     (auto simp: res_bind_Inr parse_candidate_def candidate_safe_def split: option.splits if_splits)

lemma parse_shadow_safe: "parse_shadow_candidate j params = Inr fs \<Longrightarrow> list_all candidate_safe fs"
  by (auto simp: parse_shadow_candidate_def split: option.splits if_splits dest: parse_candidates_safe)

lemma join_inside: "\<not> starts_with rel ''/'' \<Longrightarrow> \<not> has_parent_dir rel \<Longrightarrow> inside dir (path_join dir rel)"
  by (auto simp: inside_def path_join_def)

text \<open>The calls of a staging that succeeded.\<close>

definition staging_calls :: "('v, 'x) ShadowEnv_scheme \<Rightarrow> string \<Rightarrow> string \<Rightarrow> ShadowCandidateFile list \<Rightarrow> FsCall list" where
  "staging_calls e live dir fs =
     (if fs = [] then []
      else (if sh_git_dir e live then [FxWorktreeAdd live dir] else FxMkdir dir # manifest_copies e live dir) @
        concat (map (\<lambda>f. [FxMkdirParent (path_join dir (cf_path f)), FxWrite (path_join dir (cf_path f)) (cf_content f)]) fs))"

lemma stage_files_calls:
  "stage_files e dir fs = (Inr u, calls) \<Longrightarrow>
   calls = concat (map (\<lambda>f. [FxMkdirParent (path_join dir (cf_path f)), FxWrite (path_join dir (cf_path f)) (cf_content f)]) fs)"
  by (induction fs arbitrary: calls) (auto simp: Let_def split: option.splits prod.splits)

lemma stage_tree_calls:
  assumes "stage_shadow_tree e live fs = (Inr (dir, cleanup), calls)"
  shows "calls = staging_calls e live dir fs \<and>
    dir = (if fs = [] then live else if sh_git_dir e live then sh_temp e else sh_temp_nogit e)"
  using assms
  by (auto simp: stage_shadow_tree_def staging_calls_def Let_def dest!: stage_files_calls
      split: if_splits option.splits prod.splits sum.splits)

lemma check_calls_full:
  "length rs = length cs \<Longrightarrow> check_calls dir cs rs = map (\<lambda>c. FxRun (ck_program c) (ck_args c) dir) cs"
  unfolding check_calls_def by (induction rs cs rule: list_induct2) simp_all

lemma get_bool_lit: "json_values j \<Longrightarrow> get_bool j (json_lit j kvs) k = Option.bind (map_of kvs k) (j_as_bool j)"
  by (simp add: get_bool_def json_values.get_lit)

lemma unverified_not_passed:
  "json_values (kn_json e) \<Longrightarrow> get_bool (kn_json e) (unverified_reply e i reason) ''passed'' = Some False"
  by (simp add: unverified_reply_def Let_def get_bool_lit json_values.bool_bool)

lemma run_preflight_passed:
  assumes "json_values (kn_json e)" "run_preflight_with_candidate e i files st de live candidate k = (Inr v, k', fs, cs)"
    and "get_bool (kn_json e) v ''passed'' = Some True"
  obtains shadow cleanup staging where "discover_shadow_checks e live \<noteq> []"
    "stage_shadow_tree e live candidate = (Inr (shadow, cleanup), staging)"
    "fs = staging @ map (\<lambda>c. FxRun (ck_program c) (ck_args c) shadow) (discover_shadow_checks e live)"
    "list_all (check_passes e shadow) (discover_shadow_checks e live)"
proof -
  let ?cs = "discover_shadow_checks e live"
  from assms have needed: "pf_needs_preflight (decide_shadow_preflight files st de)" "?cs \<noteq> []"
    by (auto simp: run_preflight_with_candidate_def Let_def get_bool_lit unverified_not_passed split: if_splits)
  with assms obtain shadow cleanup staging where stage: "stage_shadow_tree e live candidate = (Inr (shadow, cleanup), staging)"
    by (auto simp: run_preflight_with_candidate_def Let_def unverified_not_passed split: prod.splits sum.splits)
  have ran: "length (run_shadow_checks e shadow ?cs) = length ?cs \<and> list_all co_success (run_shadow_checks e shadow ?cs)"
    and calls: "fs = staging @ check_calls shadow ?cs (run_shadow_checks e shadow ?cs)"
    using assms needed stage
    by (auto simp: run_preflight_with_candidate_def Let_def get_bool_lit json_values.bool_bool
        split: prod.splits sum.splits)
  show thesis
    using needed(2) stage calls checks_pass [of e shadow ?cs] ran by (intro that) (simp_all add: check_calls_full)
qed

end
