(* ===== verification/Exec_Properties.thy ===== *)
theory Exec_Properties
  imports Exec_Runs "HOL-Library.Code_Target_Nat"
begin

text \<open>
  The properties of the execution kernel, its recovery, the preflight, the governor and the computer-use
  graph, each with a concrete input that meets its hypotheses.
\<close>

section \<open>Concrete inputs\<close>

definition xwit_view :: DiskView where
  "xwit_view = \<lparr> dv_is_file = (\<lambda>p. p = ''a''), dv_text = (\<lambda>_. None), dv_bytes = (\<lambda>_. None) \<rparr>"

definition xwit_brief :: FivePartBrief where
  "xwit_brief = \<lparr> fb_goal = ''g'', fb_constraints = ''c'', fb_inputs = ''i'', fb_postconditions = ''p'', fb_out_of_scope = ''o'' \<rparr>"

definition xwit_node :: "string \<Rightarrow> CuaNode" where
  "xwit_node i = cua_node_default\<lparr>nd_id := i, nd_name := ''n'', nd_postconditions := [''p'']\<rparr>"

definition xwit_dag :: ComputerUseDag where
  "xwit_dag = \<lparr> dg_run_id = ''r'', dg_work_id = ''w'', dg_nodes = [xwit_node ''a'', xwit_node ''b''], dg_replan_seq = 0 \<rparr>"

definition xwit_env :: "work_json CuaEnv" where
  "xwit_env =
     \<lparr> kn_json = wj_api, kn_arr = WArr, kn_float = (\<lambda>_. WNull), kn_sha = (\<lambda>_. ''h''), kn_now = 5,
       sh_git_dir = (\<lambda>_. False), sh_temp = ''/tmp/s'', sh_temp_nogit = ''/tmp/t'', sh_worktree_add = (\<lambda>_ _. None),
       sh_mkdir = (\<lambda>_. None), sh_mkdir_parent = (\<lambda>_. None), sh_write = (\<lambda>_. None),
       sh_is_file = (\<lambda>_ f. f = ''Cargo.toml''), sh_readable = (\<lambda>_ _. True), sh_package = (\<lambda>_. None),
       sh_run = (\<lambda>_ _ _. Inr (True, ''ok'', [])), sh_cleanup = (\<lambda>_. None),
       ce_is_object = (\<lambda>v. wj_obj v \<noteq> None), ce_dag = (\<lambda>_. Inr xwit_dag), ce_node = (\<lambda>_. Inr (xwit_node ''c'')),
       ce_evidence = (\<lambda>_. Some \<lparr> mev_kind = EvFileExists, mev_path = Some ''a'', mev_expect = None,
                                   mev_exit_code = None, mev_text = None \<rparr>),
       ce_brief = (\<lambda>_. Inr xwit_brief), ce_layers = (\<lambda>_. Inl ''no layers''), ce_f64 = (\<lambda>_. None),
       ce_dir = (\<lambda>p. p), ce_absent = (\<lambda>_. ''absent''), ce_persist_error = (\<lambda>_. None), ce_log_error = (\<lambda>_. None),
       ce_view = xwit_view, ce_save_skill = (\<lambda>_ _. Inl ''no store''), ce_divide = (\<lambda>_ _. Fin 0) \<rparr>"

definition xwit_id :: "(string \<times> work_json) list \<Rightarrow> work_json" where
  "xwit_id kvs = WObj ((''id'', WStr ''ex:1'') # kvs)"

definition xwit_host :: "work_json ExecHost" where
  "xwit_host = \<lparr> eh_kernel = kernel_new, eh_disk = cua_disk_new \<rparr>"

text \<open>Begin a Work, run it, and let it wait for an approval.\<close>

definition xwit_calls :: "(work_json CuaEnv \<times> string \<times> work_json) list" where
  "xwit_calls =
     [(xwit_env, ''execution/begin'', WObj []),
      (xwit_env, ''execution/transition'', xwit_id [(''state'', WStr ''running'')]),
      (xwit_env, ''execution/transition'', xwit_id [(''state'', WStr ''waiting_approval'')]),
      (xwit_env, ''execution/record_approval'', xwit_id [(''ticketId'', WStr ''t'')])]"

definition xwit_rejected :: "(work_json CuaEnv \<times> string \<times> work_json) list" where
  "xwit_rejected = xwit_calls @
     [(xwit_env, ''execution/resolve_approval'', xwit_id [(''ticketId'', WStr ''t''), (''approved'', WBool False)])]"

section \<open>The records of the kernel\<close>

text \<open>C7. Take a kernel that is new or was rebuilt from a Work journal, and let any sequence of calls of the
  dispatcher be made on it, with any answers of the disk, the clock and the processes. Then every record
  is filed under its own id; its event stream is a path of legal transitions that ends in its phase; and
  an approval is pending only while the record waits for it, with its ticket among the record's approval
  references.\<close>

theorem kernel_history_legal:
  assumes "k = kernel_new \<or> (\<exists>(r :: ('v, 'x) RecoverEnv_scheme) E lines. recover_from_work_journal r E lines = Inr k)"
    and "exec_get (eh_kernel (exec_run calls \<lparr> eh_kernel = k, eh_disk = s \<rparr>)) i = Some w"
  shows "xw_id w = i \<and>
    (\<exists>ps. xw_event_stream w = map phase_debug ps \<and> successively phase_transition_legal ps \<and>
       (ps \<noteq> [] \<longrightarrow> last ps = xw_state w)) \<and>
    (\<forall>a. xw_pending_approval w = Some a \<longrightarrow>
       xw_state w = EpWaitingApproval \<and> pn_ticket_id a \<in> set (xw_approval_refs w))"
proof -
  have "kernel_ok k"
    using assms(1) recovered_kernel_ok recover_with_report_from(1) kernel_ok_new
    by (auto simp: recover_from_work_journal_def recover_from_work_gateway_def res_bind_Inr) blast
  then have "kernel_ok (eh_kernel (exec_run calls \<lparr> eh_kernel = k, eh_disk = s \<rparr>))"
    by (intro run_kernel_ok) simp
  with assms(2) show ?thesis by (auto simp: kernel_ok_def exec_work_ok_def legal_history_def)
qed

theorem kernel_history_legal_witness:
  "\<exists>w. exec_get (eh_kernel (exec_run xwit_calls xwit_host)) ''ex:1'' = Some w \<and> xw_pending_approval w \<noteq> None \<and>
     xw_event_stream w = [''Running'', ''WaitingApproval''] \<and> xw_state w = EpWaitingApproval"
proof -
  have "map_option (\<lambda>w. (xw_event_stream w, xw_pending_approval w \<noteq> None))
      (exec_get (eh_kernel (exec_run xwit_calls xwit_host)) ''ex:1'') = Some ([''Running'', ''WaitingApproval''], True)"
    by code_simp
  then obtain w where w: "exec_get (eh_kernel (exec_run xwit_calls xwit_host)) ''ex:1'' = Some w"
    "xw_event_stream w = [''Running'', ''WaitingApproval'']" "xw_pending_approval w \<noteq> None"
    by auto
  from kernel_history_legal [OF disjI1, of kernel_new xwit_calls cua_disk_new "''ex:1''" w] w show ?thesis
    by (auto simp: xwit_host_def)
qed

text \<open>C22. No call of the dispatcher loses a record or changes what it was begun with (parent, session, trigger,
  objective, policy, scope, context, idempotency key, time): event streams and approval references only
  grow, and a record that is completed, failed or cancelled keeps its phase, its event stream, its
  references and its pending approval for ever.\<close>

theorem terminal_work_frozen:
  assumes "exec_get (eh_kernel h) i = Some w"
  shows "\<exists>w'. exec_get (eh_kernel (exec_run calls h)) i = Some w' \<and>
    xw_id w' = xw_id w \<and> xw_parent_id w' = xw_parent_id w \<and> xw_session_id w' = xw_session_id w \<and>
    xw_trigger w' = xw_trigger w \<and> xw_objective w' = xw_objective w \<and>
    xw_policy_snapshot w' = xw_policy_snapshot w \<and> xw_capability_scope w' = xw_capability_scope w \<and>
    xw_context_snapshot w' = xw_context_snapshot w \<and> xw_idempotency_key w' = xw_idempotency_key w \<and>
    xw_created_at_ms w' = xw_created_at_ms w \<and>
    prefix (xw_event_stream w) (xw_event_stream w') \<and> prefix (xw_approval_refs w) (xw_approval_refs w') \<and>
    (xw_state w \<in> {EpCompleted, EpFailed, EpCancelled} \<longrightarrow>
       xw_state w' = xw_state w \<and> xw_event_stream w' = xw_event_stream w \<and>
       xw_approval_refs w' = xw_approval_refs w \<and> xw_pending_approval w' = xw_pending_approval w)"
  using run_keeps_record [OF assms, of calls]
  by (auto simp: work_evolves_def same_identity_def phase_is_terminal_def)

theorem terminal_work_frozen_witness:
  "map_option xw_state (exec_get (eh_kernel (exec_run xwit_rejected xwit_host)) ''ex:1'') = Some EpFailed \<and>
   map_option xw_state (exec_get (eh_kernel (exec_run xwit_calls (exec_run xwit_rejected xwit_host))) ''ex:1'') =
     Some EpFailed"
proof -
  have s: "map_option xw_state (exec_get (eh_kernel (exec_run xwit_rejected xwit_host)) ''ex:1'') = Some EpFailed"
    by code_simp
  then obtain w where w: "exec_get (eh_kernel (exec_run xwit_rejected xwit_host)) ''ex:1'' = Some w" "xw_state w = EpFailed"
    by auto
  from terminal_work_frozen [OF w(1), of xwit_calls] w s show ?thesis by auto
qed

text \<open>C23. Ids are never reused. After any sequence of calls on a kernel that is new or rebuilt from a Work
  journal, the id of the next Work is the counter's successor, and no record has it, as long as the
  64-bit counter is not exhausted.\<close>

theorem begun_id_is_fresh:
  assumes "k = kernel_new \<or> (\<exists>(r :: ('v, 'x) RecoverEnv_scheme) E lines. recover_from_work_journal r E lines = Inr k)"
    and "xk_counter k + length calls < u64_max"
    and "k' = eh_kernel (exec_run calls \<lparr> eh_kernel = k, eh_disk = s \<rparr>)"
  shows "xw_id (fst (exec_begin e t ss ob p po c sc k')) = ''ex:'' @ show_nat (xk_counter k' + 1) \<and>
    exec_get k' (''ex:'' @ show_nat (xk_counter k' + 1)) = None"
proof -
  have "counted_ids k"
    using assms(1) recover_with_report_from(1) counted_new
    by (auto simp: recover_from_work_journal_def recover_from_work_gateway_def res_bind_Inr kernel_from_def)
  then have "ids_below (xk_counter k) k" by (simp add: ids_below_def)
  with assms(2) have "ids_below (xk_counter k + length calls) k'"
    unfolding assms(3) by (intro run_counted) simp_all
  with assms(2) have "counted_ids k'" "xk_counter k' < u64_max" by (auto simp: ids_below_def)
  with begin_is_fresh(1,3) show ?thesis by metis
qed

theorem begun_id_is_fresh_witness:
  "exec_get (eh_kernel (exec_run xwit_calls xwit_host)) ''ex:1'' \<noteq> None \<and>
   exec_get (eh_kernel (exec_run xwit_calls xwit_host)) ''ex:2'' = None \<and>
   xw_id (fst (exec_begin xwit_env TgChat ''s'' ''o'' None [] [] [] (eh_kernel (exec_run xwit_calls xwit_host)))) = ''ex:2''"
proof -
  let ?k = "eh_kernel (exec_run xwit_calls xwit_host)"
  have c: "xk_counter ?k = 1" "exec_get ?k ''ex:1'' \<noteq> None" "''ex:'' @ show_nat 2 = ''ex:2''"
    by code_simp+
  have "xk_counter (kernel_new :: work_json ExecutionKernel) + length xwit_calls < u64_max"
    by code_simp
  from begun_id_is_fresh [OF disjI1 [OF refl] this refl, where s = cua_disk_new and e = xwit_env and t = TgChat and
      ss = "''s''" and ob = "''o''" and p = None and po = "[]" and c = "[]" and sc = "[]"] c
  show ?thesis by (simp add: xwit_host_def numeral_2_eq_2)
qed


section \<open>Recovery\<close>

definition xwit_gw :: "work_json GwEnv" where
  "xwit_gw =
     \<lparr> ge_json = wj_api, ge_fact_ser = (\<lambda>_. ''fact''), ge_cs_ser = (\<lambda>_. ''set''), ge_mdigest = (\<lambda>m. rm_work_id m),
       ge_now = 5, ge_io = (\<lambda>_. IoOk), ge_text = we_event_id, ge_utf8 = (\<lambda>_. True),
       ge_parse = (\<lambda>_. None), ge_bytes = (\<lambda>_. ''bytes''), ge_listens = (\<lambda>_. True),
       ge_exists = (\<lambda>_. True), ge_is_dir = (\<lambda>_. True) \<rparr>"

definition xwit_bound :: "work_json WorkGateway" where
  "xwit_bound = snd (bind_execution_with_metadata xwit_gw ''w'' ''ex:1'' (WObj [])
     (snd (create_work_in_session xwit_gw ''w'' None (Some ''s'') SkInteractive ''goal''
        (gateway_new\<lparr>gw_journal := Some []\<rparr>))))"

definition xwit_waiting :: "work_json WorkGateway" where
  "xwit_waiting = snd (record_execution_transition xwit_gw ''w'' ''ex:1'' WsWaitingApproval
     (snd (record_execution_transition xwit_gw ''w'' ''ex:1'' WsRunning xwit_bound)))"

definition xwit_lines :: "work_json JournalText list" where
  "xwit_lines = the (gw_journal (snd (record_pending_approval_for_run xwit_gw ''w'' ''ex:1'' ''t'' ''tool'' ''h'' ''R3'' 1
     xwit_waiting)))"

definition xwit_rec :: "work_json RecoverEnv" where
  "xwit_rec = \<lparr> kn_json = wj_api, kn_arr = WArr, kn_float = (\<lambda>_. WNull), kn_sha = (\<lambda>_. ''h''), kn_now = 5,
     kr_parse = (\<lambda>_. Inr WNull), kr_manifest = (\<lambda>_. None) \<rparr>"

text \<open>C8. Recovery agrees with the gateway. When the kernel can be rebuilt from a Work journal, it holds a record
  for every Run that the gateway opened from the same journal knows, and no other; the phase of each record
  is the state the gateway has for that Run; and the record has a pending approval exactly when the gateway
  has one for the Run.\<close>

theorem recovered_state_agrees:
  assumes "open_journal E lines = Inr s" "recover_from_work_journal e E lines = Inr k"
  shows "(\<forall>a \<in> set (list_work s). \<forall>i \<in> set (run_ids_of s (wa_work_id a)). exec_get k i \<noteq> None) \<and>
    (\<forall>i x. exec_get k i = Some x \<longrightarrow>
       (\<exists>a \<in> set (list_work s). i \<in> set (run_ids_of s (wa_work_id a)) \<and>
          map_option from_work_state (run_state s (wa_work_id a) i) = Some (xw_state x) \<and>
          (xw_pending_approval x \<noteq> None \<longleftrightarrow> pending_approvals_for_run (kn_json e) s (wa_work_id a) i \<noteq> [])))"
proof -
  from assms obtain rep where rec: "recover_with_report e s = Inr (k, rep)"
    by (auto simp: recover_from_work_journal_def recover_from_work_gateway_def res_bind_Inr)
  note from_journal = recover_with_report_from [OF rec]
  have "\<exists>a \<in> set (list_work s). i \<in> set (run_ids_of s (wa_work_id a)) \<and>
          map_option from_work_state (run_state s (wa_work_id a) i) = Some (xw_state x) \<and>
          (xw_pending_approval x \<noteq> None \<longleftrightarrow> pending_approvals_for_run (kn_json e) s (wa_work_id a) i \<noteq> [])"
    if "exec_get k i = Some x" for i x
  proof -
    from that from_journal(1) obtain a rep1 rep2 where a: "a \<in> set (list_work s)" "i \<in> set (run_ids_of s (wa_work_id a))"
      and one: "recover_one_run e s a i rep1 = Inr (x, rep2)"
      unfolding kernel_from_def recovered_as_def by blast
    from recover_one_run_ok [OF one] obtain st n m ss ob where
        st: "last_run_state (events_of s (wa_work_id a)) i = Some st" "xw_state x = from_work_state st"
        and x: "x = recovered_work e s a i m ss ob (from_work_state st) n"
        and err: "scan_error (kn_json e) s (wa_work_id a) i n = None" by blast
    have "run_state s (wa_work_id a) i = Some st"
      using opened_runs_logged [OF assms(1)] st(1) by (simp add: runs_logged_def)
    moreover have "xw_pending_approval x \<noteq> None \<longleftrightarrow> sn_pending n \<noteq> []"
      by (cases "sn_pending n") (auto simp: x)
    moreover have "length (pending_approvals_for_run (kn_json e) s (wa_work_id a) i) = length (sn_pending n)"
      using err by (auto simp: scan_error_def split: option.splits if_splits)
    ultimately show ?thesis using a st(2) by (metis length_0_conv option.simps(9))
  qed
  with from_journal(2) show ?thesis by blast
qed

theorem recovered_state_agrees_witness:
  "\<exists>k x. recover_from_work_journal xwit_rec xwit_gw xwit_lines = Inr k \<and> exec_get k ''ex:1'' = Some x \<and>
     xw_state x = EpWaitingApproval \<and> xw_pending_approval x \<noteq> None"
proof -
  have "map_option (\<lambda>x. (xw_state x, xw_pending_approval x \<noteq> None))
      (case recover_from_work_journal xwit_rec xwit_gw xwit_lines of Inl _ \<Rightarrow> None | Inr k \<Rightarrow> exec_get k ''ex:1'') =
    Some (EpWaitingApproval, True)"
    by code_simp
  then obtain k x where k: "recover_from_work_journal xwit_rec xwit_gw xwit_lines = Inr k" "exec_get k ''ex:1'' = Some x"
    "xw_state x = EpWaitingApproval"
    by (auto split: sum.splits)
  then obtain s where s: "open_journal xwit_gw xwit_lines = Inr s"
    by (auto simp: recover_from_work_journal_def res_bind_Inr)
  have "(case open_journal xwit_gw xwit_lines of Inl _ \<Rightarrow> [] | Inr s \<Rightarrow> map wa_work_id (list_work s)) = [''w'']"
    "(case open_journal xwit_gw xwit_lines of Inl _ \<Rightarrow> [] | Inr s \<Rightarrow> pending_approvals_for_run wj_api s ''w'' ''ex:1'') \<noteq> []"
    by code_simp+
  with s have "map wa_work_id (list_work s) = [''w'']" "pending_approvals_for_run wj_api s ''w'' ''ex:1'' \<noteq> []"
    by simp_all
  with recovered_state_agrees [OF s k(1)] k show ?thesis
    by (auto simp: xwit_rec_def)
qed


section \<open>Subagents and candidates\<close>

text \<open>C21. Subagents stay within what they were granted. After any sequence of calls on a new kernel, a subagent that
  is admitted is at depth at most 2, its record is new, and its tools are exactly those it was granted that
  the caller did not deny and that are not blocked for every subagent; no later sequence of calls changes
  them.\<close>

theorem subagent_scope_is_stripped:
  assumes "k = eh_kernel (exec_run before \<lparr> eh_kernel = kernel_new, eh_disk = s \<rparr>)" "length before < u64_max"
    and "begin_subagent e ss ob p depth granted denied po k = (Inr w, k')"
  shows "depth \<le> 2 \<and> exec_get k (xw_id w) = None \<and>
    (\<exists>w'. exec_get (eh_kernel (exec_run after \<lparr> eh_kernel = k', eh_disk = s' \<rparr>)) (xw_id w) = Some w' \<and>
       xw_trigger w' = TgSubagent \<and>
       set (xw_capability_scope w') = set granted - set denied - set DELEGATE_BLOCKED_TOOLS)"
proof -
  have "ids_below 0 (kernel_new :: 'a ExecutionKernel)"
    by (simp add: ids_below_def counted_new) (simp add: kernel_new_def)
  with assms(1,2) have "ids_below (0 + length before) k"
    by (metis ExecHost.select_convs(1) add_0 less_imp_le run_counted)
  with assms(2) have below: "counted_ids k" "xk_counter k < u64_max" by (auto simp: ids_below_def)
  let ?scope = "effective_subagent_tools granted denied"
  from assms(3) have depth: "depth \<le> 2"
    and begun: "w = fst (exec_begin e TgSubagent ss ob p po [] ?scope k)" "k' = snd (exec_begin e TgSubagent ss ob p po [] ?scope k)"
    by (auto simp: begin_subagent_def P64_MAX_SUBAGENT_DEPTH_def split: if_splits prod.splits)
  note unused = begin_is_fresh(1) [OF below] and begun_id = begin_is_fresh(3) [OF below, where e = e and t = TgSubagent and s = ss and obj = ob and p = p and po = po and c = "[]" and sc = ?scope]
  have id_w: "exec_get k (xw_id w) = None" using unused begun_id begun(1) by simp
  have "u64_add (xk_counter k) 1 = xk_counter k + 1"
    using below(2) by (simp add: u64_add_small u64_max_def)
  then have "exec_get k' (xw_id w) = Some w \<and> xw_trigger w = TgSubagent \<and> xw_capability_scope w = ?scope"
    using id_w begun_id begun
    by (auto simp: exec_begin_def begin_named_def Let_def exec_work_new_def split: option.splits)
  then show ?thesis
    using depth id_w run_keeps_record [of "\<lparr> eh_kernel = k', eh_disk = s' \<rparr>" "xw_id w" w after]
    by (auto simp: set_effective_subagent_tools work_evolves_def same_identity_def)
qed

theorem subagent_scope_is_stripped_witness:
  "\<exists>w. fst (begin_subagent xwit_env ''s'' ''o'' None 1 [''grep'', ''search.query''] [''grep''] [] kernel_new) = Inr w \<and>
     set (xw_capability_scope w) = {''search.query''}"
proof -
  let ?r = "begin_subagent xwit_env ''s'' ''o'' None 1 [''grep'', ''search.query''] [''grep''] [] kernel_new"
  have facts: "\<not> isl (fst ?r)" "''search.query'' \<notin> set DELEGATE_BLOCKED_TOOLS" by code_simp+
  then obtain w k' where r: "?r = (Inr w, k')" by (cases ?r; cases "fst ?r") auto
  have "xw_capability_scope (projr (fst ?r)) = [''search.query'']" by code_simp
  with r have "xw_capability_scope w = [''search.query'']" by simp
  moreover have "\<exists>w'. exec_get k' (xw_id w) = Some w'"
    using subagent_scope_is_stripped [of kernel_new "[]" cua_disk_new xwit_env "''s''" "''o''" None 1
        "[''grep'', ''search.query'']" "[''grep'']" "[]" w k' "[]" cua_disk_new] r
    by (auto simp: u64_max_def)
  ultimately show ?thesis using r by auto
qed

text \<open>C15. A passing preflight is a real one. When the reply of a preflight says that it passed, the project has
  checks to run, and what was asked of the operating system, reads and the final clean-up of the shadow tree
  aside, is exactly this, in this order: with a candidate, a worktree (or, without \<open>.git\<close>, a
  directory with copies of the manifests) was made under the temporary directory and every candidate file
  was written there with its proposed content, at a path that is the shadow directory followed by a relative
  path without \<open>..\<close>; then every check was run in that directory, and each of them succeeded.
  Without a candidate nothing was staged and the checks were run in the project root itself.\<close>

theorem passing_preflight_is_real:
  assumes "json_values (kn_json e)" "rpc_preflight e params k = (Inr v, k', fs, cs)"
    and "get_bool (kn_json e) v ''passed'' = Some True"
  defines "live \<equiv> param_str (kn_json e) params ''root'' ''.''"
  shows "discover_shadow_checks e live \<noteq> [] \<and>
    (\<exists>candidate shadow. parse_shadow_candidate (kn_json e) params = Inr candidate \<and>
       shadow = (if candidate = [] then live else if sh_git_dir e live then sh_temp e else sh_temp_nogit e) \<and>
       fs = (if candidate = [] then []
             else (if sh_git_dir e live then [FxWorktreeAdd live shadow]
                   else FxMkdir shadow # manifest_copies e live shadow) @
               concat (map (\<lambda>f. [FxMkdirParent (path_join shadow (cf_path f)),
                                  FxWrite (path_join shadow (cf_path f)) (cf_content f)]) candidate)) @
            map (\<lambda>c. FxRun (ck_program c) (ck_args c) shadow) (discover_shadow_checks e live) \<and>
       (\<forall>f \<in> set candidate. inside shadow (path_join shadow (cf_path f))) \<and>
       (\<forall>c \<in> set (discover_shadow_checks e live). \<exists>r. run_shadow_command e (ck_program c) (ck_args c) shadow = Inr r \<and> co_success r))"
proof -
  from assms(2) obtain i where i: "need (kn_json e) ''execution/preflight'' params ''id'' = Inr i"
    by (auto simp: rpc_preflight_def Let_def split: sum.splits)
  have "get_bool (kn_json e) (refused_candidate (KernelEnv.truncate e) i err) ''passed'' = Some False" for err
    using unverified_not_passed [of "KernelEnv.truncate e"] assms(1)
    by (simp add: refused_candidate_def KernelEnv.truncate_def)
  with assms i obtain candidate where candidate: "parse_shadow_candidate (kn_json e) params = Inr candidate"
    by (auto simp: rpc_preflight_def Let_def split: sum.splits)
  with assms(2) i obtain files st de where
      run: "run_preflight_with_candidate e i files st de live candidate k = (Inr v, k', fs, cs)"
    by (auto simp: rpc_preflight_def Let_def live_def)
  from run_preflight_passed [OF assms(1) run assms(3)] obtain shadow cleanup staging where
      checks: "discover_shadow_checks e live \<noteq> []"
      and stage: "stage_shadow_tree e live candidate = (Inr (shadow, cleanup), staging)"
      and calls: "fs = staging @ map (\<lambda>c. FxRun (ck_program c) (ck_args c) shadow) (discover_shadow_checks e live)"
      and pass: "list_all (check_passes e shadow) (discover_shadow_checks e live)" by metis
  have "\<forall>f \<in> set candidate. inside shadow (path_join shadow (cf_path f))"
    using parse_shadow_safe [OF candidate] by (auto simp: list_all_iff candidate_safe_def intro: join_inside)
  moreover have "\<forall>c \<in> set (discover_shadow_checks e live).
      \<exists>r. run_shadow_command e (ck_program c) (ck_args c) shadow = Inr r \<and> co_success r"
    using pass by (simp add: list_all_iff check_passes_iff)
  ultimately show ?thesis
    using checks candidate calls stage_tree_calls [OF stage] unfolding staging_calls_def by blast
qed

definition xwit_candidate :: work_json where
  "xwit_candidate = xwit_id [(''structural'', WBool True),
     (''candidateFiles'', WArr [WObj [(''path'', WStr ''src/a.rs''), (''content'', WStr ''x'')]])]"

definition xwit_preflight :: "work_json preflight_result" where
  "xwit_preflight = rpc_preflight xwit_env xwit_candidate (eh_kernel (exec_run xwit_calls xwit_host))"

theorem passing_preflight_is_real_witness:
  "fst (snd (snd xwit_preflight)) =
     [FxMkdir ''/tmp/t'', FxCopy ''.'' ''Cargo.toml'' ''/tmp/t/Cargo.toml'', FxMkdirParent ''/tmp/t/src/a.rs'',
      FxWrite ''/tmp/t/src/a.rs'' ''x'', FxRun ''cargo'' [''check'', ''--quiet''] ''/tmp/t''] \<and>
   discover_shadow_checks xwit_env ''.'' \<noteq> []"
proof -
  have facts: "\<not> isl (fst xwit_preflight)" "get_bool wj_api (projr (fst xwit_preflight)) ''passed'' = Some True"
    "fst (snd (snd xwit_preflight)) =
       [FxMkdir ''/tmp/t'', FxCopy ''.'' ''Cargo.toml'' ''/tmp/t/Cargo.toml'', FxMkdirParent ''/tmp/t/src/a.rs'',
        FxWrite ''/tmp/t/src/a.rs'' ''x'', FxRun ''cargo'' [''check'', ''--quiet''] ''/tmp/t'']"
    "param_str wj_api xwit_candidate ''root'' ''.'' = ''.''"
    by code_simp+
  obtain a b c d where r: "xwit_preflight = (a, b, c, d)" by (cases xwit_preflight)
  have "\<not> isl a" using facts(1) by (simp only: r fst_conv not_False_eq_True)
  then obtain v where v: "a = Inr v" by (cases a) auto
  have j: "json_values (kn_json xwit_env)" "kn_json xwit_env = wj_api"
    using wj.json_values_axioms by (simp_all add: xwit_env_def)
  have "get_bool (kn_json xwit_env) v ''passed'' = Some True"
    using facts(2) by (simp only: r v j(2) fst_conv sum.sel)
  note real = passing_preflight_is_real [OF j(1) r [unfolded v xwit_preflight_def] this, unfolded j(2) facts(4)]
  with facts(3) show ?thesis by blast
qed

section \<open>The governor\<close>

text \<open>C33. The slots are never oversubscribed and never idle beside a waiting task. Over every sequence of
  admissions, subagent admissions and completions from a new governor, no kind of task has more running
  than its limit, the queue is within its capacity, and a task waits only while every slot of its kind is
  taken.\<close>

theorem governor_work_conserving:
  assumes "g = run gov_step ops (governor_new c)"
  shows "gov_active k g \<le> gov_limit k g \<and> length (cg_queue g) \<le> gc_max_queue_capacity (cg_config g) \<and>
    (waiting k g \<noteq> [] \<longrightarrow> gov_active k g = gov_limit k g)"
proof -
  have "admitted gov_step (\<lambda>_ _. True) ops s" for s by (induction ops arbitrary: s) auto
  then have "gov_ok g" unfolding assms by (rule governor_slots.run_inv [OF gov_ok_new])
  then show ?thesis by (auto simp: gov_ok_def waiting_def filter_empty_conv)
qed

definition xwit_task :: "string \<Rightarrow> SubagentTask" where
  "xwit_task i = \<lparr> st_task_id = i, st_parent_run_id = ''p'', st_role = ''worker'', st_runtime = ''r'', st_kind = FtMutation,
     st_status = FsAdmitted, st_priority = 0 \<rparr>"

definition xwit_gov_ops :: "gov_op list" where
  "xwit_gov_ops = [GovAdmit (xwit_task ''a''), GovAdmit (xwit_task ''b''), GovAdmit (xwit_task ''c'')]"

definition xwit_gov :: ConcurrencyGovernor where
  "xwit_gov = run gov_step xwit_gov_ops (governor_new
     \<lparr> gc_max_concurrent_mutation = 1, gc_max_concurrent_readonly = 1, gc_max_queue_capacity = 2 \<rparr>)"

theorem governor_work_conserving_witness:
  "map st_task_id (waiting FtMutation xwit_gov) = [''b'', ''c''] \<and> gov_active FtMutation xwit_gov = gov_limit FtMutation xwit_gov"
proof -
  have "map st_task_id (waiting FtMutation xwit_gov) = [''b'', ''c'']" by code_simp
  with governor_work_conserving [OF xwit_gov_def, of FtMutation] show ?thesis by auto
qed

text \<open>C26. Waiting tasks start in turn, when their kind has a slot at all. A task that waits with \<open>n\<close> tasks of its
  kind before it is the one that is started by the \<open>n + 1\<close>-st completion of its kind, whatever is admitted
  or completed in between, if the configured limit of the kind is positive. If that limit is zero, which
  \<open>calculate_dynamic_limits\<close> gives to read-only tasks below 2 GiB, the completion starts nothing.\<close>

theorem waiting_task_starts:
  assumes "g = run gov_step ops (governor_new c)" "waiting k g = before @ t # behind"
    and "length (filter (\<lambda>x. x = GovComplete k) after) = length before"
  shows "fst (complete_task k (run gov_step after g)) =
    (if 0 < gov_limit k (governor_new c) then Some (t\<lparr>st_status := FsRunning\<rparr>) else None)"
proof -
  have any: "admitted gov_step (\<lambda>_ _. True) xs s" for xs s by (induction xs arbitrary: s) auto
  have limit: "gov_limit k (run gov_step xs h) = gov_limit k h" for xs h
    by (induction xs arbitrary: h) (simp_all add: gov_limit_step)
  have ok: "gov_ok g" unfolding assms(1) by (rule governor_slots.run_inv [OF gov_ok_new any])
  have ok': "gov_ok (run gov_step after g)" by (rule governor_slots.run_inv [OF ok any])
  show ?thesis
  proof (cases "0 < gov_limit k (governor_new c)")
    case True
    then have pos: "0 < gov_limit k g" unfolding assms(1) limit .
    from waiting_advances [OF ok assms(2) pos assms(3)] obtain ts where
      "waiting k (run gov_step after g) = t # ts" by auto
    from complete_fifo [OF ok' this] pos True show ?thesis by (simp add: limit)
  next
    case False
    then have "gov_limit k (run gov_step after g) = 0" unfolding assms(1) limit by simp
    from complete_no_slot [OF ok' this] False show ?thesis by simp
  qed
qed

theorem waiting_task_starts_witness:
  "fst (complete_task FtMutation (run gov_step [GovAdmit (xwit_task ''d''), GovComplete FtMutation] xwit_gov)) =
     Some ((xwit_task ''c'')\<lparr>st_status := FsRunning\<rparr>)"
proof -
  have w: "waiting FtMutation xwit_gov = [(xwit_task ''b'')\<lparr>st_status := FsQueued\<rparr>] @ (xwit_task ''c'')\<lparr>st_status := FsQueued\<rparr> # []"
    "length (filter (\<lambda>x. x = GovComplete FtMutation) [GovAdmit (xwit_task ''d''), GovComplete FtMutation]) =
       length [(xwit_task ''b'')\<lparr>st_status := FsQueued\<rparr>]"
    by (code_simp, simp)
  have "0 < gov_limit FtMutation (governor_new
      \<lparr> gc_max_concurrent_mutation = 1, gc_max_concurrent_readonly = 1, gc_max_queue_capacity = 2 \<rparr>)"
    by (simp add: governor_new_def)
  with waiting_task_starts [OF xwit_gov_def w] show ?thesis by simp
qed

section \<open>Computer use\<close>

text \<open>C16. A node becomes verified only through a call that names it. When a call other than
  \<open>execution/cua_persist\<close> leaves a stored graph in which a node is verified, the node was verified before,
  or the call names the node and is a step whose caller reports the act as verified, or a mechanical
  verification with evidence of one of five forms: a path that is a file on disk, a file on disk that
  contains, or equals, the expected text, a reported exit code of zero, or a reported text of at most
  4096 bytes that contains the expected text. The first three are read from the disk; the last two, like
  the step's report, are what the call supplies.\<close>

theorem verified_only_by_evidence:
  assumes "meth \<noteq> ''execution/cua_persist''"
    and "lookup (cd_dags (eh_disk (snd (exec_handle e meth params h)))) dir = Some d'" "i \<in> verified_ids d'"
  shows "(\<exists>d. lookup (cd_dags (eh_disk h)) dir = Some d \<and> i \<in> verified_ids d) \<or>
    get_str (kn_json e) params ''nodeId'' = Some i \<and>
    (meth = ''execution/cua_step'' \<and> get_bool (kn_json e) params ''verifyOk'' = Some True \<or>
     meth = ''execution/cua_verify'' \<and>
       (\<exists>ev. Option.bind (j_get (kn_json e) params ''evidence'') (ce_evidence e) = Some ev \<and>
          (case mev_kind ev of
             EvNone \<Rightarrow> False
           | EvFileExists \<Rightarrow> \<exists>p. mev_path ev = Some p \<and> dv_is_file (ce_view e) p
           | EvFileContains \<Rightarrow> \<exists>p x text. mev_path ev = Some p \<and> mev_expect ev = Some x \<and>
               dv_text (ce_view e) p = Some text \<and> str_contains text x
           | EvFileEquals \<Rightarrow> \<exists>p x. mev_path ev = Some p \<and> mev_expect ev = Some x \<and> dv_bytes (ce_view e) p = Some x
           | EvCommandExit \<Rightarrow> mev_exit_code ev = Some 0
           | EvCloseRead \<Rightarrow> \<exists>text x. mev_text ev = Some text \<and> mev_expect ev = Some x \<and> length text \<le> 4096 \<and>
               str_contains text x)))"
proof -
  have "disk_step e False (proved_node e meth params) (eh_disk h) (eh_disk (snd (exec_handle e meth params h)))"
    using handle_disk [of e meth params h] assms(1) by simp
  from disk_step_verified [OF this assms(2,3)] show ?thesis
    by (auto simp: proved_node_def Let_def evidence_verified_iff split: if_splits)
qed

definition xwit_at :: "(string \<times> work_json) list \<Rightarrow> work_json" where
  "xwit_at kvs = WObj ((''root'', WStr ''d'') # kvs)"

definition xwit_stored :: "work_json ExecHost" where
  "xwit_stored = exec_run [(xwit_env, ''execution/cua_persist'', xwit_at [(''dag'', WNull)])] xwit_host"

theorem verified_only_by_evidence_witness:
  "\<exists>d. lookup (cd_dags (eh_disk (snd (exec_handle xwit_env ''execution/cua_verify''
       (xwit_at [(''nodeId'', WStr ''b''), (''evidence'', WNull)]) xwit_stored)))) ''d'' = Some d \<and>
     ''b'' \<in> verified_ids d \<and> evidence_verdict xwit_view EvFileExists
       \<lparr> mev_kind = EvFileExists, mev_path = Some ''a'', mev_expect = None, mev_exit_code = None, mev_text = None \<rparr> = MvVerified"
proof -
  let ?p = "xwit_at [(''nodeId'', WStr ''b''), (''evidence'', WNull)]"
  let ?h = "snd (exec_handle xwit_env ''execution/cua_verify'' ?p xwit_stored)"
  have "map_option (\<lambda>d. map (\<lambda>n. (nd_id n, nd_status n)) (dg_nodes d)) (lookup (cd_dags (eh_disk ?h)) ''d'') =
      Some [(''a'', CsPending), (''b'', CsVerified)]"
    "map_option (\<lambda>d. map (\<lambda>n. (nd_id n, nd_status n)) (dg_nodes d)) (lookup (cd_dags (eh_disk xwit_stored)) ''d'') =
      Some [(''a'', CsPending), (''b'', CsPending)]"
    by code_simp+
  then obtain d d0 where d: "lookup (cd_dags (eh_disk ?h)) ''d'' = Some d"
    "map (\<lambda>n. (nd_id n, nd_status n)) (dg_nodes d) = [(''a'', CsPending), (''b'', CsVerified)]"
    "lookup (cd_dags (eh_disk xwit_stored)) ''d'' = Some d0"
    "map (\<lambda>n. (nd_id n, nd_status n)) (dg_nodes d0) = [(''a'', CsPending), (''b'', CsPending)]"
    unfolding map_option_eq_Some by (elim exE conjE) (rule that)
  then have b: "''b'' \<in> verified_ids d" "''b'' \<notin> verified_ids d0"
    by (simp_all only: verified_ids_pairs) simp_all
  from verified_only_by_evidence [OF _ d(1) b(1)] d(1,3) b show ?thesis
    by (auto simp: xwit_env_def xwit_at_def get_bool_def wj_api_def verdict_of_def split: if_splits)
qed

text \<open>C32. Every stored node can be verified. Over every sequence of calls from an empty disk, each node of each
  stored graph has at least one postcondition.\<close>

theorem stored_nodes_verifiable:
  assumes "lookup (cd_dags (eh_disk (exec_run calls \<lparr> eh_kernel = k, eh_disk = cua_disk_new \<rparr>))) dir = Some d"
    and "n \<in> set (dg_nodes d)"
  shows "nd_postconditions n \<noteq> []"
proof -
  have "dags_legal (eh_disk (exec_run calls \<lparr> eh_kernel = k, eh_disk = cua_disk_new \<rparr>))"
    by (intro run_dags_legal) (simp add: dags_legal_def cua_disk_new_def)
  with assms show ?thesis by (auto simp: dags_legal_def dag_legal_def list_all_iff node_contract_legal_def)
qed

theorem stored_nodes_verifiable_witness:
  "\<exists>d n. lookup (cd_dags (eh_disk xwit_stored)) ''d'' = Some d \<and> n \<in> set (dg_nodes d) \<and> nd_postconditions n \<noteq> []"
proof -
  have "map_option dg_nodes (lookup (cd_dags (eh_disk xwit_stored)) ''d'') = Some [xwit_node ''a'', xwit_node ''b'']"
    by code_simp
  then obtain d where d: "lookup (cd_dags (eh_disk xwit_stored)) ''d'' = Some d" "xwit_node ''a'' \<in> set (dg_nodes d)"
    by auto
  from stored_nodes_verifiable [OF d(1) [unfolded xwit_stored_def xwit_host_def] d(2)] d show ?thesis by blast
qed

text \<open>C27. A replan rewrites the remaining work only. An accepted replan of a stored graph keeps its verified nodes
  exactly, in order, and puts after them the nodes that the call's \<open>remaining\<close> array decodes to, all of them
  and in that order; each of these has an id that is not blank and a postcondition, and none is verified. It
  stores the graph of the directory the call names only, and logs one line with the new sequence number.\<close>

theorem replan_keeps_verified:
  assumes "cua_replan e params s = (Inr v, s')" "ce_persist_error e = (\<lambda>_. None)"
  shows "\<exists>path dir d d' remaining arr ns reason.
    get_str (kn_json e) params ''root'' = Some path \<and> dir = ce_dir e path \<and> lookup (cd_dags s) dir = Some d \<and>
    j_get (kn_json e) params ''remaining'' = Some remaining \<and>
    replan_array (kn_json e) remaining = Some arr \<and> list_all2 (\<lambda>x n. ce_node e x = Inr n) arr ns \<and>
    (\<forall>n \<in> set ns. str_trim (nd_id n) \<noteq> [] \<and> nd_postconditions n \<noteq> [] \<and> nd_status n \<noteq> CsVerified) \<and>
    dg_nodes d' = filter (\<lambda>n. nd_status n = CsVerified) (dg_nodes d) @ ns \<and>
    dg_replan_seq d' = u32_sat_inc (dg_replan_seq d) \<and>
    lookup (cd_dags s') = (lookup (cd_dags s))(dir \<mapsto> d') \<and>
    cd_log s' = cd_log s @ [(dir, dg_replan_seq d', reason)]"
proof -
  let ?reason = "replan_reason_str (parse_replan_reason (param_str (kn_json e) params ''reason'' ''planner''))"
  from assms(1) obtain path ns d remaining where
      p: "get_str (kn_json e) params ''root'' = Some path" "lookup (cd_dags s) (ce_dir e path) = Some d"
        "j_get (kn_json e) params ''remaining'' = Some remaining"
      and parsed: "parse_remaining_nodes (kn_json e) (ce_is_object e) (ce_node e) remaining = Inr ns"
      and rest: "replan_tail e path ?reason (apply_manager_replan ns d) s = (Inr v, s')"
    by (rule cua_replan_parts)
  from parse_remaining_decodes [OF parsed] obtain arr where
      arr: "replan_array (kn_json e) remaining = Some arr" "list_all2 (\<lambda>x n. ce_node e x = Inr n) arr ns" by blast
  obtain r d' where p3: "apply_manager_replan ns d = (Inr r, d')"
    using rest by (cases "apply_manager_replan ns d"; cases "fst (apply_manager_replan ns d)") (auto simp: replan_tail_def)
  then have ns: "\<forall>n \<in> set ns. str_trim (nd_id n) \<noteq> [] \<and> nd_postconditions n \<noteq> [] \<and> nd_status n \<noteq> CsVerified"
      and d': "dg_nodes d' = filter (\<lambda>n. nd_status n = CsVerified) (dg_nodes d) @ ns"
      "dg_replan_seq d' = u32_sat_inc (dg_replan_seq d)" "mr_replan_seq r = dg_replan_seq d'"
    by (auto simp: replan_accepts replan_remaining_def validate_remaining_None node_contract_legal_def)
  from rest have "cd_log s' = cd_log s @ [(ce_dir e path, dg_replan_seq d', ?reason)]"
      and "cd_dags s' = AList.update (ce_dir e path) d' (cd_dags s)"
    by (auto simp: replan_tail_def Let_def p3 st_bind_Inr append_replan_log_def persist_dag_def assms(2) d'(3) split: option.splits)
  moreover from this(2) have "lookup (cd_dags s') = (lookup (cd_dags s))(ce_dir e path \<mapsto> d')"
    by (auto simp: update_conv' fun_eq_iff)
  ultimately show ?thesis using p arr ns d'(1,2) by metis
qed

definition xwit_proved :: "work_json ExecHost" where
  "xwit_proved = exec_run [(xwit_env, ''execution/cua_step'', xwit_at [(''nodeId'', WStr ''a''), (''verifyOk'', WBool True)])]
     xwit_stored"

theorem replan_keeps_verified_witness:
  "\<exists>v s' d. cua_replan xwit_env (xwit_at [(''remaining'', WArr [WNull])]) (eh_disk xwit_proved) = (Inr v, s') \<and>
     lookup (cd_dags s') ''d'' = Some d \<and>
     map (\<lambda>n. (nd_id n, nd_status n)) (dg_nodes d) = [(''a'', CsVerified), (''c'', CsPending)] \<and>
     length (cd_log s') = length (cd_log (eh_disk xwit_proved)) + 1"
proof -
  let ?p = "xwit_at [(''remaining'', WArr [WNull])]"
  let ?r = "cua_replan xwit_env ?p (eh_disk xwit_proved)"
  have facts: "\<not> isl (fst ?r)"
    "map_option (\<lambda>d. map (\<lambda>n. (nd_id n, nd_status n)) (dg_nodes d)) (lookup (cd_dags (snd ?r)) ''d'') =
       Some [(''a'', CsVerified), (''c'', CsPending)]"
    by code_simp+
  obtain a s' where r: "?r = (a, s')" by (cases ?r)
  have "\<not> isl a" using facts(1) by (simp only: r fst_conv not_False_eq_True)
  then obtain v where v: "a = Inr v" by (cases a) auto
  have "ce_persist_error xwit_env = (\<lambda>_. None)" by (simp add: xwit_env_def)
  from replan_keeps_verified [OF r [unfolded v] this] facts(2) r v show ?thesis by auto
qed

end
