(* ===== verification/Exec_Findings.thy ===== *)
theory Exec_Findings
  imports Exec_Runs
begin

text \<open>
  Where the Work journal, the execution kernel, the governor and the computer-use graph differ from what their comments or
  tests say. Each lemma states the behaviour of the code as it is.
\<close>

section \<open>The Work journal\<close>

text \<open>After a write that was cut short, the next acknowledged record is glued to the piece: when the decoder
  refuses the glued line, the journal no longer opens, although the event was acknowledged and is in the log.\<close>

lemma torn_line_refused:
  assumes "terminated fs" "str_trim (x @ ge_text E e) \<noteq> []" "ge_parse E (x @ ge_text E e) = None"
  shows "\<exists>err. open_journal E (fs @ [JtText x] @ [JtRecord e]) = Inl err"
proof (cases "open_journal E (fs @ [JtText x] @ [JtRecord e])")
  case (Inr s)
  then obtain es where "journal_records E (fs @ [JtText x] @ [JtRecord e]) = Some es" by (rule open_journal_parts)
  then show ?thesis
    using assms by (auto simp: journal_records_def journal_lines_append line_records_append blank_line_def read_line_def
        line_text_def split: option.splits if_splits)
qed simp

lemma torn_write_loses_the_next_record:
  assumes "gw_journal s = Some fs" "terminated fs" "append_refusal D s w ev = Inr ()"
    and "ge_io D (envelope_for D w ev c (gw_next_seq s)) = IoWriteErr n"
    and "x = take n (ge_text D (envelope_for D w ev c (gw_next_seq s)))" "x \<noteq> []"
    and "append_event D w ev c s = (r, s1)" "append_event D' w' ev' c' s1 = (Inr e, t)"
    and "str_trim (x @ ge_text E e) \<noteq> []" "ge_parse E (x @ ge_text E e) = None"
  shows "isl r \<and> e \<in> set (events_of t w') \<and> (\<exists>fs' err. gw_journal t = Some fs' \<and> open_journal E fs' = Inl err)"
proof -
  have s1: "isl r" "gw_journal s1 = Some (fs @ [JtText x])"
    using assms(1,3-7)
    by (auto simp: append_event_def write_journal_def gw_then_def gw_bind_def Let_def torn_def)
  from append_effects(3,4) [OF assms(8)] s1 torn_line_refused [OF assms(2,9,10)]
  show ?thesis by auto
qed

section \<open>The execution kernel\<close>

text \<open>A Work that was begun and not yet moved has an empty event stream, and a kernel that holds one is not
  valid: its checkpoint is refused.\<close>

lemma fresh_work_not_valid:
  assumes "counted_ids k" "xk_counter k < u64_max"
  shows "\<exists>err. kernel_validate (snd (exec_begin e t ss ob p po c sc k)) = Inl err"
proof -
  let ?k = "snd (exec_begin e t ss ob p po c sc k)" and ?w = "fst (exec_begin e t ss ob p po c sc k)"
  have "exec_get ?k (xw_id ?w) = Some ?w \<and> xw_event_stream ?w = []"
    using begin_is_fresh(1) [OF assms] begin_is_fresh(3) [OF assms, where e = e and t = t and s = ss and obj = ob and p = p and po = po and c = c and sc = sc]
    u64_add_small [of "xk_counter k" 1] assms(2)
    by (auto simp: exec_begin_def begin_named_def exec_work_new_def Let_def u64_max_def split: option.splits if_splits)
  then have "(xw_id ?w, ?w) \<in> set (xk_executions ?k)" "entry_error (xw_id ?w, ?w) \<noteq> None"
    by (auto simp: exec_get_def entry_error_def dest: map_of_SomeD)
  then have "kernel_validate ?k \<noteq> Inr ()"
    by (auto simp: kernel_validate_def first_problem_Inr)
  then show ?thesis by (cases "kernel_validate ?k") auto
qed

text \<open>The depth of a request is cut to 32 bits before the limit is checked.\<close>

lemma wide_depth_admitted:
  assumes "get_u64 (kn_json e) params ''depth'' = Some (2 ^ 32)"
  shows "\<exists>v. fst (rpc_begin_subagent e params k) = Inr v"
  using assms
  by (simp add: rpc_begin_subagent_def Let_def as_u32_def begin_subagent_def P64_MAX_SUBAGENT_DEPTH_def st_bind_def
      st_reply_def split: prod.split)

text \<open>A manifest can be bound again: the hash and the manifest of the last call are kept.\<close>

lemma manifest_can_be_rebound:
  "xw_runtime_manifest (snd (bind_manifest e m2 (snd (bind_manifest e m1 w)))) = Some m2 \<and>
   xw_config_hash (snd (bind_manifest e m2 (snd (bind_manifest e m1 w)))) = compute_hash e m2"
  by (simp add: bind_manifest_def Let_def)

text \<open>A move to the phase a Work is already in passes the validation and is refused by the transition.\<close>

lemma validate_accepts_same_phase:
  assumes "exec_get k i = Some w"
  shows "validate_transition k i (xw_state w) = Inr () \<and> (\<exists>err. fst (exec_transition i (xw_state w) k) = Inl err)"
  using assms
  by (cases "xw_state w") (simp_all add: validate_transition_def exec_transition_def on_work_def move_refusal_def
      phase_can_transition_def)

text \<open>The preview of an output of 51201 bytes or more can be longer than the cap it is cut to.\<close>

lemma preview_exceeds_cap:
  assumes "P64_MAX_OUTPUT_BYTES < length out" "char_boundary out P64_MAX_OUTPUT_BYTES"
  shows "P64_MAX_OUTPUT_BYTES < length (fst (truncate_to_50k out))"
proof -
  have "cut_at out P64_MAX_OUTPUT_BYTES = P64_MAX_OUTPUT_BYTES"
    using assms(2) cut_at.simps(2) [of out 51199] by (simp add: P64_MAX_OUTPUT_BYTES_def)
  with assms(1) show ?thesis
    by (simp add: truncate_to_50k_def Let_def truncation_note_def line_feed_def)
qed

text \<open>Without a candidate the checks run in the project root, and with one in a git checkout the first call is
  \<open>git worktree add\<close> on it, which records the worktree in its \<open>.git\<close>.\<close>

lemma preflight_touches_live_root:
  "stage_shadow_tree e live [] = (Inr (live, CleanNone), [])"
  "fs \<noteq> [] \<Longrightarrow> sh_git_dir e live \<Longrightarrow> hd (snd (stage_shadow_tree e live fs)) = FxWorktreeAdd live (sh_temp e)"
  by (auto simp: stage_shadow_tree_def Let_def split: option.split prod.split sum.split)

section \<open>The governor\<close>

text \<open>Below 2 GiB of memory there is no slot for a read-only task: it is queued, and none is ever running.\<close>

lemma no_readonly_slot:
  assumes "memory_gib < 2" "g = run gov_step ops (governor_new (calculate_dynamic_limits cpus memory_gib))"
  shows "gov_active FtReadOnly g = 0"
proof -
  have "admitted gov_step (\<lambda>_ _. True) ops s" for s by (induction ops arbitrary: s) auto
  then have "gov_ok g" unfolding assms by (rule governor_slots.run_inv [OF gov_ok_new])
  moreover have "gov_limit FtReadOnly (run gov_step ops h) = gov_limit FtReadOnly h" for h
    by (induction ops arbitrary: h) (simp_all add: gov_limit_step del: gov_limit.simps)
  then have "gov_limit FtReadOnly g = 0"
    using assms by (simp add: governor_new_def calculate_dynamic_limits_def)
  ultimately show ?thesis unfolding gov_ok_def by (metis le_zero_eq)
qed

section \<open>The computer-use graph\<close>

text \<open>A failed step, a refuted verification and a stop take a verified node out of its status.\<close>

lemma verified_node_demoted:
  "nd_status (snd (apply_delegation_act False n)) \<noteq> CsVerified"
  "nd_status (snd (apply_node_stop reason n)) \<noteq> CsVerified"
  by (auto simp: apply_delegation_act_def apply_node_stop_def delegation_step_def Let_def)

text \<open>A mechanical verification with a reported exit code, or a reported text, reads nothing from the disk: the
  caller's own report marks the node as verified.\<close>

lemma report_counts_as_verification:
  "mev_kind ev = EvCommandExit \<Longrightarrow> mev_exit_code ev = Some 0 \<Longrightarrow> mechanical_verify d claimed ev = MvVerified"
  "mev_kind ev = EvCloseRead \<Longrightarrow> mev_text ev = Some x \<Longrightarrow> mev_expect ev = Some x \<Longrightarrow> length x \<le> 4096 \<Longrightarrow>
     mechanical_verify d claimed ev = MvVerified"
  by (simp_all add: mechanical_verify_def verdict_of_def CLOSE_READ_MAX_def str_contains_sublist)

text \<open>Another harness with the same model is counted as case A.\<close>

lemma same_model_is_case_A: "classify_harness_model_case ''codex'' m ''claude'' m = HmA"
proof -
  have "to_lowercase (str_trim ''codex'') \<noteq> to_lowercase (str_trim ''claude'')" by code_simp
  then show ?thesis by (simp add: classify_harness_model_case_def Let_def)
qed

end
