(* ===== verification/Spec2Isabelle.thy ===== *)
theory Spec2Isabelle
  imports Guard_Properties Lease_Properties Work_Properties Work_Control_Properties Work_Replay_Properties Sched_Properties
    Exec_Properties Exec_Findings
begin

text \<open>
  A verification library for the governed execution path of EveryAIOS, the Rust workspace under
  \<open>src/crates\<close>. A request of an agent passes the guard, which blocks it or mints a ticket; the ticket
  is approved by a human where a floor asks for one and consumed once by the executor; resources are
  held under fenced leases; the Work gateway journals every Run, approval and effect and rebuilds
  its state from the journal after a restart; the scheduler admits the occurrences of automations,
  which compile to that Work; and the execution kernel keeps a record of every Run, rebuilt from the
  same journal, with the calls an agent makes on it: subagents, edits, preflights and computer use.

  \<^bold>\<open>Guard\<close> (\<open>everyaios-guard\<close>, \<open>everyaios-core/src/guard_service.rs\<close>).
  \<^item> \<open>Guard_Types\<close>: risk bands, tiers, resource bindings (\<open>types/lib.rs\<close>, \<open>profiles.rs\<close>, \<open>toctou.rs\<close>).
  \<^item> \<open>Ticket\<close> and \<open>Batch\<close>: the ticket stores, receipts and every store method (\<open>ticket.rs\<close>, \<open>batch.rs\<close>).
  \<^item> \<open>Permissions\<close>, \<open>Autonomy\<close>, \<open>Approval\<close>, \<open>Reviewer\<close>, \<open>Protected\<close>, \<open>Decision\<close>: policy rules and
    presets, the autonomy gradient and human floors, the tool allow-list, the confidence reviewer and the
    loop guard, protected settings, the approval card and the emergency stop.
  \<^item> \<open>Guard_Service\<close> and \<open>Guard_Rpc\<close>: the service state, the pre-flight, consumption, decisions, and the
    JSON-RPC dispatch of the control plane and of the sidecar.
  \<^item> \<open>Guard_Laws\<close>, \<open>Guard_Properties\<close>: a ticket is consumed at most once over all histories of the
    service, what an Allow implies, what a sidecar can never do, what the emergency stop freezes.

  \<^bold>\<open>Leases\<close> (\<open>everyaios-types/src/workbench.rs\<close>, \<open>everyaios-core/src/workbench.rs\<close>).
  \<^item> \<open>Lease_Types\<close>, \<open>Lease_Coordinator\<close>: the vocabulary and the coordinator with every operation.
  \<^item> \<open>Lease_Laws\<close>, \<open>Lease_Properties\<close>: each operation is a sequence of primitive moves; exclusive
    custody, monotone fences, takeover, recovery and the rebuild from durable facts.

  \<^bold>\<open>Work gateway\<close> (\<open>everyaios-core/src/work_gateway.rs\<close>, with the records of \<open>everyaios-types\<close>).
  \<^item> \<open>Work_Types\<close>: lifecycle states and edges, waits, change sets (\<open>turn_snapshot.rs\<close>), delegation facts
    (\<open>delegation.rs\<close>). \<open>Work_Events\<close>: addresses, provenance, events and records. \<open>Work_State\<close>: the state
    \<open>WorkGateway\<close> and the projection of an event on it.
  \<^item> \<open>Work_Journal\<close>: \<open>append\<close>, replay of one event, the graph check and \<open>open\<close>. The file is the text written to
    it, in pieces: records with their newline, and text without one, which a write that failed midway
    leaves and which runs on into what is written next; \<open>open\<close> reads it line by line.
  \<^item> \<open>Work_Runtime\<close> (terminals, worktrees, agent sessions, bindings), \<open>Work_Gateway\<close> (Works, Runs,
    approvals, effects), \<open>Work_Delegation\<close> (children, walks, heartbeats, reclaim), \<open>Work_Control\<close>
    (clients, nodes, authorities, manifests, capabilities).
  \<^item> \<open>Work_Moves\<close>, \<open>Work_Calls\<close>: the step relation \<open>gw_call\<close> with one rule per public method that changes
    the state, and the proof that each call is a sequence of primitive changes; \<open>Work_Laws\<close> proves each law
    for the primitive changes and lifts it by interpretation; \<open>Work_Opening\<close> shows that an opened
    gateway satisfies them; \<open>Work_Append\<close> and \<open>Work_Graph\<close> describe one append and the parent graph.
  \<^item> \<open>Work_Replay\<close>, \<open>Work_Rebuild\<close>, \<open>Work_Replay_Properties\<close>: the journal as a refinement of the running state;
    after any sequence of journalled calls, opening the journal again gives back the durable state.
  \<^item> \<open>Work_Properties\<close>, \<open>Work_Control_Properties\<close>: the lifecycle and the approval gate over every history,
    the contract of append and of transitions, durability and numbering of the log, one active binding
    per Session, fencing tokens, exact depth walks and safe delegation, manifests, terminals.

  \<^bold>\<open>Scheduler\<close> (\<open>everyaios-core/src/scheduler_service.rs\<close> and \<open>automation_runtime.rs\<close>,
  \<open>everyaios-blueprint/src/automation.rs\<close>).
  \<^item> \<open>Sched_Types\<close>: the cron parser, the civil date, triggers, policies and \<open>compute_next_run\<close>.
    \<open>Sched_Calendar\<close> and \<open>Sched_Time\<close> compare them with a calendar that counts days.
  \<^item> \<open>Sched_Json\<close>: JSON values, the canonical text that is hashed, automations, revision ids and
    \<open>compile_work\<close>. \<open>Sched_State\<close>: jobs, occurrences, receipts, the service and their serialization.
  \<^item> \<open>Sched_Valid\<close> (identities, keys, validations, migration of rows), \<open>Sched_Store\<close> (the state file, loading,
    commit or restore), \<open>Sched_Ops\<close> (every public method), \<open>Sched_Rpc\<close> (the dispatch).
  \<^item> \<open>Sched_Laws\<close>, \<open>Sched_Jobs\<close>, \<open>Sched_Frame\<close>: the alphabet \<open>SchedOp\<close> of calls, with the wrappers that cannot
    report an error and poison the service instead, and for each call what it may do to the occurrences,
    the jobs and the host fields; \<open>Sched_Identity\<close> (digests and ids),
    \<open>Sched_Reopen\<close> (loading what was written), \<open>Sched_Properties\<close> (validity, idempotent delivery,
    advancement, compilation, restart, poisoned files).

  \<^bold>\<open>Execution kernel\<close> (\<open>everyaios-core/src/execution.rs\<close>, \<open>governor.rs\<close>, \<open>cua.rs\<close>, \<open>multirun.rs\<close>,
  \<open>worktrees.rs\<close>).
  \<^item> \<open>Exec_Types\<close>: phases and their edges, manifests, pending approvals, the record \<open>ExecWork\<close> (the struct
    \<open>Work\<close>) and the kernel. \<open>Exec_Kernel\<close>: begin, transition, approvals, manifests, receipts, validation, the
    checkpoint file and its cache, subagents. \<open>Exec_Preflight\<close>: candidate files, the staged shadow tree, the
    checks and the receipt of a preflight, which returns the trace of what it asks of the operating system.
  \<^item> \<open>Exec_Recover\<close>: the kernel rebuilt from the Work gateway, event by event (\<open>recover_one_run\<close>).
  \<^item> \<open>Governor\<close>: admission, queue and completion of fleet tasks. \<open>Cua\<close>: the dependency graph of computer
    use, the worker step, mechanical verification and replanning. \<open>Multirun\<close>: fan-out, reduction of
    outcomes, walkthrough of a diff. \<open>Text_Render\<close>: the text functions they share.
  \<^item> \<open>Exec_Rpc\<close>, \<open>Cua_Rpc\<close>: one definition per arm of \<open>ExecutionKernel::handle\<close>, and the dispatcher
    \<open>exec_handle\<close> on the kernel and the disk that holds the graphs.
  \<^item> \<open>Phase_Graph\<close>, \<open>Exec_Laws\<close>: the primitive steps of the kernel and what each keeps; \<open>Exec_Calls\<close>: every call
    is a sequence of them; \<open>Cua_Laws\<close>: what every call may do to a stored graph; \<open>Exec_Runs\<close>: both over
    sequences of calls; \<open>Exec_Journal\<close>: what the recovery reads in the logs of an opened gateway.
  \<^item> \<open>Exec_Properties\<close>: legal histories, frozen terminal records, fresh ids, agreement of the recovery with
    the gateway, the scope of subagents, what a passing preflight ran and where, slots and queue of the
    governor, what can mark a node as verified. \<open>Exec_Findings\<close>: where the kernel and the journal of the
    gateway differ from their comments and tests.

  \<^bold>\<open>Interfaces.\<close> \<open>Traces\<close> and \<open>Reachability\<close> hold the locales for sequences of calls (preorders,
  append-only logs, invariants, consumable stores); \<open>Json_Access\<close> the laws of JSON objects; each is
  interpreted on the definitions above. \<open>Prelude\<close> and \<open>Ordered_Map\<close> hold the standard-library
  operations and the generic lemmas.

  \<^bold>\<open>Conventions.\<close> A method on \<open>&mut self\<close> returns its result and the state it leaves behind, also when it
  fails. Errors are the strings or enums of the code. A hash map is an association list with unique
  keys; where the code iterates over one, the model fixes the order of insertion. One clock reading is
  taken per call. SHA-256, serde serialization, random bytes and the outcome of file writes are parameters.
  Strings are their UTF-8 bytes.

  \<^bold>\<open>Bounds.\<close> Ticket, lease and fencing counters are natural numbers: a \<open>u64\<close> that starts at zero and is
  incremented once per call is not exhausted. The journal sequence, whose first value comes from a
  file, keeps its \<open>checked_add\<close>. Expiry times, which a caller chooses, saturate or wrap as in the code.
  The walks over parent links carry the bound of the code (the number of Works); \<open>work_depth_exact\<close> shows that the
  bound never cuts a walk short. The search for the next cron minute carries the bound of the code, 527040 minutes;
  \<open>leap_day_schedule_lost\<close> shows a schedule for which that is too short. No definition needs fuel that is not
  in the code.

  \<^bold>\<open>Not modelled.\<close> The RPC table of the gateway (\<open>handle_rpc\<close>), which only decodes JSON into the modelled
  calls; the regular-expression scanners of the guard; the operating-system brokers; and the crates that
  drive browsers, documents, model providers, databases and processes. The manifest lists each with its
  reason. Threads are not modelled: gateway, coordinator and guard are each behind one lock, and a
  history is a sequence of calls. In the scheduler the text of the state file is decoded by serde: the file
  holds the parsed document and the decoders are parameters, with the law that they read back what was
  written where a restart is claimed. In the journal of the gateway a record that stands alone on its line is
  read back as written; every other line goes through the decoder, a parameter. In a preflight, what git and
  the check commands write, and where a write lands when its path leads through a symbolic link, is outside
  the model. The stored graphs are keyed by the directory that a path argument resolves to. In the execution kernel the clock, SHA-256, the serde decoders,
  the division of doubles, the outcomes of file operations, git and check processes, and the blueprint
  store of skills are parameters; committing a workspace snapshot to git, the tracked spawn of a check
  and the repair and fork projections of a message history are not modelled. The counter of the kernel is a
  \<open>u64\<close> that wraps, so freshness of ids is claimed below its end.
\<close>

end
